(* ===== verification/Prelude.thy ===== *)
theory Prelude
  imports Main "HOL-Library.Word" "HOL-Library.Sublist"
begin

text \<open>
  What the components share: the names of the program's basic types, the collections of
  facts the component theories fill, and lemmas on lists, options and associations that
  no single component owns.

  Conventions. A \<open>gchar *\<close> that the code never passes as NULL is a \<open>string\<close>; one that
  may be NULL is a \<open>string option\<close> (\<open>None\<close> is NULL). A \<open>gint\<close> or \<open>guint\<close> is a 32-bit
  word, read with \<open>sint\<close> or \<open>unat\<close>. A \<open>gboolean\<close> is a \<open>bool\<close>. Freeing memory, TRACE_CALL
  and the debug log change no state that any operation reads, so they have no counterpart.
\<close>

unbundle bit_operations_syntax

type_synonym gint = "32 word"
type_synonym guint = "32 word"
type_synonym cstr = "string option"

text \<open>The regular files, by path name.\<close>

type_synonym files = "string \<rightharpoonup> string"

named_theorems laws "what an operation of a component promises about a later read"
named_theorems frame "what an operation of a component leaves alone"
named_theorems inv "operations that keep a component's invariant"

section \<open>NULL and empty strings\<close>

text \<open>The test \<open>!s || s[0] == '\0'\<close> that most entry points start with.\<close>

definition is_empty :: "cstr \<Rightarrow> bool" where
  "is_empty s \<longleftrightarrow> (case s of None \<Rightarrow> True | Some t \<Rightarrow> t = [])"

lemma is_empty_simps [simp]:
  "is_empty None" "is_empty (Some t) \<longleftrightarrow> t = []"
  by (simp_all add: is_empty_def)

lemma not_is_empty_iff: "\<not> is_empty s \<longleftrightarrow> (\<exists>t. s = Some t \<and> t \<noteq> [])"
  by (cases s) simp_all

text \<open>\<open>g_file_set_contents\<close> replaces the file, or leaves it alone and fails.\<close>

definition file_set_contents :: "(string \<Rightarrow> bool) \<Rightarrow> files \<Rightarrow> string \<Rightarrow> string \<Rightarrow> bool \<times> files" where
  "file_set_contents ok fs path data = (if ok path then (True, fs(path \<mapsto> data)) else (False, fs))"

section \<open>Calls that may not return\<close>

text \<open>
  The result of a call in which the code can dereference NULL or abort with \<open>g_error\<close>.
\<close>

datatype 'a c_result = Crash | Ret 'a

fun c_bind :: "'a c_result \<Rightarrow> ('a \<Rightarrow> 'b c_result) \<Rightarrow> 'b c_result" where
  "c_bind Crash f = Crash"
| "c_bind (Ret x) f = f x"

lemma c_bind_Ret_iff: "c_bind r f = Ret y \<longleftrightarrow> (\<exists>x. r = Ret x \<and> f x = Ret y)"
  by (cases r) simp_all

section \<open>Lists\<close>

lemma takeWhile_drop_nth:
  assumes "c \<in> set s"
  shows "s = takeWhile (\<lambda>x. x \<noteq> c) s @ c # tl (dropWhile (\<lambda>x. x \<noteq> c) s)"
proof -
  have "dropWhile (\<lambda>x. x \<noteq> c) s \<noteq> []"
    using assms by (simp add: dropWhile_eq_Nil_conv)
  then have "hd (dropWhile (\<lambda>x. x \<noteq> c) s) = c"
    using hd_dropWhile by blast
  with \<open>dropWhile (\<lambda>x. x \<noteq> c) s \<noteq> []\<close>
  have "c # tl (dropWhile (\<lambda>x. x \<noteq> c) s) = dropWhile (\<lambda>x. x \<noteq> c) s"
    by (metis list.collapse)
  then show ?thesis by simp
qed

lemma takeWhile_neq_append [simp]: "c \<notin> set w \<Longrightarrow> takeWhile (\<lambda>x. x \<noteq> c) (w @ c # t) = w"
  by (induction w) auto

lemma dropWhile_neq_append [simp]: "c \<notin> set w \<Longrightarrow> dropWhile (\<lambda>x. x \<noteq> c) (w @ c # t) = c # t"
  by (induction w) auto

lemma filter_neq_id: "x \<notin> set xs \<Longrightarrow> filter (\<lambda>y. y \<noteq> x) xs = xs"
  by (induction xs) auto

lemma butlast_drop_nonempty: "xs \<noteq> [] \<Longrightarrow> length (drop 1 xs) < length xs"
  by (cases xs) auto

text \<open>The index a search loop stops at.\<close>

fun first_index :: "('a \<Rightarrow> bool) \<Rightarrow> 'a list \<Rightarrow> nat option" where
  "first_index P [] = None"
| "first_index P (x # xs) = (if P x then Some 0 else map_option Suc (first_index P xs))"

lemma first_index_SomeD: "first_index P xs = Some i \<Longrightarrow> i < length xs \<and> P (xs ! i) \<and> (\<forall>j < i. \<not> P (xs ! j))"
proof (induction xs arbitrary: i)
  case (Cons x xs)
  then show ?case by (auto simp: nth_Cons split: if_splits nat.splits)
qed simp

lemma first_index_None_iff: "first_index P xs = None \<longleftrightarrow> (\<forall>x \<in> set xs. \<not> P x)"
  by (induction xs) auto

section \<open>Words\<close>

lemma sint_gint_range: "- (2 ^ 31) \<le> sint (w :: gint)" "sint (w :: gint) < 2 ^ 31"
  using sint_greater_eq [of w] sint_less [of w] by simp_all

end
