(* ===== verification/CString.thy ===== *)
theory CString
  imports Prelude
begin

text \<open>
  The functions of the C standard library the modelled code calls on strings: \<open>strchr\<close>,
  \<open>strstr\<close>, \<open>strrchr\<close>, \<open>strncmp\<close>, \<open>atoi\<close>, \<open>sscanf\<close> with \<open>%d\<close> and \<open>%x\<close>, and \<open>printf\<close>
  with \<open>%i\<close>. A C string is its list of characters up to the terminating NUL.
\<close>

text \<open>A buffer read as a C string ends at its first NUL.\<close>

abbreviation NUL :: char where
  "NUL \<equiv> CHR 0x00"

definition c_string :: "string \<Rightarrow> string" where
  "c_string buf = takeWhile (\<lambda>c. c \<noteq> NUL) buf"

section \<open>Splitting at a character\<close>

text \<open>
  The idiom \<open>p2 = strchr(p, c); if (p2) *p2++ = '\0';\<close>: the text before the first \<open>c\<close>, and
  what \<open>p2\<close> points to afterwards.
\<close>

definition split_at :: "char \<Rightarrow> string \<Rightarrow> string \<times> cstr" where
  "split_at c s =
     (if c \<in> set s then (takeWhile (\<lambda>x. x \<noteq> c) s, Some (tl (dropWhile (\<lambda>x. x \<noteq> c) s)))
      else (s, None))"

lemma split_at_None: "split_at c s = (w, None) \<longleftrightarrow> c \<notin> set s \<and> w = s"
  by (auto simp: split_at_def)

lemma split_at_Some:
  "split_at c s = (w, Some r) \<Longrightarrow> s = w @ c # r \<and> c \<notin> set w"
  by (auto simp: split_at_def dest: takeWhile_drop_nth set_takeWhileD split: if_splits)

lemma split_at_append:
  assumes "c \<notin> set w"
  shows "split_at c (w @ c # r) = (w, Some r)"
  using assms by (simp add: split_at_def)

lemma split_at_length: "split_at c s = (w, Some r) \<Longrightarrow> length r < length s"
  by (auto dest: split_at_Some)

section \<open>Searching\<close>

text \<open>\<open>strstr\<close>, as the offset of the first occurrence.\<close>

fun strstr :: "string \<Rightarrow> string \<Rightarrow> nat option" where
  "strstr [] n = (if n = [] then Some 0 else None)"
| "strstr (c # h) n = (if prefix n (c # h) then Some 0 else map_option Suc (strstr h n))"

lemma strstr_SomeD:
  "strstr h n = Some i \<Longrightarrow> i + length n \<le> length h \<and> take (length n) (drop i h) = n"
proof (induction h n arbitrary: i rule: strstr.induct)
  case (1 n)
  then show ?case by (simp split: if_splits)
next
  case (2 c h n)
  show ?case
  proof (cases "prefix n (c # h)")
    case True
    with "2.prems" have "i = 0" by simp
    moreover have "length n \<le> length (c # h)" using True by (rule prefix_length_le)
    moreover have "take (length n) (c # h) = n" using True by (metis take_is_prefix prefix_def append_eq_conv_conj)
    ultimately show ?thesis by simp
  next
    case False
    with "2.prems" obtain j where "strstr h n = Some j" "i = Suc j" by auto
    with "2.IH" [OF False] show ?thesis by simp
  qed
qed

lemma strstr_first: "strstr h n = Some i \<Longrightarrow> j < i \<Longrightarrow> \<not> prefix n (drop j h)"
proof (induction h n arbitrary: i j rule: strstr.induct)
  case (1 n)
  then show ?case by (simp split: if_splits)
next
  case (2 c h n)
  show ?case
  proof (cases "prefix n (c # h)")
    case True
    with "2.prems" show ?thesis by simp
  next
    case False
    with "2.prems" obtain k where "strstr h n = Some k" "i = Suc k" by auto
    with "2.IH" [OF False] "2.prems"(2) False show ?thesis by (cases j) auto
  qed
qed

lemma strstr_NoneD: "strstr h n = None \<Longrightarrow> \<not> prefix n (drop j h)"
proof (induction h n arbitrary: j rule: strstr.induct)
  case (1 n)
  then show ?case by (simp split: if_splits)
next
  case (2 c h n)
  have np: "\<not> prefix n (c # h)" using "2.prems" by (simp split: if_splits)
  then have "strstr h n = None" using "2.prems" by simp
  with "2.IH" [OF np] np show ?case by (cases j) auto
qed

lemma strstr_Some_iff: "(\<exists>i. strstr h n = Some i) \<longleftrightarrow> sublist n h"
proof
  assume "\<exists>i. strstr h n = Some i"
  then obtain i where i: "strstr h n = Some i" ..
  have "h = take i h @ n @ drop (length n) (drop i h)"
    using strstr_SomeD [OF i] by (metis append_take_drop_id)
  then show "sublist n h" unfolding sublist_def by blast
next
  assume "sublist n h"
  then obtain a b where ab: "h = a @ n @ b" by (auto simp: sublist_def)
  show "\<exists>i. strstr h n = Some i"
  proof (rule ccontr)
    assume "\<nexists>i. strstr h n = Some i"
    then have "strstr h n = None" by (cases "strstr h n") auto
    then have "\<not> prefix n (drop (length a) h)" by (rule strstr_NoneD)
    with ab show False by simp
  qed
qed

text \<open>\<open>%s\<close> in the quotation marks of a message; NULL is printed as a word.\<close>

definition curly_quoted :: "cstr \<Rightarrow> string" where
  "curly_quoted v = [CHR 0xE2, CHR 0x80, CHR 0x9C] @ (case v of None \<Rightarrow> ''(null)'' | Some t \<Rightarrow> t) @ [CHR 0xE2, CHR 0x80, CHR 0x9D]"

text \<open>\<open>strrchr\<close>: what follows the last \<open>c\<close> and what precedes it.\<close>

definition rsplit_at :: "char \<Rightarrow> string \<Rightarrow> (string \<times> string) option" where
  "rsplit_at c s =
     (if c \<in> set s
      then Some (rev (tl (dropWhile (\<lambda>x. x \<noteq> c) (rev s))), rev (takeWhile (\<lambda>x. x \<noteq> c) (rev s)))
      else None)"

lemma rsplit_at_Some: "rsplit_at c s = Some (a, b) \<Longrightarrow> s = a @ c # b \<and> c \<notin> set b"
proof -
  assume h: "rsplit_at c s = Some (a, b)"
  then have c: "c \<in> set (rev s)" and ab: "a = rev (tl (dropWhile (\<lambda>x. x \<noteq> c) (rev s)))"
    "b = rev (takeWhile (\<lambda>x. x \<noteq> c) (rev s))"
    by (auto simp: rsplit_at_def split: if_splits)
  have "rev s = rev b @ c # rev a"
    using takeWhile_drop_nth [OF c] ab by simp
  then have "rev (rev s) = rev (rev b @ c # rev a)" by (rule arg_cong)
  moreover have "c \<notin> set b" using ab by (auto dest: set_takeWhileD)
  ultimately show ?thesis by simp
qed

text \<open>\<open>g_strrstr\<close>: the offset of the last occurrence of a string.\<close>

fun strrstr :: "string \<Rightarrow> string \<Rightarrow> nat option" where
  "strrstr [] n = (if n = [] then Some 0 else None)"
| "strrstr (c # h) n =
     (case strrstr h n of
        Some i \<Rightarrow> Some (Suc i)
      | None \<Rightarrow> if prefix n (c # h) then Some 0 else None)"

lemma strrstr_SomeD: "strrstr h n = Some i \<Longrightarrow> i + length n \<le> length h \<and> prefix n (drop i h)"
proof (induction h n arbitrary: i rule: strrstr.induct)
  case (1 n)
  then show ?case by (simp split: if_splits)
next
  case (2 c h n)
  then show ?case
    by (auto split: option.splits if_splits dest: prefix_length_le)
qed

section \<open>Decimal numbers\<close>

definition isspace :: "char \<Rightarrow> bool" where
  "isspace c \<longleftrightarrow> c = CHR '' '' \<or> (9 \<le> (of_char c :: nat) \<and> (of_char c :: nat) \<le> 13)"

definition isdigit :: "char \<Rightarrow> bool" where
  "isdigit c \<longleftrightarrow> 48 \<le> (of_char c :: nat) \<and> (of_char c :: nat) \<le> 57"

definition digit_val :: "char \<Rightarrow> nat" where
  "digit_val c = of_char c - 48"

fun digits_val :: "nat \<Rightarrow> string \<Rightarrow> nat" where
  "digits_val a [] = a"
| "digits_val a (c # s) = digits_val (10 * a + digit_val c) s"

text \<open>
  The text \<open>%d\<close> and \<open>strtol\<close> accept: white space, an optional sign, digits. The result is
  the value read (\<open>None\<close> without a digit) and the rest of the string.
\<close>

definition scan_sign :: "string \<Rightarrow> bool \<times> string" where
  "scan_sign s = (case s of c # r \<Rightarrow> if c = CHR ''-'' then (True, r)
                                     else if c = CHR ''+'' then (False, r) else (False, s)
                          | [] \<Rightarrow> (False, []))"

definition scan_dec :: "string \<Rightarrow> (int \<times> string) option" where
  "scan_dec s =
     (let (neg, t) = scan_sign (dropWhile isspace s); ds = takeWhile isdigit t
      in if ds = [] then None
         else Some ((if neg then - int (digits_val 0 ds) else int (digits_val 0 ds)),
                    dropWhile isdigit t))"

text \<open>\<open>strtol\<close> saturates at the bounds of \<open>long\<close>; the conversion to \<open>int\<close> drops the high bits.\<close>

definition long_to_gint :: "int \<Rightarrow> gint" where
  "long_to_gint v = word_of_int (max (- (2 ^ 63)) (min (2 ^ 63 - 1) v))"

definition atoi :: "string \<Rightarrow> gint" where
  "atoi s = (case scan_dec s of None \<Rightarrow> 0 | Some (v, _) \<Rightarrow> long_to_gint v)"

text \<open>\<open>sscanf(s, "%dx%d", &w, &h)\<close> when it returns 2.\<close>

definition sscanf_d_x_d :: "string \<Rightarrow> (gint \<times> gint) option" where
  "sscanf_d_x_d s =
     (case scan_dec s of
        Some (w, c # r) \<Rightarrow>
          if c = CHR ''x'' then
            (case scan_dec r of Some (h, _) \<Rightarrow> Some (long_to_gint w, long_to_gint h) | None \<Rightarrow> None)
          else None
      | _ \<Rightarrow> None)"

text \<open>\<open>printf\<close> with \<open>%i\<close>.\<close>

definition digit_char :: "nat \<Rightarrow> char" where
  "digit_char d = char_of (48 + d)"

fun show_nat :: "nat \<Rightarrow> string" where
  "show_nat n = (if n < 10 then [digit_char n] else show_nat (n div 10) @ [digit_char (n mod 10)])"

declare show_nat.simps [simp del]

definition show_int :: "int \<Rightarrow> string" where
  "show_int i = (if i < 0 then CHR ''-'' # show_nat (nat (- i)) else show_nat (nat i))"

definition show_gint :: "gint \<Rightarrow> string" where
  "show_gint w = show_int (sint w)"

lemma of_digit_char: "d < 10 \<Longrightarrow> of_char (digit_char d) = 48 + d"
  by (simp add: digit_char_def)

lemma isdigit_digit_char: "d < 10 \<Longrightarrow> isdigit (digit_char d)"
  by (simp add: isdigit_def of_digit_char)

lemma digit_val_digit_char: "d < 10 \<Longrightarrow> digit_val (digit_char d) = d"
  by (simp add: digit_val_def of_digit_char)

lemma show_nat_ne [simp]: "show_nat n \<noteq> []"
  by (subst show_nat.simps) simp

lemma show_nat_digits: "\<forall>c \<in> set (show_nat n). isdigit c"
proof (induction n rule: show_nat.induct)
  case (1 n)
  show ?case
    using "1.IH" by (subst show_nat.simps) (auto simp: isdigit_digit_char)
qed

lemma digits_val_append: "digits_val a (xs @ ys) = digits_val (digits_val a xs) ys"
  by (induction xs arbitrary: a) simp_all

lemma digits_val_show_nat: "digits_val 0 (show_nat n) = n"
proof (induction n rule: show_nat.induct)
  case (1 n)
  show ?case
  proof (cases "n < 10")
    case True
    then show ?thesis by (subst show_nat.simps) (simp add: digit_val_digit_char)
  next
    case False
    then have "show_nat n = show_nat (n div 10) @ [digit_char (n mod 10)]"
      by (subst show_nat.simps) simp
    then have "digits_val 0 (show_nat n) = 10 * (n div 10) + n mod 10"
      using "1.IH" [OF False] by (simp add: digits_val_append digit_val_digit_char)
    then show ?thesis by simp
  qed
qed

lemma isdigit_not_space: "isdigit c \<Longrightarrow> \<not> isspace c"
  by (auto simp: isdigit_def isspace_def)

lemma isdigit_not_sign: "isdigit c \<Longrightarrow> c \<noteq> CHR ''-'' \<and> c \<noteq> CHR ''+''"
  by (auto simp: isdigit_def)

lemma scan_dec_show_int:
  assumes r: "case r of [] \<Rightarrow> True | c # _ \<Rightarrow> \<not> isdigit c"
  shows "scan_dec (show_int i @ r) = Some (i, r)"
proof -
  have tw: "takeWhile isdigit (show_nat n @ r) = show_nat n"
    and dw: "dropWhile isdigit (show_nat n @ r) = r" for n
    using r show_nat_digits [of n]
    by (cases r; simp add: takeWhile_append2 dropWhile_append2)+
  have hd: "isdigit (hd (show_nat n))" for n
    using show_nat_digits [of n] by simp
  have sp: "dropWhile isspace (show_nat n @ r) = show_nat n @ r" for n
    using hd [of n] by (cases "show_nat n") (auto dest: isdigit_not_space)
  have sg: "scan_sign (show_nat n @ r) = (False, show_nat n @ r)" for n
    using hd [of n] by (cases "show_nat n") (auto simp: scan_sign_def dest: isdigit_not_sign)
  show ?thesis
  proof (cases "i < 0")
    case True
    have "\<not> isspace CHR ''-''" by (simp add: isspace_def)
    with True show ?thesis
      by (simp add: scan_dec_def show_int_def scan_sign_def tw dw digits_val_show_nat)
  next
    case False
    then show ?thesis
      by (simp add: scan_dec_def show_int_def sp sg tw dw digits_val_show_nat)
  qed
qed

lemma long_to_gint_sint [simp]: "long_to_gint (sint w) = w"
  using sint_gint_range [of w] by (simp add: long_to_gint_def max_def min_def)

lemma atoi_show_gint [simp]: "atoi (show_gint w) = w"
  using scan_dec_show_int [of "[]" "sint w"] by (simp add: atoi_def show_gint_def)

lemma show_int_ne [simp]: "show_int i \<noteq> []"
  by (simp add: show_int_def)

lemma hd_show_int: "isdigit (hd (show_int i)) \<or> hd (show_int i) = CHR ''-''"
proof (cases "i < 0")
  case True
  then show ?thesis by (simp add: show_int_def)
next
  case False
  have "isdigit (hd (show_nat (nat i)))"
    using show_nat_digits [of "nat i"] by simp
  with False show ?thesis by (simp add: show_int_def)
qed

section \<open>Hexadecimal numbers\<close>

text \<open>\<open>sscanf(s, "%x", &k)\<close> when it returns 1: the conversion is that of \<open>strtoul\<close>.\<close>

definition isxdigit :: "char \<Rightarrow> bool" where
  "isxdigit c \<longleftrightarrow> c \<in> set ''0123456789abcdefABCDEF''"

definition xdigit_val :: "char \<Rightarrow> nat" where
  "xdigit_val c =
     (if isdigit c then digit_val c
      else if 97 \<le> (of_char c :: nat) then of_char c - 87 else of_char c - 55)"

fun xdigits_val :: "nat \<Rightarrow> string \<Rightarrow> nat" where
  "xdigits_val a [] = a"
| "xdigits_val a (c # s) = xdigits_val (16 * a + xdigit_val c) s"

definition sscanf_x :: "string \<Rightarrow> guint option" where
  "sscanf_x s =
     (let (neg, t) = scan_sign (dropWhile isspace s);
          t = (if prefix ''0x'' t \<or> prefix ''0X'' t then drop 2 t else t);
          ds = takeWhile isxdigit t;
          v = min (xdigits_val 0 ds) (2 ^ 64 - 1)
      in if ds = [] then None else Some (word_of_int (if neg then - int v else int v)))"

end
