(* ===== verification/GLib.thy ===== *)
theory GLib
  imports CString
begin

text \<open>
  The string and container functions of GLib that the modelled code calls, by their
  documented meaning: \<open>g_strsplit\<close>, \<open>g_strjoinv\<close>, the editing functions of GString and
  \<open>g_ptr_array_remove_index\<close>. A GString and a \<open>gchar **\<close> are lists, a GPtrArray or GArray is
  a list, a GHashTable is a map. A GLib service whose result depends on more than its
  arguments' text (key files, base64, JSON, the file system) is a parameter of the
  definitions that use it.
\<close>

section \<open>Splitting and joining\<close>

function strsplit_from :: "string \<Rightarrow> string \<Rightarrow> string list" where
  "strsplit_from d s =
     (case strstr s d of
        None \<Rightarrow> [s]
      | Some i \<Rightarrow> if d = [] then [s]
                  else take i s # strsplit_from d (drop (i + length d) s))"
  by pat_completeness auto
termination
proof (relation "measure (\<lambda>(d, s). length s)")
  fix d s :: string and i
  assume "strstr s d = Some i" and "d \<noteq> []"
  then show "((d, drop (i + length d) s), (d, s)) \<in> measure (\<lambda>(d, s). length s)"
    using strstr_SomeD [of s d i] by (cases d) auto
qed simp

declare strsplit_from.simps [simp del]

definition g_strsplit :: "string \<Rightarrow> string \<Rightarrow> string list" where
  "g_strsplit s d = (if s = [] then [] else strsplit_from d s)"

fun g_strjoinv :: "string \<Rightarrow> string list \<Rightarrow> string" where
  "g_strjoinv d [] = []"
| "g_strjoinv d [x] = x"
| "g_strjoinv d (x # y # xs) = x @ d @ g_strjoinv d (y # xs)"

lemma strsplit_from_ne [simp]: "strsplit_from d s \<noteq> []"
  by (subst strsplit_from.simps) (auto split: option.splits)

lemma g_strjoinv_Cons: "xs \<noteq> [] \<Longrightarrow> g_strjoinv d (x # xs) = x @ d @ g_strjoinv d xs"
  by (cases xs) simp_all

lemma strjoinv_snoc_ne: "x \<noteq> [] \<Longrightarrow> g_strjoinv d (xs @ [x]) \<noteq> []"
  by (induction xs) (simp_all add: g_strjoinv_Cons)

lemma strjoinv_strsplit_from: "g_strjoinv d (strsplit_from d s) = s"
proof (induction d s rule: strsplit_from.induct)
  case (1 d s)
  show ?case
  proof (cases "strstr s d")
    case None
    then show ?thesis by (subst strsplit_from.simps) simp
  next
    case (Some i)
    show ?thesis
    proof (cases "d = []")
      case True
      then show ?thesis using Some by (subst strsplit_from.simps) simp
    next
      case False
      have IH: "g_strjoinv d (strsplit_from d (drop (i + length d) s)) = drop (i + length d) s"
        using "1.IH" [OF Some False] .
      have "s = take i s @ d @ drop (i + length d) s"
        using strstr_SomeD [OF Some]
        by (metis add.commute append_take_drop_id drop_drop)
      moreover have "strsplit_from d s = take i s # strsplit_from d (drop (i + length d) s)"
        using Some False by (subst strsplit_from.simps) simp
      ultimately show ?thesis using IH by (simp add: g_strjoinv_Cons)
    qed
  qed
qed

lemma strjoinv_strsplit [simp]: "g_strjoinv d (g_strsplit s d) = s"
  by (simp add: g_strsplit_def strjoinv_strsplit_from)

text \<open>Splitting at a single character, the way the \<open>strchr\<close> loops of the program do it.\<close>

lemma strstr_char:
  "strstr s [c] = (if c \<in> set s then Some (length (takeWhile (\<lambda>x. x \<noteq> c) s)) else None)"
  by (induction s) auto

lemma strsplit_from_char:
  "strsplit_from [c] s =
     (case split_at c s of (w, None) \<Rightarrow> [w] | (w, Some r) \<Rightarrow> w # strsplit_from [c] r)"
proof (cases "c \<in> set s")
  case True
  let ?w = "takeWhile (\<lambda>x. x \<noteq> c) s" and ?r = "tl (dropWhile (\<lambda>x. x \<noteq> c) s)"
  have s: "s = ?w @ c # ?r" using True by (rule takeWhile_drop_nth)
  have "take (length ?w) s = ?w" "drop (Suc (length ?w)) s = ?r"
    by (subst s, simp)+
  with True show ?thesis
    by (subst strsplit_from.simps) (simp add: strstr_char split_at_def)
next
  case False
  then show ?thesis by (subst strsplit_from.simps) (simp add: strstr_char split_at_def)
qed

lemma strsplit_from_char_join:
  assumes "\<forall>x \<in> set xs. c \<notin> set x" and "xs \<noteq> []"
  shows "strsplit_from [c] (g_strjoinv [c] xs) = xs"
  using assms
proof (induction xs)
  case Nil
  then show ?case by simp
next
  case (Cons x xs)
  show ?case
  proof (cases xs)
    case Nil
    with Cons.prems show ?thesis
      by (subst strsplit_from_char) (simp add: split_at_def)
  next
    case (Cons y ys)
    with Cons.prems have "split_at c (g_strjoinv [c] (x # xs)) = (x, Some (g_strjoinv [c] xs))"
      by (simp add: split_at_append)
    with Cons Cons.IH Cons.prems show ?thesis
      by (subst strsplit_from_char) simp
  qed
qed

lemma strsplit_from_char_notin: "\<forall>x \<in> set (strsplit_from [c] s). c \<notin> set x"
proof (induction "[c]" s rule: strsplit_from.induct)
  case (1 s)
  obtain w r where sp: "split_at c s = (w, r)" by force
  show ?case
  proof (cases r)
    case None
    with sp have "c \<notin> set w" by (simp add: split_at_None)
    moreover have "strsplit_from [c] s = [w]"
      using sp None by (subst strsplit_from_char) simp
    ultimately show ?thesis by simp
  next
    case (Some t)
    have st: "s = w @ c # t" "c \<notin> set w" using sp Some by (simp_all add: split_at_Some)
    then have "strstr s [c] = Some (length w)"
      by (simp add: strstr_char)
    from "1.hyps" [OF this] st have "\<forall>x \<in> set (strsplit_from [c] t). c \<notin> set x" by simp
    moreover have "strsplit_from [c] s = w # strsplit_from [c] t"
      using sp Some by (subst strsplit_from_char) simp
    ultimately show ?thesis using st by simp
  qed
qed

section \<open>GString\<close>

definition g_string_erase :: "string \<Rightarrow> int \<Rightarrow> int \<Rightarrow> string" where
  "g_string_erase s pos len =
     (if pos < 0 \<or> int (length s) < pos then s
      else if len < 0 then take (nat pos) s
      else if int (length s) < pos + len then s
      else take (nat pos) s @ drop (nat (pos + len)) s)"

definition g_string_insert :: "string \<Rightarrow> int \<Rightarrow> string \<Rightarrow> string" where
  "g_string_insert s pos v =
     (if pos < 0 then s @ v
      else if int (length s) < pos then s
      else take (nat pos) s @ v @ drop (nat pos) s)"

text \<open>The length argument of \<open>g_string_truncate\<close> is unsigned: \<open>-1\<close> truncates nothing.\<close>

definition g_string_truncate :: "string \<Rightarrow> int \<Rightarrow> string" where
  "g_string_truncate s n = (if n < 0 then s else take (nat n) s)"

text \<open>\<open>g_strstrip\<close>, \<open>g_ascii_strdown\<close> and \<open>g_strdelimit\<close>.\<close>

definition g_strstrip :: "string \<Rightarrow> string" where
  "g_strstrip s = rev (dropWhile isspace (rev (dropWhile isspace s)))"

definition g_ascii_tolower :: "char \<Rightarrow> char" where
  "g_ascii_tolower c =
     (if 65 \<le> (of_char c :: nat) \<and> (of_char c :: nat) \<le> 90 then char_of (of_char c + (32 :: nat)) else c)"

definition g_ascii_strdown :: "string \<Rightarrow> string" where
  "g_ascii_strdown s = map g_ascii_tolower s"

definition g_strdelimit :: "string \<Rightarrow> string \<Rightarrow> char \<Rightarrow> string" where
  "g_strdelimit s delimiters new = map (\<lambda>c. if c \<in> set delimiters then new else c) s"

section \<open>GPtrArray\<close>

definition g_ptr_array_remove_index :: "'a list \<Rightarrow> nat \<Rightarrow> 'a list" where
  "g_ptr_array_remove_index a i = (if i < length a then take i a @ drop (Suc i) a else a)"

lemma remove_index_length:
  "i < length a \<Longrightarrow> length (g_ptr_array_remove_index a i) = length a - 1"
  by (simp add: g_ptr_array_remove_index_def)

lemma remove_index_0: "g_ptr_array_remove_index a 0 = tl a"
  by (cases a) (simp_all add: g_ptr_array_remove_index_def)

text \<open>The last element takes the place of the one that is removed.\<close>

definition g_ptr_array_remove_index_fast :: "'a list \<Rightarrow> nat \<Rightarrow> 'a list" where
  "g_ptr_array_remove_index_fast a i = (if i < length a then butlast (a[i := last a]) else a)"

lemma remove_index_fast_set:
  assumes "i < length a"
  shows "set (g_ptr_array_remove_index_fast a i) \<subseteq> set a"
    and "set a \<subseteq> insert (a ! i) (set (g_ptr_array_remove_index_fast a i))"
proof -
  have ne: "a \<noteq> []" using assms by auto
  have "set (butlast (a[i := last a])) \<subseteq> set (a[i := last a])" by (auto dest: in_set_butlastD)
  with set_update_subset_insert [of a i "last a"] last_in_set [OF ne]
  show "set (g_ptr_array_remove_index_fast a i) \<subseteq> set a"
    by (auto simp: g_ptr_array_remove_index_fast_def)
  show "set a \<subseteq> insert (a ! i) (set (g_ptr_array_remove_index_fast a i))"
  proof
    fix x
    assume "x \<in> set a"
    then obtain j where j: "j < length a" "a ! j = x" by (auto simp: in_set_conv_nth)
    show "x \<in> insert (a ! i) (set (g_ptr_array_remove_index_fast a i))"
    proof (cases "j = i")
      case False
      let ?b = "butlast (a[i := last a])"
      have "x \<in> set ?b"
      proof (cases "j = length a - 1")
        case True
        then have "i < length ?b" "?b ! i = x"
          using assms j False ne by (simp_all add: nth_butlast last_conv_nth)
        then show ?thesis by (metis nth_mem)
      next
        case other: False
        then have "j < length ?b" "?b ! j = x" using j False by (simp_all add: nth_butlast)
        then show ?thesis by (metis nth_mem)
      qed
      then show ?thesis using assms by (simp add: g_ptr_array_remove_index_fast_def)
    qed (use j in simp)
  qed
qed

end
