(* ===== verification/StringArray.thy ===== *)
theory StringArray
  imports GLib "HOL-Library.List_Lexorder" "HOL-Library.Char_ord"
begin

text \<open>
  \<open>src/remmina_string_array.c\<close>: the string array the recent-server lists and the plugins
  use, with its comma-separated text form. The array is a list of strings; the loops over
  an index are recursions over the index.
\<close>

section \<open>Building an array\<close>

definition remmina_string_array_new :: "string list" where
  "remmina_string_array_new = []"

definition remmina_string_array_add :: "string list \<Rightarrow> string \<Rightarrow> string list" where
  "remmina_string_array_add a s = a @ [s]"

function string_array_parse :: "string list \<Rightarrow> string \<Rightarrow> string list" where
  "string_array_parse a ptr1 =
     (case split_at (CHR '','') ptr1 of
        (w, None) \<Rightarrow> remmina_string_array_add a w
      | (w, Some ptr2) \<Rightarrow> string_array_parse (remmina_string_array_add a w) ptr2)"
  by pat_completeness auto
termination
  by (relation "measure (\<lambda>(a, s). length s)") (auto dest!: split_at_length [OF sym])

declare string_array_parse.simps [simp del]

definition remmina_string_array_new_from_string :: "cstr \<Rightarrow> string list" where
  "remmina_string_array_new_from_string strs =
     (case strs of
        None \<Rightarrow> remmina_string_array_new
      | Some s \<Rightarrow> if s = [] then remmina_string_array_new
                  else string_array_parse remmina_string_array_new s)"

definition remmina_string_array_new_from_allocated_string :: "cstr \<Rightarrow> string list" where
  "remmina_string_array_new_from_allocated_string strs = remmina_string_array_new_from_string strs"

section \<open>Searching and removing\<close>

function string_array_find_from :: "nat \<Rightarrow> string list \<Rightarrow> string \<Rightarrow> int" where
  "string_array_find_from i a s =
     (if i < length a
      then if a ! i = s then int i else string_array_find_from (Suc i) a s
      else -1)"
  by pat_completeness auto
termination
  by (relation "measure (\<lambda>(i, a, s). length a - i)") auto

declare string_array_find_from.simps [simp del]

definition remmina_string_array_find :: "string list \<Rightarrow> string \<Rightarrow> int" where
  "remmina_string_array_find a s = string_array_find_from 0 a s"

definition remmina_string_array_remove_index :: "string list \<Rightarrow> nat \<Rightarrow> string list" where
  "remmina_string_array_remove_index a i = g_ptr_array_remove_index a i"

definition remmina_string_array_remove :: "string list \<Rightarrow> string \<Rightarrow> string list" where
  "remmina_string_array_remove a s =
     (let i = remmina_string_array_find a s
      in if 0 \<le> i then remmina_string_array_remove_index a (nat i) else a)"

function string_array_intersect_from :: "nat \<Rightarrow> string list \<Rightarrow> string list \<Rightarrow> string list" where
  "string_array_intersect_from i a dest =
     (if i < length a
      then if remmina_string_array_find dest (a ! i) < 0
           then string_array_intersect_from i (remmina_string_array_remove_index a i) dest
           else string_array_intersect_from (Suc i) a dest
      else a)"
  by pat_completeness auto
termination
  by (relation "measure (\<lambda>(i, a, d). length a - i)")
    (auto simp: remmina_string_array_remove_index_def remove_index_length)

declare string_array_intersect_from.simps [simp del]

definition remmina_string_array_intersect :: "string list \<Rightarrow> cstr \<Rightarrow> string list" where
  "remmina_string_array_intersect a dest_strs =
     string_array_intersect_from 0 a (remmina_string_array_new_from_string dest_strs)"

text \<open>\<open>strcmp\<close> orders by unsigned bytes, the order of \<open>Char_ord\<close> and \<open>List_Lexorder\<close>.\<close>

definition remmina_string_array_sort :: "string list \<Rightarrow> string list" where
  "remmina_string_array_sort a = sort a"

section \<open>The text form\<close>

fun string_array_text_from :: "nat \<Rightarrow> string \<Rightarrow> string list \<Rightarrow> string" where
  "string_array_text_from i gstr [] = gstr"
| "string_array_text_from i gstr (x # xs) =
     string_array_text_from (Suc i) ((if i > 0 then gstr @ [CHR '',''] else gstr) @ x) xs"

definition remmina_string_array_to_string :: "string list \<Rightarrow> string" where
  "remmina_string_array_to_string a = string_array_text_from 0 [] a"

section \<open>Lemmas\<close>

lemma string_array_find_from_spec:
  "string_array_find_from i a s =
     (if \<exists>k. i \<le> k \<and> k < length a \<and> a ! k = s
      then int (LEAST k. i \<le> k \<and> k < length a \<and> a ! k = s) else -1)"
proof (induction i a s rule: string_array_find_from.induct)
  case (1 i a s)
  show ?case
  proof (cases "i < length a \<and> a ! i \<noteq> s")
    case True
    have eq: "(\<lambda>k. i \<le> k \<and> k < length a \<and> a ! k = s) = (\<lambda>k. Suc i \<le> k \<and> k < length a \<and> a ! k = s)"
      using True by (auto simp: fun_eq_iff) (metis le_antisym not_less_eq_eq)
    have "string_array_find_from i a s = string_array_find_from (Suc i) a s"
      using True by (subst string_array_find_from.simps) simp
    with "1.IH" True show ?thesis by (simp only: eq) simp
  next
    case False
    show ?thesis
    proof (cases "i < length a")
      case True
      then have "(LEAST k. i \<le> k \<and> k < length a \<and> a ! k = s) = i"
        using False by (intro Least_equality) auto
      moreover have "string_array_find_from i a s = int i"
        using True False by (subst string_array_find_from.simps) simp
      moreover have "\<exists>k. i \<le> k \<and> k < length a \<and> a ! k = s"
        using True False by auto
      ultimately show ?thesis by simp
    next
      case gt: False
      then have "string_array_find_from i a s = -1"
        by (subst string_array_find_from.simps) simp
      with gt show ?thesis by auto
    qed
  qed
qed

lemma find_neg_iff: "remmina_string_array_find a s < 0 \<longleftrightarrow> s \<notin> set a"
  by (auto simp: remmina_string_array_find_def string_array_find_from_spec in_set_conv_nth)

lemma remove_notin: "s \<notin> set a \<Longrightarrow> remmina_string_array_remove a s = a"
  using find_neg_iff [of a s] by (simp add: remmina_string_array_remove_def)

lemma find_first_occurrence:
  assumes "s \<notin> set xs"
  shows "remmina_string_array_find (xs @ s # ys) s = int (length xs)"
proof -
  have "(LEAST k. 0 \<le> k \<and> k < length (xs @ s # ys) \<and> (xs @ s # ys) ! k = s) = length xs"
  proof (rule Least_equality)
    fix k assume k: "0 \<le> k \<and> k < length (xs @ s # ys) \<and> (xs @ s # ys) ! k = s"
    show "length xs \<le> k"
    proof (rule ccontr)
      assume "\<not> length xs \<le> k"
      then have "xs ! k \<in> set xs" "(xs @ s # ys) ! k = xs ! k" by (simp_all add: nth_append)
      with k assms show False by simp
    qed
  qed simp
  moreover have "\<exists>k. 0 \<le> k \<and> k < length (xs @ s # ys) \<and> (xs @ s # ys) ! k = s"
    by (rule exI [of _ "length xs"]) simp
  ultimately show ?thesis
    by (simp add: remmina_string_array_find_def string_array_find_from_spec)
qed

text \<open>\<open>remove\<close> drops the first occurrence: it is the library's \<open>remove1\<close>.\<close>

lemma remove_is_remove1: "remmina_string_array_remove a s = remove1 s a"
proof (cases "s \<in> set a")
  case False
  then show ?thesis by (simp add: remove_notin remove1_idem)
next
  case True
  then obtain xs ys where a: "a = xs @ s # ys" and s: "s \<notin> set xs"
    using split_list_first by metis
  have "remmina_string_array_remove a s = xs @ ys"
    using find_first_occurrence [OF s]
    by (simp add: a remmina_string_array_remove_def remmina_string_array_remove_index_def
        g_ptr_array_remove_index_def)
  with a s show ?thesis by (simp add: remove1_append)
qed

lemma intersect_from_filter:
  "string_array_intersect_from i a d =
     take i a @ filter (\<lambda>x. x \<in> set d) (drop i a)"
proof (induction i a d rule: string_array_intersect_from.induct)
  case (1 i a d)
  show ?case
  proof (cases "i < length a")
    case False
    then show ?thesis by (subst string_array_intersect_from.simps) simp
  next
    case True
    have dr: "drop i a = a ! i # drop (Suc i) a" using True by (simp add: Cons_nth_drop_Suc)
    show ?thesis
    proof (cases "a ! i \<in> set d")
      case in_d: True
      then have "string_array_intersect_from i a d = string_array_intersect_from (Suc i) a d"
        using True find_neg_iff [of d "a ! i"]
        by (subst string_array_intersect_from.simps) simp
      with "1.IH"(2) in_d True dr find_neg_iff [of d "a ! i"] show ?thesis
        by (simp add: take_Suc_conv_app_nth)
    next
      case nin: False
      then have "string_array_intersect_from i a d =
          string_array_intersect_from i (remmina_string_array_remove_index a i) d"
        using True find_neg_iff [of d "a ! i"]
        by (subst string_array_intersect_from.simps) simp
      with "1.IH"(1) nin True dr find_neg_iff [of d "a ! i"] show ?thesis
        by (simp add: remmina_string_array_remove_index_def g_ptr_array_remove_index_def)
    qed
  qed
qed

text \<open>The parser is \<open>g_strsplit\<close> at the comma, and the printer \<open>g_strjoinv\<close>.\<close>

lemma string_array_parse_strsplit: "string_array_parse a s = a @ strsplit_from '','' s"
proof (induction a s rule: string_array_parse.induct)
  case (1 a s)
  obtain w r where sp: "split_at (CHR '','') s = (w, r)" by force
  then show ?case
    using "1.IH" [OF sp [symmetric]]
    by (subst string_array_parse.simps, subst strsplit_from_char)
      (simp add: remmina_string_array_add_def split: option.splits)
qed

lemma new_from_string_strsplit:
  "remmina_string_array_new_from_string (Some s) = g_strsplit s '',''"
  by (simp add: remmina_string_array_new_from_string_def remmina_string_array_new_def
      g_strsplit_def string_array_parse_strsplit)

lemma text_from_pos:
  "0 < i \<Longrightarrow> string_array_text_from i g xs = g @ concat (map (\<lambda>x. CHR '','' # x) xs)"
  by (induction xs arbitrary: i g) simp_all

lemma strjoinv_concat:
  "g_strjoinv [c] (x # xs) = x @ concat (map (\<lambda>y. c # y) xs)"
  by (induction xs arbitrary: x) simp_all

lemma to_string_strjoinv: "remmina_string_array_to_string a = g_strjoinv '','' a"
  by (cases a)
    (simp_all add: remmina_string_array_to_string_def text_from_pos strjoinv_concat
      del: g_strjoinv.simps(2,3))

lemma new_from_string_no_comma:
  "\<forall>x \<in> set (remmina_string_array_new_from_string s). CHR '','' \<notin> set x"
  by (cases s)
    (simp_all add: remmina_string_array_new_from_string_def remmina_string_array_new_def
      string_array_parse_strsplit strsplit_from_char_notin)

end
