(* ===== verification/Utils.thy ===== *)
theory Utils
  imports GLib
begin

text \<open>
  \<open>src/remmina_utils.c\<close>: searching and replacing in a GString, the helpers that cut a field
  out of a command's output, the chunked RSA encryption, and the other routines with logic
  of their own. Positions are integers: \<open>-1\<close> is "not found", as in the code. What a command
  prints, the random numbers and the OpenSSL calls are parameters.
\<close>

section \<open>Find and replace\<close>

definition remmina_utils_strpos :: "string \<Rightarrow> string \<Rightarrow> int" where
  "remmina_utils_strpos haystack needle =
     (if needle = [] then -1
      else case strstr haystack needle of None \<Rightarrow> -1 | Some i \<Rightarrow> int i)"

definition remmina_utils_string_find :: "string \<Rightarrow> int \<Rightarrow> int \<Rightarrow> string \<Rightarrow> int" where
  "remmina_utils_string_find haystack start end needle =
     (if length haystack = 0 then -1
      else if start < 0 then -1
      else if int (length haystack) \<le> start then -1
      else if needle = [] then -1
      else let e = (if end < 0 then int (length haystack) else end);
               pos = remmina_utils_strpos (drop (nat start) haystack) needle
           in if pos = -1 then -1
              else let pos = pos + start in if e \<le> pos then -1 else pos)"

definition remmina_utils_string_replace :: "string \<Rightarrow> int \<Rightarrow> int \<Rightarrow> cstr \<Rightarrow> string \<times> int" where
  "remmina_utils_string_replace str pos len replace =
     (let str = g_string_erase str pos len
      in case replace of
           None \<Rightarrow> (str, pos)
         | Some r \<Rightarrow> (g_string_insert str pos r, pos + int (length r)))"

lemma find_SomeD:
  assumes "remmina_utils_string_find h start (-1) n = pos" and "pos \<noteq> -1"
  obtains i where "strstr (drop (nat start) h) n = Some i" and "pos = start + int i"
    and "0 \<le> start" and "n \<noteq> []" and "start + int i + int (length n) \<le> int (length h)"
proof -
  from assms have st: "0 \<le> start" "start < int (length h)" "n \<noteq> []"
    by (auto simp: remmina_utils_string_find_def split: if_splits)
  then obtain i where i: "strstr (drop (nat start) h) n = Some i"
    using assms
    by (cases "strstr (drop (nat start) h) n")
      (auto simp: remmina_utils_string_find_def remmina_utils_strpos_def split: if_splits)
  have le: "i + length n \<le> length h - nat start"
    using strstr_SomeD [OF i] by simp
  have "pos = start + int i"
    using assms st i
    by (auto simp: remmina_utils_string_find_def remmina_utils_strpos_def Let_def split: if_splits)
  with le st i show thesis by (intro that [of i]) auto
qed

text \<open>The \<open>while (1)\<close> loop: the text, the next position to look at and the replacements made.\<close>

function string_replace_loop :: "string \<Rightarrow> int \<Rightarrow> string \<Rightarrow> cstr \<Rightarrow> nat \<Rightarrow> string \<times> nat" where
  "string_replace_loop haystack pos needle replace count =
     (let p = remmina_utils_string_find haystack pos (-1) needle
      in if p = -1 then (haystack, count)
         else let (h', p') = remmina_utils_string_replace haystack p (int (length needle)) replace
              in string_replace_loop h' p' needle replace (Suc count))"
  by pat_completeness auto
termination
proof (relation "measure (\<lambda>(h, pos, n, r, c). nat (int (length h) - pos))", goal_cases)
  case 1
  show ?case by simp
next
  case (2 h pos n r c p xa h' p')
  from 2 have p: "remmina_utils_string_find h pos (-1) n = p" "p \<noteq> -1"
    and eq: "remmina_utils_string_replace h p (int (length n)) r = (h', p')"
    by simp_all
  from p obtain i where i: "p = pos + int i" "0 \<le> pos" "n \<noteq> []"
    "pos + int i + int (length n) \<le> int (length h)"
    by (rule find_SomeD)
  then have n: "1 \<le> int (length n)" by (cases n) auto
  have "int (length h') - p' \<le> int (length h) - p - int (length n)"
    using eq i
    by (cases r)
      (auto simp: remmina_utils_string_replace_def g_string_erase_def g_string_insert_def Let_def)
  with i n have "nat (int (length h') - p') < nat (int (length h) - pos)" by linarith
  then show ?case by simp
qed

declare string_replace_loop.simps [simp del]

definition remmina_utils_string_replace_all :: "string \<Rightarrow> string \<Rightarrow> cstr \<Rightarrow> string \<times> nat" where
  "remmina_utils_string_replace_all haystack needle replace =
     string_replace_loop haystack 0 needle replace 0"

text \<open>One iteration, when the rest of the text holds the needle and when it does not.\<close>

lemma find_at:
  assumes "n \<noteq> []"
  shows "remmina_utils_string_find (a @ s) (int (length a)) (-1) n =
    (case strstr s n of None \<Rightarrow> -1 | Some i \<Rightarrow> int (length a) + int i)"
proof (cases s)
  case Nil
  with assms show ?thesis by (simp add: remmina_utils_string_find_def)
next
  case (Cons x xs)
  have "i < length s" if "strstr s n = Some i" for i
    using strstr_SomeD [OF that] assms by (cases n) auto
  with Cons assms show ?thesis
    by (auto simp: remmina_utils_string_find_def remmina_utils_strpos_def Let_def
        split: option.splits)
qed

lemma replace_at:
  assumes "strstr s n = Some i"
  shows "remmina_utils_string_replace (a @ s) (int (length a) + int i) (int (length n)) r =
    (let a' = a @ take i s @ (case r of None \<Rightarrow> [] | Some t \<Rightarrow> t)
     in (a' @ drop (i + length n) s, int (length a')))"
proof -
  have le: "i + length n \<le> length s" using strstr_SomeD [OF assms] ..
  have e: "g_string_erase (a @ s) (int (length a) + int i) (int (length n)) =
      a @ take i s @ drop (i + length n) s"
    using le by (simp add: g_string_erase_def nat_add_distrib nat_int_add add.assoc)
  have ln: "length (a @ take i s) = length a + i" using le by simp
  show ?thesis
    using le by (cases r)
      (simp_all add: remmina_utils_string_replace_def e Let_def g_string_insert_def nat_int_add)
qed

lemma replace_loop_unfold:
  assumes "n \<noteq> []"
  shows "string_replace_loop (a @ s) (int (length a)) n r c =
    (case strstr s n of
       None \<Rightarrow> (a @ s, c)
     | Some i \<Rightarrow>
         let a' = a @ take i s @ (case r of None \<Rightarrow> [] | Some t \<Rightarrow> t)
         in string_replace_loop (a' @ drop (i + length n) s) (int (length a')) n r (Suc c))"
  by (subst string_replace_loop.simps)
    (auto simp: find_at [OF assms] replace_at Let_def split: option.splits)

text \<open>The whole loop: the pieces between the needles, joined by the replacement.\<close>

lemma replace_loop_strsplit:
  assumes "n \<noteq> []"
  shows "string_replace_loop (a @ s) (int (length a)) n r c =
    (a @ g_strjoinv (case r of None \<Rightarrow> [] | Some t \<Rightarrow> t) (strsplit_from n s),
     c + length (strsplit_from n s) - 1)"
  using assms
proof (induction n s arbitrary: a c rule: strsplit_from.induct)
  case (1 n s)
  let ?r = "case r of None \<Rightarrow> [] | Some t \<Rightarrow> t"
  show ?case
  proof (cases "strstr s n")
    case None
    with "1.prems" show ?thesis
      by (subst replace_loop_unfold, simp, subst (1 2) strsplit_from.simps) simp
  next
    case (Some i)
    let ?a' = "a @ take i s @ ?r" and ?s' = "drop (i + length n) s"
    have sp: "strsplit_from n s = take i s # strsplit_from n ?s'"
      using Some "1.prems" by (subst strsplit_from.simps) simp
    have "string_replace_loop (a @ s) (int (length a)) n r c =
        string_replace_loop (?a' @ ?s') (int (length ?a')) n r (Suc c)"
      using Some "1.prems" by (subst replace_loop_unfold) (simp_all add: Let_def)
    also have "\<dots> = (?a' @ g_strjoinv ?r (strsplit_from n ?s'),
        Suc c + length (strsplit_from n ?s') - 1)"
      by (rule "1.IH" [OF Some "1.prems" "1.prems"])
    finally show ?thesis by (simp add: sp g_strjoinv_Cons)
  qed
qed

section \<open>Stripping control characters\<close>

fun string_strip_from :: "string \<Rightarrow> string \<Rightarrow> string" where
  "string_strip_from p2 [] = p2"
| "string_strip_from p2 (c # s) =
     (if c \<noteq> CHR 0x09 \<and> c \<noteq> CHR 0x0A \<and> c \<noteq> CHR 0x22
      then string_strip_from (p2 @ [c]) s
      else string_strip_from p2 s)"

definition remmina_utils_string_strip :: "string \<Rightarrow> string" where
  "remmina_utils_string_strip s = string_strip_from [] s"

lemma string_strip_filter:
  "string_strip_from p s = p @ filter (\<lambda>c. c \<notin> {CHR 0x09, CHR 0x0A, CHR 0x22}) s"
  by (induction s arbitrary: p) auto

section \<open>Running commands and reading their output\<close>

text \<open>
  \<open>in_flatpak\<close> is the test for the \<open>flatpak-info\<close> file; \<open>spawn\<close> is
  \<open>g_spawn_command_line_sync\<close>: the standard output, or \<open>None\<close> when it fails.
\<close>

definition remmina_utils_get_flatpak_command :: "bool \<Rightarrow> string \<Rightarrow> string" where
  "remmina_utils_get_flatpak_command in_flatpak cmd =
     (if in_flatpak then ''flatpak-spawn --host '' @ cmd else cmd)"

definition remmina_utils_run_command :: "bool \<Rightarrow> (string \<Rightarrow> cstr) \<Rightarrow> string \<Rightarrow> cstr" where
  "remmina_utils_run_command in_flatpak spawn command =
     (case spawn (remmina_utils_get_flatpak_command in_flatpak command) of
        Some std_out \<Rightarrow> Some std_out
      | None \<Rightarrow> None)"

definition remmina_utils_get_dev :: "bool \<Rightarrow> (string \<Rightarrow> cstr) \<Rightarrow> cstr" where
  "remmina_utils_get_dev fp spawn =
     (case remmina_utils_run_command fp spawn ''ip route show default'' of
        None \<Rightarrow> None
      | Some dev \<Rightarrow>
          (let pos = remmina_utils_string_find dev 0 (-1) ''dev '';
               dev = g_string_erase dev 0 (pos + 4);
               pos = remmina_utils_string_find dev 0 (-1) '' ''
           in Some (g_string_truncate dev pos)))"

definition remmina_utils_get_logical :: "bool \<Rightarrow> (string \<Rightarrow> cstr) \<Rightarrow> cstr" where
  "remmina_utils_get_logical fp spawn =
     (let dev = remmina_utils_get_dev fp spawn;
          lbuf = ''ip -4 -o addr show '' @ (case dev of None \<Rightarrow> [] | Some d \<Rightarrow> d)
      in case remmina_utils_run_command fp spawn lbuf of
           None \<Rightarrow> None
         | Some log \<Rightarrow>
             (let pos = remmina_utils_string_find log 0 (-1) ''inet '';
                  log = g_string_erase log 0 (pos + 5);
                  pos = remmina_utils_string_find log 0 (-1) '' ''
              in Some (g_string_truncate log pos)))"

definition remmina_utils_get_link :: "bool \<Rightarrow> (string \<Rightarrow> cstr) \<Rightarrow> cstr" where
  "remmina_utils_get_link fp spawn =
     (let dev = remmina_utils_get_dev fp spawn;
          pbuf = ''ip -4 -o link show '' @ (case dev of None \<Rightarrow> [] | Some d \<Rightarrow> d)
      in case remmina_utils_run_command fp spawn pbuf of
           None \<Rightarrow> None
         | Some link \<Rightarrow>
             (let pos = remmina_utils_string_find link 0 (-1) ''link/ether '';
                  link = g_string_erase link 0 (pos + 11);
                  pos = remmina_utils_string_find link 0 (-1) '' ''
              in Some (g_string_truncate link pos)))"

definition remmina_utils_get_python :: "bool \<Rightarrow> (string \<Rightarrow> cstr) \<Rightarrow> cstr" where
  "remmina_utils_get_python fp spawn =
     (let cmd = remmina_utils_run_command fp spawn ''python -V'';
          cmd = (if is_empty cmd then remmina_utils_run_command fp spawn ''python3 -V'' else cmd)
      in map_option remmina_utils_string_strip cmd)"

text \<open>The cut the three readers make, on output that has the field: what follows the key up to a space.\<close>

lemma strstr_first_at:
  assumes "\<And>j. j < length a \<Longrightarrow> \<not> prefix k (drop j (a @ k @ t))"
  shows "strstr (a @ k @ t) k = Some (length a)"
proof (cases "strstr (a @ k @ t) k")
  case None
  then have "\<not> prefix k (drop (length a) (a @ k @ t))" by (rule strstr_NoneD)
  then show ?thesis by simp
next
  case (Some i)
  have pre: "prefix k (drop i (a @ k @ t))"
    using strstr_SomeD [OF Some] by (metis take_is_prefix)
  have "\<not> i < length a" using assms pre by blast
  moreover have "\<not> length a < i"
    using strstr_first [OF Some, of "length a"] by auto
  ultimately show ?thesis using Some by simp
qed

lemma cut_field:
  assumes k: "k \<noteq> []"
    and first: "\<And>j. j < length a \<Longrightarrow> \<not> prefix k (drop j (a @ k @ w @ CHR '' '' # t))"
    and w: "CHR '' '' \<notin> set w"
  shows "(let pos = remmina_utils_string_find (a @ k @ w @ CHR '' '' # t) 0 (-1) k;
              s = g_string_erase (a @ k @ w @ CHR '' '' # t) 0 (pos + int (length k));
              pos = remmina_utils_string_find s 0 (-1) '' ''
          in g_string_truncate s pos) = w"
proof -
  let ?s = "a @ k @ w @ CHR '' '' # t"
  have st: "strstr ?s k = Some (length a)"
    by (rule strstr_first_at) (rule first)
  have p: "remmina_utils_string_find ?s 0 (-1) k = int (length a)"
    using find_at [OF k, of "[]" ?s] by (simp add: st)
  have e: "g_string_erase ?s 0 (int (length a) + int (length k)) = w @ CHR '' '' # t"
    by (simp add: g_string_erase_def nat_int_add)
  have q: "remmina_utils_string_find (w @ CHR '' '' # t) 0 (-1) '' '' = int (length w)"
    using find_at [of "'' ''" "[]" "w @ CHR '' '' # t"] w by (simp add: strstr_char)
  show ?thesis
    by (simp add: p e q Let_def g_string_truncate_def)
qed

section \<open>Environment queries\<close>

definition remmina_utils_get_lang :: "cstr \<Rightarrow> string" where
  "remmina_utils_get_lang lang =
     (case lang of
        None \<Rightarrow> ''en_US''
      | Some l \<Rightarrow> if l = [] then ''en_US'' else fst (split_at (CHR ''.'') l))"

text \<open>\<open>stat_size\<close> is \<open>g_stat\<close>, \<open>contents\<close> is \<open>g_file_get_contents\<close>.\<close>

definition remmina_utils_read_distrofile ::
  "(string \<Rightarrow> nat option) \<Rightarrow> (string \<Rightarrow> cstr) \<Rightarrow> string \<Rightarrow> cstr" where
  "remmina_utils_read_distrofile stat_size contents filename =
     (case stat_size filename of
        None \<Rightarrow> None
      | Some sz \<Rightarrow>
          if 131072 < sz then None
          else case contents filename of
                 None \<Rightarrow> None
               | Some d \<Rightarrow> if length d = 0 then None else Some d)"

definition distroArray :: "(string \<times> string) list" where
  "distroArray =
     [(''RedHat'', ''/etc/redhat-release''), (''RedHat'', ''/etc/redhat_version''),
      (''Sun'', ''/etc/sun-release''), (''SuSE'', ''/etc/SuSE-release''),
      (''SuSE'', ''/etc/novell-release''), (''SuSE'', ''/etc/sles-release''),
      (''SuSE'', ''/etc/os-release''), (''Debian'', ''/etc/debian_version''),
      (''Debian'', ''/etc/debian_release''), (''Ubuntu'', ''/etc/lsb-release''),
      (''Mandrake'', ''/etc/mandrake-release''), (''Mandriva'', ''/etc/mandriva-release''),
      (''Mandrake'', ''/etc/mandrakelinux-release''), (''TurboLinux'', ''/etc/turbolinux-release''),
      (''Fedora Core'', ''/etc/fedora-release''), (''Gentoo'', ''/etc/gentoo-release''),
      (''Novell'', ''/etc/nld-release''), (''Annvix'', ''/etc/annvix-release''),
      (''Arch'', ''/etc/arch-release''), (''Arklinux'', ''/etc/arklinux-release''),
      (''Aurox'', ''/etc/aurox-release''), (''BlackCat'', ''/etc/blackcat-release''),
      (''Cobalt'', ''/etc/cobalt-release''), (''Conectiva'', ''/etc/conectiva-release''),
      (''Immunix'', ''/etc/immunix-release''), (''Knoppix'', ''/etc/knoppix_version''),
      (''Linux-From-Scratch'', ''/etc/lfs-release''), (''Linux-PPC'', ''/etc/linuxppc-release''),
      (''MkLinux'', ''/etc/mklinux-release''), (''PLD'', ''/etc/pld-release''),
      (''Slackware'', ''/etc/slackware-version''), (''Slackware'', ''/etc/slackware-release''),
      (''SMEServer'', ''/etc/e-smith-release''), (''Solaris'', ''/etc/release''),
      (''Solus'', ''/etc/solus-release''), (''Tiny Sofa'', ''/etc/tinysofa-release''),
      (''UltraPenguin'', ''/etc/ultrapenguin-release''), (''UnitedLinux'', ''/etc/UnitedLinux-release''),
      (''VALinux'', ''/etc/va-release''), (''Yellow Dog'', ''/etc/yellowdog-release'')]"

fun etc_release_from ::
  "(string \<Rightarrow> nat option) \<Rightarrow> (string \<Rightarrow> cstr) \<Rightarrow> (string \<times> string) list
   \<Rightarrow> (string \<rightharpoonup> string) \<Rightarrow> (string \<rightharpoonup> string)" where
  "etc_release_from st ct [] r = r"
| "etc_release_from st ct ((_, filename) # ds) r =
     (case remmina_utils_read_distrofile st ct filename of
        None \<Rightarrow> etc_release_from st ct ds r
      | Some etc_release \<Rightarrow>
          if hd etc_release \<noteq> CHR 0x00
          then etc_release_from st ct ds (r(filename \<mapsto> etc_release))
          else etc_release_from st ct ds r)"

definition remmina_utils_get_etc_release ::
  "(string \<Rightarrow> nat option) \<Rightarrow> (string \<Rightarrow> cstr) \<Rightarrow> (string \<rightharpoonup> string)" where
  "remmina_utils_get_etc_release st ct = etc_release_from st ct distroArray Map.empty"

text \<open>The position of a monitor among the display's monitors, 0 when it is not one of them.\<close>

fun monitor_num_from :: "nat \<Rightarrow> 'm list \<Rightarrow> 'm \<Rightarrow> nat" where
  "monitor_num_from i [] m = 0"
| "monitor_num_from i (x # xs) m = (if m = x then i else monitor_num_from (Suc i) xs m)"

definition remmina_get_monitor_num :: "'m list \<Rightarrow> 'm \<Rightarrow> nat" where
  "remmina_get_monitor_num d m = monitor_num_from 0 d m"

definition remmina_get_primary_monitor_num :: "'m list \<Rightarrow> 'm \<Rightarrow> nat" where
  "remmina_get_primary_monitor_num d primary = remmina_get_monitor_num d primary"

section \<open>Random identifiers\<close>

text \<open>\<open>rnd k n\<close> is the value of the \<open>k\<close>-th call of \<open>randombytes_uniform(n)\<close>.\<close>

definition uuid_alpha :: string where
  "uuid_alpha = ''ABCDEFGHIJKLMNOPQRSTUVWXYZ0123456789''"

definition remmina_gen_random_uuid :: "(nat \<Rightarrow> nat \<Rightarrow> nat) \<Rightarrow> string" where
  "remmina_gen_random_uuid rnd =
     (let n = length uuid_alpha;
          first = map (\<lambda>i. uuid_alpha ! rnd i n) [0..<7];
          second = map (\<lambda>i. uuid_alpha ! rnd (7 + i) n) [0..<7]
      in first @ second)"

section \<open>Chunked RSA encryption\<close>

text \<open>
  \<open>encrypt\<close> is \<open>EVP_PKEY_encrypt\<close> on one block: its output, or \<open>None\<close> when it fails;
  \<open>b64\<close> is \<open>g_base64_encode\<close>; \<open>uninit n\<close> is what the last \<open>n\<close> bytes of the allocated
  buffer held. Sizes are the code's: \<open>int\<close> lengths converted to \<open>size_t\<close> before the
  division. A zero block size never reaches the loop, since the division by it traps.
\<close>

datatype rsa_result = Rsa_null | Rsa_trap | Rsa_overflow | Rsa_ok string

type_synonym size_t = "64 word"

definition rsa_max_block :: "int \<Rightarrow> size_t" where
  "rsa_max_block pkeyLen = word_of_int (pkeyLen - 42)"

definition rsa_ebuf_len :: "int \<Rightarrow> int \<Rightarrow> size_t" where
  "rsa_ebuf_len pkeyLen inLen =
     (word_of_int (inLen - 1) div rsa_max_block pkeyLen + 1) * word_of_int pkeyLen"

function rsa_encrypt_blocks :: "(string \<Rightarrow> cstr) \<Rightarrow> nat \<Rightarrow> string \<Rightarrow> string \<Rightarrow> cstr" where
  "rsa_encrypt_blocks encrypt maxblksz instr out =
     (if instr = [] \<or> maxblksz = 0 then Some out
      else let blksz = (if maxblksz < length instr then maxblksz else length instr)
           in case encrypt (take blksz instr) of
                None \<Rightarrow> None
              | Some blk \<Rightarrow> rsa_encrypt_blocks encrypt maxblksz (drop blksz instr) (out @ blk))"
  by pat_completeness auto
termination
  by (relation "measure (\<lambda>(e, m, i, out). length i)") auto

declare rsa_encrypt_blocks.simps [simp del]

definition remmina_rsa_encrypt_string ::
  "(string \<Rightarrow> cstr) \<Rightarrow> (string \<Rightarrow> string) \<Rightarrow> (nat \<Rightarrow> string) \<Rightarrow> int \<Rightarrow> string \<Rightarrow> rsa_result" where
  "remmina_rsa_encrypt_string encrypt b64 uninit pkeyLen instr =
     (if rsa_max_block pkeyLen = 0 then Rsa_trap
      else let ebufLen = unat (rsa_ebuf_len pkeyLen (int (length instr)))
           in case rsa_encrypt_blocks encrypt (unat (rsa_max_block pkeyLen)) instr [] of
                None \<Rightarrow> Rsa_null
              | Some out \<Rightarrow>
                  if ebufLen < length out then Rsa_overflow
                  else Rsa_ok (b64 (out @ uninit (ebufLen - length out))))"

fun chunks_of :: "nat \<Rightarrow> nat \<Rightarrow> 'a list \<Rightarrow> 'a list list" where
  "chunks_of 0 m xs = []"
| "chunks_of (Suc k) m xs = (if xs = [] then [] else take m xs # chunks_of k m (drop m xs))"

lemma encrypt_blocks_chunks:
  assumes "0 < m" and "\<And>b. b \<noteq> [] \<Longrightarrow> length b \<le> m \<Longrightarrow> encrypt b = Some (f b)"
    and "length instr \<le> k"
  shows "rsa_encrypt_blocks encrypt m instr out =
    Some (out @ concat (map f (chunks_of k m instr)))"
  using assms(3)
proof (induction k arbitrary: instr out)
  case 0
  then show ?case by (subst rsa_encrypt_blocks.simps) simp
next
  case (Suc k)
  show ?case
  proof (cases "instr = []")
    case True
    then show ?thesis by (subst rsa_encrypt_blocks.simps) simp
  next
    case False
    let ?b = "if m < length instr then m else length instr"
    have tk: "take ?b instr = take m instr" "drop ?b instr = drop m instr" by simp_all
    have "take m instr \<noteq> []" "length (take m instr) \<le> m" using False assms(1) by simp_all
    then have e: "encrypt (take m instr) = Some (f (take m instr))" by (rule assms(2))
    have "length (drop m instr) \<le> k" using Suc.prems assms(1) False by (cases instr) auto
    from Suc.IH [OF this] False assms(1) e tk show ?thesis
      by (subst rsa_encrypt_blocks.simps) (simp only: tk Let_def, simp)
  qed
qed

lemma length_chunks_of:
  assumes "0 < m" and "length xs \<le> k" and "xs \<noteq> []"
  shows "length (chunks_of k m xs) = (length xs - 1) div m + 1"
  using assms(2,3)
proof (induction k arbitrary: xs)
  case 0
  then show ?case by simp
next
  case (Suc k)
  show ?case
  proof (cases "length xs \<le> m")
    case True
    have "length xs - 1 < m" using True Suc.prems assms(1) by (cases xs) auto
    with True Suc.prems show ?thesis by (cases k) simp_all
  next
    case False
    then have ne: "drop m xs \<noteq> []" by simp
    have "length (drop m xs) \<le> k" using Suc.prems assms(1) by (cases xs) auto
    from Suc.IH [OF this ne] Suc.prems
    have "length (chunks_of (Suc k) m xs) = (length xs - m - 1) div m + 2" by simp
    moreover have "(length xs - 1) div m = (length xs - 1 - m) div m + 1"
      using False assms(1) by (subst le_div_geq) auto
    ultimately show ?thesis by (simp add: diff_right_commute)
  qed
qed

end
