(* ===== verification/Public.thy ===== *)
theory Public
  imports Utils
begin

text \<open>
  \<open>src/remmina_public.c\<close>: the routines every part of the program uses - splitting a server
  name into host and port, the resolution strings, the comma-separated lists behind the
  combo boxes, string replacement, and the X11 helpers. A GTK combo box is its rows and
  its active row; sockets, processes and GLib's network address parser are parameters.
\<close>

section \<open>Combo boxes filled from a comma-separated list\<close>

record combo =
  combo_rows :: "(string \<times> string) list"
  combo_active :: "nat option"

definition combo_append :: "combo \<Rightarrow> string \<Rightarrow> string \<Rightarrow> combo" where
  "combo_append c k v = c\<lparr>combo_rows := combo_rows c @ [(k, v)]\<rparr>"

function combo_text_loop :: "combo \<Rightarrow> nat \<Rightarrow> string \<Rightarrow> cstr \<Rightarrow> combo" where
  "combo_text_loop c i ptr1 def =
     (if ptr1 = [] then c
      else let w = fst (split_at (CHR '','') ptr1);
               c = combo_append c w w;
               c = (if i = 0 \<or> def = Some w then c\<lparr>combo_active := Some i\<rparr> else c)
           in case snd (split_at (CHR '','') ptr1) of
                None \<Rightarrow> c
              | Some ptr2 \<Rightarrow> combo_text_loop c (Suc i) ptr2 def)"
  by pat_completeness auto
termination
proof (relation "measure (\<lambda>(c, i, p, d). length p)", goal_cases)
  case 1
  show ?case by simp
next
  case (2 c i ptr1 def w c' c'' ptr2)
  then have "split_at (CHR '','') ptr1 = (fst (split_at (CHR '','') ptr1), Some ptr2)"
    by (metis prod.collapse)
  then show ?case by (auto dest: split_at_length)
qed

declare combo_text_loop.simps [simp del]

definition remmina_public_load_combo_text_d :: "cstr \<Rightarrow> cstr \<Rightarrow> cstr \<Rightarrow> combo" where
  "remmina_public_load_combo_text_d text def empty_choice =
     (let c = \<lparr>combo_rows = [], combo_active = None\<rparr>;
          (c, i) = (case empty_choice of
             None \<Rightarrow> (c, 0)
           | Some e \<Rightarrow> ((combo_append c [] e)\<lparr>combo_active := Some 0\<rparr>, 1))
      in case text of
           None \<Rightarrow> c
         | Some t \<Rightarrow> if t = [] then c else combo_text_loop c i t def)"

text \<open>
  The combo box with an entry. GTK keeps the active row as a reference that follows the row,
  so the active row is recorded by its text, which is what the entry shows.
\<close>

record combo_entry =
  entry_items :: "string list"
  entry_active :: cstr
  entry_text :: cstr

function combo_entry_loop :: "combo_entry \<Rightarrow> bool \<Rightarrow> string \<Rightarrow> cstr \<Rightarrow> bool \<Rightarrow> combo_entry \<times> bool" where
  "combo_entry_loop c found ptr1 def descending =
     (if ptr1 = [] then (c, found)
      else let w = fst (split_at (CHR '','') ptr1);
               c = (if descending then c\<lparr>entry_items := w # entry_items c\<rparr>
                    else c\<lparr>entry_items := entry_items c @ [w]\<rparr>);
               hit = (\<not> found \<and> def = Some w);
               c = (if hit then c\<lparr>entry_active := Some w, entry_text := Some w\<rparr> else c);
               found = (found \<or> hit)
           in case snd (split_at (CHR '','') ptr1) of
                None \<Rightarrow> (c, found)
              | Some ptr2 \<Rightarrow> combo_entry_loop c found ptr2 def descending)"
  by pat_completeness auto
termination
proof (relation "measure (\<lambda>(c, f, p, d, b). length p)", goal_cases)
  case 1
  show ?case by simp
next
  case (2 c found ptr1 def descending w c' hit c'' f ptr2)
  then have "split_at (CHR '','') ptr1 = (fst (split_at (CHR '','') ptr1), Some ptr2)"
    by (metis prod.collapse)
  then show ?case by (auto dest: split_at_length)
qed

declare combo_entry_loop.simps [simp del]

definition remmina_public_create_combo_entry :: "cstr \<Rightarrow> cstr \<Rightarrow> bool \<Rightarrow> combo_entry" where
  "remmina_public_create_combo_entry text def descending =
     (let c = \<lparr>entry_items = [], entry_active = None, entry_text = None\<rparr>;
          (c, found) = (case text of
             None \<Rightarrow> (c, False)
           | Some t \<Rightarrow> if t = [] then (c, False) else combo_entry_loop c False t def descending)
      in if \<not> found \<and> \<not> is_empty def then c\<lparr>entry_text := def\<rparr> else c)"

text \<open>
  The combo box over a table of keys, labels and, with \<open>use_icon\<close>, icon names. \<open>gettext\<close>
  is \<open>g_dgettext\<close>. A row holds the key, the translated label and the icon.
\<close>

record combo_map =
  map_rows :: "(string \<times> string \<times> cstr) list"
  map_active :: "nat option"

fun combo_map_loop ::
  "(string \<Rightarrow> string) \<Rightarrow> bool \<Rightarrow> cstr \<Rightarrow> nat \<Rightarrow> (string \<times> cstr \<times> cstr) list \<Rightarrow> combo_map \<Rightarrow> combo_map" where
  "combo_map_loop gettext use_icon def i [] c = c"
| "combo_map_loop gettext use_icon def i ((k, v, icon) # kvs) c =
     (let label = (case v of None \<Rightarrow> [] | Some t \<Rightarrow> if t = [] then [] else gettext t);
          row = (k, label, if use_icon then icon else None);
          c = c\<lparr>map_rows := map_rows c @ [row]\<rparr>;
          c = (if i = 0 \<or> def = Some k then c\<lparr>map_active := Some i\<rparr> else c)
      in combo_map_loop gettext use_icon def (Suc i) kvs c)"

definition remmina_public_create_combo_map ::
  "(string \<Rightarrow> string) \<Rightarrow> (string \<times> cstr \<times> cstr) list \<Rightarrow> cstr \<Rightarrow> bool \<Rightarrow> combo_map" where
  "remmina_public_create_combo_map gettext key_value_list def use_icon =
     combo_map_loop gettext use_icon def 0 key_value_list \<lparr>map_rows = [], map_active = None\<rparr>"

definition remmina_public_create_combo_mapint ::
  "(string \<Rightarrow> string) \<Rightarrow> (string \<times> cstr \<times> cstr) list \<Rightarrow> gint \<Rightarrow> bool \<Rightarrow> combo_map" where
  "remmina_public_create_combo_mapint gettext key_value_list def use_icon =
     remmina_public_create_combo_map gettext key_value_list (Some (take 19 (show_gint def))) use_icon"

section \<open>Paths and replacement\<close>

definition remmina_public_combine_path :: "cstr \<Rightarrow> string \<Rightarrow> string" where
  "remmina_public_combine_path path1 path2 =
     (case path1 of
        None \<Rightarrow> path2
      | Some p \<Rightarrow>
          if p = [] then path2
          else if last p = CHR ''/'' then p @ path2
          else p @ ''/'' @ path2)"

definition remmina_public_str_replace :: "cstr \<Rightarrow> cstr \<Rightarrow> cstr \<Rightarrow> cstr" where
  "remmina_public_str_replace str search replacement =
     (case str of
        None \<Rightarrow> None
      | Some s \<Rightarrow>
          (case search of
             None \<Rightarrow> None
           | Some n \<Rightarrow>
               (let r = (case replacement of None \<Rightarrow> [] | Some t \<Rightarrow> t);
                    arr = g_strsplit s n
                in if arr \<noteq> [] then Some (g_strjoinv r arr) else Some s)))"

definition remmina_public_str_replace_in_place :: "cstr \<Rightarrow> cstr \<Rightarrow> cstr \<Rightarrow> cstr" where
  "remmina_public_str_replace_in_place str search replacement =
     remmina_public_str_replace str search replacement"

section \<open>Sockets\<close>

text \<open>
  \<open>sock\<close> is the descriptor \<open>socket\<close> returns (negative on failure), \<open>connect\<close> the result of
  connecting it to a path. \<open>sun_path\<close> holds 108 bytes.
\<close>

definition remmina_public_open_unix_sock :: "int \<Rightarrow> (int \<Rightarrow> string \<Rightarrow> int) \<Rightarrow> string \<Rightarrow> int" where
  "remmina_public_open_unix_sock sock connect unixsock =
     (if 108 < length unixsock + 1 then -1
      else if sock < 0 then -1
      else if connect sock unixsock < 0 then -1
      else sock)"

definition remmina_public_open_xdisplay :: "int \<Rightarrow> (int \<Rightarrow> string \<Rightarrow> int) \<Rightarrow> string \<Rightarrow> int" where
  "remmina_public_open_xdisplay socket connect disp =
     (case rsplit_at (CHR '':'') disp of
        None \<Rightarrow> -1
      | Some (display, ptr) \<Rightarrow>
          if display = [] \<or> display = ''unix'' then
            let sock = socket in
            if 0 \<le> sock then
              (if connect sock (take 107 (''/tmp/.X11-unix/X'' @ show_gint (atoi ptr))) = -1 then -1
               else sock)
            else sock
          else -1)"

section \<open>The X authority cookie\<close>

text \<open>
  \<open>spawn\<close> runs a command: an error message, or the output. The pointer moves 19 bytes past
  the cookie's name, one more than the name's length; when the output ends with the name
  that is past the terminating NUL, and the result is \<open>Xauth_overread\<close>.
\<close>

datatype xauth_result = Xauth_overread | Xauth bool string

definition remmina_public_get_xauth_cookie ::
  "bool \<Rightarrow> (string \<Rightarrow> string + string) \<Rightarrow> string \<Rightarrow> cstr \<Rightarrow> xauth_result" where
  "remmina_public_get_xauth_cookie in_flatpak spawn default_display display =
     (let display = (case display of None \<Rightarrow> default_display | Some d \<Rightarrow> d);
          buf = take 199 (''xauth list '' @ display);
          cmd = remmina_utils_get_flatpak_command in_flatpak buf
      in case spawn cmd of
           Inl message \<Rightarrow> Xauth False message
         | Inr out \<Rightarrow>
             (case strrstr out ''MIT-MAGIC-COOKIE-1'' of
                None \<Rightarrow> Xauth False (''xauth returns '' @ out)
              | Some i \<Rightarrow>
                  if length out < i + 19 then Xauth_overread
                  else Xauth True (take 32 (dropWhile (\<lambda>c. c = CHR '' '') (drop (i + 19) out)))))"

section \<open>Server names\<close>

definition remmina_public_get_server_port_old :: "cstr \<Rightarrow> gint \<Rightarrow> cstr \<times> gint" where
  "remmina_public_get_server_port_old server defaultport =
     (case server of
        None \<Rightarrow> (None, defaultport)
      | Some str \<Rightarrow>
          (case split_at (CHR ''['') str of
             (_, Some ptr) \<Rightarrow>
               (case split_at (CHR '']'') ptr of
                  (h, None) \<Rightarrow> (Some h, defaultport)
                | (h, Some ptr2) \<Rightarrow>
                    (case ptr2 of
                       [] \<Rightarrow> (Some h, defaultport)
                     | c # r \<Rightarrow> if c = CHR '':'' then (Some h, atoi r) else (Some h, defaultport)))
           | (_, None) \<Rightarrow>
               (case split_at (CHR '':'') str of
                  (_, None) \<Rightarrow> (Some str, defaultport)
                | (h, Some ptr) \<Rightarrow>
                    if CHR '':'' \<in> set ptr then (Some str, defaultport)
                    else (Some h, atoi ptr))))"

text \<open>
  \<open>parse\<close> is \<open>g_network_address_parse\<close>. The port is an in-out argument: \<open>port_in\<close> is what the
  caller's variable held. The code's \<open>if (port == 0)\<close> tests the pointer, so with a caller
  that passes a variable the default is never stored there.
\<close>

definition remmina_public_get_server_port ::
  "(string \<Rightarrow> gint \<Rightarrow> (string \<times> gint) option) \<Rightarrow> cstr \<Rightarrow> gint \<Rightarrow> gint \<Rightarrow> cstr \<times> gint" where
  "remmina_public_get_server_port parse server defaultport port_in =
     (case server of
        Some s \<Rightarrow>
          if strstr s ''ID:'' \<noteq> None then remmina_public_get_server_port_old server defaultport
          else (case parse s defaultport of
                  None \<Rightarrow> (None, port_in)
                | Some (host, port) \<Rightarrow> (Some host, port))
      | None \<Rightarrow> (None, port_in))"

section \<open>Resolutions\<close>

text \<open>The scan: whether it went through, and the flags \<open>width\<close>, \<open>height\<close> and \<open>splitted\<close>.\<close>

fun resolution_scan :: "string \<Rightarrow> bool \<Rightarrow> bool \<Rightarrow> bool \<Rightarrow> bool \<times> bool \<times> bool" where
  "resolution_scan [] splitted width height = (True, width, height)"
| "resolution_scan (c # s) splitted width height =
     (if c = CHR ''x'' then
        if splitted then (False, width, height)
        else resolution_scan s True width height
      else if \<not> isdigit c then (False, width, height)
      else if splitted then resolution_scan s splitted width True
      else resolution_scan s splitted True height)"

definition remmina_public_resolution_validation_func :: "string \<Rightarrow> bool" where
  "remmina_public_resolution_validation_func new_str =
     (case resolution_scan new_str False False False of
        (result, width, height) \<Rightarrow> if \<not> width \<or> \<not> height then False else result)"

definition remmina_public_split_resolution_string :: "cstr \<Rightarrow> (gint \<times> gint) option" where
  "remmina_public_split_resolution_string resolution_string =
     (case resolution_string of
        None \<Rightarrow> None
      | Some s \<Rightarrow> if s = [] then None else sscanf_d_x_d s)"

section \<open>The GTK version test\<close>

definition remmina_gtk_check_version :: "nat \<times> nat \<times> nat \<Rightarrow> nat \<Rightarrow> nat \<Rightarrow> nat \<Rightarrow> bool" where
  "remmina_gtk_check_version rt major minor micro =
     (case rt of (rtmajor, rtminor, rtmicro) \<Rightarrow>
        if major < rtmajor then True
        else if rtmajor = major then
          (if minor < rtminor then True
           else if rtminor = minor then (if micro \<le> rtmicro then True else False)
           else False)
        else False)"

section \<open>Lemmas\<close>

text \<open>The rows are the comma-separated fields, without an empty one at the end.\<close>

definition comma_fields :: "string \<Rightarrow> string list" where
  "comma_fields s =
     (let ws = g_strsplit s '','' in if ws \<noteq> [] \<and> last ws = [] then butlast ws else ws)"

lemma comma_fields_Nil [simp]: "comma_fields [] = []"
  by (simp add: comma_fields_def g_strsplit_def)

lemma comma_fields_split:
  "s \<noteq> [] \<Longrightarrow> comma_fields s =
     (case split_at (CHR '','') s of (w, None) \<Rightarrow> [w] | (w, Some r) \<Rightarrow> w # comma_fields r)"
proof -
  assume s: "s \<noteq> []"
  obtain w r where sp: "split_at (CHR '','') s = (w, r)" by force
  have nil: "strsplit_from '','' [] = [[]]"
    by (subst strsplit_from_char) (simp add: split_at_def)
  show ?thesis
  proof (cases r)
    case None
    with sp have "w = s" by (simp add: split_at_None)
    with sp None s show ?thesis
      by (simp add: comma_fields_def g_strsplit_def Let_def) (subst strsplit_from_char, simp)+
  next
    case (Some t)
    have "strsplit_from '','' s = w # strsplit_from '','' t"
      using sp Some by (subst strsplit_from_char) simp
    with sp Some s nil show ?thesis
      by (simp add: comma_fields_def g_strsplit_def Let_def)
  qed
qed

lemma combo_text_loop_rows:
  "combo_rows (combo_text_loop c i s def) = combo_rows c @ map (\<lambda>w. (w, w)) (comma_fields s)"
proof (induction "length s" arbitrary: c i s rule: less_induct)
  case less
  show ?case
  proof (cases "s = []")
    case True
    then show ?thesis by (subst combo_text_loop.simps) simp
  next
    case False
    obtain w r where sp: "split_at (CHR '','') s = (w, r)" by force
    show ?thesis
    proof (cases r)
      case None
      with False sp show ?thesis
        by (subst combo_text_loop.simps) (simp add: comma_fields_split combo_append_def Let_def)
    next
      case (Some t)
      from sp Some have "length t < length s" by (simp add: split_at_length)
      note IH = less [OF this]
      show ?thesis
        using False sp Some
        by (subst combo_text_loop.simps) (simp add: comma_fields_split combo_append_def Let_def IH)
    qed
  qed
qed

lemma resolution_scan_split:
  "resolution_scan s True w h = (r, w', h') \<Longrightarrow>
     w' = w \<and> (r \<longleftrightarrow> (\<forall>c \<in> set s. isdigit c)) \<and> (r \<longrightarrow> (h' \<longleftrightarrow> h \<or> s \<noteq> []))"
proof (induction s arbitrary: h)
  case Nil
  then show ?case by simp
next
  case (Cons c s)
  have nx: "\<not> isdigit (CHR ''x'')" by (simp add: isdigit_def)
  show ?case
  proof (cases "isdigit c")
    case True
    with nx have "c \<noteq> CHR ''x''" by auto
    with True Cons.prems have "resolution_scan s True w True = (r, w', h')" by simp
    from Cons.IH [OF this] True show ?thesis by auto
  next
    case False
    with Cons.prems show ?thesis by (cases "c = CHR ''x''") (auto split: if_splits)
  qed
qed

text \<open>The text before the \<open>x\<close>, then the rest.\<close>

lemma resolution_scan_iff:
  "(\<exists>w h. resolution_scan s False w0 h0 = (True, w, h) \<and> w \<and> h) \<longleftrightarrow>
     (\<exists>a b. s = a @ CHR ''x'' # b \<and> (\<forall>c \<in> set a. isdigit c) \<and> (\<forall>c \<in> set b. isdigit c) \<and>
        (w0 \<or> a \<noteq> []) \<and> (h0 \<or> b \<noteq> [])) \<or> (\<forall>c \<in> set s. isdigit c) \<and> (w0 \<or> s \<noteq> []) \<and> h0"
proof (induction s arbitrary: w0)
  case Nil
  then show ?case by simp
next
  case (Cons c s)
  have nx: "\<not> isdigit (CHR ''x'')" by (simp add: isdigit_def)
  show ?case
  proof (cases "c = CHR ''x''")
    case True
    obtain r w' h' where sc: "resolution_scan s True w0 h0 = (r, w', h')" by (cases "resolution_scan s True w0 h0")
    have "(\<exists>a b. c # s = a @ CHR ''x'' # b \<and> (\<forall>c \<in> set a. isdigit c) \<and> (\<forall>c \<in> set b. isdigit c) \<and>
        (w0 \<or> a \<noteq> []) \<and> (h0 \<or> b \<noteq> [])) \<longleftrightarrow> (\<forall>c \<in> set s. isdigit c) \<and> w0 \<and> (h0 \<or> s \<noteq> [])"
      (is "?L \<longleftrightarrow> ?R")
    proof
      assume ?R
      then show ?L using True by (intro exI [of _ "[]"] exI [of _ s]) auto
    qed (use True nx in \<open>auto simp: Cons_eq_append_conv\<close>)
    with True sc nx resolution_scan_split [OF sc] show ?thesis by auto
  next
    case False
    show ?thesis
    proof (cases "isdigit c")
      case True
      have "(\<exists>a b. c # s = a @ CHR ''x'' # b \<and> (\<forall>c \<in> set a. isdigit c) \<and> (\<forall>c \<in> set b. isdigit c) \<and>
          (w0 \<or> a \<noteq> []) \<and> (h0 \<or> b \<noteq> [])) \<longleftrightarrow>
        (\<exists>a b. s = a @ CHR ''x'' # b \<and> (\<forall>c \<in> set a. isdigit c) \<and> (\<forall>c \<in> set b. isdigit c) \<and>
          (h0 \<or> b \<noteq> []))" (is "?L \<longleftrightarrow> ?R")
      proof
        assume ?L
        then obtain a b where ab: "c # s = a @ CHR ''x'' # b" "\<forall>x \<in> set a. isdigit x"
          "\<forall>x \<in> set b. isdigit x" "h0 \<or> b \<noteq> []" by blast
        with False obtain a' where "a = c # a'" by (cases a) auto
        with ab show ?R by auto
      next
        assume ?R
        then obtain a b where "s = a @ CHR ''x'' # b" "\<forall>x \<in> set a. isdigit x"
          "\<forall>x \<in> set b. isdigit x" "h0 \<or> b \<noteq> []" by blast
        with True show ?L by (intro exI [of _ "c # a"] exI [of _ b]) simp
      qed
      with True False Cons.IH [of True] show ?thesis by simp
    next
      case nd: False
      with False show ?thesis by (auto simp: Cons_eq_append_conv)
    qed
  qed
qed

end
