(* ===== verification/UtilProps.thy ===== *)
theory UtilProps
  imports StringArray Public "HOL-Library.Product_Lexorder"
begin

text \<open>
  The properties of the string arrays and of the helpers in \<open>src/remmina_utils.c\<close> and
  \<open>src/remmina_public.c\<close>.
\<close>

section \<open>String arrays\<close>

text \<open>
  The text form of a string array and its parser are inverse to each other: every text is
  printed back from the array it parses to, and an array of strings without commas comes back
  unless it is empty or only holds the empty string.
\<close>

theorem string_array_text_roundtrip:
  "remmina_string_array_to_string (remmina_string_array_new_from_string (Some s)) = s \<and>
   ((CHR '','' \<notin> \<Union> (set ` set a) \<and> a \<noteq> [] \<and> a \<noteq> [[]]) \<longrightarrow>
      remmina_string_array_new_from_string (Some (remmina_string_array_to_string a)) = a)"
proof -
  have ne: "g_strjoinv '','' a \<noteq> []" if "a \<noteq> []" "a \<noteq> [[]]"
    using that by (cases a; cases "tl a") (auto simp: g_strjoinv_Cons)
  have "remmina_string_array_new_from_string (Some (remmina_string_array_to_string a)) = a"
    if "CHR '','' \<notin> \<Union> (set ` set a)" "a \<noteq> []" "a \<noteq> [[]]"
    using that ne strsplit_from_char_join [of a "CHR '',''"]
    by (simp add: new_from_string_strsplit to_string_strjoinv g_strsplit_def)
  then show ?thesis by (simp add: new_from_string_strsplit to_string_strjoinv)
qed

theorem string_array_text_roundtrip_witness:
  "remmina_string_array_new_from_string (Some (remmina_string_array_to_string [''VNC'', '''', ''RDP''])) = [''VNC'', '''', ''RDP'']"
  using string_array_text_roundtrip [of "[]" "[''VNC'', '''', ''RDP'']"] by simp

text \<open>
  Intersecting an array with a comma-separated list, whose loop removes elements from the
  array it walks, keeps exactly the elements that are in the list, in their order; removing a
  string drops its first occurrence only.
\<close>

theorem string_array_intersect_filter:
  "remmina_string_array_intersect a dest =
     filter (\<lambda>x. x \<in> set (remmina_string_array_new_from_string dest)) a \<and>
   remmina_string_array_remove a s = remove1 s a"
  by (simp add: remmina_string_array_intersect_def intersect_from_filter remove_is_remove1)

section \<open>Replacing\<close>

text \<open>
  C39: The in-place replacement loop over a GString gives the same text as splitting at the
  needle and joining with the replacement, also when the replacement contains the needle,
  and its count is the number of separators found; the loop ends on every input.
\<close>

theorem replace_all_is_str_replace:
  assumes "needle \<noteq> []"
  shows "remmina_public_str_replace (Some s) (Some needle) r =
      Some (fst (remmina_utils_string_replace_all s needle r)) \<and>
    snd (remmina_utils_string_replace_all s needle r) = length (g_strsplit s needle) - 1"
proof (cases "s = []")
  case True
  have "strsplit_from needle [] = [[]]"
    using assms by (subst strsplit_from.simps) (cases needle, simp_all)
  with True show ?thesis
    using replace_loop_strsplit [OF assms, of "[]" s r 0]
    by (simp add: remmina_public_str_replace_def remmina_utils_string_replace_all_def g_strsplit_def)
next
  case False
  then show ?thesis
    using replace_loop_strsplit [OF assms, of "[]" s r 0]
    by (simp add: remmina_public_str_replace_def remmina_utils_string_replace_all_def g_strsplit_def)
qed

theorem replace_all_is_str_replace_witness:
  "remmina_public_str_replace (Some ''a%hb%h'') (Some ''%h'') (Some ''%h!'') =
     Some (fst (remmina_utils_string_replace_all ''a%hb%h'' ''%h'' (Some ''%h!'')))"
  using replace_all_is_str_replace [of "''%h''" "''a%hb%h''" "Some ''%h!''"] by simp

section \<open>Fields of a command's output\<close>

text \<open>
  When the routing table names a default device, that name up to the next blank is what
  is returned, and the same cut on the addresses of that device finds its address.
\<close>

theorem get_dev_field:
  assumes "spawn (remmina_utils_get_flatpak_command fp ''ip route show default'') = Some (a @ ''dev '' @ dev @ '' '' @ t)"
    and "strstr (a @ ''dev '' @ dev @ '' '' @ t) ''dev '' = Some (length a)" and "CHR '' '' \<notin> set dev"
    and "spawn (remmina_utils_get_flatpak_command fp (''ip -4 -o addr show '' @ dev)) = Some (b @ ''inet '' @ ip @ '' '' @ u)"
    and "strstr (b @ ''inet '' @ ip @ '' '' @ u) ''inet '' = Some (length b)" and "CHR '' '' \<notin> set ip"
  shows "remmina_utils_get_dev fp spawn = Some dev \<and> remmina_utils_get_logical fp spawn = Some ip"
proof -
  have first: "\<not> prefix k (drop j s)" if "strstr s k = Some n" "j < n" for k s :: string and j n
    using strstr_first [OF that] .
  have dev: "remmina_utils_get_dev fp spawn = Some dev"
    using cut_field [of "''dev ''" a dev t] first [OF assms(2)] assms(1,3)
    by (simp add: remmina_utils_get_dev_def remmina_utils_run_command_def Let_def)
  then show ?thesis
    using cut_field [of "''inet ''" b ip u] first [OF assms(5)] assms(4,6)
    by (simp add: remmina_utils_get_logical_def remmina_utils_run_command_def Let_def)
qed

theorem get_dev_field_witness:
  "remmina_utils_get_dev False
     ((\<lambda>_. None)(''ip route show default'' \<mapsto> ''default via 10.0.0.1 dev eth0 proto'',
       ''ip -4 -o addr show eth0'' \<mapsto> ''2: eth0 inet 10.0.0.2/24 brd'')) = Some ''eth0''"
  using get_dev_field [of "(\<lambda>_. None)(''ip route show default'' \<mapsto> ''default via 10.0.0.1 dev eth0 proto'',
       ''ip -4 -o addr show eth0'' \<mapsto> ''2: eth0 inet 10.0.0.2/24 brd'')" False "''default via 10.0.0.1 ''" "''eth0''" "''proto''"
       "''2: eth0 ''" "''10.0.0.2/24''" "''brd''"]
  by (simp add: remmina_utils_get_flatpak_command_def)

section \<open>Chunked encryption\<close>

lemma unat_of_int: "0 \<le> i \<Longrightarrow> i < 2 ^ 64 \<Longrightarrow> unat (word_of_int i :: size_t) = nat i"
  by (simp add: unsigned_of_int take_bit_int_eq_self)

lemma chunks_of_blocks: "0 < m \<Longrightarrow> b \<in> set (chunks_of k m xs) \<Longrightarrow> b \<noteq> [] \<and> length b \<le> m"
  by (induction k m xs rule: chunks_of.induct) (auto split: if_splits)

lemma length_concat_const: "(\<And>b. b \<in> set bs \<Longrightarrow> length (f b) = n) \<Longrightarrow> length (concat (map f bs)) = length bs * n"
  by (induction bs) simp_all

text \<open>The allocated length, without wrap-around.\<close>

lemma rsa_ebuf_len_exact:
  assumes "42 < pkeyLen" "pkeyLen < 2 ^ 31" "0 < n" "n < 2 ^ 31"
  shows "unat (rsa_ebuf_len pkeyLen (int n)) = ((n - 1) div nat (pkeyLen - 42) + 1) * nat pkeyLen"
proof -
  let ?q = "(n - 1) div nat (pkeyLen - 42)"
  have u: "unat (word_of_int (int n - 1) :: size_t) = n - 1" "unat (word_of_int pkeyLen :: size_t) = nat pkeyLen"
    "unat (rsa_max_block pkeyLen) = nat (pkeyLen - 42)"
    using assms by (simp_all add: unat_of_int rsa_max_block_def nat_diff_distrib del: of_int_diff)
  have q: "?q \<le> n - 1" by simp
  then have q1: "?q + 1 < 2 ^ 31" using assms by linarith
  moreover have "nat pkeyLen < 2 ^ 31" using assms by (simp add: nat_less_iff)
  ultimately have "(?q + 1) * nat pkeyLen < 2 ^ 31 * 2 ^ 31" by (intro mult_strict_mono) auto
  then have lt: "(?q + 1) * nat pkeyLen < 2 ^ 64" by simp
  have "unat (word_of_int (int n - 1) div rsa_max_block pkeyLen + 1 :: size_t) = ?q + 1"
    using q1 by (simp add: unat_word_ariths unat_div u del: of_int_diff)
  with lt show ?thesis
    by (simp add: rsa_ebuf_len_def unat_word_ariths(2) u del: of_int_diff)
qed

text \<open>
  With a key of more than 42 bytes whose blocks encrypt to the key's length, encrypting a
  text fills the allocated buffer exactly: no write goes past its end, no byte of the
  result is left uninitialised, and every block of the text is encrypted once, in order. The
  text's length is any positive \<open>int\<close>.
\<close>

theorem rsa_buffer_filled:
  assumes "42 < pkeyLen" "pkeyLen < 2 ^ 31" "instr \<noteq> []" "length instr < 2 ^ 31" "uninit 0 = []"
    and "\<And>b. b \<noteq> [] \<Longrightarrow> length b \<le> nat (pkeyLen - 42) \<Longrightarrow> encrypt b = Some (f b) \<and> length (f b) = nat pkeyLen"
  shows "remmina_rsa_encrypt_string encrypt b64 uninit pkeyLen instr =
    Rsa_ok (b64 (concat (map f (chunks_of (length instr) (nat (pkeyLen - 42)) instr))))"
proof -
  let ?m = "nat (pkeyLen - 42)" and ?cs = "chunks_of (length instr) (nat (pkeyLen - 42)) instr"
  have m: "0 < ?m" "unat (rsa_max_block pkeyLen) = ?m"
    using assms(1,2) by (simp_all add: unat_of_int rsa_max_block_def del: of_int_diff)
  then have nz: "rsa_max_block pkeyLen \<noteq> 0" by auto
  have e: "rsa_encrypt_blocks encrypt ?m instr [] = Some (concat (map f ?cs))"
    using encrypt_blocks_chunks [OF m(1), of encrypt f instr "length instr" "[]"] assms(6) by simp
  have "length (concat (map f ?cs)) = length ?cs * nat pkeyLen"
    using chunks_of_blocks [OF m(1)] assms(6) by (intro length_concat_const) blast
  also have "\<dots> = unat (rsa_ebuf_len pkeyLen (int (length instr)))"
    using rsa_ebuf_len_exact [OF assms(1,2) _ assms(4)] length_chunks_of [OF m(1) le_refl assms(3)] assms(3) by simp
  finally show ?thesis using nz e m(2) assms(5) by (simp add: remmina_rsa_encrypt_string_def Let_def)
qed

theorem rsa_buffer_filled_witness:
  "remmina_rsa_encrypt_string (\<lambda>b. Some (replicate 45 (hd b))) (\<lambda>b. b) (\<lambda>n. replicate n (CHR ''?'')) 45 ''abcd'' =
     Rsa_ok (replicate 45 (CHR ''a'') @ replicate 45 (CHR ''d''))"
proof -
  have c: "chunks_of (length ''abcd'') (nat (45 - 42)) ''abcd'' = [''abc'', ''d'']"
    by (simp add: eval_nat_numeral)
  show ?thesis
    by (subst rsa_buffer_filled [where f = "\<lambda>b. replicate 45 (hd b)"]) (simp_all only: c, simp_all)
qed

section \<open>Server names\<close>

lemma show_gint_chars: "c \<in> set (show_gint p) \<Longrightarrow> isdigit c \<or> c = CHR ''-''"
  using show_nat_digits by (auto simp: show_gint_def show_int_def split: if_splits)

text \<open>
  A server name splits as it was put together: a plain host has the default port, a host
  with a port and a bracketed address with a port give both back for every 32-bit port, and
  a name with several colons and no bracket is a host as it is.
\<close>

theorem server_port_old_splits:
  assumes "CHR '':'' \<notin> set h" "CHR ''['' \<notin> set h" "CHR '']'' \<notin> set v" "CHR ''['' \<notin> set w"
  shows "remmina_public_get_server_port_old (Some h) d = (Some h, d) \<and>
    remmina_public_get_server_port_old (Some (h @ '':'' @ show_gint p)) d = (Some h, p) \<and>
    remmina_public_get_server_port_old (Some (''['' @ v @ '']'')) d = (Some v, d) \<and>
    remmina_public_get_server_port_old (Some (''['' @ v @ '']:'' @ show_gint p)) d = (Some v, p) \<and>
    remmina_public_get_server_port_old (Some (h @ '':'' @ w @ '':'' @ h)) d = (Some (h @ '':'' @ w @ '':'' @ h), d)"
proof -
  have nc: "CHR '':'' \<notin> set (show_gint p)" "CHR ''['' \<notin> set (show_gint p)"
    using show_gint_chars [of "CHR '':''" p] show_gint_chars [of "CHR ''[''" p] by (auto simp: isdigit_def)
  have c: "split_at (CHR '':'') (h @ CHR '':'' # t) = (h, Some t)" for t
    using assms(1) by (rule split_at_append)
  have n: "split_at (CHR ''['') t = (t, None)" if "CHR ''['' \<notin> set t" for t
    using that by (simp add: split_at_None)
  have b: "split_at (CHR ''['') (CHR ''['' # t) = ([], Some t)" for t
    using split_at_append [of "CHR ''[''" "[]" t] by simp
  have r: "split_at (CHR '']'') (v @ CHR '']'' # t) = (v, Some t)" for t
    using assms(3) by (rule split_at_append)
  have hn: "split_at (CHR '':'') h = (h, None)" using assms(1) by (simp add: split_at_None)
  show ?thesis
    using assms nc by (simp add: remmina_public_get_server_port_old_def n b r c hn)
qed

theorem server_port_old_splits_witness:
  "remmina_public_get_server_port_old (Some (''example.org'' @ '':'' @ show_gint 3389)) 22 = (Some ''example.org'', 3389)"
  using server_port_old_splits [of "''example.org''" "''::1''" "[]" 22 3389] by simp

section \<open>Resolutions\<close>

lemma resolution_validation_iff_aux:
  "remmina_public_resolution_validation_func s \<longleftrightarrow>
     (\<exists>a b. s = a @ ''x'' @ b \<and> a \<noteq> [] \<and> b \<noteq> [] \<and> set a \<union> set b \<subseteq> Collect isdigit)"
proof -
  have "remmina_public_resolution_validation_func s \<longleftrightarrow> (\<exists>w h. resolution_scan s False False False = (True, w, h) \<and> w \<and> h)"
    by (cases "resolution_scan s False False False") (auto simp: remmina_public_resolution_validation_func_def)
  moreover have "set a \<union> set b \<subseteq> Collect isdigit \<longleftrightarrow> (\<forall>c \<in> set a. isdigit c) \<and> (\<forall>c \<in> set b. isdigit c)" for a b by auto
  ultimately show ?thesis unfolding resolution_scan_iff by (simp add: conj_ac)
qed

text \<open>
  The validation of a custom resolution accepts exactly digits, an x and digits, both
  parts non-empty.
\<close>

theorem resolution_validation_iff:
  "remmina_public_resolution_validation_func s \<longleftrightarrow>
     (\<exists>a b. s = a @ ''x'' @ b \<and> a \<noteq> [] \<and> b \<noteq> [] \<and> set a \<union> set b \<subseteq> Collect isdigit)"
  by (rule resolution_validation_iff_aux)

text \<open>
  The text of a width and a height that are not negative is valid and splits into the
  width and height.
\<close>

theorem resolution_roundtrip:
  assumes "0 \<le> sint w" "0 \<le> sint h"
  shows "remmina_public_resolution_validation_func (show_gint w @ ''x'' @ show_gint h) \<and>
    remmina_public_split_resolution_string (Some (show_gint w @ ''x'' @ show_gint h)) = Some (w, h)"
proof -
  have sh: "show_gint w = show_nat (nat (sint w))" "show_gint h = show_nat (nat (sint h))"
    using assms by (simp_all add: show_gint_def show_int_def)
  have "set (show_gint w) \<union> set (show_gint h) \<subseteq> Collect isdigit"
    unfolding sh using show_nat_digits by auto
  then have "remmina_public_resolution_validation_func (show_gint w @ ''x'' @ show_gint h)"
    unfolding resolution_validation_iff_aux by (intro exI conjI) (rule refl, simp_all add: show_gint_def)
  moreover have "\<not> isdigit (CHR ''x'')" by (simp add: isdigit_def)
  then have "scan_dec (show_gint w @ CHR ''x'' # show_gint h) = Some (sint w, CHR ''x'' # show_gint h)"
    unfolding show_gint_def by (intro scan_dec_show_int) simp
  moreover have "scan_dec (show_gint h) = Some (sint h, [])"
    using scan_dec_show_int [of "[]" "sint h"] by (simp add: show_gint_def)
  ultimately show ?thesis
    by (simp add: remmina_public_split_resolution_string_def sscanf_d_x_d_def)
qed

theorem resolution_roundtrip_witness:
  "remmina_public_split_resolution_string (Some (show_gint 1920 @ ''x'' @ show_gint 1080)) = Some (1920, 1080)"
  using resolution_roundtrip [of 1920 1080] by simp

section \<open>Versions and lists\<close>

text \<open>
  The test of the GTK version holds exactly when the asked version is at most the running
  one in the lexicographic order of major, minor and micro.
\<close>

theorem gtk_check_version_lex:
  "remmina_gtk_check_version rt major minor micro \<longleftrightarrow> (major, minor, micro) \<le> rt"
  by (cases rt) (auto simp: remmina_gtk_check_version_def)

text \<open>
  The rows of a combo box filled from a comma-separated list are the fields of the list,
  each as its own key, without an empty last one, after the empty choice if there is one.
\<close>

theorem combo_text_rows:
  "combo_rows (remmina_public_load_combo_text_d (Some text) def empty_choice) =
     (case empty_choice of None \<Rightarrow> [] | Some e \<Rightarrow> [([], e)]) @ map (\<lambda>w. (w, w)) (comma_fields text)"
  by (cases empty_choice)
    (simp_all add: remmina_public_load_combo_text_d_def combo_text_loop_rows combo_append_def Let_def)

end
