(* ===== verification/KeyFile.thy ===== *)
theory KeyFile
  imports CString "HOL-Library.AList"
begin

text \<open>
  GKeyFile, the format of \<open>remmina.pref\<close> and of the connection profiles. GLib is not part
  of the program: a key file is a value of a type variable, its operations are the fields
  of a record the modelled code is parameterised by, and the locale \<open>keyfile\<close> states what
  the program relies on. \<open>alist_ops\<close> is one concrete implementation, an association list
  with a textual form; it satisfies the locale and is what the witnesses evaluate.
\<close>

section \<open>The operations the program calls\<close>

text \<open>
  \<open>kf_load kf d\<close> is \<open>g_key_file_load_from_file\<close> and \<open>g_key_file_load_from_data\<close> on the
  contents \<open>d\<close> of the file, \<open>None\<close> when it cannot be read.
\<close>

record 'kf keyfile_ops =
  kf_new :: 'kf
  kf_load :: "'kf \<Rightarrow> cstr \<Rightarrow> bool \<times> 'kf"
  kf_to_data :: "'kf \<Rightarrow> string"
  kf_has_key :: "'kf \<Rightarrow> string \<Rightarrow> string \<Rightarrow> bool"
  kf_get_string :: "'kf \<Rightarrow> string \<Rightarrow> string \<Rightarrow> cstr"
  kf_get_boolean :: "'kf \<Rightarrow> string \<Rightarrow> string \<Rightarrow> bool"
  kf_get_integer :: "'kf \<Rightarrow> string \<Rightarrow> string \<Rightarrow> gint"
  kf_set_string :: "'kf \<Rightarrow> string \<Rightarrow> string \<Rightarrow> string \<Rightarrow> 'kf"
  kf_set_boolean :: "'kf \<Rightarrow> string \<Rightarrow> string \<Rightarrow> bool \<Rightarrow> 'kf"
  kf_set_integer :: "'kf \<Rightarrow> string \<Rightarrow> string \<Rightarrow> gint \<Rightarrow> 'kf"
  kf_remove_key :: "'kf \<Rightarrow> string \<Rightarrow> string \<Rightarrow> bool \<times> 'kf"
  kf_get_keys :: "'kf \<Rightarrow> string \<Rightarrow> string list option"
  kf_get_groups :: "'kf \<Rightarrow> string list"

text \<open>Group and key names in the range every version of GLib accepts.\<close>

definition kf_char :: "char \<Rightarrow> bool" where
  "kf_char c \<longleftrightarrow> c \<in> set ''abcdefghijklmnopqrstuvwxyzABCDEFGHIJKLMNOPQRSTUVWXYZ0123456789_-''"

definition kf_name :: "string \<Rightarrow> bool" where
  "kf_name s \<longleftrightarrow> s \<noteq> [] \<and> list_all kf_char s"

lemma kf_char_all: "list_all kf_char ''abcdefghijklmnopqrstuvwxyzABCDEFGHIJKLMNOPQRSTUVWXYZ0123456789_-''"
  by (simp add: kf_char_def list_all_iff)

lemmas kf_char_simps [simp] = kf_char_all [unfolded list.pred_inject simp_thms]

lemma kf_name_Cons [simp]: "kf_name (c # s) \<longleftrightarrow> kf_char c \<and> list_all kf_char s"
  by (simp add: kf_name_def)

text \<open>Everything a reader can learn about one key.\<close>

definition kf_reads :: "'kf keyfile_ops \<Rightarrow> 'kf \<Rightarrow> string \<Rightarrow> string \<Rightarrow> bool \<times> cstr \<times> bool \<times> gint" where
  "kf_reads ops kf g k =
     (kf_has_key ops kf g k, kf_get_string ops kf g k,
      kf_get_boolean ops kf g k, kf_get_integer ops kf g k)"

section \<open>Straight-line code over a key file\<close>

text \<open>
  The save routines are sequences of set and remove calls on one key file: \<open>kf_write\<close> is
  one such call, \<open>kf_run\<close> the sequence. \<open>g_key_file_set_string\<close> with a NULL value returns
  without storing anything.
\<close>

datatype kf_write =
    Set_string string string cstr
  | Set_boolean string string bool
  | Set_integer string string gint
  | Remove_key string string

primrec kf_write_key :: "kf_write \<Rightarrow> string \<times> string" where
  "kf_write_key (Set_string g k v) = (g, k)"
| "kf_write_key (Set_boolean g k b) = (g, k)"
| "kf_write_key (Set_integer g k i) = (g, k)"
| "kf_write_key (Remove_key g k) = (g, k)"

definition kf_put :: "'kf keyfile_ops \<Rightarrow> kf_write \<Rightarrow> 'kf \<Rightarrow> 'kf" where
  "kf_put ops w kf =
     (case w of
        Set_string g k v \<Rightarrow> (case v of None \<Rightarrow> kf | Some s \<Rightarrow> kf_set_string ops kf g k s)
      | Set_boolean g k b \<Rightarrow> kf_set_boolean ops kf g k b
      | Set_integer g k i \<Rightarrow> kf_set_integer ops kf g k i
      | Remove_key g k \<Rightarrow> snd (kf_remove_key ops kf g k))"

definition kf_run :: "'kf keyfile_ops \<Rightarrow> kf_write list \<Rightarrow> 'kf \<Rightarrow> 'kf" where
  "kf_run ops ws kf = fold (kf_put ops) ws kf"

text \<open>The last call that stores something under a key.\<close>

definition kf_effective :: "kf_write \<Rightarrow> bool" where
  "kf_effective w \<longleftrightarrow> (case w of Set_string g k None \<Rightarrow> False | _ \<Rightarrow> True)"

fun kf_last :: "kf_write list \<Rightarrow> string \<times> string \<Rightarrow> kf_write option" where
  "kf_last [] gk = None"
| "kf_last (w # ws) gk =
     (case kf_last ws gk of
        Some w' \<Rightarrow> Some w'
      | None \<Rightarrow> if kf_write_key w = gk \<and> kf_effective w then Some w else None)"

lemma kf_last_SomeD: "kf_last ws gk = Some w \<Longrightarrow> w \<in> set ws \<and> kf_write_key w = gk \<and> kf_effective w"
  by (induction ws) (auto split: option.splits if_splits)

text \<open>With one call per key, the last one is the one in the list.\<close>

lemma kf_last_mem:
  "distinct (map kf_write_key ws) \<Longrightarrow> w \<in> set ws \<Longrightarrow> kf_effective w \<Longrightarrow>
     kf_last ws (kf_write_key w) = Some w"
proof (induction ws)
  case Nil
  then show ?case by simp
next
  case (Cons x ws)
  show ?case
  proof (cases "w = x")
    case True
    have "kf_last ws (kf_write_key w) = None"
      using Cons.prems(1) True kf_last_SomeD [of ws "kf_write_key w"]
      by (cases "kf_last ws (kf_write_key w)") (force simp: image_iff)+
    with True Cons.prems show ?thesis by simp
  next
    case False
    with Cons show ?thesis by simp
  qed
qed

lemma kf_last_None: "gk \<notin> kf_write_key ` set ws \<Longrightarrow> kf_last ws gk = None"
  by (cases "kf_last ws gk") (auto dest: kf_last_SomeD)

text \<open>The \<open>has_key ? get : default\<close> idiom of the load routines.\<close>

definition kf_boolean_or :: "'kf keyfile_ops \<Rightarrow> 'kf \<Rightarrow> string \<Rightarrow> string \<Rightarrow> bool \<Rightarrow> bool" where
  "kf_boolean_or ops kf g k d =
     (if kf_has_key ops kf g k then kf_get_boolean ops kf g k else d)"

definition kf_integer_or :: "'kf keyfile_ops \<Rightarrow> 'kf \<Rightarrow> string \<Rightarrow> string \<Rightarrow> gint \<Rightarrow> gint" where
  "kf_integer_or ops kf g k d =
     (if kf_has_key ops kf g k then kf_get_integer ops kf g k else d)"

definition kf_string_or :: "'kf keyfile_ops \<Rightarrow> 'kf \<Rightarrow> string \<Rightarrow> string \<Rightarrow> cstr \<Rightarrow> cstr" where
  "kf_string_or ops kf g k d =
     (if kf_has_key ops kf g k then kf_get_string ops kf g k else d)"

text \<open>What is in a key file once a call has been made and no later one touched its key.\<close>

definition str_ok :: "(string \<Rightarrow> bool) \<Rightarrow> cstr \<Rightarrow> bool" where
  "str_ok text_ok s \<longleftrightarrow> (case s of None \<Rightarrow> False | Some t \<Rightarrow> text_ok t)"

definition kf_stored :: "'kf keyfile_ops \<Rightarrow> (string \<Rightarrow> bool) \<Rightarrow> 'kf \<Rightarrow> kf_write \<Rightarrow> bool" where
  "kf_stored ops text_ok kf w =
     (case w of
        Set_string g k v \<Rightarrow>
          str_ok text_ok v \<longrightarrow> kf_has_key ops kf g k \<and> kf_get_string ops kf g k = v
      | Set_boolean g k b \<Rightarrow> kf_has_key ops kf g k \<and> kf_get_boolean ops kf g k = b
      | Set_integer g k i \<Rightarrow> kf_has_key ops kf g k \<and> kf_get_integer ops kf g k = i
      | Remove_key g k \<Rightarrow> \<not> kf_has_key ops kf g k)"

lemma kf_stored_simps [simp]:
  "kf_stored ops text_ok kf (Set_string g k v) =
     (str_ok text_ok v \<longrightarrow> kf_has_key ops kf g k \<and> kf_get_string ops kf g k = v)"
  "kf_stored ops text_ok kf (Set_boolean g k b) = (kf_has_key ops kf g k \<and> kf_get_boolean ops kf g k = b)"
  "kf_stored ops text_ok kf (Set_integer g k i) = (kf_has_key ops kf g k \<and> kf_get_integer ops kf g k = i)"
  "kf_stored ops text_ok kf (Remove_key g k) = (\<not> kf_has_key ops kf g k)"
  by (simp_all add: kf_stored_def)

section \<open>What the program relies on\<close>

text \<open>
  The documented behaviour: a value set under a valid name is read back, by the getter of
  its type, and is present; setting or removing one key leaves the others alone; a key
  that is not there has no string; the serialised form parses to a key file with the same
  keys and values; the key list of a group lists its keys. \<open>text_ok\<close> is validity as UTF-8,
  without which \<open>g_key_file_get_string\<close> fails.
\<close>

locale keyfile =
  fixes ops :: "'kf keyfile_ops" and text_ok :: "string \<Rightarrow> bool"
  assumes get_set_string:
      "kf_name g \<Longrightarrow> kf_name k \<Longrightarrow> text_ok s \<Longrightarrow>
         kf_get_string ops (kf_set_string ops kf g k s) g k = Some s"
    and has_set_string:
      "kf_name g \<Longrightarrow> kf_name k \<Longrightarrow> kf_has_key ops (kf_set_string ops kf g k s) g k"
    and get_set_boolean:
      "kf_name g \<Longrightarrow> kf_name k \<Longrightarrow> kf_get_boolean ops (kf_set_boolean ops kf g k b) g k = b"
    and has_set_boolean:
      "kf_name g \<Longrightarrow> kf_name k \<Longrightarrow> kf_has_key ops (kf_set_boolean ops kf g k b) g k"
    and get_set_integer:
      "kf_name g \<Longrightarrow> kf_name k \<Longrightarrow> kf_get_integer ops (kf_set_integer ops kf g k i) g k = i"
    and has_set_integer:
      "kf_name g \<Longrightarrow> kf_name k \<Longrightarrow> kf_has_key ops (kf_set_integer ops kf g k i) g k"
    and has_remove: "\<not> kf_has_key ops (snd (kf_remove_key ops kf g k)) g k"
    and set_string_other:
      "(g', k') \<noteq> (g, k) \<Longrightarrow> kf_reads ops (kf_set_string ops kf g k s) g' k' = kf_reads ops kf g' k'"
    and set_boolean_other:
      "(g', k') \<noteq> (g, k) \<Longrightarrow> kf_reads ops (kf_set_boolean ops kf g k b) g' k' = kf_reads ops kf g' k'"
    and set_integer_other:
      "(g', k') \<noteq> (g, k) \<Longrightarrow> kf_reads ops (kf_set_integer ops kf g k i) g' k' = kf_reads ops kf g' k'"
    and remove_other:
      "(g', k') \<noteq> (g, k) \<Longrightarrow> kf_reads ops (snd (kf_remove_key ops kf g k)) g' k' = kf_reads ops kf g' k'"
    and absent_string: "\<not> kf_has_key ops kf g k \<Longrightarrow> kf_get_string ops kf g k = None"
    and load_data: "fst (kf_load ops kf0 (Some (kf_to_data ops kf)))"
    and reload: "kf_reads ops (snd (kf_load ops kf0 (Some (kf_to_data ops kf)))) g k = kf_reads ops kf g k"
    and new_empty: "\<not> kf_has_key ops (kf_new ops) g k"
    and keys_has_key:
      "(\<exists>ks. kf_get_keys ops kf g = Some ks \<and> k \<in> set ks) \<longleftrightarrow> kf_has_key ops kf g k"
    and reload_keys:
      "kf_get_keys ops (snd (kf_load ops kf0 (Some (kf_to_data ops kf)))) g = kf_get_keys ops kf g"
begin

lemma put_other:
  "gk \<noteq> kf_write_key w \<Longrightarrow> kf_reads ops (kf_put ops w kf) (fst gk) (snd gk) = kf_reads ops kf (fst gk) (snd gk)"
  by (cases gk; cases w)
    (simp_all add: kf_put_def set_string_other set_boolean_other set_integer_other remove_other
      split: option.splits)

lemma put_ineffective: "\<not> kf_effective w \<Longrightarrow> kf_put ops w kf = kf"
  by (cases w) (simp_all add: kf_effective_def kf_put_def split: option.splits)

lemma run_other:
  "kf_last ws gk = None \<Longrightarrow> kf_reads ops (kf_run ops ws kf) (fst gk) (snd gk) = kf_reads ops kf (fst gk) (snd gk)"
proof (induction ws arbitrary: kf)
  case Nil
  then show ?case by (simp add: kf_run_def)
next
  case (Cons w ws)
  then have n: "kf_last ws gk = None" and d: "kf_write_key w \<noteq> gk \<or> \<not> kf_effective w"
    by (auto split: option.splits if_splits)
  have "kf_reads ops (kf_run ops (w # ws) kf) (fst gk) (snd gk) =
      kf_reads ops (kf_run ops ws (kf_put ops w kf)) (fst gk) (snd gk)"
    by (simp add: kf_run_def)
  also have "\<dots> = kf_reads ops (kf_put ops w kf) (fst gk) (snd gk)"
    by (rule Cons.IH [OF n])
  also have "\<dots> = kf_reads ops kf (fst gk) (snd gk)"
    using d put_other [of gk w kf] put_ineffective [of w kf] by auto
  finally show ?case .
qed

lemma run_last:
  "kf_last ws gk = Some w \<Longrightarrow>
     \<exists>kf'. kf_reads ops (kf_run ops ws kf) (fst gk) (snd gk) = kf_reads ops (kf_put ops w kf') (fst gk) (snd gk)"
proof (induction ws arbitrary: kf)
  case Nil
  then show ?case by simp
next
  case (Cons x ws)
  have step: "kf_run ops (x # ws) kf = kf_run ops ws (kf_put ops x kf)" by (simp add: kf_run_def)
  show ?case
  proof (cases "kf_last ws gk")
    case None
    with Cons.prems have "w = x" by (auto split: if_splits)
    then show ?thesis unfolding step using run_other [OF None] by blast
  next
    case (Some y)
    with Cons.prems have "kf_last ws gk = Some w" by simp
    then show ?thesis unfolding step by (rule Cons.IH)
  qed
qed

text \<open>Reading after a sequence of calls and a save to a file.\<close>

lemma run_boolean:
  assumes "kf_name g" "kf_name k" "kf_last ws (g, k) = Some (Set_boolean g k b)"
  shows "kf_has_key ops (kf_run ops ws kf) g k" "kf_get_boolean ops (kf_run ops ws kf) g k = b"
  using run_last [OF assms(3), of kf] assms(1,2)
  by (auto simp: kf_reads_def kf_put_def has_set_boolean get_set_boolean)

lemma run_integer:
  assumes "kf_name g" "kf_name k" "kf_last ws (g, k) = Some (Set_integer g k i)"
  shows "kf_has_key ops (kf_run ops ws kf) g k" "kf_get_integer ops (kf_run ops ws kf) g k = i"
  using run_last [OF assms(3), of kf] assms(1,2)
  by (auto simp: kf_reads_def kf_put_def has_set_integer get_set_integer)

lemma run_string:
  assumes "kf_name g" "kf_name k" "kf_last ws (g, k) = Some (Set_string g k (Some s))"
  shows "kf_has_key ops (kf_run ops ws kf) g k"
    "text_ok s \<Longrightarrow> kf_get_string ops (kf_run ops ws kf) g k = Some s"
  using run_last [OF assms(3), of kf] assms(1,2)
  by (auto simp: kf_reads_def kf_put_def has_set_string get_set_string)

lemma run_removed:
  assumes "kf_last ws (g, k) = Some (Remove_key g k)"
  shows "\<not> kf_has_key ops (kf_run ops ws kf) g k"
  using run_last [OF assms, of kf] by (auto simp: kf_reads_def kf_put_def has_remove)

lemma run_untouched:
  assumes "kf_last ws (g, k) = None"
  shows "kf_has_key ops (kf_run ops ws kf) g k = kf_has_key ops kf g k"
    "kf_get_string ops (kf_run ops ws kf) g k = kf_get_string ops kf g k"
    "kf_get_boolean ops (kf_run ops ws kf) g k = kf_get_boolean ops kf g k"
    "kf_get_integer ops (kf_run ops ws kf) g k = kf_get_integer ops kf g k"
  using run_other [OF assms, of kf] by (simp_all add: kf_reads_def)

lemma reload_reads:
  "kf_has_key ops (snd (kf_load ops kf0 (Some (kf_to_data ops kf)))) g k = kf_has_key ops kf g k"
  "kf_get_string ops (snd (kf_load ops kf0 (Some (kf_to_data ops kf)))) g k = kf_get_string ops kf g k"
  "kf_get_boolean ops (snd (kf_load ops kf0 (Some (kf_to_data ops kf)))) g k = kf_get_boolean ops kf g k"
  "kf_get_integer ops (snd (kf_load ops kf0 (Some (kf_to_data ops kf)))) g k = kf_get_integer ops kf g k"
  using reload [of kf0 kf g k] by (simp_all add: kf_reads_def)

lemma boolean_or_run:
  assumes "kf_name g" "kf_name k" "kf_last ws (g, k) = Some (Set_boolean g k b)"
  shows "kf_boolean_or ops (snd (kf_load ops kf0 (Some (kf_to_data ops (kf_run ops ws kf))))) g k d = b"
  using run_boolean [OF assms] by (simp add: kf_boolean_or_def reload_reads)

lemma integer_or_run:
  assumes "kf_name g" "kf_name k" "kf_last ws (g, k) = Some (Set_integer g k i)"
  shows "kf_integer_or ops (snd (kf_load ops kf0 (Some (kf_to_data ops (kf_run ops ws kf))))) g k d = i"
  using run_integer [OF assms] by (simp add: kf_integer_or_def reload_reads)

lemma string_or_run:
  assumes "kf_name g" "kf_name k" "kf_last ws (g, k) = Some (Set_string g k (Some s))" "text_ok s"
  shows "kf_string_or ops (snd (kf_load ops kf0 (Some (kf_to_data ops (kf_run ops ws kf))))) g k d = Some s"
  using run_string [OF assms(1-3)] assms(4) by (simp add: kf_string_or_def reload_reads)

lemmas after_run = boolean_or_run integer_or_run string_or_run

text \<open>What each call of a sequence leaves in the file, when every key is written once.\<close>

lemma run_all_stored:
  assumes d: "distinct (map kf_write_key ws)"
    and n: "list_all (\<lambda>w. kf_name (fst (kf_write_key w)) \<and> kf_name (snd (kf_write_key w))) ws"
  shows "list_all (kf_stored ops text_ok (snd (kf_load ops kf0 (Some (kf_to_data ops (kf_run ops ws kf)))))) ws"
proof (unfold list_all_iff, rule ballI)
  fix w assume w: "w \<in> set ws"
  let ?kf = "snd (kf_load ops kf0 (Some (kf_to_data ops (kf_run ops ws kf))))"
  show "kf_stored ops text_ok ?kf w"
  proof (cases "kf_effective w")
    case False
    then show ?thesis by (auto simp: kf_effective_def str_ok_def split: kf_write.splits option.splits)
  next
    case True
    note l = kf_last_mem [OF d w True]
    have v: "kf_name (fst (kf_write_key w))" "kf_name (snd (kf_write_key w))"
      using n w by (auto simp: list_all_iff)
    show ?thesis
    proof (cases w)
      case (Set_string g k s)
      with True l v show ?thesis
        by (cases s) (simp_all add: str_ok_def reload_reads run_string)
    next
      case (Set_boolean g k b)
      with l v show ?thesis by (simp add: reload_reads run_boolean)
    next
      case (Set_integer g k i)
      with l v show ?thesis by (simp add: reload_reads run_integer)
    next
      case (Remove_key g k)
      with l show ?thesis by (simp add: reload_reads run_removed)
    qed
  qed
qed

end

section \<open>An implementation\<close>

text \<open>
  A key file as an association list from group and key to the value's text. Its textual
  form marks every character with \<open>1\<close> and every end with \<open>0\<close>, so that it can be parsed
  whatever the text holds.
\<close>

type_synonym alist_kf = "((string \<times> string) \<times> string) list"

fun put_text :: "string \<Rightarrow> string" where
  "put_text [] = ''0''"
| "put_text (c # s) = CHR ''1'' # c # put_text s"

fun get_text :: "string \<Rightarrow> (string \<times> string) option" where
  "get_text (m # r) =
     (if m = CHR ''0'' then Some ([], r)
      else case r of
             [] \<Rightarrow> None
           | c # r' \<Rightarrow> (case get_text r' of None \<Rightarrow> None | Some (s, q) \<Rightarrow> Some (c # s, q)))"
| "get_text [] = None"

fun put_alist :: "alist_kf \<Rightarrow> string" where
  "put_alist [] = ''0''"
| "put_alist (((g, k), v) # kf) = CHR ''1'' # put_text g @ put_text k @ put_text v @ put_alist kf"

lemma get_put_text [simp]: "get_text (put_text s @ r) = Some (s, r)"
  by (induction s) simp_all

lemma get_text_length: "get_text r = Some (s, q) \<Longrightarrow> length q < length r"
proof (induction r arbitrary: s q rule: get_text.induct)
  case (1 m r)
  show ?case
  proof (cases "m = CHR ''0'' \<or> r = []")
    case True
    with "1.prems" show ?thesis by (auto split: if_splits)
  next
    case False
    then obtain c r' where r: "r = c # r'" by (cases r) auto
    with False "1.prems" obtain s' where "get_text r' = Some (s', q)"
      by (auto split: option.splits)
    with False r "1.IH" have "length q < length r'" by blast
    with r show ?thesis by simp
  qed
qed simp

function get_alist :: "string \<Rightarrow> alist_kf option" where
  "get_alist r =
     (case r of
        [] \<Rightarrow> None
      | m # r0 \<Rightarrow>
          if m = CHR ''0'' then Some []
          else (case get_text r0 of
                  None \<Rightarrow> None
                | Some (g, r1) \<Rightarrow>
                    (case get_text r1 of
                       None \<Rightarrow> None
                     | Some (k, r2) \<Rightarrow>
                         (case get_text r2 of
                            None \<Rightarrow> None
                          | Some (v, r3) \<Rightarrow>
                              (case get_alist r3 of None \<Rightarrow> None | Some kf \<Rightarrow> Some (((g, k), v) # kf))))))"
  by pat_completeness auto
termination
  by (relation "measure length") (auto dest!: get_text_length)

declare get_alist.simps [simp del]

lemma get_put_alist [simp]: "get_alist (put_alist kf) = Some kf"
proof (induction kf rule: put_alist.induct)
  case 1
  then show ?case by (subst get_alist.simps) simp
next
  case (2 g k v kf)
  then show ?case by (subst get_alist.simps) simp
qed

declare put_alist.simps [simp del] put_text.simps [simp del]

definition alist_get :: "alist_kf \<Rightarrow> string \<Rightarrow> string \<Rightarrow> cstr" where
  "alist_get kf g k = map_of kf (g, k)"

definition alist_keys :: "alist_kf \<Rightarrow> string \<Rightarrow> string list option" where
  "alist_keys kf g =
     (let ks = map (snd \<circ> fst) (filter (\<lambda>e. fst (fst e) = g) kf) in if ks = [] then None else Some ks)"

definition alist_ops :: "alist_kf keyfile_ops" where
  "alist_ops = \<lparr>
     kf_new = [],
     kf_load = (\<lambda>kf d. case d of None \<Rightarrow> (False, kf)
                       | Some t \<Rightarrow> (case get_alist t of None \<Rightarrow> (False, []) | Some kf' \<Rightarrow> (True, kf'))),
     kf_to_data = put_alist,
     kf_has_key = (\<lambda>kf g k. alist_get kf g k \<noteq> None),
     kf_get_string = alist_get,
     kf_get_boolean = (\<lambda>kf g k. alist_get kf g k = Some ''true''),
     kf_get_integer = (\<lambda>kf g k. case alist_get kf g k of None \<Rightarrow> 0 | Some t \<Rightarrow> atoi t),
     kf_set_string = (\<lambda>kf g k v. AList.update (g, k) v kf),
     kf_set_boolean = (\<lambda>kf g k b. AList.update (g, k) (if b then ''true'' else ''false'') kf),
     kf_set_integer = (\<lambda>kf g k i. AList.update (g, k) (show_gint i) kf),
     kf_remove_key = (\<lambda>kf g k. (alist_get kf g k \<noteq> None, AList.delete (g, k) kf)),
     kf_get_keys = alist_keys,
     kf_get_groups = (\<lambda>kf. remdups (map (fst \<circ> fst) kf))\<rparr>"

lemma alist_ops_simps [simp]:
  "kf_new alist_ops = []"
  "kf_load alist_ops kf (Some (put_alist kf')) = (True, kf')"
  "kf_load alist_ops kf None = (False, kf)"
  "kf_to_data alist_ops = put_alist"
  "kf_has_key alist_ops kf g k \<longleftrightarrow> alist_get kf g k \<noteq> None"
  "kf_get_string alist_ops = alist_get"
  "kf_get_boolean alist_ops kf g k \<longleftrightarrow> alist_get kf g k = Some ''true''"
  "kf_get_integer alist_ops kf g k = (case alist_get kf g k of None \<Rightarrow> 0 | Some t \<Rightarrow> atoi t)"
  "kf_get_keys alist_ops = alist_keys"
  "kf_get_groups alist_ops kf = remdups (map (fst \<circ> fst) kf)"
  by (simp_all add: alist_ops_def)

lemma alist_get_simps [simp]:
  "alist_get [] g k = None"
  "alist_get (((g', k'), v) # kf) g k = (if g' = g \<and> k' = k then Some v else alist_get kf g k)"
  by (simp_all add: alist_get_def)

lemma alist_get_None: "alist_get kf g k = None \<longleftrightarrow> (\<forall>v. ((g, k), v) \<notin> set kf)"
  by (auto simp: alist_get_def map_of_eq_None_iff image_iff)

lemma alist_keys_has:
  "(\<exists>ks. alist_keys kf g = Some ks \<and> k \<in> set ks) \<longleftrightarrow> alist_get kf g k \<noteq> None"
  unfolding alist_get_None alist_keys_def Let_def by (auto simp: filter_empty_conv) force+

lemma alist_get_update:
  "alist_get (AList.update (g, k) v kf) g' k' = (if (g', k') = (g, k) then Some v else alist_get kf g' k')"
  by (simp add: alist_get_def update_conv')

lemma alist_get_delete:
  "alist_get (AList.delete (g, k) kf) g' k' = (if (g', k') = (g, k) then None else alist_get kf g' k')"
  by (simp add: alist_get_def delete_conv' del: delete_conv)

interpretation alist: keyfile alist_ops "\<lambda>_. True"
  by unfold_locales
    (auto simp: alist_ops_def kf_reads_def alist_get_update alist_get_delete alist_keys_has)

end
