(* ===== verification/PrefData.thy ===== *)
theory PrefData
  imports KeyFile
begin

text \<open>
  The preferences of \<open>src/remmina_pref.c\<close> as data: the struct of \<open>src/remmina_pref.h\<close>, the
  part of \<open>remmina_pref_init\<close> that fills it from a key file, the part of \<open>remmina_pref_save\<close>
  that writes it to one, and the lemma that the second undoes the first. The command line
  flags, the build options and the desktop's directories are a record of parameters.
\<close>

section \<open>The preferences\<close>

text \<open>
  The field names are the code's with the prefix \<open>pref_\<close>; \<open>gint\<close> and \<open>guint\<close> are 32-bit
  words, and a string may be NULL.
\<close>

record color_pref =
  col_background :: cstr
  col_cursor :: cstr
  col_cursor_foreground :: cstr
  col_highlight :: cstr
  col_highlight_foreground :: cstr
  col_colorBD :: cstr
  col_foreground :: cstr
  col_color0 :: cstr
  col_color1 :: cstr
  col_color2 :: cstr
  col_color3 :: cstr
  col_color4 :: cstr
  col_color5 :: cstr
  col_color6 :: cstr
  col_color7 :: cstr
  col_color8 :: cstr
  col_color9 :: cstr
  col_color10 :: cstr
  col_color11 :: cstr
  col_color12 :: cstr
  col_color13 :: cstr
  col_color14 :: cstr
  col_color15 :: cstr

record pref =
  pref_datadir_path :: cstr
  pref_remmina_file_name :: cstr
  pref_screenshot_path :: cstr
  pref_deny_screenshot_clipboard :: bool
  pref_screenshot_name :: cstr
  pref_save_view_mode :: bool
  pref_default_action :: gint
  pref_scale_quality :: gint
  pref_auto_scroll_step :: gint
  pref_recent_maximum :: gint
  pref_resolutions :: cstr
  pref_keystrokes :: cstr
  pref_confirm_close :: bool
  pref_dark_theme :: bool
  pref_list_refresh_workaround :: bool
  pref_fullscreen_on_auto :: bool
  pref_always_show_tab :: bool
  pref_always_show_notes :: bool
  pref_mp_left :: bool
  pref_start_fullscreen :: bool
  pref_start_dynres :: bool
  pref_toolbar_fix_position_multimon :: bool
  pref_hide_connection_toolbar :: bool
  pref_hide_searchbar :: bool
  pref_default_mode :: gint
  pref_tab_mode :: gint
  pref_fullscreen_toolbar_visibility :: gint
  pref_fullscreen_toolbar_delay :: gint
  pref_grab_color :: cstr
  pref_grab_color_switch :: bool
  pref_applet_new_ontop :: bool
  pref_applet_hide_count :: bool
  pref_disable_tray_icon :: bool
  pref_ssh_loglevel :: gint
  pref_ssh_parseconfig :: bool
  pref_sshtunnel_port :: gint
  pref_ssh_tcp_keepidle :: gint
  pref_ssh_tcp_keepintvl :: gint
  pref_ssh_tcp_keepcnt :: gint
  pref_ssh_tcp_usrtimeout :: gint
  pref_hostkey :: guint
  pref_shortcutkey_fullscreen :: guint
  pref_shortcutkey_autofit :: guint
  pref_shortcutkey_prevtab :: guint
  pref_shortcutkey_clipboard :: guint
  pref_shortcutkey_nexttab :: guint
  pref_shortcutkey_dynres :: guint
  pref_shortcutkey_scale :: guint
  pref_shortcutkey_multimon :: guint
  pref_shortcutkey_grab :: guint
  pref_shortcutkey_viewonly :: guint
  pref_shortcutkey_screenshot :: guint
  pref_shortcutkey_minimize :: guint
  pref_shortcutkey_disconnect :: guint
  pref_shortcutkey_toolbar :: guint
  pref_use_primary_password :: bool
  pref_unlock_password :: cstr
  pref_unlock_repassword :: cstr
  pref_unlock_timeout :: gint
  pref_lock_connect :: bool
  pref_lock_edit :: bool
  pref_lock_view_passwords :: bool
  pref_enc_mode :: gint
  pref_audit :: bool
  pref_trust_all :: bool
  pref_vte_font :: cstr
  pref_vte_allow_bold_text :: bool
  pref_vte_system_colors :: bool
  pref_vte_lines :: gint
  pref_vte_shortcutkey_copy :: guint
  pref_vte_shortcutkey_paste :: guint
  pref_vte_shortcutkey_select_all :: guint
  pref_vte_shortcutkey_increase_font :: guint
  pref_vte_shortcutkey_decrease_font :: guint
  pref_vte_shortcutkey_search_text :: guint
  pref_color_file :: cstr
  pref_hide_toolbar :: bool
  pref_small_toolbutton :: bool
  pref_view_file_mode :: gint
  pref_applet_enable_avahi :: bool
  pref_main_width :: gint
  pref_main_height :: gint
  pref_main_maximize :: bool
  pref_main_sort_column_id :: gint
  pref_main_sort_order :: gint
  pref_expanded_group :: cstr
  pref_toolbar_pin_down :: bool
  pref_floating_toolbar_placement :: gint
  pref_floating_toolbar_monitor :: gint
  pref_toolbar_placement :: gint
  pref_prevent_snap_welcome_message :: bool
  pref_last_quickconnect_protocol :: cstr
  pref_secret :: cstr
  pref_uid :: cstr
  pref_color_pref :: color_pref
  pref_disable_stats :: bool
  pref_info_uid_prefix :: cstr
  pref_disable_news :: bool
  pref_periodic_news_last_checksum :: cstr
  pref_disable_tip :: bool

record pref_opts =
  opt_extrahardening :: bool
  opt_disabletoolbar :: bool
  opt_disabletrayicon :: bool
  opt_fullscreen :: bool
  opt_disablenews :: bool
  opt_disablestats :: bool
  opt_build_disable_news :: bool
  opt_build_disable_stats :: bool
  opt_build_disable_tip :: bool
  opt_sodium :: bool
  opt_primary_monitor :: gint
  opt_pictures_dir :: cstr
  opt_home_dir :: string

text \<open>The globals before the first load: static storage is zero.\<close>

definition color_pref_zero :: color_pref where
  "color_pref_zero = \<lparr>
     col_background = None,
     col_cursor = None,
     col_cursor_foreground = None,
     col_highlight = None,
     col_highlight_foreground = None,
     col_colorBD = None,
     col_foreground = None,
     col_color0 = None,
     col_color1 = None,
     col_color2 = None,
     col_color3 = None,
     col_color4 = None,
     col_color5 = None,
     col_color6 = None,
     col_color7 = None,
     col_color8 = None,
     col_color9 = None,
     col_color10 = None,
     col_color11 = None,
     col_color12 = None,
     col_color13 = None,
     col_color14 = None,
     col_color15 = None\<rparr>"

definition pref_zero :: pref where
  "pref_zero = \<lparr>
     pref_datadir_path = None,
     pref_remmina_file_name = None,
     pref_screenshot_path = None,
     pref_deny_screenshot_clipboard = False,
     pref_screenshot_name = None,
     pref_save_view_mode = False,
     pref_default_action = 0,
     pref_scale_quality = 0,
     pref_auto_scroll_step = 0,
     pref_recent_maximum = 0,
     pref_resolutions = None,
     pref_keystrokes = None,
     pref_confirm_close = False,
     pref_dark_theme = False,
     pref_list_refresh_workaround = False,
     pref_fullscreen_on_auto = False,
     pref_always_show_tab = False,
     pref_always_show_notes = False,
     pref_mp_left = False,
     pref_start_fullscreen = False,
     pref_start_dynres = False,
     pref_toolbar_fix_position_multimon = False,
     pref_hide_connection_toolbar = False,
     pref_hide_searchbar = False,
     pref_default_mode = 0,
     pref_tab_mode = 0,
     pref_fullscreen_toolbar_visibility = 0,
     pref_fullscreen_toolbar_delay = 0,
     pref_grab_color = None,
     pref_grab_color_switch = False,
     pref_applet_new_ontop = False,
     pref_applet_hide_count = False,
     pref_disable_tray_icon = False,
     pref_ssh_loglevel = 0,
     pref_ssh_parseconfig = False,
     pref_sshtunnel_port = 0,
     pref_ssh_tcp_keepidle = 0,
     pref_ssh_tcp_keepintvl = 0,
     pref_ssh_tcp_keepcnt = 0,
     pref_ssh_tcp_usrtimeout = 0,
     pref_hostkey = 0,
     pref_shortcutkey_fullscreen = 0,
     pref_shortcutkey_autofit = 0,
     pref_shortcutkey_prevtab = 0,
     pref_shortcutkey_clipboard = 0,
     pref_shortcutkey_nexttab = 0,
     pref_shortcutkey_dynres = 0,
     pref_shortcutkey_scale = 0,
     pref_shortcutkey_multimon = 0,
     pref_shortcutkey_grab = 0,
     pref_shortcutkey_viewonly = 0,
     pref_shortcutkey_screenshot = 0,
     pref_shortcutkey_minimize = 0,
     pref_shortcutkey_disconnect = 0,
     pref_shortcutkey_toolbar = 0,
     pref_use_primary_password = False,
     pref_unlock_password = None,
     pref_unlock_repassword = None,
     pref_unlock_timeout = 0,
     pref_lock_connect = False,
     pref_lock_edit = False,
     pref_lock_view_passwords = False,
     pref_enc_mode = 0,
     pref_audit = False,
     pref_trust_all = False,
     pref_vte_font = None,
     pref_vte_allow_bold_text = False,
     pref_vte_system_colors = False,
     pref_vte_lines = 0,
     pref_vte_shortcutkey_copy = 0,
     pref_vte_shortcutkey_paste = 0,
     pref_vte_shortcutkey_select_all = 0,
     pref_vte_shortcutkey_increase_font = 0,
     pref_vte_shortcutkey_decrease_font = 0,
     pref_vte_shortcutkey_search_text = 0,
     pref_color_file = None,
     pref_hide_toolbar = False,
     pref_small_toolbutton = False,
     pref_view_file_mode = 0,
     pref_applet_enable_avahi = False,
     pref_main_width = 0,
     pref_main_height = 0,
     pref_main_maximize = False,
     pref_main_sort_column_id = 0,
     pref_main_sort_order = 0,
     pref_expanded_group = None,
     pref_toolbar_pin_down = False,
     pref_floating_toolbar_placement = 0,
     pref_floating_toolbar_monitor = 0,
     pref_toolbar_placement = 0,
     pref_prevent_snap_welcome_message = False,
     pref_last_quickconnect_protocol = None,
     pref_secret = None,
     pref_uid = None,
     pref_color_pref = color_pref_zero,
     pref_disable_stats = False,
     pref_info_uid_prefix = None,
     pref_disable_news = False,
     pref_periodic_news_last_checksum = None,
     pref_disable_tip = False\<rparr>"

section \<open>Reading\<close>

definition default_resolutions :: string where
  "default_resolutions = ''640x480,800x600,1024x768,1152x864,1280x960,1400x1050,1920x1080''"

text \<open>The two bytes in the middle are the section sign in UTF-8, the last two are a backslash and an \<open>n\<close>.\<close>

definition default_keystrokes :: string where
  "default_keystrokes =
     ''Send hello world'' @ [CHR 0xC2, CHR 0xA7] @ ''hello world'' @ [CHR 0x5C] @ ''n''"

definition GDK_INTERP_HYPER :: gint where
  "GDK_INTERP_HYPER = 3"

definition gint_max :: "gint \<Rightarrow> gint \<Rightarrow> gint" where
  "gint_max a b = (if sint b < sint a then a else b)"

definition pref_load_security :: "'kf keyfile_ops \<Rightarrow> pref_opts \<Rightarrow> 'kf \<Rightarrow> pref \<Rightarrow> pref" where
  "pref_load_security ops opt kf p = p\<lparr>
     pref_save_view_mode := kf_boolean_or ops kf ''remmina_pref'' ''save_view_mode'' True,
     pref_confirm_close := (if opt_extrahardening opt then False else kf_boolean_or ops kf ''remmina_pref'' ''confirm_close'' True),
     pref_use_primary_password := (if kf_has_key ops kf ''remmina_pref'' ''use_master_password''
       then kf_get_boolean ops kf ''remmina_pref'' ''use_master_password''
       else kf_boolean_or ops kf ''remmina_pref'' ''use_primary_password'' False),
     pref_unlock_timeout := kf_integer_or ops kf ''remmina_pref'' ''unlock_timeout'' 300,
     pref_unlock_password := kf_string_or ops kf ''remmina_pref'' ''unlock_password'' (Some []),
     pref_lock_connect := kf_boolean_or ops kf ''remmina_pref'' ''lock_connect'' False,
     pref_lock_edit := kf_boolean_or ops kf ''remmina_pref'' ''lock_edit'' False,
     pref_lock_view_passwords := kf_boolean_or ops kf ''remmina_pref'' ''lock_view_passwords'' False,
     pref_enc_mode := kf_integer_or ops kf ''remmina_pref'' ''enc_mode'' 1,
     pref_audit := kf_boolean_or ops kf ''remmina_pref'' ''audit'' False,
     pref_trust_all := kf_boolean_or ops kf ''remmina_pref'' ''trust_all'' False\<rparr>"

definition pref_load_appearance :: "'kf keyfile_ops \<Rightarrow> pref_opts \<Rightarrow> 'kf \<Rightarrow> pref \<Rightarrow> pref" where
  "pref_load_appearance ops opt kf p = p\<lparr>
     pref_fullscreen_on_auto := kf_boolean_or ops kf ''remmina_pref'' ''fullscreen_on_auto'' True,
     pref_floating_toolbar_placement := kf_integer_or ops kf ''remmina_pref'' ''floating_toolbar_placement'' 0,
     pref_floating_toolbar_monitor := kf_integer_or ops kf ''remmina_pref'' ''floating_toolbar_monitor'' (opt_primary_monitor opt),
     pref_prevent_snap_welcome_message := kf_boolean_or ops kf ''remmina_pref'' ''prevent_snap_welcome_message'' False,
     pref_last_quickconnect_protocol := kf_string_or ops kf ''remmina_pref'' ''last_quickconnect_protocol'' (Some []),
     pref_toolbar_placement := kf_integer_or ops kf ''remmina_pref'' ''toolbar_placement'' 3,
     pref_always_show_tab := (if opt_extrahardening opt then False else kf_boolean_or ops kf ''remmina_pref'' ''always_show_tab'' True),
     pref_always_show_notes := kf_boolean_or ops kf ''remmina_pref'' ''always_show_notes'' False,
     pref_mp_left := kf_boolean_or ops kf ''remmina_pref'' ''mp_left'' False,
     pref_start_fullscreen := kf_boolean_or ops kf ''remmina_pref'' ''start_fullscreen'' False,
     pref_start_dynres := kf_boolean_or ops kf ''remmina_pref'' ''start_dynres'' False,
     pref_toolbar_fix_position_multimon := kf_boolean_or ops kf ''remmina_pref'' ''toolbar_fix_position_multimon'' True,
     pref_hide_connection_toolbar := (if opt_disabletoolbar opt then True else kf_boolean_or ops kf ''remmina_pref'' ''hide_connection_toolbar'' False),
     pref_hide_searchbar := (if opt_extrahardening opt then True else kf_boolean_or ops kf ''remmina_pref'' ''hide_searchbar'' False)\<rparr>"

definition pref_load_window :: "'kf keyfile_ops \<Rightarrow> pref_opts \<Rightarrow> 'kf \<Rightarrow> pref \<Rightarrow> pref" where
  "pref_load_window ops opt kf p = p\<lparr>
     pref_default_action := kf_integer_or ops kf ''remmina_pref'' ''default_action'' 0,
     pref_scale_quality := kf_integer_or ops kf ''remmina_pref'' ''scale_quality'' GDK_INTERP_HYPER,
     pref_hide_toolbar := kf_boolean_or ops kf ''remmina_pref'' ''hide_toolbar'' False,
     pref_small_toolbutton := kf_boolean_or ops kf ''remmina_pref'' ''small_toolbutton'' False,
     pref_view_file_mode := kf_integer_or ops kf ''remmina_pref'' ''view_file_mode'' 0,
     pref_resolutions := kf_string_or ops kf ''remmina_pref'' ''resolutions'' (Some default_resolutions),
     pref_keystrokes := kf_string_or ops kf ''remmina_pref'' ''keystrokes'' (Some default_keystrokes),
     pref_main_width := (if kf_has_key ops kf ''remmina_pref'' ''main_width''
       then gint_max 600 (kf_get_integer ops kf ''remmina_pref'' ''main_width'') else 600),
     pref_main_height := (if kf_has_key ops kf ''remmina_pref'' ''main_height''
       then gint_max 400 (kf_get_integer ops kf ''remmina_pref'' ''main_height'') else 400),
     pref_main_maximize := kf_boolean_or ops kf ''remmina_pref'' ''main_maximize'' False,
     pref_main_sort_column_id := kf_integer_or ops kf ''remmina_pref'' ''main_sort_column_id'' 1,
     pref_main_sort_order := kf_integer_or ops kf ''remmina_pref'' ''main_sort_order'' 0,
     pref_expanded_group := kf_string_or ops kf ''remmina_pref'' ''expanded_group'' (Some []),
     pref_toolbar_pin_down := kf_boolean_or ops kf ''remmina_pref'' ''toolbar_pin_down'' False,
     pref_ssh_loglevel := kf_integer_or ops kf ''remmina_pref'' ''ssh_loglevel'' 1,
     pref_deny_screenshot_clipboard := kf_boolean_or ops kf ''remmina_pref'' ''deny_screenshot_clipboard'' True,
     pref_datadir_path := kf_string_or ops kf ''remmina_pref'' ''datadir_path'' (Some [])\<rparr>"

text \<open>
  \<open>strcmp\<close> on a name that is there but is not valid UTF-8 would read through NULL: \<open>None\<close>.
\<close>

definition pref_load_paths :: "'kf keyfile_ops \<Rightarrow> pref_opts \<Rightarrow> 'kf \<Rightarrow> pref \<Rightarrow> pref option" where
  "pref_load_paths ops opt kf p =
     (case (if kf_has_key ops kf ''remmina_pref'' ''remmina_file_name''
            then (case kf_get_string ops kf ''remmina_pref'' ''remmina_file_name'' of
                    None \<Rightarrow> None
                  | Some s \<Rightarrow> if s \<noteq> [] then Some s else Some ''%G_%P_%N_%h'')
            else Some ''%G_%P_%N_%h'') of
        None \<Rightarrow> None
      | Some name \<Rightarrow> Some (p\<lparr>
          pref_remmina_file_name := Some name,
          pref_screenshot_path :=
            (if kf_has_key ops kf ''remmina_pref'' ''screenshot_path''
             then kf_get_string ops kf ''remmina_pref'' ''screenshot_path''
             else case opt_pictures_dir opt of
                    None \<Rightarrow> Some (opt_home_dir opt)
                  | Some d \<Rightarrow> Some d),
          pref_screenshot_name :=
            kf_string_or ops kf ''remmina_pref'' ''screenshot_name'' (Some ''remmina_%p_%h_%Y%m%d-%H%M%S'')\<rparr>))"

definition pref_load_network :: "'kf keyfile_ops \<Rightarrow> pref_opts \<Rightarrow> 'kf \<Rightarrow> pref \<Rightarrow> pref" where
  "pref_load_network ops opt kf p = p\<lparr>
     pref_ssh_parseconfig := kf_boolean_or ops kf ''remmina_pref'' ''ssh_parseconfig'' True,
     pref_sshtunnel_port := kf_integer_or ops kf ''remmina_pref'' ''sshtunnel_port'' 4732,
     pref_ssh_tcp_keepidle := kf_integer_or ops kf ''remmina_pref'' ''ssh_tcp_keepidle'' 20,
     pref_ssh_tcp_keepintvl := kf_integer_or ops kf ''remmina_pref'' ''ssh_tcp_keepintvl'' 10,
     pref_ssh_tcp_keepcnt := kf_integer_or ops kf ''remmina_pref'' ''ssh_tcp_keepcnt'' 3,
     pref_ssh_tcp_usrtimeout := kf_integer_or ops kf ''remmina_pref'' ''ssh_tcp_usrtimeout'' 60000,
     pref_applet_new_ontop := kf_boolean_or ops kf ''remmina_pref'' ''applet_new_ontop'' False,
     pref_applet_hide_count := kf_boolean_or ops kf ''remmina_pref'' ''applet_hide_count'' False,
     pref_applet_enable_avahi := kf_boolean_or ops kf ''remmina_pref'' ''applet_enable_avahi'' False,
     pref_disable_tray_icon := (if opt_disabletrayicon opt then True else kf_boolean_or ops kf ''remmina_pref'' ''disable_tray_icon'' False),
     pref_dark_theme := kf_boolean_or ops kf ''remmina_pref'' ''dark_theme'' False,
     pref_list_refresh_workaround := kf_boolean_or ops kf ''remmina_pref'' ''list_refresh_workaround'' False,
     pref_grab_color_switch := kf_boolean_or ops kf ''remmina_pref'' ''grab_color_switch'' False,
     pref_grab_color := kf_string_or ops kf ''remmina_pref'' ''grab_color'' (Some ''#00ff00''),
     pref_recent_maximum := kf_integer_or ops kf ''remmina_pref'' ''recent_maximum'' 10,
     pref_default_mode := (if opt_fullscreen opt then 4 else kf_integer_or ops kf ''remmina_pref'' ''default_mode'' 0),
     pref_tab_mode := kf_integer_or ops kf ''remmina_pref'' ''tab_mode'' 0,
     pref_fullscreen_toolbar_visibility := (if opt_disabletoolbar opt then 2 else kf_integer_or ops kf ''remmina_pref'' ''fullscreen_toolbar_visibility'' 0),
     pref_fullscreen_toolbar_delay := kf_integer_or ops kf ''remmina_pref'' ''fullscreen_toolbar_delay'' 0\<rparr>"

definition pref_load_keys :: "'kf keyfile_ops \<Rightarrow> pref_opts \<Rightarrow> 'kf \<Rightarrow> pref \<Rightarrow> pref" where
  "pref_load_keys ops opt kf p = p\<lparr>
     pref_auto_scroll_step := kf_integer_or ops kf ''remmina_pref'' ''auto_scroll_step'' 10,
     pref_hostkey := kf_integer_or ops kf ''remmina_pref'' ''hostkey'' 0xffe4,
     pref_shortcutkey_fullscreen := kf_integer_or ops kf ''remmina_pref'' ''shortcutkey_fullscreen'' 0x66,
     pref_shortcutkey_autofit := kf_integer_or ops kf ''remmina_pref'' ''shortcutkey_autofit'' 0x31,
     pref_shortcutkey_nexttab := kf_integer_or ops kf ''remmina_pref'' ''shortcutkey_nexttab'' 0xff53,
     pref_shortcutkey_prevtab := kf_integer_or ops kf ''remmina_pref'' ''shortcutkey_prevtab'' 0xff51,
     pref_shortcutkey_scale := kf_integer_or ops kf ''remmina_pref'' ''shortcutkey_scale'' 0x73,
     pref_shortcutkey_clipboard := kf_integer_or ops kf ''remmina_pref'' ''shortcutkey_clipboard'' 0x62,
     pref_shortcutkey_viewonly := kf_integer_or ops kf ''remmina_pref'' ''shortcutkey_viewonly'' 0x6d,
     pref_shortcutkey_multimon := kf_integer_or ops kf ''remmina_pref'' ''shortcutkey_multimon'' 0xff55,
     pref_shortcutkey_grab := kf_integer_or ops kf ''remmina_pref'' ''shortcutkey_grab'' 0xffe4,
     pref_shortcutkey_minimize := kf_integer_or ops kf ''remmina_pref'' ''shortcutkey_minimize'' 0xffc6,
     pref_shortcutkey_screenshot := kf_integer_or ops kf ''remmina_pref'' ''shortcutkey_screenshot'' 0xffc9,
     pref_shortcutkey_disconnect := kf_integer_or ops kf ''remmina_pref'' ''shortcutkey_disconnect'' 0xffc1,
     pref_shortcutkey_toolbar := kf_integer_or ops kf ''remmina_pref'' ''shortcutkey_toolbar'' 0x74\<rparr>"

definition pref_load_terminal :: "'kf keyfile_ops \<Rightarrow> pref_opts \<Rightarrow> 'kf \<Rightarrow> pref \<Rightarrow> pref" where
  "pref_load_terminal ops opt kf p = p\<lparr>
     pref_secret := kf_string_or ops kf ''remmina_pref'' ''secret'' None,
     pref_uid := kf_string_or ops kf ''remmina_pref'' ''uid'' None,
     pref_vte_font := kf_string_or ops kf ''remmina_pref'' ''vte_font'' None,
     pref_vte_allow_bold_text := kf_boolean_or ops kf ''remmina_pref'' ''vte_allow_bold_text'' True,
     pref_vte_lines := kf_integer_or ops kf ''remmina_pref'' ''vte_lines'' 512,
     pref_vte_shortcutkey_copy := kf_integer_or ops kf ''remmina_pref'' ''vte_shortcutkey_copy'' 0x63,
     pref_vte_shortcutkey_paste := kf_integer_or ops kf ''remmina_pref'' ''vte_shortcutkey_paste'' 0x76,
     pref_vte_shortcutkey_select_all := kf_integer_or ops kf ''remmina_pref'' ''vte_shortcutkey_select_all'' 0x61,
     pref_vte_shortcutkey_increase_font := kf_integer_or ops kf ''remmina_pref'' ''vte_shortcutkey_increase_font'' 0xff55,
     pref_vte_shortcutkey_decrease_font := kf_integer_or ops kf ''remmina_pref'' ''vte_shortcutkey_decrease_font'' 0xff56,
     pref_vte_shortcutkey_search_text := kf_integer_or ops kf ''remmina_pref'' ''vte_shortcutkey_search_text'' 0x67\<rparr>"

text \<open>
  News, statistics and tips, with the globals \<open>info_disable_news\<close>, \<open>info_disable_stats\<close> and
  \<open>info_disable_tip\<close>. A command line flag sets the global and leaves the preference as it was.
\<close>

record pref_info =
  info_disable_news :: bool
  info_disable_stats :: bool
  info_disable_tip :: bool

definition pref_load_info ::
  "'kf keyfile_ops \<Rightarrow> pref_opts \<Rightarrow> 'kf \<Rightarrow> pref \<times> pref_info \<Rightarrow> pref \<times> pref_info" where
  "pref_load_info ops opt kf = (\<lambda>(p, i).
     let p = p\<lparr>pref_periodic_news_last_checksum :=
                 kf_string_or ops kf ''remmina_info'' ''periodic_news_last_checksum'' None\<rparr>;
         (p, i) =
           (if opt_disablenews opt then (p, i\<lparr>info_disable_news := True\<rparr>)
            else let d = (if kf_has_key ops kf ''remmina_info'' ''periodic_news_permitted''
                          then \<not> kf_get_boolean ops kf ''remmina_info'' ''periodic_news_permitted''
                          else True)
                 in (p\<lparr>pref_disable_news := d\<rparr>, i\<lparr>info_disable_news := d\<rparr>));
         (p, i) =
           (if opt_disablestats opt then (p, i\<lparr>info_disable_stats := True\<rparr>)
            else let d = (if kf_has_key ops kf ''remmina_info'' ''periodic_usage_stats_permitted''
                          then \<not> kf_get_boolean ops kf ''remmina_info'' ''periodic_usage_stats_permitted''
                          else True)
                 in (p\<lparr>pref_disable_stats := d\<rparr>, i\<lparr>info_disable_stats := d\<rparr>));
         d = kf_boolean_or ops kf ''remmina_info'' ''disable_tip'' True;
         p = p\<lparr>pref_disable_tip := d,
                pref_color_file := kf_string_or ops kf ''remmina_info'' ''ssh_color_file'' None\<rparr>;
         i = i\<lparr>info_disable_tip := d\<rparr>;
         (p, i) = (if opt_build_disable_news opt
                   then (p\<lparr>pref_disable_news := True\<rparr>, i\<lparr>info_disable_news := True\<rparr>) else (p, i));
         (p, i) = (if opt_build_disable_stats opt
                   then (p\<lparr>pref_disable_stats := True\<rparr>, i\<lparr>info_disable_stats := True\<rparr>) else (p, i));
         (p, i) = (if opt_build_disable_tip opt
                   then (p\<lparr>pref_disable_tip := True\<rparr>, i\<lparr>info_disable_tip := True\<rparr>) else (p, i))
     in (p\<lparr>pref_info_uid_prefix := kf_string_or ops kf ''remmina_info'' ''info_uid_prefix'' None\<rparr>, i))"

text \<open>The whole reading part of \<open>remmina_pref_init\<close>, in its order.\<close>

definition pref_load ::
  "'kf keyfile_ops \<Rightarrow> pref_opts \<Rightarrow> 'kf \<Rightarrow> pref \<times> pref_info \<Rightarrow> (pref \<times> pref_info) option" where
  "pref_load ops opt kf = (\<lambda>(p, i).
     let p = pref_load_window ops opt kf
               (pref_load_appearance ops opt kf (pref_load_security ops opt kf p))
     in case pref_load_paths ops opt kf p of
          None \<Rightarrow> None
        | Some p \<Rightarrow>
            Some (pref_load_info ops opt kf
              (pref_load_terminal ops opt kf
                 (pref_load_keys ops opt kf (pref_load_network ops opt kf p)), i)))"

definition remmina_pref_file_load_colors :: "'kf keyfile_ops \<Rightarrow> 'kf \<Rightarrow> color_pref \<Rightarrow> color_pref" where
  "remmina_pref_file_load_colors ops kf c = c\<lparr>
     col_background := kf_string_or ops kf ''ssh_colors'' ''background'' (Some ''#d5ccba''),
     col_cursor := kf_string_or ops kf ''ssh_colors'' ''cursor'' (Some ''#45373c''),
     col_cursor_foreground := kf_string_or ops kf ''ssh_colors'' ''cursor_foreground'' (Some ''#d5ccba''),
     col_highlight := kf_string_or ops kf ''ssh_colors'' ''highlight'' (Some ''#45373c''),
     col_highlight_foreground := kf_string_or ops kf ''ssh_colors'' ''highlight_foreground'' (Some ''#d5ccba''),
     col_colorBD := kf_string_or ops kf ''ssh_colors'' ''colorBD'' (Some ''#45373c''),
     col_foreground := kf_string_or ops kf ''ssh_colors'' ''foreground'' (Some ''#45373c''),
     col_color0 := kf_string_or ops kf ''ssh_colors'' ''color0'' (Some ''#20111b''),
     col_color1 := kf_string_or ops kf ''ssh_colors'' ''color1'' (Some ''#be100e''),
     col_color2 := kf_string_or ops kf ''ssh_colors'' ''color2'' (Some ''#858162''),
     col_color3 := kf_string_or ops kf ''ssh_colors'' ''color3'' (Some ''#eaa549''),
     col_color4 := kf_string_or ops kf ''ssh_colors'' ''color4'' (Some ''#426a79''),
     col_color5 := kf_string_or ops kf ''ssh_colors'' ''color5'' (Some ''#97522c''),
     col_color6 := kf_string_or ops kf ''ssh_colors'' ''color6'' (Some ''#989a9c''),
     col_color7 := kf_string_or ops kf ''ssh_colors'' ''color7'' (Some ''#968c83''),
     col_color8 := kf_string_or ops kf ''ssh_colors'' ''color8'' (Some ''#5e5252''),
     col_color9 := kf_string_or ops kf ''ssh_colors'' ''color9'' (Some ''#be100e''),
     col_color10 := kf_string_or ops kf ''ssh_colors'' ''color10'' (Some ''#858162''),
     col_color11 := kf_string_or ops kf ''ssh_colors'' ''color11'' (Some ''#eaa549''),
     col_color12 := kf_string_or ops kf ''ssh_colors'' ''color12'' (Some ''#426a79''),
     col_color13 := kf_string_or ops kf ''ssh_colors'' ''color13'' (Some ''#97522c''),
     col_color14 := kf_string_or ops kf ''ssh_colors'' ''color14'' (Some ''#989a9c''),
     col_color15 := kf_string_or ops kf ''ssh_colors'' ''color15'' (Some ''#d5ccba'')\<rparr>"

section \<open>Writing\<close>

definition null_to_empty :: "cstr \<Rightarrow> cstr" where
  "null_to_empty s = (case s of None \<Rightarrow> Some [] | Some t \<Rightarrow> Some t)"

definition pref_writes_options :: "pref_opts \<Rightarrow> pref \<Rightarrow> kf_write list" where
  "pref_writes_options opt p = [
     Set_string ''remmina_pref'' ''datadir_path'' (pref_datadir_path p),
     Set_string ''remmina_pref'' ''remmina_file_name'' (pref_remmina_file_name p),
     Set_string ''remmina_pref'' ''screenshot_path'' (pref_screenshot_path p),
     Set_string ''remmina_pref'' ''screenshot_name'' (pref_screenshot_name p),
     Set_boolean ''remmina_pref'' ''deny_screenshot_clipboard'' (pref_deny_screenshot_clipboard p),
     Set_boolean ''remmina_pref'' ''save_view_mode'' (pref_save_view_mode p),
     Set_boolean ''remmina_pref'' ''confirm_close'' (pref_confirm_close p),
     Remove_key ''remmina_pref'' ''use_master_password'',
     Set_boolean ''remmina_pref'' ''use_primary_password'' (if opt_sodium opt then pref_use_primary_password p else False),
     Set_integer ''remmina_pref'' ''unlock_timeout'' (if opt_sodium opt then pref_unlock_timeout p else 0),
     Set_string ''remmina_pref'' ''unlock_password'' (if opt_sodium opt then pref_unlock_password p else Some []),
     Set_boolean ''remmina_pref'' ''lock_connect'' (if opt_sodium opt then pref_lock_connect p else False),
     Set_boolean ''remmina_pref'' ''lock_edit'' (if opt_sodium opt then pref_lock_edit p else False),
     Set_boolean ''remmina_pref'' ''lock_view_passwords'' (if opt_sodium opt then pref_lock_view_passwords p else False),
     Set_integer ''remmina_pref'' ''enc_mode'' (pref_enc_mode p),
     Set_boolean ''remmina_pref'' ''audit'' (pref_audit p),
     Set_boolean ''remmina_pref'' ''trust_all'' (pref_trust_all p),
     Set_integer ''remmina_pref'' ''floating_toolbar_placement'' (pref_floating_toolbar_placement p),
     Set_integer ''remmina_pref'' ''floating_toolbar_monitor'' (pref_floating_toolbar_monitor p),
     Set_integer ''remmina_pref'' ''toolbar_placement'' (pref_toolbar_placement p),
     Set_boolean ''remmina_pref'' ''prevent_snap_welcome_message'' (pref_prevent_snap_welcome_message p),
     Set_string ''remmina_pref'' ''last_quickconnect_protocol'' (pref_last_quickconnect_protocol p),
     Set_boolean ''remmina_pref'' ''fullscreen_on_auto'' (pref_fullscreen_on_auto p),
     Set_boolean ''remmina_pref'' ''always_show_tab'' (pref_always_show_tab p),
     Set_boolean ''remmina_pref'' ''always_show_notes'' (pref_always_show_notes p),
     Set_boolean ''remmina_pref'' ''mp_left'' (pref_mp_left p),
     Set_boolean ''remmina_pref'' ''start_fullscreen'' (pref_start_fullscreen p),
     Set_boolean ''remmina_pref'' ''start_dynres'' (pref_start_dynres p),
     Set_boolean ''remmina_pref'' ''toolbar_fix_position_multimon'' (pref_toolbar_fix_position_multimon p),
     Set_boolean ''remmina_pref'' ''hide_connection_toolbar'' (pref_hide_connection_toolbar p),
     Set_boolean ''remmina_pref'' ''hide_searchbar'' (pref_hide_searchbar p),
     Set_integer ''remmina_pref'' ''default_action'' (pref_default_action p),
     Set_integer ''remmina_pref'' ''scale_quality'' (pref_scale_quality p),
     Set_integer ''remmina_pref'' ''ssh_loglevel'' (pref_ssh_loglevel p),
     Set_boolean ''remmina_pref'' ''ssh_parseconfig'' (pref_ssh_parseconfig p),
     Set_boolean ''remmina_pref'' ''hide_toolbar'' (pref_hide_toolbar p),
     Set_boolean ''remmina_pref'' ''small_toolbutton'' (pref_small_toolbutton p),
     Set_integer ''remmina_pref'' ''view_file_mode'' (pref_view_file_mode p)]"

definition pref_writes_session :: "pref_opts \<Rightarrow> pref \<Rightarrow> kf_write list" where
  "pref_writes_session opt p = [
     Set_string ''remmina_pref'' ''resolutions'' (pref_resolutions p),
     Set_string ''remmina_pref'' ''keystrokes'' (pref_keystrokes p),
     Set_integer ''remmina_pref'' ''main_width'' (pref_main_width p),
     Set_integer ''remmina_pref'' ''main_height'' (pref_main_height p),
     Set_boolean ''remmina_pref'' ''main_maximize'' (pref_main_maximize p),
     Set_integer ''remmina_pref'' ''main_sort_column_id'' (pref_main_sort_column_id p),
     Set_integer ''remmina_pref'' ''main_sort_order'' (pref_main_sort_order p),
     Set_string ''remmina_pref'' ''expanded_group'' (pref_expanded_group p),
     Set_boolean ''remmina_pref'' ''toolbar_pin_down'' (pref_toolbar_pin_down p),
     Set_integer ''remmina_pref'' ''sshtunnel_port'' (pref_sshtunnel_port p),
     Set_integer ''remmina_pref'' ''ssh_tcp_keepidle'' (pref_ssh_tcp_keepidle p),
     Set_integer ''remmina_pref'' ''ssh_tcp_keepintvl'' (pref_ssh_tcp_keepintvl p),
     Set_integer ''remmina_pref'' ''ssh_tcp_keepcnt'' (pref_ssh_tcp_keepcnt p),
     Set_integer ''remmina_pref'' ''ssh_tcp_usrtimeout'' (pref_ssh_tcp_usrtimeout p),
     Set_boolean ''remmina_pref'' ''applet_new_ontop'' (pref_applet_new_ontop p),
     Set_boolean ''remmina_pref'' ''applet_hide_count'' (pref_applet_hide_count p),
     Set_boolean ''remmina_pref'' ''applet_enable_avahi'' (pref_applet_enable_avahi p),
     Set_boolean ''remmina_pref'' ''disable_tray_icon'' (pref_disable_tray_icon p),
     Set_boolean ''remmina_pref'' ''dark_theme'' (pref_dark_theme p),
     Set_integer ''remmina_pref'' ''recent_maximum'' (pref_recent_maximum p),
     Set_integer ''remmina_pref'' ''default_mode'' (pref_default_mode p),
     Set_integer ''remmina_pref'' ''tab_mode'' (pref_tab_mode p),
     Set_integer ''remmina_pref'' ''fullscreen_toolbar_visibility'' (pref_fullscreen_toolbar_visibility p),
     Set_integer ''remmina_pref'' ''fullscreen_toolbar_delay'' (pref_fullscreen_toolbar_delay p),
     Set_integer ''remmina_pref'' ''auto_scroll_step'' (pref_auto_scroll_step p),
     Set_integer ''remmina_pref'' ''hostkey'' (pref_hostkey p),
     Set_integer ''remmina_pref'' ''shortcutkey_fullscreen'' (pref_shortcutkey_fullscreen p),
     Set_integer ''remmina_pref'' ''shortcutkey_autofit'' (pref_shortcutkey_autofit p),
     Set_integer ''remmina_pref'' ''shortcutkey_nexttab'' (pref_shortcutkey_nexttab p),
     Set_integer ''remmina_pref'' ''shortcutkey_prevtab'' (pref_shortcutkey_prevtab p),
     Set_integer ''remmina_pref'' ''shortcutkey_scale'' (pref_shortcutkey_scale p),
     Set_integer ''remmina_pref'' ''shortcutkey_clipboard'' (pref_shortcutkey_clipboard p),
     Set_integer ''remmina_pref'' ''shortcutkey_grab'' (pref_shortcutkey_grab p),
     Set_integer ''remmina_pref'' ''shortcutkey_multimon'' (pref_shortcutkey_multimon p),
     Set_integer ''remmina_pref'' ''shortcutkey_viewonly'' (pref_shortcutkey_viewonly p),
     Set_integer ''remmina_pref'' ''shortcutkey_screenshot'' (pref_shortcutkey_screenshot p),
     Set_integer ''remmina_pref'' ''shortcutkey_minimize'' (pref_shortcutkey_minimize p),
     Set_integer ''remmina_pref'' ''shortcutkey_disconnect'' (pref_shortcutkey_disconnect p),
     Set_integer ''remmina_pref'' ''shortcutkey_toolbar'' (pref_shortcutkey_toolbar p),
     Set_integer ''remmina_pref'' ''vte_shortcutkey_copy'' (pref_vte_shortcutkey_copy p),
     Set_integer ''remmina_pref'' ''vte_shortcutkey_paste'' (pref_vte_shortcutkey_paste p),
     Set_integer ''remmina_pref'' ''vte_shortcutkey_select_all'' (pref_vte_shortcutkey_select_all p),
     Set_integer ''remmina_pref'' ''vte_shortcutkey_increase_font'' (pref_vte_shortcutkey_increase_font p)]"

definition pref_writes_terminal :: "pref_opts \<Rightarrow> pref \<Rightarrow> kf_write list" where
  "pref_writes_terminal opt p = [
     Set_integer ''remmina_pref'' ''vte_shortcutkey_decrease_font'' (pref_vte_shortcutkey_decrease_font p),
     Set_integer ''remmina_pref'' ''vte_shortcutkey_search_text'' (pref_vte_shortcutkey_search_text p),
     Set_string ''remmina_pref'' ''vte_font'' (null_to_empty (pref_vte_font p)),
     Set_string ''remmina_pref'' ''grab_color'' (null_to_empty (pref_grab_color p)),
     Set_boolean ''remmina_pref'' ''grab_color_switch'' (pref_grab_color_switch p),
     Set_boolean ''remmina_pref'' ''vte_allow_bold_text'' (pref_vte_allow_bold_text p),
     Set_integer ''remmina_pref'' ''vte_lines'' (pref_vte_lines p),
     Set_string ''ssh_colors'' ''background'' (null_to_empty (col_background (pref_color_pref p))),
     Set_string ''ssh_colors'' ''cursor'' (null_to_empty (col_cursor (pref_color_pref p))),
     Set_string ''ssh_colors'' ''cursor_foreground'' (null_to_empty (col_cursor_foreground (pref_color_pref p))),
     Set_string ''ssh_colors'' ''highlight'' (null_to_empty (col_highlight (pref_color_pref p))),
     Set_string ''ssh_colors'' ''highlight_foreground'' (null_to_empty (col_highlight_foreground (pref_color_pref p))),
     Set_string ''ssh_colors'' ''colorBD'' (null_to_empty (col_colorBD (pref_color_pref p))),
     Set_string ''ssh_colors'' ''foreground'' (null_to_empty (col_foreground (pref_color_pref p))),
     Set_string ''ssh_colors'' ''color0'' (null_to_empty (col_color0 (pref_color_pref p))),
     Set_string ''ssh_colors'' ''color1'' (null_to_empty (col_color1 (pref_color_pref p))),
     Set_string ''ssh_colors'' ''color2'' (null_to_empty (col_color2 (pref_color_pref p))),
     Set_string ''ssh_colors'' ''color3'' (null_to_empty (col_color3 (pref_color_pref p))),
     Set_string ''ssh_colors'' ''color4'' (null_to_empty (col_color4 (pref_color_pref p))),
     Set_string ''ssh_colors'' ''color5'' (null_to_empty (col_color5 (pref_color_pref p))),
     Set_string ''ssh_colors'' ''color6'' (null_to_empty (col_color6 (pref_color_pref p))),
     Set_string ''ssh_colors'' ''color7'' (null_to_empty (col_color7 (pref_color_pref p))),
     Set_string ''ssh_colors'' ''color8'' (null_to_empty (col_color8 (pref_color_pref p))),
     Set_string ''ssh_colors'' ''color9'' (null_to_empty (col_color9 (pref_color_pref p))),
     Set_string ''ssh_colors'' ''color10'' (null_to_empty (col_color10 (pref_color_pref p))),
     Set_string ''ssh_colors'' ''color11'' (null_to_empty (col_color11 (pref_color_pref p))),
     Set_string ''ssh_colors'' ''color12'' (null_to_empty (col_color12 (pref_color_pref p))),
     Set_string ''ssh_colors'' ''color13'' (null_to_empty (col_color13 (pref_color_pref p))),
     Set_string ''ssh_colors'' ''color14'' (null_to_empty (col_color14 (pref_color_pref p))),
     Set_string ''ssh_colors'' ''color15'' (null_to_empty (col_color15 (pref_color_pref p))),
     Set_string ''remmina_info'' ''ssh_color_file'' (null_to_empty (pref_color_file p)),
     Set_boolean ''remmina_info'' ''periodic_news_permitted'' (\<not> pref_disable_news p),
     Set_string ''remmina_info'' ''periodic_news_last_checksum'' (null_to_empty (pref_periodic_news_last_checksum p)),
     Set_boolean ''remmina_info'' ''periodic_usage_stats_permitted'' (\<not> pref_disable_stats p),
     Set_string ''remmina_info'' ''info_uid_prefix'' (null_to_empty (pref_info_uid_prefix p)),
     Set_boolean ''remmina_info'' ''disable_tip'' (pref_disable_tip p),
     Set_string ''remmina'' ''name'' (Some []),
     Set_integer ''remmina'' ''ignore-tls-errors'' 1]"

definition pref_writes :: "pref_opts \<Rightarrow> pref \<Rightarrow> kf_write list" where
  "pref_writes opt p = pref_writes_options opt p @ pref_writes_session opt p @ pref_writes_terminal opt p"

end
