(* ===== verification/PrefSave.thy ===== *)
theory PrefSave
  imports PrefData
begin

text \<open>
  Saving and loading the preferences: every key is written once, and a load that follows
  the save gives the preferences back.
\<close>

section \<open>The keys of a save\<close>

definition pref_keys_options :: "string list" where
  "pref_keys_options = [
      ''datadir_path'', ''remmina_file_name'', ''screenshot_path'', ''screenshot_name'',
      ''deny_screenshot_clipboard'', ''save_view_mode'', ''confirm_close'',
      ''use_master_password'', ''use_primary_password'', ''unlock_timeout'',
      ''unlock_password'', ''lock_connect'', ''lock_edit'', ''lock_view_passwords'',
      ''enc_mode'', ''audit'', ''trust_all'', ''floating_toolbar_placement'',
      ''floating_toolbar_monitor'', ''toolbar_placement'',
      ''prevent_snap_welcome_message'', ''last_quickconnect_protocol'',
      ''fullscreen_on_auto'', ''always_show_tab'', ''always_show_notes'', ''mp_left'',
      ''start_fullscreen'', ''start_dynres'', ''toolbar_fix_position_multimon'',
      ''hide_connection_toolbar'', ''hide_searchbar'', ''default_action'',
      ''scale_quality'', ''ssh_loglevel'', ''ssh_parseconfig'', ''hide_toolbar'',
      ''small_toolbutton'', ''view_file_mode'', ''resolutions'', ''keystrokes'',
      ''main_width'', ''main_height'', ''main_maximize'', ''main_sort_column_id'',
      ''main_sort_order'', ''expanded_group'', ''toolbar_pin_down'', ''sshtunnel_port'',
      ''ssh_tcp_keepidle'', ''ssh_tcp_keepintvl'', ''ssh_tcp_keepcnt'',
      ''ssh_tcp_usrtimeout'', ''applet_new_ontop'', ''applet_hide_count'',
      ''applet_enable_avahi'', ''disable_tray_icon'', ''dark_theme'', ''recent_maximum'',
      ''default_mode'', ''tab_mode'', ''fullscreen_toolbar_visibility'',
      ''fullscreen_toolbar_delay'', ''auto_scroll_step'', ''hostkey'',
      ''shortcutkey_fullscreen'', ''shortcutkey_autofit'', ''shortcutkey_nexttab'',
      ''shortcutkey_prevtab'', ''shortcutkey_scale'', ''shortcutkey_clipboard'',
      ''shortcutkey_grab'', ''shortcutkey_multimon'', ''shortcutkey_viewonly'',
      ''shortcutkey_screenshot'', ''shortcutkey_minimize'', ''shortcutkey_disconnect'',
      ''shortcutkey_toolbar'', ''vte_shortcutkey_copy'', ''vte_shortcutkey_paste'',
      ''vte_shortcutkey_select_all'', ''vte_shortcutkey_increase_font'',
      ''vte_shortcutkey_decrease_font'', ''vte_shortcutkey_search_text'', ''vte_font'',
      ''grab_color'', ''grab_color_switch'', ''vte_allow_bold_text'', ''vte_lines'']"

definition pref_keys_colors :: "string list" where
  "pref_keys_colors = [
      ''background'', ''cursor'', ''cursor_foreground'', ''highlight'',
      ''highlight_foreground'', ''colorBD'', ''foreground'', ''color0'', ''color1'',
      ''color2'', ''color3'', ''color4'', ''color5'', ''color6'', ''color7'', ''color8'',
      ''color9'', ''color10'', ''color11'', ''color12'', ''color13'', ''color14'',
      ''color15'']"

definition pref_keys_info :: "string list" where
  "pref_keys_info = [
      ''ssh_color_file'', ''periodic_news_permitted'', ''periodic_news_last_checksum'',
      ''periodic_usage_stats_permitted'', ''info_uid_prefix'', ''disable_tip'']"

definition pref_keys_profile :: "string list" where
  "pref_keys_profile = [
      ''name'', ''ignore-tls-errors'']"

definition pref_write_keys :: "(string \<times> string) list" where
  "pref_write_keys =
     map (Pair ''remmina_pref'') pref_keys_options @ map (Pair ''ssh_colors'') pref_keys_colors @
     map (Pair ''remmina_info'') pref_keys_info @ map (Pair ''remmina'') pref_keys_profile"

lemma pref_write_keys: "map kf_write_key (pref_writes opt p) = pref_write_keys"
  by (simp add: pref_write_keys_def pref_keys_options_def pref_keys_colors_def pref_keys_info_def
      pref_keys_profile_def pref_writes_def pref_writes_options_def
      pref_writes_session_def pref_writes_terminal_def)

lemma distinct_keys_options: "distinct pref_keys_options"
  by (simp add: pref_keys_options_def)

lemma pref_write_keys_distinct: "distinct pref_write_keys"
proof -
  have "distinct pref_keys_colors" "distinct pref_keys_info" "distinct pref_keys_profile"
    by (simp_all add: pref_keys_colors_def pref_keys_info_def pref_keys_profile_def)
  then show ?thesis
    using distinct_keys_options by (auto simp: pref_write_keys_def distinct_map inj_on_def)
qed

lemma pref_write_keys_names: "list_all (\<lambda>gk. kf_name (fst gk) \<and> kf_name (snd gk)) pref_write_keys"
  by (simp add: pref_write_keys_def pref_keys_options_def pref_keys_colors_def pref_keys_info_def
      pref_keys_profile_def kf_name_def)

section \<open>Load after save\<close>

text \<open>
  Preferences that a save keeps: the strings are there and valid, the file name template is
  not empty, and the window is at least as large as the smallest one a load accepts.
\<close>

definition pref_wf :: "(string \<Rightarrow> bool) \<Rightarrow> pref \<Rightarrow> bool" where
  "pref_wf ok p \<longleftrightarrow>
     str_ok ok (pref_datadir_path p) \<and> str_ok ok (pref_remmina_file_name p) \<and>
     pref_remmina_file_name p \<noteq> Some [] \<and> str_ok ok (pref_screenshot_path p) \<and>
     str_ok ok (pref_screenshot_name p) \<and> str_ok ok (pref_unlock_password p) \<and>
     str_ok ok (pref_last_quickconnect_protocol p) \<and> str_ok ok (pref_resolutions p) \<and>
     str_ok ok (pref_keystrokes p) \<and> str_ok ok (pref_expanded_group p) \<and>
     str_ok ok (null_to_empty (pref_vte_font p)) \<and> str_ok ok (null_to_empty (pref_grab_color p)) \<and>
     str_ok ok (null_to_empty (pref_color_file p)) \<and>
     str_ok ok (null_to_empty (pref_periodic_news_last_checksum p)) \<and>
     str_ok ok (null_to_empty (pref_info_uid_prefix p)) \<and>
     600 \<le> sint (pref_main_width p) \<and> 400 \<le> sint (pref_main_height p)"

text \<open>A session without flags that override what the file says.\<close>

definition no_override :: "pref_opts \<Rightarrow> bool" where
  "no_override opt \<longleftrightarrow>
     \<not> opt_extrahardening opt \<and> \<not> opt_disabletoolbar opt \<and> \<not> opt_disabletrayicon opt \<and>
     \<not> opt_fullscreen opt \<and> \<not> opt_disablenews opt \<and> \<not> opt_disablestats opt \<and>
     \<not> opt_build_disable_news opt \<and> \<not> opt_build_disable_stats opt \<and>
     \<not> opt_build_disable_tip opt \<and> opt_sodium opt"

text \<open>
  What a load after the save returns: the saved preferences, NULL strings as empty ones,
  and the fields the save leaves out from the file or from the struct before the load.
\<close>

definition pref_reloaded :: "'kf keyfile_ops \<Rightarrow> 'kf \<Rightarrow> pref \<Rightarrow> pref \<Rightarrow> pref" where
  "pref_reloaded ops kf p0 p = p\<lparr>
     pref_vte_font := null_to_empty (pref_vte_font p),
     pref_grab_color := null_to_empty (pref_grab_color p),
     pref_color_file := null_to_empty (pref_color_file p),
     pref_periodic_news_last_checksum := null_to_empty (pref_periodic_news_last_checksum p),
     pref_info_uid_prefix := null_to_empty (pref_info_uid_prefix p),
     pref_secret := kf_string_or ops kf ''remmina_pref'' ''secret'' None,
     pref_uid := kf_string_or ops kf ''remmina_pref'' ''uid'' None,
     pref_list_refresh_workaround := kf_boolean_or ops kf ''remmina_pref'' ''list_refresh_workaround'' False,
     pref_shortcutkey_dynres := pref_shortcutkey_dynres p0,
     pref_unlock_repassword := pref_unlock_repassword p0,
     pref_vte_system_colors := pref_vte_system_colors p0,
     pref_color_pref := pref_color_pref p0\<rparr>"

lemma null_to_empty_simps [simp]: "null_to_empty None = Some []" "null_to_empty (Some s) = Some s"
  by (simp_all add: null_to_empty_def)

lemma gint_max_le: "sint a \<le> sint b \<Longrightarrow> gint_max a b = b"
  by (auto simp: gint_max_def)

text \<open>What is in the file after the save.\<close>

lemma pref_writes_stored:
  assumes "keyfile ops ok"
  shows "list_all (kf_stored ops ok
    (snd (kf_load ops kf0 (Some (kf_to_data ops (kf_run ops (pref_writes opt p) kf)))))) (pref_writes opt p)"
proof (rule keyfile.run_all_stored [OF assms])
  show "distinct (map kf_write_key (pref_writes opt p))"
    by (simp only: pref_write_keys pref_write_keys_distinct)
  have "list_all (\<lambda>gk. kf_name (fst gk) \<and> kf_name (snd gk)) (map kf_write_key (pref_writes opt p))"
    by (simp only: pref_write_keys pref_write_keys_names)
  then show "list_all (\<lambda>w. kf_name (fst (kf_write_key w)) \<and> kf_name (snd (kf_write_key w))) (pref_writes opt p)"
    by (simp add: list_all_iff)
qed

lemma pref_load_stored:
  assumes s: "list_all (kf_stored ops ok kf) (pref_writes opt p)"
    and n: "no_override opt" and w: "pref_wf ok p"
  shows "pref_load ops opt kf (p0, i0) = Some (pref_reloaded ops kf p0 p,
     i0\<lparr>info_disable_news := pref_disable_news p, info_disable_stats := pref_disable_stats p,
       info_disable_tip := pref_disable_tip p\<rparr>)"
proof -
  have s1: "list_all (kf_stored ops ok kf) (pref_writes_options opt p)"
    and s2: "list_all (kf_stored ops ok kf) (pref_writes_session opt p)"
    and s3: "list_all (kf_stored ops ok kf) (pref_writes_terminal opt p)"
    using s by (simp_all add: pref_writes_def)
  note e = s1 [unfolded pref_writes_options_def list.pred_inject kf_stored_simps]
    s2 [unfolded pref_writes_session_def list.pred_inject kf_stored_simps]
    s3 [unfolded pref_writes_terminal_def list.pred_inject kf_stored_simps]
  note w' = w [unfolded pref_wf_def] and n' = n [unfolded no_override_def]
  have or: "kf_has_key ops kf g k \<Longrightarrow> kf_boolean_or ops kf g k b = kf_get_boolean ops kf g k"
    "kf_has_key ops kf g k \<Longrightarrow> kf_integer_or ops kf g k i = kf_get_integer ops kf g k"
    "kf_has_key ops kf g k \<Longrightarrow> kf_string_or ops kf g k c = kf_get_string ops kf g k" for g k b i c
    by (simp_all add: kf_boolean_or_def kf_integer_or_def kf_string_or_def)
  obtain name where nm: "pref_remmina_file_name p = Some name" "name \<noteq> []"
    using w' by (cases "pref_remmina_file_name p") (auto simp: str_ok_def)
  have g: "kf_has_key ops kf ''remmina_pref'' ''remmina_file_name''"
    "kf_get_string ops kf ''remmina_pref'' ''remmina_file_name'' = pref_remmina_file_name p"
    by (simp_all add: e w')
  have p1: "pref_load_paths ops opt kf q = Some (q\<lparr>
      pref_remmina_file_name := pref_remmina_file_name p,
      pref_screenshot_path := pref_screenshot_path p,
      pref_screenshot_name := pref_screenshot_name p\<rparr>)" for q
    by (simp only: pref_load_paths_def g) (simp add: nm or e w')
  show ?thesis
    by (simp add: pref_load_def pref_load_window_def pref_load_appearance_def
        pref_load_security_def p1 pref_load_network_def pref_load_keys_def pref_load_terminal_def
        pref_load_info_def pref_reloaded_def or e w' n' gint_max_le Let_def)
qed

text \<open>The colours, and what a load makes of NULL ones.\<close>

definition colors_null_to_empty :: "color_pref \<Rightarrow> color_pref" where
  "colors_null_to_empty c = c\<lparr>
     col_background := null_to_empty (col_background c),
     col_cursor := null_to_empty (col_cursor c),
     col_cursor_foreground := null_to_empty (col_cursor_foreground c),
     col_highlight := null_to_empty (col_highlight c),
     col_highlight_foreground := null_to_empty (col_highlight_foreground c),
     col_colorBD := null_to_empty (col_colorBD c),
     col_foreground := null_to_empty (col_foreground c),
     col_color0 := null_to_empty (col_color0 c),
     col_color1 := null_to_empty (col_color1 c),
     col_color2 := null_to_empty (col_color2 c),
     col_color3 := null_to_empty (col_color3 c),
     col_color4 := null_to_empty (col_color4 c),
     col_color5 := null_to_empty (col_color5 c),
     col_color6 := null_to_empty (col_color6 c),
     col_color7 := null_to_empty (col_color7 c),
     col_color8 := null_to_empty (col_color8 c),
     col_color9 := null_to_empty (col_color9 c),
     col_color10 := null_to_empty (col_color10 c),
     col_color11 := null_to_empty (col_color11 c),
     col_color12 := null_to_empty (col_color12 c),
     col_color13 := null_to_empty (col_color13 c),
     col_color14 := null_to_empty (col_color14 c),
     col_color15 := null_to_empty (col_color15 c)\<rparr>"

definition colors_ok :: "(string \<Rightarrow> bool) \<Rightarrow> color_pref \<Rightarrow> bool" where
  "colors_ok ok c \<longleftrightarrow> list_all (\<lambda>s. str_ok ok (null_to_empty s)) [
     col_background c,
     col_cursor c,
     col_cursor_foreground c,
     col_highlight c,
     col_highlight_foreground c,
     col_colorBD c,
     col_foreground c,
     col_color0 c,
     col_color1 c,
     col_color2 c,
     col_color3 c,
     col_color4 c,
     col_color5 c,
     col_color6 c,
     col_color7 c,
     col_color8 c,
     col_color9 c,
     col_color10 c,
     col_color11 c,
     col_color12 c,
     col_color13 c,
     col_color14 c,
     col_color15 c]"

lemma colors_load_stored:
  assumes s: "list_all (kf_stored ops ok kf) (pref_writes opt p)"
    and c: "colors_ok ok (pref_color_pref p)"
  shows "remmina_pref_file_load_colors ops kf c0 = colors_null_to_empty (pref_color_pref p)"
proof -
  have s3: "list_all (kf_stored ops ok kf) (pref_writes_terminal opt p)"
    using s by (simp add: pref_writes_def)
  note e = s3 [unfolded pref_writes_terminal_def list.pred_inject kf_stored_simps]
  note c' = c [unfolded colors_ok_def list.pred_inject]
  have or: "kf_has_key ops kf g k \<Longrightarrow> kf_string_or ops kf g k c = kf_get_string ops kf g k" for g k c
    by (simp add: kf_string_or_def)
  show ?thesis
    by (simp add: remmina_pref_file_load_colors_def colors_null_to_empty_def or e c')
qed

end
