(* ===== verification/Pref.thy ===== *)
theory Pref
  imports PrefSave StringArray
begin

text \<open>
  \<open>src/remmina_pref.c\<close>: the operations on the preferences file. The state is the program's
  globals (\<open>remmina_pref\<close>, the \<open>info_disable_*\<close> flags, the two path names and the keymap
  table) and the regular files, a map from path to contents. What the desktop answers - is
  a path writable, is it a directory, what does it hold - is a record of parameters.
\<close>

section \<open>State and environment\<close>

record pref_state =
  st_pref :: pref
  st_info :: pref_info
  st_fs :: files
  st_file :: string
  st_keymap_file :: string
  st_keymap :: "string \<rightharpoonup> guint list"

record pref_env =
  env_opts :: pref_opts
  env_writable :: "string \<Rightarrow> bool"
  env_set_contents_ok :: "string \<Rightarrow> bool"
  env_is_dir :: "string \<Rightarrow> bool"
  env_dir_names :: "string \<Rightarrow> string list"
  env_build_path :: "string list \<Rightarrow> string"
  env_user_config_dir :: string
  env_system_config_dirs :: "string list"
  env_keyval_from_name :: "string \<Rightarrow> guint"
  env_base64 :: "8 word list \<Rightarrow> string"
  env_random :: "nat \<Rightarrow> nat \<Rightarrow> nat"

definition set_contents :: "pref_env \<Rightarrow> files \<Rightarrow> string \<Rightarrow> string \<Rightarrow> bool \<times> files" where
  "set_contents env fs path data = file_set_contents (env_set_contents_ok env) fs path data"

text \<open>The file as a key file: a new one, loaded from the path.\<close>

definition pref_kf :: "'kf keyfile_ops \<Rightarrow> pref_state \<Rightarrow> 'kf" where
  "pref_kf ops st = snd (kf_load ops (kf_new ops) (st_fs st (st_file st)))"

definition pref_store :: "'kf keyfile_ops \<Rightarrow> pref_env \<Rightarrow> 'kf \<Rightarrow> pref_state \<Rightarrow> pref_state" where
  "pref_store ops env kf st =
     st\<lparr>st_fs := snd (set_contents env (st_fs st) (st_file st) (kf_to_data ops kf))\<rparr>"

section \<open>Saving\<close>

definition remmina_pref_is_rw :: "pref_env \<Rightarrow> pref_state \<Rightarrow> bool" where
  "remmina_pref_is_rw env st \<longleftrightarrow> st_fs st (st_file st) \<noteq> None \<and> env_writable env (st_file st)"

definition remmina_pref_save :: "'kf keyfile_ops \<Rightarrow> pref_env \<Rightarrow> pref_state \<Rightarrow> bool \<times> pref_state" where
  "remmina_pref_save ops env st =
     (if \<not> remmina_pref_is_rw env st then (False, st)
      else let kf = kf_run ops (pref_writes (env_opts env) (st_pref st)) (pref_kf ops st);
               (ok, fs) = set_contents env (st_fs st) (st_file st) (kf_to_data ops kf)
           in (ok, st\<lparr>st_fs := fs\<rparr>))"

section \<open>The secret\<close>

definition remmina_pref_gen_secret :: "'kf keyfile_ops \<Rightarrow> pref_env \<Rightarrow> pref_state \<Rightarrow> pref_state" where
  "remmina_pref_gen_secret ops env st =
     (let s = map (\<lambda>i. word_of_nat (env_random env i 257)) [0..<32];
          secret = env_base64 env s;
          st = st\<lparr>st_pref := (st_pref st)\<lparr>pref_secret := Some secret\<rparr>\<rparr>;
          kf = kf_set_string ops (pref_kf ops st) ''remmina_pref'' ''secret'' secret
      in pref_store ops env kf st)"

section \<open>The keymap table\<close>

definition default_keymap_data :: string where
  "default_keymap_data =
     ''# Please check gdk/gdkkeysyms.h for a full list of all key names or hex key values'' @ [CHR 0x0A] @
     [CHR 0x0A] @
     ''[Map Meta Keys]'' @ [CHR 0x0A] @
     ''Super_L = Meta_L'' @ [CHR 0x0A] @
     ''Super_R = Meta_R'' @ [CHR 0x0A] @
     ''Meta_L = Super_L'' @ [CHR 0x0A] @
     ''Meta_R = Super_R'' @ [CHR 0x0A]"

definition remmina_pref_get_keyval_from_str :: "(string \<Rightarrow> guint) \<Rightarrow> cstr \<Rightarrow> guint" where
  "remmina_pref_get_keyval_from_str keyval_from_name str =
     (case str of
        None \<Rightarrow> 0
      | Some s \<Rightarrow>
          let k = keyval_from_name s
          in if k = 0 then (case sscanf_x s of None \<Rightarrow> 0 | Some k \<Rightarrow> k) else k)"

text \<open>
  A table has room for \<open>2 * nkeys + 1\<close> entries, all zero at first; the keys with a value
  fill it from the front, so that at least one zero is left at the end.
\<close>

fun keymap_pairs :: "'kf keyfile_ops \<Rightarrow> (string \<Rightarrow> guint) \<Rightarrow> 'kf \<Rightarrow> string \<Rightarrow> string list \<Rightarrow> guint list" where
  "keymap_pairs ops kv kf g [] = []"
| "keymap_pairs ops kv kf g (k # ks) =
     (let k1 = remmina_pref_get_keyval_from_str kv (Some k)
      in if k1 \<noteq> 0
         then k1 # remmina_pref_get_keyval_from_str kv (kf_get_string ops kf g k)
              # keymap_pairs ops kv kf g ks
         else keymap_pairs ops kv kf g ks)"

definition keymap_table :: "'kf keyfile_ops \<Rightarrow> (string \<Rightarrow> guint) \<Rightarrow> 'kf \<Rightarrow> string \<Rightarrow> guint list" where
  "keymap_table ops kv kf g =
     (let keys = (case kf_get_keys ops kf g of None \<Rightarrow> [] | Some ks \<Rightarrow> ks);
          t = keymap_pairs ops kv kf g keys
      in t @ replicate (2 * length keys + 1 - length t) 0)"

fun keymap_groups_from ::
  "'kf keyfile_ops \<Rightarrow> (string \<Rightarrow> guint) \<Rightarrow> 'kf \<Rightarrow> string list \<Rightarrow> (string \<rightharpoonup> guint list) \<Rightarrow> (string \<rightharpoonup> guint list)" where
  "keymap_groups_from ops kv kf [] m = m"
| "keymap_groups_from ops kv kf (g # gs) m =
     keymap_groups_from ops kv kf gs (m(g \<mapsto> keymap_table ops kv kf g))"

definition remmina_pref_init_keymap :: "'kf keyfile_ops \<Rightarrow> pref_env \<Rightarrow> pref_state \<Rightarrow> pref_state" where
  "remmina_pref_init_keymap ops env st =
     (let (ok, kf) = kf_load ops (kf_new ops) (st_fs st (st_keymap_file st));
          (ok, kf) = (if ok then (ok, kf) else kf_load ops kf (Some default_keymap_data))
      in if \<not> ok then st\<lparr>st_keymap := Map.empty\<rparr>
         else st\<lparr>st_keymap :=
                keymap_groups_from ops (env_keyval_from_name env) kf (kf_get_groups ops kf) Map.empty\<rparr>)"

definition remmina_pref_keymap_get_table :: "pref_state \<Rightarrow> cstr \<Rightarrow> guint list option" where
  "remmina_pref_keymap_get_table st keymap =
     (case keymap of None \<Rightarrow> None | Some m \<Rightarrow> if m = [] then None else st_keymap st m)"

text \<open>The scan in steps of two, up to the first zero at an even place.\<close>

fun keymap_scan :: "guint list \<Rightarrow> guint \<Rightarrow> guint" where
  "keymap_scan (a # b # t) keyval =
     (if 0 < a then (if a = keyval then b else keymap_scan t keyval) else keyval)"
| "keymap_scan _ keyval = keyval"

definition remmina_pref_keymap_get_keyval :: "pref_state \<Rightarrow> cstr \<Rightarrow> guint \<Rightarrow> guint" where
  "remmina_pref_keymap_get_keyval st keymap keyval =
     (case keymap of
        None \<Rightarrow> keyval
      | Some m \<Rightarrow>
          if m = [] then keyval
          else (case st_keymap st m of None \<Rightarrow> keyval | Some table \<Rightarrow> keymap_scan table keyval))"

text \<open>\<open>order\<close> is the order in which the hash table lists its keys.\<close>

definition remmina_pref_keymap_groups :: "string list \<Rightarrow> string list" where
  "remmina_pref_keymap_groups order = [[], []] @ concat (map (\<lambda>k. [k, k]) order)"

section \<open>Initialisation\<close>

definition remmina_pref_file_do_copy :: "files \<Rightarrow> string \<Rightarrow> string \<Rightarrow> bool \<times> files" where
  "remmina_pref_file_do_copy fs src_path dst_path =
     (case fs src_path of
        None \<Rightarrow> (False, fs)
      | Some data \<Rightarrow> if fs dst_path \<noteq> None then (False, fs) else (True, fs(dst_path \<mapsto> data)))"

definition pref_user_path :: "pref_env \<Rightarrow> string \<Rightarrow> string" where
  "pref_user_path env name = env_build_path env [env_user_config_dir env, ''remmina'', name]"

definition pref_copy_legacy :: "pref_env \<Rightarrow> files \<Rightarrow> files" where
  "pref_copy_legacy env fs =
     (let remmina_dir = env_build_path env [opt_home_dir (env_opts env), ''.remmina'']
      in if env_is_dir env remmina_dir
         then snd (remmina_pref_file_do_copy fs (env_build_path env [remmina_dir, ''remmina.pref''])
                     (pref_user_path env ''remmina.pref''))
         else fs)"

fun pref_copy_names :: "pref_env \<Rightarrow> string \<Rightarrow> string list \<Rightarrow> files \<Rightarrow> files" where
  "pref_copy_names env remmina_dir [] fs = fs"
| "pref_copy_names env remmina_dir (filename # ns) fs =
     pref_copy_names env remmina_dir ns
       (snd (remmina_pref_file_do_copy fs (env_build_path env [remmina_dir, filename])
               (pref_user_path env filename)))"

fun pref_copy_system :: "pref_env \<Rightarrow> string list \<Rightarrow> files \<Rightarrow> files" where
  "pref_copy_system env [] fs = fs"
| "pref_copy_system env (d # dirs) fs =
     (let remmina_dir = env_build_path env [d, ''remmina'']
      in pref_copy_system env dirs
           (if env_is_dir env remmina_dir
            then pref_copy_names env remmina_dir (env_dir_names env remmina_dir) fs
            else fs))"

text \<open>The path names, then the preferences themselves: \<open>None\<close> is a crash in \<open>strcmp\<close>.\<close>

definition pref_init_paths :: "pref_env \<Rightarrow> pref_state \<Rightarrow> pref_state" where
  "pref_init_paths env st =
     (let remmina_dir = env_build_path env [env_user_config_dir env, ''remmina'']
      in st\<lparr>st_fs := pref_copy_system env (env_system_config_dirs env) (pref_copy_legacy env (st_fs st)),
            st_file := remmina_dir @ ''/remmina.pref'',
            st_keymap_file := remmina_dir @ ''/remmina.keymap''\<rparr>)"

definition pref_init_defaults :: "'kf keyfile_ops \<Rightarrow> pref_env \<Rightarrow> 'kf \<Rightarrow> pref_state \<Rightarrow> 'kf \<times> pref_state" where
  "pref_init_defaults ops env kf st =
     (if \<not> kf_has_key ops kf ''remmina'' ''name'' then
        (kf_run ops [Set_string ''remmina'' ''name'' (Some []),
                     Set_integer ''remmina'' ''ignore-tls-errors'' 1,
                     Set_integer ''remmina'' ''enable-plugins'' 1] kf,
         snd (remmina_pref_save ops env st))
      else (kf, st))"

definition remmina_pref_init :: "'kf keyfile_ops \<Rightarrow> pref_env \<Rightarrow> pref_state \<Rightarrow> pref_state option" where
  "remmina_pref_init ops env st =
     (let st = pref_init_paths env st;
          colors_file = env_build_path env [env_user_config_dir env, ''remmina''] @ ''/remmina.colors'';
          kf = pref_kf ops st
      in case pref_load ops (env_opts env) kf (st_pref st, st_info st) of
           None \<Rightarrow> None
         | Some (p, i) \<Rightarrow>
             let st = st\<lparr>st_pref := p, st_info := i\<rparr>;
                 (kf, st) = pref_init_defaults ops env kf st;
                 kf = (if st_fs st colors_file \<noteq> None
                       then snd (kf_load ops kf (st_fs st colors_file)) else kf);
                 st = st\<lparr>st_pref := (st_pref st)\<lparr>pref_color_pref :=
                        remmina_pref_file_load_colors ops kf (pref_color_pref (st_pref st))\<rparr>\<rparr>;
                 st = (if pref_secret (st_pref st) = None then remmina_pref_gen_secret ops env st else st)
             in Some (remmina_pref_init_keymap ops env st))"

section \<open>Recent servers\<close>

text \<open>\<open>g_snprintf\<close> into 20 bytes.\<close>

definition recent_key :: "string \<Rightarrow> string" where
  "recent_key protocol = take 19 (''recent_'' @ protocol)"

text \<open>
  The loop that drops the oldest entries compares unsigned numbers; the caller has checked
  that the bound is positive.
\<close>

function recent_trim :: "string list \<Rightarrow> gint \<Rightarrow> string list" where
  "recent_trim a m =
     (if a \<noteq> [] \<and> unat m \<le> length a then recent_trim (remmina_string_array_remove_index a 0) m else a)"
  by pat_completeness auto
termination
  by (relation "measure (\<lambda>(a, m). length a)")
    (auto simp: remmina_string_array_remove_index_def remove_index_0)

declare recent_trim.simps [simp del]

definition remmina_pref_add_recent ::
  "'kf keyfile_ops \<Rightarrow> pref_env \<Rightarrow> string \<Rightarrow> cstr \<Rightarrow> pref_state \<Rightarrow> pref_state" where
  "remmina_pref_add_recent ops env protocol server st =
     (if sint (pref_recent_maximum (st_pref st)) \<le> 0 then st
      else case server of
             None \<Rightarrow> st
           | Some s \<Rightarrow>
               if s = [] then st
               else let kf = pref_kf ops st;
                        key = recent_key protocol;
                        array = remmina_string_array_new_from_allocated_string
                                  (kf_get_string ops kf ''remmina_pref'' key);
                        array = remmina_string_array_remove array s;
                        array = recent_trim array (pref_recent_maximum (st_pref st));
                        array = remmina_string_array_add array s;
                        val = remmina_string_array_to_string array;
                        kf = kf_set_string ops kf ''remmina_pref'' key val
                    in pref_store ops env kf st)"

definition remmina_pref_get_recent :: "'kf keyfile_ops \<Rightarrow> string \<Rightarrow> pref_state \<Rightarrow> cstr" where
  "remmina_pref_get_recent ops protocol st =
     kf_get_string ops (pref_kf ops st) ''remmina_pref'' (recent_key protocol)"

fun clear_recent_from :: "'kf keyfile_ops \<Rightarrow> string list \<Rightarrow> 'kf \<Rightarrow> 'kf" where
  "clear_recent_from ops [] kf = kf"
| "clear_recent_from ops (k # ks) kf =
     clear_recent_from ops ks
       (if take 7 k = ''recent_'' then kf_set_string ops kf ''remmina_pref'' k [] else kf)"

definition remmina_pref_clear_recent :: "'kf keyfile_ops \<Rightarrow> pref_env \<Rightarrow> pref_state \<Rightarrow> pref_state" where
  "remmina_pref_clear_recent ops env st =
     (let kf = pref_kf ops st;
          kf = (case kf_get_keys ops kf ''remmina_pref'' of
                  None \<Rightarrow> kf
                | Some keys \<Rightarrow> clear_recent_from ops keys kf)
      in pref_store ops env kf st)"

section \<open>Single values\<close>

text \<open>\<open>remmina_pref_get_scale_quality\<close> repairs a negative value in the struct it returns it from.\<close>

definition remmina_pref_get_scale_quality :: "pref_state \<Rightarrow> gint \<times> pref_state" where
  "remmina_pref_get_scale_quality st =
     (let st = (if sint (pref_scale_quality (st_pref st)) < 0
                then st\<lparr>st_pref := (st_pref st)\<lparr>pref_scale_quality := 0\<rparr>\<rparr> else st)
      in (pref_scale_quality (st_pref st), st))"

definition remmina_pref_get_ssh_loglevel :: "pref_state \<Rightarrow> gint" where
  "remmina_pref_get_ssh_loglevel st = pref_ssh_loglevel (st_pref st)"

definition remmina_pref_get_ssh_parseconfig :: "pref_state \<Rightarrow> bool" where
  "remmina_pref_get_ssh_parseconfig st = pref_ssh_parseconfig (st_pref st)"

definition remmina_pref_get_sshtunnel_port :: "pref_state \<Rightarrow> gint" where
  "remmina_pref_get_sshtunnel_port st = pref_sshtunnel_port (st_pref st)"

definition remmina_pref_get_ssh_tcp_keepidle :: "pref_state \<Rightarrow> gint" where
  "remmina_pref_get_ssh_tcp_keepidle st = pref_ssh_tcp_keepidle (st_pref st)"

definition remmina_pref_get_ssh_tcp_keepintvl :: "pref_state \<Rightarrow> gint" where
  "remmina_pref_get_ssh_tcp_keepintvl st = pref_ssh_tcp_keepintvl (st_pref st)"

definition remmina_pref_get_ssh_tcp_keepcnt :: "pref_state \<Rightarrow> gint" where
  "remmina_pref_get_ssh_tcp_keepcnt st = pref_ssh_tcp_keepcnt (st_pref st)"

definition remmina_pref_get_ssh_tcp_usrtimeout :: "pref_state \<Rightarrow> gint" where
  "remmina_pref_get_ssh_tcp_usrtimeout st = pref_ssh_tcp_usrtimeout (st_pref st)"

definition remmina_pref_set_value ::
  "'kf keyfile_ops \<Rightarrow> pref_env \<Rightarrow> string \<Rightarrow> string \<Rightarrow> pref_state \<Rightarrow> pref_state" where
  "remmina_pref_set_value ops env key value st =
     (let (ok, kf) = kf_load ops (kf_new ops) (st_fs st (st_file st))
      in if ok then pref_store ops env (kf_set_string ops kf ''remmina_pref'' key value) st else st)"

definition remmina_pref_get_value :: "'kf keyfile_ops \<Rightarrow> string \<Rightarrow> pref_state \<Rightarrow> cstr" where
  "remmina_pref_get_value ops key st = kf_get_string ops (pref_kf ops st) ''remmina_pref'' key"

definition remmina_pref_get_boolean :: "'kf keyfile_ops \<Rightarrow> string \<Rightarrow> pref_state \<Rightarrow> bool" where
  "remmina_pref_get_boolean ops key st = kf_get_boolean ops (pref_kf ops st) ''remmina_pref'' key"

end
