(* ===== verification/PrefFacts.thy ===== *)
theory PrefFacts
  imports Pref
begin

text \<open>
  What the operations of \<open>Pref\<close> guarantee: saving and loading, the recent-server lists, the
  keymap lookup, the copy of the initial configuration and single values. The key file is
  any implementation of the locale \<open>keyfile\<close>.
\<close>

section \<open>Reading back what was stored\<close>

lemma pref_store_fields [simp]:
  "st_pref (pref_store ops env kf st) = st_pref st"
  "st_file (pref_store ops env kf st) = st_file st"
  "st_info (pref_store ops env kf st) = st_info st"
  by (simp_all add: pref_store_def)

lemma pref_kf_store:
  "env_set_contents_ok env (st_file st) \<Longrightarrow>
     pref_kf ops (pref_store ops env kf st) = snd (kf_load ops (kf_new ops) (Some (kf_to_data ops kf)))"
  by (simp add: pref_kf_def pref_store_def set_contents_def file_set_contents_def)

lemma pref_save_ok:
  assumes "remmina_pref_save ops env st = (True, st')"
  shows "pref_kf ops st' = snd (kf_load ops (kf_new ops)
      (Some (kf_to_data ops (kf_run ops (pref_writes (env_opts env) (st_pref st)) (pref_kf ops st)))))"
    and "st_pref st' = st_pref st"
  using assms
  by (auto simp: remmina_pref_save_def set_contents_def file_set_contents_def pref_kf_def Let_def split: if_splits)

section \<open>The recent list\<close>

lemma recent_trim_drop:
  assumes "0 < unat m"
  shows "recent_trim a m = drop (length a - (unat m - 1)) a"
proof (induction a m rule: recent_trim.induct)
  case (1 a m)
  show ?case
  proof (cases "a \<noteq> [] \<and> unat m \<le> length a")
    case True
    then obtain x xs where a: "a = x # xs" by (cases a) auto
    have "recent_trim a m = recent_trim xs m"
      using True by (subst recent_trim.simps)
        (simp add: a remmina_string_array_remove_index_def remove_index_0)
    also have "\<dots> = drop (length xs - (unat m - 1)) xs"
      using "1.IH" [OF True] by (simp add: a remmina_string_array_remove_index_def remove_index_0)
    also have "\<dots> = drop (length a - (unat m - 1)) a"
      using True a by (simp add: Suc_diff_le)
    finally show ?thesis .
  next
    case False
    then show ?thesis
      by (subst recent_trim.simps) (cases a; auto)
  qed
qed

text \<open>The list a call leaves: the old one without the server and cut to size, then the server.\<close>

definition recent_after :: "gint \<Rightarrow> string \<Rightarrow> string list \<Rightarrow> string list" where
  "recent_after m s a = (let b = remove1 s a in drop (length b - (unat m - 1)) b @ [s])"

lemma recent_after_bound: "0 < unat m \<Longrightarrow> length (recent_after m s a) \<le> unat m"
  by (simp add: recent_after_def Let_def)

lemma recent_after_distinct: "distinct a \<Longrightarrow> distinct (recent_after m s a)"
  using distinct_remove1 [of a s]
  by (auto simp: recent_after_def Let_def distinct_drop set_remove1_eq dest: in_set_dropD)

lemma recent_after_subset: "set (recent_after m s a) \<subseteq> insert s (set a)"
  using set_drop_subset set_remove1_subset [of s a] by (fastforce simp: recent_after_def Let_def)

lemma sint_pos_unat: "0 < sint (m :: gint) \<Longrightarrow> 0 < unat m"
  by (cases "m = 0") (simp_all add: unat_gt_0)

lemma recent_array_update:
  assumes "0 < sint m"
  shows "remmina_string_array_add (recent_trim (remmina_string_array_remove a s) m) s = recent_after m s a"
  using recent_trim_drop [OF sint_pos_unat [OF assms], of "remove1 s a"]
  by (simp add: remmina_string_array_add_def remove_is_remove1 recent_after_def Let_def)

lemma kf_name_prefix: "kf_name p \<Longrightarrow> kf_name (take (Suc n) p)"
  by (cases p) (auto simp: list_all_iff dest: in_set_takeD)

lemma recent_key_name: "list_all kf_char protocol \<Longrightarrow> kf_name (recent_key protocol)"
  unfolding recent_key_def
  by (rule kf_name_prefix [where n = 18, simplified]) simp

context keyfile
begin

lemma add_recent_get:
  assumes "0 < sint (pref_recent_maximum (st_pref st))" "s \<noteq> []" "list_all kf_char protocol"
    and "env_set_contents_ok env (st_file st)"
    and "text_ok (g_strjoinv '','' (recent_after (pref_recent_maximum (st_pref st)) s a))"
    and "a = remmina_string_array_new_from_string (remmina_pref_get_recent ops protocol st)"
  shows "remmina_pref_get_recent ops protocol (remmina_pref_add_recent ops env protocol (Some s) st) =
    Some (g_strjoinv '','' (recent_after (pref_recent_maximum (st_pref st)) s a))"
  using assms recent_array_update [OF assms(1), of a s] recent_key_name [OF assms(3)]
  by (simp add: remmina_pref_get_recent_def remmina_pref_add_recent_def Let_def pref_kf_store
      reload_reads remmina_string_array_new_from_allocated_string_def to_string_strjoinv get_set_string)

lemma clear_recent_from_get:
  assumes "text_ok []" "\<forall>k \<in> set ks. kf_name k"
  shows "kf_get_string ops (clear_recent_from ops ks kf) ''remmina_pref'' k =
    (if k \<in> set ks \<and> take 7 k = ''recent_'' then Some [] else kf_get_string ops kf ''remmina_pref'' k)"
  using assms(2)
proof (induction ks arbitrary: kf)
  case Nil
  then show ?case by simp
next
  case (Cons x ks)
  have "kf_get_string ops (kf_set_string ops kf ''remmina_pref'' x []) ''remmina_pref'' k =
      (if k = x then Some [] else kf_get_string ops kf ''remmina_pref'' k)"
    using Cons.prems assms(1) set_string_other [of "''remmina_pref''" k "''remmina_pref''" x kf "[]"]
    by (auto simp: get_set_string kf_reads_def)
  with Cons show ?case by auto
qed

lemma clear_recent_get:
  assumes "text_ok []" "env_set_contents_ok env (st_file st)"
    and "\<And>ks k. kf_get_keys ops (pref_kf ops st) ''remmina_pref'' = Some ks \<Longrightarrow> k \<in> set ks \<Longrightarrow> kf_name k"
  shows "remmina_pref_get_value ops k (remmina_pref_clear_recent ops env st) =
    (if take 7 k = ''recent_'' \<and> kf_has_key ops (pref_kf ops st) ''remmina_pref'' k then Some []
     else remmina_pref_get_value ops k st)"
proof (cases "kf_get_keys ops (pref_kf ops st) ''remmina_pref''")
  case None
  then have "\<not> kf_has_key ops (pref_kf ops st) ''remmina_pref'' k"
    using keys_has_key [of "pref_kf ops st" "''remmina_pref''" k] by simp
  with None assms show ?thesis
    by (simp add: remmina_pref_get_value_def remmina_pref_clear_recent_def pref_kf_store reload_reads)
next
  case (Some ks)
  then have "k \<in> set ks \<longleftrightarrow> kf_has_key ops (pref_kf ops st) ''remmina_pref'' k"
    using keys_has_key [of "pref_kf ops st" "''remmina_pref''" k] by simp
  with Some assms show ?thesis
    by (auto simp: remmina_pref_get_value_def remmina_pref_clear_recent_def pref_kf_store reload_reads
        clear_recent_from_get)
qed

lemma set_value_get:
  assumes "fst (kf_load ops (kf_new ops) (st_fs st (st_file st)))" "kf_name k" "text_ok v"
    and "env_set_contents_ok env (st_file st)"
  shows "remmina_pref_get_value ops k' (remmina_pref_set_value ops env k v st) =
    (if k' = k then Some v else remmina_pref_get_value ops k' st)"
proof -
  have r: "pref_kf ops (remmina_pref_set_value ops env k v st) =
      snd (kf_load ops (kf_new ops)
        (Some (kf_to_data ops (kf_set_string ops (pref_kf ops st) ''remmina_pref'' k v))))"
    using assms(1,4)
    by (auto simp: remmina_pref_set_value_def pref_kf_store split: prod.splits)
      (simp add: pref_kf_def)
  show ?thesis
    using assms(2,3) set_string_other [of "''remmina_pref''" k' "''remmina_pref''" k "pref_kf ops st" v]
    by (auto simp: remmina_pref_get_value_def r reload_reads get_set_string kf_reads_def)
qed

end

section \<open>The keymap\<close>

text \<open>The table of a group as pairs, and its lookup as that of an association list.\<close>

fun keymap_assoc :: "'kf keyfile_ops \<Rightarrow> (string \<Rightarrow> guint) \<Rightarrow> 'kf \<Rightarrow> string \<Rightarrow> string list \<Rightarrow> (guint \<times> guint) list" where
  "keymap_assoc ops kv kf g [] = []"
| "keymap_assoc ops kv kf g (k # ks) =
     (let k1 = remmina_pref_get_keyval_from_str kv (Some k);
          k2 = remmina_pref_get_keyval_from_str kv (kf_get_string ops kf g k)
      in (if k1 \<noteq> 0 then [(k1, k2)] else []) @ keymap_assoc ops kv kf g ks)"

lemma keymap_pairs_length: "length (keymap_pairs ops kv kf g ks) \<le> 2 * length ks"
  by (induction ks) (simp_all add: Let_def)

lemma keymap_scan_zeros: "keymap_scan (replicate n 0) k = k"
  by (induction n rule: induct_nat_012) simp_all

lemma keymap_scan_assoc:
  "keymap_scan (keymap_pairs ops kv kf g ks @ replicate n 0) k =
     (case map_of (keymap_assoc ops kv kf g ks) k of None \<Rightarrow> k | Some v \<Rightarrow> v)"
  by (induction ks) (auto simp: keymap_scan_zeros Let_def word_gt_0)

lemma keymap_groups_from_lookup:
  "keymap_groups_from ops kv kf gs m g =
     (if g \<in> set gs then Some (keymap_table ops kv kf g) else m g)"
  by (induction gs arbitrary: m) auto

section \<open>The initial configuration\<close>

lemma do_copy_extends: "fs \<subseteq>\<^sub>m snd (remmina_pref_file_do_copy fs a b)"
  by (auto simp: remmina_pref_file_do_copy_def map_le_def split: option.splits)

lemma copy_names_extends: "fs \<subseteq>\<^sub>m pref_copy_names env d ns fs"
  by (induction ns arbitrary: fs) (auto intro: map_le_trans [OF do_copy_extends])

lemma copy_system_extends: "fs \<subseteq>\<^sub>m pref_copy_system env ds fs"
  by (induction ds arbitrary: fs) (auto simp: Let_def intro: map_le_trans [OF copy_names_extends])

lemma copy_legacy_extends: "fs \<subseteq>\<^sub>m pref_copy_legacy env fs"
  by (simp add: pref_copy_legacy_def Let_def do_copy_extends)

lemma init_paths_extends: "st_fs st \<subseteq>\<^sub>m st_fs (pref_init_paths env st)"
  by (simp add: pref_init_paths_def Let_def)
    (rule map_le_trans [OF copy_legacy_extends copy_system_extends])

lemma init_legacy_first:
  assumes "st_fs st (pref_user_path env ''remmina.pref'') = None"
    and "env_is_dir env (env_build_path env [opt_home_dir (env_opts env), ''.remmina''])"
    and "st_fs st (env_build_path env
           [env_build_path env [opt_home_dir (env_opts env), ''.remmina''], ''remmina.pref'']) = Some d"
  shows "st_fs (pref_init_paths env st) (pref_user_path env ''remmina.pref'') = Some d"
proof -
  have "pref_copy_legacy env (st_fs st) (pref_user_path env ''remmina.pref'') = Some d"
    using assms by (simp add: pref_copy_legacy_def remmina_pref_file_do_copy_def)
  then show ?thesis
    using copy_system_extends [of "pref_copy_legacy env (st_fs st)" env "env_system_config_dirs env"]
    by (auto simp: pref_init_paths_def Let_def map_le_def dom_def)
qed

section \<open>A concrete session\<close>

text \<open>The inputs of the witnesses: an empty configuration in a writable home.\<close>

definition sample_opts :: pref_opts where
  "sample_opts = \<lparr>
     opt_extrahardening = False, opt_disabletoolbar = False, opt_disabletrayicon = False,
     opt_fullscreen = False, opt_disablenews = False, opt_disablestats = False,
     opt_build_disable_news = False, opt_build_disable_stats = False, opt_build_disable_tip = False,
     opt_sodium = True, opt_primary_monitor = 0, opt_pictures_dir = None, opt_home_dir = ''/home/u''\<rparr>"

definition sample_pref_env :: pref_env where
  "sample_pref_env = \<lparr>
     env_opts = sample_opts, env_writable = (\<lambda>_. True), env_set_contents_ok = (\<lambda>_. True),
     env_is_dir = (\<lambda>_. True), env_dir_names = (\<lambda>_. [''remmina.pref'']),
     env_build_path = g_strjoinv ''/'', env_user_config_dir = ''/home/u/.config'',
     env_system_config_dirs = [''/etc/xdg''],
     env_keyval_from_name = (\<lambda>n. if n = ''a'' then 0x61 else if n = ''b'' then 0x62 else 0xffffff),
     env_base64 = (\<lambda>bs. map (\<lambda>b. char_of (unat b)) bs), env_random = (\<lambda>i n. i)\<rparr>"

definition sample_pref :: pref where
  "sample_pref = pref_zero\<lparr>
     pref_datadir_path := Some [], pref_remmina_file_name := Some ''%G_%P_%N_%h'',
     pref_screenshot_path := Some ''/home/u'', pref_screenshot_name := Some ''remmina_%p'',
     pref_unlock_password := Some [], pref_last_quickconnect_protocol := Some ''RDP'',
     pref_resolutions := Some default_resolutions, pref_keystrokes := Some default_keystrokes,
     pref_expanded_group := Some [], pref_main_width := 800, pref_main_height := 600,
     pref_recent_maximum := 2, pref_hostkey := 0xffe4, pref_audit := True,
     pref_vte_font := None, pref_grab_color := Some ''#00ff00'', pref_color_file := None,
     pref_periodic_news_last_checksum := None, pref_info_uid_prefix := None\<rparr>"

definition sample_state :: "alist_kf \<Rightarrow> pref_state" where
  "sample_state kf = \<lparr>
     st_pref = sample_pref,
     st_info = \<lparr>info_disable_news = False, info_disable_stats = False, info_disable_tip = False\<rparr>,
     st_fs = [''/p'' \<mapsto> put_alist kf], st_file = ''/p'', st_keymap_file = ''/k'', st_keymap = Map.empty\<rparr>"

lemma alist_has_new [simp]: "kf_has_key alist_ops [] g k = False"
  by simp

lemma sample_pref_wf: "pref_wf (\<lambda>_. True) sample_pref"
  by (simp add: sample_pref_def pref_wf_def str_ok_def null_to_empty_def)

lemma str_ok_null_to_empty: "str_ok (\<lambda>_. True) (null_to_empty s)"
  by (cases s) (simp_all add: str_ok_def)

lemma sample_colors_ok: "colors_ok (\<lambda>_. True) c"
  by (simp add: colors_ok_def str_ok_null_to_empty)

lemma sample_no_override: "no_override sample_opts"
  by (simp add: no_override_def sample_opts_def)

lemma sample_pref_env_simps [simp]:
  "env_opts sample_pref_env = sample_opts" "env_set_contents_ok sample_pref_env x" "env_writable sample_pref_env x"
  by (simp_all add: sample_pref_env_def)

lemma sample_state_simps [simp]:
  "st_pref (sample_state kf) = sample_pref" "st_file (sample_state kf) = ''/p''"
  "st_fs (sample_state kf) ''/p'' = Some (put_alist kf)"
  by (simp_all add: sample_state_def)

lemma sample_pref_kf [simp]: "pref_kf alist_ops (sample_state kf) = kf"
  by (simp add: pref_kf_def)

section \<open>Properties\<close>

lemma pref_unsaved_keys:
  "(''remmina_pref'', ''secret'') \<notin> set pref_write_keys"
  "(''remmina_pref'', ''uid'') \<notin> set pref_write_keys"
  "(''remmina_pref'', ''list_refresh_workaround'') \<notin> set pref_write_keys"
  by (auto simp: pref_write_keys_def) (simp_all add: pref_keys_options_def)

lemma pref_reloaded_file:
  assumes "keyfile ops ok"
  shows "pref_reloaded ops (snd (kf_load ops kf0 (Some (kf_to_data ops (kf_run ops (pref_writes opt q) kf))))) p0 p =
    pref_reloaded ops kf p0 p"
proof -
  have "kf_last (pref_writes opt q) (''remmina_pref'', k) = None"
    if "(''remmina_pref'', k) \<notin> set pref_write_keys" for k
    by (rule kf_last_None) (simp only: that pref_write_keys flip: set_map, simp)
  note n = this [OF pref_unsaved_keys(1)] this [OF pref_unsaved_keys(2)] this [OF pref_unsaved_keys(3)]
  show ?thesis
    by (simp add: pref_reloaded_def kf_string_or_def kf_boolean_or_def
        keyfile.reload_reads [OF assms] keyfile.run_untouched [OF assms n(1)]
        keyfile.run_untouched [OF assms n(2)] keyfile.run_untouched [OF assms n(3)])
qed

text \<open>
  C4: A load that follows a successful save gives back every preference the save writes, the strings
  that may be NULL read back as empty ones, and takes the secret, the uid and the other keys the save
  leaves out from the file as they were; the colours come back the same way. The preferences are well
  formed: their strings and colours are ones the key file format can hold, those without a default
  for NULL are not NULL, the template of the file names is not empty, and the main window is at least
  600 by 400, the smallest size a load accepts. The load runs without a flag of the command line or of
  the build that overrides what the file says (extra hardening, no toolbar, no tray icon, full screen,
  no news, statistics or tips), and with libsodium.
\<close>

theorem pref_save_load:
  assumes "keyfile ops ok" and "remmina_pref_save ops env st = (True, st')"
    and "pref_wf ok (st_pref st)" and "colors_ok ok (pref_color_pref (st_pref st))"
    and "no_override (env_opts env)"
  shows "pref_load ops (env_opts env) (pref_kf ops st') (p0, i0) =
      Some (pref_reloaded ops (pref_kf ops st) p0 (st_pref st),
        i0\<lparr>info_disable_news := pref_disable_news (st_pref st),
          info_disable_stats := pref_disable_stats (st_pref st),
          info_disable_tip := pref_disable_tip (st_pref st)\<rparr>) \<and>
    remmina_pref_file_load_colors ops (pref_kf ops st') c0 =
      colors_null_to_empty (pref_color_pref (st_pref st))"
  unfolding pref_save_ok(1) [OF assms(2)]
  using pref_load_stored [OF pref_writes_stored [OF assms(1)] assms(5,3)]
    colors_load_stored [OF pref_writes_stored [OF assms(1)] assms(4)]
  by (simp add: pref_reloaded_file [OF assms(1)])

lemma sample_save: "remmina_pref_save alist_ops sample_pref_env (sample_state kf) =
    (True, snd (remmina_pref_save alist_ops sample_pref_env (sample_state kf)))"
  by (simp add: remmina_pref_save_def remmina_pref_is_rw_def set_contents_def file_set_contents_def Let_def)

theorem pref_save_load_witness:
  "pref_load alist_ops sample_opts
      (pref_kf alist_ops (snd (remmina_pref_save alist_ops sample_pref_env (sample_state [])))) (pref_zero, pref_info.make False False False) =
    Some (pref_reloaded alist_ops [] pref_zero sample_pref,
      (pref_info.make False False False)\<lparr>info_disable_news := pref_disable_news sample_pref,
          info_disable_stats := pref_disable_stats sample_pref,
          info_disable_tip := pref_disable_tip sample_pref\<rparr>)"
  using pref_save_load [OF alist.keyfile_axioms sample_save] sample_pref_wf sample_colors_ok sample_no_override
  by simp

text \<open>
  After connecting to a server, the recent list of its protocol ends with that server,
  holds the earlier ones in their order without it, and is cut from the front to the
  configured maximum.
\<close>

theorem add_recent_get_recent:
  assumes "keyfile ops ok" and "0 < sint (pref_recent_maximum (st_pref st))" and "s \<noteq> []"
    and "list_all kf_char protocol" and "env_set_contents_ok env (st_file st)"
    and "a = remmina_string_array_new_from_string (remmina_pref_get_recent ops protocol st)"
    and "ok (g_strjoinv '','' (recent_after (pref_recent_maximum (st_pref st)) s a))"
    and "CHR '','' \<notin> set s"
  shows "remmina_string_array_new_from_string
      (remmina_pref_get_recent ops protocol (remmina_pref_add_recent ops env protocol (Some s) st)) =
        recent_after (pref_recent_maximum (st_pref st)) s a \<and>
    length (recent_after (pref_recent_maximum (st_pref st)) s a) \<le> unat (pref_recent_maximum (st_pref st))"
proof -
  let ?l = "recent_after (pref_recent_maximum (st_pref st)) s a"
  have nc: "\<forall>x \<in> set ?l. CHR '','' \<notin> set x"
    using assms(6,8) new_from_string_no_comma [of "remmina_pref_get_recent ops protocol st"]
      recent_after_subset [of "pref_recent_maximum (st_pref st)" s a] by blast
  have ne: "?l \<noteq> []" "g_strjoinv '','' ?l \<noteq> []"
    using assms(3) by (simp_all add: recent_after_def Let_def strjoinv_snoc_ne)
  show ?thesis
    using keyfile.add_recent_get [OF assms(1-5,7,6)] nc ne recent_after_bound [OF sint_pos_unat [OF assms(2)]]
    by (simp add: new_from_string_strsplit g_strsplit_def strsplit_from_char_join)
qed

theorem add_recent_get_recent_witness:
  "remmina_string_array_new_from_string
     (remmina_pref_get_recent alist_ops ''RDP''
       (remmina_pref_add_recent alist_ops sample_pref_env ''RDP'' (Some ''c'')
         (sample_state [((''remmina_pref'', ''recent_RDP''), ''a,b'')]))) = recent_after 2 ''c'' [''a'', ''b'']"
proof -
  have l: "remmina_string_array_new_from_string (Some ''a,b'') = [''a'', ''b'']"
    by (simp add: new_from_string_strsplit g_strsplit_def)
      (subst strsplit_from_char, simp add: split_at_def, subst strsplit_from_char, simp add: split_at_def)
  have r: "remmina_pref_get_recent alist_ops ''RDP'' (sample_state [((''remmina_pref'', ''recent_RDP''), ''a,b'')])
      = Some ''a,b''"
    by (simp add: remmina_pref_get_recent_def recent_key_def)
  have m: "pref_recent_maximum sample_pref = 2" by (simp add: sample_pref_def)
  show ?thesis
    using add_recent_get_recent [OF alist.keyfile_axioms,
        of "sample_state [((''remmina_pref'', ''recent_RDP''), ''a,b'')]" "''c''" "''RDP''" sample_pref_env "[''a'', ''b'']"]
    by (simp add: r l m)
qed

text \<open>
  Clearing the recent lists empties every \<open>recent_*\<close> value of the file and changes no
  other preference.
\<close>

theorem clear_recent_only_recent:
  assumes "keyfile ops ok" and "ok []" and "env_set_contents_ok env (st_file st)"
    and "\<And>ks k. kf_get_keys ops (pref_kf ops st) ''remmina_pref'' = Some ks \<Longrightarrow> k \<in> set ks \<Longrightarrow> kf_name k"
  shows "remmina_pref_get_value ops k (remmina_pref_clear_recent ops env st) =
    (if take 7 k = ''recent_'' \<and> kf_has_key ops (pref_kf ops st) ''remmina_pref'' k then Some []
     else remmina_pref_get_value ops k st)"
  using keyfile.clear_recent_get [OF assms(1,2,3)] assms(4) by blast

theorem clear_recent_only_recent_witness:
  "remmina_pref_get_value alist_ops ''recent_VNC'' (remmina_pref_clear_recent alist_ops sample_pref_env
     (sample_state [((''remmina_pref'', ''recent_VNC''), ''h''), ((''remmina_pref'', ''secret''), ''x'')])) = Some []"
  by (subst clear_recent_only_recent [OF alist.keyfile_axioms]) (auto simp: alist_keys_def)

text \<open>
  A value stored with \<open>remmina_pref_set_value\<close> is the one \<open>remmina_pref_get_value\<close>
  returns for its key, and the value of every other key stays what it was.
\<close>

theorem pref_set_get_value:
  assumes "keyfile ops ok" and "fst (kf_load ops (kf_new ops) (st_fs st (st_file st)))"
    and "kf_name k" and "ok v" and "env_set_contents_ok env (st_file st)"
  shows "remmina_pref_get_value ops k' (remmina_pref_set_value ops env k v st) =
    (if k' = k then Some v else remmina_pref_get_value ops k' st)"
  by (rule keyfile.set_value_get [OF assms])

theorem pref_set_get_value_witness:
  "remmina_pref_get_value alist_ops ''uid'' (remmina_pref_set_value alist_ops sample_pref_env ''uid'' ''7'' (sample_state [])) = Some ''7''"
  using pref_set_get_value [OF alist.keyfile_axioms, where st = "sample_state []" and k = "''uid''" and v = "''7''"
      and env = sample_pref_env and k' = "''uid''"]
  by simp

text \<open>
  Once the keymap file is loaded, translating a key press with a map of the file gives
  the value of the first entry of that group for the key, and the key itself when there
  is none: the table that is scanned in steps of two is the group's association list.
\<close>

theorem keymap_get_keyval_lookup:
  assumes "kf_load ops (kf_new ops) (st_fs st (st_keymap_file st)) = (True, kf)"
    and "g \<in> set (kf_get_groups ops kf)" and "g \<noteq> []" and "kf_get_keys ops kf g = Some ks"
  shows "remmina_pref_keymap_get_keyval (remmina_pref_init_keymap ops env st) (Some g) k =
    (case map_of (keymap_assoc ops (env_keyval_from_name env) kf g ks) k of None \<Rightarrow> k | Some v \<Rightarrow> v)"
  using assms
  by (simp add: remmina_pref_keymap_get_keyval_def remmina_pref_init_keymap_def
      keymap_groups_from_lookup keymap_table_def keymap_scan_assoc Let_def)

theorem keymap_get_keyval_lookup_witness:
  "remmina_pref_keymap_get_keyval (remmina_pref_init_keymap alist_ops sample_pref_env
     ((sample_state [])\<lparr>st_keymap_file := ''/p'', st_fs := [''/p'' \<mapsto> put_alist [((''g'', ''a''), ''b'')]]\<rparr>))
     (Some ''g'') 0x61 = 0x62"
  using keymap_get_keyval_lookup [where ops = alist_ops and env = sample_pref_env and g = "''g''" and k = "0x61"
      and kf = "[((''g'', ''a''), ''b'')]" and ks = "[''a'']"
      and st = "(sample_state [])\<lparr>st_keymap_file := ''/p'', st_fs := [''/p'' \<mapsto> put_alist [((''g'', ''a''), ''b'')]]\<rparr>"]
  by (simp add: alist_keys_def remmina_pref_get_keyval_from_str_def
      sample_pref_env_def)

text \<open>
  Setting up the configuration never overwrites a file the user has, and the legacy
  \<open>~/.remmina/remmina.pref\<close> wins over the system-wide one.
\<close>

theorem init_keeps_user_files:
  "st_fs st \<subseteq>\<^sub>m st_fs (pref_init_paths env st) \<and>
   (st_fs st (pref_user_path env ''remmina.pref'') = None \<and>
    env_is_dir env (env_build_path env [opt_home_dir (env_opts env), ''.remmina'']) \<and>
    st_fs st (env_build_path env
      [env_build_path env [opt_home_dir (env_opts env), ''.remmina''], ''remmina.pref'']) = Some d
    \<longrightarrow> st_fs (pref_init_paths env st) (pref_user_path env ''remmina.pref'') = Some d)"
  using init_paths_extends init_legacy_first by blast

theorem init_keeps_user_files_witness:
  "st_fs (pref_init_paths sample_pref_env ((sample_state [])\<lparr>st_fs := [''/home/u/.remmina/remmina.pref'' \<mapsto> ''L'',
     ''/etc/xdg/remmina/remmina.pref'' \<mapsto> ''S'']\<rparr>)) ''/home/u/.config/remmina/remmina.pref'' = Some ''L''"
  using init_keeps_user_files [of "(sample_state [])\<lparr>st_fs := [''/home/u/.remmina/remmina.pref'' \<mapsto> ''L'',
     ''/etc/xdg/remmina/remmina.pref'' \<mapsto> ''S'']\<rparr>" sample_pref_env "''L''"]
  by (simp add: sample_pref_env_def sample_opts_def pref_user_path_def)

lemma pref_load_info_secret: "pref_secret (fst (pref_load_info ops opt kf pi)) = pref_secret (fst pi)"
  by (cases pi) (simp add: pref_load_info_def Let_def split_beta if_distrib [of fst] if_distrib [of pref_secret]
      cong: if_cong)

lemma pref_load_secret:
  assumes "pref_load ops opt kf (p0, i0) = Some (p, i)"
  shows "pref_secret p = kf_string_or ops kf ''remmina_pref'' ''secret'' None"
proof -
  obtain q where "pref_load_info ops opt kf (pref_load_terminal ops opt kf q, i0) = (p, i)"
    using assms by (auto simp: pref_load_def Let_def split: option.splits)
  then have "pref_secret p = pref_secret (pref_load_terminal ops opt kf q)"
    using pref_load_info_secret [of ops opt kf "(pref_load_terminal ops opt kf q, i0)"]
    by (metis fst_conv)
  then show ?thesis by (simp add: pref_load_terminal_def)
qed

lemma pref_save_secret:
  assumes "keyfile ops ok"
  shows "kf_reads ops (pref_kf ops (snd (remmina_pref_save ops env st))) ''remmina_pref'' ''secret'' =
    kf_reads ops (pref_kf ops st) ''remmina_pref'' ''secret''"
proof (cases "remmina_pref_save ops env st")
  case (Pair b st')
  have n: "kf_last (pref_writes opt q) (''remmina_pref'', ''secret'') = None" for opt q
    by (rule kf_last_None) (simp only: pref_unsaved_keys(1) pref_write_keys flip: set_map, simp)
  show ?thesis
  proof (cases b)
    case True
    with Pair have "remmina_pref_save ops env st = (True, st')" by simp
    from pref_save_ok(1) [OF this] show ?thesis
      by (simp add: Pair keyfile.reload [OF assms]) (use keyfile.run_other [OF assms n] in simp)
  next
    case False
    with Pair have "st' = st"
      by (auto simp: remmina_pref_save_def set_contents_def file_set_contents_def Let_def split: if_splits)
    with Pair show ?thesis by simp
  qed
qed

lemma pref_init_defaults_pref [simp]:
  "st_pref (snd (pref_init_defaults ops env kf st)) = st_pref st"
  "st_file (snd (pref_init_defaults ops env kf st)) = st_file st"
  by (auto simp: pref_init_defaults_def remmina_pref_save_def Let_def split: prod.splits)

lemma pref_init_defaults_secret:
  assumes "keyfile ops ok"
  shows "kf_get_string ops (pref_kf ops (snd (pref_init_defaults ops env kf st))) ''remmina_pref'' ''secret'' =
    kf_get_string ops (pref_kf ops st) ''remmina_pref'' ''secret''"
  using pref_save_secret [OF assms, of env st] by (simp add: pref_init_defaults_def kf_reads_def)

lemma init_keymap_other [simp]:
  "st_pref (remmina_pref_init_keymap ops env st) = st_pref st"
  "pref_kf ops (remmina_pref_init_keymap ops env st) = pref_kf ops st"
  by (simp_all add: remmina_pref_init_keymap_def pref_kf_def Let_def split: prod.splits)

lemma gen_secret_stored:
  assumes "keyfile ops ok" and "env_set_contents_ok env (st_file st)"
    and "ok (env_base64 env (map (\<lambda>i. word_of_nat (env_random env i 257)) [0..<32]))"
  shows "pref_secret (st_pref (remmina_pref_gen_secret ops env st)) =
      kf_get_string ops (pref_kf ops (remmina_pref_gen_secret ops env st)) ''remmina_pref'' ''secret''"
    and "pref_secret (st_pref (remmina_pref_gen_secret ops env st)) \<noteq> None"
  using assms
  by (simp_all add: remmina_pref_gen_secret_def Let_def pref_kf_store keyfile.reload_reads [OF assms(1)]
      keyfile.get_set_string [OF assms(1)])

text \<open>
  After initialisation there is a secret, and it is the one in the preferences file: the
  passwords a later session reads were encrypted with the secret that session will load.
\<close>

theorem init_secret_persisted:
  assumes "keyfile ops ok" and "remmina_pref_init ops env st = Some st'"
    and "\<forall>path. env_set_contents_ok env path"
    and "ok (env_base64 env (map (\<lambda>i. word_of_nat (env_random env i 257)) [0..<32]))"
  shows "pref_secret (st_pref st') \<noteq> None \<and>
    pref_secret (st_pref st') = kf_get_string ops (pref_kf ops st') ''remmina_pref'' ''secret''"
proof -
  let ?s0 = "pref_init_paths env st"
  obtain p i where l: "pref_load ops (env_opts env) (pref_kf ops ?s0) (st_pref ?s0, st_info ?s0) = Some (p, i)"
    using assms(2) by (auto simp: remmina_pref_init_def Let_def split: option.splits)
  let ?s1 = "?s0\<lparr>st_pref := p, st_info := i\<rparr>"
  obtain kf s2 where d: "pref_init_defaults ops env (pref_kf ops ?s0) ?s1 = (kf, s2)" by fastforce
  obtain c where st': "st' = remmina_pref_init_keymap ops env
      (let s3 = s2\<lparr>st_pref := (st_pref s2)\<lparr>pref_color_pref := c\<rparr>\<rparr>
       in if pref_secret (st_pref s3) = None then remmina_pref_gen_secret ops env s3 else s3)"
    using assms(2) by (auto simp: remmina_pref_init_def Let_def l d simp del: init_keymap_other)
  have s2: "s2 = snd (pref_init_defaults ops env (pref_kf ops ?s0) ?s1)" by (simp add: d)
  have k1: "pref_kf ops ?s1 = pref_kf ops ?s0" by (simp add: pref_kf_def)
  let ?s3 = "s2\<lparr>st_pref := (st_pref s2)\<lparr>pref_color_pref := c\<rparr>\<rparr>"
  have k3: "pref_kf ops ?s3 = pref_kf ops s2" by (simp add: pref_kf_def)
  have "kf_get_string ops (pref_kf ops s2) ''remmina_pref'' ''secret'' =
      kf_get_string ops (pref_kf ops ?s0) ''remmina_pref'' ''secret''"
    unfolding s2 pref_init_defaults_secret [OF assms(1)] k1 ..
  moreover have "pref_secret (st_pref s2) = kf_string_or ops (pref_kf ops ?s0) ''remmina_pref'' ''secret'' None"
    using pref_load_secret [OF l] by (simp add: s2)
  ultimately have e: "pref_secret (st_pref s2) = kf_get_string ops (pref_kf ops s2) ''remmina_pref'' ''secret''"
    using keyfile.absent_string [OF assms(1), of "pref_kf ops ?s0" "''remmina_pref''" "''secret''"]
    by (auto simp: kf_string_or_def)
  show ?thesis
  proof (cases "pref_secret (st_pref s2)")
    case None
    have "env_set_contents_ok env (st_file ?s3)" using assms(3) by simp
    from gen_secret_stored [OF assms(1) this assms(4)] None show ?thesis by (simp add: st')
  next
    case (Some t)
    then have "kf_get_string ops (pref_kf ops s2) ''remmina_pref'' ''secret'' = Some t" using e by simp
    with Some show ?thesis by (simp add: st' k3 Let_def)
  qed
qed

lemma pref_load_total:
  "\<not> kf_has_key ops kf ''remmina_pref'' ''remmina_file_name'' \<Longrightarrow>
     \<exists>p i. pref_load ops opt kf (p0, i0) = Some (p, i)"
  by (simp add: pref_load_def pref_load_paths_def Let_def)

lemma sample_init: "\<exists>st'. remmina_pref_init alist_ops sample_pref_env ((sample_state [])\<lparr>st_fs := Map.empty\<rparr>) = Some st'"
proof -
  let ?s = "pref_init_paths sample_pref_env ((sample_state [])\<lparr>st_fs := Map.empty\<rparr>)"
  have "st_fs ?s = Map.empty"
    by (simp add: pref_init_paths_def pref_copy_legacy_def remmina_pref_file_do_copy_def Let_def sample_pref_env_def)
  then have "pref_kf alist_ops ?s = []" by (simp add: pref_kf_def)
  then have "\<not> kf_has_key alist_ops (pref_kf alist_ops ?s) ''remmina_pref'' ''remmina_file_name''" by simp
  from pref_load_total [OF this, of "env_opts sample_pref_env" "st_pref ?s" "st_info ?s"] show ?thesis
    by (auto simp: remmina_pref_init_def Let_def split: prod.splits)
qed

theorem init_secret_persisted_witness:
  "\<exists>st'. remmina_pref_init alist_ops sample_pref_env ((sample_state [])\<lparr>st_fs := Map.empty\<rparr>) = Some st' \<and>
     pref_secret (st_pref st') = kf_get_string alist_ops (pref_kf alist_ops st') ''remmina_pref'' ''secret''"
  using sample_init init_secret_persisted [OF alist.keyfile_axioms, of sample_pref_env "(sample_state [])\<lparr>st_fs := Map.empty\<rparr>"]
  by fastforce

section \<open>Two defects\<close>

lemma pref_writes_saved:
  assumes "keyfile ops ok" and "remmina_pref_save ops env st = (True, st')"
    and "w \<in> set (pref_writes (env_opts env) (st_pref st))"
  shows "kf_stored ops ok (pref_kf ops st') w"
  using pref_writes_stored [OF assms(1)] assms(3)
  unfolding pref_save_ok(1) [OF assms(2)] list_all_iff by blast

text \<open>
  A session started with \<open>--disable-news\<close> that saves its preferences turns the news on for
  the next one, whatever the file said: the flag sets the global \<open>info_disable_news\<close> only,
  and the struct still holds the zero it started with.
\<close>

theorem disable_news_flag_permits_news:
  assumes "keyfile ops ok" and "opt_disablenews (env_opts env)" and "\<not> opt_build_disable_news (env_opts env)"
    and "pref_load ops (env_opts env) (pref_kf ops st) (p0, i0) = Some (p, i)" and "\<not> pref_disable_news p0"
    and "remmina_pref_save ops env (st\<lparr>st_pref := p\<rparr>) = (True, st')"
  shows "info_disable_news i \<and>
    kf_get_boolean ops (pref_kf ops st') ''remmina_info'' ''periodic_news_permitted''"
proof -
  let ?kf = "pref_kf ops st" and ?opt = "env_opts env"
  have n: "pref_disable_news (pref_load_window ops ?opt ?kf (pref_load_appearance ops ?opt ?kf
      (pref_load_security ops ?opt ?kf p0))) = pref_disable_news p0"
    by (simp add: pref_load_window_def pref_load_appearance_def pref_load_security_def)
  have np: "pref_load_paths ops ?opt ?kf q = Some q' \<Longrightarrow> pref_disable_news q' = pref_disable_news q" for q q'
    by (auto simp: pref_load_paths_def split: if_splits option.splits)
  obtain r where r: "pref_load_paths ops ?opt ?kf (pref_load_window ops ?opt ?kf
        (pref_load_appearance ops ?opt ?kf (pref_load_security ops ?opt ?kf p0))) = Some r"
    and l: "pref_load_info ops ?opt ?kf (pref_load_terminal ops ?opt ?kf
        (pref_load_keys ops ?opt ?kf (pref_load_network ops ?opt ?kf r)), i0) = (p, i)"
    using assms(4) by (auto simp: pref_load_def Let_def split: option.splits)
  let ?q = "pref_load_terminal ops ?opt ?kf (pref_load_keys ops ?opt ?kf (pref_load_network ops ?opt ?kf r))"
  have q: "pref_disable_news ?q = pref_disable_news p0" "pref_load_info ops ?opt ?kf (?q, i0) = (p, i)"
    using np [OF r] n l by (simp_all add: pref_load_terminal_def pref_load_keys_def pref_load_network_def)
  have i: "\<not> pref_disable_news p \<and> info_disable_news i"
    using arg_cong [OF q(2), of "\<lambda>x. pref_disable_news (fst x)"]
      arg_cong [OF q(2), of "\<lambda>x. info_disable_news (snd x)"] q(1) assms(2,3,5)
    by (simp add: pref_load_info_def Let_def split_beta if_distrib [of fst] if_distrib [of snd]
        if_distrib [of pref_disable_news] if_distrib [of info_disable_news] cong: if_cong)
  have "Set_boolean ''remmina_info'' ''periodic_news_permitted'' (\<not> pref_disable_news p)
      \<in> set (pref_writes ?opt (st_pref (st\<lparr>st_pref := p\<rparr>)))"
    by (simp add: pref_writes_def pref_writes_terminal_def)
  from pref_writes_saved [OF assms(1,6) this] i show ?thesis by simp
qed

theorem disable_news_flag_permits_news_witness:
  "\<exists>p i st'. pref_load alist_ops (sample_opts\<lparr>opt_disablenews := True\<rparr>)
      [((''remmina_info'', ''periodic_news_permitted''), ''false'')]
      (sample_pref\<lparr>pref_disable_news := False\<rparr>, pref_info.make False False False) = Some (p, i) \<and>
    remmina_pref_save alist_ops (sample_pref_env\<lparr>env_opts := sample_opts\<lparr>opt_disablenews := True\<rparr>\<rparr>)
      ((sample_state [((''remmina_info'', ''periodic_news_permitted''), ''false'')])\<lparr>st_pref := p\<rparr>) = (True, st') \<and>
    kf_get_boolean alist_ops (pref_kf alist_ops st') ''remmina_info'' ''periodic_news_permitted''"
  (is "\<exists>p i st'. ?l p i \<and> ?s p st' \<and> ?g st'")
proof -
  let ?env = "sample_pref_env\<lparr>env_opts := sample_opts\<lparr>opt_disablenews := True\<rparr>\<rparr>"
  let ?st = "sample_state [((''remmina_info'', ''periodic_news_permitted''), ''false'')]"
  obtain p i where l: "?l p i"
    using pref_load_total [of alist_ops "[((''remmina_info'', ''periodic_news_permitted''), ''false'')]"] by fastforce
  obtain st' where s: "?s p st'"
    by (simp add: remmina_pref_save_def remmina_pref_is_rw_def set_contents_def file_set_contents_def Let_def)
  have l': "pref_load alist_ops (env_opts ?env) (pref_kf alist_ops ?st)
      (sample_pref\<lparr>pref_disable_news := False\<rparr>, pref_info.make False False False) = Some (p, i)"
    using l by simp
  have "?g st'"
    by (rule disable_news_flag_permits_news [OF alist.keyfile_axioms _ _ l' _ s, THEN conjunct2])
      (simp_all add: sample_opts_def)
  with l s show ?thesis by blast
qed

end
