(* ===== verification/FileData.thy ===== *)
theory FileData
  imports CString "HOL-Library.AList"
begin

text \<open>
  The connection profile of \<open>src/remmina_file.c\<close> in memory: its settings and states, their
  getters and setters, and the contract between them as a locale. The other operations of
  the file are in \<open>RemminaFile\<close>.
\<close>

section \<open>Hash tables of strings\<close>

text \<open>
  A GHashTable of strings is an association list with distinct keys. The order in which
  GLib iterates over one is not specified: where the code iterates, the order is a parameter.
\<close>

type_synonym table = "(string \<times> string) list"

abbreviation ht_lookup :: "table \<Rightarrow> string \<Rightarrow> cstr" where
  "ht_lookup t k \<equiv> map_of t k"

abbreviation ht_insert :: "table \<Rightarrow> string \<Rightarrow> string \<Rightarrow> table" where
  "ht_insert t k v \<equiv> AList.update k v t"

section \<open>The profile\<close>

record rfile =
  rf_filename :: cstr
  rf_statefile :: cstr
  rf_settings :: table
  rf_states :: table
  rf_spsettings :: "string list"
  rf_prevent_saving :: bool

definition remmina_file_new_empty :: rfile where
  "remmina_file_new_empty = \<lparr>
     rf_filename = None, rf_statefile = None, rf_settings = [], rf_states = [],
     rf_spsettings = [], rf_prevent_saving = False\<rparr>"

text \<open>
  The setters and getters hand over to the main thread and run there when a plugin calls
  them from another one. A non-NULL "resolution" is refused with a warning.
\<close>

definition remmina_file_set_string :: "rfile \<Rightarrow> string \<Rightarrow> cstr \<Rightarrow> rfile" where
  "remmina_file_set_string rf setting value =
     (case value of
        Some v \<Rightarrow>
          if setting = ''resolution'' then rf
          else rf\<lparr>rf_settings := ht_insert (rf_settings rf) setting v\<rparr>
      | None \<Rightarrow> rf\<lparr>rf_settings := ht_insert (rf_settings rf) setting []\<rparr>)"

definition remmina_file_get_string :: "rfile \<Rightarrow> string \<Rightarrow> cstr" where
  "remmina_file_get_string rf setting =
     (if setting = ''resolution'' then None
      else case ht_lookup (rf_settings rf) setting of
             None \<Rightarrow> None
           | Some v \<Rightarrow> if v = [] then None else Some v)"

definition remmina_file_get_secret :: "rfile \<Rightarrow> string \<Rightarrow> cstr" where
  "remmina_file_get_secret rf setting = remmina_file_get_string rf setting"

definition remmina_file_set_state :: "rfile \<Rightarrow> string \<Rightarrow> cstr \<Rightarrow> rfile" where
  "remmina_file_set_state rf setting value =
     (case value of
        Some v \<Rightarrow> if v \<noteq> [] then rf\<lparr>rf_states := ht_insert (rf_states rf) setting v\<rparr>
                  else rf\<lparr>rf_states := ht_insert (rf_states rf) setting []\<rparr>
      | None \<Rightarrow> rf\<lparr>rf_states := ht_insert (rf_states rf) setting []\<rparr>)"

definition remmina_file_set_int :: "rfile \<Rightarrow> string \<Rightarrow> gint \<Rightarrow> rfile" where
  "remmina_file_set_int rf setting value =
     rf\<lparr>rf_settings := ht_insert (rf_settings rf) setting (show_gint value)\<rparr>"

definition remmina_file_get_int :: "rfile \<Rightarrow> string \<Rightarrow> gint \<Rightarrow> gint" where
  "remmina_file_get_int rf setting default_value =
     (case ht_lookup (rf_settings rf) setting of
        None \<Rightarrow> default_value
      | Some value \<Rightarrow>
          if length value = 0 then default_value
          else if hd value = CHR ''t'' then 1
          else atoi value)"

definition remmina_file_set_filename :: "rfile \<Rightarrow> cstr \<Rightarrow> rfile" where
  "remmina_file_set_filename rf filename = rf\<lparr>rf_filename := filename\<rparr>"

definition remmina_file_get_filename :: "rfile \<Rightarrow> cstr" where
  "remmina_file_get_filename rf = rf_filename rf"

section \<open>The contract of a settings store\<close>

text \<open>
  What a client of the setters relies on: a setting reads back as it was set, NULL and the
  empty string alike as NULL, and no other setting changes. \<open>settable\<close> excludes the names
  the store refuses.
\<close>

definition non_empty :: "cstr \<Rightarrow> cstr" where
  "non_empty v = (if is_empty v then None else v)"

lemma non_empty_simps [simp]:
  "non_empty None = None" "non_empty (Some []) = None" "non_empty (Some (c # s)) = Some (c # s)"
  by (simp_all add: non_empty_def)

lemma non_empty_Some: "v \<noteq> [] \<Longrightarrow> non_empty (Some v) = Some v"
  by (simp add: non_empty_def)

locale settings_store =
  fixes get :: "'s \<Rightarrow> string \<Rightarrow> cstr" and set_to :: "'s \<Rightarrow> string \<Rightarrow> cstr \<Rightarrow> 's"
    and settable :: "string \<Rightarrow> bool"
  assumes get_set: "settable k \<Longrightarrow> get (set_to s k v) k' = (if k' = k then non_empty v else get s k')"
    and get_non_empty: "non_empty (get s k) = get s k"
begin

text \<open>A sequence of calls: the last one for a name decides.\<close>

definition set_all :: "(string \<times> cstr) list \<Rightarrow> 's \<Rightarrow> 's" where
  "set_all kvs s = fold (\<lambda>(k, v) s. set_to s k v) kvs s"

lemma get_set_all:
  assumes "\<forall>(k, v) \<in> set kvs. settable k"
  shows "get (set_all kvs s) k = (case map_of (rev kvs) k of Some v \<Rightarrow> non_empty v | None \<Rightarrow> get s k)"
  using assms
proof (induction kvs arbitrary: s rule: rev_induct)
  case Nil
  then show ?case by (simp add: set_all_def)
next
  case (snoc kv kvs)
  obtain k' v where kv: "kv = (k', v)" by force
  from snoc.prems kv have "settable k'" "\<forall>(k, v) \<in> set kvs. settable k" by auto
  with snoc.IH show ?case by (simp add: set_all_def kv get_set)
qed

lemma get_clear_all:
  assumes "\<forall>k \<in> set ks. settable k"
  shows "get (fold (\<lambda>k s. set_to s k None) ks s) k = (if k \<in> set ks then None else get s k)"
  using assms
proof (induction ks arbitrary: s rule: rev_induct)
  case Nil
  then show ?case by simp
next
  case (snoc x ks)
  then show ?case by (simp add: get_set)
qed

text \<open>Moving a value from one name to another.\<close>

lemma get_move:
  assumes "settable a" "settable b" "a \<noteq> b"
  shows "get (set_to (set_to s b (get s a)) a None) k =
    (if k = a then None else if k = b then get s a else get s k)"
  using assms by (simp add: get_set get_non_empty)

end

lemma get_set_string [laws]:
  "k \<noteq> ''resolution'' \<Longrightarrow>
     remmina_file_get_string (remmina_file_set_string rf k v) k' =
       (if k' = k then non_empty v else remmina_file_get_string rf k')"
  by (auto simp: remmina_file_get_string_def remmina_file_set_string_def update_conv' non_empty_def
      split: option.splits)

lemma get_string_non_empty: "non_empty (remmina_file_get_string rf k) = remmina_file_get_string rf k"
  by (auto simp: remmina_file_get_string_def split: option.splits) (simp add: non_empty_def)

interpretation rf: settings_store remmina_file_get_string remmina_file_set_string "\<lambda>k. k \<noteq> ''resolution''"
  by unfold_locales (simp_all add: get_set_string get_string_non_empty)

text \<open>The states have the same contract, with a getter that reads the table.\<close>

definition remmina_file_state :: "rfile \<Rightarrow> string \<Rightarrow> cstr" where
  "remmina_file_state rf setting = non_empty (ht_lookup (rf_states rf) setting)"

interpretation rs: settings_store remmina_file_state remmina_file_set_state "\<lambda>k. True"
  by unfold_locales
    (auto simp: remmina_file_state_def remmina_file_set_state_def update_conv' non_empty_def
      split: option.splits)

section \<open>Lemmas\<close>

lemma set_string_fields [simp]:
  "rf_filename (remmina_file_set_string rf k v) = rf_filename rf"
  "rf_statefile (remmina_file_set_string rf k v) = rf_statefile rf"
  "rf_states (remmina_file_set_string rf k v) = rf_states rf"
  "rf_spsettings (remmina_file_set_string rf k v) = rf_spsettings rf"
  "rf_prevent_saving (remmina_file_set_string rf k v) = rf_prevent_saving rf"
  by (simp_all add: remmina_file_set_string_def split: option.splits)

lemma set_int_fields [simp]:
  "rf_filename (remmina_file_set_int rf k i) = rf_filename rf"
  "rf_spsettings (remmina_file_set_int rf k i) = rf_spsettings rf"
  by (simp_all add: remmina_file_set_int_def)

text \<open>The keys of the table stay distinct.\<close>

definition rf_inv :: "rfile \<Rightarrow> bool" where
  "rf_inv rf \<longleftrightarrow> distinct (map fst (rf_settings rf)) \<and> distinct (map fst (rf_states rf))"

lemma rf_inv_new [inv]: "rf_inv remmina_file_new_empty"
  by (simp add: rf_inv_def remmina_file_new_empty_def)

lemma rf_inv_set_string [inv]: "rf_inv rf \<Longrightarrow> rf_inv (remmina_file_set_string rf k v)"
  by (simp add: rf_inv_def remmina_file_set_string_def distinct_update split: option.splits)

lemma rf_inv_set_int [inv]: "rf_inv rf \<Longrightarrow> rf_inv (remmina_file_set_int rf k i)"
  by (simp add: rf_inv_def remmina_file_set_int_def distinct_update)

lemma rf_inv_set_state [inv]: "rf_inv rf \<Longrightarrow> rf_inv (remmina_file_set_state rf k v)"
  by (simp add: rf_inv_def remmina_file_set_state_def distinct_update split: option.splits)

lemma show_gint_ne [simp]: "show_gint i \<noteq> []"
  by (simp add: show_gint_def)

lemma hd_show_gint: "hd (show_gint i) \<noteq> CHR ''t''"
  using hd_show_int [of "sint i"] by (auto simp: show_gint_def isdigit_def)

section \<open>Properties\<close>

text \<open>
  An integer setting reads back as the integer that was set, over the whole range of a
  32-bit \<open>gint\<close>, and any other integer setting is unchanged.
\<close>

theorem set_int_get_int:
  "remmina_file_get_int (remmina_file_set_int rf k i) k' d =
     (if k' = k then i else remmina_file_get_int rf k' d)"
  using hd_show_gint [of i]
  by (auto simp: remmina_file_get_int_def remmina_file_set_int_def update_conv')

end
