(* ===== verification/Secret.thy ===== *)
theory Secret
  imports FileData
begin

text \<open>
  The password store behind the profiles: the interface \<open>RemminaSecretPlugin\<close> that
  \<open>src/remmina_file.c\<close> calls, and its GNOME keyring implementation
  \<open>plugins/secret/src/glibsecret_plugin.c\<close>. libsecret is a record of parameters over the
  state of the keyring; the locale \<open>libsecret\<close> says what the plugin relies on, and gives the
  contract \<open>secret_service\<close> for the plugin's functions.
\<close>

section \<open>The interface\<close>

text \<open>
  The functions of a secret plugin, over the state \<open>'ks\<close> of the service. The contract
  \<open>secret_service\<close> is about a service that is available and keeps every password it is given. A
  store that fails (the keyring plugin only logs it) is outside of it: a save has no way to see the
  failure and writes its marker all the same, so that password is lost.
\<close>

record 'ks secret_ops =
  sec_is_service_available :: "'ks \<Rightarrow> bool"
  sec_store_password :: "'ks \<Rightarrow> rfile \<Rightarrow> string \<Rightarrow> string \<Rightarrow> 'ks"
  sec_get_password :: "'ks \<Rightarrow> rfile \<Rightarrow> string \<Rightarrow> cstr"
  sec_delete_password :: "'ks \<Rightarrow> rfile \<Rightarrow> string \<Rightarrow> 'ks"

locale secret_service =
  fixes sops :: "'ks secret_ops"
  assumes get_store:
      "sec_is_service_available sops ks \<Longrightarrow> rf_filename rf = Some f \<Longrightarrow> rf_filename rf' = Some f' \<Longrightarrow>
         sec_get_password sops (sec_store_password sops ks rf k p) rf' k' =
           (if f' = f \<and> k' = k then Some p else sec_get_password sops ks rf' k')"
    and get_delete:
      "sec_is_service_available sops ks \<Longrightarrow> rf_filename rf = Some f \<Longrightarrow> rf_filename rf' = Some f' \<Longrightarrow>
         sec_get_password sops (sec_delete_password sops ks rf k) rf' k' =
           (if f' = f \<and> k' = k then None else sec_get_password sops ks rf' k')"
    and available_store:
      "sec_is_service_available sops (sec_store_password sops ks rf k p) = sec_is_service_available sops ks"
    and available_delete:
      "sec_is_service_available sops (sec_delete_password sops ks rf k) = sec_is_service_available sops ks"
    and get_filename:
      "rf_filename rf' = rf_filename rf \<Longrightarrow> sec_get_password sops ks rf' k = sec_get_password sops ks rf k"
begin

text \<open>What a client does to the passwords of one profile: store some, delete others.\<close>

fun apply_change :: "rfile \<Rightarrow> string \<times> cstr \<Rightarrow> 'ks \<Rightarrow> 'ks" where
  "apply_change rf (k, Some p) ks = sec_store_password sops ks rf k p"
| "apply_change rf (k, None) ks = sec_delete_password sops ks rf k"

lemma available_changes:
  "sec_is_service_available sops (fold (apply_change rf) cs ks) = sec_is_service_available sops ks"
proof (induction cs arbitrary: ks)
  case (Cons c cs)
  then show ?case by (cases c; cases "snd c") (simp_all add: available_store available_delete)
qed simp

lemma get_changes:
  assumes "sec_is_service_available sops ks" "rf_filename rf = Some f" "rf_filename rf' = Some f'"
  shows "sec_get_password sops (fold (apply_change rf) cs ks) rf' k =
    (if f' = f then (case map_of (rev cs) k of Some v \<Rightarrow> v | None \<Rightarrow> sec_get_password sops ks rf' k)
     else sec_get_password sops ks rf' k)"
proof (induction cs rule: rev_induct)
  case Nil
  then show ?case by simp
next
  case (snoc c cs)
  obtain k' v where c: "c = (k', v)" by force
  have a: "sec_is_service_available sops (fold (apply_change rf) cs ks)"
    using assms(1) by (simp add: available_changes)
  show ?case
    using snoc.IH get_store [OF a assms(2,3)] get_delete [OF a assms(2,3)] by (cases v) (auto simp: c)
qed

end

section \<open>libsecret\<close>

text \<open>
  \<open>ls_init\<close> and \<open>ls_collection\<close> are the results of connecting to the service and of looking up
  its default collection (an error, or the object, which may be NULL). The attributes of an
  item are the profile's path and the setting's name.
\<close>

record 'k libsecret_ops =
  ls_connect :: "'k \<Rightarrow> string + bool"
  ls_default_collection :: "'k \<Rightarrow> string + bool"
  ls_locked :: "'k \<Rightarrow> bool"
  ls_unlock :: "'k \<Rightarrow> 'k"
  ls_store :: "'k \<Rightarrow> string \<times> string \<Rightarrow> string \<Rightarrow> string \<Rightarrow> bool \<times> 'k"
  ls_lookup :: "'k \<Rightarrow> string \<times> string \<Rightarrow> string + cstr"
  ls_clear :: "'k \<Rightarrow> string \<times> string \<Rightarrow> bool \<times> 'k"

text \<open>The plugin's two static pointers and the keyring.\<close>

record 'k glibsecret =
  gs_service :: bool
  gs_collection :: bool
  gs_keyring :: 'k

definition remmina_plugin_glibsecret_is_service_available :: "'k glibsecret \<Rightarrow> bool" where
  "remmina_plugin_glibsecret_is_service_available gs =
     (if gs_service gs \<and> gs_collection gs then True else False)"

definition remmina_plugin_glibsecret_unlock_secret_service :: "'k libsecret_ops \<Rightarrow> 'k glibsecret \<Rightarrow> 'k glibsecret" where
  "remmina_plugin_glibsecret_unlock_secret_service ls gs =
     (if gs_service gs \<and> gs_collection gs then
        (if ls_locked ls (gs_keyring gs) then gs\<lparr>gs_keyring := ls_unlock ls (gs_keyring gs)\<rparr> else gs)
      else gs)"

definition path_of :: "rfile \<Rightarrow> string" where
  "path_of rf = (case remmina_file_get_filename rf of None \<Rightarrow> [] | Some f \<Rightarrow> f)"

definition remmina_plugin_glibsecret_store_password ::
  "'k libsecret_ops \<Rightarrow> 'k glibsecret \<Rightarrow> rfile \<Rightarrow> string \<Rightarrow> string \<Rightarrow> 'k glibsecret" where
  "remmina_plugin_glibsecret_store_password ls gs rf key password =
     (let path = path_of rf;
          s = ''Remmina: '' @ (case remmina_file_get_string rf ''name'' of None \<Rightarrow> ''(null)'' | Some n \<Rightarrow> n)
                @ '' - '' @ key
      in gs\<lparr>gs_keyring := snd (ls_store ls (gs_keyring gs) (path, key) s password)\<rparr>)"

definition remmina_plugin_glibsecret_get_password ::
  "'k libsecret_ops \<Rightarrow> 'k glibsecret \<Rightarrow> rfile \<Rightarrow> string \<Rightarrow> cstr" where
  "remmina_plugin_glibsecret_get_password ls gs rf key =
     (case ls_lookup ls (gs_keyring gs) (path_of rf, key) of
        Inr password \<Rightarrow> password
      | Inl r \<Rightarrow> None)"

definition remmina_plugin_glibsecret_delete_password ::
  "'k libsecret_ops \<Rightarrow> 'k glibsecret \<Rightarrow> rfile \<Rightarrow> string \<Rightarrow> 'k glibsecret" where
  "remmina_plugin_glibsecret_delete_password ls gs rf key =
     gs\<lparr>gs_keyring := snd (ls_clear ls (gs_keyring gs) (path_of rf, key))\<rparr>"

definition remmina_plugin_glibsecret_init :: "'k libsecret_ops \<Rightarrow> 'k glibsecret \<Rightarrow> bool \<times> 'k glibsecret" where
  "remmina_plugin_glibsecret_init ls gs =
     (case ls_connect ls (gs_keyring gs) of
        Inl error \<Rightarrow> (False, gs\<lparr>gs_service := False\<rparr>)
      | Inr service \<Rightarrow>
          let gs = gs\<lparr>gs_service := service\<rparr>
          in if \<not> service then (False, gs)
             else (case ls_default_collection ls (gs_keyring gs) of
                     Inl error \<Rightarrow> (False, gs\<lparr>gs_collection := False\<rparr>)
                   | Inr collection \<Rightarrow>
                       (True, remmina_plugin_glibsecret_unlock_secret_service ls (gs\<lparr>gs_collection := collection\<rparr>))))"

definition remmina_plugin_glibsecret :: "'k libsecret_ops \<Rightarrow> 'k glibsecret secret_ops" where
  "remmina_plugin_glibsecret ls = \<lparr>
     sec_is_service_available = remmina_plugin_glibsecret_is_service_available,
     sec_store_password = remmina_plugin_glibsecret_store_password ls,
     sec_get_password = remmina_plugin_glibsecret_get_password ls,
     sec_delete_password = remmina_plugin_glibsecret_delete_password ls\<rparr>"

text \<open>
  libsecret as documented: a stored password is found under its attributes until it is
  cleared, and items with other attributes are separate.
\<close>

locale libsecret =
  fixes ls :: "'k libsecret_ops"
  assumes lookup_store:
      "ls_lookup ls (snd (ls_store ls k a s p)) a' = (if a' = a then Inr (Some p) else ls_lookup ls k a')"
    and lookup_clear:
      "ls_lookup ls (snd (ls_clear ls k a)) a' = (if a' = a then Inr None else ls_lookup ls k a')"

sublocale libsecret \<subseteq> glibsecret: secret_service "remmina_plugin_glibsecret ls"
  by unfold_locales
    (auto simp: remmina_plugin_glibsecret_def remmina_plugin_glibsecret_get_password_def
      remmina_plugin_glibsecret_store_password_def remmina_plugin_glibsecret_delete_password_def
      remmina_plugin_glibsecret_is_service_available_def path_of_def remmina_file_get_filename_def
      Let_def lookup_store lookup_clear)

context libsecret
begin

lemma is_secret_service: "secret_service (remmina_plugin_glibsecret ls)"
  by (rule glibsecret.secret_service_axioms)

end

text \<open>A keyring as an association list.\<close>

type_synonym alist_keyring = "((string \<times> string) \<times> string) list"

definition alist_keyring :: "alist_keyring libsecret_ops" where
  "alist_keyring = \<lparr>
     ls_connect = (\<lambda>k. Inr True), ls_default_collection = (\<lambda>k. Inr True), ls_locked = (\<lambda>k. False),
     ls_unlock = (\<lambda>k. k), ls_store = (\<lambda>k a s p. (True, AList.update a p k)),
     ls_lookup = (\<lambda>k a. Inr (map_of k a)), ls_clear = (\<lambda>k a. (True, AList.delete a k))\<rparr>"

interpretation alist_keyring: libsecret alist_keyring
  by unfold_locales (auto simp: alist_keyring_def update_conv' delete_conv')

abbreviation alist_secret :: "alist_keyring glibsecret secret_ops" where
  "alist_secret \<equiv> remmina_plugin_glibsecret alist_keyring"

section \<open>Properties\<close>

text \<open>
  When the GNOME keyring plugin reports that it initialised and that its service is
  available, a password stored for a profile is the one it returns for that profile and
  setting until it is deleted, and the passwords of other profiles and settings stay.
\<close>

theorem glibsecret_store_get:
  assumes "libsecret ls" and "remmina_plugin_glibsecret_is_service_available gs"
    and "rf_filename rf = Some f" and "rf_filename rf' = Some f'"
  shows "remmina_plugin_glibsecret_get_password ls
      (remmina_plugin_glibsecret_store_password ls gs rf k p) rf' k' =
        (if f' = f \<and> k' = k then Some p else remmina_plugin_glibsecret_get_password ls gs rf' k') \<and>
    remmina_plugin_glibsecret_get_password ls
      (remmina_plugin_glibsecret_delete_password ls gs rf k) rf' k' =
        (if f' = f \<and> k' = k then None else remmina_plugin_glibsecret_get_password ls gs rf' k')"
  using secret_service.get_store [OF libsecret.is_secret_service [OF assms(1)] _ assms(3,4), of gs k p k']
    secret_service.get_delete [OF libsecret.is_secret_service [OF assms(1)] _ assms(3,4), of gs k k'] assms(2)
  by (simp add: remmina_plugin_glibsecret_def)

theorem glibsecret_store_get_witness:
  "remmina_plugin_glibsecret_get_password alist_keyring
     (remmina_plugin_glibsecret_store_password alist_keyring
       \<lparr>gs_service = True, gs_collection = True, gs_keyring = []\<rparr>
       (remmina_file_new_empty\<lparr>rf_filename := Some ''/a''\<rparr>) ''password'' ''pw'')
     (remmina_file_new_empty\<lparr>rf_filename := Some ''/a''\<rparr>) ''password'' = Some ''pw''"
  using glibsecret_store_get [OF alist_keyring.libsecret_axioms,
      of "\<lparr>gs_service = True, gs_collection = True, gs_keyring = []\<rparr>"
        "remmina_file_new_empty\<lparr>rf_filename := Some ''/a''\<rparr>" "''/a''"
        "remmina_file_new_empty\<lparr>rf_filename := Some ''/a''\<rparr>" "''/a''"]
  by (simp add: remmina_plugin_glibsecret_is_service_available_def)

end
