(* ===== verification/Crypt.thy ===== *)
theory Crypt
  imports CString
begin

text \<open>
  \<open>src/remmina_crypt.c\<close>: encryption of a password under the installation's secret, and its
  inverse. libgcrypt's cipher (3DES in CBC mode) and GLib's base64 are parameters; a byte
  is a character. What the code does itself - checking the secret, cutting it into key and
  initialisation vector, padding to whole blocks, cutting the result at its NUL - is
  modelled.
\<close>

section \<open>The libraries\<close>

text \<open>
  \<open>gc_setkey\<close> and \<open>gc_setiv\<close> tell whether the library accepts a key or a vector;
  \<open>gc_encrypt key iv buf\<close> is the buffer after the call in place, \<open>None\<close> on an error.
\<close>

record gcrypt =
  gc_open :: bool
  gc_setkey :: "string \<Rightarrow> bool"
  gc_setiv :: "string \<Rightarrow> bool"
  gc_encrypt :: "string \<Rightarrow> string \<Rightarrow> string \<Rightarrow> cstr"
  gc_decrypt :: "string \<Rightarrow> string \<Rightarrow> string \<Rightarrow> cstr"
  b64_encode :: "string \<Rightarrow> string"
  b64_decode :: "string \<Rightarrow> string"

section \<open>The code\<close>

text \<open>The cipher handle after a successful initialisation: its key and vector.\<close>

definition remmina_crypt_init :: "gcrypt \<Rightarrow> string \<Rightarrow> (string \<times> string) option" where
  "remmina_crypt_init gc pref_secret =
     (let secret = b64_decode gc pref_secret
      in if length secret < 32 then None
         else if \<not> gc_open gc then None
         else if \<not> gc_setkey gc (take 24 secret) then None
         else if \<not> gc_setiv gc (take 8 (drop 24 secret)) then None
         else Some (take 24 secret, take 8 (drop 24 secret)))"

definition pack_block :: "string \<Rightarrow> string" where
  "pack_block str = str @ replicate (8 - length str mod 8) NUL"

definition remmina_crypt_encrypt :: "gcrypt \<Rightarrow> string \<Rightarrow> cstr \<Rightarrow> cstr" where
  "remmina_crypt_encrypt gc pref_secret str =
     (case str of
        None \<Rightarrow> None
      | Some s \<Rightarrow>
          if s = [] then None
          else case remmina_crypt_init gc pref_secret of
                 None \<Rightarrow> None
               | Some (key, iv) \<Rightarrow>
                   (case gc_encrypt gc key iv (pack_block s) of
                      None \<Rightarrow> None
                    | Some buf \<Rightarrow> Some (b64_encode gc buf)))"

text \<open>
  The last byte of the plain text is overwritten with a NUL. When the base64 text decodes to
  nothing, what the returned pointer points to is \<open>uninit\<close>.
\<close>

definition remmina_crypt_decrypt :: "gcrypt \<Rightarrow> string \<Rightarrow> string \<Rightarrow> cstr \<Rightarrow> cstr" where
  "remmina_crypt_decrypt gc uninit pref_secret str =
     (case str of
        None \<Rightarrow> None
      | Some s \<Rightarrow>
          if s = [] then None
          else case remmina_crypt_init gc pref_secret of
                 None \<Rightarrow> None
               | Some (key, iv) \<Rightarrow>
                   (case gc_decrypt gc key iv (b64_decode gc s) of
                      None \<Rightarrow> Some s
                    | Some buf \<Rightarrow>
                        if 0 < length buf then Some (c_string (buf[length buf - 1 := NUL]))
                        else Some uninit))"

section \<open>Lemmas\<close>

text \<open>
  What the code relies on: on whole blocks encryption succeeds, keeps the length and is
  undone by decryption under the same key and vector; base64 is undone by its inverse and
  does not turn bytes into an empty text.
\<close>

definition gcrypt_laws :: "gcrypt \<Rightarrow> bool" where
  "gcrypt_laws gc \<longleftrightarrow>
     (\<forall>k v b. length b mod 8 = 0 \<longrightarrow>
        (\<exists>c. gc_encrypt gc k v b = Some c \<and> length c = length b \<and> gc_decrypt gc k v c = Some b)) \<and>
     (\<forall>b. b64_decode gc (b64_encode gc b) = b) \<and> (\<forall>b. b \<noteq> [] \<longrightarrow> b64_encode gc b \<noteq> [])"

lemma gcrypt_encrypts:
  "gcrypt_laws gc \<Longrightarrow> length b mod 8 = 0 \<Longrightarrow>
     \<exists>c. gc_encrypt gc k v b = Some c \<and> length c = length b \<and> gc_decrypt gc k v c = Some b"
  by (auto simp: gcrypt_laws_def)

lemma pack_block_length: "length (pack_block s) mod 8 = 0"
proof -
  have "(n + (8 - n mod 8)) mod 8 = (0 :: nat)" for n by presburger
  then show ?thesis by (simp add: pack_block_def)
qed

lemma pack_block_last: "\<exists>r. pack_block s = s @ r @ [NUL] \<and> set r \<subseteq> {NUL}"
proof -
  obtain n where n: "8 - length s mod 8 = Suc n"
    using mod_less_divisor [of 8 "length s"] by (cases "8 - length s mod 8") auto
  have "pack_block s = s @ replicate n NUL @ [NUL]"
    by (simp add: pack_block_def n replicate_append_same)
  then show ?thesis by (intro exI [of _ "replicate n NUL"]) auto
qed

text \<open>Reading the packed block as a C string gives the text back, also after the final NUL is set.\<close>

lemma c_string_pack_block:
  assumes "NUL \<notin> set s"
  shows "c_string ((pack_block s)[length (pack_block s) - 1 := NUL]) = s"
proof -
  obtain r where r: "pack_block s = s @ r @ [NUL]" "set r \<subseteq> {NUL}" using pack_block_last by blast
  have "takeWhile (\<lambda>c. c \<noteq> NUL) (s @ r @ [NUL]) = s"
    using assms r(2) by (cases r) (auto simp: takeWhile_append2)
  then show ?thesis by (simp add: r(1) c_string_def list_update_append)
qed

lemma crypt_decrypts:
  assumes "gcrypt_laws gc" and "remmina_crypt_init gc secret \<noteq> None" "s \<noteq> []" "NUL \<notin> set s"
  shows "remmina_crypt_encrypt gc secret (Some s) \<noteq> None \<and>
    remmina_crypt_decrypt gc uninit secret (remmina_crypt_encrypt gc secret (Some s)) = Some s"
proof -
  obtain k v where kv: "remmina_crypt_init gc secret = Some (k, v)" using assms(2) by auto
  obtain c where c: "gc_encrypt gc k v (pack_block s) = Some c" "length c = length (pack_block s)"
    "gc_decrypt gc k v c = Some (pack_block s)"
    using gcrypt_encrypts [OF assms(1) pack_block_length] by blast
  have ne: "pack_block s \<noteq> []" using assms(3) by (simp add: pack_block_def)
  with c(2) have "c \<noteq> []" by auto
  with assms(1) have b: "b64_encode gc c \<noteq> []" "b64_decode gc (b64_encode gc c) = c"
    by (simp_all add: gcrypt_laws_def)
  show ?thesis
    using assms(3) ne c_string_pack_block [OF assms(4)]
    by (simp add: remmina_crypt_encrypt_def remmina_crypt_decrypt_def kv c b)
qed

text \<open>
  C7: A password that was encrypted decrypts to itself under the same secret: the padding
  and the forced final NUL never reach the text.
\<close>

theorem crypt_roundtrip:
  assumes "gcrypt_laws gc" and "remmina_crypt_init gc secret \<noteq> None" and "s \<noteq> []" and "NUL \<notin> set s"
  shows "remmina_crypt_encrypt gc secret (Some s) \<noteq> None \<and>
    remmina_crypt_decrypt gc uninit secret (remmina_crypt_encrypt gc secret (Some s)) = Some s"
  using assms by (rule crypt_decrypts)

text \<open>
  With a secret of fewer than 32 bytes nothing is encrypted and nothing decrypted: both
  directions answer NULL, so no password is stored under part of a key.
\<close>

theorem crypt_short_secret:
  assumes "length (b64_decode gc secret) < 32"
  shows "remmina_crypt_encrypt gc secret str = None \<and> remmina_crypt_decrypt gc uninit secret str = None"
  using assms
  by (auto simp: remmina_crypt_encrypt_def remmina_crypt_decrypt_def remmina_crypt_init_def
      split: option.splits)

section \<open>A concrete cipher\<close>

text \<open>For the witnesses: blocks reversed, and a text form that marks its start.\<close>

definition sample_gcrypt :: gcrypt where
  "sample_gcrypt = \<lparr>
     gc_open = True, gc_setkey = (\<lambda>k. length k = 24), gc_setiv = (\<lambda>v. length v = 8),
     gc_encrypt = (\<lambda>k v b. Some (rev b)), gc_decrypt = (\<lambda>k v b. Some (rev b)),
     b64_encode = (\<lambda>b. CHR ''='' # b), b64_decode = tl\<rparr>"

lemma sample_gcrypt_laws: "gcrypt_laws sample_gcrypt"
  by (simp add: gcrypt_laws_def sample_gcrypt_def)

theorem crypt_roundtrip_witness:
  "remmina_crypt_decrypt sample_gcrypt [] (replicate 33 (CHR ''k''))
     (remmina_crypt_encrypt sample_gcrypt (replicate 33 (CHR ''k'')) (Some ''hunter2'')) = Some ''hunter2''"
  using crypt_roundtrip [OF sample_gcrypt_laws, of "replicate 33 (CHR ''k'')" "''hunter2''" "[]"]
  by (simp add: remmina_crypt_init_def sample_gcrypt_def)

theorem crypt_short_secret_witness:
  "remmina_crypt_encrypt sample_gcrypt ''short'' (Some ''hunter2'') = None"
  using crypt_short_secret [of sample_gcrypt "''short''"] by (simp add: sample_gcrypt_def)

end
