(* ===== verification/PluginManager.thy ===== *)
theory PluginManager
  imports CString "HOL-Library.List_Lexorder" "HOL-Library.Char_ord"
begin

text \<open>
  \<open>src/remmina_plugin_manager.c\<close>: the table of registered plugins, the cache of encrypted
  settings, the search of the plugin directories, the choice of the secret plugin, the list
  of available plugins and the installation of a downloaded one, with the parts of
  \<open>src/remmina_utils.c\<close> that inflate it and check its signature. Loading a shared object,
  JSON, zlib and OpenSSL are parameters.
\<close>

section \<open>Plugins\<close>

text \<open>\<open>RemminaPluginType\<close> and \<open>RemminaProtocolSettingType\<close>, and the fields the manager reads.\<close>

datatype plugin_type = PROTOCOL | ENTRY | FILE | TOOL | PREF | SECRET | LANGUAGE_WRAPPER

datatype setting_type =
    SETTING_SERVER | SETTING_PASSWORD | SETTING_RESOLUTION | SETTING_ASSISTANCE | SETTING_KEYMAP
  | SETTING_TEXT | SETTING_TEXTAREA | SETTING_SELECT | SETTING_COMBO | SETTING_CHECK
  | SETTING_FILE | SETTING_FOLDER | SETTING_INT | SETTING_DOUBLE

record proto_setting =
  set_type :: setting_type
  set_name :: cstr

text \<open>
  The settings arrays end at \<open>REMMINA_PROTOCOL_SETTING_TYPE_END\<close>: they are lists, \<open>None\<close> when
  the pointer is NULL. The features array ends at type 0.
\<close>

record plugin =
  plug_type :: plugin_type
  plug_name :: string
  plug_version :: cstr
  plug_icon_name :: string
  plug_icon_name_ssh :: string
  plug_basic :: "proto_setting list option"
  plug_advanced :: "proto_setting list option"
  plug_features :: "nat list"
  plug_init_order :: int
  plug_extensions :: "string list"

record plugin_manager =
  pm_table :: "plugin list"
  pm_loaded :: "string list"
  pm_available :: "plugin list"
  pm_cache :: "(string \<rightharpoonup> string set) option"
  pm_secret :: "plugin option"

section \<open>Registration\<close>

definition remmina_plugin_manager_get_canonical_setting_name :: "proto_setting \<Rightarrow> string" where
  "remmina_plugin_manager_get_canonical_setting_name setting =
     (case set_name setting of
        None \<Rightarrow>
          if set_type setting = SETTING_SERVER then ''server''
          else if set_type setting = SETTING_PASSWORD then ''password''
          else if set_type setting = SETTING_RESOLUTION then ''resolution''
          else if set_type setting = SETTING_ASSISTANCE then ''assistance_mode''
          else ''missing_setting_name_into_plugin_RemminaProtocolSetting''
      | Some n \<Rightarrow> n)"

fun cache_settings :: "proto_setting list \<Rightarrow> string set \<Rightarrow> string set" where
  "cache_settings [] pht = pht"
| "cache_settings (s # ss) pht =
     cache_settings ss
       (if set_type s = SETTING_PASSWORD
        then insert (remmina_plugin_manager_get_canonical_setting_name s) pht else pht)"

definition init_settings_cache ::
  "plugin \<Rightarrow> (string \<rightharpoonup> string set) option \<Rightarrow> (string \<rightharpoonup> string set) option" where
  "init_settings_cache plugin cache =
     (if plug_type plugin \<noteq> PROTOCOL then cache
      else let cache = (case cache of None \<Rightarrow> Map.empty | Some c \<Rightarrow> c);
               pht = (case cache (plug_name plugin) of None \<Rightarrow> {} | Some h \<Rightarrow> h);
               pht = insert ''ssh_tunnel_password'' pht;
               pht = insert ''ssh_tunnel_passphrase'' pht;
               pht = insert ''ssh_password'' pht;
               pht = (case plug_basic plugin of None \<Rightarrow> pht | Some ss \<Rightarrow> cache_settings ss pht);
               pht = (case plug_advanced plugin of None \<Rightarrow> pht | Some ss \<Rightarrow> cache_settings ss pht)
           in Some (cache(plug_name plugin \<mapsto> pht)))"

text \<open>\<open>g_ptr_array_sort\<close> is stable, and \<open>g_strcmp0\<close> orders by bytes.\<close>

definition remmina_plugin_manager_register_plugin :: "plugin \<Rightarrow> plugin_manager \<Rightarrow> plugin_manager" where
  "remmina_plugin_manager_register_plugin plugin pm =
     pm\<lparr>pm_cache := init_settings_cache plugin (pm_cache pm),
        pm_table := sort_key plug_name (pm_table pm @ [plugin])\<rparr>"

definition register_all :: "plugin list \<Rightarrow> plugin_manager \<Rightarrow> plugin_manager" where
  "register_all ps pm = fold remmina_plugin_manager_register_plugin ps pm"

fun get_plugin_from :: "plugin list \<Rightarrow> plugin_type \<Rightarrow> string \<Rightarrow> plugin option" where
  "get_plugin_from [] ty name = None"
| "get_plugin_from (p # ps) ty name =
     (if plug_type p = ty \<and> plug_name p = name then Some p else get_plugin_from ps ty name)"

definition remmina_plugin_manager_get_plugin :: "plugin_manager \<Rightarrow> plugin_type \<Rightarrow> string \<Rightarrow> plugin option" where
  "remmina_plugin_manager_get_plugin pm ty name = get_plugin_from (pm_table pm) ty name"

text \<open>The cache is \<open>None\<close> before the first protocol plugin; after that a NULL plugin is dereferenced.\<close>

definition encrypted_setting :: "plugin_manager \<Rightarrow> plugin \<Rightarrow> string \<Rightarrow> bool" where
  "encrypted_setting pm pp setting =
     (case pm_cache pm of
        None \<Rightarrow> False
      | Some cache \<Rightarrow> (case cache (plug_name pp) of None \<Rightarrow> False | Some pht \<Rightarrow> setting \<in> pht))"

definition remmina_plugin_manager_is_encrypted_setting ::
  "plugin_manager \<Rightarrow> plugin option \<Rightarrow> string \<Rightarrow> bool c_result" where
  "remmina_plugin_manager_is_encrypted_setting pm pp setting =
     (case pm_cache pm of
        None \<Rightarrow> Ret False
      | Some cache \<Rightarrow>
          (case pp of
             None \<Rightarrow> Crash
           | Some p \<Rightarrow> Ret (case cache (plug_name p) of None \<Rightarrow> False | Some pht \<Rightarrow> setting \<in> pht)))"

lemma is_encrypted_setting_Some [simp]:
  "remmina_plugin_manager_is_encrypted_setting pm (Some p) k = Ret (encrypted_setting pm p k)"
  by (simp add: remmina_plugin_manager_is_encrypted_setting_def encrypted_setting_def split: option.splits)

fun feature_scan :: "nat list \<Rightarrow> nat \<Rightarrow> bool" where
  "feature_scan [] ftype = False"
| "feature_scan (f # fs) ftype = (if f = 0 then False else if f = ftype then True else feature_scan fs ftype)"

definition remmina_plugin_manager_query_feature_by_type ::
  "plugin_manager \<Rightarrow> plugin_type \<Rightarrow> string \<Rightarrow> nat \<Rightarrow> bool" where
  "remmina_plugin_manager_query_feature_by_type pm ptype name ftype =
     (case remmina_plugin_manager_get_plugin pm ptype name of
        None \<Rightarrow> False
      | Some plugin \<Rightarrow> feature_scan (plug_features plugin) ftype)"

text \<open>The calls \<open>func(name, plugin, data)\<close>, as a fold over the data.\<close>

definition remmina_plugin_manager_for_each_plugin ::
  "plugin_manager \<Rightarrow> plugin_type \<Rightarrow> (string \<Rightarrow> plugin \<Rightarrow> 'd \<Rightarrow> 'd) \<Rightarrow> 'd \<Rightarrow> 'd" where
  "remmina_plugin_manager_for_each_plugin pm ty func data =
     fold (\<lambda>p d. if plug_type p = ty then func (plug_name p) p d else d) (pm_table pm) data"

text \<open>The tests of a file plugin are functions of the plugin and the file.\<close>

fun file_handler_from :: "plugin list \<Rightarrow> (plugin \<Rightarrow> 'f \<Rightarrow> bool) \<Rightarrow> 'f \<Rightarrow> plugin option" where
  "file_handler_from [] test file = None"
| "file_handler_from (p # ps) test file =
     (if plug_type p \<noteq> FILE then file_handler_from ps test file
      else if test p file then Some p
      else file_handler_from ps test file)"

definition remmina_plugin_manager_get_import_file_handler ::
  "(plugin \<Rightarrow> string \<Rightarrow> bool) \<Rightarrow> plugin_manager \<Rightarrow> string \<Rightarrow> plugin option" where
  "remmina_plugin_manager_get_import_file_handler import_test pm file =
     file_handler_from (pm_table pm) import_test file"

definition remmina_plugin_manager_get_export_file_handler ::
  "(plugin \<Rightarrow> 'f \<Rightarrow> bool) \<Rightarrow> plugin_manager \<Rightarrow> 'f \<Rightarrow> plugin option" where
  "remmina_plugin_manager_get_export_file_handler export_test pm remminafile =
     file_handler_from (pm_table pm) export_test remminafile"

section \<open>Loading\<close>

text \<open>
  \<open>ld_dir\<close> lists a directory (\<open>None\<close> when it cannot be opened); \<open>ld_native\<close> loads a shared
  object and \<open>ld_wrapper\<close> has a language wrapper load a file: on success the plugins it
  registered. \<open>ld_init\<close> is the \<open>init\<close> function of a secret plugin.
\<close>

record loader =
  ld_suffix :: string
  ld_dir :: "string \<Rightarrow> string list option"
  ld_native :: "string \<Rightarrow> plugin list option"
  ld_wrapper :: "plugin \<Rightarrow> string \<Rightarrow> plugin list option"
  ld_init :: "plugin \<Rightarrow> bool"

definition remmina_plugin_manager_loader_supported :: "loader \<Rightarrow> string \<Rightarrow> bool" where
  "remmina_plugin_manager_loader_supported ld filetype \<longleftrightarrow> ld_suffix ld = filetype"

text \<open>The text after the last dot of the last path component; the path holds a slash.\<close>

definition get_filename_ext :: "string \<Rightarrow> string" where
  "get_filename_ext filename =
     (let last = (case rsplit_at (CHR ''/'') filename of None \<Rightarrow> filename | Some (_, b) \<Rightarrow> CHR ''/'' # b)
      in case rsplit_at (CHR ''.'') last of None \<Rightarrow> [] | Some (_, e) \<Rightarrow> e)"

text \<open>One directory: native plugins are loaded at once, the other names are queued.\<close>

fun load_dir_names ::
  "loader \<Rightarrow> string \<Rightarrow> string list \<Rightarrow> plugin_manager \<times> string list \<Rightarrow> plugin_manager \<times> string list" where
  "load_dir_names ld plugin_dir [] (pm, alts) = (pm, alts)"
| "load_dir_names ld plugin_dir (name # names) (pm, alts) =
     load_dir_names ld plugin_dir names
       (case rsplit_at (CHR ''.'') name of
          None \<Rightarrow> (pm, alts)
        | Some (_, ptr) \<Rightarrow>
            let fullpath = plugin_dir @ ''/'' @ name
            in if \<not> remmina_plugin_manager_loader_supported ld ptr then (pm, alts @ [fullpath])
               else if name \<in> set (pm_loaded pm) then (pm, alts)
               else (case ld_native ld fullpath of
                       None \<Rightarrow> (pm, alts)
                     | Some ps \<Rightarrow> ((register_all ps pm)\<lparr>pm_loaded := pm_loaded pm @ [name]\<rparr>, alts)))"

fun load_dirs :: "loader \<Rightarrow> string list \<Rightarrow> plugin_manager \<times> string list \<Rightarrow> plugin_manager \<times> string list" where
  "load_dirs ld [] s = s"
| "load_dirs ld (d # ds) s =
     load_dirs ld ds (case ld_dir ld d of None \<Rightarrow> s | Some names \<Rightarrow> load_dir_names ld d names s)"

text \<open>
  One queued file is offered to the language wrappers of the table, in order, once per
  supported extension that matches. The file counts as loaded under its name from the last
  slash on, while the test looks for the whole path.
\<close>

fun wrapper_try_ext :: "loader \<Rightarrow> plugin \<Rightarrow> string \<Rightarrow> string \<Rightarrow> string list \<Rightarrow> plugin_manager \<Rightarrow> plugin_manager option" where
  "wrapper_try_ext ld w name ext [] pm = None"
| "wrapper_try_ext ld w name ext (e # es) pm =
     (if e = ext \<and> name \<notin> set (pm_loaded pm) then
        (case ld_wrapper ld w name of
           None \<Rightarrow> wrapper_try_ext ld w name ext es pm
         | Some ps \<Rightarrow>
             Some (let pm' = register_all ps pm
                   in case rsplit_at (CHR ''/'') name of
                        None \<Rightarrow> pm'
                      | Some (_, b) \<Rightarrow> pm'\<lparr>pm_loaded := pm_loaded pm @ [CHR ''/'' # b]\<rparr>))
      else wrapper_try_ext ld w name ext es pm)"

fun wrapper_try :: "loader \<Rightarrow> string \<Rightarrow> plugin list \<Rightarrow> plugin_manager \<Rightarrow> plugin_manager" where
  "wrapper_try ld name [] pm = pm"
| "wrapper_try ld name (p # ps) pm =
     (if plug_type p = LANGUAGE_WRAPPER then
        (case wrapper_try_ext ld p name (get_filename_ext name) (plug_extensions p) pm of
           Some pm' \<Rightarrow> pm'
         | None \<Rightarrow> wrapper_try ld name ps pm)
      else wrapper_try ld name ps pm)"

definition load_alternatives :: "loader \<Rightarrow> string list \<Rightarrow> plugin_manager \<Rightarrow> plugin_manager" where
  "load_alternatives ld alts pm = fold (\<lambda>name pm. wrapper_try ld name (pm_table pm) pm) alts pm"

text \<open>
  \<open>g_slist_insert_sorted\<close> puts an element before the first one that is not smaller.
\<close>

fun compare_secret_plugin_init_order :: "plugin \<Rightarrow> plugin \<Rightarrow> int" where
  "compare_secret_plugin_init_order sa sb =
     (if plug_init_order sa > plug_init_order sb then 1
      else if plug_init_order sa < plug_init_order sb then -1 else 0)"

fun g_slist_insert_sorted :: "plugin \<Rightarrow> plugin list \<Rightarrow> plugin list" where
  "g_slist_insert_sorted p [] = [p]"
| "g_slist_insert_sorted p (q # qs) =
     (if compare_secret_plugin_init_order p q \<le> 0 then p # q # qs else q # g_slist_insert_sorted p qs)"

definition secret_plugins :: "plugin list \<Rightarrow> plugin list" where
  "secret_plugins table =
     fold (\<lambda>p acc. if plug_type p = SECRET then g_slist_insert_sorted p acc else acc) table []"

fun init_secret_plugins :: "loader \<Rightarrow> plugin list \<Rightarrow> plugin option \<Rightarrow> plugin option" where
  "init_secret_plugins ld [] current = current"
| "init_secret_plugins ld (sp # sps) current =
     (if ld_init ld sp then Some sp else init_secret_plugins ld sps current)"

definition remmina_plugin_manager_load_plugins ::
  "loader \<Rightarrow> string list \<Rightarrow> bool \<Rightarrow> plugin_manager \<Rightarrow> plugin_manager" where
  "remmina_plugin_manager_load_plugins ld plugin_dirs reload pm =
     (let (pm, alts) = load_dirs ld plugin_dirs (pm, []);
          pm = load_alternatives ld alts pm
      in if reload then pm
         else pm\<lparr>pm_secret := init_secret_plugins ld (secret_plugins (pm_table pm)) (pm_secret pm)\<rparr>)"

definition remmina_plugin_manager_init :: "loader \<Rightarrow> bool \<Rightarrow> cstr \<Rightarrow> string \<Rightarrow> plugin_manager \<Rightarrow> plugin_manager" where
  "remmina_plugin_manager_init ld module_supported alternative_dir runtime_dir pm =
     (let pm = pm\<lparr>pm_table := [], pm_available := []\<rparr>
      in if \<not> module_supported then pm
         else remmina_plugin_manager_load_plugins ld
                ((case alternative_dir of None \<Rightarrow> [] | Some d \<Rightarrow> [d]) @ [runtime_dir]) False pm)"

definition remmina_plugin_manager_get_secret_plugin :: "plugin_manager \<Rightarrow> plugin option" where
  "remmina_plugin_manager_get_secret_plugin pm = pm_secret pm"

section \<open>The list of available plugins\<close>

definition same_release :: "plugin \<Rightarrow> plugin \<Rightarrow> bool" where
  "same_release p q \<longleftrightarrow> plug_name p = plug_name q \<and> plug_version p = plug_version q"

fun duplicate_in :: "plugin list \<Rightarrow> plugin \<Rightarrow> bool" where
  "duplicate_in [] a = False"
| "duplicate_in (p # ps) a = (if same_release p a then True else duplicate_in ps a)"

definition remmina_plugin_manager_verify_duplicate_plugins :: "plugin_manager \<Rightarrow> plugin \<Rightarrow> bool" where
  "remmina_plugin_manager_verify_duplicate_plugins pm available_plugin =
     (if duplicate_in (pm_table pm) available_plugin then True
      else duplicate_in (pm_available pm) available_plugin)"

definition plugin_type_of_string :: "string \<Rightarrow> plugin_type" where
  "plugin_type_of_string type =
     (if type = ''protocol'' then PROTOCOL
      else if type = ''entry'' then ENTRY
      else if type = ''tool'' then TOOL
      else if type = ''pref'' then PREF
      else if type = ''secret'' then SECRET
      else if type = ''language_wrapper'' then LANGUAGE_WRAPPER
      else if type = ''file'' then FILE
      else PREF)"

text \<open>The members of one element of the JSON array \<open>LIST\<close> that the code reads.\<close>

record list_entry =
  le_name :: string
  le_version :: cstr
  le_type :: string

fun remmina_plugin_manager_parse_plugin_list :: "list_entry list \<Rightarrow> plugin_manager \<Rightarrow> plugin_manager" where
  "remmina_plugin_manager_parse_plugin_list [] pm = pm"
| "remmina_plugin_manager_parse_plugin_list (e # es) pm =
     (let available_plugin = \<lparr>plug_type = plugin_type_of_string (le_type e), plug_name = le_name e,
            plug_version = le_version e, plug_icon_name = [], plug_icon_name_ssh = [],
            plug_basic = None, plug_advanced = None, plug_features = [],
            plug_init_order = 0, plug_extensions = []\<rparr>
      in remmina_plugin_manager_parse_plugin_list es
           (if \<not> remmina_plugin_manager_verify_duplicate_plugins pm available_plugin
            then pm\<lparr>pm_available := pm_available pm @ [available_plugin]\<rparr> else pm))"

text \<open>The text of the download request, \<open>None\<close> for an empty selection.\<close>

fun selected_plugin_list_from :: "nat \<Rightarrow> cstr \<Rightarrow> string list \<Rightarrow> cstr" where
  "selected_plugin_list_from i plugin_list [] = plugin_list"
| "selected_plugin_list_from i plugin_list (plugin # ps) =
     selected_plugin_list_from (Suc i)
       (if i = 0 then Some plugin
        else (case plugin_list of None \<Rightarrow> None | Some l \<Rightarrow> Some (l @ '', '' @ plugin))) ps"

definition remmina_plugin_manager_get_selected_plugin_list_str :: "string list \<Rightarrow> cstr" where
  "remmina_plugin_manager_get_selected_plugin_list_str selected_plugins =
     selected_plugin_list_from 0 None selected_plugins"

section \<open>Installing a downloaded plugin\<close>

record server_plugin =
  sp_name :: string
  sp_version :: cstr
  sp_file_name :: string
  sp_signature :: string
  sp_data :: string

text \<open>
  \<open>in_b64\<close> is \<open>g_base64_decode\<close>, \<open>in_gunzip\<close> what arrives in the temporary file, \<open>in_copy\<close>
  what arrives of a content that is copied, \<open>in_verify\<close> the check of a signature by the
  built-in public key. \<open>in_can_replace\<close> and \<open>in_can_delete\<close> are the file system's answers.
\<close>

record installer =
  in_b64 :: "string \<Rightarrow> cstr"
  in_gunzip :: "string \<Rightarrow> string"
  in_copy :: "string \<Rightarrow> string"
  in_public_key :: bool
  in_verify :: "string \<Rightarrow> string \<Rightarrow> bool"
  in_can_replace :: "string \<Rightarrow> bool"
  in_can_delete :: "string \<Rightarrow> bool"
  in_plugin_dir :: string
  in_basename :: "string \<Rightarrow> string"
  in_utf8_strlen :: "string \<Rightarrow> nat"

definition MAX_PLUGIN_NAME_SIZE :: nat where
  "MAX_PLUGIN_NAME_SIZE = 100"

text \<open>The whole path goes through a buffer of \<open>MAX_PLUGIN_NAME_SIZE\<close> bytes.\<close>

definition remmina_create_plugin_file :: "installer \<Rightarrow> string \<Rightarrow> cstr \<Rightarrow> cstr" where
  "remmina_create_plugin_file inst plugin_name plugin_version =
     (if MAX_PLUGIN_NAME_SIZE < in_utf8_strlen inst plugin_name then None
      else Some (take (MAX_PLUGIN_NAME_SIZE - 1)
        (case plugin_version of
           Some v \<Rightarrow> ''/tmp/'' @ in_basename inst plugin_name @ ''_'' @ v
         | None \<Rightarrow> in_plugin_dir inst @ ''/'' @ in_basename inst plugin_name)))"

definition delete_file :: "installer \<Rightarrow> string \<Rightarrow> files \<Rightarrow> files" where
  "delete_file inst path fs = (if in_can_delete inst path then fs(path := None) else fs)"

text \<open>The size of the file as an \<open>int\<close>, or \<open>-1\<close>.\<close>

definition remmina_decompress_from_memory_to_file ::
  "installer \<Rightarrow> string \<Rightarrow> string \<Rightarrow> files \<Rightarrow> gint \<times> files" where
  "remmina_decompress_from_memory_to_file inst source plugin_file fs =
     (if \<not> in_can_replace inst plugin_file then (-1, fs)
      else let data = in_gunzip inst source
           in (word_of_nat (length data), fs(plugin_file \<mapsto> data)))"

text \<open>The message is read from the file, whatever \<open>msg_len\<close> was; a file that cannot be read is empty.\<close>

definition remmina_execute_plugin_signature_verification ::
  "installer \<Rightarrow> files \<Rightarrow> string \<Rightarrow> 64 word \<Rightarrow> string \<Rightarrow> bool" where
  "remmina_execute_plugin_signature_verification inst fs plugin_file msg_len sig =
     (if msg_len = 0 \<or> length sig = 0 then False
      else in_verify inst (case fs plugin_file of None \<Rightarrow> [] | Some data \<Rightarrow> data) sig)"

definition remmina_verify_plugin_signature ::
  "installer \<Rightarrow> files \<Rightarrow> string \<Rightarrow> string \<Rightarrow> 64 word \<Rightarrow> bool" where
  "remmina_verify_plugin_signature inst fs signature plugin_file message_length =
     (if \<not> in_public_key inst then False
      else if remmina_execute_plugin_signature_verification inst fs plugin_file message_length signature
      then True else False)"

definition remmina_attempt_to_write_plugin_data_to_disk ::
  "installer \<Rightarrow> server_plugin \<Rightarrow> files \<Rightarrow> bool \<times> files" where
  "remmina_attempt_to_write_plugin_data_to_disk inst plugin fs =
     (case in_b64 inst (sp_data plugin) of
        None \<Rightarrow> (False, fs)
      | Some decoded \<Rightarrow>
     (case in_b64 inst (sp_signature plugin) of
        None \<Rightarrow> (False, fs)
      | Some decoded_signature \<Rightarrow>
     (case remmina_create_plugin_file inst (sp_file_name plugin) (sp_version plugin) of
        None \<Rightarrow> (False, fs)
      | Some plugin_file \<Rightarrow>
          let (n, fs) = remmina_decompress_from_memory_to_file inst decoded plugin_file fs;
              bytes_converted = (scast n :: 64 word)
          in if bytes_converted = 0 then (False, delete_file inst plugin_file fs)
             else if \<not> remmina_verify_plugin_signature inst fs decoded_signature plugin_file bytes_converted
             then (False, delete_file inst plugin_file fs)
             else case remmina_create_plugin_file inst (sp_file_name plugin) None of
                    None \<Rightarrow> (False, delete_file inst plugin_file fs)
                  | Some plugin_file_final \<Rightarrow>
                      if \<not> in_can_replace inst plugin_file_final
                      then (False, delete_file inst plugin_file_final (delete_file inst plugin_file fs))
                      else
                        let fs = (case fs plugin_file of
                                    None \<Rightarrow> fs
                                  | Some data \<Rightarrow> fs(plugin_file_final \<mapsto> in_copy inst data));
                            bytes_written = (case fs plugin_file_final of
                                               None \<Rightarrow> 0 | Some d \<Rightarrow> (word_of_nat (length d) :: 64 word));
                            fs = delete_file inst plugin_file fs
                        in if bytes_written \<noteq> bytes_converted
                           then (False, delete_file inst plugin_file_final fs)
                           else (True, fs))))"

section \<open>Lemmas\<close>

lemma cache_settings_set:
  "cache_settings ss h =
     h \<union> {remmina_plugin_manager_get_canonical_setting_name s | s. s \<in> set ss \<and> set_type s = SETTING_PASSWORD}"
  by (induction ss arbitrary: h) auto

text \<open>The settings of a protocol plugin whose type makes them secret.\<close>

definition password_settings :: "plugin \<Rightarrow> string set" where
  "password_settings p =
     {remmina_plugin_manager_get_canonical_setting_name s | s.
        s \<in> set (case plug_basic p of None \<Rightarrow> [] | Some ss \<Rightarrow> ss) \<union>
            set (case plug_advanced p of None \<Rightarrow> [] | Some ss \<Rightarrow> ss) \<and> set_type s = SETTING_PASSWORD}"

lemma register_fields [simp]:
  "pm_loaded (remmina_plugin_manager_register_plugin p pm) = pm_loaded pm"
  "pm_available (remmina_plugin_manager_register_plugin p pm) = pm_available pm"
  "pm_secret (remmina_plugin_manager_register_plugin p pm) = pm_secret pm"
  "set (pm_table (remmina_plugin_manager_register_plugin p pm)) = insert p (set (pm_table pm))"
  by (simp_all add: remmina_plugin_manager_register_plugin_def)

lemma register_all_loaded [simp]: "pm_loaded (register_all ps pm) = pm_loaded pm"
  by (induction ps arbitrary: pm) (simp_all add: register_all_def)

lemma get_plugin_SomeD:
  "get_plugin_from ps ty name = Some p \<Longrightarrow> p \<in> set ps \<and> plug_type p = ty \<and> plug_name p = name"
  by (induction ps) (auto split: if_splits)

lemma get_plugin_None: "get_plugin_from ps ty name = None \<longleftrightarrow> (\<forall>p \<in> set ps. plug_type p \<noteq> ty \<or> plug_name p \<noteq> name)"
  by (induction ps) auto

lemma get_plugin_unique:
  assumes "p \<in> set ps" "plug_type p = ty" "plug_name p = name"
    and "\<And>q. q \<in> set ps \<Longrightarrow> plug_type q = ty \<Longrightarrow> plug_name q = name \<Longrightarrow> q = p"
  shows "get_plugin_from ps ty name = Some p"
proof (cases "get_plugin_from ps ty name")
  case None
  with assms(1-3) show ?thesis by (simp add: get_plugin_None)
next
  case (Some q)
  with assms(4) get_plugin_SomeD [OF Some] show ?thesis by simp
qed

subsection \<open>The order of the secret plugins\<close>

lemma insert_sorted_set [simp]: "set (g_slist_insert_sorted p ps) = insert p (set ps)"
  by (induction ps) auto

lemma insert_sorted_sorted:
  "sorted (map plug_init_order ps) \<Longrightarrow> sorted (map plug_init_order (g_slist_insert_sorted p ps))"
  by (induction ps) (auto split: if_splits)

lemma secret_plugins_set: "set (secret_plugins table) = {p \<in> set table. plug_type p = SECRET}"
proof -
  have "set (fold (\<lambda>p acc. if plug_type p = SECRET then g_slist_insert_sorted p acc else acc) table acc) =
      {p \<in> set table. plug_type p = SECRET} \<union> set acc" for acc
    by (induction table arbitrary: acc) auto
  then show ?thesis by (simp add: secret_plugins_def)
qed

lemma secret_plugins_sorted: "sorted (map plug_init_order (secret_plugins table))"
proof -
  have "sorted (map plug_init_order acc) \<Longrightarrow> sorted (map plug_init_order
      (fold (\<lambda>p acc. if plug_type p = SECRET then g_slist_insert_sorted p acc else acc) table acc))" for acc
    by (induction table arbitrary: acc) (auto simp: insert_sorted_sorted)
  then show ?thesis by (simp add: secret_plugins_def)
qed

lemma init_secret_SomeD:
  "init_secret_plugins ld sps None = Some sp \<Longrightarrow> sorted (map plug_init_order sps) \<Longrightarrow>
     sp \<in> set sps \<and> ld_init ld sp \<and> (\<forall>q \<in> set sps. ld_init ld q \<longrightarrow> plug_init_order sp \<le> plug_init_order q)"
  by (induction sps) (auto split: if_splits)

lemma init_secret_None: "init_secret_plugins ld sps None = None \<longleftrightarrow> (\<forall>q \<in> set sps. \<not> ld_init ld q)"
  by (induction sps) auto

subsection \<open>Available plugins\<close>

lemma duplicate_in_iff: "duplicate_in ps a \<longleftrightarrow> (\<exists>p \<in> set ps. same_release p a)"
  by (induction ps) auto

definition release :: "plugin \<Rightarrow> string \<times> cstr" where
  "release p = (plug_name p, plug_version p)"

lemma verify_duplicate_iff:
  "remmina_plugin_manager_verify_duplicate_plugins pm a \<longleftrightarrow>
     release a \<in> release ` (set (pm_table pm) \<union> set (pm_available pm))"
  by (simp add: remmina_plugin_manager_verify_duplicate_plugins_def duplicate_in_iff
      same_release_def release_def image_iff) (blast intro: sym)

definition available_inv :: "plugin_manager \<Rightarrow> bool" where
  "available_inv pm \<longleftrightarrow>
     distinct (map release (pm_available pm)) \<and>
     release ` set (pm_available pm) \<inter> release ` set (pm_table pm) = {}"

lemma parse_list_inv:
  "available_inv pm \<Longrightarrow> available_inv (remmina_plugin_manager_parse_plugin_list es pm) \<and>
     pm_table (remmina_plugin_manager_parse_plugin_list es pm) = pm_table pm"
proof (induction es arbitrary: pm)
  case Nil
  then show ?case by simp
next
  case (Cons e es)
  let ?a = "\<lparr>plug_type = plugin_type_of_string (le_type e), plug_name = le_name e,
            plug_version = le_version e, plug_icon_name = [], plug_icon_name_ssh = [],
            plug_basic = None, plug_advanced = None, plug_features = [],
            plug_init_order = 0, plug_extensions = []\<rparr>"
  let ?pm = "if \<not> remmina_plugin_manager_verify_duplicate_plugins pm ?a
            then pm\<lparr>pm_available := pm_available pm @ [?a]\<rparr> else pm"
  have "available_inv ?pm"
    using Cons.prems by (auto simp: available_inv_def verify_duplicate_iff)
  from Cons.IH [OF this] show ?case by (simp add: Let_def)
qed

section \<open>Properties\<close>

text \<open>
  Once a plugin is registered, a setting of it counts as encrypted exactly when it is one
  of the three password settings of every protocol, or has the password type under its
  canonical name, or was in the cache before.
\<close>

theorem register_encrypted_settings:
  "remmina_plugin_manager_is_encrypted_setting (remmina_plugin_manager_register_plugin p pm) (Some p) k = Ret
     ((plug_type p = PROTOCOL \<and>
       (k \<in> {''ssh_tunnel_password'', ''ssh_tunnel_passphrase'', ''ssh_password''} \<or> k \<in> password_settings p)) \<or>
     encrypted_setting pm p k)"
  by (auto simp: encrypted_setting_def remmina_plugin_manager_register_plugin_def
      init_settings_cache_def Let_def cache_settings_set password_settings_def split: option.splits)

text \<open>
  The secret plugin a start chooses initialised, and no secret plugin that would have
  initialised has a smaller order; there is none only when every one of them fails.
\<close>

theorem secret_plugin_minimal_order:
  "case init_secret_plugins ld (secret_plugins table) None of
     None \<Rightarrow> \<not> (\<exists>q \<in> set table. plug_type q = SECRET \<and> ld_init ld q)
   | Some sp \<Rightarrow> sp \<in> {q \<in> set table. plug_type q = SECRET \<and> ld_init ld q} \<and>
       plug_init_order sp = Min (plug_init_order ` {q \<in> set table. plug_type q = SECRET \<and> ld_init ld q})"
proof (cases "init_secret_plugins ld (secret_plugins table) None")
  case None
  then have "\<forall>q \<in> set (secret_plugins table). \<not> ld_init ld q" by (simp only: init_secret_None)
  with None show ?thesis by (simp add: secret_plugins_set)
next
  case (Some sp)
  from init_secret_SomeD [OF Some secret_plugins_sorted]
  have "sp \<in> {q \<in> set table. plug_type q = SECRET \<and> ld_init ld q}"
    and "\<And>q. q \<in> {q \<in> set table. plug_type q = SECRET \<and> ld_init ld q} \<Longrightarrow> plug_init_order sp \<le> plug_init_order q"
    by (auto simp: secret_plugins_set)
  with Some show ?thesis by (auto intro!: Min_eqI [symmetric])
qed

text \<open>
  The list of available plugins never offers the same release twice, and none that is
  already registered, however the server's answer repeats itself.
\<close>

theorem parse_plugin_list_no_duplicates:
  assumes "available_inv pm"
  shows "available_inv (remmina_plugin_manager_parse_plugin_list es pm)"
  using parse_list_inv [OF assms] ..

theorem parse_plugin_list_no_duplicates_witness:
  "available_inv (remmina_plugin_manager_parse_plugin_list
     [\<lparr>le_name = ''RDP'', le_version = Some ''1'', le_type = ''protocol''\<rparr>,
      \<lparr>le_name = ''RDP'', le_version = Some ''1'', le_type = ''tool''\<rparr>]
     \<lparr>pm_table = [], pm_loaded = [], pm_available = [], pm_cache = None, pm_secret = None\<rparr>)"
  by (rule parse_plugin_list_no_duplicates) (simp add: available_inv_def)

text \<open>
  A downloaded plugin reaches the plugin directory only when its signature verifies for
  the inflated data: if the check fails for every content, the file that is there stays as
  it is, and no other file but the temporary one changes in any case.
\<close>

theorem plugin_install_needs_signature:
  assumes "remmina_create_plugin_file inst (sp_file_name plugin) (sp_version plugin) = Some tmp"
    and "remmina_create_plugin_file inst (sp_file_name plugin) None = Some final"
    and "remmina_attempt_to_write_plugin_data_to_disk inst plugin fs = (b, fs')"
  shows "(\<forall>p. p \<noteq> tmp \<and> p \<noteq> final \<longrightarrow> fs' p = fs p) \<and>
    (tmp \<noteq> final \<and> (\<forall>sig m. in_b64 inst (sp_signature plugin) = Some sig \<longrightarrow> \<not> in_verify inst m sig)
       \<longrightarrow> \<not> b \<and> fs' final = fs final)"
  using assms
  by (auto simp: remmina_attempt_to_write_plugin_data_to_disk_def Let_def delete_file_def
      remmina_verify_plugin_signature_def remmina_execute_plugin_signature_verification_def
      remmina_decompress_from_memory_to_file_def split: option.splits if_splits prod.splits)

definition sample_inst :: installer where
  "sample_inst = \<lparr>in_b64 = Some, in_gunzip = id, in_copy = id, in_public_key = True,
     in_verify = (\<lambda>m sig. m = sig), in_can_replace = (\<lambda>_. True), in_can_delete = (\<lambda>_. True),
     in_plugin_dir = ''/p'', in_basename = id, in_utf8_strlen = length\<rparr>"

definition sample_plugin :: "string \<Rightarrow> server_plugin" where
  "sample_plugin sig = \<lparr>sp_name = ''x'', sp_version = Some ''1'', sp_file_name = ''x.so'',
     sp_signature = sig, sp_data = ''code''\<rparr>"

theorem plugin_install_needs_signature_witness:
  "snd (remmina_attempt_to_write_plugin_data_to_disk (sample_inst\<lparr>in_verify := \<lambda>_ _. False\<rparr>)
     (sample_plugin []) [''/p/x.so'' \<mapsto> ''old'']) ''/p/x.so'' = Some ''old''"
proof -
  let ?i = "sample_inst\<lparr>in_verify := \<lambda>_ _. False\<rparr>"
  have f: "remmina_create_plugin_file ?i (sp_file_name (sample_plugin [])) (sp_version (sample_plugin [])) = Some ''/tmp/x.so_1''"
    "remmina_create_plugin_file ?i (sp_file_name (sample_plugin [])) None = Some ''/p/x.so''"
    by (simp_all add: remmina_create_plugin_file_def sample_inst_def sample_plugin_def MAX_PLUGIN_NAME_SIZE_def)
  show ?thesis
    using plugin_install_needs_signature [OF f surjective_pairing, of "[''/p/x.so'' \<mapsto> ''old'']"] by simp
qed

text \<open>
  C8: When an installation reports success, the file in the plugin directory is the complete
  inflated data and the signature that came with it verifies for exactly that data; a copy
  that was cut short is never reported as success.
\<close>

theorem plugin_install_verified_content:
  assumes "remmina_create_plugin_file inst (sp_file_name plugin) (sp_version plugin) = Some tmp"
    and "remmina_create_plugin_file inst (sp_file_name plugin) None = Some final" and "tmp \<noteq> final"
    and "remmina_attempt_to_write_plugin_data_to_disk inst plugin fs = (True, fs')"
    and "\<And>d. prefix (in_copy inst d) d" and "\<And>d. length (in_gunzip inst d) < 2 ^ 31"
    and "\<And>p d. fs p = Some d \<Longrightarrow> length d < 2 ^ 31"
  shows "\<exists>decoded sig. in_b64 inst (sp_data plugin) = Some decoded \<and>
    in_b64 inst (sp_signature plugin) = Some sig \<and>
    in_verify inst (in_gunzip inst decoded) sig \<and> fs' final = Some (in_gunzip inst decoded)"
proof -
  obtain decoded sig where d: "in_b64 inst (sp_data plugin) = Some decoded"
    and s: "in_b64 inst (sp_signature plugin) = Some sig"
    using assms(4) by (auto simp: remmina_attempt_to_write_plugin_data_to_disk_def split: option.splits)
  let ?data = "in_gunzip inst decoded"
  have small: "unat (word_of_nat n :: 64 word) = n" if "n < 2 ^ 31" for n
    using that by (simp add: unat_of_nat)
  have neg: "(scast (-1 :: gint) :: 64 word) = -1" by simp
  have pos: "(scast (word_of_nat n :: gint) :: 64 word) = word_of_nat n" if "n < 2 ^ 31" for n
  proof -
    have "sint (word_of_int (int n) :: gint) = int n"
      using that by (subst sint_sbintrunc') (simp add: signed_take_bit_int_eq_self)
    then have "sint (word_of_nat n :: gint) = int n" by simp
    then show ?thesis by (simp add: scast_eq)
  qed
  have len: "length (in_copy inst x) \<le> length x" for x
    using assms(5) [of x] by (rule prefix_length_le)
  have neq: "\<not> n < 2 ^ 31" if "(word_of_nat n :: 64 word) = -1" for n
  proof
    assume "n < 2 ^ 31"
    with small [of n] that show False by (simp add: unsigned_minus_1_eq_mask mask_eq_exp_minus_1)
  qed
  have old: "length (in_copy inst x) < 2 ^ 31" "length x < 2 ^ 31" if "fs p = Some x" for p x
    using assms(7) [OF that] len [of x] by simp_all
  show ?thesis
  proof (cases "in_can_replace inst tmp")
    case False
    then have "(\<exists>x. fs final = Some x \<and> (word_of_nat (length x) :: 64 word) = -1) \<or>
        (\<exists>x. fs tmp = Some x \<and> (word_of_nat (length (in_copy inst x)) :: 64 word) = -1)"
      using assms(1-4) d s neg
      by (auto simp: remmina_attempt_to_write_plugin_data_to_disk_def Let_def
          remmina_decompress_from_memory_to_file_def delete_file_def split: option.splits if_splits)
    then show ?thesis using neq old by blast
  next
    case True
    have v: "in_verify inst ?data sig" "fs' final = Some (in_copy inst ?data)"
      "(word_of_nat (length (in_copy inst ?data)) :: 64 word) = word_of_nat (length ?data)"
      using assms(1-4) d s True pos [OF assms(6)]
      by (auto simp: remmina_attempt_to_write_plugin_data_to_disk_def Let_def delete_file_def
          remmina_decompress_from_memory_to_file_def remmina_verify_plugin_signature_def
          remmina_execute_plugin_signature_verification_def split: option.splits if_splits)
    have "length (in_copy inst ?data) = length ?data"
      using small [OF assms(6) [of decoded]] small [of "length (in_copy inst ?data)"] len [of ?data]
        assms(6) [of decoded] v(3) by simp
    then have "in_copy inst ?data = ?data"
      using assms(5) [of ?data] by (metis append_eq_conv_conj prefix_def take_all_iff order_refl)
    with v d s show ?thesis by simp
  qed
qed

theorem plugin_install_verified_content_witness:
  "snd (remmina_attempt_to_write_plugin_data_to_disk
     (sample_inst\<lparr>in_gunzip := \<lambda>_. ''code''\<rparr>) (sample_plugin ''code'') Map.empty) ''/p/x.so'' = Some ''code''"
proof -
  let ?i = "sample_inst\<lparr>in_gunzip := \<lambda>_. ''code''\<rparr>"
  have r: "remmina_attempt_to_write_plugin_data_to_disk ?i (sample_plugin ''code'') Map.empty =
      (True, snd (remmina_attempt_to_write_plugin_data_to_disk ?i (sample_plugin ''code'') Map.empty))"
    by (simp add: remmina_attempt_to_write_plugin_data_to_disk_def Let_def delete_file_def
        remmina_decompress_from_memory_to_file_def remmina_verify_plugin_signature_def
        remmina_execute_plugin_signature_verification_def remmina_create_plugin_file_def
        sample_inst_def sample_plugin_def MAX_PLUGIN_NAME_SIZE_def)
  have f: "remmina_create_plugin_file ?i (sp_file_name (sample_plugin ''code'')) (sp_version (sample_plugin ''code'')) = Some ''/tmp/x.so_1''"
    "remmina_create_plugin_file ?i (sp_file_name (sample_plugin ''code'')) None = Some ''/p/x.so''"
    by (simp_all add: remmina_create_plugin_file_def sample_inst_def sample_plugin_def MAX_PLUGIN_NAME_SIZE_def)
  show ?thesis
    using plugin_install_verified_content [OF f _ r] by (simp add: sample_inst_def)
qed

end
