(* ===== verification/RemminaFile.thy ===== *)
theory RemminaFile
  imports Secret KeyFile Crypt PluginManager Public
begin

text \<open>
  \<open>src/remmina_file.c\<close>: loading, migrating, saving, copying and deleting connection profiles.
  The parts of the program a profile uses are the fields of one record: the key file
  operations, the secret plugin, the plugin table, the cipher and the installation's secret.
  The world is the regular files and the state of the secret service.
\<close>

section \<open>Environment\<close>

record ('kf, 'ks) file_env =
  fe_kf :: "'kf keyfile_ops"
  fe_secret :: "'ks secret_ops option"
  fe_pm :: plugin_manager
  fe_crypt :: gcrypt
  fe_uninit :: string
  fe_pref_secret :: string
  fe_pref_file :: string
  fe_file_name :: string
  fe_iter :: "table \<Rightarrow> table"
  fe_basename :: "string \<Rightarrow> string"
  fe_cache_dir :: string
  fe_data_dir :: string
  fe_data_dir_opens :: bool
  fe_set_contents_ok :: "string \<Rightarrow> bool"
  fe_can_create :: "string \<Rightarrow> bool"

record 'ks world =
  w_fs :: files
  w_ks :: 'ks

definition KEYFILE_GROUP_REMMINA :: string where
  "KEYFILE_GROUP_REMMINA = ''remmina''"

definition KEYFILE_GROUP_STATE :: string where
  "KEYFILE_GROUP_STATE = ''Remmina Connection States''"

text \<open>\<open>secret_plugin && secret_plugin->is_service_available(secret_plugin)\<close>\<close>

definition secret_service_available :: "('kf, 'ks) file_env \<Rightarrow> 'ks \<Rightarrow> bool" where
  "secret_service_available env ks =
     (case fe_secret env of None \<Rightarrow> False | Some sops \<Rightarrow> sec_is_service_available sops ks)"

definition secret_store :: "('kf, 'ks) file_env \<Rightarrow> rfile \<Rightarrow> string \<Rightarrow> string \<Rightarrow> 'ks \<Rightarrow> 'ks" where
  "secret_store env rf key value ks =
     (case fe_secret env of None \<Rightarrow> ks | Some sops \<Rightarrow> sec_store_password sops ks rf key value)"

definition secret_get :: "('kf, 'ks) file_env \<Rightarrow> rfile \<Rightarrow> string \<Rightarrow> 'ks \<Rightarrow> cstr" where
  "secret_get env rf key ks =
     (case fe_secret env of None \<Rightarrow> None | Some sops \<Rightarrow> sec_get_password sops ks rf key)"

definition secret_delete :: "('kf, 'ks) file_env \<Rightarrow> rfile \<Rightarrow> string \<Rightarrow> 'ks \<Rightarrow> 'ks" where
  "secret_delete env rf key ks =
     (case fe_secret env of None \<Rightarrow> ks | Some sops \<Rightarrow> sec_delete_password sops ks rf key)"

definition env_encrypt :: "('kf, 'ks) file_env \<Rightarrow> cstr \<Rightarrow> cstr" where
  "env_encrypt env s = remmina_crypt_encrypt (fe_crypt env) (fe_pref_secret env) s"

definition env_decrypt :: "('kf, 'ks) file_env \<Rightarrow> cstr \<Rightarrow> cstr" where
  "env_decrypt env s = remmina_crypt_decrypt (fe_crypt env) (fe_uninit env) (fe_pref_secret env) s"

section \<open>Names\<close>

text \<open>\<open>g_strstr_len(s, -1, "%N") != NULL\<close>, then the replacement.\<close>

definition replace_if_there :: "string \<Rightarrow> string \<Rightarrow> string \<Rightarrow> string" where
  "replace_if_there needle s filenamestr =
     (if strstr filenamestr needle \<noteq> None
      then fst (remmina_utils_string_replace_all filenamestr needle (Some s)) else filenamestr)"

definition get_string_or :: "rfile \<Rightarrow> string \<Rightarrow> string \<Rightarrow> string" where
  "get_string_or rf setting d = (case remmina_file_get_string rf setting of None \<Rightarrow> d | Some s \<Rightarrow> s)"

definition invalid_chars :: string where
  "invalid_chars = [CHR 0x5C] @ ''%|/$?<>:*. '' @ [CHR 0x22]"

definition generated_name :: "('kf, 'ks) file_env \<Rightarrow> rfile \<Rightarrow> string" where
  "generated_name env rf =
     (let s = fe_file_name env;
          s = replace_if_there ''%N'' (get_string_or rf ''name'' ''name'') s;
          s = replace_if_there ''%G'' (get_string_or rf ''group'' ''group'') s;
          s = replace_if_there ''%P'' (get_string_or rf ''protocol'' ''proto'') s;
          s = replace_if_there ''%h'' (get_string_or rf ''server'' ''host'') s
      in g_strdelimit (g_ascii_strdown (g_strstrip s)) invalid_chars (CHR ''-''))"

definition remmina_file_generate_filename :: "('kf, 'ks) file_env \<Rightarrow> rfile \<Rightarrow> rfile" where
  "remmina_file_generate_filename env rf =
     rf\<lparr>rf_filename :=
          (if fe_data_dir_opens env
           then Some (fe_data_dir env @ ''/'' @ generated_name env rf @ ''.remmina'') else None)\<rparr>"

text \<open>The path of the state file; \<open>g_path_get_basename(NULL)\<close> is NULL, and the name is then empty.\<close>

definition remmina_file_set_statefile :: "('kf, 'ks) file_env \<Rightarrow> rfile \<Rightarrow> rfile" where
  "remmina_file_set_statefile env rf =
     rf\<lparr>rf_statefile := Some (fe_cache_dir env @ ''/'' @
          (case rf_filename rf of None \<Rightarrow> [] | Some f \<Rightarrow> fe_basename env f) @ ''.state'')\<rparr>"

fun find_setting_in :: "string \<Rightarrow> proto_setting list \<Rightarrow> proto_setting option" where
  "find_setting_in name [] = None"
| "find_setting_in name (s # ss) =
     (if name = remmina_plugin_manager_get_canonical_setting_name s then Some s else find_setting_in name ss)"

definition find_protocol_setting :: "string \<Rightarrow> plugin option \<Rightarrow> proto_setting option" where
  "find_protocol_setting name protocol_plugin =
     (case protocol_plugin of
        None \<Rightarrow> None
      | Some pp \<Rightarrow>
          (case (case plug_basic pp of None \<Rightarrow> None | Some ss \<Rightarrow> find_setting_in name ss) of
             Some s \<Rightarrow> Some s
           | None \<Rightarrow> (case plug_advanced pp of None \<Rightarrow> None | Some ss \<Rightarrow> find_setting_in name ss)))"

definition remmina_file_get_icon_name :: "('kf, 'ks) file_env \<Rightarrow> string \<Rightarrow> rfile \<Rightarrow> string" where
  "remmina_file_get_icon_name env app_id rf =
     (case (case remmina_file_get_string rf ''protocol'' of
              None \<Rightarrow> None
            | Some p \<Rightarrow> remmina_plugin_manager_get_plugin (fe_pm env) PROTOCOL p) of
        None \<Rightarrow> app_id @ ''-symbolic''
      | Some plugin \<Rightarrow>
          if remmina_file_get_int rf ''ssh_tunnel_enabled'' 0 \<noteq> 0
          then plug_icon_name_ssh plugin else plug_icon_name plugin)"

text \<open>\<open>date\<close> is the current time in ISO 8601.\<close>

definition remmina_file_format_properties :: "string \<Rightarrow> rfile \<Rightarrow> string \<Rightarrow> string" where
  "remmina_file_format_properties date rf setting =
     (let r = (\<lambda>needle value s. fst (remmina_utils_string_replace_all s needle value));
          s = r ''%h'' (remmina_file_get_string rf ''server'') setting;
          s = r ''%t'' (remmina_file_get_string rf ''ssh_tunnel_server'') s;
          s = r ''%u'' (remmina_file_get_string rf ''username'') s;
          s = r ''%U'' (remmina_file_get_string rf ''ssh_tunnel_username'') s;
          s = r ''%p'' (remmina_file_get_string rf ''name'') s;
          s = r ''%g'' (remmina_file_get_string rf ''group'') s
      in r ''%d'' (Some date) s)"

section \<open>Migration of the SSH settings\<close>

definition upgrade_sshkeys_202001_mig_common_setting :: "bool \<Rightarrow> bool \<Rightarrow> string \<Rightarrow> rfile \<Rightarrow> rfile" where
  "upgrade_sshkeys_202001_mig_common_setting protocol_is_ssh ssh_enabled sfx rf =
     (let src_key = ''ssh_'' @ sfx; dst_key = ''ssh_tunnel_'' @ sfx
      in case remmina_file_get_string rf src_key of
           None \<Rightarrow> rf
         | Some val \<Rightarrow>
             let rf = (if ssh_enabled \<and> val \<noteq> [] then remmina_file_set_string rf dst_key (Some val) else rf)
             in if \<not> protocol_is_ssh then remmina_file_set_string rf src_key None else rf)"

definition common_suffixes :: "string list" where
  "common_suffixes =
     [''stricthostkeycheck'', ''kex_algorithms'', ''hostkeytypes'', ''ciphers'',
      ''proxycommand'', ''passphrase'', ''auth'', ''privatekey'']"

text \<open>Moving a value to its tunnel setting, and to the protocol's own setting for SSH.\<close>

definition upgrade_move :: "string \<Rightarrow> string \<Rightarrow> cstr \<Rightarrow> rfile \<Rightarrow> rfile" where
  "upgrade_move src dst extra rf =
     (case remmina_file_get_string rf src of
        None \<Rightarrow> rf
      | Some val \<Rightarrow>
          let rf = remmina_file_set_string rf dst (Some val);
              rf = (case extra of None \<Rightarrow> rf | Some e \<Rightarrow> remmina_file_set_string rf e (Some val))
          in remmina_file_set_string rf src None)"

text \<open>\<open>strcmp\<close> on the protocol of a profile that has none is a crash.\<close>

definition upgrade_sshkeys_202001 :: "rfile \<Rightarrow> rfile c_result" where
  "upgrade_sshkeys_202001 rf =
     (case remmina_file_get_string rf ''ssh_enabled'' of
        None \<Rightarrow> Ret rf
      | Some _ \<Rightarrow>
          let ssh_enabled = remmina_file_get_int rf ''ssh_enabled'' 0
          in case remmina_file_get_string rf ''protocol'' of
               None \<Rightarrow> Crash
             | Some val \<Rightarrow>
                 let protocol_is_ssh = (val = ''SSH'');
                     rf = fold (upgrade_sshkeys_202001_mig_common_setting protocol_is_ssh (ssh_enabled \<noteq> 0))
                            common_suffixes rf;
                     rf = upgrade_move ''ssh_loopback'' ''ssh_tunnel_loopback'' None rf;
                     rf = upgrade_move ''ssh_username'' ''ssh_tunnel_username''
                            (if protocol_is_ssh then Some ''username'' else None) rf;
                     rf = upgrade_move ''ssh_password'' ''ssh_tunnel_password''
                            (if protocol_is_ssh then Some ''password'' else None) rf;
                     rf = upgrade_move ''ssh_server'' ''ssh_tunnel_server'' None rf
                 in Ret (remmina_file_set_int rf ''ssh_tunnel_enabled'' ssh_enabled))"

section \<open>Loading\<close>

definition load_key ::
  "('kf, 'ks) file_env \<Rightarrow> plugin option \<Rightarrow> bool \<Rightarrow> 'kf \<Rightarrow> 'ks \<Rightarrow> string \<Rightarrow> rfile \<Rightarrow> rfile" where
  "load_key env protocol_plugin available kf ks key rf =
     (let s = kf_get_string (fe_kf env) kf KEYFILE_GROUP_REMMINA key
      in if (case protocol_plugin of None \<Rightarrow> False | Some pp \<Rightarrow> encrypted_setting (fe_pm env) pp key) then
           (if s = Some ''.'' \<and> available then
              let rf = remmina_file_set_string rf key (secret_get env rf key ks)
              in rf\<lparr>rf_spsettings := List.insert key (rf_spsettings rf)\<rparr>
            else remmina_file_set_string rf key (env_decrypt env s))
         else if key = ''resolution'' then
           (case remmina_public_split_resolution_string s of
              Some (w, h) \<Rightarrow>
                remmina_file_set_string
                  (remmina_file_set_string rf ''resolution_width'' (Some (show_gint w)))
                  ''resolution_height'' (Some (show_gint h))
            | None \<Rightarrow>
                remmina_file_set_string (remmina_file_set_string rf ''resolution_width'' None)
                  ''resolution_height'' None)
         else remmina_file_set_string rf key s)"

text \<open>The plugin of the protocol named in the file.\<close>

definition load_protocol_plugin :: "('kf, 'ks) file_env \<Rightarrow> 'kf \<Rightarrow> plugin option" where
  "load_protocol_plugin env kf =
     (case kf_get_string (fe_kf env) kf KEYFILE_GROUP_REMMINA ''protocol'' of
        None \<Rightarrow> None
      | Some proto \<Rightarrow> remmina_plugin_manager_get_plugin (fe_pm env) PROTOCOL proto)"

text \<open>\<open>Ret None\<close> is NULL: the file does not parse, or has no name.\<close>

definition remmina_file_load :: "('kf, 'ks) file_env \<Rightarrow> 'ks world \<Rightarrow> string \<Rightarrow> rfile option c_result" where
  "remmina_file_load env w filename =
     (let ops = fe_kf env;
          (ok, kf) = (case w_fs w filename of
                        None \<Rightarrow> (True, kf_new ops)
                      | Some d \<Rightarrow> kf_load ops (kf_new ops) (Some d))
      in if \<not> ok then Ret None
         else if \<not> kf_has_key ops kf KEYFILE_GROUP_REMMINA ''name'' then Ret None
         else
           let protocol_plugin = load_protocol_plugin env kf;
               available = secret_service_available env (w_ks w);
               rf = remmina_file_new_empty\<lparr>rf_filename := Some filename\<rparr>;
               keys = (case kf_get_keys ops kf KEYFILE_GROUP_REMMINA of None \<Rightarrow> [] | Some ks \<Rightarrow> ks);
               rf = fold (load_key env protocol_plugin available kf (w_ks w)) keys rf
           in c_bind (upgrade_sshkeys_202001 rf) (\<lambda>rf. Ret (Some (remmina_file_set_statefile env rf))))"

definition remmina_file_new :: "('kf, 'ks) file_env \<Rightarrow> 'ks world \<Rightarrow> rfile c_result" where
  "remmina_file_new env w =
     c_bind (remmina_file_load env w (fe_pref_file env)) (\<lambda>r.
       Ret (case r of Some rf \<Rightarrow> rf\<lparr>rf_filename := None\<rparr> | None \<Rightarrow> remmina_file_new_empty))"

text \<open>A profile that does not load is dereferenced.\<close>

definition remmina_file_copy :: "('kf, 'ks) file_env \<Rightarrow> 'ks world \<Rightarrow> string \<Rightarrow> rfile c_result" where
  "remmina_file_copy env w filename =
     c_bind (remmina_file_load env w filename) (\<lambda>r.
       case r of
         None \<Rightarrow> Crash
       | Some rf \<Rightarrow>
           let buf = ''COPY '' @ get_string_or rf ''name'' ''(null)'';
               rf = remmina_file_set_string rf ''name'' (Some buf)
           in Ret (remmina_file_generate_filename env rf))"

section \<open>Saving\<close>

definition remmina_file_get_keyfile :: "('kf, 'ks) file_env \<Rightarrow> files \<Rightarrow> rfile \<Rightarrow> 'kf option" where
  "remmina_file_get_keyfile env fs rf =
     (case rf_filename rf of
        None \<Rightarrow> None
      | Some f \<Rightarrow> Some (snd (kf_load (fe_kf env) (kf_new (fe_kf env)) (fs f))))"

definition remmina_file_get_keystate :: "('kf, 'ks) file_env \<Rightarrow> files \<Rightarrow> rfile \<Rightarrow> 'kf option" where
  "remmina_file_get_keystate env fs rf =
     (case rf_statefile rf of
        None \<Rightarrow> None
      | Some f \<Rightarrow> Some (snd (kf_load (fe_kf env) (kf_new (fe_kf env)) (fs f))))"

text \<open>A password: to the secret service, encrypted into the file, or removed from both.\<close>

definition save_password ::
  "('kf, 'ks) file_env \<Rightarrow> rfile \<Rightarrow> bool \<Rightarrow> gint \<Rightarrow> string \<Rightarrow> string \<Rightarrow> 'kf \<times> 'ks \<Rightarrow> 'kf \<times> 'ks" where
  "save_password env rf available nopasswdsave key value = (\<lambda>(kf, ks).
     let set_kf = (\<lambda>v kf. kf_set_string (fe_kf env) kf KEYFILE_GROUP_REMMINA key v);
         (kf, ks) =
           (if available \<and> nopasswdsave = 0 then
              (if value \<noteq> [] then
                 (set_kf ''.'' kf, if value \<noteq> ''.'' then secret_store env rf key value ks else ks)
               else (set_kf [] kf, secret_delete env rf key ks))
            else
              (if value \<noteq> [] \<and> nopasswdsave = 0 then
                 (case env_encrypt env (Some value) of
                    None \<Rightarrow> (kf, ks)
                  | Some s \<Rightarrow> (set_kf s kf, ks))
               else (set_kf [] kf, ks)))
     in if available \<and> nopasswdsave = 1 then
          (if value \<noteq> [] \<and> value \<noteq> ''.'' then (set_kf ''.'' kf, secret_delete env rf key ks)
           else (kf, ks))
        else (kf, ks))"

definition save_entry ::
  "('kf, 'ks) file_env \<Rightarrow> rfile \<Rightarrow> plugin option \<Rightarrow> bool \<Rightarrow> gint \<Rightarrow> string \<times> string
   \<Rightarrow> 'kf \<times> 'ks \<Rightarrow> ('kf \<times> 'ks) c_result" where
  "save_entry env rf protocol_plugin available nopasswdsave = (\<lambda>(key, value) (kf, ks).
     c_bind (remmina_plugin_manager_is_encrypted_setting (fe_pm env) protocol_plugin key) (\<lambda>encrypted.
       if encrypted then
         (if (case rf_filename rf of None \<Rightarrow> False | Some f \<Rightarrow> f \<noteq> fe_pref_file env)
          then Ret (save_password env rf available nopasswdsave key value (kf, ks))
          else Ret (kf, ks))
       else Ret (kf_set_string (fe_kf env) kf KEYFILE_GROUP_REMMINA key value, ks)))"

fun save_entries ::
  "('kf, 'ks) file_env \<Rightarrow> rfile \<Rightarrow> plugin option \<Rightarrow> bool \<Rightarrow> gint \<Rightarrow> (string \<times> string) list
   \<Rightarrow> 'kf \<times> 'ks \<Rightarrow> ('kf \<times> 'ks) c_result" where
  "save_entries env rf pp available nopasswdsave [] s = Ret s"
| "save_entries env rf pp available nopasswdsave (kv # kvs) s =
     c_bind (save_entry env rf pp available nopasswdsave kv s)
       (save_entries env rf pp available nopasswdsave kvs)"

definition save_removed_keys :: "kf_write list" where
  "save_removed_keys = [
     Remove_key KEYFILE_GROUP_REMMINA ''resolution'',
     Remove_key KEYFILE_GROUP_REMMINA ''ssh_enabled'',
     Remove_key KEYFILE_GROUP_REMMINA ''save_ssh_server'',
     Remove_key KEYFILE_GROUP_REMMINA ''save_ssh_username'']"

text \<open>
  The states are set in the profile's key file, after that one has been written; what goes
  to the state file is the key file that was read from it.
\<close>

definition remmina_file_save :: "('kf, 'ks) file_env \<Rightarrow> rfile \<Rightarrow> 'ks world \<Rightarrow> 'ks world c_result" where
  "remmina_file_save env rf w =
     (if rf_prevent_saving rf then Ret w
      else case rf_filename rf of
        None \<Rightarrow> Ret w
      | Some filename \<Rightarrow>
     (case rf_statefile rf of
        None \<Rightarrow> Ret w
      | Some statefile \<Rightarrow>
     (case (remmina_file_get_keyfile env (w_fs w) rf, remmina_file_get_keystate env (w_fs w) rf) of
        (Some gkeyfile, Some gkeystate) \<Rightarrow>
          let nopasswdsave = remmina_file_get_int rf ''disablepasswordstoring'' 0;
              protocol_plugin = (case ht_lookup (rf_settings rf) ''protocol'' of
                                   None \<Rightarrow> None
                                 | Some proto \<Rightarrow> remmina_plugin_manager_get_plugin (fe_pm env) PROTOCOL proto);
              available = secret_service_available env (w_ks w)
          in c_bind (save_entries env rf protocol_plugin available nopasswdsave
                       (fe_iter env (rf_settings rf)) (gkeyfile, w_ks w)) (\<lambda>(kf, ks).
               let kf = kf_run (fe_kf env) save_removed_keys kf;
                   fs = snd (file_set_contents (fe_set_contents_ok env) (w_fs w) filename
                               (kf_to_data (fe_kf env) kf));
                   fs = snd (file_set_contents (fe_set_contents_ok env) fs statefile
                               (kf_to_data (fe_kf env) gkeystate))
               in Ret \<lparr>w_fs = fs, w_ks = ks\<rparr>)
      | _ \<Rightarrow> Ret w)))"

definition remmina_file_store_secret_plugin_password ::
  "('kf, 'ks) file_env \<Rightarrow> string \<Rightarrow> string \<Rightarrow> rfile \<times> 'ks world \<Rightarrow> (rfile \<times> 'ks world) c_result" where
  "remmina_file_store_secret_plugin_password env key value = (\<lambda>(rf, w).
     if key \<in> set (rf_spsettings rf) then
       (case fe_secret env of
          None \<Rightarrow> Crash
        | Some sops \<Rightarrow> Ret (rf, w\<lparr>w_ks := sec_store_password sops (w_ks w) rf key value\<rparr>))
     else
       let rf = remmina_file_set_string rf key (Some value)
       in c_bind (remmina_file_save env rf w) (\<lambda>w. Ret (rf, w)))"

section \<open>Duplicating, deleting, forgetting passwords\<close>

text \<open>
  \<open>remmina_file_touch\<close> calls itself after creating the file, and would call itself for ever
  when the file cannot be created.
\<close>

partial_function (option) remmina_file_touch :: "(string \<Rightarrow> bool) \<Rightarrow> string \<Rightarrow> files \<Rightarrow> files option" where
  "remmina_file_touch can_create statefile fs =
     (if fs statefile \<noteq> None then Some fs
      else remmina_file_touch can_create statefile
             (if can_create statefile then fs(statefile \<mapsto> []) else fs))"

definition remmina_file_dup :: "('kf, 'ks) file_env \<Rightarrow> rfile \<Rightarrow> files \<Rightarrow> (rfile \<times> files) option" where
  "remmina_file_dup env rf fs =
     (let dupfile = remmina_file_new_empty\<lparr>rf_filename := rf_filename rf\<rparr>;
          dupfile = fold (\<lambda>(key, value) d. remmina_file_set_string d key (Some value))
                      (fe_iter env (rf_settings rf)) dupfile;
          dupfile = remmina_file_set_statefile env dupfile
      in case rf_statefile dupfile of
           None \<Rightarrow> None
         | Some f \<Rightarrow> (case remmina_file_touch (fe_can_create env) f fs of
                         None \<Rightarrow> None
                       | Some fs \<Rightarrow> Some (dupfile, fs)))"

definition remmina_file_dup_temp_protocol ::
  "('kf, 'ks) file_env \<Rightarrow> rfile \<Rightarrow> cstr \<Rightarrow> files \<Rightarrow> (rfile \<times> files) option" where
  "remmina_file_dup_temp_protocol env rf new_protocol fs =
     (case remmina_file_dup env rf fs of
        None \<Rightarrow> None
      | Some (tmp, fs) \<Rightarrow>
          Some (remmina_file_set_string (tmp\<lparr>rf_filename := None\<rparr>) ''protocol'' new_protocol, fs))"

text \<open>
  A basic setting without a name ends the program with \<open>g_error\<close>; an advanced one without a
  name is hashed as NULL.
\<close>

fun unsave_settings :: "('kf, 'ks) file_env \<Rightarrow> plugin \<Rightarrow> proto_setting list \<Rightarrow> rfile \<Rightarrow> rfile c_result" where
  "unsave_settings env pp [] rf = Ret rf"
| "unsave_settings env pp (s # ss) rf =
     (case set_name s of
        None \<Rightarrow> Crash
      | Some n \<Rightarrow>
          unsave_settings env pp ss
            (if encrypted_setting (fe_pm env) pp n
             then remmina_file_set_string rf (remmina_plugin_manager_get_canonical_setting_name s) None
             else rf))"

definition remmina_file_unsave_passwords ::
  "('kf, 'ks) file_env \<Rightarrow> rfile \<times> 'ks world \<Rightarrow> (rfile \<times> 'ks world) c_result" where
  "remmina_file_unsave_passwords env = (\<lambda>(rf, w).
     let rf = remmina_file_set_string rf ''password'' None
     in case ht_lookup (rf_settings rf) ''protocol'' of
          None \<Rightarrow> Ret (rf, w)
        | Some proto \<Rightarrow>
            (case remmina_plugin_manager_get_plugin (fe_pm env) PROTOCOL proto of
               None \<Rightarrow> Ret (rf, w)
             | Some pp \<Rightarrow>
                 c_bind (case plug_basic pp of None \<Rightarrow> Ret rf | Some ss \<Rightarrow> unsave_settings env pp ss rf) (\<lambda>rf.
                 c_bind (case plug_advanced pp of None \<Rightarrow> Ret rf | Some ss \<Rightarrow> unsave_settings env pp ss rf) (\<lambda>rf.
                 c_bind (remmina_file_save env rf w) (\<lambda>w. Ret (rf, w))))))"

definition remmina_file_delete :: "('kf, 'ks) file_env \<Rightarrow> string \<Rightarrow> 'ks world \<Rightarrow> 'ks world c_result" where
  "remmina_file_delete env filename w =
     c_bind (remmina_file_load env w filename) (\<lambda>r.
       c_bind (case r of
                 None \<Rightarrow> Ret w
               | Some rf \<Rightarrow> c_bind (remmina_file_unsave_passwords env (rf, w)) (\<lambda>(rf, w). Ret w)) (\<lambda>w.
         Ret (w\<lparr>w_fs := (w_fs w)(filename := None)\<rparr>)))"

section \<open>States\<close>

definition remmina_file_get_state :: "('kf, 'ks) file_env \<Rightarrow> files \<Rightarrow> rfile \<Rightarrow> string \<Rightarrow> cstr" where
  "remmina_file_get_state env fs rf setting =
     (case rf_statefile rf of
        None \<Rightarrow> None
      | Some f \<Rightarrow>
          let (ok, kf) = kf_load (fe_kf env) (kf_new (fe_kf env)) (fs f)
          in if \<not> ok then None
             else case kf_get_string (fe_kf env) kf KEYFILE_GROUP_STATE setting of
                    None \<Rightarrow> None
                  | Some v \<Rightarrow> if v = [] then None else Some v)"

text \<open>The state file becomes a new key file with the date only.\<close>

definition remmina_file_state_last_success :: "('kf, 'ks) file_env \<Rightarrow> string \<Rightarrow> rfile \<Rightarrow> files \<Rightarrow> files" where
  "remmina_file_state_last_success env date rf fs =
     (case rf_statefile rf of
        None \<Rightarrow> fs
      | Some f \<Rightarrow>
          snd (file_set_contents (fe_set_contents_ok env) fs f
            (kf_to_data (fe_kf env)
              (kf_set_string (fe_kf env) (kf_new (fe_kf env)) KEYFILE_GROUP_STATE ''last_success'' date))))"

text \<open>
  The time of the last change: of the state file if it has one, else the date of the last
  success, else a fixed one. \<open>iso8601\<close> parses a date, \<open>show_time\<close> formats seconds.
\<close>

definition remmina_file_get_datetime ::
  "(string \<Rightarrow> nat option) \<Rightarrow> (string \<Rightarrow> nat option) \<Rightarrow> (nat \<Rightarrow> string) \<Rightarrow> rfile \<Rightarrow> string" where
  "remmina_file_get_datetime mtime_of iso8601 show_time rf =
     (let file = (case rf_statefile rf of Some f \<Rightarrow> Some f | None \<Rightarrow> rf_filename rf);
          mtime = (case (case file of None \<Rightarrow> None | Some f \<Rightarrow> mtime_of f) of
                     Some t \<Rightarrow> t
                   | None \<Rightarrow>
                       (case remmina_file_get_string rf ''last_success'' of
                          None \<Rightarrow> 1255676686
                        | Some d \<Rightarrow> (case iso8601 (d @ ''T00:00:00Z'') of
                                        Some t \<Rightarrow> t | None \<Rightarrow> 191543400)))
      in show_time mtime)"

end
