(* ===== verification/FileFacts.thy ===== *)
theory FileFacts
  imports RemminaFile
begin

text \<open>
  What loading, saving and migrating a profile guarantee. A save is described as a sequence
  of key file calls and of changes to the secret service; the contracts \<open>keyfile\<close>,
  \<open>secret_service\<close> and \<open>settings_store\<close> then say what a later load reads.
\<close>

section \<open>A save as two sequences\<close>

text \<open>The calls for one password, and what they do to the secret service.\<close>

definition password_writes :: "('kf, 'ks) file_env \<Rightarrow> bool \<Rightarrow> gint \<Rightarrow> string \<Rightarrow> string \<Rightarrow> kf_write list" where
  "password_writes env available n key value =
     (let w = Set_string KEYFILE_GROUP_REMMINA key
      in (if available \<and> n = 0 then [w (Some (if value \<noteq> [] then ''.'' else []))]
          else if value \<noteq> [] \<and> n = 0 then [w (env_encrypt env (Some value))]
          else [w (Some [])]) @
         (if available \<and> n = 1 \<and> value \<noteq> [] \<and> value \<noteq> ''.'' then [w (Some ''.'')] else []))"

definition password_changes :: "bool \<Rightarrow> gint \<Rightarrow> string \<Rightarrow> string \<Rightarrow> (string \<times> cstr) list" where
  "password_changes available n key value =
     (if available \<and> n = 0 then
        (if value = [] then [(key, None)] else if value \<noteq> ''.'' then [(key, Some value)] else [])
      else if available \<and> n = 1 \<and> value \<noteq> [] \<and> value \<noteq> ''.'' then [(key, None)]
      else [])"

definition goes_to_keyring :: "('kf, 'ks) file_env \<Rightarrow> rfile \<Rightarrow> bool" where
  "goes_to_keyring env rf \<longleftrightarrow> (case rf_filename rf of None \<Rightarrow> False | Some f \<Rightarrow> f \<noteq> fe_pref_file env)"

definition entry_writes ::
  "('kf, 'ks) file_env \<Rightarrow> rfile \<Rightarrow> plugin \<Rightarrow> bool \<Rightarrow> gint \<Rightarrow> string \<times> string \<Rightarrow> kf_write list" where
  "entry_writes env rf pp available n = (\<lambda>(key, value).
     if encrypted_setting (fe_pm env) pp key
     then (if goes_to_keyring env rf then password_writes env available n key value else [])
     else [Set_string KEYFILE_GROUP_REMMINA key (Some value)])"

definition entry_changes ::
  "('kf, 'ks) file_env \<Rightarrow> rfile \<Rightarrow> plugin \<Rightarrow> bool \<Rightarrow> gint \<Rightarrow> string \<times> string \<Rightarrow> (string \<times> cstr) list" where
  "entry_changes env rf pp available n = (\<lambda>(key, value).
     if encrypted_setting (fe_pm env) pp key \<and> goes_to_keyring env rf
     then password_changes available n key value else [])"

fun change_secret :: "('kf, 'ks) file_env \<Rightarrow> rfile \<Rightarrow> string \<times> cstr \<Rightarrow> 'ks \<Rightarrow> 'ks" where
  "change_secret env rf (k, Some p) ks = secret_store env rf k p ks"
| "change_secret env rf (k, None) ks = secret_delete env rf k ks"

lemma kf_run_simps [simp]:
  "kf_run ops [] kf = kf" "kf_run ops (w # ws) kf = kf_run ops ws (kf_put ops w kf)"
  "kf_run ops (ws @ ws') kf = kf_run ops ws' (kf_run ops ws kf)"
  by (simp_all add: kf_run_def)

lemma entry_writes_pair:
  "entry_writes env rf pp available n (key, value) =
     (if encrypted_setting (fe_pm env) pp key
      then (if goes_to_keyring env rf then password_writes env available n key value else [])
      else [Set_string KEYFILE_GROUP_REMMINA key (Some value)])"
  by (simp add: entry_writes_def)

lemma entry_changes_pair:
  "entry_changes env rf pp available n (key, value) =
     (if encrypted_setting (fe_pm env) pp key \<and> goes_to_keyring env rf
      then password_changes available n key value else [])"
  by (simp add: entry_changes_def)

lemma save_password_seq:
  "save_password env rf available n key value (kf, ks) =
     (kf_run (fe_kf env) (password_writes env available n key value) kf,
      fold (change_secret env rf) (password_changes available n key value) ks)"
  by (auto simp: save_password_def password_writes_def password_changes_def kf_put_def Let_def
      split: option.splits)

lemma save_entry_seq:
  "save_entry env rf (Some pp) available n kv (kf, ks) = Ret
     (kf_run (fe_kf env) (entry_writes env rf pp available n kv) kf,
      fold (change_secret env rf) (entry_changes env rf pp available n kv) ks)"
  by (cases kv) (simp add: save_entry_def entry_writes_pair entry_changes_pair goes_to_keyring_def
      save_password_seq kf_put_def)

lemma save_entries_seq:
  "save_entries env rf (Some pp) available n kvs (kf, ks) = Ret
     (kf_run (fe_kf env) (concat (map (entry_writes env rf pp available n) kvs)) kf,
      fold (change_secret env rf) (concat (map (entry_changes env rf pp available n) kvs)) ks)"
proof (induction kvs arbitrary: kf ks)
  case Nil
  then show ?case by simp
next
  case (Cons kv kvs)
  then show ?case by (simp add: save_entry_seq)
qed

section \<open>The last call for a key\<close>

lemma kf_last_append:
  "kf_last (ws @ ws') gk = (case kf_last ws' gk of Some w \<Rightarrow> Some w | None \<Rightarrow> kf_last ws gk)"
  by (induction ws) (auto split: option.splits)

lemma kf_last_concat_None:
  "(\<And>x. x \<in> set xs \<Longrightarrow> \<forall>w \<in> set (f x). kf_write_key w \<noteq> gk) \<Longrightarrow> kf_last (concat (map f xs)) gk = None"
  by (rule kf_last_None) auto

lemma kf_last_concat:
  assumes "distinct (map fst kvs)" "(k, v) \<in> set kvs"
    and "\<And>k v w. w \<in> set (f (k, v)) \<Longrightarrow> kf_write_key w = (g, k)"
  shows "kf_last (concat (map f kvs)) (g, k) = kf_last (f (k, v)) (g, k)"
proof -
  obtain xs ys where kvs: "kvs = xs @ (k, v) # ys" using assms(2) by (meson split_list)
  have notin: "k \<notin> fst ` set xs" "k \<notin> fst ` set ys" using assms(1) kvs by auto
  have none: "kf_last (concat (map f zs)) (g, k) = None" if "k \<notin> fst ` set zs" for zs
    by (rule kf_last_concat_None) (use that assms(3) in force)
  show ?thesis
    by (simp add: kvs kf_last_append none [OF notin(1)] none [OF notin(2)] split: option.splits)
qed

lemma map_of_concat_None:
  "(\<And>x y. x \<in> set xs \<Longrightarrow> y \<in> set (f x) \<Longrightarrow> fst y \<noteq> k) \<Longrightarrow> map_of (rev (concat (map f xs))) k = None"
  by (auto simp: map_of_eq_None_iff)

lemma map_of_concat:
  assumes "distinct (map fst kvs)" "(k, v) \<in> set kvs"
    and "\<And>k v y. y \<in> set (f (k, v)) \<Longrightarrow> fst y = k"
  shows "map_of (rev (concat (map f kvs))) k = map_of (rev (f (k, v))) k"
proof -
  obtain xs ys where kvs: "kvs = xs @ (k, v) # ys" using assms(2) by (meson split_list)
  have notin: "k \<notin> fst ` set xs" "k \<notin> fst ` set ys" using assms(1) kvs by auto
  have none: "map_of (rev (concat (map f zs))) k = None" if "k \<notin> fst ` set zs" for zs
    by (rule map_of_concat_None) (use that assms(3) in force)
  show ?thesis
    by (simp add: kvs map_add_def none [OF notin(1)] none [OF notin(2)] split: option.splits)
qed

lemma entry_writes_key: "w \<in> set (entry_writes env rf pp a n (k, v)) \<Longrightarrow> kf_write_key w = (KEYFILE_GROUP_REMMINA, k)"
  by (auto simp: entry_writes_def password_writes_def Let_def split: if_splits)

lemma entry_changes_key: "y \<in> set (entry_changes env rf pp a n (k, v)) \<Longrightarrow> fst y = k"
  by (auto simp: entry_changes_def password_changes_def split: if_splits)

section \<open>What a save leaves\<close>

text \<open>The order of iteration is that of some arrangement of the table.\<close>

definition iter_ok :: "('kf, 'ks) file_env \<Rightarrow> bool" where
  "iter_ok env \<longleftrightarrow>
     (\<forall>t. distinct (map fst t) \<longrightarrow> distinct (map fst (fe_iter env t)) \<and> set (fe_iter env t) = set t)"

definition file_plugin :: "('kf, 'ks) file_env \<Rightarrow> rfile \<Rightarrow> plugin option" where
  "file_plugin env rf =
     (case ht_lookup (rf_settings rf) ''protocol'' of
        None \<Rightarrow> None
      | Some proto \<Rightarrow> remmina_plugin_manager_get_plugin (fe_pm env) PROTOCOL proto)"

definition file_kf :: "('kf, 'ks) file_env \<Rightarrow> files \<Rightarrow> string \<Rightarrow> 'kf" where
  "file_kf env fs f = snd (kf_load (fe_kf env) (kf_new (fe_kf env)) (fs f))"

text \<open>A profile that can be saved: its two paths differ, can be written and are not the preferences file.\<close>

definition savable :: "('kf, 'ks) file_env \<Rightarrow> rfile \<Rightarrow> string \<Rightarrow> string \<Rightarrow> bool" where
  "savable env rf f sf \<longleftrightarrow>
     \<not> rf_prevent_saving rf \<and> rf_filename rf = Some f \<and> rf_statefile rf = Some sf \<and> sf \<noteq> f \<and>
     f \<noteq> fe_pref_file env \<and> fe_set_contents_ok env f \<and> fe_set_contents_ok env sf"

definition save_writes :: "('kf, 'ks) file_env \<Rightarrow> rfile \<Rightarrow> plugin \<Rightarrow> bool \<Rightarrow> kf_write list" where
  "save_writes env rf pp available =
     concat (map (entry_writes env rf pp available (remmina_file_get_int rf ''disablepasswordstoring'' 0))
       (fe_iter env (rf_settings rf))) @ save_removed_keys"

definition save_changes :: "('kf, 'ks) file_env \<Rightarrow> rfile \<Rightarrow> plugin \<Rightarrow> bool \<Rightarrow> (string \<times> cstr) list" where
  "save_changes env rf pp available =
     concat (map (entry_changes env rf pp available (remmina_file_get_int rf ''disablepasswordstoring'' 0))
       (fe_iter env (rf_settings rf)))"

lemma save_result:
  assumes "savable env rf f sf" and "file_plugin env rf = Some pp"
  shows "remmina_file_save env rf w = Ret \<lparr>
     w_fs = (w_fs w)(
       f \<mapsto> kf_to_data (fe_kf env) (kf_run (fe_kf env)
              (save_writes env rf pp (secret_service_available env (w_ks w))) (file_kf env (w_fs w) f)),
       sf \<mapsto> kf_to_data (fe_kf env) (file_kf env (w_fs w) sf)),
     w_ks = fold (change_secret env rf) (save_changes env rf pp (secret_service_available env (w_ks w))) (w_ks w)\<rparr>"
  using assms
  by (simp add: remmina_file_save_def savable_def file_plugin_def save_entries_seq
      remmina_file_get_keyfile_def remmina_file_get_keystate_def file_set_contents_def file_kf_def
      save_writes_def save_changes_def Let_def)

text \<open>The text of a password in the profile after a save.\<close>

definition saved_password :: "('kf, 'ks) file_env \<Rightarrow> bool \<Rightarrow> gint \<Rightarrow> string \<Rightarrow> cstr \<Rightarrow> cstr" where
  "saved_password env available n value old =
     (if value = [] then Some []
      else if n = 0 then
        (if available then Some ''.''
         else case env_encrypt env (Some value) of Some s \<Rightarrow> Some s | None \<Rightarrow> old)
      else if available \<and> n = 1 \<and> value \<noteq> ''.'' then Some ''.''
      else Some [])"

definition removed_keys :: "string set" where
  "removed_keys = {''resolution'', ''ssh_enabled'', ''save_ssh_server'', ''save_ssh_username''}"

lemma kf_last_removed:
  "kf_last save_removed_keys (KEYFILE_GROUP_REMMINA, k) =
     (if k \<in> removed_keys then Some (Remove_key KEYFILE_GROUP_REMMINA k) else None)"
  by (auto simp: save_removed_keys_def removed_keys_def kf_effective_def)

lemma group_remmina_name [simp]: "kf_name KEYFILE_GROUP_REMMINA"
  by (simp add: KEYFILE_GROUP_REMMINA_def)

lemma iter_mem:
  assumes "iter_ok env" "rf_inv rf"
  shows "distinct (map fst (fe_iter env (rf_settings rf)))" "set (fe_iter env (rf_settings rf)) = set (rf_settings rf)"
  using assms by (simp_all add: iter_ok_def rf_inv_def)

text \<open>The last call for a setting of the profile.\<close>

lemma save_writes_last:
  assumes "iter_ok env" "rf_inv rf" "(k, v) \<in> set (rf_settings rf)" "k \<notin> removed_keys"
  shows "kf_last (save_writes env rf pp a) (KEYFILE_GROUP_REMMINA, k) =
    kf_last (entry_writes env rf pp a (remmina_file_get_int rf ''disablepasswordstoring'' 0) (k, v)) (KEYFILE_GROUP_REMMINA, k)"
proof -
  let ?f = "entry_writes env rf pp a (remmina_file_get_int rf ''disablepasswordstoring'' 0)"
  have "(k, v) \<in> set (fe_iter env (rf_settings rf))"
    using assms(3) iter_mem(2) [OF assms(1,2)] by simp
  from kf_last_concat [OF iter_mem(1) [OF assms(1,2)] this entry_writes_key]
  have "kf_last (concat (map ?f (fe_iter env (rf_settings rf)))) (KEYFILE_GROUP_REMMINA, k) =
      kf_last (?f (k, v)) (KEYFILE_GROUP_REMMINA, k)" .
  with assms(4) show ?thesis by (simp add: save_writes_def kf_last_append kf_last_removed)
qed

lemma save_writes_none:
  assumes "iter_ok env" "rf_inv rf" "k \<notin> fst ` set (rf_settings rf)" "k \<notin> removed_keys"
  shows "kf_last (save_writes env rf pp a) (KEYFILE_GROUP_REMMINA, k) = None"
proof -
  have "kf_last (concat (map (entry_writes env rf pp a (remmina_file_get_int rf ''disablepasswordstoring'' 0))
      (fe_iter env (rf_settings rf)))) (KEYFILE_GROUP_REMMINA, k) = None"
    using assms(3) iter_mem(2) [OF assms(1,2)] entry_writes_key
    by (intro kf_last_concat_None) (force simp: image_iff)
  with assms(4) show ?thesis by (simp add: save_writes_def kf_last_append kf_last_removed)
qed

lemma save_writes_removed:
  "k \<in> removed_keys \<Longrightarrow> kf_last (save_writes env rf pp a) (KEYFILE_GROUP_REMMINA, k) =
     Some (Remove_key KEYFILE_GROUP_REMMINA k)"
  by (simp add: save_writes_def kf_last_append kf_last_removed)

lemma password_writes_last:
  "kf_last (password_writes env a n k v) (KEYFILE_GROUP_REMMINA, k) =
     (case saved_password env a n v None of
        None \<Rightarrow> None
      | Some t \<Rightarrow> Some (Set_string KEYFILE_GROUP_REMMINA k (Some t)))"
  by (auto simp: password_writes_def saved_password_def kf_effective_def Let_def split: option.splits)

lemma saved_password_None: "saved_password env a n v old = (case saved_password env a n v None of None \<Rightarrow> old | Some t \<Rightarrow> Some t)"
  by (auto simp: saved_password_def split: option.splits)

definition saved_value ::
  "('kf, 'ks) file_env \<Rightarrow> plugin \<Rightarrow> bool \<Rightarrow> gint \<Rightarrow> string \<Rightarrow> string \<Rightarrow> cstr \<Rightarrow> cstr" where
  "saved_value env pp available n key value old =
     (if encrypted_setting (fe_pm env) pp key then saved_password env available n value old else Some value)"

lemma entry_writes_last:
  assumes "goes_to_keyring env rf"
  shows "kf_last (entry_writes env rf pp a n (k, v)) (KEYFILE_GROUP_REMMINA, k) =
     (case saved_value env pp a n k v None of
        None \<Rightarrow> None
      | Some t \<Rightarrow> Some (Set_string KEYFILE_GROUP_REMMINA k (Some t)))"
  using assms
  by (simp add: entry_writes_pair saved_value_def password_writes_last kf_effective_def)

lemma savable_keyring: "savable env rf f sf \<Longrightarrow> goes_to_keyring env rf"
  by (simp add: savable_def goes_to_keyring_def)

lemma savable_file_kf:
  assumes "savable env rf f sf" "file_plugin env rf = Some pp" "remmina_file_save env rf w = Ret w'"
  shows "file_kf env (w_fs w') f = snd (kf_load (fe_kf env) (kf_new (fe_kf env)) (Some (kf_to_data (fe_kf env)
      (kf_run (fe_kf env) (save_writes env rf pp (secret_service_available env (w_ks w))) (file_kf env (w_fs w) f)))))"
    and "file_kf env (w_fs w') sf = snd (kf_load (fe_kf env) (kf_new (fe_kf env)) (Some (kf_to_data (fe_kf env)
      (file_kf env (w_fs w) sf))))"
    and "w_ks w' = fold (change_secret env rf) (save_changes env rf pp (secret_service_available env (w_ks w))) (w_ks w)"
  using save_result [OF assms(1,2), of w] assms(1,3) by (auto simp: file_kf_def savable_def)

text \<open>Reading the saved profile, key by key.\<close>

lemma saved_profile_string:
  assumes "keyfile (fe_kf env) ok" "iter_ok env" "rf_inv rf"
    and "savable env rf f sf" "file_plugin env rf = Some pp" "remmina_file_save env rf w = Ret w'"
    and "(k, v) \<in> set (rf_settings rf)" "k \<notin> removed_keys" "kf_name k"
    and "\<And>t. saved_value env pp (secret_service_available env (w_ks w))
           (remmina_file_get_int rf ''disablepasswordstoring'' 0) k v None = Some t \<Longrightarrow> ok t"
  shows "kf_get_string (fe_kf env) (file_kf env (w_fs w') f) KEYFILE_GROUP_REMMINA k =
    saved_value env pp (secret_service_available env (w_ks w))
      (remmina_file_get_int rf ''disablepasswordstoring'' 0) k v
      (kf_get_string (fe_kf env) (file_kf env (w_fs w) f) KEYFILE_GROUP_REMMINA k)"
proof -
  let ?a = "secret_service_available env (w_ks w)" and ?n = "remmina_file_get_int rf ''disablepasswordstoring'' 0"
  have l: "kf_last (save_writes env rf pp ?a) (KEYFILE_GROUP_REMMINA, k) =
     (case saved_value env pp ?a ?n k v None of None \<Rightarrow> None
      | Some t \<Rightarrow> Some (Set_string KEYFILE_GROUP_REMMINA k (Some t)))"
    unfolding save_writes_last [OF assms(2,3,7,8)] entry_writes_last [OF savable_keyring [OF assms(4)]] ..
  show ?thesis
  proof (cases "saved_value env pp ?a ?n k v None")
    case None
    with l have "kf_last (save_writes env rf pp ?a) (KEYFILE_GROUP_REMMINA, k) = None" by simp
    from keyfile.run_untouched(2) [OF assms(1) this] None show ?thesis
      unfolding savable_file_kf(1) [OF assms(4,5,6)] keyfile.reload_reads(2) [OF assms(1)]
      by (simp add: saved_value_def saved_password_None [of _ _ _ _ "kf_get_string _ _ _ _"] split: if_splits)
  next
    case (Some t)
    with l have "kf_last (save_writes env rf pp ?a) (KEYFILE_GROUP_REMMINA, k) =
        Some (Set_string KEYFILE_GROUP_REMMINA k (Some t))" by simp
    from keyfile.run_string(2) [OF assms(1) group_remmina_name assms(9) this assms(10) [OF Some]] Some
    show ?thesis
      unfolding savable_file_kf(1) [OF assms(4,5,6)] keyfile.reload_reads(2) [OF assms(1)]
      by (simp add: saved_value_def saved_password_None [of _ _ _ _ "kf_get_string _ _ _ _"] split: if_splits)
  qed
qed

text \<open>The secret service after the save.\<close>

lemma change_secret_apply:
  assumes "fe_secret env = Some sops" "secret_service sops"
  shows "change_secret env rf = secret_service.apply_change sops rf"
proof (intro ext)
  fix c ks
  show "change_secret env rf c ks = secret_service.apply_change sops rf c ks"
    using assms by (cases c; cases "snd c")
      (simp_all add: secret_store_def secret_delete_def secret_service.apply_change.simps)
qed

lemma saved_secret:
  assumes "fe_secret env = Some sops" "secret_service sops" "secret_service_available env (w_ks w)"
    and "iter_ok env" "rf_inv rf" "savable env rf f sf" "file_plugin env rf = Some pp"
    and "remmina_file_save env rf w = Ret w'" "(k, v) \<in> set (rf_settings rf)" "rf_filename rf' = Some f"
    and "encrypted_setting (fe_pm env) pp k"
  shows "sec_get_password sops (w_ks w') rf' k =
    (case map_of (rev (password_changes True (remmina_file_get_int rf ''disablepasswordstoring'' 0) k v)) k of
       Some p \<Rightarrow> p | None \<Rightarrow> sec_get_password sops (w_ks w) rf' k)"
proof -
  let ?n = "remmina_file_get_int rf ''disablepasswordstoring'' 0"
  have "(k, v) \<in> set (fe_iter env (rf_settings rf))"
    using assms(9) iter_mem(2) [OF assms(4,5)] by simp
  from map_of_concat [OF iter_mem(1) [OF assms(4,5)] this entry_changes_key]
  have m: "map_of (rev (save_changes env rf pp True)) k = map_of (rev (entry_changes env rf pp True ?n (k, v))) k"
    by (simp add: save_changes_def)
  have "w_ks w' = fold (secret_service.apply_change sops rf) (save_changes env rf pp True) (w_ks w)"
    using savable_file_kf(3) [OF assms(6,7,8)] assms(3)
    by (simp add: change_secret_apply [OF assms(1,2)])
  moreover have "sec_is_service_available sops (w_ks w)" "rf_filename rf = Some f"
    using assms(1,3,6) by (simp_all add: secret_service_available_def savable_def)
  ultimately show ?thesis
    using secret_service.get_changes [OF assms(2), of "w_ks w" rf f rf' f "save_changes env rf pp True" k]
      assms(10,11) savable_keyring [OF assms(6)]
    by (simp add: m entry_changes_pair)
qed

section \<open>What a load reads\<close>

text \<open>The value a load gives a setting, whatever else the file holds.\<close>

definition loaded_value :: "('kf, 'ks) file_env \<Rightarrow> plugin option \<Rightarrow> bool \<Rightarrow> 'kf \<Rightarrow> 'ks \<Rightarrow> rfile \<Rightarrow> string \<Rightarrow> cstr" where
  "loaded_value env pp available kf ks rf key =
     (let s = kf_get_string (fe_kf env) kf KEYFILE_GROUP_REMMINA key
      in if (case pp of None \<Rightarrow> False | Some p \<Rightarrow> encrypted_setting (fe_pm env) p key)
         then (if s = Some ''.'' \<and> available then secret_get env rf key ks else env_decrypt env s)
         else s)"

lemma load_key_get:
  assumes "key \<noteq> ''resolution''"
  shows "remmina_file_get_string (load_key env pp a kf ks key rf) k =
    (if k = key then non_empty (loaded_value env pp a kf ks rf key) else remmina_file_get_string rf k)"
proof -
  have sp: "remmina_file_get_string (r\<lparr>rf_spsettings := x\<rparr>) k' = remmina_file_get_string r k'" for r x k'
    by (simp add: remmina_file_get_string_def)
  show ?thesis
    using assms by (simp add: load_key_def loaded_value_def Let_def sp get_set_string split: option.splits)
qed

lemma load_key_filename [simp]: "rf_filename (load_key env pp a kf ks key rf) = rf_filename rf"
  by (simp add: load_key_def Let_def split: option.splits)

lemma load_keys_filename [simp]: "rf_filename (fold (load_key env pp a kf ks) keys rf) = rf_filename rf"
  by (induction keys arbitrary: rf) simp_all

lemma load_keys_get:
  assumes "''resolution'' \<notin> set keys" "rf_filename rf0 = Some f"
    and "\<And>rf. rf_filename rf = Some f \<Longrightarrow> non_empty (loaded_value env pp a kf ks rf k) = v"
  shows "remmina_file_get_string (fold (load_key env pp a kf ks) keys rf0) k =
    (if k \<in> set keys then v else remmina_file_get_string rf0 k)"
  using assms(1)
proof (induction keys rule: rev_induct)
  case Nil
  then show ?case by simp
next
  case (snoc x keys)
  then have x: "x \<noteq> ''resolution''" and ih: "remmina_file_get_string (fold (load_key env pp a kf ks) keys rf0) k =
      (if k \<in> set keys then v else remmina_file_get_string rf0 k)" by auto
  let ?r = "fold (load_key env pp a kf ks) keys rf0"
  have v: "non_empty (loaded_value env pp a kf ks ?r k) = v"
    using assms(2) by (intro assms(3)) simp
  show ?case
  proof (cases "k = x")
    case True
    with v load_key_get [OF x, of env pp a kf ks ?r k] show ?thesis by simp
  next
    case False
    with ih load_key_get [OF x, of env pp a kf ks ?r k] show ?thesis by simp
  qed
qed

lemma set_statefile_get [simp]:
  "remmina_file_get_string (remmina_file_set_statefile env rf) k = remmina_file_get_string rf k"
  by (simp add: remmina_file_set_statefile_def remmina_file_get_string_def)

section \<open>Save, then load\<close>

text \<open>
  The profiles for which a save writes everything: every name and text is one the key file
  format can hold, there is a name, the protocol is no password, nothing else is in the old
  file, and no password is the marker itself.
\<close>

definition storable ::
  "(string \<Rightarrow> bool) \<Rightarrow> ('kf, 'ks) file_env \<Rightarrow> rfile \<Rightarrow> plugin \<Rightarrow> bool \<Rightarrow> 'ks world \<Rightarrow> string \<Rightarrow> bool" where
  "storable ok env rf pp a w f \<longleftrightarrow>
     (\<forall>(k, v) \<in> set (rf_settings rf). k \<notin> removed_keys \<and> kf_name k \<and>
        (encrypted_setting (fe_pm env) pp k \<longrightarrow> v \<noteq> ''.'' \<and> NUL \<notin> set v) \<and>
        (\<exists>t. saved_value env pp a 0 k v None = Some t \<and> ok t)) \<and>
     remmina_file_get_int rf ''disablepasswordstoring'' 0 = 0 \<and>
     ''name'' \<in> fst ` set (rf_settings rf) \<and> \<not> encrypted_setting (fe_pm env) pp ''protocol'' \<and>
     (\<forall>k. kf_has_key (fe_kf env) (file_kf env (w_fs w) f) KEYFILE_GROUP_REMMINA k \<longrightarrow>
        k \<in> fst ` set (rf_settings rf) \<union> removed_keys)"

lemma storableD:
  assumes "storable ok env rf pp a w f" "(k, v) \<in> set (rf_settings rf)"
  shows "k \<notin> removed_keys" "kf_name k" "\<exists>t. saved_value env pp a 0 k v None = Some t \<and> ok t"
    and "encrypted_setting (fe_pm env) pp k \<Longrightarrow> v \<noteq> ''.'' \<and> NUL \<notin> set v"
  using assms unfolding storable_def by (blast | force)+

lemma storable_rest:
  assumes "storable ok env rf pp a w f"
  shows "remmina_file_get_int rf ''disablepasswordstoring'' 0 = 0"
    and "''name'' \<in> fst ` set (rf_settings rf)" "\<not> encrypted_setting (fe_pm env) pp ''protocol''"
  using assms unfolding storable_def by blast+

lemma storable_key_string:
  assumes "keyfile (fe_kf env) ok" "iter_ok env" "rf_inv rf"
    and "savable env rf f sf" "file_plugin env rf = Some pp" "remmina_file_save env rf w = Ret w'"
    and st: "storable ok env rf pp (secret_service_available env (w_ks w)) w f"
    and kv: "(k, v) \<in> set (rf_settings rf)"
  shows "kf_get_string (fe_kf env) (file_kf env (w_fs w') f) KEYFILE_GROUP_REMMINA k =
    saved_value env pp (secret_service_available env (w_ks w)) 0 k v None"
proof -
  let ?a = "secret_service_available env (w_ks w)"
  obtain t where t: "saved_value env pp ?a 0 k v None = Some t" "ok t" using storableD(3) [OF st kv] by blast
  note n0 = storable_rest(1) [OF st]
  have "kf_get_string (fe_kf env) (file_kf env (w_fs w') f) KEYFILE_GROUP_REMMINA k =
    saved_value env pp ?a 0 k v (kf_get_string (fe_kf env) (file_kf env (w_fs w) f) KEYFILE_GROUP_REMMINA k)"
    using saved_profile_string [OF assms(1-6) kv storableD(1,2) [OF st kv]] t n0 by simp
  also have "\<dots> = saved_value env pp ?a 0 k v None"
    using t(1) by (auto simp: saved_value_def saved_password_def split: if_splits option.splits)
  finally show ?thesis .
qed

lemma storable_keys:
  assumes "keyfile (fe_kf env) ok" "iter_ok env" "rf_inv rf" "savable env rf f sf"
    and "file_plugin env rf = Some pp" "remmina_file_save env rf w = Ret w'"
    and "storable ok env rf pp (secret_service_available env (w_ks w)) w f"
  shows "kf_has_key (fe_kf env) (file_kf env (w_fs w') f) KEYFILE_GROUP_REMMINA k \<longleftrightarrow>
    k \<in> fst ` set (rf_settings rf)"
proof -
  let ?a = "secret_service_available env (w_ks w)" and ?ops = "fe_kf env"
  let ?ws = "save_writes env rf pp ?a"
  have eq: "kf_has_key ?ops (file_kf env (w_fs w') f) KEYFILE_GROUP_REMMINA k =
      kf_has_key ?ops (kf_run ?ops ?ws (file_kf env (w_fs w) f)) KEYFILE_GROUP_REMMINA k"
    unfolding savable_file_kf(1) [OF assms(4,5,6)] keyfile.reload_reads(1) [OF assms(1)] ..
  have n0: "remmina_file_get_int rf ''disablepasswordstoring'' 0 = 0"
    using assms(7) by (simp add: storable_def)
  show ?thesis
  proof (cases "k \<in> fst ` set (rf_settings rf)")
    case True
    then obtain v where kv: "(k, v) \<in> set (rf_settings rf)" by auto
    then obtain t where k: "k \<notin> removed_keys" "kf_name k" "saved_value env pp ?a 0 k v None = Some t"
      using assms(7) by (auto simp: storable_def)
    have "kf_last ?ws (KEYFILE_GROUP_REMMINA, k) = Some (Set_string KEYFILE_GROUP_REMMINA k (Some t))"
      using k(3) by (simp add: save_writes_last [OF assms(2,3) kv k(1)] n0
          entry_writes_last [OF savable_keyring [OF assms(4)]])
    from keyfile.run_string(1) [OF assms(1) group_remmina_name k(2) this] True eq show ?thesis by simp
  next
    case False
    show ?thesis
    proof (cases "k \<in> removed_keys")
      case True
      from keyfile.run_removed [OF assms(1) save_writes_removed [OF True]] False eq show ?thesis by simp
    next
      case nr: False
      from keyfile.run_untouched(1) [OF assms(1) save_writes_none [OF assms(2,3) False nr]]
      show ?thesis using assms(7) False nr eq by (auto simp: storable_def)
    qed
  qed
qed

text \<open>The common part: it is enough that every saved setting is loaded back.\<close>

lemma save_load_core:
  assumes "keyfile (fe_kf env) ok" "iter_ok env" "rf_inv rf" "savable env rf f sf"
    and "file_plugin env rf = Some pp" "remmina_file_save env rf w = Ret w'"
    and "storable ok env rf pp (secret_service_available env (w_ks w)) w f"
    and loaded: "\<And>k v rf'. (k, v) \<in> set (rf_settings rf) \<Longrightarrow> rf_filename rf' = Some f \<Longrightarrow>
      non_empty (loaded_value env (Some pp) (secret_service_available env (w_ks w'))
        (file_kf env (w_fs w') f) (w_ks w') rf' k) = non_empty (Some v)"
  shows "\<exists>rf'. remmina_file_load env w' f = Ret (Some rf') \<and>
    (\<forall>k. remmina_file_get_string rf' k = remmina_file_get_string rf k)"
proof -
  let ?ops = "fe_kf env" and ?kf = "file_kf env (w_fs w') f" and ?G = KEYFILE_GROUP_REMMINA
  let ?a = "secret_service_available env (w_ks w')"
  note has = storable_keys [OF assms(1-7)]
  obtain d where d: "w_fs w' f = Some d" "kf_load ?ops (kf_new ?ops) (Some d) = (True, ?kf)"
    using save_result [OF assms(4,5), of w] assms(4,6) keyfile.load_data [OF assms(1)]
    by (auto simp: file_kf_def savable_def prod_eq_iff)
  have name: "kf_has_key ?ops ?kf ?G ''name''" using assms(7) has by (simp add: storable_def)
  then obtain keys where keys: "kf_get_keys ?ops ?kf ?G = Some keys"
    using keyfile.keys_has_key [OF assms(1), of ?kf ?G "''name''"] by blast
  then have set_keys: "set keys = fst ` set (rf_settings rf)"
    using keyfile.keys_has_key [OF assms(1), of ?kf ?G] has by auto
  have nores: "''resolution'' \<notin> set keys"
    using assms(7) set_keys by (auto simp: storable_def removed_keys_def)
  obtain proto where proto: "ht_lookup (rf_settings rf) ''protocol'' = Some proto"
    "remmina_plugin_manager_get_plugin (fe_pm env) PROTOCOL proto = Some pp"
    using assms(5) by (auto simp: file_plugin_def split: option.splits)
  then have pin: "(''protocol'', proto) \<in> set (rf_settings rf)" by (simp add: map_of_SomeD)
  have ps: "kf_get_string ?ops ?kf ?G ''protocol'' = Some proto"
    using storable_key_string [OF assms(1-7) pin] storable_rest(3) [OF assms(7)]
    by (simp add: saved_value_def)
  have pl: "load_protocol_plugin env ?kf = Some pp"
    using ps proto(2) by (simp add: load_protocol_plugin_def)
  let ?new = "remmina_file_new_empty\<lparr>rf_filename := Some f\<rparr>"
  let ?rf = "fold (load_key env (Some pp) ?a ?kf (w_ks w')) keys ?new"
  have get: "remmina_file_get_string ?rf k = remmina_file_get_string rf k" for k
  proof (cases "k \<in> set keys")
    case True
    then obtain v where kv: "(k, v) \<in> set (rf_settings rf)" using set_keys by auto
    then have "ht_lookup (rf_settings rf) k = Some v" using assms(3) by (simp add: rf_inv_def)
    moreover have "k \<noteq> ''resolution''" using True nores by auto
    ultimately have "remmina_file_get_string rf k = non_empty (Some v)"
      by (simp add: remmina_file_get_string_def non_empty_def)
    moreover have "remmina_file_get_string ?rf k = non_empty (Some v)"
      using True by (subst load_keys_get [OF nores _ loaded [OF kv]]) simp_all
    ultimately show ?thesis by simp
  next
    case False
    then have "ht_lookup (rf_settings rf) k = None" using set_keys by (simp add: map_of_eq_None_iff)
    then have "remmina_file_get_string rf k = None" by (simp add: remmina_file_get_string_def)
    moreover have "remmina_file_get_string ?rf k = remmina_file_get_string ?new k"
    proof -
      have "remmina_file_get_string (fold (load_key env pp' a kf ks) ks' r) k = remmina_file_get_string r k"
        if "k \<notin> set ks'" "''resolution'' \<notin> set ks'" for ks' r pp' a kf ks
        using that by (induction ks' arbitrary: r) (auto simp: load_key_get)
      with False nores show ?thesis by simp
    qed
    moreover have "remmina_file_get_string ?new k = None"
      by (simp add: remmina_file_get_string_def remmina_file_new_empty_def)
    ultimately show ?thesis by simp
  qed
  have ns: "''ssh_enabled'' \<notin> fst ` set (rf_settings rf)"
    using assms(7) by (auto simp: storable_def removed_keys_def)
  then have "ht_lookup (rf_settings rf) ''ssh_enabled'' = None" by (simp add: map_of_eq_None_iff)
  then have "remmina_file_get_string rf ''ssh_enabled'' = None"
    by (simp add: remmina_file_get_string_def)
  then have "remmina_file_get_string ?rf ''ssh_enabled'' = None" by (simp only: get)
  then have "upgrade_sshkeys_202001 ?rf = Ret ?rf" by (simp add: upgrade_sshkeys_202001_def)
  with d keys pl name
  have "remmina_file_load env w' f = Ret (Some (remmina_file_set_statefile env ?rf))"
    by (simp add: remmina_file_load_def Let_def)
  then show ?thesis using get by simp
qed

end
