(* ===== verification/Migration.thy ===== *)
theory Migration
  imports FileFacts
begin

text \<open>
  The migration of the SSH settings of a profile, \<open>upgrade_sshkeys_202001\<close> in
  \<open>src/remmina_file.c\<close>: a function from the old settings to the new ones as its
  specification, and the proof that the sequence of moves in the code computes it.
\<close>

section \<open>Specification\<close>

text \<open>The settings that move whatever the value of \<open>ssh_enabled\<close>.\<close>


definition moved_suffixes :: "string list" where
  "moved_suffixes = [''loopback'', ''username'', ''password'', ''server'']"

definition ssh_key :: "string \<Rightarrow> string" where
  "ssh_key x = ''ssh_'' @ x"

definition tunnel_key :: "string \<Rightarrow> string" where
  "tunnel_key x = ''ssh_tunnel_'' @ x"

text \<open>The old setting a new one takes its value from.\<close>

definition old_setting :: "string \<Rightarrow> string" where
  "old_setting k = ssh_key (if take 11 k = ''ssh_tunnel_'' then drop 11 k else k)"

definition moved_to :: "bool \<Rightarrow> string \<Rightarrow> string set" where
  "moved_to is_ssh x =
     (if is_ssh \<and> x \<in> {''username'', ''password''} then {tunnel_key x, x} else {tunnel_key x})"

definition sshkeys_spec :: "(string \<Rightarrow> cstr) \<Rightarrow> gint \<Rightarrow> bool \<Rightarrow> string \<Rightarrow> cstr" where
  "sshkeys_spec get enabled is_ssh k =
     (if k = ''ssh_tunnel_enabled'' then Some (show_gint enabled)
      else if k \<in> (\<Union>x \<in> set moved_suffixes. moved_to is_ssh x) then
        (case get (old_setting k) of Some v \<Rightarrow> Some v | None \<Rightarrow> get k)
      else if k \<in> ssh_key ` set moved_suffixes then None
      else if k \<in> tunnel_key ` set common_suffixes \<and> enabled \<noteq> 0 then
        (case get (old_setting k) of Some v \<Rightarrow> Some v | None \<Rightarrow> get k)
      else if k \<in> ssh_key ` set common_suffixes \<and> \<not> is_ssh then None
      else get k)"

section \<open>The moves of the code\<close>

lemma get_string_ne: "remmina_file_get_string rf k = Some v \<Longrightarrow> v \<noteq> []"
  by (auto simp: remmina_file_get_string_def split: option.splits if_splits)

lemma get_set_int:
  "k \<noteq> ''resolution'' \<Longrightarrow> remmina_file_get_string (remmina_file_set_int rf k i) k' =
     (if k' = k then Some (show_gint i) else remmina_file_get_string rf k')"
  by (simp add: remmina_file_get_string_def remmina_file_set_int_def update_conv')

text \<open>A sequence of moves, from \<open>src x\<close> to the settings \<open>dst x\<close>, where no source is a target.\<close>

lemma moves_fold:
  fixes src :: "'x \<Rightarrow> string" and get :: "'s \<Rightarrow> string \<Rightarrow> cstr"
  assumes "distinct xs" and apart: "\<And>x y. x \<in> set xs \<Longrightarrow> y \<in> set xs \<Longrightarrow> src x \<notin> dst y"
    and inj: "\<And>x y. src x = src y \<Longrightarrow> x = y"
    and from_dst: "\<And>x k. x \<in> set xs \<Longrightarrow> k \<in> dst x \<Longrightarrow> from k = src x"
    and step: "\<And>x r k. x \<in> set xs \<Longrightarrow> get (m x r) k =
      (if k \<in> dst x \<and> en then (case get r (src x) of Some v \<Rightarrow> Some v | None \<Rightarrow> get r k)
       else if k = src x then (if keep then get r k else None) else get r k)"
  shows "get (fold m xs r) k =
    (if k \<in> (\<Union>x \<in> set xs. dst x) \<and> en then (case get r (from k) of Some v \<Rightarrow> Some v | None \<Rightarrow> get r k)
     else if k \<in> src ` set xs then (if keep then get r k else None) else get r k)"
  using assms(1) apart from_dst step
proof (induction xs arbitrary: k rule: rev_induct)
  case Nil
  then show ?case by simp
next
  case (snoc x xs)
  have x: "x \<notin> set xs" using snoc.prems(1) by simp
  have ih: "get (fold m xs r) k' =
    (if k' \<in> (\<Union>x \<in> set xs. dst x) \<and> en then (case get r (from k') of Some v \<Rightarrow> Some v | None \<Rightarrow> get r k')
     else if k' \<in> src ` set xs then (if keep then get r k' else None) else get r k')" for k'
    using snoc.prems by (intro snoc.IH) auto
  have st: "get (fold m (xs @ [x]) r) k =
      (if k \<in> dst x \<and> en then (case get (fold m xs r) (src x) of Some v \<Rightarrow> Some v | None \<Rightarrow> get (fold m xs r) k)
       else if k = src x then (if keep then get (fold m xs r) k else None) else get (fold m xs r) k)"
    using snoc.prems(4) by simp
  have s: "src x \<notin> (\<Union>x \<in> set xs. dst x)" "src x \<notin> src ` set xs" "src x \<notin> dst x"
    using x snoc.prems(2) inj by auto
  have d: "k \<notin> (\<Union>y \<in> set xs. dst y)" "k \<notin> src ` set xs" "k \<noteq> src x" "from k = src x" if k: "k \<in> dst x"
  proof -
    show f: "from k = src x" using snoc.prems(3) k by simp
    have "k \<notin> dst y" if "y \<in> set xs" for y
      using f snoc.prems(3) [of y k] inj [of x y] x that by auto
    then show "k \<notin> (\<Union>y \<in> set xs. dst y)" by blast
    have "src y \<notin> dst x" if "y \<in> set xs" for y using snoc.prems(2) [of y x] that by simp
    then show "k \<notin> src ` set xs" using k by auto
    show "k \<noteq> src x" using s(3) k by auto
  qed
  consider "k \<in> dst x" | "k = src x" | "k \<notin> dst x" "k \<noteq> src x" by blast
  then show ?case
  proof cases
    case 1
    from d [OF 1] s have "get (fold m xs r) k = get r k" "get (fold m xs r) (src x) = get r (src x)"
      by (simp_all add: ih)
    with st 1 d [OF 1] show ?thesis by (simp split: option.splits)
  next
    case 2
    with s have "get (fold m xs r) k = get r k" by (simp add: ih)
    with st 2 s show ?thesis by simp
  next
    case 3
    with st have "get (fold m (xs @ [x]) r) k = get (fold m xs r) k" by simp
    with 3 ih [of k] show ?thesis by simp
  qed
qed

lemma old_setting_simps:
  "old_setting (tunnel_key x) = ssh_key x"
  by (simp add: old_setting_def tunnel_key_def)

lemma key_inj: "ssh_key x = ssh_key y \<Longrightarrow> x = y"
  by (simp add: ssh_key_def)

lemma key_names [simp]: "ssh_key x \<noteq> ''resolution''" "tunnel_key x \<noteq> ''resolution''"
  by (simp_all add: ssh_key_def tunnel_key_def)

lemma mig_common_get:
  assumes "ssh_key x \<noteq> tunnel_key x"
  shows "remmina_file_get_string (upgrade_sshkeys_202001_mig_common_setting is_ssh en x rf) k =
    (if k \<in> {tunnel_key x} \<and> en then
       (case remmina_file_get_string rf (ssh_key x) of Some v \<Rightarrow> Some v | None \<Rightarrow> remmina_file_get_string rf k)
     else if k = ssh_key x then (if is_ssh then remmina_file_get_string rf k else None)
     else remmina_file_get_string rf k)"
  using get_string_ne [of rf "ssh_key x"] assms
  unfolding upgrade_sshkeys_202001_mig_common_setting_def Let_def ssh_key_def [symmetric] tunnel_key_def [symmetric]
  by (auto simp: get_set_string non_empty_Some Let_def
      split: option.splits)

lemma common_plain: "x \<in> set common_suffixes \<Longrightarrow> take 7 x \<noteq> ''tunnel_''"
  by (auto simp: common_suffixes_def)

lemma common_apart:
  "x \<in> set common_suffixes \<Longrightarrow> ssh_key x \<noteq> tunnel_key y"
  using common_plain [of x] by (auto simp: ssh_key_def tunnel_key_def)

lemma mig_common:
  "remmina_file_get_string (fold (upgrade_sshkeys_202001_mig_common_setting is_ssh en) common_suffixes rf) k =
    (if k \<in> tunnel_key ` set common_suffixes \<and> en then
       (case remmina_file_get_string rf (old_setting k) of Some v \<Rightarrow> Some v | None \<Rightarrow> remmina_file_get_string rf k)
     else if k \<in> ssh_key ` set common_suffixes then (if is_ssh then remmina_file_get_string rf k else None)
     else remmina_file_get_string rf k)"
proof -
  have eq: "tunnel_key ` set common_suffixes = (\<Union>x \<in> set common_suffixes. {tunnel_key x})" by auto
  show ?thesis
    unfolding eq
  proof (rule moves_fold)
  show "distinct common_suffixes" by (simp add: common_suffixes_def)
  show "ssh_key x \<notin> {tunnel_key y}" if "x \<in> set common_suffixes" "y \<in> set common_suffixes" for x y
    using common_apart [OF that(1)] by simp
  show "remmina_file_get_string (upgrade_sshkeys_202001_mig_common_setting is_ssh en x r) k =
    (if k \<in> {tunnel_key x} \<and> en then
       (case remmina_file_get_string r (ssh_key x) of Some v \<Rightarrow> Some v | None \<Rightarrow> remmina_file_get_string r k)
     else if k = ssh_key x then (if is_ssh then remmina_file_get_string r k else None)
     else remmina_file_get_string r k)" if "x \<in> set common_suffixes" for x r k
    by (rule mig_common_get [OF common_apart [OF that]])
qed (auto simp: old_setting_simps dest: key_inj)
qed

definition move_setting :: "bool \<Rightarrow> string \<Rightarrow> rfile \<Rightarrow> rfile" where
  "move_setting is_ssh x =
     upgrade_move (ssh_key x) (tunnel_key x)
       (if is_ssh \<and> x \<in> {''username'', ''password''} then Some x else None)"

lemma upgrade_sshkeys_moves:
  assumes "remmina_file_get_string rf ''ssh_enabled'' \<noteq> None" "remmina_file_get_string rf ''protocol'' = Some p"
  shows "upgrade_sshkeys_202001 rf = Ret (remmina_file_set_int
    (fold (move_setting (p = ''SSH'')) moved_suffixes
      (fold (upgrade_sshkeys_202001_mig_common_setting (p = ''SSH'')
          (remmina_file_get_int rf ''ssh_enabled'' 0 \<noteq> 0)) common_suffixes rf))
    ''ssh_tunnel_enabled'' (remmina_file_get_int rf ''ssh_enabled'' 0))"
  using assms by (auto simp: upgrade_sshkeys_202001_def Let_def moved_suffixes_def move_setting_def ssh_key_def tunnel_key_def)

lemma move_setting_get:
  assumes "x \<in> set moved_suffixes"
  shows "remmina_file_get_string (move_setting is_ssh x rf) k =
    (if k \<in> moved_to is_ssh x \<and> True then
       (case remmina_file_get_string rf (ssh_key x) of Some v \<Rightarrow> Some v | None \<Rightarrow> remmina_file_get_string rf k)
     else if k = ssh_key x then (if False then remmina_file_get_string rf k else None)
     else remmina_file_get_string rf k)"
proof -
  have "ssh_key x \<noteq> tunnel_key x" "ssh_key x \<noteq> x" "x \<noteq> ''resolution''"
    using assms by (auto simp: moved_suffixes_def ssh_key_def tunnel_key_def)
  then show ?thesis
    using get_string_ne [of rf "ssh_key x"]
    by (auto simp: move_setting_def upgrade_move_def moved_to_def get_set_string non_empty_Some Let_def
        split: option.splits)
qed

lemma moved_apart:
  "x \<in> set moved_suffixes \<Longrightarrow> y \<in> set moved_suffixes \<Longrightarrow> ssh_key x \<notin> moved_to is_ssh y"
  by (auto simp: moved_suffixes_def moved_to_def ssh_key_def tunnel_key_def)

lemma old_setting_moved: "x \<in> set moved_suffixes \<Longrightarrow> k \<in> moved_to is_ssh x \<Longrightarrow> old_setting k = ssh_key x"
  by (auto simp: moved_suffixes_def moved_to_def old_setting_def ssh_key_def tunnel_key_def split: if_splits)

lemma move_settings:
  "remmina_file_get_string (fold (move_setting is_ssh) moved_suffixes rf) k =
    (if k \<in> (\<Union>x \<in> set moved_suffixes. moved_to is_ssh x) \<and> True then
       (case remmina_file_get_string rf (old_setting k) of Some v \<Rightarrow> Some v | None \<Rightarrow> remmina_file_get_string rf k)
     else if k \<in> ssh_key ` set moved_suffixes then (if False then remmina_file_get_string rf k else None)
     else remmina_file_get_string rf k)"
proof (rule moves_fold)
  show "distinct moved_suffixes" by (simp add: moved_suffixes_def)
qed (simp_all add: moved_apart old_setting_moved move_setting_get key_inj)

text \<open>No common setting is one of the moved ones.\<close>

lemma moved_not_common:
  "k \<in> (\<Union>x \<in> set moved_suffixes. moved_to is_ssh x) \<Longrightarrow>
     k \<notin> tunnel_key ` set common_suffixes \<and> k \<notin> ssh_key ` set common_suffixes \<and>
     old_setting k \<notin> tunnel_key ` set common_suffixes \<and> old_setting k \<notin> ssh_key ` set common_suffixes"
proof -
  assume "k \<in> (\<Union>x \<in> set moved_suffixes. moved_to is_ssh x)"
  then have "k = ''ssh_tunnel_loopback'' \<or> k = ''ssh_tunnel_username'' \<or> k = ''ssh_tunnel_password'' \<or>
      k = ''ssh_tunnel_server'' \<or> k = ''username'' \<or> k = ''password''"
    by (auto simp: moved_suffixes_def moved_to_def tunnel_key_def split: if_splits)
  then show ?thesis
    by (elim disjE) (simp_all add: common_suffixes_def old_setting_def ssh_key_def tunnel_key_def)
qed

section \<open>Properties\<close>

text \<open>
  C6: Loading a profile with the old \<open>ssh_enabled\<close> setting gives every setting the value of
  the specification: a moved setting has the value of its old name if there is one, the
  common settings move only when the tunnel was enabled, the old names are empty except for
  the SSH protocol's own, and \<open>ssh_tunnel_enabled\<close> is the old \<open>ssh_enabled\<close>.
\<close>

theorem upgrade_sshkeys_spec:
  assumes "remmina_file_get_string rf ''ssh_enabled'' \<noteq> None"
    and "remmina_file_get_string rf ''protocol'' = Some p"
  shows "\<exists>rf'. upgrade_sshkeys_202001 rf = Ret rf' \<and>
    (\<forall>k. remmina_file_get_string rf' k =
       sshkeys_spec (remmina_file_get_string rf) (remmina_file_get_int rf ''ssh_enabled'' 0) (p = ''SSH'') k)"
proof -
  let ?en = "remmina_file_get_int rf ''ssh_enabled'' 0" and ?ssh = "p = ''SSH''"
  let ?r = "fold (upgrade_sshkeys_202001_mig_common_setting ?ssh (?en \<noteq> 0)) common_suffixes rf"
  have enabled: "''ssh_tunnel_enabled'' \<noteq> ''resolution''" by simp
  let ?r' = "fold (move_setting ?ssh) moved_suffixes ?r"
  have "remmina_file_get_string (remmina_file_set_int ?r' ''ssh_tunnel_enabled'' ?en) k =
      sshkeys_spec (remmina_file_get_string rf) ?en ?ssh k" for k
  proof (cases "k \<in> (\<Union>x \<in> set moved_suffixes. moved_to ?ssh x)")
    case True
    have "k \<noteq> ''ssh_tunnel_enabled''"
      using True by (auto simp: moved_suffixes_def moved_to_def tunnel_key_def split: if_splits)
    moreover have "remmina_file_get_string ?r k = remmina_file_get_string rf k"
      "remmina_file_get_string ?r (old_setting k) = remmina_file_get_string rf (old_setting k)"
      using moved_not_common [OF True] by (auto simp: mig_common)
    ultimately show ?thesis
      unfolding get_set_int [OF enabled] sshkeys_spec_def move_settings using True by (simp split: option.splits)
  next
    case False
    then show ?thesis
      unfolding get_set_int [OF enabled] sshkeys_spec_def move_settings mig_common by simp
  qed
  then show ?thesis using upgrade_sshkeys_moves [OF assms] by blast
qed

text \<open>A VNC profile with an enabled tunnel.\<close>

definition old_profile :: rfile where
  "old_profile = remmina_file_new_empty\<lparr>rf_settings := [
     (''protocol'', ''VNC''), (''ssh_enabled'', ''1''), (''ssh_server'', ''gw''), (''ssh_auth'', ''2'')]\<rparr>"

theorem upgrade_sshkeys_spec_witness:
  "\<exists>rf'. upgrade_sshkeys_202001 old_profile = Ret rf' \<and>
     remmina_file_get_string rf' ''ssh_tunnel_server'' = Some ''gw'' \<and>
     remmina_file_get_string rf' ''ssh_server'' = None \<and>
     remmina_file_get_string rf' ''ssh_tunnel_auth'' = Some ''2'' \<and>
     remmina_file_get_string rf' ''ssh_auth'' = None"
proof -
  have one: "atoi ''1'' = 1" by code_simp
  have get: "remmina_file_get_string old_profile ''ssh_enabled'' = Some ''1''"
    "remmina_file_get_string old_profile ''protocol'' = Some ''VNC''"
    "remmina_file_get_string old_profile ''ssh_server'' = Some ''gw''"
    "remmina_file_get_string old_profile ''ssh_auth'' = Some ''2''"
    "remmina_file_get_int old_profile ''ssh_enabled'' 0 = 1"
    by (simp_all add: old_profile_def remmina_file_get_string_def remmina_file_get_int_def one)
  obtain rf' where "upgrade_sshkeys_202001 old_profile = Ret rf'"
    "\<forall>k. remmina_file_get_string rf' k = sshkeys_spec (remmina_file_get_string old_profile) 1 False k"
    using upgrade_sshkeys_spec [OF _ get(2)] get(1,5) by auto
  then show ?thesis
    by (simp add: sshkeys_spec_def moved_suffixes_def moved_to_def old_setting_def ssh_key_def tunnel_key_def
        common_suffixes_def get)
qed

end
