(* ===== verification/FileProps.thy ===== *)
theory FileProps
  imports FileFacts
begin

text \<open>
  The properties of \<open>src/remmina_file.c\<close>, proved from the lemmas of \<open>FileFacts\<close>, and the
  sample environment on which they are evaluated.
\<close>

section \<open>Saving and loading\<close>

lemma save_returns:
  "savable env rf f sf \<Longrightarrow> file_plugin env rf = Some pp \<Longrightarrow> \<exists>w'. remmina_file_save env rf w = Ret w'"
  by (simp add: save_result)

lemma password_changes_unavailable [simp]: "password_changes False n k v = []"
  by (simp add: password_changes_def)

lemma entry_changes_unavailable: "entry_changes env rf pp False n kv = []"
  by (cases kv) (simp add: entry_changes_pair)

lemma save_changes_unavailable [simp]: "save_changes env rf pp False = []"
  by (simp add: save_changes_def entry_changes_unavailable)

lemma save_keeps_availability:
  assumes "savable env rf f sf" "file_plugin env rf = Some pp" "remmina_file_save env rf w = Ret w'"
    and "\<And>sops. fe_secret env = Some sops \<Longrightarrow> secret_service sops"
  shows "secret_service_available env (w_ks w') = secret_service_available env (w_ks w)"
proof (cases "secret_service_available env (w_ks w)")
  case False
  then show ?thesis using savable_file_kf(3) [OF assms(1-3)] by simp
next
  case True
  then obtain sops where s: "fe_secret env = Some sops" by (auto simp: secret_service_available_def split: option.splits)
  note ss = assms(4) [OF s]
  show ?thesis
    using savable_file_kf(3) [OF assms(1-3)] s
    by (simp add: change_secret_apply [OF s ss] secret_service_available_def secret_service.available_changes [OF ss])
qed

text \<open>
  C1: Saving a profile and loading its file again gives every setting back as it was, the passwords
  through the password store, under these conditions. The store is available, and it keeps what it is
  given: no call to store or delete a password fails. The profile does not disable the storing of
  passwords (with disablepasswordstoring they are dropped); no setting has one of the four names a
  save removes (resolution, ssh_enabled, save_ssh_server, save_ssh_username); no password is the
  marker '.' or has a NUL; names and texts are ones the key file format can hold. The profile has a
  name, and a protocol with a plugin, which is no password; it may be saved, its file and the file of
  its states are two files that can be written and not the one of the preferences, and the old file
  holds no settings but those of the profile and the removed ones.
\<close>

theorem save_load_keyring:
  assumes "keyfile (fe_kf env) ok" "fe_secret env = Some sops" "secret_service sops"
    and "sec_is_service_available sops (w_ks w)" "iter_ok env" "rf_inv rf" "savable env rf f sf"
    and "file_plugin env rf = Some pp" "storable ok env rf pp True w f"
  shows "\<exists>w' rf'. remmina_file_save env rf w = Ret w' \<and> remmina_file_load env w' f = Ret (Some rf') \<and>
    (\<forall>k. remmina_file_get_string rf' k = remmina_file_get_string rf k)"
proof -
  obtain w' where w': "remmina_file_save env rf w = Ret w'" using save_returns [OF assms(7,8)] by blast
  have av: "secret_service_available env (w_ks w)" using assms(2,4) by (simp add: secret_service_available_def)
  have av': "secret_service_available env (w_ks w')"
    using save_keeps_availability [OF assms(7,8) w'] assms(2,3) av by simp
  have st: "storable ok env rf pp (secret_service_available env (w_ks w)) w f" using assms(9) av by simp
  have "non_empty (loaded_value env (Some pp) (secret_service_available env (w_ks w'))
        (file_kf env (w_fs w') f) (w_ks w') rf' k) = non_empty (Some v)"
    if kv: "(k, v) \<in> set (rf_settings rf)" and rf': "rf_filename rf' = Some f" for k v rf'
  proof (cases "encrypted_setting (fe_pm env) pp k")
    case False
    then show ?thesis
      using storable_key_string [OF assms(1,5-8) w' st kv] by (simp add: loaded_value_def saved_value_def)
  next
    case True
    note s = storable_key_string [OF assms(1,5-8) w' st kv]
    have v: "v \<noteq> ''.''" using storableD(4) [OF st kv True] by simp
    show ?thesis
    proof (cases "v = []")
      case True
      with s \<open>encrypted_setting (fe_pm env) pp k\<close> show ?thesis
        by (simp add: loaded_value_def saved_value_def saved_password_def env_decrypt_def remmina_crypt_decrypt_def)
    next
      case False
      have "sec_get_password sops (w_ks w') rf' k = Some v"
        using saved_secret [OF assms(2,3) av assms(5-8) w' kv rf' True] False v storable_rest(1) [OF st]
        by (simp add: password_changes_def)
      with s True False av av' assms(2) show ?thesis
        by (simp add: loaded_value_def saved_value_def saved_password_def secret_get_def)
    qed
  qed
  from save_load_core [OF assms(1,5-8) w' st this] w' show ?thesis by blast
qed

text \<open>
  C2: Without a password store the passwords go through the cipher, and saving a profile and loading
  its file again gives every setting back as it was, under these conditions. libgcrypt decrypts what
  it encrypts, base64 decodes what it encodes, and the secret of the preferences is long enough for
  the cipher. The profile does not disable the storing of passwords (with disablepasswordstoring they
  are dropped); no setting has one of the four names a save removes (resolution, ssh_enabled,
  save_ssh_server, save_ssh_username); no password is the marker '.' or has a NUL; names and texts are
  ones the key file format can hold. The profile has a name, and a protocol with a plugin, which is no
  password; it may be saved, its file and the file of its states are two files that can be written and
  not the one of the preferences, and the old file holds no settings but those of the profile and the
  removed ones.
\<close>

theorem save_load_cipher:
  assumes "keyfile (fe_kf env) ok" "\<not> secret_service_available env (w_ks w)"
    and "gcrypt_laws (fe_crypt env)" "remmina_crypt_init (fe_crypt env) (fe_pref_secret env) \<noteq> None"
    and "iter_ok env" "rf_inv rf" "savable env rf f sf"
    and "file_plugin env rf = Some pp" "storable ok env rf pp False w f"
  shows "\<exists>w' rf'. remmina_file_save env rf w = Ret w' \<and> remmina_file_load env w' f = Ret (Some rf') \<and>
    (\<forall>k. remmina_file_get_string rf' k = remmina_file_get_string rf k)"
proof -
  obtain w' where w': "remmina_file_save env rf w = Ret w'" using save_returns [OF assms(7,8)] by blast
  have av': "\<not> secret_service_available env (w_ks w')"
    using savable_file_kf(3) [OF assms(7,8) w'] assms(2) by simp
  have st: "storable ok env rf pp (secret_service_available env (w_ks w)) w f" using assms(2,9) by simp
  have "non_empty (loaded_value env (Some pp) (secret_service_available env (w_ks w'))
        (file_kf env (w_fs w') f) (w_ks w') rf' k) = non_empty (Some v)"
    if kv: "(k, v) \<in> set (rf_settings rf)" and rf': "rf_filename rf' = Some f" for k v rf'
  proof (cases "encrypted_setting (fe_pm env) pp k")
    case False
    then show ?thesis
      using storable_key_string [OF assms(1,5-8) w' st kv] by (simp add: loaded_value_def saved_value_def)
  next
    case True
    note s = storable_key_string [OF assms(1,5-8) w' st kv]
    show ?thesis
    proof (cases "v = []")
      case True
      with s \<open>encrypted_setting (fe_pm env) pp k\<close> show ?thesis
        by (simp add: loaded_value_def saved_value_def saved_password_def env_decrypt_def remmina_crypt_decrypt_def)
    next
      case False
      have "NUL \<notin> set v" using storableD(4) [OF st kv True] by simp
      with crypt_decrypts [OF assms(3,4) False] s True False av' assms(2) show ?thesis
        by (auto simp: loaded_value_def saved_value_def saved_password_def env_decrypt_def env_encrypt_def
            split: option.splits)
    qed
  qed
  from save_load_core [OF assms(1,5-8) w' st this] w' show ?thesis by blast
qed

lemma saved_password_hidden: "saved_password env True n v old \<in> {Some [], Some ''.''}"
  by (simp add: saved_password_def)

text \<open>
  C3: With a password store available, the saved profile never holds a password: what is in
  the file for an encrypted setting is empty or the marker ".". When the profile disables
  storing passwords, a password typed by the user is removed from the store as well.
\<close>

theorem saved_file_holds_no_password:
  assumes "keyfile (fe_kf env) ok" "ok []" "ok ''.''" "fe_secret env = Some sops" "secret_service sops"
    and "sec_is_service_available sops (w_ks w)" "iter_ok env" "rf_inv rf" "savable env rf f sf"
    and "file_plugin env rf = Some pp" "remmina_file_save env rf w = Ret w'" "(k, v) \<in> set (rf_settings rf)"
    and "k \<notin> removed_keys" "kf_name k" "encrypted_setting (fe_pm env) pp k"
  shows "kf_get_string (fe_kf env) (file_kf env (w_fs w') f) KEYFILE_GROUP_REMMINA k \<in> {Some [], Some ''.''} \<and>
    (if remmina_file_get_int rf ''disablepasswordstoring'' 0 = 1 \<and> v \<noteq> [] \<and> v \<noteq> ''.''
     then sec_get_password sops (w_ks w') rf k = None else True)"
proof -
  have av: "secret_service_available env (w_ks w)" using assms(4,6) by (simp add: secret_service_available_def)
  have f: "rf_filename rf = Some f" using assms(9) by (simp add: savable_def)
  have t: "ok t" if "saved_value env pp True n k v None = Some t" for n t
    using that saved_password_hidden [of env n v None] assms(2,3,15) by (auto simp: saved_value_def)
  have "kf_get_string (fe_kf env) (file_kf env (w_fs w') f) KEYFILE_GROUP_REMMINA k \<in> {Some [], Some ''.''}"
    using saved_profile_string [OF assms(1,7-14)] t assms(15) saved_password_hidden av
    by (simp add: saved_value_def)
  moreover have "sec_get_password sops (w_ks w') rf k = None"
    if "remmina_file_get_int rf ''disablepasswordstoring'' 0 = 1 \<and> v \<noteq> [] \<and> v \<noteq> ''.''"
    using saved_secret [OF assms(4,5) av assms(7-12) f assms(15)] that
    by (simp add: password_changes_def)
  ultimately show ?thesis by simp
qed

text \<open>
  Once a protocol plugin is registered, saving a profile whose protocol has no registered
  plugin dereferences NULL, as soon as the profile has a setting.
\<close>

theorem save_unknown_protocol_crashes:
  assumes "savable env rf f sf" "iter_ok env" "rf_inv rf" "rf_settings rf \<noteq> []"
    and "pm_cache (fe_pm env) \<noteq> None" "file_plugin env rf = None"
  shows "remmina_file_save env rf w = Crash"
proof -
  obtain kv kvs where "fe_iter env (rf_settings rf) = kv # kvs"
    using iter_mem(2) [OF assms(2,3)] assms(4) by (cases "fe_iter env (rf_settings rf)") auto
  moreover obtain k v where "kv = (k, v)" by force
  moreover obtain c where "pm_cache (fe_pm env) = Some c" using assms(5) by auto
  ultimately have "save_entries env rf None a n (fe_iter env (rf_settings rf)) s = Crash" for a n s
    by (simp add: save_entry_def remmina_plugin_manager_is_encrypted_setting_def split: prod.splits)
  moreover have "(case ht_lookup (rf_settings rf) ''protocol'' of None \<Rightarrow> None
      | Some proto \<Rightarrow> remmina_plugin_manager_get_plugin (fe_pm env) PROTOCOL proto) = None"
    using assms(6) by (simp add: file_plugin_def)
  ultimately show ?thesis
    using assms(1)
    by (simp add: remmina_file_save_def savable_def remmina_file_get_keyfile_def remmina_file_get_keystate_def Let_def)
qed

text \<open>
  A save never writes the states of the profile: whatever states were set, each reads from
  the state file after the save as it did before.
\<close>

theorem save_loses_states:
  assumes "keyfile (fe_kf env) ok" "savable env rf f sf" "file_plugin env rf = Some pp"
    and "remmina_file_save env rf w = Ret w'" "fst (kf_load (fe_kf env) (kf_new (fe_kf env)) (w_fs w sf))"
  shows "remmina_file_get_state env (w_fs w') rf k = remmina_file_get_state env (w_fs w) rf k"
proof -
  have sf: "rf_statefile rf = Some sf" using assms(2) by (simp add: savable_def)
  have "w_fs w' sf = Some (kf_to_data (fe_kf env) (file_kf env (w_fs w) sf))"
    using save_result [OF assms(2,3), of w] assms(4) by auto
  with keyfile.load_data [OF assms(1)] keyfile.reload_reads(2) [OF assms(1)] sf assms(5)
  show ?thesis by (simp add: remmina_file_get_state_def file_kf_def split_beta)
qed

section \<open>A sample environment\<close>

definition sample_rdp :: plugin where
  "sample_rdp = \<lparr>
     plug_type = PROTOCOL, plug_name = ''RDP'', plug_version = Some ''1.4.40'',
     plug_icon_name = ''rdp'', plug_icon_name_ssh = ''rdp-ssh'',
     plug_basic = Some [
       \<lparr>set_type = SETTING_SERVER, set_name = Some ''server''\<rparr>,
       \<lparr>set_type = SETTING_PASSWORD, set_name = Some ''password''\<rparr>],
     plug_advanced = Some [\<lparr>set_type = SETTING_PASSWORD, set_name = Some ''gateway_password''\<rparr>],
     plug_features = [], plug_init_order = 0, plug_extensions = []\<rparr>"

definition sample_pm :: plugin_manager where
  "sample_pm = remmina_plugin_manager_register_plugin sample_rdp
     \<lparr>pm_table = [], pm_loaded = [], pm_available = [], pm_cache = None, pm_secret = None\<rparr>"

definition sample_env :: "'ks secret_ops option \<Rightarrow> (alist_kf, 'ks) file_env" where
  "sample_env secret = \<lparr>
     fe_kf = alist_ops, fe_secret = secret, fe_pm = sample_pm, fe_crypt = sample_gcrypt, fe_uninit = [],
     fe_pref_secret = replicate 33 (CHR ''k''), fe_pref_file = ''/pref'',
     fe_file_name = ''%G_%P_%N_%h'', fe_iter = rev, fe_basename = (\<lambda>p. p), fe_cache_dir = ''/c'',
     fe_data_dir = ''/d'', fe_data_dir_opens = True, fe_set_contents_ok = (\<lambda>_. True),
     fe_can_create = (\<lambda>_. True)\<rparr>"

abbreviation bare_env :: "(alist_kf, unit) file_env" where
  "bare_env \<equiv> sample_env None"

definition sample_file :: rfile where
  "sample_file = \<lparr>
     rf_filename = Some ''/f'', rf_statefile = Some ''/s'',
     rf_settings = [(''name'', ''work''), (''protocol'', ''RDP''), (''password'', ''pw''), (''gateway_password'', [])],
     rf_states = [], rf_spsettings = [], rf_prevent_saving = False\<rparr>"

lemma sample_env_simps [simp]:
  "fe_kf (sample_env sec) = alist_ops" "fe_secret (sample_env sec) = sec" "fe_pm (sample_env sec) = sample_pm"
  "fe_crypt (sample_env sec) = sample_gcrypt" "fe_pref_secret (sample_env sec) = replicate 33 (CHR ''k'')"
  "fe_pref_file (sample_env sec) = ''/pref''" "fe_iter (sample_env sec) = rev"
  "fe_set_contents_ok (sample_env sec) p" "fe_can_create (sample_env sec) p"
  "fe_file_name (sample_env sec) = ''%G_%P_%N_%h''" "fe_data_dir (sample_env sec) = ''/d''"
  "fe_data_dir_opens (sample_env sec)" "fe_cache_dir (sample_env sec) = ''/c''" "fe_basename (sample_env sec) p = p"
  by (simp_all add: sample_env_def)

lemma sample_encrypted [simp]:
  "encrypted_setting sample_pm sample_rdp k \<longleftrightarrow>
     k \<in> {''ssh_tunnel_password'', ''ssh_tunnel_passphrase'', ''ssh_password'', ''password'', ''gateway_password''}"
  by (auto simp: encrypted_setting_def sample_pm_def sample_rdp_def remmina_plugin_manager_register_plugin_def
      init_settings_cache_def remmina_plugin_manager_get_canonical_setting_name_def)

lemma sample_get_plugin [simp]: "remmina_plugin_manager_get_plugin sample_pm PROTOCOL ''RDP'' = Some sample_rdp"
  by (simp add: remmina_plugin_manager_get_plugin_def sample_pm_def remmina_plugin_manager_register_plugin_def
      sample_rdp_def)

lemma sample_file_facts:
  "iter_ok (sample_env sec)" "rf_inv sample_file" "savable (sample_env sec) sample_file ''/f'' ''/s''"
  "file_plugin (sample_env sec) sample_file = Some sample_rdp"
  by (simp_all add: iter_ok_def rf_inv_def savable_def sample_file_def file_plugin_def rev_map [symmetric])

lemma sample_crypt_init:
  "remmina_crypt_init sample_gcrypt (replicate 33 (CHR ''k'')) = Some (replicate 24 (CHR ''k''), replicate 8 (CHR ''k''))"
  by (simp add: remmina_crypt_init_def sample_gcrypt_def)

lemma sample_encrypts: "s \<noteq> [] \<Longrightarrow> \<exists>t. env_encrypt (sample_env sec) (Some s) = Some t"
  by (simp add: env_encrypt_def remmina_crypt_encrypt_def sample_crypt_init) (simp add: sample_gcrypt_def)

lemma sample_storable:
  "storable (\<lambda>_. True) (sample_env sec) sample_file sample_rdp a \<lparr>w_fs = Map.empty, w_ks = ks\<rparr> ''/f''"
  using sample_encrypts [of "''pw''" sec]
  by (auto simp: storable_def sample_file_def removed_keys_def kf_name_def kf_char_def saved_value_def
      saved_password_def file_kf_def remmina_file_get_int_def split: option.splits)

definition sample_keyring :: "alist_keyring glibsecret" where
  "sample_keyring = \<lparr>gs_service = True, gs_collection = True, gs_keyring = []\<rparr>"

lemma sample_keyring_available [simp]: "sec_is_service_available alist_secret sample_keyring"
  by (simp add: sample_keyring_def remmina_plugin_glibsecret_def remmina_plugin_glibsecret_is_service_available_def)

lemma sample_password: "remmina_file_get_string sample_file ''password'' = Some ''pw''"
  by (simp add: remmina_file_get_string_def sample_file_def)

theorem save_load_keyring_witness:
  "\<exists>w' rf'. remmina_file_save (sample_env (Some alist_secret)) sample_file \<lparr>w_fs = Map.empty, w_ks = sample_keyring\<rparr> = Ret w' \<and>
     remmina_file_load (sample_env (Some alist_secret)) w' ''/f'' = Ret (Some rf') \<and>
     remmina_file_get_string rf' ''password'' = Some ''pw''"
proof -
  let ?w = "\<lparr>w_fs = Map.empty, w_ks = sample_keyring\<rparr>"
  have "\<exists>w' rf'. remmina_file_save (sample_env (Some alist_secret)) sample_file ?w = Ret w' \<and>
      remmina_file_load (sample_env (Some alist_secret)) w' ''/f'' = Ret (Some rf') \<and>
      (\<forall>k. remmina_file_get_string rf' k = remmina_file_get_string sample_file k)"
    by (rule save_load_keyring [OF _ _ alist_keyring.is_secret_service _ sample_file_facts sample_storable])
      (simp_all add: alist.keyfile_axioms)
  then show ?thesis by (metis sample_password)
qed

theorem save_load_cipher_witness:
  "\<exists>w' rf'. remmina_file_save bare_env sample_file \<lparr>w_fs = Map.empty, w_ks = ()\<rparr> = Ret w' \<and>
     remmina_file_load bare_env w' ''/f'' = Ret (Some rf') \<and>
     remmina_file_get_string rf' ''password'' = Some ''pw''"
proof -
  let ?w = "\<lparr>w_fs = Map.empty, w_ks = ()\<rparr>"
  have "\<exists>w' rf'. remmina_file_save bare_env sample_file ?w = Ret w' \<and>
      remmina_file_load bare_env w' ''/f'' = Ret (Some rf') \<and>
      (\<forall>k. remmina_file_get_string rf' k = remmina_file_get_string sample_file k)"
    by (rule save_load_cipher [OF _ _ _ _ sample_file_facts sample_storable])
      (simp_all add: alist.keyfile_axioms sample_gcrypt_laws sample_crypt_init secret_service_available_def)
  then show ?thesis by (metis sample_password)
qed

theorem saved_file_holds_no_password_witness:
  "\<exists>w'. remmina_file_save (sample_env (Some alist_secret)) sample_file \<lparr>w_fs = Map.empty, w_ks = sample_keyring\<rparr> = Ret w' \<and>
     alist_get (file_kf (sample_env (Some alist_secret)) (w_fs w') ''/f'') KEYFILE_GROUP_REMMINA ''password''
       \<in> {Some [], Some ''.''}"
proof -
  let ?e = "sample_env (Some alist_secret)" and ?w = "\<lparr>w_fs = Map.empty, w_ks = sample_keyring\<rparr>"
  obtain w' where w': "remmina_file_save ?e sample_file ?w = Ret w'"
    using save_returns [OF sample_file_facts(3,4)] by blast
  from saved_file_holds_no_password [of ?e "\<lambda>_. True" alist_secret ?w, OF _ _ _ _ alist_keyring.is_secret_service
      _ sample_file_facts w', of "''password''" "''pw''"] w'
  show ?thesis
    by (simp add: alist.keyfile_axioms sample_file_def removed_keys_def kf_name_def kf_char_def)
qed

theorem save_unknown_protocol_crashes_witness:
  "remmina_file_save bare_env (remmina_file_set_string sample_file ''protocol'' (Some ''NX''))
     \<lparr>w_fs = Map.empty, w_ks = ()\<rparr> = Crash"
  by (rule save_unknown_protocol_crashes [of _ _ "''/f''" "''/s''"])
    (simp_all add: savable_def remmina_file_set_string_def sample_file_def rf_inv_def iter_ok_def rev_map [symmetric]
      sample_pm_def remmina_plugin_manager_register_plugin_def init_settings_cache_def file_plugin_def
      remmina_plugin_manager_get_plugin_def sample_rdp_def)

theorem save_loses_states_witness:
  "\<exists>w'. remmina_file_save bare_env (remmina_file_set_state sample_file ''last_success'' (Some ''20240101''))
       \<lparr>w_fs = [''/s'' \<mapsto> put_alist []], w_ks = ()\<rparr> = Ret w' \<and>
     remmina_file_get_state bare_env (w_fs w')
       (remmina_file_set_state sample_file ''last_success'' (Some ''20240101'')) ''last_success'' = None"
proof -
  let ?rf = "remmina_file_set_state sample_file ''last_success'' (Some ''20240101'')"
  let ?w = "\<lparr>w_fs = [''/s'' \<mapsto> put_alist []], w_ks = ()\<rparr>"
  have s: "savable bare_env ?rf ''/f'' ''/s''" "file_plugin bare_env ?rf = Some sample_rdp"
    by (simp_all add: savable_def remmina_file_set_state_def sample_file_def file_plugin_def)
  obtain w' where w': "remmina_file_save bare_env ?rf ?w = Ret w'" using save_returns [OF s] by blast
  from save_loses_states [OF _ s w', of "\<lambda>_. True" "''last_success''"] alist.keyfile_axioms
  have "remmina_file_get_state bare_env (w_fs w') ?rf ''last_success'' =
      remmina_file_get_state bare_env (w_fs ?w) ?rf ''last_success''" by simp
  also have "\<dots> = None"
    by (simp add: remmina_file_get_state_def remmina_file_set_state_def sample_file_def)
  finally show ?thesis using w' by blast
qed

end
