(* ===== verification/FileLife.thy ===== *)
theory FileLife
  imports FileProps
begin

text \<open>
  The rest of a profile's life in \<open>src/remmina_file.c\<close>: naming, duplicating, creating the
  state file, forgetting the passwords and deleting.
\<close>

section \<open>Names\<close>

lemma strdelimit_set: "new \<notin> set ds \<Longrightarrow> set (g_strdelimit s ds new) \<inter> set ds = {}"
  by (auto simp: g_strdelimit_def)

lemma tolower_not_upper: "\<not> (CHR ''A'' \<le> g_ascii_tolower c \<and> g_ascii_tolower c \<le> CHR ''Z'')"
  unfolding g_ascii_tolower_def less_eq_char_def
  by (cases "65 \<le> (of_char c :: nat) \<and> (of_char c :: nat) \<le> 90") auto

text \<open>
  The name generated for a profile, whatever the user put in its name, group, protocol
  and server, holds no slash, dot or other refused character and no upper case letter, so the
  file is one directly in the data directory and its only dot is the one of its extension.
\<close>

theorem generated_filename_safe:
  "set (generated_name env rf) \<inter> set invalid_chars = {} \<and>
   set (generated_name env rf) \<inter> {c. CHR ''A'' \<le> c \<and> c \<le> CHR ''Z''} = {} \<and>
   {CHR ''/'', CHR ''.'', CHR 0x5C, CHR '' ''} \<subseteq> set invalid_chars \<and>
   rf_filename (remmina_file_generate_filename env rf) =
     (if fe_data_dir_opens env then Some (fe_data_dir env @ ''/'' @ generated_name env rf @ ''.remmina'') else None)"
proof -
  have "CHR ''-'' \<notin> set invalid_chars" by (simp add: invalid_chars_def)
  then have "set (generated_name env rf) \<inter> set invalid_chars = {}"
    unfolding generated_name_def Let_def by (rule strdelimit_set)
  moreover have "set (generated_name env rf) \<inter> {c. CHR ''A'' \<le> c \<and> c \<le> CHR ''Z''} = {}"
    using tolower_not_upper
    by (auto simp: generated_name_def Let_def g_strdelimit_def g_ascii_strdown_def less_eq_char_def)
  ultimately show ?thesis by (simp add: invalid_chars_def remmina_file_generate_filename_def)
qed

section \<open>Creating the state file\<close>

lemma touch_returns:
  assumes "remmina_file_touch can_create f fs = Some fs'"
  shows "fs f \<noteq> None \<or> can_create f"
  using assms
  by (rule remmina_file_touch.raw_induct [where P = "\<lambda>can_create f fs _. fs f \<noteq> None \<or> can_create f", rotated])
    (simp split: if_splits, fastforce)

text \<open>
  Creating the state file returns exactly when the file exists already or can be created,
  and then it exists with its old content or empty and no other file changes; when it can
  not be created, the function calls itself for ever.
\<close>

theorem touch_result:
  "remmina_file_touch can_create f fs =
     (if fs f \<noteq> None then Some fs else if can_create f then Some (fs(f \<mapsto> [])) else None)"
proof (cases "fs f = None \<and> \<not> can_create f")
  case True
  then show ?thesis
    using touch_returns [of can_create f fs] by (cases "remmina_file_touch can_create f fs") auto
next
  case False
  then show ?thesis
    by (cases "fs f") (simp_all add: remmina_file_touch.simps)
qed

section \<open>Duplicating\<close>

lemma get_set_string_any:
  "remmina_file_get_string (remmina_file_set_string rf k (Some v)) k' =
     (if k' = k \<and> k \<noteq> ''resolution'' then non_empty (Some v) else remmina_file_get_string rf k')"
proof (cases "k = ''resolution''")
  case True
  then show ?thesis by (simp add: remmina_file_set_string_def)
next
  case False
  with get_set_string [OF False, of rf "Some v" k'] show ?thesis by simp
qed

lemma set_strings_get:
  assumes "distinct (map fst kvs)"
  shows "remmina_file_get_string (fold (\<lambda>(k, v) d. remmina_file_set_string d k (Some v)) kvs d) k =
    (case map_of kvs k of Some v \<Rightarrow> if k = ''resolution'' then None else non_empty (Some v)
     | None \<Rightarrow> remmina_file_get_string d k)"
  using assms
proof (induction kvs arbitrary: d)
  case Nil
  then show ?case by simp
next
  case (Cons kv kvs)
  obtain k0 v0 where kv: "kv = (k0, v0)" by force
  have res: "remmina_file_get_string r ''resolution'' = None" for r by (simp add: remmina_file_get_string_def)
  from Cons.prems kv have "map_of kvs k0 = None" by (simp add: map_of_eq_None_iff)
  with Cons kv res show ?case by (auto simp: get_set_string_any split: option.splits)
qed

lemma set_strings_fields [simp]:
  "rf_filename (fold (\<lambda>(k, v) d. remmina_file_set_string d k (Some v)) kvs d) = rf_filename d"
  by (induction kvs arbitrary: d) auto

text \<open>
  A duplicate has every setting and the file name of the original, and its state file
  exists afterwards; duplicating returns because that file exists or can be created.
\<close>

theorem dup_keeps_settings:
  assumes "iter_ok env" "rf_inv rf" "rf_filename rf = Some p"
    and "sf = fe_cache_dir env @ ''/'' @ fe_basename env p @ ''.state''"
    and "fs sf \<noteq> None \<or> fe_can_create env sf"
  shows "\<exists>rf' fs'. remmina_file_dup env rf fs = Some (rf', fs') \<and>
    rf_filename rf' = rf_filename rf \<and> fs' sf \<noteq> None \<and>
    (\<forall>k. remmina_file_get_string rf' k = remmina_file_get_string rf k)"
proof -
  let ?d = "fold (\<lambda>(k, v) d. remmina_file_set_string d k (Some v)) (fe_iter env (rf_settings rf))
    (remmina_file_new_empty\<lparr>rf_filename := rf_filename rf\<rparr>)"
  have m: "map_of (fe_iter env (rf_settings rf)) = map_of (rf_settings rf)"
    using iter_mem [OF assms(1,2)] assms(2) by (intro map_of_inject_set [THEN iffD2]) (simp_all add: rf_inv_def)
  have "remmina_file_get_string ?d k = remmina_file_get_string rf k" for k
    unfolding set_strings_get [OF iter_mem(1) [OF assms(1,2)]] m
    by (auto simp: remmina_file_get_string_def remmina_file_new_empty_def non_empty_def split: option.splits)
  moreover have "rf_statefile (remmina_file_set_statefile env ?d) = Some sf"
    by (simp add: remmina_file_set_statefile_def assms(3,4))
  moreover have "rf_filename (remmina_file_set_statefile env ?d) = rf_filename rf"
    by (simp add: remmina_file_set_statefile_def)
  ultimately show ?thesis
    using assms(5) by (auto simp: remmina_file_dup_def Let_def touch_result)
qed

theorem dup_keeps_settings_witness:
  "\<exists>rf' fs'. remmina_file_dup bare_env sample_file Map.empty = Some (rf', fs') \<and>
     fs' ''/c//f.state'' \<noteq> None \<and> remmina_file_get_string rf' ''password'' = Some ''pw''"
proof -
  have "\<exists>rf' fs'. remmina_file_dup bare_env sample_file Map.empty = Some (rf', fs') \<and>
      rf_filename rf' = rf_filename sample_file \<and> fs' ''/c//f.state'' \<noteq> None \<and>
      (\<forall>k. remmina_file_get_string rf' k = remmina_file_get_string sample_file k)"
    by (rule dup_keeps_settings [OF sample_file_facts(1,2), of "''/f''"])
      (simp_all add: sample_file_def)
  then show ?thesis by (metis sample_password)
qed

section \<open>Forgetting the passwords\<close>

text \<open>The settings that are cleared: the password, and the encrypted settings the plugin lists.\<close>

definition listed_settings :: "plugin \<Rightarrow> proto_setting list" where
  "listed_settings pp =
     (case plug_basic pp of None \<Rightarrow> [] | Some ss \<Rightarrow> ss) @ (case plug_advanced pp of None \<Rightarrow> [] | Some ss \<Rightarrow> ss)"

definition forgotten :: "('kf, 'ks) file_env \<Rightarrow> plugin \<Rightarrow> string set" where
  "forgotten env pp = insert ''password''
     {n. Some n \<in> set_name ` set (listed_settings pp) \<and> encrypted_setting (fe_pm env) pp n}"

lemma lookup_clear:
  "ht_lookup (rf_settings (remmina_file_set_string rf k None)) k' =
     (if k' = k then Some [] else ht_lookup (rf_settings rf) k')"
  by (simp add: remmina_file_set_string_def update_conv')

lemma unsave_settings_result:
  assumes "None \<notin> set_name ` set ss"
  shows "\<exists>rf'. unsave_settings env pp ss rf = Ret rf' \<and> rf_filename rf' = rf_filename rf \<and>
    rf_statefile rf' = rf_statefile rf \<and> rf_prevent_saving rf' = rf_prevent_saving rf \<and>
    (rf_inv rf \<longrightarrow> rf_inv rf') \<and>
    (\<forall>k. ht_lookup (rf_settings rf') k =
       (if Some k \<in> set_name ` set ss \<and> encrypted_setting (fe_pm env) pp k then Some []
        else ht_lookup (rf_settings rf) k))"
  using assms
proof (induction ss arbitrary: rf)
  case Nil
  then show ?case by simp
next
  case (Cons s ss)
  then obtain n where n: "set_name s = Some n" by (cases "set_name s") auto
  let ?rf = "if encrypted_setting (fe_pm env) pp n then remmina_file_set_string rf n None else rf"
  have c: "remmina_plugin_manager_get_canonical_setting_name s = n"
    by (simp add: remmina_plugin_manager_get_canonical_setting_name_def n)
  obtain rf' where "unsave_settings env pp ss ?rf = Ret rf'" "rf_filename rf' = rf_filename ?rf"
    "rf_statefile rf' = rf_statefile ?rf" "rf_prevent_saving rf' = rf_prevent_saving ?rf"
    "rf_inv ?rf \<longrightarrow> rf_inv rf'"
    "\<forall>k. ht_lookup (rf_settings rf') k =
       (if Some k \<in> set_name ` set ss \<and> encrypted_setting (fe_pm env) pp k then Some []
        else ht_lookup (rf_settings ?rf) k)"
    using Cons.IH [of ?rf] Cons.prems by auto
  then show ?case by (auto simp: n c lookup_clear rf_inv_set_string)
qed


definition settings_named :: "plugin \<Rightarrow> bool" where
  "settings_named pp \<longleftrightarrow> None \<notin> set_name ` set (listed_settings pp)"

lemma forgotten_iff:
  "k \<in> forgotten env pp \<longleftrightarrow> k = ''password'' \<or>
     Some k \<in> set_name ` set (case plug_basic pp of None \<Rightarrow> [] | Some ss \<Rightarrow> ss) \<and> encrypted_setting (fe_pm env) pp k \<or>
     Some k \<in> set_name ` set (case plug_advanced pp of None \<Rightarrow> [] | Some ss \<Rightarrow> ss) \<and> encrypted_setting (fe_pm env) pp k"
  by (auto simp: forgotten_def listed_settings_def)

text \<open>The profile that is saved at the end.\<close>

lemma unsave_passwords_result:
  assumes "file_plugin env rf = Some pp" "settings_named pp" "savable env rf f sf" "rf_inv rf"
    and "''protocol'' \<notin> forgotten env pp"
  shows "\<exists>rf' w'. remmina_file_unsave_passwords env (rf, w) = Ret (rf', w') \<and>
    remmina_file_save env rf' w = Ret w' \<and> savable env rf' f sf \<and> rf_inv rf' \<and> file_plugin env rf' = Some pp \<and>
    (\<forall>k. ht_lookup (rf_settings rf') k =
       (if k \<in> forgotten env pp then Some [] else ht_lookup (rf_settings rf) k))"
proof -
  define basic where "basic = (case plug_basic pp of None \<Rightarrow> [] | Some ss \<Rightarrow> ss)"
  define advanced where "advanced = (case plug_advanced pp of None \<Rightarrow> [] | Some ss \<Rightarrow> ss)"
  have un: "(case o1 of None \<Rightarrow> Ret r | Some ss \<Rightarrow> unsave_settings env pp ss r) =
      unsave_settings env pp (case o1 of None \<Rightarrow> [] | Some ss \<Rightarrow> ss) r" for o1 r
    by (cases o1) simp_all
  have named: "None \<notin> set_name ` set basic" "None \<notin> set_name ` set advanced"
    using assms(2) by (auto simp: settings_named_def listed_settings_def basic_def advanced_def)
  let ?r0 = "remmina_file_set_string rf ''password'' None"
  obtain r1 where r1: "unsave_settings env pp basic ?r0 = Ret r1" "rf_filename r1 = rf_filename ?r0"
    "rf_statefile r1 = rf_statefile ?r0" "rf_prevent_saving r1 = rf_prevent_saving ?r0" "rf_inv r1"
    "\<And>k. ht_lookup (rf_settings r1) k =
       (if Some k \<in> set_name ` set basic \<and> encrypted_setting (fe_pm env) pp k then Some []
        else ht_lookup (rf_settings ?r0) k)"
    using unsave_settings_result [OF named(1), of env pp ?r0] assms(4) by (auto simp: rf_inv_set_string)
  obtain r2 where r2: "unsave_settings env pp advanced r1 = Ret r2" "rf_filename r2 = rf_filename r1"
    "rf_statefile r2 = rf_statefile r1" "rf_prevent_saving r2 = rf_prevent_saving r1" "rf_inv r2"
    "\<And>k. ht_lookup (rf_settings r2) k =
       (if Some k \<in> set_name ` set advanced \<and> encrypted_setting (fe_pm env) pp k then Some []
        else ht_lookup (rf_settings r1) k)"
    using unsave_settings_result [OF named(2), of env pp r1] r1(5) by auto
  have lk: "ht_lookup (rf_settings r2) k =
      (if k \<in> forgotten env pp then Some [] else ht_lookup (rf_settings rf) k)" for k
    by (auto simp: r2(6) r1(6) lookup_clear forgotten_iff basic_def [symmetric] advanced_def [symmetric])
  obtain proto where proto: "ht_lookup (rf_settings rf) ''protocol'' = Some proto"
    "remmina_plugin_manager_get_plugin (fe_pm env) PROTOCOL proto = Some pp"
    using assms(1) by (auto simp: file_plugin_def split: option.splits)
  have s2: "savable env r2 f sf" using assms(3) r1(2-4) r2(2-4) by (simp add: savable_def)
  have p2: "file_plugin env r2 = Some pp"
    using lk [of "''protocol''"] assms(5) proto by (simp add: file_plugin_def)
  obtain w' where w': "remmina_file_save env r2 w = Ret w'" using save_returns [OF s2 p2] by blast
  have "remmina_file_unsave_passwords env (rf, w) = Ret (r2, w')"
    using r1(1) r2(1) w' proto
    by (simp add: remmina_file_unsave_passwords_def Let_def lookup_clear un basic_def [symmetric] advanced_def [symmetric])
  with s2 p2 w' r2(5) lk show ?thesis by blast
qed

text \<open>
  Forgetting the passwords of a profile clears its password and every setting that its
  plugin lists and that counts as encrypted, keeps every other setting, and saves the result.
\<close>

theorem unsave_passwords_forgets:
  assumes "file_plugin env rf = Some pp" "settings_named pp" "savable env rf f sf" "rf_inv rf"
    and "''protocol'' \<notin> forgotten env pp"
  shows "\<exists>rf' w'. remmina_file_unsave_passwords env (rf, w) = Ret (rf', w') \<and>
    remmina_file_save env rf' w = Ret w' \<and>
    (\<forall>k. remmina_file_get_string rf' k = (if k \<in> forgotten env pp then None else remmina_file_get_string rf k))"
proof -
  obtain rf' w' where r: "remmina_file_unsave_passwords env (rf, w) = Ret (rf', w')" "remmina_file_save env rf' w = Ret w'"
    "\<forall>k. ht_lookup (rf_settings rf') k = (if k \<in> forgotten env pp then Some [] else ht_lookup (rf_settings rf) k)"
    using unsave_passwords_result [OF assms] by blast
  then have "remmina_file_get_string rf' k = (if k \<in> forgotten env pp then None else remmina_file_get_string rf k)" for k
    by (simp add: remmina_file_get_string_def)
  with r show ?thesis by blast
qed

lemma sample_named [simp]: "settings_named sample_rdp"
  by (simp add: settings_named_def listed_settings_def sample_rdp_def)

lemma sample_forgotten [simp]: "forgotten (sample_env sec) sample_rdp = {''password'', ''gateway_password''}"
proof -
  have "set_name ` set (listed_settings sample_rdp) = {Some ''server'', Some ''password'', Some ''gateway_password''}"
    by (simp add: listed_settings_def sample_rdp_def)
  then show ?thesis by (auto simp: forgotten_def)
qed

theorem unsave_passwords_forgets_witness:
  "\<exists>rf' w'. remmina_file_unsave_passwords bare_env (sample_file, \<lparr>w_fs = Map.empty, w_ks = ()\<rparr>) = Ret (rf', w') \<and>
     remmina_file_get_string rf' ''password'' = None \<and> remmina_file_get_string rf' ''name'' = Some ''work''"
proof -
  have "\<exists>rf' w'. remmina_file_unsave_passwords bare_env (sample_file, \<lparr>w_fs = Map.empty, w_ks = ()\<rparr>) = Ret (rf', w') \<and>
      remmina_file_save bare_env rf' \<lparr>w_fs = Map.empty, w_ks = ()\<rparr> = Ret w' \<and>
      (\<forall>k. remmina_file_get_string rf' k =
         (if k \<in> forgotten bare_env sample_rdp then None else remmina_file_get_string sample_file k))"
    by (rule unsave_passwords_forgets [OF sample_file_facts(4) sample_named sample_file_facts(3,2)]) simp
  then obtain rf' w' where "remmina_file_unsave_passwords bare_env (sample_file, \<lparr>w_fs = Map.empty, w_ks = ()\<rparr>) = Ret (rf', w')"
    "\<forall>k. remmina_file_get_string rf' k =
       (if k \<in> forgotten bare_env sample_rdp then None else remmina_file_get_string sample_file k)" by blast
  moreover have "remmina_file_get_string sample_file ''name'' = Some ''work''"
    by (simp add: remmina_file_get_string_def sample_file_def)
  ultimately show ?thesis by auto
qed

section \<open>Deleting\<close>

lemma rf_inv_fields [simp]:
  "rf_inv (rf\<lparr>rf_spsettings := x\<rparr>) = rf_inv rf" "rf_inv (remmina_file_set_statefile env rf) = rf_inv rf"
  by (simp_all add: rf_inv_def remmina_file_set_statefile_def)

lemma load_key_fields [simp]:
  "rf_prevent_saving (load_key env pp a kf ks key rf) = rf_prevent_saving rf"
  "rf_inv rf \<Longrightarrow> rf_inv (load_key env pp a kf ks key rf)"
  by (auto simp: load_key_def Let_def rf_inv_set_string split: option.splits)

lemma load_keys_fields [simp]:
  "rf_prevent_saving (fold (load_key env pp a kf ks) keys rf) = rf_prevent_saving rf"
  "rf_inv rf \<Longrightarrow> rf_inv (fold (load_key env pp a kf ks) keys rf)"
  by (induction keys arbitrary: rf) simp_all

lemma mig_fields [simp]:
  "rf_filename (upgrade_sshkeys_202001_mig_common_setting b c x rf) = rf_filename rf"
  "rf_prevent_saving (upgrade_sshkeys_202001_mig_common_setting b c x rf) = rf_prevent_saving rf"
  "rf_inv rf \<Longrightarrow> rf_inv (upgrade_sshkeys_202001_mig_common_setting b c x rf)"
  by (simp_all add: upgrade_sshkeys_202001_mig_common_setting_def Let_def rf_inv_set_string split: option.splits)

lemma mig_fold_fields [simp]:
  "rf_filename (fold (upgrade_sshkeys_202001_mig_common_setting b c) xs rf) = rf_filename rf"
  "rf_prevent_saving (fold (upgrade_sshkeys_202001_mig_common_setting b c) xs rf) = rf_prevent_saving rf"
  "rf_inv rf \<Longrightarrow> rf_inv (fold (upgrade_sshkeys_202001_mig_common_setting b c) xs rf)"
  by (induction xs arbitrary: rf) simp_all

lemma upgrade_move_fields [simp]:
  "rf_filename (upgrade_move src dst e rf) = rf_filename rf"
  "rf_prevent_saving (upgrade_move src dst e rf) = rf_prevent_saving rf"
  "rf_inv rf \<Longrightarrow> rf_inv (upgrade_move src dst e rf)"
  by (simp_all add: upgrade_move_def Let_def rf_inv_set_string split: option.splits)

lemma set_int_prevent [simp]: "rf_prevent_saving (remmina_file_set_int rf k i) = rf_prevent_saving rf"
  by (simp add: remmina_file_set_int_def)

lemma upgrade_fields:
  assumes "upgrade_sshkeys_202001 rf = Ret rf'"
  shows "rf_filename rf' = rf_filename rf" "rf_prevent_saving rf' = rf_prevent_saving rf" "rf_inv rf \<Longrightarrow> rf_inv rf'"
  using assms
  by (auto simp: upgrade_sshkeys_202001_def Let_def rf_inv_set_int split: option.splits)

definition state_path :: "('kf, 'ks) file_env \<Rightarrow> string \<Rightarrow> string" where
  "state_path env f = fe_cache_dir env @ ''/'' @ fe_basename env f @ ''.state''"

lemma load_fields:
  assumes "remmina_file_load env w f = Ret (Some rf)"
  shows "rf_filename rf = Some f" "rf_statefile rf = Some (state_path env f)" "\<not> rf_prevent_saving rf" "rf_inv rf"
proof -
  obtain r kf keys pp a where u: "upgrade_sshkeys_202001
      (fold (load_key env pp a kf (w_ks w)) keys (remmina_file_new_empty\<lparr>rf_filename := Some f\<rparr>)) = Ret r"
    and rf: "rf = remmina_file_set_statefile env r"
    using assms by (auto simp: remmina_file_load_def Let_def c_bind_Ret_iff split: if_splits prod.splits)
  have n: "rf_inv (remmina_file_new_empty\<lparr>rf_filename := Some f\<rparr>)" "\<not> rf_prevent_saving (remmina_file_new_empty\<lparr>rf_filename := Some f\<rparr>)"
    by (simp_all add: rf_inv_def remmina_file_new_empty_def)
  show f: "rf_filename rf = Some f" "\<not> rf_prevent_saving rf"
    using upgrade_fields(1,2) [OF u] n by (simp_all add: rf remmina_file_set_statefile_def)
  show "rf_statefile rf = Some (state_path env f)"
    using upgrade_fields(1) [OF u] by (simp add: rf remmina_file_set_statefile_def state_path_def)
  show "rf_inv rf"
    using upgrade_fields(3) [OF u] n(1) by (simp add: rf)
qed

text \<open>
  C5: Deleting a profile that does not disable the storing of passwords removes its file, but not all
  of its passwords: of an encrypted setting with a value that is neither empty nor the marker '.', the
  password is deleted from the store if the setting is the password or one the plugin lists, and
  otherwise, as for the password of the SSH tunnel, it is stored once more and stays there after the
  profile is gone. The password store is available and no call to it fails; the profile's file could
  be loaded, it is not the one of the preferences, and it and the file of the states can be written;
  the protocol has a plugin, whose listed settings have names, and neither the protocol nor
  disablepasswordstoring is a password among them.
\<close>

theorem delete_profile_passwords:
  assumes "fe_secret env = Some sops" "secret_service sops" "sec_is_service_available sops (w_ks w)" "iter_ok env"
    and "remmina_file_load env w f = Ret (Some rf)" "file_plugin env rf = Some pp" "settings_named pp"
    and "f \<noteq> fe_pref_file env" "state_path env f \<noteq> f" "fe_set_contents_ok env f" "fe_set_contents_ok env (state_path env f)"
    and "{''protocol'', ''disablepasswordstoring''} \<inter> forgotten env pp = {}"
    and "(k, v) \<in> set (rf_settings rf)" "encrypted_setting (fe_pm env) pp k" "v \<noteq> []" "v \<noteq> ''.''"
    and "remmina_file_get_int rf ''disablepasswordstoring'' 0 = 0"
  shows "\<exists>w'. remmina_file_delete env f w = Ret w' \<and> w_fs w' f = None \<and>
    sec_get_password sops (w_ks w') rf k = (if k \<in> forgotten env pp then None else Some v)"
proof -
  note l = load_fields [OF assms(5)]
  have sv: "savable env rf f (state_path env f)" using l assms(8-11) by (simp add: savable_def)
  obtain rf' w' where u: "remmina_file_unsave_passwords env (rf, w) = Ret (rf', w')"
    "remmina_file_save env rf' w = Ret w'" "savable env rf' f (state_path env f)" "rf_inv rf'"
    "file_plugin env rf' = Some pp"
    "\<And>k. ht_lookup (rf_settings rf') k = (if k \<in> forgotten env pp then Some [] else ht_lookup (rf_settings rf) k)"
    using unsave_passwords_result [OF assms(6,7) sv l(4), of w] assms(12) by auto
  have v: "ht_lookup (rf_settings rf) k = Some v" using assms(13) l(4) by (simp add: rf_inv_def)
  then have kv: "(k, if k \<in> forgotten env pp then [] else v) \<in> set (rf_settings rf')"
    using u(6) [of k] by (auto dest: map_of_SomeD)
  have n: "remmina_file_get_int rf' ''disablepasswordstoring'' 0 = 0"
    using u(6) [of "''disablepasswordstoring''"] assms(12,17) by (simp add: remmina_file_get_int_def)
  have av: "secret_service_available env (w_ks w)" using assms(1,3) by (simp add: secret_service_available_def)
  have "sec_get_password sops (w_ks w') rf k = (if k \<in> forgotten env pp then None else Some v)"
    using saved_secret [OF assms(1,2) av assms(4) u(4,3,5,2) kv l(1) assms(14)] n assms(15,16)
    by (simp add: password_changes_def)
  then show ?thesis using u(1) assms(5) by (simp add: remmina_file_delete_def)
qed

text \<open>An RDP profile whose tunnel password is in the keyring.\<close>

definition tunnel_keyring :: "alist_keyring glibsecret" where
  "tunnel_keyring = \<lparr>gs_service = True, gs_collection = True,
     gs_keyring = [((''/f'', ''ssh_tunnel_password''), ''tp'')]\<rparr>"

definition tunnel_world :: "alist_keyring glibsecret world" where
  "tunnel_world = \<lparr>w_fs = [''/f'' \<mapsto> put_alist [
       ((KEYFILE_GROUP_REMMINA, ''name''), ''work''), ((KEYFILE_GROUP_REMMINA, ''protocol''), ''RDP''),
       ((KEYFILE_GROUP_REMMINA, ''ssh_tunnel_password''), ''.'')]], w_ks = tunnel_keyring\<rparr>"

definition tunnel_file :: rfile where
  "tunnel_file = \<lparr>
     rf_filename = Some ''/f'', rf_statefile = Some ''/c//f.state'',
     rf_settings = [(''name'', ''work''), (''protocol'', ''RDP''), (''ssh_tunnel_password'', ''tp'')],
     rf_states = [], rf_spsettings = [''ssh_tunnel_password''], rf_prevent_saving = False\<rparr>"

lemma tunnel_available [simp]: "sec_is_service_available alist_secret tunnel_keyring"
  by (simp add: tunnel_keyring_def remmina_plugin_glibsecret_def remmina_plugin_glibsecret_is_service_available_def)

lemma tunnel_password [simp]:
  "rf_filename rf = Some ''/f'' \<Longrightarrow> sec_get_password alist_secret tunnel_keyring rf ''ssh_tunnel_password'' = Some ''tp''"
  by (simp add: tunnel_keyring_def remmina_plugin_glibsecret_def remmina_plugin_glibsecret_get_password_def
      path_of_def remmina_file_get_filename_def alist_keyring_def)

lemma tunnel_load: "remmina_file_load (sample_env (Some alist_secret)) tunnel_world ''/f'' = Ret (Some tunnel_file)"
  by (simp add: remmina_file_load_def tunnel_world_def load_protocol_plugin_def alist_keys_def load_key_def
      secret_service_available_def remmina_file_new_empty_def remmina_file_set_string_def secret_get_def
      upgrade_sshkeys_202001_def remmina_file_get_string_def remmina_file_set_statefile_def tunnel_file_def
      KEYFILE_GROUP_REMMINA_def List.insert_def)

theorem delete_profile_passwords_witness:
  "\<exists>w'. remmina_file_delete (sample_env (Some alist_secret)) ''/f'' tunnel_world = Ret w' \<and> w_fs w' ''/f'' = None \<and>
     sec_get_password alist_secret (w_ks w') tunnel_file ''ssh_tunnel_password'' = Some ''tp''"
proof -
  let ?e = "sample_env (Some alist_secret)"
  have "\<exists>w'. remmina_file_delete ?e ''/f'' tunnel_world = Ret w' \<and> w_fs w' ''/f'' = None \<and>
      sec_get_password alist_secret (w_ks w') tunnel_file ''ssh_tunnel_password'' =
        (if ''ssh_tunnel_password'' \<in> forgotten ?e sample_rdp then None else Some ''tp'')"
    by (rule delete_profile_passwords [OF _ alist_keyring.is_secret_service _ sample_file_facts(1) tunnel_load _ sample_named])
      (simp_all add: tunnel_world_def file_plugin_def tunnel_file_def remmina_file_get_int_def state_path_def)
  then show ?thesis by simp
qed

end
