(* ===== verification/Unlock.thy ===== *)
theory Unlock
  imports PrefFacts
begin

text \<open>
  The lock in front of the commands that show or change connections: the password hashing
  of \<open>remmina_sodium.c\<close>, the dialog that asks for a new password (\<open>remmina_passwd.c\<close>) and
  the one that asks for the stored one (\<open>remmina_unlock.c\<close>). libsodium is a record of
  parameters. What the user does in a dialog is an input of the call, and so are the clock
  readings: one when the call starts, one when the button is clicked, one when the dialog
  is closed. Times are in microseconds, the resolution of the clock behind GTimer.
\<close>

section \<open>GTimer\<close>

record g_timer =
  tm_active :: bool
  tm_start :: int
  tm_end :: int

definition g_timer_new :: "int \<Rightarrow> g_timer" where
  "g_timer_new now = \<lparr>tm_active = True, tm_start = now, tm_end = 0\<rparr>"

definition g_timer_elapsed :: "g_timer \<Rightarrow> int \<Rightarrow> int" where
  "g_timer_elapsed t now = (if tm_active t then now else tm_end t) - tm_start t"

definition g_timer_stop :: "int \<Rightarrow> g_timer \<Rightarrow> g_timer" where
  "g_timer_stop now t = t\<lparr>tm_active := False, tm_end := now\<rparr>"

definition g_timer_start :: "int \<Rightarrow> g_timer \<Rightarrow> g_timer" where
  "g_timer_start now t = t\<lparr>tm_active := True, tm_start := now\<rparr>"

definition g_timer_reset :: "int \<Rightarrow> g_timer \<Rightarrow> g_timer" where
  "g_timer_reset now t = t\<lparr>tm_start := now\<rparr>"

section \<open>Password hashing\<close>

datatype pwhash_level = Pwhash_interactive | Pwhash_moderate | Pwhash_sensitive

text \<open>
  \<open>so_pwhash_str\<close> is \<open>crypto_pwhash_str\<close> with the limits of a level, \<open>None\<close> when it runs
  out of memory; \<open>so_pwhash\<close> is \<open>crypto_pwhash\<close> with a fresh salt, the 32 bytes it writes;
  \<open>so_verify\<close> tells whether \<open>crypto_pwhash_str_verify\<close> returns 0.
\<close>

record sodium_ops =
  so_pwhash :: "pwhash_level \<Rightarrow> string \<Rightarrow> cstr"
  so_pwhash_str :: "pwhash_level \<Rightarrow> string \<Rightarrow> cstr"
  so_verify :: "string \<Rightarrow> string \<Rightarrow> bool"

definition RM_ENC_MODE_SODIUM_MODERATE :: gint where "RM_ENC_MODE_SODIUM_MODERATE = 2"
definition RM_ENC_MODE_SODIUM_SENSITIVE :: gint where "RM_ENC_MODE_SODIUM_SENSITIVE = 3"

definition pwhash_limits :: "gint \<Rightarrow> pwhash_level" where
  "pwhash_limits enc_mode =
     (if enc_mode = RM_ENC_MODE_SODIUM_MODERATE then Pwhash_moderate
      else if enc_mode = RM_ENC_MODE_SODIUM_SENSITIVE then Pwhash_sensitive
      else Pwhash_interactive)"

text \<open>The raw key is copied up to its first NUL; without one the copy runs past the buffer.\<close>

definition remmina_sodium_pwhash :: "sodium_ops \<Rightarrow> gint \<Rightarrow> string \<Rightarrow> string c_result" where
  "remmina_sodium_pwhash so enc_mode pass =
     (case so_pwhash so (pwhash_limits enc_mode) pass of
        None \<Rightarrow> Crash
      | Some key \<Rightarrow> if NUL \<in> set key then Ret (c_string key) else Crash)"

definition remmina_sodium_pwhash_str :: "sodium_ops \<Rightarrow> gint \<Rightarrow> string \<Rightarrow> string c_result" where
  "remmina_sodium_pwhash_str so enc_mode pass =
     (case so_pwhash_str so (pwhash_limits enc_mode) pass of None \<Rightarrow> Crash | Some key \<Rightarrow> Ret key)"

definition remmina_sodium_pwhash_str_verify :: "sodium_ops \<Rightarrow> cstr \<Rightarrow> string \<Rightarrow> int c_result" where
  "remmina_sodium_pwhash_str_verify so key pass =
     (case key of None \<Rightarrow> Crash | Some k \<Rightarrow> Ret (if so_verify so k pass then 0 else -1))"

text \<open>What libsodium documents: a hash verifies the password it was made of.\<close>

definition sodium_ok :: "sodium_ops \<Rightarrow> bool" where
  "sodium_ok so \<longleftrightarrow> (\<forall>l p h. so_pwhash_str so l p = Some h \<longrightarrow> so_verify so h p)"

section \<open>The dialog for a new password\<close>

text \<open>The colour of the second entry and whether the button can be clicked.\<close>

definition remmina_passwd_repwd_on_changed :: "string \<Rightarrow> string \<Rightarrow> string \<times> bool" where
  "remmina_passwd_repwd_on_changed password verify =
     (let (color, sensitive) = (if password = verify then (''green'', True) else (''red'', False))
      in (if verify = [] then ''inherit'' else color, sensitive))"

datatype passwd_outcome = Passwd_submit string | Passwd_cancel

definition remmina_passwd :: "sodium_ops \<Rightarrow> gint \<Rightarrow> passwd_outcome \<Rightarrow> (bool \<times> cstr) c_result" where
  "remmina_passwd so enc_mode outcome =
     (case outcome of
        Passwd_submit verify \<Rightarrow>
          c_bind (remmina_sodium_pwhash_str so enc_mode verify) (\<lambda>h. Ret (True, Some h))
      | Passwd_cancel \<Rightarrow> Ret (False, None))"

section \<open>The lock\<close>

datatype unlock_outcome = Unlock_click string | Unlock_cancel

record unlock_input =
  ui_now :: int
  ui_passwd :: passwd_outcome
  ui_dialog :: unlock_outcome
  ui_click :: int
  ui_after :: int

record unlock_state =
  un_timer :: "g_timer option"
  un_unlocked :: bool

definition remmina_unlock_timer_init :: "int \<Rightarrow> unlock_state \<Rightarrow> unlock_state" where
  "remmina_unlock_timer_init now un = un\<lparr>un_timer := Some (g_timer_new now)\<rparr>"

definition remmina_unlock_timer_reset :: "int \<Rightarrow> unlock_state \<Rightarrow> unlock_state" where
  "remmina_unlock_timer_reset now un = un\<lparr>un_timer := map_option (g_timer_reset now) (un_timer un)\<rparr>"

definition remmina_unlock_timer_destroy :: "unlock_state \<Rightarrow> unlock_state" where
  "remmina_unlock_timer_destroy un = un\<lparr>un_timer := None\<rparr>"

text \<open>The handler of the button, with the retval it leaves in the dialog.\<close>

definition remmina_unlock_unlock_clicked ::
  "'kf keyfile_ops \<Rightarrow> sodium_ops \<Rightarrow> int \<Rightarrow> string \<Rightarrow> pref_state \<Rightarrow> unlock_state \<Rightarrow>
     (bool \<times> unlock_state) c_result" where
  "remmina_unlock_unlock_clicked ops so now entry_passwd st un =
     c_bind (remmina_sodium_pwhash_str_verify so (remmina_pref_get_value ops ''unlock_password'' st) entry_passwd)
       (\<lambda>rc. Ret (if rc = 0 then (True, un) else (False, remmina_unlock_timer_reset now un)))"

text \<open>Up to the test of \<open>unlocked\<close>: the timer is created or stopped, the lock may close.\<close>

definition unlock_expire :: "gint \<Rightarrow> int \<Rightarrow> unlock_state \<Rightarrow> unlock_state" where
  "unlock_expire unlock_timeout now un =
     (let un = (if un_timer un = None then (remmina_unlock_timer_init now un)\<lparr>un_unlocked := False\<rparr> else un);
          elapsed = (case un_timer un of None \<Rightarrow> 0 | Some t \<Rightarrow> g_timer_elapsed t now);
          un = un\<lparr>un_timer := map_option (g_timer_stop now) (un_timer un)\<rparr>
      in if elapsed \<noteq> 0 \<and> sint unlock_timeout * 1000000 - elapsed \<le> 0
         then remmina_unlock_timer_reset now (un\<lparr>un_unlocked := False\<rparr>) else un)"

text \<open>The password the dialog is for, after asking for a new one when there is none.\<close>

definition unlock_stored_password ::
  "'kf keyfile_ops \<Rightarrow> pref_env \<Rightarrow> sodium_ops \<Rightarrow> passwd_outcome \<Rightarrow> pref_state \<Rightarrow>
     (bool \<times> cstr \<times> pref_state) c_result" where
  "unlock_stored_password ops env so outcome st =
     (let unlock_password = remmina_pref_get_value ops ''unlock_password'' st
      in if unlock_password = None \<or> unlock_password = Some []
         then c_bind (remmina_passwd so (pref_enc_mode (st_pref st)) outcome) (\<lambda>(rc, h).
                Ret (if rc
                     then (True, h,
                           (case h of None \<Rightarrow> st
                            | Some p \<Rightarrow>
                                let st = remmina_pref_set_value ops env ''unlock_password'' p st
                                in st\<lparr>st_pref := (st_pref st)\<lparr>pref_unlock_password := Some p\<rparr>\<rparr>))
                     else (False, h, st)))
         else Ret (False, unlock_password, st))"

text \<open>The dialog itself: what it answers and how it leaves the lock.\<close>

definition unlock_run_dialog ::
  "'kf keyfile_ops \<Rightarrow> sodium_ops \<Rightarrow> unlock_input \<Rightarrow> pref_state \<Rightarrow> unlock_state \<Rightarrow>
     (bool \<times> unlock_state) c_result" where
  "unlock_run_dialog ops so inp st un =
     (case ui_dialog inp of
        Unlock_click entry \<Rightarrow>
          c_bind (remmina_unlock_unlock_clicked ops so (ui_click inp) entry st un) (\<lambda>(retval, un).
            Ret (retval, if retval then un\<lparr>un_unlocked := True\<rparr> else un))
      | Unlock_cancel \<Rightarrow> Ret (False, remmina_unlock_timer_destroy un))"

definition remmina_unlock_new ::
  "'kf keyfile_ops \<Rightarrow> pref_env \<Rightarrow> sodium_ops \<Rightarrow> unlock_input \<Rightarrow> unlock_state \<times> pref_state \<Rightarrow>
     (bool \<times> unlock_state \<times> pref_state) c_result" where
  "remmina_unlock_new ops env so inp = (\<lambda>(un, st).
     let un = unlock_expire (pref_unlock_timeout (st_pref st)) (ui_now inp) un
     in if un_unlocked un then Ret (True, un, st)
        else
          c_bind (unlock_stored_password ops env so (ui_passwd inp) st) (\<lambda>(retval, unlock_password, st).
          c_bind (if unlock_password \<noteq> Some []
                  then unlock_run_dialog ops so inp st un
                  else Ret (False, remmina_unlock_timer_destroy un)) (\<lambda>(rc, un).
            Ret (rc, un\<lparr>un_timer := map_option (g_timer_start (ui_after inp)) (un_timer un)\<rparr>, st))))"

section \<open>Facts\<close>

lemma unlock_expire_timer: "un_timer (unlock_expire m now un) \<noteq> None"
  by (simp add: unlock_expire_def remmina_unlock_timer_init_def remmina_unlock_timer_reset_def Let_def)

lemma unlock_expire_unlocked:
  "un_unlocked (unlock_expire m now un) \<longleftrightarrow>
     un_unlocked un \<and>
     (\<exists>t. un_timer un = Some t \<and> (g_timer_elapsed t now = 0 \<or> g_timer_elapsed t now < sint m * 1000000))"
  by (auto simp: unlock_expire_def remmina_unlock_timer_init_def remmina_unlock_timer_reset_def Let_def
      split: option.splits)

lemma unlock_expire_idle:
  "un_unlocked (unlock_expire m now un) \<Longrightarrow>
     \<exists>t. un_timer un = Some t \<and> unlock_expire m now un = un\<lparr>un_timer := Some (g_timer_stop now t)\<rparr>"
  by (auto simp: unlock_expire_def remmina_unlock_timer_init_def remmina_unlock_timer_reset_def Let_def
      split: option.splits if_splits)

lemma elapsed_stopped: "g_timer_elapsed (g_timer_stop t' t) now = t' - tm_start t"
  by (simp add: g_timer_elapsed_def g_timer_stop_def)

lemma verify_RetD:
  "remmina_sodium_pwhash_str_verify so key pass = Ret rc \<Longrightarrow>
     \<exists>h. key = Some h \<and> rc = (if so_verify so h pass then 0 else -1)"
  by (auto simp: remmina_sodium_pwhash_str_verify_def split: option.splits)

lemma run_dialog_True:
  assumes "unlock_run_dialog ops so inp st un = Ret (True, un')"
  shows "\<exists>pw h. ui_dialog inp = Unlock_click pw \<and>
      remmina_pref_get_value ops ''unlock_password'' st = Some h \<and> so_verify so h pw"
  using assms
  by (auto simp: unlock_run_dialog_def remmina_unlock_unlock_clicked_def c_bind_Ret_iff
      split: unlock_outcome.splits if_splits dest!: verify_RetD)

lemma run_dialog_unlocked:
  assumes "unlock_run_dialog ops so inp st un = Ret (rc, un')" and "\<not> un_unlocked un"
  shows "un_unlocked un' = rc"
  using assms
  by (auto simp: unlock_run_dialog_def remmina_unlock_unlock_clicked_def remmina_unlock_timer_reset_def
      remmina_unlock_timer_destroy_def c_bind_Ret_iff split: unlock_outcome.splits if_splits
      dest: arg_cong [of _ _ un_unlocked])

lemma locked_call:
  assumes "\<not> un_unlocked (unlock_expire (pref_unlock_timeout (st_pref st)) (ui_now inp) un)"
    and "remmina_unlock_new ops env so inp (un, st) = Ret (rc, un', st')"
  shows "un_unlocked un' = rc \<and> (rc \<longrightarrow> (\<exists>pw h. ui_dialog inp = Unlock_click pw \<and>
      remmina_pref_get_value ops ''unlock_password'' st' = Some h \<and> so_verify so h pw))"
proof (intro conjI impI)
  show "un_unlocked un' = rc"
    using assms
    by (auto simp: remmina_unlock_new_def Let_def c_bind_Ret_iff remmina_unlock_timer_destroy_def
        split: if_splits dest!: run_dialog_unlocked)
  assume rc
  with assms show "\<exists>pw h. ui_dialog inp = Unlock_click pw \<and>
      remmina_pref_get_value ops ''unlock_password'' st' = Some h \<and> so_verify so h pw"
    by (auto simp: remmina_unlock_new_def Let_def c_bind_Ret_iff split: if_splits dest!: run_dialog_True)
qed

section \<open>Properties\<close>

text \<open>The inputs of the witnesses.\<close>

definition sample_sodium :: sodium_ops where
  "sample_sodium = \<lparr>so_pwhash = (\<lambda>l p. Some (p @ [NUL])), so_pwhash_str = (\<lambda>l p. Some (''$'' @ p)),
     so_verify = (\<lambda>h p. h = ''$'' @ p)\<rparr>"

definition unlock_prefs :: "alist_kf \<Rightarrow> pref_state" where
  "unlock_prefs kf = (sample_state kf)\<lparr>st_pref := sample_pref\<lparr>pref_unlock_timeout := 300\<rparr>\<rparr>"

lemma unlock_prefs_simps [simp]:
  "st_pref (unlock_prefs kf) = sample_pref\<lparr>pref_unlock_timeout := 300\<rparr>"
  "st_file (unlock_prefs kf) = ''/p''" "st_fs (unlock_prefs kf) ''/p'' = Some (put_alist kf)"
  "remmina_pref_get_value alist_ops k (unlock_prefs kf) = alist_get kf ''remmina_pref'' k"
  by (simp_all add: unlock_prefs_def remmina_pref_get_value_def pref_kf_def)

definition no_lock :: unlock_state where "no_lock = \<lparr>un_timer = None, un_unlocked = False\<rparr>"

definition ask :: "int \<Rightarrow> string \<Rightarrow> unlock_input" where
  "ask now pw = \<lparr>ui_now = now, ui_passwd = Passwd_submit pw, ui_dialog = Unlock_click pw,
     ui_click = now + 1, ui_after = now + 2\<rparr>"

text \<open>
  C11: The lock is opened only by the password: when \<open>remmina_unlock_new\<close> answers TRUE, the
  lock was already open and the timeout had not passed by its timer, or the user clicked
  the button with a password that verifies against the hash the preferences hold when the
  call returns. The lock is open after the call exactly when the answer is TRUE.
\<close>

theorem unlock_needs_password:
  assumes "remmina_unlock_new ops env so inp (un, st) = Ret (rc, un', st')"
  shows "un_unlocked un' = rc \<and>
    (rc \<longrightarrow>
      (un_unlocked un \<and> (\<exists>t. un_timer un = Some t \<and>
         (g_timer_elapsed t (ui_now inp) = 0 \<or>
          g_timer_elapsed t (ui_now inp) < sint (pref_unlock_timeout (st_pref st)) * 1000000))) \<or>
      (\<exists>pw h. ui_dialog inp = Unlock_click pw \<and>
         remmina_pref_get_value ops ''unlock_password'' st' = Some h \<and> so_verify so h pw))"
proof (cases "un_unlocked (unlock_expire (pref_unlock_timeout (st_pref st)) (ui_now inp) un)")
  case True
  with assms show ?thesis by (auto simp: remmina_unlock_new_def Let_def unlock_expire_unlocked)
next
  case False
  from locked_call [OF this assms] show ?thesis by blast
qed

theorem unlock_needs_password_witness:
  "\<exists>un'. remmina_unlock_new alist_ops sample_pref_env sample_sodium (ask 5 ''pw'')
      (no_lock, unlock_prefs [((''remmina_pref'', ''unlock_password''), ''$pw'')]) =
        Ret (True, un', unlock_prefs [((''remmina_pref'', ''unlock_password''), ''$pw'')]) \<and>
    un_unlocked un'"
proof -
  have "\<exists>un'. remmina_unlock_new alist_ops sample_pref_env sample_sodium (ask 5 ''pw'')
      (no_lock, unlock_prefs [((''remmina_pref'', ''unlock_password''), ''$pw'')]) =
        Ret (True, un', unlock_prefs [((''remmina_pref'', ''unlock_password''), ''$pw'')])"
    by (simp add: remmina_unlock_new_def unlock_expire_def unlock_stored_password_def ask_def no_lock_def
        unlock_run_dialog_def remmina_unlock_unlock_clicked_def remmina_sodium_pwhash_str_verify_def
        sample_sodium_def remmina_unlock_timer_init_def Let_def split_def g_timer_elapsed_def
        g_timer_new_def)
  then show ?thesis using unlock_needs_password by blast
qed

text \<open>
  The timeout does not measure idle time. An unlocked call stops the timer and returns
  without starting it again, so the next call, however much later it comes, compares the
  time of the previous call with the timeout and lets the user in without a password.
\<close>

theorem unlock_survives_idle:
  assumes "un_unlocked un" and "un_timer un = Some t" and "tm_active t"
    and "ui_now inp < tm_start t + sint (pref_unlock_timeout (st_pref st)) * 1000000"
  shows "\<exists>un'. remmina_unlock_new ops env so inp (un, st) = Ret (True, un', st) \<and>
    (\<forall>later. \<exists>un''. remmina_unlock_new ops env so later (un', st) = Ret (True, un'', st))"
proof -
  let ?m = "pref_unlock_timeout (st_pref st)" and ?un' = "un\<lparr>un_timer := Some (g_timer_stop (ui_now inp) t)\<rparr>"
  have "un_unlocked (unlock_expire ?m (ui_now inp) un)"
    using assms by (simp add: unlock_expire_unlocked g_timer_elapsed_def)
  moreover from unlock_expire_idle [OF this] assms(2)
  have "unlock_expire ?m (ui_now inp) un = ?un'" by simp
  moreover have "un_unlocked (unlock_expire ?m now ?un')" for now
    using assms by (simp add: unlock_expire_unlocked elapsed_stopped)
  ultimately show ?thesis
    by (intro exI [of _ ?un']) (simp add: remmina_unlock_new_def Let_def)
qed

theorem unlock_survives_idle_witness:
  "\<exists>un'. remmina_unlock_new alist_ops sample_pref_env sample_sodium (ask 7 [])
      (\<lparr>un_timer = Some (g_timer_new 0), un_unlocked = True\<rparr>, unlock_prefs []) = Ret (True, un', unlock_prefs []) \<and>
    (\<exists>un''. remmina_unlock_new alist_ops sample_pref_env sample_sodium (ask (10 ^ 15) [])
      (un', unlock_prefs []) = Ret (True, un'', unlock_prefs []))"
  using unlock_survives_idle [where un = "\<lparr>un_timer = Some (g_timer_new 0), un_unlocked = True\<rparr>"
      and inp = "ask 7 []" and t = "g_timer_new 0" and st = "unlock_prefs []"]
  by (fastforce simp: ask_def g_timer_new_def)

text \<open>
  The first use sets the password: with an empty stored password, a password chosen in
  the new password dialog and typed again in the unlock dialog opens the lock, and its
  hash is what the preferences hold from then on.
\<close>

theorem unlock_first_password:
  assumes "keyfile ops ok" and "sodium_ok so" and "fst (kf_load ops (kf_new ops) (st_fs st (st_file st)))"
    and "env_set_contents_ok env (st_file st)" and "un_timer un = None"
    and "remmina_pref_get_value ops ''unlock_password'' st = Some []"
    and "so_pwhash_str so (pwhash_limits (pref_enc_mode (st_pref st))) pw = Some h" and "ok h" and "h \<noteq> []"
    and "ui_passwd inp = Passwd_submit pw" and "ui_dialog inp = Unlock_click pw"
  shows "\<exists>un' st'. remmina_unlock_new ops env so inp (un, st) = Ret (True, un', st') \<and>
    un_unlocked un' \<and> remmina_pref_get_value ops ''unlock_password'' st' = Some h \<and>
    pref_unlock_password (st_pref st') = Some h"
proof -
  let ?st = "remmina_pref_set_value ops env ''unlock_password'' h st"
  let ?st' = "?st\<lparr>st_pref := (st_pref ?st)\<lparr>pref_unlock_password := Some h\<rparr>\<rparr>"
  have read: "remmina_pref_get_value ops ''unlock_password'' ?st' = Some h"
    using keyfile.set_value_get [OF assms(1,3) _ assms(8,4), of "''unlock_password''" "''unlock_password''"]
    by (simp add: remmina_pref_get_value_def pref_kf_def)
  have stored: "unlock_stored_password ops env so (ui_passwd inp) st = Ret (True, Some h, ?st')"
    using assms by (simp add: unlock_stored_password_def remmina_passwd_def remmina_sodium_pwhash_str_def Let_def)
  have "so_verify so h pw" using assms(2,7) by (auto simp: sodium_ok_def)
  then have run: "unlock_run_dialog ops so inp ?st' un0 = Ret (True, un0\<lparr>un_unlocked := True\<rparr>)" for un0
    using assms(11) read
    by (simp add: unlock_run_dialog_def remmina_unlock_unlock_clicked_def remmina_sodium_pwhash_str_verify_def)
  have "\<not> un_unlocked (unlock_expire (pref_unlock_timeout (st_pref st)) (ui_now inp) un)"
    using assms(5) by (simp add: unlock_expire_unlocked)
  then show ?thesis
    using stored run assms(9) read by (simp add: remmina_unlock_new_def Let_def)
qed

theorem unlock_first_password_witness:
  "\<exists>un' st'. remmina_unlock_new alist_ops sample_pref_env sample_sodium (ask 5 ''pw'')
      (no_lock, unlock_prefs [((''remmina_pref'', ''unlock_password''), [])]) = Ret (True, un', st') \<and>
    un_unlocked un' \<and> remmina_pref_get_value alist_ops ''unlock_password'' st' = Some ''$pw''"
proof -
  have "sodium_ok sample_sodium" by (simp add: sodium_ok_def sample_sodium_def)
  note fp = unlock_first_password [OF alist.keyfile_axioms this, where env = sample_pref_env and un = no_lock
      and st = "unlock_prefs [((''remmina_pref'', ''unlock_password''), [])]" and inp = "ask 5 ''pw''"
      and pw = "''pw''" and h = "''$pw''"]
  show ?thesis using fp by (simp add: no_lock_def ask_def sample_sodium_def) blast
qed

end
