(* ===== verification/MasterThread.thy ===== *)
theory MasterThread
  imports FileData
begin

text \<open>
  Running a function on the main thread (\<open>remmina_masterthread_exec.c\<close>): a worker thread
  queues a callback, waits on a condition variable until the callback has set a flag, and
  reads the result. The two threads are a step relation over the shared data and a program
  counter for each; every step is one statement that the other thread can observe.
  Cancelling the worker while it waits is a step too: POSIX locks the mutex again before
  the cleanup handler runs.
\<close>

section \<open>The functions that can be called\<close>

datatype mt_func =
    FUNC_GTK_LABEL_SET_TEXT string
  | FUNC_INIT_SAVE_CRED
  | FUNC_CHAT_RECEIVE string
  | FUNC_FILE_GET_STRING string
  | FUNC_FILE_SET_STRING string cstr
  | FUNC_FTP_CLIENT_UPDATE_TASK nat
  | FUNC_FTP_CLIENT_GET_WAITING_TASK
  | FUNC_SFTP_CLIENT_CONFIRM_RESUME string
  | FUNC_PROTOCOLWIDGET_EMIT_SIGNAL string
  | FUNC_PROTOCOLWIDGET_MPPROGRESS string
  | FUNC_PROTOCOLWIDGET_MPDESTROY
  | FUNC_PROTOCOLWIDGET_MPSHOWRETRY
  | FUNC_PROTOCOLWIDGET_PANELSHOWLISTEN gint
  | FUNC_VTE_TERMINAL_SET_ENCODING_AND_PTY string

text \<open>
  What the main thread owns: the connection profile, and the widgets, whose functions are
  a parameter. A function that returns nothing leaves the result field as it was allocated.
\<close>

datatype mt_ret = No_ret | Ret_string cstr | Ret_task "nat option" | Ret_int gint | Ret_mp

definition mt_dispatch ::
  "(mt_func \<Rightarrow> 'w \<Rightarrow> 'w \<times> mt_ret) \<Rightarrow> mt_func \<Rightarrow> rfile \<times> 'w \<Rightarrow> (rfile \<times> 'w) \<times> mt_ret" where
  "mt_dispatch widgets func = (\<lambda>(rf, w).
     case func of
       FUNC_FILE_GET_STRING setting \<Rightarrow> ((rf, w), Ret_string (remmina_file_get_string rf setting))
     | FUNC_FILE_SET_STRING setting value \<Rightarrow> ((remmina_file_set_string rf setting value, w), No_ret)
     | _ \<Rightarrow> (let (w, r) = widgets func w in ((rf, w), r)))"

section \<open>The two threads\<close>

datatype mt_thread = Worker | Main_thread

text \<open>
  The worker, in \<open>remmina_masterthread_exec_and_wait\<close>: before the idle callback is added, at
  the lock, at the test of the loop, waiting, woken and about to lock again, cancelled and
  about to lock again, in the cleanup handler, and its two ends.
\<close>

datatype worker_pc =
    W_start | W_lock | W_test | W_wait | W_woken | W_cancelling | W_handler | W_done | W_cancelled

text \<open>The main thread, in the callback.\<close>

datatype main_pc = M_idle | M_queued | M_call | M_lock | M_set | M_unlock | M_done

record ('a, 'r) mt =
  mt_worker :: worker_pc
  mt_main :: main_pc
  mt_owner :: "mt_thread option"
  mt_cancelled :: bool
  mt_complete :: bool
  mt_freed :: nat
  mt_calls :: nat
  mt_app :: 'a
  mt_retval :: "'r option"

definition mt_new :: "'a \<Rightarrow> ('a, 'r) mt" where
  "mt_new app = \<lparr>mt_worker = W_start, mt_main = M_idle, mt_owner = None, mt_cancelled = False,
     mt_complete = False, mt_freed = 0, mt_calls = 0, mt_app = app, mt_retval = None\<rparr>"

text \<open>The steps of \<open>remmina_masterthread_exec_and_wait\<close>.\<close>

inductive worker_step :: "('a, 'r) mt \<Rightarrow> ('a, 'r) mt \<Rightarrow> bool" where
  add_idle: "mt_worker s = W_start \<Longrightarrow>
    worker_step s (s\<lparr>mt_cancelled := False, mt_complete := False, mt_main := M_queued, mt_worker := W_lock\<rparr>)"
| lock: "mt_worker s = W_lock \<Longrightarrow> mt_owner s = None \<Longrightarrow>
    worker_step s (s\<lparr>mt_owner := Some Worker, mt_worker := W_test\<rparr>)"
| wait: "mt_worker s = W_test \<Longrightarrow> \<not> mt_complete s \<Longrightarrow>
    worker_step s (s\<lparr>mt_owner := None, mt_worker := W_wait\<rparr>)"
| relock: "mt_worker s = W_woken \<Longrightarrow> mt_owner s = None \<Longrightarrow>
    worker_step s (s\<lparr>mt_owner := Some Worker, mt_worker := W_test\<rparr>)"
| leave: "mt_worker s = W_test \<Longrightarrow> mt_complete s \<Longrightarrow>
    worker_step s (s\<lparr>mt_worker := W_done\<rparr>)"

text \<open>A condition variable may wake its waiter for no reason.\<close>

inductive spurious_step :: "('a, 'r) mt \<Rightarrow> ('a, 'r) mt \<Rightarrow> bool" where
  "mt_worker s = W_wait \<Longrightarrow> spurious_step s (s\<lparr>mt_worker := W_woken\<rparr>)"

text \<open>Cancellation, and \<open>remmina_masterthread_exec_cleanup_handler\<close>.\<close>

inductive cancel_step :: "('a, 'r) mt \<Rightarrow> ('a, 'r) mt \<Rightarrow> bool" where
  cancel: "mt_worker s = W_wait \<Longrightarrow> cancel_step s (s\<lparr>mt_worker := W_cancelling\<rparr>)"
| cancel_lock: "mt_worker s = W_cancelling \<Longrightarrow> mt_owner s = None \<Longrightarrow>
    cancel_step s (s\<lparr>mt_owner := Some Worker, mt_worker := W_handler\<rparr>)"
| cleanup: "mt_worker s = W_handler \<Longrightarrow>
    cancel_step s (s\<lparr>mt_cancelled := True, mt_worker := W_cancelled\<rparr>)"

text \<open>The steps of \<open>remmina_masterthread_exec_callback\<close>; \<open>f\<close> is the dispatched function.\<close>

inductive main_step :: "('a \<Rightarrow> 'a \<times> 'r) \<Rightarrow> ('a, 'r) mt \<Rightarrow> ('a, 'r) mt \<Rightarrow> bool" for f where
  test: "mt_main s = M_queued \<Longrightarrow> \<not> mt_cancelled s \<Longrightarrow> main_step f s (s\<lparr>mt_main := M_call\<rparr>)"
| free: "mt_main s = M_queued \<Longrightarrow> mt_cancelled s \<Longrightarrow>
    main_step f s (s\<lparr>mt_freed := Suc (mt_freed s), mt_main := M_done\<rparr>)"
| call: "mt_main s = M_call \<Longrightarrow>
    main_step f s (s\<lparr>mt_app := fst (f (mt_app s)), mt_retval := Some (snd (f (mt_app s))),
      mt_calls := Suc (mt_calls s), mt_main := M_lock\<rparr>)"
| lock: "mt_main s = M_lock \<Longrightarrow> mt_owner s = None \<Longrightarrow>
    main_step f s (s\<lparr>mt_owner := Some Main_thread, mt_main := M_set\<rparr>)"
| signal: "mt_main s = M_set \<Longrightarrow>
    main_step f s (s\<lparr>mt_complete := True,
      mt_worker := (if mt_worker s = W_wait then W_woken else mt_worker s), mt_main := M_unlock\<rparr>)"
| unlock: "mt_main s = M_unlock \<Longrightarrow> main_step f s (s\<lparr>mt_owner := None, mt_main := M_done\<rparr>)"

definition run_step :: "('a \<Rightarrow> 'a \<times> 'r) \<Rightarrow> ('a, 'r) mt \<Rightarrow> ('a, 'r) mt \<Rightarrow> bool" where
  "run_step f s s' \<longleftrightarrow> worker_step s s' \<or> spurious_step s s' \<or> main_step f s s'"

definition mt_step :: "('a \<Rightarrow> 'a \<times> 'r) \<Rightarrow> ('a, 'r) mt \<Rightarrow> ('a, 'r) mt \<Rightarrow> bool" where
  "mt_step f s s' \<longleftrightarrow> run_step f s s' \<or> cancel_step s s'"

inductive_cases worker_stepE: "worker_step s s'"
inductive_cases spurious_stepE: "spurious_step s s'"
inductive_cases cancel_stepE: "cancel_step s s'"
inductive_cases main_stepE: "main_step f s s'"

lemmas mt_stepEs = worker_stepE spurious_stepE cancel_stepE main_stepE

section \<open>The invariant\<close>

text \<open>Who holds the mutex, by the program counters.\<close>

definition worker_holds :: "worker_pc \<Rightarrow> bool" where
  "worker_holds w \<longleftrightarrow> w \<in> {W_test, W_handler, W_done, W_cancelled}"

definition main_holds :: "main_pc \<Rightarrow> bool" where
  "main_holds m \<longleftrightarrow> m \<in> {M_set, M_unlock}"

definition mt_inv :: "('a \<Rightarrow> 'a \<times> 'r) \<Rightarrow> 'a \<Rightarrow> ('a, 'r) mt \<Rightarrow> bool" where
  "mt_inv f app s \<longleftrightarrow>
     (mt_owner s = Some Worker \<longleftrightarrow> worker_holds (mt_worker s)) \<and>
     (mt_owner s = Some Main_thread \<longleftrightarrow> main_holds (mt_main s)) \<and>
     (mt_main s = M_idle \<longleftrightarrow> mt_worker s = W_start) \<and>
     (mt_cancelled s \<longleftrightarrow> mt_worker s = W_cancelled) \<and>
     (mt_complete s \<longleftrightarrow> mt_main s = M_unlock \<or> mt_main s = M_done \<and> mt_freed s = 0) \<and>
     (mt_main s \<in> {M_idle, M_queued, M_call} \<or> mt_freed s = 1 \<longleftrightarrow> mt_calls s = 0) \<and>
     (mt_calls s = 0 \<and> mt_app s = app \<and> mt_retval s = None \<or>
      mt_calls s = 1 \<and> mt_app s = fst (f app) \<and> mt_retval s = Some (snd (f app))) \<and>
     (mt_freed s = 0 \<or> mt_freed s = 1 \<and> mt_main s = M_done \<and> mt_worker s = W_cancelled) \<and>
     (mt_worker s = W_done \<longrightarrow> mt_complete s) \<and>
     (mt_worker s = W_wait \<longrightarrow> \<not> mt_complete s)"

lemma mt_inv_new: "mt_inv f app (mt_new app)"
  by (simp add: mt_inv_def mt_new_def worker_holds_def main_holds_def)

lemma mt_inv_worker: "worker_step s s' \<Longrightarrow> mt_inv f app s \<Longrightarrow> mt_inv f app s'"
  by (elim worker_stepE) (auto simp: mt_inv_def worker_holds_def main_holds_def)

lemma mt_inv_spurious: "spurious_step s s' \<Longrightarrow> mt_inv f app s \<Longrightarrow> mt_inv f app s'"
  by (elim spurious_stepE) (auto simp: mt_inv_def worker_holds_def main_holds_def)

lemma mt_inv_cancel: "cancel_step s s' \<Longrightarrow> mt_inv f app s \<Longrightarrow> mt_inv f app s'"
  by (elim cancel_stepE) (auto simp: mt_inv_def worker_holds_def main_holds_def)

lemma mt_inv_main: "main_step f s s' \<Longrightarrow> mt_inv f app s \<Longrightarrow> mt_inv f app s'"
  by (elim main_stepE) (auto simp: mt_inv_def worker_holds_def main_holds_def)

lemma mt_inv_step: "mt_step f s s' \<Longrightarrow> mt_inv f app s \<Longrightarrow> mt_inv f app s'"
  unfolding mt_step_def run_step_def
  by (elim disjE) (rule mt_inv_worker mt_inv_spurious mt_inv_main mt_inv_cancel; assumption)+

lemma mt_inv_run: "run_step f s s' \<Longrightarrow> mt_inv f app s \<Longrightarrow> mt_inv f app s'"
  by (rule mt_inv_step) (simp_all add: mt_step_def)

lemma mt_inv_free_mutex:
  assumes "mt_inv f app s" and "\<not> worker_holds (mt_worker s)"
  shows "mt_owner s = None \<or> mt_main s = M_set \<or> mt_main s = M_unlock"
proof (cases "mt_owner s")
  case (Some t)
  with assms show ?thesis by (cases t) (simp_all add: mt_inv_def main_holds_def)
qed simp

lemma mt_inv_wait:
  assumes "mt_inv f app s" and "mt_worker s = W_wait"
  shows "mt_main s \<noteq> M_idle \<and> mt_main s \<noteq> M_done \<and> \<not> mt_cancelled s"
  using assms by (auto simp: mt_inv_def)

lemma mt_inv_reach: "(mt_step f)\<^sup>*\<^sup>* (mt_new app) s \<Longrightarrow> mt_inv f app s"
  by (induction rule: rtranclp_induct) (auto intro: mt_inv_new mt_inv_step)

section \<open>Progress\<close>

text \<open>
  A measure that every step but a spurious wake-up decreases, as long as the worker is not
  cancelled: the callback has so many statements left, and the worker goes round its loop
  at most twice for each wake-up.
\<close>

fun main_left :: "main_pc \<Rightarrow> nat" where
  "main_left M_idle = 6"
| "main_left M_queued = 5"
| "main_left M_call = 4"
| "main_left M_lock = 3"
| "main_left M_set = 2"
| "main_left M_unlock = 1"
| "main_left M_done = 0"

fun worker_left :: "worker_pc \<Rightarrow> nat" where
  "worker_left W_start = 5"
| "worker_left W_lock = 4"
| "worker_left W_test = 3"
| "worker_left W_wait = 2"
| "worker_left W_woken = 4"
| "worker_left _ = 0"

definition mt_left :: "('a, 'r) mt \<Rightarrow> nat" where
  "mt_left s = 3 * main_left (mt_main s) + worker_left (mt_worker s)"

lemma mt_left_main:
  assumes "main_step f s s'"
  shows "mt_left s' < mt_left s"
  using assms by (elim main_stepE) (auto simp: mt_left_def)

lemma mt_left_worker:
  assumes "worker_step s s'" and "mt_inv f app s"
  shows "mt_left s' < mt_left s"
  using assms by (elim worker_stepE) (auto simp: mt_left_def mt_inv_def)

lemma run_step_exists:
  assumes "mt_inv f app s" and "mt_worker s \<notin> {W_done, W_cancelling, W_handler, W_cancelled}"
  shows "\<exists>s'. worker_step s s' \<or> main_step f s s'"
proof (cases "mt_worker s")
  case W_start
  then show ?thesis by (blast intro: worker_step.intros)
next
  case W_lock
  with mt_inv_free_mutex [OF assms(1)] show ?thesis
    by (auto simp: worker_holds_def intro: worker_step.intros main_step.intros)
next
  case W_test
  then show ?thesis by (cases "mt_complete s") (blast intro: worker_step.intros)+
next
  case W_wait
  with mt_inv_free_mutex [OF assms(1)] have "mt_main s = M_lock \<longrightarrow> mt_owner s = None"
    by (auto simp: worker_holds_def)
  with mt_inv_wait [OF assms(1) W_wait] show ?thesis
    by (cases "mt_main s") (auto intro: main_step.intros)
next
  case W_woken
  with mt_inv_free_mutex [OF assms(1)] show ?thesis
    by (auto simp: worker_holds_def intro: worker_step.intros main_step.intros)
qed (use assms(2) in auto)

text \<open>Without a cancellation the worker never gets into the states of one.\<close>

definition uncancelled :: "('a, 'r) mt \<Rightarrow> bool" where
  "uncancelled s \<longleftrightarrow> mt_worker s \<notin> {W_cancelling, W_handler, W_cancelled}"

lemma uncancelled_run: "run_step f s s' \<Longrightarrow> uncancelled s \<Longrightarrow> uncancelled s'"
  unfolding run_step_def uncancelled_def by (elim disjE mt_stepEs) auto

lemma run_mt_reach: "(run_step f)\<^sup>*\<^sup>* s s' \<Longrightarrow> (mt_step f)\<^sup>*\<^sup>* s s'"
  by (rule rtranclp_mono [THEN predicate2D, of "run_step f"]) (auto simp: mt_step_def)

lemma uncancelled_new: "uncancelled (mt_new app)"
  by (simp add: uncancelled_def mt_new_def)

lemma run_reach:
  assumes "(run_step f)\<^sup>*\<^sup>* (mt_new app) s"
  shows "mt_inv f app s \<and> uncancelled s"
  using assms
proof (induction rule: rtranclp_induct)
  case base
  then show ?case by (simp add: mt_inv_new uncancelled_new)
next
  case (step s s')
  then show ?case using mt_inv_step uncancelled_run by (metis mt_step_def)
qed

lemma run_finishes:
  assumes "mt_inv f app s" and "uncancelled s"
  shows "\<exists>s'. (run_step f)\<^sup>*\<^sup>* s s' \<and> mt_worker s' = W_done"
  using assms
proof (induction s rule: measure_induct_rule [where f = mt_left])
  case (less s)
  show ?case
  proof (cases "mt_worker s = W_done")
    case False
    with less.prems obtain s1 where s1: "worker_step s s1 \<or> main_step f s s1"
      using run_step_exists [of f app s] by (auto simp: uncancelled_def)
    then have "run_step f s s1" by (auto simp: run_step_def)
    moreover have "mt_left s1 < mt_left s"
      using s1 by (elim disjE) (rule mt_left_worker [OF _ less.prems(1)] mt_left_main; assumption)+
    moreover have "mt_inv f app s1" "uncancelled s1"
      using \<open>run_step f s s1\<close> less.prems by (auto intro: mt_inv_run uncancelled_run)
    ultimately obtain s' where "(run_step f)\<^sup>*\<^sup>* s1 s'" "mt_worker s' = W_done"
      using less.IH by blast
    with \<open>run_step f s s1\<close> show ?thesis by (meson converse_rtranclp_into_rtranclp)
  qed blast
qed

section \<open>Properties\<close>

text \<open>
  C9: However the two threads interleave, with spurious wake-ups and cancellation at any
  wait, when \<open>remmina_masterthread_exec_and_wait\<close> returns, the function was run exactly
  once, the profile and the result are those of the direct call on the main thread, the
  callback has let go of the data block and has not freed it.
\<close>

theorem exec_and_wait_is_direct_call:
  assumes "(mt_step (mt_dispatch widgets func))\<^sup>*\<^sup>* (mt_new app) s" and "mt_worker s = W_done"
  shows "mt_calls s = 1 \<and> mt_app s = fst (mt_dispatch widgets func app) \<and>
    mt_retval s = Some (snd (mt_dispatch widgets func app)) \<and> mt_main s = M_done \<and> mt_freed s = 0"
  using mt_inv_reach [OF assms(1)] assms(2)
  by (auto simp: mt_inv_def worker_holds_def main_holds_def)

theorem exec_and_wait_is_direct_call_witness:
  "\<exists>s. (mt_step (mt_dispatch (\<lambda>func w. (w, No_ret)) (FUNC_FILE_SET_STRING ''name'' (Some ''a''))))\<^sup>*\<^sup>*
      (mt_new (remmina_file_new_empty, 0 :: nat)) s \<and> mt_worker s = W_done \<and>
    remmina_file_get_string (fst (mt_app s)) ''name'' = Some ''a''"
proof -
  let ?f = "mt_dispatch (\<lambda>func w. (w, No_ret)) (FUNC_FILE_SET_STRING ''name'' (Some ''a''))"
    and ?new = "mt_new (remmina_file_new_empty, 0 :: nat)"
  obtain s where s: "(run_step ?f)\<^sup>*\<^sup>* ?new s" "mt_worker s = W_done"
    using run_finishes [OF mt_inv_new uncancelled_new, of ?f "(remmina_file_new_empty, 0)"] by blast
  note r = run_mt_reach [OF s(1)]
  have "mt_app s = fst (?f (remmina_file_new_empty, 0 :: nat))"
    using exec_and_wait_is_direct_call [OF r s(2)] by (elim conjE)
  then have "remmina_file_get_string (fst (mt_app s)) ''name'' = Some ''a''"
    by (simp add: mt_dispatch_def get_set_string non_empty_def)
  with r s(2) show ?thesis by (intro exI [of _ s] conjI)
qed

text \<open>
  C10: A worker that is not cancelled is never stuck: from every state the two threads can
  reach, some further steps bring \<open>remmina_masterthread_exec_and_wait\<close> to its end, and
  every step but a spurious wake-up brings it nearer to it by a measure, so that no other
  run is infinite.
\<close>

theorem exec_and_wait_returns:
  assumes "(run_step f)\<^sup>*\<^sup>* (mt_new app) s"
  shows "(\<exists>s'. (run_step f)\<^sup>*\<^sup>* s s' \<and> mt_worker s' = W_done) \<and>
    (\<forall>s'. worker_step s s' \<or> main_step f s s' \<longrightarrow> mt_left s' < mt_left s)"
proof (intro conjI allI impI)
  from run_reach [OF assms] have inv: "mt_inv f app s" and un: "uncancelled s" by simp_all
  show "\<exists>s'. (run_step f)\<^sup>*\<^sup>* s s' \<and> mt_worker s' = W_done" by (rule run_finishes [OF inv un])
  fix s'
  assume "worker_step s s' \<or> main_step f s s'"
  then show "mt_left s' < mt_left s"
    by (elim disjE) (rule mt_left_worker [OF _ inv] mt_left_main; assumption)+
qed

theorem exec_and_wait_returns_witness:
  "\<exists>s'. (run_step (\<lambda>n. (n + 1, n)))\<^sup>*\<^sup>* (mt_new (5 :: nat)) s' \<and> mt_worker s' = W_done"
  using exec_and_wait_returns [OF rtranclp.rtrancl_refl [of "run_step (\<lambda>n. (n + 1, n))" "mt_new (5 :: nat)"]]
  by (rule conjunct1)

text \<open>The worker was cancelled while the callback ran, and holds the mutex the callback needs.\<close>

definition mt_stuck :: "('a, 'r) mt \<Rightarrow> bool" where
  "mt_stuck s \<longleftrightarrow> mt_worker s = W_cancelled \<and> mt_main s = M_lock \<and> mt_owner s = Some Worker \<and> mt_freed s = 0"

lemma mt_stuck_step: "mt_step f s s' \<Longrightarrow> \<not> mt_stuck s"
  unfolding mt_step_def run_step_def mt_stuck_def by (elim disjE mt_stepEs) auto

lemma mt_stuck_final: "mt_stuck s \<Longrightarrow> (mt_step f)\<^sup>*\<^sup>* s s' \<Longrightarrow> s' = s"
  by (erule converse_rtranclpE) (auto dest: mt_stuck_step)

lemma mt_cancel_path:
  "(mt_step f)\<^sup>*\<^sup>* (mt_new app)
     ((mt_new app)\<lparr>mt_worker := W_cancelled, mt_main := M_lock, mt_owner := Some Worker, mt_cancelled := True,
       mt_calls := 1, mt_app := fst (f app), mt_retval := Some (snd (f app))\<rparr>)"
proof -
  let ?s = "\<lambda>w m own. (mt_new app)\<lparr>mt_worker := w, mt_main := m, mt_owner := own\<rparr>"
    and ?r = "\<lambda>s. s\<lparr>mt_calls := 1, mt_app := fst (f app), mt_retval := Some (snd (f app))\<rparr>"
  have "mt_step f (mt_new app) (?s W_lock M_queued None)"
    and "mt_step f (?s W_lock M_queued None) (?s W_test M_queued (Some Worker))"
    and "mt_step f (?s W_test M_queued (Some Worker)) (?s W_wait M_queued None)"
    and "mt_step f (?s W_wait M_queued None) (?s W_wait M_call None)"
    and "mt_step f (?s W_wait M_call None) (?s W_cancelling M_call None)"
    and "mt_step f (?s W_cancelling M_call None) (?s W_handler M_call (Some Worker))"
    and "mt_step f (?s W_handler M_call (Some Worker)) ((?s W_cancelled M_call (Some Worker))\<lparr>mt_cancelled := True\<rparr>)"
    and "mt_step f ((?s W_cancelled M_call (Some Worker))\<lparr>mt_cancelled := True\<rparr>)
      (?r ((?s W_cancelled M_lock (Some Worker))\<lparr>mt_cancelled := True\<rparr>))"
    by (simp_all add: mt_step_def run_step_def worker_step.simps main_step.simps cancel_step.simps mt_new_def)
  from rtranclp.rtrancl_into_rtrancl [OF rtranclp.rtrancl_into_rtrancl [OF rtranclp.rtrancl_into_rtrancl
      [OF rtranclp.rtrancl_into_rtrancl [OF rtranclp.rtrancl_into_rtrancl [OF rtranclp.rtrancl_into_rtrancl
      [OF rtranclp.rtrancl_into_rtrancl [OF r_into_rtranclp [of "mt_step f", OF this(1)]
      this(2)] this(3)] this(4)] this(5)] this(6)] this(7)] this(8)]
  show ?thesis by (simp add: mt_new_def)
qed

text \<open>
  Cancelling the worker while the function runs on the main thread blocks the main
  thread for ever: such a run exists, and in the state it reaches no step is possible.
  The cleanup handler leaves the mutex locked that the wait took again, so the callback
  never gets it, and the data block is not freed.
\<close>

theorem cancelled_call_blocks_main_thread:
  "\<exists>s. (mt_step f)\<^sup>*\<^sup>* (mt_new app) s \<and> mt_main s = M_lock \<and> mt_calls s = 1 \<and> mt_freed s = 0 \<and>
     (\<forall>s'. \<not> mt_step f s s')"
proof (intro exI conjI)
  show "(mt_step f)\<^sup>*\<^sup>* (mt_new app) ((mt_new app)\<lparr>mt_worker := W_cancelled, mt_main := M_lock,
      mt_owner := Some Worker, mt_cancelled := True, mt_calls := 1, mt_app := fst (f app),
      mt_retval := Some (snd (f app))\<rparr>)"
    by (rule mt_cancel_path)
qed (auto dest!: mt_stuck_step simp: mt_stuck_def mt_new_def)

end
