(* ===== verification/FileManager.thy ===== *)
theory FileManager
  imports FileFacts StringArray
begin

text \<open>
  The directory of connection profiles (\<open>remmina_file_manager.c\<close>): where it is, how it is
  filled at the first start, iterating over its profiles, the list and the tree of their
  groups. The directories of the system are a record of parameters; the profiles are read
  with \<open>remmina_file_load\<close> of the profile component.
\<close>

section \<open>The directory\<close>

text \<open>\<open>de_names\<close> lists a directory, \<open>None\<close> when it cannot be opened.\<close>

record dir_env =
  de_is_dir :: "string \<Rightarrow> bool"
  de_names :: "string \<Rightarrow> string list option"
  de_mkdir_ok :: "string \<Rightarrow> bool"
  de_build_path :: "string list \<Rightarrow> string"
  de_home_dir :: string
  de_user_data_dir :: string
  de_user_cache_dir :: string
  de_system_data_dirs :: "string list"

fun datadir_system :: "dir_env \<Rightarrow> string list \<Rightarrow> string option" where
  "datadir_system de [] = None"
| "datadir_system de (d # dirs) =
     (let remminadir = de_build_path de [d, ''remmina'']
      in if de_is_dir de remminadir then Some remminadir else datadir_system de dirs)"

definition remmina_file_get_datadir :: "dir_env \<Rightarrow> cstr \<Rightarrow> string" where
  "remmina_file_get_datadir de datadir_path =
     (if \<not> is_empty datadir_path \<and> de_is_dir de (the datadir_path) then the datadir_path
      else let legacy = de_build_path de [de_home_dir de, ''.remmina'']
      in if de_is_dir de legacy then legacy
      else let user = de_build_path de [de_user_data_dir de, ''remmina'']
      in if de_is_dir de user then user
      else case datadir_system de (de_system_data_dirs de) of
             Some dir \<Rightarrow> dir
           | None \<Rightarrow> user)"

definition remmina_file_manager_do_copy :: "files \<Rightarrow> string \<Rightarrow> string \<Rightarrow> bool \<times> files" where
  "remmina_file_manager_do_copy fs src_path dst_path =
     (case fs src_path of
        None \<Rightarrow> (False, fs)
      | Some data \<Rightarrow> if fs dst_path \<noteq> None then (False, fs) else (True, fs(dst_path \<mapsto> data)))"

fun manager_copy_names :: "dir_env \<Rightarrow> string \<Rightarrow> string list \<Rightarrow> files \<Rightarrow> files" where
  "manager_copy_names de remminadir [] fs = fs"
| "manager_copy_names de remminadir (filename # ns) fs =
     manager_copy_names de remminadir ns
       (snd (remmina_file_manager_do_copy fs (de_build_path de [remminadir, filename])
               (de_build_path de [de_user_data_dir de, ''remmina'', filename])))"

definition manager_copy_dir :: "dir_env \<Rightarrow> string \<Rightarrow> files \<Rightarrow> files" where
  "manager_copy_dir de remminadir fs =
     (if de_is_dir de remminadir
      then case de_names de remminadir of None \<Rightarrow> fs | Some ns \<Rightarrow> manager_copy_names de remminadir ns fs
      else fs)"

fun manager_copy_system :: "dir_env \<Rightarrow> string list \<Rightarrow> files \<Rightarrow> files" where
  "manager_copy_system de [] fs = fs"
| "manager_copy_system de (d # dirs) fs =
     manager_copy_system de dirs (manager_copy_dir de (de_build_path de [d, ''remmina'']) fs)"

text \<open>The directories it creates, and the files afterwards. \<open>g_mkdir_with_parents\<close> fails on NULL.\<close>

definition remmina_file_manager_init :: "dir_env \<Rightarrow> cstr \<Rightarrow> files \<Rightarrow> string list \<times> files" where
  "remmina_file_manager_init de datadir_path fs =
     (let user = de_build_path de [de_user_data_dir de, ''remmina''];
          data = (case datadir_path of
                    Some d \<Rightarrow> if de_mkdir_ok de d then [d] else if de_mkdir_ok de user then [user] else []
                  | None \<Rightarrow> if de_mkdir_ok de user then [user] else []);
          cachedir = de_build_path de [de_user_cache_dir de, ''remmina''];
          dirs = data @ (if de_mkdir_ok de cachedir then [cachedir] else []);
          fs = manager_copy_dir de (de_build_path de [de_home_dir de, ''.remmina'']) fs
      in (dirs, manager_copy_system de (de_system_data_dirs de) fs))"

section \<open>Iterating\<close>

definition MAX_PATH_LEN :: nat where "MAX_PATH_LEN = 255"

text \<open>\<open>g_snprintf\<close> into a buffer of \<open>MAX_PATH_LEN\<close> bytes cuts the path.\<close>

definition manager_path :: "string \<Rightarrow> string \<Rightarrow> string" where
  "manager_path datadir name = take (MAX_PATH_LEN - 1) (datadir @ ''/'' @ name)"

definition g_str_has_suffix :: "string \<Rightarrow> string \<Rightarrow> bool" where
  "g_str_has_suffix s sfx \<longleftrightarrow> length sfx \<le> length s \<and> drop (length s - length sfx) s = sfx"

fun manager_iterate :: "(string \<Rightarrow> rfile option c_result) \<Rightarrow> string \<Rightarrow> (rfile \<Rightarrow> 's \<Rightarrow> 's) \<Rightarrow>
    string list \<Rightarrow> 's \<times> gint \<Rightarrow> ('s \<times> gint) c_result" where
  "manager_iterate load datadir func [] acc = Ret acc"
| "manager_iterate load datadir func (name # names) (user_data, items_count) =
     (if \<not> g_str_has_suffix name ''.remmina''
      then manager_iterate load datadir func names (user_data, items_count)
      else c_bind (load (manager_path datadir name)) (\<lambda>r.
             manager_iterate load datadir func names
               (case r of
                  None \<Rightarrow> (user_data, items_count)
                | Some rf \<Rightarrow> (func rf user_data, items_count + 1))))"

definition remmina_file_manager_iterate ::
  "dir_env \<Rightarrow> cstr \<Rightarrow> (string \<Rightarrow> rfile option c_result) \<Rightarrow> (rfile \<Rightarrow> 's \<Rightarrow> 's) \<Rightarrow> 's \<Rightarrow> ('s \<times> gint) c_result" where
  "remmina_file_manager_iterate de datadir_path load func user_data =
     (let dir = remmina_file_get_datadir de datadir_path
      in case de_names de dir of
           None \<Rightarrow> Ret (user_data, 0)
         | Some names \<Rightarrow> manager_iterate load dir func names (user_data, 0))"

section \<open>Groups\<close>

definition manager_add_file_group :: "rfile \<Rightarrow> string list \<Rightarrow> string list" where
  "manager_add_file_group rf array =
     (case remmina_file_get_string rf ''group'' of
        None \<Rightarrow> array
      | Some grp \<Rightarrow>
          if remmina_string_array_find array grp < 0 then remmina_string_array_add array grp else array)"

definition remmina_file_manager_get_groups ::
  "dir_env \<Rightarrow> cstr \<Rightarrow> (string \<Rightarrow> rfile option c_result) \<Rightarrow> cstr c_result" where
  "remmina_file_manager_get_groups de datadir_path load =
     (let dir = remmina_file_get_datadir de datadir_path
      in case de_names de dir of
           None \<Rightarrow> Ret None
         | Some names \<Rightarrow>
             c_bind (manager_iterate load dir manager_add_file_group names (remmina_string_array_new, 0)) (\<lambda>(array, n).
               Ret (Some (remmina_string_array_to_string (remmina_string_array_sort array)))))"

text \<open>
  A node of the tree: the name, the whole group path, and the children. The root has no
  data; it is represented by its children alone.
\<close>

datatype group_node = Group (group_name: string) (group_path: string) (group_children: "group_node list")

text \<open>The loop over the siblings, with what is done at the node that is found or made.\<close>

fun group_insert ::
  "string \<Rightarrow> string \<Rightarrow> (string \<Rightarrow> group_node list \<Rightarrow> group_node list) \<Rightarrow> group_node list \<Rightarrow> group_node list" where
  "group_insert p1 path descend [] = [Group p1 path (descend path [])]"
| "group_insert p1 path descend (Group n g cs # children) =
     (if n = p1 then Group n g (descend g cs) # children
      else if p1 < n then Group p1 path (descend path []) # Group n g cs # children
      else Group n g cs # group_insert p1 path descend children)"

text \<open>\<open>node\<close> is the path of the node the group is added under, \<open>None\<close> for the root.\<close>

function remmina_file_manager_add_group :: "cstr \<Rightarrow> cstr \<Rightarrow> group_node list \<Rightarrow> group_node list" where
  "remmina_file_manager_add_group node grp children =
     (case grp of
        None \<Rightarrow> children
      | Some s \<Rightarrow>
          if s = [] then children
          else case split_at (CHR ''/'') s of
                 (p1, p2) \<Rightarrow>
                   group_insert p1 (case node of Some g \<Rightarrow> g @ ''/'' @ p1 | None \<Rightarrow> p1)
                     (\<lambda>g cs. remmina_file_manager_add_group (Some g) p2 cs) children)"
  by pat_completeness auto
termination
  by (relation "measure (\<lambda>(n, g, c). case g of None \<Rightarrow> 0 | Some s \<Rightarrow> Suc (length s))")
    (auto split: option.splits dest: split_at_length simp: eq_commute [of "(_, _)" "split_at _ _"])

declare remmina_file_manager_add_group.simps [simp del]

definition manager_add_file_to_tree :: "rfile \<Rightarrow> group_node list \<Rightarrow> group_node list" where
  "manager_add_file_to_tree rf root =
     remmina_file_manager_add_group None (remmina_file_get_string rf ''group'') root"

definition remmina_file_manager_get_group_tree ::
  "dir_env \<Rightarrow> cstr \<Rightarrow> (string \<Rightarrow> rfile option c_result) \<Rightarrow> group_node list c_result" where
  "remmina_file_manager_get_group_tree de datadir_path load =
     c_bind (remmina_file_manager_iterate de datadir_path load manager_add_file_to_tree []) (\<lambda>(root, n). Ret root)"

definition remmina_file_manager_load_file ::
  "(string \<Rightarrow> rfile option c_result) \<Rightarrow> (plugin \<Rightarrow> string \<Rightarrow> bool) \<Rightarrow> (plugin \<Rightarrow> string \<Rightarrow> rfile option c_result) \<Rightarrow>
     plugin_manager \<Rightarrow> string \<Rightarrow> rfile option c_result" where
  "remmina_file_manager_load_file load import_test import_func pm filename =
     (case rsplit_at (CHR ''.'') filename of
        Some (_, ext) \<Rightarrow>
          if ext = ''remmina'' then load filename
          else (case remmina_plugin_manager_get_import_file_handler import_test pm filename of
                  None \<Rightarrow> Ret None
                | Some plugin \<Rightarrow> import_func plugin filename)
      | None \<Rightarrow>
          (case remmina_plugin_manager_get_import_file_handler import_test pm filename of
             None \<Rightarrow> Ret None
           | Some plugin \<Rightarrow> import_func plugin filename))"

section \<open>Iterating visits every profile once\<close>

fun manager_load_all :: "(string \<Rightarrow> rfile option c_result) \<Rightarrow> string \<Rightarrow> string list \<Rightarrow> rfile list c_result" where
  "manager_load_all load datadir [] = Ret []"
| "manager_load_all load datadir (name # names) =
     (if g_str_has_suffix name ''.remmina''
      then c_bind (load (manager_path datadir name)) (\<lambda>r.
             c_bind (manager_load_all load datadir names) (\<lambda>rfs.
               Ret (case r of None \<Rightarrow> rfs | Some rf \<Rightarrow> rf # rfs)))
      else manager_load_all load datadir names)"

lemma manager_iterate_fold:
  "manager_iterate load datadir f names (u, n) =
     c_bind (manager_load_all load datadir names) (\<lambda>rfs. Ret (fold f rfs u, n + of_nat (length rfs)))"
proof (induction names arbitrary: u n)
  case Nil
  then show ?case by simp
next
  case (Cons name names)
  have swap: "c_bind (c_bind r h) k = c_bind r (\<lambda>x. c_bind (h x) k)" for r :: "'b c_result" and h k
    by (cases r) simp_all
  show ?case
  proof (cases "load (manager_path datadir name)")
    case Crash
    with Cons show ?thesis by simp
  next
    case (Ret r)
    with Cons show ?thesis
      by (cases "manager_load_all load datadir names") (simp_all add: algebra_simps split: option.splits)
  qed
qed

section \<open>The tree of groups\<close>

text \<open>The components of a group name, and the paths of a tree.\<close>

function group_parts :: "cstr \<Rightarrow> string list" where
  "group_parts grp =
     (case grp of
        None \<Rightarrow> []
      | Some s \<Rightarrow> if s = [] then [] else case split_at (CHR ''/'') s of (p1, p2) \<Rightarrow> p1 # group_parts p2)"
  by pat_completeness auto
termination
  by (relation "measure (\<lambda>g. case g of None \<Rightarrow> 0 | Some s \<Rightarrow> Suc (length s))")
    (auto split: option.splits dest: split_at_length simp: eq_commute [of "(_, _)" "split_at _ _"])

declare group_parts.simps [simp del]

fun tree_paths :: "group_node list \<Rightarrow> string list set" where
  "tree_paths [] = {}"
| "tree_paths (Group n g cs # ns) = {[n]} \<union> (#) n ` tree_paths cs \<union> tree_paths ns"

definition group_prefixes :: "cstr \<Rightarrow> string list set" where
  "group_prefixes grp = {p. p \<noteq> [] \<and> prefix p (group_parts grp)}"

lemma group_prefixes_empty [simp]: "group_prefixes None = {}" "group_prefixes (Some []) = {}"
  by (simp_all add: group_prefixes_def group_parts.simps)

lemma group_prefixes_step:
  assumes "s \<noteq> []" and "split_at (CHR ''/'') s = (p1, p2)"
  shows "group_prefixes (Some s) = {[p1]} \<union> (#) p1 ` group_prefixes p2"
proof -
  have parts: "group_parts (Some s) = p1 # group_parts p2"
    using assms by (subst group_parts.simps) simp
  have "p \<in> group_prefixes (Some s) \<longleftrightarrow> p \<in> {[p1]} \<union> (#) p1 ` group_prefixes p2" for p
    unfolding group_prefixes_def parts by (cases p) auto
  then show ?thesis by blast
qed

text \<open>Names of siblings increase, and every node knows its path.\<close>

fun tree_ok :: "cstr \<Rightarrow> group_node list \<Rightarrow> bool" where
  "tree_ok node [] \<longleftrightarrow> True"
| "tree_ok node (Group n g cs # ns) \<longleftrightarrow>
     g = (case node of Some q \<Rightarrow> q @ ''/'' @ n | None \<Rightarrow> n) \<and> tree_ok (Some g) cs \<and>
     (\<forall>m \<in> group_name ` set ns. n < m) \<and> tree_ok node ns"

lemma group_insert_paths:
  assumes "\<And>g cs. tree_paths (descend g cs) = tree_paths cs \<union> Q"
  shows "tree_paths (group_insert p1 path descend cs) = tree_paths cs \<union> ({[p1]} \<union> (#) p1 ` Q)"
  using assms by (induction p1 path descend cs rule: group_insert.induct) (auto simp: image_Un)

lemma group_insert_names: "group_name ` set (group_insert p1 path descend cs) = insert p1 (group_name ` set cs)"
  by (induction p1 path descend cs rule: group_insert.induct) auto

lemma group_insert_ok [inv]:
  assumes "\<And>g cs. tree_ok (Some g) cs \<Longrightarrow> tree_ok (Some g) (descend g cs)"
    and "tree_ok node cs"
  shows "tree_ok node (group_insert p1 (case node of Some g \<Rightarrow> g @ ''/'' @ p1 | None \<Rightarrow> p1) descend cs)"
  using assms
proof (induction p1 "case node of Some g \<Rightarrow> g @ ''/'' @ p1 | None \<Rightarrow> p1" descend cs rule: group_insert.induct)
  case (2 p1 descend n g cs ns)
  then show ?case by (auto simp: group_insert_names)
qed simp

lemma add_group_paths:
  "tree_paths (remmina_file_manager_add_group node grp cs) = tree_paths cs \<union> group_prefixes grp"
proof (induction node grp cs rule: remmina_file_manager_add_group.induct)
  case (1 node grp cs)
  show ?case
  proof (cases "is_empty grp")
    case True
    then show ?thesis by (subst remmina_file_manager_add_group.simps) (auto simp: is_empty_def split: option.splits)
  next
    case False
    then obtain s where s: "grp = Some s" "s \<noteq> []" by (auto simp: not_is_empty_iff)
    obtain p1 p2 where sp: "split_at (CHR ''/'') s = (p1, p2)" by force
    from group_insert_paths [OF "1.IH" [OF s sp [symmetric]]] s sp group_prefixes_step [OF s(2) sp]
    show ?thesis by (subst remmina_file_manager_add_group.simps) simp
  qed
qed

lemma add_group_ok [inv]: "tree_ok node cs \<Longrightarrow> tree_ok node (remmina_file_manager_add_group node grp cs)"
proof (induction node grp cs rule: remmina_file_manager_add_group.induct)
  case (1 node grp cs)
  show ?case
  proof (cases "is_empty grp")
    case True
    with "1.prems" show ?thesis
      by (subst remmina_file_manager_add_group.simps) (auto simp: is_empty_def split: option.splits)
  next
    case False
    then obtain s where s: "grp = Some s" "s \<noteq> []" by (auto simp: not_is_empty_iff)
    obtain p1 p2 where sp: "split_at (CHR ''/'') s = (p1, p2)" by force
    have "tree_ok node (group_insert p1 (case node of Some g \<Rightarrow> g @ ''/'' @ p1 | None \<Rightarrow> p1)
        (\<lambda>g cs. remmina_file_manager_add_group (Some g) p2 cs) cs)"
      by (rule group_insert_ok [OF "1.IH" [OF s sp [symmetric]] "1.prems"])
    with s sp show ?thesis by (subst remmina_file_manager_add_group.simps) simp
  qed
qed

lemma add_files_tree:
  "tree_ok None root \<Longrightarrow>
     tree_ok None (fold manager_add_file_to_tree rfs root) \<and>
     tree_paths (fold manager_add_file_to_tree rfs root) =
       tree_paths root \<union> (\<Union>rf \<in> set rfs. group_prefixes (remmina_file_get_string rf ''group''))"
  by (induction rfs arbitrary: root) (auto simp: manager_add_file_to_tree_def add_group_ok add_group_paths)

lemma add_files_groups:
  "distinct array \<Longrightarrow>
     distinct (fold manager_add_file_group rfs array) \<and>
     set (fold manager_add_file_group rfs array) =
       set array \<union> {g. \<exists>rf \<in> set rfs. remmina_file_get_string rf ''group'' = Some g}"
proof (induction rfs arbitrary: array)
  case Nil
  then show ?case by simp
next
  case (Cons rf rfs)
  have "distinct (manager_add_file_group rf array) \<and>
      set (manager_add_file_group rf array) =
        set array \<union> {g. remmina_file_get_string rf ''group'' = Some g}"
    using Cons.prems
    by (auto simp: manager_add_file_group_def find_neg_iff remmina_string_array_add_def split: option.splits)
  with Cons.IH [of "manager_add_file_group rf array"] show ?case by auto
qed

section \<open>Properties\<close>

text \<open>The directory of the witnesses: two profiles and a file of another kind.\<close>

definition sample_dir :: dir_env where
  "sample_dir = \<lparr>de_is_dir = (\<lambda>d. d = ''/d''), de_names = (\<lambda>d. Some [''a.remmina'', ''x'', ''b.remmina'']),
     de_mkdir_ok = (\<lambda>d. True), de_build_path = g_strjoinv ''/'', de_home_dir = ''/h'',
     de_user_data_dir = ''/u'', de_user_cache_dir = ''/c'', de_system_data_dirs = []\<rparr>"

definition sample_dir_load :: "string \<Rightarrow> rfile option c_result" where
  "sample_dir_load f =
     Ret (Some (remmina_file_set_string remmina_file_new_empty ''group''
       (Some (if f = ''/d/a.remmina'' then ''g/h'' else ''g''))))"

lemma sample_datadir [simp]: "remmina_file_get_datadir sample_dir (Some ''/d'') = ''/d''"
  by (simp add: remmina_file_get_datadir_def sample_dir_def)

lemma sample_dir_names [simp]: "de_names sample_dir d = Some [''a.remmina'', ''x'', ''b.remmina'']"
  by (simp add: sample_dir_def)

lemmas sample_dir_eval =
  remmina_file_manager_iterate_def manager_path_def MAX_PATH_LEN_def g_str_has_suffix_def sample_dir_load_def
  get_set_string non_empty_def Let_def

text \<open>
  C40: The group tree is the tree of the groups in use: its paths are the non-empty prefixes
  of the group of some profile of the directory, split at its slashes, and no others. The
  siblings are sorted with no name twice, and every node holds the path that leads to it.
\<close>

theorem group_tree_of_profiles:
  assumes "remmina_file_manager_get_group_tree de datadir_path load = Ret root"
    and "de_names de (remmina_file_get_datadir de datadir_path) = Some names"
  shows "\<exists>rfs. manager_load_all load (remmina_file_get_datadir de datadir_path) names = Ret rfs \<and>
    tree_ok None root \<and>
    tree_paths root = (\<Union>rf \<in> set rfs. group_prefixes (remmina_file_get_string rf ''group''))"
  using assms add_files_tree [of "[]"]
  by (auto simp: remmina_file_manager_get_group_tree_def remmina_file_manager_iterate_def
      manager_iterate_fold c_bind_Ret_iff)

theorem group_tree_of_profiles_witness:
  "\<exists>root. remmina_file_manager_get_group_tree sample_dir (Some ''/d'') sample_dir_load = Ret root \<and>
     tree_paths root = {[''g''], [''g'', ''h'']}"
proof -
  have "remmina_file_manager_get_group_tree sample_dir (Some ''/d'') sample_dir_load =
      Ret [Group ''g'' ''g'' [Group ''h'' ''g/h'' []]]"
    by (simp add: sample_dir_eval remmina_file_manager_get_group_tree_def manager_add_file_to_tree_def
        remmina_file_manager_add_group.simps split_at_def)
  from group_tree_of_profiles [OF this, of "[''a.remmina'', ''x'', ''b.remmina'']"] this show ?thesis by auto
qed

text \<open>
  The list of groups offered by the editor is sorted, names every group that a profile
  of the directory is in, and names none twice.
\<close>

theorem groups_of_profiles:
  assumes "remmina_file_manager_get_groups de datadir_path load = Ret (Some groups)"
    and "de_names de (remmina_file_get_datadir de datadir_path) = Some names"
  shows "\<exists>rfs gs. manager_load_all load (remmina_file_get_datadir de datadir_path) names = Ret rfs \<and>
    groups = remmina_string_array_to_string gs \<and> sorted gs \<and> distinct gs \<and>
    set gs = {g. \<exists>rf \<in> set rfs. remmina_file_get_string rf ''group'' = Some g}"
proof -
  from assms obtain rfs where rfs:
    "manager_load_all load (remmina_file_get_datadir de datadir_path) names = Ret rfs"
    "groups = remmina_string_array_to_string
      (remmina_string_array_sort (fold manager_add_file_group rfs remmina_string_array_new))"
    by (auto simp: remmina_file_manager_get_groups_def manager_iterate_fold c_bind_Ret_iff)
  let ?gs = "remmina_string_array_sort (fold manager_add_file_group rfs remmina_string_array_new)"
  have "sorted ?gs" "distinct ?gs"
    "set ?gs = {g. \<exists>rf \<in> set rfs. remmina_file_get_string rf ''group'' = Some g}"
    using add_files_groups [of "[]" rfs]
    by (simp_all add: remmina_string_array_sort_def remmina_string_array_new_def)
  with rfs show ?thesis by blast
qed

theorem groups_of_profiles_witness:
  "\<exists>gs. remmina_file_manager_get_groups sample_dir (Some ''/d'') sample_dir_load =
     Ret (Some (remmina_string_array_to_string gs)) \<and> sorted gs \<and> distinct gs"
proof -
  obtain g where "remmina_file_manager_get_groups sample_dir (Some ''/d'') sample_dir_load = Ret (Some g)"
    by (simp add: sample_dir_eval remmina_file_manager_get_groups_def manager_add_file_group_def)
  from groups_of_profiles [OF this, of "[''a.remmina'', ''x'', ''b.remmina'']"] this show ?thesis by auto
qed

end
