(* ===== verification/MpChange.thy ===== *)
theory MpChange
  imports FileManager FileProps
begin

text \<open>
  The multiple password changer (\<open>remmina_mpchange.c\<close>): the list of the profiles that match
  the search fields, the check boxes, and the idle callback that stores the new passwords
  in the selected profiles one by one. The texts of the entries are inputs.
\<close>

section \<open>State\<close>

record mp_row =
  col_f :: bool
  col_name :: cstr
  col_group :: string
  col_username :: string
  col_gateway_username :: string
  col_filename :: string

record mp_entries =
  en_group :: string
  en_username :: string
  en_domain :: string
  en_password1 :: string
  en_password2 :: string
  en_gateway_username :: string
  en_gateway_domain :: string
  en_gateway_password1 :: string
  en_gateway_password2 :: string

text \<open>
  \<open>mp_iter\<close> is the row the iterator points to; \<open>mp_sid\<close> and \<open>mp_timeout\<close> tell whether the
  idle source and the search time-out are there.
\<close>

record mpchanger_params =
  mp_username :: string
  mp_domain :: string
  mp_password :: string
  mp_group :: string
  mp_gatewayusername :: string
  mp_gatewaydomain :: string
  mp_gatewaypassword :: string
  mp_store :: "mp_row list"
  mp_iter :: nat
  mp_changed_passwords_count :: gint
  mp_sid :: bool
  mp_timeout :: bool

text \<open>
  A NULL argument only reaches the entry of the dialog, which stays empty, before the text
  of the entry replaces it.
\<close>

definition mp_entry_text :: "cstr \<Rightarrow> string" where
  "mp_entry_text s = (case s of None \<Rightarrow> [] | Some t \<Rightarrow> t)"

definition remmina_mpchange_schedule ::
  "cstr \<Rightarrow> cstr \<Rightarrow> cstr \<Rightarrow> cstr \<Rightarrow> cstr \<Rightarrow> cstr \<Rightarrow> cstr \<Rightarrow> mpchanger_params" where
  "remmina_mpchange_schedule grp domain username password gatewayusername gatewaydomain gatewaypassword = \<lparr>
     mp_username = mp_entry_text username, mp_domain = mp_entry_text domain,
     mp_password = mp_entry_text password, mp_group = mp_entry_text grp,
     mp_gatewayusername = mp_entry_text gatewayusername, mp_gatewaydomain = mp_entry_text gatewaydomain,
     mp_gatewaypassword = mp_entry_text gatewaypassword, mp_store = [], mp_iter = 0,
     mp_changed_passwords_count = 0, mp_sid = False, mp_timeout = False\<rparr>"

section \<open>The list of matching profiles\<close>

definition remmina_mpchange_fieldcompare :: "string \<Rightarrow> string \<Rightarrow> nat \<Rightarrow> bool \<times> nat" where
  "remmina_mpchange_fieldcompare needle haystack matchcount =
     (if needle = [] then (True, Suc matchcount)
      else if haystack = [] \<or> strstr haystack needle = None then (False, matchcount)
      else (True, Suc matchcount))"

text \<open>The five comparisons, \<open>None\<close> for the early returns.\<close>

fun mpchange_match :: "(string \<times> string) list \<Rightarrow> nat \<Rightarrow> nat option" where
  "mpchange_match [] matchcount = Some matchcount"
| "mpchange_match ((needle, haystack) # comparisons) matchcount =
     (case remmina_mpchange_fieldcompare needle haystack matchcount of
        (False, _) \<Rightarrow> None
      | (True, matchcount) \<Rightarrow> mpchange_match comparisons matchcount)"

definition remmina_mpchange_file_list_callback :: "mpchanger_params \<Rightarrow> rfile \<Rightarrow> mp_row list \<Rightarrow> mp_row list" where
  "remmina_mpchange_file_list_callback mpcp rf store =
     (let username = get_string_or rf ''username'' []; domain = get_string_or rf ''domain'' [];
          grp = get_string_or rf ''group'' []; gatewayusername = get_string_or rf ''gateway_username'' [];
          gatewaydomain = get_string_or rf ''gateway_domain'' []
      in case mpchange_match
                [(mp_username mpcp, username), (mp_domain mpcp, domain), (mp_group mpcp, grp),
                 (mp_gatewayusername mpcp, gatewayusername), (mp_gatewaydomain mpcp, gatewaydomain)] 0 of
           None \<Rightarrow> store
         | Some matchcount \<Rightarrow>
             store @ [\<lparr>col_f = (5 \<le> matchcount), col_name = remmina_file_get_string rf ''name'',
               col_group = grp, col_username = domain @ [CHR 0x5C] @ username,
               col_gateway_username = gatewaydomain @ [CHR 0x5C] @ gatewayusername,
               col_filename = mp_entry_text (rf_filename rf)\<rparr>])"

definition remmina_mpchange_searchfield_changed :: "mpchanger_params \<Rightarrow> mpchanger_params" where
  "remmina_mpchange_searchfield_changed mpcp = mpcp\<lparr>mp_timeout := True\<rparr>"

definition remmina_mpchange_searchfield_changed_to ::
  "dir_env \<Rightarrow> cstr \<Rightarrow> (string \<Rightarrow> rfile option c_result) \<Rightarrow> mp_entries \<Rightarrow> mpchanger_params \<Rightarrow>
     mpchanger_params c_result" where
  "remmina_mpchange_searchfield_changed_to de datadir_path load en mpcp =
     (let mpcp = mpcp\<lparr>mp_timeout := False, mp_group := en_group en, mp_domain := en_domain en,
                   mp_username := en_username en, mp_gatewaydomain := en_gateway_domain en,
                   mp_gatewayusername := en_gateway_username en, mp_store := []\<rparr>
      in if mp_group mpcp \<noteq> [] \<or> mp_domain mpcp \<noteq> [] \<or> mp_username mpcp \<noteq> [] \<or>
            mp_gatewayusername mpcp \<noteq> [] \<or> mp_gatewaydomain mpcp \<noteq> []
         then c_bind (remmina_file_manager_iterate de datadir_path load
                (remmina_mpchange_file_list_callback mpcp) []) (\<lambda>(store, n). Ret (mpcp\<lparr>mp_store := store\<rparr>))
         else Ret mpcp)"

definition remmina_mpchange_checkbox_toggle :: "nat \<Rightarrow> mpchanger_params \<Rightarrow> mpchanger_params" where
  "remmina_mpchange_checkbox_toggle i mpcp =
     (if i < length (mp_store mpcp)
      then mpcp\<lparr>mp_store := (mp_store mpcp)[i := (mp_store mpcp ! i)\<lparr>col_f := \<not> col_f (mp_store mpcp ! i)\<rparr>]\<rparr>
      else mpcp)"

section \<open>Changing the passwords\<close>

text \<open>An empty new password is not stored.\<close>

definition mpchange_store ::
  "('kf, 'ks) file_env \<Rightarrow> string \<Rightarrow> string \<Rightarrow> rfile \<times> 'ks world \<Rightarrow> (rfile \<times> 'ks world) c_result" where
  "mpchange_store env key password s =
     (if password \<noteq> [] then remmina_file_store_secret_plugin_password env key password s else Ret s)"

definition remmina_mpchange_dochange ::
  "('kf, 'ks) file_env \<Rightarrow> string \<Rightarrow> mpchanger_params \<times> 'ks world \<Rightarrow> (mpchanger_params \<times> 'ks world) c_result" where
  "remmina_mpchange_dochange env fname = (\<lambda>(mpcp, w).
     c_bind (remmina_file_load env w fname) (\<lambda>r.
       case r of
         None \<Rightarrow> Ret (mpcp, w)
       | Some rf \<Rightarrow>
           c_bind (mpchange_store env ''password'' (mp_password mpcp) (rf, w)) (\<lambda>(rf, w).
           c_bind (mpchange_store env ''gateway_password'' (mp_gatewaypassword mpcp) (rf, w)) (\<lambda>(rf, w).
             Ret (mpcp\<lparr>mp_changed_passwords_count := mp_changed_passwords_count mpcp + 1\<rparr>, w)))))"

text \<open>The idle callback, and whether its source continues.\<close>

definition changenext ::
  "('kf, 'ks) file_env \<Rightarrow> mpchanger_params \<times> 'ks world \<Rightarrow> (bool \<times> mpchanger_params \<times> 'ks world) c_result" where
  "changenext env = (\<lambda>(mpcp, w).
     let row = mp_store mpcp ! mp_iter mpcp
     in c_bind (if col_f row then remmina_mpchange_dochange env (col_filename row) (mpcp, w) else Ret (mpcp, w))
          (\<lambda>(mpcp, w).
             if Suc (mp_iter mpcp) < length (mp_store mpcp)
             then Ret (True, mpcp\<lparr>mp_iter := Suc (mp_iter mpcp)\<rparr>, w)
             else Ret (False, mpcp\<lparr>mp_sid := False\<rparr>, w)))"

datatype mp_message = Passwords_do_not_match | Gateway_passwords_do_not_match

text \<open>The button: a message, or the idle source starts with the first row.\<close>

definition remmina_mpchange_dochange_clicked ::
  "mp_entries \<Rightarrow> mpchanger_params \<Rightarrow> mp_message option \<times> mpchanger_params" where
  "remmina_mpchange_dochange_clicked en mpcp =
     (let mpcp = mpcp\<lparr>mp_timeout := False\<rparr>
      in if mp_store mpcp = [] then (None, mpcp)
         else let mpcp = mpcp\<lparr>mp_iter := 0\<rparr>
         in if en_password1 en \<noteq> en_password2 en then (Some Passwords_do_not_match, mpcp)
         else if en_gateway_password1 en \<noteq> en_gateway_password2 en
         then (Some Gateway_passwords_do_not_match, mpcp)
         else (None, mpcp\<lparr>mp_password := en_password1 en, mp_changed_passwords_count := 0,
                 mp_gatewaypassword := en_gateway_password1 en, mp_sid := True\<rparr>))"

text \<open>The main loop runs the idle source until it is removed.\<close>

fun mpchange_run ::
  "('kf, 'ks) file_env \<Rightarrow> nat \<Rightarrow> mpchanger_params \<times> 'ks world \<Rightarrow> (mpchanger_params \<times> 'ks world) c_result" where
  "mpchange_run env 0 s = Ret s"
| "mpchange_run env (Suc fuel) s =
     c_bind (changenext env s) (\<lambda>(continue, s). if continue then mpchange_run env fuel s else Ret s)"

text \<open>The dialog opens only when there is a password store to write to.\<close>

datatype mp_error = Requires_plugin | Requires_service

definition remmina_file_multipasswd_changer_mt :: "('kf, 'ks) file_env \<Rightarrow> 'ks \<Rightarrow> mp_error option" where
  "remmina_file_multipasswd_changer_mt env ks =
     (case fe_secret env of
        None \<Rightarrow> Some Requires_plugin
      | Some sops \<Rightarrow> if sec_is_service_available sops ks then None else Some Requires_service)"

section \<open>The list\<close>

lemma fieldcompare_sublist: "remmina_mpchange_fieldcompare n h c = (if sublist n h then (True, Suc c) else (False, c))"
proof -
  have "\<not> sublist n h" if "n \<noteq> []" "h = []" using that by simp
  moreover have "strstr h n = None \<longleftrightarrow> \<not> sublist n h"
    using strstr_Some_iff [of h n] by (cases "strstr h n") auto
  ultimately show ?thesis by (auto simp: remmina_mpchange_fieldcompare_def)
qed

lemma mpchange_match_spec:
  "mpchange_match cs c = (if list_all (\<lambda>(n, h). sublist n h) cs then Some (c + length cs) else None)"
  by (induction cs c rule: mpchange_match.induct) (auto simp: fieldcompare_sublist)

section \<open>The run\<close>

text \<open>The rows from the iterator on, one after the other.\<close>

fun mpchange_rows ::
  "('kf, 'ks) file_env \<Rightarrow> mp_row list \<Rightarrow> mpchanger_params \<times> 'ks world \<Rightarrow> (mpchanger_params \<times> 'ks world) c_result" where
  "mpchange_rows env [] s = Ret s"
| "mpchange_rows env (r # rs) s =
     c_bind (if col_f r then remmina_mpchange_dochange env (col_filename r) s else Ret s) (mpchange_rows env rs)"

lemma dochange_frame:
  assumes "remmina_mpchange_dochange env f (mp, w) = Ret (mp', w')"
  shows "mp_store mp' = mp_store mp \<and> mp_iter mp' = mp_iter mp"
  using assms by (auto simp: remmina_mpchange_dochange_def c_bind_Ret_iff split: option.splits)

lemma dochange_mp:
  "remmina_mpchange_dochange env f (mp\<lparr>mp_iter := i\<rparr>, w) =
     c_bind (remmina_mpchange_dochange env f (mp, w)) (\<lambda>(m, w'). Ret (m\<lparr>mp_iter := i\<rparr>, w'))"
proof (cases "remmina_file_load env w f")
  case (Ret r)
  have swap: "c_bind (c_bind x h) k = c_bind x (\<lambda>y. c_bind (h y) k)" for x :: "'x c_result" and h k
    by (cases x) simp_all
  have comm: "mp\<lparr>mp_iter := i, mp_changed_passwords_count := c\<rparr> =
      mp\<lparr>mp_changed_passwords_count := c, mp_iter := i\<rparr>" for c
    by (cases mp) simp
  show ?thesis
    by (cases r) (simp_all add: Ret remmina_mpchange_dochange_def swap split_def comm)
qed (simp add: remmina_mpchange_dochange_def)

lemma mpchange_rows_mp:
  "mpchange_rows env rs (mp\<lparr>mp_iter := i\<rparr>, w) =
     c_bind (mpchange_rows env rs (mp, w)) (\<lambda>(m, w'). Ret (m\<lparr>mp_iter := i\<rparr>, w'))"
proof (induction rs arbitrary: mp w)
  case (Cons r rs)
  show ?case
  proof (cases "remmina_mpchange_dochange env (col_filename r) (mp, w)")
    case (Ret s)
    with Cons show ?thesis by (cases s) (simp add: dochange_mp)
  qed (simp add: Cons dochange_mp)
qed simp

text \<open>As many calls as there are rows left finish the run.\<close>

lemma mpchange_run_rows:
  "mp_iter mp + n = length (mp_store mp) \<Longrightarrow> 0 < n \<Longrightarrow>
     mpchange_run env n (mp, w) =
       c_bind (mpchange_rows env (drop (mp_iter mp) (mp_store mp)) (mp, w))
         (\<lambda>(m, w'). Ret (m\<lparr>mp_iter := length (mp_store mp) - 1, mp_sid := False\<rparr>, w'))"
proof (induction n arbitrary: mp w)
  case 0
  then show ?case by simp
next
  case (Suc n)
  let ?i = "mp_iter mp" and ?rows = "mp_store mp"
  let ?go = "if col_f (?rows ! ?i) then remmina_mpchange_dochange env (col_filename (?rows ! ?i)) (mp, w) else Ret (mp, w)"
  have d: "drop ?i ?rows = ?rows ! ?i # drop (Suc ?i) ?rows"
    using Suc.prems by (simp add: Cons_nth_drop_Suc)
  show ?case
  proof (cases ?go)
    case Crash
    then show ?thesis by (simp add: d changenext_def Let_def)
  next
    case (Ret s)
    obtain m v where s: "s = (m, v)" by force
    have m: "mp_iter m = ?i" "mp_store m = ?rows"
      using Ret s by (auto split: if_splits dest: dochange_frame)
    show ?thesis
    proof (cases n)
      case 0
      with Ret s m Suc.prems show ?thesis by (simp add: d changenext_def Let_def)
    next
      case (Suc k)
      with Ret s m Suc.prems Suc.IH [of "m\<lparr>mp_iter := Suc ?i\<rparr>" v] show ?thesis
        by (simp add: d changenext_def Let_def mpchange_rows_mp) (cases "mpchange_rows env (drop (Suc ?i) ?rows) (m, v)"; auto)
    qed
  qed
qed

section \<open>What storing a password leaves alone\<close>

definition state_path :: "('kf, 'ks) file_env \<Rightarrow> string \<Rightarrow> string" where
  "state_path env f = fe_cache_dir env @ ''/'' @ fe_basename env f @ ''.state''"

lemma save_entries_no_plugin:
  "save_entries env rf None a n es s = Ret s' \<Longrightarrow> snd s' = snd s"
proof (induction es arbitrary: s)
  case (Cons e es)
  then obtain t where t: "save_entry env rf None a n e s = Ret t" "snd s' = snd t"
    by (auto simp: c_bind_Ret_iff)
  from t(1) have "snd t = snd s"
    by (cases e; cases s) (auto simp: save_entry_def remmina_plugin_manager_is_encrypted_setting_def
        split: option.splits)
  with t(2) show ?case by simp
qed simp

lemma save_effect:
  assumes "remmina_file_save env rf w = Ret w'"
  shows "(\<exists>cs. w_ks w' = fold (change_secret env rf) cs (w_ks w)) \<and>
    (rf_filename rf \<noteq> Some g \<longrightarrow> rf_statefile rf \<noteq> Some g \<longrightarrow> w_fs w' g = w_fs w g)"
proof -
  let ?a = "secret_service_available env (w_ks w)" and ?n = "remmina_file_get_int rf ''disablepasswordstoring'' 0"
  have entries: "\<exists>cs. snd kfks' = fold (change_secret env rf) cs (snd kfks)"
    if "save_entries env rf pp ?a ?n es kfks = Ret kfks'" for pp es kfks kfks'
  proof (cases pp)
    case None
    with that have "snd kfks' = fold (change_secret env rf) [] (snd kfks)" by (simp add: save_entries_no_plugin)
    then show ?thesis by (rule exI)
  next
    case (Some p)
    with that show ?thesis by (cases kfks) (auto simp: save_entries_seq)
  qed
  have none: "\<exists>cs. w_ks w = fold (change_secret env rf) cs (w_ks w)" by (rule exI [of _ "[]"]) simp
  show ?thesis
    using assms none
    by (auto simp: remmina_file_save_def file_set_contents_def Let_def c_bind_Ret_iff dest!: entries
        split: if_splits option.splits)
qed

text \<open>Nothing outside one profile changed.\<close>

definition same_elsewhere :: "('kf, 'ks) file_env \<Rightarrow> 'ks secret_ops \<Rightarrow> string set \<Rightarrow> 'ks world \<Rightarrow> 'ks world \<Rightarrow> bool" where
  "same_elsewhere env sops fs w w' \<longleftrightarrow>
     sec_is_service_available sops (w_ks w') = sec_is_service_available sops (w_ks w) \<and>
     (\<forall>g. g \<notin> fs \<longrightarrow> g \<notin> state_path env ` fs \<longrightarrow> w_fs w' g = w_fs w g) \<and>
     (\<forall>rf g k. rf_filename rf = Some g \<longrightarrow> g \<notin> fs \<longrightarrow>
        sec_get_password sops (w_ks w') rf k = sec_get_password sops (w_ks w) rf k)"

lemma same_elsewhere_refl [simp]: "same_elsewhere env sops fs w w"
  by (simp add: same_elsewhere_def)

lemma same_elsewhere_trans:
  "same_elsewhere env sops fs w v \<Longrightarrow> same_elsewhere env sops gs v u \<Longrightarrow> same_elsewhere env sops (fs \<union> gs) w u"
  by (simp add: same_elsewhere_def image_Un)

lemma same_elsewhere_changes:
  assumes "secret_service sops" "fe_secret env = Some sops" "sec_is_service_available sops (w_ks w)"
    and "rf_filename rf = Some f" "w_ks w' = fold (change_secret env rf) cs (w_ks w)"
    and "\<And>g. g \<noteq> f \<Longrightarrow> g \<noteq> state_path env f \<Longrightarrow> w_fs w' g = w_fs w g"
  shows "same_elsewhere env sops {f} w w'"
  using assms
  by (auto simp: same_elsewhere_def change_secret_apply secret_service.available_changes
      secret_service.get_changes [OF assms(1,3,4)])

lemma store_password_elsewhere:
  assumes "secret_service sops" "fe_secret env = Some sops" "sec_is_service_available sops (w_ks w)"
    and "rf_filename rf = Some f" "rf_statefile rf = Some (state_path env f)"
    and "remmina_file_store_secret_plugin_password env key v (rf, w) = Ret (rf', w')"
  shows "same_elsewhere env sops {f} w w' \<and> rf_filename rf' = Some f \<and> rf_statefile rf' = Some (state_path env f)"
proof (cases "key \<in> set (rf_spsettings rf)")
  case True
  with assms(2,6) have "rf' = rf" "w' = w\<lparr>w_ks := sec_store_password sops (w_ks w) rf key v\<rparr>"
    by (auto simp: remmina_file_store_secret_plugin_password_def)
  with same_elsewhere_changes [OF assms(1-4), of w' "[(key, Some v)]"] assms(2,4,5) show ?thesis
    by (simp add: secret_store_def)
next
  case False
  let ?rf = "remmina_file_set_string rf key (Some v)"
  from False assms(6) have "rf' = ?rf" "remmina_file_save env ?rf w = Ret w'"
    by (auto simp: remmina_file_store_secret_plugin_password_def Let_def c_bind_Ret_iff)
  moreover obtain cs where "w_ks w' = fold (change_secret env ?rf) cs (w_ks w)"
    using save_effect [OF calculation(2)] by blast
  moreover have "w_fs w' g = w_fs w g" if "g \<noteq> f" "g \<noteq> state_path env f" for g
    using save_effect [OF calculation(2), of g] that assms(4,5) by simp
  ultimately show ?thesis
    using same_elsewhere_changes [OF assms(1-3), of ?rf f w' cs] assms(4,5) by simp
qed

lemma mpchange_store_elsewhere:
  assumes "secret_service sops" "fe_secret env = Some sops" "sec_is_service_available sops (w_ks w)"
    and "rf_filename rf = Some f" "rf_statefile rf = Some (state_path env f)"
    and "mpchange_store env key v (rf, w) = Ret (rf', w')"
  shows "same_elsewhere env sops {f} w w' \<and> rf_filename rf' = Some f \<and> rf_statefile rf' = Some (state_path env f)"
  using assms store_password_elsewhere [OF assms(1-5), of key v rf' w']
  by (simp add: mpchange_store_def split: if_splits)

lemma load_paths:
  "remmina_file_load env w f = Ret (Some rf) \<Longrightarrow> rf_filename rf = Some f \<and> rf_statefile rf = Some (state_path env f)"
proof -
  have m: "rf_filename (upgrade_move a b c r) = rf_filename r" for a b c r
    by (simp add: upgrade_move_def Let_def split: option.splits)
  have "rf_filename (upgrade_sshkeys_202001_mig_common_setting a b c r) = rf_filename r" for a b c r
    by (simp add: upgrade_sshkeys_202001_mig_common_setting_def Let_def split: option.splits)
  then have c: "rf_filename (fold (upgrade_sshkeys_202001_mig_common_setting a b) cs r) = rf_filename r" for a b cs r
    by (induction cs arbitrary: r) simp_all
  have up: "rf_filename r' = rf_filename r" if "upgrade_sshkeys_202001 r = Ret r'" for r r'
    using that by (auto simp: upgrade_sshkeys_202001_def Let_def m c remmina_file_set_int_def split: option.splits)
  assume "remmina_file_load env w f = Ret (Some rf)"
  then show ?thesis
    by (auto simp: remmina_file_load_def Let_def c_bind_Ret_iff remmina_file_set_statefile_def state_path_def
        dest!: up split: if_splits prod.splits)
qed

lemma dochange_elsewhere:
  assumes "secret_service sops" "fe_secret env = Some sops" "sec_is_service_available sops (w_ks w)"
    and "remmina_mpchange_dochange env f (mp, w) = Ret (mp', w')"
  shows "same_elsewhere env sops {f} w w'"
proof (cases "remmina_file_load env w f = Ret None")
  case True
  with assms(4) show ?thesis by (simp add: remmina_mpchange_dochange_def)
next
  case False
  then obtain rf where ld: "remmina_file_load env w f = Ret (Some rf)"
    using assms(4) by (auto simp: remmina_mpchange_dochange_def c_bind_Ret_iff)
  note paths = load_paths [OF ld]
  from assms(4) ld obtain rf1 w1 rf2 where
    one: "mpchange_store env ''password'' (mp_password mp) (rf, w) = Ret (rf1, w1)" and
    two: "mpchange_store env ''gateway_password'' (mp_gatewaypassword mp) (rf1, w1) = Ret (rf2, w')"
    by (auto simp: remmina_mpchange_dochange_def c_bind_Ret_iff)
  have first: "same_elsewhere env sops {f} w w1 \<and> rf_filename rf1 = Some f \<and> rf_statefile rf1 = Some (state_path env f)"
    by (rule mpchange_store_elsewhere [OF assms(1-3) _ _ one]) (simp_all add: paths)
  then have "sec_is_service_available sops (w_ks w1)" using assms(3) by (simp add: same_elsewhere_def)
  then have "same_elsewhere env sops {f} w1 w'"
    using mpchange_store_elsewhere [OF assms(1,2) _ _ _ two] first by blast
  with same_elsewhere_trans [of env sops "{f}" w w1 "{f}" w'] first show ?thesis by simp
qed

lemma rows_elsewhere:
  assumes "secret_service sops" "fe_secret env = Some sops"
  shows "sec_is_service_available sops (w_ks w) \<Longrightarrow> mpchange_rows env rs (mp, w) = Ret (mp', w') \<Longrightarrow>
    same_elsewhere env sops (col_filename ` {r \<in> set rs. col_f r}) w w'"
proof (induction rs arbitrary: mp w)
  case Nil
  then show ?case by simp
next
  case (Cons r rs)
  show ?case
  proof (cases "col_f r")
    case False
    with Cons have "same_elsewhere env sops (col_filename ` {r \<in> set rs. col_f r}) w w'" by auto
    moreover have "{x. (x = r \<or> x \<in> set rs) \<and> col_f x} = {x \<in> set rs. col_f x}" using False by auto
    ultimately show ?thesis by simp
  next
    case True
    with Cons.prems(2) obtain m v where mv: "remmina_mpchange_dochange env (col_filename r) (mp, w) = Ret (m, v)"
      "mpchange_rows env rs (m, v) = Ret (mp', w')" by (auto simp: c_bind_Ret_iff)
    note one = dochange_elsewhere [OF assms Cons.prems(1) mv(1)]
    then have "sec_is_service_available sops (w_ks v)" using Cons.prems(1) by (simp add: same_elsewhere_def)
    from same_elsewhere_trans [OF one Cons.IH [OF this mv(2)]]
    have "same_elsewhere env sops ({col_filename r} \<union> col_filename ` {r \<in> set rs. col_f r}) w w'" .
    moreover have "{x. (x = r \<or> x \<in> set rs) \<and> col_f x} = insert r {x \<in> set rs. col_f x}" using True by auto
    ultimately show ?thesis by simp
  qed
qed

section \<open>What the next load reads\<close>

text \<open>
  Two loads of one profile file, before and after a new password is stored for it: they
  agree on everything else, and the second has the new password where the first had one
  from the store.
\<close>

definition reloaded :: "string \<Rightarrow> string \<Rightarrow> string \<Rightarrow> rfile \<Rightarrow> rfile \<Rightarrow> bool" where
  "reloaded f key p rf rf' \<longleftrightarrow>
     rf_filename rf = Some f \<and> rf_filename rf' = Some f \<and> rf_spsettings rf' = rf_spsettings rf \<and>
     (\<forall>k. k \<noteq> key \<longrightarrow> remmina_file_get_string rf' k = remmina_file_get_string rf k) \<and>
     (key \<in> set (rf_spsettings rf) \<longrightarrow> remmina_file_get_string rf' key = Some p)"

lemma get_set_any:
  "remmina_file_get_string (remmina_file_set_string rf k v) k' =
     (if k' = k \<and> k \<noteq> ''resolution'' then non_empty v else remmina_file_get_string rf k')"
proof (cases "k = ''resolution''")
  case True
  then show ?thesis
    by (cases v) (auto simp: remmina_file_set_string_def remmina_file_get_string_def update_conv')
qed (auto simp: get_set_string)

lemma reloaded_set_string:
  assumes "reloaded f key p rf rf'" and "k = key \<longrightarrow> key \<notin> set (rf_spsettings rf)"
  shows "reloaded f key p (remmina_file_set_string rf k v) (remmina_file_set_string rf' k v)"
  using assms unfolding reloaded_def by (auto simp: get_set_any)

lemma get_string_spsettings [simp]:
  "remmina_file_get_string (rf\<lparr>rf_spsettings := x\<rparr>) k = remmina_file_get_string rf k"
  by (simp add: remmina_file_get_string_def)

text \<open>The secret service after the password was stored.\<close>

definition password_stored ::
  "('kf, 'ks) file_env \<Rightarrow> 'ks secret_ops \<Rightarrow> rfile \<Rightarrow> string \<Rightarrow> string \<Rightarrow> 'ks \<Rightarrow> 'ks \<Rightarrow> bool" where
  "password_stored env sops rf key p ks ks' \<longleftrightarrow>
     secret_service sops \<and> fe_secret env = Some sops \<and> sec_is_service_available sops ks \<and>
     ks' = sec_store_password sops ks rf key p \<and>
     p \<noteq> [] \<and> key \<notin> {''resolution'', ''resolution_width'', ''resolution_height''}"

lemma stored_get:
  assumes "password_stored env sops rf0 key p ks ks'"
    and "rf_filename rf0 = Some f" "rf_filename rf = Some f" "rf_filename rf' = Some f"
  shows "secret_get env rf' k ks' = (if k = key then Some p else secret_get env rf k ks)"
proof -
  from assms(1) have service: "secret_service sops" "fe_secret env = Some sops" "sec_is_service_available sops ks"
    and ks': "ks' = sec_store_password sops ks rf0 key p"
    by (simp_all add: password_stored_def)
  have "sec_get_password sops ks' rf' k = (if k = key then Some p else sec_get_password sops ks rf' k)"
    unfolding ks' using secret_service.get_store [OF service(1,3) assms(2,4), of key p k] by simp
  also have "sec_get_password sops ks rf' k = sec_get_password sops ks rf k"
    using secret_service.get_filename [OF service(1)] assms(3,4) by simp
  finally show ?thesis using service(2) by (simp add: secret_get_def)
qed

text \<open>The settings a load takes from the store.\<close>

definition from_store :: "('kf, 'ks) file_env \<Rightarrow> plugin option \<Rightarrow> 'kf \<Rightarrow> string \<Rightarrow> bool" where
  "from_store env pp kf k \<longleftrightarrow> (case pp of None \<Rightarrow> False | Some q \<Rightarrow> encrypted_setting (fe_pm env) q k) \<and>
     kf_get_string (fe_kf env) kf KEYFILE_GROUP_REMMINA k = Some ''.''"

lemma load_key_from_store:
  "from_store env pp kf k \<Longrightarrow> load_key env pp True kf ks k rf =
     (remmina_file_set_string rf k (secret_get env rf k ks))\<lparr>rf_spsettings := List.insert k (rf_spsettings rf)\<rparr>"
  by (simp add: load_key_def from_store_def)

lemma load_key_other:
  "\<not> from_store env pp kf k \<Longrightarrow> rf_spsettings (load_key env pp True kf ks k rf) = rf_spsettings rf"
  by (simp add: load_key_def from_store_def Let_def split: option.splits)

lemma reloaded_load_other:
  assumes "reloaded f key p rf rf'" and "\<not> from_store env pp kf k"
    and "k = key \<longrightarrow> key \<notin> set (rf_spsettings rf)"
    and "key \<notin> {''resolution'', ''resolution_width'', ''resolution_height''}"
  shows "reloaded f key p (load_key env pp True kf ks k rf) (load_key env pp True kf ks' k rf')"
  using assms(2-4) reloaded_set_string [OF reloaded_set_string [OF assms(1)]]
  by (auto simp: load_key_def from_store_def Let_def intro!: reloaded_set_string assms(1) split: option.splits)

lemma reloaded_load_key:
  assumes "reloaded f key p rf rf'" and "key \<in> set (rf_spsettings rf) \<longrightarrow> from_store env pp kf key"
    and st: "password_stored env sops rf0 key p ks ks'" "rf_filename rf0 = Some f"
  shows "reloaded f key p (load_key env pp True kf ks k rf) (load_key env pp True kf ks' k rf') \<and>
    (key \<in> set (rf_spsettings (load_key env pp True kf ks k rf)) \<longrightarrow> from_store env pp kf key)"
proof (cases "from_store env pp kf k")
  case True
  have files: "rf_filename rf = Some f" "rf_filename rf' = Some f" using assms(1) by (simp_all add: reloaded_def)
  from st(1) have "p \<noteq> []" "key \<noteq> ''resolution''" by (auto simp: password_stored_def)
  with True assms(1,2) show ?thesis
    by (auto simp: load_key_from_store reloaded_def stored_get [OF st files] get_set_any non_empty_def)
next
  case False
  with assms show ?thesis
    by (auto simp: load_key_other password_stored_def intro!: reloaded_load_other)
qed

lemma reloaded_load_keys:
  assumes "reloaded f key p rf rf'" and "key \<in> set (rf_spsettings rf) \<longrightarrow> from_store env pp kf key"
    and st: "password_stored env sops rf0 key p ks ks'" "rf_filename rf0 = Some f"
  shows "reloaded f key p (fold (load_key env pp True kf ks) keys rf) (fold (load_key env pp True kf ks') keys rf')"
  using assms(1,2)
proof (induction keys arbitrary: rf rf')
  case (Cons k keys)
  from Cons.IH reloaded_load_key [OF Cons.prems st] show ?case by simp
qed simp

lemma upgrade_keeps_enabled:
  assumes "upgrade_sshkeys_202001 r = Ret r'"
  shows "remmina_file_get_string r' ''ssh_enabled'' = remmina_file_get_string r ''ssh_enabled''"
proof -
  have move: "remmina_file_get_string (upgrade_move a b c q) ''ssh_enabled'' = remmina_file_get_string q ''ssh_enabled''"
    if "a \<noteq> ''ssh_enabled''" "b \<noteq> ''ssh_enabled''" "c \<noteq> Some ''ssh_enabled''" for a b c q
    using that by (auto simp: upgrade_move_def Let_def get_set_any split: option.splits)
  have "remmina_file_get_string (upgrade_sshkeys_202001_mig_common_setting a b c q) ''ssh_enabled'' =
      remmina_file_get_string q ''ssh_enabled''" if "c \<in> set common_suffixes" for a b c q
    using that by (auto simp: upgrade_sshkeys_202001_mig_common_setting_def common_suffixes_def Let_def get_set_any
        split: option.splits)
  then have "remmina_file_get_string (fold (upgrade_sshkeys_202001_mig_common_setting a b) cs q) ''ssh_enabled'' =
      remmina_file_get_string q ''ssh_enabled''" if "set cs \<subseteq> set common_suffixes" for a b cs q
    using that by (induction cs arbitrary: q) auto
  note common = this [OF order_refl]
  have int: "remmina_file_get_string (remmina_file_set_int q ''ssh_tunnel_enabled'' i) ''ssh_enabled'' =
      remmina_file_get_string q ''ssh_enabled''" for q i
    by (simp add: remmina_file_set_int_def remmina_file_get_string_def update_conv')
  show ?thesis
    using assms by (auto simp: upgrade_sshkeys_202001_def Let_def move common int split: option.splits)
qed

section \<open>Properties\<close>

text \<open>The inputs of the witnesses: a profile whose password is in the keyring, and one row for it.\<close>

abbreviation mp_env :: "(alist_kf, alist_keyring glibsecret) file_env" where
  "mp_env \<equiv> sample_env (Some alist_secret)"

definition mp_world :: "alist_keyring glibsecret world" where
  "mp_world = \<lparr>
     w_fs = [''/f'' \<mapsto> put_alist [((''remmina'', ''name''), ''work''), ((''remmina'', ''protocol''), ''RDP''),
       ((''remmina'', ''password''), ''.'')]],
     w_ks = sample_keyring\<lparr>gs_keyring := [((''/f'', ''password''), ''old''), ((''/g'', ''password''), ''mine'')]\<rparr>\<rparr>"

definition mp_sample :: mpchanger_params where
  "mp_sample = (remmina_mpchange_schedule None None (Some ''u'') (Some ''new'') None None None)\<lparr>mp_store :=
     [\<lparr>col_f = True, col_name = Some ''work'', col_group = [], col_username = ''u'', col_gateway_username = [],
       col_filename = ''/f''\<rparr>]\<rparr>"

lemma mp_world_available [simp]: "sec_is_service_available alist_secret (w_ks mp_world)"
  by (simp add: mp_world_def sample_keyring_def remmina_plugin_glibsecret_def
      remmina_plugin_glibsecret_is_service_available_def)

lemma mp_world_load:
  "\<exists>rf. remmina_file_load mp_env mp_world ''/f'' = Ret (Some rf) \<and> ''password'' \<in> set (rf_spsettings rf) \<and>
     remmina_file_get_string rf ''ssh_enabled'' = None"
proof -
  have a: "secret_service_available mp_env (w_ks mp_world)" by (simp add: secret_service_available_def)
  have l: "load_protocol_plugin mp_env [((''remmina'', ''name''), ''work''), ((''remmina'', ''protocol''), ''RDP''),
      ((''remmina'', ''password''), ''.'')] = Some sample_rdp"
    by (simp add: load_protocol_plugin_def KEYFILE_GROUP_REMMINA_def)
  have k: "alist_keys [((''remmina'', ''name''), ''work''), ((''remmina'', ''protocol''), ''RDP''),
      ((''remmina'', ''password''), ''.'')] ''remmina'' = Some [''name'', ''protocol'', ''password'']"
    by (simp add: alist_keys_def)
  let ?kf = "[((''remmina'', ''name''), ''work''), ((''remmina'', ''protocol''), ''RDP''),
      ((''remmina'', ''password''), ''.'')]"
  let ?key = "load_key mp_env (Some sample_rdp) True ?kf (w_ks mp_world)"
  have plain: "?key ''name'' r = remmina_file_set_string r ''name'' (Some ''work'')"
    "?key ''protocol'' r = remmina_file_set_string r ''protocol'' (Some ''RDP'')" for r
    by (simp_all add: load_key_def KEYFILE_GROUP_REMMINA_def)
  have fs_f: "w_fs mp_world ''/f'' = Some (put_alist ?kf)" by (simp add: mp_world_def)
  have fs: "from_store mp_env (Some sample_rdp) ?kf ''password''"
    by (simp add: from_store_def KEYFILE_GROUP_REMMINA_def)
  let ?r = "?key ''password'' (?key ''protocol'' (?key ''name'' (remmina_file_new_empty\<lparr>rf_filename := Some ''/f''\<rparr>)))"
  have off: "remmina_file_get_string ?r ''ssh_enabled'' = None"
    by (simp add: plain load_key_from_store [OF fs] get_set_any)
      (simp add: remmina_file_get_string_def remmina_file_new_empty_def)
  have "remmina_file_load mp_env mp_world ''/f'' = Ret (Some (remmina_file_set_statefile mp_env ?r))"
    by (simp add: remmina_file_load_def fs_f KEYFILE_GROUP_REMMINA_def l k a Let_def)
      (simp add: upgrade_sshkeys_202001_def off)
  with off show ?thesis
    by (intro exI [of _ "remmina_file_set_statefile mp_env ?r"])
      (simp add: load_key_from_store [OF fs], simp add: remmina_file_set_statefile_def)
qed

text \<open>
  The changer lists exactly the profiles that match: a loaded profile gets a row when
  each search text is a substring of its setting, and every row starts selected.
\<close>

theorem mpchange_lists_matches:
  "remmina_mpchange_file_list_callback mp rf rows =
     (if sublist (mp_username mp) (get_string_or rf ''username'' []) \<and>
         sublist (mp_domain mp) (get_string_or rf ''domain'' []) \<and>
         sublist (mp_group mp) (get_string_or rf ''group'' []) \<and>
         sublist (mp_gatewayusername mp) (get_string_or rf ''gateway_username'' []) \<and>
         sublist (mp_gatewaydomain mp) (get_string_or rf ''gateway_domain'' [])
      then rows @ [\<lparr>col_f = True, col_name = remmina_file_get_string rf ''name'',
        col_group = get_string_or rf ''group'' [],
        col_username = get_string_or rf ''domain'' [] @ [CHR 0x5C] @ get_string_or rf ''username'' [],
        col_gateway_username = get_string_or rf ''gateway_domain'' [] @ [CHR 0x5C] @ get_string_or rf ''gateway_username'' [],
        col_filename = mp_entry_text (rf_filename rf)\<rparr>]
      else rows)"
  by (simp add: remmina_mpchange_file_list_callback_def mpchange_match_spec Let_def)

text \<open>
  C35: The changer touches the selected profiles only. When the run that the button starts
  has gone through the rows, the passwords and the file of a profile whose row is not
  selected are what they were, and the idle source is gone.
\<close>

theorem mpchange_touches_selected:
  assumes "secret_service sops" "fe_secret env = Some sops" "sec_is_service_available sops (w_ks w)"
    and "remmina_mpchange_dochange_clicked en mp0 = (None, mp)" "mp_store mp \<noteq> []"
    and "mpchange_run env (length (mp_store mp)) (mp, w) = Ret (mp', w')"
    and "g \<notin> col_filename ` {r \<in> set (mp_store mp). col_f r}"
    and "g \<notin> state_path env ` col_filename ` {r \<in> set (mp_store mp). col_f r}"
  shows "w_fs w' g = w_fs w g \<and> \<not> mp_sid mp' \<and>
    sec_get_password sops (w_ks w') (rf\<lparr>rf_filename := Some g\<rparr>) k =
      sec_get_password sops (w_ks w) (rf\<lparr>rf_filename := Some g\<rparr>) k"
proof -
  have "mp_iter mp = 0" using assms(4,5) by (auto simp: remmina_mpchange_dochange_clicked_def Let_def split: if_splits)
  with mpchange_run_rows [of mp "length (mp_store mp)" env w] assms(5,6)
  obtain m where "mpchange_rows env (mp_store mp) (mp, w) = Ret (m, w')" "\<not> mp_sid mp'"
    by (cases "mpchange_rows env (mp_store mp) (mp, w)") auto
  with rows_elsewhere [OF assms(1-3)] assms(7,8) show ?thesis
    by (auto simp: same_elsewhere_def)
qed

text \<open>
  The new password is the one the next load finds. For a selected profile whose password
  the store holds, the changer leaves the profile's file alone, and loading it gives the
  new password and otherwise the settings it gave before.
\<close>

theorem mpchange_replaces_password:
  assumes "secret_service sops" "fe_secret env = Some sops" "sec_is_service_available sops (w_ks w)"
    and "remmina_file_load env w f = Ret (Some rf)" "''password'' \<in> set (rf_spsettings rf)"
    and "remmina_file_get_string rf ''ssh_enabled'' = None"
    and "mp_password mp = p" "p \<noteq> []" "mp_gatewaypassword mp = []"
  shows "\<exists>mp' w' rf'. remmina_mpchange_dochange env f (mp, w) = Ret (mp', w') \<and> w_fs w' = w_fs w \<and>
    remmina_file_load env w' f = Ret (Some rf') \<and>
    (\<forall>k. remmina_file_get_string rf' k =
       (if k = ''password'' then Some p else remmina_file_get_string rf k))"
proof -
  let ?G = KEYFILE_GROUP_REMMINA and ?ops = "fe_kf env" and ?new = "remmina_file_new_empty\<lparr>rf_filename := Some f\<rparr>"
  let ?ks' = "sec_store_password sops (w_ks w) rf ''password'' p"
  have av: "secret_service_available env (w_ks w)" "secret_service_available env ?ks'"
    using assms(2,3) secret_service.available_store [OF assms(1)] by (simp_all add: secret_service_available_def)
  obtain kf where kf: "(case w_fs w f of None \<Rightarrow> (True, kf_new ?ops) | Some d \<Rightarrow> kf_load ?ops (kf_new ?ops) (Some d)) = (True, kf)"
    and name: "kf_has_key ?ops kf ?G ''name''"
    using assms(4) by (auto simp: remmina_file_load_def Let_def split: prod.splits if_splits)
  let ?keys = "case kf_get_keys ?ops kf ?G of None \<Rightarrow> [] | Some ks \<Rightarrow> ks" and ?pp = "load_protocol_plugin env kf"
  let ?load = "\<lambda>ks. fold (load_key env ?pp True kf ks) ?keys ?new"
  have load: "remmina_file_load env \<lparr>w_fs = w_fs w, w_ks = ks\<rparr> f =
      c_bind (upgrade_sshkeys_202001 (?load ks)) (\<lambda>rf. Ret (Some (remmina_file_set_statefile env rf)))"
    if "secret_service_available env ks" for ks
    using kf name that by (simp add: remmina_file_load_def Let_def)
  obtain rf1 where rf1: "upgrade_sshkeys_202001 (?load (w_ks w)) = Ret rf1" "rf = remmina_file_set_statefile env rf1"
  proof -
    have "\<lparr>w_fs = w_fs w, w_ks = w_ks w\<rparr> = w" by (cases w) simp
    with load [OF av(1)] assms(4)
    have "c_bind (upgrade_sshkeys_202001 (?load (w_ks w))) (\<lambda>rf. Ret (Some (remmina_file_set_statefile env rf))) =
        Ret (Some rf)" by simp
    then show thesis using that by (auto simp: c_bind_Ret_iff)
  qed
  from rf1 assms(6) have off: "remmina_file_get_string (?load (w_ks w)) ''ssh_enabled'' = None"
    using upgrade_keeps_enabled [OF rf1(1)] by simp
  then have "rf1 = ?load (w_ks w)" using rf1(1) by (simp add: upgrade_sshkeys_202001_def)
  with rf1(2) have rf: "rf = remmina_file_set_statefile env (?load (w_ks w))" by simp
  have sp: "rf_spsettings (remmina_file_set_statefile env q) = rf_spsettings q" for q
    by (simp add: remmina_file_set_statefile_def)
  have "reloaded f ''password'' p (?load (w_ks w)) (?load ?ks')"
    by (rule reloaded_load_keys [where sops = sops and ?rf0.0 = rf])
      (use assms load_paths [OF assms(4)] in \<open>simp_all add: reloaded_def password_stored_def remmina_file_new_empty_def\<close>)
  then have re: "\<forall>k. k \<noteq> ''password'' \<longrightarrow> remmina_file_get_string (?load ?ks') k = remmina_file_get_string rf k"
    "remmina_file_get_string (?load ?ks') ''password'' = Some p"
    using assms(5) unfolding rf by (simp_all add: reloaded_def sp)
  then have "upgrade_sshkeys_202001 (?load ?ks') = Ret (?load ?ks')"
    using off rf by (simp add: upgrade_sshkeys_202001_def)
  moreover have "remmina_mpchange_dochange env f (mp, w) =
      Ret (mp\<lparr>mp_changed_passwords_count := mp_changed_passwords_count mp + 1\<rparr>, \<lparr>w_fs = w_fs w, w_ks = ?ks'\<rparr>)"
    using assms by (cases w) (simp add: remmina_mpchange_dochange_def mpchange_store_def
        remmina_file_store_secret_plugin_password_def)
  ultimately show ?thesis
    using load [OF av(2)] re by simp
qed

theorem mpchange_replaces_password_witness:
  "\<exists>mp' w' rf'. remmina_mpchange_dochange mp_env ''/f'' (mp_sample, mp_world) = Ret (mp', w') \<and>
     remmina_file_load mp_env w' ''/f'' = Ret (Some rf') \<and> remmina_file_get_string rf' ''password'' = Some ''new''"
proof -
  obtain rf where rf: "remmina_file_load mp_env mp_world ''/f'' = Ret (Some rf)" "''password'' \<in> set (rf_spsettings rf)"
    "remmina_file_get_string rf ''ssh_enabled'' = None" using mp_world_load by blast
  have "\<exists>mp' w' rf'. remmina_mpchange_dochange mp_env ''/f'' (mp_sample, mp_world) = Ret (mp', w') \<and>
      w_fs w' = w_fs mp_world \<and> remmina_file_load mp_env w' ''/f'' = Ret (Some rf') \<and>
      (\<forall>k. remmina_file_get_string rf' k = (if k = ''password'' then Some ''new'' else remmina_file_get_string rf k))"
    by (rule mpchange_replaces_password [OF alist_keyring.is_secret_service _ _ rf])
      (simp_all add: mp_sample_def remmina_mpchange_schedule_def mp_entry_text_def)
  then show ?thesis by metis
qed

theorem mpchange_touches_selected_witness:
  "\<exists>mp mp' w'. remmina_mpchange_dochange_clicked
      \<lparr>en_group = [], en_username = ''u'', en_domain = [], en_password1 = ''new'', en_password2 = ''new'',
        en_gateway_username = [], en_gateway_domain = [], en_gateway_password1 = [], en_gateway_password2 = []\<rparr>
      mp_sample = (None, mp) \<and>
    mpchange_run mp_env (length (mp_store mp)) (mp, mp_world) = Ret (mp', w') \<and>
    sec_get_password alist_secret (w_ks w') (remmina_file_new_empty\<lparr>rf_filename := Some ''/g''\<rparr>) ''password'' = Some ''mine''"
proof -
  let ?en = "\<lparr>en_group = [], en_username = ''u'', en_domain = [], en_password1 = ''new'', en_password2 = ''new'',
      en_gateway_username = [], en_gateway_domain = [], en_gateway_password1 = [], en_gateway_password2 = []\<rparr>"
  let ?mp = "mp_sample\<lparr>mp_sid := True\<rparr>"
  have c: "remmina_mpchange_dochange_clicked ?en mp_sample = (None, ?mp)"
    by (simp add: remmina_mpchange_dochange_clicked_def mp_sample_def remmina_mpchange_schedule_def mp_entry_text_def Let_def)
  obtain rf where rf: "remmina_file_load mp_env mp_world ''/f'' = Ret (Some rf)" "''password'' \<in> set (rf_spsettings rf)"
    using mp_world_load by blast
  then obtain m w' where d: "remmina_mpchange_dochange mp_env ''/f'' (?mp, mp_world) = Ret (m, w')"
    by (simp add: remmina_mpchange_dochange_def mpchange_store_def remmina_file_store_secret_plugin_password_def
        mp_sample_def remmina_mpchange_schedule_def mp_entry_text_def)
  have "mp_store m = mp_store ?mp \<and> mp_iter m = mp_iter ?mp" by (rule dochange_frame [OF d])
  then have r: "mpchange_run mp_env (length (mp_store ?mp)) (?mp, mp_world) = Ret (m\<lparr>mp_sid := False\<rparr>, w')"
    using d by (simp add: mp_sample_def remmina_mpchange_schedule_def changenext_def Let_def)
  have "sec_get_password alist_secret (w_ks w') (remmina_file_new_empty\<lparr>rf_filename := Some ''/g''\<rparr>) ''password'' =
      sec_get_password alist_secret (w_ks mp_world) (remmina_file_new_empty\<lparr>rf_filename := Some ''/g''\<rparr>) ''password''"
    using mpchange_touches_selected [OF alist_keyring.is_secret_service _ mp_world_available c _ r, of "''/g''"
        remmina_file_new_empty "''password''"]
    by (auto simp: mp_sample_def state_path_def)
  also have "\<dots> = Some ''mine''"
    by (simp add: mp_world_def sample_keyring_def remmina_plugin_glibsecret_def
        remmina_plugin_glibsecret_get_password_def path_of_def remmina_file_get_filename_def alist_keyring_def)
  finally show ?thesis using c r by blast
qed

text \<open>With no new password nothing is stored, and the profile is counted as changed all the same.\<close>

theorem mpchange_counts_unchanged:
  assumes "remmina_file_load env w f = Ret (Some rf)" "mp_password mp = []" "mp_gatewaypassword mp = []"
  shows "remmina_mpchange_dochange env f (mp, w) =
    Ret (mp\<lparr>mp_changed_passwords_count := mp_changed_passwords_count mp + 1\<rparr>, w)"
  using assms by (simp add: remmina_mpchange_dochange_def mpchange_store_def)

end
