(* ===== verification/ImportFile.thy ===== *)
theory ImportFile
  imports FileData GLib
begin

text \<open>
  What the import and export plugins of the RDP and SPICE profiles share: reading a file
  line by line through a GIOChannel, with the byte order mark choosing the encoding, and
  writing it with \<open>fprintf\<close>. The conversion from UTF-16 is a parameter.
\<close>

section \<open>Lines\<close>

definition CR :: char where "CR = CHR 0x0D"
definition LF :: char where "LF = CHR 0x0A"

text \<open>
  The line ends \<open>g_io_channel_read_line\<close> detects: line feed, carriage return with or without
  line feed, NUL and the paragraph separator U+2029. The result is the line without its
  terminator, as the callers cut it, and the rest.
\<close>

fun line_end :: "string \<Rightarrow> string option" where
  "line_end [] = None"
| "line_end (c # s) =
     (if c = LF \<or> c = NUL then Some s
      else if c = CR then (case s of d # r \<Rightarrow> if d = LF then Some r else Some s | [] \<Rightarrow> Some [])
      else if prefix [CHR 0xE2, CHR 0x80, CHR 0xA9] (c # s) then Some (drop 2 s)
      else None)"

fun read_line :: "string \<Rightarrow> string \<times> string" where
  "read_line [] = ([], [])"
| "read_line (c # s) =
     (case line_end (c # s) of
        Some r \<Rightarrow> ([], r)
      | None \<Rightarrow> let (l, r) = read_line s in (c # l, r))"

lemma line_end_length: "line_end s = Some r \<Longrightarrow> length r < length s"
  by (cases s) (auto split: if_splits list.splits)

lemma read_line_length: "s \<noteq> [] \<Longrightarrow> length (snd (read_line s)) < length s"
proof (induction s rule: read_line.induct)
  case (2 c s)
  show ?case
  proof (cases "line_end (c # s)")
    case None
    with 2 show ?thesis by (cases s) (auto simp: split_def Let_def less_Suc_eq simp del: line_end.simps)
  next
    case (Some r)
    with line_end_length [OF Some] show ?thesis by (simp del: line_end.simps)
  qed
qed simp

text \<open>The loop over the lines of a channel, up to the end of the file.\<close>

function io_lines :: "string \<Rightarrow> string list" where
  "io_lines s = (if s = [] then [] else let (l, r) = read_line s in l # io_lines r)"
  by pat_completeness auto
termination
  by (relation "measure length") (simp, metis in_measure read_line_length snd_conv)

declare io_lines.simps [simp del]

text \<open>Text that ends no line: no line feed, carriage return or NUL, and no paragraph separator.\<close>

definition paragraph_separator :: string where
  "paragraph_separator = [CHR 0xE2, CHR 0x80, CHR 0xA9]"

definition line_text :: "string \<Rightarrow> bool" where
  "line_text s \<longleftrightarrow> LF \<notin> set s \<and> CR \<notin> set s \<and> NUL \<notin> set s \<and> \<not> sublist paragraph_separator s"

text \<open>Characters that cannot even begin a line end.\<close>

definition line_char :: "char \<Rightarrow> bool" where
  "line_char c \<longleftrightarrow> c \<notin> {LF, CR, NUL, CHR 0xE2}"

lemma line_text_Nil [simp]: "line_text []"
  by (simp add: line_text_def paragraph_separator_def)

lemma line_text_Cons: "line_text (c # s) \<longleftrightarrow> c \<notin> {LF, CR, NUL} \<and> \<not> prefix paragraph_separator (c # s) \<and> line_text s"
  by (auto simp: line_text_def sublist_Cons_right)

lemma line_text_append: "list_all line_char l \<Longrightarrow> line_text t \<Longrightarrow> line_text (l @ t)"
  by (induction l) (auto simp: line_text_Cons line_char_def paragraph_separator_def)

lemma line_char_text: "list_all line_char l \<Longrightarrow> line_text l"
  using line_text_append[of l "[]"] by simp

lemma line_end_None:
  assumes "line_text (c # l)"
  shows "line_end (c # l @ CR # LF # s) = None"
proof -
  have "\<not> prefix paragraph_separator (c # l @ CR # LF # s)"
  proof
    assume p: "prefix paragraph_separator (c # l @ CR # LF # s)"
    have "\<not> prefix paragraph_separator (c # l)" using assms by (simp add: line_text_Cons)
    with p show False
      by (cases l; cases "tl l") (auto simp: paragraph_separator_def CR_def LF_def)
  qed
  with assms show ?thesis by (simp add: line_text_Cons paragraph_separator_def)
qed

lemma read_line_append:
  "line_text l \<Longrightarrow> read_line (l @ CR # LF # s) = (l, s)"
proof (induction l)
  case Nil
  then show ?case by (simp add: CR_def LF_def)
next
  case (Cons c l)
  have "read_line (l @ CR # LF # s) = (l, s)" using Cons by (simp add: line_text_Cons)
  with line_end_None[OF Cons.prems, of s] show ?case by (simp del: line_end.simps)
qed

lemma io_lines_text: "list_all line_text ls \<Longrightarrow> io_lines (concat (map (\<lambda>l. l @ [CR, LF]) ls)) = ls"
proof (induction ls)
  case Nil
  then show ?case by (simp add: io_lines.simps)
next
  case (Cons l ls)
  then show ?case by (subst io_lines.simps) (simp add: read_line_append)
qed

lemma line_char_digits: "list_all line_char (show_gint i)"
proof -
  have "line_char c" if "isdigit c \<or> c = CHR ''-''" for c
    using that by (auto simp: line_char_def LF_def CR_def isdigit_def)
  moreover have "isdigit c \<or> c = CHR ''-''" if "c \<in> set (show_gint i)" for c
    using that show_nat_digits by (auto simp: show_gint_def show_int_def split: if_splits)
  ultimately show ?thesis by (auto simp: list_all_iff)
qed

lemma line_char_all: "list_all line_char ''abcdefghijklmnopqrstuvwxyz 0123456789''"
  by (simp add: line_char_def LF_def CR_def)

lemmas line_char_simps [simp] = line_char_all [unfolded list.pred_inject simp_thms]

section \<open>Opening the channel\<close>

datatype io_encoding = UTF_8 | UTF_16LE | UTF_16BE

text \<open>
  The bytes up to the point where the conversion fails, decoded. Reading two bytes from an
  empty file reports its end without an error object, which the code then dereferences.
\<close>

definition io_channel_text :: "(io_encoding \<Rightarrow> string \<Rightarrow> string) \<Rightarrow> string \<Rightarrow> string c_result" where
  "io_channel_text decode bytes =
     (if bytes = [] then Crash
      else if take 2 bytes = [CHR 0xFF, CHR 0xFE] then Ret (decode UTF_16LE (drop 2 bytes))
      else if take 2 bytes = [CHR 0xFE, CHR 0xFF] then Ret (decode UTF_16BE (drop 2 bytes))
      else Ret (decode UTF_8 bytes))"

text \<open>The extension after the last dot of a path.\<close>

definition path_extension :: "string \<Rightarrow> cstr" where
  "path_extension path = map_option snd (rsplit_at (CHR ''.'') path)"

section \<open>Integer settings as strings\<close>

lemma set_int_is_set_string:
  "k \<noteq> ''resolution'' \<Longrightarrow> remmina_file_set_int rf k i = remmina_file_set_string rf k (Some (show_gint i))"
  by (simp add: remmina_file_set_int_def remmina_file_set_string_def)

lemma get_int_string:
  "k \<noteq> ''resolution'' \<Longrightarrow> remmina_file_get_int rf k d =
     (case remmina_file_get_string rf k of
        None \<Rightarrow> d | Some v \<Rightarrow> if hd v = CHR ''t'' then 1 else atoi v)"
  by (auto simp: remmina_file_get_int_def remmina_file_get_string_def split: option.splits)

lemma non_empty_get: "remmina_file_get_string rf k = Some v \<Longrightarrow> non_empty (Some v) = Some v"
  using get_string_non_empty [of rf k] by simp

end
