(* ===== verification/RdpFile.thy ===== *)
theory RdpFile
  imports ImportFile
begin

text \<open>
  The .rdp files of \<open>plugins/rdp/rdp_file.c\<close>: reading one into a connection profile and
  writing a profile as one. A file is a list of fields with a name, a type letter and a
  value. The defaults a new profile starts from and the FreeRDP constant
  \<open>TSC_PROXY_MODE_DETECT\<close> are parameters.
\<close>

section \<open>Import\<close>

definition remmina_rdp_file_import_test :: "string \<Rightarrow> bool" where
  "remmina_rdp_file_import_test from_file =
     (case path_extension from_file of None \<Rightarrow> False | Some ext \<Rightarrow> ext = ''RDP'' \<or> ext = ''rdp'')"

definition remmina_rdp_file_import_field :: "gint \<Rightarrow> string \<Rightarrow> string \<Rightarrow> rfile \<Rightarrow> rfile" where
  "remmina_rdp_file_import_field tsc_proxy_mode_detect key value rf =
    (if key = ''desktopwidth'' then remmina_file_set_string rf ''resolution_width'' (Some value)
     else if key = ''desktopheight'' then remmina_file_set_string rf ''resolution_height'' (Some value)
     else if key = ''session bpp'' then remmina_file_set_string rf ''colordepth'' (Some value)
     else if key = ''keyboardhook'' then remmina_file_set_int rf ''keyboard_grab'' (of_bool (atoi value = 1))
     else if key = ''full address'' then remmina_file_set_string rf ''server'' (Some value)
     else if key = ''audiomode'' then 
       (if atoi value = 0 then remmina_file_set_string rf ''sound'' (Some ''local'')
        else if atoi value = 1 then remmina_file_set_string rf ''sound'' (Some ''remote'') else rf)
     else if key = ''redirectprinters'' then remmina_file_set_int rf ''shareprinter'' (of_bool (atoi value = 1))
     else if key = ''redirectsmartcard'' then remmina_file_set_int rf ''sharesmartcard'' (of_bool (atoi value = 1))
     else if key = ''redirectclipboard'' then remmina_file_set_int rf ''disableclipboard'' (of_bool (atoi value \<noteq> 1))
     else if key = ''alternate shell'' then remmina_file_set_string rf ''exec'' (Some value)
     else if key = ''shell working directory'' then remmina_file_set_string rf ''execpath'' (Some value)
     else if key = ''loadbalanceinfo'' then remmina_file_set_string rf ''loadbalanceinfo'' (Some value)
     else if key = ''gatewayhostname'' then remmina_file_set_string rf ''gateway_server'' (Some value)
     else if key = ''gatewayusagemethod'' then remmina_file_set_int rf ''gateway_usage'' (of_bool (atoi value = tsc_proxy_mode_detect))
     else if key = ''gatewayaccesstoken'' then remmina_file_set_string rf ''gatewayaccesstoken'' (Some value)
     else if key = ''authentication level'' then remmina_file_set_int rf ''authentication level'' (atoi value)
     else if key = ''client hostname'' then remmina_file_set_string rf ''clientname'' (Some value)
     else if key = ''domain'' then remmina_file_set_string rf ''domain'' (Some value)
     else if key = ''username'' then remmina_file_set_string rf ''username'' (Some value)
     else if key = ''password'' then remmina_file_set_string rf ''password'' (Some value)
     else rf)"

text \<open>One line: the text before the first colon, and what follows the second.\<close>

definition rdp_import_line :: "gint \<Rightarrow> string \<Rightarrow> rfile \<Rightarrow> rfile" where
  "rdp_import_line tsc line rf =
     (case split_at (CHR '':'') line of
        (key, Some p) \<Rightarrow>
          (case split_at (CHR '':'') p of
             (_, Some value) \<Rightarrow> remmina_rdp_file_import_field tsc key value rf
           | _ \<Rightarrow> rf)
      | _ \<Rightarrow> rf)"

definition remmina_rdp_file_import_channel ::
  "(io_encoding \<Rightarrow> string \<Rightarrow> string) \<Rightarrow> gint \<Rightarrow> rfile \<Rightarrow> string \<Rightarrow> rfile c_result" where
  "remmina_rdp_file_import_channel decode tsc new bytes =
     c_bind (io_channel_text decode bytes) (\<lambda>text.
       let rf = fold (rdp_import_line tsc) (io_lines text) new;
           rf = remmina_file_set_string rf ''name'' (remmina_file_get_string rf ''server'')
       in Ret (remmina_file_set_string rf ''protocol'' (Some ''RDP'')))"

definition remmina_rdp_file_import ::
  "(io_encoding \<Rightarrow> string \<Rightarrow> string) \<Rightarrow> gint \<Rightarrow> rfile \<Rightarrow> files \<Rightarrow> string \<Rightarrow> rfile option c_result" where
  "remmina_rdp_file_import decode tsc new fs from_file =
     (case fs from_file of
        None \<Rightarrow> Ret None
      | Some bytes \<Rightarrow> c_bind (remmina_rdp_file_import_channel decode tsc new bytes) (\<lambda>rf. Ret (Some rf)))"

section \<open>Export\<close>

definition remmina_rdp_file_export_test :: "rfile \<Rightarrow> bool" where
  "remmina_rdp_file_export_test rf \<longleftrightarrow> remmina_file_get_string rf ''protocol'' = Some ''RDP''"

definition rdp_text :: "rfile \<Rightarrow> string \<Rightarrow> string" where
  "rdp_text rf setting = (case remmina_file_get_string rf setting of None \<Rightarrow> [] | Some cs \<Rightarrow> cs)"

definition rdp_flag :: "rfile \<Rightarrow> string \<Rightarrow> string" where
  "rdp_flag rf setting = (if remmina_file_get_int rf setting 0 \<noteq> 0 then ''1'' else ''0'')"

text \<open>The fields in the order of the \<open>fprintf\<close> calls: name, type letter, value.\<close>

definition rdp_export_fields :: "rfile \<Rightarrow> (string \<times> string \<times> string) list" where
  "rdp_export_fields rf =
     (let i = (\<lambda>k v. (k, ''i'', v)); s = (\<lambda>k v. (k, ''s'', v));
          w = remmina_file_get_int rf ''resolution_width'' (-1);
          h = remmina_file_get_int rf ''resolution_height'' (-1);
          sound = remmina_file_get_string rf ''sound'';
          microphone = remmina_file_get_string rf ''microphone''
      in [i ''screen mode id'' ''2''] @
         (if 0 < sint w \<and> 0 < sint h
          then [i ''desktopwidth'' (show_gint w), i ''desktopheight'' (show_gint h)] else []) @
         [i ''session bpp'' (show_gint (remmina_file_get_int rf ''colordepth'' 8)),
          i ''compression'' ''1'', i ''keyboardhook'' ''2'', i ''displayconnectionbar'' ''1'',
          i ''disable wallpaper'' ''1'', i ''disable full window drag'' ''1'',
          i ''allow desktop composition'' ''0'', i ''allow font smoothing'' ''0'',
          i ''disable menu anims'' ''1'', i ''disable themes'' ''0'', i ''disable cursor setting'' ''0'',
          i ''bitmapcachepersistenable'' ''1'', s ''full address'' (rdp_text rf ''server''),
          i ''audiomode'' (if sound = Some ''local'' then ''0'' else if sound = Some ''remote'' then ''1'' else ''2''),
          i ''audiocapturemode'' (if microphone = Some [] then ''0'' else if microphone = Some ''0'' then ''1'' else ''1''),
          i ''redirectprinters'' (rdp_flag rf ''shareprinter''),
          i ''redirectsmartcard'' (rdp_flag rf ''sharesmartcard''), i ''redirectcomports'' ''0'',
          i ''redirectsmartcards'' ''0'', i ''redirectclipboard'' ''1'', i ''redirectposdevices'' ''0'',
          i ''autoreconnection enabled'' ''1'', i ''authentication level'' ''0'',
          i ''prompt for credentials'' ''1'', i ''negotiate security layer'' ''1'',
          i ''remoteapplicationmode'' ''0'', s ''alternate shell'' (rdp_text rf ''exec''),
          s ''shell working directory'' (rdp_text rf ''execpath''),
          s ''gatewayhostname'' (rdp_text rf ''gateway_server''), i ''gatewayusagemethod'' ''4'',
          i ''gatewaycredentialssource'' ''4'', i ''gatewayprofileusagemethod'' ''0'', s ''precommand'' [],
          i ''promptcredentialonce'' ''1'', s ''drivestoredirect'' []])"

definition rdp_field_line :: "string \<times> string \<times> string \<Rightarrow> string" where
  "rdp_field_line = (\<lambda>(key, type, value). key @ '':'' @ type @ '':'' @ value)"

definition remmina_rdp_file_export_channel :: "rfile \<Rightarrow> string" where
  "remmina_rdp_file_export_channel rf =
     concat (map (\<lambda>f. rdp_field_line f @ [CR, LF]) (rdp_export_fields rf))"

definition remmina_rdp_file_export :: "(string \<Rightarrow> bool) \<Rightarrow> rfile \<Rightarrow> string \<Rightarrow> files \<Rightarrow> bool \<times> files" where
  "remmina_rdp_file_export can_open rf to_file fs =
     (if can_open to_file then (True, fs(to_file \<mapsto> remmina_rdp_file_export_channel rf)) else (False, fs))"

section \<open>Reading back what was written\<close>

text \<open>Fields whose names and types have no colon and whose parts end no line.\<close>

definition rdp_field_ok :: "string \<times> string \<times> string \<Rightarrow> bool" where
  "rdp_field_ok = (\<lambda>(key, type, value).
     CHR '':'' \<notin> set key \<and> CHR '':'' \<notin> set type \<and>
     list_all line_char key \<and> list_all line_char type \<and> line_text value)"

lemma rdp_import_field_line:
  "rdp_field_ok (key, type, value) \<Longrightarrow>
     rdp_import_line tsc (rdp_field_line (key, type, value)) rf = remmina_rdp_file_import_field tsc key value rf"
  by (simp add: rdp_field_ok_def rdp_import_line_def rdp_field_line_def split_at_append)

lemma rdp_import_lines:
  "list_all rdp_field_ok entries \<Longrightarrow>
     fold (rdp_import_line tsc) (io_lines (concat (map (\<lambda>f. rdp_field_line f @ [CR, LF]) entries))) rf =
       fold (\<lambda>(key, type, value). remmina_rdp_file_import_field tsc key value) entries rf"
proof -
  assume ok: "list_all rdp_field_ok entries"
  then have "list_all line_text (map rdp_field_line entries)"
    by (induction entries) (auto simp: rdp_field_ok_def rdp_field_line_def intro!: line_text_append,
        simp_all add: line_text_Cons line_text_append paragraph_separator_def LF_def CR_def)
  from io_lines_text [OF this]
  have "io_lines (concat (map (\<lambda>f. rdp_field_line f @ [CR, LF]) entries)) = map rdp_field_line entries"
    by (simp add: comp_def)
  moreover have "fold (rdp_import_line tsc) (map rdp_field_line entries) rf =
      fold (\<lambda>(key, type, value). remmina_rdp_file_import_field tsc key value) entries rf"
    using ok by (induction entries arbitrary: rf) (auto simp: rdp_import_field_line)
  ultimately show ?thesis by simp
qed

section \<open>Properties\<close>

text \<open>The settings an .rdp file can carry: no text in them ends a line.\<close>

definition rdp_texts_ok :: "rfile \<Rightarrow> bool" where
  "rdp_texts_ok rf \<longleftrightarrow>
     list_all (\<lambda>k. line_text (rdp_text rf k)) [''server'', ''exec'', ''execpath'', ''gateway_server'']"

lemma rdp_field_ok_triple:
  "rdp_field_ok (key, type, value) \<longleftrightarrow> CHR '':'' \<notin> set key \<and> CHR '':'' \<notin> set type \<and>
     list_all line_char key \<and> list_all line_char type \<and> line_text value"
  by (simp add: rdp_field_ok_def)

lemma rdp_flag_ok: "line_text (rdp_flag rf k)"
  by (simp add: rdp_flag_def line_char_text line_char_simps)

lemma rdp_export_fields_ok: "rdp_texts_ok rf \<Longrightarrow> list_all rdp_field_ok (rdp_export_fields rf)"
  by (simp add: rdp_export_fields_def rdp_field_ok_triple rdp_texts_ok_def line_char_simps rdp_flag_ok
      line_char_digits line_char_text Let_def)

text \<open>The import of the exported fields, as the settings it makes in turn.\<close>

definition rdp_imported :: "gint \<Rightarrow> rfile \<Rightarrow> (string \<times> cstr) list" where
  "rdp_imported tsc rf =
     (let num = (\<lambda>k i. (k, Some (show_gint i))); flag = (\<lambda>k. num k (of_bool (remmina_file_get_int rf k 0 \<noteq> 0)));
          text = (\<lambda>k. (k, Some (rdp_text rf k)));
          w = remmina_file_get_int rf ''resolution_width'' (-1);
          h = remmina_file_get_int rf ''resolution_height'' (-1);
          sound = remmina_file_get_string rf ''sound''
      in (if 0 < sint w \<and> 0 < sint h then [num ''resolution_width'' w, num ''resolution_height'' h] else []) @
         [num ''colordepth'' (remmina_file_get_int rf ''colordepth'' 8), num ''keyboard_grab'' 0, text ''server''] @
         (if sound = Some ''local'' \<or> sound = Some ''remote'' then [(''sound'', sound)] else []) @
         [flag ''shareprinter'', flag ''sharesmartcard'', num ''disableclipboard'' 0, num ''authentication level'' 0,
          text ''exec'', text ''execpath'', text ''gateway_server'', num ''gateway_usage'' (of_bool (4 = tsc))])"

lemma atoi_digit: "isdigit c \<Longrightarrow> atoi [c] = of_nat (digit_val c)"
  by (auto simp: atoi_def scan_dec_def scan_sign_def isspace_def isdigit_def long_to_gint_def Let_def digit_val_def)

lemma atoi_literals: "atoi ''0'' = 0" "atoi ''1'' = 1" "atoi ''2'' = 2" "atoi ''4'' = 4"
  by (simp_all add: atoi_digit isdigit_def digit_val_def)

lemma atoi_flag: "atoi (rdp_flag rf k) = of_bool (remmina_file_get_int rf k 0 \<noteq> 0)"
  by (simp add: rdp_flag_def atoi_literals)

lemma rdp_import_exported:
  "fold (\<lambda>(key, type, value). remmina_rdp_file_import_field tsc key value) (rdp_export_fields rf) rf0 =
     rf.set_all (rdp_imported tsc rf) rf0"
  by (simp add: rdp_export_fields_def rdp_imported_def rf.set_all_def Let_def remmina_rdp_file_import_field_def
      set_int_is_set_string atoi_literals atoi_flag)

lemma rdp_imported_settable: "\<forall>(k, v) \<in> set (rdp_imported tsc rf). k \<noteq> ''resolution''"
  by (auto simp: rdp_imported_def Let_def)

lemma rdp_import_export:
  assumes "rdp_texts_ok rf" and "decode UTF_8 = id"
  shows "remmina_rdp_file_import_channel decode tsc new (remmina_rdp_file_export_channel rf) =
    (let rf' = rf.set_all (rdp_imported tsc rf) new;
         rf' = remmina_file_set_string rf' ''name'' (remmina_file_get_string rf' ''server'')
     in Ret (remmina_file_set_string rf' ''protocol'' (Some ''RDP'')))"
proof -
  have "take 2 (remmina_rdp_file_export_channel rf) = ''sc''" "remmina_rdp_file_export_channel rf \<noteq> []"
    by (simp_all add: remmina_rdp_file_export_channel_def rdp_export_fields_def rdp_field_line_def Let_def)
  then have "io_channel_text decode (remmina_rdp_file_export_channel rf) = Ret (remmina_rdp_file_export_channel rf)"
    by (simp add: io_channel_text_def assms(2))
  moreover have "fold (rdp_import_line tsc) (io_lines (remmina_rdp_file_export_channel rf)) new =
      rf.set_all (rdp_imported tsc rf) new"
    unfolding remmina_rdp_file_export_channel_def
    by (simp add: rdp_import_lines [OF rdp_export_fields_ok [OF assms(1)]] rdp_import_exported)
  ultimately show ?thesis by (simp add: remmina_rdp_file_import_channel_def Let_def)
qed

lemma rdp_text_get: "non_empty (Some (rdp_text rf k)) = remmina_file_get_string rf k"
proof (cases "remmina_file_get_string rf k")
  case None
  then show ?thesis by (simp add: rdp_text_def)
next
  case (Some v)
  then have "v \<noteq> []" by (auto simp: remmina_file_get_string_def split: if_splits option.splits)
  with Some show ?thesis by (simp add: rdp_text_def non_empty_Some)
qed

lemma rdp_imported_map:
  "map_of (rev (rdp_imported tsc rf)) ''server'' = Some (Some (rdp_text rf ''server''))"
  "map_of (rev (rdp_imported tsc rf)) ''exec'' = Some (Some (rdp_text rf ''exec''))"
  "map_of (rev (rdp_imported tsc rf)) ''execpath'' = Some (Some (rdp_text rf ''execpath''))"
  "map_of (rev (rdp_imported tsc rf)) ''gateway_server'' = Some (Some (rdp_text rf ''gateway_server''))"
  "map_of (rev (rdp_imported tsc rf)) ''sound'' =
     (if remmina_file_get_string rf ''sound'' \<in> {Some ''local'', Some ''remote''}
      then Some (remmina_file_get_string rf ''sound'') else None)"
  "map_of (rev (rdp_imported tsc rf)) ''colordepth'' = Some (Some (show_gint (remmina_file_get_int rf ''colordepth'' 8)))"
  "map_of (rev (rdp_imported tsc rf)) ''keyboard_grab'' = Some (Some (show_gint 0))"
  "map_of (rev (rdp_imported tsc rf)) ''disableclipboard'' = Some (Some (show_gint 0))"
  "map_of (rev (rdp_imported tsc rf)) ''shareprinter'' =
     Some (Some (show_gint (of_bool (remmina_file_get_int rf ''shareprinter'' 0 \<noteq> 0))))"
  "map_of (rev (rdp_imported tsc rf)) ''sharesmartcard'' =
     Some (Some (show_gint (of_bool (remmina_file_get_int rf ''sharesmartcard'' 0 \<noteq> 0))))"
  by (simp_all add: rdp_imported_def Let_def)

lemma rdp_imported_resolution:
  assumes "0 < sint (remmina_file_get_int rf ''resolution_width'' (-1))"
    and "0 < sint (remmina_file_get_int rf ''resolution_height'' (-1))"
  shows "map_of (rev (rdp_imported tsc rf)) ''resolution_width'' =
      Some (Some (show_gint (remmina_file_get_int rf ''resolution_width'' (-1))))"
    and "map_of (rev (rdp_imported tsc rf)) ''resolution_height'' =
      Some (Some (show_gint (remmina_file_get_int rf ''resolution_height'' (-1))))"
  using assms by (simp_all add: rdp_imported_def Let_def)

text \<open>
  C34: A profile exported to an .rdp file and imported again keeps its server, program, working
  directory and gateway, when none of these four texts ends a line (no line feed, carriage return,
  NUL or paragraph separator U+2029) and the UTF-8 conversion of the reading channel changes nothing.
  It keeps a chosen resolution, the sound setting when it is local or remote, the sharing of printers
  and smart cards, and a colour depth that is set; an unset colour depth becomes 8, whatever the
  default of the reader (99 in the RDP plugin). The profile is named after its server, and keyboard
  grabbing is off and the clipboard shared, whatever they were.
\<close>

theorem rdp_export_import:
  assumes "rdp_texts_ok rf" and "decode UTF_8 = id"
  shows "\<exists>rf'. remmina_rdp_file_import_channel decode tsc new (remmina_rdp_file_export_channel rf) = Ret rf' \<and>
    map (remmina_file_get_string rf') [''server'', ''exec'', ''execpath'', ''gateway_server'', ''name'', ''protocol''] =
      map (remmina_file_get_string rf) [''server'', ''exec'', ''execpath'', ''gateway_server'', ''server''] @ [Some ''RDP''] \<and>
    remmina_file_get_string rf' ''sound'' =
      (if remmina_file_get_string rf ''sound'' \<in> {Some ''local'', Some ''remote''}
       then remmina_file_get_string rf ''sound'' else remmina_file_get_string new ''sound'') \<and>
    (\<forall>d. remmina_file_get_int rf' ''colordepth'' d = remmina_file_get_int rf ''colordepth'' 8) \<and>
    (0 < sint (remmina_file_get_int rf ''resolution_width'' (-1)) \<and>
     0 < sint (remmina_file_get_int rf ''resolution_height'' (-1)) \<longrightarrow>
      remmina_file_get_int rf' ''resolution_width'' (-1) = remmina_file_get_int rf ''resolution_width'' (-1) \<and>
      remmina_file_get_int rf' ''resolution_height'' (-1) = remmina_file_get_int rf ''resolution_height'' (-1)) \<and>
    map (\<lambda>k. remmina_file_get_int rf' k 0 \<noteq> 0) [''shareprinter'', ''sharesmartcard'', ''keyboard_grab'', ''disableclipboard''] =
      [remmina_file_get_int rf ''shareprinter'' 0 \<noteq> 0, remmina_file_get_int rf ''sharesmartcard'' 0 \<noteq> 0, False, False]"
proof -
  let ?r = "rf.set_all (rdp_imported tsc rf) new"
  let ?rf' = "remmina_file_set_string (remmina_file_set_string ?r ''name'' (remmina_file_get_string ?r ''server''))
    ''protocol'' (Some ''RDP'')"
  have imp: "remmina_rdp_file_import_channel decode tsc new (remmina_rdp_file_export_channel rf) = Ret ?rf'"
    using rdp_import_export [where decode = decode, OF assms] by (simp add: Let_def)
  note get = rf.get_set_all [OF rdp_imported_settable, of tsc rf new]
  have str: "remmina_file_get_string ?r k = remmina_file_get_string rf k"
    if "k \<in> {''server'', ''exec'', ''execpath'', ''gateway_server''}" for k
    using that by (elim insertE emptyE) (simp_all add: get rdp_imported_map rdp_text_get)
  have snd: "remmina_file_get_string ?r ''sound'' =
      (if remmina_file_get_string rf ''sound'' \<in> {Some ''local'', Some ''remote''}
       then remmina_file_get_string rf ''sound'' else remmina_file_get_string new ''sound'')"
    by (auto simp: get rdp_imported_map)
  have num: "\<And>d. remmina_file_get_int ?r ''colordepth'' d = remmina_file_get_int rf ''colordepth'' 8"
    "remmina_file_get_int ?r ''keyboard_grab'' 0 = 0" "remmina_file_get_int ?r ''disableclipboard'' 0 = 0"
    "remmina_file_get_int ?r ''shareprinter'' 0 = of_bool (remmina_file_get_int rf ''shareprinter'' 0 \<noteq> 0)"
    "remmina_file_get_int ?r ''sharesmartcard'' 0 = of_bool (remmina_file_get_int rf ''sharesmartcard'' 0 \<noteq> 0)"
    by (simp_all add: get_int_string get rdp_imported_map non_empty_Some hd_show_gint)
  have res: "remmina_file_get_int ?r k (-1) = remmina_file_get_int rf k (-1)"
    if "0 < sint (remmina_file_get_int rf ''resolution_width'' (-1))"
      "0 < sint (remmina_file_get_int rf ''resolution_height'' (-1))"
      "k \<in> {''resolution_width'', ''resolution_height''}" for k
    using that(3) by (elim insertE emptyE)
      (simp_all add: get_int_string [of _ ?r] get rdp_imported_resolution [OF that(1,2)] non_empty_Some hd_show_gint)
  have int: "remmina_file_get_int (remmina_file_set_string (remmina_file_set_string r ''name'' a) ''protocol'' b) k d =
      remmina_file_get_int r k d" if "k \<notin> {''resolution'', ''name'', ''protocol''}" for r a b k d
    using that by (simp add: get_int_string get_set_string)
  show ?thesis
    by (intro exI [of _ ?rf'] conjI imp)
      (simp_all add: get_set_string str snd num res int get_string_non_empty)
qed

theorem rdp_export_import_witness:
  "\<exists>rf'. remmina_rdp_file_import_channel (\<lambda>e t. t) 2 remmina_file_new_empty (remmina_rdp_file_export_channel
       (remmina_file_set_string remmina_file_new_empty ''server'' (Some ''h:3390''))) = Ret rf' \<and>
     remmina_file_get_string rf' ''server'' = Some ''h:3390''"
proof -
  let ?rf = "remmina_file_set_string remmina_file_new_empty ''server'' (Some ''h:3390'')"
  have "rdp_text ?rf k = (if k = ''server'' then ''h:3390'' else [])" for k
    by (simp add: rdp_text_def get_set_string non_empty_Some) (simp add: remmina_file_get_string_def remmina_file_new_empty_def)
  then have ok: "rdp_texts_ok ?rf" by (simp add: rdp_texts_ok_def) (simp add: line_char_text line_char_def LF_def CR_def)
  have id: "(\<lambda>e t. t) UTF_8 = (id :: string \<Rightarrow> string)" by (simp add: id_def)
  from rdp_export_import [where decode = "\<lambda>e t. t", OF ok id, of 2 remmina_file_new_empty]
  obtain rf' where "remmina_rdp_file_import_channel (\<lambda>e t. t) 2 remmina_file_new_empty
      (remmina_rdp_file_export_channel ?rf) = Ret rf'" and
    "map (remmina_file_get_string rf') [''server'', ''exec'', ''execpath'', ''gateway_server'', ''name'', ''protocol''] =
      map (remmina_file_get_string ?rf) [''server'', ''exec'', ''execpath'', ''gateway_server'', ''server''] @ [Some ''RDP'']"
    by blast
  then show ?thesis by (simp add: get_set_string non_empty_Some)
qed

end
