(* ===== verification/SpiceFile.thy ===== *)
theory SpiceFile
  imports ImportFile
begin

text \<open>
  The .vv files of \<open>plugins/spice/spice_file.c\<close>: reading one into a connection profile and
  writing a profile as one. The host and the port are kept in two local buffers until the
  end of the file.
\<close>

section \<open>Import\<close>

definition remmina_spice_file_import_test :: "string \<Rightarrow> bool" where
  "remmina_spice_file_import_test from_file =
     (case path_extension from_file of None \<Rightarrow> False | Some ext \<Rightarrow> ext = ''vv'')"

text \<open>\<open>strncpy\<close> into a buffer of \<open>n\<close> bytes: \<open>None\<close> is a buffer without a terminating NUL.\<close>

definition strncpy_buffer :: "nat \<Rightarrow> string \<Rightarrow> cstr" where
  "strncpy_buffer n value = (if length value < n then Some value else None)"

definition remmina_spice_file_import_field ::
  "string \<Rightarrow> string \<Rightarrow> rfile \<times> cstr \<times> cstr \<Rightarrow> rfile \<times> cstr \<times> cstr" where
  "remmina_spice_file_import_field key value = (\<lambda>(rf, host, port).
     if key = ''fullscreen'' then (remmina_file_set_int rf ''viewmode'' (if atoi value = 1 then 2 else 1), host, port)
     else if key = ''username'' then (remmina_file_set_string rf ''username'' (Some value), host, port)
     else if key = ''title'' then (remmina_file_set_string rf ''name'' (Some value), host, port)
     else if key = ''proxy'' then (remmina_file_set_string rf ''proxy'' (Some value), host, port)
     else if key = ''host'' then (rf, strncpy_buffer 200 value, port)
     else if key = ''port'' then (rf, host, strncpy_buffer 10 value)
     else (rf, host, port))"

definition spice_import_line :: "string \<Rightarrow> rfile \<times> cstr \<times> cstr \<Rightarrow> rfile \<times> cstr \<times> cstr" where
  "spice_import_line line s =
     (case split_at (CHR ''='') line of
        (key, Some value) \<Rightarrow> remmina_spice_file_import_field key value s
      | _ \<Rightarrow> s)"

text \<open>The server; measuring a buffer that is not terminated runs past its end.\<close>

definition spice_import_server :: "cstr \<Rightarrow> cstr \<Rightarrow> string c_result" where
  "spice_import_server host port =
     (case (host, port) of
        (Some h, Some p) \<Rightarrow> Ret (if p \<noteq> [] then h @ p else h)
      | _ \<Rightarrow> Crash)"

definition remmina_spice_file_import_channel ::
  "(io_encoding \<Rightarrow> string \<Rightarrow> string) \<Rightarrow> rfile \<Rightarrow> string \<Rightarrow> rfile c_result" where
  "remmina_spice_file_import_channel decode new bytes =
     c_bind (io_channel_text decode bytes) (\<lambda>text.
       let (rf, host, port) = fold spice_import_line (io_lines text) (new, Some [], Some [])
       in c_bind (spice_import_server host port) (\<lambda>server.
            let rf = remmina_file_set_string rf ''server'' (Some server);
                rf = (if remmina_file_get_string rf ''name'' = None
                      then remmina_file_set_string rf ''name'' (remmina_file_get_string rf ''server'') else rf)
            in Ret (remmina_file_set_string rf ''protocol'' (Some ''SPICE''))))"

definition remmina_spice_file_import ::
  "(io_encoding \<Rightarrow> string \<Rightarrow> string) \<Rightarrow> rfile \<Rightarrow> files \<Rightarrow> string \<Rightarrow> rfile option c_result" where
  "remmina_spice_file_import decode new fs from_file =
     (case fs from_file of
        None \<Rightarrow> Ret None
      | Some bytes \<Rightarrow> c_bind (remmina_spice_file_import_channel decode new bytes) (\<lambda>rf. Ret (Some rf)))"

section \<open>Export\<close>

definition spice_export_server :: "string \<Rightarrow> (string \<times> string) list" where
  "spice_export_server cs =
     (if prefix ''unix://'' cs then [(''host'', cs)]
      else case split_at (CHR '':'') cs of
             (host, Some port) \<Rightarrow> [(''host'', host), (''port'', port)]
           | (host, None) \<Rightarrow> [(''host'', host)])"

definition spice_export_text :: "rfile \<Rightarrow> string \<Rightarrow> string \<Rightarrow> (string \<times> string) list" where
  "spice_export_text rf setting key =
     (case remmina_file_get_string rf setting of None \<Rightarrow> [] | Some cs \<Rightarrow> [(key, cs)])"

definition spice_export_fields :: "rfile \<Rightarrow> (string \<times> string) list" where
  "spice_export_fields rf =
     [(''type'', ''spice'')] @
     (case remmina_file_get_string rf ''server'' of None \<Rightarrow> [] | Some cs \<Rightarrow> spice_export_server cs) @
     [(''fullscreen'', if 2 \<le> sint (remmina_file_get_int rf ''viewmode'' 0) then ''1'' else ''0'')] @
     spice_export_text rf ''username'' ''username'' @ spice_export_text rf ''name'' ''title'' @
     spice_export_text rf ''proxy'' ''proxy''"

definition spice_field_line :: "string \<times> string \<Rightarrow> string" where
  "spice_field_line = (\<lambda>(key, value). key @ ''='' @ value)"

definition remmina_spice_file_export_channel :: "rfile \<Rightarrow> string" where
  "remmina_spice_file_export_channel rf =
     concat (map (\<lambda>l. l @ [CR, LF]) (''[virt-viewer]'' # map spice_field_line (spice_export_fields rf)))"

definition remmina_spice_file_export_test :: "rfile \<Rightarrow> bool" where
  "remmina_spice_file_export_test rf \<longleftrightarrow> remmina_file_get_string rf ''protocol'' = Some ''SPICE''"

definition remmina_spice_file_export :: "(string \<Rightarrow> bool) \<Rightarrow> rfile \<Rightarrow> string \<Rightarrow> files \<Rightarrow> bool \<times> files" where
  "remmina_spice_file_export can_open rf to_file fs =
     (if can_open to_file then (True, fs(to_file \<mapsto> remmina_spice_file_export_channel rf)) else (False, fs))"

section \<open>Reading back what was written\<close>

lemma spice_import_lines:
  assumes "list_all (\<lambda>(k, v). CHR ''='' \<notin> set k \<and> list_all line_char k \<and> list_all line_char v) es"
  shows "fold spice_import_line (io_lines (concat (map (\<lambda>l. l @ [CR, LF]) (''[virt-viewer]'' # map spice_field_line es)))) s =
    fold (\<lambda>(k, v). remmina_spice_file_import_field k v) es s"
proof -
  have "list_all (list_all line_char) (map spice_field_line es)"
    using assms by (induction es) (auto simp: spice_field_line_def, simp add: line_char_def CR_def LF_def)
  then have "list_all line_text (map spice_field_line es)" by (auto simp: list_all_iff line_char_text)
  moreover have "line_text ''[virt-viewer]''" by (rule line_char_text) (simp add: line_char_def LF_def CR_def)
  ultimately have l: "io_lines (concat (map (\<lambda>l. l @ [CR, LF]) (''[virt-viewer]'' # map spice_field_line es))) =
      ''[virt-viewer]'' # map spice_field_line es"
    by (intro io_lines_text) simp
  have "spice_import_line (spice_field_line (k, v)) t = remmina_spice_file_import_field k v t"
    if "CHR ''='' \<notin> set k" for k v t
    using that by (simp add: spice_import_line_def spice_field_line_def split_at_append)
  then have "fold spice_import_line (map spice_field_line es) s = fold (\<lambda>(k, v). remmina_spice_file_import_field k v) es s"
    using assms by (induction es arbitrary: s) auto
  moreover have "spice_import_line ''[virt-viewer]'' s = s"
    by (simp add: spice_import_line_def split_at_def)
  ultimately show ?thesis unfolding l by simp
qed

section \<open>Properties\<close>

definition spice_texts_ok :: "rfile \<Rightarrow> bool" where
  "spice_texts_ok rf \<longleftrightarrow>
     list_all (\<lambda>k. case remmina_file_get_string rf k of None \<Rightarrow> True | Some v \<Rightarrow> list_all line_char v)
       [''server'', ''username'', ''name'', ''proxy'']"

text \<open>
  Exporting a SPICE profile to a .vv file and importing it again loses the separator of
  its server: the host and the port come back joined without the colon, so the imported
  profile points to another host. The user name and the proxy survive.
\<close>

theorem spice_export_import_joins_port:
  assumes "spice_texts_ok rf" and "decode UTF_8 = id"
    and "remmina_file_get_string rf ''server'' = Some (host @ '':'' @ port)"
    and "CHR '':'' \<notin> set host" and "\<not> prefix ''unix://'' (host @ '':'' @ port)"
    and "length host < 200" and "length port < 10" and "host \<noteq> []"
    and "remmina_file_get_string new ''proxy'' = None"
  shows "\<exists>rf'. remmina_spice_file_import_channel decode new (remmina_spice_file_export_channel rf) = Ret rf' \<and>
    remmina_file_get_string rf' ''server'' = Some (host @ port) \<and>
    remmina_file_get_string rf' ''proxy'' = remmina_file_get_string rf ''proxy'' \<and>
    remmina_file_get_string rf' ''protocol'' = Some ''SPICE''"
proof -
  have dig: "list_all line_char (if b then ''1'' else ''0'')" for b by (simp add: line_char_def LF_def CR_def)
  let ?ok = "list_all (\<lambda>(k, v). CHR ''='' \<notin> set k \<and> list_all line_char k \<and> list_all line_char v)"
  have text_ok: "?ok (spice_export_text rf k' k)"
    if "k' \<in> {''username'', ''name'', ''proxy''}" "CHR ''='' \<notin> set k" "list_all line_char k" for k k'
    using assms(1) that
    by (cases "remmina_file_get_string rf k'") (auto simp: spice_export_text_def spice_texts_ok_def)
  have texts: "?ok (spice_export_text rf ''username'' ''username'')" "?ok (spice_export_text rf ''name'' ''title'')"
    "?ok (spice_export_text rf ''proxy'' ''proxy'')"
    by (rule text_ok; simp)+
  have server: "spice_export_server (host @ '':'' @ port) = [(''host'', host), (''port'', port)]"
    using assms(4,5) by (simp add: spice_export_server_def split_at_append)
  have hp: "list_all line_char host" "list_all line_char port"
    using assms(1,3) by (simp_all add: spice_texts_ok_def)
  have "?ok (spice_export_fields rf)"
    unfolding spice_export_fields_def assms(3) option.case server list_all_append
    using texts hp dig [of "2 \<le> sint (remmina_file_get_int rf ''viewmode'' 0)"]
    by simp
  note lines = spice_import_lines [OF this, folded remmina_spice_file_export_channel_def]
  let ?fold = "fold (\<lambda>(k, v). remmina_spice_file_import_field k v) (spice_export_fields rf) (new, Some [], Some [])"
  have "\<exists>rf1. ?fold = (rf1, Some host, Some port) \<and>
      remmina_file_get_string rf1 ''proxy'' = remmina_file_get_string rf ''proxy''"
    using assms(6,7,9)
    by (auto simp: spice_export_fields_def assms(3) server [simplified] spice_export_text_def strncpy_buffer_def
        remmina_spice_file_import_field_def set_int_is_set_string get_set_string non_empty_get split: option.splits)
  then obtain rf1 where rf1: "?fold = (rf1, Some host, Some port)"
    "remmina_file_get_string rf1 ''proxy'' = remmina_file_get_string rf ''proxy''" by blast
  have "io_channel_text decode (remmina_spice_file_export_channel rf) = Ret (remmina_spice_file_export_channel rf)"
    using assms(2) by (simp add: io_channel_text_def remmina_spice_file_export_channel_def)
  with rf1 assms(8) show ?thesis
    by (simp add: remmina_spice_file_import_channel_def lines spice_import_server_def get_set_string non_empty_def Let_def)
qed

theorem spice_export_import_joins_port_witness:
  "\<exists>rf'. remmina_spice_file_import_channel (\<lambda>e t. t) remmina_file_new_empty (remmina_spice_file_export_channel
       (remmina_file_set_string remmina_file_new_empty ''server'' (Some ''h:5900''))) = Ret rf' \<and>
     remmina_file_get_string rf' ''server'' = Some ''h5900''"
proof -
  let ?rf = "remmina_file_set_string remmina_file_new_empty ''server'' (Some ''h:5900'')"
  have g: "remmina_file_get_string ?rf k = (if k = ''server'' then Some ''h:5900'' else None)" for k
    by (simp add: get_set_string non_empty_Some) (simp add: remmina_file_get_string_def remmina_file_new_empty_def)
  have "spice_texts_ok ?rf" by (simp add: spice_texts_ok_def g) (simp add: line_char_def LF_def CR_def)
  moreover have "(\<lambda>e t. t) UTF_8 = (id :: string \<Rightarrow> string)" by (simp add: id_def)
  moreover have "remmina_file_get_string remmina_file_new_empty ''proxy'' = None"
    by (simp add: remmina_file_get_string_def remmina_file_new_empty_def)
  ultimately show ?thesis
    using spice_export_import_joins_port [where decode = "\<lambda>e t. t" and rf = ?rf and host = "''h''" and port = "''5900''"
        and new = remmina_file_new_empty]
    by (auto simp: g)
qed

end
