(* ===== verification/Geometry.thy ===== *)
theory Geometry
  imports Prelude "HOL-Library.Signed_Division"
begin

text \<open>
  What the protocol plugins share of GDK: rectangles with \<open>int\<close> coordinates and the union
  that collects areas (the monitors of an RDP session, the damage of a VNC session), the
  scaling of an area from the remote desktop to the widget, and the kinds of pointer events.
\<close>

record rect =
  rc_x :: int
  rc_y :: int
  rc_width :: int
  rc_height :: int

definition gdk_rectangle_union :: "rect \<Rightarrow> rect \<Rightarrow> rect" where
  "gdk_rectangle_union a b =
     (let x = min (rc_x a) (rc_x b); y = min (rc_y a) (rc_y b)
      in \<lparr>rc_x = x, rc_y = y,
          rc_width = max (rc_x a + rc_width a) (rc_x b + rc_width b) - x,
          rc_height = max (rc_y a + rc_height a) (rc_y b + rc_height b) - y\<rparr>)"

definition rect_in :: "rect \<Rightarrow> rect \<Rightarrow> bool" where
  "rect_in a b \<longleftrightarrow> rc_x b \<le> rc_x a \<and> rc_y b \<le> rc_y a \<and>
     rc_x a + rc_width a \<le> rc_x b + rc_width b \<and> rc_y a + rc_height a \<le> rc_y b + rc_height b"

lemma union_in1: "rect_in a (gdk_rectangle_union a b)" and union_in2: "rect_in b (gdk_rectangle_union a b)"
  by (simp_all add: rect_in_def gdk_rectangle_union_def Let_def)

lemma rect_in_refl [simp]: "rect_in a a"
  by (simp add: rect_in_def)

lemma rect_in_trans: "rect_in a b \<Longrightarrow> rect_in b c \<Longrightarrow> rect_in a c"
  by (simp add: rect_in_def)

text \<open>The size of a session, rounded up to a multiple of four: \<open>(w + 3) & ~0x3\<close>.\<close>

definition round_up4 :: "gint \<Rightarrow> gint" where
  "round_up4 w = and (w + 3) (not 3)"

section \<open>Pointer events\<close>

datatype button_type = Button_press | Button_release | Button_multiple_press

datatype 'f scroll_direction = Scroll_up | Scroll_down | Scroll_left | Scroll_right | Scroll_smooth 'f 'f

section \<open>Scaling\<close>

text \<open>
  One direction of the scaling of an area: \<open>a\<close> is the size of the widget and \<open>W\<close> that of the
  remote desktop.
\<close>

definition scaled_start :: "int \<Rightarrow> int \<Rightarrow> int \<Rightarrow> int" where
  "scaled_start a W x = min (max 0 (x * a sdiv W - a sdiv W - 2)) (a - 1)"

definition scaled_length :: "int \<Rightarrow> int \<Rightarrow> int \<Rightarrow> int \<Rightarrow> int" where
  "scaled_length a W x w = min (a - scaled_start a W x) (w * a sdiv W + a sdiv W + 4)"

lemma sdiv_nonneg: "0 \<le> a \<Longrightarrow> 0 < b \<Longrightarrow> a sdiv b = a div (b :: int)"
  by (cases "a = 0") (simp_all add: signed_divide_int_def)

lemma div_bounds: "0 < (W :: int) \<Longrightarrow> n div W * W \<le> n \<and> n < (n div W + 1) * W"
  using pos_mod_bound [of W n] pos_mod_sign [of W n]
  by (simp add: minus_mod_eq_div_mult [symmetric] distrib_right)

lemma scaled_covers:
  assumes "0 < W" "0 < a" "0 \<le> x" "0 \<le> w" "x + w \<le> W"
  shows "0 \<le> scaled_start a W x \<and> scaled_start a W x + scaled_length a W x w \<le> a \<and>
    scaled_start a W x * W \<le> x * a \<and> (x + w) * a \<le> (scaled_start a W x + scaled_length a W x w) * W"
proof -
  define q p u where "q = x * a div W" and "p = a div W" and "u = w * a div W"
  define s t where "s = scaled_start a W x" and "t = scaled_length a W x w"
  have nonneg: "0 \<le> q" "0 \<le> p" "0 \<le> u" using assms by (simp_all add: q_def p_def u_def pos_imp_zdiv_nonneg_iff)
  have s: "s = min (max 0 (q - p - 2)) (a - 1)" and t: "t = min (a - s) (u + p + 4)"
    using assms by (simp_all add: s_def t_def scaled_start_def scaled_length_def q_def p_def u_def sdiv_nonneg)
  have "s \<le> q" using s nonneg by simp
  then have "s * W \<le> q * W" using assms by (simp add: mult_right_mono)
  also have "\<dots> \<le> x * a" using div_bounds [OF assms(1), of "x * a"] by (simp add: q_def)
  finally have start: "s * W \<le> x * a" .
  have "(x + w) * a \<le> (s + t) * W"
  proof (cases "s + t = a")
    case True
    then show ?thesis using assms by (metis mult.commute mult_left_mono less_imp_le)
  next
    case False
    then have "q + u + 2 \<le> s + t" using s t nonneg by (auto simp: min_def max_def split: if_splits)
    then have "(q + u + 2) * W \<le> (s + t) * W" using assms by (simp add: mult_right_mono)
    moreover have "x * a + w * a \<le> (q + u + 2) * W"
      using div_bounds [OF assms(1), of "x * a"] div_bounds [OF assms(1), of "w * a"]
      by (simp add: q_def u_def algebra_simps)
    ultimately show ?thesis by (simp add: algebra_simps)
  qed
  moreover have "0 \<le> s" "t \<le> a - s" using s t assms by simp_all
  ultimately show ?thesis using start by (simp add: s_def t_def)
qed

end
