(* ===== verification/RdpMonitor.thy ===== *)
theory RdpMonitor
  imports CString Geometry
begin

text \<open>
  The monitor layout the RDP plugin hands to FreeRDP (\<open>plugins/rdp/rdp_monitor.c\<close>): which
  monitors are used, their geometry, the shift that puts the primary one at the origin,
  the list of their numbers and the size of the whole desktop. Coordinates are \<open>int\<close>; what
  GDK says of the monitors is the argument, and the part of \<open>rdpSettings\<close> that is read and
  written is a record.
\<close>

section \<open>Monitors\<close>

record gdk_monitor =
  gm_geometry :: rect
  gm_primary :: bool
  gm_width_mm :: int
  gm_height_mm :: int

record rdp_monitor =
  rm_x :: int
  rm_y :: int
  rm_width :: int
  rm_height :: int
  rm_primary :: bool
  rm_orig_screen :: nat
  rm_physical_width :: int
  rm_physical_height :: int
  rm_orientation :: int

text \<open>What \<open>calloc\<close> leaves in an element that is never filled.\<close>

definition rdp_monitor_zero :: rdp_monitor where
  "rdp_monitor_zero = \<lparr>rm_x = 0, rm_y = 0, rm_width = 0, rm_height = 0, rm_primary = False,
     rm_orig_screen = 0, rm_physical_width = 0, rm_physical_height = 0, rm_orientation = 0\<rparr>"

record rdp_settings =
  rs_width :: int
  rs_height :: int
  rs_shift_x :: int
  rs_shift_y :: int
  rs_count :: nat
  rs_monitors :: "rdp_monitor list"

definition remmina_rdp_utils_strpos :: "string \<Rightarrow> string \<Rightarrow> int" where
  "remmina_rdp_utils_strpos haystack needle =
     (if needle = [] then -1 else case strstr haystack needle of None \<Rightarrow> -1 | Some sub \<Rightarrow> int sub)"

text \<open>A monitor is used when there is no list of numbers, or when its number occurs in the text of the list.\<close>

definition monitor_chosen :: "cstr \<Rightarrow> nat \<Rightarrow> bool" where
  "monitor_chosen monitorids i =
     (case monitorids of None \<Rightarrow> True | Some ids \<Rightarrow> 0 \<le> remmina_rdp_utils_strpos ids (show_nat i))"

section \<open>The loop\<close>

text \<open>The static buffer of 256 bytes and the local variables of the loop.\<close>

record monitor_loop =
  ml_monitors :: "rdp_monitor list"
  ml_primary_found :: bool
  ml_shift_x :: int
  ml_shift_y :: int
  ml_buffer :: string
  ml_buffer_offset :: nat
  ml_geometry :: rect
  ml_count :: nat

text \<open>\<open>g_sprintf(buffer + offset, ...)\<close>, with the number of characters it returns.\<close>

definition sprintf_at :: "nat \<Rightarrow> string \<Rightarrow> string \<Rightarrow> string \<times> nat" where
  "sprintf_at offset t buffer =
     (take offset buffer @ t @ [NUL] @ drop (offset + length t + 1) buffer, length t)"

text \<open>One monitor that exists and is used; \<open>index\<close> and the loop counter are always equal.\<close>

definition monitor_use :: "nat \<Rightarrow> gdk_monitor \<Rightarrow> monitor_loop \<Rightarrow> monitor_loop" where
  "monitor_use i m l =
     (let g = gm_geometry m;
          l = (if \<not> ml_primary_found l then l\<lparr>ml_shift_x := rc_x g, ml_shift_y := rc_y g\<rparr> else l);
          (primary, l) =
            (if gm_primary m
             then (True,
                   (if rc_x g \<noteq> 0 \<or> rc_y g \<noteq> 0
                    then l\<lparr>ml_primary_found := True, ml_shift_x := rc_x g, ml_shift_y := rc_y g\<rparr>
                    else l\<lparr>ml_primary_found := True\<rparr>))
             else if \<not> ml_primary_found l \<and> rc_x g = 0 \<and> rc_y g = 0
             then (True, l\<lparr>ml_primary_found := True, ml_shift_x := rc_x g, ml_shift_y := rc_y g\<rparr>)
             else (False, l));
          current = \<lparr>rm_x = rc_x g, rm_y = rc_y g, rm_width = rc_width g, rm_height = rc_height g,
            rm_primary = primary, rm_orig_screen = i,
            rm_physical_width = gm_width_mm m, rm_physical_height = gm_height_mm m,
            rm_orientation = rm_orientation (ml_monitors l ! i)\<rparr>;
          (buffer, offset) = sprintf_at (ml_buffer_offset l)
            (if ml_buffer_offset l = 0 then show_nat i else '','' @ show_nat i) (ml_buffer l)
      in l\<lparr>ml_monitors := (ml_monitors l)[i := current], ml_buffer := buffer, ml_buffer_offset := offset,
           ml_geometry := gdk_rectangle_union (ml_geometry l) g, ml_count := Suc (ml_count l)\<rparr>)"

fun monitor_loop_from :: "cstr \<Rightarrow> nat \<Rightarrow> gdk_monitor option list \<Rightarrow> monitor_loop \<Rightarrow> monitor_loop" where
  "monitor_loop_from monitorids i [] l = l"
| "monitor_loop_from monitorids i (m # ms) l =
     monitor_loop_from monitorids (Suc i) ms
       (if \<not> monitor_chosen monitorids i then l
        else case m of None \<Rightarrow> l | Some g \<Rightarrow> monitor_use i g l)"

definition monitor_loop_init :: "nat \<Rightarrow> string \<Rightarrow> rdp_settings \<Rightarrow> monitor_loop" where
  "monitor_loop_init n buffer settings =
     \<lparr>ml_monitors = replicate n rdp_monitor_zero, ml_primary_found = False,
      ml_shift_x = rs_shift_x settings, ml_shift_y = rs_shift_y settings,
      ml_buffer = buffer, ml_buffer_offset = 0, ml_geometry = \<lparr>rc_x = 0, rc_y = 0, rc_width = 0, rc_height = 0\<rparr>,
      ml_count = 0\<rparr>"

text \<open>
  The whole function: the new list of numbers, the desktop size, the settings and what stays
  in the static buffer. \<open>set_array\<close> is what FreeRDP does to the array it is given: nothing,
  or sorting it, depending on its version.
\<close>

definition remmina_rdp_monitor_get ::
  "(rdp_monitor list \<Rightarrow> rdp_monitor list) \<Rightarrow> gdk_monitor option list \<Rightarrow> string \<Rightarrow> cstr \<Rightarrow> rdp_settings \<Rightarrow>
     string \<times> int \<times> int \<times> rdp_settings \<times> string" where
  "remmina_rdp_monitor_get set_array monitors buffer monitorids settings =
     (let l = monitor_loop_from monitorids 0 monitors (monitor_loop_init (length monitors) buffer settings);
          shifted = map (\<lambda>m. m\<lparr>rm_x := rm_x m - ml_shift_x l, rm_y := rm_y m - ml_shift_y l\<rparr>)
            (set_array (ml_monitors l))
      in (c_string (ml_buffer l), rc_width (ml_geometry l), rc_height (ml_geometry l),
          settings\<lparr>rs_shift_x := ml_shift_x l, rs_shift_y := ml_shift_y l, rs_count := length monitors,
            rs_monitors := shifted\<rparr>,
          ml_buffer l))"

section \<open>Facts\<close>

lemma monitor_use_simps:
  "length (ml_monitors (monitor_use i m l)) = length (ml_monitors l)"
  "ml_geometry (monitor_use i m l) = gdk_rectangle_union (ml_geometry l) (gm_geometry m)"
  "j \<noteq> i \<Longrightarrow> ml_monitors (monitor_use i m l) ! j = ml_monitors l ! j"
  by (simp_all add: monitor_use_def sprintf_at_def Let_def split: prod.splits if_splits)

lemma monitor_use_at:
  assumes "i < length (ml_monitors l)"
  shows "rm_x (ml_monitors (monitor_use i m l) ! i) = rc_x (gm_geometry m)"
    and "rm_y (ml_monitors (monitor_use i m l) ! i) = rc_y (gm_geometry m)"
    and "gm_primary m \<Longrightarrow> rm_primary (ml_monitors (monitor_use i m l) ! i)"
  using assms by (simp_all add: monitor_use_def sprintf_at_def Let_def split: prod.splits if_splits)

lemma monitor_use_shift:
  "gm_primary m \<Longrightarrow> (ml_primary_found l \<longrightarrow> ml_shift_x l = 0 \<and> ml_shift_y l = 0) \<Longrightarrow>
     ml_primary_found (monitor_use i m l) \<and>
     ml_shift_x (monitor_use i m l) = rc_x (gm_geometry m) \<and> ml_shift_y (monitor_use i m l) = rc_y (gm_geometry m)"
  by (auto simp: monitor_use_def sprintf_at_def Let_def)

lemma monitor_use_found:
  "\<not> gm_primary m \<Longrightarrow> ml_primary_found l \<Longrightarrow>
     ml_primary_found (monitor_use i m l) \<and>
     ml_shift_x (monitor_use i m l) = ml_shift_x l \<and> ml_shift_y (monitor_use i m l) = ml_shift_y l"
  by (auto simp: monitor_use_def sprintf_at_def Let_def)

lemma monitor_use_other:
  "\<not> gm_primary m \<Longrightarrow> (ml_primary_found l \<longrightarrow> ml_shift_x l = 0 \<and> ml_shift_y l = 0) \<Longrightarrow>
     ml_primary_found (monitor_use i m l) \<longrightarrow> ml_shift_x (monitor_use i m l) = 0 \<and> ml_shift_y (monitor_use i m l) = 0"
  by (auto simp: monitor_use_def sprintf_at_def Let_def)

lemma monitor_loop_append:
  "monitor_loop_from ids i (xs @ ys) l = monitor_loop_from ids (i + length xs) ys (monitor_loop_from ids i xs l)"
  by (induction xs arbitrary: i l) simp_all

lemma monitor_loop_length: "length (ml_monitors (monitor_loop_from ids i ms l)) = length (ml_monitors l)"
  by (induction ms arbitrary: i l) (auto simp: monitor_use_simps split: option.splits)

lemma monitor_loop_before:
  "j < i \<Longrightarrow> ml_monitors (monitor_loop_from ids i ms l) ! j = ml_monitors l ! j"
  by (induction ms arbitrary: i l) (auto simp: monitor_use_simps split: option.splits)

lemma monitor_loop_shift_found:
  "\<forall>g. Some g \<in> set ms \<longrightarrow> \<not> gm_primary g \<Longrightarrow> ml_primary_found l \<Longrightarrow>
     ml_shift_x (monitor_loop_from ids i ms l) = ml_shift_x l \<and> ml_shift_y (monitor_loop_from ids i ms l) = ml_shift_y l"
  by (induction ms arbitrary: i l) (auto simp: monitor_use_found split: option.splits)

lemma monitor_loop_shift_other:
  "\<forall>g. Some g \<in> set ms \<longrightarrow> \<not> gm_primary g \<Longrightarrow>
   (ml_primary_found l \<longrightarrow> ml_shift_x l = 0 \<and> ml_shift_y l = 0) \<Longrightarrow>
     ml_primary_found (monitor_loop_from ids i ms l) \<longrightarrow>
       ml_shift_x (monitor_loop_from ids i ms l) = 0 \<and> ml_shift_y (monitor_loop_from ids i ms l) = 0"
proof (induction ms arbitrary: i l)
  case (Cons m ms)
  then show ?case using monitor_use_other by (auto split: option.splits)
qed simp

lemma monitor_loop_union:
  "rect_in r (ml_geometry l) \<Longrightarrow> rect_in r (ml_geometry (monitor_loop_from ids i ms l))"
proof (induction ms arbitrary: i l)
  case (Cons m ms)
  then show ?case
    using rect_in_trans [OF Cons.prems union_in1] by (auto simp: monitor_use_simps split: option.splits)
qed simp

lemma monitor_loop_contains:
  "j < length ms \<Longrightarrow> ms ! j = Some g \<Longrightarrow> monitor_chosen ids (i + j) \<Longrightarrow>
     rect_in (gm_geometry g) (ml_geometry (monitor_loop_from ids i ms l))"
proof (induction ms arbitrary: i j l)
  case (Cons m ms)
  show ?case
  proof (cases j)
    case 0
    with Cons.prems monitor_loop_union [of "gm_geometry g" "monitor_use i g l"] show ?thesis
      by (simp add: monitor_use_simps union_in2)
  next
    case (Suc k)
    with Cons.prems Cons.IH [of k "Suc i"] show ?thesis by simp
  qed
qed simp

lemma digit_chars: "digit_char 0 = CHR ''0''" "digit_char 2 = CHR ''2''"
  by code_simp+

section \<open>Properties\<close>

text \<open>
  The monitor GDK calls primary ends up at the origin of the remote desktop, whatever
  the layout: when it is among the monitors used and the only primary one, its entry is
  marked primary and has coordinates (0, 0). The desktop is at least as wide and as high as
  every monitor used.
\<close>

theorem monitor_primary_at_origin:
  assumes "monitors = before @ Some m # after" and "gm_primary m" and "monitor_chosen ids (length before)"
    and "\<forall>g. Some g \<in> set before \<union> set after \<longrightarrow> \<not> gm_primary g"
    and "remmina_rdp_monitor_get (\<lambda>a. a) monitors buffer ids settings = (ids', w, h, settings', buffer')"
  shows "rm_primary (rs_monitors settings' ! length before) \<and>
    rm_x (rs_monitors settings' ! length before) = 0 \<and> rm_y (rs_monitors settings' ! length before) = 0 \<and>
    (\<forall>j g. j < length monitors \<and> monitors ! j = Some g \<and> monitor_chosen ids j \<longrightarrow>
       rc_width (gm_geometry g) \<le> w \<and> rc_height (gm_geometry g) \<le> h)"
proof -
  let ?i = "length before" and ?init = "monitor_loop_init (length monitors) buffer settings"
  let ?la = "monitor_loop_from ids 0 before ?init"
  let ?lb = "monitor_use ?i m ?la" and ?l = "monitor_loop_from ids 0 monitors ?init"
  have l: "?l = monitor_loop_from ids (Suc ?i) after ?lb"
    using assms(1,3) by (simp add: monitor_loop_append)
  have len: "?i < length (ml_monitors ?la)" "?i < length (ml_monitors ?l)"
    using assms(1) by (simp_all add: monitor_loop_length monitor_loop_init_def)
  have "ml_primary_found ?la \<longrightarrow> ml_shift_x ?la = 0 \<and> ml_shift_y ?la = 0"
    using monitor_loop_shift_other [of before ?init ids 0] assms(4) by (auto simp: monitor_loop_init_def)
  from monitor_use_shift [OF assms(2) this]
  have shift: "ml_shift_x ?l = rc_x (gm_geometry m)" "ml_shift_y ?l = rc_y (gm_geometry m)"
    using monitor_loop_shift_found [of after ?lb ids "Suc ?i"] assms(4) by (auto simp: l)
  have entry: "ml_monitors ?l ! ?i = ml_monitors ?lb ! ?i" unfolding l by (rule monitor_loop_before) simp
  have s: "rs_monitors settings' =
      map (\<lambda>m. m\<lparr>rm_x := rm_x m - ml_shift_x ?l, rm_y := rm_y m - ml_shift_y ?l\<rparr>) (ml_monitors ?l)"
    and wh: "w = rc_width (ml_geometry ?l)" "h = rc_height (ml_geometry ?l)"
    using assms(5) by (auto simp: remmina_rdp_monitor_get_def Let_def)
  have size: "rc_width (gm_geometry g) \<le> w \<and> rc_height (gm_geometry g) \<le> h"
    if "j < length monitors" "monitors ! j = Some g" "monitor_chosen ids j" for j g
    using monitor_loop_contains [of j monitors g ids 0 ?init] that by (simp add: wh rect_in_def)
  show ?thesis
    using len monitor_use_at [OF len(1)] assms(2) by (simp add: s nth_map [OF len(2)] entry shift) (blast dest: size)
qed

definition screen :: "int \<Rightarrow> bool \<Rightarrow> gdk_monitor" where
  "screen x primary = \<lparr>gm_geometry = \<lparr>rc_x = x, rc_y = 0, rc_width = 1920, rc_height = 1080\<rparr>, gm_primary = primary,
     gm_width_mm = 500, gm_height_mm = 300\<rparr>"

definition no_settings :: rdp_settings where
  "no_settings = \<lparr>rs_width = 0, rs_height = 0, rs_shift_x = 0, rs_shift_y = 0, rs_count = 0, rs_monitors = []\<rparr>"

theorem monitor_primary_at_origin_witness:
  "let (ids, w, h, settings, buffer) =
      remmina_rdp_monitor_get (\<lambda>a. a) [Some (screen 0 False), Some (screen 1920 True)] (replicate 256 NUL) None no_settings
   in rm_x (rs_monitors settings ! 1) = 0"
proof -
  obtain ids w h s b where r: "remmina_rdp_monitor_get (\<lambda>a. a) [Some (screen 0 False), Some (screen 1920 True)]
      (replicate 256 NUL) None no_settings = (ids, w, h, s, b)" by (metis prod.exhaust)
  have "rm_x (rs_monitors s ! length [Some (screen 0 False)]) = 0"
    using monitor_primary_at_origin [OF _ _ _ _ r, of "[Some (screen 0 False)]" "screen 1920 True" "[]"]
    by (auto simp: screen_def monitor_chosen_def)
  with r show ?thesis by simp
qed

text \<open>
  The list of monitor numbers is right for one or two monitors. The offset of the next
  number is the length of the last text written instead of the sum, so from the third
  monitor on each number overwrites the one before it.
\<close>

lemma show_nat_digit: "i < 10 \<Longrightarrow> show_nat i = [digit_char i]"
  by (simp add: show_nat.simps)

lemma monitor_use_buffer:
  "ml_buffer (monitor_use i m l) = fst (sprintf_at (ml_buffer_offset l)
     (if ml_buffer_offset l = 0 then show_nat i else '','' @ show_nat i) (ml_buffer l))"
  "ml_buffer_offset (monitor_use i m l) =
     length (if ml_buffer_offset l = 0 then show_nat i else '','' @ show_nat i)"
  by (simp_all add: monitor_use_def sprintf_at_def Let_def split: prod.splits)

lemma monitor_loop_overwrites:
  assumes "ml_buffer_offset l = 2" "take 2 (ml_buffer l) = ''0,''" "i + length ms \<le> 10" "ms \<noteq> []"
  shows "c_string (ml_buffer (monitor_loop_from None i (map Some ms) l)) = ''0,,'' @ show_nat (i + length ms - 1)"
  using assms
proof (induction ms arbitrary: i l)
  case (Cons m ms)
  let ?l = "monitor_use i m l"
  have i: "i < 10" using Cons.prems by simp
  have b: "ml_buffer ?l = ''0,,'' @ [digit_char i, NUL] @ drop 5 (ml_buffer l)" "ml_buffer_offset ?l = 2"
    using Cons.prems i by (simp_all add: monitor_use_buffer sprintf_at_def show_nat_digit)
  show ?case
  proof (cases ms)
    case Nil
    have "digit_char i \<noteq> NUL"
      using show_nat_digits [of i] i by (auto simp: show_nat_digit isdigit_def)
    with Nil b i show ?thesis by (simp add: monitor_chosen_def c_string_def show_nat_digit)
  next
    case (Cons n ns)
    with Cons.prems Cons.IH [of ?l "Suc i"] b show ?thesis by (simp add: monitor_chosen_def)
  qed
qed simp

text \<open>
  With three to ten monitors, all of them used, the list of monitor numbers handed back
  is \<open>0,,n\<close> with the number of the last monitor: the numbers in between are overwritten.
\<close>

theorem monitor_ids_overwritten:
  assumes "length ms \<in> {3..10}"
    and "remmina_rdp_monitor_get set_array (map Some ms) buffer None settings = (ids, rest)"
  shows "ids = ''0,,'' @ show_nat (length ms - 1)"
proof -
  obtain a b c ms' where ms: "ms = a # b # c # ms'"
    using assms(1) by (auto simp: numeral_3_eq_3 Suc_le_length_iff)
  let ?init = "monitor_loop_init (length ms) buffer settings"
  let ?l = "monitor_use 1 b (monitor_use 0 a ?init)"
  have "ml_buffer_offset ?l = 2" "take 2 (ml_buffer ?l) = ''0,''"
    by (simp_all add: monitor_use_buffer sprintf_at_def show_nat_digit monitor_loop_init_def digit_chars)
  from monitor_loop_overwrites [OF this, of 2 "c # ms'"] assms(1)
  have "c_string (ml_buffer (monitor_loop_from None 0 (map Some ms) ?init)) = ''0,,'' @ show_nat (length ms - 1)"
    by (simp add: ms monitor_chosen_def numeral_2_eq_2)
  with assms(2) show ?thesis by (simp add: remmina_rdp_monitor_get_def Let_def)
qed

theorem monitor_ids_overwritten_witness:
  "fst (remmina_rdp_monitor_get (\<lambda>a. a) (map Some [screen 0 True, screen 1920 False, screen 3840 False])
     (replicate 256 NUL) None no_settings) = ''0,,2''"
  using monitor_ids_overwritten [of "[screen 0 True, screen 1920 False, screen 3840 False]" "\<lambda>a. a" "replicate 256 NUL"
      no_settings, OF _ prod.collapse [symmetric]]
  by (simp add: show_nat_digit digit_chars flip: numeral_2_eq_2)

end
