(* ===== verification/RdpEvent.thy ===== *)
theory RdpEvent
  imports Pref FileData RdpMonitor
begin

text \<open>
  The input side of the RDP plugin (\<open>plugins/rdp/rdp_event.c\<close>): the handlers that turn pointer,
  wheel and key events of GTK into events of a queue, the list of keys that are held down,
  the table of translated key codes, the delayed change of the remote resolution, and the
  thread that takes the events from the queue and hands them to FreeRDP
  (\<open>rf_process_event_queue\<close> of \<open>plugins/rdp/rdp_plugin.c\<close>). Coordinates are \<open>int\<close>, after the
  conversion from the doubles of GDK; products of coordinates and sizes do not overflow. The
  keyboard tables of FreeRDP and the floats of smooth scrolling are parameters.
\<close>

section \<open>State\<close>

record rdp_key =
  rk_up :: bool
  rk_extended :: bool
  rk_key_code :: "8 word"
  rk_unicode_code :: "32 word"
  rk_extended1 :: bool

record rdp_layout =
  ly_flags :: int
  ly_left :: int
  ly_top :: int
  ly_width :: int
  ly_height :: int
  ly_orientation :: int
  ly_desktop_scale :: int
  ly_device_scale :: int
  ly_physical_width :: int
  ly_physical_height :: int

definition rdp_layout_zero :: rdp_layout where
  "rdp_layout_zero = \<lparr>ly_flags = 0, ly_left = 0, ly_top = 0, ly_width = 0, ly_height = 0, ly_orientation = 0,
     ly_desktop_scale = 0, ly_device_scale = 0, ly_physical_width = 0, ly_physical_height = 0\<rparr>"

datatype rdp_event =
    Rdp_scancode rdp_key
  | Rdp_scancode_unicode rdp_key
  | Rdp_mouse "16 word" "16 word" "16 word" bool
  | Rdp_clip_format_list "(32 word \<times> cstr) list"
  | Rdp_clip_data_response "string option" int
  | Rdp_clip_data_request "32 word"
  | Rdp_send_monitor_layout rdp_layout
  | Rdp_disconnect

datatype scale_mode = Scale_none | Scale_scaled | Scale_dynres

record rdp_keymap_entry =
  ke_orig_keycode :: "32 word"
  ke_translated_keycode :: "32 word"

record rdp_ctx =
  rx_connected :: bool
  rx_is_reconnecting :: bool
  rx_scale :: scale_mode
  rx_scale_width :: int
  rx_scale_height :: int
  rx_surface :: bool
  rx_rdpgfxchan :: bool
  rx_dispcontext :: bool
  rx_use_client_keymap :: bool
  rx_keymap :: "rdp_keymap_entry list option"
  rx_pressed_keys :: "rdp_event list"
  rx_event_queue :: "rdp_event list option"
  rx_event_pipe :: nat
  rx_last_x :: "16 word"
  rx_last_y :: "16 word"
  rx_layout_handler :: guint
  rx_clipboard_context :: bool
  rx_settings :: rdp_settings
  rx_monitor_buffer :: string

text \<open>
  The floats of a smooth scroll event: the test against zero, the product with an integer,
  the two comparisons and the conversions.
\<close>

record 'f rdp_float =
  fo_nonzero :: "'f \<Rightarrow> bool"
  fo_times :: "'f \<Rightarrow> int \<Rightarrow> 'f"
  fo_gt :: "'f \<Rightarrow> int \<Rightarrow> bool"
  fo_lt :: "'f \<Rightarrow> int \<Rightarrow> bool"
  fo_of_int :: "int \<Rightarrow> 'f"
  fo_to_short :: "'f \<Rightarrow> 16 word"

record ('kf, 'f) rdp_env =
  re_width :: int
  re_height :: int
  re_alloc_width :: int
  re_alloc_height :: int
  re_kf :: "'kf keyfile_ops"
  re_pref :: pref_state
  re_scancode :: "16 word \<Rightarrow> 32 word"
  re_unicode :: "guint \<Rightarrow> guint"
  re_float :: "'f rdp_float"
  re_monitors :: "gdk_monitor option list"
  re_set_monitors :: "rdp_monitor list \<Rightarrow> rdp_monitor list"

definition rdp_viewonly :: "rfile \<Rightarrow> bool" where
  "rdp_viewonly rf \<longleftrightarrow> remmina_file_get_int rf ''viewonly'' 0 \<noteq> 0"

definition rdp_ready :: "rdp_ctx \<Rightarrow> bool" where
  "rdp_ready rx \<longleftrightarrow> rx_connected rx \<and> \<not> rx_is_reconnecting rx"

section \<open>The queue\<close>

text \<open>The event is added and a byte is written to the pipe. Nothing is queued while the connection is down.\<close>

definition remmina_rdp_event_event_push :: "rdp_event \<Rightarrow> rdp_ctx \<Rightarrow> rdp_ctx" where
  "remmina_rdp_event_event_push e rx =
     (if \<not> rdp_ready rx then rx
      else case rx_event_queue rx of
             None \<Rightarrow> rx
           | Some q \<Rightarrow> rx\<lparr>rx_event_queue := Some (q @ [e]), rx_event_pipe := Suc (rx_event_pipe rx)\<rparr>)"

section \<open>The keys that are held down\<close>

fun event_key :: "rdp_event \<Rightarrow> rdp_key option" where
  "event_key (Rdp_scancode k) = Some k"
| "event_key (Rdp_scancode_unicode k) = Some k"
| "event_key _ = None"

fun event_released :: "rdp_event \<Rightarrow> rdp_event" where
  "event_released (Rdp_scancode k) = Rdp_scancode (k\<lparr>rk_up := True\<rparr>)"
| "event_released (Rdp_scancode_unicode k) = Rdp_scancode_unicode (k\<lparr>rk_up := True\<rparr>)"
| "event_released e = e"

definition event_is_down :: "rdp_event \<Rightarrow> bool" where
  "event_is_down e \<longleftrightarrow> (case event_key e of None \<Rightarrow> False | Some k \<Rightarrow> \<not> rk_up k)"

fun rdp_push_releases :: "rdp_event list \<Rightarrow> rdp_ctx \<Rightarrow> rdp_ctx" where
  "rdp_push_releases [] rx = rx"
| "rdp_push_releases (e # es) rx =
     rdp_push_releases es (if event_is_down e then remmina_rdp_event_event_push (event_released e) rx else rx)"

definition remmina_rdp_event_release_all_keys :: "rdp_ctx \<Rightarrow> rdp_ctx" where
  "remmina_rdp_event_release_all_keys rx =
     (rdp_push_releases (rx_pressed_keys rx) rx)\<lparr>rx_pressed_keys := []\<rparr>"

definition remmina_rdp_event_unfocus :: "rdp_ctx \<Rightarrow> rdp_ctx" where
  "remmina_rdp_event_unfocus rx = (if \<not> rdp_ready rx then rx else remmina_rdp_event_release_all_keys rx)"

text \<open>The fields that an entry of the list and the key that is released have in common.\<close>

definition same_key :: "rdp_key \<Rightarrow> rdp_event \<Rightarrow> bool" where
  "same_key k e \<longleftrightarrow> (case event_key e of None \<Rightarrow> False | Some k2 \<Rightarrow>
     rk_key_code k2 = rk_key_code k \<and> rk_unicode_code k2 = rk_unicode_code k \<and>
     rk_extended k2 = rk_extended k \<and> rk_extended1 k2 = rk_extended1 k)"

definition remmina_rdp_event_release_key :: "rdp_event \<Rightarrow> rdp_ctx \<Rightarrow> rdp_ctx" where
  "remmina_rdp_event_release_key e rx =
     (case event_key e of
        None \<Rightarrow> rx
      | Some k \<Rightarrow>
          if \<not> rk_up k then rx
          else case first_index (same_key k) (rx_pressed_keys rx) of
                 None \<Rightarrow> rx
               | Some i \<Rightarrow> rx\<lparr>rx_pressed_keys := g_ptr_array_remove_index_fast (rx_pressed_keys rx) i\<rparr>)"

definition keypress_list_add :: "rdp_event \<Rightarrow> rdp_ctx \<Rightarrow> rdp_ctx" where
  "keypress_list_add e rx =
     (case event_key e of
        None \<Rightarrow> rx
      | Some k \<Rightarrow>
          if rk_key_code k = 0 then rx
          else if rk_up k then remmina_rdp_event_release_key e rx
          else rx\<lparr>rx_pressed_keys := rx_pressed_keys rx @ [e]\<rparr>)"

section \<open>Areas and positions\<close>

definition remmina_rdp_event_scale_area :: "('kf, 'f) rdp_env \<Rightarrow> rdp_ctx \<Rightarrow> rect \<Rightarrow> rect" where
  "remmina_rdp_event_scale_area env rx r =
     (let width = re_width env; height = re_height env
      in if \<not> rdp_ready rx \<or> \<not> rx_surface rx then r
         else if width = 0 \<or> height = 0 then r
         else if rx_scale_width rx = width \<and> rx_scale_height rx = height
         then let x = min (max 0 (rc_x r)) (width - 1); y = min (max 0 (rc_y r)) (height - 1)
              in \<lparr>rc_x = x, rc_y = y, rc_width = min (width - x) (rc_width r), rc_height = min (height - y) (rc_height r)\<rparr>
         else let sw = rx_scale_width rx; sh = rx_scale_height rx;
                  x = min (max 0 (rc_x r * sw sdiv width - sw sdiv width - 2)) (sw - 1);
                  y = min (max 0 (rc_y r * sh sdiv height - sh sdiv height - 2)) (sh - 1)
              in \<lparr>rc_x = x, rc_y = y,
                  rc_width = min (sw - x) (rc_width r * sw sdiv width + sw sdiv width + 4),
                  rc_height = min (sh - y) (rc_height r * sh sdiv height + sh sdiv height + 4)\<rparr>)"

text \<open>The areas that are queued for drawing.\<close>

definition remmina_rdp_event_update_rect :: "('kf, 'f) rdp_env \<Rightarrow> rdp_ctx \<Rightarrow> rect \<Rightarrow> rect" where
  "remmina_rdp_event_update_rect env rx r =
     (if rx_scale rx = Scale_scaled then remmina_rdp_event_scale_area env rx r else r)"

definition remmina_rdp_event_update_regions :: "('kf, 'f) rdp_env \<Rightarrow> rdp_ctx \<Rightarrow> rect list \<Rightarrow> rect list" where
  "remmina_rdp_event_update_regions env rx rs = map (remmina_rdp_event_update_rect env rx) rs"

text \<open>The scale factors are the quotients of \<open>rx_scale_width\<close> and the remote width, and of the heights.\<close>

definition remmina_rdp_event_update_scale_factor :: "('kf, 'f) rdp_env \<Rightarrow> rdp_ctx \<Rightarrow> rdp_ctx" where
  "remmina_rdp_event_update_scale_factor env rx =
     (if rx_scale rx = Scale_scaled
      then if 1 < re_alloc_width env \<and> 1 < re_alloc_height env
           then rx\<lparr>rx_scale_width := re_alloc_width env, rx_scale_height := re_alloc_height env\<rparr>
           else rx
      else rx\<lparr>rx_scale_width := 0, rx_scale_height := 0\<rparr>)"

text \<open>The outputs keep the value 0 they are initialised with when the connection is down.\<close>

definition remmina_rdp_event_translate_pos :: "('kf, 'f) rdp_env \<Rightarrow> rdp_ctx \<Rightarrow> int \<Rightarrow> int \<Rightarrow> 16 word \<times> 16 word" where
  "remmina_rdp_event_translate_pos env rx ix iy =
     (if \<not> rdp_ready rx then (0, 0)
      else if rx_scale rx = Scale_scaled \<and> 1 \<le> rx_scale_width rx \<and> 1 \<le> rx_scale_height rx
      then (word_of_int (ix * re_width env sdiv rx_scale_width rx),
            word_of_int (iy * re_height env sdiv rx_scale_height rx))
      else (word_of_int ix, word_of_int iy))"

definition remmina_rdp_event_reverse_translate_pos_reverse ::
  "('kf, 'f) rdp_env \<Rightarrow> rdp_ctx \<Rightarrow> int \<Rightarrow> int \<Rightarrow> int \<times> int" where
  "remmina_rdp_event_reverse_translate_pos_reverse env rx ix iy =
     (if \<not> rdp_ready rx then (0, 0)
      else if rx_scale rx = Scale_scaled \<and> 1 \<le> rx_scale_width rx \<and> 1 \<le> rx_scale_height rx
      then (ix * rx_scale_width rx sdiv re_width env, iy * rx_scale_height rx sdiv re_height env)
      else (ix, iy))"

section \<open>Pointer\<close>

text \<open>The flags of MS-RDPBCGR, 2.2.8.1.1.3.1.1.3 and 2.2.8.1.1.3.1.1.4.\<close>

abbreviation "PTR_FLAGS_HWHEEL \<equiv> 0x0400 :: 16 word"
abbreviation "PTR_FLAGS_WHEEL \<equiv> 0x0200 :: 16 word"
abbreviation "PTR_FLAGS_MOVE \<equiv> 0x0800 :: 16 word"
abbreviation "PTR_FLAGS_DOWN \<equiv> 0x8000 :: 16 word"
abbreviation "PTR_FLAGS_BUTTON1 \<equiv> 0x1000 :: 16 word"
abbreviation "PTR_FLAGS_BUTTON2 \<equiv> 0x2000 :: 16 word"
abbreviation "PTR_FLAGS_BUTTON3 \<equiv> 0x4000 :: 16 word"
abbreviation "PTR_XFLAGS_DOWN \<equiv> 0x8000 :: 16 word"
abbreviation "PTR_XFLAGS_BUTTON1 \<equiv> 0x0001 :: 16 word"
abbreviation "PTR_XFLAGS_BUTTON2 \<equiv> 0x0002 :: 16 word"
abbreviation "WheelRotationMask \<equiv> 0x01FF :: 16 word"

definition remmina_rdp_mouse_jitter :: "rfile \<Rightarrow> rdp_ctx \<Rightarrow> rdp_ctx" where
  "remmina_rdp_mouse_jitter rf rx =
     (if rdp_viewonly rf then rx
      else remmina_rdp_event_event_push (Rdp_mouse PTR_FLAGS_MOVE (rx_last_x rx) (rx_last_y rx) False) rx)"

definition remmina_rdp_event_on_motion ::
  "('kf, 'f) rdp_env \<Rightarrow> rfile \<Rightarrow> int \<Rightarrow> int \<Rightarrow> rdp_ctx \<Rightarrow> bool \<times> rdp_ctx" where
  "remmina_rdp_event_on_motion env rf x y rx =
     (if rdp_viewonly rf then (False, rx)
      else let (mx, my) = remmina_rdp_event_translate_pos env rx x y;
               rx = rx\<lparr>rx_last_x := mx, rx_last_y := my\<rparr>
           in (True, remmina_rdp_event_event_push (Rdp_mouse PTR_FLAGS_MOVE mx my False) rx))"

text \<open>The flag of a button, and whether it is one of the extended ones.\<close>

definition rdp_button_flag :: "bool \<Rightarrow> nat \<Rightarrow> (16 word \<times> bool) option" where
  "rdp_button_flag left_handed button =
     (let (primary, secondary) = (if left_handed then (PTR_FLAGS_BUTTON2, PTR_FLAGS_BUTTON1)
                                  else (PTR_FLAGS_BUTTON1, PTR_FLAGS_BUTTON2))
      in if button = 1 then Some (primary, False)
         else if button = 2 then Some (PTR_FLAGS_BUTTON3, False)
         else if button = 3 then Some (secondary, False)
         else if button = 8 \<or> button = 97 then Some (PTR_XFLAGS_BUTTON1, True)
         else if button = 9 \<or> button = 112 then Some (PTR_XFLAGS_BUTTON2, True)
         else None)"

definition remmina_rdp_event_on_button ::
  "('kf, 'f) rdp_env \<Rightarrow> rfile \<Rightarrow> button_type \<Rightarrow> nat \<Rightarrow> int \<Rightarrow> int \<Rightarrow> rdp_ctx \<Rightarrow> bool \<times> rdp_ctx" where
  "remmina_rdp_event_on_button env rf type button x y rx =
     (if rdp_viewonly rf then (False, rx)
      else if type \<noteq> Button_press \<and> type \<noteq> Button_release then (True, rx)
      else case rdp_button_flag (remmina_file_get_int rf ''left-handed'' 0 \<noteq> 0) button of
             None \<Rightarrow> (False, rx)
           | Some (flag, extended) \<Rightarrow>
               (let flag = (if type = Button_press
                            then flag OR (if extended then PTR_XFLAGS_DOWN else PTR_FLAGS_DOWN) else flag);
                    (mx, my) = remmina_rdp_event_translate_pos env rx x y
                in (True, if flag \<noteq> 0 then remmina_rdp_event_event_push (Rdp_mouse flag mx my extended) rx else rx)))"

text \<open>The wheel: 120 is one unit, and a rotation is a number of 9 bits in two's complement.\<close>

definition rdp_clamp_delta :: "'f rdp_float \<Rightarrow> 'f \<Rightarrow> 'f" where
  "rdp_clamp_delta fl d =
     (let d = (if fo_gt fl d 255 then fo_of_int fl 255 else d)
      in if fo_lt fl d (-256) then fo_of_int fl (-256) else d)"

definition rdp_scroll_flag :: "'f rdp_float \<Rightarrow> 'f scroll_direction \<Rightarrow> 16 word option" where
  "rdp_scroll_flag fl direction =
     (case direction of
        Scroll_up \<Rightarrow> Some (PTR_FLAGS_WHEEL OR 0x0078)
      | Scroll_down \<Rightarrow> Some (PTR_FLAGS_WHEEL OR 0x0188)
      | Scroll_right \<Rightarrow> Some (PTR_FLAGS_HWHEEL OR 0x0078)
      | Scroll_left \<Rightarrow> Some (PTR_FLAGS_HWHEEL OR 0x0188)
      | Scroll_smooth dx dy \<Rightarrow>
          if fo_nonzero fl dy
          then Some (PTR_FLAGS_WHEEL OR (fo_to_short fl (rdp_clamp_delta fl (fo_times fl dy (-120))) AND WheelRotationMask))
          else if fo_nonzero fl dx
          then Some (PTR_FLAGS_HWHEEL OR (fo_to_short fl (rdp_clamp_delta fl (fo_times fl dx 120)) AND WheelRotationMask))
          else None)"

definition remmina_rdp_event_on_scroll ::
  "('kf, 'f) rdp_env \<Rightarrow> rfile \<Rightarrow> 'f scroll_direction \<Rightarrow> int \<Rightarrow> int \<Rightarrow> rdp_ctx \<Rightarrow> bool \<times> rdp_ctx" where
  "remmina_rdp_event_on_scroll env rf direction x y rx =
     (if rdp_viewonly rf then (False, rx)
      else case rdp_scroll_flag (re_float env) direction of
             None \<Rightarrow> (False, rx)
           | Some flag \<Rightarrow>
               (let (mx, my) = remmina_rdp_event_translate_pos env rx x y
                in (True, remmina_rdp_event_event_push (Rdp_mouse flag mx my False) rx)))"

section \<open>Keys\<close>

text \<open>\<open>strtol\<close> reads a \<open>long\<close> of 64 bits; of its value only 31 bits are kept.\<close>

definition keymap_code :: "int \<Rightarrow> 32 word" where
  "keymap_code v = long_to_gint v AND 0x7fffffff"

function keymap_entries :: "string \<Rightarrow> rdp_keymap_entry list" where
  "keymap_entries s =
     (case scan_dec s of
        None \<Rightarrow> []
      | Some (v1, r1) \<Rightarrow>
          if r1 = [] \<or> hd r1 \<noteq> CHR '':'' then []
          else case scan_dec (tl r1) of
                 None \<Rightarrow> []
               | Some (v2, r2) \<Rightarrow>
                   \<lparr>ke_orig_keycode = keymap_code v1, ke_translated_keycode = keymap_code v2\<rparr> #
                   (if r2 = [] \<or> hd r2 \<noteq> CHR '','' then [] else keymap_entries (tl r2)))"
  by pat_completeness auto

lemma scan_sign_length: "length (snd (scan_sign s)) \<le> length s"
  by (auto simp: scan_sign_def split: list.splits)

lemma scan_dec_length: "scan_dec s = Some (v, r) \<Longrightarrow> length r < length s"
proof -
  assume "scan_dec s = Some (v, r)"
  then have r: "r = dropWhile isdigit (snd (scan_sign (dropWhile isspace s)))"
    and ne: "takeWhile isdigit (snd (scan_sign (dropWhile isspace s))) \<noteq> []"
    by (auto simp: scan_dec_def Let_def split: prod.splits if_splits)
  let ?t = "snd (scan_sign (dropWhile isspace s))"
  have "length (takeWhile isdigit ?t) + length r = length ?t"
    using r by (metis length_append takeWhile_dropWhile_id)
  moreover have "length ?t \<le> length s"
    using scan_sign_length [of "dropWhile isspace s"] length_dropWhile_le [of isspace s] by linarith
  ultimately show ?thesis using ne by (cases "takeWhile isdigit ?t") auto
qed

termination keymap_entries
  by (relation "measure length") (auto dest!: scan_dec_length)

definition remmina_rdp_event_init_keymap :: "cstr \<Rightarrow> rdp_ctx \<Rightarrow> rdp_ctx" where
  "remmina_rdp_event_init_keymap strmap rx =
     (if is_empty strmap then rx\<lparr>rx_keymap := None\<rparr>
      else let es = keymap_entries (the strmap)
           in rx\<lparr>rx_keymap := (if es = [] then None else Some es)\<rparr>)"

text \<open>The table is searched for the first entry of a key code; the new code is cut to 16 bits.\<close>

definition rdp_keymap_lookup :: "rdp_keymap_entry list option \<Rightarrow> 16 word \<Rightarrow> 16 word" where
  "rdp_keymap_lookup keymap code =
     (case keymap of
        None \<Rightarrow> code
      | Some es \<Rightarrow>
          (case first_index (\<lambda>ke. ke_orig_keycode ke = ucast code) es of
             None \<Rightarrow> code
           | Some i \<Rightarrow> ucast (ke_translated_keycode (es ! i))))"

definition rdp_push_key :: "rdp_event \<Rightarrow> rdp_ctx \<Rightarrow> rdp_ctx" where
  "rdp_push_key e rx = keypress_list_add e (remmina_rdp_event_event_push e rx)"

definition rdp_scancode_key :: "32 word \<Rightarrow> rdp_key \<Rightarrow> rdp_key" where
  "rdp_scancode_key scancode k =
     k\<lparr>rk_key_code := ucast (scancode AND 0xFF), rk_extended := scancode AND 0x100 \<noteq> 0, rk_extended1 := False\<rparr>"

text \<open>The sequence of the Pause key, which has no release of its own.\<close>

definition rdp_push_pause :: "rdp_key \<Rightarrow> rdp_ctx \<Rightarrow> rdp_ctx" where
  "rdp_push_pause k rx =
     fold (\<lambda>(code, up, ext1). remmina_rdp_event_event_push
             (Rdp_scancode (k\<lparr>rk_key_code := code, rk_up := up, rk_extended1 := ext1\<rparr>)))
       [(0x1D, False, True), (0x45, False, False), (0x1D, True, True), (0x45, True, False)] rx"

text \<open>The conditions under which a key is sent as a key code though the client keymap is used.\<close>

definition rdp_sends_scancode :: "('kf, 'f) rdp_env \<Rightarrow> guint \<Rightarrow> 16 word \<Rightarrow> guint \<Rightarrow> bool" where
  "rdp_sends_scancode env keyval hardware_keycode modifiers \<longleftrightarrow>
     0xfe00 \<le> keyval \<or> hardware_keycode = 0x41 \<or> re_unicode env keyval = 0 \<or>
     modifiers AND (0x8 OR 0x4 OR 0x4000000) \<noteq> 0"

text \<open>
  \<open>rdp_event\<close> is a local variable that is not initialised: \<open>junk\<close> is what it holds. The
  members that the code sets are the direction and the two extended flags.
\<close>

definition remmina_rdp_event_on_key ::
  "('kf, 'f) rdp_env \<Rightarrow> rfile \<Rightarrow> bool \<Rightarrow> guint \<Rightarrow> 16 word \<Rightarrow> guint \<Rightarrow> rdp_key \<Rightarrow> rdp_ctx \<Rightarrow> bool \<times> rdp_ctx" where
  "remmina_rdp_event_on_key env rf press keyval hardware_keycode modifiers junk rx =
     (if \<not> rdp_ready rx then (False, rx)
      else if rdp_viewonly rf then (False, rx)
      else let k = junk\<lparr>rk_up := \<not> press, rk_extended := False, rk_extended1 := False\<rparr>
      in (True,
          if keyval = 0xff13 then rdp_push_pause k rx
          else if \<not> rx_use_client_keymap rx
          then let scancode = re_scancode env (rdp_keymap_lookup (rx_keymap rx) hardware_keycode)
               in if scancode \<noteq> 0 then rdp_push_key (Rdp_scancode (rdp_scancode_key scancode k)) rx else rx
          else if rdp_sends_scancode env keyval hardware_keycode modifiers
          then let k = rdp_scancode_key (re_scancode env hardware_keycode) k
               in if rk_key_code k \<noteq> 0 then rdp_push_key (Rdp_scancode k) rx else rx
          else rdp_push_key (Rdp_scancode_unicode (k\<lparr>rk_unicode_code := re_unicode env keyval\<rparr>)) rx))"

section \<open>The resolution of the remote desktop\<close>

definition remmina_rdp_settings_get_orientation_scale_prefs ::
  "'kf keyfile_ops \<Rightarrow> pref_state \<Rightarrow> gint \<times> gint \<times> gint" where
  "remmina_rdp_settings_get_orientation_scale_prefs ops st =
     (let get = (\<lambda>key. case remmina_pref_get_value ops key st of None \<Rightarrow> 0 | Some s \<Rightarrow> atoi s);
          orientation = get ''rdp_desktopOrientation'';
          orientation = (if orientation \<noteq> 90 \<and> orientation \<noteq> 180 \<and> orientation \<noteq> 270 then 0 else orientation);
          dpsf = get ''rdp_desktopScaleFactor'';
          desf = get ''rdp_deviceScaleFactor''
      in if dpsf <s 100 \<or> 500 <s dpsf then (orientation, 0, 0)
         else if desf \<noteq> 100 \<and> desf \<noteq> 140 \<and> desf \<noteq> 180 then (orientation, 0, 0)
         else (orientation, dpsf, desf))"

abbreviation "AVC_MIN_DESKTOP_WIDTH \<equiv> 644 :: int"
abbreviation "AVC_MIN_DESKTOP_HEIGHT \<equiv> 480 :: int"

text \<open>One turn of the loop over the monitors: the same event is filled again for each.\<close>

definition rdp_layout_of_monitor :: "rdp_monitor \<Rightarrow> rdp_layout \<Rightarrow> rdp_layout" where
  "rdp_layout_of_monitor m ly =
     ly\<lparr>ly_flags := of_bool (rm_primary m), ly_left := rm_x m, ly_top := rm_y m, ly_width := rm_width m,
        ly_height := rm_height m, ly_physical_width := rm_physical_width m,
        ly_physical_height := rm_physical_height m,
        ly_orientation := (if rm_orientation m \<noteq> 0 then rm_orientation m else ly_orientation ly)\<rparr>"

text \<open>
  The callback of the timer, which is over after one call. The list of monitor numbers that
  \<open>remmina_rdp_monitor_get\<close> returns is not used.
\<close>

definition remmina_rdp_event_delayed_monitor_layout :: "('kf, 'f) rdp_env \<Rightarrow> rfile \<Rightarrow> rdp_ctx \<Rightarrow> rdp_ctx" where
  "remmina_rdp_event_delayed_monitor_layout env rf rx =
     (if \<not> rdp_ready rx then rx
      else if rx_scale rx \<noteq> Scale_dynres then rx
      else let rx = rx\<lparr>rx_layout_handler := 0\<rparr>;
               (_, _, _, settings, buffer) = remmina_rdp_monitor_get (re_set_monitors env) (re_monitors env)
                 (rx_monitor_buffer rx) None (rx_settings rx);
               rx = rx\<lparr>rx_settings := settings, rx_monitor_buffer := buffer\<rparr>
           in if \<not> rx_dispcontext rx then rx
              else let (orientation, desktop_scale, device_scale) =
                         remmina_rdp_settings_get_orientation_scale_prefs (re_kf env) (re_pref env);
                       width = re_alloc_width env; height = re_alloc_height env
                   in if (width \<noteq> re_width env \<or> height \<noteq> re_height env) \<and> 200 \<le> width \<and> 200 \<le> height
                      then let width = (if rx_rdpgfxchan rx then max width AVC_MIN_DESKTOP_WIDTH else width);
                               height = (if rx_rdpgfxchan rx then max height AVC_MIN_DESKTOP_HEIGHT else height);
                               layout = (if remmina_file_get_int rf ''multimon'' 0 \<noteq> 0
                                 then fold rdp_layout_of_monitor (take (rs_count settings) (rs_monitors settings)) rdp_layout_zero
                                 else rdp_layout_zero\<lparr>ly_width := width, ly_height := height, ly_orientation := sint orientation,
                                        ly_desktop_scale := sint desktop_scale, ly_device_scale := sint device_scale\<rparr>)
                           in remmina_rdp_event_event_push (Rdp_send_monitor_layout layout) rx
                      else rx)"

text \<open>A new timer, with the number GLib gives it, takes the place of one that has not fired.\<close>

definition remmina_rdp_event_send_delayed_monitor_layout :: "guint \<Rightarrow> rdp_ctx \<Rightarrow> rdp_ctx" where
  "remmina_rdp_event_send_delayed_monitor_layout timer rx =
     (if \<not> rdp_ready rx then rx
      else let rx = rx\<lparr>rx_layout_handler := 0\<rparr>
           in if rx_scale rx = Scale_dynres then rx\<lparr>rx_layout_handler := timer\<rparr> else rx)"

definition remmina_rdp_event_on_configure :: "('kf, 'f) rdp_env \<Rightarrow> guint \<Rightarrow> rdp_ctx \<Rightarrow> rdp_ctx" where
  "remmina_rdp_event_on_configure env timer rx =
     (if \<not> rdp_ready rx then rx
      else remmina_rdp_event_send_delayed_monitor_layout timer (remmina_rdp_event_update_scale_factor env rx))"

section \<open>What the server is sent\<close>

datatype rdp_msg =
    Msg_keyboard "16 word" "8 word"
  | Msg_unicode "16 word" "16 word"
  | Msg_mouse "16 word" "16 word" "16 word"
  | Msg_extended_mouse "16 word" "16 word" "16 word"
  | Msg_synchronize "32 word"
  | Msg_format_list "(32 word \<times> cstr) list"
  | Msg_data_response bool "string option" int
  | Msg_data_request "32 word"
  | Msg_layout "rdp_layout list"
  | Msg_abort

abbreviation "KBD_FLAGS_EXTENDED \<equiv> 0x0100 :: 16 word"
abbreviation "KBD_FLAGS_EXTENDED1 \<equiv> 0x0200 :: 16 word"
abbreviation "KBD_FLAGS_DOWN \<equiv> 0x4000 :: 16 word"
abbreviation "KBD_FLAGS_RELEASE \<equiv> 0x8000 :: 16 word"

definition remmina_rdp_event_on_focus_in :: "guint \<Rightarrow> rdp_ctx \<Rightarrow> rdp_msg list" where
  "remmina_rdp_event_on_focus_in modifiers rx =
     (if \<not> rdp_ready rx then []
      else let toggle = (if modifiers AND 0x2 \<noteq> 0 then 4 else 0) OR (if modifiers AND 0x10 \<noteq> 0 then 2 else 0) OR
                 (if modifiers AND 0x80 \<noteq> 0 then 1 else 0)
           in [Msg_synchronize toggle, Msg_keyboard KBD_FLAGS_RELEASE 0x0F])"

text \<open>The layout of one monitor, in the answer to the event of a session with several monitors.\<close>

definition rdp_dcml :: "rdp_layout \<Rightarrow> rdp_monitor \<Rightarrow> rdp_layout" where
  "rdp_dcml ly m =
     \<lparr>ly_flags = of_bool (rm_primary m), ly_left = rm_x m, ly_top = rm_y m, ly_width = rm_width m,
      ly_height = rm_height m,
      ly_orientation = (if rm_orientation m \<noteq> 0 then rm_orientation m else ly_orientation ly),
      ly_desktop_scale = ly_desktop_scale ly, ly_device_scale = ly_device_scale ly,
      ly_physical_width = rm_physical_width m, ly_physical_height = rm_physical_height m\<rparr>"

definition rdp_key_flags :: "rdp_key \<Rightarrow> 16 word" where
  "rdp_key_flags k =
     (if rk_extended1 k then KBD_FLAGS_EXTENDED1 else if rk_extended k then KBD_FLAGS_EXTENDED else 0) OR
     (if rk_up k then KBD_FLAGS_RELEASE else KBD_FLAGS_DOWN)"

text \<open>
  One event. \<open>UnicodeKeyboardEvent\<close> takes a code of 16 bits. The clipboard context is tested
  for NULL before a format list is sent, but not before the two other clipboard messages.
\<close>

definition rdp_event_msgs :: "rfile \<Rightarrow> rdp_ctx \<Rightarrow> rdp_event \<Rightarrow> rdp_msg list c_result" where
  "rdp_event_msgs rf rx e =
     (case e of
        Rdp_scancode k \<Rightarrow> Ret [Msg_keyboard (rdp_key_flags k) (rk_key_code k)]
      | Rdp_scancode_unicode k \<Rightarrow>
          Ret [Msg_unicode (if rk_up k then KBD_FLAGS_RELEASE else KBD_FLAGS_DOWN) (ucast (rk_unicode_code k))]
      | Rdp_mouse flags x y extended \<Rightarrow>
          Ret [if extended then Msg_extended_mouse flags x y else Msg_mouse flags x y]
      | Rdp_clip_format_list fmts \<Rightarrow> Ret (if rx_clipboard_context rx then [Msg_format_list fmts] else [])
      | Rdp_clip_data_response data bytes \<Rightarrow>
          if rx_clipboard_context rx then Ret [Msg_data_response (data \<noteq> None) data bytes] else Crash
      | Rdp_clip_data_request fmt \<Rightarrow> if rx_clipboard_context rx then Ret [Msg_data_request fmt] else Crash
      | Rdp_send_monitor_layout ly \<Rightarrow>
          if remmina_file_get_int rf ''multimon'' 0 \<noteq> 0
          then Ret [Msg_layout (map (rdp_dcml ly) (take (rs_count (rx_settings rx)) (rs_monitors (rx_settings rx))))]
          else Ret [Msg_layout [rdp_layout_zero\<lparr>ly_flags := 1, ly_width := ly_width ly, ly_height := ly_height ly,
                      ly_orientation := ly_orientation ly, ly_desktop_scale := ly_desktop_scale ly,
                      ly_device_scale := ly_device_scale ly\<rparr>]]
      | Rdp_disconnect \<Rightarrow> Ret [Msg_abort])"

fun rdp_events_msgs :: "rfile \<Rightarrow> rdp_ctx \<Rightarrow> rdp_event list \<Rightarrow> rdp_msg list c_result" where
  "rdp_events_msgs rf rx [] = Ret []"
| "rdp_events_msgs rf rx (e # es) =
     c_bind (rdp_event_msgs rf rx e) (\<lambda>ms. c_bind (rdp_events_msgs rf rx es) (\<lambda>ms'. Ret (ms @ ms')))"

definition rf_process_event_queue :: "rfile \<Rightarrow> rdp_ctx \<Rightarrow> (rdp_msg list \<times> rdp_ctx) c_result" where
  "rf_process_event_queue rf rx =
     (case rx_event_queue rx of
        None \<Rightarrow> Ret ([], rx)
      | Some q \<Rightarrow> c_bind (rdp_events_msgs rf rx q) (\<lambda>ms. Ret (ms, rx\<lparr>rx_event_queue := Some []\<rparr>)))"

section \<open>Everything the user can do\<close>

datatype 'f rdp_action =
    Ra_motion int int
  | Ra_button button_type nat int int
  | Ra_scroll "'f scroll_direction" int int
  | Ra_key bool guint "16 word" guint rdp_key
  | Ra_configure guint
  | Ra_layout_timer
  | Ra_jitter
  | Ra_unfocus

fun rdp_act :: "('kf, 'f) rdp_env \<Rightarrow> rfile \<Rightarrow> 'f rdp_action \<Rightarrow> rdp_ctx \<Rightarrow> rdp_ctx" where
  "rdp_act env rf (Ra_motion x y) rx = snd (remmina_rdp_event_on_motion env rf x y rx)"
| "rdp_act env rf (Ra_button type button x y) rx = snd (remmina_rdp_event_on_button env rf type button x y rx)"
| "rdp_act env rf (Ra_scroll direction x y) rx = snd (remmina_rdp_event_on_scroll env rf direction x y rx)"
| "rdp_act env rf (Ra_key press keyval code modifiers junk) rx =
     snd (remmina_rdp_event_on_key env rf press keyval code modifiers junk rx)"
| "rdp_act env rf (Ra_configure timer) rx = remmina_rdp_event_on_configure env timer rx"
| "rdp_act env rf Ra_layout_timer rx = remmina_rdp_event_delayed_monitor_layout env rf rx"
| "rdp_act env rf Ra_jitter rx = remmina_rdp_mouse_jitter rf rx"
| "rdp_act env rf Ra_unfocus rx = remmina_rdp_event_unfocus rx"

definition rdp_acts :: "(('kf, 'f) rdp_env \<times> rfile \<times> 'f rdp_action) list \<Rightarrow> rdp_ctx \<Rightarrow> rdp_ctx" where
  "rdp_acts as rx = fold (\<lambda>(env, rf, a). rdp_act env rf a) as rx"

end
