(* ===== verification/RdpEventFacts.thy ===== *)
theory RdpEventFacts
  imports RdpEvent
begin

text \<open>
  Properties of the input side of the RDP plugin: the keys the server holds down, the
  encoding of wheel rotations, the keymap setting, positions and areas, and the layout of
  the monitors that is sent when the window changes its size.
\<close>

section \<open>The keys the server holds down\<close>

datatype rdp_key_id = Scan_id "16 word" "8 word" | Unicode_id "16 word"

text \<open>The key a message presses or releases.\<close>

fun rdp_msg_key :: "rdp_msg \<Rightarrow> (rdp_key_id \<times> bool) option" where
  "rdp_msg_key (Msg_keyboard flags code) =
     Some (Scan_id (flags AND 0x0300) code, flags AND KBD_FLAGS_RELEASE = 0)"
| "rdp_msg_key (Msg_unicode flags code) = Some (Unicode_id code, flags AND KBD_FLAGS_RELEASE = 0)"
| "rdp_msg_key _ = None"

definition rdp_held_after :: "bool \<Rightarrow> (rdp_key_id \<times> bool) option list \<Rightarrow> rdp_key_id \<Rightarrow> bool" where
  "rdp_held_after h ks i = fold (\<lambda>k held. case k of Some (j, down) \<Rightarrow> if j = i then down else held | None \<Rightarrow> held) ks h"

definition rdp_held :: "rdp_msg list \<Rightarrow> rdp_key_id \<Rightarrow> bool" where
  "rdp_held ms = rdp_held_after False (map rdp_msg_key ms)"

text \<open>The same of an event of the queue.\<close>

definition key_ext :: "rdp_key \<Rightarrow> 16 word" where
  "key_ext k = (if rk_extended1 k then KBD_FLAGS_EXTENDED1 else if rk_extended k then KBD_FLAGS_EXTENDED else 0)"

fun rdp_event_key :: "rdp_event \<Rightarrow> (rdp_key_id \<times> bool) option" where
  "rdp_event_key (Rdp_scancode k) = Some (Scan_id (key_ext k) (rk_key_code k), \<not> rk_up k)"
| "rdp_event_key (Rdp_scancode_unicode k) = Some (Unicode_id (ucast (rk_unicode_code k)), \<not> rk_up k)"
| "rdp_event_key _ = None"

abbreviation "queue_held es \<equiv> rdp_held_after False (map rdp_event_key es)"

fun rdp_plain :: "rdp_event \<Rightarrow> bool" where
  "rdp_plain (Rdp_clip_data_response _ _) = False"
| "rdp_plain (Rdp_clip_data_request _) = False"
| "rdp_plain (Rdp_clip_format_list _) = False"
| "rdp_plain _ = True"

lemma key_ext_up [simp]: "key_ext (k\<lparr>rk_up := u\<rparr>) = key_ext k"
  by (simp add: key_ext_def split: if_split)

lemma key_flags_bits:
  "rdp_key_flags k AND 0x0300 = key_ext k" "rdp_key_flags k AND KBD_FLAGS_RELEASE = 0 \<longleftrightarrow> \<not> rk_up k"
  by (cases "rk_up k"; cases "rk_extended k"; cases "rk_extended1 k"; simp add: rdp_key_flags_def key_ext_def)+

lemma plain_event_msgs:
  "rdp_plain e \<Longrightarrow> \<exists>m. rdp_event_msgs rf rx e = Ret [m] \<and> rdp_msg_key m = rdp_event_key e"
  by (cases e) (auto simp: rdp_event_msgs_def key_flags_bits)

lemma plain_events_msgs:
  "list_all rdp_plain es \<Longrightarrow> \<exists>ms. rdp_events_msgs rf rx es = Ret ms \<and> map rdp_msg_key ms = map rdp_event_key es"
proof (induction es)
  case (Cons e es)
  then obtain ms where ms: "rdp_events_msgs rf rx es = Ret ms" "map rdp_msg_key ms = map rdp_event_key es" by auto
  from Cons.prems obtain m where "rdp_event_msgs rf rx e = Ret [m]" "rdp_msg_key m = rdp_event_key e"
    using plain_event_msgs [of e rf rx] by auto
  with ms show ?case by simp
qed simp

lemma held_after_Nil [simp]: "rdp_held_after h [] i = h"
  by (simp add: rdp_held_after_def)

lemma held_after_Cons [simp]:
  "rdp_held_after h (k # ks) i =
     rdp_held_after (case k of Some (j, down) \<Rightarrow> if j = i then down else h | None \<Rightarrow> h) ks i"
  by (simp only: rdp_held_after_def comp_apply fold.simps)

lemma held_after_append: "rdp_held_after h (ks @ ks') i = rdp_held_after (rdp_held_after h ks i) ks' i"
  by (simp add: rdp_held_after_def)

lemma held_after_snoc [simp]:
  "rdp_held_after h (ks @ [k]) i = (case k of Some (j, down) \<Rightarrow> if j = i then down else rdp_held_after h ks i
     | None \<Rightarrow> rdp_held_after h ks i)"
  by (simp only: rdp_held_after_def fold_append comp_apply fold.simps id_apply)

section \<open>Pushing\<close>

lemma push_ready:
  "rdp_ready rx \<Longrightarrow> rx_event_queue rx = Some q \<Longrightarrow>
     remmina_rdp_event_event_push e rx = rx\<lparr>rx_event_queue := Some (q @ [e]), rx_event_pipe := Suc (rx_event_pipe rx)\<rparr>"
  by (simp add: remmina_rdp_event_event_push_def)

lemma push_frame [simp]:
  "rdp_ready (remmina_rdp_event_event_push e rx) = rdp_ready rx"
  "rx_pressed_keys (remmina_rdp_event_event_push e rx) = rx_pressed_keys rx"
  "rx_use_client_keymap (remmina_rdp_event_event_push e rx) = rx_use_client_keymap rx"
  by (simp_all add: remmina_rdp_event_event_push_def rdp_ready_def split: option.split)

text \<open>
  The invariant: the queue can be sent, and every key that is down after it is among the
  pressed keys, all of which are presses of key codes.
\<close>

definition rdp_keys_inv :: "rdp_ctx \<Rightarrow> bool" where
  "rdp_keys_inv rx \<longleftrightarrow> rdp_ready rx \<and> \<not> rx_use_client_keymap rx \<and>
     (\<forall>e \<in> set (rx_pressed_keys rx). \<exists>k. e = Rdp_scancode k \<and> \<not> rk_up k) \<and>
     (\<exists>q. rx_event_queue rx = Some q \<and> list_all rdp_plain q \<and>
        (\<forall>i. queue_held q i \<longrightarrow> Some (i, True) \<in> rdp_event_key ` set (rx_pressed_keys rx)))"

lemma keys_invE:
  assumes "rdp_keys_inv rx"
  obtains q where "rdp_ready rx" "rx_event_queue rx = Some q" "list_all rdp_plain q" "\<not> rx_use_client_keymap rx"
    and "\<And>i. queue_held q i \<Longrightarrow> Some (i, True) \<in> rdp_event_key ` set (rx_pressed_keys rx)"
    and "\<And>e. e \<in> set (rx_pressed_keys rx) \<Longrightarrow> \<exists>k. e = Rdp_scancode k \<and> \<not> rk_up k"
  using assms unfolding rdp_keys_inv_def by blast

lemma ready_update [simp]:
  "rdp_ready (rx\<lparr>rx_event_queue := q\<rparr>) = rdp_ready rx" "rdp_ready (rx\<lparr>rx_event_pipe := n\<rparr>) = rdp_ready rx"
  "rdp_ready (rx\<lparr>rx_pressed_keys := ks\<rparr>) = rdp_ready rx"
  "rdp_ready (rx\<lparr>rx_last_x := x\<rparr>) = rdp_ready rx" "rdp_ready (rx\<lparr>rx_last_y := x\<rparr>) = rdp_ready rx"
  "rdp_ready (rx\<lparr>rx_layout_handler := h\<rparr>) = rdp_ready rx"
  "rdp_ready (rx\<lparr>rx_settings := st\<rparr>) = rdp_ready rx" "rdp_ready (rx\<lparr>rx_monitor_buffer := b\<rparr>) = rdp_ready rx"
  "rdp_ready (rx\<lparr>rx_scale_width := w\<rparr>) = rdp_ready rx" "rdp_ready (rx\<lparr>rx_scale_height := w\<rparr>) = rdp_ready rx"
  by (simp_all add: rdp_ready_def)

lemma rdp_keys_inv_push:
  assumes "rdp_keys_inv rx" and "rdp_plain e" and "rdp_event_key e = None"
  shows "rdp_keys_inv (remmina_rdp_event_event_push e rx)"
proof -
  from assms(1) obtain q where q: "rdp_ready rx" "rx_event_queue rx = Some q" by (auto simp: rdp_keys_inv_def)
  show ?thesis
    using assms unfolding rdp_keys_inv_def push_frame push_ready [OF q] by (auto simp: q)
qed

lemma same_key_id: "same_key k (Rdp_scancode k2) \<Longrightarrow> rdp_event_key (Rdp_scancode k2) = Some (Scan_id (key_ext k) (rk_key_code k), \<not> rk_up k2)"
  by (simp add: same_key_def key_ext_def)

lemma keys_inv_push_key:
  assumes inv: "rdp_keys_inv rx" and nz: "rk_key_code k \<noteq> 0"
  shows "rdp_keys_inv (rdp_push_key (Rdp_scancode k) rx)"
proof (cases "rk_up k")
  case False
  from inv show ?thesis
    by (rule keys_invE) (use False nz in \<open>auto simp: rdp_push_key_def keypress_list_add_def push_ready rdp_keys_inv_def split: if_splits\<close>)
next
  case True
  from inv obtain q where q: "rdp_ready rx" "rx_event_queue rx = Some q" "list_all rdp_plain q" "\<not> rx_use_client_keymap rx"
    and held: "\<And>i. queue_held q i \<Longrightarrow> Some (i, True) \<in> rdp_event_key ` set (rx_pressed_keys rx)"
    and down: "\<And>e. e \<in> set (rx_pressed_keys rx) \<Longrightarrow> \<exists>k. e = Rdp_scancode k \<and> \<not> rk_up k"
    unfolding rdp_keys_inv_def by blast
  let ?ks = "rx_pressed_keys rx" and ?id = "Scan_id (key_ext k) (rk_key_code k)"
  have queue: "queue_held (q @ [Rdp_scancode k]) i \<longleftrightarrow> i \<noteq> ?id \<and> queue_held q i" for i
    using True by auto
  show ?thesis
  proof (cases "first_index (same_key k) ?ks")
    case None
    then show ?thesis
      using True nz q down held queue
      by (auto simp: rdp_push_key_def keypress_list_add_def remmina_rdp_event_release_key_def push_ready rdp_keys_inv_def)
  next
    case (Some n)
    let ?ks' = "g_ptr_array_remove_index_fast ?ks n"
    have n: "n < length ?ks" "same_key k (?ks ! n)" using first_index_SomeD [OF Some] by simp_all
    then obtain k2 where "?ks ! n = Rdp_scancode k2" "\<not> rk_up k2" using down nth_mem by blast
    with n same_key_id have removed: "rdp_event_key (?ks ! n) = Some (?id, True)" by simp
    note sub = remove_index_fast_set [OF n(1)]
    have "Some (i, True) \<in> rdp_event_key ` set ?ks'" if "queue_held (q @ [Rdp_scancode k]) i" for i
    proof -
      from that queue held have "i \<noteq> ?id" "Some (i, True) \<in> rdp_event_key ` set ?ks" by auto
      with sub(2) removed show ?thesis by fastforce
    qed
    moreover have "\<And>e. e \<in> set ?ks' \<Longrightarrow> \<exists>k. e = Rdp_scancode k \<and> \<not> rk_up k" using sub(1) down by blast
    ultimately show ?thesis
      using True nz q Some
      by (auto simp: rdp_push_key_def keypress_list_add_def remmina_rdp_event_release_key_def push_ready rdp_keys_inv_def)
  qed
qed

lemma keys_inv_pause:
  assumes "rdp_keys_inv rx"
  shows "rdp_keys_inv (rdp_push_pause k rx)"
proof -
  from assms obtain q where q: "rdp_ready rx" "rx_event_queue rx = Some q" by (auto simp: rdp_keys_inv_def)
  define e where "e = (\<lambda>(code, up, ext1). Rdp_scancode (k\<lparr>rk_key_code := code, rk_up := up, rk_extended1 := ext1\<rparr>))"
  let ?es = "map e [(0x1D, False, True), (0x45, False, False), (0x1D, True, True), (0x45, True, False)]"
  have "rdp_push_pause k rx =
      rx\<lparr>rx_event_queue := Some (q @ ?es), rx_event_pipe := Suc (Suc (Suc (Suc (rx_event_pipe rx))))\<rparr>"
    by (simp add: rdp_push_pause_def push_ready q e_def)
  moreover have "queue_held (q @ ?es) i \<Longrightarrow> queue_held q i" for i
    by (simp add: e_def held_after_append key_ext_def split: if_splits)
  ultimately show ?thesis
    using assms by (auto simp: rdp_keys_inv_def q e_def)
qed

lemma keys_inv_update [simp]:
  "rdp_keys_inv (rx\<lparr>rx_last_x := x\<rparr>) = rdp_keys_inv rx" "rdp_keys_inv (rx\<lparr>rx_last_y := x\<rparr>) = rdp_keys_inv rx"
  "rdp_keys_inv (rx\<lparr>rx_layout_handler := h\<rparr>) = rdp_keys_inv rx"
  "rdp_keys_inv (rx\<lparr>rx_settings := st\<rparr>) = rdp_keys_inv rx" "rdp_keys_inv (rx\<lparr>rx_monitor_buffer := b\<rparr>) = rdp_keys_inv rx"
  "rdp_keys_inv (rx\<lparr>rx_scale_width := w\<rparr>) = rdp_keys_inv rx" "rdp_keys_inv (rx\<lparr>rx_scale_height := w\<rparr>) = rdp_keys_inv rx"
  by (simp_all add: rdp_keys_inv_def)

lemma rdp_push_releases:
  "rdp_ready rx \<Longrightarrow> rx_event_queue rx = Some q \<Longrightarrow>
     (\<exists>n. rdp_push_releases es rx =
        rx\<lparr>rx_event_queue := Some (q @ map event_released (filter event_is_down es)), rx_event_pipe := n\<rparr>)"
proof (induction es arbitrary: q rx)
  case Nil
  then have "rx = rx\<lparr>rx_event_queue := Some q, rx_event_pipe := rx_event_pipe rx\<rparr>"
    by (cases rx) simp
  then show ?case by (simp only: rdp_push_releases.simps list.map filter.simps append_Nil2) blast
next
  case (Cons e es)
  show ?case
  proof (cases "event_is_down e")
    case True
    let ?rx = "rx\<lparr>rx_event_queue := Some (q @ [event_released e]), rx_event_pipe := Suc (rx_event_pipe rx)\<rparr>"
    from Cons.IH [of ?rx "q @ [event_released e]"] Cons.prems True
    show ?thesis by (auto simp: push_ready)
  next
    case False
    with Cons show ?thesis by simp
  qed
qed

lemma held_after_releases:
  "\<forall>e \<in> set es. \<exists>k. e = Rdp_scancode k \<and> \<not> rk_up k \<Longrightarrow>
     rdp_held_after h (map rdp_event_key (map event_released es)) i \<longleftrightarrow> h \<and> Some (i, True) \<notin> rdp_event_key ` set es"
  by (induction es arbitrary: h) auto

lemma unfocus_releases:
  assumes "rdp_keys_inv rx"
  shows "rdp_keys_inv (remmina_rdp_event_unfocus rx) \<and>
    (\<exists>q. rx_event_queue (remmina_rdp_event_unfocus rx) = Some q \<and> list_all rdp_plain q \<and> (\<forall>i. \<not> queue_held q i))"
proof -
  from assms obtain q where q: "rdp_ready rx" "rx_event_queue rx = Some q" "list_all rdp_plain q" "\<not> rx_use_client_keymap rx"
    and held: "\<And>i. queue_held q i \<Longrightarrow> Some (i, True) \<in> rdp_event_key ` set (rx_pressed_keys rx)"
    and down: "\<forall>e \<in> set (rx_pressed_keys rx). \<exists>k. e = Rdp_scancode k \<and> \<not> rk_up k"
    unfolding rdp_keys_inv_def by blast
  let ?ks = "rx_pressed_keys rx"
  from rdp_push_releases [OF q(1,2)] obtain n where
    "rdp_push_releases ?ks rx =
       rx\<lparr>rx_event_queue := Some (q @ map event_released (filter event_is_down ?ks)), rx_event_pipe := n\<rparr>" by blast
  moreover have "filter event_is_down ?ks = ?ks"
    using down by (force simp: filter_id_conv event_is_down_def)
  ultimately have u: "remmina_rdp_event_unfocus rx = rx\<lparr>rx_event_queue := Some (q @ map event_released ?ks),
      rx_event_pipe := n, rx_pressed_keys := []\<rparr>"
    using q(1) by (simp add: remmina_rdp_event_unfocus_def remmina_rdp_event_release_all_keys_def)
  have "\<not> queue_held (q @ map event_released ?ks) i" for i
    using held [of i] held_after_releases [OF down, of "queue_held q i" i] by (simp add: held_after_append)
  moreover have "list_all rdp_plain (map event_released ?ks)"
    using down by (force simp: list_all_iff)
  ultimately show ?thesis
    using q unfolding u by (simp add: rdp_keys_inv_def)
qed

text \<open>The low byte of a scan code that FreeRDP knows is never zero.\<close>

definition rdp_scancode_ok :: "('kf, 'f) rdp_env \<Rightarrow> bool" where
  "rdp_scancode_ok env \<longleftrightarrow> (\<forall>c. re_scancode env c \<noteq> 0 \<longrightarrow> ucast (re_scancode env c AND 0xFF) \<noteq> (0 :: 8 word))"

lemma keys_inv_on_key:
  assumes "rdp_keys_inv rx" and "rdp_scancode_ok env"
  shows "rdp_keys_inv (snd (remmina_rdp_event_on_key env rf press keyval code modifiers junk rx))"
proof -
  have "rdp_ready rx" "\<not> rx_use_client_keymap rx" using assms(1) by (auto simp: rdp_keys_inv_def)
  with assms show ?thesis
    by (auto simp: remmina_rdp_event_on_key_def Let_def rdp_scancode_ok_def rdp_scancode_key_def
        intro!: keys_inv_pause keys_inv_push_key)
qed

lemma rdp_keys_inv_act:
  assumes inv: "rdp_keys_inv rx" and ok: "rdp_scancode_ok env"
  shows "rdp_keys_inv (rdp_act env rf a rx)"
proof (cases a)
  case (Ra_motion x y)
  with inv show ?thesis
    by (auto simp: remmina_rdp_event_on_motion_def Let_def intro!: rdp_keys_inv_push split: prod.split)
next
  case (Ra_button type button x y)
  with inv show ?thesis
    by (auto simp: remmina_rdp_event_on_button_def Let_def intro!: rdp_keys_inv_push split: prod.split option.split)
next
  case (Ra_scroll direction x y)
  with inv show ?thesis
    by (auto simp: remmina_rdp_event_on_scroll_def Let_def intro!: rdp_keys_inv_push split: prod.split option.split)
next
  case (Ra_key press keyval code modifiers junk)
  with keys_inv_on_key [OF inv ok] show ?thesis by simp
next
  case (Ra_configure timer)
  with inv show ?thesis
    by (auto simp: remmina_rdp_event_on_configure_def remmina_rdp_event_send_delayed_monitor_layout_def
        remmina_rdp_event_update_scale_factor_def Let_def)
next
  case Ra_layout_timer
  with inv show ?thesis
    by (auto simp: remmina_rdp_event_delayed_monitor_layout_def Let_def intro!: rdp_keys_inv_push split: prod.split)
next
  case Ra_jitter
  with inv show ?thesis by (auto simp: remmina_rdp_mouse_jitter_def intro!: rdp_keys_inv_push)
next
  case Ra_unfocus
  with unfocus_releases [OF inv] show ?thesis by simp
qed

lemma rdp_keys_inv_acts:
  "rdp_keys_inv rx \<Longrightarrow> \<forall>(env, rf, a) \<in> set as. rdp_scancode_ok env \<Longrightarrow> rdp_keys_inv (rdp_acts as rx)"
proof (induction as arbitrary: rx)
  case (Cons a as)
  then show ?case by (cases a) (simp add: rdp_acts_def rdp_keys_inv_act)
qed (simp add: rdp_acts_def)

section \<open>The wheel\<close>

text \<open>What the server reads from the flags: the axis, and a number of 9 bits in two's complement.\<close>

definition wheel_rotation :: "16 word \<Rightarrow> int" where
  "wheel_rotation flags = signed_take_bit 8 (uint flags)"

text \<open>
  The documented behaviour of the conversions: \<open>int_of\<close> cuts off the fraction, which does not
  change on which side of the bounds 255 and -256 a number lies.
\<close>

definition rdp_float_ok :: "'f rdp_float \<Rightarrow> ('f \<Rightarrow> int) \<Rightarrow> bool" where
  "rdp_float_ok fl int_of \<longleftrightarrow>
     (\<forall>d. (fo_gt fl d 255 \<longrightarrow> 255 \<le> int_of d) \<and> (\<not> fo_gt fl d 255 \<longrightarrow> int_of d \<le> 255)) \<and>
     (\<forall>d. (fo_lt fl d (-256) \<longrightarrow> int_of d \<le> -256) \<and> (\<not> fo_lt fl d (-256) \<longrightarrow> -256 \<le> int_of d)) \<and>
     (\<forall>n. int_of (fo_of_int fl n) = n) \<and> (\<forall>d. fo_to_short fl d = word_of_int (int_of d))"

text \<open>The rotation a scroll event stands for; a positive delta of GDK scrolls down and to the right.\<close>

definition scroll_rotation :: "'f rdp_float \<Rightarrow> ('f \<Rightarrow> int) \<Rightarrow> 'f scroll_direction \<Rightarrow> (16 word \<times> int) option" where
  "scroll_rotation fl int_of direction =
     (case direction of
        Scroll_up \<Rightarrow> Some (PTR_FLAGS_WHEEL, 120)
      | Scroll_down \<Rightarrow> Some (PTR_FLAGS_WHEEL, -120)
      | Scroll_right \<Rightarrow> Some (PTR_FLAGS_HWHEEL, 120)
      | Scroll_left \<Rightarrow> Some (PTR_FLAGS_HWHEEL, -120)
      | Scroll_smooth dx dy \<Rightarrow>
          if fo_nonzero fl dy then Some (PTR_FLAGS_WHEEL, max (-256) (min 255 (int_of (fo_times fl dy (-120)))))
          else if fo_nonzero fl dx then Some (PTR_FLAGS_HWHEEL, max (-256) (min 255 (int_of (fo_times fl dx 120))))
          else None)"

lemma clamp_delta:
  assumes "rdp_float_ok fl int_of"
  shows "fo_to_short fl (rdp_clamp_delta fl d) = word_of_int (max (-256) (min 255 (int_of d)))"
proof -
  have gt: "fo_gt fl d 255 \<Longrightarrow> 255 \<le> int_of d" "\<not> fo_gt fl d 255 \<Longrightarrow> int_of d \<le> 255"
    and lt: "fo_lt fl d (-256) \<Longrightarrow> int_of d \<le> -256" "\<not> fo_lt fl d (-256) \<Longrightarrow> -256 \<le> int_of d" for d
    using assms by (auto simp: rdp_float_ok_def)
  have eq: "int_of (fo_of_int fl n) = n" "fo_to_short fl d = word_of_int (int_of d)" for n d
    using assms by (auto simp: rdp_float_ok_def)
  show ?thesis
    using gt [of d] lt [of d] lt [of "fo_of_int fl 255"]
    by (auto simp: rdp_clamp_delta_def Let_def eq max_def min_def)
qed

lemma wheel_flag_bits:
  assumes "axis \<in> {PTR_FLAGS_WHEEL, PTR_FLAGS_HWHEEL}" and "-256 \<le> v" "v \<le> 255"
  shows "(axis OR (word_of_int v AND WheelRotationMask)) AND 0xFE00 = axis"
    and "wheel_rotation (axis OR (word_of_int v AND WheelRotationMask)) = v"
proof -
  have m: "WheelRotationMask = mask 9" by (simp add: mask_eq_exp_minus_1)
  have hi: "WheelRotationMask AND 0xFE00 = 0" by simp
  have "axis AND 0xFE00 = axis" using assms(1) by auto
  then show "(axis OR (word_of_int v AND WheelRotationMask)) AND 0xFE00 = axis"
    by (simp add: bit.conj_disj_distrib2 and.assoc)
  have axis: "take_bit 9 (uint axis) = 0" using assms(1) by auto
  have "take_bit 9 (uint (axis OR (word_of_int v AND WheelRotationMask))) = take_bit 9 v"
    using axis by (simp add: m unsigned_or_eq unsigned_take_bit_eq unsigned_of_int take_bit_or flip: take_bit_eq_mask)
  then have "signed_take_bit 8 (uint (axis OR (word_of_int v AND WheelRotationMask))) = signed_take_bit 8 v"
    by (simp add: signed_take_bit_eq_iff_take_bit_eq)
  also have "\<dots> = v" using assms(2,3) by (simp add: signed_take_bit_int_eq_self)
  finally show "wheel_rotation (axis OR (word_of_int v AND WheelRotationMask)) = v"
    by (simp add: wheel_rotation_def)
qed

lemma scroll_flag_rotation:
  assumes "rdp_float_ok fl int_of"
  shows "case scroll_rotation fl int_of direction of
      None \<Rightarrow> rdp_scroll_flag fl direction = None
    | Some (axis, r) \<Rightarrow> \<exists>flags. rdp_scroll_flag fl direction = Some flags \<and> flags AND 0xFE00 = axis \<and> wheel_rotation flags = r"
proof -
  have step: "wheel_rotation 632 = 120" "wheel_rotation 904 = -120" "wheel_rotation 1144 = 120" "wheel_rotation 1416 = -120"
    by code_simp+
  have range: "-256 \<le> max (-256) (min 255 n)" "max (-256) (min 255 n) \<le> (255 :: int)" for n by simp_all
  show ?thesis
    using step
    by (auto simp: scroll_rotation_def rdp_scroll_flag_def clamp_delta [OF assms] wheel_flag_bits [OF _ range]
        split: scroll_direction.split)
qed

section \<open>The keymap setting\<close>

fun rdp_keymap_text :: "rdp_keymap_entry list \<Rightarrow> string" where
  "rdp_keymap_text [] = []"
| "rdp_keymap_text (ke # es) =
     show_int (uint (ke_orig_keycode ke)) @ '':'' @ show_int (uint (ke_translated_keycode ke)) @
     (if es = [] then [] else '','' @ rdp_keymap_text es)"

definition keycode_31 :: "32 word \<Rightarrow> bool" where
  "keycode_31 c \<longleftrightarrow> uint c < 2 ^ 31"

lemma keymap_code_uint: "keycode_31 c \<Longrightarrow> keymap_code (uint c) = c"
proof -
  assume c: "keycode_31 c"
  have nonneg: "- 9223372036854775808 \<le> uint c" by (rule order_trans [OF _ unsigned_greater_eq]) simp
  have "(0x7fffffff :: 32 word) = mask 31" by (simp add: mask_eq_exp_minus_1)
  moreover have "long_to_gint (uint c) = c"
    using c nonneg by (simp add: long_to_gint_def keycode_31_def max_def)
  moreover have "take_bit 31 c = c"
    using c by (simp add: word_uint_eq_iff unsigned_take_bit_eq take_bit_int_eq_self keycode_31_def)
  ultimately show ?thesis using take_bit_eq_mask [of 31 c] by (simp add: keymap_code_def)
qed

lemma keymap_entries_text:
  "list_all (\<lambda>ke. keycode_31 (ke_orig_keycode ke) \<and> keycode_31 (ke_translated_keycode ke)) es \<Longrightarrow>
     keymap_entries (rdp_keymap_text es) = es"
proof (induction es)
  case Nil
  show ?case by (subst keymap_entries.simps) (simp add: scan_dec_def scan_sign_def)
next
  case (Cons ke es)
  have sep: "scan_dec (show_int i @ CHR '':'' # r) = Some (i, CHR '':'' # r)"
    "scan_dec (show_int i @ CHR '','' # r) = Some (i, CHR '','' # r)" "scan_dec (show_int i) = Some (i, [])" for i r
    using scan_dec_show_int [of "CHR '':'' # r" i] scan_dec_show_int [of "CHR '','' # r" i] scan_dec_show_int [of "[]" i]
    by (simp_all add: isdigit_def)
  from Cons show ?case
    by (subst keymap_entries.simps) (cases "es = []"; simp add: sep keymap_code_uint)
qed

section \<open>Sample sessions\<close>

definition rdp_sample_float :: "int rdp_float" where
  "rdp_sample_float = \<lparr>fo_nonzero = (\<lambda>d. d \<noteq> 0), fo_times = (*), fo_gt = (>), fo_lt = (<), fo_of_int = id,
     fo_to_short = word_of_int\<rparr>"

lemma rdp_sample_float_ok: "rdp_float_ok rdp_sample_float id"
  by (simp add: rdp_float_ok_def rdp_sample_float_def)

definition rdp_sample_env :: "'kf keyfile_ops \<Rightarrow> pref_state \<Rightarrow> ('kf, int) rdp_env" where
  "rdp_sample_env ops st = \<lparr>re_width = 1024, re_height = 768, re_alloc_width = 800, re_alloc_height = 600,
     re_kf = ops, re_pref = st, re_scancode = (\<lambda>c. if c = 38 then 0x1E else if c = 108 then 0x138 else 0),
     re_unicode = (\<lambda>v. if v = 0xe4 then 0xe4 else 0), re_float = rdp_sample_float,
     re_monitors = [], re_set_monitors = id\<rparr>"

definition rdp_sample :: "bool \<Rightarrow> rdp_ctx" where
  "rdp_sample client_keymap = \<lparr>rx_connected = True, rx_is_reconnecting = False, rx_scale = Scale_scaled,
     rx_scale_width = 800, rx_scale_height = 600, rx_surface = True, rx_rdpgfxchan = True, rx_dispcontext = True,
     rx_use_client_keymap = client_keymap, rx_keymap = None, rx_pressed_keys = [], rx_event_queue = Some [],
     rx_event_pipe = 0, rx_last_x = 0, rx_last_y = 0, rx_layout_handler = 0, rx_clipboard_context = False,
     rx_settings = \<lparr>rs_width = 1024, rs_height = 768, rs_shift_x = 0, rs_shift_y = 0, rs_count = 0, rs_monitors = []\<rparr>,
     rx_monitor_buffer = [NUL]\<rparr>"

definition rdp_sample_key :: "8 word \<Rightarrow> rdp_key" where
  "rdp_sample_key code = \<lparr>rk_up = True, rk_extended = True, rk_key_code = code, rk_unicode_code = 7, rk_extended1 = True\<rparr>"

definition rdp_sample_file :: "(string \<times> string) list \<Rightarrow> rfile" where
  "rdp_sample_file settings = remmina_file_new_empty\<lparr>rf_settings := settings\<rparr>"

lemma rdp_sample_scancode_ok: "rdp_scancode_ok (rdp_sample_env ops st)"
  by (simp add: rdp_scancode_ok_def rdp_sample_env_def)

lemma rdp_sample_viewonly:
  "\<not> rdp_viewonly (rdp_sample_file [])" "rdp_viewonly (rdp_sample_file [(''viewonly'', ''1'')])"
  by code_simp+

lemmas rdp_sample_simps = rdp_sample_def rdp_sample_env_def rdp_ready_def rdp_sample_viewonly

section \<open>Properties\<close>

text \<open>
  C38: After the window has lost the focus the RDP server holds no key down, whatever the user
  did before: keys, repeated presses and releases in any order, the Pause key, pointer
  events, changes of the window and losses of the focus. Sending the queue does not fail,
  and for each key the last message is a release. This is for sessions that send key codes;
  it does not depend on what the uninitialised members of the local event hold.
\<close>

theorem rdp_unfocus_releases_keys:
  assumes "rdp_ready rx" and "\<not> rx_use_client_keymap rx"
    and "rx_event_queue rx = Some []" and "rx_pressed_keys rx = []"
    and "\<forall>(env, rf, a) \<in> set as. rdp_scancode_ok env"
  shows "\<exists>ms rx'. rf_process_event_queue rf (rdp_act env rf Ra_unfocus (rdp_acts as rx)) = Ret (ms, rx') \<and>
    (\<forall>key. \<not> rdp_held ms key)"
proof -
  have "rdp_keys_inv rx" using assms(1-4) by (simp add: rdp_keys_inv_def)
  from unfocus_releases [OF rdp_keys_inv_acts [OF this assms(5)]]
  obtain q where q: "rx_event_queue (rdp_act env rf Ra_unfocus (rdp_acts as rx)) = Some q"
    and plain: "list_all rdp_plain q" and none: "\<forall>i. \<not> queue_held q i" by auto
  from plain_events_msgs [OF plain] obtain ms where
    "rdp_events_msgs rf (rdp_act env rf Ra_unfocus (rdp_acts as rx)) q = Ret ms" "map rdp_msg_key ms = map rdp_event_key q"
    by blast
  with q none show ?thesis by (simp add: rf_process_event_queue_def rdp_held_def)
qed

theorem rdp_unfocus_releases_keys_witness:
  "\<forall>ops st. \<exists>ms rx'. rf_process_event_queue (rdp_sample_file []) (rdp_act (rdp_sample_env ops st) (rdp_sample_file []) Ra_unfocus
      (rdp_acts [(rdp_sample_env ops st, rdp_sample_file [], Ra_key True 97 38 0 (rdp_sample_key 9)),
                 (rdp_sample_env ops st, rdp_sample_file [], Ra_key True 0xffea 108 0 (rdp_sample_key 0))] (rdp_sample False))) =
      Ret (ms, rx') \<and> (\<forall>key. \<not> rdp_held ms key)"
  by (intro allI rdp_unfocus_releases_keys) (simp_all add: rdp_sample_simps(1,3) rdp_sample_scancode_ok)

text \<open>
  A character typed with the client keymap in use is released when the focus is lost only
  if the byte of the uninitialised key code in the local event happens not to be zero: with
  zero the press is sent but the key is not put on the list of pressed keys.
\<close>

theorem rdp_unicode_key_sticks:
  assumes "rdp_ready rx" and "rx_use_client_keymap rx"
    and "rx_event_queue rx = Some []" and "rx_pressed_keys rx = []"
    and "\<not> rdp_viewonly rf" and "keyval \<noteq> 0xff13" and "\<not> rdp_sends_scancode env keyval code modifiers"
  shows "\<exists>ms rx'. rf_process_event_queue rf (rdp_act env rf Ra_unfocus
      (rdp_act env rf (Ra_key True keyval code modifiers junk) rx)) = Ret (ms, rx') \<and>
    (rdp_held ms (Unicode_id (ucast (re_unicode env keyval))) \<longleftrightarrow> rk_key_code junk = 0)"
  using assms
  by (cases "rk_key_code junk = 0")
    (simp_all add: remmina_rdp_event_on_key_def rdp_push_key_def keypress_list_add_def push_ready Let_def
      remmina_rdp_event_unfocus_def remmina_rdp_event_release_all_keys_def event_is_down_def
      rf_process_event_queue_def rdp_event_msgs_def rdp_held_def)

theorem rdp_unicode_key_sticks_witness:
  "\<forall>ops st. \<exists>ms rx'. rf_process_event_queue (rdp_sample_file []) (rdp_act (rdp_sample_env ops st) (rdp_sample_file []) Ra_unfocus
      (rdp_act (rdp_sample_env ops st) (rdp_sample_file []) (Ra_key True 0xe4 48 0 (rdp_sample_key 0)) (rdp_sample True))) =
      Ret (ms, rx') \<and> (rdp_held ms (Unicode_id (ucast (re_unicode (rdp_sample_env ops st) 0xe4))) \<longleftrightarrow> rk_key_code (rdp_sample_key 0) = 0)"
  by (intro allI rdp_unicode_key_sticks) (simp_all add: rdp_sample_simps rdp_sends_scancode_def)

text \<open>
  Every scroll event reaches the server as the rotation it stands for: one unit of 120 in
  the right direction for a click of the wheel, and for a smooth movement the delta, cut off
  at the bounds 255 and -256 of the 9 bits, so that the sign never turns. The flags hold the
  axis and nothing else beside the rotation, and a movement of zero sends nothing.
\<close>

theorem rdp_wheel_encoding:
  assumes "rdp_float_ok (re_float env) int_of"
    and "rdp_ready rx" and "rx_event_queue rx = Some q" and "\<not> rdp_viewonly rf"
  shows "case scroll_rotation (re_float env) int_of direction of
      None \<Rightarrow> remmina_rdp_event_on_scroll env rf direction x y rx = (False, rx)
    | Some (axis, r) \<Rightarrow> \<exists>flags rx' mx my. remmina_rdp_event_on_scroll env rf direction x y rx = (True, rx') \<and>
        rx_event_queue rx' = Some (q @ [Rdp_mouse flags mx my False]) \<and>
        (mx, my) = remmina_rdp_event_translate_pos env rx x y \<and>
        flags AND 0xFE00 = axis \<and> wheel_rotation flags = r"
  using scroll_flag_rotation [OF assms(1), of direction] assms(2-4)
  by (auto simp: remmina_rdp_event_on_scroll_def push_ready split: option.splits prod.splits)

theorem rdp_wheel_encoding_witness:
  "\<forall>ops st. case scroll_rotation (re_float (rdp_sample_env ops st)) id (Scroll_smooth 0 3) of
      None \<Rightarrow> remmina_rdp_event_on_scroll (rdp_sample_env ops st) (rdp_sample_file []) (Scroll_smooth 0 3) 5 6 (rdp_sample False) = (False, rdp_sample False)
    | Some (axis, r) \<Rightarrow> \<exists>flags rx' mx my.
        remmina_rdp_event_on_scroll (rdp_sample_env ops st) (rdp_sample_file []) (Scroll_smooth 0 3) 5 6 (rdp_sample False) = (True, rx') \<and>
        rx_event_queue rx' = Some ([] @ [Rdp_mouse flags mx my False]) \<and>
        (mx, my) = remmina_rdp_event_translate_pos (rdp_sample_env ops st) (rdp_sample False) 5 6 \<and>
        flags AND 0xFE00 = axis \<and> wheel_rotation flags = r"
  by (intro allI rdp_wheel_encoding) (use rdp_sample_float_ok in \<open>simp_all add: rdp_sample_simps\<close>)

text \<open>
  The setting \<open>rdp_map_keycode\<close> is read back as the table it was written from: pairs of
  key codes of 31 bits, separated by commas, in their order.
\<close>

theorem rdp_keymap_roundtrip:
  assumes "list_all (\<lambda>ke. keycode_31 (ke_orig_keycode ke) \<and> keycode_31 (ke_translated_keycode ke)) es"
  shows "rx_keymap (remmina_rdp_event_init_keymap (Some (rdp_keymap_text es)) rx) = (if es = [] then None else Some es)"
  using keymap_entries_text [OF assms]
  by (cases es) (auto simp: remmina_rdp_event_init_keymap_def Let_def simp del: keymap_entries.simps)

theorem rdp_keymap_roundtrip_witness:
  "\<forall>rx. rx_keymap (remmina_rdp_event_init_keymap (Some (rdp_keymap_text
      [\<lparr>ke_orig_keycode = 99, ke_translated_keycode = 151\<rparr>, \<lparr>ke_orig_keycode = 1, ke_translated_keycode = 2\<rparr>])) rx) =
     Some [\<lparr>ke_orig_keycode = 99, ke_translated_keycode = 151\<rparr>, \<lparr>ke_orig_keycode = 1, ke_translated_keycode = 2\<rparr>]"
  using rdp_keymap_roundtrip [of "[\<lparr>ke_orig_keycode = 99, ke_translated_keycode = 151\<rparr>, \<lparr>ke_orig_keycode = 1, ke_translated_keycode = 2\<rparr>]"]
  by (simp add: keycode_31_def del: rdp_keymap_text.simps)

text \<open>
  A view-only RDP session sends nothing of what the user does with the pointer, the wheel
  and the keyboard: the handlers leave the session as it is.
\<close>

theorem rdp_viewonly_ignores_input:
  assumes "rdp_viewonly rf"
  shows "rdp_act env rf (Ra_motion x y) rx = rx \<and> rdp_act env rf (Ra_button type button x y) rx = rx \<and>
    rdp_act env rf (Ra_scroll direction x y) rx = rx \<and> rdp_act env rf (Ra_key press keyval code modifiers junk) rx = rx \<and>
    rdp_act env rf Ra_jitter rx = rx"
  using assms
  by (simp add: remmina_rdp_event_on_motion_def remmina_rdp_event_on_button_def remmina_rdp_event_on_scroll_def
      remmina_rdp_event_on_key_def remmina_rdp_mouse_jitter_def)

theorem rdp_viewonly_ignores_input_witness:
  "\<forall>ops st. rdp_act (rdp_sample_env ops st) (rdp_sample_file [(''viewonly'', ''1'')]) (Ra_key True 97 38 0 (rdp_sample_key 0)) (rdp_sample False) =
     rdp_sample False"
  using rdp_viewonly_ignores_input [OF rdp_sample_viewonly(2)] by blast

section \<open>The layout of the monitors\<close>

lemma fold_layout_scale:
  "ly_desktop_scale (fold rdp_layout_of_monitor ms ly) = ly_desktop_scale ly \<and>
   ly_device_scale (fold rdp_layout_of_monitor ms ly) = ly_device_scale ly"
  by (induction ms arbitrary: ly) (simp_all add: rdp_layout_of_monitor_def)

text \<open>The window has a size that can be asked for and is not the one of the remote desktop.\<close>

definition rdp_resized :: "('kf, 'f) rdp_env \<Rightarrow> bool" where
  "rdp_resized env \<longleftrightarrow> (re_alloc_width env \<noteq> re_width env \<or> re_alloc_height env \<noteq> re_height env) \<and>
     200 \<le> re_alloc_width env \<and> 200 \<le> re_alloc_height env"

definition rdp_multimon :: "rfile \<Rightarrow> bool" where
  "rdp_multimon rf \<longleftrightarrow> remmina_file_get_int rf ''multimon'' 0 \<noteq> 0"

lemma delayed_layout_pushes:
  assumes "rdp_ready rx" "rx_scale rx = Scale_dynres" "rx_dispcontext rx" "rx_event_queue rx = Some q" "rdp_resized env"
  shows "\<exists>ly settings. rx_event_queue (remmina_rdp_event_delayed_monitor_layout env rf rx) = Some (q @ [Rdp_send_monitor_layout ly]) \<and>
    (rdp_multimon rf \<longrightarrow> ly_desktop_scale ly = 0 \<and> ly_device_scale ly = 0) \<and>
    (\<not> rdp_multimon rf \<longrightarrow> (case remmina_rdp_settings_get_orientation_scale_prefs (re_kf env) (re_pref env) of (orientation, dpsf, desf) \<Rightarrow>
       ly = rdp_layout_zero\<lparr>ly_width := (if rx_rdpgfxchan rx then max (re_alloc_width env) AVC_MIN_DESKTOP_WIDTH else re_alloc_width env),
         ly_height := (if rx_rdpgfxchan rx then max (re_alloc_height env) AVC_MIN_DESKTOP_HEIGHT else re_alloc_height env),
         ly_orientation := sint orientation, ly_desktop_scale := sint dpsf, ly_device_scale := sint desf\<rparr>))"
  using assms fold_layout_scale
  by (auto simp: remmina_rdp_event_delayed_monitor_layout_def Let_def push_ready rdp_resized_def rdp_multimon_def
      rdp_layout_zero_def split: prod.splits)

text \<open>
  When the window has a new size, one layout is sent. With a single monitor it has the
  size of the window, at least what the graphics pipeline can show, and the orientation and
  the scale factors of the preferences. With several monitors the two scale factors are
  always zero, whatever the preferences say: the loop assigns the members to themselves.
\<close>

theorem rdp_resize_sends_layout:
  assumes "rdp_ready rx" "rx_scale rx = Scale_dynres" "rx_dispcontext rx" "rx_event_queue rx = Some []" "rdp_resized env"
  shows "\<exists>lys rx'. rf_process_event_queue rf (rdp_act env rf Ra_layout_timer rx) = Ret ([Msg_layout lys], rx') \<and>
    (rdp_multimon rf \<longrightarrow> list_all (\<lambda>ly. ly_desktop_scale ly = 0 \<and> ly_device_scale ly = 0) lys) \<and>
    (\<not> rdp_multimon rf \<longrightarrow> (case remmina_rdp_settings_get_orientation_scale_prefs (re_kf env) (re_pref env) of (orientation, dpsf, desf) \<Rightarrow>
       lys = [rdp_layout_zero\<lparr>ly_flags := 1,
         ly_width := (if rx_rdpgfxchan rx then max (re_alloc_width env) AVC_MIN_DESKTOP_WIDTH else re_alloc_width env),
         ly_height := (if rx_rdpgfxchan rx then max (re_alloc_height env) AVC_MIN_DESKTOP_HEIGHT else re_alloc_height env),
         ly_orientation := sint orientation, ly_desktop_scale := sint dpsf, ly_device_scale := sint desf\<rparr>]))"
proof -
  from delayed_layout_pushes [OF assms, of rf] obtain ly where
    q: "rx_event_queue (rdp_act env rf Ra_layout_timer rx) = Some [Rdp_send_monitor_layout ly]"
    and multi: "rdp_multimon rf \<Longrightarrow> ly_desktop_scale ly = 0 \<and> ly_device_scale ly = 0"
    and single: "\<not> rdp_multimon rf \<Longrightarrow> (case remmina_rdp_settings_get_orientation_scale_prefs (re_kf env) (re_pref env) of (orientation, dpsf, desf) \<Rightarrow>
       ly = rdp_layout_zero\<lparr>ly_width := (if rx_rdpgfxchan rx then max (re_alloc_width env) AVC_MIN_DESKTOP_WIDTH else re_alloc_width env),
         ly_height := (if rx_rdpgfxchan rx then max (re_alloc_height env) AVC_MIN_DESKTOP_HEIGHT else re_alloc_height env),
         ly_orientation := sint orientation, ly_desktop_scale := sint dpsf, ly_device_scale := sint desf\<rparr>)"
    by auto
  show ?thesis
  proof (cases "rdp_multimon rf")
    case True
    with multi q show ?thesis
      by (simp add: rf_process_event_queue_def rdp_event_msgs_def rdp_multimon_def rdp_dcml_def list_all_iff)
  next
    case False
    with single q show ?thesis
      by (auto simp: rf_process_event_queue_def rdp_event_msgs_def rdp_multimon_def rdp_layout_zero_def split: prod.splits)
  qed
qed

theorem rdp_resize_sends_layout_witness:
  "\<forall>ops st rf. \<exists>lys rx'. rf_process_event_queue rf (rdp_act (rdp_sample_env ops st) rf Ra_layout_timer
      (rdp_sample False\<lparr>rx_scale := Scale_dynres\<rparr>)) = Ret ([Msg_layout lys], rx')"
proof (intro allI)
  fix ops :: "'a keyfile_ops" and st rf
  have "rdp_resized (rdp_sample_env ops st)" by (simp add: rdp_resized_def rdp_sample_env_def)
  then show "\<exists>lys rx'. rf_process_event_queue rf (rdp_act (rdp_sample_env ops st) rf Ra_layout_timer
      (rdp_sample False\<lparr>rx_scale := Scale_dynres\<rparr>)) = Ret ([Msg_layout lys], rx')"
    using rdp_resize_sends_layout [of "rdp_sample False\<lparr>rx_scale := Scale_dynres\<rparr>" "rdp_sample_env ops st" rf]
    by (auto simp: rdp_sample_def rdp_ready_def)
qed

section \<open>Positions and areas\<close>

text \<open>
  A pointer inside the drawing area is translated to the point of the remote desktop under
  it, which lies on the desktop; nothing is lost in the conversion to 16 bits.
\<close>

theorem rdp_pointer_on_desktop:
  assumes "rdp_ready rx" and "rx_scale rx = Scale_scaled"
    and "0 \<le> x" "x < rx_scale_width rx" and "0 \<le> y" "y < rx_scale_height rx"
    and "0 < re_width env" "re_width env \<le> 65535" and "0 < re_height env" "re_height env \<le> 65535"
  shows "\<exists>mx my. remmina_rdp_event_translate_pos env rx x y = (mx, my) \<and>
    uint mx = x * re_width env div rx_scale_width rx \<and> uint mx < re_width env \<and>
    uint my = y * re_height env div rx_scale_height rx \<and> uint my < re_height env"
proof -
  have one: "uint (word_of_int (a * W sdiv w) :: 16 word) = a * W div w \<and> a * W div w < W"
    if "0 \<le> a" "a < w" "0 < W" "W \<le> 65535" for a w W :: int
  proof -
    have "a * W div w < W"
    proof (rule ccontr)
      assume "\<not> a * W div w < W"
      then have "W * w \<le> a * W div w * w" using that by (simp add: mult_right_mono)
      also have "\<dots> \<le> a * W" using div_bounds [of w "a * W"] that by simp
      finally show False using that by (simp add: mult.commute)
    qed
    moreover have "0 \<le> a * W div w" using that by (simp add: pos_imp_zdiv_nonneg_iff)
    ultimately show ?thesis using that by (simp add: sdiv_nonneg unsigned_of_int take_bit_int_eq_self)
  qed
  show ?thesis
    using assms one [of x "rx_scale_width rx" "re_width env"] one [of y "rx_scale_height rx" "re_height env"]
    by (simp add: remmina_rdp_event_translate_pos_def)
qed

theorem rdp_pointer_on_desktop_witness:
  "\<forall>ops st. \<exists>mx my. remmina_rdp_event_translate_pos (rdp_sample_env ops st) (rdp_sample False) 799 599 = (mx, my) \<and>
     uint mx = 799 * 1024 div 800 \<and> uint my = 599 * 768 div 600"
proof (intro allI)
  fix ops :: "'a keyfile_ops" and st
  show "\<exists>mx my. remmina_rdp_event_translate_pos (rdp_sample_env ops st) (rdp_sample False) 799 599 = (mx, my) \<and>
     uint mx = 799 * 1024 div 800 \<and> uint my = 599 * 768 div 600"
    using rdp_pointer_on_desktop [where rx = "rdp_sample False" and x = 799 and y = 599 and env = "rdp_sample_env ops st"]
    by (auto simp: rdp_sample_simps)
qed

text \<open>
  A pointer that is dragged over the left or upper edge has negative coordinates, which wrap
  around in the 16 bits of the event: the server sees it beyond the opposite edge.
\<close>

theorem rdp_pointer_wraps:
  assumes "rdp_ready rx" and "rx_scale rx \<noteq> Scale_scaled" and "-32768 \<le> x" "x < 0" and "0 \<le> y" "y < 65536"
  shows "\<exists>mx my. remmina_rdp_event_translate_pos env rx x y = (mx, my) \<and> uint mx = 65536 + x \<and> 32768 \<le> uint mx \<and> uint my = y"
proof -
  have "uint (word_of_int x :: 16 word) = (65536 + x) mod 65536"
    by (simp add: unsigned_of_int take_bit_int_def)
  also have "\<dots> = 65536 + x" by (rule mod_pos_pos_trivial) (use assms in simp_all)
  finally show ?thesis using assms
    by (simp add: remmina_rdp_event_translate_pos_def unsigned_of_int take_bit_int_eq_self)
qed

theorem rdp_pointer_wraps_witness:
  "\<forall>ops st. \<exists>mx my. remmina_rdp_event_translate_pos (rdp_sample_env ops st) (rdp_sample False\<lparr>rx_scale := Scale_none\<rparr>) (-1) 10 = (mx, my) \<and>
     uint mx = 65535 \<and> uint my = 10"
proof (intro allI)
  fix ops :: "'a keyfile_ops" and st
  show "\<exists>mx my. remmina_rdp_event_translate_pos (rdp_sample_env ops st) (rdp_sample False\<lparr>rx_scale := Scale_none\<rparr>) (-1) 10 = (mx, my) \<and>
     uint mx = 65535 \<and> uint my = 10"
    using rdp_pointer_wraps [where rx = "rdp_sample False\<lparr>rx_scale := Scale_none\<rparr>" and x = "-1" and y = 10 and env = "rdp_sample_env ops st"]
    by (auto simp: rdp_sample_simps)
qed

text \<open>
  The area that is redrawn after scaling an RDP session lies inside the widget and covers
  the exact image of the area that changed.
\<close>

theorem rdp_scale_area_covers:
  fixes r :: rect
  assumes "rdp_ready rx" "rx_surface rx" and "0 < re_width env" "0 < re_height env" "0 < rx_scale_width rx" "0 < rx_scale_height rx"
    and "0 \<le> rc_x r" "0 \<le> rc_width r" "rc_x r + rc_width r \<le> re_width env"
    and "0 \<le> rc_y r" "0 \<le> rc_height r" "rc_y r + rc_height r \<le> re_height env"
    and "\<not> (rx_scale_width rx = re_width env \<and> rx_scale_height rx = re_height env)"
  defines "s \<equiv> remmina_rdp_event_scale_area env rx r"
  shows "rect_in s \<lparr>rc_x = 0, rc_y = 0, rc_width = rx_scale_width rx, rc_height = rx_scale_height rx\<rparr> \<and>
    rc_x s * re_width env \<le> rc_x r * rx_scale_width rx \<and>
    (rc_x r + rc_width r) * rx_scale_width rx \<le> (rc_x s + rc_width s) * re_width env \<and>
    rc_y s * re_height env \<le> rc_y r * rx_scale_height rx \<and>
    (rc_y r + rc_height r) * rx_scale_height rx \<le> (rc_y s + rc_height s) * re_height env"
proof -
  have s: "s = \<lparr>rc_x = scaled_start (rx_scale_width rx) (re_width env) (rc_x r),
      rc_y = scaled_start (rx_scale_height rx) (re_height env) (rc_y r),
      rc_width = scaled_length (rx_scale_width rx) (re_width env) (rc_x r) (rc_width r),
      rc_height = scaled_length (rx_scale_height rx) (re_height env) (rc_y r) (rc_height r)\<rparr>"
    using assms(1-4) by (simp add: s_def remmina_rdp_event_scale_area_def scaled_start_def scaled_length_def Let_def
        if_not_P [OF assms(13)])
  show ?thesis
    using scaled_covers [OF assms(3,5,7,8,9)] scaled_covers [OF assms(4,6,10,11,12)]
    by (simp add: s rect_in_def)
qed

theorem rdp_scale_area_covers_witness:
  "\<forall>ops st. rect_in (remmina_rdp_event_scale_area (rdp_sample_env ops st) (rdp_sample False)
        \<lparr>rc_x = 101, rc_y = 7, rc_width = 13, rc_height = 1\<rparr>)
     \<lparr>rc_x = 0, rc_y = 0, rc_width = 800, rc_height = 600\<rparr>"
proof (intro allI)
  fix ops :: "'a keyfile_ops" and st
  show "rect_in (remmina_rdp_event_scale_area (rdp_sample_env ops st) (rdp_sample False)
        \<lparr>rc_x = 101, rc_y = 7, rc_width = 13, rc_height = 1\<rparr>)
     \<lparr>rc_x = 0, rc_y = 0, rc_width = 800, rc_height = 600\<rparr>"
    using rdp_scale_area_covers [where rx = "rdp_sample False" and env = "rdp_sample_env ops st"
        and r = "\<lparr>rc_x = 101, rc_y = 7, rc_width = 13, rc_height = 1\<rparr>"]
    by (simp add: rdp_sample_simps)
qed

end
