(* ===== verification/VncInput.thy ===== *)
theory VncInput
  imports Pref FileData Geometry
begin

text \<open>
  The input side of the VNC plugin (\<open>plugins/vnc/vnc_plugin.c\<close>): the handlers that turn
  pointer, key, clipboard and chat events of GTK into events of a queue, the list of keys
  that are held down, and the thread that takes the events from the queue and sends them.
  Coordinates are \<open>int\<close>, after the conversion from the doubles of GDK; the products of
  coordinates and sizes of screens do not overflow. The accumulators of smooth scrolling are
  floats, whose addition and two comparisons are a record of parameters.
\<close>

section \<open>State\<close>

datatype vnc_event =
    Vnc_key guint bool
  | Vnc_pointer int int gint
  | Vnc_cuttext cstr
  | Vnc_chat_open
  | Vnc_chat_send string
  | Vnc_chat_close

record key_val =
  kv_keyval :: guint
  kv_keycode :: "16 word"

record 'f vnc =
  vd_connected :: bool
  vd_client :: bool
  vd_button_mask :: gint
  vd_pressed_keys :: "key_val list"
  vd_event_queue :: "vnc_event list"
  vd_event_pipe :: nat
  vd_clipboard_timer :: int
  vd_scroll_x :: 'f
  vd_scroll_y :: 'f

record 'f float_ops =
  fl_add :: "'f \<Rightarrow> 'f \<Rightarrow> 'f"
  fl_zero :: 'f
  fl_ge_one :: "'f \<Rightarrow> bool"
  fl_le_minus_one :: "'f \<Rightarrow> bool"

text \<open>What the handlers ask of the rest of the program: the scale mode and sizes, the keymap, the charset.\<close>

record 'f vnc_env =
  ve_scaled :: bool
  ve_alloc_width :: int
  ve_alloc_height :: int
  ve_width :: int
  ve_height :: int
  ve_pref :: pref_state
  ve_to_latin1 :: "string \<Rightarrow> cstr"
  ve_float :: "'f float_ops"

definition vnc_viewonly :: "rfile \<Rightarrow> bool" where
  "vnc_viewonly rf \<longleftrightarrow> remmina_file_get_int rf ''viewonly'' 0 \<noteq> 0"

section \<open>The queue\<close>

text \<open>Under the mutex of the queue the event is added; then a byte is written to the pipe.\<close>

definition vnc_queue_push_tail :: "vnc_event \<Rightarrow> 'f vnc \<Rightarrow> 'f vnc" where
  "vnc_queue_push_tail e vd = vd\<lparr>vd_event_queue := vd_event_queue vd @ [e]\<rparr>"

definition vnc_pipe_write :: "'f vnc \<Rightarrow> 'f vnc" where
  "vnc_pipe_write vd = vd\<lparr>vd_event_pipe := Suc (vd_event_pipe vd)\<rparr>"

definition remmina_plugin_vnc_event_push :: "vnc_event \<Rightarrow> 'f vnc \<Rightarrow> 'f vnc" where
  "remmina_plugin_vnc_event_push e vd = vnc_pipe_write (vnc_queue_push_tail e vd)"

definition remmina_plugin_vnc_event_free_all :: "'f vnc \<Rightarrow> 'f vnc" where
  "remmina_plugin_vnc_event_free_all vd = vd\<lparr>vd_event_queue := []\<rparr>"

definition remmina_plugin_vnc_event_queue_pop_head :: "'f vnc \<Rightarrow> vnc_event option \<times> 'f vnc" where
  "remmina_plugin_vnc_event_queue_pop_head vd =
     (case vd_event_queue vd of
        [] \<Rightarrow> (None, vd)
      | e # q \<Rightarrow> (Some e, vd\<lparr>vd_event_queue := q\<rparr>))"

section \<open>Pointer\<close>

definition remmina_plugin_vnc_scale_coordinates :: "'f vnc_env \<Rightarrow> int \<Rightarrow> int \<Rightarrow> int \<times> int" where
  "remmina_plugin_vnc_scale_coordinates env x y =
     (if ve_scaled env
      then (x * ve_width env sdiv ve_alloc_width env, y * ve_height env sdiv ve_alloc_height env)
      else (x, y))"

definition vnc_push_pointer :: "'f vnc_env \<Rightarrow> int \<Rightarrow> int \<Rightarrow> gint \<Rightarrow> 'f vnc \<Rightarrow> 'f vnc" where
  "vnc_push_pointer env x y bmask vd =
     (let (cx, cy) = remmina_plugin_vnc_scale_coordinates env x y
      in remmina_plugin_vnc_event_push (Vnc_pointer cx cy bmask) vd)"

definition vnc_ignores_input :: "rfile \<Rightarrow> 'f vnc \<Rightarrow> bool" where
  "vnc_ignores_input rf vd \<longleftrightarrow> \<not> vd_connected vd \<or> \<not> vd_client vd \<or> vnc_viewonly rf"

definition remmina_plugin_vnc_on_motion :: "'f vnc_env \<Rightarrow> rfile \<Rightarrow> int \<Rightarrow> int \<Rightarrow> 'f vnc \<Rightarrow> bool \<times> 'f vnc" where
  "remmina_plugin_vnc_on_motion env rf x y vd =
     (if vnc_ignores_input rf vd then (False, vd)
      else (True, vnc_push_pointer env x y (vd_button_mask vd) vd))"

definition remmina_plugin_vnc_on_button ::
  "'f vnc_env \<Rightarrow> rfile \<Rightarrow> button_type \<Rightarrow> nat \<Rightarrow> int \<Rightarrow> int \<Rightarrow> 'f vnc \<Rightarrow> bool \<times> 'f vnc" where
  "remmina_plugin_vnc_on_button env rf type button x y vd =
     (if vnc_ignores_input rf vd then (False, vd)
      else if button < 1 \<or> 3 < button then (False, vd)
      else if type \<noteq> Button_press \<and> type \<noteq> Button_release then (True, vd)
      else let bmask = push_bit (button - 1) 1;
               vd = vd\<lparr>vd_button_mask :=
                 (if type = Button_press then or (vd_button_mask vd) bmask
                  else and (vd_button_mask vd) (0xff - bmask))\<rparr>
           in (True, vnc_push_pointer env x y (vd_button_mask vd) vd))"

text \<open>The mask for a movement, and the accumulator afterwards.\<close>

definition delta_to_mask :: "'f float_ops \<Rightarrow> 'f \<Rightarrow> 'f \<Rightarrow> gint \<Rightarrow> gint \<Rightarrow> gint \<times> 'f" where
  "delta_to_mask fl delta accum mask_plus mask_minus =
     (let accum = fl_add fl accum delta
      in if fl_ge_one fl accum then (mask_plus, fl_zero fl)
         else if fl_le_minus_one fl accum then (mask_minus, fl_zero fl)
         else (0, accum))"

text \<open>The mask of the wheel buttons; no bit is set when the movement is not enough for a click.\<close>

definition vnc_scroll_mask :: "'f float_ops \<Rightarrow> 'f scroll_direction \<Rightarrow> 'f vnc \<Rightarrow> gint \<times> 'f vnc" where
  "vnc_scroll_mask fl direction vd =
     (case direction of
        Scroll_up \<Rightarrow> (push_bit 3 1, vd\<lparr>vd_scroll_y := fl_zero fl\<rparr>)
      | Scroll_down \<Rightarrow> (push_bit 4 1, vd\<lparr>vd_scroll_y := fl_zero fl\<rparr>)
      | Scroll_left \<Rightarrow> (push_bit 5 1, vd\<lparr>vd_scroll_x := fl_zero fl\<rparr>)
      | Scroll_right \<Rightarrow> (push_bit 6 1, vd\<lparr>vd_scroll_x := fl_zero fl\<rparr>)
      | Scroll_smooth dx dy \<Rightarrow>
          (let (my, ay) = delta_to_mask fl dy (vd_scroll_y vd) (push_bit 4 1) (push_bit 3 1);
               (mx, ax) = delta_to_mask fl dx (vd_scroll_x vd) (push_bit 6 1) (push_bit 5 1)
           in (or my mx, vd\<lparr>vd_scroll_y := ay, vd_scroll_x := ax\<rparr>)))"

definition remmina_plugin_vnc_on_scroll ::
  "'f vnc_env \<Rightarrow> rfile \<Rightarrow> 'f scroll_direction \<Rightarrow> int \<Rightarrow> int \<Rightarrow> 'f vnc \<Rightarrow> bool \<times> 'f vnc" where
  "remmina_plugin_vnc_on_scroll env rf direction x y vd =
     (if vnc_ignores_input rf vd then (False, vd)
      else let (bmask, vd) = vnc_scroll_mask (ve_float env) direction vd
           in if bmask = 0 then (False, vd)
              else (True, vnc_push_pointer env x y (vd_button_mask vd)
                            (vnc_push_pointer env x y (or bmask (vd_button_mask vd)) vd)))"

section \<open>Keys\<close>

text \<open>The first entry of a key code.\<close>

fun vnc_find_key :: "16 word \<Rightarrow> key_val list \<Rightarrow> nat option" where
  "vnc_find_key keycode [] = None"
| "vnc_find_key keycode (k # ks) =
     (if kv_keycode k = keycode then Some 0 else map_option Suc (vnc_find_key keycode ks))"

fun vnc_push_releases :: "key_val list \<Rightarrow> 'f vnc \<Rightarrow> 'f vnc" where
  "vnc_push_releases [] vd = vd"
| "vnc_push_releases (k # ks) vd =
     vnc_push_releases ks (remmina_plugin_vnc_event_push (Vnc_key (kv_keyval k) False) vd)"

definition remmina_plugin_vnc_release_key :: "16 word \<Rightarrow> 'f vnc \<Rightarrow> 'f vnc" where
  "remmina_plugin_vnc_release_key keycode vd =
     (if keycode = 0 then (vnc_push_releases (vd_pressed_keys vd) vd)\<lparr>vd_pressed_keys := []\<rparr>
      else case vnc_find_key keycode (vd_pressed_keys vd) of
             None \<Rightarrow> vd
           | Some i \<Rightarrow> vd\<lparr>vd_pressed_keys := g_ptr_array_remove_index_fast (vd_pressed_keys vd) i\<rparr>)"

text \<open>The key value of an event: a release takes the one that was registered by the press.\<close>

definition vnc_event_keyval :: "bool \<Rightarrow> guint \<Rightarrow> 16 word \<Rightarrow> key_val list \<Rightarrow> guint" where
  "vnc_event_keyval press keyval keycode ks =
     (if press then keyval
      else case vnc_find_key keycode ks of None \<Rightarrow> keyval | Some i \<Rightarrow> kv_keyval (ks ! i))"

definition vnc_keymap :: "'f vnc_env \<Rightarrow> rfile \<Rightarrow> guint \<Rightarrow> guint" where
  "vnc_keymap env rf = remmina_pref_keymap_get_keyval (ve_pref env) (remmina_file_get_string rf ''keymap'')"

definition remmina_plugin_vnc_on_key ::
  "'f vnc_env \<Rightarrow> rfile \<Rightarrow> bool \<Rightarrow> guint \<Rightarrow> 16 word \<Rightarrow> 'f vnc \<Rightarrow> bool \<times> 'f vnc" where
  "remmina_plugin_vnc_on_key env rf press event_keyval keycode vd =
     (if vnc_ignores_input rf vd then (False, vd)
      else let vd = vd\<lparr>vd_scroll_x := fl_zero (ve_float env), vd_scroll_y := fl_zero (ve_float env)\<rparr>;
               keyval = vnc_keymap env rf (vnc_event_keyval press event_keyval keycode (vd_pressed_keys vd));
               vd = remmina_plugin_vnc_event_push (Vnc_key keyval press) vd
           in (True,
               if press then vd\<lparr>vd_pressed_keys := vd_pressed_keys vd @ [\<lparr>kv_keyval = keyval, kv_keycode = keycode\<rparr>]\<rparr>
               else remmina_plugin_vnc_release_key keycode vd))"

section \<open>Clipboard and chat\<close>

text \<open>The answer of the clipboard, at time \<open>now\<close> in microseconds.\<close>

definition remmina_plugin_vnc_on_cuttext_request :: "'f vnc_env \<Rightarrow> int \<Rightarrow> cstr \<Rightarrow> 'f vnc \<Rightarrow> 'f vnc" where
  "remmina_plugin_vnc_on_cuttext_request env now text vd =
     (case text of
        None \<Rightarrow> vd
      | Some t \<Rightarrow>
          if (now - vd_clipboard_timer vd) sdiv 100000 < 10 then vd
          else remmina_plugin_vnc_event_push (Vnc_cuttext (ve_to_latin1 env t)) (vd\<lparr>vd_clipboard_timer := now\<rparr>))"

text \<open>The owner of the clipboard changed; its answer is taken to come at once.\<close>

definition remmina_plugin_vnc_on_cuttext :: "'f vnc_env \<Rightarrow> rfile \<Rightarrow> int \<Rightarrow> cstr \<Rightarrow> 'f vnc \<Rightarrow> 'f vnc" where
  "remmina_plugin_vnc_on_cuttext env rf now answer vd =
     (if vnc_ignores_input rf vd then vd else remmina_plugin_vnc_on_cuttext_request env now answer vd)"

definition remmina_plugin_vnc_chat_on_send :: "string \<Rightarrow> 'f vnc \<Rightarrow> 'f vnc" where
  "remmina_plugin_vnc_chat_on_send text = remmina_plugin_vnc_event_push (Vnc_chat_send (text @ [CHR 0x0A]))"

definition remmina_plugin_vnc_chat_on_destroy :: "'f vnc \<Rightarrow> 'f vnc" where
  "remmina_plugin_vnc_chat_on_destroy = remmina_plugin_vnc_event_push Vnc_chat_close"

definition remmina_plugin_vnc_open_chat :: "'f vnc \<Rightarrow> 'f vnc" where
  "remmina_plugin_vnc_open_chat = remmina_plugin_vnc_event_push Vnc_chat_open"

section \<open>Everything the user can do\<close>

datatype 'f vnc_action =
    Act_motion int int
  | Act_button button_type nat int int
  | Act_scroll "'f scroll_direction" int int
  | Act_key bool guint "16 word"
  | Act_owner_change int cstr
  | Act_chat_open
  | Act_chat_send string
  | Act_chat_close
  | Act_unfocus

fun vnc_act :: "'f vnc_env \<Rightarrow> rfile \<Rightarrow> 'f vnc_action \<Rightarrow> 'f vnc \<Rightarrow> 'f vnc" where
  "vnc_act env rf (Act_motion x y) vd = snd (remmina_plugin_vnc_on_motion env rf x y vd)"
| "vnc_act env rf (Act_button type button x y) vd = snd (remmina_plugin_vnc_on_button env rf type button x y vd)"
| "vnc_act env rf (Act_scroll direction x y) vd = snd (remmina_plugin_vnc_on_scroll env rf direction x y vd)"
| "vnc_act env rf (Act_key press keyval keycode) vd = snd (remmina_plugin_vnc_on_key env rf press keyval keycode vd)"
| "vnc_act env rf (Act_owner_change now answer) vd = remmina_plugin_vnc_on_cuttext env rf now answer vd"
| "vnc_act env rf Act_chat_open vd = remmina_plugin_vnc_open_chat vd"
| "vnc_act env rf (Act_chat_send text) vd = remmina_plugin_vnc_chat_on_send text vd"
| "vnc_act env rf Act_chat_close vd = remmina_plugin_vnc_chat_on_destroy vd"
| "vnc_act env rf Act_unfocus vd = remmina_plugin_vnc_release_key 0 vd"

definition vnc_acts :: "'f vnc_env \<Rightarrow> (rfile \<times> 'f vnc_action) list \<Rightarrow> 'f vnc \<Rightarrow> 'f vnc" where
  "vnc_acts env as vd = fold (\<lambda>(rf, a). vnc_act env rf a) as vd"

end
