(* ===== verification/VncFacts.thy ===== *)
theory VncFacts
  imports VncInput
begin

text \<open>
  The thread that sends the events, as steps that interleave with the handlers, and the
  properties of the input side: order, what a view-only session sends, where the pointer
  can be, and which keys the server holds down.
\<close>

section \<open>Sending\<close>

datatype rfb_msg =
    SendKeyEvent guint bool
  | SendPointerEvent int int gint
  | SendClientCutText string
  | TextChatOpen
  | TextChatSend string
  | TextChatClose
  | TextChatFinish

fun vnc_event_msgs :: "vnc_event \<Rightarrow> rfb_msg list" where
  "vnc_event_msgs (Vnc_key keyval pressed) = [SendKeyEvent keyval pressed]"
| "vnc_event_msgs (Vnc_pointer x y bmask) = [SendPointerEvent x y bmask]"
| "vnc_event_msgs (Vnc_cuttext text) = (case text of None \<Rightarrow> [] | Some t \<Rightarrow> [SendClientCutText t])"
| "vnc_event_msgs Vnc_chat_open = [TextChatOpen]"
| "vnc_event_msgs (Vnc_chat_send text) = [TextChatSend text]"
| "vnc_event_msgs Vnc_chat_close = [TextChatClose, TextChatFinish]"

definition vnc_msgs :: "vnc_event list \<Rightarrow> rfb_msg list" where
  "vnc_msgs es = concat (map vnc_event_msgs es)"

lemma vnc_msgs_append [simp]: "vnc_msgs (xs @ ys) = vnc_msgs xs @ vnc_msgs ys"
  by (simp add: vnc_msgs_def)

lemma vnc_msgs_Cons: "vnc_msgs (e # es) = vnc_event_msgs e @ vnc_msgs es"
  by (simp add: vnc_msgs_def)

lemma vnc_msgs_Nil [simp]: "vnc_msgs [] = []"
  by (simp add: vnc_msgs_def)

text \<open>The loop over the queue, with the messages it sends; without a client they are dropped.\<close>

function vnc_process_queue :: "'f vnc \<Rightarrow> rfb_msg list \<times> 'f vnc" where
  "vnc_process_queue vd =
     (case remmina_plugin_vnc_event_queue_pop_head vd of
        (None, vd) \<Rightarrow> ([], vd)
      | (Some e, vd) \<Rightarrow>
          (let (ms, vd') = vnc_process_queue vd
           in ((if vd_client vd then vnc_event_msgs e else []) @ ms, vd')))"
  by pat_completeness auto
termination
  by (relation "measure (\<lambda>vd. length (vd_event_queue vd))")
    (auto simp: remmina_plugin_vnc_event_queue_pop_head_def split: list.splits)

declare vnc_process_queue.simps [simp del]

definition remmina_plugin_vnc_process_vnc_event :: "'f vnc \<Rightarrow> rfb_msg list \<times> 'f vnc" where
  "remmina_plugin_vnc_process_vnc_event vd =
     (let (ms, vd) = vnc_process_queue vd
      in (ms, vd\<lparr>vd_event_pipe := vd_event_pipe vd - min 100 (vd_event_pipe vd)\<rparr>))"

lemma vnc_process_queue_all:
  "vd_event_queue vd = q \<Longrightarrow>
     vnc_process_queue vd = (if vd_client vd then vnc_msgs q else [], vd\<lparr>vd_event_queue := []\<rparr>)"
proof (induction q arbitrary: vd)
  case Nil
  then show ?case
    by (subst vnc_process_queue.simps) (simp add: remmina_plugin_vnc_event_queue_pop_head_def)
next
  case (Cons e q)
  then show ?case
    by (subst vnc_process_queue.simps)
      (simp add: remmina_plugin_vnc_event_queue_pop_head_def vnc_msgs_Cons)
qed

section \<open>The two threads\<close>

text \<open>
  The handlers run on the main thread. A handler is run on an empty queue, which gives the events
  it pushes; they are then pushed one after the other, each in two steps (the queue under its
  mutex, then the byte for the pipe), between which \<open>vr_writing\<close> is set. The plugin thread is in
  \<open>select\<close>, in the loop over the queue, about to send an event it has taken out, about to read
  the pipe, which does not block, or it has ended. \<open>vr_wanted\<close> remembers the messages the actions
  of the user stand for.
\<close>

datatype vnc_loop = Loop_select | Loop_queue | Loop_send vnc_event | Loop_read | Loop_ended

record 'f vnc_run =
  vr_data :: "'f vnc"
  vr_pending :: "vnc_event list"
  vr_writing :: bool
  vr_loop :: vnc_loop
  vr_sent :: "rfb_msg list"
  vr_wanted :: "rfb_msg list"
  vr_closed :: bool

definition vnc_run_new :: "'f vnc \<Rightarrow> 'f vnc_run" where
  "vnc_run_new vd = \<lparr>vr_data = vd\<lparr>vd_event_queue := [], vd_event_pipe := 0\<rparr>, vr_pending = [], vr_writing = False,
     vr_loop = Loop_select, vr_sent = [], vr_wanted = [], vr_closed = False\<rparr>"

text \<open>
  What an action of the user is to send, said without queue, events or threads: by a client that
  sends at once.
\<close>

definition vnc_pointer_msg :: "'f vnc_env \<Rightarrow> int \<Rightarrow> int \<Rightarrow> gint \<Rightarrow> rfb_msg" where
  "vnc_pointer_msg env x y m = (case remmina_plugin_vnc_scale_coordinates env x y of (cx, cy) \<Rightarrow> SendPointerEvent cx cy m)"

definition vnc_release_msgs :: "key_val list \<Rightarrow> rfb_msg list" where
  "vnc_release_msgs ks = map (\<lambda>k. SendKeyEvent (kv_keyval k) False) ks"

fun vnc_action_msgs :: "'f vnc_env \<Rightarrow> rfile \<Rightarrow> 'f vnc_action \<Rightarrow> 'f vnc \<Rightarrow> rfb_msg list" where
  "vnc_action_msgs env rf (Act_motion x y) vd =
     (if vnc_ignores_input rf vd then [] else [vnc_pointer_msg env x y (vd_button_mask vd)])"
| "vnc_action_msgs env rf (Act_button type b x y) vd =
     (if vnc_ignores_input rf vd \<or> b \<notin> {1, 2, 3} then []
      else case type of
             Button_press \<Rightarrow> [vnc_pointer_msg env x y (or (vd_button_mask vd) (push_bit (b - 1) 1))]
           | Button_release \<Rightarrow> [vnc_pointer_msg env x y (and (vd_button_mask vd) (0xff - push_bit (b - 1) 1))]
           | _ \<Rightarrow> [])"
| "vnc_action_msgs env rf (Act_scroll d x y) vd =
     (let m = fst (vnc_scroll_mask (ve_float env) d vd) in
      if vnc_ignores_input rf vd \<or> m = 0 then []
      else [vnc_pointer_msg env x y (or m (vd_button_mask vd)), vnc_pointer_msg env x y (vd_button_mask vd)])"
| "vnc_action_msgs env rf (Act_key press keyval keycode) vd =
     (if vnc_ignores_input rf vd then []
      else SendKeyEvent (vnc_keymap env rf (vnc_event_keyval press keyval keycode (vd_pressed_keys vd))) press #
        (if \<not> press \<and> keycode = 0 then vnc_release_msgs (vd_pressed_keys vd) else []))"
| "vnc_action_msgs env rf (Act_owner_change now answer) vd =
     (if vnc_ignores_input rf vd \<or> (now - vd_clipboard_timer vd) sdiv 100000 < 10 then []
      else case answer of
             None \<Rightarrow> []
           | Some t \<Rightarrow> (case ve_to_latin1 env t of None \<Rightarrow> [] | Some l \<Rightarrow> [SendClientCutText l]))"
| "vnc_action_msgs env rf Act_chat_open vd = [TextChatOpen]"
| "vnc_action_msgs env rf (Act_chat_send text) vd = [TextChatSend (text @ [CHR 0x0A])]"
| "vnc_action_msgs env rf Act_chat_close vd = [TextChatClose, TextChatFinish]"
| "vnc_action_msgs env rf Act_unfocus vd = vnc_release_msgs (vd_pressed_keys vd)"

text \<open>
  The main thread. Closing the connection cancels the plugin thread wherever it is, waits for its
  end, drops the client and frees the events that are left.
\<close>

inductive vnc_push_step :: "'f vnc_run \<Rightarrow> 'f vnc_run \<Rightarrow> bool" where
  handle: "\<not> vr_closed s \<Longrightarrow> vr_pending s = [] \<Longrightarrow> \<not> vr_writing s \<Longrightarrow>
    vd = vnc_act env rf a ((vr_data s)\<lparr>vd_event_queue := []\<rparr>) \<Longrightarrow>
    vnc_push_step s (s\<lparr>vr_data := vd\<lparr>vd_event_queue := vd_event_queue (vr_data s), vd_event_pipe := vd_event_pipe (vr_data s)\<rparr>,
      vr_pending := vd_event_queue vd, vr_wanted := vr_wanted s @ vnc_action_msgs env rf a (vr_data s)\<rparr>)"
| push: "\<not> vr_closed s \<Longrightarrow> vr_pending s = e # es \<Longrightarrow> \<not> vr_writing s \<Longrightarrow>
    vnc_push_step s (s\<lparr>vr_data := vnc_queue_push_tail e (vr_data s), vr_pending := es, vr_writing := True\<rparr>)"
| signal_pipe: "\<not> vr_closed s \<Longrightarrow> vr_writing s \<Longrightarrow>
    vnc_push_step s (s\<lparr>vr_data := vnc_pipe_write (vr_data s), vr_writing := False\<rparr>)"
| close: "\<not> vr_closed s \<Longrightarrow> vr_pending s = [] \<Longrightarrow> \<not> vr_writing s \<Longrightarrow>
    vnc_push_step s (s\<lparr>vr_data := remmina_plugin_vnc_event_free_all ((vr_data s)\<lparr>vd_connected := False, vd_client := False\<rparr>),
      vr_loop := Loop_ended, vr_closed := True\<rparr>)"

text \<open>The plugin thread; \<open>lost\<close> is the end of its loop, when the server is gone.\<close>

inductive vnc_loop_step :: "'f vnc_run \<Rightarrow> 'f vnc_run \<Rightarrow> bool" where
  wake: "vr_loop s = Loop_select \<Longrightarrow> vd_connected (vr_data s) \<Longrightarrow> 0 < vd_event_pipe (vr_data s) \<Longrightarrow>
    vnc_loop_step s (s\<lparr>vr_loop := Loop_queue\<rparr>)"
| pop: "vr_loop s = Loop_queue \<Longrightarrow> remmina_plugin_vnc_event_queue_pop_head (vr_data s) = (Some e, vd) \<Longrightarrow>
    vnc_loop_step s (s\<lparr>vr_data := vd, vr_loop := Loop_send e\<rparr>)"
| send: "vr_loop s = Loop_send e \<Longrightarrow>
    vnc_loop_step s (s\<lparr>vr_sent := vr_sent s @ (if vd_client (vr_data s) then vnc_event_msgs e else []), vr_loop := Loop_queue\<rparr>)"
| drained: "vr_loop s = Loop_queue \<Longrightarrow> remmina_plugin_vnc_event_queue_pop_head (vr_data s) = (None, vd) \<Longrightarrow>
    vnc_loop_step s (s\<lparr>vr_loop := Loop_read\<rparr>)"
| read: "vr_loop s = Loop_read \<Longrightarrow>
    vnc_loop_step s (s\<lparr>vr_data := (vr_data s)\<lparr>vd_event_pipe := vd_event_pipe (vr_data s) -
      min 100 (vd_event_pipe (vr_data s))\<rparr>, vr_loop := Loop_select\<rparr>)"
| lost: "vr_loop s = Loop_select \<Longrightarrow> vnc_loop_step s (s\<lparr>vr_loop := Loop_ended\<rparr>)"

definition vnc_run_step :: "'f vnc_run \<Rightarrow> 'f vnc_run \<Rightarrow> bool" where
  "vnc_run_step s s' \<longleftrightarrow> vnc_push_step s s' \<or> vnc_loop_step s s'"

inductive_cases vnc_push_stepE: "vnc_push_step s s'"
inductive_cases vnc_loop_stepE: "vnc_loop_step s s'"

text \<open>The steps of a push are the push of the handlers.\<close>

lemma vnc_push_is_two_steps:
  assumes "\<not> vr_closed s" "vr_pending s = e # es" "\<not> vr_writing s"
  shows "vnc_push_step\<^sup>*\<^sup>* s (s\<lparr>vr_data := remmina_plugin_vnc_event_push e (vr_data s), vr_pending := es\<rparr>)"
proof -
  let ?t = "s\<lparr>vr_data := vnc_queue_push_tail e (vr_data s), vr_pending := es, vr_writing := True\<rparr>"
  have "vnc_push_step s ?t" by (rule vnc_push_step.push[OF assms])
  moreover have "vnc_push_step ?t (?t\<lparr>vr_data := vnc_pipe_write (vr_data ?t), vr_writing := False\<rparr>)"
    by (rule vnc_push_step.signal_pipe) (use assms in simp_all)
  moreover have "?t\<lparr>vr_data := vnc_pipe_write (vr_data ?t), vr_writing := False\<rparr> =
      s\<lparr>vr_data := remmina_plugin_vnc_event_push e (vr_data s), vr_pending := es\<rparr>"
    using assms(3) by (cases s) (simp add: remmina_plugin_vnc_event_push_def)
  ultimately show ?thesis by (metis (no_types, lifting) r_into_rtranclp rtranclp.rtrancl_into_rtrancl)
qed

text \<open>The thread takes all events out of the queue and sends them when nothing is pushed meanwhile.\<close>

lemma vnc_loop_empties:
  "vr_loop s = Loop_queue \<Longrightarrow> vd_event_queue (vr_data s) = q \<Longrightarrow> vd_client (vr_data s) \<Longrightarrow>
     vnc_loop_step\<^sup>*\<^sup>* s (s\<lparr>vr_data := (vr_data s)\<lparr>vd_event_queue := []\<rparr>, vr_sent := vr_sent s @ vnc_msgs q\<rparr>)"
proof (induction q arbitrary: s)
  case Nil
  then have "s\<lparr>vr_data := (vr_data s)\<lparr>vd_event_queue := []\<rparr>, vr_sent := vr_sent s @ vnc_msgs []\<rparr> = s"
    by (cases s; cases "vr_data s") simp
  then show ?case by simp
next
  case (Cons e q)
  let ?d = "(vr_data s)\<lparr>vd_event_queue := q\<rparr>"
  let ?t = "s\<lparr>vr_data := ?d, vr_loop := Loop_send e\<rparr>"
  let ?u = "?t\<lparr>vr_sent := vr_sent s @ vnc_event_msgs e, vr_loop := Loop_queue\<rparr>"
  have "vnc_loop_step s ?t"
    using Cons.prems by (intro vnc_loop_step.pop) (simp_all add: remmina_plugin_vnc_event_queue_pop_head_def)
  moreover have "vnc_loop_step ?t ?u"
    using vnc_loop_step.send[of ?t e] Cons.prems by simp
  moreover have "vnc_loop_step\<^sup>*\<^sup>* ?u (?u\<lparr>vr_data := (vr_data ?u)\<lparr>vd_event_queue := []\<rparr>, vr_sent := vr_sent ?u @ vnc_msgs q\<rparr>)"
    using Cons.prems by (intro Cons.IH) simp_all
  moreover have "?u\<lparr>vr_data := (vr_data ?u)\<lparr>vd_event_queue := []\<rparr>, vr_sent := vr_sent ?u @ vnc_msgs q\<rparr> =
      s\<lparr>vr_data := (vr_data s)\<lparr>vd_event_queue := []\<rparr>, vr_sent := vr_sent s @ vnc_msgs (e # q)\<rparr>"
    using Cons.prems(1) by (cases s) (simp add: vnc_msgs_Cons)
  ultimately show ?case by (metis (no_types, lifting) converse_rtranclp_into_rtranclp)
qed

section \<open>The keys the server holds down\<close>

text \<open>The server's view of a key, from the events in the order they are sent.\<close>

definition vnc_held :: "vnc_event list \<Rightarrow> guint \<Rightarrow> bool" where
  "vnc_held es v = fold (\<lambda>e held. case e of Vnc_key k p \<Rightarrow> if k = v then p else held | _ \<Rightarrow> held) es False"

lemma vnc_held_Nil [simp]: "\<not> vnc_held [] v"
  by (simp add: vnc_held_def)

lemma vnc_held_snoc [simp]:
  "vnc_held (es @ [e]) v = (case e of Vnc_key k p \<Rightarrow> if k = v then p else vnc_held es v | _ \<Rightarrow> vnc_held es v)"
  by (simp only: vnc_held_def fold_append comp_apply fold.simps id_apply)

lemmas vnc_push_defs = remmina_plugin_vnc_event_push_def vnc_pipe_write_def vnc_queue_push_tail_def Let_def

lemma push_queue [simp]: "vd_event_queue (remmina_plugin_vnc_event_push e vd) = vd_event_queue vd @ [e]"
  by (simp add: vnc_push_defs)

lemma push_other [simp]:
  "vd_pressed_keys (remmina_plugin_vnc_event_push e vd) = vd_pressed_keys vd"
  "vd_button_mask (remmina_plugin_vnc_event_push e vd) = vd_button_mask vd"
  "vd_connected (remmina_plugin_vnc_event_push e vd) = vd_connected vd"
  "vd_client (remmina_plugin_vnc_event_push e vd) = vd_client vd"
  by (simp_all add: vnc_push_defs)

lemma push_pointer_queue:
  "\<exists>cx cy. remmina_plugin_vnc_scale_coordinates env x y = (cx, cy) \<and>
     vnc_push_pointer env x y m vd = remmina_plugin_vnc_event_push (Vnc_pointer cx cy m) vd"
  by (cases "remmina_plugin_vnc_scale_coordinates env x y") (simp add: vnc_push_pointer_def)

lemma push_releases:
  "vd_event_queue (vnc_push_releases ks vd) = vd_event_queue vd @ map (\<lambda>k. Vnc_key (kv_keyval k) False) ks \<and>
   vd_button_mask (vnc_push_releases ks vd) = vd_button_mask vd \<and>
   vd_pressed_keys (vnc_push_releases ks vd) = vd_pressed_keys vd \<and>
   vd_connected (vnc_push_releases ks vd) = vd_connected vd \<and>
   vd_client (vnc_push_releases ks vd) = vd_client vd"
  by (induction ks arbitrary: vd) simp_all

lemma held_releases:
  "vnc_held (es @ map (\<lambda>k. Vnc_key (kv_keyval k) False) ks) v \<longleftrightarrow> vnc_held es v \<and> v \<notin> kv_keyval ` set ks"
  by (induction ks arbitrary: es rule: rev_induct) (auto simp flip: append_assoc)

lemma find_key_SomeD:
  "vnc_find_key c ks = Some i \<Longrightarrow> i < length ks \<and> kv_keycode (ks ! i) = c"
  by (induction c ks arbitrary: i rule: vnc_find_key.induct) (auto split: if_splits)

text \<open>
  The invariant of the list of pressed keys: every key that is held is in it, and its key
  values are already mapped. It needs a keymap that does not map a mapped key again.
\<close>

definition vnc_keys_inv :: "(guint \<Rightarrow> guint) \<Rightarrow> 'f vnc \<Rightarrow> bool" where
  "vnc_keys_inv K vd \<longleftrightarrow>
     (\<forall>v. vnc_held (vd_event_queue vd) v \<longrightarrow> v \<in> kv_keyval ` set (vd_pressed_keys vd)) \<and>
     (\<forall>k \<in> set (vd_pressed_keys vd). K (kv_keyval k) = kv_keyval k)"

lemma keys_inv_push:
  assumes "vnc_keys_inv K vd" and "\<And>k p. e = Vnc_key k p \<Longrightarrow> \<not> p"
  shows "vnc_keys_inv K (remmina_plugin_vnc_event_push e vd)"
  using assms by (cases e) (auto simp: vnc_keys_inv_def split: if_splits)

lemma keys_inv_cong:
  "vd_event_queue vd' = vd_event_queue vd \<Longrightarrow> vd_pressed_keys vd' = vd_pressed_keys vd \<Longrightarrow>
     vnc_keys_inv K vd' \<longleftrightarrow> vnc_keys_inv K vd"
  by (simp add: vnc_keys_inv_def)

lemma keys_inv_release_all:
  "vnc_keys_inv K vd \<Longrightarrow> vnc_keys_inv K (remmina_plugin_vnc_release_key 0 vd) \<and>
     \<not> vnc_held (vd_event_queue (remmina_plugin_vnc_release_key 0 vd)) v"
  using push_releases [of "vd_pressed_keys vd" vd]
  by (auto simp: vnc_keys_inv_def remmina_plugin_vnc_release_key_def held_releases)

lemma image_remaining: "v \<in> f ` A \<Longrightarrow> A \<subseteq> insert x B \<Longrightarrow> f x \<noteq> v \<Longrightarrow> v \<in> f ` B"
  by auto

lemma keys_inv_release:
  assumes inv: "vnc_keys_inv K vd"
  shows "vnc_keys_inv K (remmina_plugin_vnc_release_key c
    (remmina_plugin_vnc_event_push (Vnc_key (K (vnc_event_keyval False kv c (vd_pressed_keys vd))) False) vd))"
proof (cases "c = 0")
  case True
  then show ?thesis using keys_inv_release_all keys_inv_push [OF inv] by force
next
  case nz: False
  show ?thesis
  proof (cases "vnc_find_key c (vd_pressed_keys vd)")
    case None
    then show ?thesis
      using nz by (auto simp: remmina_plugin_vnc_release_key_def intro!: keys_inv_push [OF inv])
  next
    case (Some i)
    let ?ks = "vd_pressed_keys vd"
    have i: "i < length ?ks" using find_key_SomeD [OF Some] by simp
    then have k: "K (kv_keyval (?ks ! i)) = kv_keyval (?ks ! i)"
      using inv by (simp add: vnc_keys_inv_def)
    show ?thesis
      using inv remove_index_fast_set(1) [OF i] nz Some
      by (auto simp: vnc_keys_inv_def remmina_plugin_vnc_release_key_def vnc_event_keyval_def k
          intro: image_remaining [OF _ remove_index_fast_set(2) [OF i]])
  qed
qed

lemma keys_inv_act:
  assumes inv: "vnc_keys_inv K vd" and K: "\<And>v. vnc_keymap env rf v = K v" and idem: "\<And>v. K (K v) = K v"
  shows "vnc_keys_inv K (vnc_act env rf a vd)"
proof (cases a)
  case (Act_motion x y)
  then show ?thesis
    using push_pointer_queue [of env x y "vd_button_mask vd" vd] inv
    by (auto simp: remmina_plugin_vnc_on_motion_def intro!: keys_inv_push)
next
  case (Act_button t b x y)
  let ?vd = "\<lambda>m. vd\<lparr>vd_button_mask := m\<rparr>"
  have "vnc_keys_inv K (vnc_push_pointer env x y m (?vd m))" for m
    using push_pointer_queue [of env x y m "?vd m"] inv keys_inv_cong [of "?vd m" vd]
    by (auto intro!: keys_inv_push)
  then show ?thesis using inv by (simp add: Act_button remmina_plugin_vnc_on_button_def Let_def)
next
  case (Act_scroll d x y)
  have scroll: "vnc_keys_inv K (snd (vnc_scroll_mask (ve_float env) d vd))"
    using inv by (cases d) (simp_all add: vnc_scroll_mask_def vnc_keys_inv_def split_def Let_def)
  have push: "vnc_keys_inv K vd' \<Longrightarrow> vnc_keys_inv K (vnc_push_pointer env x y m vd')" for m vd'
    using push_pointer_queue [of env x y m vd'] by (auto intro!: keys_inv_push)
  show ?thesis using inv by (auto simp: Act_scroll remmina_plugin_vnc_on_scroll_def split_def Let_def intro!: push scroll)
next
  case (Act_key p kv c)
  let ?vd = "vd\<lparr>vd_scroll_x := fl_zero (ve_float env), vd_scroll_y := fl_zero (ve_float env)\<rparr>"
  have inv': "vnc_keys_inv K ?vd" using inv keys_inv_cong [of ?vd vd] by simp
  show ?thesis
  proof (cases p)
    case True
    then show ?thesis
      using inv' inv idem
      by (auto simp: Act_key remmina_plugin_vnc_on_key_def vnc_keys_inv_def K vnc_event_keyval_def Let_def
            split: if_splits)
  next
    case False
    then show ?thesis
      using inv keys_inv_release [OF inv', of c kv]
      by (simp add: Act_key remmina_plugin_vnc_on_key_def K Let_def)
  qed
next
  case (Act_owner_change now answer)
  have push: "vnc_keys_inv K (remmina_plugin_vnc_event_push e (vd\<lparr>vd_clipboard_timer := now\<rparr>))"
    if "\<And>k p. e = Vnc_key k p \<Longrightarrow> \<not> p" for e
    using that inv keys_inv_cong [of "vd\<lparr>vd_clipboard_timer := now\<rparr>" vd] by (intro keys_inv_push) auto
  then show ?thesis using inv
    by (auto simp: Act_owner_change remmina_plugin_vnc_on_cuttext_def
        remmina_plugin_vnc_on_cuttext_request_def split: option.split intro!: push)
next
  case Act_unfocus
  then show ?thesis using keys_inv_release_all [OF inv] by simp
qed (auto simp: remmina_plugin_vnc_open_chat_def remmina_plugin_vnc_chat_on_send_def
    remmina_plugin_vnc_chat_on_destroy_def intro!: keys_inv_push [OF inv])

lemma keys_inv_acts:
  assumes "vnc_keys_inv K vd" and "\<forall>(rf, a) \<in> set as. \<forall>v. vnc_keymap env rf v = K v" and "\<And>v. K (K v) = K v"
  shows "vnc_keys_inv K (vnc_acts env as vd)"
  using assms(1,2)
proof (induction as arbitrary: vd)
  case Nil
  then show ?case by (simp add: vnc_acts_def)
next
  case (Cons ra as)
  obtain rf a where ra: "ra = (rf, a)" by force
  have "vnc_keys_inv K (vnc_act env rf a vd)"
    using Cons.prems ra by (intro keys_inv_act assms(3)) auto
  with Cons show ?case by (simp add: vnc_acts_def ra)
qed

section \<open>What is sent when the session is view-only\<close>

definition vnc_chat_event :: "vnc_event \<Rightarrow> bool" where
  "vnc_chat_event e = (case e of Vnc_chat_open \<Rightarrow> True | Vnc_chat_send _ \<Rightarrow> True | Vnc_chat_close \<Rightarrow> True | _ \<Rightarrow> False)"

definition vnc_release_of :: "key_val list \<Rightarrow> vnc_event \<Rightarrow> bool" where
  "vnc_release_of ks e \<longleftrightarrow> (\<exists>k \<in> set ks. e = Vnc_key (kv_keyval k) False)"

lemma release_of_mono: "vnc_release_of ks' e \<Longrightarrow> set ks' \<subseteq> set ks \<Longrightarrow> vnc_release_of ks e"
  by (auto simp: vnc_release_of_def)

lemma viewonly_act:
  assumes "vnc_viewonly rf"
  shows "\<exists>es. vd_event_queue (vnc_act env rf a vd) = vd_event_queue vd @ es \<and>
     (\<forall>e \<in> set es. vnc_chat_event e \<or> vnc_release_of (vd_pressed_keys vd) e) \<and>
     set (vd_pressed_keys (vnc_act env rf a vd)) \<subseteq> set (vd_pressed_keys vd)"
proof (cases a)
  case Act_unfocus
  then show ?thesis
    using push_releases [of "vd_pressed_keys vd" vd]
    by (auto simp: remmina_plugin_vnc_release_key_def vnc_release_of_def)
qed (use assms in \<open>simp_all add: remmina_plugin_vnc_on_motion_def remmina_plugin_vnc_on_button_def
    remmina_plugin_vnc_on_scroll_def remmina_plugin_vnc_on_key_def remmina_plugin_vnc_on_cuttext_def
    vnc_ignores_input_def remmina_plugin_vnc_open_chat_def remmina_plugin_vnc_chat_on_send_def
    remmina_plugin_vnc_chat_on_destroy_def vnc_chat_event_def\<close>)

lemma viewonly_acts:
  assumes "\<forall>(rf, a) \<in> set as. vnc_viewonly rf"
  shows "\<exists>es. vd_event_queue (vnc_acts env as vd) = vd_event_queue vd @ es \<and>
     (\<forall>e \<in> set es. vnc_chat_event e \<or> vnc_release_of (vd_pressed_keys vd) e)"
  using assms
proof (induction as arbitrary: vd)
  case Nil
  then show ?case by (simp add: vnc_acts_def)
next
  case (Cons ra as)
  obtain rf a where ra: "ra = (rf, a)" by force
  let ?vd = "vnc_act env rf a vd"
  from Cons.prems ra have "vnc_viewonly rf" by simp
  then obtain es where es: "vd_event_queue ?vd = vd_event_queue vd @ es"
    "\<forall>e \<in> set es. vnc_chat_event e \<or> vnc_release_of (vd_pressed_keys vd) e"
    "set (vd_pressed_keys ?vd) \<subseteq> set (vd_pressed_keys vd)"
    using viewonly_act by metis
  from Cons ra obtain es' where "vd_event_queue (vnc_acts env as ?vd) = vd_event_queue ?vd @ es'"
    "\<forall>e \<in> set es'. vnc_chat_event e \<or> vnc_release_of (vd_pressed_keys ?vd) e"
    by fastforce
  with es show ?case
    by (intro exI [of _ "es @ es'"]) (auto simp: vnc_acts_def ra dest: release_of_mono)
qed

section \<open>Where the pointer is\<close>

definition vnc_env_ok :: "'f vnc_env \<Rightarrow> bool" where
  "vnc_env_ok env \<longleftrightarrow> 0 < ve_alloc_width env \<and> 0 < ve_alloc_height env \<and> 0 < ve_width env \<and> 0 < ve_height env \<and>
     (\<not> ve_scaled env \<longrightarrow> ve_alloc_width env \<le> ve_width env \<and> ve_alloc_height env \<le> ve_height env)"

text \<open>The event happened inside the drawing area.\<close>

definition vnc_act_inside :: "'f vnc_env \<Rightarrow> 'f vnc_action \<Rightarrow> bool" where
  "vnc_act_inside env a \<longleftrightarrow>
     (let inside = (\<lambda>x y. 0 \<le> x \<and> x < ve_alloc_width env \<and> 0 \<le> y \<and> y < ve_alloc_height env)
      in case a of
           Act_motion x y \<Rightarrow> inside x y
         | Act_button _ _ x y \<Rightarrow> inside x y
         | Act_scroll _ x y \<Rightarrow> inside x y
         | _ \<Rightarrow> True)"

definition vnc_pointer_ok :: "'f vnc_env \<Rightarrow> vnc_event \<Rightarrow> bool" where
  "vnc_pointer_ok env e =
     (case e of
        Vnc_pointer x y m \<Rightarrow> 0 \<le> x \<and> x < ve_width env \<and> 0 \<le> y \<and> y < ve_height env \<and> take_bit 7 m = m
      | _ \<Rightarrow> True)"

lemma scaled_in:
  assumes "0 \<le> x" and "x < a" and "(0 :: int) < w"
  shows "0 \<le> x * w sdiv a \<and> x * w sdiv a < w"
proof -
  have "x * w div a * a \<le> x * w" using assms by (simp add: minus_mod_eq_div_mult [symmetric])
  also have "x * w < w * a" using assms by (simp add: mult.commute)
  finally have "x * w div a < w" using assms by (simp add: mult_less_cancel_right)
  then show ?thesis using assms by (cases "x = 0") (simp_all add: signed_divide_int_def sgn_mult sgn_if pos_imp_zdiv_nonneg_iff)
qed

lemma scale_coordinates_in:
  assumes "vnc_env_ok env" and "0 \<le> x" "x < ve_alloc_width env" "0 \<le> y" "y < ve_alloc_height env"
    and "remmina_plugin_vnc_scale_coordinates env x y = (cx, cy)"
  shows "0 \<le> cx \<and> cx < ve_width env \<and> 0 \<le> cy \<and> cy < ve_height env"
  using assms scaled_in [of x "ve_alloc_width env" "ve_width env"] scaled_in [of y "ve_alloc_height env" "ve_height env"]
  by (auto simp: remmina_plugin_vnc_scale_coordinates_def vnc_env_ok_def split: if_splits)

definition vnc_pointer_inv :: "'f vnc_env \<Rightarrow> 'f vnc \<Rightarrow> bool" where
  "vnc_pointer_inv env vd \<longleftrightarrow> list_all (vnc_pointer_ok env) (vd_event_queue vd) \<and> take_bit 3 (vd_button_mask vd) = vd_button_mask vd"

lemma take_bit_3_7: "take_bit 3 m = m \<Longrightarrow> take_bit 7 m = (m :: gint)"
  using take_bit_take_bit [of 7 3 m] by simp

lemma take_bit_masks:
  "take_bit 7 a = a \<Longrightarrow> take_bit 7 b = b \<Longrightarrow> take_bit 7 (or a b) = or a (b :: gint)"
  "take_bit 3 a = a \<Longrightarrow> take_bit 3 b = b \<Longrightarrow> take_bit 3 (or a b) = or a (b :: gint)"
  "take_bit 3 a = a \<Longrightarrow> take_bit 3 (and a b) = and a (b :: gint)"
proof -
  show "take_bit 3 (and a b) = and a (b :: gint)" if "take_bit 3 a = a"
    by (metis that take_bit_and and.commute and.assoc take_bit_eq_mask)
qed (simp_all add: take_bit_or)

lemma scroll_mask_bound: "take_bit 7 (fst (vnc_scroll_mask fl d vd)) = fst (vnc_scroll_mask fl d vd)"
  by (cases d) (auto simp: vnc_scroll_mask_def delta_to_mask_def Let_def take_bit_or split: prod.split)

lemma scroll_mask_frame:
  "vd_event_queue (snd (vnc_scroll_mask fl d vd)) = vd_event_queue vd \<and>
   vd_button_mask (snd (vnc_scroll_mask fl d vd)) = vd_button_mask vd"
  by (cases d) (simp_all add: vnc_scroll_mask_def split_def Let_def)

lemma pointer_inv_push:
  "vnc_pointer_inv env vd \<Longrightarrow> vnc_pointer_ok env e \<Longrightarrow> vnc_pointer_inv env (remmina_plugin_vnc_event_push e vd)"
  by (simp add: vnc_pointer_inv_def)

lemma pointer_inv_pointer:
  assumes "vnc_env_ok env" and "0 \<le> x" "x < ve_alloc_width env" "0 \<le> y" "y < ve_alloc_height env"
    and "take_bit 7 m = m" and "vnc_pointer_inv env vd"
  shows "vnc_pointer_inv env (vnc_push_pointer env x y m vd)"
  using push_pointer_queue [of env x y m vd] scale_coordinates_in [OF assms(1-5)] assms(6,7)
  by (auto simp: vnc_pointer_ok_def intro!: pointer_inv_push)

lemma pointer_inv_act:
  assumes ok: "vnc_env_ok env" and inside: "vnc_act_inside env a" and inv: "vnc_pointer_inv env vd"
  shows "vnc_pointer_inv env (vnc_act env rf a vd)"
proof (cases a)
  case (Act_motion x y)
  then show ?thesis
    using inside inv take_bit_3_7 [of "vd_button_mask vd"]
    by (auto simp: remmina_plugin_vnc_on_motion_def vnc_act_inside_def vnc_pointer_inv_def [of env vd]
        intro!: pointer_inv_pointer [OF ok])
next
  case (Act_button t b x y)
  have b: "take_bit 3 (push_bit (b - 1) 1 :: gint) = push_bit (b - 1) 1" if "\<not> b < 1" "\<not> 3 < b"
  proof -
    from that have "b = 1 \<or> b = 2 \<or> b = 3" by auto
    then show ?thesis by auto
  qed
  have "vnc_pointer_inv env (vnc_push_pointer env x y m (vd\<lparr>vd_button_mask := m\<rparr>))" if "take_bit 3 m = m" for m
    using inside inv that
    by (intro pointer_inv_pointer ok) (auto simp: Act_button vnc_act_inside_def vnc_pointer_inv_def take_bit_3_7)
  moreover have "take_bit 3 (or (vd_button_mask vd) (push_bit (b - 1) 1)) = or (vd_button_mask vd) (push_bit (b - 1) 1)"
    if "\<not> b < 1" "\<not> 3 < b"
    by (rule take_bit_masks(2) [OF _ b [OF that]]) (use inv in \<open>simp add: vnc_pointer_inv_def\<close>)
  moreover have "take_bit 3 (and (vd_button_mask vd) m) = and (vd_button_mask vd) m" for m
    by (rule take_bit_masks(3)) (use inv in \<open>simp add: vnc_pointer_inv_def\<close>)
  ultimately show ?thesis
    using inv by (simp add: Act_button remmina_plugin_vnc_on_button_def Let_def)
next
  case (Act_scroll d x y)
  obtain m vd' where s: "vnc_scroll_mask (ve_float env) d vd = (m, vd')" by force
  have m: "take_bit 7 m = m" and inv': "vnc_pointer_inv env vd'" and b: "vd_button_mask vd' = vd_button_mask vd"
    using scroll_mask_bound [of "ve_float env" d vd] scroll_mask_frame [of "ve_float env" d vd] inv
    by (simp_all add: s vnc_pointer_inv_def)
  have "take_bit 7 (vd_button_mask vd') = vd_button_mask vd'"
    using inv' by (simp add: vnc_pointer_inv_def take_bit_3_7)
  then have "vnc_pointer_inv env (vnc_push_pointer env x y (vd_button_mask vd')
      (vnc_push_pointer env x y (or m (vd_button_mask vd')) vd'))"
    using inside m inv'
    by (intro pointer_inv_pointer ok take_bit_masks) (auto simp: Act_scroll vnc_act_inside_def)
  then show ?thesis using inv inv' by (simp add: Act_scroll remmina_plugin_vnc_on_scroll_def s)
next
  case (Act_key p kv c)
  have "list_all (vnc_pointer_ok env) (map (\<lambda>k. Vnc_key (kv_keyval k) False) ks)" for ks
    by (simp add: list_all_iff vnc_pointer_ok_def)
  then show ?thesis
    using inv
    by (auto simp: push_releases Act_key remmina_plugin_vnc_on_key_def Let_def vnc_pointer_inv_def vnc_pointer_ok_def
        remmina_plugin_vnc_release_key_def split: option.split)
next
  case (Act_owner_change now answer)
  then show ?thesis
    using inv
    by (auto simp: remmina_plugin_vnc_on_cuttext_def remmina_plugin_vnc_on_cuttext_request_def
        vnc_pointer_inv_def vnc_pointer_ok_def split: option.split)
next
  case Act_unfocus
  then show ?thesis
    using inv push_releases [of "vd_pressed_keys vd" vd]
    by (auto simp: remmina_plugin_vnc_release_key_def vnc_pointer_inv_def list_all_iff vnc_pointer_ok_def)
qed (use inv in \<open>simp_all add: remmina_plugin_vnc_open_chat_def remmina_plugin_vnc_chat_on_send_def
    remmina_plugin_vnc_chat_on_destroy_def vnc_pointer_inv_def vnc_pointer_ok_def\<close>)

lemma pointer_inv_acts:
  assumes "vnc_env_ok env" and "\<forall>(rf, a) \<in> set as. vnc_act_inside env a" and "vnc_pointer_inv env vd"
  shows "vnc_pointer_inv env (vnc_acts env as vd)"
  using assms(2,3)
proof (induction as arbitrary: vd)
  case Nil
  then show ?case by (simp add: vnc_acts_def)
next
  case (Cons ra as)
  obtain rf a where ra: "ra = (rf, a)" by force
  from Cons.prems ra have "vnc_pointer_inv env (vnc_act env rf a vd)"
    by (intro pointer_inv_act assms(1)) auto
  with Cons show ?case by (simp add: vnc_acts_def ra)
qed

section \<open>What the handlers push\<close>

text \<open>The events of a handler are the messages of its action, and the client stays.\<close>

lemma msgs_releases: "vnc_msgs (map (\<lambda>k. Vnc_key (kv_keyval k) False) ks) = vnc_release_msgs ks"
  by (induction ks) (simp_all add: vnc_msgs_Cons vnc_release_msgs_def)

lemma push_pointer_msgs:
  "vnc_msgs (vd_event_queue (vnc_push_pointer env x y m vd)) = vnc_msgs (vd_event_queue vd) @ [vnc_pointer_msg env x y m]"
  using push_pointer_queue[of env x y m vd] by (auto simp: vnc_pointer_msg_def vnc_msgs_Cons)

lemma scroll_mask_queue: "vd_event_queue (snd (vnc_scroll_mask fl d vd)) = vd_event_queue vd"
  by (auto simp: vnc_scroll_mask_def Let_def split: scroll_direction.split prod.split)

lemma scroll_mask_queue_fst: "fst (vnc_scroll_mask fl d (vd\<lparr>vd_event_queue := q\<rparr>)) = fst (vnc_scroll_mask fl d vd)"
  by (auto simp: vnc_scroll_mask_def Let_def split: scroll_direction.split prod.split)

lemma push_pointer_client: "vd_client (vnc_push_pointer env x y m vd) = vd_client vd"
  using push_pointer_queue[of env x y m vd] by auto

lemma scroll_mask_client: "vd_client (snd (vnc_scroll_mask fl d vd)) = vd_client vd"
  by (auto simp: vnc_scroll_mask_def Let_def split: scroll_direction.split prod.split)

lemma act_msgs:
  "vnc_msgs (vd_event_queue (vnc_act env rf a (vd\<lparr>vd_event_queue := []\<rparr>))) = vnc_action_msgs env rf a vd"
proof -
  let ?vd = "vd\<lparr>vd_event_queue := []\<rparr>"
  have ign: "vnc_ignores_input rf ?vd = vnc_ignores_input rf vd" by (simp add: vnc_ignores_input_def)
  show ?thesis
  proof (cases a)
    case (Act_button type b x y)
    have b: "b < 1 \<or> 3 < b \<longleftrightarrow> b \<notin> {1, 2, 3}" by auto
    show ?thesis
      unfolding Act_button vnc_act.simps vnc_action_msgs.simps remmina_plugin_vnc_on_button_def ign
      by (cases type) (auto simp: Let_def push_pointer_msgs)
  next
    case (Act_scroll d x y)
    obtain m vd' where m: "vnc_scroll_mask (ve_float env) d ?vd = (m, vd')" by force
    have "fst (vnc_scroll_mask (ve_float env) d vd) = m" by (metis m fst_conv scroll_mask_queue_fst)
    moreover have "vd_event_queue vd' = []" "vd_button_mask vd' = vd_button_mask vd"
      using scroll_mask_queue[of "ve_float env" d ?vd] scroll_mask_frame[of "ve_float env" d ?vd] m by simp_all
    ultimately show ?thesis
      using m by (simp add: Act_scroll remmina_plugin_vnc_on_scroll_def ign push_pointer_msgs Let_def)
  next
    case (Act_key press keyval keycode)
    then show ?thesis
      by (auto simp: remmina_plugin_vnc_on_key_def ign Let_def vnc_msgs_Cons remmina_plugin_vnc_release_key_def
          push_releases msgs_releases split: option.split)
  next
    case (Act_owner_change now answer)
    then show ?thesis
      by (auto simp: remmina_plugin_vnc_on_cuttext_def remmina_plugin_vnc_on_cuttext_request_def ign vnc_msgs_Cons
          split: option.split)
  qed (auto simp: remmina_plugin_vnc_on_motion_def ign push_pointer_msgs remmina_plugin_vnc_open_chat_def
      remmina_plugin_vnc_chat_on_send_def remmina_plugin_vnc_chat_on_destroy_def remmina_plugin_vnc_release_key_def
      push_releases msgs_releases vnc_msgs_Cons)
qed

lemma act_client: "vd_client (vnc_act env rf a vd) = vd_client vd"
proof (cases a)
  case (Act_button type b x y)
  then show ?thesis
    by (auto simp: remmina_plugin_vnc_on_button_def Let_def push_pointer_client)
next
  case (Act_scroll d x y)
  then show ?thesis
    using scroll_mask_client[of "ve_float env" d vd]
    by (auto simp: remmina_plugin_vnc_on_scroll_def Let_def push_pointer_client split: prod.split)
next
  case (Act_key press keyval keycode)
  then show ?thesis
    by (auto simp: remmina_plugin_vnc_on_key_def Let_def remmina_plugin_vnc_release_key_def push_releases split: option.split)
next
  case (Act_owner_change now answer)
  then show ?thesis
    by (auto simp: remmina_plugin_vnc_on_cuttext_def remmina_plugin_vnc_on_cuttext_request_def split: option.split)
qed (auto simp: remmina_plugin_vnc_on_motion_def push_pointer_client remmina_plugin_vnc_open_chat_def
    remmina_plugin_vnc_chat_on_send_def remmina_plugin_vnc_chat_on_destroy_def remmina_plugin_vnc_release_key_def push_releases)

text \<open>An open session in which the chat is opened.\<close>

lemma open_chat_step:
  assumes "\<not> vr_closed s" "vr_pending s = []" "\<not> vr_writing s"
  shows "vnc_push_step s (s\<lparr>vr_pending := [Vnc_chat_open], vr_wanted := vr_wanted s @ [TextChatOpen]\<rparr>)"
proof -
  let ?vd = "vnc_act undefined undefined Act_chat_open ((vr_data s)\<lparr>vd_event_queue := []\<rparr>)"
  have q: "vd_event_queue ?vd = [Vnc_chat_open]" by (simp add: remmina_plugin_vnc_open_chat_def)
  have d: "?vd\<lparr>vd_event_queue := vd_event_queue (vr_data s), vd_event_pipe := vd_event_pipe (vr_data s)\<rparr> = vr_data s"
    by (cases "vr_data s") (simp add: remmina_plugin_vnc_open_chat_def vnc_push_defs)
  show ?thesis
    using vnc_push_step.handle[OF assms refl, of undefined undefined Act_chat_open] unfolding q d by simp
qed

section \<open>Properties\<close>

text \<open>
  The messages under way: those of the event that was taken out and not sent yet, those in the
  queue, and those of the events a handler has still to push.
\<close>

definition vnc_under_way :: "'f vnc_run \<Rightarrow> rfb_msg list" where
  "vnc_under_way s =
     (case vr_loop s of Loop_send e \<Rightarrow> vnc_event_msgs e | _ \<Rightarrow> []) @
     vnc_msgs (vd_event_queue (vr_data s)) @ vnc_msgs (vr_pending s)"

definition vnc_order_inv :: "'f vnc_run \<Rightarrow> bool" where
  "vnc_order_inv s \<longleftrightarrow> prefix (vr_sent s) (vr_wanted s) \<and> (vr_closed s \<longrightarrow> vr_loop s = Loop_ended) \<and>
     (\<not> vr_closed s \<longrightarrow> vd_client (vr_data s) \<and> vr_sent s @ vnc_under_way s = vr_wanted s)"

lemma vnc_order_inv_openI:
  "\<not> vr_closed s \<Longrightarrow> vd_client (vr_data s) \<Longrightarrow> vr_sent s @ vnc_under_way s = vr_wanted s \<Longrightarrow> vnc_order_inv s"
  unfolding vnc_order_inv_def by (metis prefixI)

lemma pop_head_Some:
  "remmina_plugin_vnc_event_queue_pop_head vd = (Some e, vd') \<Longrightarrow>
     \<exists>q. vd_event_queue vd = e # q \<and> vd' = vd\<lparr>vd_event_queue := q\<rparr>"
  by (auto simp: remmina_plugin_vnc_event_queue_pop_head_def split: list.splits)

lemma pop_head_None: "remmina_plugin_vnc_event_queue_pop_head vd = (None, vd') \<Longrightarrow> vd_event_queue vd = []"
  by (auto simp: remmina_plugin_vnc_event_queue_pop_head_def split: list.splits)

lemma vnc_push_order:
  assumes "vnc_push_step s s'" and inv: "vnc_order_inv s"
  shows "vnc_order_inv s'"
  using assms(1)
proof cases
  case (handle vd env rf a)
  with inv show ?thesis
    by (intro vnc_order_inv_openI)
      (auto simp: vnc_order_inv_def vnc_under_way_def act_client act_msgs simp flip: append_assoc)
next
  case (push e es)
  with inv show ?thesis
    by (intro vnc_order_inv_openI) (auto simp: vnc_order_inv_def vnc_under_way_def vnc_queue_push_tail_def vnc_msgs_Cons)
next
  case signal_pipe
  with inv show ?thesis
    by (intro vnc_order_inv_openI) (auto simp: vnc_order_inv_def vnc_under_way_def vnc_pipe_write_def)
next
  case close
  with inv show ?thesis by (simp add: vnc_order_inv_def)
qed

lemma vnc_loop_order:
  assumes "vnc_loop_step s s'" and inv: "vnc_order_inv s"
  shows "vnc_order_inv s'"
proof (cases "vr_closed s")
  case True
  with assms show ?thesis by (auto simp: vnc_order_inv_def elim: vnc_loop_stepE)
next
  case open_run: False
  from assms(1) show ?thesis
  proof cases
    case (pop e vd)
    with inv open_run pop_head_Some[OF pop(3)] show ?thesis
      by (intro vnc_order_inv_openI) (auto simp: vnc_order_inv_def vnc_under_way_def vnc_msgs_Cons)
  qed (use inv open_run in \<open>intro vnc_order_inv_openI; auto simp: vnc_order_inv_def vnc_under_way_def dest: pop_head_None\<close>)+
qed

text \<open>
  C36: While a session that has a client is open, the messages sent, followed by those under way (of
  the event taken out of the queue, of the queue, of the events a handler has still to push), are the
  messages a client without queue and threads would send at once for the actions of the user so far:
  whatever the interleaving of the handlers and the plugin thread, none is lost, sent twice or
  overtaken. After closing, which frees what is under way, the messages sent are the first ones of them.
\<close>

theorem vnc_events_in_order:
  assumes "vnc_run_step\<^sup>*\<^sup>* (vnc_run_new vd) s" and "vd_client vd"
  shows "prefix (vr_sent s) (vr_wanted s) \<and> (\<not> vr_closed s \<longrightarrow> vr_sent s @ vnc_under_way s = vr_wanted s)"
proof -
  from assms(1) have "vnc_order_inv s"
  proof (induction rule: rtranclp_induct)
    case base
    show ?case using assms(2) by (intro vnc_order_inv_openI) (simp_all add: vnc_run_new_def vnc_under_way_def)
  next
    case (step t u)
    then show ?case by (auto simp: vnc_run_step_def dest: vnc_push_order vnc_loop_order)
  qed
  then show ?thesis by (simp add: vnc_order_inv_def)
qed

definition vnc_sample :: "nat vnc" where
  "vnc_sample = \<lparr>vd_connected = True, vd_client = True, vd_button_mask = 0, vd_pressed_keys = [],
     vd_event_queue = [], vd_event_pipe = 0, vd_clipboard_timer = 0, vd_scroll_x = 0, vd_scroll_y = 0\<rparr>"

theorem vnc_events_in_order_witness:
  "\<exists>s :: nat vnc_run. vnc_run_step\<^sup>*\<^sup>* (vnc_run_new vnc_sample) s \<and> vr_wanted s = [TextChatOpen] \<and>
     vr_sent s @ vnc_under_way s = [TextChatOpen]"
proof -
  let ?i = "vnc_run_new vnc_sample"
  let ?s = "?i\<lparr>vr_pending := [Vnc_chat_open], vr_wanted := vr_wanted ?i @ [TextChatOpen]\<rparr>"
  have "vnc_push_step ?i ?s" by (rule open_chat_step) (simp_all add: vnc_run_new_def)
  then have run: "vnc_run_step\<^sup>*\<^sup>* ?i ?s" by (simp add: vnc_run_step_def r_into_rtranclp)
  have "vr_wanted ?s = [TextChatOpen]" "\<not> vr_closed ?s" by (simp_all add: vnc_run_new_def)
  with run vnc_events_in_order[OF run] show ?thesis by (intro exI[of _ ?s]) (simp add: vnc_sample_def)
qed

text \<open>
  A wake-up can be lost: the thread finds the queue empty, the handler pushes an event
  and writes its byte, and the thread then reads the byte away before it looks at the queue
  again. It is back in \<open>select\<close> with an event in the queue, no byte in the pipe and no push
  under way, and it cannot take a step, but for its end, until the next event is pushed.
\<close>

theorem vnc_wakeup_lost:
  assumes "vd_connected vd"
  shows "\<exists>s. vnc_run_step\<^sup>*\<^sup>* (vnc_run_new vd) s \<and> vd_event_queue (vr_data s) = [Vnc_chat_open] \<and> \<not> vr_writing s \<and>
     vr_pending s = [] \<and> (\<forall>s'. vnc_loop_step s s' \<longrightarrow> vr_loop s' = Loop_ended)"
proof -
  let ?P = "\<lambda>q n ps w l ms es. \<lparr>vr_data = vd\<lparr>vd_event_queue := q, vd_event_pipe := n\<rparr>, vr_pending = ps, vr_writing = w,
      vr_loop = l, vr_sent = ms, vr_wanted = es, vr_closed = False\<rparr>"
  have comm: "vd\<lparr>vd_event_pipe := n, vd_event_queue := q\<rparr> = vd\<lparr>vd_event_queue := q, vd_event_pipe := n\<rparr>" for q n
    by (cases vd) simp
  have handle: "vnc_run_step (?P q n [] False l ms es) (?P q n [Vnc_chat_open] False l ms (es @ [TextChatOpen]))" for q n l ms es
    using open_chat_step[of "?P q n [] False l ms es"] by (simp add: vnc_run_step_def)
  have push: "vnc_run_step (?P q n [e] False l ms es) (?P (q @ [e]) n [] True l ms es)" for q n e l ms es
    using vnc_push_step.push[of "?P q n [e] False l ms es" e "[]"]
    by (simp add: vnc_run_step_def vnc_queue_push_tail_def comm)
  have wr: "vnc_run_step (?P q n ps True l ms es) (?P q (Suc n) ps False l ms es)" for q n ps l ms es
    using vnc_push_step.signal_pipe[of "?P q n ps True l ms es"] by (simp add: vnc_run_step_def vnc_pipe_write_def)
  have wake: "vnc_run_step (?P q (Suc n) ps w Loop_select ms es) (?P q (Suc n) ps w Loop_queue ms es)" for q n ps w ms es
    using vnc_loop_step.wake[of "?P q (Suc n) ps w Loop_select ms es"] assms by (simp add: vnc_run_step_def)
  have pop: "vnc_run_step (?P [e] n ps w Loop_queue ms es) (?P [] n ps w (Loop_send e) ms es)" for e n ps w ms es
    using vnc_loop_step.pop[of "?P [e] n ps w Loop_queue ms es" e "vd\<lparr>vd_event_queue := [], vd_event_pipe := n\<rparr>"]
    by (simp add: vnc_run_step_def remmina_plugin_vnc_event_queue_pop_head_def comm)
  have send: "\<exists>ms'. vnc_run_step (?P q n ps w (Loop_send e) ms es) (?P q n ps w Loop_queue ms' es)" for q e n ps w ms es
    using vnc_loop_step.send[of "?P q n ps w (Loop_send e) ms es" e] by (auto simp: vnc_run_step_def)
  have drained: "vnc_run_step (?P [] n ps w Loop_queue ms es) (?P [] n ps w Loop_read ms es)" for n ps w ms es
    using vnc_loop_step.drained[of "?P [] n ps w Loop_queue ms es" "vd\<lparr>vd_event_queue := [], vd_event_pipe := n\<rparr>"]
    by (simp add: vnc_run_step_def remmina_plugin_vnc_event_queue_pop_head_def)
  have read: "vnc_run_step (?P q 2 ps w Loop_read ms es) (?P q 0 ps w Loop_select ms es)" for q ps w ms es
    using vnc_loop_step.read[of "?P q 2 ps w Loop_read ms es"] by (simp add: vnc_run_step_def)
  let ?e = Vnc_chat_open and ?m = TextChatOpen
  obtain ms where ms: "vnc_run_step (?P [] 1 [] False (Loop_send ?e) [] [?m]) (?P [] 1 [] False Loop_queue ms [?m])"
    using send by blast
  have "vnc_run_step\<^sup>*\<^sup>* (?P [] 0 [] False Loop_select [] []) (?P [?e] 0 [] False Loop_select ms [?m, ?m])"
    using handle[of 0 "[]" Loop_select "[]" "[]"] push[of 0 "[]" ?e Loop_select "[]" "[?m]"] wr[of 0 "[?e]" "[]" Loop_select "[]" "[?m]"]
      wake[of 0 "[?e]" "[]" False "[]" "[?m]"] pop[of 1 ?e "[]" False "[]" "[?m]"] ms drained[of 1 "[]" False ms "[?m]"]
      handle[of 1 "[]" Loop_read ms "[?m]"] push[of 1 "[]" ?e Loop_read ms "[?m, ?m]"] wr[of 1 "[?e]" "[]" Loop_read ms "[?m, ?m]"]
      read[of "[?e]" "[]" False ms "[?m, ?m]"]
    by (simp add: numeral_2_eq_2)
  moreover have "vnc_loop_step (?P [?e] 0 [] False Loop_select ms [?m, ?m]) s' \<Longrightarrow> vr_loop s' = Loop_ended" for s'
    by (auto elim: vnc_loop_stepE)
  ultimately show ?thesis
    by (intro exI[of _ "?P [?e] 0 [] False Loop_select ms [?m, ?m]"]) (simp add: vnc_run_new_def)
qed

text \<open>
  A session that is view-only sends nothing the user does with the pointer, the keyboard
  or the clipboard: whatever happens, the only events it adds to the queue are chat events
  and releases of keys that were held down before, when the window loses the focus. In
  particular no key press and no pointer event reaches the server.
\<close>

theorem vnc_viewonly_sends_no_input:
  assumes "\<forall>(rf, a) \<in> set as. vnc_viewonly rf"
  shows "list_all (\<lambda>e. vnc_chat_event e \<or> vnc_release_of (vd_pressed_keys vd) e)
     (drop (length (vd_event_queue vd)) (vd_event_queue (vnc_acts env as vd)))"
proof -
  obtain es where "vd_event_queue (vnc_acts env as vd) = vd_event_queue vd @ es"
    and "\<forall>e \<in> set es. vnc_chat_event e \<or> vnc_release_of (vd_pressed_keys vd) e"
    using viewonly_acts [OF assms] by blast
  then show ?thesis by (simp add: list_all_iff)
qed

text \<open>The state of the preferences is only asked for its keymaps.\<close>

definition vnc_sample_env :: "pref_state \<Rightarrow> nat vnc_env" where
  "vnc_sample_env st = \<lparr>ve_scaled = True, ve_alloc_width = 400, ve_alloc_height = 300, ve_width = 800,
     ve_height = 600, ve_pref = st, ve_to_latin1 = Some,
     ve_float = \<lparr>fl_add = (\<lambda>a b. a + b), fl_zero = 0, fl_ge_one = (\<lambda>a. 1 \<le> a), fl_le_minus_one = (\<lambda>a. False)\<rparr>\<rparr>"

definition vnc_sample_file :: "(string \<times> string) list \<Rightarrow> rfile" where
  "vnc_sample_file settings = remmina_file_new_empty\<lparr>rf_settings := settings\<rparr>"

theorem vnc_viewonly_sends_no_input_witness:
  "\<forall>st. list_all (\<lambda>e. vnc_chat_event e \<or> vnc_release_of [] e) (vd_event_queue (vnc_acts (vnc_sample_env st)
      [(vnc_sample_file [(''viewonly'', ''1'')], Act_key True 97 38)] vnc_sample))"
proof
  fix st
  have "vnc_viewonly (vnc_sample_file [(''viewonly'', ''1'')])" by code_simp
  then have "\<forall>(rf, a) \<in> set [(vnc_sample_file [(''viewonly'', ''1'')], Act_key True 97 38 :: nat vnc_action)]. vnc_viewonly rf"
    by simp
  from vnc_viewonly_sends_no_input [OF this, of vnc_sample "vnc_sample_env st"]
  show "list_all (\<lambda>e. vnc_chat_event e \<or> vnc_release_of [] e) (vd_event_queue (vnc_acts (vnc_sample_env st)
      [(vnc_sample_file [(''viewonly'', ''1'')], Act_key True 97 38)] vnc_sample))"
    by (simp add: vnc_sample_def)
qed

text \<open>
  Every pointer event that is sent lies on the remote desktop: when the user's pointer
  events are inside the drawing area, the coordinates put into the queue are at least zero
  and smaller than the width and height of the desktop, scaled or not, and the button mask
  has no bits but the three buttons and the four directions of the wheel.
\<close>

theorem vnc_pointer_on_desktop:
  assumes "vnc_env_ok env" and "\<forall>(rf, a) \<in> set as. vnc_act_inside env a"
    and "vd_event_queue vd = []" and "take_bit 3 (vd_button_mask vd) = vd_button_mask vd"
  shows "list_all (vnc_pointer_ok env) (vd_event_queue (vnc_acts env as vd))"
  using pointer_inv_acts [OF assms(1,2), of vd] assms(3,4) by (simp add: vnc_pointer_inv_def)

theorem vnc_pointer_on_desktop_witness:
  "\<forall>st. list_all (vnc_pointer_ok (vnc_sample_env st)) (vd_event_queue (vnc_acts (vnc_sample_env st)
     [(vnc_sample_file [], Act_button Button_press 3 399 299)] vnc_sample))"
  by (intro allI vnc_pointer_on_desktop) (simp_all add: vnc_env_ok_def vnc_sample_env_def vnc_act_inside_def vnc_sample_def)

text \<open>
  C37: After the window has lost the focus the server holds no key down: whatever keys the
  user has pressed and released in whatever order, and although releases may have been lost,
  the releases pushed on losing the focus cover every key whose last event was a press.
  The keymap in use must not map a key that it has produced to another one.
\<close>

theorem vnc_unfocus_releases_keys:
  assumes "vd_pressed_keys vd = []" and "vd_event_queue vd = []"
    and "\<forall>(rf, a) \<in> set as. remmina_file_get_string rf ''keymap'' = keymap"
    and "\<And>v. remmina_pref_keymap_get_keyval (ve_pref env) keymap
           (remmina_pref_keymap_get_keyval (ve_pref env) keymap v) = remmina_pref_keymap_get_keyval (ve_pref env) keymap v"
  shows "\<not> vnc_held (vd_event_queue (vnc_act env rf Act_unfocus (vnc_acts env as vd))) v"
proof -
  let ?K = "remmina_pref_keymap_get_keyval (ve_pref env) keymap"
  have "vnc_keys_inv ?K vd" using assms(1,2) by (simp add: vnc_keys_inv_def)
  then have "vnc_keys_inv ?K (vnc_acts env as vd)"
    using assms(3,4) by (intro keys_inv_acts) (auto simp: vnc_keymap_def)
  from keys_inv_release_all [OF this, of v] show ?thesis by simp
qed

theorem vnc_unfocus_releases_keys_witness:
  "\<forall>st rf. \<not> vnc_held (vd_event_queue (vnc_act (vnc_sample_env st) rf Act_unfocus
      (vnc_acts (vnc_sample_env st) [(vnc_sample_file [], Act_key True 97 38), (vnc_sample_file [], Act_key True 98 56)]
         vnc_sample))) 97"
proof (intro allI, rule vnc_unfocus_releases_keys [where keymap = None])
  have "remmina_file_get_string (vnc_sample_file []) ''keymap'' = None" by code_simp
  then show "\<forall>(rf, a) \<in> set [(vnc_sample_file [], Act_key True 97 38), (vnc_sample_file [], Act_key True 98 56 :: nat vnc_action)].
      remmina_file_get_string rf ''keymap'' = None" by simp
qed (simp_all add: vnc_sample_def remmina_pref_keymap_get_keyval_def)

text \<open>
  With a keymap that swaps two keys, as the default one does with Super and Meta, a key
  sticks: the press is mapped, the release looks up the value the press has registered and
  maps it again, so the server is told to release the other key. The pressed key leaves the
  list of pressed keys and is not released when the window loses the focus either.
\<close>

theorem vnc_swapped_key_sticks:
  assumes "vd_connected vd" and "vd_client vd" and "vd_pressed_keys vd = []" and "vd_event_queue vd = []"
    and "\<not> vnc_viewonly rf" and "vnc_keymap env rf v = w" and "vnc_keymap env rf w = v" and "v \<noteq> w" and "c \<noteq> 0"
  shows "vd_event_queue (vnc_act env rf Act_unfocus
             (vnc_acts env [(rf, Act_key True v c), (rf, Act_key False v c)] vd)) = [Vnc_key w True, Vnc_key v False] \<and>
     vnc_held [Vnc_key w True, Vnc_key v False] w"
  using assms
  by (simp add: vnc_acts_def remmina_plugin_vnc_on_key_def vnc_ignores_input_def vnc_event_keyval_def
      remmina_plugin_vnc_release_key_def g_ptr_array_remove_index_fast_def Let_def vnc_held_def)

definition meta_keymap :: "pref_state \<Rightarrow> pref_state" where
  "meta_keymap st = st\<lparr>st_keymap := [''Map Meta Keys'' \<mapsto> [0xffeb, 0xffe7, 0xffe7, 0xffeb, 0, 0, 0]]\<rparr>"

theorem vnc_swapped_key_sticks_witness:
  "\<forall>st. vnc_held (vd_event_queue (vnc_act (vnc_sample_env (meta_keymap st))
     (vnc_sample_file [(''keymap'', ''Map Meta Keys'')]) Act_unfocus
     (vnc_acts (vnc_sample_env (meta_keymap st))
        [(vnc_sample_file [(''keymap'', ''Map Meta Keys'')], Act_key True 0xffeb 133),
         (vnc_sample_file [(''keymap'', ''Map Meta Keys'')], Act_key False 0xffeb 133)] vnc_sample))) 0xffe7"
proof
  fix st
  let ?rf = "vnc_sample_file [(''keymap'', ''Map Meta Keys'')]"
  let ?env = "vnc_sample_env (meta_keymap st)"
  have get: "remmina_file_get_string ?rf ''keymap'' = Some ''Map Meta Keys''" by code_simp
  have "vnc_keymap ?env ?rf 0xffeb = 0xffe7" "vnc_keymap ?env ?rf 0xffe7 = 0xffeb"
    by (simp_all add: vnc_keymap_def get remmina_pref_keymap_get_keyval_def vnc_sample_env_def meta_keymap_def)
  moreover have "\<not> vnc_viewonly ?rf" by code_simp
  ultimately have "vd_event_queue (vnc_act ?env ?rf Act_unfocus
             (vnc_acts ?env [(?rf, Act_key True 0xffeb 133), (?rf, Act_key False 0xffeb 133)] vnc_sample)) =
       [Vnc_key 0xffe7 True, Vnc_key 0xffeb False] \<and> vnc_held [Vnc_key 0xffe7 True, Vnc_key 0xffeb False] 0xffe7"
    by (intro vnc_swapped_key_sticks) (simp_all add: vnc_sample_def)
  then show "vnc_held (vd_event_queue (vnc_act ?env ?rf Act_unfocus
             (vnc_acts ?env [(?rf, Act_key True 0xffeb 133), (?rf, Act_key False 0xffeb 133)] vnc_sample))) 0xffe7"
    by metis
qed

end
