(* ===== verification/VncDisplay.thy ===== *)
theory VncDisplay
  imports Geometry FileData "HOL-Library.Signed_Division"
begin

text \<open>
  The output side of the VNC plugin (\<open>plugins/vnc/vnc_plugin.c\<close>): the pixel format and the
  encodings it asks for, the conversion of the frame buffer into the surface that is shown,
  the scaling of the area that changed, and the damage that is collected until the main
  thread draws it. Memory is a list of bytes; an access outside it is a \<open>Crash\<close>.
\<close>

section \<open>The pixel format\<close>

record rfb_format =
  pf_depth :: nat
  pf_bits_per_pixel :: nat
  pf_big_endian :: bool
  pf_true_colour :: bool
  pf_red_max :: nat
  pf_green_max :: nat
  pf_blue_max :: nat
  pf_red_shift :: nat
  pf_green_shift :: nat
  pf_blue_shift :: nat

record rfb_app_data =
  ad_use_bgr233 :: bool
  ad_encodings :: string
  ad_compress_level :: nat
  ad_quality_level :: nat
  ad_requested_depth :: gint

definition remmina_plugin_vnc_update_colordepth ::
  "bool \<Rightarrow> gint \<Rightarrow> rfb_format \<times> rfb_app_data \<Rightarrow> rfb_format \<times> rfb_app_data" where
  "remmina_plugin_vnc_update_colordepth little_endian colordepth = (\<lambda>(fmt, app).
     let app = app\<lparr>ad_requested_depth := colordepth\<rparr>;
         fmt = fmt\<lparr>pf_true_colour := True, pf_big_endian := \<not> little_endian\<rparr>
     in (if colordepth = 8
         then fmt\<lparr>pf_depth := 8, pf_bits_per_pixel := 8, pf_blue_max := 3, pf_blue_shift := 6,
                pf_green_max := 7, pf_green_shift := 3, pf_red_max := 7, pf_red_shift := 0\<rparr>
         else if colordepth = 16
         then fmt\<lparr>pf_depth := 15, pf_bits_per_pixel := 16, pf_red_shift := 11, pf_green_shift := 6,
                pf_blue_shift := 1, pf_red_max := 31, pf_green_max := 31, pf_blue_max := 31\<rparr>
         else fmt\<lparr>pf_depth := 24, pf_bits_per_pixel := 32, pf_blue_shift := 0, pf_red_shift := 16,
                pf_green_shift := 8, pf_blue_max := 0xff, pf_red_max := 0xff, pf_green_max := 0xff\<rparr>,
         app))"

definition vnc_tight_encodings :: string where
  "vnc_tight_encodings = ''tight zrle ultra copyrect hextile zlib corre rre raw''"

definition remmina_plugin_vnc_update_quality :: "gint \<Rightarrow> rfile \<Rightarrow> rfb_app_data \<Rightarrow> rfb_app_data" where
  "remmina_plugin_vnc_update_quality quality rf app =
     (let app = (if quality = 9
                 then app\<lparr>ad_use_bgr233 := False, ad_encodings := ''copyrect zlib hextile raw'',
                        ad_compress_level := 1, ad_quality_level := 9\<rparr>
                 else if quality = 2
                 then app\<lparr>ad_use_bgr233 := False, ad_encodings := vnc_tight_encodings,
                        ad_compress_level := 2, ad_quality_level := 7\<rparr>
                 else if quality = 1
                 then app\<lparr>ad_use_bgr233 := False, ad_encodings := vnc_tight_encodings,
                        ad_compress_level := 3, ad_quality_level := 5\<rparr>
                 else app\<lparr>ad_use_bgr233 := True,
                        ad_encodings := ''copyrect zrle ultra zlib hextile corre rre raw'', ad_quality_level := 1\<rparr>);
          app = (case remmina_file_get_string rf ''encodings'' of
                   None \<Rightarrow> app | Some enc \<Rightarrow> app\<lparr>ad_encodings := enc\<rparr>)
      in if remmina_file_get_int rf ''tightencoding'' 0 \<noteq> 0 \<and> strrstr (ad_encodings app) ''tight'' = None
         then app\<lparr>ad_encodings := ''tight '' @ ad_encodings app\<rparr> else app)"

text \<open>What the connecting thread does after both: 8 bits have encodings of their own.\<close>

definition vnc_depth8_encodings :: "gint \<Rightarrow> rfb_format \<times> rfb_app_data \<Rightarrow> rfb_format \<times> rfb_app_data" where
  "vnc_depth8_encodings quality = (\<lambda>(fmt, app).
     (fmt,
      if pf_depth fmt = 8 \<and> quality = 9 then app\<lparr>ad_encodings := ''copyrect zlib hextile raw''\<rparr>
      else if pf_depth fmt = 8 \<and> (quality = 2 \<or> quality = 1 \<or> quality = 0)
      then app\<lparr>ad_encodings := ''zrle ultra copyrect hextile zlib corre rre raw''\<rparr>
      else app))"

section \<open>Pixels\<close>

function vnc_bits_loop :: "nat \<Rightarrow> nat \<Rightarrow> nat" where
  "vnc_bits_loop n b = (if n = 0 then b else vnc_bits_loop (n div 2) (Suc b))"
  by pat_completeness auto
termination by (relation "measure fst") auto

declare vnc_bits_loop.simps [simp del]

definition remmina_plugin_vnc_bits :: "nat \<Rightarrow> nat" where
  "remmina_plugin_vnc_bits n = (let b = vnc_bits_loop n 0 in if b \<noteq> 0 then b else 1)"

text \<open>\<open>for (r = rr; r < 8; r *= 2) c |= c >> r\<close>, where \<open>rr\<close> is at least one.\<close>

function vnc_expand :: "nat \<Rightarrow> 8 word \<Rightarrow> 8 word" where
  "vnc_expand r c = (if 0 < r \<and> r < 8 then vnc_expand (2 * r) (or c (drop_bit r c)) else c)"
  by pat_completeness auto
termination by (relation "measure (\<lambda>(r, c). 8 - r)") auto

declare vnc_expand.simps [simp del]

text \<open>One colour of a pixel: cut out, moved to the top of a byte, its top bits repeated below.\<close>

definition vnc_colour :: "nat \<Rightarrow> nat \<Rightarrow> 32 word \<Rightarrow> 8 word" where
  "vnc_colour shift colour_max src_pixel =
     (let rr = remmina_plugin_vnc_bits colour_max
      in vnc_expand rr (push_bit (8 - rr) (ucast (and (drop_bit shift src_pixel) (word_of_nat colour_max)))))"

text \<open>The bytes a, r, g, b in memory, read as a number in network order.\<close>

definition argb :: "8 word \<Rightarrow> 8 word \<Rightarrow> 8 word \<Rightarrow> 8 word \<Rightarrow> 32 word" where
  "argb a r g b = word_rcat [a, r, g, b]"

definition byte_at :: "8 word list \<Rightarrow> nat \<Rightarrow> 8 word c_result" where
  "byte_at src i = (if i < length src then Ret (src ! i) else Crash)"

text \<open>The bytes of a source pixel, the first one lowest.\<close>

fun vnc_src_pixel :: "8 word list \<Rightarrow> nat \<Rightarrow> nat \<Rightarrow> nat \<Rightarrow> 32 word \<Rightarrow> 32 word c_result" where
  "vnc_src_pixel src off i 0 px = Ret px"
| "vnc_src_pixel src off i (Suc n) px =
     c_bind (byte_at src (off + i)) (\<lambda>b. vnc_src_pixel src off (Suc i) n (px + push_bit (8 * i) (ucast b)))"

definition vnc_pixel :: "rfb_format \<Rightarrow> 8 word list \<Rightarrow> nat \<Rightarrow> 32 word c_result" where
  "vnc_pixel fmt src off =
     (if pf_bits_per_pixel fmt = 32
      then c_bind (byte_at src (off + 2)) (\<lambda>r. c_bind (byte_at src (off + 1)) (\<lambda>g. c_bind (byte_at src off) (\<lambda>b.
             Ret (argb 0xff r g b))))
      else c_bind (vnc_src_pixel src off 0 (pf_bits_per_pixel fmt div 8) 0) (\<lambda>px.
             Ret (argb 0xff (vnc_colour (pf_red_shift fmt) (pf_red_max fmt) px)
                    (vnc_colour (pf_green_shift fmt) (pf_green_max fmt) px)
                    (vnc_colour (pf_blue_shift fmt) (pf_blue_max fmt) px))))"

text \<open>
  The loops over the rows and the pixels of a row. The mask runs through both; a pixel that
  is masked out is transparent. In the first branch of the code the mask is looked at before
  the source is read, in the second one the source is read in any case.
\<close>

definition vnc_mask_at :: "8 word list option \<Rightarrow> nat \<Rightarrow> bool c_result" where
  "vnc_mask_at mask_bytes i =
     (case mask_bytes of None \<Rightarrow> Ret True | Some m \<Rightarrow> c_bind (byte_at m i) (\<lambda>b. Ret (b \<noteq> 0)))"

fun vnc_fill_row :: "rfb_format \<Rightarrow> 8 word list \<Rightarrow> 8 word list option \<Rightarrow> nat \<Rightarrow> nat \<Rightarrow> nat \<Rightarrow> 32 word list c_result" where
  "vnc_fill_row fmt src mask_bytes off mi 0 = Ret []"
| "vnc_fill_row fmt src mask_bytes off mi (Suc w) =
     c_bind (vnc_mask_at mask_bytes mi) (\<lambda>shown.
     c_bind (if shown then vnc_pixel fmt src off
             else if pf_bits_per_pixel fmt = 32 then Ret 0
             else c_bind (vnc_src_pixel src off 0 (pf_bits_per_pixel fmt div 8) 0) (\<lambda>px. Ret 0)) (\<lambda>p.
     c_bind (vnc_fill_row fmt src mask_bytes (off + pf_bits_per_pixel fmt div 8) (Suc mi) w) (\<lambda>ps. Ret (p # ps))))"

fun vnc_fill_rows :: "rfb_format \<Rightarrow> 8 word list \<Rightarrow> nat \<Rightarrow> 8 word list option \<Rightarrow> nat \<Rightarrow> nat \<Rightarrow> nat \<Rightarrow> nat \<Rightarrow> 32 word list list c_result" where
  "vnc_fill_rows fmt src stride mask_bytes w off mi 0 = Ret []"
| "vnc_fill_rows fmt src stride mask_bytes w off mi (Suc h) =
     c_bind (vnc_fill_row fmt src mask_bytes off mi w) (\<lambda>r.
     c_bind (vnc_fill_rows fmt src stride mask_bytes w (off + stride) (mi + w) h) (\<lambda>rs. Ret (r # rs)))"

definition remmina_plugin_vnc_rfb_fill_buffer ::
  "rfb_format \<Rightarrow> 8 word list \<Rightarrow> nat \<Rightarrow> nat \<Rightarrow> 8 word list option \<Rightarrow> nat \<Rightarrow> nat \<Rightarrow> 32 word list list c_result" where
  "remmina_plugin_vnc_rfb_fill_buffer fmt src off src_rowstride mask_bytes w h =
     vnc_fill_rows fmt src src_rowstride mask_bytes w off 0 h"

section \<open>The surface\<close>

text \<open>The converted rows are written into the surface, a list of rows of pixels.\<close>

fun vnc_paint :: "nat \<Rightarrow> nat \<Rightarrow> 32 word list list \<Rightarrow> 32 word list list \<Rightarrow> 32 word list list c_result" where
  "vnc_paint x y [] surface = Ret surface"
| "vnc_paint x y (ps # rows) surface =
     (if y < length surface \<and> x + length ps \<le> length (surface ! y)
      then vnc_paint x (Suc y) rows
             (surface[y := take x (surface ! y) @ ps @ drop (x + length ps) (surface ! y)])
      else Crash)"

section \<open>Damage\<close>

text \<open>The handler number of the idle source, and whether the source is installed.\<close>

record vnc_damage =
  qd_rect :: rect
  qd_handler :: bool
  qd_source :: bool

definition remmina_plugin_vnc_queue_draw_area :: "rect \<Rightarrow> vnc_damage \<Rightarrow> vnc_damage" where
  "remmina_plugin_vnc_queue_draw_area r qd =
     (if qd_handler qd
      then let nx2 = rc_x r + rc_width r; ny2 = rc_y r + rc_height r;
               ox2 = rc_x (qd_rect qd) + rc_width (qd_rect qd);
               oy2 = rc_y (qd_rect qd) + rc_height (qd_rect qd);
               x = min (rc_x (qd_rect qd)) (rc_x r); y = min (rc_y (qd_rect qd)) (rc_y r)
           in qd\<lparr>qd_rect := \<lparr>rc_x = x, rc_y = y, rc_width = max ox2 nx2 - x, rc_height = max oy2 ny2 - y\<rparr>\<rparr>
      else qd\<lparr>qd_rect := r, qd_handler := True, qd_source := True\<rparr>)"

text \<open>The idle callback: the area it draws; it always removes its source.\<close>

definition remmina_plugin_vnc_queue_draw_area_real :: "bool \<Rightarrow> vnc_damage \<Rightarrow> rect option \<times> vnc_damage" where
  "remmina_plugin_vnc_queue_draw_area_real connected qd =
     (if connected then (Some (qd_rect qd), qd\<lparr>qd_handler := False, qd_source := False\<rparr>)
      else (None, qd\<lparr>qd_source := False\<rparr>))"

text \<open>\<open>None\<close> is a surface that does not exist yet; the sizes are those of the desktop and of the widget.\<close>

definition remmina_plugin_vnc_scale_area ::
  "bool \<Rightarrow> int \<Rightarrow> int \<Rightarrow> int \<Rightarrow> int \<Rightarrow> rect \<Rightarrow> rect" where
  "remmina_plugin_vnc_scale_area rgb_buffer width height aw ah r =
     (if \<not> rgb_buffer then r
      else if aw = width \<and> ah = height then r
      else let sx = min (max 0 (rc_x r * aw sdiv width - aw sdiv width - 2)) (aw - 1);
               sy = min (max 0 (rc_y r * ah sdiv height - ah sdiv height - 2)) (ah - 1);
               sw = min (aw - sx) (rc_width r * aw sdiv width + aw sdiv width + 4);
               sh = min (ah - sy) (rc_height r * ah sdiv height + ah sdiv height + 4)
           in \<lparr>rc_x = sx, rc_y = sy, rc_width = sw, rc_height = sh\<rparr>)"

text \<open>
  A frame buffer update: the changed rectangle is converted into the surface and queued for
  drawing. \<open>width\<close> is the width of the desktop, \<open>scale\<close> the size of the widget when the
  session is scaled.
\<close>

definition remmina_plugin_vnc_rfb_updatefb ::
  "rfb_format \<Rightarrow> (int \<times> int) option \<Rightarrow> nat \<Rightarrow> nat \<Rightarrow> 8 word list \<Rightarrow> nat \<Rightarrow> nat \<Rightarrow> nat \<Rightarrow> nat \<Rightarrow>
     32 word list list \<times> vnc_damage \<Rightarrow> (32 word list list \<times> vnc_damage) c_result" where
  "remmina_plugin_vnc_rfb_updatefb fmt scale width height vnc_buffer x y w h = (\<lambda>(surface, qd).
     let bytesPerPixel = pf_bits_per_pixel fmt div 8;
         r = \<lparr>rc_x = int x, rc_y = int y, rc_width = int w, rc_height = int h\<rparr>;
         r = (case scale of
                None \<Rightarrow> r
              | Some (aw, ah) \<Rightarrow> remmina_plugin_vnc_scale_area True (int width) (int height) aw ah r)
     in c_bind (if 1 \<le> w \<or> 1 \<le> h
                then c_bind (remmina_plugin_vnc_rfb_fill_buffer fmt vnc_buffer ((y * width + x) * bytesPerPixel)
                               (width * bytesPerPixel) None w h) (\<lambda>rows. vnc_paint x y rows surface)
                else Ret surface) (\<lambda>surface.
          Ret (surface, remmina_plugin_vnc_queue_draw_area r qd)))"

text \<open>The buffer and the surface for a desktop of a given size.\<close>

definition remmina_plugin_vnc_rfb_allocfb ::
  "(nat \<Rightarrow> 8 word list) \<Rightarrow> rfb_format \<Rightarrow> nat \<Rightarrow> nat \<Rightarrow> 8 word list \<times> 32 word list list" where
  "remmina_plugin_vnc_rfb_allocfb malloc fmt width height =
     (malloc (width * height * (pf_bits_per_pixel fmt div 8)), replicate height (replicate width 0))"

end
