(* ===== verification/VncScreen.thy ===== *)
theory VncScreen
  imports VncDisplay
begin

text \<open>
  Properties of the output side of the VNC plugin: colours survive the conversion, an update
  paints the pixels of its rectangle and no others and stays inside its buffers, the scaled
  area covers what changed, and everything that changed is drawn.
\<close>

section \<open>Colours\<close>

lemma vnc_bits_max: "1 \<le> k \<Longrightarrow> k \<le> 8 \<Longrightarrow> remmina_plugin_vnc_bits (2 ^ k - 1) = k"
proof -
  assume "1 \<le> k" "k \<le> 8"
  then have "k \<in> set [1 ..< 9]" by simp
  moreover have "list_all (\<lambda>k. remmina_plugin_vnc_bits (2 ^ k - 1) = k) [1 ..< 9]" by code_simp
  ultimately show ?thesis by (simp add: list_all_iff)
qed

lemma vnc_expand_top:
  "list_all (\<lambda>k. list_all (\<lambda>v. drop_bit (8 - k) (vnc_expand k (push_bit (8 - k) (word_of_nat v))) = word_of_nat v)
     [0 ..< 2 ^ k]) [1 ..< 9]"
  by code_simp

lemma vnc_expand_full: "list_all (\<lambda>k. vnc_expand k (push_bit (8 - k) (word_of_nat (2 ^ k - 1))) = 0xff) [1 ..< 9]"
  by code_simp

lemma vnc_expand_0 [simp]: "vnc_expand r 0 = 0"
  by (induction r "0 :: 8 word" rule: vnc_expand.induct) (subst vnc_expand.simps, simp)

lemma vnc_expand_keeps:
  assumes "1 \<le> k" "k \<le> 8" and "unat v < 2 ^ k"
  shows "drop_bit (8 - k) (vnc_expand k (push_bit (8 - k) v)) = v"
proof -
  from assms have "k \<in> set [1 ..< 9]" "unat v \<in> set [0 ..< 2 ^ k]" by simp_all
  with vnc_expand_top have "drop_bit (8 - k) (vnc_expand k (push_bit (8 - k) (word_of_nat (unat v)))) = word_of_nat (unat v)"
    unfolding list_all_iff by blast
  then show ?thesis by simp
qed

section \<open>Converting\<close>

definition vnc_format_ok :: "rfb_format \<Rightarrow> bool" where
  "vnc_format_ok fmt \<longleftrightarrow> pf_bits_per_pixel fmt \<in> {8, 16, 32}"

definition vnc_bpp :: "rfb_format \<Rightarrow> nat" where
  "vnc_bpp fmt = pf_bits_per_pixel fmt div 8"

lemma format_ok_colordepth:
  "vnc_format_ok (fst (remmina_plugin_vnc_update_colordepth little colordepth s))"
  by (cases s) (simp add: remmina_plugin_vnc_update_colordepth_def vnc_format_ok_def Let_def)

lemma src_pixel_total: "off + i + n \<le> length src \<Longrightarrow> \<exists>px'. vnc_src_pixel src off i n px = Ret px'"
  by (induction src off i n px rule: vnc_src_pixel.induct) (simp_all add: byte_at_def)

lemma pixel_total:
  assumes "vnc_format_ok fmt" and "off + vnc_bpp fmt \<le> length src"
  shows "\<exists>p. vnc_pixel fmt src off = Ret p"
proof (cases "pf_bits_per_pixel fmt = 32")
  case True
  then show ?thesis using assms by (simp add: vnc_pixel_def byte_at_def vnc_bpp_def)
next
  case False
  then show ?thesis
    using src_pixel_total [of off 0 "vnc_bpp fmt" src 0] assms
    by (auto simp: vnc_pixel_def vnc_bpp_def)
qed

text \<open>A row without a mask: every pixel is the one of the source.\<close>

lemma fill_row_pixels:
  assumes "vnc_format_ok fmt" and "off + w * vnc_bpp fmt \<le> length src"
  shows "\<exists>ps. vnc_fill_row fmt src None off mi w = Ret ps \<and> length ps = w \<and>
    (\<forall>i<w. vnc_pixel fmt src (off + i * vnc_bpp fmt) = Ret (ps ! i))"
  using assms
proof (induction w arbitrary: off mi)
  case (Suc w)
  obtain p where p: "vnc_pixel fmt src off = Ret p" using pixel_total [of fmt off src] Suc.prems by auto
  obtain ps where ps: "vnc_fill_row fmt src None (off + vnc_bpp fmt) (Suc mi) w = Ret ps" "length ps = w"
    "\<forall>i<w. vnc_pixel fmt src (off + vnc_bpp fmt + i * vnc_bpp fmt) = Ret (ps ! i)"
    using Suc.IH [of "off + vnc_bpp fmt" "Suc mi"] Suc.prems by (auto simp: algebra_simps)
  have "vnc_fill_row fmt src None off mi (Suc w) = Ret (p # ps)"
    using p ps(1) by (simp add: vnc_mask_at_def vnc_bpp_def)
  moreover have "vnc_pixel fmt src (off + i * vnc_bpp fmt) = Ret ((p # ps) ! i)" if "i < Suc w" for i
    using that p ps(3) by (cases i) (simp_all add: algebra_simps)
  ultimately show ?case using ps(2) by auto
qed simp

lemma fill_rows_pixels:
  assumes "vnc_format_ok fmt" and "h = 0 \<or> off + (h - 1) * stride + w * vnc_bpp fmt \<le> length src"
  shows "\<exists>rows. vnc_fill_rows fmt src stride None w off mi h = Ret rows \<and> length rows = h \<and>
    (\<forall>j<h. length (rows ! j) = w \<and>
       (\<forall>i<w. vnc_pixel fmt src (off + j * stride + i * vnc_bpp fmt) = Ret (rows ! j ! i)))"
  using assms(2)
proof (induction h arbitrary: off mi)
  case (Suc h)
  obtain r where r: "vnc_fill_row fmt src None off mi w = Ret r" "length r = w"
    "\<forall>i<w. vnc_pixel fmt src (off + i * vnc_bpp fmt) = Ret (r ! i)"
    using fill_row_pixels [OF assms(1), of off w src mi] Suc.prems by auto
  have "h = 0 \<or> off + stride + (h - 1) * stride + w * vnc_bpp fmt \<le> length src"
    using Suc.prems by (cases h) (auto simp: algebra_simps)
  from Suc.IH [OF this, of "mi + w"] obtain rs where
    rs: "vnc_fill_rows fmt src stride None w (off + stride) (mi + w) h = Ret rs" "length rs = h"
    "\<forall>j<h. length (rs ! j) = w \<and>
       (\<forall>i<w. vnc_pixel fmt src (off + stride + j * stride + i * vnc_bpp fmt) = Ret (rs ! j ! i))" by auto
  have "length ((r # rs) ! j) = w \<and>
      (\<forall>i<w. vnc_pixel fmt src (off + j * stride + i * vnc_bpp fmt) = Ret ((r # rs) ! j ! i))" if "j < Suc h" for j
    using that r rs(3) by (cases j) (simp_all add: algebra_simps)
  then show ?case using r(1) rs(1,2) by auto
qed simp

section \<open>Painting\<close>

definition surface_ok :: "nat \<Rightarrow> nat \<Rightarrow> 32 word list list \<Rightarrow> bool" where
  "surface_ok width height surface \<longleftrightarrow> length surface = height \<and> (\<forall>row \<in> set surface. length row = width)"

lemma surface_ok_row: "surface_ok width height surface \<Longrightarrow> j < height \<Longrightarrow> length (surface ! j) = width"
  by (simp add: surface_ok_def)

lemma paint_pixels:
  assumes "surface_ok width height surface" and "y + length rows \<le> height" and "x + w \<le> width"
    and "\<forall>r \<in> set rows. length r = w"
  shows "\<exists>s. vnc_paint x y rows surface = Ret s \<and> surface_ok width height s \<and>
    (\<forall>j<height. \<forall>i<width. s ! j ! i =
       (if x \<le> i \<and> i < x + w \<and> y \<le> j \<and> j < y + length rows then rows ! (j - y) ! (i - x) else surface ! j ! i))"
  using assms
proof (induction rows arbitrary: y surface)
  case (Cons ps rows)
  let ?row = "take x (surface ! y) @ ps @ drop (x + length ps) (surface ! y)"
  have y: "y < height" and len: "length ps = w" "length (surface ! y) = width"
    using Cons.prems surface_ok_row by auto
  have row: "length ?row = width" using Cons.prems(3) len by simp
  then have ok: "surface_ok width height (surface[y := ?row])"
    using Cons.prems(1) set_update_subset_insert [of surface y ?row] by (auto simp: surface_ok_def)
  have at: "?row ! i = (if x \<le> i \<and> i < x + w then ps ! (i - x) else surface ! y ! i)" if "i < width" for i
    using that Cons.prems(3) len by (auto simp: nth_append)
  have "Suc y + length rows \<le> height" and lens: "\<forall>r \<in> set rows. length r = w" using Cons.prems by simp_all
  from Cons.IH [OF ok this(1) Cons.prems(3) lens]
  obtain s where s: "vnc_paint x (Suc y) rows (surface[y := ?row]) = Ret s" "surface_ok width height s"
    "\<forall>j<height. \<forall>i<width. s ! j ! i =
       (if x \<le> i \<and> i < x + w \<and> Suc y \<le> j \<and> j < Suc y + length rows then rows ! (j - Suc y) ! (i - x)
        else surface[y := ?row] ! j ! i)"
    by blast
  have hit: "vnc_paint x y (ps # rows) surface = Ret s"
    using s(1) y len Cons.prems by (simp add: surface_ok_def)
  have "s ! j ! i = (if x \<le> i \<and> i < x + w \<and> y \<le> j \<and> j < y + length (ps # rows)
      then (ps # rows) ! (j - y) ! (i - x) else surface ! j ! i)" if ij: "j < height" "i < width" for j i
  proof (cases "j = y")
    case True
    then have "s ! j ! i = ?row ! i" using s(3) ij y Cons.prems(1) by (simp add: surface_ok_def)
    then show ?thesis using at [OF ij(2)] True by simp
  next
    case False
    then consider "j < y" | k where "j = Suc (y + k)" using less_imp_Suc_add [of y j] by fastforce
    then show ?thesis using s(3) ij by cases simp_all
  qed
  with hit s(2) show ?case by blast
qed auto

section \<open>The area that is drawn\<close>

lemma queue_draw_area_union:
  "remmina_plugin_vnc_queue_draw_area r qd =
     (if qd_handler qd then qd\<lparr>qd_rect := gdk_rectangle_union (qd_rect qd) r\<rparr>
      else qd\<lparr>qd_rect := r, qd_handler := True, qd_source := True\<rparr>)"
  by (simp add: remmina_plugin_vnc_queue_draw_area_def gdk_rectangle_union_def Let_def)

text \<open>What happens to the damage: a rectangle is queued, or the main loop runs its idle source.\<close>

datatype vnc_draw = Draw_queue rect | Draw_idle

fun vnc_draws :: "vnc_draw list \<Rightarrow> vnc_damage \<Rightarrow> rect list \<times> vnc_damage" where
  "vnc_draws [] qd = ([], qd)"
| "vnc_draws (Draw_queue r # ds) qd = vnc_draws ds (remmina_plugin_vnc_queue_draw_area r qd)"
| "vnc_draws (Draw_idle # ds) qd =
     (if qd_source qd
      then let (drawn, qd) = remmina_plugin_vnc_queue_draw_area_real True qd; (rs, qd) = vnc_draws ds qd
           in (case drawn of None \<Rightarrow> rs | Some r \<Rightarrow> r # rs, qd)
      else vnc_draws ds qd)"

definition damage_ok :: "vnc_damage \<Rightarrow> bool" where
  "damage_ok qd \<longleftrightarrow> qd_source qd = qd_handler qd"

lemma damage_ok_queue: "damage_ok qd \<Longrightarrow> damage_ok (remmina_plugin_vnc_queue_draw_area r qd)"
  by (simp add: queue_draw_area_union damage_ok_def)

lemma draws_append:
  "vnc_draws (xs @ ys) qd = (fst (vnc_draws xs qd) @ fst (vnc_draws ys (snd (vnc_draws xs qd))), snd (vnc_draws ys (snd (vnc_draws xs qd))))"
  by (induction xs qd rule: vnc_draws.induct)
    (simp_all add: remmina_plugin_vnc_queue_draw_area_real_def split_def Let_def)

lemma draws_ok: "damage_ok qd \<Longrightarrow> damage_ok (snd (vnc_draws ds qd))"
  by (induction ds qd rule: vnc_draws.induct)
    (simp_all add: damage_ok_queue remmina_plugin_vnc_queue_draw_area_real_def damage_ok_def split_def Let_def
      queue_draw_area_union)

text \<open>What is pending stays in the pending area until it is drawn.\<close>

lemma draws_pending:
  "damage_ok qd \<Longrightarrow> qd_handler qd \<Longrightarrow> rect_in r (qd_rect qd) \<Longrightarrow> vnc_draws ds qd = (drawn, qd') \<Longrightarrow>
     (\<exists>d \<in> set drawn. rect_in r d) \<or> qd_handler qd' \<and> rect_in r (qd_rect qd')"
proof (induction ds qd arbitrary: drawn qd' rule: vnc_draws.induct)
  case (2 r' ds qd)
  have "rect_in r (qd_rect (remmina_plugin_vnc_queue_draw_area r' qd))"
    using 2(3,4) rect_in_trans [OF _ union_in1] by (simp add: queue_draw_area_union)
  then show ?case
    using 2 damage_ok_queue [of qd r'] by (simp add: queue_draw_area_union)
next
  case (3 ds qd)
  then show ?case
    by (auto simp: damage_ok_def remmina_plugin_vnc_queue_draw_area_real_def split_def Let_def)
qed simp

section \<open>Properties\<close>

text \<open>
  A frame buffer update shows what the server sent: it stays inside the buffer and the
  surface, every pixel of the changed rectangle becomes the converted pixel of the frame
  buffer at the same place, and no other pixel of the surface changes. This holds for every
  pixel format the plugin asks for and every rectangle on the desktop.
\<close>

theorem vnc_update_paints:
  assumes "vnc_format_ok fmt" and "length vnc_buffer = width * height * vnc_bpp fmt"
    and "surface_ok width height surface" and "x + w \<le> width" and "y + h \<le> height"
  shows "\<exists>s. remmina_plugin_vnc_rfb_updatefb fmt scale width height vnc_buffer x y w h (surface, qd) =
       Ret (s, remmina_plugin_vnc_queue_draw_area
         (case scale of None \<Rightarrow> \<lparr>rc_x = int x, rc_y = int y, rc_width = int w, rc_height = int h\<rparr>
          | Some (aw, ah) \<Rightarrow> remmina_plugin_vnc_scale_area True (int width) (int height) aw ah
              \<lparr>rc_x = int x, rc_y = int y, rc_width = int w, rc_height = int h\<rparr>) qd) \<and>
     surface_ok width height s \<and>
     (\<forall>j<height. \<forall>i<width.
        if x \<le> i \<and> i < x + w \<and> y \<le> j \<and> j < y + h
        then vnc_pixel fmt vnc_buffer ((j * width + i) * vnc_bpp fmt) = Ret (s ! j ! i)
        else s ! j ! i = surface ! j ! i)"
proof -
  let ?off = "(y * width + x) * vnc_bpp fmt"
  have "?off + (h - 1) * (width * vnc_bpp fmt) + w * vnc_bpp fmt \<le> length vnc_buffer" if "h \<noteq> 0"
  proof -
    have "?off + (h - 1) * (width * vnc_bpp fmt) + w * vnc_bpp fmt = ((y + (h - 1)) * width + (x + w)) * vnc_bpp fmt"
      by (simp add: algebra_simps)
    also have "\<dots> \<le> ((y + (h - 1)) * width + width) * vnc_bpp fmt" using assms(4) by (intro mult_le_mono1) simp
    also have "\<dots> = (y + h) * width * vnc_bpp fmt" using that by (cases h) (simp_all add: algebra_simps)
    also have "\<dots> \<le> height * width * vnc_bpp fmt" using assms(5) by (intro mult_le_mono1)
    finally show ?thesis using assms(2) by (simp add: mult.commute)
  qed
  then have "h = 0 \<or> ?off + (h - 1) * (width * vnc_bpp fmt) + w * vnc_bpp fmt \<le> length vnc_buffer" by blast
  from fill_rows_pixels [OF assms(1) this, of 0]
  obtain rows where rows: "vnc_fill_rows fmt vnc_buffer (width * vnc_bpp fmt) None w ?off 0 h = Ret rows"
    "length rows = h"
    "\<forall>j<h. length (rows ! j) = w \<and> (\<forall>i<w. vnc_pixel fmt vnc_buffer (?off + j * (width * vnc_bpp fmt) + i * vnc_bpp fmt) = Ret (rows ! j ! i))"
    by blast
  have lens: "\<forall>r \<in> set rows. length r = w" using rows(2,3) by (auto simp: in_set_conv_nth)
  from paint_pixels [OF assms(3) _ assms(4) lens, of y] rows(2) assms(5)
  obtain s where s: "vnc_paint x y rows surface = Ret s" "surface_ok width height s"
    "\<forall>j<height. \<forall>i<width. s ! j ! i =
       (if x \<le> i \<and> i < x + w \<and> y \<le> j \<and> j < y + length rows then rows ! (j - y) ! (i - x) else surface ! j ! i)"
    by blast
  have "vnc_pixel fmt vnc_buffer ((j * width + i) * vnc_bpp fmt) = Ret (s ! j ! i)"
    if "x \<le> i" "i < x + w" "y \<le> j" "j < y + h" for i j
  proof -
    obtain a where a: "i = x + a" using \<open>x \<le> i\<close> le_Suc_ex by blast
    obtain b where b: "j = y + b" using \<open>y \<le> j\<close> le_Suc_ex by blast
    note ab = a b
    with that rows(3) have "vnc_pixel fmt vnc_buffer (?off + b * (width * vnc_bpp fmt) + a * vnc_bpp fmt) = Ret (rows ! b ! a)"
      by simp
    moreover have "?off + b * (width * vnc_bpp fmt) + a * vnc_bpp fmt = (j * width + i) * vnc_bpp fmt"
      by (simp add: ab algebra_simps)
    ultimately show ?thesis using s(3) that ab assms(4,5) rows(2) by simp
  qed
  moreover have "s = surface" if "\<not> (1 \<le> w \<or> 1 \<le> h)"
    using that rows(2) s(1) by (cases rows) simp_all
  ultimately show ?thesis
    using rows(1,2) s
    by (auto simp: remmina_plugin_vnc_rfb_updatefb_def remmina_plugin_vnc_rfb_fill_buffer_def Let_def vnc_bpp_def)
qed

definition vnc_sample_format :: rfb_format where
  "vnc_sample_format = \<lparr>pf_depth = 15, pf_bits_per_pixel = 16, pf_big_endian = False, pf_true_colour = True,
     pf_red_max = 31, pf_green_max = 31, pf_blue_max = 31, pf_red_shift = 11, pf_green_shift = 6, pf_blue_shift = 1\<rparr>"

theorem vnc_update_paints_witness:
  "\<exists>s. remmina_plugin_vnc_rfb_updatefb vnc_sample_format None 2 1 [0, 0, 0xfe, 0xff] 1 0 1 1
      ([[0, 0]], \<lparr>qd_rect = \<lparr>rc_x = 0, rc_y = 0, rc_width = 0, rc_height = 0\<rparr>, qd_handler = False, qd_source = False\<rparr>) =
    Ret (s, \<lparr>qd_rect = \<lparr>rc_x = 1, rc_y = 0, rc_width = 1, rc_height = 1\<rparr>, qd_handler = True, qd_source = True\<rparr>)
    \<and> surface_ok 2 1 s"
  using vnc_update_paints [of vnc_sample_format "[0, 0, 0xfe, 0xff]" 2 1 "[[0, 0]]" 1 1 0 1 None
      "\<lparr>qd_rect = \<lparr>rc_x = 0, rc_y = 0, rc_width = 0, rc_height = 0\<rparr>, qd_handler = False, qd_source = False\<rparr>"]
  by (auto simp: vnc_format_ok_def vnc_sample_format_def vnc_bpp_def surface_ok_def queue_draw_area_union)

text \<open>
  Converting a colour keeps it: for a colour of one to eight bits the byte that is shown
  has the value the server sent in its top bits, black stays 0 and the full colour becomes
  255, wherever the colour lies in the pixel.
\<close>

theorem vnc_colour_keeps_value:
  fixes px :: "32 word" and shift :: nat
  assumes "1 \<le> k" and "k \<le> 8"
  defines "v \<equiv> and (drop_bit shift px) (mask k)"
  shows "ucast (drop_bit (8 - k) (vnc_colour shift (2 ^ k - 1) px)) = v \<and>
    (v = 0 \<longrightarrow> vnc_colour shift (2 ^ k - 1) px = 0) \<and> (v = mask k \<longrightarrow> vnc_colour shift (2 ^ k - 1) px = 0xff)"
proof -
  let ?c = "ucast v :: 8 word"
  have m: "word_of_nat (2 ^ k - 1) = (mask k :: 32 word)"
    by (simp add: mask_eq_exp_minus_1 of_nat_diff)
  have c: "vnc_colour shift (2 ^ k - 1) px = vnc_expand k (push_bit (8 - k) ?c)"
    by (simp only: vnc_colour_def vnc_bits_max [OF assms(1,2)] Let_def m v_def)
  have "unat v < 2 ^ k"
    by (simp add: v_def unsigned_take_bit_eq flip: take_bit_eq_mask)
  moreover from this have "unat v < 2 ^ 8"
    using assms(2) power_increasing [of k 8 "2 :: nat"] by simp
  then have low: "unat ?c = unat v" by (simp add: unsigned_ucast_eq take_bit_nat_eq_self)
  ultimately have u: "unat ?c < 2 ^ k" by simp
  have "unat (ucast ?c :: 32 word) = unat v" using low \<open>unat v < 2 ^ 8\<close>
    by (simp add: unsigned_ucast_eq unsigned_take_bit_eq take_bit_nat_eq_self)
  then have vv: "ucast ?c = v" by (simp only: word_unat_eq_iff)
  have "(word_of_nat (2 ^ k - 1) :: 8 word) = mask k" by (simp add: mask_eq_exp_minus_1 of_nat_diff)
  also have "\<dots> = ucast (mask k :: 32 word)" by (rule bit_eqI) (auto simp: bit_simps)
  finally have m8: "(word_of_nat (2 ^ k - 1) :: 8 word) = ucast (mask k :: 32 word)" .
  have "k \<in> set [1 ..< 9]" using assms(1,2) by simp
  then have full: "vnc_expand k (push_bit (8 - k) (ucast (mask k :: 32 word))) = 0xff"
    using vnc_expand_full unfolding list_all_iff m8 [symmetric] by blast
  show ?thesis
    unfolding c vnc_expand_keeps [OF assms(1,2) u] vv using full by auto
qed

theorem vnc_colour_keeps_value_witness:
  "ucast (drop_bit 3 (vnc_colour 6 31 (0x0540 :: 32 word))) = (21 :: 32 word)"
  using vnc_colour_keeps_value [of 5 6 "0x0540"] by (simp add: mask_eq_exp_minus_1)

text \<open>
  Everything that changed is drawn: a rectangle that is queued lies inside an area the
  idle callback draws afterwards, or it lies in the pending area and the idle callback is
  still installed; whatever else is queued before, between and after.
\<close>

theorem vnc_damage_drawn:
  assumes "damage_ok qd"
  shows "case vnc_draws ds (remmina_plugin_vnc_queue_draw_area r (snd (vnc_draws before qd))) of
     (drawn, qd') \<Rightarrow> list_ex (rect_in r) drawn \<or> qd_source qd' \<and> rect_in r (qd_rect qd')"
proof -
  let ?qd = "remmina_plugin_vnc_queue_draw_area r (snd (vnc_draws before qd))"
  have ok: "damage_ok ?qd" by (intro damage_ok_queue draws_ok assms)
  have "qd_handler ?qd" "rect_in r (qd_rect ?qd)" by (simp_all add: queue_draw_area_union union_in2)
  moreover obtain drawn qd' where d: "vnc_draws ds ?qd = (drawn, qd')" by force
  moreover have "damage_ok qd'" using draws_ok [OF ok, of ds] d by simp
  ultimately show ?thesis
    using draws_pending [OF ok _ _ d] by (auto simp: list_ex_iff damage_ok_def)
qed

theorem vnc_damage_drawn_witness:
  "list_ex (rect_in \<lparr>rc_x = 0, rc_y = 0, rc_width = 4, rc_height = 4\<rparr>)
     (fst (vnc_draws [Draw_queue \<lparr>rc_x = 8, rc_y = 0, rc_width = 2, rc_height = 9\<rparr>, Draw_idle]
       (remmina_plugin_vnc_queue_draw_area \<lparr>rc_x = 0, rc_y = 0, rc_width = 4, rc_height = 4\<rparr>
         (snd (vnc_draws [] \<lparr>qd_rect = \<lparr>rc_x = 0, rc_y = 0, rc_width = 0, rc_height = 0\<rparr>,
                            qd_handler = False, qd_source = False\<rparr>)))))"
  using vnc_damage_drawn [of "\<lparr>qd_rect = \<lparr>rc_x = 0, rc_y = 0, rc_width = 0, rc_height = 0\<rparr>,
                            qd_handler = False, qd_source = False\<rparr>"
      "\<lparr>rc_x = 0, rc_y = 0, rc_width = 4, rc_height = 4\<rparr>"
      "[Draw_queue \<lparr>rc_x = 8, rc_y = 0, rc_width = 2, rc_height = 9\<rparr>, Draw_idle]" "[]"]
  by (simp add: damage_ok_def queue_draw_area_union remmina_plugin_vnc_queue_draw_area_real_def)

text \<open>
  The area that is redrawn after scaling lies inside the widget and leaves no gap: it
  covers the exact image of the rectangle that changed, whose edges need not fall on pixels
  of the widget.
\<close>

theorem vnc_scale_area_covers:
  fixes r :: rect
  assumes "0 < width" "0 < height" "0 < aw" "0 < ah"
    and "0 \<le> rc_x r" "0 \<le> rc_width r" "rc_x r + rc_width r \<le> width"
    and "0 \<le> rc_y r" "0 \<le> rc_height r" "rc_y r + rc_height r \<le> height"
  defines "s \<equiv> remmina_plugin_vnc_scale_area True width height aw ah r"
  shows "rect_in s \<lparr>rc_x = 0, rc_y = 0, rc_width = aw, rc_height = ah\<rparr> \<and>
    rc_x s * width \<le> rc_x r * aw \<and> (rc_x r + rc_width r) * aw \<le> (rc_x s + rc_width s) * width \<and>
    rc_y s * height \<le> rc_y r * ah \<and> (rc_y r + rc_height r) * ah \<le> (rc_y s + rc_height s) * height"
proof -
  have sx: "rc_x s = scaled_start aw width (rc_x r)" "rc_width s = scaled_length aw width (rc_x r) (rc_width r)"
    and sy: "rc_y s = scaled_start ah height (rc_y r)" "rc_height s = scaled_length ah height (rc_y r) (rc_height r)"
    if "\<not> (aw = width \<and> ah = height)"
    by (simp_all add: s_def remmina_plugin_vnc_scale_area_def scaled_start_def scaled_length_def Let_def if_not_P [OF that])
  show ?thesis
  proof (cases "aw = width \<and> ah = height")
    case True
    then show ?thesis
      using assms by (simp add: s_def remmina_plugin_vnc_scale_area_def rect_in_def mult.commute)
  next
    case False
    then show ?thesis
      using scaled_covers [OF assms(1,3,5,6,7)] scaled_covers [OF assms(2,4,8,9,10)]
      by (simp add: rect_in_def sx sy)
  qed
qed

theorem vnc_scale_area_covers_witness:
  "rect_in (remmina_plugin_vnc_scale_area True 800 600 400 300 \<lparr>rc_x = 101, rc_y = 7, rc_width = 13, rc_height = 1\<rparr>)
     \<lparr>rc_x = 0, rc_y = 0, rc_width = 400, rc_height = 300\<rparr>"
  using vnc_scale_area_covers [of 800 600 400 300 "\<lparr>rc_x = 101, rc_y = 7, rc_width = 13, rc_height = 1\<rparr>"] by simp

end
