(* ===== verification/VncAuth.thy ===== *)
theory VncAuth
  imports VncDisplay Public
begin

text \<open>
  Connecting a VNC session (\<open>plugins/vnc/vnc_plugin.c\<close>): the callbacks that hand out the
  password and the credentials, the address of the server, and the loop that tries again
  with other credentials. What LibVNCClient does in one attempt - what it asks for, whether
  it succeeds with what it was given, the error text it leaves - is an argument, and so are
  the answers of the user.
\<close>

section \<open>The panels that ask the user\<close>

text \<open>An answer: \<open>None\<close> is any response but OK.\<close>

record auth_answer =
  an_username :: cstr
  an_password :: cstr
  an_save :: bool

record x509_files =
  x5_cacert :: cstr
  x5_cacrl :: cstr
  x5_clientcert :: cstr
  x5_clientkey :: cstr

record vnc_auth =
  vu_connected :: bool
  vu_auth_called :: bool
  vu_auth_first :: bool
  vu_running :: bool

section \<open>The callbacks\<close>

definition remmina_plugin_vnc_rfb_password ::
  "auth_answer option \<Rightarrow> rfile \<times> vnc_auth \<Rightarrow> cstr \<times> rfile \<times> vnc_auth" where
  "remmina_plugin_vnc_rfb_password answer = (\<lambda>(rf, vu).
     let vu = vu\<lparr>vu_auth_called := True\<rparr>;
         pwd = (if vu_auth_first vu then remmina_file_get_string rf ''password'' else None)
     in if pwd \<noteq> None then (pwd, rf, vu)
        else case answer of
               None \<Rightarrow> (None, rf, vu\<lparr>vu_connected := False\<rparr>)
             | Some a \<Rightarrow>
                 (an_password a,
                  remmina_file_set_string rf ''password'' (if an_save a then an_password a else None), vu))"

datatype rfb_credential = Cred_user cstr cstr | Cred_x509 x509_files

datatype credential_type = Credential_user | Credential_x509 | Credential_other

text \<open>The answers of the two panels are both arguments; each case uses its own.\<close>

definition remmina_plugin_vnc_rfb_credential ::
  "credential_type \<Rightarrow> auth_answer option \<Rightarrow> x509_files option \<Rightarrow> rfile \<times> vnc_auth \<Rightarrow>
     rfb_credential option \<times> rfile \<times> vnc_auth" where
  "remmina_plugin_vnc_rfb_credential type answer files = (\<lambda>(rf, vu).
     let vu = vu\<lparr>vu_auth_called := True\<rparr>
     in case type of
          Credential_user \<Rightarrow>
            (let s1 = remmina_file_get_string rf ''username''; s2 = remmina_file_get_string rf ''password''
             in if vu_auth_first vu \<and> s1 \<noteq> None \<and> s2 \<noteq> None then (Some (Cred_user s1 s2), rf, vu)
                else case answer of
                       None \<Rightarrow> (None, rf, vu\<lparr>vu_connected := False\<rparr>)
                     | Some a \<Rightarrow>
                         (Some (Cred_user (an_username a) (an_password a)),
                          (let rf = remmina_file_set_string rf ''username'' (if an_save a then an_username a else None)
                           in remmina_file_set_string rf ''password'' (if an_save a then an_password a else None)),
                          vu))
        | Credential_x509 \<Rightarrow>
            (if vu_auth_first vu \<and> remmina_file_get_string rf ''cacert'' \<noteq> None
             then (Some (Cred_x509 \<lparr>x5_cacert = remmina_file_get_string rf ''cacert'',
                     x5_cacrl = remmina_file_get_string rf ''cacrl'',
                     x5_clientcert = remmina_file_get_string rf ''clientcert'',
                     x5_clientkey = remmina_file_get_string rf ''clientkey''\<rparr>), rf, vu)
             else case files of
                    None \<Rightarrow> (None, rf, vu\<lparr>vu_connected := False\<rparr>)
                  | Some x \<Rightarrow> (Some (Cred_x509 x), rf, vu))
        | Credential_other \<Rightarrow> (None, rf, vu))"

section \<open>The address\<close>

record rfb_address =
  ra_server_host :: cstr
  ra_server_port :: gint
  ra_listen_port :: "gint option"
  ra_dest_host :: cstr
  ra_dest_port :: gint

definition VNC_DEFAULT_PORT :: gint where "VNC_DEFAULT_PORT = 5900"

text \<open>The server behind the tunnel; an empty host means that the server connects to us.\<close>

definition vnc_server_address ::
  "(string \<Rightarrow> gint \<Rightarrow> (string \<times> gint) option) \<Rightarrow> rfile \<Rightarrow> string \<Rightarrow> rfb_address \<Rightarrow> rfb_address" where
  "vnc_server_address parse rf host ra =
     (if host = []
      then ra\<lparr>ra_server_host := Some host,
              ra_listen_port := Some (if remmina_file_get_int rf ''ssh_tunnel_enabled'' 0 \<noteq> 0 then 5500
                                      else remmina_file_get_int rf ''listenport'' 5500)\<rparr>
      else if prefix ''unix://'' host
      then ra\<lparr>ra_server_host := Some (drop 7 host), ra_server_port := 0\<rparr>
      else let (s, port) = remmina_public_get_server_port parse (Some host) VNC_DEFAULT_PORT (ra_server_port ra)
           in ra\<lparr>ra_server_host := s,
                 ra_server_port := (if sint port < 100 then port + VNC_DEFAULT_PORT else port)\<rparr>)"

text \<open>With a proxy, the server of the profile is the destination behind it.\<close>

definition vnc_proxy_address ::
  "(string \<Rightarrow> gint \<Rightarrow> (string \<times> gint) option) \<Rightarrow> rfile \<Rightarrow> rfb_address \<Rightarrow> rfb_address" where
  "vnc_proxy_address parse rf ra =
     (case ra_server_host ra of
        None \<Rightarrow> ra
      | Some sh \<Rightarrow>
          if \<not> prefix ''unix://'' sh \<and> remmina_file_get_string rf ''proxy'' \<noteq> None
          then let (dh, dp) = remmina_public_get_server_port parse (remmina_file_get_string rf ''server'')
                     VNC_DEFAULT_PORT (ra_dest_port ra);
                   (h, p) = remmina_public_get_server_port parse (remmina_file_get_string rf ''proxy'')
                     VNC_DEFAULT_PORT (ra_server_port ra)
               in ra\<lparr>ra_dest_host := dh, ra_dest_port := dp, ra_server_host := h, ra_server_port := p\<rparr>
          else ra)"

section \<open>The attempts\<close>

text \<open>What the library asks for in an attempt.\<close>

datatype auth_request = Ask_nothing | Ask_password | Ask_credential credential_type

datatype auth_offer = Offer_nothing | Offer_password cstr | Offer_credential "rfb_credential option"

text \<open>
  One attempt: the host the tunnel gives, what is asked for, the user's answers, whether the
  offer is accepted, and the error text when it is not.
\<close>

record vnc_attempt =
  at_host :: cstr
  at_request :: auth_request
  at_answer :: "auth_answer option"
  at_files :: "x509_files option"
  at_accepts :: "auth_offer \<Rightarrow> bool"
  at_error :: string

definition vnc_offer :: "vnc_attempt \<Rightarrow> rfile \<times> vnc_auth \<Rightarrow> auth_offer \<times> rfile \<times> vnc_auth" where
  "vnc_offer at s =
     (case at_request at of
        Ask_nothing \<Rightarrow> (Offer_nothing, s)
      | Ask_password \<Rightarrow>
          (let (pwd, s) = remmina_plugin_vnc_rfb_password (at_answer at) s in (Offer_password pwd, s))
      | Ask_credential type \<Rightarrow>
          (let (c, s) = remmina_plugin_vnc_rfb_credential type (at_answer at) (at_files at) s
           in (Offer_credential c, s)))"

definition vnc_network_error :: "string \<Rightarrow> bool" where
  "vnc_network_error vnc_error \<longleftrightarrow>
     strstr vnc_error ''read ('' \<noteq> None \<or> strstr vnc_error (''select'' @ [CHR 0x0A]) \<noteq> None \<or>
     strstr vnc_error (''write'' @ [CHR 0x0A]) \<noteq> None \<or> strstr vnc_error ''Connection timed out'' \<noteq> None"

text \<open>After a failed attempt: whether the loop goes on.\<close>

definition vnc_after_failure :: "string \<Rightarrow> rfile \<times> vnc_auth \<Rightarrow> bool \<times> rfile \<times> vnc_auth" where
  "vnc_after_failure vnc_error = (\<lambda>(rf, vu).
     if \<not> vu_auth_called vu then (False, rf, vu\<lparr>vu_connected := False\<rparr>)
     else if strstr vnc_error ''The server is already in use'' \<noteq> None
     then (False, rf, vu\<lparr>vu_connected := False, vu_auth_called := False\<rparr>)
     else if vnc_network_error vnc_error
     then (False, rf, vu\<lparr>vu_connected := False, vu_auth_called := False\<rparr>)
     else let rf = remmina_file_set_string rf ''password'' None
          in if \<not> vu_connected vu then (False, rf, vu)
             else (True, rf, vu\<lparr>vu_auth_first := False\<rparr>))"

text \<open>
  The loop over the attempts, with the offers made to the server. The list holds the attempts
  the user and the network still allow; at its end the loop has not come to a decision.
\<close>

datatype vnc_result = Vnc_connected | Vnc_failed string | Vnc_trying

fun vnc_attempts :: "vnc_attempt list \<Rightarrow> rfile \<times> vnc_auth \<Rightarrow> auth_offer list \<times> vnc_result \<times> rfile \<times> vnc_auth" where
  "vnc_attempts [] s = ([], Vnc_trying, s)"
| "vnc_attempts (at # ats) (rf, vu) =
     (if \<not> vu_connected vu then ([], Vnc_failed [], rf, vu)
      else let vu = vu\<lparr>vu_auth_called := False\<rparr>
      in if at_host at = None then ([], Vnc_failed [], rf, vu\<lparr>vu_connected := False\<rparr>)
      else let (offer, s) = vnc_offer at (rf, vu)
      in if at_accepts at offer then ([offer], Vnc_connected, s)
      else let (again, s) = vnc_after_failure (at_error at) s
      in if again then (let (offers, r) = vnc_attempts ats s in (offer # offers, r))
         else ([offer], Vnc_failed (at_error at), s))"

text \<open>The end of the thread: the error it shows, when the session did not connect.\<close>

definition vnc_main_end :: "bool \<Rightarrow> string \<Rightarrow> rfile \<times> vnc_auth \<Rightarrow> cstr \<times> vnc_auth" where
  "vnc_main_end has_error vnc_error = (\<lambda>(rf, vu).
     if vu_connected vu then (None, vu)
     else (if \<not> vu_auth_called vu \<and> \<not> has_error \<and> remmina_file_get_int rf ''closeonfailure'' 0 = 0
           then Some vnc_error else None,
           vu\<lparr>vu_running := False\<rparr>))"

section \<open>Facts\<close>

text \<open>An offer that was not read from the profile was typed in by the user.\<close>

definition typed_in :: "vnc_attempt \<Rightarrow> auth_offer \<Rightarrow> bool" where
  "typed_in at offer \<longleftrightarrow>
     (case offer of
        Offer_nothing \<Rightarrow> True
      | Offer_password p \<Rightarrow> p = Option.bind (at_answer at) an_password
      | Offer_credential c \<Rightarrow>
          c = None \<or> (\<exists>a. at_answer at = Some a \<and> c = Some (Cred_user (an_username a) (an_password a))) \<or>
          (\<exists>x. at_files at = Some x \<and> c = Some (Cred_x509 x)))"

lemma offer_typed:
  "\<not> vu_auth_first vu \<Longrightarrow> vnc_offer at (rf, vu) = (offer, rf', vu') \<Longrightarrow> typed_in at offer \<and> \<not> vu_auth_first vu'"
  by (auto simp: vnc_offer_def typed_in_def remmina_plugin_vnc_rfb_password_def remmina_plugin_vnc_rfb_credential_def
      Let_def split: auth_request.splits option.splits credential_type.splits)

lemma after_failure_again:
  "vnc_after_failure e (rf, vu) = (True, rf', vu') \<Longrightarrow>
     \<not> vu_auth_first vu' \<and> rf' = remmina_file_set_string rf ''password'' None"
  by (auto simp: vnc_after_failure_def Let_def split: if_splits)

lemma attempts_typed:
  "\<not> vu_auth_first vu \<Longrightarrow> vnc_attempts ats (rf, vu) = (offers, r) \<Longrightarrow>
     length offers \<le> length ats \<and> list_all2 typed_in (take (length offers) ats) offers"
proof (induction ats arbitrary: rf vu offers r)
  case (Cons at ats)
  show ?case
  proof (cases "vu_connected vu \<and> at_host at \<noteq> None")
    case True
    obtain offer rf1 vu1 where o: "vnc_offer at (rf, vu\<lparr>vu_auth_called := False\<rparr>) = (offer, rf1, vu1)"
      by (metis prod_cases3)
    obtain go rf2 vu2 where a: "vnc_after_failure (at_error at) (rf1, vu1) = (go, rf2, vu2)"
      by (metis prod_cases3)
    obtain os r' where rest: "vnc_attempts ats (rf2, vu2) = (os, r')" by (metis surj_pair)
    have t: "typed_in at offer" using offer_typed [OF _ o] Cons.prems(1) by simp
    show ?thesis
    proof (cases "at_accepts at offer \<or> \<not> go")
      case True
      then show ?thesis using \<open>vu_connected vu \<and> at_host at \<noteq> None\<close> Cons.prems(2) o a t by (auto split: if_splits)
    next
      case False
      then have "\<not> vu_auth_first vu2" using after_failure_again a by auto
      from Cons.IH [OF this rest] False \<open>vu_connected vu \<and> at_host at \<noteq> None\<close> Cons.prems(2) o a rest t
      show ?thesis by auto
    qed
  qed (use Cons.prems in \<open>auto simp: Let_def split: if_splits\<close>)
qed simp

section \<open>Properties\<close>

text \<open>
  Credentials that are stored in the profile are offered to the server once: only in the
  first attempt can an offer come from the profile; when the server refuses it, every later
  offer is what the user has typed in for that attempt, or nothing when the user cancelled.
\<close>

theorem vnc_stored_credentials_once:
  assumes "vnc_attempts (at # ats) (rf, vu) = (offers, result, rf', vu')" and "2 \<le> length offers"
  shows "list_all2 typed_in (take (length offers - 1) ats) (tl offers)"
proof -
  have c: "vu_connected vu \<and> at_host at \<noteq> None" using assms by (auto simp: Let_def split: if_splits)
  obtain offer rf1 vu1 where o: "vnc_offer at (rf, vu\<lparr>vu_auth_called := False\<rparr>) = (offer, rf1, vu1)"
    by (metis prod_cases3)
  obtain go rf2 vu2 where a: "vnc_after_failure (at_error at) (rf1, vu1) = (go, rf2, vu2)"
    by (metis prod_cases3)
  obtain os r where rest: "vnc_attempts ats (rf2, vu2) = (os, r)" by (metis surj_pair)
  have "\<not> at_accepts at offer \<and> go \<and> offers = offer # os"
    using assms c o a rest by (auto split: if_splits)
  moreover from this have "\<not> vu_auth_first vu2" using after_failure_again a by auto
  ultimately show ?thesis using attempts_typed [OF _ rest] by simp
qed

theorem vnc_stored_credentials_once_witness:
  "list_all2 typed_in
     (take 1 [\<lparr>at_host = Some ''h'', at_request = Ask_password,
        at_answer = Some \<lparr>an_username = None, an_password = Some ''new'', an_save = False\<rparr>, at_files = None,
        at_accepts = (\<lambda>_. True), at_error = []\<rparr>])
     [Offer_password (Some ''new'')]"
proof -
  let ?a = "\<lparr>at_host = Some ''h'', at_request = Ask_password, at_answer = None, at_files = None,
      at_accepts = (\<lambda>_. False), at_error = ''no''\<rparr>"
  let ?b = "\<lparr>at_host = Some ''h'', at_request = Ask_password,
        at_answer = Some \<lparr>an_username = None, an_password = Some ''new'', an_save = False\<rparr>, at_files = None,
        at_accepts = (\<lambda>_. True), at_error = []\<rparr>"
  let ?rf = "remmina_file_new_empty\<lparr>rf_settings := [(''password'', ''old'')]\<rparr>"
  let ?vu = "\<lparr>vu_connected = True, vu_auth_called = False, vu_auth_first = True, vu_running = True\<rparr>"
  have e: "strstr ''no'' ''The server is already in use'' = None" "\<not> vnc_network_error ''no''" by code_simp+
  have g: "remmina_file_get_string ?rf ''password'' = Some ''old''" by code_simp
  obtain r where r: "vnc_attempts [?a, ?b] (?rf, ?vu) = ([Offer_password (Some ''old''), Offer_password (Some ''new'')], r)"
    by (simp add: vnc_offer_def remmina_plugin_vnc_rfb_password_def vnc_after_failure_def e g)
  obtain result rf' vu' where "r = (result, rf', vu')" by (metis prod_cases3)
  from vnc_stored_credentials_once [OF r [unfolded this]] show ?thesis by simp
qed

end
