(* ===== verification/Panel.thy ===== *)
theory Panel
  imports Prelude
begin

text \<open>
  The message panels that ask the user for a password, a name, an answer or a decision, and
  what they leave in the private data of the protocol widget
  (\<open>src/remmina_protocol_widget.c\<close>). What the user does with a panel is a function of the
  panel that changes the world; the response is the button, and the entries hold what they
  hold when it is clicked.
\<close>

section \<open>Panels\<close>

datatype panel_type = RPWDT_AUTH | RPWDT_QUESTIONYESNO | RPWDT_AUTHX509 | RPWDT_ACCEPT | RPWDT_PROMPT

datatype panel_response = Response_ok | Response_cancel | Response_yes | Response_no

record panel_request =
  pr_type :: panel_type
  pr_title :: string
  pr_ask_username :: bool
  pr_username_readonly :: bool
  pr_ask_domain :: bool
  pr_offer_save :: bool
  pr_username :: cstr
  pr_password :: cstr
  pr_domain :: cstr

record panel_click =
  pc_response :: panel_response
  pc_username :: cstr
  pc_password :: cstr
  pc_domain :: cstr
  pc_save :: bool
  pc_cacert :: cstr
  pc_cacrl :: cstr
  pc_clientcert :: cstr
  pc_clientkey :: cstr

type_synonym 'w panel_user = "panel_request \<Rightarrow> 'w \<Rightarrow> panel_click \<times> 'w"

text \<open>The data saved from the last panel that the user confirmed.\<close>

record widget_data =
  wd_username :: cstr
  wd_password :: cstr
  wd_domain :: cstr
  wd_save_password :: bool
  wd_cacert :: cstr
  wd_cacrl :: cstr
  wd_clientcert :: cstr
  wd_clientkey :: cstr

definition widget_data_new :: widget_data where
  "widget_data_new = \<lparr>wd_username = None, wd_password = None, wd_domain = None, wd_save_password = False,
     wd_cacert = None, wd_cacrl = None, wd_clientcert = None, wd_clientkey = None\<rparr>"

section \<open>The dialog\<close>

text \<open>Only the response OK copies the entries, and which of them depends on the panel.\<close>

definition authpanel_mt_cb :: "panel_type \<Rightarrow> panel_click \<Rightarrow> widget_data \<Rightarrow> widget_data" where
  "authpanel_mt_cb dtype c wd =
     (if pc_response c \<noteq> Response_ok then wd
      else case dtype of
             RPWDT_AUTH \<Rightarrow> wd\<lparr>wd_password := pc_password c, wd_username := pc_username c, wd_domain := pc_domain c,
               wd_save_password := pc_save c\<rparr>
           | RPWDT_AUTHX509 \<Rightarrow> wd\<lparr>wd_cacert := pc_cacert c, wd_cacrl := pc_cacrl c, wd_clientcert := pc_clientcert c,
               wd_clientkey := pc_clientkey c\<rparr>
           | RPWDT_PROMPT \<Rightarrow> wd\<lparr>wd_password := pc_password c\<rparr>
           | _ \<Rightarrow> wd)"

definition remmina_protocol_widget_dialog ::
  "'w panel_user \<Rightarrow> panel_request \<Rightarrow> widget_data \<times> 'w \<Rightarrow> panel_response \<times> widget_data \<times> 'w" where
  "remmina_protocol_widget_dialog user request = (\<lambda>(wd, w).
     let (c, w) = user request w in (pc_response c, authpanel_mt_cb (pr_type request) c wd, w))"

definition plain_request :: "panel_type \<Rightarrow> string \<Rightarrow> panel_request" where
  "plain_request dtype title = \<lparr>pr_type = dtype, pr_title = title, pr_ask_username = False, pr_username_readonly = False,
     pr_ask_domain = False, pr_offer_save = False, pr_username = None, pr_password = None, pr_domain = None\<rparr>"

text \<open>The answer to a prompt is the password that is saved afterwards, whatever the response was.\<close>

definition remmina_protocol_widget_panel_prompt :: "'w panel_user \<Rightarrow> string \<Rightarrow> widget_data \<times> 'w \<Rightarrow> cstr \<times> widget_data \<times> 'w" where
  "remmina_protocol_widget_panel_prompt user msg s =
     (let (_, wd, w) = remmina_protocol_widget_dialog user (plain_request RPWDT_PROMPT msg) s in (wd_password wd, wd, w))"

definition remmina_protocol_widget_panel_question_yesno ::
  "'w panel_user \<Rightarrow> string \<Rightarrow> widget_data \<times> 'w \<Rightarrow> panel_response \<times> widget_data \<times> 'w" where
  "remmina_protocol_widget_panel_question_yesno user msg =
     remmina_protocol_widget_dialog user (plain_request RPWDT_QUESTIONYESNO msg)"

definition remmina_protocol_widget_panel_question_accept ::
  "'w panel_user \<Rightarrow> string \<Rightarrow> widget_data \<times> 'w \<Rightarrow> panel_response \<times> widget_data \<times> 'w" where
  "remmina_protocol_widget_panel_question_accept user msg =
     remmina_protocol_widget_dialog user (plain_request RPWDT_ACCEPT msg)"

definition remmina_protocol_widget_panel_auth ::
  "'w panel_user \<Rightarrow> panel_request \<Rightarrow> widget_data \<times> 'w \<Rightarrow> panel_response \<times> widget_data \<times> 'w" where
  "remmina_protocol_widget_panel_auth user request = remmina_protocol_widget_dialog user (request\<lparr>pr_type := RPWDT_AUTH\<rparr>)"

definition remmina_protocol_widget_panel_authx509 ::
  "'w panel_user \<Rightarrow> widget_data \<times> 'w \<Rightarrow> panel_response \<times> widget_data \<times> 'w" where
  "remmina_protocol_widget_panel_authx509 user = remmina_protocol_widget_dialog user (plain_request RPWDT_AUTHX509 [])"

section \<open>Certificates\<close>

text \<open>With the preference \<open>trust_all\<close> nobody is asked.\<close>

definition panel_certificate ::
  "'w panel_user \<Rightarrow> bool \<Rightarrow> string \<Rightarrow> widget_data \<times> 'w \<Rightarrow> panel_response \<times> widget_data \<times> 'w" where
  "panel_certificate user trust_all text s =
     (if trust_all then (Response_ok, s)
      else let (rc, s) = remmina_protocol_widget_dialog user (plain_request RPWDT_QUESTIONYESNO text) s
           in (if rc = Response_yes then Response_ok else rc, s))"

definition remmina_protocol_widget_panel_new_certificate ::
  "'w panel_user \<Rightarrow> bool \<Rightarrow> string \<Rightarrow> string \<Rightarrow> string \<Rightarrow> widget_data \<times> 'w \<Rightarrow> panel_response \<times> widget_data \<times> 'w" where
  "remmina_protocol_widget_panel_new_certificate user trust_all subject issuer fingerprint =
     panel_certificate user trust_all
       (''<big>Certificate details:</big>'' @ [CHR 0x0A, CHR 0x0A] @ ''Subject: '' @ subject @ [CHR 0x0A] @
        ''Issuer: '' @ issuer @ [CHR 0x0A] @ ''Fingerprint: '' @ fingerprint @ [CHR 0x0A, CHR 0x0A] @
        ''<big>Accept certificate?</big>'')"

definition remmina_protocol_widget_panel_changed_certificate ::
  "'w panel_user \<Rightarrow> bool \<Rightarrow> string \<Rightarrow> string \<Rightarrow> string \<Rightarrow> string \<Rightarrow> widget_data \<times> 'w \<Rightarrow> panel_response \<times> widget_data \<times> 'w" where
  "remmina_protocol_widget_panel_changed_certificate user trust_all subject issuer new_fingerprint old_fingerprint =
     panel_certificate user trust_all
       (''<big>The certificate changed! Details:</big>'' @ [CHR 0x0A, CHR 0x0A] @ ''Subject: '' @ subject @ [CHR 0x0A] @
        ''Issuer: '' @ issuer @ [CHR 0x0A] @ ''Old fingerprint: '' @ old_fingerprint @ [CHR 0x0A] @
        ''New fingerprint: '' @ new_fingerprint @ [CHR 0x0A, CHR 0x0A] @ ''<big>Accept changed certificate?</big>'')"

section \<open>What was entered\<close>

definition remmina_protocol_widget_get_username :: "widget_data \<Rightarrow> cstr" where
  "remmina_protocol_widget_get_username = wd_username"

definition remmina_protocol_widget_get_password :: "widget_data \<Rightarrow> cstr" where
  "remmina_protocol_widget_get_password = wd_password"

definition remmina_protocol_widget_get_domain :: "widget_data \<Rightarrow> cstr" where
  "remmina_protocol_widget_get_domain = wd_domain"

definition remmina_protocol_widget_get_savepassword :: "widget_data \<Rightarrow> bool" where
  "remmina_protocol_widget_get_savepassword = wd_save_password"

definition non_empty_path :: "cstr \<Rightarrow> cstr" where
  "non_empty_path s = (if is_empty s then None else s)"

definition remmina_protocol_widget_get_cacert :: "widget_data \<Rightarrow> cstr" where
  "remmina_protocol_widget_get_cacert wd = non_empty_path (wd_cacert wd)"

definition remmina_protocol_widget_get_cacrl :: "widget_data \<Rightarrow> cstr" where
  "remmina_protocol_widget_get_cacrl wd = non_empty_path (wd_cacrl wd)"

definition remmina_protocol_widget_get_clientcert :: "widget_data \<Rightarrow> cstr" where
  "remmina_protocol_widget_get_clientcert wd = non_empty_path (wd_clientcert wd)"

definition remmina_protocol_widget_get_clientkey :: "widget_data \<Rightarrow> cstr" where
  "remmina_protocol_widget_get_clientkey wd = non_empty_path (wd_clientkey wd)"

lemmas widget_getters = remmina_protocol_widget_get_username_def remmina_protocol_widget_get_password_def
  remmina_protocol_widget_get_domain_def remmina_protocol_widget_get_savepassword_def

end
