(* ===== verification/SshSession.thy ===== *)
theory SshSession
  imports Public FileData Panel
begin

text \<open>
  An SSH session (\<open>src/remmina_ssh.c\<close>): the \<open>RemminaSSH\<close> struct, its settings read from a
  profile or copied from another session, and the connection to the server
  (\<open>remmina_ssh_init_session\<close>). libssh, the server behind it, the name resolution and the user
  in front of the panels are a record of operations on a world that they change. Every
  operation that hands something to the server is written to a log.
\<close>

section \<open>What libssh does\<close>

datatype lib_result = Lib_success | Lib_denied | Lib_partial | Lib_info | Lib_again | Lib_error

datatype known_hosts = Known_ok | Known_changed | Known_other | Known_unknown | Known_not_found | Known_error

datatype ssh_option =
    Opt_host | Opt_port | Opt_publickey_accepted_types | Opt_identity | Opt_user | Opt_proxycommand
  | Opt_hostkeys | Opt_key_exchange | Opt_ciphers_c_s | Opt_stricthostkeycheck | Opt_compression

datatype ssh_value = Text_value cstr | Int_value gint

record 'w libssh =
  sl_get_error :: "'w \<Rightarrow> string"
  sl_new :: "'w \<Rightarrow> 'w"
  sl_options_set :: "ssh_option \<Rightarrow> ssh_value \<Rightarrow> 'w \<Rightarrow> 'w"
  sl_options_get :: "ssh_option \<Rightarrow> 'w \<Rightarrow> string option"
  sl_parse_config :: "'w \<Rightarrow> 'w"
  sl_options_getopt :: "string list \<Rightarrow> 'w \<Rightarrow> 'w"
  sl_connect :: "'w \<Rightarrow> bool \<times> 'w"
  sl_disconnect :: "'w \<Rightarrow> 'w"
  sl_options_get_port :: "'w \<Rightarrow> guint"
  sl_resolve_inet6 :: "cstr \<Rightarrow> 'w \<Rightarrow> string list option"
  sl_resolve_inet :: "cstr \<Rightarrow> 'w \<Rightarrow> string list option"
  sl_userauth_none :: "'w \<Rightarrow> lib_result \<times> 'w"
  sl_is_known_server :: "'w \<Rightarrow> known_hosts"
  sl_server_publickey :: "'w \<Rightarrow> string option"
  sl_publickey_hash :: "string \<Rightarrow> string option"
  sl_update_known_hosts :: "'w \<Rightarrow> 'w"
  sl_userauth_list :: "'w \<Rightarrow> 32 word"
  sl_userauth_password :: "string \<Rightarrow> 'w \<Rightarrow> lib_result \<times> 'w"
  sl_userauth_kbdint :: "'w \<Rightarrow> lib_result \<times> 'w"
  sl_kbdint_prompts :: "'w \<Rightarrow> string list"
  sl_kbdint_setanswer :: "nat \<Rightarrow> cstr \<Rightarrow> 'w \<Rightarrow> 'w"
  sl_import_privkey_file :: "cstr \<Rightarrow> string \<Rightarrow> string option"
  sl_import_pubkey_file :: "string \<Rightarrow> bool"
  sl_import_cert_file :: "string \<Rightarrow> string option"
  sl_copy_cert_to_privkey :: "string \<Rightarrow> string \<Rightarrow> string option"
  sl_try_publickey :: "string \<Rightarrow> 'w \<Rightarrow> lib_result \<times> 'w"
  sl_userauth_publickey :: "string \<Rightarrow> 'w \<Rightarrow> lib_result \<times> 'w"
  sl_userauth_publickey_auto :: "cstr \<Rightarrow> 'w \<Rightarrow> lib_result \<times> 'w"
  sl_userauth_agent :: "'w \<Rightarrow> lib_result \<times> 'w"
  sl_userauth_gssapi :: "'w \<Rightarrow> lib_result \<times> 'w"
  sl_file_exists :: "string \<Rightarrow> bool"
  sl_home_dir :: string
  sl_user :: "'w panel_user"

text \<open>
  The log: the checks of the server's key, the questions to the user, and everything that is
  handed to libssh to prove the identity of the user.
\<close>

datatype ssh_log_entry =
    Log_connect cstr
  | Log_known known_hosts
  | Log_question string panel_response
  | Sent_password string
  | Sent_answer cstr
  | Sent_certificate string
  | Sent_publickey string
  | Sent_publickey_auto cstr
  | Sent_agent
  | Sent_gssapi

section \<open>The session\<close>

record 'w ssh =
  sh_session :: bool
  sh_authenticated :: bool
  sh_server :: cstr
  sh_port :: gint
  sh_user :: cstr
  sh_auth :: gint
  sh_password :: cstr
  sh_privkeyfile :: cstr
  sh_certfile :: cstr
  sh_charset :: cstr
  sh_kex_algorithms :: cstr
  sh_ciphers :: cstr
  sh_hostkeytypes :: cstr
  sh_proxycommand :: cstr
  sh_stricthostkeycheck :: gint
  sh_allow_ssh_rsa :: gint
  sh_compression :: cstr
  sh_command_args :: cstr
  sh_error :: cstr
  sh_passphrase :: cstr
  sh_is_tunnel :: bool
  sh_is_multiauth :: bool
  sh_tunnel_entrance_host :: cstr
  sh_tunnel_entrance_port :: gint
  sh_gp :: widget_data
  sh_world :: 'w
  sh_log :: "ssh_log_entry list"

text \<open>What \<open>g_new0\<close> leaves.\<close>

definition ssh_new0 :: "'w \<Rightarrow> 'w ssh" where
  "ssh_new0 w = \<lparr>sh_session = False, sh_authenticated = False, sh_server = None, sh_port = 0, sh_user = None, sh_auth = 0,
     sh_password = None, sh_privkeyfile = None, sh_certfile = None, sh_charset = None, sh_kex_algorithms = None,
     sh_ciphers = None, sh_hostkeytypes = None, sh_proxycommand = None, sh_stricthostkeycheck = 0,
     sh_allow_ssh_rsa = 0, sh_compression = None, sh_command_args = None, sh_error = None, sh_passphrase = None,
     sh_is_tunnel = False, sh_is_multiauth = False, sh_tunnel_entrance_host = None, sh_tunnel_entrance_port = 0,
     sh_gp = widget_data_new, sh_world = w, sh_log = []\<rparr>"

text \<open>\<open>g_new\<close> does not clear the memory; the widget and the world are the ones of the caller.\<close>

definition ssh_g_new :: "'w ssh \<Rightarrow> widget_data \<Rightarrow> 'w \<Rightarrow> 'w ssh" where
  "ssh_g_new memory gp w = memory\<lparr>sh_gp := gp, sh_world := w, sh_log := []\<rparr>"

definition ssh_log :: "ssh_log_entry \<Rightarrow> 'w ssh \<Rightarrow> 'w ssh" where
  "ssh_log e s = s\<lparr>sh_log := sh_log s @ [e]\<rparr>"

text \<open>A call that changes the world and returns something.\<close>

definition ssh_call :: "('w \<Rightarrow> 'a \<times> 'w) \<Rightarrow> 'w ssh \<Rightarrow> 'a \<times> 'w ssh" where
  "ssh_call f s = (let (r, w) = f (sh_world s) in (r, s\<lparr>sh_world := w\<rparr>))"

text \<open>A call to a panel of the protocol widget that the session belongs to.\<close>

definition ssh_panel :: "(widget_data \<times> 'w \<Rightarrow> 'a \<times> widget_data \<times> 'w) \<Rightarrow> 'w ssh \<Rightarrow> 'a \<times> 'w ssh" where
  "ssh_panel f s = (let (r, wd, w) = f (sh_gp s, sh_world s) in (r, s\<lparr>sh_gp := wd, sh_world := w\<rparr>))"

definition ssh_do :: "('w \<Rightarrow> 'w) \<Rightarrow> 'w ssh \<Rightarrow> 'w ssh" where
  "ssh_do f s = s\<lparr>sh_world := f (sh_world s)\<rparr>"

text \<open>The message has one place for the text of libssh.\<close>

definition fill_format :: "string \<Rightarrow> string \<Rightarrow> string" where
  "fill_format fmt arg =
     (case strstr fmt ''%s'' of None \<Rightarrow> fmt | Some i \<Rightarrow> take i fmt @ arg @ drop (i + 2) fmt)"

definition remmina_ssh_set_error :: "'w libssh \<Rightarrow> string \<Rightarrow> 'w ssh \<Rightarrow> 'w ssh" where
  "remmina_ssh_set_error lib fmt s = s\<lparr>sh_error := Some (fill_format fmt (sl_get_error lib (sh_world s)))\<rparr>"

definition remmina_ssh_set_application_error :: "string \<Rightarrow> 'w ssh \<Rightarrow> 'w ssh" where
  "remmina_ssh_set_application_error text s = s\<lparr>sh_error := Some text\<rparr>"

section \<open>Settings\<close>

definition remmina_ssh_identity_path :: "'w libssh \<Rightarrow> cstr \<Rightarrow> cstr" where
  "remmina_ssh_identity_path lib identity =
     (case identity of
        None \<Rightarrow> None
      | Some p \<Rightarrow> if p \<noteq> [] \<and> hd p = CHR ''/'' then Some p else Some (sl_home_dir lib @ ''/'' @ p))"

definition common_identities :: "string list" where
  "common_identities = [''.ssh/id_ed25519'', ''.ssh/id_rsa'', ''.ssh/id_dsa'', ''.ssh/identity'']"

definition remmina_ssh_find_identity :: "'w libssh \<Rightarrow> cstr" where
  "remmina_ssh_find_identity lib =
     List.find (sl_file_exists lib) (map (\<lambda>i. the (remmina_ssh_identity_path lib (Some i))) common_identities)"

definition ssh_key_name :: "bool \<Rightarrow> string \<Rightarrow> string" where
  "ssh_key_name is_tunnel name = (if is_tunnel then ''ssh_tunnel_'' @ name else ''ssh_'' @ name)"

text \<open>
  The server and the port. An empty host name of an address is parsed again, with the same
  function, and the port is left alone then. \<open>parse\<close> is \<open>g_network_address_parse\<close>.
\<close>

definition ssh_server_port ::
  "(string \<Rightarrow> gint \<Rightarrow> (string \<times> gint) option) \<Rightarrow> rfile \<Rightarrow> bool \<Rightarrow> gint \<Rightarrow> cstr \<times> gint" where
  "ssh_server_port parse rf is_tunnel port_in =
     (let or_localhost = (\<lambda>server. if is_empty server then Some ''localhost'' else server);
          tunnel_server = remmina_file_get_string rf ''ssh_tunnel_server'';
          own = or_localhost (remmina_file_get_string rf ''server'');
          server = (if is_tunnel \<and> \<not> is_empty tunnel_server then tunnel_server else own);
          (host, port) = remmina_public_get_server_port parse server 22 port_in;
          port = (if is_tunnel \<and> is_empty tunnel_server then 22 else port);
          host = (if host = Some [] then fst (remmina_public_get_server_port parse server 0 0) else host)
      in (host, port))"

definition remmina_ssh_init_from_file ::
  "'w libssh \<Rightarrow> (string \<Rightarrow> gint \<Rightarrow> (string \<times> gint) option) \<Rightarrow> rfile \<Rightarrow> bool \<Rightarrow> 'w ssh \<Rightarrow> 'w ssh" where
  "remmina_ssh_init_from_file lib parse rf is_tunnel s =
     (let get = (\<lambda>name. remmina_file_get_string rf (ssh_key_name is_tunnel name));
          get_int = (\<lambda>name. remmina_file_get_int rf (ssh_key_name is_tunnel name) 0);
          username = remmina_file_get_string rf (if is_tunnel then ''ssh_tunnel_username'' else ''username'');
          privatekey = get ''privatekey'';
          (server, port) = ssh_server_port parse rf is_tunnel (sh_port s);
          key = (case privatekey of None \<Rightarrow> remmina_ssh_find_identity lib | Some k \<Rightarrow> Some k)
      in s\<lparr>sh_session := False, sh_authenticated := False, sh_error := None, sh_passphrase := None,
           sh_is_tunnel := is_tunnel, sh_tunnel_entrance_host := None, sh_tunnel_entrance_port := 0,
           sh_certfile := get ''certfile'', sh_server := server, sh_port := port, sh_user := username,
           sh_password := None, sh_auth := get_int ''auth'', sh_charset := remmina_file_get_string rf ''ssh_charset'',
           sh_kex_algorithms := get ''kex_algorithms'', sh_ciphers := get ''ciphers'',
           sh_hostkeytypes := get ''hostkeytypes'', sh_proxycommand := get ''proxycommand'',
           sh_stricthostkeycheck := get_int ''stricthostkeycheck'', sh_allow_ssh_rsa := get_int ''allow_ssh_rsa'',
           sh_compression := Some (if get_int ''compression'' = 1 then ''yes'' else ''no''),
           sh_command_args := remmina_file_get_string rf ''ssh_tunnel_command_args'',
           sh_privkeyfile := remmina_ssh_identity_path lib key\<rparr>)"

text \<open>The copy leaves out the multiple authentication, the command line and \<open>allow_ssh_rsa\<close>.\<close>

definition remmina_ssh_init_from_ssh :: "'w ssh \<Rightarrow> 'w ssh \<Rightarrow> 'w ssh" where
  "remmina_ssh_init_from_ssh src s =
     s\<lparr>sh_session := False, sh_authenticated := False, sh_error := None, sh_is_tunnel := sh_is_tunnel src,
       sh_server := sh_server src, sh_port := sh_port src, sh_user := sh_user src, sh_auth := sh_auth src,
       sh_password := sh_password src, sh_passphrase := sh_passphrase src, sh_privkeyfile := sh_privkeyfile src,
       sh_certfile := sh_certfile src, sh_charset := sh_charset src, sh_proxycommand := sh_proxycommand src,
       sh_kex_algorithms := sh_kex_algorithms src, sh_ciphers := sh_ciphers src,
       sh_hostkeytypes := sh_hostkeytypes src, sh_stricthostkeycheck := sh_stricthostkeycheck src,
       sh_compression := sh_compression src, sh_tunnel_entrance_host := sh_tunnel_entrance_host src,
       sh_tunnel_entrance_port := sh_tunnel_entrance_port src\<rparr>"

section \<open>Connecting\<close>

definition ssh_set :: "'w libssh \<Rightarrow> ssh_option \<Rightarrow> ssh_value \<Rightarrow> 'w ssh \<Rightarrow> 'w ssh" where
  "ssh_set lib opt v = ssh_do (sl_options_set lib opt v)"

text \<open>A text option of the configuration file takes the place of the one of the profile; either is set again.\<close>

definition ssh_adopt ::
  "'w libssh \<Rightarrow> ssh_option \<Rightarrow> ('w ssh \<Rightarrow> cstr) \<Rightarrow> (cstr \<Rightarrow> 'w ssh \<Rightarrow> 'w ssh) \<Rightarrow> 'w ssh \<Rightarrow> 'w ssh" where
  "ssh_adopt lib opt get put s =
     (let s = (case sl_options_get lib opt (sh_world s) of None \<Rightarrow> s | Some v \<Rightarrow> put (Some v) s)
      in ssh_set lib opt (Text_value (get s)) s)"

definition ssh_adopt_stricthostkeycheck :: "'w libssh \<Rightarrow> 'w ssh \<Rightarrow> 'w ssh" where
  "ssh_adopt_stricthostkeycheck lib s =
     (let s = (case sl_options_get lib Opt_stricthostkeycheck (sh_world s) of
                 None \<Rightarrow> s | Some v \<Rightarrow> s\<lparr>sh_stricthostkeycheck := atoi v\<rparr>)
      in ssh_set lib Opt_stricthostkeycheck (Int_value (sh_stricthostkeycheck s)) s)"

text \<open>The host and the port, and for a host that is the local end of a tunnel the alias it stands for.\<close>

definition ssh_set_host :: "'w libssh \<Rightarrow> 'w ssh \<Rightarrow> 'w ssh" where
  "ssh_set_host lib s =
     (if sh_is_tunnel s
      then ssh_set lib Opt_port (Int_value (sh_port s)) (ssh_set lib Opt_host (Text_value (sh_server s)) s)
      else ssh_set lib Opt_port (Int_value (sh_tunnel_entrance_port s))
             (ssh_set lib Opt_host (Text_value (sh_tunnel_entrance_host s)) s))"

definition ssh_parse_config :: "'w libssh \<Rightarrow> bool \<Rightarrow> 'w ssh \<Rightarrow> 'w ssh" where
  "ssh_parse_config lib parseconfig s =
     (let loopback = (sh_tunnel_entrance_host s = Some ''127.0.0.1'');
          s = (if loopback then ssh_set lib Opt_host (Text_value (sh_server s)) s else s);
          s = (if parseconfig then ssh_do (sl_parse_config lib) s else s)
      in if loopback then ssh_set lib Opt_host (Text_value (sh_tunnel_entrance_host s)) s else s)"

definition ssh_set_allow_rsa :: "'w libssh \<Rightarrow> 'w ssh \<Rightarrow> 'w ssh" where
  "ssh_set_allow_rsa lib s =
     (if sh_allow_ssh_rsa s \<noteq> 0 then ssh_set lib Opt_publickey_accepted_types (Text_value (Some ''+ssh-rsa'')) s else s)"

definition ssh_set_identity :: "'w libssh \<Rightarrow> 'w ssh \<Rightarrow> 'w ssh" where
  "ssh_set_identity lib s =
     (if is_empty (sh_privkeyfile s) then s else ssh_set lib Opt_identity (Text_value (sh_privkeyfile s)) s)"

definition ssh_set_user :: "'w libssh \<Rightarrow> 'w ssh \<Rightarrow> 'w ssh" where
  "ssh_set_user lib s =
     (let s = (if is_empty (sh_user s)
               then case sl_options_get lib Opt_user (sh_world s) of None \<Rightarrow> s | Some u \<Rightarrow> s\<lparr>sh_user := Some u\<rparr>
               else s)
      in ssh_set lib Opt_user (Text_value (sh_user s)) s)"

text \<open>All of them, in the order of the code from the innermost.\<close>

definition ssh_session_options :: "'w libssh \<Rightarrow> bool \<Rightarrow> 'w ssh \<Rightarrow> 'w ssh" where
  "ssh_session_options lib parseconfig s =
     ssh_adopt lib Opt_compression sh_compression (\<lambda>v. sh_compression_update (\<lambda>_. v))
    (ssh_adopt_stricthostkeycheck lib
    (ssh_adopt lib Opt_ciphers_c_s sh_ciphers (\<lambda>v. sh_ciphers_update (\<lambda>_. v))
    (ssh_adopt lib Opt_key_exchange sh_kex_algorithms (\<lambda>v. sh_kex_algorithms_update (\<lambda>_. v))
    (ssh_adopt lib Opt_hostkeys sh_hostkeytypes (\<lambda>v. sh_hostkeytypes_update (\<lambda>_. v))
    (ssh_adopt lib Opt_proxycommand sh_proxycommand (\<lambda>v. sh_proxycommand_update (\<lambda>_. v))
    (ssh_set_user lib
    (ssh_parse_config lib parseconfig
    (ssh_set_identity lib (ssh_set_allow_rsa lib (ssh_set_host lib s))))))))))"

text \<open>\<open>strtok\<close> with a space: the pieces that are not empty.\<close>

definition strtok_space :: "string \<Rightarrow> string list" where
  "strtok_space t = filter (\<lambda>p. p \<noteq> []) (g_strsplit t '' '')"

text \<open>
  The command line is cut into an array of 100 pointers with \<open>ssh\<close> in front and NULL at the
  end; the code does not count them.
\<close>

definition ssh_command_line :: "'w libssh \<Rightarrow> 'w ssh \<Rightarrow> 'w ssh c_result" where
  "ssh_command_line lib s =
     (case sh_command_args s of
        None \<Rightarrow> Ret s
      | Some t \<Rightarrow>
          (let args = ''ssh'' # strtok_space t
           in if 100 \<le> length args then Crash else Ret (ssh_do (sl_options_getopt lib args) s)))"

definition ssh_connect_once :: "'w libssh \<Rightarrow> 'w ssh \<Rightarrow> bool \<times> 'w ssh" where
  "ssh_connect_once lib s =
     ssh_call (sl_connect lib) (ssh_log (Log_connect (sl_options_get lib Opt_host (sh_world s))) s)"

text \<open>The addresses of a host one after the other; \<open>note\<close> is what the loop does after a failure.\<close>

fun ssh_try_addresses :: "'w libssh \<Rightarrow> ('w ssh \<Rightarrow> 'w ssh) \<Rightarrow> string list \<Rightarrow> 'w ssh \<Rightarrow> bool \<times> 'w ssh" where
  "ssh_try_addresses lib note [] s = (False, s)"
| "ssh_try_addresses lib note (a # as) s =
     (let (ok, s) = ssh_connect_once lib (ssh_set lib Opt_host (Text_value (Some a)) s)
      in if ok then (True, s) else ssh_try_addresses lib note as (note (ssh_do (sl_disconnect lib) s)))"

definition ssh_hostname_text :: "cstr \<Rightarrow> string" where
  "ssh_hostname_text h = (case h of None \<Rightarrow> ''(null)'' | Some t \<Rightarrow> t)"

definition ssh_connect_fallback :: "'w libssh \<Rightarrow> 'w ssh \<Rightarrow> bool \<times> 'w ssh" where
  "ssh_connect_fallback lib s =
     (let hostname = sl_options_get lib Opt_host (sh_world s); port = sl_options_get_port lib (sh_world s);
          (ok, s) = (case sl_resolve_inet6 lib hostname (sh_world s) of
             None \<Rightarrow> (False, remmina_ssh_set_application_error
                        (''Could not resolve hostname '' @ ssh_hostname_text hostname @ '' to IPv6'') s)
           | Some as \<Rightarrow> ssh_try_addresses lib id as s)
      in if ok then (True, s)
         else case sl_resolve_inet lib hostname (sh_world s) of
             None \<Rightarrow> (False, remmina_ssh_set_application_error
                        (''Could not resolve hostname '' @ ssh_hostname_text hostname @ '' to IPv4'') s)
           | Some as \<Rightarrow> ssh_try_addresses lib
                (remmina_ssh_set_application_error
                   (''Error connecting to '' @ ssh_hostname_text hostname @ '':'' @ show_gint port @ '' '')) as s)"

definition remmina_ssh_init_session :: "'w libssh \<Rightarrow> bool \<Rightarrow> 'w ssh \<Rightarrow> (bool \<times> 'w ssh) c_result" where
  "remmina_ssh_init_session lib parseconfig s =
     (let s = ssh_do (sl_new lib) (s\<lparr>sh_session := True\<rparr>)
      in if sh_is_tunnel s \<and> sh_tunnel_entrance_host s \<noteq> None
         then Ret (False, remmina_ssh_set_application_error
                ''Internal error in remmina_ssh_init_session: is_tunnel and tunnel_entrance != NULL'' s)
         else if \<not> sh_is_tunnel s \<and> sh_tunnel_entrance_host s = None
         then Ret (False, remmina_ssh_set_application_error
                ''Internal error in remmina_ssh_init_session: is_tunnel == false and tunnel_entrance == NULL'' s)
         else c_bind (ssh_command_line lib (ssh_session_options lib parseconfig s)) (\<lambda>s.
           let (ok, s) = ssh_connect_once lib s;
               (ok, s) = (if ok then (True, s) else ssh_connect_fallback lib s)
           in if \<not> ok then Ret (False, s)
              else let (r, s) = ssh_call (sl_userauth_none lib) s
                   in Ret (True, if r = Lib_success then s\<lparr>sh_authenticated := True\<rparr> else s)))"

end
