(* ===== verification/SshAuth.thy ===== *)
theory SshAuth
  imports SshSession
begin

text \<open>
  Authentication of an SSH session (\<open>src/remmina_ssh.c\<close>): the methods, the choice between
  them, the second factor, and \<open>remmina_ssh_auth_gui\<close>, which checks the key of the server,
  asks the user and tries again. The loop over the questions of the server need not end, so
  the functions take the number of rounds that are run; the result \<open>None\<close> means that the loop
  is still running then, and the state is the one it has reached.
\<close>

datatype ssh_auth_result =
    Auth_null | Auth_success | Auth_partial | Auth_again | Auth_retry_after_prompt | Auth_usercancel
  | Auth_fatal_error | Auth_reconnect | Auth_empty_username

abbreviation "SSH_AUTH_PASSWORD \<equiv> 0 :: gint"
abbreviation "SSH_AUTH_PUBLICKEY \<equiv> 1 :: gint"
abbreviation "SSH_AUTH_AGENT \<equiv> 2 :: gint"
abbreviation "SSH_AUTH_AUTO_PUBLICKEY \<equiv> 3 :: gint"
abbreviation "SSH_AUTH_GSSAPI \<equiv> 4 :: gint"
abbreviation "SSH_AUTH_KBDINTERACTIVE \<equiv> 5 :: gint"

abbreviation "METHOD_PASSWORD \<equiv> 0x02 :: 32 word"
abbreviation "METHOD_PUBLICKEY \<equiv> 0x04 :: 32 word"
abbreviation "METHOD_HOSTBASED \<equiv> 0x08 :: 32 word"
abbreviation "METHOD_INTERACTIVE \<equiv> 0x10 :: 32 word"
abbreviation "METHOD_GSSAPI_MIC \<equiv> 0x20 :: 32 word"

section \<open>The methods\<close>

text \<open>
  What every method makes of the answer of libssh. A partial success forgets the password;
  \<open>again\<close> is the result for a session that would block.
\<close>

definition ssh_method_result ::
  "'w libssh \<Rightarrow> ssh_auth_result \<Rightarrow> string \<Rightarrow> lib_result \<Rightarrow> 'w ssh \<Rightarrow> ssh_auth_result \<times> 'w ssh" where
  "ssh_method_result lib again fmt ret s =
     (case ret of
        Lib_partial \<Rightarrow> (Auth_partial, s\<lparr>sh_password := None, sh_is_multiauth := True\<rparr>)
      | Lib_success \<Rightarrow> (Auth_success, s\<lparr>sh_authenticated := True\<rparr>)
      | Lib_again \<Rightarrow> (again, s\<lparr>sh_authenticated := False\<rparr>)
      | _ \<Rightarrow> (Auth_retry_after_prompt, remmina_ssh_set_error lib fmt (s\<lparr>sh_authenticated := False\<rparr>)))"

text \<open>The questions of one round; an empty one is answered with NULL.\<close>

fun ssh_kbdint_answers :: "'w libssh \<Rightarrow> nat \<Rightarrow> string list \<Rightarrow> 'w ssh \<Rightarrow> 'w ssh" where
  "ssh_kbdint_answers lib i [] s = s"
| "ssh_kbdint_answers lib i (prompt # prompts) s =
     (let (answer, s) = (if prompt \<noteq> []
                         then ssh_panel (remmina_protocol_widget_panel_prompt (sl_user lib) prompt) s
                         else (None, s))
      in ssh_kbdint_answers lib (Suc i) prompts
           (ssh_do (sl_kbdint_setanswer lib i answer) (ssh_log (Sent_answer answer) s)))"

fun ssh_kbdint_loop :: "'w libssh \<Rightarrow> nat \<Rightarrow> lib_result \<Rightarrow> 'w ssh \<Rightarrow> lib_result option \<times> 'w ssh" where
  "ssh_kbdint_loop lib n ret s =
     (if ret \<noteq> Lib_info then (Some ret, s)
      else case n of
             0 \<Rightarrow> (None, s)
           | Suc n \<Rightarrow>
               (let s = ssh_kbdint_answers lib 0 (sl_kbdint_prompts lib (sh_world s)) s;
                    (ret, s) = ssh_call (sl_userauth_kbdint lib) s
                in ssh_kbdint_loop lib n ret s))"

declare ssh_kbdint_loop.simps [simp del]

definition remmina_ssh_auth_interactive :: "'w libssh \<Rightarrow> nat \<Rightarrow> 'w ssh \<Rightarrow> ssh_auth_result option \<times> 'w ssh" where
  "remmina_ssh_auth_interactive lib n s =
     (if sh_authenticated s then (Some Auth_success, s)
      else let (ret, s) = ssh_call (sl_userauth_kbdint lib) s;
               (ret, s) = ssh_kbdint_loop lib n ret s
           in case ret of
                None \<Rightarrow> (None, s)
              | Some ret \<Rightarrow> apfst Some (ssh_method_result lib Auth_retry_after_prompt
                  ''Could not authenticate with TOTP/OTP/2FA. %s'' ret s))"

definition remmina_ssh_auth_password :: "'w libssh \<Rightarrow> 'w ssh \<Rightarrow> ssh_auth_result \<times> 'w ssh" where
  "remmina_ssh_auth_password lib s =
     (if sh_authenticated s then (Auth_success, s)
      else case sh_password s of
             None \<Rightarrow> (Auth_retry_after_prompt, remmina_ssh_set_error lib ''Password is null'' s)
           | Some password \<Rightarrow>
               (let (ret, s) = ssh_call (sl_userauth_password lib password) (ssh_log (Sent_password password) s)
                in ssh_method_result lib Auth_again ''Could not authenticate with SSH password. %s'' ret s))"

text \<open>The private key, with the passphrase; \<open>None\<close> when it cannot be read.\<close>

definition ssh_import_privkey :: "'w libssh \<Rightarrow> 'w ssh \<Rightarrow> string option" where
  "ssh_import_privkey lib s =
     sl_import_privkey_file lib (sh_privkeyfile s) (case sh_passphrase s of None \<Rightarrow> [] | Some p \<Rightarrow> p)"

definition ssh_privkey_failed :: "'w libssh \<Rightarrow> 'w ssh \<Rightarrow> (ssh_auth_result \<times> 'w ssh)" where
  "ssh_privkey_failed lib s =
     (Auth_retry_after_prompt,
      remmina_ssh_set_error lib
        (if is_empty (sh_passphrase s) then ''No saved SSH password supplied. Asking user to enter it.''
         else ''Could not authenticate with public SSH key. %s'') s)"

text \<open>The key with the certificate, after a trial of the certificate.\<close>

definition ssh_certificate_key :: "'w libssh \<Rightarrow> string \<Rightarrow> 'w ssh \<Rightarrow> (ssh_auth_result \<times> 'w ssh) + (string \<times> 'w ssh)" where
  "ssh_certificate_key lib certfile s =
     (case ssh_import_privkey lib s of
        None \<Rightarrow> Inl (ssh_privkey_failed lib s)
      | Some key \<Rightarrow>
          (case sl_import_cert_file lib certfile of
             None \<Rightarrow> Inl (Auth_fatal_error, remmina_ssh_set_error lib ''SSH certificate cannot be imported. %s'' s)
           | Some cert \<Rightarrow>
               (case sl_copy_cert_to_privkey lib cert key of
                  None \<Rightarrow> Inl (Auth_fatal_error, remmina_ssh_set_error lib
                    ''SSH certificate cannot be copied into the private SSH key. %s'' s)
                | Some key \<Rightarrow>
                    (let (ret, s) = ssh_call (sl_try_publickey lib cert) (ssh_log (Sent_certificate cert) s)
                     in if ret \<noteq> Lib_success \<and> ret \<noteq> Lib_again
                        then Inl (Auth_fatal_error, remmina_ssh_set_error lib
                          ''Could not authenticate using SSH certificate. %s'' s)
                        else Inr (key, s)))))"

text \<open>The buffer for the name of the public key file has 132 bytes.\<close>

definition ssh_plain_key :: "'w libssh \<Rightarrow> 'w ssh \<Rightarrow> (ssh_auth_result \<times> 'w ssh) + (string \<times> 'w ssh)" where
  "ssh_plain_key lib s =
     (case sh_privkeyfile s of
        None \<Rightarrow> Inl (Auth_fatal_error, s\<lparr>sh_error :=
          Some ''Could not authenticate with public SSH key. SSH identity file not selected.''\<rparr>)
      | Some file \<Rightarrow>
          if sh_user s = None
          then Inl (Auth_empty_username, remmina_ssh_set_error lib ''No username found. Asking user to enter it.'' s)
          else let pubkey = take 131 (file @ ''.pub'')
          in if sl_file_exists lib pubkey \<and> \<not> sl_import_pubkey_file lib pubkey
             then Inl (Auth_fatal_error, remmina_ssh_set_error lib ''Public SSH key cannot be imported. %s'' s)
             else case ssh_import_privkey lib s of
                    None \<Rightarrow> Inl (ssh_privkey_failed lib s)
                  | Some key \<Rightarrow> Inr (key, s))"

definition remmina_ssh_auth_pubkey :: "'w libssh \<Rightarrow> 'w ssh \<Rightarrow> ssh_auth_result \<times> 'w ssh" where
  "remmina_ssh_auth_pubkey lib s =
     (if sh_authenticated s then (Auth_success, s)
      else case (case sh_certfile s of Some certfile \<Rightarrow> ssh_certificate_key lib certfile s | None \<Rightarrow> ssh_plain_key lib s) of
             Inl r \<Rightarrow> r
           | Inr (key, s) \<Rightarrow>
               (let (ret, s) = ssh_call (sl_userauth_publickey lib key) (ssh_log (Sent_publickey key) s)
                in ssh_method_result lib Auth_retry_after_prompt ''Could not authenticate with public SSH key. %s'' ret s))"

definition remmina_ssh_auth_auto_pubkey :: "'w libssh \<Rightarrow> 'w ssh \<Rightarrow> ssh_auth_result \<times> 'w ssh" where
  "remmina_ssh_auth_auto_pubkey lib s =
     (let (ret, s) = ssh_call (sl_userauth_publickey_auto lib (sh_passphrase s))
            (ssh_log (Sent_publickey_auto (sh_passphrase s)) s)
      in ssh_method_result lib Auth_retry_after_prompt ''Could not authenticate automatically with public SSH key. %s'' ret s)"

definition remmina_ssh_auth_agent :: "'w libssh \<Rightarrow> 'w ssh \<Rightarrow> ssh_auth_result \<times> 'w ssh" where
  "remmina_ssh_auth_agent lib s =
     (let (ret, s) = ssh_call (sl_userauth_agent lib) (ssh_log Sent_agent s)
      in ssh_method_result lib Auth_retry_after_prompt ''Could not authenticate automatically with SSH agent. %s'' ret s)"

definition remmina_ssh_auth_gssapi :: "'w libssh \<Rightarrow> 'w ssh \<Rightarrow> ssh_auth_result \<times> 'w ssh" where
  "remmina_ssh_auth_gssapi lib s =
     (let (ret, s) = ssh_call (sl_userauth_gssapi lib) (ssh_log Sent_gssapi s)
      in ssh_method_result lib Auth_retry_after_prompt ''Could not authenticate with SSH GSSAPI/Kerberos. %s'' ret s)"

section \<open>One attempt\<close>

text \<open>
  After a partial success the method is chosen from the list of the server. The list is a
  set of bits, but the code compares the whole of it with each single bit.
\<close>

definition ssh_next_method :: "'w libssh \<Rightarrow> ssh_auth_result \<times> 'w ssh \<Rightarrow> ssh_auth_result \<times> 'w ssh" where
  "ssh_next_method lib = (\<lambda>(rv, s).
     if rv \<noteq> Auth_partial then (rv, s)
     else let s = s\<lparr>sh_password := None\<rparr>; methods = sl_userauth_list lib (sh_world s)
          in if methods = METHOD_PASSWORD then (rv, s\<lparr>sh_auth := SSH_AUTH_PASSWORD\<rparr>)
             else if methods = METHOD_PUBLICKEY then (rv, s\<lparr>sh_auth := SSH_AUTH_PUBLICKEY\<rparr>)
             else if methods = METHOD_HOSTBASED then (rv, s)
             else if methods = METHOD_INTERACTIVE then (rv, s\<lparr>sh_auth := SSH_AUTH_KBDINTERACTIVE\<rparr>)
             else (Auth_fatal_error, s))"

definition ssh_next_method_opt :: "'w libssh \<Rightarrow> ssh_auth_result option \<times> 'w ssh \<Rightarrow> ssh_auth_result option \<times> 'w ssh" where
  "ssh_next_method_opt lib = (\<lambda>(rv, s). case rv of None \<Rightarrow> (None, s) | Some rv \<Rightarrow> apfst Some (ssh_next_method lib (rv, s)))"

text \<open>The password first, then the questions of the server when it has not sufficed.\<close>

definition ssh_attempt_password :: "'w libssh \<Rightarrow> nat \<Rightarrow> 32 word \<Rightarrow> 'w ssh \<Rightarrow> ssh_auth_result option \<times> 'w ssh" where
  "ssh_attempt_password lib n methods s =
     (if sh_authenticated s then (Some Auth_success, s)
      else let (rv, s) = (if methods AND METHOD_PASSWORD \<noteq> 0 then remmina_ssh_auth_password lib s else (Auth_null, s));
               (rv, s) = (if \<not> sh_authenticated s \<and> methods AND METHOD_INTERACTIVE \<noteq> 0
                          then remmina_ssh_auth_interactive lib n s else (Some rv, s));
               (rv', s) = ssh_next_method_opt lib (rv, s)
           in (rv', if rv' = None \<or> rv = Some Auth_partial \<and> rv' = Some Auth_fatal_error then s
                    else s\<lparr>sh_error := Some ''Could not authenticate with SSH password. ''\<rparr>))"

text \<open>A method that the server must offer.\<close>

definition ssh_attempt_offered ::
  "'w libssh \<Rightarrow> bool \<Rightarrow> ('w ssh \<Rightarrow> ssh_auth_result option \<times> 'w ssh) \<Rightarrow> string \<Rightarrow> 'w ssh \<Rightarrow> ssh_auth_result option \<times> 'w ssh" where
  "ssh_attempt_offered lib offered attempt message s =
     (if offered then ssh_next_method_opt lib (attempt s)
      else (Some Auth_fatal_error, s\<lparr>sh_error := Some message\<rparr>))"

text \<open>The automatic key is tried before the list of methods is looked at.\<close>

definition ssh_attempt_auto :: "'w libssh \<Rightarrow> 32 word \<Rightarrow> 'w ssh \<Rightarrow> ssh_auth_result option \<times> 'w ssh" where
  "ssh_attempt_auto lib methods s =
     (let (rv, s) = remmina_ssh_auth_auto_pubkey lib s
      in ssh_attempt_offered lib (methods AND METHOD_PUBLICKEY \<noteq> 0) (\<lambda>s. (Some rv, s))
           ''Could not authenticate with automatic public SSH key. '' s)"

text \<open>The method of the session.\<close>

definition ssh_attempt :: "'w libssh \<Rightarrow> nat \<Rightarrow> 'w ssh \<Rightarrow> ssh_auth_result option \<times> 'w ssh" where
  "ssh_attempt lib n s =
     (let methods = sl_userauth_list lib (sh_world s)
      in if sh_auth s = SSH_AUTH_PASSWORD then ssh_attempt_password lib n methods s
         else if sh_auth s = SSH_AUTH_KBDINTERACTIVE
         then ssh_attempt_offered lib (methods AND METHOD_INTERACTIVE \<noteq> 0) (remmina_ssh_auth_interactive lib n)
                ''Could not authenticate with keyboard-interactive. '' s
         else if sh_auth s = SSH_AUTH_PUBLICKEY
         then ssh_attempt_offered lib (methods AND METHOD_PUBLICKEY \<noteq> 0) (apfst Some \<circ> remmina_ssh_auth_pubkey lib)
                ''Could not authenticate with public SSH key. '' s
         else if sh_auth s = SSH_AUTH_AGENT
         then ssh_attempt_offered lib True (apfst Some \<circ> remmina_ssh_auth_agent lib) [] s
         else if sh_auth s = SSH_AUTH_AUTO_PUBLICKEY then ssh_attempt_auto lib methods s
         else if sh_auth s = SSH_AUTH_GSSAPI
         then ssh_attempt_offered lib (methods AND METHOD_GSSAPI_MIC \<noteq> 0) (apfst Some \<circ> remmina_ssh_auth_gssapi lib)
                ''Could not authenticate with SSH GSSAPI/Kerberos. '' s
         else (Some Auth_fatal_error, s))"

definition remmina_ssh_auth :: "'w libssh \<Rightarrow> nat \<Rightarrow> cstr \<Rightarrow> 'w ssh \<Rightarrow> ssh_auth_result option \<times> 'w ssh" where
  "remmina_ssh_auth lib n password s =
     (let known = sl_is_known_server lib (sh_world s); s = ssh_log (Log_known known) s
      in if known \<noteq> Known_ok
         then (Some Auth_retry_after_prompt, remmina_ssh_set_application_error ''The public SSH key changed!'' s)
         else ssh_attempt lib n
                (case password of None \<Rightarrow> s | Some p \<Rightarrow> s\<lparr>sh_password := Some p, sh_passphrase := Some p\<rparr>))"

section \<open>The server's key\<close>

text \<open>
  A key that is not known, or not the one that is known, is accepted when the user says yes.
  The first component is the result when the authentication ends here.
\<close>

definition ssh_key_question :: "known_hosts \<Rightarrow> string \<Rightarrow> string" where
  "ssh_key_question known keyname =
     (if known = Known_unknown \<or> known = Known_not_found
      then ''The server is unknown. The public key fingerprint is:''
      else ''Warning: The server has changed its public key. This means you are either under attack,'' @ [CHR 0x0A] @
        ''or the administrator has changed the key. The new public key fingerprint is:'') @
     [CHR 0x0A] @ keyname @ [CHR 0x0A, CHR 0x0A] @ ''Do you trust the new public key?''"

definition ssh_check_server :: "'w libssh \<Rightarrow> 'w ssh \<Rightarrow> ssh_auth_result option \<times> 'w ssh" where
  "ssh_check_server lib s =
     (let known = sl_is_known_server lib (sh_world s); s = ssh_log (Log_known known) s
      in if known = Known_ok then (None, s)
         else if known = Known_error
         then (Some Auth_fatal_error, remmina_ssh_set_error lib ''Could not check list of known SSH hosts. %s'' s)
         else case sl_server_publickey lib (sh_world s) of
                None \<Rightarrow> (Some Auth_fatal_error, remmina_ssh_set_error lib ''Could not fetch the server's public SSH key. %s'' s)
              | Some key \<Rightarrow>
                  (case sl_publickey_hash lib key of
                     None \<Rightarrow> (Some Auth_fatal_error,
                       remmina_ssh_set_error lib ''Could not fetch checksum of the public SSH key. %s'' s)
                   | Some keyname \<Rightarrow>
                       (let question = ssh_key_question known keyname;
                            (rc, s) = ssh_panel (remmina_protocol_widget_panel_question_yesno (sl_user lib) question) s;
                            s = ssh_log (Log_question question rc) s
                        in if rc \<noteq> Response_yes then (Some Auth_usercancel, s)
                           else (None, ssh_do (sl_update_known_hosts lib) s))))"

section \<open>Asking the user\<close>

datatype ssh_secret = Secret_password | Secret_passphrase | Secret_token | Secret_interactive

text \<open>What the method asks the user for, and the setting that holds it.\<close>

definition ssh_secret_of :: "'w ssh \<Rightarrow> (ssh_secret \<times> string) option" where
  "ssh_secret_of s =
     (let key = (\<lambda>tunnel own. if sh_is_tunnel s then tunnel else own)
      in if sh_auth s = SSH_AUTH_PASSWORD then Some (Secret_password, key ''ssh_tunnel_password'' ''password'')
         else if sh_auth s = SSH_AUTH_PUBLICKEY \<or> sh_auth s = SSH_AUTH_AGENT \<or> sh_auth s = SSH_AUTH_AUTO_PUBLICKEY
         then Some (Secret_passphrase, key ''ssh_tunnel_passphrase'' ''ssh_passphrase'')
         else if sh_auth s = SSH_AUTH_GSSAPI
         then Some (Secret_token, key ''ssh_tunnel_kerberos_token'' ''ssh_kerberos_token'')
         else if sh_auth s = SSH_AUTH_KBDINTERACTIVE
         then Some (Secret_interactive, key ''ssh_tunnel_password'' ''password'')
         else None)"

definition ssh_username_key :: "'w ssh \<Rightarrow> string" where
  "ssh_username_key s = (if sh_is_tunnel s then ''ssh_tunnel_username'' else ''username'')"

definition ssh_ask :: "'w libssh \<Rightarrow> panel_request \<Rightarrow> 'w ssh \<Rightarrow> panel_response \<times> 'w ssh" where
  "ssh_ask lib request = ssh_panel (remmina_protocol_widget_panel_auth (sl_user lib) request)"

text \<open>The password of the panel is kept in the profile, or taken out of it.\<close>

definition ssh_keep_password :: "string \<Rightarrow> 'w ssh \<Rightarrow> rfile \<Rightarrow> rfile" where
  "ssh_keep_password pwdfkey s rf =
     remmina_file_set_string rf pwdfkey
       (if remmina_protocol_widget_get_savepassword (sh_gp s) then remmina_protocol_widget_get_password (sh_gp s) else None)"

text \<open>
  The three panels. \<open>Inl\<close> is the result when the authentication ends with the panel, \<open>Inr\<close> the
  password to try next.
\<close>

definition ssh_prompt_username ::
  "'w libssh \<Rightarrow> string \<Rightarrow> 'w ssh \<times> rfile \<Rightarrow> (ssh_auth_result + cstr) \<times> 'w ssh \<times> rfile" where
  "ssh_prompt_username lib pwdfkey = (\<lambda>(s, rf).
     let (rc, s) = ssh_ask lib ((plain_request RPWDT_AUTH
           (if sh_is_tunnel s then ''SSH tunnel private key credentials'' else ''SSH private key credentials''))
             \<lparr>pr_ask_username := True, pr_offer_save := True, pr_username := remmina_file_get_string rf (ssh_username_key s),
              pr_password := remmina_file_get_string rf pwdfkey\<rparr>) s
     in if rc \<noteq> Response_ok then (Inl Auth_usercancel, s, rf)
        else let user = remmina_protocol_widget_get_username (sh_gp s);
                 rf = ssh_keep_password pwdfkey s (remmina_file_set_string rf (ssh_username_key s) user)
             in (Inl Auth_reconnect,
                 s\<lparr>sh_user := user, sh_passphrase := remmina_protocol_widget_get_password (sh_gp s), sh_error := None\<rparr>, rf))"

definition ssh_prompt_passphrase ::
  "'w libssh \<Rightarrow> bool \<Rightarrow> string \<Rightarrow> 'w ssh \<times> rfile \<Rightarrow> (ssh_auth_result + cstr) \<times> 'w ssh \<times> rfile" where
  "ssh_prompt_passphrase lib disablestoring pwdfkey = (\<lambda>(s, rf).
     let (rc, s) = ssh_ask lib ((plain_request RPWDT_AUTH
           (if sh_is_tunnel s then ''SSH tunnel credentials'' else ''SSH credentials''))
             \<lparr>pr_offer_save := \<not> disablestoring, pr_password := remmina_file_get_string rf pwdfkey\<rparr>) s
     in if rc \<noteq> Response_ok then (Inl Auth_usercancel, s, rf)
        else (Inr (remmina_protocol_widget_get_password (sh_gp s)), s, ssh_keep_password pwdfkey s rf))"

definition ssh_prompt_password ::
  "'w libssh \<Rightarrow> bool \<Rightarrow> string \<Rightarrow> cstr \<Rightarrow> 'w ssh \<times> rfile \<Rightarrow> (ssh_auth_result + cstr) \<times> 'w ssh \<times> rfile" where
  "ssh_prompt_password lib disablestoring pwdfkey current_pwd = (\<lambda>(s, rf).
     let (rc, s) = ssh_ask lib ((plain_request RPWDT_AUTH
           (if sh_is_tunnel s then ''SSH tunnel credentials'' else ''SSH credentials''))
             \<lparr>pr_ask_username := True, pr_username_readonly := sh_is_tunnel s, pr_offer_save := \<not> disablestoring,
              pr_username := remmina_file_get_string rf (ssh_username_key s), pr_password := current_pwd\<rparr>) s
     in if rc \<noteq> Response_ok then (Inl Auth_usercancel, s, rf)
        else let pwd = remmina_protocol_widget_get_password (sh_gp s); rf = ssh_keep_password pwdfkey s rf
             in if \<not> sh_is_tunnel s \<and> \<not> sh_is_multiauth s
                then let user = remmina_protocol_widget_get_username (sh_gp s)
                     in (Inl Auth_reconnect, s\<lparr>sh_user := user, sh_password := pwd\<rparr>, remmina_file_set_string rf ''username'' user)
                else (Inr pwd, s, rf))"

definition ssh_prompt ::
  "'w libssh \<Rightarrow> bool \<Rightarrow> ssh_secret \<Rightarrow> string \<Rightarrow> ssh_auth_result \<Rightarrow> cstr \<Rightarrow> 'w ssh \<times> rfile \<Rightarrow>
     (ssh_auth_result + cstr) \<times> 'w ssh \<times> rfile" where
  "ssh_prompt lib disablestoring secret pwdfkey ret current_pwd s =
     (case secret of
        Secret_passphrase \<Rightarrow>
          if ret = Auth_empty_username then ssh_prompt_username lib pwdfkey s
          else ssh_prompt_passphrase lib disablestoring pwdfkey s
      | Secret_password \<Rightarrow> ssh_prompt_password lib disablestoring pwdfkey current_pwd s
      | _ \<Rightarrow> (Inr current_pwd, s))"

text \<open>The further attempts, at most \<open>attempts\<close> of them.\<close>

fun ssh_retry ::
  "'w libssh \<Rightarrow> nat \<Rightarrow> bool \<Rightarrow> ssh_secret \<Rightarrow> string \<Rightarrow> nat \<Rightarrow> ssh_auth_result option \<Rightarrow> cstr \<Rightarrow> 'w ssh \<times> rfile \<Rightarrow>
     ssh_auth_result option \<times> 'w ssh \<times> rfile" where
  "ssh_retry lib n disablestoring secret pwdfkey 0 ret current_pwd s = (ret, s)"
| "ssh_retry lib n disablestoring secret pwdfkey (Suc attempts) ret current_pwd s =
     (if ret \<noteq> Some Auth_retry_after_prompt \<and> ret \<noteq> Some Auth_empty_username then (ret, s)
      else case ssh_prompt lib disablestoring secret pwdfkey (the ret) current_pwd s of
             (Inl result, s) \<Rightarrow> (Some result, s)
           | (Inr pwd, s, rf) \<Rightarrow>
               (let (ret, s) = remmina_ssh_auth lib n pwd s
                in ssh_retry lib n disablestoring secret pwdfkey attempts ret pwd (s, rf)))"

definition remmina_ssh_auth_gui :: "'w libssh \<Rightarrow> nat \<Rightarrow> 'w ssh \<times> rfile \<Rightarrow> ssh_auth_result option \<times> 'w ssh \<times> rfile" where
  "remmina_ssh_auth_gui lib n = (\<lambda>(s, rf).
     case ssh_check_server lib s of
       (Some result, s) \<Rightarrow> (Some result, s, rf)
     | (None, s) \<Rightarrow>
         (case ssh_secret_of s of
            None \<Rightarrow> (Some Auth_fatal_error, s, rf)
          | Some (secret, pwdfkey) \<Rightarrow>
              (let disablestoring = (remmina_file_get_int rf ''disablepasswordstoring'' 0 \<noteq> 0);
                   current_pwd = remmina_file_get_string rf pwdfkey;
                   (ret, s) = remmina_ssh_auth lib n current_pwd s;
                   result = ssh_retry lib n disablestoring secret pwdfkey 2 ret current_pwd (s, rf)
               in if fst result = Some Auth_retry_after_prompt \<or> fst result = Some Auth_again
                  then (Some Auth_fatal_error, snd result) else result)))"

section \<open>The loops around it\<close>

datatype ssh_loop = Loop_running | Loop_failed cstr | Loop_connected

definition ssh_drop_session :: "'w libssh \<Rightarrow> 'w ssh \<Rightarrow> 'w ssh" where
  "ssh_drop_session lib s = (if sh_session s then ssh_do (sl_disconnect lib) (s\<lparr>sh_session := False\<rparr>) else s)"

text \<open>
  The loop of \<open>remmina_protocol_widget_init_tunnel\<close> and of the SSH terminal: after a partial
  success the session is kept for the next method. libssh is called with a NULL session when
  the session has been dropped and is not made again.
\<close>

fun ssh_connect_loop ::
  "'w libssh \<Rightarrow> bool \<Rightarrow> nat \<Rightarrow> nat \<Rightarrow> bool \<Rightarrow> 'w ssh \<times> rfile \<Rightarrow> (ssh_loop \<times> 'w ssh \<times> rfile) c_result" where
  "ssh_connect_loop lib parseconfig n 0 multi s = Ret (Loop_running, s)"
| "ssh_connect_loop lib parseconfig n (Suc fuel) multi (s, rf) =
     c_bind (if multi then Ret (True, s) else remmina_ssh_init_session lib parseconfig s) (\<lambda>(ok, s).
       if \<not> ok then Ret (Loop_failed (sh_error s), s, rf)
       else if \<not> sh_session s then Crash
       else case remmina_ssh_auth_gui lib n (s, rf) of
              (None, s) \<Rightarrow> Ret (Loop_running, s)
            | (Some Auth_success, s) \<Rightarrow> Ret (Loop_connected, s)
            | (Some Auth_partial, s) \<Rightarrow> ssh_connect_loop lib parseconfig n fuel True s
            | (Some Auth_reconnect, s, rf) \<Rightarrow> ssh_connect_loop lib parseconfig n fuel multi (ssh_drop_session lib s, rf)
            | (Some Auth_usercancel, s) \<Rightarrow> Ret (Loop_failed None, s)
            | (Some _, s, rf) \<Rightarrow> Ret (Loop_failed (sh_error s), s, rf))"

text \<open>The loop of the SFTP plugin, which makes a new session every time.\<close>

fun sftp_connect_loop ::
  "'w libssh \<Rightarrow> bool \<Rightarrow> nat \<Rightarrow> nat \<Rightarrow> 'w ssh \<times> rfile \<Rightarrow> (ssh_loop \<times> 'w ssh \<times> rfile) c_result" where
  "sftp_connect_loop lib parseconfig n 0 s = Ret (Loop_running, s)"
| "sftp_connect_loop lib parseconfig n (Suc fuel) (s, rf) =
     c_bind (remmina_ssh_init_session lib parseconfig s) (\<lambda>(ok, s).
       if \<not> ok then Ret (Loop_failed (sh_error s), s, rf)
       else case remmina_ssh_auth_gui lib n (s, rf) of
              (None, s) \<Rightarrow> Ret (Loop_running, s)
            | (Some Auth_success, s) \<Rightarrow> Ret (Loop_connected, s)
            | (Some Auth_reconnect, s, rf) \<Rightarrow> sftp_connect_loop lib parseconfig n fuel (ssh_drop_session lib s, rf)
            | (Some Auth_usercancel, s) \<Rightarrow> Ret (Loop_failed None, s)
            | (Some _, s, rf) \<Rightarrow> Ret (Loop_failed (sh_error s), s, rf))"

definition remmina_protocol_widget_init_tunnel ::
  "'w libssh \<Rightarrow> (string \<Rightarrow> gint \<Rightarrow> (string \<times> gint) option) \<Rightarrow> bool \<Rightarrow> nat \<Rightarrow> nat \<Rightarrow> 'w ssh \<Rightarrow> widget_data \<times> 'w \<Rightarrow> rfile \<Rightarrow>
     (ssh_loop \<times> 'w ssh \<times> rfile) c_result" where
  "remmina_protocol_widget_init_tunnel lib parse parseconfig n fuel memory = (\<lambda>(gp, w) rf.
     ssh_connect_loop lib parseconfig n fuel False
       (remmina_ssh_init_from_file lib parse rf True (ssh_g_new memory gp w), rf))"

end
