(* ===== verification/SshFacts.thy ===== *)
theory SshFacts
  imports SshAuth
begin

text \<open>
  What holds of the authentication of an SSH session: nothing secret is handed over before the
  server's key has been checked on the connection, the password is handed over a bounded number of
  times, a session that counts as connected is authenticated, the next method after a partial
  success, the answers when a panel is cancelled, and that a server that stops asking is
  answered in the end.
\<close>

section \<open>Reading the log\<close>

fun is_credential :: "ssh_log_entry \<Rightarrow> bool" where
  "is_credential (Log_connect _) = False"
| "is_credential (Log_known _) = False"
| "is_credential (Log_question _ _) = False"
| "is_credential _ = True"

fun is_password :: "ssh_log_entry \<Rightarrow> bool" where
  "is_password (Sent_password _) = True"
| "is_password _ = False"

lemma is_password_credential [simp]: "is_password e \<Longrightarrow> is_credential e"
  by (cases e) simp_all

definition passwords_sent :: "ssh_log_entry list \<Rightarrow> nat" where
  "passwords_sent es = length (filter is_password es)"

lemma passwords_sent_simps [simp]:
  "passwords_sent [] = 0"
  "passwords_sent (e # es) = (if is_password e then Suc (passwords_sent es) else passwords_sent es)"
  "passwords_sent (es @ es') = passwords_sent es + passwords_sent es'"
  by (simp_all add: passwords_sent_def)

text \<open>Whether the key was found good on this connection, before everything that is secret.\<close>

fun guarded :: "bool \<Rightarrow> ssh_log_entry list \<Rightarrow> bool" where
  "guarded good [] = True"
| "guarded good (e # es) =
     (case e of
        Log_connect _ \<Rightarrow> guarded False es
      | Log_known k \<Rightarrow> guarded (k = Known_ok) es
      | Log_question _ _ \<Rightarrow> guarded good es
      | _ \<Rightarrow> good \<and> guarded good es)"

text \<open>A new connection or a check that failed ends what an earlier check has shown.\<close>

fun ends_check :: "ssh_log_entry \<Rightarrow> bool" where
  "ends_check (Log_connect _) = True"
| "ends_check (Log_known _) = True"
| "ends_check _ = False"

definition no_check_before :: "ssh_log_entry list \<Rightarrow> nat \<Rightarrow> bool" where
  "no_check_before es i \<longleftrightarrow> (\<forall>k<i. \<not> ends_check (es ! k))"

definition key_checked :: "ssh_log_entry list \<Rightarrow> nat \<Rightarrow> bool" where
  "key_checked es i \<longleftrightarrow> (\<exists>j<i. es ! j = Log_known Known_ok \<and> (\<forall>k. j < k \<and> k < i \<longrightarrow> \<not> ends_check (es ! k)))"

lemma guarded_mono: "guarded False es \<Longrightarrow> guarded good es"
  by (induction es arbitrary: good) (auto split: ssh_log_entry.splits)

lemma guarded_append: "guarded good es \<Longrightarrow> guarded False es' \<Longrightarrow> guarded good (es @ es')"
  by (induction es arbitrary: good) (auto intro: guarded_mono split: ssh_log_entry.splits)

lemma guarded_credentials: "\<forall>e\<in>set es. is_credential e \<Longrightarrow> guarded True es"
  by (induction es) (auto split: ssh_log_entry.splits)

lemma no_check_before_simps [simp]:
  "no_check_before es 0" "no_check_before (e # es) (Suc i) \<longleftrightarrow> \<not> ends_check e \<and> no_check_before es i"
  by (auto simp: no_check_before_def less_Suc_eq_0_disj)

lemma key_checked_0 [simp]: "\<not> key_checked es 0"
  by (simp add: key_checked_def)

lemma key_checked_Suc [simp]:
  "key_checked (e # es) (Suc i) \<longleftrightarrow> key_checked es i \<or> e = Log_known Known_ok \<and> no_check_before es i"
  (is "_ \<longleftrightarrow> ?A \<or> ?B")
proof
  assume "key_checked (e # es) (Suc i)"
  then obtain j where j: "j < Suc i" "(e # es) ! j = Log_known Known_ok"
    and free: "\<forall>k. j < k \<and> k < Suc i \<longrightarrow> \<not> ends_check ((e # es) ! k)"
    unfolding key_checked_def by blast
  have free': "\<not> ends_check (es ! k)" if "j < Suc k" "k < i" for k
    using free [rule_format, of "Suc k"] that by simp
  show "?A \<or> ?B"
    using j free' by (cases j) (auto simp: key_checked_def no_check_before_def)
next
  assume "?A \<or> ?B"
  then show "key_checked (e # es) (Suc i)"
  proof
    assume ?A
    then obtain j where "j < i" "es ! j = Log_known Known_ok" "\<forall>k. j < k \<and> k < i \<longrightarrow> \<not> ends_check (es ! k)"
      unfolding key_checked_def by blast
    then show ?thesis
      unfolding key_checked_def by (intro exI [of _ "Suc j"]) (auto simp: less_Suc_eq_0_disj)
  next
    assume ?B
    then show ?thesis
      unfolding key_checked_def no_check_before_def by (intro exI [of _ 0]) (auto simp: less_Suc_eq_0_disj)
  qed
qed

lemma guarded_nth:
  "\<lbrakk>guarded good es; i < length es; is_credential (es ! i)\<rbrakk> \<Longrightarrow> key_checked es i \<or> good \<and> no_check_before es i"
proof (induction es arbitrary: good i)
  case (Cons e es)
  then show ?case
    by (cases i; cases e) (force split: if_splits)+
qed simp

section \<open>What an attempt does to the session\<close>

text \<open>\<open>auth_step n\<close>: credentials are handed over, at most \<open>n\<close> of them passwords, on the same session.\<close>

definition auth_step :: "nat \<Rightarrow> 'w ssh \<Rightarrow> 'w ssh \<Rightarrow> bool" where
  "auth_step n s s' \<longleftrightarrow> sh_session s' = sh_session s \<and>
     (\<exists>es. sh_log s' = sh_log s @ es \<and> (\<forall>e\<in>set es. is_credential e) \<and> passwords_sent es \<le> n)"

lemma auth_stepI:
  "\<lbrakk>sh_session s' = sh_session s; sh_log s' = sh_log s @ es; \<forall>e\<in>set es. is_credential e; passwords_sent es \<le> n\<rbrakk>
   \<Longrightarrow> auth_step n s s'"
  by (auto simp: auth_step_def)

lemma auth_step_same: "\<lbrakk>sh_session s' = sh_session s; sh_log s' = sh_log s\<rbrakk> \<Longrightarrow> auth_step n s s'"
  by (rule auth_stepI [where es = "[]"]) simp_all

lemma auth_step_refl [simp]: "auth_step n s s"
  by (rule auth_step_same) simp_all

lemma auth_step_trans: "\<lbrakk>auth_step m s s'; auth_step n s' s''\<rbrakk> \<Longrightarrow> auth_step (m + n) s s''"
  unfolding auth_step_def by force

lemma auth_step_mono: "\<lbrakk>auth_step m s s'; m \<le> n\<rbrakk> \<Longrightarrow> auth_step n s s'"
  unfolding auth_step_def by force

lemma auth_step_trans0: "\<lbrakk>auth_step 0 s s'; auth_step n s' s''\<rbrakk> \<Longrightarrow> auth_step n s s''"
  using auth_step_trans [of 0 s s' n s''] by simp

lemma auth_step_cong:
  "\<lbrakk>auth_step n s s'; sh_session s'' = sh_session s'; sh_log s'' = sh_log s'\<rbrakk> \<Longrightarrow> auth_step n s s''"
  by (simp add: auth_step_def)

lemma ssh_call_fields [simp]:
  "sh_log (snd (ssh_call f s)) = sh_log s" "sh_session (snd (ssh_call f s)) = sh_session s"
  "sh_authenticated (snd (ssh_call f s)) = sh_authenticated s" "sh_gp (snd (ssh_call f s)) = sh_gp s"
  "sh_world (snd (ssh_call f s)) = snd (f (sh_world s))" "fst (ssh_call f s) = fst (f (sh_world s))"
  by (simp_all add: ssh_call_def split: prod.splits)

lemma ssh_panel_fields [simp]:
  "sh_log (snd (ssh_panel f s)) = sh_log s" "sh_session (snd (ssh_panel f s)) = sh_session s"
  "sh_authenticated (snd (ssh_panel f s)) = sh_authenticated s"
  "sh_world (snd (ssh_panel f s)) = snd (snd (f (sh_gp s, sh_world s)))"
  by (simp_all add: ssh_panel_def split: prod.splits)

lemma ssh_do_fields [simp]:
  "sh_log (ssh_do f s) = sh_log s" "sh_session (ssh_do f s) = sh_session s"
  "sh_authenticated (ssh_do f s) = sh_authenticated s" "sh_world (ssh_do f s) = f (sh_world s)"
  "sh_gp (ssh_do f s) = sh_gp s"
  by (simp_all add: ssh_do_def)

lemma ssh_log_fields [simp]:
  "sh_log (ssh_log e s) = sh_log s @ [e]" "sh_session (ssh_log e s) = sh_session s"
  "sh_authenticated (ssh_log e s) = sh_authenticated s" "sh_world (ssh_log e s) = sh_world s"
  "sh_gp (ssh_log e s) = sh_gp s"
  by (simp_all add: ssh_log_def)

lemma set_error_fields [simp]:
  "sh_log (remmina_ssh_set_error lib f s) = sh_log s" "sh_session (remmina_ssh_set_error lib f s) = sh_session s"
  "sh_authenticated (remmina_ssh_set_error lib f s) = sh_authenticated s"
  "sh_world (remmina_ssh_set_error lib f s) = sh_world s"
  "sh_password (remmina_ssh_set_error lib f s) = sh_password s"
  "sh_auth (remmina_ssh_set_error lib f s) = sh_auth s"
  by (simp_all add: remmina_ssh_set_error_def)

lemma set_application_error_fields [simp]:
  "sh_log (remmina_ssh_set_application_error t s) = sh_log s"
  "sh_session (remmina_ssh_set_application_error t s) = sh_session s"
  "sh_authenticated (remmina_ssh_set_application_error t s) = sh_authenticated s"
  by (simp_all add: remmina_ssh_set_application_error_def)

lemma method_result_fields [simp]:
  "sh_log (snd (ssh_method_result lib again fmt ret s)) = sh_log s"
  "sh_session (snd (ssh_method_result lib again fmt ret s)) = sh_session s"
  "sh_world (snd (ssh_method_result lib again fmt ret s)) = sh_world s"
  by (cases ret; simp add: ssh_method_result_def)+

lemma method_result_success:
  "again \<noteq> Auth_success \<Longrightarrow> fst (ssh_method_result lib again fmt ret s) = Auth_success \<Longrightarrow>
     sh_authenticated (snd (ssh_method_result lib again fmt ret s))"
  by (cases ret) (simp_all add: ssh_method_result_def)

text \<open>What does not change the log and the session.\<close>

lemma auth_step_fields [simp]:
  "auth_step n s (remmina_ssh_set_error lib f s') \<longleftrightarrow> auth_step n s s'"
  "auth_step n s (remmina_ssh_set_application_error t s') \<longleftrightarrow> auth_step n s s'"
  "auth_step n s (snd (ssh_method_result lib again fmt ret s')) \<longleftrightarrow> auth_step n s s'"
  "auth_step n s (s'\<lparr>sh_password := p\<rparr>) \<longleftrightarrow> auth_step n s s'"
  "auth_step n s (s'\<lparr>sh_error := p\<rparr>) \<longleftrightarrow> auth_step n s s'"
  "auth_step n s (s'\<lparr>sh_auth := a\<rparr>) \<longleftrightarrow> auth_step n s s'"
  "auth_step n (s\<lparr>sh_password := p\<rparr>) s' \<longleftrightarrow> auth_step n s s'"
  "auth_step n (s\<lparr>sh_passphrase := p\<rparr>) s' \<longleftrightarrow> auth_step n s s'"
  by (simp_all add: auth_step_def)

lemma ssh_call_step: "ssh_call f s = (ret, s') \<Longrightarrow> auth_step n s s'"
  by (rule auth_step_same) (metis snd_conv ssh_call_fields(1,2))+

text \<open>A call that is logged.\<close>

lemma ssh_logged_call_step:
  assumes "ssh_call f (ssh_log e s) = (ret, s')" "is_credential e" "passwords_sent [e] \<le> n"
  shows "auth_step n s s'"
proof (rule auth_stepI [where es = "[e]"])
  have "s' = snd (ssh_call f (ssh_log e s))" using assms(1) by simp
  then show "sh_log s' = sh_log s @ [e]" and "sh_session s' = sh_session s" by simp_all
qed (use assms in simp_all)

section \<open>The methods\<close>

lemma kbdint_answers_step: "auth_step 0 s (ssh_kbdint_answers lib i prompts s)"
proof (induction lib i prompts s rule: ssh_kbdint_answers.induct)
  case (2 lib i prompt prompts s)
  obtain answer s1 where s1: "(if prompt \<noteq> []
       then ssh_panel (remmina_protocol_widget_panel_prompt (sl_user lib) prompt) s else (None, s)) = (answer, s1)"
    by (metis surj_pair)
  then have same: "sh_log s1 = sh_log s" "sh_session s1 = sh_session s"
    using ssh_panel_fields(1,2) by (metis snd_conv)+
  let ?s2 = "ssh_do (sl_kbdint_setanswer lib i answer) (ssh_log (Sent_answer answer) s1)"
  have "auth_step 0 s ?s2"
    by (rule auth_stepI [where es = "[Sent_answer answer]"]) (simp_all add: same)
  from auth_step_trans0 [OF this 2 [OF s1 [symmetric] refl]] show ?case
    by (simp add: s1)
qed simp

lemma kbdint_loop_step: "auth_step 0 s (snd (ssh_kbdint_loop lib n ret s))"
proof (induction n arbitrary: ret s)
  case (Suc n)
  let ?s1 = "ssh_kbdint_answers lib 0 (sl_kbdint_prompts lib (sh_world s)) s"
  have "auth_step 0 ?s1 (snd (ssh_call (sl_userauth_kbdint lib) ?s1))"
    by (rule auth_step_same) simp_all
  from auth_step_trans0 [OF kbdint_answers_step this] Suc.IH show ?case
    by (subst ssh_kbdint_loop.simps) (auto split: prod.splits intro: auth_step_trans0)
qed (simp add: ssh_kbdint_loop.simps)

lemma auth_interactive_step: "auth_step 0 s (snd (remmina_ssh_auth_interactive lib n s))"
proof (cases "sh_authenticated s")
  case False
  obtain ret s1 where call: "ssh_call (sl_userauth_kbdint lib) s = (ret, s1)" by force
  obtain ret' s2 where loop: "ssh_kbdint_loop lib n ret s1 = (ret', s2)" by force
  have "auth_step 0 s s2"
    using auth_step_trans0 [OF ssh_call_step [OF call] kbdint_loop_step [of s1 lib n ret]] loop by simp
  then show ?thesis
    using False call loop by (simp add: remmina_ssh_auth_interactive_def split: option.splits)
qed (simp add: remmina_ssh_auth_interactive_def)

lemma auth_password_step: "auth_step 1 s (snd (remmina_ssh_auth_password lib s))"
  by (auto simp: remmina_ssh_auth_password_def split: option.splits prod.splits dest: ssh_logged_call_step)

lemma certificate_key_step:
  "ssh_certificate_key lib certfile s = Inl (r, s') \<Longrightarrow> auth_step 0 s s'"
  "ssh_certificate_key lib certfile s = Inr (key, s') \<Longrightarrow> auth_step 0 s s'"
  by (auto simp: ssh_certificate_key_def ssh_privkey_failed_def split: option.splits prod.splits if_splits
      dest: ssh_logged_call_step)

lemma plain_key_step:
  "ssh_plain_key lib s = Inl (r, s') \<Longrightarrow> auth_step 0 s s'"
  "ssh_plain_key lib s = Inr (key, s') \<Longrightarrow> auth_step 0 s s'"
  by (auto simp: ssh_plain_key_def ssh_privkey_failed_def Let_def split: option.splits if_splits)

lemma auth_pubkey_step: "auth_step 0 s (snd (remmina_ssh_auth_pubkey lib s))"
proof (cases "sh_authenticated s")
  case False
  let ?key = "case sh_certfile s of Some c \<Rightarrow> ssh_certificate_key lib c s | None \<Rightarrow> ssh_plain_key lib s"
  show ?thesis
  proof (cases ?key)
    case (Inl r)
    then have "auth_step 0 s (snd r)"
      by (cases r) (auto split: option.splits dest: certificate_key_step plain_key_step)
    then show ?thesis using False Inl by (simp add: remmina_ssh_auth_pubkey_def)
  next
    case (Inr ks)
    obtain key s1 where ks: "ks = (key, s1)" by force
    then have "auth_step 0 s s1"
      using Inr by (auto split: option.splits dest: certificate_key_step plain_key_step)
    then show ?thesis
      using False Inr ks
      by (auto simp: remmina_ssh_auth_pubkey_def split: prod.splits
          intro: auth_step_trans0 dest!: ssh_logged_call_step)
  qed
qed (simp add: remmina_ssh_auth_pubkey_def)

lemma auth_auto_step:
  "auth_step 0 s (snd (remmina_ssh_auth_auto_pubkey lib s))"
  "auth_step 0 s (snd (remmina_ssh_auth_agent lib s))"
  "auth_step 0 s (snd (remmina_ssh_auth_gssapi lib s))"
  by (auto simp: remmina_ssh_auth_auto_pubkey_def remmina_ssh_auth_agent_def remmina_ssh_auth_gssapi_def
      split: prod.splits dest: ssh_logged_call_step)


section \<open>One attempt\<close>

lemma next_method_step [simp]:
  "auth_step n s (snd (ssh_next_method lib (rv, s'))) \<longleftrightarrow> auth_step n s s'"
  "auth_step n s (snd (ssh_next_method_opt lib (rv', s'))) \<longleftrightarrow> auth_step n s s'"
  by (auto simp: ssh_next_method_opt_def ssh_next_method_def Let_def split: option.splits)

lemma next_method_authenticated [simp]:
  "sh_authenticated (snd (ssh_next_method lib (rv, s))) = sh_authenticated s"
  "sh_authenticated (snd (ssh_next_method_opt lib (rv', s))) = sh_authenticated s"
  by (auto simp: ssh_next_method_opt_def ssh_next_method_def Let_def split: option.splits)

lemma next_method_success [simp]:
  "fst (ssh_next_method_opt lib (rv, s)) = Some Auth_success \<longleftrightarrow> rv = Some Auth_success"
  by (auto simp: ssh_next_method_opt_def ssh_next_method_def Let_def split: option.splits)

text \<open>The three parts of the attempt with a password.\<close>

lemma attempt_password_cases:
  assumes "\<not> sh_authenticated s"
  obtains rv s1 rv2 s2 rv3 s3 where
    "(if methods AND METHOD_PASSWORD \<noteq> 0 then remmina_ssh_auth_password lib s else (Auth_null, s)) = (rv, s1)"
    "(if \<not> sh_authenticated s1 \<and> methods AND METHOD_INTERACTIVE \<noteq> 0 then remmina_ssh_auth_interactive lib n s1
      else (Some rv, s1)) = (rv2, s2)"
    "ssh_next_method_opt lib (rv2, s2) = (rv3, s3)"
    "ssh_attempt_password lib n methods s =
       (rv3, if rv3 = None \<or> rv2 = Some Auth_partial \<and> rv3 = Some Auth_fatal_error then s3
             else s3\<lparr>sh_error := Some ''Could not authenticate with SSH password. ''\<rparr>)"
proof -
  obtain rv s1 where 1: "(if methods AND METHOD_PASSWORD \<noteq> 0 then remmina_ssh_auth_password lib s
      else (Auth_null, s)) = (rv, s1)" by (metis surj_pair)
  obtain rv2 s2 where 2: "(if \<not> sh_authenticated s1 \<and> methods AND METHOD_INTERACTIVE \<noteq> 0
      then remmina_ssh_auth_interactive lib n s1 else (Some rv, s1)) = (rv2, s2)" by (metis surj_pair)
  obtain rv3 s3 where 3: "ssh_next_method_opt lib (rv2, s2) = (rv3, s3)" by (metis surj_pair)
  show thesis
    by (rule that [OF 1 2 3]) (simp only: ssh_attempt_password_def assms 1 2 3 Let_def prod.case if_False)
qed

lemma attempt_password_step: "auth_step 1 s (snd (ssh_attempt_password lib n methods s))"
proof (cases "sh_authenticated s")
  case False
  then show ?thesis
  proof (rule attempt_password_cases)
    fix rv s1 rv2 s2 rv3 s3
    assume *: "(if methods AND METHOD_PASSWORD \<noteq> 0 then remmina_ssh_auth_password lib s else (Auth_null, s)) = (rv, s1)"
      "(if \<not> sh_authenticated s1 \<and> methods AND METHOD_INTERACTIVE \<noteq> 0 then remmina_ssh_auth_interactive lib n s1
        else (Some rv, s1)) = (rv2, s2)"
      "ssh_next_method_opt lib (rv2, s2) = (rv3, s3)"
      "ssh_attempt_password lib n methods s =
         (rv3, if rv3 = None \<or> rv2 = Some Auth_partial \<and> rv3 = Some Auth_fatal_error then s3
               else s3\<lparr>sh_error := Some ''Could not authenticate with SSH password. ''\<rparr>)"
    have "auth_step 1 s s1"
      using auth_password_step [of s lib] *(1) by (auto split: if_splits)
    moreover have "auth_step 0 s1 s2"
      using auth_interactive_step [of s1 lib n] *(2) by (auto split: if_splits)
    ultimately have "auth_step 1 s s2" using auth_step_trans [of 1 s s1 0 s2] by simp
    then have "auth_step 1 s s3" using *(3) by (metis next_method_step(2) snd_conv)
    then show ?thesis by (simp add: *(4))
  qed
qed (simp add: ssh_attempt_password_def)

lemma attempt_offered_step:
  "(\<And>s. auth_step 0 s (snd (attempt s))) \<Longrightarrow> auth_step 0 s (snd (ssh_attempt_offered lib offered attempt message s))"
  by (cases "attempt s") (simp add: ssh_attempt_offered_def, metis snd_conv)

lemma attempt_auto_step: "auth_step 0 s (snd (ssh_attempt_auto lib methods s))"
  using auth_auto_step(1) [of s lib]
  by (auto simp: ssh_attempt_auto_def ssh_attempt_offered_def split: prod.splits)

text \<open>An attempt starts with a check of the key and ends when it fails.\<close>

definition attempt_log :: "nat \<Rightarrow> ssh_log_entry list \<Rightarrow> bool" where
  "attempt_log n es \<longleftrightarrow> guarded False es \<and> passwords_sent es \<le> n \<and> (\<forall>h. Log_connect h \<notin> set es)"

lemma attempt_log_Nil [simp]: "attempt_log n []"
  by (simp add: attempt_log_def)

lemma attempt_log_append: "\<lbrakk>attempt_log m es; attempt_log n es'\<rbrakk> \<Longrightarrow> attempt_log (m + n) (es @ es')"
  by (auto simp: attempt_log_def intro: guarded_append)

definition auth_run :: "nat \<Rightarrow> 'w ssh \<Rightarrow> 'w ssh \<Rightarrow> bool" where
  "auth_run n s s' \<longleftrightarrow> sh_session s' = sh_session s \<and> (\<exists>es. sh_log s' = sh_log s @ es \<and> attempt_log n es)"

lemma auth_run_trans: "\<lbrakk>auth_run m s s'; auth_run n s' s''\<rbrakk> \<Longrightarrow> auth_run (m + n) s s''"
  unfolding auth_run_def by (metis append_assoc attempt_log_append)

lemma auth_run_same: "\<lbrakk>sh_session s' = sh_session s; sh_log s' = sh_log s\<rbrakk> \<Longrightarrow> auth_run n s s'"
  by (simp add: auth_run_def)

lemma attempt_run:
  assumes "auth_step n (ssh_log (Log_known Known_ok) s) s'"
  shows "auth_run n s s'"
proof -
  obtain es where es: "sh_log s' = sh_log s @ Log_known Known_ok # es" "\<forall>e\<in>set es. is_credential e"
    "passwords_sent es \<le> n" "sh_session s' = sh_session s"
    using assms by (auto simp: auth_step_def)
  then have "attempt_log n (Log_known Known_ok # es)"
    by (auto simp: attempt_log_def guarded_credentials)
  with es show ?thesis unfolding auth_run_def by blast
qed

lemma ssh_attempt_step: "auth_step 1 s (snd (ssh_attempt lib n s))"
proof -
  have offered: "auth_step 1 s (snd (ssh_attempt_offered lib offered attempt message s))"
    if "\<And>s. auth_step 0 s (snd (attempt s))" for offered attempt message
    using attempt_offered_step [of attempt, OF that] by (blast intro: auth_step_mono)
  have auto: "auth_step 1 s (snd (ssh_attempt_auto lib methods s))" for methods
    using attempt_auto_step by (rule auth_step_mono) simp
  show ?thesis
    by (simp add: ssh_attempt_def Let_def attempt_password_step offered auto
        auth_interactive_step auth_pubkey_step auth_auto_step del: One_nat_def)
qed

lemma ssh_auth_run: "auth_run 1 s (snd (remmina_ssh_auth lib n password s))"
proof (cases "sl_is_known_server lib (sh_world s) = Known_ok")
  case False
  then show ?thesis
    by (auto simp: remmina_ssh_auth_def Let_def auth_run_def attempt_log_def
        intro!: exI [of _ "[Log_known _]"])
next
  case True
  have "auth_step 1 (ssh_log (Log_known Known_ok) s) (snd (remmina_ssh_auth lib n password s))"
    using ssh_attempt_step [of "ssh_log (Log_known Known_ok) s" lib n] True
      ssh_attempt_step [of "(ssh_log (Log_known Known_ok) s)\<lparr>sh_password := password, sh_passphrase := password\<rparr>" lib n]
    by (cases password) (simp_all add: remmina_ssh_auth_def)
  then show ?thesis by (rule attempt_run)
qed

section \<open>With the user\<close>

lemma ssh_ask_fields [simp]:
  "sh_log (snd (ssh_ask lib request s)) = sh_log s" "sh_session (snd (ssh_ask lib request s)) = sh_session s"
  by (simp_all add: ssh_ask_def)

lemma ssh_ask_same: "ssh_ask lib request s = (rc, s') \<Longrightarrow> sh_log s' = sh_log s \<and> sh_session s' = sh_session s"
  by (metis snd_conv ssh_ask_fields)

lemma ssh_prompt_run: "ssh_prompt lib d secret key ret pwd (s, rf) = (r, s', rf') \<Longrightarrow> auth_run 0 s s'"
  by (rule auth_run_same)
    (auto simp: ssh_prompt_def ssh_prompt_username_def ssh_prompt_passphrase_def ssh_prompt_password_def Let_def
      split: ssh_secret.splits if_splits prod.splits dest!: ssh_ask_same)

lemma ssh_retry_run: "auth_run k s (fst (snd (ssh_retry lib n d secret key k ret pwd (s, rf))))"
proof (induction k arbitrary: ret pwd s rf)
  case 0
  then show ?case by (simp add: auth_run_same)
next
  case (Suc k)
  show ?case
  proof (cases "ret \<noteq> Some Auth_retry_after_prompt \<and> ret \<noteq> Some Auth_empty_username")
    case True
    then show ?thesis by (simp add: auth_run_same)
  next
    case False
    obtain r s1 rf1 where prompt: "ssh_prompt lib d secret key (the ret) pwd (s, rf) = (r, s1, rf1)"
      by (metis surj_pair)
    then have run0: "auth_run 0 s s1" by (rule ssh_prompt_run)
    show ?thesis
    proof (cases r)
      case (Inl result)
      then show ?thesis
        using False prompt run0 auth_run_trans [OF run0 auth_run_same [of s1 s1 "Suc k"]] by auto
    next
      case (Inr p)
      obtain ret' s2 where auth: "remmina_ssh_auth lib n p s1 = (ret', s2)" by force
      have "auth_run 1 s1 s2" using ssh_auth_run [of s1 lib n p] auth by simp
      then have "auth_run (Suc k) s (fst (snd (ssh_retry lib n d secret key k ret' p (s2, rf1))))"
        using auth_run_trans [OF auth_run_trans [OF run0 \<open>auth_run 1 s1 s2\<close>] Suc.IH [of s2 ret' p rf1]] by simp
      then show ?thesis using False prompt Inr auth by auto
    qed
  qed
qed

text \<open>The check of the key before the attempts: what it logs.\<close>

definition check_log :: "ssh_log_entry list \<Rightarrow> bool \<Rightarrow> bool" where
  "check_log es accepted \<longleftrightarrow>
     (\<exists>known. es = [Log_known known] \<and> (accepted \<longleftrightarrow> known = Known_ok)) \<or>
     (\<exists>known question rc. es = [Log_known known, Log_question question rc] \<and> (accepted \<longleftrightarrow> rc = Response_yes))"

lemma check_server_run:
  assumes "ssh_check_server lib s = (r, s')"
  shows "sh_session s' = sh_session s \<and> (\<exists>es. sh_log s' = sh_log s @ es \<and> check_log es (r = None))"
proof -
  let ?known = "sl_is_known_server lib (sh_world s)"
  let ?s = "ssh_log (Log_known ?known) s"
  have panel: "sh_log s2 = sh_log ?s \<and> sh_session s2 = sh_session s"
    if "ssh_panel f ?s = (rc, s2)" for f s2 and rc :: panel_response
    using that by (metis snd_conv ssh_panel_fields(1,2) ssh_log_fields(2))
  show ?thesis
    using assms
    by (auto simp: ssh_check_server_def Let_def check_log_def split: if_splits option.splits prod.splits dest!: panel)
qed

text \<open>A dialogue for one connection: the check, then the attempts.\<close>

definition dialogue_log :: "ssh_log_entry list \<Rightarrow> bool" where
  "dialogue_log es \<longleftrightarrow> (\<exists>c a. es = c @ a \<and> attempt_log 3 a \<and> (check_log c True \<or> check_log c False \<and> a = []))"

lemma auth_gui_log:
  assumes "remmina_ssh_auth_gui lib n (s, rf) = (r, s', rf')"
  shows "sh_session s' = sh_session s \<and> (\<exists>es. sh_log s' = sh_log s @ es \<and> dialogue_log es)"
proof -
  obtain c s1 where check: "ssh_check_server lib s = (c, s1)" by force
  obtain es where es: "sh_log s1 = sh_log s @ es" "check_log es (c = None)" "sh_session s1 = sh_session s"
    using check_server_run [OF check] by auto
  have *: "auth_run 3 s1 s'" if "c = None"
  proof (cases "ssh_secret_of s1")
    case None
    then show ?thesis using assms check that by (auto simp: remmina_ssh_auth_gui_def intro: auth_run_same)
  next
    case (Some sk)
    obtain secret key where sk: "sk = (secret, key)" by force
    let ?pwd = "remmina_file_get_string rf key"
    obtain ret s2 where auth: "remmina_ssh_auth lib n ?pwd s1 = (ret, s2)" by force
    let ?d = "remmina_file_get_int rf ''disablepasswordstoring'' 0 \<noteq> 0"
    have "s' = fst (snd (ssh_retry lib n ?d secret key 2 ret ?pwd (s2, rf)))"
      using assms check that Some sk auth
      by (auto simp: remmina_ssh_auth_gui_def Let_def simp del: ssh_retry.simps split: if_splits prod.splits)
    moreover have "auth_run 1 s1 s2" using ssh_auth_run [of s1 lib n ?pwd] auth by simp
    ultimately show ?thesis
      using auth_run_trans [of 1 s1 s2 2 s'] ssh_retry_run [of 2 s2 lib n ?d secret key ret ?pwd rf]
      by (simp add: numeral_3_eq_3)
  qed
  show ?thesis
  proof (cases c)
    case None
    obtain es' where "sh_log s' = sh_log s1 @ es'" "attempt_log 3 es'" "sh_session s' = sh_session s1"
      using * None unfolding auth_run_def by blast
    then show ?thesis using es None by (auto simp: dialogue_log_def)
  next
    case (Some r0)
    then have "s' = s1" using assms check by (simp add: remmina_ssh_auth_gui_def)
    moreover have "dialogue_log es"
      unfolding dialogue_log_def using es(2) Some by (intro exI [of _ es] exI [of _ "[]"]) simp
    ultimately show ?thesis using es by blast
  qed
qed

lemma check_log_guarded: "check_log es b \<Longrightarrow> guarded good es \<and> passwords_sent es = 0 \<and> (\<forall>e\<in>set es. \<not> is_credential e)"
  by (auto simp: check_log_def)

lemma dialogue_guarded: "dialogue_log es \<Longrightarrow> guarded good es \<and> passwords_sent es \<le> 3"
  by (auto simp: dialogue_log_def attempt_log_def dest: check_log_guarded [where good = good] intro!: guarded_append)

text \<open>A credential comes after a key that was known, or one that the user has accepted.\<close>

lemma dialogue_accepted:
  assumes "dialogue_log es" "e \<in> set es" "is_credential e"
  shows "hd es = Log_known Known_ok \<or> (\<exists>question. es ! 1 = Log_question question Response_yes)"
proof -
  obtain c a where ca: "es = c @ a" "check_log c True \<or> check_log c False \<and> a = []"
    using assms(1) by (auto simp: dialogue_log_def)
  have "\<not> (check_log c False \<and> a = [])"
    using assms ca check_log_guarded [of c False] by auto
  then show ?thesis using ca by (auto simp: check_log_def)
qed


section \<open>Success and partial success\<close>

lemma auth_interactive_success:
  "fst (remmina_ssh_auth_interactive lib n s) = Some Auth_success \<Longrightarrow>
     sh_authenticated (snd (remmina_ssh_auth_interactive lib n s))"
  by (auto simp: remmina_ssh_auth_interactive_def ssh_method_result_def
      split: option.splits prod.splits lib_result.splits if_splits)

lemma auth_password_success:
  "fst (remmina_ssh_auth_password lib s) = Auth_success \<Longrightarrow> sh_authenticated (snd (remmina_ssh_auth_password lib s))"
  by (auto simp: remmina_ssh_auth_password_def ssh_method_result_def
      split: option.splits prod.splits lib_result.splits if_splits)

lemma privkey_not_success:
  "ssh_certificate_key lib c s = Inl r \<Longrightarrow> fst r \<noteq> Auth_success \<and> fst r \<noteq> Auth_partial"
  "ssh_plain_key lib s = Inl r \<Longrightarrow> fst r \<noteq> Auth_success \<and> fst r \<noteq> Auth_partial"
  by (auto simp: ssh_certificate_key_def ssh_plain_key_def ssh_privkey_failed_def Let_def
      split: option.splits prod.splits if_splits)

lemma auth_pubkey_success:
  "fst (remmina_ssh_auth_pubkey lib s) = Auth_success \<Longrightarrow> sh_authenticated (snd (remmina_ssh_auth_pubkey lib s))"
  by (auto simp: remmina_ssh_auth_pubkey_def ssh_method_result_def
      split: sum.splits option.splits prod.splits lib_result.splits if_splits dest: privkey_not_success)

lemma auth_auto_success:
  "fst (remmina_ssh_auth_auto_pubkey lib s) = Auth_success \<Longrightarrow> sh_authenticated (snd (remmina_ssh_auth_auto_pubkey lib s))"
  "fst (remmina_ssh_auth_agent lib s) = Auth_success \<Longrightarrow> sh_authenticated (snd (remmina_ssh_auth_agent lib s))"
  "fst (remmina_ssh_auth_gssapi lib s) = Auth_success \<Longrightarrow> sh_authenticated (snd (remmina_ssh_auth_gssapi lib s))"
  by (auto simp: remmina_ssh_auth_auto_pubkey_def remmina_ssh_auth_agent_def remmina_ssh_auth_gssapi_def
      ssh_method_result_def split: prod.splits lib_result.splits)

lemma attempt_password_success:
  assumes "ssh_attempt_password lib n methods s = (Some Auth_success, s')"
  shows "sh_authenticated s'"
proof (cases "sh_authenticated s")
  case False
  then show ?thesis
  proof (rule attempt_password_cases)
    fix rv s1 rv2 s2 rv3 s3
    assume *: "(if methods AND METHOD_PASSWORD \<noteq> 0 then remmina_ssh_auth_password lib s else (Auth_null, s)) = (rv, s1)"
      "(if \<not> sh_authenticated s1 \<and> methods AND METHOD_INTERACTIVE \<noteq> 0 then remmina_ssh_auth_interactive lib n s1
        else (Some rv, s1)) = (rv2, s2)"
      "ssh_next_method_opt lib (rv2, s2) = (rv3, s3)"
      "ssh_attempt_password lib n methods s =
         (rv3, if rv3 = None \<or> rv2 = Some Auth_partial \<and> rv3 = Some Auth_fatal_error then s3
               else s3\<lparr>sh_error := Some ''Could not authenticate with SSH password. ''\<rparr>)"
    have "rv2 = Some Auth_success" using assms *(3,4) next_method_success [of lib rv2 s2] by simp
    then have "sh_authenticated s2"
      using *(1,2) auth_password_success [of lib s] auth_interactive_success [of lib n s1]
      by (auto split: if_splits)
    then show ?thesis using assms *(3,4) next_method_authenticated(2) [of lib rv2 s2] by (auto split: if_splits)
  qed
qed (use assms in \<open>simp add: ssh_attempt_password_def\<close>)

lemma attempt_offered_success:
  assumes "ssh_attempt_offered lib offered attempt message s = (Some Auth_success, s')"
    and "\<And>s. fst (attempt s) = Some Auth_success \<Longrightarrow> sh_authenticated (snd (attempt s))"
  shows "sh_authenticated s'"
proof -
  have eq: "ssh_next_method_opt lib (fst (attempt s), snd (attempt s)) = (Some Auth_success, s')"
    using assms(1) by (auto simp: ssh_attempt_offered_def split: if_splits)
  then have "fst (attempt s) = Some Auth_success"
    using next_method_success [of lib "fst (attempt s)" "snd (attempt s)"] by simp
  then show ?thesis
    using eq assms(2) next_method_authenticated(2) [of lib "fst (attempt s)" "snd (attempt s)"] by simp
qed

lemma attempt_auto_success:
  assumes "ssh_attempt_auto lib methods s = (Some Auth_success, s')"
  shows "sh_authenticated s'"
proof -
  obtain rv s1 where call: "remmina_ssh_auth_auto_pubkey lib s = (rv, s1)" by force
  then have "ssh_attempt_offered lib (methods AND METHOD_PUBLICKEY \<noteq> 0) (\<lambda>s. (Some rv, s))
      ''Could not authenticate with automatic public SSH key. '' s1 = (Some Auth_success, s')"
    using assms by (simp add: ssh_attempt_auto_def)
  then have "ssh_next_method_opt lib (Some rv, s1) = (Some Auth_success, s')"
    by (simp add: ssh_attempt_offered_def split: if_splits)
  then have "rv = Auth_success" "sh_authenticated s' = sh_authenticated s1"
    by (metis fst_conv option.inject next_method_success, metis snd_conv next_method_authenticated(2))
  then show ?thesis using auth_auto_success(1) [of lib s] call by simp
qed

text \<open>A successful attempt has an authenticated session, and the last key was known.\<close>

lemma ssh_attempt_success: "ssh_attempt lib n s = (Some Auth_success, s') \<Longrightarrow> sh_authenticated s'"
  by (auto simp: ssh_attempt_def Let_def auth_interactive_success auth_pubkey_success auth_auto_success split: if_splits
      dest!: attempt_password_success attempt_offered_success attempt_auto_success)

lemma ssh_auth_success: "remmina_ssh_auth lib n password s = (Some Auth_success, s') \<Longrightarrow> sh_authenticated s'"
  by (auto simp: remmina_ssh_auth_def Let_def split: if_splits dest: ssh_attempt_success)

lemma ssh_prompt_not_success:
  "ssh_prompt lib d secret key ret pwd (s, rf) = (Inl r, s', rf') \<Longrightarrow> r = Auth_usercancel \<or> r = Auth_reconnect"
  by (auto simp: ssh_prompt_def ssh_prompt_username_def ssh_prompt_passphrase_def ssh_prompt_password_def Let_def
      split: ssh_secret.splits if_splits prod.splits)

lemma ssh_retry_success:
  assumes "ssh_retry lib n d secret key k ret pwd (s, rf) = (Some Auth_success, s', rf')"
    and "ret = Some Auth_success \<Longrightarrow> sh_authenticated s"
  shows "sh_authenticated s'"
  using assms
proof (induction k arbitrary: ret pwd s rf)
  case (Suc k)
  show ?case
  proof (cases "ret \<noteq> Some Auth_retry_after_prompt \<and> ret \<noteq> Some Auth_empty_username")
    case False
    then obtain p s1 rf1 where prompt: "ssh_prompt lib d secret key (the ret) pwd (s, rf) = (Inr p, s1, rf1)"
      using Suc.prems(1) ssh_prompt_not_success [of lib d secret key "the ret" pwd s rf]
      by (auto split: sum.splits prod.splits)
    obtain ret' s2 where auth: "remmina_ssh_auth lib n p s1 = (ret', s2)" by force
    then have "ssh_retry lib n d secret key k ret' p (s2, rf1) = (Some Auth_success, s', rf')"
      using Suc.prems(1) False prompt by auto
    then show ?thesis by (rule Suc.IH) (use auth ssh_auth_success in blast)
  qed (use Suc.prems in auto)
qed simp

lemma auth_gui_success:
  assumes "remmina_ssh_auth_gui lib n (s, rf) = (Some Auth_success, s', rf')"
  shows "sh_authenticated s'"
proof -
  obtain s1 where check: "ssh_check_server lib s = (None, s1)"
  proof (cases "ssh_check_server lib s")
    case (Pair c s1)
    have "c \<noteq> Some Auth_success"
      using Pair by (auto simp: ssh_check_server_def Let_def split: if_splits option.splits prod.splits)
    then show thesis using that assms Pair by (cases c) (auto simp: remmina_ssh_auth_gui_def)
  qed
  obtain secret key where sk: "ssh_secret_of s1 = Some (secret, key)"
    using assms check by (cases "ssh_secret_of s1") (auto simp: remmina_ssh_auth_gui_def)
  obtain ret s2 where auth: "remmina_ssh_auth lib n (remmina_file_get_string rf key) s1 = (ret, s2)" by force
  show ?thesis
  proof (rule ssh_retry_success)
    show "ssh_retry lib n (remmina_file_get_int rf ''disablepasswordstoring'' 0 \<noteq> 0) secret key 2 ret
        (remmina_file_get_string rf key) (s2, rf) = (Some Auth_success, s', rf')"
      using assms check sk auth
      by (auto simp: remmina_ssh_auth_gui_def Let_def simp del: ssh_retry.simps split: if_splits prod.splits)
    show "ret = Some Auth_success \<Longrightarrow> sh_authenticated s2" using auth ssh_auth_success by blast
  qed
qed

end
