(* ===== verification/SshProps.thy ===== *)
theory SshProps
  imports SshFacts
begin

text \<open>
  The connection of an SSH session, the loop around the authentication, the termination of the
  questions of the server, and the properties of the SSH component.
\<close>

section \<open>The connection\<close>

definition only_connects :: "'w ssh \<Rightarrow> 'w ssh \<Rightarrow> bool" where
  "only_connects s s' \<longleftrightarrow> sh_session s' = sh_session s \<and>
     (\<exists>es. sh_log s' = sh_log s @ es \<and> (\<forall>e\<in>set es. \<exists>h. e = Log_connect h))"

lemma only_connects_same: "\<lbrakk>sh_session s' = sh_session s; sh_log s' = sh_log s\<rbrakk> \<Longrightarrow> only_connects s s'"
  by (simp add: only_connects_def)

lemma only_connects_trans: "\<lbrakk>only_connects s s'; only_connects s' s''\<rbrakk> \<Longrightarrow> only_connects s s''"
  unfolding only_connects_def by force

lemma only_connects_guarded:
  "only_connects s s' \<Longrightarrow> \<exists>es. sh_log s' = sh_log s @ es \<and> guarded False es"
proof -
  have "\<forall>e\<in>set es. \<exists>h. e = Log_connect h \<Longrightarrow> guarded False es" for es
    by (induction es) auto
  then show "only_connects s s' \<Longrightarrow> ?thesis" unfolding only_connects_def by blast
qed

lemma ssh_set_fields [simp]:
  "sh_log (ssh_set lib opt v s) = sh_log s" "sh_session (ssh_set lib opt v s) = sh_session s"
  "sh_world (ssh_set lib opt v s) = sl_options_set lib opt v (sh_world s)"
  by (simp_all add: ssh_set_def)

lemma ssh_adopt_fields:
  assumes "\<And>v s. sh_log (put v s) = sh_log s" "\<And>v s. sh_session (put v s) = sh_session s"
  shows "sh_log (ssh_adopt lib opt get put s) = sh_log s" "sh_session (ssh_adopt lib opt get put s) = sh_session s"
  by (simp_all add: ssh_adopt_def Let_def assms split: option.splits)

lemma option_steps_fields [simp]:
  "sh_log (ssh_set_host lib s) = sh_log s" "sh_session (ssh_set_host lib s) = sh_session s"
  "sh_log (ssh_set_allow_rsa lib s) = sh_log s" "sh_session (ssh_set_allow_rsa lib s) = sh_session s"
  "sh_log (ssh_set_identity lib s) = sh_log s" "sh_session (ssh_set_identity lib s) = sh_session s"
  "sh_log (ssh_parse_config lib pc s) = sh_log s" "sh_session (ssh_parse_config lib pc s) = sh_session s"
  "sh_log (ssh_set_user lib s) = sh_log s" "sh_session (ssh_set_user lib s) = sh_session s"
  "sh_log (ssh_adopt_stricthostkeycheck lib s) = sh_log s"
  "sh_session (ssh_adopt_stricthostkeycheck lib s) = sh_session s"
  by (simp_all add: ssh_set_host_def ssh_set_allow_rsa_def ssh_set_identity_def ssh_parse_config_def ssh_set_user_def
      ssh_adopt_stricthostkeycheck_def Let_def split: option.splits)

lemma session_options_fields [simp]:
  "sh_log (ssh_session_options lib pc s) = sh_log s" "sh_session (ssh_session_options lib pc s) = sh_session s"
  by (simp_all add: ssh_session_options_def ssh_adopt_fields)

lemma command_line_fields:
  "ssh_command_line lib s = Ret s' \<Longrightarrow> sh_log s' = sh_log s \<and> sh_session s' = sh_session s"
  by (auto simp: ssh_command_line_def Let_def split: option.splits if_splits)

lemma connect_once_only: "ssh_connect_once lib s = (ok, s') \<Longrightarrow> only_connects s s'"
proof -
  assume a: "ssh_connect_once lib s = (ok, s')"
  then have "s' = snd (ssh_call (sl_connect lib) (ssh_log (Log_connect (sl_options_get lib Opt_host (sh_world s))) s))"
    by (simp add: ssh_connect_once_def)
  then show ?thesis by (simp add: only_connects_def)
qed

lemma try_addresses_only:
  assumes "\<And>s. only_connects s (note s)"
  shows "ssh_try_addresses lib note as s = (ok, s') \<Longrightarrow> only_connects s s'"
proof (induction as arbitrary: s)
  case Nil
  then show ?case by (simp add: only_connects_same)
next
  case (Cons a as)
  let ?s = "ssh_set lib Opt_host (Text_value (Some a)) s"
  obtain ok1 s1 where once: "ssh_connect_once lib ?s = (ok1, s1)" by force
  have to_s1: "only_connects s s1"
    by (rule only_connects_trans [OF only_connects_same connect_once_only [OF once]]) simp_all
  show ?case
  proof (cases ok1)
    case False
    have "only_connects s1 (note (ssh_do (sl_disconnect lib) s1))"
      by (rule only_connects_trans [OF only_connects_same assms]) simp_all
    then show ?thesis
      using Cons.IH [of "note (ssh_do (sl_disconnect lib) s1)"] Cons.prems once False to_s1
      by (auto intro: only_connects_trans)
  qed (use Cons.prems once to_s1 in simp)
qed

lemma connect_fallback_only: "ssh_connect_fallback lib s = (ok, s') \<Longrightarrow> only_connects s s'"
proof -
  have note6: "only_connects s (id s)" and note4: "only_connects s (remmina_ssh_set_application_error t s)"
    for s :: "'a ssh" and t
    by (simp_all add: only_connects_same)
  obtain ok6 s6 where six: "(case sl_resolve_inet6 lib (sl_options_get lib Opt_host (sh_world s)) (sh_world s) of
       None \<Rightarrow> (False, remmina_ssh_set_application_error
          (''Could not resolve hostname '' @ ssh_hostname_text (sl_options_get lib Opt_host (sh_world s)) @ '' to IPv6'') s)
     | Some as \<Rightarrow> ssh_try_addresses lib id as s) = (ok6, s6)" by (metis surj_pair)
  then have "only_connects s s6"
    using note6 try_addresses_only [of id lib _ s] by (auto split: option.splits intro: note4)
  moreover assume "ssh_connect_fallback lib s = (ok, s')"
  then have "only_connects s6 s'"
    using six by (auto simp: ssh_connect_fallback_def Let_def only_connects_same split: if_splits option.splits
        dest: try_addresses_only [OF note4])
  ultimately show ?thesis by (rule only_connects_trans)
qed

lemma init_session_only:
  assumes "remmina_ssh_init_session lib pc s = Ret (ok, s')"
  shows "sh_session s' \<and> (\<exists>es. sh_log s' = sh_log s @ es \<and> guarded False es)"
proof -
  let ?s = "ssh_do (sl_new lib) (s\<lparr>sh_session := True\<rparr>)"
  have "only_connects ?s s'"
  proof (cases "sh_is_tunnel ?s \<longleftrightarrow> sh_tunnel_entrance_host ?s \<noteq> None")
    case True
    then show ?thesis using assms
      by (intro only_connects_same; cases "sh_is_tunnel s")
        (auto simp: remmina_ssh_init_session_def Let_def ssh_do_def)
  next
    case False
    then obtain s1 where line: "ssh_command_line lib (ssh_session_options lib pc ?s) = Ret s1"
      using assms by (cases "ssh_command_line lib (ssh_session_options lib pc ?s)")
        (auto simp: remmina_ssh_init_session_def Let_def ssh_do_def split: if_splits)
    have s1: "only_connects ?s s1"
      using command_line_fields [OF line] by (simp add: only_connects_same)
    obtain ok1 s2 where once: "ssh_connect_once lib s1 = (ok1, s2)" by force
    obtain ok2 s3 where fall: "(if ok1 then (True, s2) else ssh_connect_fallback lib s2) = (ok2, s3)"
      by (metis surj_pair)
    have s2: "only_connects s1 s2" by (rule connect_once_only [OF once])
    have s3: "only_connects s2 s3"
      using fall by (auto simp: only_connects_same split: if_splits dest: connect_fallback_only)
    have s': "only_connects s3 s'"
      using assms False line once fall
      by (auto simp: remmina_ssh_init_session_def Let_def ssh_do_def only_connects_def ssh_call_def
          split: if_splits prod.splits)
    show ?thesis by (intro only_connects_trans [OF s1] only_connects_trans [OF s2] only_connects_trans [OF s3] s')
  qed
  from only_connects_guarded [OF this] this show ?thesis
    by (simp add: only_connects_def)
qed

section \<open>The loop\<close>

lemma drop_session_log [simp]: "sh_log (ssh_drop_session lib s) = sh_log s"
  by (simp add: ssh_drop_session_def)

lemma connect_loop_inv:
  assumes "ssh_connect_loop lib pc n fuel multi (s, rf) = Ret (r, s', rf')"
  shows "(\<exists>es. sh_log s' = sh_log s @ es \<and> guarded False es) \<and>
    (r = Loop_connected \<longrightarrow> sh_session s' \<and> sh_authenticated s')"
  using assms
proof (induction fuel arbitrary: multi s rf)
  case (Suc fuel)
  obtain ok s1 where init: "(if multi then Ret (True, s) else remmina_ssh_init_session lib pc s) = Ret (ok, s1)"
    using Suc.prems by (auto simp: c_bind_Ret_iff)
  then have log1: "\<exists>es. sh_log s1 = sh_log s @ es \<and> guarded False es"
    using init_session_only [of lib pc s ok s1] by (auto split: if_splits)
  show ?case
  proof (cases "ok")
    case False
    then show ?thesis using Suc.prems init log1 by auto
  next
    case True
    obtain g s2 rf2 where gui: "remmina_ssh_auth_gui lib n (s1, rf) = (g, s2, rf2)" by (metis surj_pair)
    have session: "sh_session s1" using Suc.prems init True by (auto split: if_splits)
    have log2: "\<exists>es. sh_log s2 = sh_log s @ es \<and> guarded False es"
      using auth_gui_log [OF gui] log1 by (metis append_assoc dialogue_guarded guarded_append)
    have trans: "\<exists>es. sh_log s' = sh_log s @ es \<and> guarded False es"
      if "\<exists>es. sh_log s' = sh_log s2 @ es \<and> guarded False es"
      using that log2 by (metis append_assoc guarded_append)
    have rest: "(case g of
          None \<Rightarrow> Ret (Loop_running, s2, rf2)
        | Some Auth_success \<Rightarrow> Ret (Loop_connected, s2, rf2)
        | Some Auth_partial \<Rightarrow> ssh_connect_loop lib pc n fuel True (s2, rf2)
        | Some Auth_reconnect \<Rightarrow> ssh_connect_loop lib pc n fuel multi (ssh_drop_session lib s2, rf2)
        | Some Auth_usercancel \<Rightarrow> Ret (Loop_failed None, s2, rf2)
        | Some _ \<Rightarrow> Ret (Loop_failed (sh_error s2), s2, rf2)) = Ret (r, s', rf')"
      using Suc.prems init gui True session
      by (cases multi) (auto split: option.splits ssh_auth_result.splits)
    show ?thesis
    proof (cases "g = Some Auth_partial \<or> g = Some Auth_reconnect")
      case True
      then have "ssh_connect_loop lib pc n fuel True (s2, rf2) = Ret (r, s', rf') \<or>
          ssh_connect_loop lib pc n fuel multi (ssh_drop_session lib s2, rf2) = Ret (r, s', rf')"
        using rest by auto
      then show ?thesis using Suc.IH [of True s2 rf2] Suc.IH [of multi "ssh_drop_session lib s2" rf2] trans by auto
    next
      case other: False
      have "r = Loop_connected \<Longrightarrow> g = Some Auth_success"
        using rest other by (auto split: option.splits ssh_auth_result.splits)
      moreover have "s' = s2" using rest other by (auto split: option.splits ssh_auth_result.splits)
      ultimately show ?thesis
        using log2 session auth_gui_log [OF gui] auth_gui_success gui by auto
    qed
  qed
qed simp

section \<open>Questions of the server\<close>

lemma kbdint_answers_world:
  assumes "\<And>i a w. rounds (sl_kbdint_setanswer lib i a w) \<le> rounds w" "\<And>q w. rounds (snd (sl_user lib q w)) \<le> (rounds w :: nat)"
  shows "rounds (sh_world (ssh_kbdint_answers lib i prompts s)) \<le> rounds (sh_world s)"
proof (induction prompts arbitrary: i s)
  case (Cons prompt prompts)
  obtain answer s1 where s1: "(if prompt \<noteq> []
       then ssh_panel (remmina_protocol_widget_panel_prompt (sl_user lib) prompt) s else (None, s)) = (answer, s1)"
    by (metis surj_pair)
  then have "rounds (sh_world s1) \<le> rounds (sh_world s)"
    using assms(2) by (auto simp: ssh_panel_def remmina_protocol_widget_panel_prompt_def
        remmina_protocol_widget_dialog_def split: if_splits prod.splits) (metis snd_conv)
  moreover have "rounds (sh_world (ssh_kbdint_answers lib (Suc i) prompts
      (ssh_do (sl_kbdint_setanswer lib i answer) (ssh_log (Sent_answer answer) s1)))) \<le> rounds (sh_world s1)"
    using Cons [of "Suc i" "ssh_do (sl_kbdint_setanswer lib i answer) (ssh_log (Sent_answer answer) s1)"] assms(1)
    by (auto intro: le_trans)
  ultimately show ?case using s1 by simp
qed simp

lemma kbdint_loop_returns:
  assumes answer: "\<And>i a w. rounds (sl_kbdint_setanswer lib i a w) \<le> rounds w"
    and user: "\<And>q w. rounds (snd (sl_user lib q w)) \<le> (rounds w :: nat)"
    and stop: "\<And>w. fst (sl_userauth_kbdint lib w) = Lib_info \<Longrightarrow> rounds (snd (sl_userauth_kbdint lib w)) < rounds w"
  shows "(ret = Lib_info \<Longrightarrow> rounds (sh_world s) < n) \<Longrightarrow> fst (ssh_kbdint_loop lib n ret s) \<noteq> None"
proof (induction n arbitrary: ret s)
  case 0
  then show ?case by (auto simp: ssh_kbdint_loop.simps)
next
  case (Suc n)
  show ?case
  proof (cases "ret = Lib_info")
    case True
    let ?s1 = "ssh_kbdint_answers lib 0 (sl_kbdint_prompts lib (sh_world s)) s"
    obtain ret' s2 where call: "ssh_call (sl_userauth_kbdint lib) ?s1 = (ret', s2)" by force
    have w: "rounds (sh_world ?s1) \<le> rounds (sh_world s)"
      by (rule kbdint_answers_world [OF answer user])
    have "rounds (sh_world s2) < n" if "ret' = Lib_info"
    proof -
      have "fst (sl_userauth_kbdint lib (sh_world ?s1)) = Lib_info"
        and "sh_world s2 = snd (sl_userauth_kbdint lib (sh_world ?s1))"
        using call that by (metis fst_conv ssh_call_fields(6), metis snd_conv ssh_call_fields(5))
      then show ?thesis using stop [of "sh_world ?s1"] w Suc.prems True by simp
    qed
    then show ?thesis
      using Suc.IH [of ret' s2] True call by (subst ssh_kbdint_loop.simps) (simp add: Let_def)
  qed (simp add: ssh_kbdint_loop.simps)
qed


lemma auth_interactive_returns:
  assumes "\<And>i a w. rounds (sl_kbdint_setanswer lib i a w) \<le> rounds w"
    and "\<And>q w. rounds (snd (sl_user lib q w)) \<le> (rounds w :: nat)"
    and "\<And>w. fst (sl_userauth_kbdint lib w) = Lib_info \<Longrightarrow> rounds (snd (sl_userauth_kbdint lib w)) < rounds w"
    and "\<And>w. rounds w \<le> n"
  shows "fst (remmina_ssh_auth_interactive lib n s) \<noteq> None"
proof (cases "sh_authenticated s")
  case False
  obtain ret s1 where call: "ssh_call (sl_userauth_kbdint lib) s = (ret, s1)" by force
  obtain ret' s2 where loop: "ssh_kbdint_loop lib n ret s1 = (ret', s2)" by force
  have "rounds (sh_world s1) < n" if "ret = Lib_info"
  proof -
    have "fst (sl_userauth_kbdint lib (sh_world s)) = Lib_info"
      and "sh_world s1 = snd (sl_userauth_kbdint lib (sh_world s))"
      using call that by (metis fst_conv ssh_call_fields(6), metis snd_conv ssh_call_fields(5))
    then show ?thesis using assms(3) [of "sh_world s"] assms(4) [of "sh_world s"] by simp
  qed
  then have "ret' \<noteq> None"
    using kbdint_loop_returns [where rounds = rounds and lib = lib and s = s1 and n = n and ret = ret, OF assms(1-3)] loop
    by simp
  then show ?thesis using False call loop by (auto simp: remmina_ssh_auth_interactive_def)
qed (simp add: remmina_ssh_auth_interactive_def)

text \<open>The rounds of the questions are the only ones that are counted.\<close>

lemma next_method_opt_None [simp]: "fst (ssh_next_method_opt lib (rv, s)) = None \<longleftrightarrow> rv = None"
  by (simp add: ssh_next_method_opt_def split: option.splits)

lemma attempt_offered_returns:
  "(\<And>s. fst (attempt s) \<noteq> None) \<Longrightarrow> fst (ssh_attempt_offered lib offered attempt message s) \<noteq> None"
  using next_method_opt_None [of lib "fst (attempt s)" "snd (attempt s)"]
  by (simp add: ssh_attempt_offered_def del: not_None_eq)

lemma attempt_password_returns:
  assumes "\<And>s. fst (remmina_ssh_auth_interactive lib n s) \<noteq> None"
  shows "fst (ssh_attempt_password lib n methods s) \<noteq> None"
proof (cases "sh_authenticated s")
  case False
  then show ?thesis
  proof (rule attempt_password_cases)
    fix rv s1 rv2 s2 rv3 s3
    assume *: "(if \<not> sh_authenticated s1 \<and> methods AND METHOD_INTERACTIVE \<noteq> 0 then remmina_ssh_auth_interactive lib n s1
        else (Some rv, s1)) = (rv2, s2)"
      "ssh_next_method_opt lib (rv2, s2) = (rv3, s3)"
      "ssh_attempt_password lib n methods s =
         (rv3, if rv3 = None \<or> rv2 = Some Auth_partial \<and> rv3 = Some Auth_fatal_error then s3
               else s3\<lparr>sh_error := Some ''Could not authenticate with SSH password. ''\<rparr>)"
    have "rv2 \<noteq> None" using *(1) assms [of s1] by (auto split: if_splits)
    then show ?thesis using *(2,3) next_method_opt_None [of lib rv2 s2] by simp
  qed
qed (simp add: ssh_attempt_password_def)

lemma ssh_auth_returns:
  assumes "\<And>s. fst (remmina_ssh_auth_interactive lib n s) \<noteq> None"
  shows "fst (remmina_ssh_auth lib n password s) \<noteq> None"
proof -
  have "fst (ssh_attempt_auto lib methods s) \<noteq> None" for methods s
    by (cases "remmina_ssh_auth_auto_pubkey lib s")
      (simp add: ssh_attempt_auto_def attempt_offered_returns del: not_None_eq)
  then have "fst (ssh_attempt lib n s) \<noteq> None" for s
    by (simp add: ssh_attempt_def Let_def attempt_password_returns attempt_offered_returns assms del: not_None_eq)
  then show ?thesis by (simp add: remmina_ssh_auth_def Let_def del: not_None_eq)
qed

lemma ssh_retry_returns:
  assumes "\<And>s. fst (remmina_ssh_auth_interactive lib n s) \<noteq> None"
  shows "ret \<noteq> None \<Longrightarrow> fst (ssh_retry lib n d secret key k ret pwd (s, rf)) \<noteq> None"
proof (induction k arbitrary: ret pwd s rf)
  case (Suc k)
  obtain r s1 rf1 where prompt: "ssh_prompt lib d secret key (the ret) pwd (s, rf) = (r, s1, rf1)" by (metis surj_pair)
  show ?case
  proof (cases r)
    case (Inr p)
    obtain ret' s2 where auth: "remmina_ssh_auth lib n p s1 = (ret', s2)" by force
    have "ret' \<noteq> None" using ssh_auth_returns [OF assms, of p s1] auth by simp
    then show ?thesis using Suc.IH [of ret' p s2 rf1] Suc.prems prompt Inr auth by simp
  qed (use Suc.prems prompt in simp)
qed simp

lemma auth_gui_returns:
  assumes "\<And>s. fst (remmina_ssh_auth_interactive lib n s) \<noteq> None"
  shows "fst (remmina_ssh_auth_gui lib n (s, rf)) \<noteq> None"
proof -
  have retry: "fst (ssh_retry lib n d secret key k ret pwd (s2, rf)) \<noteq> None"
    if "remmina_ssh_auth lib n pwd s1 = (ret, s2)" for d secret key k pwd ret s1 s2
    by (rule ssh_retry_returns [OF assms]) (use that ssh_auth_returns [OF assms, of pwd s1] in simp)
  obtain c s1 where check: "ssh_check_server lib s = (c, s1)" by force
  show ?thesis
  proof (cases "c = None \<and> ssh_secret_of s1 \<noteq> None")
    case True
    then obtain secret key where sk: "ssh_secret_of s1 = Some (secret, key)" by auto
    obtain ret s2 where "remmina_ssh_auth lib n (remmina_file_get_string rf key) s1 = (ret, s2)" by force
    with True check sk retry [OF this] show ?thesis
      by (simp add: remmina_ssh_auth_gui_def Let_def del: ssh_retry.simps)
  qed (use check in \<open>auto simp: remmina_ssh_auth_gui_def split: option.splits\<close>)
qed


section \<open>The next method\<close>

definition next_method_chosen :: "'w libssh \<Rightarrow> 'w ssh \<Rightarrow> bool" where
  "next_method_chosen lib s \<longleftrightarrow> sh_password s = None \<and>
     (let methods = sl_userauth_list lib (sh_world s)
      in methods = METHOD_PASSWORD \<and> sh_auth s = SSH_AUTH_PASSWORD \<or>
         methods = METHOD_PUBLICKEY \<and> sh_auth s = SSH_AUTH_PUBLICKEY \<or>
         methods = METHOD_INTERACTIVE \<and> sh_auth s = SSH_AUTH_KBDINTERACTIVE \<or>
         methods = METHOD_HOSTBASED)"

lemma next_method_opt_partial:
  "ssh_next_method_opt lib (rv, s) = (Some Auth_partial, s') \<Longrightarrow> next_method_chosen lib s'"
  by (auto simp: ssh_next_method_opt_def ssh_next_method_def next_method_chosen_def Let_def split: option.splits if_splits)

lemma attempt_offered_partial:
  "ssh_attempt_offered lib offered attempt message s = (Some Auth_partial, s') \<Longrightarrow> next_method_chosen lib s'"
  by (cases "attempt s") (auto simp: ssh_attempt_offered_def split: if_splits dest: next_method_opt_partial)

lemma attempt_auto_partial: "ssh_attempt_auto lib methods s = (Some Auth_partial, s') \<Longrightarrow> next_method_chosen lib s'"
  by (auto simp: ssh_attempt_auto_def split: prod.splits dest: attempt_offered_partial)

lemma attempt_password_partial:
  assumes "ssh_attempt_password lib n methods s = (Some Auth_partial, s')"
  shows "next_method_chosen lib s'"
proof (cases "sh_authenticated s")
  case False
  then show ?thesis
  proof (rule attempt_password_cases)
    fix rv2 s2 rv3 s3
    assume "ssh_next_method_opt lib (rv2, s2) = (rv3, s3)"
      "ssh_attempt_password lib n methods s =
         (rv3, if rv3 = None \<or> rv2 = Some Auth_partial \<and> rv3 = Some Auth_fatal_error then s3
               else s3\<lparr>sh_error := Some ''Could not authenticate with SSH password. ''\<rparr>)"
    moreover from this have "next_method_chosen lib s3"
      using assms by (auto intro: next_method_opt_partial)
    ultimately show ?thesis using assms by (auto simp: next_method_chosen_def split: if_splits)
  qed
qed (use assms in \<open>simp add: ssh_attempt_password_def\<close>)

lemma ssh_attempt_partial: "ssh_attempt lib n s = (Some Auth_partial, s') \<Longrightarrow> next_method_chosen lib s'"
  by (auto simp: ssh_attempt_def Let_def split: if_splits
      dest: attempt_password_partial attempt_offered_partial attempt_auto_partial)

section \<open>Cancelled questions\<close>

lemma cancelled_prompt:
  assumes "pc_response (fst (user (plain_request RPWDT_PROMPT msg) w)) \<noteq> Response_ok"
  shows "fst (remmina_protocol_widget_panel_prompt user msg (wd, w)) = wd_password wd \<and>
    fst (snd (remmina_protocol_widget_panel_prompt user msg (wd, w))) = wd"
  using assms
  by (simp add: remmina_protocol_widget_panel_prompt_def remmina_protocol_widget_dialog_def authpanel_mt_cb_def
      plain_request_def case_prod_beta Let_def)

section \<open>Addresses\<close>

definition log_addresses :: "string list \<Rightarrow> ssh_log_entry list" where
  "log_addresses as = map (\<lambda>a. Log_connect (Some a)) as"

lemma try_addresses_log:
  assumes host: "\<And>a w. sl_options_get lib Opt_host (sl_options_set lib Opt_host (Text_value (Some a)) w) = Some a"
    and quiet: "\<And>s. sh_log (note s) = sh_log s"
  shows "ssh_try_addresses lib note as s = (ok, s') \<Longrightarrow>
    \<exists>m\<le>length as. sh_log s' = sh_log s @ log_addresses (take m as) \<and> (ok \<longrightarrow> 0 < m) \<and> (\<not> ok \<longrightarrow> m = length as)"
proof (induction as arbitrary: s)
  case (Cons a as)
  let ?s = "ssh_set lib Opt_host (Text_value (Some a)) s"
  obtain ok1 s1 where once: "ssh_connect_once lib ?s = (ok1, s1)" by force
  have log1: "sh_log s1 = sh_log s @ [Log_connect (Some a)]"
  proof -
    have "s1 = snd (ssh_connect_once lib ?s)" by (simp add: once)
    then show ?thesis by (simp add: ssh_connect_once_def host)
  qed
  show ?case
  proof (cases ok1)
    case True
    then show ?thesis using Cons.prems once log1 by (auto simp: log_addresses_def intro!: exI [of _ 1])
  next
    case False
    let ?s2 = "note (ssh_do (sl_disconnect lib) s1)"
    obtain m where "m \<le> length as" "sh_log s' = sh_log ?s2 @ log_addresses (take m as)"
      "ok \<longrightarrow> 0 < m" "\<not> ok \<longrightarrow> m = length as"
      using Cons.IH [of ?s2] Cons.prems once False by auto
    then show ?thesis
      by (intro exI [of _ "Suc m"]) (simp add: log1 quiet log_addresses_def)
  qed
qed (simp add: log_addresses_def)

section \<open>A server to try the statements on\<close>

text \<open>
  The world: the rounds of questions that are left, whether the key is known, and the host.
  The user says yes to the key, and types \<open>secret\<close>.
\<close>

definition sample_ssh_user :: "(nat \<times> bool \<times> cstr) panel_user" where
  "sample_ssh_user q w =
     (\<lparr>pc_response = (if pr_type q = RPWDT_QUESTIONYESNO then Response_yes else Response_ok), pc_username = Some ''me'',
       pc_password = Some ''secret'', pc_domain = None, pc_save = False, pc_cacert = None, pc_cacrl = None,
       pc_clientcert = None, pc_clientkey = None\<rparr>, w)"

definition sample_libssh :: "(nat \<times> bool \<times> cstr) libssh" where
  "sample_libssh = \<lparr>sl_get_error = \<lambda>_. ''refused'', sl_new = id,
     sl_options_set = \<lambda>opt v (r, k, h). case v of Text_value t \<Rightarrow> (r, k, if opt = Opt_host then t else h) | _ \<Rightarrow> (r, k, h),
     sl_options_get = \<lambda>opt (r, k, h). if opt = Opt_host then h else None, sl_parse_config = id,
     sl_options_getopt = \<lambda>_. id, sl_connect = \<lambda>w. (snd (snd w) = Some ''10.0.0.2'', w), sl_disconnect = id,
     sl_options_get_port = \<lambda>_. 22, sl_resolve_inet6 = \<lambda>_ _. Some [''::1''],
     sl_resolve_inet = \<lambda>_ _. Some [''10.0.0.1'', ''10.0.0.2'', ''10.0.0.3''],
     sl_userauth_none = \<lambda>w. (Lib_denied, w),
     sl_is_known_server = \<lambda>(r, k, h). if k then Known_ok else Known_unknown,
     sl_server_publickey = \<lambda>_. Some ''key'', sl_publickey_hash = \<lambda>_. Some ''ab:cd'',
     sl_update_known_hosts = \<lambda>(r, k, h). (r, True, h), sl_userauth_list = \<lambda>_. METHOD_PASSWORD,
     sl_userauth_password = \<lambda>p w. (if p = ''secret'' then Lib_success else if p = ''first'' then Lib_partial else Lib_denied, w),
     sl_userauth_kbdint = \<lambda>(r, k, h). if 0 < r then (Lib_info, min (r - 1) 2, k, h) else (Lib_success, r, k, h),
     sl_kbdint_prompts = \<lambda>_. [''Code: '', []], sl_kbdint_setanswer = \<lambda>_ _. id,
     sl_import_privkey_file = \<lambda>_ _. None, sl_import_pubkey_file = \<lambda>_. False, sl_import_cert_file = \<lambda>_. None,
     sl_copy_cert_to_privkey = \<lambda>_ _. None, sl_try_publickey = \<lambda>_ w. (Lib_denied, w),
     sl_userauth_publickey = \<lambda>_ w. (Lib_denied, w), sl_userauth_publickey_auto = \<lambda>_ w. (Lib_denied, w),
     sl_userauth_agent = \<lambda>w. (Lib_denied, w), sl_userauth_gssapi = \<lambda>w. (Lib_denied, w),
     sl_file_exists = \<lambda>_. False, sl_home_dir = ''/root'', sl_user = sample_ssh_user\<rparr>"

definition sample_ssh_profile :: rfile where
  "sample_ssh_profile = remmina_file_new_empty\<lparr>rf_settings :=
     [(''ssh_tunnel_server'', ''gate''), (''ssh_tunnel_password'', ''first''), (''server'', ''inner'')]\<rparr>"

definition sample_ssh :: "(nat \<times> bool \<times> cstr) ssh" where
  "sample_ssh = (ssh_new0 (0, False, None))\<lparr>sh_session := True, sh_is_tunnel := True\<rparr>"

definition sample_parse :: "string \<Rightarrow> gint \<Rightarrow> (string \<times> gint) option" where
  "sample_parse server port = Some (server, port)"

section \<open>Properties\<close>

text \<open>
  C12: While the SSH tunnel of a profile is opened, however many connections, methods and
  answers of the user it takes, whatever is handed to libssh to prove the identity of the user
  (a password, an answer, a key, a certificate, the agent) comes after a check that found the
  key of the server to be the known one, on the same connection and with no other check since.
\<close>

theorem ssh_credentials_after_check:
  assumes "remmina_protocol_widget_init_tunnel lib parse pc n fuel memory (gp, w) rf = Ret (r, s, rf')"
    and "i < length (sh_log s)" and "is_credential (sh_log s ! i)"
  shows "key_checked (sh_log s) i"
proof -
  have "sh_log (remmina_ssh_init_from_file lib parse rf True (ssh_g_new memory gp w)) = []"
    by (simp add: remmina_ssh_init_from_file_def ssh_g_new_def Let_def split: prod.splits)
  then have "guarded False (sh_log s)"
    using connect_loop_inv [OF assms(1) [unfolded remmina_protocol_widget_init_tunnel_def prod.case]] by simp
  from guarded_nth [OF this assms(2,3)] show ?thesis by simp
qed

text \<open>
  C13: When the key of the server is not the known one, nothing is handed over unless the user
  has answered yes to the question about the key; and one authentication hands over at most
  three passwords, whatever the user and the server do.
\<close>

theorem ssh_unknown_server_needs_yes:
  assumes "remmina_ssh_auth_gui lib n (s, rf) = (r, s', rf')"
  shows "\<exists>es. sh_log s' = sh_log s @ es \<and> passwords_sent es \<le> 3 \<and>
    (\<forall>e\<in>set es. is_credential e \<longrightarrow> hd es = Log_known Known_ok \<or> (\<exists>question. es ! 1 = Log_question question Response_yes))"
  using auth_gui_log [OF assms] dialogue_guarded dialogue_accepted by metis


text \<open>
  C14: A partial success is reported only when the server then offers exactly one method, and a
  password, a key, questions or the host-based one; the session is set to that method, except for
  the last, and the password is forgotten. A server that leaves the choice between two methods
  is never continued with.
\<close>

theorem ssh_partial_sets_method:
  assumes "remmina_ssh_auth lib n password s = (Some Auth_partial, s')"
  shows "sh_password s' = None \<and>
    (sl_userauth_list lib (sh_world s') = METHOD_PASSWORD \<and> sh_auth s' = SSH_AUTH_PASSWORD \<or>
     sl_userauth_list lib (sh_world s') = METHOD_PUBLICKEY \<and> sh_auth s' = SSH_AUTH_PUBLICKEY \<or>
     sl_userauth_list lib (sh_world s') = METHOD_INTERACTIVE \<and> sh_auth s' = SSH_AUTH_KBDINTERACTIVE \<or>
     sl_userauth_list lib (sh_world s') = METHOD_HOSTBASED)"
proof -
  obtain s1 where "ssh_attempt lib n s1 = (Some Auth_partial, s')"
    using assms by (auto simp: remmina_ssh_auth_def Let_def split: if_splits)
  from ssh_attempt_partial [OF this] show ?thesis by (simp add: next_method_chosen_def Let_def)
qed

text \<open>
  C16: A user who cancels the questions of the server answers them all the same: every question
  that is not empty is answered with the password that the panel kept from an earlier dialog.
\<close>

theorem ssh_cancelled_questions_answered:
  assumes "\<forall>q w. pc_response (fst (sl_user lib q w)) = Response_cancel"
  shows "sh_log (ssh_kbdint_answers lib i prompts s) =
    sh_log s @ map (\<lambda>prompt. Sent_answer (if prompt = [] then None else wd_password (sh_gp s))) prompts"
proof (induction prompts arbitrary: i s)
  case (Cons prompt prompts)
  have "fst (ssh_panel (remmina_protocol_widget_panel_prompt (sl_user lib) prompt) s) = wd_password (sh_gp s)"
    and "sh_gp (snd (ssh_panel (remmina_protocol_widget_panel_prompt (sl_user lib) prompt) s)) = sh_gp s"
    using cancelled_prompt [of "sl_user lib" prompt "sh_world s" "sh_gp s"] assms
    by (simp_all add: ssh_panel_def case_prod_beta Let_def)
  then show ?case
    using Cons by (simp add: case_prod_beta Let_def)
qed simp

text \<open>
  C17: The authentication ends: when the server asks at most \<open>k\<close> rounds of questions in a row,
  \<open>k\<close> rounds of each loop over them are enough for a result, whatever the other answers of the
  server and of the user are.
\<close>

theorem ssh_auth_gui_returns:
  assumes "\<forall>i a w. rounds (sl_kbdint_setanswer lib i a w) \<le> rounds w"
    and "\<forall>q w. rounds (snd (sl_user lib q w)) \<le> rounds w"
    and "\<forall>w. fst (sl_userauth_kbdint lib w) = Lib_info \<longrightarrow> rounds (snd (sl_userauth_kbdint lib w)) < rounds w"
    and "\<forall>w. rounds w \<le> k"
  shows "\<exists>result. fst (remmina_ssh_auth_gui lib k (s, rf)) = Some result"
  using auth_gui_returns [of lib k s rf, OF auth_interactive_returns [of rounds lib k]] assms by simp

text \<open>
  When the host cannot be reached by its name, its addresses are tried one after the other,
  all those of IPv6 before those of IPv4, up to the first that connects; when the connection
  fails every address has been tried.
\<close>

theorem ssh_addresses_in_order:
  assumes "\<forall>a w. sl_options_get lib Opt_host (sl_options_set lib Opt_host (Text_value (Some a)) w) = Some a"
    and "\<forall>h w. sl_resolve_inet6 lib h w = Some as6" and "\<forall>h w. sl_resolve_inet lib h w = Some as4"
    and "ssh_connect_fallback lib s = (ok, s')"
  shows "\<exists>m\<le>length (as6 @ as4). sh_log s' = sh_log s @ log_addresses (take m (as6 @ as4)) \<and>
    (ok \<longrightarrow> 0 < m) \<and> (\<not> ok \<longrightarrow> m = length (as6 @ as4))"
proof -
  note log = try_addresses_log [of lib, OF assms(1) [rule_format]]
  obtain ok6 s6 where six: "ssh_try_addresses lib id as6 s = (ok6, s6)" by force
  from log [OF _ six] obtain m where m: "m \<le> length as6" "sh_log s6 = sh_log s @ log_addresses (take m as6)"
    "ok6 \<longrightarrow> 0 < m" "\<not> ok6 \<longrightarrow> m = length as6" by auto
  show ?thesis
  proof (cases ok6)
    case True
    then show ?thesis using m six assms by (intro exI [of _ m]) (auto simp: ssh_connect_fallback_def Let_def)
  next
    case False
    obtain message where four: "ssh_try_addresses lib (remmina_ssh_set_application_error message) as4 s6 = (ok, s')"
      using assms(2-4) six False by (auto simp: ssh_connect_fallback_def Let_def)
    from log [OF _ four] obtain m' where "m' \<le> length as4" "sh_log s' = sh_log s6 @ log_addresses (take m' as4)"
      "ok \<longrightarrow> 0 < m'" "\<not> ok \<longrightarrow> m' = length as4" by auto
    then show ?thesis using m False
      by (intro exI [of _ "length as6 + m'"]) (auto simp: log_addresses_def)
  qed
qed


section \<open>Witnesses\<close>

lemma sample_libssh_host:
  "sl_options_get sample_libssh Opt_host (sl_options_set sample_libssh Opt_host (Text_value (Some a)) w) = Some a"
  by (cases w) (simp add: sample_libssh_def)

theorem ssh_addresses_in_order_witness:
  "fst (ssh_connect_fallback sample_libssh sample_ssh) \<and>
   (\<exists>m. sh_log (snd (ssh_connect_fallback sample_libssh sample_ssh)) =
      sh_log sample_ssh @ log_addresses (take m [''::1'', ''10.0.0.1'', ''10.0.0.2'', ''10.0.0.3'']) \<and> 0 < m)"
proof -
  let ?r = "ssh_connect_fallback sample_libssh sample_ssh"
  have ok: "fst ?r" by code_simp
  have r: "\<forall>h w. sl_resolve_inet6 sample_libssh h w = Some [''::1'']"
    "\<forall>h w. sl_resolve_inet sample_libssh h w = Some [''10.0.0.1'', ''10.0.0.2'', ''10.0.0.3'']"
    by (simp_all add: sample_libssh_def)
  show ?thesis
    using ssh_addresses_in_order [of sample_libssh, OF _ r, of sample_ssh "fst ?r" "snd ?r"] ok
    by (auto simp: sample_libssh_host prod_eq_iff)
qed

theorem ssh_auth_gui_returns_witness:
  "\<exists>result. fst (remmina_ssh_auth_gui sample_libssh 3 (sample_ssh, sample_ssh_profile)) = Some result"
proof (rule ssh_auth_gui_returns [of "\<lambda>w. min (fst w) 3"])
  show "\<forall>i a w. min (fst (sl_kbdint_setanswer sample_libssh i a w)) 3 \<le> min (fst w) 3"
    "\<forall>q w. min (fst (snd (sl_user sample_libssh q w))) 3 \<le> min (fst w) 3"
    by (simp_all add: sample_libssh_def sample_ssh_user_def)
  show "\<forall>w. fst (sl_userauth_kbdint sample_libssh w) = Lib_info \<longrightarrow>
      min (fst (snd (sl_userauth_kbdint sample_libssh w))) 3 < min (fst w) 3"
    by (auto simp: sample_libssh_def)
qed simp

theorem ssh_cancelled_questions_answered_witness:
  "sh_log (ssh_kbdint_answers (sample_libssh\<lparr>sl_user := \<lambda>q w. ((fst (sample_ssh_user q w))\<lparr>pc_response := Response_cancel\<rparr>, w)\<rparr>)
      0 [''Code: '', []] (sample_ssh\<lparr>sh_gp := widget_data_new\<lparr>wd_password := Some ''key passphrase''\<rparr>\<rparr>)) =
   [Sent_answer (Some ''key passphrase''), Sent_answer None]"
  using ssh_cancelled_questions_answered
    [of "sample_libssh\<lparr>sl_user := \<lambda>q w. ((fst (sample_ssh_user q w))\<lparr>pc_response := Response_cancel\<rparr>, w)\<rparr>"
      0 "[''Code: '', []]" "sample_ssh\<lparr>sh_gp := widget_data_new\<lparr>wd_password := Some ''key passphrase''\<rparr>\<rparr>"]
  by (simp add: sample_ssh_def ssh_new0_def)

theorem ssh_partial_sets_method_witness:
  "fst (remmina_ssh_auth sample_libssh 1 (Some ''first'') (sample_ssh\<lparr>sh_world := (0, True, None)\<rparr>)) = Some Auth_partial \<and>
   sh_password (snd (remmina_ssh_auth sample_libssh 1 (Some ''first'') (sample_ssh\<lparr>sh_world := (0, True, None)\<rparr>))) = None"
proof -
  let ?r = "remmina_ssh_auth sample_libssh 1 (Some ''first'') (sample_ssh\<lparr>sh_world := (0, True, None)\<rparr>)"
  have "fst ?r = Some Auth_partial" by code_simp
  moreover from this have "?r = (Some Auth_partial, snd ?r)" by (metis prod.collapse)
  ultimately show ?thesis
    using ssh_partial_sets_method [of sample_libssh 1 "Some ''first''" "sample_ssh\<lparr>sh_world := (0, True, None)\<rparr>" "snd ?r"]
    by blast
qed

theorem ssh_unknown_server_needs_yes_witness:
  "\<exists>es. sh_log (fst (snd (remmina_ssh_auth_gui sample_libssh 1 (sample_ssh, sample_ssh_profile)))) = es \<and>
    passwords_sent es \<le> 3 \<and> Sent_password ''first'' \<in> set es \<and> hd es \<noteq> Log_known Known_ok \<and>
    (\<exists>question. es ! 1 = Log_question question Response_yes)"
proof -
  let ?g = "remmina_ssh_auth_gui sample_libssh 1 (sample_ssh, sample_ssh_profile)"
  have log: "Sent_password ''first'' \<in> set (sh_log (fst (snd ?g))) \<and> hd (sh_log (fst (snd ?g))) \<noteq> Log_known Known_ok"
    by code_simp
  have nil: "sh_log sample_ssh = []" by code_simp
  obtain es where "sh_log (fst (snd ?g)) = es" "passwords_sent es \<le> 3"
    "\<forall>e\<in>set es. is_credential e \<longrightarrow> hd es = Log_known Known_ok \<or> (\<exists>question. es ! 1 = Log_question question Response_yes)"
    using ssh_unknown_server_needs_yes [of sample_libssh 1 sample_ssh sample_ssh_profile "fst ?g" "fst (snd ?g)" "snd (snd ?g)"]
      nil by auto
  then show ?thesis using log by (metis is_credential.simps(4))
qed

text \<open>A tunnel to the sample server, with the saved password first and then the one of the panel.\<close>

definition sample_tunnel :: "(ssh_loop \<times> (nat \<times> bool \<times> cstr) ssh \<times> rfile) c_result" where
  "sample_tunnel = remmina_protocol_widget_init_tunnel (sample_libssh\<lparr>sl_userauth_password :=
       \<lambda>p w. (if p = ''secret'' then Lib_success else Lib_denied, w)\<rparr>) sample_parse False 3 3
     (ssh_new0 (0, False, None)) (widget_data_new, (0, False, None)) sample_ssh_profile"

lemma sample_tunnel_connected:
  "\<exists>s rf. sample_tunnel = Ret (Loop_connected, s, rf) \<and> 5 < length (sh_log s) \<and>
    is_credential (sh_log s ! (length (sh_log s) - 1))"
proof -
  have "case sample_tunnel of Ret (Loop_connected, s, rf) \<Rightarrow> 5 < length (sh_log s) \<and>
      is_credential (sh_log s ! (length (sh_log s) - 1)) | _ \<Rightarrow> False"
    by code_simp
  then show ?thesis
    by (auto split: c_result.splits prod.splits ssh_loop.splits)
qed

theorem ssh_credentials_after_check_witness:
  "\<exists>s rf. sample_tunnel = Ret (Loop_connected, s, rf) \<and> 5 < length (sh_log s) \<and>
    key_checked (sh_log s) (length (sh_log s) - 1)"
proof -
  obtain s rf where s: "sample_tunnel = Ret (Loop_connected, s, rf)" "5 < length (sh_log s)"
    "is_credential (sh_log s ! (length (sh_log s) - 1))"
    using sample_tunnel_connected by blast
  have "length (sh_log s) - 1 < length (sh_log s)" using s(2) by simp
  from ssh_credentials_after_check [OF s(1) [unfolded sample_tunnel_def] this s(3)] s(1,2) show ?thesis by blast
qed


end
