(* ===== verification/SshTunnel.thy ===== *)
theory SshTunnel
  imports Prelude
begin

text \<open>
  The SSH tunnel (\<open>src/remmina_ssh.c\<close>): the arrays of channels, sockets and buffers, the
  thread that copies between them, and the operations that start and free it. The sockets,
  libssh and the owner of the tunnel are a record of operations on a world. What goes over a
  socket or a channel is written to a log, by the socket of the connection. Every loop whose
  end depends on the peers takes the number of rounds that are run.
\<close>

type_synonym bytes = "8 word list"

section \<open>The tunnel\<close>

text \<open>The data that waits for its socket is what \<open>ptr\<close> points to, \<open>len\<close> bytes of it.\<close>

record tunnel_buffer =
  tb_data :: bytes
  tb_ptr :: nat
  tb_len :: int

datatype tunnel_type = Tunnel_none | Tunnel_open | Tunnel_xport | Tunnel_reverse

datatype tunnel_flow = From_socket | To_channel | From_channel | To_socket

datatype tunnel_event =
    Tun_added "nat option" int
  | Tun_closed "nat option" int
  | Tun_data tunnel_flow int bytes
  | Tun_disconnect_notified

text \<open>
  Channels are numbers, sockets are file descriptors. The array of channels has a NULL behind
  the last one; all arrays keep the size that they have once reached.
\<close>

record 'w tunnel =
  tu_type :: tunnel_type
  tu_channels :: "nat option list"
  tu_sockets :: "int list"
  tu_buffers :: "tunnel_buffer option list"
  tu_num :: nat
  tu_max :: nat
  tu_thread :: bool
  tu_running :: bool
  tu_buffer_len :: int
  tu_server_sock :: int
  tu_dest :: cstr
  tu_port :: gint
  tu_localport :: gint
  tu_remotedisplay :: gint
  tu_bindlocalhost :: bool
  tu_localdisplay :: cstr
  tu_first :: bool
  tu_polled :: int
  tu_error :: cstr
  tu_world :: 'w
  tu_log :: "tunnel_event list"

datatype select_result = Select_ok | Select_eintr | Select_error

datatype write_result = Wrote int | Write_again

text \<open>
  Reading gives \<open>None\<close> for an error and the empty list at the end. A call that waits also says
  whether another thread has stopped the tunnel meanwhile (\<open>te_select\<close>).
\<close>

record 'w tunnel_env =
  te_get_error :: "'w \<Rightarrow> string"
  te_socket :: "'w \<Rightarrow> int \<times> 'w"
  te_bind :: "int \<Rightarrow> gint \<Rightarrow> 'w \<Rightarrow> bool \<times> 'w"
  te_listen :: "int \<Rightarrow> 'w \<Rightarrow> bool \<times> 'w"
  te_accept :: "int \<Rightarrow> bool \<Rightarrow> 'w \<Rightarrow> int \<times> 'w"
  te_close :: "int \<Rightarrow> 'w \<Rightarrow> 'w"
  te_connect_local :: "gint \<Rightarrow> 'w \<Rightarrow> int \<times> 'w"
  te_open_xdisplay :: "cstr \<Rightarrow> 'w \<Rightarrow> int \<times> 'w"
  te_channel_new :: "'w \<Rightarrow> nat option \<times> 'w"
  te_open_forward :: "nat \<Rightarrow> cstr \<Rightarrow> gint \<Rightarrow> 'w \<Rightarrow> bool \<times> 'w"
  te_channel_free :: "nat option \<Rightarrow> 'w \<Rightarrow> 'w"
  te_listen_forward :: "bool \<Rightarrow> gint \<Rightarrow> 'w \<Rightarrow> bool \<times> 'w"
  te_accept_forward :: "gint \<Rightarrow> 'w \<Rightarrow> (nat option \<times> gint) \<times> 'w"
  te_cancel_forward :: "gint \<Rightarrow> 'w \<Rightarrow> 'w"
  te_select :: "nat option list \<Rightarrow> int list \<Rightarrow> 'w \<Rightarrow> (select_result \<times> int list \<times> bool) \<times> 'w"
  te_read :: "int \<Rightarrow> int \<Rightarrow> 'w \<Rightarrow> bytes option \<times> 'w"
  te_write :: "int \<Rightarrow> bytes \<Rightarrow> 'w \<Rightarrow> write_result \<times> 'w"
  te_channel_poll :: "nat option \<Rightarrow> 'w \<Rightarrow> int \<times> 'w"
  te_channel_read :: "nat option \<Rightarrow> nat \<Rightarrow> 'w \<Rightarrow> bytes option \<times> 'w"
  te_channel_write :: "nat option \<Rightarrow> bytes \<Rightarrow> 'w \<Rightarrow> int \<times> 'w"
  te_now :: "'w \<Rightarrow> int \<times> 'w"
  te_init_func :: "('w \<Rightarrow> bool \<times> 'w) option"
  te_connect_func :: "('w \<Rightarrow> 'w) option"
  te_disconnect_func :: "('w \<Rightarrow> 'w) option"
  te_thread_create :: "'w \<Rightarrow> bool \<times> 'w"

definition tun_call :: "('w \<Rightarrow> 'a \<times> 'w) \<Rightarrow> 'w tunnel \<Rightarrow> 'a \<times> 'w tunnel" where
  "tun_call f t = (let (r, w) = f (tu_world t) in (r, t\<lparr>tu_world := w\<rparr>))"

definition tun_do :: "('w \<Rightarrow> 'w) \<Rightarrow> 'w tunnel \<Rightarrow> 'w tunnel" where
  "tun_do f t = t\<lparr>tu_world := f (tu_world t)\<rparr>"

definition tun_log :: "tunnel_event \<Rightarrow> 'w tunnel \<Rightarrow> 'w tunnel" where
  "tun_log e t = t\<lparr>tu_log := tu_log t @ [e]\<rparr>"

definition tun_set_error :: "'w tunnel_env \<Rightarrow> string \<Rightarrow> 'w tunnel \<Rightarrow> 'w tunnel" where
  "tun_set_error env text t = t\<lparr>tu_error := Some (text @ te_get_error env (tu_world t))\<rparr>"

definition tun_set_text :: "string \<Rightarrow> 'w tunnel \<Rightarrow> 'w tunnel" where
  "tun_set_text text t = t\<lparr>tu_error := Some text\<rparr>"

definition remmina_ssh_tunnel_new_from_file :: "'w \<Rightarrow> 'w tunnel" where
  "remmina_ssh_tunnel_new_from_file w = \<lparr>tu_type = Tunnel_none, tu_channels = [], tu_sockets = [], tu_buffers = [],
     tu_num = 0, tu_max = 0, tu_thread = False, tu_running = False, tu_buffer_len = 0, tu_server_sock = -1,
     tu_dest = None, tu_port = 0, tu_localport = 0, tu_remotedisplay = 0, tu_bindlocalhost = False, tu_localdisplay = None,
     tu_first = True, tu_polled = 0, tu_error = None, tu_world = w, tu_log = []\<rparr>"

section \<open>Buffers and channels\<close>

definition remmina_ssh_tunnel_buffer_new :: "bytes \<Rightarrow> tunnel_buffer" where
  "remmina_ssh_tunnel_buffer_new data = \<lparr>tb_data = data, tb_ptr = 0, tb_len = int (length data)\<rparr>"

definition buffer_pending :: "tunnel_buffer option \<Rightarrow> bytes" where
  "buffer_pending b = (case b of None \<Rightarrow> [] | Some b \<Rightarrow> take (nat (tb_len b)) (drop (tb_ptr b) (tb_data b)))"

text \<open>The connection \<open>n\<close> is closed, and the last one takes its place.\<close>

definition remmina_ssh_tunnel_remove_channel :: "'w tunnel_env \<Rightarrow> nat \<Rightarrow> 'w tunnel \<Rightarrow> 'w tunnel" where
  "remmina_ssh_tunnel_remove_channel env n t =
     (let t = tun_do (te_close env (tu_sockets t ! n)) (tun_do (te_channel_free env (tu_channels t ! n)) t);
          t = tun_log (Tun_closed (tu_channels t ! n) (tu_sockets t ! n)) t;
          last = tu_num t - 1
      in t\<lparr>tu_num := last,
           tu_channels := (tu_channels t)[n := tu_channels t ! last, last := None],
           tu_sockets := (tu_sockets t)[n := tu_sockets t ! last],
           tu_buffers := (tu_buffers t)[n := tu_buffers t ! last]\<rparr>)"

definition remmina_ssh_tunnel_add_channel :: "nat option \<Rightarrow> int \<Rightarrow> 'w tunnel \<Rightarrow> 'w tunnel" where
  "remmina_ssh_tunnel_add_channel channel sock t =
     (let i = tu_num t;
          t = (if tu_max t < Suc i
               then t\<lparr>tu_channels := take i (tu_channels t) @ [None, None], tu_sockets := tu_sockets t @ [0],
                      tu_buffers := tu_buffers t @ [None], tu_max := Suc i\<rparr>
               else t)
      in tun_log (Tun_added channel sock)
           (t\<lparr>tu_num := Suc i, tu_channels := (tu_channels t)[i := channel, Suc i := None],
              tu_sockets := (tu_sockets t)[i := sock], tu_buffers := (tu_buffers t)[i := None]\<rparr>))"

text \<open>The connections from the first to the last.\<close>

fun close_channels_from :: "'w tunnel_env \<Rightarrow> (nat option \<times> int) list \<Rightarrow> 'w tunnel \<Rightarrow> 'w tunnel" where
  "close_channels_from env [] t = t"
| "close_channels_from env ((channel, sock) # cs) t =
     close_channels_from env cs
       (tun_log (Tun_closed channel sock) (tun_do (te_channel_free env channel) (tun_do (te_close env sock) t)))"

definition remmina_ssh_tunnel_close_all_channels :: "'w tunnel_env \<Rightarrow> 'w tunnel \<Rightarrow> 'w tunnel" where
  "remmina_ssh_tunnel_close_all_channels env t =
     (close_channels_from env (take (tu_num t) (zip (tu_channels t) (tu_sockets t))) t)
       \<lparr>tu_channels := [], tu_sockets := [], tu_buffers := [], tu_num := 0, tu_max := 0\<rparr>"

definition remmina_ssh_tunnel_accept_local_connection :: "'w tunnel_env \<Rightarrow> bool \<Rightarrow> 'w tunnel \<Rightarrow> int \<times> 'w tunnel" where
  "remmina_ssh_tunnel_accept_local_connection env blocking t =
     (let (sock, t) = tun_call (te_accept env (tu_server_sock t) blocking) t
      in (sock, if sock < 0 \<and> blocking then tun_set_text ''Local socket not accepted'' t else t))"

definition remmina_ssh_tunnel_create_forward_channel :: "'w tunnel_env \<Rightarrow> 'w tunnel \<Rightarrow> nat option \<times> 'w tunnel" where
  "remmina_ssh_tunnel_create_forward_channel env t =
     (let (channel, t) = tun_call (te_channel_new env) t
      in case channel of
           None \<Rightarrow> (None, tun_set_error env ''Could not create channel. '' t)
         | Some c \<Rightarrow>
             (let (ok, t) = tun_call (te_open_forward env c (tu_dest t) (tu_port t)) t
              in if ok then (Some c, t)
                 else (None, tun_set_error env ''Could not connect to SSH tunnel. ''
                               (tun_do (te_channel_free env (Some c)) t))))"

section \<open>The start\<close>

definition tun_notify_disconnect :: "'w tunnel_env \<Rightarrow> 'w tunnel \<Rightarrow> 'w tunnel" where
  "tun_notify_disconnect env t =
     tun_log Tun_disconnect_notified (case te_disconnect_func env of None \<Rightarrow> t | Some f \<Rightarrow> tun_do f t)"

definition tun_give_up :: "'w tunnel_env \<Rightarrow> 'w tunnel \<Rightarrow> 'w tunnel" where
  "tun_give_up env t = (tun_notify_disconnect env t)\<lparr>tu_thread := False\<rparr>"

text \<open>The first display of the server from 10 on whose port can be listened on.\<close>

fun tun_find_display :: "'w tunnel_env \<Rightarrow> nat list \<Rightarrow> 'w tunnel \<Rightarrow> 'w tunnel" where
  "tun_find_display env [] t = t"
| "tun_find_display env (i # is) t =
     (let (ok, t) = tun_call (te_listen_forward env (tu_bindlocalhost t) (6000 + of_nat i)) t
      in if ok then t\<lparr>tu_remotedisplay := of_nat i\<rparr> else tun_find_display env is t)"

definition tun_init :: "'w tunnel_env \<Rightarrow> 'w tunnel \<Rightarrow> bool \<times> 'w tunnel" where
  "tun_init env t =
     (case te_init_func env of
        None \<Rightarrow> (True, t)
      | Some f \<Rightarrow> (let (ok, t) = tun_call f t in if ok then (True, t) else (False, tun_give_up env t)))"

text \<open>
  The test after the first channel is made is on the tunnel, which is never NULL, so a channel
  that could not be made is added all the same.
\<close>

definition tun_start :: "'w tunnel_env \<Rightarrow> 'w tunnel \<Rightarrow> bool \<times> 'w tunnel" where
  "tun_start env t =
     (case tu_type t of
        Tunnel_open \<Rightarrow>
          (let (sock, t) = remmina_ssh_tunnel_accept_local_connection env True t
           in if sock < 0 then (False, t\<lparr>tu_thread := False\<rparr>)
              else let (channel, t) = remmina_ssh_tunnel_create_forward_channel env t
                   in (True, remmina_ssh_tunnel_add_channel channel sock t))
      | Tunnel_xport \<Rightarrow>
          (let t = tun_find_display env [10..<100] t
           in if sint (tu_remotedisplay t) < 1
              then (False, tun_give_up env (tun_set_error env ''Could not request port forwarding. '' t))
              else tun_init env t)
      | Tunnel_reverse \<Rightarrow>
          (let (ok, t) = tun_call (te_listen_forward env False (tu_port t)) t
           in if \<not> ok then (False, tun_give_up env (tun_set_error env ''Could not request port forwarding. '' t))
              else tun_init env t)
      | Tunnel_none \<Rightarrow> (True, t))"

section \<open>The connections of the server\<close>

text \<open>The socket that a channel from the server is copied to, negative when there is none.\<close>

definition tun_local_end :: "'w tunnel_env \<Rightarrow> 'w tunnel \<Rightarrow> int \<times> 'w tunnel" where
  "tun_local_end env t =
     (if tu_type t = Tunnel_reverse
      then let (sock, t) = tun_call (te_connect_local env (tu_localport t)) t
           in (sock, if sock < 0 then tun_set_text ''Cannot connect to local port.'' t else t)
      else tun_call (te_open_xdisplay env (tu_localdisplay t)) t)"

definition tun_take_channel :: "'w tunnel_env \<Rightarrow> nat option \<Rightarrow> 'w tunnel \<Rightarrow> 'w tunnel" where
  "tun_take_channel env channel t =
     (case channel of
        None \<Rightarrow> t
      | Some c \<Rightarrow>
          (let (sock, t) = tun_local_end env t
           in if 0 \<le> sock then remmina_ssh_tunnel_add_channel (Some c) sock t
              else tun_do (te_channel_free env (Some c)) t))"

definition tun_wait_forward :: "'w tunnel_env \<Rightarrow> gint \<Rightarrow> 'w tunnel \<Rightarrow> nat option \<times> 'w tunnel" where
  "tun_wait_forward env timeout t =
     (let ((channel, port), t) = tun_call (te_accept_forward env timeout) t in (channel, t\<lparr>tu_port := port\<rparr>))"

text \<open>
  The first connection is waited for; the later ones of an X tunnel are polled for when the
  difference of the clocks, in the unit the code makes of it, exceeds 1.
\<close>

definition tun_first_forward :: "'w tunnel_env \<Rightarrow> 'w tunnel \<Rightarrow> bool \<times> 'w tunnel" where
  "tun_first_forward env t =
     (let (channel, t) = tun_wait_forward env 15000 (t\<lparr>tu_first := False\<rparr>)
      in case channel of
           None \<Rightarrow> (False, tun_give_up env (tun_set_text ''The server did not respond.'' t))
         | Some c \<Rightarrow>
             (let t = (case te_connect_func env of None \<Rightarrow> t | Some f \<Rightarrow> tun_do f t);
                  t = (if tu_type t = Tunnel_reverse then tun_do (te_cancel_forward env (tu_port t)) t else t)
              in (True, tun_take_channel env (Some c) t)))"

definition tun_next_forward :: "'w tunnel_env \<Rightarrow> 'w tunnel \<Rightarrow> 'w tunnel" where
  "tun_next_forward env t =
     (let (t1, t) = tun_call (te_now env) t; td = t1 - tu_polled t; diff = td * 10000000 + td div 100000
      in if 1 < diff
         then let (channel, t) = tun_wait_forward env 0 t
              in if channel = None then let (t2, t) = tun_call (te_now env) t in t\<lparr>tu_polled := t2\<rparr>
                 else tun_take_channel env channel t
         else t)"

definition tun_forwards :: "'w tunnel_env \<Rightarrow> 'w tunnel \<Rightarrow> bool \<times> 'w tunnel" where
  "tun_forwards env t =
     (if tu_type t = Tunnel_xport \<or> tu_type t = Tunnel_reverse
      then if tu_first t then tun_first_forward env t
           else (True, if tu_type t = Tunnel_reverse then t else tun_next_forward env t)
      else (True, t))"


section \<open>Copying\<close>

text \<open>What was read from a socket is written to its channel until nothing is left.\<close>

function tun_write_channel :: "'w tunnel_env \<Rightarrow> nat \<Rightarrow> bytes \<Rightarrow> 'w tunnel \<Rightarrow> bool \<times> 'w tunnel" where
  "tun_write_channel env i data t =
     (if data = [] then (True, t)
      else let (lenw, t) = tun_call (te_channel_write env (tu_channels t ! i) data) t
           in if lenw \<le> 0 then (False, tun_set_error env ''Could not write to SSH channel. '' t)
              else tun_write_channel env i (drop (nat lenw) data)
                     (tun_log (Tun_data To_channel (tu_sockets t ! i) (take (nat lenw) data)) t))"
  by pat_completeness auto

termination
  by (relation "measure (\<lambda>(_, _, data, _). length data)") auto

declare tun_write_channel.simps [simp del]

text \<open>
  The socket is read until it has nothing more. The result says whether the connection has to
  go; \<open>None\<close> when the rounds are used up.
\<close>

fun tun_read_socket :: "'w tunnel_env \<Rightarrow> nat \<Rightarrow> nat \<Rightarrow> 'w tunnel \<Rightarrow> bool option \<times> 'w tunnel" where
  "tun_read_socket env 0 i t = (None, t)"
| "tun_read_socket env (Suc n) i t =
     (let (r, t) = tun_call (te_read env (tu_sockets t ! i) (tu_buffer_len t)) t
      in case r of
           None \<Rightarrow> (Some False, t)
         | Some data \<Rightarrow>
             if data = [] then (Some True, tun_set_error env ''Could not read from tunnel listening socket. '' t)
             else let (ok, t) = tun_write_channel env i data (tun_log (Tun_data From_socket (tu_sockets t ! i) data) t)
                  in if ok then tun_read_socket env n i t else (Some True, t))"

definition tun_socket_step :: "'w tunnel_env \<Rightarrow> nat \<Rightarrow> int list \<Rightarrow> nat \<Rightarrow> 'w tunnel \<Rightarrow> bool option \<times> 'w tunnel" where
  "tun_socket_step env n ready i t =
     (if tu_sockets t ! i \<in> set ready then tun_read_socket env n i t else (Some False, t))"

text \<open>
  The data that a channel has is put into the buffer of its socket, when that is free. The
  result says whether the connection has to go.
\<close>

definition tun_fill_buffer :: "'w tunnel_env \<Rightarrow> nat \<Rightarrow> 'w tunnel \<Rightarrow> bool \<times> 'w tunnel" where
  "tun_fill_buffer env i t =
     (if tu_buffers t ! i \<noteq> None then (False, t)
      else let (len, t) = tun_call (te_channel_poll env (tu_channels t ! i)) t
           in if len = -1 \<or> len = -127 then (True, tun_set_error env ''Could not poll SSH channel. '' t)
              else if 0 < len
              then let (r, t) = tun_call (te_channel_read env (tu_channels t ! i) (nat len)) t
                   in case r of
                        None \<Rightarrow> (True, tun_set_error env ''Could not read SSH channel in a non-blocking way. '' t)
                      | Some data \<Rightarrow>
                          if data = []
                          then (True, tun_set_error env ''Could not read SSH channel in a non-blocking way. '' t)
                          else (False, (tun_log (Tun_data From_channel (tu_sockets t ! i) data) t)
                                  \<lparr>tu_buffers := (tu_buffers t)[i := Some (remmina_ssh_tunnel_buffer_new data)]\<rparr>)
              else (False, t))"

function tun_flush_buffer ::
  "'w tunnel_env \<Rightarrow> nat \<Rightarrow> tunnel_buffer \<Rightarrow> 'w tunnel \<Rightarrow> bool \<times> tunnel_buffer \<times> 'w tunnel" where
  "tun_flush_buffer env i b t =
     (if tb_len b \<le> 0 then (False, b, t)
      else let (r, t) = tun_call (te_write env (tu_sockets t ! i) (buffer_pending (Some b))) t
           in case r of
                Write_again \<Rightarrow>
                  if tu_running t then (False, b, t)
                  else (True, b, tun_set_error env ''Could not send data to tunnel listening socket. '' t)
              | Wrote lenw \<Rightarrow>
                  if lenw \<le> 0 then (True, b, tun_set_error env ''Could not send data to tunnel listening socket. '' t)
                  else tun_flush_buffer env i (b\<lparr>tb_len := tb_len b - lenw, tb_ptr := tb_ptr b + nat lenw\<rparr>)
                         (tun_log (Tun_data To_socket (tu_sockets t ! i) (take (nat lenw) (buffer_pending (Some b)))) t))"
  by pat_completeness auto

termination
  by (relation "measure (\<lambda>(_, _, b, _). nat (tb_len b))") auto

declare tun_flush_buffer.simps [simp del]

definition tun_channel_step :: "'w tunnel_env \<Rightarrow> nat \<Rightarrow> 'w tunnel \<Rightarrow> bool option \<times> 'w tunnel" where
  "tun_channel_step env i t =
     (let (disconnected, t) = tun_fill_buffer env i t
      in if disconnected then (Some True, t)
         else case tu_buffers t ! i of
                None \<Rightarrow> (Some False, t)
              | Some b \<Rightarrow>
                  (let (disconnected, b, t) = tun_flush_buffer env i b t
                   in (Some disconnected, t\<lparr>tu_buffers := (tu_buffers t)[i := if tb_len b \<le> 0 then None else Some b]\<rparr>)))"

text \<open>
  A pass over the connections; one that has to go is removed, and the one that takes its place
  is next. Every turn of the loop leaves one connection fewer, so their number is enough turns.
  The result is false when a step has used up its rounds.
\<close>

fun tun_pass ::
  "'w tunnel_env \<Rightarrow> (nat \<Rightarrow> 'w tunnel \<Rightarrow> bool option \<times> 'w tunnel) \<Rightarrow> nat \<Rightarrow> nat \<Rightarrow> 'w tunnel \<Rightarrow> bool \<times> 'w tunnel" where
  "tun_pass env step 0 i t = (True, t)"
| "tun_pass env step (Suc k) i t =
     (if \<not> tu_running t \<or> tu_num t \<le> i then (True, t)
      else let (d, t) = step i t
           in case d of
                None \<Rightarrow> (False, t)
              | Some True \<Rightarrow> tun_pass env step k i (remmina_ssh_tunnel_remove_channel env i t)
              | Some False \<Rightarrow> tun_pass env step k (Suc i) t)"

section \<open>The thread\<close>

datatype tun_status = Tun_next | Tun_break | Tun_return | Tun_reading

text \<open>A connection that the program makes while the tunnel runs.\<close>

definition tun_accept_more :: "'w tunnel_env \<Rightarrow> 'w tunnel \<Rightarrow> 'w tunnel" where
  "tun_accept_more env t =
     (let (sock, t) = remmina_ssh_tunnel_accept_local_connection env False t
      in if 0 < sock
         then let (channel, t) = remmina_ssh_tunnel_create_forward_channel env t
              in case channel of
                   None \<Rightarrow> (tun_do (te_close env sock) t)\<lparr>tu_running := False\<rparr>
                 | Some c \<Rightarrow> remmina_ssh_tunnel_add_channel (Some c) sock t
         else t)"

definition tun_copy :: "'w tunnel_env \<Rightarrow> nat \<Rightarrow> int list \<Rightarrow> 'w tunnel \<Rightarrow> tun_status \<times> 'w tunnel" where
  "tun_copy env n ready t =
     (let (finished, t) = tun_pass env (tun_socket_step env n ready) (tu_num t) 0 t
      in if \<not> finished then (Tun_reading, t)
         else if \<not> tu_running t then (Tun_break, t)
         else let (_, t) = tun_pass env (tun_channel_step env) (tu_num t) 0 t
              in (Tun_next, tun_accept_more env t))"

definition tun_round :: "'w tunnel_env \<Rightarrow> nat \<Rightarrow> 'w tunnel \<Rightarrow> tun_status \<times> 'w tunnel" where
  "tun_round env n t =
     (let (ok, t) = tun_forwards env t
      in if \<not> ok then (Tun_return, t)
         else if tu_num t = 0 then (Tun_break, t)
         else let ((ret, ready, stopped), t) = tun_call (te_select env (tu_channels t) (take (tu_num t) (tu_sockets t))) t;
                  t = t\<lparr>tu_running := tu_running t \<and> \<not> stopped\<rparr>
              in if \<not> tu_running t then (Tun_break, t)
                 else case ret of
                        Select_eintr \<Rightarrow> (Tun_next, t)
                      | Select_error \<Rightarrow> (Tun_break, t)
                      | Select_ok \<Rightarrow> tun_copy env n ready t)"

datatype tun_end = End_running | End_returned | End_closed

definition tun_finish :: "'w tunnel_env \<Rightarrow> 'w tunnel \<Rightarrow> 'w tunnel" where
  "tun_finish env t =
     tun_notify_disconnect env ((remmina_ssh_tunnel_close_all_channels env t)\<lparr>tu_running := False\<rparr>)"

fun tun_loop :: "'w tunnel_env \<Rightarrow> nat \<Rightarrow> nat \<Rightarrow> 'w tunnel \<Rightarrow> tun_end \<times> 'w tunnel" where
  "tun_loop env n 0 t = (End_running, t)"
| "tun_loop env n (Suc k) t =
     (if \<not> tu_running t then (End_closed, tun_finish env t)
      else case tun_round env n t of
             (Tun_next, t) \<Rightarrow> tun_loop env n k t
           | (Tun_break, t) \<Rightarrow> (End_closed, tun_finish env t)
           | (Tun_return, t) \<Rightarrow> (End_returned, t)
           | (Tun_reading, t) \<Rightarrow> (End_running, t))"

definition remmina_ssh_tunnel_main_thread_proc :: "'w tunnel_env \<Rightarrow> nat \<Rightarrow> nat \<Rightarrow> 'w tunnel \<Rightarrow> tun_end \<times> 'w tunnel" where
  "remmina_ssh_tunnel_main_thread_proc env n k t =
     (let (now, t) = tun_call (te_now env) t; (ok, t) = tun_start env (t\<lparr>tu_first := True, tu_polled := now\<rparr>)
      in if \<not> ok then (End_returned, t) else tun_loop env n k (t\<lparr>tu_buffer_len := 10240\<rparr>))"

text \<open>The thread repeats the procedure while the tunnel runs; the last argument counts the repetitions.\<close>

fun remmina_ssh_tunnel_main_thread ::
  "'w tunnel_env \<Rightarrow> nat \<Rightarrow> nat \<Rightarrow> nat \<Rightarrow> 'w tunnel \<Rightarrow> tun_end \<times> 'w tunnel" where
  "remmina_ssh_tunnel_main_thread env n k 0 t = (End_running, t)"
| "remmina_ssh_tunnel_main_thread env n k (Suc m) t =
     (case remmina_ssh_tunnel_main_thread_proc env n k t of
        (End_running, t) \<Rightarrow> (End_running, t)
      | (_, t) \<Rightarrow>
          if tu_server_sock t < 0 \<or> \<not> tu_thread t \<or> \<not> tu_running t
          then (End_closed, t\<lparr>tu_thread := False\<rparr>)
          else remmina_ssh_tunnel_main_thread env n k m t)"

section \<open>The owner\<close>

definition remmina_ssh_tunnel_cancel_accept :: "'w tunnel_env \<Rightarrow> 'w tunnel \<Rightarrow> 'w tunnel" where
  "remmina_ssh_tunnel_cancel_accept env t =
     (if 0 \<le> tu_server_sock t then (tun_do (te_close env (tu_server_sock t)) t)\<lparr>tu_server_sock := -1\<rparr> else t)"

definition tun_create_thread :: "'w tunnel_env \<Rightarrow> 'w tunnel \<Rightarrow> bool \<times> 'w tunnel" where
  "tun_create_thread env t =
     (let (ok, t) = tun_call (te_thread_create env) t
      in if ok then (True, t\<lparr>tu_thread := True\<rparr>)
         else (False, (tun_set_text ''Could not start pthread.'' t)\<lparr>tu_thread := False\<rparr>))"

definition remmina_ssh_tunnel_open :: "'w tunnel_env \<Rightarrow> cstr \<Rightarrow> gint \<Rightarrow> gint \<Rightarrow> 'w tunnel \<Rightarrow> bool \<times> 'w tunnel" where
  "remmina_ssh_tunnel_open env host port local_port t =
     (let t = t\<lparr>tu_type := Tunnel_open, tu_dest := host, tu_port := port\<rparr>
      in if port = 0 then (False, tun_set_text ''Assign a destination port.'' t)
         else let (sock, t) = tun_call (te_socket env) t
         in if sock < 0 then (False, tun_set_text ''Could not create socket.'' t)
         else let (bound, t) = tun_call (te_bind env sock local_port) t
         in if \<not> bound then (False, tun_do (te_close env sock) (tun_set_text ''Could not bind server socket to local port.'' t))
         else let (listening, t) = tun_call (te_listen env sock) t
         in if \<not> listening then (False, tun_do (te_close env sock) (tun_set_text ''Could not listen to local port.'' t))
         else tun_create_thread env (t\<lparr>tu_server_sock := sock, tu_running := True\<rparr>))"

definition remmina_ssh_tunnel_xport :: "'w tunnel_env \<Rightarrow> bool \<Rightarrow> 'w tunnel \<Rightarrow> bool \<times> 'w tunnel" where
  "remmina_ssh_tunnel_xport env bindlocalhost t =
     tun_create_thread env (t\<lparr>tu_type := Tunnel_xport, tu_bindlocalhost := bindlocalhost, tu_running := True\<rparr>)"

definition remmina_ssh_tunnel_reverse :: "'w tunnel_env \<Rightarrow> gint \<Rightarrow> gint \<Rightarrow> 'w tunnel \<Rightarrow> bool \<times> 'w tunnel" where
  "remmina_ssh_tunnel_reverse env port local_port t =
     tun_create_thread env (t\<lparr>tu_type := Tunnel_reverse, tu_port := port, tu_localport := local_port, tu_running := True\<rparr>)"

definition remmina_ssh_tunnel_terminated :: "'w tunnel \<Rightarrow> bool" where
  "remmina_ssh_tunnel_terminated t \<longleftrightarrow> \<not> tu_thread t"

text \<open>The thread is cancelled and joined first, so nothing else changes the tunnel any more.\<close>

definition remmina_ssh_tunnel_free :: "'w tunnel_env \<Rightarrow> 'w tunnel \<Rightarrow> 'w tunnel" where
  "remmina_ssh_tunnel_free env t =
     (let t = (if tu_thread t then t\<lparr>tu_running := False, tu_thread := False\<rparr> else t);
          t = (if tu_type t = Tunnel_xport \<and> 0 < sint (tu_remotedisplay t)
               then tun_do (te_cancel_forward env (6000 + tu_remotedisplay t)) t else t)
      in remmina_ssh_tunnel_close_all_channels env (remmina_ssh_tunnel_cancel_accept env t))"

end
