(* ===== verification/SshTunnelFacts.thy ===== *)
theory SshTunnelFacts
  imports SshTunnel
begin

text \<open>
  What holds of the SSH tunnel: its arrays stay parallel and end with NULL, every socket that
  it takes is closed, and what it copies arrives complete and in order, as an invariant of the
  loop over the log of the bytes.
\<close>

section \<open>Reading the log\<close>

text \<open>The bytes that went one way over a socket since the socket was added.\<close>

definition flow_step :: "tunnel_flow \<Rightarrow> int \<Rightarrow> bytes \<Rightarrow> tunnel_event \<Rightarrow> bytes" where
  "flow_step k s acc e =
     (case e of
        Tun_added _ s' \<Rightarrow> if s' = s then [] else acc
      | Tun_data k' s' data \<Rightarrow> if k' = k \<and> s' = s then acc @ data else acc
      | _ \<Rightarrow> acc)"

definition flow :: "tunnel_flow \<Rightarrow> int \<Rightarrow> tunnel_event list \<Rightarrow> bytes" where
  "flow k s log = foldl (flow_step k s) [] log"

definition opened_step :: "int set \<Rightarrow> tunnel_event \<Rightarrow> int set" where
  "opened_step S e = (case e of Tun_added _ s \<Rightarrow> insert s S | Tun_closed _ s \<Rightarrow> S - {s} | _ \<Rightarrow> S)"

text \<open>The sockets that are open.\<close>

definition opened :: "tunnel_event list \<Rightarrow> int set" where
  "opened log = foldl opened_step {} log"

text \<open>The system never hands out a descriptor that is open.\<close>

fun fresh_from :: "int set \<Rightarrow> tunnel_event list \<Rightarrow> bool" where
  "fresh_from S [] = True"
| "fresh_from S (e # es) =
     ((case e of Tun_added c s \<Rightarrow> s \<notin> S | _ \<Rightarrow> True) \<and> fresh_from (opened_step S e) es)"

definition fresh_sockets :: "tunnel_event list \<Rightarrow> bool" where
  "fresh_sockets log \<longleftrightarrow> fresh_from {} log"

lemma fresh_from_append: "fresh_from S (es @ es') \<longleftrightarrow> fresh_from S es \<and> fresh_from (foldl opened_step S es) es'"
  by (induction es arbitrary: S) auto

lemma flow_snoc [simp]: "flow k s (log @ [e]) = flow_step k s (flow k s log) e"
  by (simp add: flow_def)

lemma flow_Nil [simp]: "flow k s [] = []"
  by (simp add: flow_def)

lemma opened_snoc [simp]: "opened (log @ [e]) = opened_step (opened log) e"
  by (simp add: opened_def)

lemma opened_Nil [simp]: "opened [] = {}"
  by (simp add: opened_def)

lemma fresh_snoc [simp]:
  "fresh_sockets (log @ [e]) \<longleftrightarrow> fresh_sockets log \<and> (\<forall>c s. e = Tun_added c s \<longrightarrow> s \<notin> opened log)"
  by (auto simp: fresh_sockets_def fresh_from_append opened_def split: tunnel_event.splits)

lemma fresh_prefix: "fresh_sockets (log @ es) \<Longrightarrow> fresh_sockets log"
  by (induction es rule: rev_induct) (simp_all flip: append_assoc)

lemma fresh_Nil [simp]: "fresh_sockets []"
  by (simp add: fresh_sockets_def)

text \<open>Data of one socket.\<close>

abbreviation data_events :: "tunnel_flow \<Rightarrow> int \<Rightarrow> bytes list \<Rightarrow> tunnel_event list" where
  "data_events k s \<equiv> map (Tun_data k s)"

lemma flow_data: "flow k s (log @ data_events k' s' ds) = flow k s log @ (if k = k' \<and> s = s' then concat ds else [])"
  by (induction ds rule: rev_induct) (auto simp: flow_step_def simp flip: append_assoc)

definition only_data :: "int \<Rightarrow> tunnel_event list \<Rightarrow> bool" where
  "only_data s es \<longleftrightarrow> (\<forall>e\<in>set es. \<exists>k data. e = Tun_data k s data)"

lemma only_data_simps [simp]:
  "only_data s []" "only_data s (data_events k s ds)" "only_data s [Tun_data k s data]"
  "only_data s (es @ es') \<longleftrightarrow> only_data s es \<and> only_data s es'"
  by (auto simp: only_data_def)

lemma only_data_opened: "only_data s es \<Longrightarrow> opened (log @ es) = opened log"
  by (induction es rule: rev_induct) (auto simp: opened_step_def only_data_def simp flip: append_assoc)

lemma only_data_fresh: "only_data s es \<Longrightarrow> fresh_sockets (log @ es) = fresh_sockets log"
  by (induction es rule: rev_induct) (auto simp: only_data_def simp flip: append_assoc)

lemma only_data_flow: "\<lbrakk>only_data s es; s' \<noteq> s\<rbrakk> \<Longrightarrow> flow k s' (log @ es) = flow k s' log"
  by (induction es rule: rev_induct) (auto simp: flow_step_def only_data_def simp flip: append_assoc)

section \<open>Calls\<close>

lemma tun_call_same:
  assumes "tun_call f t = (r, t')"
  shows "tu_log t' = tu_log t" "tu_num t' = tu_num t" "tu_max t' = tu_max t" "tu_channels t' = tu_channels t"
    "tu_sockets t' = tu_sockets t" "tu_buffers t' = tu_buffers t" "tu_running t' = tu_running t"
    "tu_type t' = tu_type t" "tu_server_sock t' = tu_server_sock t" "tu_thread t' = tu_thread t"
    "tu_remotedisplay t' = tu_remotedisplay t"
  using assms by (auto simp: tun_call_def split: prod.splits)

lemma tun_other_same [simp]:
  "tu_log (tun_do f t) = tu_log t" "tu_num (tun_do f t) = tu_num t" "tu_max (tun_do f t) = tu_max t"
  "tu_channels (tun_do f t) = tu_channels t" "tu_sockets (tun_do f t) = tu_sockets t"
  "tu_buffers (tun_do f t) = tu_buffers t" "tu_running (tun_do f t) = tu_running t"
  "tu_thread (tun_do f t) = tu_thread t" "tu_server_sock (tun_do f t) = tu_server_sock t"
  "tu_log (tun_set_error env x t) = tu_log t" "tu_num (tun_set_error env x t) = tu_num t"
  "tu_max (tun_set_error env x t) = tu_max t" "tu_channels (tun_set_error env x t) = tu_channels t"
  "tu_sockets (tun_set_error env x t) = tu_sockets t" "tu_buffers (tun_set_error env x t) = tu_buffers t"
  "tu_running (tun_set_error env x t) = tu_running t" "tu_server_sock (tun_set_error env x t) = tu_server_sock t"
  "tu_log (tun_set_text x t) = tu_log t" "tu_num (tun_set_text x t) = tu_num t"
  "tu_max (tun_set_text x t) = tu_max t" "tu_channels (tun_set_text x t) = tu_channels t"
  "tu_sockets (tun_set_text x t) = tu_sockets t" "tu_buffers (tun_set_text x t) = tu_buffers t"
  "tu_running (tun_set_text x t) = tu_running t" "tu_server_sock (tun_set_text x t) = tu_server_sock t"
  "tu_log (tun_log e t) = tu_log t @ [e]" "tu_num (tun_log e t) = tu_num t" "tu_max (tun_log e t) = tu_max t"
  "tu_channels (tun_log e t) = tu_channels t" "tu_sockets (tun_log e t) = tu_sockets t"
  "tu_buffers (tun_log e t) = tu_buffers t" "tu_running (tun_log e t) = tu_running t"
  "tu_thread (tun_log e t) = tu_thread t" "tu_server_sock (tun_log e t) = tu_server_sock t"
  by (simp_all add: tun_do_def tun_set_error_def tun_set_text_def tun_log_def)

text \<open>A step that touches nothing but the connection \<open>i\<close>.\<close>

definition at_connection :: "nat \<Rightarrow> 'w tunnel \<Rightarrow> 'w tunnel \<Rightarrow> bool" where
  "at_connection i t t' \<longleftrightarrow>
     tu_num t' = tu_num t \<and> tu_max t' = tu_max t \<and> tu_channels t' = tu_channels t \<and> tu_sockets t' = tu_sockets t \<and>
     tu_running t' = tu_running t \<and> length (tu_buffers t') = length (tu_buffers t) \<and>
     (\<forall>j. j \<noteq> i \<longrightarrow> tu_buffers t' ! j = tu_buffers t ! j) \<and>
     (\<exists>es. tu_log t' = tu_log t @ es \<and> only_data (tu_sockets t ! i) es)"

lemma at_connection_refl [simp]: "at_connection i t t"
  by (auto simp: at_connection_def intro: exI [of _ "[]"])

lemma at_connection_trans: "\<lbrakk>at_connection i t t'; at_connection i t' t''\<rbrakk> \<Longrightarrow> at_connection i t t''"
  by (auto simp: at_connection_def)

lemma at_connection_call: "tun_call f t = (r, t') \<Longrightarrow> at_connection i t t'"
  by (auto simp: at_connection_def tun_call_same intro: exI [of _ "[]"])

lemma at_connection_simps [simp]:
  "at_connection i t (tun_set_error env x t') \<longleftrightarrow> at_connection i t t'"
  by (simp add: at_connection_def)

lemma at_connection_log:
  "at_connection i t t' \<Longrightarrow> at_connection i t (tun_log (Tun_data k (tu_sockets t ! i) data) t')"
  by (auto simp: at_connection_def)

section \<open>Copying\<close>

text \<open>How the streams of the connection grow: from the socket, to the channel, from the channel, to the socket.\<close>

definition grows :: "nat \<Rightarrow> 'w tunnel \<Rightarrow> 'w tunnel \<Rightarrow> (tunnel_flow \<Rightarrow> bytes) \<Rightarrow> bool" where
  "grows i t t' f \<longleftrightarrow> at_connection i t t' \<and>
     (\<forall>k. flow k (tu_sockets t ! i) (tu_log t') = flow k (tu_sockets t ! i) (tu_log t) @ f k)"

lemma grows_same: "\<lbrakk>at_connection i t t'; tu_log t' = tu_log t\<rbrakk> \<Longrightarrow> grows i t t' (\<lambda>_. [])"
  by (simp add: grows_def)

lemma grows_trans: "\<lbrakk>grows i t t' f; grows i t' t'' g\<rbrakk> \<Longrightarrow> grows i t t'' (\<lambda>k. f k @ g k)"
  by (auto simp: grows_def at_connection_def)

lemma grows_log:
  "grows i t (tun_log (Tun_data k (tu_sockets t ! i) data) t) (\<lambda>k'. if k' = k then data else [])"
  by (auto simp: grows_def at_connection_log flow_step_def)

lemma grows_log_after:
  assumes "at_connection i t t'" "tu_log t' = tu_log t"
  shows "grows i t (tun_log (Tun_data k (tu_sockets t ! i) data) t') (\<lambda>k'. if k' = k then data else [])"
  using assms by (auto simp: grows_def at_connection_log flow_step_def)

lemma write_channel_grows:
  "tun_write_channel env i data t = (ok, t') \<Longrightarrow> tu_buffers t' = tu_buffers t \<and>
     (\<exists>out rest. data = out @ rest \<and> (ok \<longrightarrow> rest = []) \<and> grows i t t' (\<lambda>k. if k = To_channel then out else []))"
proof (induction env i data t arbitrary: ok t' rule: tun_write_channel.induct)
  case (1 env i data t)
  show ?case
  proof (cases "data = []")
    case True
    then show ?thesis using 1(2) by (subst (asm) tun_write_channel.simps) (auto simp: grows_def)
  next
    case False
    obtain lenw t1 where call: "tun_call (te_channel_write env (tu_channels t ! i) data) t = (lenw, t1)" by force
    show ?thesis
    proof (cases "lenw \<le> 0")
      case True
      then have "t' = tun_set_error env ''Could not write to SSH channel. '' t1" "\<not> ok"
        using 1(2) False call by (auto simp: tun_write_channel.simps [of env i data t])
      then show ?thesis
        using at_connection_call [OF call, of i]
        by (auto simp: grows_def tun_call_same [OF call])
    next
      case pos: False
      let ?out = "take (nat lenw) data"
      let ?t2 = "tun_log (Tun_data To_channel (tu_sockets t1 ! i) ?out) t1"
      have rec: "tun_write_channel env i (drop (nat lenw) data) ?t2 = (ok, t')"
        using 1(2) False call pos by (simp add: tun_write_channel.simps [of env i data t])
      from 1(1) [OF False call [symmetric] refl pos rec] obtain out rest where
        IH: "tu_buffers t' = tu_buffers ?t2" "drop (nat lenw) data = out @ rest" "ok \<longrightarrow> rest = []"
          "grows i ?t2 t' (\<lambda>k. if k = To_channel then out else [])" by blast
      have "grows i t ?t2 (\<lambda>k. if k = To_channel then ?out else [])"
        using grows_log_after [OF at_connection_call [OF call]] tun_call_same [OF call] by simp
      from grows_trans [OF this IH(4)]
      have "grows i t t' (\<lambda>k. if k = To_channel then ?out @ out else [])"
        by (rule back_subst [where P = "grows i t t'"]) auto
      moreover have "data = (?out @ out) @ rest" using IH(2) by (metis append_assoc append_take_drop_id)
      ultimately show ?thesis using IH(1,3) tun_call_same [OF call] by (intro conjI exI [of _ "?out @ out"] exI [of _ rest]) auto
    qed
  qed
qed

text \<open>What a pass over the socket adds: what was read is written, except when the connection goes.\<close>

lemma read_socket_grows:
  "tun_read_socket env n i t = (d, t') \<Longrightarrow> tu_buffers t' = tu_buffers t \<and>
     (\<exists>out rest. (d = Some False \<longrightarrow> rest = []) \<and>
       grows i t t' (\<lambda>k. if k = From_socket then out @ rest else if k = To_channel then out else []))"
proof (induction n arbitrary: t)
  case 0
  then show ?case by (auto simp: grows_def intro!: exI [of _ "[]"])
next
  case (Suc n)
  obtain r t1 where call: "tun_call (te_read env (tu_sockets t ! i) (tu_buffer_len t)) t = (r, t1)" by force
  note same = tun_call_same [OF call] and at = at_connection_call [OF call, of i]
  show ?case
  proof (cases "r = None \<or> r = Some []")
    case True
    then have "t' = t1 \<or> t' = tun_set_error env ''Could not read from tunnel listening socket. '' t1"
      using Suc.prems call by auto
    then show ?thesis using same at by (auto simp: grows_def intro!: exI [of _ "[]"])
  next
    case False
    then obtain data where data: "r = Some data" "data \<noteq> []" by (cases r) auto
    let ?t2 = "tun_log (Tun_data From_socket (tu_sockets t1 ! i) data) t1"
    obtain ok t3 where wr: "tun_write_channel env i data ?t2 = (ok, t3)" by force
    from write_channel_grows [OF wr] obtain out rest where w: "tu_buffers t3 = tu_buffers ?t2" "data = out @ rest"
      "ok \<longrightarrow> rest = []" "grows i ?t2 t3 (\<lambda>k. if k = To_channel then out else [])" by blast
    have "grows i t ?t2 (\<lambda>k. if k = From_socket then data else [])"
      using grows_log_after [OF at] same by simp
    from grows_trans [OF this w(4)]
    have g3: "grows i t t3 (\<lambda>k. if k = From_socket then data else if k = To_channel then out else [])"
      by (rule back_subst [where P = "grows i t t3"]) auto
    show ?thesis
    proof (cases ok)
      case True
      then have rec: "tun_read_socket env n i t3 = (d, t')" using Suc.prems call data wr by simp
      from Suc.IH [OF this] obtain out' rest' where r: "tu_buffers t' = tu_buffers t3" "d = Some False \<longrightarrow> rest' = []"
        "grows i t3 t' (\<lambda>k. if k = From_socket then out' @ rest' else if k = To_channel then out' else [])" by blast
      from grows_trans [OF g3 r(3)]
      have "grows i t t' (\<lambda>k. if k = From_socket then (out @ out') @ rest' else if k = To_channel then out @ out' else [])"
        by (rule back_subst [where P = "grows i t t'"]) (use w True in auto)
      then show ?thesis using r w(1) same by (intro conjI exI [of _ "out @ out'"] exI [of _ rest']) auto
    next
      case False
      then have "t' = t3" "d = Some True" using Suc.prems call data wr by auto
      then show ?thesis using g3 w same by (intro conjI exI [of _ out] exI [of _ rest]) auto
    qed
  qed
qed


text \<open>What is written is the front of what waits.\<close>

lemma pending_drop:
  "0 < lenw \<Longrightarrow> buffer_pending (Some (b\<lparr>tb_len := tb_len b - lenw, tb_ptr := tb_ptr b + nat lenw\<rparr>)) =
     drop (nat lenw) (buffer_pending (Some b))"
proof -
  assume "0 < lenw"
  then have "nat (tb_len b - lenw) = nat (tb_len b) - nat lenw" by arith
  then show ?thesis by (simp add: buffer_pending_def drop_take add.commute)
qed

lemma flush_buffer_grows:
  "tun_flush_buffer env i b t = (d, b', t') \<Longrightarrow> tu_buffers t' = tu_buffers t \<and>
     (\<exists>out. buffer_pending (Some b) = out @ buffer_pending (Some b') \<and> grows i t t' (\<lambda>k. if k = To_socket then out else []))"
proof (induction env i b t arbitrary: d b' t' rule: tun_flush_buffer.induct)
  case (1 env i b t)
  show ?case
  proof (cases "tb_len b \<le> 0")
    case True
    then show ?thesis using 1(2) by (subst (asm) tun_flush_buffer.simps) (auto simp: grows_def)
  next
    case False
    obtain r t1 where call: "tun_call (te_write env (tu_sockets t ! i) (buffer_pending (Some b))) t = (r, t1)" by force
    note same = tun_call_same [OF call] and at = at_connection_call [OF call, of i]
    show ?thesis
    proof (cases "\<exists>lenw. r = Wrote lenw \<and> 0 < lenw")
      case False
      then have "b' = b" "tu_buffers t' = tu_buffers t1" "tu_log t' = tu_log t1" "at_connection i t t'"
        using 1(2) \<open>\<not> tb_len b \<le> 0\<close> call at
        by (subst (asm) tun_flush_buffer.simps, auto split: write_result.splits if_splits)+
      then show ?thesis using same by (auto simp: grows_def)
    next
      case True
      then obtain lenw where r: "r = Wrote lenw" "0 < lenw" by blast
      let ?b = "b\<lparr>tb_len := tb_len b - lenw, tb_ptr := tb_ptr b + nat lenw\<rparr>"
      let ?out = "take (nat lenw) (buffer_pending (Some b))"
      let ?t2 = "tun_log (Tun_data To_socket (tu_sockets t1 ! i) ?out) t1"
      have rec: "tun_flush_buffer env i ?b ?t2 = (d, b', t')"
        using 1(2) False call r by (subst (asm) tun_flush_buffer.simps) simp
      have npos: "\<not> lenw \<le> 0" using r by simp
      from 1(1) [OF False call [symmetric] refl r(1) npos rec] obtain out where
        IH: "tu_buffers t' = tu_buffers ?t2" "buffer_pending (Some ?b) = out @ buffer_pending (Some b')"
          "grows i ?t2 t' (\<lambda>k. if k = To_socket then out else [])" by blast
      have "grows i t ?t2 (\<lambda>k. if k = To_socket then ?out else [])"
        using grows_log_after [OF at] same by simp
      from grows_trans [OF this IH(3)]
      have "grows i t t' (\<lambda>k. if k = To_socket then ?out @ out else [])"
        by (rule back_subst [where P = "grows i t t'"]) auto
      moreover have "buffer_pending (Some b) = (?out @ out) @ buffer_pending (Some b')"
        using IH(2) pending_drop [OF r(2), of b] by (metis append_assoc append_take_drop_id)
      ultimately show ?thesis using IH(1) same(6) by (intro conjI exI [of _ "?out @ out"]) simp_all
    qed
  qed
qed

lemma at_connection_buffer:
  "at_connection i t t' \<Longrightarrow> at_connection i t (t'\<lparr>tu_buffers := (tu_buffers t')[i := b]\<rparr>)"
  by (simp add: at_connection_def)

lemma grows_buffer: "grows i t t' f \<Longrightarrow> grows i t (t'\<lparr>tu_buffers := (tu_buffers t')[i := b]\<rparr>) f"
  by (simp add: grows_def at_connection_buffer)

lemma buffer_pending_None [simp]: "buffer_pending None = []"
  by (simp add: buffer_pending_def)

lemma buffer_new_pending [simp]: "buffer_pending (Some (remmina_ssh_tunnel_buffer_new data)) = data"
  by (simp add: buffer_pending_def remmina_ssh_tunnel_buffer_new_def)

lemma fill_buffer_grows:
  assumes "tun_fill_buffer env i t = (d, t')" "i < length (tu_buffers t)"
  shows "\<exists>a. buffer_pending (tu_buffers t ! i) @ a = buffer_pending (tu_buffers t' ! i) \<and>
    grows i t t' (\<lambda>k. if k = From_channel then a else [])"
proof (cases "tu_buffers t ! i")
  case (Some b)
  then have "t' = t" using assms by (auto simp: tun_fill_buffer_def)
  then show ?thesis by (auto simp: grows_def)
next
  case None
  obtain len t1 where poll: "tun_call (te_channel_poll env (tu_channels t ! i)) t = (len, t1)" by force
  obtain r t2 where read: "tun_call (te_channel_read env (tu_channels t1 ! i) (nat len)) t1 = (r, t2)" by force
  note same1 = tun_call_same [OF poll] and at1 = at_connection_call [OF poll, of i]
  have at2: "at_connection i t t2" using at1 at_connection_call [OF read, of i] by (rule at_connection_trans)
  note same2 = tun_call_same [OF read]
  show ?thesis
  proof (cases "len \<noteq> -1 \<and> len \<noteq> -127 \<and> 0 < len \<and> (\<exists>data. r = Some data \<and> data \<noteq> [])")
    case True
    then obtain data where data: "r = Some data" "data \<noteq> []" by blast
    let ?t3 = "tun_log (Tun_data From_channel (tu_sockets t2 ! i) data) t2"
    have t': "t' = ?t3\<lparr>tu_buffers := (tu_buffers t2)[i := Some (remmina_ssh_tunnel_buffer_new data)]\<rparr>"
      using assms(1) None poll read data True by (simp add: tun_fill_buffer_def)
    have "grows i t ?t3 (\<lambda>k. if k = From_channel then data else [])"
      using grows_log_after [OF at2] same1 same2 by simp
    then have "grows i t t' (\<lambda>k. if k = From_channel then data else [])"
      using grows_buffer [of i t ?t3] by (simp add: t')
    then show ?thesis
      using None assms(2) same1 same2 by (intro exI [of _ data]) (simp add: t')
  next
    case False
    then have "at_connection i t t'" "tu_log t' = tu_log t" "tu_buffers t' = tu_buffers t"
      using assms(1) None poll read at1 at2 same1 same2
      by (auto simp: tun_fill_buffer_def split: if_splits option.splits)
    then show ?thesis by (auto simp: grows_def)
  qed
qed

lemma channel_step_grows:
  assumes "tun_channel_step env i t = (d, t')" "i < length (tu_buffers t)"
  shows "\<exists>a out rest. buffer_pending (tu_buffers t ! i) @ a = out @ rest \<and>
    (d = Some False \<longrightarrow> rest = buffer_pending (tu_buffers t' ! i)) \<and> d \<noteq> None \<and>
    grows i t t' (\<lambda>k. if k = From_channel then a else if k = To_socket then out else [])"
proof -
  obtain c t1 where fill: "tun_fill_buffer env i t = (c, t1)" by force
  from fill_buffer_grows [OF this assms(2)] obtain a where
    a: "buffer_pending (tu_buffers t ! i) @ a = buffer_pending (tu_buffers t1 ! i)"
      "grows i t t1 (\<lambda>k. if k = From_channel then a else [])" by blast
  have from_fill: "grows i t t1 (\<lambda>k. if k = From_channel then a else if k = To_socket then [] else [])"
    using a(2) by (rule back_subst [where P = "grows i t t1"]) auto
  show ?thesis
  proof (cases "c \<or> tu_buffers t1 ! i = None")
    case True
    then have "t' = t1" "d = Some c"
      using assms(1) fill by (auto simp: tun_channel_step_def split: if_splits option.splits)
    then show ?thesis using a(1) from_fill
      by (intro exI [of _ a] exI [of _ "[]"] exI [of _ "buffer_pending (tu_buffers t1 ! i)"]) auto
  next
    case False
    then obtain b where b: "tu_buffers t1 ! i = Some b" by auto
    obtain e b' t2 where flush: "tun_flush_buffer env i b t1 = (e, b', t2)" by (metis surj_pair)
    from flush_buffer_grows [OF flush] obtain out where out: "tu_buffers t2 = tu_buffers t1"
      "buffer_pending (Some b) = out @ buffer_pending (Some b')" "grows i t1 t2 (\<lambda>k. if k = To_socket then out else [])"
      by blast
    have t': "t' = t2\<lparr>tu_buffers := (tu_buffers t2)[i := if tb_len b' \<le> 0 then None else Some b']\<rparr>" "d = Some e"
      using assms(1) fill False b flush by (auto simp: tun_channel_step_def)
    have len: "i < length (tu_buffers t2)"
      using out(1) a(2) assms(2) by (simp add: grows_def at_connection_def)
    have "buffer_pending (tu_buffers t' ! i) = buffer_pending (Some b')"
      using len by (auto simp: t' buffer_pending_def)
    moreover from grows_trans [OF a(2) out(3)]
    have "grows i t t2 (\<lambda>k. if k = From_channel then a else if k = To_socket then out else [])"
      by (rule back_subst [where P = "grows i t t2"]) auto
    from grows_buffer [OF this]
    have "grows i t t' (\<lambda>k. if k = From_channel then a else if k = To_socket then out else [])"
      by (simp add: t')
    ultimately show ?thesis using a(1) b out(2) t'(2) by auto
  qed
qed

section \<open>The invariant\<close>

text \<open>The arrays are parallel, and the one of the channels ends with NULL.\<close>

definition tun_arrays :: "'w tunnel \<Rightarrow> bool" where
  "tun_arrays t \<longleftrightarrow> length (tu_sockets t) = tu_max t \<and> length (tu_buffers t) = tu_max t \<and> tu_num t \<le> tu_max t \<and>
     (if tu_max t = 0 then tu_channels t = []
      else length (tu_channels t) = Suc (tu_max t) \<and> tu_channels t ! tu_num t = None)"

text \<open>What came from one end went to the other, up to what waits in the buffer.\<close>

definition conn_ok :: "'w tunnel \<Rightarrow> nat \<Rightarrow> bool" where
  "conn_ok t i \<longleftrightarrow> (let s = tu_sockets t ! i; log = tu_log t in
     flow From_socket s log = flow To_channel s log \<and>
     flow From_channel s log = flow To_socket s log @ buffer_pending (tu_buffers t ! i))"

definition in_order :: "int \<Rightarrow> tunnel_event list \<Rightarrow> bool" where
  "in_order s log \<longleftrightarrow> prefix (flow To_channel s log) (flow From_socket s log) \<and>
     prefix (flow To_socket s log) (flow From_channel s log)"

definition open_ok :: "'w tunnel \<Rightarrow> bool" where
  "open_ok t \<longleftrightarrow> distinct (take (tu_num t) (tu_sockets t)) \<and> opened (tu_log t) = set (take (tu_num t) (tu_sockets t)) \<and>
     (\<forall>s. in_order s (tu_log t))"

definition tun_weak :: "'w tunnel \<Rightarrow> bool" where
  "tun_weak t \<longleftrightarrow> tun_arrays t \<and> (fresh_sockets (tu_log t) \<longrightarrow> open_ok t)"

definition tun_inv :: "'w tunnel \<Rightarrow> bool" where
  "tun_inv t \<longleftrightarrow> tun_weak t \<and> (fresh_sockets (tu_log t) \<longrightarrow> (\<forall>i<tu_num t. conn_ok t i))"

lemma conn_ok_in_order: "conn_ok t i \<Longrightarrow> in_order (tu_sockets t ! i) (tu_log t)"
  by (simp add: conn_ok_def in_order_def Let_def)

text \<open>What a step over a connection may do.\<close>

definition step_ok :: "(nat \<Rightarrow> 'w tunnel \<Rightarrow> bool option \<times> 'w tunnel) \<Rightarrow> bool" where
  "step_ok step \<longleftrightarrow> (\<forall>i t d t'. i < length (tu_buffers t) \<longrightarrow> step i t = (d, t') \<longrightarrow>
     at_connection i t t' \<and> (conn_ok t i \<longrightarrow> in_order (tu_sockets t ! i) (tu_log t') \<and> (d = Some False \<longrightarrow> conn_ok t' i)))"

lemma step_okD:
  assumes "step_ok step" "i < length (tu_buffers t)" "step i t = (d, t')"
  shows "at_connection i t t'"
    and "conn_ok t i \<Longrightarrow> in_order (tu_sockets t ! i) (tu_log t')"
    and "conn_ok t i \<Longrightarrow> d = Some False \<Longrightarrow> conn_ok t' i"
  using assms unfolding step_ok_def by blast+

lemma grows_sockets: "grows i t t' f \<Longrightarrow> tu_sockets t' = tu_sockets t \<and> at_connection i t t'"
  by (simp add: grows_def at_connection_def)

lemma grows_flow:
  "grows i t t' f \<Longrightarrow> flow k (tu_sockets t ! i) (tu_log t') = flow k (tu_sockets t ! i) (tu_log t) @ f k"
  by (simp add: grows_def)

lemma socket_step_ok: "step_ok (tun_socket_step env n ready)"
  unfolding step_ok_def
proof (intro allI impI conjI)
  fix i t d t'
  assume step: "tun_socket_step env n ready i t = (d, t')"
  have "tu_buffers t' = tu_buffers t \<and> (\<exists>out rest. (d = Some False \<longrightarrow> rest = []) \<and>
      grows i t t' (\<lambda>k. if k = From_socket then out @ rest else if k = To_channel then out else []))"
  proof (cases "tu_sockets t ! i \<in> set ready")
    case True
    then show ?thesis using step read_socket_grows [of env n i t d t'] by (simp add: tun_socket_step_def)
  next
    case False
    then show ?thesis using step
      by (intro conjI exI [of _ "[]"]) (auto simp: tun_socket_step_def grows_def)
  qed
  then obtain out rest where g: "d = Some False \<longrightarrow> rest = []" "tu_buffers t' = tu_buffers t"
    "grows i t t' (\<lambda>k. if k = From_socket then out @ rest else if k = To_channel then out else [])" by blast
  from grows_sockets [OF g(3)] have s: "tu_sockets t' = tu_sockets t" and "at_connection i t t'" by simp_all
  then show "at_connection i t t'" by simp
  assume ok: "conn_ok t i"
  then show "in_order (tu_sockets t ! i) (tu_log t')"
    by (simp add: conn_ok_def in_order_def Let_def grows_flow [OF g(3)])
  assume "d = Some False"
  then show "conn_ok t' i"
    using ok g(1,2) s by (simp add: conn_ok_def Let_def grows_flow [OF g(3)])
qed

lemma channel_step_ok: "step_ok (tun_channel_step env)"
  unfolding step_ok_def
proof (intro allI impI conjI)
  fix i t d t'
  assume len: "i < length (tu_buffers t)" and step: "tun_channel_step env i t = (d, t')"
  from channel_step_grows [OF step len] obtain a out rest where
    g: "buffer_pending (tu_buffers t ! i) @ a = out @ rest" "d = Some False \<longrightarrow> rest = buffer_pending (tu_buffers t' ! i)"
      "grows i t t' (\<lambda>k. if k = From_channel then a else if k = To_socket then out else [])" by blast
  from grows_sockets [OF g(3)] have s: "tu_sockets t' = tu_sockets t" and "at_connection i t t'" by simp_all
  then show "at_connection i t t'" by simp
  assume ok: "conn_ok t i"
  then show "in_order (tu_sockets t ! i) (tu_log t')"
    using g(1) by (simp add: conn_ok_def in_order_def Let_def grows_flow [OF g(3)])
  assume "d = Some False"
  then show "conn_ok t' i"
    using ok g(1,2) s by (simp add: conn_ok_def Let_def grows_flow [OF g(3)])
qed


section \<open>The invariant is kept\<close>

lemma at_connection_arrays: "\<lbrakk>at_connection i t t'; tun_arrays t\<rbrakk> \<Longrightarrow> tun_arrays t'"
  by (simp add: at_connection_def tun_arrays_def)

lemma at_connection_weak:
  assumes at: "at_connection i t t'" and weak: "tun_weak t" and i: "in_order (tu_sockets t ! i) (tu_log t')"
  shows "tun_weak t'"
proof -
  obtain es where es: "tu_log t' = tu_log t @ es" "only_data (tu_sockets t ! i) es"
    using at by (auto simp: at_connection_def)
  have "in_order s (tu_log t')" if "fresh_sockets (tu_log t)" for s
    using weak that i es by (cases "s = tu_sockets t ! i") (auto simp: tun_weak_def open_ok_def in_order_def only_data_flow)
  then show ?thesis
    using at weak es
    by (simp add: tun_weak_def at_connection_arrays [OF at] open_ok_def only_data_opened only_data_fresh)
      (simp add: at_connection_def)
qed

lemma at_connection_others:
  assumes at: "at_connection i t t'" and "distinct (take (tu_num t) (tu_sockets t))" "tu_num t \<le> length (tu_sockets t)"
    and "i < tu_num t" "j < tu_num t" "j \<noteq> i" and ok: "conn_ok t j"
  shows "conn_ok t' j"
proof -
  have "tu_sockets t ! j \<noteq> tu_sockets t ! i"
    using assms nth_eq_iff_index_eq [of "take (tu_num t) (tu_sockets t)" j i] by auto
  then show ?thesis
    using at ok \<open>j \<noteq> i\<close> by (auto simp: at_connection_def conn_ok_def Let_def only_data_flow)
qed

text \<open>The one that is last takes the place of the one that goes.\<close>

lemma swap_remove:
  assumes "n < m" "m \<le> length xs" "distinct (take m xs)"
  shows "set (take (m - 1) (xs[n := xs ! (m - 1)])) = set (take m xs) - {xs ! n}"
    and "distinct (take (m - 1) (xs[n := xs ! (m - 1)]))"
proof -
  let ?ys = "take (m - 1) xs"
  have ys: "take m xs = ?ys @ [xs ! (m - 1)]"
    using assms(1,2) take_Suc_conv_app_nth [of "m - 1" xs] by simp
  have upd: "take (m - 1) (xs[n := xs ! (m - 1)]) = ?ys[n := xs ! (m - 1)]"
    by (simp add: take_update_swap)
  have d: "distinct ?ys" "xs ! (m - 1) \<notin> set ?ys" using assms(3) ys by simp_all
  have len: "length ?ys = m - 1" using assms(1,2) by simp
  have "set (?ys[n := xs ! (m - 1)]) = set (take m xs) - {xs ! n} \<and> distinct (?ys[n := xs ! (m - 1)])"
  proof (cases "n = m - 1")
    case True
    then have "?ys[n := xs ! (m - 1)] = ?ys" by (intro list_update_beyond) (simp add: len)
    then show ?thesis using ys d True by simp
  next
    case False
    then have n: "n < length ?ys" and nth: "?ys ! n = xs ! n" using assms(1) len by simp_all
    then have "xs ! n \<noteq> xs ! (m - 1)" using d(2) nth_mem by metis
    then show ?thesis
      using ys d n nth set_update_distinct [OF d(1) n] distinct_list_update [OF d(1)] by auto
  qed
  then show "set (take (m - 1) (xs[n := xs ! (m - 1)])) = set (take m xs) - {xs ! n}"
    and "distinct (take (m - 1) (xs[n := xs ! (m - 1)]))" using upd by simp_all
qed

lemma remove_channel_fields:
  fixes t :: "'w tunnel"
  shows "tu_num (remmina_ssh_tunnel_remove_channel env n t) = tu_num t - 1"
    "tu_max (remmina_ssh_tunnel_remove_channel env n t) = tu_max t"
    "tu_running (remmina_ssh_tunnel_remove_channel env n t) = tu_running t"
    "tu_server_sock (remmina_ssh_tunnel_remove_channel env n t) = tu_server_sock t"
    "tu_channels (remmina_ssh_tunnel_remove_channel env n t) =
       (tu_channels t)[n := tu_channels t ! (tu_num t - 1), tu_num t - 1 := None]"
    "tu_sockets (remmina_ssh_tunnel_remove_channel env n t) = (tu_sockets t)[n := tu_sockets t ! (tu_num t - 1)]"
    "tu_buffers (remmina_ssh_tunnel_remove_channel env n t) = (tu_buffers t)[n := tu_buffers t ! (tu_num t - 1)]"
    "tu_log (remmina_ssh_tunnel_remove_channel env n t) = tu_log t @ [Tun_closed (tu_channels t ! n) (tu_sockets t ! n)]"
  by (simp_all add: remmina_ssh_tunnel_remove_channel_def Let_def)

lemma flow_closed [simp]: "flow_step k s acc (Tun_closed c s') = acc" "flow_step k s acc Tun_disconnect_notified = acc"
  by (simp_all add: flow_step_def)

lemma opened_steps [simp]:
  "opened_step S (Tun_closed c s) = S - {s}" "opened_step S (Tun_added c s) = insert s S"
  "opened_step S Tun_disconnect_notified = S"
  by (simp_all add: opened_step_def)

lemma remove_channel_weak:
  assumes weak: "tun_weak t" and n: "n < tu_num t"
  shows "tun_weak (remmina_ssh_tunnel_remove_channel env n t)"
proof -
  have len: "tu_num t \<le> length (tu_sockets t)" and arrays: "tun_arrays t"
    using weak by (auto simp: tun_weak_def tun_arrays_def)
  have "tun_arrays (remmina_ssh_tunnel_remove_channel env n t)"
    using arrays n by (auto simp: tun_arrays_def remove_channel_fields)
  then show ?thesis
    using weak swap_remove [OF n len]
    by (auto simp: tun_weak_def open_ok_def in_order_def remove_channel_fields)
qed

lemma remove_channel_inv:
  assumes weak: "tun_weak t" and n: "n < tu_num t"
    and others: "fresh_sockets (tu_log t) \<Longrightarrow> \<forall>j<tu_num t. j \<noteq> n \<longrightarrow> conn_ok t j"
  shows "tun_inv (remmina_ssh_tunnel_remove_channel env n t)"
proof -
  let ?t = "remmina_ssh_tunnel_remove_channel env n t"
  have len: "length (tu_sockets t) = tu_max t" "length (tu_buffers t) = tu_max t" "tu_num t \<le> tu_max t"
    using weak by (auto simp: tun_weak_def tun_arrays_def)
  have "conn_ok ?t j" if "fresh_sockets (tu_log ?t)" "j < tu_num ?t" for j
  proof -
    let ?i = "if j = n then tu_num t - 1 else j"
    have i: "?i < tu_num t" "?i \<noteq> n" using that n by (auto simp: remove_channel_fields)
    have at: "tu_sockets ?t ! j = tu_sockets t ! ?i" "tu_buffers ?t ! j = tu_buffers t ! ?i"
      using that n len by (auto simp: remove_channel_fields)
    have "conn_ok t ?i" using others i that by (simp add: remove_channel_fields)
    then show ?thesis
      unfolding conn_ok_def Let_def at by (simp add: remove_channel_fields)
  qed
  then show ?thesis using remove_channel_weak [OF weak n] by (auto simp: tun_inv_def)
qed

lemma tun_inv_fields:
  "tun_inv (t\<lparr>tu_running := r\<rparr>) \<longleftrightarrow> tun_inv t" "tun_weak (t\<lparr>tu_running := r\<rparr>) \<longleftrightarrow> tun_weak t"
  "tun_inv (t\<lparr>tu_polled := p\<rparr>) \<longleftrightarrow> tun_inv t" "tun_inv (t\<lparr>tu_first := f\<rparr>) \<longleftrightarrow> tun_inv t"
  "tun_inv (t\<lparr>tu_port := q\<rparr>) \<longleftrightarrow> tun_inv t" "tun_inv (t\<lparr>tu_buffer_len := q'\<rparr>) \<longleftrightarrow> tun_inv t"
  "tun_inv (t\<lparr>tu_thread := b\<rparr>) \<longleftrightarrow> tun_inv t" "tun_weak (t\<lparr>tu_thread := b\<rparr>) \<longleftrightarrow> tun_weak t"
  "tun_inv (t\<lparr>tu_remotedisplay := d\<rparr>) \<longleftrightarrow> tun_inv t" "tun_inv (t\<lparr>tu_server_sock := ss\<rparr>) \<longleftrightarrow> tun_inv t"
  "tun_weak (t\<lparr>tu_server_sock := ss\<rparr>) \<longleftrightarrow> tun_weak t"
  "tun_inv (tun_do g t) \<longleftrightarrow> tun_inv t" "tun_weak (tun_do g t) \<longleftrightarrow> tun_weak t"
  "tun_inv (tun_set_error env x t) \<longleftrightarrow> tun_inv t" "tun_inv (tun_set_text x t) \<longleftrightarrow> tun_inv t"
  by (simp_all add: tun_inv_def tun_weak_def tun_arrays_def open_ok_def in_order_def conn_ok_def)

declare tun_inv_fields [simp]

lemma tun_inv_call: "tun_call f t = (r, t') \<Longrightarrow> tun_inv t' = tun_inv t"
  by (auto simp: tun_inv_def tun_weak_def tun_arrays_def open_ok_def in_order_def conn_ok_def tun_call_same)

lemma tun_inv_weak: "tun_inv t \<Longrightarrow> tun_weak t"
  by (simp add: tun_inv_def)

text \<open>A pass keeps the invariant, and what an unfinished one leaves is in order.\<close>

lemma pass_inv:
  assumes "step_ok step"
  shows "\<lbrakk>tun_inv t; tun_pass env step k i t = (finished, t')\<rbrakk> \<Longrightarrow> tun_weak t' \<and> (finished \<longrightarrow> tun_inv t')"
proof (induction k arbitrary: i t)
  case (Suc k)
  show ?case
  proof (cases "\<not> tu_running t \<or> tu_num t \<le> i")
    case True
    then show ?thesis using Suc.prems by (auto simp: tun_inv_def)
  next
    case False
    then have i: "i < tu_num t" by simp
    obtain d t1 where step: "step i t = (d, t1)" by force
    have arrays: "tun_arrays t" "tu_num t \<le> length (tu_sockets t)" "i < length (tu_buffers t)"
      using Suc.prems(1) i by (auto simp: tun_inv_def tun_weak_def tun_arrays_def)
    note ok = step_okD [OF assms arrays(3) step]
    obtain es where es: "tu_log t1 = tu_log t @ es" "only_data (tu_sockets t ! i) es"
      using ok(1) by (auto simp: at_connection_def)
    have fresh: "fresh_sockets (tu_log t1) = fresh_sockets (tu_log t)" using es by (simp add: only_data_fresh)
    have weak: "tun_weak t1"
    proof (cases "fresh_sockets (tu_log t)")
      case True
      then show ?thesis
        using at_connection_weak [OF ok(1)] ok(2) Suc.prems(1) i by (simp add: tun_inv_def)
    next
      case False
      then show ?thesis using fresh at_connection_arrays [OF ok(1) arrays(1)] by (simp add: tun_weak_def)
    qed
    have others: "\<forall>j<tu_num t1. j \<noteq> i \<longrightarrow> conn_ok t1 j" if "fresh_sockets (tu_log t1)"
      using that Suc.prems(1) fresh i arrays(2) ok(1) at_connection_others [OF ok(1)]
      by (auto simp: tun_inv_def tun_weak_def open_ok_def at_connection_def)
    have num: "tu_num t1 = tu_num t" using ok(1) by (simp add: at_connection_def)
    show ?thesis
    proof (cases d)
      case None
      then show ?thesis using Suc.prems(2) False step weak by auto
    next
      case (Some gone)
      show ?thesis
      proof (cases gone)
        case True
        have inv: "tun_inv (remmina_ssh_tunnel_remove_channel env i t1)"
          using remove_channel_inv [OF weak _ others] i num by simp
        have "tun_pass env step k i (remmina_ssh_tunnel_remove_channel env i t1) = (finished, t')"
          using Suc.prems(2) False step Some True by simp
        from Suc.IH [OF inv this] show ?thesis .
      next
        case stays: False
        then have inv: "tun_inv t1"
          using weak others Suc.prems(1) fresh ok(3) i num Some
          by (auto simp: tun_inv_def)
        have "tun_pass env step k (Suc i) t1 = (finished, t')"
          using Suc.prems(2) False step Some stays by simp
        from Suc.IH [OF inv this] show ?thesis .
      qed
    qed
  qed
qed (auto simp: tun_inv_def)


section \<open>Opening and closing connections\<close>

lemma add_channel_inv:
  fixes t :: "'w tunnel"
  assumes inv: "tun_inv t"
  shows "tun_inv (remmina_ssh_tunnel_add_channel c sock t)"
proof -
  let ?t = "remmina_ssh_tunnel_add_channel c sock t" and ?n = "tu_num t"
  have arrays: "tun_arrays t" using inv by (simp add: tun_inv_def tun_weak_def)
  have fields: "tu_num ?t = Suc ?n" "tu_log ?t = tu_log t @ [Tun_added c sock]"
    by (simp_all add: remmina_ssh_tunnel_add_channel_def Let_def)
  have nth: "tu_sockets ?t ! ?n = sock" "tu_buffers ?t ! ?n = None"
    using arrays by (auto simp: remmina_ssh_tunnel_add_channel_def Let_def tun_arrays_def nth_append)
  have old: "tu_sockets ?t ! j = tu_sockets t ! j" "tu_buffers ?t ! j = tu_buffers t ! j" if "j < ?n" for j
    using arrays that by (auto simp: remmina_ssh_tunnel_add_channel_def Let_def tun_arrays_def nth_append)
  have new_arrays: "tun_arrays ?t"
  proof (cases "tu_max t < Suc ?n")
    case True
    then have "length (take ?n (tu_channels t)) = ?n" using arrays by (auto simp: tun_arrays_def split: if_splits)
    then show ?thesis
      using arrays True
      by (simp add: remmina_ssh_tunnel_add_channel_def Let_def tun_arrays_def nth_list_update del: length_take)
  next
    case False
    then show ?thesis
      using arrays by (auto simp: remmina_ssh_tunnel_add_channel_def Let_def tun_arrays_def split: if_splits)
  qed
  have taken: "take (Suc ?n) (tu_sockets ?t) = take ?n (tu_sockets t) @ [sock]"
  proof -
    have "?n < length (tu_sockets ?t)" using new_arrays fields(1) by (simp add: tun_arrays_def)
    moreover have "take ?n (tu_sockets ?t) = take ?n (tu_sockets t)"
      using arrays new_arrays fields(1) old(1) by (intro nth_take_lemma) (auto simp: tun_arrays_def)
    ultimately show ?thesis using nth(1) by (simp add: take_Suc_conv_app_nth)
  qed
  have "open_ok ?t \<and> (\<forall>j<Suc ?n. conn_ok ?t j)" if "fresh_sockets (tu_log ?t)"
  proof -
    have fresh: "fresh_sockets (tu_log t)" "sock \<notin> opened (tu_log t)" using that fields(2) by simp_all
    then have ok: "open_ok t" "\<forall>j<?n. conn_ok t j" using inv by (auto simp: tun_inv_def tun_weak_def)
    have ne: "tu_sockets t ! j \<noteq> sock" if "j < ?n" for j
    proof -
      have "tu_sockets t ! j \<in> set (take ?n (tu_sockets t))"
        using that arrays by (auto simp: tun_arrays_def in_set_conv_nth intro!: exI [of _ j])
      then show ?thesis using ok(1) fresh(2) by (auto simp: open_ok_def)
    qed
    have "conn_ok ?t j" if "j < Suc ?n" for j
    proof (cases "j = ?n")
      case True
      then show ?thesis by (simp add: conn_ok_def nth fields flow_step_def)
    next
      case False
      then have j: "j < ?n" using that by simp
      then have "conn_ok t j" "tu_sockets t ! j \<noteq> sock" using ok(2) ne by simp_all
      then show ?thesis using old [OF j] by (simp add: conn_ok_def Let_def fields flow_step_def)
    qed
    moreover have "open_ok ?t"
      using ok(1) fresh(2) by (auto simp: open_ok_def fields taken in_order_def flow_step_def)
    ultimately show ?thesis by blast
  qed
  then show ?thesis using new_arrays by (auto simp: tun_inv_def tun_weak_def fields)
qed

lemma close_channels_log:
  "tu_log (close_channels_from env cs t) = tu_log t @ map (\<lambda>(c, s). Tun_closed c s) cs"
  by (induction env cs t rule: close_channels_from.induct) simp_all

lemma closed_log:
  "opened (log @ map (\<lambda>(c, s). Tun_closed c s) cs) = opened log - snd ` set cs"
  "flow k s (log @ map (\<lambda>(c, s). Tun_closed c s) cs) = flow k s log"
  "fresh_sockets (log @ map (\<lambda>(c, s). Tun_closed c s) cs) = fresh_sockets log"
  by (induction cs rule: rev_induct) (force simp flip: append_assoc)+

text \<open>Afterwards nothing is open, and the streams are as they were.\<close>

lemma close_all_closes:
  fixes t :: "'w tunnel"
  assumes "tun_weak t"
  shows "tun_inv (remmina_ssh_tunnel_close_all_channels env t)"
    and "fresh_sockets (tu_log (remmina_ssh_tunnel_close_all_channels env t)) \<Longrightarrow>
      opened (tu_log (remmina_ssh_tunnel_close_all_channels env t)) = {}"
proof -
  let ?t = "remmina_ssh_tunnel_close_all_channels env t"
  let ?cs = "take (tu_num t) (zip (tu_channels t) (tu_sockets t))"
  have log: "tu_log ?t = tu_log t @ map (\<lambda>(c, s). Tun_closed c s) ?cs"
    by (simp add: remmina_ssh_tunnel_close_all_channels_def close_channels_log)
  have empty: "tu_num ?t = 0" "tu_max ?t = 0" "tu_channels ?t = []" "tu_sockets ?t = []" "tu_buffers ?t = []"
    by (simp_all add: remmina_ssh_tunnel_close_all_channels_def)
  have "length (take (tu_num t) (tu_sockets t)) \<le> length (take (tu_num t) (tu_channels t))"
    using assms by (auto simp: tun_weak_def tun_arrays_def split: if_splits)
  then have "map snd ?cs = take (tu_num t) (tu_sockets t)"
    by (simp add: take_zip map_snd_zip_take min_def split: if_splits)
  then have cs: "snd ` set ?cs = set (take (tu_num t) (tu_sockets t))"
    by (metis set_map)
  have opened: "opened (tu_log ?t) = {}" if "fresh_sockets (tu_log ?t)"
    using that assms by (simp add: log closed_log cs tun_weak_def open_ok_def)
  then show "fresh_sockets (tu_log ?t) \<Longrightarrow> opened (tu_log ?t) = {}" .
  show "tun_inv ?t"
    using opened assms by (auto simp: tun_inv_def tun_weak_def tun_arrays_def open_ok_def empty log closed_log in_order_def)
qed

section \<open>The thread\<close>

lemma tun_log_notified [simp]: "tun_inv (tun_log Tun_disconnect_notified t) \<longleftrightarrow> tun_inv t"
  by (simp add: tun_inv_def tun_weak_def tun_arrays_def open_ok_def in_order_def conn_ok_def Let_def)

lemma notify_inv [simp]: "tun_inv (tun_notify_disconnect env t) \<longleftrightarrow> tun_inv t" "tun_inv (tun_give_up env t) \<longleftrightarrow> tun_inv t"
  by (simp_all add: tun_give_up_def tun_notify_disconnect_def split: option.splits)

lemma accept_inv: "remmina_ssh_tunnel_accept_local_connection env b t = (sock, t') \<Longrightarrow> tun_inv t' = tun_inv t"
  by (auto simp: remmina_ssh_tunnel_accept_local_connection_def tun_inv_call split: prod.splits if_splits)

lemma create_forward_inv: "remmina_ssh_tunnel_create_forward_channel env t = (c, t') \<Longrightarrow> tun_inv t' = tun_inv t"
  by (auto simp: remmina_ssh_tunnel_create_forward_channel_def tun_inv_call split: prod.splits option.splits if_splits)

lemma find_display_inv [simp]: "tun_inv (tun_find_display env is t) = tun_inv t"
  by (induction env "is" t rule: tun_find_display.induct) (auto simp: tun_inv_call split: prod.splits)

lemma tun_init_inv: "tun_init env t = (ok, t') \<Longrightarrow> tun_inv t' = tun_inv t"
  by (auto simp: tun_init_def tun_inv_call split: option.splits prod.splits if_splits)

lemma tun_start_inv:
  assumes "tun_start env t = (ok, t')" "tun_inv t"
  shows "tun_inv t'"
proof (cases "tu_type t")
  case Tunnel_open
  obtain sock t1 where acc: "remmina_ssh_tunnel_accept_local_connection env True t = (sock, t1)" by force
  obtain c t2 where create: "remmina_ssh_tunnel_create_forward_channel env t1 = (c, t2)" by force
  have "tun_inv t1" "tun_inv t2" using accept_inv [OF acc] create_forward_inv [OF create] assms(2) by simp_all
  then show ?thesis
    using assms(1) Tunnel_open acc create
    by (auto simp: tun_start_def add_channel_inv split: if_splits)
next
  case Tunnel_xport
  have "tun_inv (tun_find_display env [10..<100] t)" using assms(2) find_display_inv by blast
  then show ?thesis
    using assms(1) Tunnel_xport tun_init_inv [of env "tun_find_display env [10..<100] t"]
    by (auto simp: tun_start_def Let_def simp del: tun_find_display.simps split: if_splits)
next
  case Tunnel_reverse
  obtain l t1 where listen: "tun_call (te_listen_forward env False (tu_port t)) t = (l, t1)" by force
  have "tun_inv t1" using tun_inv_call [OF listen] assms(2) by simp
  then show ?thesis
    using assms(1) Tunnel_reverse listen tun_init_inv [of env t1] by (auto simp: tun_start_def split: if_splits)
qed (use assms in \<open>simp add: tun_start_def\<close>)

lemma local_end_inv: "tun_local_end env t = (sock, t') \<Longrightarrow> tun_inv t' = tun_inv t"
  by (auto simp: tun_local_end_def tun_inv_call split: if_splits prod.splits)

lemma take_channel_inv: "tun_inv t \<Longrightarrow> tun_inv (tun_take_channel env c t)"
  by (auto simp: tun_take_channel_def add_channel_inv split: option.splits prod.splits dest: local_end_inv)

lemma wait_forward_inv: "tun_wait_forward env timeout t = (c, t') \<Longrightarrow> tun_inv t' = tun_inv t"
  by (auto simp: tun_wait_forward_def tun_inv_call split: prod.splits)

lemma forwards_inv:
  assumes "tun_forwards env t = (ok, t')" "tun_inv t"
  shows "tun_inv t'"
proof -
  have first: "tun_inv t1" if "tun_first_forward env t = (ok1, t1)" for ok1 t1
    using that assms(2) wait_forward_inv [of env 15000 "t\<lparr>tu_first := False\<rparr>"]
    by (auto simp: tun_first_forward_def Let_def take_channel_inv split: prod.splits option.splits if_splits)
  have "tun_inv (tun_next_forward env t)"
    using assms(2)
    by (auto simp: tun_next_forward_def Let_def tun_inv_call take_channel_inv dest: wait_forward_inv split: prod.splits)
  with first show ?thesis using assms by (auto simp: tun_forwards_def split: if_splits)
qed

lemma accept_more_inv: "tun_inv t \<Longrightarrow> tun_inv (tun_accept_more env t)"
  by (auto simp: tun_accept_more_def Let_def add_channel_inv split: prod.splits option.splits
      dest: accept_inv create_forward_inv)

lemma channel_step_finishes: "fst (tun_channel_step env i t) \<noteq> None"
  by (auto simp: tun_channel_step_def split: prod.splits option.splits)

lemma channel_pass_finishes: "fst (tun_pass env (tun_channel_step env) k i t)"
proof (induction k arbitrary: i t)
  case (Suc k)
  then show ?case using channel_step_finishes [of env i t] by (auto split: prod.splits option.splits bool.splits)
qed simp

lemma copy_inv:
  assumes "tun_copy env n ready t = (r, t')" "tun_inv t"
  shows "tun_weak t' \<and> (r \<noteq> Tun_reading \<longrightarrow> tun_inv t')"
proof -
  obtain fin t1 where p1: "tun_pass env (tun_socket_step env n ready) (tu_num t) 0 t = (fin, t1)" by force
  have t1: "tun_weak t1" "fin \<Longrightarrow> tun_inv t1" using pass_inv [OF socket_step_ok assms(2) p1] by simp_all
  obtain fin2 t2 where p2: "tun_pass env (tun_channel_step env) (tu_num t1) 0 t1 = (fin2, t2)" by force
  have fin2: "fin2" using channel_pass_finishes [of env "tu_num t1" 0 t1] p2 by simp
  have "tun_inv t2" if fin using pass_inv [OF channel_step_ok t1(2) [OF that] p2] fin2 by simp
  then show ?thesis
    using assms(1) p1 p2 t1 accept_more_inv [of t2 env] tun_inv_weak
    by (auto simp: tun_copy_def split: if_splits)
qed

lemma round_inv:
  assumes "tun_round env n t = (r, t')" "tun_inv t"
  shows "tun_weak t' \<and> (r \<noteq> Tun_reading \<longrightarrow> tun_inv t')"
proof -
  obtain ok t1 where fw: "tun_forwards env t = (ok, t1)" by force
  have t1: "tun_inv t1" by (rule forwards_inv [OF fw assms(2)])
  obtain ret ready stopped t2 where sel:
    "tun_call (te_select env (tu_channels t1) (take (tu_num t1) (tu_sockets t1))) t1 = ((ret, ready, stopped), t2)"
    by (metis surj_pair)
  have t2: "tun_inv (t2\<lparr>tu_running := b\<rparr>)" for b using t1 tun_inv_call [OF sel] by simp
  show ?thesis
    using assms(1) fw sel t1 t2 tun_inv_weak [OF t1] tun_inv_weak [OF t2] copy_inv [OF _ t2]
    by (auto simp: tun_round_def Let_def split: if_splits select_result.splits)
qed


text \<open>A thread that has returned early has no connection.\<close>

lemma first_forward_num: "tun_first_forward env t = (False, t') \<Longrightarrow> tu_num t' = tu_num t"
  by (auto simp: tun_first_forward_def tun_wait_forward_def tun_give_up_def tun_notify_disconnect_def Let_def tun_call_same
      split: prod.splits option.splits)

lemma finish_inv:
  assumes "tun_inv t"
  shows "tun_inv (tun_finish env t)"
    and "fresh_sockets (tu_log (tun_finish env t)) \<Longrightarrow> opened (tu_log (tun_finish env t)) = {}"
    and "\<not> tu_running (tun_finish env t)"
  using close_all_closes [OF tun_inv_weak [OF assms], of env]
  by (simp_all add: tun_finish_def tun_notify_disconnect_def split: option.splits)

lemma loop_inv:
  "\<lbrakk>tun_loop env n k t = (e, t'); tun_inv t\<rbrakk> \<Longrightarrow>
     tun_weak t' \<and> (e = End_closed \<longrightarrow> (fresh_sockets (tu_log t') \<longrightarrow> opened (tu_log t') = {}) \<and> \<not> tu_running t')"
proof (induction k arbitrary: t)
  case 0
  then show ?case by (auto simp: tun_inv_weak)
next
  case (Suc k)
  show ?case
  proof (cases "tu_running t")
    case False
    then have "e = End_closed" "t' = tun_finish env t" using Suc.prems(1) by simp_all
    then show ?thesis using finish_inv [OF Suc.prems(2), of env] tun_inv_weak by blast
  next
    case True
    obtain r t1 where r: "tun_round env n t = (r, t1)" by force
    note inv = round_inv [OF r Suc.prems(2)]
    show ?thesis
    proof (cases r)
      case Tun_next
      then have rec: "tun_loop env n k t1 = (e, t')" using Suc.prems(1) True r by simp
      show ?thesis by (rule Suc.IH [OF rec]) (use inv Tun_next in simp)
    next
      case Tun_break
      then have "tun_inv t1" "e = End_closed" "t' = tun_finish env t1" using Suc.prems(1) True r inv by simp_all
      then show ?thesis using finish_inv [of t1 env] tun_inv_weak by blast
    qed (use Suc.prems(1) True r inv in simp_all)
  qed
qed

lemma proc_inv:
  assumes "remmina_ssh_tunnel_main_thread_proc env n k t = (e, t')" "tun_inv t"
  shows "tun_weak t' \<and> (e = End_closed \<longrightarrow> (fresh_sockets (tu_log t') \<longrightarrow> opened (tu_log t') = {}) \<and> \<not> tu_running t')"
proof -
  obtain now t1 where now: "tun_call (te_now env) t = (now, t1)" by force
  let ?t1 = "t1\<lparr>tu_first := True, tu_polled := now\<rparr>"
  obtain ok t2 where start: "tun_start env ?t1 = (ok, t2)" by force
  have t2: "tun_inv t2" by (rule tun_start_inv [OF start]) (use tun_inv_call [OF now] assms(2) in simp)
  show ?thesis
  proof (cases ok)
    case True
    then have "tun_loop env n k (t2\<lparr>tu_buffer_len := 10240\<rparr>) = (e, t')"
      using assms(1) now start by (simp add: remmina_ssh_tunnel_main_thread_proc_def)
    from loop_inv [OF this] t2 show ?thesis by simp
  next
    case False
    then show ?thesis using assms(1) now start t2 tun_inv_weak
      by (auto simp: remmina_ssh_tunnel_main_thread_proc_def)
  qed
qed

text \<open>The start of a tunnel leaves a state without connections.\<close>

lemma new_inv [simp]: "tun_inv (remmina_ssh_tunnel_new_from_file w)"
  by (simp add: remmina_ssh_tunnel_new_from_file_def tun_inv_def tun_weak_def tun_arrays_def open_ok_def in_order_def)

lemma tun_inv_start_fields:
  "tun_inv (t\<lparr>tu_type := y\<rparr>) \<longleftrightarrow> tun_inv t" "tun_inv (t\<lparr>tu_dest := d\<rparr>) \<longleftrightarrow> tun_inv t"
  "tun_inv (t\<lparr>tu_bindlocalhost := b\<rparr>) \<longleftrightarrow> tun_inv t" "tun_inv (t\<lparr>tu_localport := lp\<rparr>) \<longleftrightarrow> tun_inv t"
  by (simp_all add: tun_inv_def tun_weak_def tun_arrays_def open_ok_def in_order_def conn_ok_def)

lemma create_thread_inv: "tun_create_thread env t = (ok, t') \<Longrightarrow> tun_inv t' = tun_inv t"
  by (auto simp: tun_create_thread_def tun_inv_call split: prod.splits if_splits)

lemma tunnel_open_inv:
  assumes "remmina_ssh_tunnel_open env host port local_port t = (ok, t')" "tun_inv t"
  shows "tun_inv t'"
proof -
  let ?t = "t\<lparr>tu_type := Tunnel_open, tu_dest := host, tu_port := port\<rparr>"
  obtain sock t1 where 1: "tun_call (te_socket env) ?t = (sock, t1)" by force
  obtain b t2 where 2: "tun_call (te_bind env sock local_port) t1 = (b, t2)" by force
  obtain l t3 where 3: "tun_call (te_listen env sock) t2 = (l, t3)" by force
  have inv: "tun_inv t1" "tun_inv t2" "tun_inv t3"
    using tun_inv_call [OF 1] tun_inv_call [OF 2] tun_inv_call [OF 3] assms(2) by (simp_all add: tun_inv_start_fields)
  show ?thesis
    using assms 1 2 3 inv create_thread_inv [of env "t3\<lparr>tu_server_sock := sock, tu_running := True\<rparr>" ok t']
    by (auto simp: remmina_ssh_tunnel_open_def Let_def tun_inv_start_fields split: if_splits)
qed

lemma tunnel_xport_inv: "remmina_ssh_tunnel_xport env b t = (ok, t') \<Longrightarrow> tun_inv t' = tun_inv t"
  by (auto simp: remmina_ssh_tunnel_xport_def tun_inv_start_fields dest: create_thread_inv)

lemma tunnel_reverse_inv: "remmina_ssh_tunnel_reverse env p lp t = (ok, t') \<Longrightarrow> tun_inv t' = tun_inv t"
  by (auto simp: remmina_ssh_tunnel_reverse_def tun_inv_start_fields dest: create_thread_inv)

section \<open>Tunnels that run\<close>

text \<open>The states in which the loop of a thread is at its head.\<close>

inductive tunnel_at_head :: "'w tunnel_env \<Rightarrow> nat \<Rightarrow> 'w tunnel \<Rightarrow> bool" for env n where
  start_open: "\<lbrakk>remmina_ssh_tunnel_open env host port lp (remmina_ssh_tunnel_new_from_file w) = (True, t);
     tun_start env t = (True, t')\<rbrakk> \<Longrightarrow> tunnel_at_head env n (t'\<lparr>tu_buffer_len := 10240\<rparr>)"
| start_xport: "\<lbrakk>remmina_ssh_tunnel_xport env b (remmina_ssh_tunnel_new_from_file w) = (True, t);
     tun_start env t = (True, t')\<rbrakk> \<Longrightarrow> tunnel_at_head env n (t'\<lparr>tu_buffer_len := 10240\<rparr>)"
| start_reverse: "\<lbrakk>remmina_ssh_tunnel_reverse env p lp (remmina_ssh_tunnel_new_from_file w) = (True, t);
     tun_start env t = (True, t')\<rbrakk> \<Longrightarrow> tunnel_at_head env n (t'\<lparr>tu_buffer_len := 10240\<rparr>)"
| round: "\<lbrakk>tunnel_at_head env n t; tu_running t; tun_round env n t = (Tun_next, t')\<rbrakk> \<Longrightarrow> tunnel_at_head env n t'"

lemma at_head_inv: "tunnel_at_head env n t \<Longrightarrow> tun_inv t"
proof (induction rule: tunnel_at_head.induct)
  case (start_open host port lp w t t')
  from tunnel_open_inv [OF start_open(1) new_inv] tun_start_inv [OF start_open(2)] show ?case by simp
next
  case (start_xport b w t t')
  from tunnel_xport_inv [OF start_xport(1)] tun_start_inv [OF start_xport(2)] show ?case by simp
next
  case (start_reverse p lp w t t')
  from tunnel_reverse_inv [OF start_reverse(1)] tun_start_inv [OF start_reverse(2)] show ?case by simp
next
  case (round t t')
  then show ?case using round_inv [OF round(3)] by simp
qed


section \<open>A tunnel to try the statements on\<close>

text \<open>
  One connection: the program sends three bytes, the channel takes two at a time; the server
  sends four bytes, of which the socket takes three. The world counts the reads and the writes.
\<close>

definition sample_tunnel_env :: "(nat \<times> nat) tunnel_env" where
  "sample_tunnel_env = \<lparr>te_get_error = \<lambda>_. ''error'', te_socket = \<lambda>w. (5, w), te_bind = \<lambda>_ _ w. (True, w),
     te_listen = \<lambda>_ w. (True, w), te_accept = \<lambda>_ blocking w. (if blocking then 7 else -1, w), te_close = \<lambda>_ w. w,
     te_connect_local = \<lambda>_ w. (-1, w), te_open_xdisplay = \<lambda>_ w. (-1, w), te_channel_new = \<lambda>w. (Some 1, w),
     te_open_forward = \<lambda>_ _ _ w. (True, w), te_channel_free = \<lambda>_ w. w, te_listen_forward = \<lambda>_ _ w. (True, w),
     te_accept_forward = \<lambda>_ w. ((None, 0), w), te_cancel_forward = \<lambda>_ w. w,
     te_select = \<lambda>_ socks w. ((Select_ok, socks, False), w),
     te_read = \<lambda>_ _ (r, k). if r = 0 then (Some [1, 2, 3], Suc r, k) else if r = 1 then (None, Suc r, k) else (Some [], r, k),
     te_write = \<lambda>_ _ (r, k). if k = 0 then (Wrote 3, r, Suc k) else (Write_again, r, k),
     te_channel_poll = \<lambda>_ w. (4, w), te_channel_read = \<lambda>_ _ w. (Some [9, 8, 7, 6], w),
     te_channel_write = \<lambda>_ data w. (min 2 (int (length data)), w), te_now = \<lambda>w. (0, w), te_init_func = None,
     te_connect_func = None, te_disconnect_func = None, te_thread_create = \<lambda>w. (True, w)\<rparr>"

definition sample_tunnel_opened :: "(nat \<times> nat) tunnel" where
  "sample_tunnel_opened = snd (remmina_ssh_tunnel_open sample_tunnel_env (Some ''inner'') 5900 4732
     (remmina_ssh_tunnel_new_from_file (0, 0)))"

lemma sample_tunnel_open:
  "remmina_ssh_tunnel_open sample_tunnel_env (Some ''inner'') 5900 4732 (remmina_ssh_tunnel_new_from_file (0, 0)) =
     (True, sample_tunnel_opened)"
proof -
  have "fst (remmina_ssh_tunnel_open sample_tunnel_env (Some ''inner'') 5900 4732 (remmina_ssh_tunnel_new_from_file (0, 0)))"
    by code_simp
  then show ?thesis by (simp add: sample_tunnel_opened_def prod_eq_iff)
qed

definition sample_tunnel_head :: "(nat \<times> nat) tunnel" where
  "sample_tunnel_head = snd (tun_round sample_tunnel_env 5
     ((snd (tun_start sample_tunnel_env sample_tunnel_opened))\<lparr>tu_buffer_len := 10240\<rparr>))"

lemma sample_tunnel_at_head: "tunnel_at_head sample_tunnel_env 5 sample_tunnel_head"
proof -
  let ?s = "snd (tun_start sample_tunnel_env sample_tunnel_opened)"
  have "fst (tun_start sample_tunnel_env sample_tunnel_opened)" by code_simp
  then have "tunnel_at_head sample_tunnel_env 5 (?s\<lparr>tu_buffer_len := 10240\<rparr>)"
    by (intro tunnel_at_head.start_open [OF sample_tunnel_open]) (simp add: prod_eq_iff)
  moreover have "tu_running (?s\<lparr>tu_buffer_len := 10240\<rparr>)" by code_simp
  moreover have "tun_round sample_tunnel_env 5 (?s\<lparr>tu_buffer_len := 10240\<rparr>) = (Tun_next, sample_tunnel_head)"
  proof -
    have "fst (tun_round sample_tunnel_env 5 (?s\<lparr>tu_buffer_len := 10240\<rparr>)) = Tun_next" by code_simp
    then show ?thesis unfolding sample_tunnel_head_def by (metis prod.collapse)
  qed
  ultimately show ?thesis by (rule tunnel_at_head.round)
qed

section \<open>Properties\<close>

text \<open>
  C18: In every state that the loop of a tunnel reaches, for every connection: what was read from
  the socket has been written to the channel, all of it and in order, and what came from the
  channel has been written to the socket up to what waits in its buffer. The system must not
  hand out a descriptor that is open.
\<close>

theorem tunnel_streams_complete:
  assumes "tunnel_at_head env n t" and "fresh_sockets (tu_log t)" and "i < tu_num t"
  shows "flow From_socket (tu_sockets t ! i) (tu_log t) = flow To_channel (tu_sockets t ! i) (tu_log t) \<and>
    flow From_channel (tu_sockets t ! i) (tu_log t) =
      flow To_socket (tu_sockets t ! i) (tu_log t) @ buffer_pending (tu_buffers t ! i)"
  using at_head_inv [OF assms(1)] assms(2,3) by (simp add: tun_inv_def conn_ok_def Let_def)

theorem tunnel_streams_complete_witness:
  "flow From_socket 7 (tu_log sample_tunnel_head) = [1, 2, 3] \<and> flow To_channel 7 (tu_log sample_tunnel_head) = [1, 2, 3] \<and>
   flow To_socket 7 (tu_log sample_tunnel_head) = [9, 8, 7] \<and> buffer_pending (tu_buffers sample_tunnel_head ! 0) = [6] \<and>
   flow From_channel 7 (tu_log sample_tunnel_head) = [9, 8, 7, 6]"
proof -
  have f: "fresh_sockets (tu_log sample_tunnel_head)" "0 < tu_num sample_tunnel_head" "tu_sockets sample_tunnel_head ! 0 = 7"
    by code_simp+
  have v: "flow From_socket 7 (tu_log sample_tunnel_head) = [1, 2, 3]" "flow To_socket 7 (tu_log sample_tunnel_head) = [9, 8, 7]"
    "buffer_pending (tu_buffers sample_tunnel_head ! 0) = [6]"
    by code_simp+
  from tunnel_streams_complete [OF sample_tunnel_at_head f(1,2)] f(3) v show ?thesis by simp
qed

text \<open>
  C19: When the thread of an opened tunnel has ended its loop, the tunnel does not run any more and
  every socket that it took is closed; and whatever it copied was copied in order: what reached
  one end is a prefix of what came from the other.
\<close>

theorem tunnel_thread_closes:
  assumes "remmina_ssh_tunnel_open env host port lp (remmina_ssh_tunnel_new_from_file w) = (True, t0)"
    and "remmina_ssh_tunnel_main_thread_proc env n k t0 = (End_closed, t)" and "fresh_sockets (tu_log t)"
  shows "opened (tu_log t) = {} \<and> \<not> tu_running t \<and>
    prefix (flow To_channel s (tu_log t)) (flow From_socket s (tu_log t)) \<and>
    prefix (flow To_socket s (tu_log t)) (flow From_channel s (tu_log t))"
proof -
  have "tun_inv t0" by (rule tunnel_open_inv [OF assms(1) new_inv])
  from proc_inv [OF assms(2) this] assms(3)
  have "opened (tu_log t) = {} \<and> \<not> tu_running t" and "in_order s (tu_log t)"
    by (auto simp: tun_weak_def open_ok_def)
  then show ?thesis by (simp add: in_order_def)
qed

theorem tunnel_thread_closes_witness:
  "let t = snd (remmina_ssh_tunnel_main_thread_proc sample_tunnel_env 5 5 sample_tunnel_opened) in
     opened (tu_log t) = {} \<and> Tun_added (Some 1) 7 \<in> set (tu_log t) \<and>
     prefix (flow To_socket 7 (tu_log t)) (flow From_channel 7 (tu_log t))"
proof -
  let ?r = "remmina_ssh_tunnel_main_thread_proc sample_tunnel_env 5 5 sample_tunnel_opened"
  have r: "fst ?r = End_closed" "fresh_sockets (tu_log (snd ?r))" "Tun_added (Some 1) 7 \<in> set (tu_log (snd ?r))"
    by code_simp+
  then have "?r = (End_closed, snd ?r)" by (simp add: prod_eq_iff)
  from tunnel_thread_closes [OF sample_tunnel_open this r(2)] r(3) show ?thesis by (simp add: Let_def)
qed

text \<open>
  When the first channel to the destination cannot be made, the tunnel starts all the same:
  the connection of the program is added with a NULL channel.
\<close>

theorem tunnel_null_channel_added:
  assumes "tu_type t = Tunnel_open" and "tun_inv t" and "tu_num t = 0"
    and "0 \<le> fst (te_accept env (tu_server_sock t) True (tu_world t))" and "\<forall>w. fst (te_channel_new env w) = None"
  shows "\<exists>t'. tun_start env t = (True, t') \<and> tu_num t' = 1 \<and> tu_channels t' ! 0 = None \<and>
    tu_sockets t' ! 0 = fst (te_accept env (tu_server_sock t) True (tu_world t))"
proof -
  let ?sock = "fst (te_accept env (tu_server_sock t) True (tu_world t))"
  define t1 where "t1 = snd (tun_call (te_accept env (tu_server_sock t) True) t)"
  have call1: "tun_call (te_accept env (tu_server_sock t) True) t = (?sock, t1)"
    by (simp add: t1_def tun_call_def case_prod_beta)
  have acc: "remmina_ssh_tunnel_accept_local_connection env True t = (?sock, t1)" "tu_num t1 = 0" "tun_inv t1"
    using call1 assms(2-4) tun_inv_call [OF call1] tun_call_same(2) [OF call1]
    by (simp_all add: remmina_ssh_tunnel_accept_local_connection_def)
  obtain t2 where create: "remmina_ssh_tunnel_create_forward_channel env t1 = (None, t2)" "tu_num t2 = 0" "tun_inv t2"
  proof -
    obtain c t2 where call: "tun_call (te_channel_new env) t1 = (c, t2)" by force
    then have "c = None" using assms(5) by (auto simp: tun_call_def case_prod_beta)
    with call that [of "tun_set_error env ''Could not create channel. '' t2"] acc tun_inv_call [OF call] tun_call_same(2) [OF call]
    show thesis by (simp add: remmina_ssh_tunnel_create_forward_channel_def)
  qed
  have "tun_arrays t2" using create(3) by (simp add: tun_inv_def tun_weak_def)
  then have "tu_channels (remmina_ssh_tunnel_add_channel None ?sock t2) ! 0 = None"
    "tu_sockets (remmina_ssh_tunnel_add_channel None ?sock t2) ! 0 = ?sock"
    "tu_num (remmina_ssh_tunnel_add_channel None ?sock t2) = 1"
    using create(2) by (auto simp: remmina_ssh_tunnel_add_channel_def Let_def tun_arrays_def nth_append nth_list_update)
  then show ?thesis
    using assms(1,4) acc create by (auto simp: tun_start_def)
qed

theorem tunnel_null_channel_added_witness:
  "\<exists>t'. tun_start (sample_tunnel_env\<lparr>te_channel_new := \<lambda>w. (None, w)\<rparr>) sample_tunnel_opened = (True, t') \<and>
     tu_channels t' ! 0 = None \<and> tu_sockets t' ! 0 = 7"
proof -
  let ?env = "sample_tunnel_env\<lparr>te_channel_new := \<lambda>w. (None, w)\<rparr>"
  have s: "tu_type sample_tunnel_opened = Tunnel_open" "tu_num sample_tunnel_opened = 0"
    "fst (te_accept ?env (tu_server_sock sample_tunnel_opened) True (tu_world sample_tunnel_opened)) = 7"
    by code_simp+
  have inv: "tun_inv sample_tunnel_opened" by (rule tunnel_open_inv [OF sample_tunnel_open new_inv])
  show ?thesis using tunnel_null_channel_added [of sample_tunnel_opened ?env, OF s(1) inv s(2)] s(3) by auto
qed

end
