(* ===== verification/X2go.thy ===== *)
theory X2go
  imports FileData GLib Public Panel
begin

text \<open>
  The X2Go plugin (\<open>plugins/x2go/x2go_plugin.c\<close>), first part: the validators of the profile
  editor, the command lines of the helper program \<open>pyhoca-cli\<close>, the text that reports it, and
  the list of sessions read from its output. The helper is a parameter of the model.
\<close>

section \<open>Numbers and validators\<close>

datatype str2int_errno =
  STR2INT_SUCCESS | STR2INT_OVERFLOW | STR2INT_UNDERFLOW | STR2INT_INCONVERTIBLE | STR2INT_INVALID_DATA

text \<open>
  \<open>str2int\<close> with base 10, the only one used. The second component is what it stores; nothing
  is stored unless it succeeds.
\<close>

definition str2int :: "cstr \<Rightarrow> str2int_errno \<times> gint option" where
  "str2int s =
     (case s of
        None \<Rightarrow> (STR2INT_INVALID_DATA, None)
      | Some s \<Rightarrow>
          if s = [] \<or> isspace (hd s) then (STR2INT_INCONVERTIBLE, None)
          else case scan_dec s of
                 None \<Rightarrow> (STR2INT_INCONVERTIBLE, None)
               | Some (l, end) \<Rightarrow>
                   if l > 2 ^ 31 - 1 then (STR2INT_OVERFLOW, None)
                   else if l < - (2 ^ 31) then (STR2INT_UNDERFLOW, None)
                   else if end \<noteq> [] then (STR2INT_INCONVERTIBLE, None)
                   else (STR2INT_SUCCESS, Some (word_of_int l)))"

text \<open>A GError is its message; \<open>None\<close> is the pointer NULL, no error.\<close>

type_synonym x2go_error = cstr

definition rmplugin_x2go_enumeration_prettifier :: "nat \<Rightarrow> nat \<Rightarrow> string \<Rightarrow> string \<Rightarrow> string" where
  "rmplugin_x2go_enumeration_prettifier max_elements current_element element_to_add string =
     (let q = [CHR 0x27] @ element_to_add @ [CHR 0x27] in
      if max_elements > 2 then
        (if current_element = max_elements - 1 then string @ ''and '' @ q
         else if current_element = max_elements - 2 then string @ q @ '' ''
         else string @ q @ '', '')
      else if max_elements = 2 then
        (if current_element = max_elements - 1 then string @ ''and '' @ q else string @ q @ '' '')
      else element_to_add)"

fun string_validator_loop :: "nat \<Rightarrow> string \<Rightarrow> nat \<Rightarrow> string list \<Rightarrow> string \<Rightarrow> cstr" where
  "string_validator_loop n value i [] data_str = Some data_str"
| "string_validator_loop n value i (element # elements) data_str =
     (if value = element then None
      else string_validator_loop n value (Suc i) elements
             (rmplugin_x2go_enumeration_prettifier n i element data_str))"

definition rmplugin_x2go_string_setting_validator :: "cstr \<Rightarrow> cstr \<Rightarrow> cstr \<Rightarrow> x2go_error" where
  "rmplugin_x2go_string_setting_validator key value data =
     (case data of
        None \<Rightarrow> Some ''Invalid validation data in ProtocolSettings array!''
      | Some d \<Rightarrow>
          let elements = g_strsplit d '','' in
          if elements = [] \<or> hd elements = [] then Some ''Validation data in ProtocolSettings array is invalid!''
          else case (key, value) of
                 (Some k, Some v) \<Rightarrow>
                   (case string_validator_loop (length elements) v 0 elements [] of
                      None \<Rightarrow> None
                    | Some data_str \<Rightarrow>
                        if length elements > 1 then Some (''Allowed values are '' @ data_str @ ''.'')
                        else Some (''The only allowed value is '' @ [CHR 0x27] @ data_str @ [CHR 0x27] @ ''.''))
               | _ \<Rightarrow> Some ''Internal error.'')"

text \<open>The messages about a limit in the validation data; \<open>which\<close> is "lower" or "upper".\<close>

fun limit_error :: "string \<Rightarrow> str2int_errno \<Rightarrow> x2go_error" where
  "limit_error which STR2INT_SUCCESS = None"
| "limit_error which STR2INT_INCONVERTIBLE =
     Some (''Internal error: The '' @ which @ '' limit is not a valid integer!'')"
| "limit_error which STR2INT_OVERFLOW = Some (''Internal error: The '' @ which @ '' limit is too high!'')"
| "limit_error which STR2INT_UNDERFLOW = Some (''Internal error: The '' @ which @ '' limit is too low!'')"
| "limit_error which STR2INT_INVALID_DATA = Some ''Internal error: Something unknown went wrong.''"

definition range_error :: "gint \<Rightarrow> gint \<Rightarrow> string" where
  "range_error minimum maximum =
     ''Input must be a number between '' @ show_gint minimum @ '' and '' @ show_gint maximum @ ''.''"

definition int_value_error :: "gint \<Rightarrow> gint \<Rightarrow> cstr \<Rightarrow> x2go_error" where
  "int_value_error minimum maximum value =
     (case str2int value of
        (STR2INT_SUCCESS, Some int_value) \<Rightarrow>
          if sint minimum > sint int_value \<or> sint int_value > sint maximum then Some (range_error minimum maximum) else None
      | (STR2INT_SUCCESS, None) \<Rightarrow> None
      | (STR2INT_INCONVERTIBLE, _) \<Rightarrow> Some ''The input is not a valid integer!''
      | (STR2INT_INVALID_DATA, _) \<Rightarrow> Some ''Something unknown went wrong.''
      | (_, _) \<Rightarrow> Some (range_error minimum maximum))"

definition rmplugin_x2go_int_setting_validator :: "cstr \<Rightarrow> cstr \<Rightarrow> cstr \<Rightarrow> x2go_error" where
  "rmplugin_x2go_int_setting_validator key value data =
     (case (case data of None \<Rightarrow> [] | Some d \<Rightarrow> g_strsplit d '';'') of
        lo # hi # _ \<Rightarrow>
          if lo = [] \<or> hi = [] then Some ''Validation data in ProtocolSettings array is invalid!''
          else (case str2int (Some lo) of
                  (err, None) \<Rightarrow> limit_error ''lower'' err
                | (_, Some minimum) \<Rightarrow>
                    (case str2int (Some hi) of
                       (err, None) \<Rightarrow> limit_error ''upper'' err
                     | (_, Some maximum) \<Rightarrow> int_value_error minimum maximum value))
      | _ \<Rightarrow> Some ''Validation data in ProtocolSettings array is invalid!'')"

text \<open>The validated settings of the profile, with their validation data.\<close>

definition rmplugin_x2go_validators :: "(string \<times> (cstr \<Rightarrow> x2go_error)) list" where
  "rmplugin_x2go_validators =
     [(''audio'', \<lambda>v. rmplugin_x2go_string_setting_validator (Some ''audio'') v (Some ''pulse,esd,none'')),
      (''clipboard'', \<lambda>v. rmplugin_x2go_string_setting_validator (Some ''clipboard'') v (Some ''none,server,client,both'')),
      (''dpi'', \<lambda>v. rmplugin_x2go_int_setting_validator (Some ''dpi'') v (Some ''20;400''))]"

section \<open>The helper process\<close>

text \<open>
  The outcome of \<open>g_spawn_sync\<close>: an error of its own, or the output, the error output and the
  exit status of a process that has ended. The outputs are NULL after an error.
\<close>

datatype spawn_result = Spawn_error string | Spawn_done string string gint

text \<open>What is printed of the arguments: the one after a secret option is masked.\<close>

definition secret_option :: "string \<Rightarrow> bool" where
  "secret_option a \<longleftrightarrow> a = ''--password'' \<or> a = ''--ssh-passphrase''"

fun print_args :: "string list \<Rightarrow> string" where
  "print_args [] = []"
| "print_args [a] = (if secret_option a then a @ '' XXXXXX '' else a @ '' '')"
| "print_args (a # b # r) = (if secret_option a then a @ '' XXXXXX '' @ print_args r else a @ '' '' @ print_args (b # r))"

definition printed_command :: "string list \<Rightarrow> string" where
  "printed_command argv = print_args argv @ [CHR 0x0A]"

text \<open>What \<open>rmplugin_x2go_spawn_pyhoca_process\<close> makes of the outcome: an error or the output.\<close>

definition pyhoca_outcome :: "spawn_result \<Rightarrow> string + string" where
  "pyhoca_outcome r =
     (case r of
        Spawn_error m \<Rightarrow> Inl m
      | Spawn_done out err exit_code \<Rightarrow>
          if err \<noteq> [] then
            (if prefix ''pyhoca-cli: error: a socket error occurred while establishing the connection:'' err
             then Inl ''The necessary PyHoca-CLI process has encountered a internet connection problem.''
             else Inl (''Could not start PyHoca-CLI:'' @ [CHR 0x0A] @ err))
          else if out = [] \<or> exit_code \<noteq> 0
          then Inl (''An unknown error occurred while trying to start PyHoca-CLI. Exit code: '' @ show_gint exit_code)
          else Inr out)"

text \<open>
  What the plugin uses of its surroundings: the user of the message panels and of the session
  chooser, the processes, the environment variables, and the X server.
\<close>

datatype x2go_property =
    SESSION_DISPLAY | SESSION_STATUS | SESSION_SESSION_ID | SESSION_SUSPENDED_SINCE | SESSION_CREATE_DATE
  | SESSION_AGENT_PID | SESSION_USERNAME | SESSION_HOSTNAME | SESSION_COOKIE | SESSION_GRAPHIC_PORT
  | SESSION_SND_PORT | SESSION_SSHFS_PORT

text \<open>
  A session is an array of strings, allocated without being cleared: a property that was not
  stored is an uninitialised pointer, \<open>None\<close> here.
\<close>

type_synonym x2go_session = "x2go_property \<Rightarrow> cstr"

definition session_properties :: "x2go_property list" where
  "session_properties =
     [SESSION_DISPLAY, SESSION_STATUS, SESSION_SESSION_ID, SESSION_SUSPENDED_SINCE, SESSION_CREATE_DATE,
      SESSION_AGENT_PID, SESSION_USERNAME, SESSION_HOSTNAME, SESSION_COOKIE, SESSION_GRAPHIC_PORT,
      SESSION_SND_PORT, SESSION_SSHFS_PORT]"

fun rmplugin_x2go_session_property_to_string :: "x2go_property \<Rightarrow> string" where
  "rmplugin_x2go_session_property_to_string SESSION_DISPLAY = ''X Display''"
| "rmplugin_x2go_session_property_to_string SESSION_STATUS = ''Status''"
| "rmplugin_x2go_session_property_to_string SESSION_SESSION_ID = ''Session ID''"
| "rmplugin_x2go_session_property_to_string SESSION_CREATE_DATE = ''Create date''"
| "rmplugin_x2go_session_property_to_string SESSION_SUSPENDED_SINCE = ''Suspended since''"
| "rmplugin_x2go_session_property_to_string SESSION_AGENT_PID = ''Agent PID''"
| "rmplugin_x2go_session_property_to_string SESSION_USERNAME = ''Username''"
| "rmplugin_x2go_session_property_to_string SESSION_HOSTNAME = ''Hostname''"
| "rmplugin_x2go_session_property_to_string SESSION_COOKIE = ''Cookie''"
| "rmplugin_x2go_session_property_to_string SESSION_GRAPHIC_PORT = ''Graphic port''"
| "rmplugin_x2go_session_property_to_string SESSION_SND_PORT = ''SND port''"
| "rmplugin_x2go_session_property_to_string SESSION_SSHFS_PORT = ''SSHFS port''"

section \<open>The connection data\<close>

record x2go_connection =
  xc_host :: cstr
  xc_username :: cstr
  xc_password :: cstr
  xc_privatekey :: cstr
  xc_passphrase :: cstr

definition rmplugin_x2go_verify_connection_data :: "x2go_connection option \<Rightarrow> bool" where
  "rmplugin_x2go_verify_connection_data cd =
     (case cd of
        None \<Rightarrow> False
      | Some c \<Rightarrow>
          if is_empty (xc_host c) \<or> is_empty (xc_username c) then False
          else \<not> (xc_password c = None \<and> is_empty (xc_privatekey c)))"

abbreviation feature_available :: "string list \<Rightarrow> string \<Rightarrow> bool" where
  "feature_available features f \<equiv> f \<in> set features"

definition if_feature :: "string list \<Rightarrow> string \<Rightarrow> string list \<Rightarrow> string list" where
  "if_feature features f args = (if feature_available features f then args else [])"

text \<open>\<open>printf\<close> with \<open>%s\<close>.\<close>

definition printf_s :: "cstr \<Rightarrow> string" where
  "printf_s s = (case s of None \<Rightarrow> ''(null)'' | Some t \<Rightarrow> t)"

text \<open>The options of the key and its passphrase, the last ones of every command line.\<close>

definition key_args :: "string list \<Rightarrow> cstr \<Rightarrow> cstr \<Rightarrow> string list" where
  "key_args features ssh_privatekey ssh_passphrase =
     if_feature features ''SSH_PRIVKEY''
       (if is_empty ssh_privatekey then []
        else [''--ssh-privkey'', printf_s ssh_privatekey] @
             (if is_empty ssh_passphrase then []
              else if_feature features ''SSH_PASSPHRASE'' [''--ssh-passphrase'', printf_s ssh_passphrase]))"

definition password_args :: "cstr \<Rightarrow> string list" where
  "password_args password = (if is_empty password then [] else [''--force-password'', ''--password'', printf_s password])"

text \<open>The password options of a query: without the feature the password is left out.\<close>

definition query_password_args :: "string list \<Rightarrow> cstr \<Rightarrow> string list" where
  "query_password_args features password =
     if_feature features ''PASSWORD''
       (if_feature features ''AUTH_ATTEMPTS'' [''--auth-attempts'', show_gint 0] @ password_args password)"

text \<open>The passphrase is used with a key only.\<close>

definition connection_passphrase :: "x2go_connection \<Rightarrow> cstr" where
  "connection_passphrase c = (if xc_privatekey c = None then None else xc_passphrase c)"

definition ellipsis :: string where
  "ellipsis = [CHR 0xE2, CHR 0x80, CHR 0xA6]"

definition no_feature :: "string \<Rightarrow> string" where
  "no_feature f = ''The command-line feature '' @ [CHR 0x27] @ f @ [CHR 0x27] @
     '' is not available! Attempting to start PyHoca-CLI without using this feature'' @ ellipsis"

text \<open>
  The command line that lists the sessions. The name of the local user is the one of a
  connection without a user name, which the check of the connection data excludes.
\<close>

definition list_sessions_argv :: "string \<Rightarrow> string list \<Rightarrow> x2go_connection \<Rightarrow> string + string list" where
  "list_sessions_argv local_user features c =
     (if \<not> feature_available features ''USERNAME'' then Inl (no_feature ''USERNAME'')
      else if xc_password c = None then Inl (no_feature ''PASSWORD'')
      else Inr ([''pyhoca-cli'', ''--list-sessions'', ''--server'', printf_s (xc_host c), ''-u'',
                 case xc_username c of None \<Rightarrow> local_user | Some u \<Rightarrow> u] @
                if_feature features ''NON_INTERACTIVE'' [''--non-interactive''] @
                query_password_args features (xc_password c) @
                if_feature features ''QUIET'' [''--quiet''] @
                key_args features (xc_privatekey c) (connection_passphrase c)))"

definition terminate_argv :: "string \<Rightarrow> string list \<Rightarrow> x2go_connection \<Rightarrow> string \<Rightarrow> string list option" where
  "terminate_argv local_user features c session_id =
     (if \<not> feature_available features ''USERNAME'' \<or> xc_password c = None \<or> \<not> feature_available features ''TERMINATE''
      then None
      else Some ([''pyhoca-cli'', ''--server'', printf_s (xc_host c), ''-u'',
                  case xc_username c of None \<Rightarrow> local_user | Some u \<Rightarrow> u] @
                 query_password_args features (xc_password c) @
                 [''--terminate'', session_id] @
                 if_feature features ''NON_INTERACTIVE'' [''--non-interactive''] @
                 key_args features (xc_privatekey c) (connection_passphrase c)))"

text \<open>The environment of the query: joined with semicolons, extended, split again.\<close>

definition sessions_env :: "string list \<Rightarrow> string list" where
  "sessions_env env = g_strsplit (g_strjoinv '';'' env @ '';LANG=C'') '';''"

section \<open>Reading the list of sessions\<close>

definition session_separator :: string where
  "session_separator = ''-------------''"

text \<open>The first two fields of a line, when both are there and not empty.\<close>

definition line_fields :: "string \<Rightarrow> (string \<times> string) option" where
  "line_fields line =
     (case g_strsplit line '': '' of
        k # v # _ \<Rightarrow> if k = [] \<or> v = [] then None else Some (k, v)
      | _ \<Rightarrow> None)"

definition property_prefixes :: "(string \<times> x2go_property) list" where
  "property_prefixes =
     [(''cookie: '', SESSION_COOKIE), (''agent PID: '', SESSION_AGENT_PID), (''display: '', SESSION_DISPLAY),
      (''status: '', SESSION_STATUS), (''graphic port: '', SESSION_GRAPHIC_PORT), (''snd port: '', SESSION_SND_PORT),
      (''sshfs port: '', SESSION_SSHFS_PORT), (''username: '', SESSION_USERNAME), (''hostname: '', SESSION_HOSTNAME),
      (''create date: '', SESSION_CREATE_DATE), (''suspended since: '', SESSION_SUSPENDED_SINCE)]"

fun find_prefix :: "(string \<times> 'a) list \<Rightarrow> string \<Rightarrow> 'a option" where
  "find_prefix [] line = None"
| "find_prefix ((p, x) # ps) line = (if prefix p line then Some x else find_prefix ps line)"

definition status_text :: "string \<Rightarrow> string" where
  "status_text v = (if v = ''S'' then ''Suspended'' else if v = ''R'' then ''Running''
                    else if v = ''T'' then ''Terminated'' else v)"

text \<open>
  The state of the loop: whether the lines belong to a session, and the sessions found so far,
  the newest first (the code appends at the other end).
\<close>

definition parse_session_line :: "string \<Rightarrow> bool \<times> x2go_session list \<Rightarrow> bool \<times> x2go_session list" where
  "parse_session_line line = (\<lambda>(found_session, sessions).
     if prefix ''Session Name: '' line then
       (case line_fields line of
          None \<Rightarrow> (False, sessions)
        | Some (_, session_id) \<Rightarrow> (True, (\<lambda>_. None)(SESSION_SESSION_ID := Some session_id) # sessions))
     else if \<not> found_session then (False, sessions)
     else if line = session_separator then (found_session, sessions)
     else case line_fields line of
            None \<Rightarrow> (False, sessions)
          | Some (_, v) \<Rightarrow>
              (case find_prefix property_prefixes line of
                 None \<Rightarrow> (False, sessions)
               | Some p \<Rightarrow>
                   (found_session,
                    case sessions of [] \<Rightarrow> [] | session # rest \<Rightarrow>
                      session(p := Some (if p = SESSION_STATUS then status_text v else v)) # rest)))"

definition parse_session_lines :: "string list \<Rightarrow> x2go_session list" where
  "parse_session_lines lines = rev (snd (fold parse_session_line lines (False, [])))"

definition parse_sessions_text :: "string \<Rightarrow> string + x2go_session list" where
  "parse_sessions_text pyhoca_output =
     (case g_strsplit pyhoca_output [CHR 0x0A] of
        a # b # r \<Rightarrow>
          (case parse_session_lines (a # b # r) of
             [] \<Rightarrow> Inl ''Could not find any sessions on remote machine. Creating a new session now.''
           | sessions \<Rightarrow> Inr sessions)
      | _ \<Rightarrow> Inl (''Could not parse the output of PyHoca-CLI'' @ [CHR 0x27] @
                  ''s --list-sessions option. Creating a new session now.''))"

section \<open>The features of the helper\<close>

definition rmplugin_x2go_old_pyhoca_features :: "string list" where
  "rmplugin_x2go_old_pyhoca_features =
     [''ADD_TO_KNOWN_HOSTS'', ''AUTH_ATTEMPTS'', ''BROKER_PASSWORD'', ''BROKER_URL'',
      ''CLEAN_SESSIONS'', ''COMMAND'', ''DEBUG'', ''FORCE_PASSWORD'', ''FORWARD_SSHAGENT'',
      ''GEOMETRY'', ''KBD_LAYOUT'', ''KBD_TYPE'', ''LIBDEBUG'', ''LIBDEBUG_SFTPXFER'', ''LINK'',
      ''LIST_CLIENT_FEATURES'', ''LIST_DESKTOPS'', ''LIST_SESSIONS'', ''NEW'', ''PACK'',
      ''PASSWORD'', ''PDFVIEW_CMD'', ''PRINTER'', ''PRINTING'', ''PRINT_ACTION'', ''PRINT_CMD'',
      ''QUIET'', ''REMOTE_SSH_PORT'', ''RESUME'', ''SAVE_TO_FOLDER'', ''SESSION_PROFILE'',
      ''SESSION_TYPE'', ''SHARE_DESKTOP'', ''SHARE_LOCAL_FOLDERS'', ''SHARE_MODE'', ''SOUND'',
      ''SSH_PRIVKEY'', ''SUSPEND'', ''TERMINATE'', ''TERMINATE_ON_CTRL_C'', ''TRY_RESUME'',
      ''USERNAME'', ''XINERAMA'']"

definition available_features :: "string + string \<Rightarrow> string list" where
  "available_features r =
     (case r of
        Inl _ \<Rightarrow> rmplugin_x2go_old_pyhoca_features
      | Inr features_string \<Rightarrow> filter (\<lambda>f. f \<noteq> []) (g_strsplit features_string [CHR 0x0A]))"

end
