(* ===== verification/X2goChooser.thy ===== *)
theory X2goChooser
  imports X2go
begin

text \<open>
  The session chooser of the X2Go plugin (\<open>plugins/x2go/x2go_plugin.c\<close>): a list of sessions
  behind a filter that hides the terminated ones, the handlers of its buttons and rows, and
  the threads that terminate a session. The handlers and the threads share one structure,
  \<open>custom_data\<close>, whose members they overwrite.

  A row of the list is a number, and so is a row of the filter: the position among the
  visible rows. GTK gives the selection and an activated row as rows of the filter.
\<close>

section \<open>The widget tree\<close>

datatype gtk_widget = Gtk_bin string "gtk_widget option" | Gtk_container string "gtk_widget list" | Gtk_leaf string

fun gtk_widget_name :: "gtk_widget \<Rightarrow> string" where
  "gtk_widget_name (Gtk_bin n _) = n"
| "gtk_widget_name (Gtk_container n _) = n"
| "gtk_widget_name (Gtk_leaf n) = n"

text \<open>A bin without a child ends the search in that branch, as a NULL that is found.\<close>

fun rmplugin_x2go_find_child :: "gtk_widget \<Rightarrow> string \<Rightarrow> gtk_widget option"
  and find_child_in :: "gtk_widget list \<Rightarrow> string \<Rightarrow> gtk_widget option" where
  "rmplugin_x2go_find_child (Gtk_bin n child) name =
     (if g_ascii_strdown n = g_ascii_strdown name then Some (Gtk_bin n child)
      else case child of None \<Rightarrow> None | Some c \<Rightarrow> rmplugin_x2go_find_child c name)"
| "rmplugin_x2go_find_child (Gtk_container n children) name =
     (if g_ascii_strdown n = g_ascii_strdown name then Some (Gtk_container n children)
      else find_child_in children name)"
| "rmplugin_x2go_find_child (Gtk_leaf n) name =
     (if g_ascii_strdown n = g_ascii_strdown name then Some (Gtk_leaf n) else None)"
| "find_child_in [] name = None"
| "find_child_in (c # cs) name =
     (case rmplugin_x2go_find_child c name of Some w \<Rightarrow> Some w | None \<Rightarrow> find_child_in cs name)"

section \<open>State\<close>

text \<open>
  \<open>ch_rows\<close> holds the sessions with their visible flag. \<open>opt1\<close> of the shared structure is the
  dialog at first and a path later; \<open>ch_connect\<close> says whether the connection data are still
  there. \<open>ch_starting\<close> counts the threads that have not read the structure yet, \<open>ch_running\<close>
  holds the row, the session and the command of the others. \<open>ch_resume\<close> and \<open>ch_selected\<close>
  are the data attached to the protocol widget.
\<close>

datatype chooser_opt = Opt_null | Opt_dialog | Opt_path nat

record chooser =
  ch_rows :: "(x2go_session \<times> bool) list"
  ch_open :: bool
  ch_buttons :: bool
  ch_connect :: "x2go_connection option"
  ch_opt1 :: chooser_opt
  ch_opt2 :: chooser_opt
  ch_starting :: nat
  ch_running :: "(nat \<times> string \<times> string list) list"
  ch_resume :: cstr
  ch_selected :: bool
  ch_printed :: string

text \<open>
  The factory copies every property but the visible flag; an uninitialised one is read.
\<close>

definition session_complete :: "x2go_session \<Rightarrow> bool" where
  "session_complete s \<longleftrightarrow> list_all (\<lambda>p. s p \<noteq> None) session_properties"

definition rmplugin_x2go_choose_session_dialog_factory ::
  "x2go_session list \<Rightarrow> x2go_connection \<Rightarrow> cstr \<Rightarrow> bool \<Rightarrow> chooser c_result" where
  "rmplugin_x2go_choose_session_dialog_factory sessions_list connect_data resume selected =
     (if \<not> list_all session_complete sessions_list then Crash
      else Ret \<lparr>ch_rows = map (\<lambda>s. (s, True)) sessions_list, ch_open = True, ch_buttons = True,
                ch_connect = Some connect_data, ch_opt1 = Opt_dialog, ch_opt2 = Opt_null, ch_starting = 0, ch_running = [],
                ch_resume = resume, ch_selected = selected, ch_printed = []\<rparr>)"

section \<open>Rows\<close>

definition visible_rows :: "('a \<times> bool) list \<Rightarrow> nat list" where
  "visible_rows rows = filter (\<lambda>i. snd (rows ! i)) [0..<length rows]"

text \<open>\<open>gtk_tree_model_filter_convert_child_path_to_path\<close>\<close>

definition filter_path_of_child :: "('a \<times> bool) list \<Rightarrow> nat \<Rightarrow> nat option" where
  "filter_path_of_child rows i =
     (if i < length rows \<and> snd (rows ! i) then Some (length (filter snd (take i rows))) else None)"

text \<open>
  The path of the selection is one of the filter already; the code converts it as if it were
  one of the list, and uses the result as a row of the list.
\<close>

definition rmplugin_x2go_session_chooser_get_selected_row :: "chooser \<Rightarrow> nat option \<Rightarrow> nat option" where
  "rmplugin_x2go_session_chooser_get_selected_row ch selection =
     (case selection of None \<Rightarrow> None | Some path \<Rightarrow> filter_path_of_child (ch_rows ch) path)"

text \<open>The property of a row of the list, \<open>None\<close> for a value that was not initialised.\<close>

definition rmplugin_x2go_session_chooser_get_property ::
  "chooser \<Rightarrow> nat option \<Rightarrow> x2go_property \<Rightarrow> nat option \<Rightarrow> cstr" where
  "rmplugin_x2go_session_chooser_get_property ch selection p row =
     (case (case row of None \<Rightarrow> rmplugin_x2go_session_chooser_get_selected_row ch selection | Some r \<Rightarrow> Some r) of
        None \<Rightarrow> None
      | Some r \<Rightarrow> if r < length (ch_rows ch) then fst (ch_rows ch ! r) p else None)"

definition rmplugin_x2go_session_chooser_set_row_visible :: "nat \<Rightarrow> bool \<Rightarrow> chooser \<Rightarrow> bool \<times> chooser" where
  "rmplugin_x2go_session_chooser_set_row_visible path v ch =
     (if path < length (ch_rows ch) then
        let rows = (ch_rows ch)[path := (fst (ch_rows ch ! path), v)]
        in (True, ch\<lparr>ch_rows := rows, ch_buttons := visible_rows rows \<noteq> []\<rparr>)
      else (False, ch))"

section \<open>Handlers\<close>

datatype chooser_response =
    SESSION_CHOOSER_RESPONSE_NEW | SESSION_CHOOSER_RESPONSE_CHOOSE | SESSION_CHOOSER_RESPONSE_TERMINATE
  | Response_other

text \<open>Ends the wait of the thread of the connection, and destroys the dialog.\<close>

definition select_session :: "cstr \<Rightarrow> chooser \<Rightarrow> chooser" where
  "select_session resume ch = ch\<lparr>ch_resume := resume, ch_selected := True, ch_open := False\<rparr>"

definition chooser_terminate :: "nat option \<Rightarrow> string \<Rightarrow> chooser \<Rightarrow> chooser" where
  "chooser_terminate selection session_id ch =
     (let ch = ch\<lparr>ch_resume := non_empty (Some session_id)\<rparr> in
      case rmplugin_x2go_session_chooser_get_selected_row ch selection of
        None \<Rightarrow> ch
      | Some path \<Rightarrow>
          (case rmplugin_x2go_session_chooser_set_row_visible path False ch of
             (False, ch) \<Rightarrow> ch
           | (True, ch) \<Rightarrow> ch\<lparr>ch_opt1 := Opt_path path, ch_opt2 := Opt_dialog, ch_starting := Suc (ch_starting ch)\<rparr>))"

definition rmplugin_x2go_session_chooser_callback :: "chooser_response \<Rightarrow> nat option \<Rightarrow> chooser \<Rightarrow> chooser" where
  "rmplugin_x2go_session_chooser_callback response_id selection ch =
     (if ch_connect ch = None then ch
      else if response_id = SESSION_CHOOSER_RESPONSE_NEW then select_session None ch
      else case rmplugin_x2go_session_chooser_get_property ch selection SESSION_SESSION_ID None of
             None \<Rightarrow> ch
           | Some session_id \<Rightarrow>
               (case response_id of
                  SESSION_CHOOSER_RESPONSE_CHOOSE \<Rightarrow> select_session (non_empty (Some session_id)) ch
                | SESSION_CHOOSER_RESPONSE_TERMINATE \<Rightarrow> chooser_terminate selection session_id ch
                | _ \<Rightarrow> select_session None ch))"

text \<open>
  A double click. The dialog that is hidden and destroyed is \<open>opt1\<close>, which is a path once a
  termination was asked for, and a path is no widget.
\<close>

definition rmplugin_x2go_session_chooser_row_activated :: "nat \<Rightarrow> chooser \<Rightarrow> chooser c_result" where
  "rmplugin_x2go_session_chooser_row_activated path ch =
     (if ch_opt1 ch = Opt_null then Ret ch
      else if \<not> path < length (visible_rows (ch_rows ch)) then Ret ch
      else let session_id = fst (ch_rows ch ! (visible_rows (ch_rows ch) ! path)) SESSION_SESSION_ID in
           if is_empty session_id then Ret ch
           else if ch_opt1 ch = Opt_dialog then Ret (select_session session_id ch)
           else Crash)"

section \<open>The thread of a termination\<close>

text \<open>Up to the start of the helper: it reads the shared structure, whatever it holds by then.\<close>

definition terminate_session_begin :: "string \<Rightarrow> string list \<Rightarrow> chooser \<Rightarrow> chooser c_result" where
  "terminate_session_begin local_user features ch =
     (if ch_starting ch = 0 then Ret ch
      else let ch = ch\<lparr>ch_starting := ch_starting ch - 1\<rparr> in
      case (ch_connect ch, ch_opt1 ch) of
        (Some c, Opt_path row) \<Rightarrow>
          if ch_opt2 ch = Opt_null \<or> \<not> rmplugin_x2go_verify_connection_data (Some c) then Ret ch
          else if \<not> ch_open ch then Crash
          else (case rmplugin_x2go_session_chooser_get_property ch None SESSION_SESSION_ID (Some row) of
                  None \<Rightarrow> Ret ch
                | Some session_id \<Rightarrow>
                    (case terminate_argv local_user features c session_id of
                       None \<Rightarrow> Ret ch
                     | Some argv \<Rightarrow> Ret (ch\<lparr>ch_running := ch_running ch @ [(row, session_id, argv)]\<rparr>)))
      | _ \<Rightarrow> Ret ch)"

text \<open>
  After the helper has ended. An error clears the members of the shared structure, for the
  dialog with the message, and shows the row again.
\<close>

definition terminate_session_end :: "nat \<Rightarrow> spawn_result \<Rightarrow> chooser \<Rightarrow> chooser c_result" where
  "terminate_session_end k r ch =
     (if \<not> k < length (ch_running ch) then Ret ch
      else let (row, session_id, argv) = ch_running ch ! k;
               ch = ch\<lparr>ch_running := g_ptr_array_remove_index (ch_running ch) k,
                       ch_printed := ch_printed ch @ printed_command argv\<rparr>
           in case pyhoca_outcome r of
                Inr _ \<Rightarrow> Ret ch
              | Inl _ \<Rightarrow>
                  if \<not> ch_open ch then Crash
                  else Ret (snd (rmplugin_x2go_session_chooser_set_row_visible row True
                         (ch\<lparr>ch_connect := None, ch_opt1 := Opt_null, ch_opt2 := Opt_null\<rparr>))))"

section \<open>Events\<close>

text \<open>
  What can happen while the connection waits. The buttons that act on a session answer only
  while they are sensitive, and nothing on the dialog happens after it is gone; closing the
  window is a response of its own, after which GTK destroys the dialog in any case.
\<close>

datatype chooser_event =
    Ev_new "nat option" | Ev_resume "nat option" | Ev_terminate "nat option" | Ev_close "nat option"
  | Ev_row_activated nat | Ev_thread_begin | Ev_thread_end nat spawn_result

definition chooser_step :: "string \<Rightarrow> string list \<Rightarrow> chooser_event \<Rightarrow> chooser \<Rightarrow> chooser c_result" where
  "chooser_step local_user features e ch =
     (case e of
        Ev_new sel \<Rightarrow> Ret (if ch_open ch then rmplugin_x2go_session_chooser_callback SESSION_CHOOSER_RESPONSE_NEW sel ch else ch)
      | Ev_resume sel \<Rightarrow>
          Ret (if ch_open ch \<and> ch_buttons ch
               then rmplugin_x2go_session_chooser_callback SESSION_CHOOSER_RESPONSE_CHOOSE sel ch else ch)
      | Ev_terminate sel \<Rightarrow>
          Ret (if ch_open ch \<and> ch_buttons ch
               then rmplugin_x2go_session_chooser_callback SESSION_CHOOSER_RESPONSE_TERMINATE sel ch else ch)
      | Ev_close sel \<Rightarrow>
          Ret (if ch_open ch then (rmplugin_x2go_session_chooser_callback Response_other sel ch)\<lparr>ch_open := False\<rparr> else ch)
      | Ev_row_activated path \<Rightarrow> if ch_open ch then rmplugin_x2go_session_chooser_row_activated path ch else Ret ch
      | Ev_thread_begin \<Rightarrow> terminate_session_begin local_user features ch
      | Ev_thread_end k r \<Rightarrow> terminate_session_end k r ch)"

text \<open>
  The wait of \<open>rmplugin_x2go_ask_session\<close>: events happen until a session is selected. The
  final state is one that still waits when \<open>ch_selected\<close> does not hold.
\<close>

fun chooser_run :: "string \<Rightarrow> string list \<Rightarrow> chooser_event list \<Rightarrow> chooser \<Rightarrow> chooser c_result" where
  "chooser_run local_user features [] ch = Ret ch"
| "chooser_run local_user features (e # es) ch =
     (if ch_selected ch then Ret ch
      else c_bind (chooser_step local_user features e ch) (chooser_run local_user features es))"

end
