(* ===== verification/X2goRun.thy ===== *)
theory X2goRun
  imports X2goChooser Geometry
begin

text \<open>
  The connection of the X2Go plugin (\<open>plugins/x2go/x2go_plugin.c\<close>): asking for credentials,
  choosing a session, starting \<open>pyhoca-cli\<close>, waiting for the window it opens, and the end of a
  connection. What the plugin does not decide itself comes from a record of functions on a
  state \<open>'w\<close> of its own.
\<close>

section \<open>State\<close>

text \<open>An event of the X server, as far as the plugin looks at it; \<open>Xev_quiet\<close> is a pause without one.\<close>

datatype x_event = Xev_quiet | Xev_other | Xev_create int "cstr option"

record 'w x2go_lib =
  xl_user :: "'w panel_user"
  xl_choose :: "x2go_session list \<Rightarrow> 'w \<Rightarrow> chooser_event list \<times> 'w"
  xl_spawn_sync :: "string list \<Rightarrow> string list \<Rightarrow> 'w \<Rightarrow> spawn_result \<times> 'w"
  xl_spawn_async :: "string list \<Rightarrow> string list \<Rightarrow> 'w \<Rightarrow> ((gint \<times> string) + int) \<times> 'w"
  xl_environ :: "string list"
  xl_user_name :: string
  xl_open_display :: bool
  xl_wm_command :: bool
  xl_xevents :: "'w \<Rightarrow> x_event list"
  xl_gtksocket :: bool
  xl_thread_starts :: bool

record x2go_data =
  xd_socket_id :: int
  xd_thread :: bool
  xd_display :: bool
  xd_window_id :: int
  xd_pid :: int
  xd_disconnected :: bool
  xd_features :: "string list"

text \<open>\<open>xg_data\<close> is the plugin's data attached to the widget, \<open>xg_windows\<close> the array all sessions share.\<close>

record 'w x2go =
  xg_data :: "x2go_data option"
  xg_file :: rfile
  xg_panel :: widget_data
  xg_resume :: cstr
  xg_selected :: bool
  xg_error :: cstr
  xg_closed :: bool
  xg_printed :: string
  xg_windows :: "int list"
  xg_killed :: "int list"
  xg_embedded :: "int list"
  xg_world :: 'w

text \<open>
  The result of a function that may wait for ever or crash. The thread of a connection runs
  only while the data of the plugin are there: the cleanup joins it before it drops them.
\<close>

datatype 'a x2go_run = Run_crash | Run_waiting | Run_done 'a

fun run_bind :: "'a x2go_run \<Rightarrow> ('a \<Rightarrow> 'b x2go_run) \<Rightarrow> 'b x2go_run" where
  "run_bind Run_crash f = Run_crash"
| "run_bind Run_waiting f = Run_waiting"
| "run_bind (Run_done x) f = f x"

definition x2go_features :: "'w x2go \<Rightarrow> string list" where
  "x2go_features s = (case xg_data s of None \<Rightarrow> [] | Some d \<Rightarrow> xd_features d)"

definition update_data :: "(x2go_data \<Rightarrow> x2go_data) \<Rightarrow> 'w x2go \<Rightarrow> 'w x2go" where
  "update_data f s = s\<lparr>xg_data := map_option f (xg_data s)\<rparr>"

definition x2go_panel :: "(widget_data \<times> 'w \<Rightarrow> 'a \<times> widget_data \<times> 'w) \<Rightarrow> 'w x2go \<Rightarrow> 'a \<times> 'w x2go" where
  "x2go_panel f s = (let (a, wd, w) = f (xg_panel s, xg_world s) in (a, s\<lparr>xg_panel := wd, xg_world := w\<rparr>))"

section \<open>The helper\<close>

definition rmplugin_x2go_spawn_pyhoca_process ::
  "'w x2go_lib \<Rightarrow> string list \<Rightarrow> string list \<Rightarrow> 'w x2go \<Rightarrow> (string + string) \<times> 'w x2go" where
  "rmplugin_x2go_spawn_pyhoca_process lib argv env s =
     (if env = [] then (Inl (''Internal error: parameter '' @ [CHR 0x27] @ ''env'' @ [CHR 0x27] @ '' is either invalid or uninitialized.''), s)
      else let (r, w) = xl_spawn_sync lib argv env (xg_world s)
           in (pyhoca_outcome r, s\<lparr>xg_world := w, xg_printed := xg_printed s @ printed_command argv\<rparr>))"

definition rmplugin_x2go_populate_available_features_list :: "'w x2go_lib \<Rightarrow> 'w x2go \<Rightarrow> string list \<times> 'w x2go" where
  "rmplugin_x2go_populate_available_features_list lib s =
     (let (r, s) = rmplugin_x2go_spawn_pyhoca_process lib [''pyhoca-cli'', ''--list-cmdline-features''] (xl_environ lib) s
      in (available_features r, s))"

text \<open>
  The output and the error of a query. Connection data that do not pass the check give
  neither of them.
\<close>

definition rmplugin_x2go_get_pyhoca_sessions :: "'w x2go_lib \<Rightarrow> x2go_connection \<Rightarrow> 'w x2go \<Rightarrow> (cstr \<times> x2go_error) \<times> 'w x2go" where
  "rmplugin_x2go_get_pyhoca_sessions lib c s =
     (if \<not> rmplugin_x2go_verify_connection_data (Some c) then ((None, None), s)
      else case list_sessions_argv (xl_user_name lib) (x2go_features s) c of
             Inl e \<Rightarrow> ((None, Some e), s)
           | Inr argv \<Rightarrow>
               (case rmplugin_x2go_spawn_pyhoca_process lib argv (sessions_env (xl_environ lib)) s of
                  (Inl e, s) \<Rightarrow> ((None, Some e), s)
                | (Inr out, s) \<Rightarrow> ((Some out, None), s)))"

text \<open>No output without an error is an assertion that fails.\<close>

definition rmplugin_x2go_parse_pyhoca_sessions ::
  "'w x2go_lib \<Rightarrow> x2go_connection \<Rightarrow> 'w x2go \<Rightarrow> ((string + x2go_session list) \<times> 'w x2go) x2go_run" where
  "rmplugin_x2go_parse_pyhoca_sessions lib c s =
     (case rmplugin_x2go_get_pyhoca_sessions lib c s of
        ((_, Some e), s) \<Rightarrow> Run_done (Inl e, s)
      | ((None, None), s) \<Rightarrow> Run_crash
      | ((Some out, None), s) \<Rightarrow> Run_done (parse_sessions_text out, s))"

section \<open>Credentials\<close>

definition rmplugin_x2go_save_credentials :: "rfile \<Rightarrow> cstr \<Rightarrow> cstr \<Rightarrow> string + rfile" where
  "rmplugin_x2go_save_credentials rf s_username s_password =
     (case (s_password, s_username) of
        (Some p, Some u) \<Rightarrow>
          if u = [] then Inl (''Can'' @ [CHR 0x27] @ ''t save empty username!'')
          else Inr (remmina_file_set_string (remmina_file_set_string rf ''password'' s_password) ''username'' s_username)
      | _ \<Rightarrow> Inl ''Internal error: Could not save new credentials.'')"

definition auth_request :: "bool \<Rightarrow> bool \<Rightarrow> string \<Rightarrow> cstr \<Rightarrow> cstr \<Rightarrow> panel_request" where
  "auth_request ask_username offer_save title username password =
     \<lparr>pr_type = RPWDT_AUTH, pr_title = title, pr_ask_username = ask_username, pr_username_readonly = False,
      pr_ask_domain = False, pr_offer_save = offer_save, pr_username = username, pr_password = password, pr_domain = None\<rparr>"

definition or_empty :: "cstr \<Rightarrow> string" where
  "or_empty s = (case s of None \<Rightarrow> [] | Some t \<Rightarrow> t)"

definition rmplugin_x2go_get_ssh_passphrase :: "'w x2go_lib \<Rightarrow> cstr \<Rightarrow> 'w x2go \<Rightarrow> (string + cstr) \<times> 'w x2go" where
  "rmplugin_x2go_get_ssh_passphrase lib passphrase s =
     (let passphrase = Some (or_empty passphrase);
          (ret, s) = x2go_panel (remmina_protocol_widget_panel_auth (xl_user lib)
                       (auth_request False False ''Enter password to unlock the SSH key:'' None passphrase)) s
      in if ret \<noteq> Response_ok then (Inl (''Password input cancelled. Aborting'' @ ellipsis), s)
         else case remmina_protocol_widget_get_password (xg_panel s) of
                None \<Rightarrow> (Inr passphrase, s)
              | Some p \<Rightarrow> (Inr (Some p), s))"

text \<open>
  The credentials that were entered. When they are to be saved, the password goes into the
  profile first, and a second time with the user name if that is not empty.
\<close>

definition auth_entered :: "cstr \<Rightarrow> cstr \<Rightarrow> 'w x2go \<Rightarrow> (string + cstr \<times> cstr) \<times> 'w x2go" where
  "auth_entered default_username default_password s =
     (let s_username = remmina_protocol_widget_get_username (xg_panel s);
          s_password = remmina_protocol_widget_get_password (xg_panel s);
          result = Inr (if s_username = None then default_username else s_username,
                        if s_password = None then default_password else s_password)
      in if remmina_protocol_widget_get_savepassword (xg_panel s) then
           let rf = remmina_file_set_string (xg_file s) ''password'' s_password in
           case rmplugin_x2go_save_credentials rf s_username s_password of
             Inl e \<Rightarrow> (Inl e, s\<lparr>xg_file := rf\<rparr>)
           | Inr rf \<Rightarrow> (result, s\<lparr>xg_file := rf\<rparr>)
         else (result, s))"

text \<open>
  A profile that forbids storing passwords clears all the flags of the panel, and the user
  name is not asked for either.
\<close>

definition rmplugin_x2go_get_auth :: "'w x2go_lib \<Rightarrow> cstr \<Rightarrow> cstr \<Rightarrow> 'w x2go \<Rightarrow> (string + cstr \<times> cstr) \<times> 'w x2go" where
  "rmplugin_x2go_get_auth lib username password s =
     (let default_username = Some (or_empty username);
          default_password = Some (or_empty password);
          flags = (remmina_file_get_int (xg_file s) ''disablepasswordstoring'' 0 = 0);
          (ret, s) = x2go_panel (remmina_protocol_widget_panel_auth (xl_user lib)
                       (auth_request flags flags ''Enter X2Go credentials'' default_username default_password)) s
      in if ret \<noteq> Response_ok then (Inl (''Authentication cancelled. Aborting'' @ ellipsis), s)
         else auth_entered default_username default_password s)"

section \<open>Choosing a session\<close>

definition no_session_message :: string where
  "no_session_message = ''No session was selected. Creating a new one.''"

definition after_chooser :: "'w x2go \<Rightarrow> chooser \<Rightarrow> ((string + string) \<times> 'w x2go) x2go_run" where
  "after_chooser s ch =
     (if \<not> ch_selected ch then Run_waiting
      else let s = s\<lparr>xg_resume := ch_resume ch, xg_selected := True, xg_printed := xg_printed s @ ch_printed ch\<rparr> in
           case non_empty (ch_resume ch) of
             None \<Rightarrow> Run_done (Inl no_session_message, s)
           | Some resume \<Rightarrow> Run_done (Inr resume, s))"

definition rmplugin_x2go_ask_session ::
  "'w x2go_lib \<Rightarrow> x2go_connection \<Rightarrow> 'w x2go \<Rightarrow> ((string + string) \<times> 'w x2go) x2go_run" where
  "rmplugin_x2go_ask_session lib c s =
     (if is_empty (xc_host c) \<or> is_empty (xc_username c) \<or> xc_password c = None
      then Run_done (Inl (''Internal error: '' @ [CHR 0x27] @ ''Invalid connection data.'' @ [CHR 0x27]), s)
      else run_bind (rmplugin_x2go_parse_pyhoca_sessions lib c s) (\<lambda>(r, s).
        case r of
          Inl e \<Rightarrow> Run_done (Inl e, s)
        | Inr sessions \<Rightarrow>
            let (events, w) = xl_choose lib sessions (xg_world s); s = s\<lparr>xg_world := w\<rparr> in
            (case c_bind (rmplugin_x2go_choose_session_dialog_factory sessions c (xg_resume s) (xg_selected s))
                         (chooser_run (xl_user_name lib) (x2go_features s) events) of
               Crash \<Rightarrow> Run_crash
             | Ret ch \<Rightarrow> after_chooser s ch)))"

section \<open>The command line of a session\<close>

record x2go_options =
  xo_command :: string
  xo_kbdlayout :: cstr
  xo_kbdtype :: cstr
  xo_audio :: cstr
  xo_clipboard :: cstr
  xo_dpi :: gint
  xo_resolution :: string

definition or_default :: "string \<Rightarrow> cstr \<Rightarrow> string" where
  "or_default d s = (case s of None \<Rightarrow> d | Some t \<Rightarrow> t)"

definition dpi_in_bounds :: "gint \<Rightarrow> bool" where
  "dpi_in_bounds dpi \<longleftrightarrow> 20 \<le> sint dpi \<and> sint dpi \<le> 400"

text \<open>The options up to the password, and the ones that describe the session.\<close>

definition session_login_args :: "string list \<Rightarrow> x2go_connection \<Rightarrow> gint \<Rightarrow> string option \<Rightarrow> string \<Rightarrow> string list" where
  "session_login_args features c sshport resume local_user =
     [''pyhoca-cli'', ''--server'', printf_s (xc_host c)] @
     if_feature features ''REMOTE_SSH_PORT'' [''-p'', show_gint sshport] @
     (case resume of None \<Rightarrow> [] | Some r \<Rightarrow> if_feature features ''RESUME'' [''--resume'', r]) @
     if_feature features ''USERNAME'' [''-u'', or_default local_user (xc_username c)] @
     if_feature features ''PASSWORD'' (password_args (xc_password c))"

definition session_option_args :: "string list \<Rightarrow> x2go_options \<Rightarrow> string list" where
  "session_option_args features xo =
     if_feature features ''AUTH_ATTEMPTS'' [''--auth-attempts'', show_gint 0] @
     if_feature features ''NON_INTERACTIVE'' [''--non-interactive''] @
     if_feature features ''COMMAND'' [''-c'', xo_command xo] @
     if_feature features ''KBD_LAYOUT'' [''--kbd-layout'', or_default ''auto'' (xo_kbdlayout xo)] @
     if_feature features ''KBD_TYPE'' [''--kbd-type'', or_default ''auto'' (xo_kbdtype xo)] @
     if_feature features ''GEOMETRY'' [''-g'', xo_resolution xo] @
     if_feature features ''TERMINATE_ON_CTRL_C'' [''--terminate-on-ctrl-c''] @
     if_feature features ''SOUND'' [''--sound'', or_default ''none'' (xo_audio xo)] @
     (case xo_clipboard xo of None \<Rightarrow> [] | Some m \<Rightarrow> if_feature features ''CLIPBOARD_MODE'' [''--clipboard-mode'', m]) @
     if_feature features ''DPI'' [''--dpi'', show_gint (xo_dpi xo)]"

definition session_argv ::
  "string list \<Rightarrow> x2go_connection \<Rightarrow> gint \<Rightarrow> string option \<Rightarrow> string \<Rightarrow> x2go_options \<Rightarrow> string + string list" where
  "session_argv features c sshport resume local_user xo =
     (if feature_available features ''DPI'' \<and> \<not> dpi_in_bounds (xo_dpi xo)
      then Inl ''DPI setting is out of bounds. Please adjust it in profile settings.''
      else Inr (session_login_args features c sshport resume local_user @ session_option_args features xo @
                key_args features (xc_privatekey c) (xc_passphrase c)))"

text \<open>
  The start of the helper. A process number 0 is waited for until it changes; the code gives
  no reason that it would.
\<close>

definition launch_session :: "'w x2go_lib \<Rightarrow> string list \<Rightarrow> 'w x2go \<Rightarrow> (x2go_error \<times> 'w x2go) x2go_run" where
  "launch_session lib argv s =
     (let (r, w) = xl_spawn_async lib argv (xl_environ lib) (xg_world s);
          s = s\<lparr>xg_world := w, xg_printed := xg_printed s @ printed_command argv\<rparr>
      in case r of
           Inl _ \<Rightarrow> Run_done (Some (''Could not start X2Go session'' @ ellipsis), s)
         | Inr pid \<Rightarrow> if pid = 0 then Run_waiting else Run_done (None, update_data (\<lambda>d. d\<lparr>xd_pid := pid\<rparr>) s))"

text \<open>User name and password: asked for when the profile has no user name.\<close>

definition x2go_login :: "'w x2go_lib \<Rightarrow> cstr \<Rightarrow> cstr \<Rightarrow> 'w x2go \<Rightarrow> (string + cstr \<times> cstr) \<times> 'w x2go" where
  "x2go_login lib username password s =
     (case (if is_empty username then rmplugin_x2go_get_auth lib username password s else (Inr (username, password), s)) of
        (Inl e, s) \<Rightarrow> (Inl e, s)
      | (Inr (u, p), s) \<Rightarrow> (Inr (u, Some (or_empty p)), s))"

definition x2go_passphrase :: "'w x2go_lib \<Rightarrow> cstr \<Rightarrow> 'w x2go \<Rightarrow> (string + cstr) \<times> 'w x2go" where
  "x2go_passphrase lib ssh_privatekey s =
     (if is_empty ssh_privatekey then (Inr None, s) else rmplugin_x2go_get_ssh_passphrase lib None s)"

text \<open>The session that was chosen, if any; the message of \<open>ask_session\<close> is only logged.\<close>

definition start_chosen_session ::
  "'w x2go_lib \<Rightarrow> x2go_connection \<Rightarrow> gint \<Rightarrow> x2go_options \<Rightarrow> 'w x2go \<Rightarrow> (x2go_error \<times> 'w x2go) x2go_run" where
  "start_chosen_session lib c sshport xo s =
     run_bind (rmplugin_x2go_ask_session lib c s) (\<lambda>(r, s).
       case session_argv (x2go_features s) c sshport (case r of Inl _ \<Rightarrow> None | Inr i \<Rightarrow> Some i) (xl_user_name lib) xo of
         Inl e \<Rightarrow> Run_done (Some e, s)
       | Inr argv \<Rightarrow> launch_session lib argv s)"

definition rmplugin_x2go_exec_x2go ::
  "'w x2go_lib \<Rightarrow> x2go_connection \<Rightarrow> gint \<Rightarrow> x2go_options \<Rightarrow> 'w x2go \<Rightarrow> (x2go_error \<times> 'w x2go) x2go_run" where
  "rmplugin_x2go_exec_x2go lib c sshport xo s =
     (case x2go_login lib (xc_username c) (xc_password c) s of
        (Inl e, s) \<Rightarrow> Run_done (Some e, s)
      | (Inr (username, password), s) \<Rightarrow>
          (case x2go_passphrase lib (xc_privatekey c) s of
             (Inl e, s) \<Rightarrow> Run_done (Some e, s)
           | (Inr passphrase, s) \<Rightarrow>
               start_chosen_session lib (c\<lparr>xc_username := username, xc_password := password, xc_passphrase := passphrase\<rparr>)
                 sshport xo s))"

section \<open>The window of the session\<close>

text \<open>The array of window ids, which keeps two sessions from taking the same window.\<close>

definition rmplugin_x2go_try_window_id :: "int \<Rightarrow> int list \<Rightarrow> bool \<times> int list" where
  "rmplugin_x2go_try_window_id window_id ids =
     (if window_id \<in> set ids then (False, ids) else (True, ids @ [window_id]))"

definition rmplugin_x2go_remove_window_id :: "int \<Rightarrow> int list \<Rightarrow> int list" where
  "rmplugin_x2go_remove_window_id window_id ids =
     (case first_index (\<lambda>w. w = window_id) ids of None \<Rightarrow> ids | Some i \<Rightarrow> g_ptr_array_remove_index_fast ids i)"

definition rmplugin_x2go_start_create_notify :: "'w x2go_lib \<Rightarrow> 'w x2go \<Rightarrow> x2go_error \<times> 'w x2go" where
  "rmplugin_x2go_start_create_notify lib s =
     (if xl_open_display lib then (None, update_data (\<lambda>d. d\<lparr>xd_display := True\<rparr>) s)
      else (Some ''Could not open X11 DISPLAY.'', s))"

text \<open>
  The loop over the events of the X server. \<open>inner\<close> says that the code is in the inner loop,
  which waits for an event and counts \<open>wait_amount\<close> down but never looks at it. The result is
  \<open>Run_waiting\<close> when the events are used up, otherwise whether a window was found.
\<close>

fun window_loop :: "string \<Rightarrow> bool \<Rightarrow> int \<Rightarrow> x_event list \<Rightarrow> int list \<Rightarrow> (int option \<times> int list) x2go_run" where
  "window_loop cmd inner wait_amount events ids =
     (if \<not> inner \<and> \<not> wait_amount > 0 then Run_done (None, ids)
      else case events of
             [] \<Rightarrow> Run_waiting
           | Xev_quiet # es \<Rightarrow> window_loop cmd True (wait_amount - 1) es ids
           | Xev_other # es \<Rightarrow> window_loop cmd False wait_amount es ids
           | Xev_create w property # es \<Rightarrow>
               (case property of
                  Some (Some text_of) \<Rightarrow>
                    (if strrstr text_of cmd \<noteq> None \<and> fst (rmplugin_x2go_try_window_id w ids)
                     then Run_done (Some w, snd (rmplugin_x2go_try_window_id w ids))
                     else window_loop cmd False wait_amount es ids)
                | _ \<Rightarrow> window_loop cmd False wait_amount es ids))"

declare window_loop.simps [simp del]

definition window_found :: "int option \<times> int list \<Rightarrow> 'w x2go \<Rightarrow> (x2go_error \<times> 'w x2go) x2go_run" where
  "window_found r s =
     (let s = update_data (\<lambda>d. d\<lparr>xd_display := False\<rparr>) (s\<lparr>xg_windows := snd r\<rparr>) in
      case fst r of
        None \<Rightarrow> Run_done (Some (''No X2Go session window appeared. Something went wrong'' @ ellipsis), s)
      | Some w \<Rightarrow> Run_done (None, update_data (\<lambda>d. d\<lparr>xd_window_id := w\<rparr>) s))"

text \<open>While the helper has no process number, the loop sleeps without counting.\<close>

definition rmplugin_x2go_monitor_create_notify ::
  "'w x2go_lib \<Rightarrow> string \<Rightarrow> 'w x2go \<Rightarrow> (x2go_error \<times> 'w x2go) x2go_run" where
  "rmplugin_x2go_monitor_create_notify lib cmd s =
     (if \<not> xl_wm_command lib then Run_done (Some [], s)
      else if \<not> (case xg_data s of None \<Rightarrow> False | Some d \<Rightarrow> xd_pid d > 0) then Run_waiting
      else run_bind (window_loop cmd False 100 (xl_xevents lib (xg_world s)) (xg_windows s)) (\<lambda>r. window_found r s))"

section \<open>Starting a session\<close>

text \<open>The size of the session is rounded up to a multiple of four.\<close>

definition x2go_resolution :: "gint \<Rightarrow> gint \<Rightarrow> string" where
  "x2go_resolution width height =
     (let w = round_up4 width; h = round_up4 height in
      if sint w > 0 \<and> sint h > 0 then show_gint w @ ''x'' @ show_gint h else ''800x600'')"

definition x2go_file_connection :: "rfile \<Rightarrow> cstr \<Rightarrow> x2go_connection" where
  "x2go_file_connection rf host =
     \<lparr>xc_host = host, xc_username = remmina_file_get_string rf ''username'', xc_password = remmina_file_get_string rf ''password'',
      xc_privatekey = non_empty (remmina_file_get_string rf ''ssh_privatekey''), xc_passphrase = None\<rparr>"

definition x2go_file_options :: "rfile \<Rightarrow> gint \<Rightarrow> gint \<Rightarrow> x2go_options" where
  "x2go_file_options rf width height =
     \<lparr>xo_command = or_default ''TERMINAL'' (remmina_file_get_string rf ''command''),
      xo_kbdlayout = remmina_file_get_string rf ''kbdlayout'', xo_kbdtype = remmina_file_get_string rf ''kbdtype'',
      xo_audio = remmina_file_get_string rf ''audio'', xo_clipboard = remmina_file_get_string rf ''clipboard'',
      xo_dpi = remmina_file_get_int rf ''dpi'' 80, xo_resolution = x2go_resolution width height\<rparr>"

text \<open>The steps that may fail, one after the other, and the error they leave.\<close>

definition x2go_start_steps ::
  "'w x2go_lib \<Rightarrow> x2go_connection \<Rightarrow> gint \<Rightarrow> x2go_options \<Rightarrow> 'w x2go \<Rightarrow> (x2go_error \<times> 'w x2go) x2go_run" where
  "x2go_start_steps lib c sshport xo s =
     (case rmplugin_x2go_start_create_notify lib s of
        (Some e, s) \<Rightarrow> Run_done (Some e, s)
      | (None, s) \<Rightarrow>
          run_bind (rmplugin_x2go_exec_x2go lib c sshport xo s) (\<lambda>(e, s).
            case e of
              Some e \<Rightarrow> Run_done (Some e, s)
            | None \<Rightarrow> rmplugin_x2go_monitor_create_notify lib ''x2goagent'' s))"

definition embed_window :: "'w x2go \<Rightarrow> 'w x2go" where
  "embed_window s = (case xg_data s of None \<Rightarrow> s | Some d \<Rightarrow> s\<lparr>xg_embedded := xg_embedded s @ [xd_window_id d]\<rparr>)"

definition rmplugin_x2go_start_session ::
  "'w x2go_lib \<Rightarrow> (string \<Rightarrow> gint \<Rightarrow> (string \<times> gint) option) \<Rightarrow> gint \<Rightarrow> gint \<times> gint \<Rightarrow> 'w x2go \<Rightarrow> (bool \<times> 'w x2go) x2go_run" where
  "rmplugin_x2go_start_session lib parse port_in dims s =
     (let rf = xg_file s in
      case remmina_file_get_string rf ''server'' of
        None \<Rightarrow> Run_done (False, s)
      | Some servstr \<Rightarrow>
          let (host, sshport) = remmina_public_get_server_port parse (Some servstr) 22 port_in;
              sshport = (if sshport = 0 then 22 else sshport)
          in run_bind (x2go_start_steps lib (x2go_file_connection rf host) sshport
                         (x2go_file_options rf (fst dims) (snd dims)) s) (\<lambda>(e, s).
               case e of
                 Some e \<Rightarrow> Run_done (False, s\<lparr>xg_error := Some e\<rparr>)
               | None \<Rightarrow> Run_done (True, embed_window s)))"

definition rmplugin_x2go_main ::
  "'w x2go_lib \<Rightarrow> (string \<Rightarrow> gint \<Rightarrow> (string \<times> gint) option) \<Rightarrow> gint \<Rightarrow> gint \<times> gint \<Rightarrow> 'w x2go \<Rightarrow> (bool \<times> 'w x2go) x2go_run" where
  "rmplugin_x2go_main lib parse port_in dims s =
     run_bind (rmplugin_x2go_start_session lib parse port_in dims s) (\<lambda>(ret, s).
       Run_done (ret, update_data (\<lambda>d. d\<lparr>xd_thread := False\<rparr>) s))"

section \<open>The life of a connection\<close>

text \<open>Without GtkSocket the data stay as they were allocated, and opening reports it.\<close>

definition x2go_data_new :: x2go_data where
  "x2go_data_new = \<lparr>xd_socket_id = 0, xd_thread = False, xd_display = False, xd_window_id = 0, xd_pid = 0,
     xd_disconnected = False, xd_features = []\<rparr>"

definition rmplugin_x2go_init :: "'w x2go_lib \<Rightarrow> 'w x2go \<Rightarrow> 'w x2go" where
  "rmplugin_x2go_init lib s =
     (let s = s\<lparr>xg_data := Some x2go_data_new\<rparr> in
      if \<not> xl_gtksocket lib then s
      else let (features, s) = rmplugin_x2go_populate_available_features_list lib s
           in update_data (\<lambda>d. d\<lparr>xd_features := features\<rparr>) s)"

definition rmplugin_x2go_open_connection :: "'w x2go_lib \<Rightarrow> int \<Rightarrow> 'w x2go \<Rightarrow> bool \<times> 'w x2go" where
  "rmplugin_x2go_open_connection lib socket_id s =
     (if \<not> xl_gtksocket lib then
        (False, s\<lparr>xg_error := Some ''The X2GO protocol is unavailable because GtkSocket only works under X.org''\<rparr>)
      else let s = update_data (\<lambda>d. d\<lparr>xd_socket_id := socket_id\<rparr>) s in
           if xl_thread_starts lib then (True, update_data (\<lambda>d. d\<lparr>xd_thread := True\<rparr>) s)
           else (False, update_data (\<lambda>d. d\<lparr>xd_thread := False\<rparr>)
                   (s\<lparr>xg_error := Some (''Could not initialize pthread. Falling back to non-threaded mode'' @ ellipsis)\<rparr>)))"

text \<open>
  The thread is cancelled and joined, the window given back, the helper killed, the display
  closed; the data of the plugin are dropped.
\<close>

definition rmplugin_x2go_cleanup :: "'w x2go \<Rightarrow> 'w x2go" where
  "rmplugin_x2go_cleanup s =
     (case xg_data s of
        None \<Rightarrow> s
      | Some d \<Rightarrow> s\<lparr>xg_data := None,
          xg_windows := (if xd_window_id d \<noteq> 0 then rmplugin_x2go_remove_window_id (xd_window_id d) (xg_windows s)
                         else xg_windows s),
          xg_killed := (if xd_pid d \<noteq> 0 then xg_killed s @ [xd_pid d] else xg_killed s),
          xg_closed := True\<rparr>)"

text \<open>A second close finds no data and reads through NULL.\<close>

definition rmplugin_x2go_close_connection :: "'w x2go \<Rightarrow> 'w x2go c_result" where
  "rmplugin_x2go_close_connection s =
     (case xg_data s of
        None \<Rightarrow> Crash
      | Some d \<Rightarrow> Ret (if xd_disconnected d then s else rmplugin_x2go_cleanup s))"

definition rmplugin_x2go_pyhoca_cli_exited :: "'w x2go \<Rightarrow> 'w x2go c_result" where
  "rmplugin_x2go_pyhoca_cli_exited s =
     (case xg_data s of
        None \<Rightarrow> Ret s
      | Some d \<Rightarrow> if xd_pid d \<le> 0 then Ret s else rmplugin_x2go_close_connection s)"

definition rmplugin_x2go_main_thread ::
  "'w x2go_lib \<Rightarrow> (string \<Rightarrow> gint \<Rightarrow> (string \<times> gint) option) \<Rightarrow> gint \<Rightarrow> gint \<times> gint \<Rightarrow> 'w x2go \<Rightarrow> 'w x2go x2go_run" where
  "rmplugin_x2go_main_thread lib parse port_in dims s =
     run_bind (rmplugin_x2go_main lib parse port_in dims s) (\<lambda>(ret, s).
       Run_done (if ret then s else rmplugin_x2go_cleanup s))"

end
