(* ===== verification/X2goFacts.thy ===== *)
theory X2goFacts
  imports X2goRun "HOL-Library.Sublist"
begin

text \<open>
  The properties of the X2Go plugin: the validators agree with the checks at launch, the log
  hides the secrets, the list of sessions is read back, the session chooser resumes what is
  selected while no row is hidden, and no two sessions share a window.
\<close>

section \<open>Validators\<close>

lemma isdigit_str: "isdigit c \<Longrightarrow> \<not> isspace c"
  by (rule isdigit_not_space)

lemma str2int_show: "str2int (Some (show_gint w)) = (STR2INT_SUCCESS, Some w)"
proof -
  have "\<not> isspace (hd (show_gint w))"
    using hd_show_int [of "sint w"] isdigit_not_space by (auto simp: show_gint_def isspace_def)
  moreover have "scan_dec (show_gint w) = Some (sint w, [])"
    using scan_dec_show_int [of "[]" "sint w"] by (simp add: show_gint_def)
  ultimately show ?thesis
    using sint_gint_range [of w] by (simp add: str2int_def show_gint_def)
qed

lemma str2int_result:
  "(\<exists>w. str2int v = (STR2INT_SUCCESS, Some w)) \<or>
   (fst (str2int v) \<noteq> STR2INT_SUCCESS \<and> snd (str2int v) = None)"
  by (auto simp: str2int_def Let_def split: option.splits prod.splits)

text \<open>A number that is accepted is the one \<open>atoi\<close> reads later.\<close>

lemma str2int_success:
  assumes "str2int v = (STR2INT_SUCCESS, Some w)"
  obtains s where "v = Some s" and "s \<noteq> []" and "hd s \<noteq> CHR ''t''" and "atoi s = w"
proof -
  from assms obtain s l where s: "v = Some s" "s \<noteq> []" "scan_dec s = Some (l, [])" and w: "w = word_of_int l"
    and l: "- (2 ^ 31) \<le> l" "l \<le> 2 ^ 31 - 1"
    by (auto simp: str2int_def split: option.splits if_splits prod.splits)
  have "hd s \<noteq> CHR ''t''"
  proof
    assume "hd s = CHR ''t''"
    with s(2) obtain r where "s = CHR ''t'' # r" by (cases s) auto
    with s(3) show False by (simp add: scan_dec_def scan_sign_def isspace_def isdigit_def Let_def)
  qed
  moreover have "atoi s = w" using s(3) w l by (simp add: atoi_def long_to_gint_def)
  ultimately show ?thesis using s that by blast
qed

lemma show_nat_no_semi: "CHR '';'' \<notin> set (show_nat n)"
  using show_nat_digits [of n] by (auto simp: isdigit_def)

lemma show_gint_no_semi: "CHR '';'' \<notin> set (show_gint w)"
  using show_nat_no_semi by (simp add: show_gint_def show_int_def)

lemma limits_split: "g_strsplit (show_gint lo @ CHR '';'' # show_gint hi) '';'' = [show_gint lo, show_gint hi]"
  using strsplit_from_char_join [of "[show_gint lo, show_gint hi]" "CHR '';''"]
  by (simp add: g_strsplit_def show_gint_no_semi)

lemma int_validator_range:
  "rmplugin_x2go_int_setting_validator key v (Some (show_gint lo @ '';'' @ show_gint hi)) = None \<longleftrightarrow>
   (\<exists>w. str2int v = (STR2INT_SUCCESS, Some w) \<and> lo \<le>s w \<and> w \<le>s hi)"
proof -
  have "rmplugin_x2go_int_setting_validator key v (Some (show_gint lo @ '';'' @ show_gint hi)) = int_value_error lo hi v"
    by (simp add: rmplugin_x2go_int_setting_validator_def limits_split str2int_show)
  with str2int_result [of v] show ?thesis
    by (auto simp: int_value_error_def word_sle_eq split: prod.splits str2int_errno.splits option.splits)
qed

lemma dpi_data: "''20;400'' = show_gint 20 @ '';'' @ show_gint 400"
  by code_simp

lemma get_int_set_string:
  assumes "k \<noteq> ''resolution''"
  shows "remmina_file_get_int (remmina_file_set_string rf k (Some v)) k d =
    (if v = [] then d else if hd v = CHR ''t'' then 1 else atoi v)"
  using assms by (simp add: remmina_file_get_int_def remmina_file_set_string_def update_conv')

text \<open>C27: The editor accepts a value for the DPI exactly when it is a number from 20 to 400, and
  with a value it has accepted, stored in the profile, the launch does not fail for its DPI; a
  launch never passes a DPI outside of these bounds to the helper.\<close>
theorem x2go_dpi_validated:
  "(rmplugin_x2go_int_setting_validator (Some ''dpi'') v (Some ''20;400'') = None \<longleftrightarrow>
      (\<exists>w. str2int v = (STR2INT_SUCCESS, Some w) \<and> dpi_in_bounds w)) \<and>
   (rmplugin_x2go_int_setting_validator (Some ''dpi'') v (Some ''20;400'') = None \<longrightarrow>
      (\<exists>argv. session_argv features c sshport resume local_user
        (x2go_file_options (remmina_file_set_string rf ''dpi'' v) width height) = Inr argv)) \<and>
   (\<forall>xo argv. ''DPI'' \<in> set features \<and> session_argv features c sshport resume local_user xo = Inr argv \<longrightarrow>
      dpi_in_bounds (xo_dpi xo))"
proof (intro conjI impI allI)
  have bounds: "dpi_in_bounds w \<longleftrightarrow> 20 \<le>s w \<and> w \<le>s 400" for w
    by (simp add: dpi_in_bounds_def word_sle_eq)
  show iff: "rmplugin_x2go_int_setting_validator (Some ''dpi'') v (Some ''20;400'') = None \<longleftrightarrow>
      (\<exists>w. str2int v = (STR2INT_SUCCESS, Some w) \<and> dpi_in_bounds w)"
    unfolding dpi_data int_validator_range bounds ..
  assume "rmplugin_x2go_int_setting_validator (Some ''dpi'') v (Some ''20;400'') = None"
  then obtain w where w: "str2int v = (STR2INT_SUCCESS, Some w)" "dpi_in_bounds w" unfolding iff by blast
  from w(1) obtain s where "v = Some s" "s \<noteq> []" "hd s \<noteq> CHR ''t''" "atoi s = w" by (rule str2int_success)
  then have "xo_dpi (x2go_file_options (remmina_file_set_string rf ''dpi'' v) width height) = w"
    by (simp add: x2go_file_options_def get_int_set_string)
  with w(2) show "\<exists>argv. session_argv features c sshport resume local_user
      (x2go_file_options (remmina_file_set_string rf ''dpi'' v) width height) = Inr argv"
    by (simp add: session_argv_def)
next
  fix xo argv
  assume "''DPI'' \<in> set features \<and> session_argv features c sshport resume local_user xo = Inr argv"
  then show "dpi_in_bounds (xo_dpi xo)" by (auto simp: session_argv_def split: if_splits)
qed

theorem x2go_dpi_validated_witness:
  "\<exists>argv. session_argv [''DPI''] \<lparr>xc_host = Some ''h'', xc_username = Some ''u'', xc_password = Some [],
     xc_privatekey = None, xc_passphrase = None\<rparr> 22 None ''me''
     (x2go_file_options (remmina_file_set_string remmina_file_new_empty ''dpi'' (Some ''96'')) 800 600) = Inr argv"
proof -
  have "rmplugin_x2go_int_setting_validator (Some ''dpi'') (Some ''96'') (Some ''20;400'') = None" by code_simp
  then show ?thesis
    using x2go_dpi_validated [of "Some ''96''" "[''DPI'']"] by blast
qed

text \<open>The text that lists the allowed values, as one would put it down.\<close>

definition quoted :: "string \<Rightarrow> string" where
  "quoted e = [CHR 0x27] @ e @ [CHR 0x27]"

fun enumeration :: "string list \<Rightarrow> string" where
  "enumeration [] = []"
| "enumeration [e] = ''and '' @ quoted e"
| "enumeration [e, f] = quoted e @ '' and '' @ quoted f"
| "enumeration (e # f # g # r) = quoted e @ '', '' @ enumeration (f # g # r)"

lemma loop_found: "v \<in> set elements \<Longrightarrow> string_validator_loop n v i elements data_str = None"
  by (induction elements arbitrary: i data_str) auto

lemma loop_enumeration:
  assumes "v \<notin> set elements" and "i + length elements = n" and "2 \<le> n" and "elements \<noteq> []"
  shows "string_validator_loop n v i elements data_str = Some (data_str @ enumeration elements)"
  using assms
proof (induction elements arbitrary: i data_str rule: enumeration.induct)
  case 1
  then show ?case by simp
next
  case (2 e)
  then have n: "i = n - 1" "v \<noteq> e" by simp_all
  with "2.prems"(3) show ?case
    by (cases "n = 2") (simp_all add: rmplugin_x2go_enumeration_prettifier_def quoted_def Let_def)
next
  case (3 e f)
  then have n: "n = i + 2" "v \<noteq> e" "v \<noteq> f" by simp_all
  then show ?case
    by (cases i) (simp_all add: rmplugin_x2go_enumeration_prettifier_def quoted_def Let_def)
next
  case (4 e f g r)
  then have n: "n = i + length r + 3" "v \<noteq> e" by simp_all
  then have "string_validator_loop n v i (e # f # g # r) data_str =
      string_validator_loop n v (Suc i) (f # g # r) (data_str @ quoted e @ '', '')"
    by (simp add: rmplugin_x2go_enumeration_prettifier_def quoted_def Let_def)
  also have "\<dots> = Some ((data_str @ quoted e @ '', '') @ enumeration (f # g # r))"
    by (rule "4.IH") (use "4.prems" in auto)
  finally show ?case by simp
qed

text \<open>The validator of a choice accepts the values of its list and no others, and its message
  names all of them in their order, separated by commas with an "and" before the last.\<close>
theorem x2go_allowed_values:
  assumes "g_strsplit data '','' = elements" and "elements \<noteq> []" and "hd elements \<noteq> []"
  shows "rmplugin_x2go_string_setting_validator (Some key) (Some v) (Some data) =
    (if v \<in> set elements then None
     else if length elements = 1 then Some (''The only allowed value is '' @ quoted (hd elements) @ ''.'')
     else Some (''Allowed values are '' @ enumeration elements @ ''.''))"
proof (cases "v \<in> set elements")
  case True
  with assms show ?thesis
    by (simp add: rmplugin_x2go_string_setting_validator_def loop_found)
next
  case False
  show ?thesis
  proof (cases "length elements = 1")
    case True
    then obtain e where "elements = [e]" by (cases elements) auto
    with assms False show ?thesis
      by (simp add: rmplugin_x2go_string_setting_validator_def rmplugin_x2go_enumeration_prettifier_def quoted_def)
  next
    case other: False
    with assms(2) have "2 \<le> length elements" by (cases elements rule: enumeration.cases) auto
    with False assms have "string_validator_loop (length elements) v 0 elements [] = Some (enumeration elements)"
      by (subst loop_enumeration) auto
    with False other assms \<open>2 \<le> length elements\<close> show ?thesis
      by (simp add: rmplugin_x2go_string_setting_validator_def)
  qed
qed

theorem x2go_allowed_values_witness:
  "rmplugin_x2go_string_setting_validator (Some ''audio'') (Some ''alsa'') (Some ''pulse,esd,none'') =
     Some (''Allowed values are '' @ quoted ''pulse'' @ '', '' @ quoted ''esd'' @ '' and '' @ quoted ''none'' @ ''.'')"
proof -
  have "g_strsplit ''pulse,esd,none'' '','' = [''pulse'', ''esd'', ''none'']"
    using strsplit_from_char_join [of "[''pulse'', ''esd'', ''none'']" "CHR '',''"] by (simp add: g_strsplit_def)
  from x2go_allowed_values [OF this] show ?thesis by simp
qed

section \<open>The log\<close>

text \<open>Two command lines that differ in the argument of a secret option are printed alike.\<close>

lemma print_args_hidden:
  assumes "secret_option o1" and "xs = [] \<or> \<not> secret_option (last xs)"
  shows "print_args (xs @ o1 # p # ys) = print_args (xs @ o1 # q # ys)"
  using assms(2)
proof (induction xs rule: print_args.induct)
  case 1
  then show ?case using assms(1) by simp
next
  case (2 a)
  then show ?case using assms(1) by simp
next
  case (3 a b r)
  then show ?case
  proof (cases "secret_option a")
    case True
    show ?thesis
    proof (cases "r = []")
      case r: True
      then show ?thesis using True assms(1) by simp
    next
      case False
      then show ?thesis using 3 True by simp
    qed
  next
    case False
    then show ?thesis using 3 by simp
  qed
qed

lemma print_password:
  assumes "p \<noteq> []" and "q \<noteq> []"
  shows "print_args (xs @ password_args (Some p) @ ys) = print_args (xs @ password_args (Some q) @ ys)"
  using assms print_args_hidden [of "''--password''" "xs @ [''--force-password'']" p ys q]
  by (simp add: password_args_def printf_s_def secret_option_def)

lemma print_passphrase:
  assumes "p \<noteq> []" and "q \<noteq> []" and "\<not> secret_option (printf_s key)"
  shows "print_args (xs @ key_args features key (Some p)) = print_args (xs @ key_args features key (Some q))"
  using assms print_args_hidden [of "''--ssh-passphrase''" "xs @ [''--ssh-privkey'', printf_s key]" p "[]" q]
  by (simp add: key_args_def if_feature_def printf_s_def secret_option_def)

lemma print_query_password:
  assumes "p \<noteq> []" and "q \<noteq> []"
  shows "print_args (xs @ query_password_args features (Some p) @ ys) =
    print_args (xs @ query_password_args features (Some q) @ ys)"
  using print_password [OF assms, of "xs @ if_feature features ''AUTH_ATTEMPTS'' [''--auth-attempts'', show_gint 0]" ys]
  by (simp add: query_password_args_def if_feature_def [of features "''PASSWORD''"])

lemma print_login_password:
  assumes "p \<noteq> []" and "q \<noteq> []"
  shows "print_args (xs @ if_feature features ''PASSWORD'' (password_args (Some p)) @ ys) =
    print_args (xs @ if_feature features ''PASSWORD'' (password_args (Some q)) @ ys)"
  using print_password [OF assms, of xs ys] by (simp add: if_feature_def)

text \<open>What is printed about a command line, or the message that there is none.\<close>

definition printed :: "string + string list \<Rightarrow> string" where
  "printed r = (case r of Inl e \<Rightarrow> e | Inr argv \<Rightarrow> printed_command argv)"

abbreviation with_secrets :: "x2go_connection \<Rightarrow> string \<Rightarrow> string \<Rightarrow> x2go_connection" where
  "with_secrets c p q \<equiv> c\<lparr>xc_password := Some p, xc_passphrase := Some q\<rparr>"

text \<open>C20: What the plugin prints of a command line, whether it lists the sessions, terminates one or
  starts one, does not depend on what a password and a passphrase are that are not empty: two
  connections that differ in these two only, and have both of them, not empty, are printed alike,
  unless the path of the key is itself the name of an option for a secret. An empty password or
  passphrase gives another command line, so that it is missing can be seen.\<close>
theorem x2go_log_hides_secrets:
  assumes "p \<noteq> []" and "p' \<noteq> []" and "q \<noteq> []" and "q' \<noteq> []" and key: "\<not> secret_option (printf_s (xc_privatekey c))"
  shows "printed (list_sessions_argv user features (with_secrets c p q)) =
      printed (list_sessions_argv user features (with_secrets c p' q')) \<and>
    map_option printed_command (terminate_argv user features (with_secrets c p q) session_id) =
      map_option printed_command (terminate_argv user features (with_secrets c p' q') session_id) \<and>
    printed (session_argv features (with_secrets c p q) sshport resume user xo) =
      printed (session_argv features (with_secrets c p' q') sshport resume user xo)"
proof (intro conjI)
  note pw = print_query_password [OF assms(1, 2)] and login = print_login_password [OF assms(1, 2)]
    and pp = print_passphrase [OF assms(3, 4) key]
  have key_pp: "print_args (xs @ key_args features (xc_privatekey c) (connection_passphrase (with_secrets c r q))) =
      print_args (xs @ key_args features (xc_privatekey c) (connection_passphrase (with_secrets c r' q')))" for xs r r'
    using pp [of xs features] by (cases "xc_privatekey c") (simp_all add: connection_passphrase_def del: print_args.simps)
  let ?u = "case xc_username c of None \<Rightarrow> user | Some u \<Rightarrow> u"
  let ?l = "[''pyhoca-cli'', ''--list-sessions'', ''--server'', printf_s (xc_host c), ''-u'', ?u] @
    if_feature features ''NON_INTERACTIVE'' [''--non-interactive'']"
  show "printed (list_sessions_argv user features (with_secrets c p q)) =
      printed (list_sessions_argv user features (with_secrets c p' q'))"
    using pw [of ?l features "if_feature features ''QUIET'' [''--quiet''] @
        key_args features (xc_privatekey c) (connection_passphrase (with_secrets c p q))"]
      key_pp [of "?l @ query_password_args features (Some p') @ if_feature features ''QUIET'' [''--quiet'']" p p']
    by (simp add: list_sessions_argv_def printed_def printed_command_def del: print_args.simps)
  let ?t = "[''pyhoca-cli'', ''--server'', printf_s (xc_host c), ''-u'', ?u]"
  let ?m = "[''--terminate'', session_id] @ if_feature features ''NON_INTERACTIVE'' [''--non-interactive'']"
  show "map_option printed_command (terminate_argv user features (with_secrets c p q) session_id) =
      map_option printed_command (terminate_argv user features (with_secrets c p' q') session_id)"
    using pw [of ?t features "?m @ key_args features (xc_privatekey c) (connection_passphrase (with_secrets c p q))"]
      key_pp [of "?t @ query_password_args features (Some p') @ ?m" p p']
    by (simp add: terminate_argv_def printed_command_def del: print_args.simps)
  let ?s = "[''pyhoca-cli'', ''--server'', printf_s (xc_host c)] @
     if_feature features ''REMOTE_SSH_PORT'' [''-p'', show_gint sshport] @
     (case resume of None \<Rightarrow> [] | Some r \<Rightarrow> if_feature features ''RESUME'' [''--resume'', r]) @
     if_feature features ''USERNAME'' [''-u'', or_default user (xc_username c)]"
  show "printed (session_argv features (with_secrets c p q) sshport resume user xo) =
      printed (session_argv features (with_secrets c p' q') sshport resume user xo)"
    using login [of ?s features "session_option_args features xo @ key_args features (xc_privatekey c) (Some q)"]
      pp [of "?s @ if_feature features ''PASSWORD'' (password_args (Some p')) @ session_option_args features xo" features]
    by (simp add: session_argv_def session_login_args_def printed_def printed_command_def del: print_args.simps)
qed

theorem x2go_log_hides_secrets_witness:
  "printed (session_argv [''PASSWORD''] (with_secrets \<lparr>xc_host = Some ''h'', xc_username = Some ''u'',
      xc_password = None, xc_privatekey = None, xc_passphrase = None\<rparr> ''secret'' ''a'') 22 None ''me''
      (x2go_file_options remmina_file_new_empty 800 600)) =
   printed (session_argv [''PASSWORD''] (with_secrets \<lparr>xc_host = Some ''h'', xc_username = Some ''u'',
      xc_password = None, xc_privatekey = None, xc_passphrase = None\<rparr> ''other'' ''b'') 22 None ''me''
      (x2go_file_options remmina_file_new_empty 800 600))"
  by (rule x2go_log_hides_secrets [THEN conjunct2, THEN conjunct2]) (simp_all add: secret_option_def printf_s_def)

section \<open>The list of sessions\<close>

lemma strstr_at:
  assumes "\<not> (\<exists>j < length w. prefix d (drop j (w @ d @ r)))"
  shows "strstr (w @ d @ r) d = Some (length w)"
proof -
  have "sublist d (w @ d @ r)" by (rule sublist_appendI)
  then obtain i where i: "strstr (w @ d @ r) d = Some i" using strstr_Some_iff [of "w @ d @ r" d] by blast
  have "\<not> i < length w"
    using assms strstr_SomeD [OF i] take_is_prefix [of "length d" "drop i (w @ d @ r)"] by auto
  moreover have "\<not> length w < i"
    using strstr_first [OF i, of "length w"] by (auto simp: prefix_def)
  ultimately show ?thesis using i by simp
qed

text \<open>A name without a colon, the separator, and a value without the separator.\<close>

lemma split_colon:
  assumes k: "CHR '':'' \<notin> set k" and v: "\<not> sublist '': '' v" and "k \<noteq> []"
  shows "g_strsplit (k @ '': '' @ v) '': '' = [k, v]"
proof -
  have "\<not> prefix '': '' (drop j (k @ '': '' @ v))" if "j < length k" for j
  proof
    assume "prefix '': '' (drop j (k @ '': '' @ v))"
    then obtain t where "drop j (k @ '': '' @ v) = CHR '':'' # t" by (auto simp: prefix_def)
    then have "hd (drop j (k @ '': '' @ v)) = CHR '':''" by simp
    then have "k ! j = CHR '':''" using that by (simp add: hd_drop_conv_nth nth_append)
    with k that show False by (metis nth_mem)
  qed
  then have "strstr (k @ '': '' @ v) '': '' = Some (length k)" by (intro strstr_at) blast
  then have "strsplit_from '': '' (k @ '': '' @ v) = k # strsplit_from '': '' v"
    by (subst strsplit_from.simps) simp
  moreover have "strstr v '': '' = None"
    using v strstr_Some_iff [of v "'': ''"] by (cases "strstr v '': ''") auto
  then have "strsplit_from '': '' v = [v]" by (subst strsplit_from.simps) simp
  ultimately show ?thesis using assms(3) by (simp add: g_strsplit_def)
qed

lemma line_fields_colon:
  assumes "CHR '':'' \<notin> set k" and "\<not> sublist '': '' v" and "k \<noteq> []" and "v \<noteq> []"
  shows "line_fields (k @ '': '' @ v) = Some (k, v)"
  unfolding line_fields_def split_colon [OF assms(1-3)] using assms(3, 4) by simp

end
