(* ===== verification/X2goProps.thy ===== *)
theory X2goProps
  imports X2goFacts
begin

text \<open>
  The sessions of the X2Go plugin: the list of sessions is read back from the text that
  reports it, the chooser acts on the row that is selected as long as no row before it is
  hidden, a termination that fails leaves the connection waiting, no two sessions share a
  window, and what a session that was started leaves to be cleaned up.
\<close>

section \<open>Reading the report\<close>

text \<open>The report of a session, as the parser expects it: the lines and the name of every property.\<close>

fun property_name :: "x2go_property \<Rightarrow> string" where
  "property_name SESSION_COOKIE = ''cookie''"
| "property_name SESSION_AGENT_PID = ''agent PID''"
| "property_name SESSION_DISPLAY = ''display''"
| "property_name SESSION_STATUS = ''status''"
| "property_name SESSION_GRAPHIC_PORT = ''graphic port''"
| "property_name SESSION_SND_PORT = ''snd port''"
| "property_name SESSION_SSHFS_PORT = ''sshfs port''"
| "property_name SESSION_USERNAME = ''username''"
| "property_name SESSION_HOSTNAME = ''hostname''"
| "property_name SESSION_CREATE_DATE = ''create date''"
| "property_name SESSION_SUSPENDED_SINCE = ''suspended since''"
| "property_name SESSION_SESSION_ID = ''Session Name''"

definition field_line :: "x2go_property \<times> string \<Rightarrow> string" where
  "field_line = (\<lambda>(p, v). property_name p @ '': '' @ v)"

definition report_lines :: "string \<times> (x2go_property \<times> string) list \<Rightarrow> string list" where
  "report_lines = (\<lambda>(i, props). field_line (SESSION_SESSION_ID, i) # session_separator # map field_line props @ [[]])"

definition shown :: "x2go_property \<Rightarrow> string \<Rightarrow> string" where
  "shown p v = (if p = SESSION_STATUS then status_text v else v)"

definition reported_session :: "string \<times> (x2go_property \<times> string) list \<Rightarrow> x2go_session" where
  "reported_session = (\<lambda>(i, props). fold (\<lambda>(p, v) s. s(p := Some (shown p v))) props
     ((\<lambda>_. None)(SESSION_SESSION_ID := Some i)))"

definition good_value :: "string \<Rightarrow> bool" where
  "good_value v \<longleftrightarrow> v \<noteq> [] \<and> \<not> sublist '': '' v \<and> CHR 0x0A \<notin> set v"

definition good_report :: "string \<times> (x2go_property \<times> string) list \<Rightarrow> bool" where
  "good_report = (\<lambda>(i, props). good_value i \<and> list_all (\<lambda>(p, v). p \<noteq> SESSION_SESSION_ID \<and> good_value v) props)"

lemma property_name_colon: "CHR '':'' \<notin> set (property_name p)" "property_name p \<noteq> []" "CHR 0x0A \<notin> set (property_name p)"
  by (cases p; simp)+

lemma field_line_fields:
  "good_value v \<Longrightarrow> line_fields (field_line (p, v)) = Some (property_name p, v)"
  by (simp add: field_line_def good_value_def line_fields_colon property_name_colon del: append.simps)

lemma field_prefix: "p \<noteq> SESSION_SESSION_ID \<Longrightarrow> find_prefix property_prefixes (field_line (p, v)) = Some p"
  by (cases p) (simp_all add: property_prefixes_def field_line_def)

lemma field_not_name: "p \<noteq> SESSION_SESSION_ID \<Longrightarrow> \<not> prefix ''Session Name: '' (field_line (p, v))"
  by (cases p) (simp_all add: field_line_def)

lemma field_not_separator: "field_line (p, v) \<noteq> session_separator"
  by (cases p) (simp_all add: field_line_def session_separator_def)

lemma parse_field:
  "p \<noteq> SESSION_SESSION_ID \<Longrightarrow> good_value v \<Longrightarrow>
   parse_session_line (field_line (p, v)) (True, s # ss) = (True, s(p := Some (shown p v)) # ss)"
  by (simp add: parse_session_line_def field_not_name field_not_separator field_line_fields field_prefix shown_def)

lemma parse_fields:
  assumes "list_all (\<lambda>(p, v). p \<noteq> SESSION_SESSION_ID \<and> good_value v) props"
  shows "fold parse_session_line (map field_line props) (True, s # ss) =
    (True, fold (\<lambda>(p, v) s. s(p := Some (shown p v))) props s # ss)"
  using assms by (induction props arbitrary: s) (auto simp: parse_field)

lemma parse_report:
  assumes "good_report r"
  shows "fold parse_session_line (report_lines r) (found, ss) = (False, reported_session r # ss)"
proof -
  obtain i props where r: "r = (i, props)" by (cases r)
  have "prefix ''Session Name: '' (field_line (SESSION_SESSION_ID, i))" by (simp add: field_line_def)
  then have "parse_session_line (field_line (SESSION_SESSION_ID, i)) (found, ss) =
      (True, (\<lambda>_. None)(SESSION_SESSION_ID := Some i) # ss)"
    using assms by (simp add: parse_session_line_def r good_report_def field_line_fields)
  moreover have "parse_session_line session_separator (True, x) = (True, x)" for x
    by (simp add: parse_session_line_def session_separator_def)
  moreover have "parse_session_line [] (True, x) = (False, x)" for x
    by (simp add: parse_session_line_def session_separator_def line_fields_def g_strsplit_def)
  ultimately show ?thesis
    using assms parse_fields by (simp add: r good_report_def report_lines_def reported_session_def)
qed

lemma parse_reports:
  assumes "list_all good_report rs"
  shows "snd (fold parse_session_line (concat (map report_lines rs)) (found, ss)) = rev (map reported_session rs) @ ss"
  using assms
proof (induction rs arbitrary: found ss)
  case (Cons r rs)
  have "fold parse_session_line (concat (map report_lines (r # rs))) (found, ss) =
      fold parse_session_line (concat (map report_lines rs)) (False, reported_session r # ss)"
    using Cons.prems by (simp add: parse_report)
  with Cons show ?case by simp
qed simp

lemma report_lines_newline: "good_report r \<Longrightarrow> \<forall>l \<in> set (report_lines r). CHR 0x0A \<notin> set l"
  using property_name_colon(3)
  by (auto simp: report_lines_def good_report_def good_value_def field_line_def session_separator_def list_all_iff
      split: prod.splits)

text \<open>
  C21: A report of at least one session is read back: every session comes out with its identifier and
  its properties, in the order of the report, with the letter of its status written out. Every
  identifier and every value of the report is not empty and has no line feed and no colon with a
  space after it, and no property repeats the session's identifier. (A report with an empty value,
  as of a session that was never suspended, is not read back: what follows the empty value is lost.)
\<close>

theorem x2go_sessions_parsed:
  assumes "list_all good_report rs" and "rs \<noteq> []"
  shows "parse_sessions_text (g_strjoinv [CHR 0x0A] (concat (map report_lines rs))) = Inr (map reported_session rs)"
proof -
  let ?lines = "concat (map report_lines rs)"
  from assms(2) obtain r rest where rs: "rs = r # rest" by (cases rs) auto
  obtain a b t where lines: "?lines = a # b # t" and "a \<noteq> []"
    by (cases r) (simp add: rs report_lines_def field_line_def)
  have "\<forall>l \<in> set ?lines. CHR 0x0A \<notin> set l"
    using assms(1) report_lines_newline by (auto simp: list_all_iff)
  then have "strsplit_from [CHR 0x0A] (g_strjoinv [CHR 0x0A] ?lines) = ?lines"
    by (rule strsplit_from_char_join) (simp add: lines)
  moreover have "g_strjoinv [CHR 0x0A] ?lines \<noteq> []" using \<open>a \<noteq> []\<close> by (simp add: lines)
  ultimately have "g_strsplit (g_strjoinv [CHR 0x0A] ?lines) [CHR 0x0A] = a # b # t"
    by (simp add: g_strsplit_def lines)
  moreover have "parse_session_lines (a # b # t) = map reported_session rs"
    using parse_reports [OF assms(1)] by (simp add: parse_session_lines_def lines [symmetric])
  moreover obtain x y where "map reported_session rs = x # y" by (simp add: rs)
  ultimately show ?thesis by (simp add: parse_sessions_text_def)
qed

theorem x2go_sessions_parsed_witness:
  "parse_sessions_text (g_strjoinv [CHR 0x0A]
     (report_lines (''u-50'', [(SESSION_COOKIE, ''c0''), (SESSION_STATUS, ''R'')]))) =
   Inr [reported_session (''u-50'', [(SESSION_COOKIE, ''c0''), (SESSION_STATUS, ''R'')])]"
proof -
  have "list_all good_report [(''u-50'', [(SESSION_COOKIE, ''c0''), (SESSION_STATUS, ''R'')])]"
    by (simp add: good_report_def good_value_def sublist_code)
  from x2go_sessions_parsed [OF this] show ?thesis by simp
qed

text \<open>
  A field whose value is empty ends its session: the line and those after it are not stored,
  and the dialog then reads uninitialised pointers.
\<close>

theorem x2go_empty_field_crashes:
  "parse_session_lines [''Session Name: s'', ''suspended since: '', ''cookie: c''] = [(\<lambda>_. None)(SESSION_SESSION_ID := Some ''s'')]"
  and "s SESSION_SUSPENDED_SINCE = None \<Longrightarrow>
    rmplugin_x2go_choose_session_dialog_factory (s # ss) c resume selected = Crash"
proof -
  have "line_fields ''Session Name: s'' = Some (''Session Name'', ''s'')"
    using line_fields_colon [of "''Session Name''" "''s''"] by (simp add: sublist_code)
  moreover have "line_fields ''suspended since: '' = None"
    using split_colon [of "''suspended since''" "[]"] by (simp add: line_fields_def)
  ultimately show "parse_session_lines [''Session Name: s'', ''suspended since: '', ''cookie: c''] =
      [(\<lambda>_. None)(SESSION_SESSION_ID := Some ''s'')]"
    by (simp add: parse_session_lines_def parse_session_line_def session_separator_def)
  show "s SESSION_SUSPENDED_SINCE = None \<Longrightarrow>
      rmplugin_x2go_choose_session_dialog_factory (s # ss) c resume selected = Crash"
    by (simp add: rmplugin_x2go_choose_session_dialog_factory_def session_complete_def session_properties_def)
qed

section \<open>The chooser\<close>

lemma visible_before: "length (filter snd (take i rows)) \<le> i"
  by (metis length_filter_le length_take min.cobounded2 order_trans)

lemma all_before_iff:
  "i \<le> length rows \<Longrightarrow> length (filter snd (take i rows)) = i \<longleftrightarrow> (\<forall>j < i. snd (rows ! j))"
proof (induction i)
  case (Suc i)
  then have "take (Suc i) rows = take i rows @ [rows ! i]" by (simp add: take_Suc_conv_app_nth)
  then show ?case using Suc visible_before [of i rows] by (auto simp: less_Suc_eq)
qed simp

lemma visible_rows_sorted: "sorted_wrt (<) (visible_rows rows)"
  by (simp add: visible_rows_def sorted_wrt_filter)

lemma visible_rows_ge: "p < length (visible_rows rows) \<Longrightarrow> p \<le> visible_rows rows ! p"
proof (induction p)
  case (Suc p)
  then have "visible_rows rows ! p < visible_rows rows ! Suc p"
    using visible_rows_sorted [of rows] by (simp add: sorted_wrt_nth_less)
  with Suc show ?case by simp
qed simp

lemma visible_rows_prefix:
  assumes "\<forall>j \<le> p. snd (rows ! j)" and "p < length rows"
  shows "visible_rows rows ! p = p"
proof -
  obtain k where "length rows = Suc p + k" using assms(2) le_Suc_ex [of "Suc p" "length rows"] by auto
  then have "[0..<length rows] = [0..<Suc p] @ [Suc p..<length rows]"
    using upt_add_eq_append [of 0 "Suc p" k] by (simp del: upt_Suc)
  moreover have "filter (\<lambda>i. snd (rows ! i)) [0..<Suc p] = [0..<Suc p]"
    using assms(1) by (intro filter_True) auto
  ultimately have "visible_rows rows = [0..<Suc p] @ filter (\<lambda>i. snd (rows ! i)) [Suc p..<length rows]"
    by (simp only: visible_rows_def filter_append)
  then show ?thesis by (simp add: nth_append del: upt_Suc)
qed

text \<open>C22: The buttons of the session chooser act on the row that is selected exactly when no row up
  to its position is hidden; so they do until a session above is terminated, and not afterwards.\<close>
theorem x2go_selected_row:
  assumes "p < length (visible_rows (ch_rows ch))"
  shows "rmplugin_x2go_session_chooser_get_selected_row ch (Some p) = Some (visible_rows (ch_rows ch) ! p) \<longleftrightarrow>
    (\<forall>j \<le> p. snd (ch_rows ch ! j))"
proof -
  let ?rows = "ch_rows ch"
  have len: "p < length ?rows"
    using assms by (metis (no_types, lifting) diff_zero length_filter_le length_upt order_less_le_trans visible_rows_def)
  have "snd (?rows ! p) \<and> length (filter snd (take p ?rows)) = visible_rows ?rows ! p \<longleftrightarrow> (\<forall>j \<le> p. snd (?rows ! j))"
  proof
    assume L: "snd (?rows ! p) \<and> length (filter snd (take p ?rows)) = visible_rows ?rows ! p"
    then have "length (filter snd (take p ?rows)) = p"
      using visible_before [of p ?rows] visible_rows_ge [OF assms] by simp
    then show "\<forall>j \<le> p. snd (?rows ! j)" using L len by (auto simp: all_before_iff le_less)
  next
    assume R: "\<forall>j \<le> p. snd (?rows ! j)"
    then show "snd (?rows ! p) \<and> length (filter snd (take p ?rows)) = visible_rows ?rows ! p"
      using len all_before_iff [of p ?rows] visible_rows_prefix [of p ?rows] by simp
  qed
  then show ?thesis
    using len by (auto simp: rmplugin_x2go_session_chooser_get_selected_row_def filter_path_of_child_def)
qed

definition sample_chooser :: chooser where
  "sample_chooser = \<lparr>ch_rows = [(\<lambda>_. None, True), (\<lambda>_. None, False), (\<lambda>_. None, True), (\<lambda>_. None, True)],
     ch_open = True, ch_buttons = True, ch_connect = None, ch_opt1 = Opt_dialog, ch_opt2 = Opt_null, ch_starting = 0,
     ch_running = [], ch_resume = None, ch_selected = False, ch_printed = []\<rparr>"

theorem x2go_selected_row_witness:
  "rmplugin_x2go_session_chooser_get_selected_row sample_chooser (Some 2) \<noteq> Some (visible_rows (ch_rows sample_chooser) ! 2)"
proof -
  have "2 < length (visible_rows (ch_rows sample_chooser))"
    by (simp add: sample_chooser_def visible_rows_def upt_rec numeral_nat)
  moreover have "\<not> snd (ch_rows sample_chooser ! 1)" by (simp add: sample_chooser_def)
  then have "\<not> (\<forall>j \<le> 2. snd (ch_rows sample_chooser ! j))" by (meson one_le_numeral)
  ultimately show ?thesis using x2go_selected_row by blast
qed

text \<open>
  With the second of four sessions terminated, the selected fourth one is not resumed, but the
  terminated one is.
\<close>

lemma x2go_resumes_terminated:
  assumes "a SESSION_SESSION_ID = Some ''a''" and "b SESSION_SESSION_ID = Some ''b''"
    and "ch_rows ch = [(a, True), (b, False), (c, True), (d, True)]" and "ch_connect ch \<noteq> None"
  shows "visible_rows (ch_rows ch) ! 2 = 3 \<and>
    ch_resume (rmplugin_x2go_session_chooser_callback SESSION_CHOOSER_RESPONSE_CHOOSE (Some 2) ch) = Some ''b''"
  using assms
  by (simp add: rmplugin_x2go_session_chooser_callback_def rmplugin_x2go_session_chooser_get_property_def
      rmplugin_x2go_session_chooser_get_selected_row_def filter_path_of_child_def visible_rows_def select_session_def
      upt_rec numeral_nat del: not_None_eq)

section \<open>A termination that fails\<close>

text \<open>The shared structure has been cleared: no handler does anything with it any more.\<close>

definition chooser_stuck :: "chooser \<Rightarrow> bool" where
  "chooser_stuck ch \<longleftrightarrow> ch_connect ch = None \<and> ch_opt1 ch = Opt_null \<and> \<not> ch_selected ch"

lemma set_row_visible_keeps:
  "ch_connect (snd (rmplugin_x2go_session_chooser_set_row_visible r v ch)) = ch_connect ch"
  "ch_opt1 (snd (rmplugin_x2go_session_chooser_set_row_visible r v ch)) = ch_opt1 ch"
  "ch_selected (snd (rmplugin_x2go_session_chooser_set_row_visible r v ch)) = ch_selected ch"
  by (simp_all add: rmplugin_x2go_session_chooser_set_row_visible_def Let_def)

lemma failed_termination_stuck:
  assumes "terminate_session_end k r ch = Ret ch'" and "pyhoca_outcome r = Inl e" and "k < length (ch_running ch)"
    and "\<not> ch_selected ch"
  shows "chooser_stuck ch'"
  using assms
  by (auto simp: terminate_session_end_def chooser_stuck_def set_row_visible_keeps Let_def split: prod.splits if_splits)

lemma terminate_end_stuck: "chooser_stuck ch \<Longrightarrow> terminate_session_end k r ch = Ret ch' \<Longrightarrow> chooser_stuck ch'"
  by (auto simp: terminate_session_end_def chooser_stuck_def set_row_visible_keeps Let_def
      split: prod.splits if_splits sum.splits)

lemma stuck_step:
  assumes "chooser_stuck ch" and "chooser_step user features ev ch = Ret ch'"
  shows "chooser_stuck ch'"
proof (cases "\<exists>k r. ev = Ev_thread_end k r")
  case True
  with assms show ?thesis by (auto simp: chooser_step_def intro: terminate_end_stuck)
next
  case False
  with assms show ?thesis
    by (cases ev)
      (auto simp: chooser_step_def chooser_stuck_def rmplugin_x2go_session_chooser_callback_def
        rmplugin_x2go_session_chooser_row_activated_def terminate_session_begin_def Let_def split: if_splits)
qed

lemma stuck_run: "chooser_stuck ch \<Longrightarrow> chooser_run user features evs ch = Ret ch' \<Longrightarrow> chooser_stuck ch'"
proof (induction evs arbitrary: ch)
  case (Cons ev evs)
  then have "\<not> ch_selected ch" by (simp add: chooser_stuck_def)
  with Cons.prems(2) obtain ch1 where "chooser_step user features ev ch = Ret ch1" "chooser_run user features evs ch1 = Ret ch'"
    by (auto simp: c_bind_Ret_iff)
  with Cons stuck_step show ?case by blast
qed simp

text \<open>C23: After a termination that fails, nothing the user does in the session chooser selects a
  session: the thread of the connection keeps waiting, whatever happens and in any order.\<close>
theorem x2go_failed_termination_hangs:
  assumes "terminate_session_end k r ch = Ret ch'" and "pyhoca_outcome r = Inl e" and "k < length (ch_running ch)"
    and "\<not> ch_selected ch" and "chooser_run user features events ch' = Ret ch''"
  shows "after_chooser s ch'' = Run_waiting"
proof -
  have "chooser_stuck ch'" using assms(1-4) by (rule failed_termination_stuck)
  then have "chooser_stuck ch''" using assms(5) by (rule stuck_run)
  then show ?thesis by (simp add: after_chooser_def chooser_stuck_def)
qed

definition sample_x2go :: "unit x2go" where
  "sample_x2go = \<lparr>xg_data = None, xg_file = remmina_file_new_empty, xg_panel = widget_data_new, xg_resume = None,
     xg_selected = False, xg_error = None, xg_closed = False, xg_printed = [], xg_windows = [], xg_killed = [],
     xg_embedded = [], xg_world = ()\<rparr>"

theorem x2go_failed_termination_hangs_witness:
  "\<exists>ch' ch'' :: chooser.
     terminate_session_end 0 (Spawn_error ''no'') (sample_chooser\<lparr>ch_running := [(1, ''b'', [''pyhoca-cli''])]\<rparr>) = Ret ch' \<and>
     chooser_run ''u'' [] [Ev_new None, Ev_row_activated 0] ch' = Ret ch'' \<and> after_chooser sample_x2go ch'' = Run_waiting"
proof -
  let ?ch = "sample_chooser\<lparr>ch_running := [(1, ''b'', [''pyhoca-cli''])]\<rparr>"
  obtain ch' where 1: "terminate_session_end 0 (Spawn_error ''no'') ?ch = Ret ch'" "ch_connect ch' = None" "ch_opt1 ch' = Opt_null"
    by (simp add: terminate_session_end_def pyhoca_outcome_def sample_chooser_def set_row_visible_keeps Let_def)
  then obtain ch'' where 2: "chooser_run ''u'' [] [Ev_new None, Ev_row_activated 0] ch' = Ret ch''"
    by (auto simp: chooser_step_def rmplugin_x2go_session_chooser_callback_def rmplugin_x2go_session_chooser_row_activated_def)
  have "pyhoca_outcome (Spawn_error ''no'') = Inl ''no''" by (simp add: pyhoca_outcome_def)
  from x2go_failed_termination_hangs [OF 1(1) this _ _ 2, of sample_x2go] 1 2 show ?thesis by (auto simp: sample_chooser_def)
qed

section \<open>Windows\<close>

lemma remove_window_set:
  assumes "distinct ids"
  shows "distinct (rmplugin_x2go_remove_window_id w ids) \<and> set (rmplugin_x2go_remove_window_id w ids) = set ids - {w}"
proof (cases "first_index (\<lambda>v. v = w) ids")
  case None
  then have "w \<notin> set ids" by (auto simp: first_index_None_iff)
  with None assms show ?thesis by (simp add: rmplugin_x2go_remove_window_id_def)
next
  case (Some i)
  then have i: "i < length ids" "ids ! i = w" by (auto dest: first_index_SomeD)
  define pre post where "pre = take i ids" and "post = drop (Suc i) ids"
  have ids: "ids = pre @ w # post" using id_take_nth_drop [OF i(1)] i(2) by (simp add: pre_def post_def)
  have len: "i = length pre" using i(1) by (simp add: pre_def)
  have "g_ptr_array_remove_index_fast ids i = butlast ((pre @ w # post)[length pre := last (pre @ w # post)])"
    using i(1) unfolding g_ptr_array_remove_index_fast_def ids len by simp
  then have "g_ptr_array_remove_index_fast ids i = pre @ (if post = [] then [] else last post # butlast post)"
    by (cases "post = []") (simp_all add: butlast_append)
  moreover have "post \<noteq> [] \<Longrightarrow> set (last post # butlast post) = set post \<and> distinct (last post # butlast post) = distinct post"
    by (cases post rule: rev_cases) auto
  ultimately show ?thesis
    using Some assms ids by (auto simp: rmplugin_x2go_remove_window_id_def)
qed

lemma try_window: "rmplugin_x2go_try_window_id w ids = (b, ids') \<Longrightarrow> b = (w \<notin> set ids) \<and> ids' = (if b then ids @ [w] else ids)"
  by (auto simp: rmplugin_x2go_try_window_id_def split: if_splits)

text \<open>A window that is found was not in the array before, and is its last element afterwards.\<close>

lemma window_loop_result:
  "window_loop cmd inner n events ids = Run_done (r, ids') \<Longrightarrow>
   (case r of None \<Rightarrow> ids' = ids | Some w \<Rightarrow> w \<notin> set ids \<and> ids' = ids @ [w])"
proof (induction events arbitrary: inner n)
  case Nil
  then show ?case by (auto simp: window_loop.simps [of cmd inner n "[]"] split: if_splits)
next
  case (Cons ev events)
  show ?case
    using Cons.prems Cons.IH
    by (auto simp: window_loop.simps [of cmd inner n "ev # events"] rmplugin_x2go_try_window_id_def
        split: if_splits x_event.splits option.splits)
qed

text \<open>
  The sessions of the program, numbered, and the array they share. A session is initialised,
  starts its helper, handles the events of the X server one at a time until it has found its
  window, and is cleaned up at any time.
\<close>

inductive x2go_step :: "'w x2go_lib \<Rightarrow> int list \<times> (nat \<Rightarrow> 'w x2go) \<Rightarrow> int list \<times> (nat \<Rightarrow> 'w x2go) \<Rightarrow> bool"
  for lib where
  init: "xg_data (f i) = None \<Longrightarrow> s' = rmplugin_x2go_init lib ((f i)\<lparr>xg_windows := ids\<rparr>) \<Longrightarrow>
    x2go_step lib (ids, f) (xg_windows s', f(i := s'))"
| launch: "rmplugin_x2go_exec_x2go lib c sshport xo ((f i)\<lparr>xg_windows := ids\<rparr>) = Run_done (e, s') \<Longrightarrow>
    x2go_step lib (ids, f) (xg_windows s', f(i := s'))"
| event: "xg_data (f i) = Some d \<Longrightarrow> xd_window_id d = 0 \<Longrightarrow> xd_pid d > 0 \<Longrightarrow>
    window_loop cmd inner n [ev] ids = Run_done r \<Longrightarrow> window_found r (f i) = Run_done (e, s') \<Longrightarrow>
    x2go_step lib (ids, f) (xg_windows s', f(i := s'))"
| cleanup: "s' = rmplugin_x2go_cleanup ((f i)\<lparr>xg_windows := ids\<rparr>) \<Longrightarrow>
    x2go_step lib (ids, f) (xg_windows s', f(i := s'))"

definition session_window :: "'w x2go \<Rightarrow> int option" where
  "session_window s =
     (case xg_data s of None \<Rightarrow> None | Some d \<Rightarrow> if xd_window_id d = 0 then None else Some (xd_window_id d))"

definition windows_inv :: "int list \<times> (nat \<Rightarrow> 'w x2go) \<Rightarrow> bool" where
  "windows_inv = (\<lambda>(ids, f). distinct ids \<and> (\<forall>i w. session_window (f i) = Some w \<longrightarrow> w \<in> set ids) \<and>
     (\<forall>i j w. session_window (f i) = Some w \<longrightarrow> session_window (f j) = Some w \<longrightarrow> i = j))"

lemma windows_inv_update:
  assumes "windows_inv (ids, f)" and "distinct ids'"
    and "\<And>w. session_window s' = Some w \<Longrightarrow> w \<in> set ids' \<and> w \<notin> set ids"
    and "\<And>j w. j \<noteq> i \<Longrightarrow> session_window (f j) = Some w \<Longrightarrow> w \<in> set ids'"
  shows "windows_inv (ids', f(i := s'))"
proof -
  have inv: "session_window (f j) = Some w \<Longrightarrow> w \<in> set ids"
      "session_window (f j) = Some w \<Longrightarrow> session_window (f k) = Some w \<Longrightarrow> j = k" for j k w
    using assms(1) by (auto simp: windows_inv_def)
  have "w \<in> set ids'" if "session_window ((f(i := s')) j) = Some w" for j w
    using that assms(3, 4) by (cases "j = i") auto
  moreover have "j = k" if "session_window ((f(i := s')) j) = Some w" "session_window ((f(i := s')) k) = Some w" for j k w
  proof (rule ccontr)
    assume ne: "j \<noteq> k"
    then consider "j = i" "k \<noteq> i" | "k = i" "j \<noteq> i" | "j \<noteq> i" "k \<noteq> i" by blast
    then show False
    proof cases
      case 1
      then show False using that assms(3) inv(1) by (metis fun_upd_apply)
    next
      case 2
      then show False using that assms(3) inv(1) by (metis fun_upd_apply)
    next
      case 3
      then show False using that inv(2) ne by (metis fun_upd_apply)
    qed
  qed
  ultimately show ?thesis using assms(2) unfolding windows_inv_def prod.case by blast
qed

lemma init_windows:
  "xg_windows (rmplugin_x2go_init lib s) = xg_windows s" "session_window (rmplugin_x2go_init lib s) = None"
  by (simp_all add: rmplugin_x2go_init_def rmplugin_x2go_populate_available_features_list_def
      rmplugin_x2go_spawn_pyhoca_process_def session_window_def update_data_def x2go_data_new_def Let_def split: prod.splits)

lemma found_windows:
  assumes "window_loop cmd inner n events ids = Run_done r" and "window_found r s = Run_done (e, s')" and "session_window s = None"
  shows "(session_window s' = None \<and> xg_windows s' = ids) \<or>
    (\<exists>w. (session_window s' = Some w \<or> session_window s' = None) \<and> w \<notin> set ids \<and> xg_windows s' = ids @ [w])"
proof -
  obtain v ids' where r: "r = (v, ids')" by (cases r)
  with window_loop_result [of cmd inner n events ids v ids'] assms show ?thesis
    by (cases v) (auto simp: window_found_def session_window_def update_data_def Let_def split: option.splits if_splits)
qed

text \<open>Starting the helper touches neither the array nor the window of the session.\<close>

definition same_windows :: "'w x2go \<Rightarrow> 'w x2go \<Rightarrow> bool" where
  "same_windows s s' \<longleftrightarrow> xg_windows s' = xg_windows s \<and> session_window s' = session_window s"

lemma same_windows_trans [trans]: "same_windows s s' \<Longrightarrow> same_windows s' s'' \<Longrightarrow> same_windows s s''"
  by (simp add: same_windows_def)

lemma same_windows_refl [simp]: "same_windows s s"
  by (simp add: same_windows_def)

lemma same_windows_updates [simp]:
  "same_windows s (s'\<lparr>xg_panel := wd\<rparr>) = same_windows s s'" "same_windows s (s'\<lparr>xg_world := w\<rparr>) = same_windows s s'"
  "same_windows s (s'\<lparr>xg_file := rf\<rparr>) = same_windows s s'" "same_windows s (s'\<lparr>xg_printed := t\<rparr>) = same_windows s s'"
  "same_windows s (s'\<lparr>xg_resume := r\<rparr>) = same_windows s s'" "same_windows s (s'\<lparr>xg_selected := b\<rparr>) = same_windows s s'"
  "same_windows s (update_data (\<lambda>d. d\<lparr>xd_pid := pid\<rparr>) s') = same_windows s s'"
  by (auto simp: same_windows_def session_window_def update_data_def split: option.splits)

lemma panel_windows: "x2go_panel p s = (a, s') \<Longrightarrow> same_windows s s'"
  by (auto simp: x2go_panel_def split: prod.splits)

lemma login_windows: "x2go_login lib u p s = (r, s') \<Longrightarrow> same_windows s s'"
  by (auto simp: x2go_login_def rmplugin_x2go_get_auth_def auth_entered_def Let_def
      split: prod.splits if_splits sum.splits dest!: panel_windows)

lemma passphrase_windows: "x2go_passphrase lib k s = (r, s') \<Longrightarrow> same_windows s s'"
  by (auto simp: x2go_passphrase_def rmplugin_x2go_get_ssh_passphrase_def Let_def
      split: prod.splits if_splits option.splits dest!: panel_windows)

lemma spawn_windows: "rmplugin_x2go_spawn_pyhoca_process lib argv env s = (r, s') \<Longrightarrow> same_windows s s'"
  by (auto simp: rmplugin_x2go_spawn_pyhoca_process_def Let_def split: prod.splits if_splits)

lemma parse_windows: "rmplugin_x2go_parse_pyhoca_sessions lib c s = Run_done (r, s') \<Longrightarrow> same_windows s s'"
  by (auto simp: rmplugin_x2go_parse_pyhoca_sessions_def rmplugin_x2go_get_pyhoca_sessions_def
      split: prod.splits if_splits sum.splits option.splits dest: spawn_windows)

lemma run_bind_done: "run_bind r f = Run_done y \<longleftrightarrow> (\<exists>x. r = Run_done x \<and> f x = Run_done y)"
  by (cases r) auto

lemma after_chooser_windows: "after_chooser s ch = Run_done (r, s') \<Longrightarrow> same_windows s s'"
  by (auto simp: after_chooser_def Let_def split: if_splits option.splits)

lemma ask_windows:
  assumes "rmplugin_x2go_ask_session lib c s = Run_done (r, s')"
  shows "same_windows s s'"
proof (cases "is_empty (xc_host c) \<or> is_empty (xc_username c) \<or> xc_password c = None")
  case True
  with assms show ?thesis by (auto simp: rmplugin_x2go_ask_session_def)
next
  case False
  with assms obtain q s1 where 1: "rmplugin_x2go_parse_pyhoca_sessions lib c s = Run_done (q, s1)"
    by (cases "rmplugin_x2go_parse_pyhoca_sessions lib c s") (auto simp: rmplugin_x2go_ask_session_def)
  note first = parse_windows [OF 1]
  show ?thesis
  proof (cases q)
    case (Inl e)
    with assms False 1 first show ?thesis by (simp add: rmplugin_x2go_ask_session_def)
  next
    case (Inr sessions)
    obtain events w where "xl_choose lib sessions (xg_world s1) = (events, w)" by force
    with assms False 1 Inr obtain ch where "after_chooser (s1\<lparr>xg_world := w\<rparr>) ch = Run_done (r, s')"
      by (auto simp: rmplugin_x2go_ask_session_def Let_def split: c_result.splits)
    then have "same_windows (s1\<lparr>xg_world := w\<rparr>) s'" by (rule after_chooser_windows)
    with first show ?thesis by (simp add: same_windows_def session_window_def)
  qed
qed

lemma launch_windows: "launch_session lib argv s = Run_done (r, s') \<Longrightarrow> same_windows s s'"
  by (auto simp: launch_session_def Let_def split: prod.splits if_splits sum.splits)

lemma chosen_windows:
  assumes "start_chosen_session lib c sshport xo s = Run_done (r, s')"
  shows "same_windows s s'"
proof -
  from assms obtain q s1 where 1: "rmplugin_x2go_ask_session lib c s = Run_done (q, s1)"
    by (cases "rmplugin_x2go_ask_session lib c s") (auto simp: start_chosen_session_def)
  with assms have "s' = s1 \<or> (\<exists>argv. launch_session lib argv s1 = Run_done (r, s'))"
    by (auto simp: start_chosen_session_def split: sum.splits)
  with ask_windows [OF 1] launch_windows show ?thesis by (blast intro: same_windows_trans)
qed

lemma exec_windows:
  assumes "rmplugin_x2go_exec_x2go lib c sshport xo s = Run_done (e, s')"
  shows "same_windows s s'"
proof -
  obtain r s1 where 1: "x2go_login lib (xc_username c) (xc_password c) s = (r, s1)" by force
  obtain q s2 where 2: "x2go_passphrase lib (xc_privatekey c) s1 = (q, s2)" by force
  show ?thesis
    using assms login_windows [OF 1] passphrase_windows [OF 2]
    by (auto simp: rmplugin_x2go_exec_x2go_def 1 2 split: sum.splits prod.splits
        dest!: chosen_windows intro: same_windows_trans)
qed

lemma cleanup_windows:
  assumes "distinct (xg_windows s)"
  shows "session_window (rmplugin_x2go_cleanup s) = None" and "distinct (xg_windows (rmplugin_x2go_cleanup s))"
    and "set (xg_windows (rmplugin_x2go_cleanup s)) = set (xg_windows s) - set_option (session_window s)"
  using assms remove_window_set [of "xg_windows s"]
  by (auto simp: rmplugin_x2go_cleanup_def session_window_def split: option.splits)

lemma session_window_shared [simp]: "session_window (s\<lparr>xg_windows := ids\<rparr>) = session_window s"
  by (simp add: session_window_def)

lemma windows_inv_step:
  assumes "x2go_step lib p q" and "windows_inv p"
  shows "windows_inv q"
  using assms
proof (cases rule: x2go_step.cases)
  case (init f i s' ids)
  then have inv: "windows_inv (ids, f)" using assms(2) by simp
  show ?thesis unfolding init(2)
    by (rule windows_inv_update [OF inv]) (use inv init(4) in \<open>auto simp: init_windows windows_inv_def\<close>)
next
  case (launch c sshport xo ids f i e s')
  from exec_windows [OF launch(3)] have same: "xg_windows s' = ids" "session_window s' = session_window (f i)"
    by (simp_all add: same_windows_def)
  have "windows_inv (ids, f)" using assms(2) launch(1) by simp
  then have "windows_inv (ids, f(i := s'))" using same(2) by (auto simp: windows_inv_def split: if_splits)
  then show ?thesis unfolding launch(2) same(1) .
next
  case (event f i d cmd inner n ev ids r e s')
  have none: "session_window (f i) = None" using event by (simp add: session_window_def)
  have inv: "windows_inv (ids, f)" using assms(2) event(1) by simp
  then have "distinct ids" by (simp add: windows_inv_def)
  note m = found_windows [OF event(6, 7) none]
  show ?thesis unfolding event(2)
  proof (rule windows_inv_update [OF inv])
    show "distinct (xg_windows s')" using m \<open>distinct ids\<close> by auto
    show "w \<in> set (xg_windows s') \<and> w \<notin> set ids" if "session_window s' = Some w" for w using m that by auto
    show "w \<in> set (xg_windows s')" if "j \<noteq> i" "session_window (f j) = Some w" for j w
      using m that inv by (auto simp: windows_inv_def)
  qed
next
  case (cleanup s' ids f i)
  have d: "distinct (xg_windows ((f i)\<lparr>xg_windows := ids\<rparr>))" using assms(2) cleanup by (simp add: windows_inv_def)
  note c = cleanup_windows [OF d, folded cleanup(3)]
  have "w \<in> set (xg_windows s')" if "j \<noteq> i" "session_window (f j) = Some w" for j w
    using that assms(2) c(3) cleanup(1) by (cases "session_window (f i)") (auto simp: windows_inv_def)
  with assms(2) c show ?thesis
    unfolding cleanup(1, 2) by (intro windows_inv_update) auto
qed

text \<open>C24: However many X2Go sessions are started and ended, and in whatever order, no two of them
  show the same window, and the window of every one of them is in the shared array.\<close>
theorem x2go_windows_unique:
  assumes "(x2go_step lib)\<^sup>*\<^sup>* ([], f0) (ids, f)" and "\<forall>i. xg_data (f0 i) = None"
    and "session_window (f i) = Some w"
  shows "w \<in> set ids \<and> (\<forall>j. session_window (f j) = Some w \<longrightarrow> j = i)"
proof -
  have "windows_inv ([], f0)" using assms(2) by (simp add: windows_inv_def session_window_def)
  with assms(1) have "windows_inv (ids, f)"
    by (induction rule: rtranclp_induct) (auto intro: windows_inv_step)
  with assms(3) show ?thesis by (auto simp: windows_inv_def)
qed

text \<open>A system of one session whose helper opens a window at once.\<close>

definition sample_lib :: "unit x2go_lib" where
  "sample_lib = \<lparr>xl_user = (\<lambda>_ w. (\<lparr>pc_response = Response_cancel, pc_username = None, pc_password = None, pc_domain = None,
       pc_save = False, pc_cacert = None, pc_cacrl = None, pc_clientcert = None, pc_clientkey = None\<rparr>, w)),
     xl_choose = (\<lambda>_ w. ([], w)), xl_spawn_sync = (\<lambda>_ _ w. (Spawn_error ''none'', w)),
     xl_spawn_async = (\<lambda>_ _ w. (Inr 7, w)), xl_environ = [], xl_user_name = ''me'', xl_open_display = True,
     xl_wm_command = True, xl_xevents = (\<lambda>_. []), xl_gtksocket = False, xl_thread_starts = True\<rparr>"

definition sample_connection :: x2go_connection where
  "sample_connection = \<lparr>xc_host = Some ''h'', xc_username = Some ''u'', xc_password = None, xc_privatekey = None, xc_passphrase = None\<rparr>"

lemma sample_launch:
  "\<exists>s'. rmplugin_x2go_exec_x2go sample_lib sample_connection 22 (x2go_file_options remmina_file_new_empty 800 600)
     (sample_x2go\<lparr>xg_data := Some x2go_data_new\<rparr>) = Run_done (None, s') \<and> xg_data s' = Some (x2go_data_new\<lparr>xd_pid := 7\<rparr>) \<and>
     xg_windows s' = []"
  by (simp add: rmplugin_x2go_exec_x2go_def x2go_login_def x2go_passphrase_def start_chosen_session_def
      rmplugin_x2go_ask_session_def rmplugin_x2go_parse_pyhoca_sessions_def rmplugin_x2go_get_pyhoca_sessions_def
      rmplugin_x2go_verify_connection_data_def list_sessions_argv_def session_argv_def launch_session_def
      x2go_features_def sample_lib_def sample_x2go_def sample_connection_def x2go_data_new_def update_data_def or_empty_def
      rmplugin_x2go_spawn_pyhoca_process_def)

theorem x2go_windows_unique_witness:
  "\<exists>ids f. (x2go_step sample_lib)\<^sup>*\<^sup>* ([], \<lambda>_. sample_x2go) (ids, f) \<and> session_window (f 0) = Some 42 \<and>
     42 \<in> set ids \<and> (\<forall>j. session_window (f j) = Some 42 \<longrightarrow> j = 0)"
proof -
  let ?f0 = "\<lambda>_ :: nat. sample_x2go"
  let ?s1 = "sample_x2go\<lparr>xg_data := Some x2go_data_new\<rparr>"
  have none: "xg_data (?f0 0) = None" and w: "xg_windows sample_x2go = []" by (simp_all add: sample_x2go_def)
  have init: "?s1 = rmplugin_x2go_init sample_lib ((?f0 0)\<lparr>xg_windows := []\<rparr>)"
    by (simp add: rmplugin_x2go_init_def sample_lib_def sample_x2go_def)
  have 1: "x2go_step sample_lib ([], ?f0) ([], ?f0(0 := ?s1))"
    using x2go_step.init [of ?f0 0, OF none init] w by simp
  obtain s2 where exec: "rmplugin_x2go_exec_x2go sample_lib sample_connection 22 (x2go_file_options remmina_file_new_empty 800 600)
      ?s1 = Run_done (None, s2)" and s2: "xg_data s2 = Some (x2go_data_new\<lparr>xd_pid := 7\<rparr>)" "xg_windows s2 = []"
    using sample_launch by blast
  have "?s1\<lparr>xg_windows := []\<rparr> = ?s1" by (simp add: sample_x2go_def)
  then have "rmplugin_x2go_exec_x2go sample_lib sample_connection 22 (x2go_file_options remmina_file_new_empty 800 600)
      (((?f0(0 := ?s1)) 0)\<lparr>xg_windows := []\<rparr>) = Run_done (None, s2)" using exec by simp
  from x2go_step.launch [where f = "?f0(0 := ?s1)" and i = 0, OF this] have 2: "x2go_step sample_lib ([], ?f0(0 := ?s1)) ([], ?f0(0 := s2))"
    using s2(2) by simp
  have loop: "window_loop ''x2goagent'' False 100 [Xev_create 42 (Some (Some ''x2goagent''))] [] = Run_done (Some 42, [42])"
    by code_simp
  obtain s3 where s3: "window_found (Some 42, [42]) s2 = Run_done (None, s3)" "session_window s3 = Some 42" "xg_windows s3 = [42]"
    using s2 by (simp add: window_found_def update_data_def session_window_def x2go_data_new_def Let_def)
  have 3: "x2go_step sample_lib ([], ?f0(0 := s2)) ([42], ?f0(0 := s3))"
    using x2go_step.event [of "?f0(0 := s2)" 0, OF _ _ _ loop, of _ None s3 sample_lib] s2 s3
    by (simp add: x2go_data_new_def)
  have reach: "(x2go_step sample_lib)\<^sup>*\<^sup>* ([], ?f0) ([42], ?f0(0 := s3))"
    using 1 2 3 by (meson converse_rtranclp_into_rtranclp rtranclp.rtrancl_refl)
  moreover have "session_window ((?f0(0 := s3)) 0) = Some 42" using s3 by simp
  moreover have "\<forall>i. xg_data (?f0 i) = None" by (simp add: sample_x2go_def)
  ultimately show ?thesis using x2go_windows_unique by blast
qed

text \<open>
  The wait for the window has a limit of twenty seconds, which is not looked at while the X
  server is quiet.
\<close>

theorem x2go_window_no_timeout: "window_loop cmd inner 100 (replicate k Xev_quiet) ids = Run_waiting"
proof -
  have "window_loop cmd inner n (replicate k Xev_quiet) ids = Run_waiting" if "inner \<or> 0 < n" for inner n
    using that
  proof (induction k arbitrary: inner n)
    case 0
    then show ?case by (simp add: window_loop.simps [of cmd inner n "[]"])
  next
    case (Suc k)
    then show ?case by (simp add: window_loop.simps [of cmd inner n "Xev_quiet # replicate k Xev_quiet"])
  qed
  then show ?thesis by simp
qed

text \<open>
  A session that was started has a helper, a window of its own that is embedded, and a cleanup
  that ends the one and gives back the other.
\<close>

lemma monitor_success:
  assumes "rmplugin_x2go_monitor_create_notify lib cmd s = Run_done (None, s')"
  shows "\<exists>d. xg_data s' = Some d \<and> xd_pid d > 0 \<and> xd_window_id d \<in> set (xg_windows s')"
proof -
  from assms obtain d where wm: "xl_wm_command lib" and d: "xg_data s = Some d" "xd_pid d > 0"
    by (auto simp: rmplugin_x2go_monitor_create_notify_def split: if_splits option.splits)
  with assms obtain v ids' where loop: "window_loop cmd False 100 (xl_xevents lib (xg_world s)) (xg_windows s) = Run_done (v, ids')"
    and s': "window_found (v, ids') s = Run_done (None, s')"
    by (auto simp: rmplugin_x2go_monitor_create_notify_def run_bind_done)
  then obtain w where "v = Some w" by (cases v) (auto simp: window_found_def Let_def)
  with window_loop_result [OF loop] s' d show ?thesis by (auto simp: window_found_def update_data_def Let_def)
qed

theorem x2go_started_session:
  assumes "rmplugin_x2go_main lib parse port_in dims s = Run_done (True, s')"
  shows "\<exists>d. xg_data s' = Some d \<and> xd_window_id d \<in> set (xg_windows s') \<and> last (xg_embedded s') = xd_window_id d \<and>
    xd_pid d \<in> set (xg_killed (rmplugin_x2go_cleanup s')) \<and> xg_closed (rmplugin_x2go_cleanup s')"
proof -
  from assms obtain s0 where start: "rmplugin_x2go_start_session lib parse port_in dims s = Run_done (True, s0)"
    and s': "s' = update_data (\<lambda>d. d\<lparr>xd_thread := False\<rparr>) s0"
    by (auto simp: rmplugin_x2go_main_def run_bind_done)
  from start obtain c sshport xo s2 where "x2go_start_steps lib c sshport xo s = Run_done (None, s2)" and s0: "s0 = embed_window s2"
    by (auto simp: rmplugin_x2go_start_session_def run_bind_done Let_def split: option.splits prod.splits)
  then obtain s1 where "rmplugin_x2go_monitor_create_notify lib ''x2goagent'' s1 = Run_done (None, s2)"
    by (auto simp: x2go_start_steps_def run_bind_done split: prod.splits option.splits)
  from monitor_success [OF this] show ?thesis
    unfolding s' s0 by (auto simp: update_data_def embed_window_def rmplugin_x2go_cleanup_def)
qed

end
