(* ===== verification/RdpConfig.thy ===== *)
theory RdpConfig
  imports RdpEvent FileData Public GLib
begin

text \<open>
  The settings of an RDP session: how \<open>remmina_rdp_main\<close> (\<open>plugins/rdp/rdp_plugin.c\<close>) turns
  a profile into the settings of FreeRDP, group by group and in its order. A setting is known
  by the name of its FreeRDP key; the channels and devices that are added are lists of what is
  passed to FreeRDP. The build is the one with FreeRDP 3.11 or later, CUPS, X11 and H.264.
\<close>

section \<open>The settings\<close>

datatype rdp_channel = Static_channel "string list" | Dynamic_channel "string list" | Device_channel "string list"
  | Static_addin string string

datatype rdp_device =
    Smartcard_device cstr
  | Serial_device cstr cstr cstr bool
  | Parallel_device cstr cstr
  | Printer_device string string

record rdp_config =
  rg_bool :: "string \<Rightarrow> bool"
  rg_uint :: "string \<Rightarrow> guint"
  rg_string :: "string \<Rightarrow> cstr"
  rg_channels :: "rdp_channel list"
  rg_devices :: "rdp_device list"
  rg_monitors :: rdp_settings
  rg_monitor_ids :: "guint list"

definition set_bool :: "string \<Rightarrow> bool \<Rightarrow> rdp_config \<Rightarrow> rdp_config" where
  "set_bool k v c = c\<lparr>rg_bool := (rg_bool c)(k := v)\<rparr>"

definition set_uint :: "string \<Rightarrow> guint \<Rightarrow> rdp_config \<Rightarrow> rdp_config" where
  "set_uint k v c = c\<lparr>rg_uint := (rg_uint c)(k := v)\<rparr>"

definition set_str :: "string \<Rightarrow> cstr \<Rightarrow> rdp_config \<Rightarrow> rdp_config" where
  "set_str k v c = c\<lparr>rg_string := (rg_string c)(k := v)\<rparr>"

definition add_channel :: "rdp_channel \<Rightarrow> rdp_config \<Rightarrow> rdp_config" where
  "add_channel ch c = c\<lparr>rg_channels := rg_channels c @ [ch]\<rparr>"

definition add_device :: "rdp_device \<Rightarrow> rdp_config \<Rightarrow> rdp_config" where
  "add_device d c = c\<lparr>rg_devices := rg_devices c @ [d]\<rparr>"

definition set_bools :: "(string \<times> bool) list \<Rightarrow> rdp_config \<Rightarrow> rdp_config" where
  "set_bools kvs c = fold (\<lambda>(k, v). set_bool k v) kvs c"

text \<open>What the groups read besides the profile.\<close>

record rdp_setup =
  ru_h264 :: bool
  ru_pref :: "string \<Rightarrow> cstr"
  ru_parse :: "string \<Rightarrow> gint \<Rightarrow> (string \<times> gint) option"
  ru_hostname :: string
  ru_keyboard_layout :: guint
  ru_keymap_table :: "cstr \<Rightarrow> guint list option"
  ru_scancode :: "guint \<Rightarrow> guint"
  ru_orientation :: "gint \<times> gint \<times> gint"
  ru_performance :: "guint \<Rightarrow> string \<Rightarrow> bool"
  ru_width :: gint
  ru_height :: gint
  ru_printers :: "string list"
  ru_gdk_monitors :: "gdk_monitor option list"
  ru_set_monitors :: "rdp_monitor list \<Rightarrow> rdp_monitor list"
  ru_monitor_buffer :: string

abbreviation get_str :: "rfile \<Rightarrow> string \<Rightarrow> cstr" where
  "get_str \<equiv> remmina_file_get_string"

definition get_flag :: "rfile \<Rightarrow> string \<Rightarrow> bool" where
  "get_flag rf k \<longleftrightarrow> remmina_file_get_int rf k 0 \<noteq> 0"

section \<open>Lists of arguments\<close>

text \<open>The name, if there is one, and the fields between the commas.\<close>

definition remmina_rdp_CommandLineParseCommaSeparatedValuesEx :: "cstr \<Rightarrow> cstr \<Rightarrow> string list" where
  "remmina_rdp_CommandLineParseCommaSeparatedValuesEx name list =
     (case name of None \<Rightarrow> [] | Some n \<Rightarrow> [n]) @ (case list of None \<Rightarrow> [] | Some l \<Rightarrow> strsplit_from '','' l)"

definition remmina_rdp_CommandLineParseCommaSeparatedValues :: "cstr \<Rightarrow> string list" where
  "remmina_rdp_CommandLineParseCommaSeparatedValues list = remmina_rdp_CommandLineParseCommaSeparatedValuesEx None list"

text \<open>\<open>strtoul\<close> with base 16 and with base 0, stored in 32 bits; \<open>None\<close> of the scans is 0.\<close>

definition octal_digit :: "char \<Rightarrow> bool" where
  "octal_digit c \<longleftrightarrow> c \<in> set ''01234567''"

fun octal_val :: "nat \<Rightarrow> string \<Rightarrow> nat" where
  "octal_val a [] = a"
| "octal_val a (c # s) = octal_val (8 * a + digit_val c) s"

definition strtoul16 :: "string \<Rightarrow> guint" where
  "strtoul16 s = (case sscanf_x s of None \<Rightarrow> 0 | Some v \<Rightarrow> v)"

definition strtoul0 :: "string \<Rightarrow> guint" where
  "strtoul0 s =
     (let (neg, t) = scan_sign (dropWhile isspace s) in
      if prefix ''0x'' t \<or> prefix ''0X'' t then strtoul16 s
      else let v = (if prefix ''0'' t then octal_val 0 (takeWhile octal_digit t) else digits_val 0 (takeWhile isdigit t));
               v = min v (2 ^ 64 - 1)
           in word_of_int (if neg then - int v else int v))"

section \<open>Colour depth and size\<close>

text \<open>The codecs of a colour depth; the numbers 63 to 66 and 99 are modes of the graphics pipeline.\<close>

definition rdp_depth_codecs :: "bool \<Rightarrow> guint \<Rightarrow> (string \<times> bool) list option" where
  "rdp_depth_codecs h264 depth =
     (if depth = 0 then Some [(''RemoteFxCodec'', True), (''SupportGraphicsPipeline'', False)]
      else if depth = 63 then Some [(''SupportGraphicsPipeline'', True), (''GfxH264'', False), (''GfxAVC444'', False)]
      else if depth = 64 then
        Some [(''RemoteFxCodec'', True), (''SupportGraphicsPipeline'', True), (''GfxH264'', False), (''GfxAVC444'', False)]
      else if depth = 65 then Some [(''SupportGraphicsPipeline'', True), (''GfxH264'', h264), (''GfxAVC444'', False)]
      else if depth = 66 then Some [(''SupportGraphicsPipeline'', True), (''GfxH264'', h264), (''GfxAVC444'', h264)]
      else if depth = 99 then
        Some [(''RemoteFxCodec'', True), (''SupportGraphicsPipeline'', True), (''GfxH264'', h264), (''GfxAVC444'', h264)]
      else None)"

definition rdp_set_depth :: "rdp_setup \<Rightarrow> rfile \<Rightarrow> rdp_config \<Rightarrow> rdp_config" where
  "rdp_set_depth ru rf c =
     (let depth = remmina_file_get_int rf ''colordepth'' 99;
          depth = (if \<not> ru_h264 ru \<and> (depth = 65 \<or> depth = 66) then 64 else depth);
          c = set_bool ''SoftwareGdi'' True (set_uint ''ColorDepth'' depth c)
      in case rdp_depth_codecs (ru_h264 ru) depth of
           None \<Rightarrow> c
         | Some codecs \<Rightarrow> set_bools codecs (set_uint ''ColorDepth'' 32 c))"

definition rdp_uses_codec :: "rdp_config \<Rightarrow> bool" where
  "rdp_uses_codec c \<longleftrightarrow> rg_bool c ''RemoteFxCodec'' \<or> rg_bool c ''NSCodec'' \<or> rg_bool c ''SupportGraphicsPipeline''"

definition rdp_set_codec :: "rdp_config \<Rightarrow> rdp_config" where
  "rdp_set_codec c =
     (if rdp_uses_codec c
      then set_uint ''ColorDepth'' 32 (set_bools [(''FastPathOutput'', True), (''FrameMarkerCommandEnabled'', True)] c)
      else c)"

text \<open>The size: a multiple of four, not too small for H.264, and of an even width.\<close>

definition rdp_min_size :: "rdp_config \<Rightarrow> rdp_config" where
  "rdp_min_size c =
     (if rg_bool c ''SupportGraphicsPipeline'' \<and> rg_bool c ''GfxH264'' then
        let c = (if rg_uint c ''DesktopWidth'' < word_of_int AVC_MIN_DESKTOP_WIDTH
                 then set_uint ''DesktopWidth'' (word_of_int AVC_MIN_DESKTOP_WIDTH) c else c)
        in (if rg_uint c ''DesktopHeight'' < word_of_int AVC_MIN_DESKTOP_HEIGHT
            then set_uint ''DesktopHeight'' (word_of_int AVC_MIN_DESKTOP_HEIGHT) c else c)
      else c)"

definition rdp_even_width :: "rdp_config \<Rightarrow> rdp_config" where
  "rdp_even_width c =
     (let w = rg_uint c ''DesktopWidth'' in if and w 1 \<noteq> 0 then set_uint ''DesktopWidth'' (w - 1) c else c)"

definition rdp_set_size :: "rdp_setup \<Rightarrow> rdp_config \<Rightarrow> rdp_config" where
  "rdp_set_size ru c =
     rdp_even_width (rdp_min_size
       (set_uint ''DesktopHeight'' (round_up4 (ru_height ru)) (set_uint ''DesktopWidth'' (round_up4 (ru_width ru)) c)))"

section \<open>Credentials, proxy and gateway\<close>

definition set_str_if :: "string \<Rightarrow> cstr \<Rightarrow> rdp_config \<Rightarrow> rdp_config" where
  "set_str_if k v c = (case v of None \<Rightarrow> c | Some _ \<Rightarrow> set_str k v c)"

definition rdp_set_credentials :: "rfile \<Rightarrow> rdp_config \<Rightarrow> rdp_config" where
  "rdp_set_credentials rf c =
     (let c = set_str_if ''Domain'' (get_str rf ''domain'') (set_str_if ''Username'' (get_str rf ''username'') c);
          p = get_str rf ''password''
      in set_bool ''AutoLogonEnabled'' True
           (set_str ''Password'' (if p = None \<and> get_flag rf ''allow_empty_pass'' then Some [] else p) c))"

abbreviation "PROXY_TYPE_HTTP \<equiv> 1 :: guint"
abbreviation "PROXY_TYPE_SOCKS \<equiv> 2 :: guint"
abbreviation "PROXY_TYPE_IGNORE \<equiv> 0xFFFF :: guint"

definition rdp_proxy_type :: "string \<Rightarrow> rdp_config \<Rightarrow> rdp_config" where
  "rdp_proxy_type t c =
     (if t = ''no_proxy'' then set_uint ''ProxyType'' PROXY_TYPE_IGNORE c
      else if t = ''http'' then set_uint ''ProxyType'' PROXY_TYPE_HTTP c
      else if t = ''socks5'' then set_uint ''ProxyType'' PROXY_TYPE_SOCKS c
      else c)"

text \<open>The port is stored in 16 bits.\<close>

definition rdp_set_proxy :: "rfile \<Rightarrow> rdp_config \<Rightarrow> rdp_config" where
  "rdp_set_proxy rf c =
     (case (get_str rf ''proxy_type'', get_str rf ''proxy_hostname'') of
        (Some t, Some host) \<Rightarrow>
          let port = remmina_file_get_int rf ''proxy_port'' 80;
              c = set_str ''ProxyHostname'' (Some host) (rdp_proxy_type t c);
              c = set_str_if ''ProxyPassword'' (get_str rf ''proxy_password'')
                    (set_str_if ''ProxyUsername'' (get_str rf ''proxy_username'') c)
          in if port \<noteq> 0 then set_uint ''ProxyPort'' (and port 0xFFFF) c else c
      | _ \<Rightarrow> c)"

definition rdp_reset_gateway :: "rfile \<Rightarrow> rfile" where
  "rdp_reset_gateway rf =
     (if get_flag rf ''base-cred-for-gw'' then
        remmina_file_set_string (remmina_file_set_string (remmina_file_set_string rf ''gateway_username'' None)
          ''gateway_domain'' None) ''gateway_password'' None
      else rf)"

definition rdp_gateway_transport :: "cstr \<Rightarrow> (string \<times> bool) list" where
  "rdp_gateway_transport t =
     (if t = Some ''http'' then [(''GatewayRpcTransport'', False), (''GatewayHttpTransport'', True)]
      else if t = Some ''rpc'' then [(''GatewayRpcTransport'', True), (''GatewayHttpTransport'', False)]
      else if t = Some ''auto'' then [(''GatewayRpcTransport'', True), (''GatewayHttpTransport'', True)]
      else [])"

text \<open>\<open>port_in\<close> is what the variable for the port of the gateway held.\<close>

definition rdp_gateway_server :: "rdp_setup \<Rightarrow> rfile \<Rightarrow> gint \<Rightarrow> rdp_config \<Rightarrow> rdp_config" where
  "rdp_gateway_server ru rf port_in c =
     (let c = set_bool ''GatewayEnabled'' False c in
      case get_str rf ''gateway_server'' of
        None \<Rightarrow> c
      | Some s \<Rightarrow>
          let (host, port) = remmina_public_get_server_port (ru_parse ru) (Some s) 443 port_in;
              c = set_bools (rdp_gateway_transport (get_str rf ''gwtransp''))
                    (set_bool ''GatewayHttpUseWebsockets'' (get_flag rf ''websockets'') c)
          in set_bools [(''GatewayEnabled'', True), (''GatewayUseSameCredentials'', True)]
               (set_uint ''GatewayPort'' port (set_str ''GatewayHostname'' host c)))"

text \<open>A credential of its own for the gateway switches off the use of the ones for the host.\<close>

definition rdp_gateway_own :: "rfile \<Rightarrow> string \<Rightarrow> string \<Rightarrow> rdp_config \<Rightarrow> rdp_config" where
  "rdp_gateway_own rf setting key c =
     (case get_str rf setting of
        None \<Rightarrow> c
      | Some v \<Rightarrow> set_bool ''GatewayUseSameCredentials'' False (set_str key (Some v) c))"

definition rdp_gateway_same :: "rdp_config \<Rightarrow> rdp_config" where
  "rdp_gateway_same c =
     (if rg_bool c ''GatewayEnabled'' \<and> rg_bool c ''GatewayUseSameCredentials''
      then set_str ''GatewayPassword'' (rg_string c ''Password'') (set_str ''GatewayUsername'' (rg_string c ''Username'')
             (set_str ''GatewayDomain'' (rg_string c ''Domain'') c))
      else c)"

text \<open>\<open>freerdp_set_gateway_usage_method\<close> with the mode of the connection; its number is recorded.\<close>

definition rdp_gateway_usage :: "rfile \<Rightarrow> rdp_config \<Rightarrow> rdp_config" where
  "rdp_gateway_usage rf c =
     set_str ''GatewayAccessToken'' (get_str rf ''gatewayaccesstoken'')
       (if rg_bool c ''GatewayEnabled''
        then set_uint ''GatewayUsageMethod'' (if get_flag rf ''gateway_usage'' then 2 else 1) c
        else c)"

definition rdp_set_gateway :: "rdp_setup \<Rightarrow> rfile \<Rightarrow> gint \<Rightarrow> rdp_config \<Rightarrow> rdp_config" where
  "rdp_set_gateway ru rf port_in c =
     rdp_gateway_usage rf (rdp_gateway_same
       (rdp_gateway_own rf ''gateway_password'' ''GatewayPassword''
         (rdp_gateway_own rf ''gateway_username'' ''GatewayUsername''
           (rdp_gateway_own rf ''gateway_domain'' ''GatewayDomain'' (rdp_gateway_server ru rf port_in c)))))"

section \<open>Identity and experience\<close>

definition rdp_set_client :: "rdp_setup \<Rightarrow> rfile \<Rightarrow> rdp_config \<Rightarrow> rdp_config" where
  "rdp_set_client ru rf c =
     (let c = set_uint ''AuthenticationLevel'' (remmina_file_get_int rf ''authentication level'' (rg_uint c ''AuthenticationLevel'')) c;
          c = set_bools [(''IgnoreCertificate'', get_flag rf ''cert_ignore''), (''OldLicenseBehaviour'', get_flag rf ''old-license''),
                (''AllowUnanouncedOrdersFromServer'', get_flag rf ''relax-order-checks'')] c;
          c = set_uint ''GlyphSupportLevel'' (if get_flag rf ''glyph-cache'' then 2 else 0) c;
          c = set_str ''ClientHostname''
                (case get_str rf ''clientname'' of None \<Rightarrow> Some (ru_hostname ru) | Some n \<Rightarrow> Some n) c;
          c = (case get_str rf ''clientbuild'' of None \<Rightarrow> c
               | Some b \<Rightarrow> if b \<noteq> [] then set_uint ''ClientBuild'' (strtoul0 b) c else c)
      in set_str_if ''ShellWorkingDirectory'' (get_str rf ''execpath'')
           (set_str_if ''AlternateShell'' (get_str rf ''exec'')
             (set_str_if ''LoadBalanceInfo'' (get_str rf ''loadbalanceinfo'') c)))"

definition rdp_default_quality :: "gint \<Rightarrow> guint" where
  "rdp_default_quality q = (if q = 9 then 0x80 else if q = 2 then 0x01 else if q = 1 then 0x07 else 0x6f)"

text \<open>The default of the setting is the flags of the lowest quality, a number that is no quality.\<close>

definition rdp_set_quality :: "rdp_setup \<Rightarrow> rfile \<Rightarrow> rdp_config \<Rightarrow> rdp_config" where
  "rdp_set_quality ru rf c =
     (let q = remmina_file_get_int rf ''quality'' 0x6f in
      set_uint ''PerformanceFlags''
        (case ru_pref ru (''rdp_quality_'' @ show_gint q) of
           None \<Rightarrow> rdp_default_quality q
         | Some v \<Rightarrow> if v \<noteq> [] then strtoul16 v else rdp_default_quality q) c)"

text \<open>The connection types, with the values FreeRDP gives them; 0 is the one of the plugin itself.\<close>

definition rdp_connection_type :: "string \<Rightarrow> guint" where
  "rdp_connection_type n =
     (if n = ''modem'' then 1 else if n = ''broadband'' then 4 else if n = ''broadband-low'' then 2
      else if n = ''broadband-high'' then 4 else if n = ''wan'' then 5 else if n = ''lan'' then 6
      else if n = ''autodetect'' then 7 else 0)"

definition rdp_experience :: "bool \<Rightarrow> bool \<Rightarrow> bool \<Rightarrow> bool \<Rightarrow> (string \<times> bool) list" where
  "rdp_experience plain smoothing composition no_themes =
     [(''DisableWallpaper'', plain), (''AllowFontSmoothing'', smoothing), (''AllowDesktopComposition'', composition),
      (''DisableFullWindowDrag'', plain), (''DisableMenuAnims'', plain), (''DisableThemes'', no_themes)]"

definition connection_type_bools :: "bool \<Rightarrow> guint \<Rightarrow> (string \<times> bool) list option" where
  "connection_type_bools h264 type =
     (if type = 1 then Some (rdp_experience True False False True)
      else if type = 2 then Some (rdp_experience True False False False)
      else if type = 3 then Some (rdp_experience True False True False)
      else if type = 4 then Some (rdp_experience True False True False)
      else if type = 5 then Some (rdp_experience False True True False)
      else if type = 6 then Some (rdp_experience False True True False)
      else if type = 7 then
        Some (rdp_experience False True True False @
          [(''NetworkAutoDetect'', True), (''GfxAVC444'', h264), (''GfxH264'', h264), (''RemoteFxCodec'', True),
           (''SupportGraphicsPipeline'', True)])
      else None)"

definition remmina_rdp_set_connection_type :: "bool \<Rightarrow> guint \<Rightarrow> rdp_config \<Rightarrow> bool \<times> rdp_config" where
  "remmina_rdp_set_connection_type h264 type c =
     (let c = set_uint ''ConnectionType'' type c in
      case connection_type_bools h264 type of None \<Rightarrow> (False, c) | Some kvs \<Rightarrow> (True, set_bools kvs c))"

definition rdp_set_network :: "rdp_setup \<Rightarrow> rfile \<Rightarrow> rdp_config \<Rightarrow> rdp_config" where
  "rdp_set_network ru rf c =
     (case get_str rf ''network'' of
        None \<Rightarrow> c
      | Some n \<Rightarrow> snd (remmina_rdp_set_connection_type (ru_h264 ru) (rdp_connection_type n) c))"

text \<open>\<open>freerdp_performance_flags_split\<close>: the flags into the settings of their own.\<close>

definition performance_keys :: "string list" where
  "performance_keys = [''AllowFontSmoothing'', ''AllowDesktopComposition'', ''DisableWallpaper'', ''DisableFullWindowDrag'',
     ''DisableMenuAnims'', ''DisableThemes'']"

definition rdp_split_flags :: "rdp_setup \<Rightarrow> rdp_config \<Rightarrow> rdp_config" where
  "rdp_split_flags ru c =
     set_bools (map (\<lambda>k. (k, ru_performance ru (rg_uint c ''PerformanceFlags'') k)) performance_keys) c"

section \<open>Keyboard\<close>

definition hex_digit :: "nat \<Rightarrow> char" where
  "hex_digit d = (if d < 10 then digit_char d else char_of (87 + d))"

fun hex_digits :: "nat \<Rightarrow> string" where
  "hex_digits n = (if n < 16 then [hex_digit n] else hex_digits (n div 16) @ [hex_digit (n mod 16)])"

declare hex_digits.simps [simp del]

text \<open>\<open>0x%02x\<close>\<close>

definition show_0x02x :: "guint \<Rightarrow> string" where
  "show_0x02x v = ''0x'' @ (let h = hex_digits (unat v) in if length h < 2 then ''0'' @ h else h)"

text \<open>The pairs of the table up to the zero that ends it; the buffers have 20 and 512 bytes.\<close>

definition strlcat :: "nat \<Rightarrow> string \<Rightarrow> string \<Rightarrow> string" where
  "strlcat n dst src = (if length dst < n then take (n - 1) (dst @ src) else dst)"

fun kbd_remap_loop :: "(guint \<Rightarrow> guint) \<Rightarrow> bool \<Rightarrow> guint list \<Rightarrow> string \<Rightarrow> string" where
  "kbd_remap_loop scancode first (a # b # r) buf =
     (if a = 0 then buf
      else let keys = take 19 (show_0x02x (scancode a) @ ''='' @ show_0x02x (scancode b));
               buf = (if first then buf else strlcat 512 buf '','')
           in kbd_remap_loop scancode False r (strlcat 512 buf keys))"
| "kbd_remap_loop scancode first _ buf = buf"

definition remmina_get_rdp_kbd_remap :: "rdp_setup \<Rightarrow> cstr \<Rightarrow> cstr" where
  "remmina_get_rdp_kbd_remap ru keymap =
     (case ru_keymap_table ru keymap of None \<Rightarrow> None | Some table \<Rightarrow> Some (kbd_remap_loop (ru_scancode ru) True table []))"

definition rdp_set_keyboard :: "rdp_setup \<Rightarrow> rfile \<Rightarrow> rdp_config \<Rightarrow> rdp_config" where
  "rdp_set_keyboard ru rf c =
     set_uint ''KeyboardLayout'' (ru_keyboard_layout ru)
       (set_str ''KeyboardRemappingList''
         (case remmina_get_rdp_kbd_remap ru (get_str rf ''keymap'') of None \<Rightarrow> ru_pref ru ''rdp_kbd_remap'' | Some r \<Rightarrow> Some r) c)"

section \<open>Security\<close>

definition rdp_set_console :: "rfile \<Rightarrow> rdp_config \<Rightarrow> rfile \<times> rdp_config" where
  "rdp_set_console rf c =
     (let c = (if get_flag rf ''console'' then set_bool ''ConsoleSession'' True c else c);
          admin = [(''ConsoleSession'', True), (''RestrictedAdminModeRequired'', True)];
          c = (if get_flag rf ''restricted-admin'' then set_bools admin c else c)
      in case get_str rf ''pth'' of
           None \<Rightarrow> (rf, c)
         | Some h \<Rightarrow> (remmina_file_set_int rf ''restricted-admin'' 1, set_str ''PasswordHash'' (Some h) (set_bools admin c)))"

definition rdp_security_bools :: "cstr \<Rightarrow> (string \<times> bool) list" where
  "rdp_security_bools security =
     (let only = (\<lambda>rdp tls nla ext. [(''RdpSecurity'', rdp), (''TlsSecurity'', tls), (''NlaSecurity'', nla), (''ExtSecurity'', ext)]) in
      if security = Some ''rdp'' then only True False False False @ [(''UseRdpSecurityLayer'', True)]
      else if security = Some ''tls'' then only False True False False
      else if security = Some ''nla'' then only False False True False
      else if security = Some ''ext'' then only False False False True
      else [(''NegotiateSecurityLayer'', True)])"

definition rdp_set_security :: "rfile \<Rightarrow> rdp_config \<Rightarrow> rdp_config" where
  "rdp_set_security rf c =
     (let c = set_bools (rdp_security_bools (get_str rf ''security'')) c;
          c = (case get_str rf ''tls-seclevel'' of None \<Rightarrow> c
               | Some l \<Rightarrow> if l \<noteq> [] then set_uint ''TlsSecLevel'' (atoi l) c else c);
          c = (if get_flag rf ''smartcard-logon''
               then set_bools [(''SmartcardLogon'', True), (''RedirectSmartCards'', True), (''PasswordIsSmartcardPin'', True)] c
               else c);
          fast = \<not> get_flag rf ''disable_fastpath''
      in set_bools [(''CompressionEnabled'', True), (''FastPathInput'', fast), (''FastPathOutput'', fast)] c)"

section \<open>Display and sound channels\<close>

definition rdp_set_display :: "rdp_setup \<Rightarrow> rdp_config \<Rightarrow> rdp_config" where
  "rdp_set_display ru c =
     (let (orientation, desktop, device) = ru_orientation ru;
          c = set_uint ''DesktopOrientation'' (and orientation 0xFFFF) c;
          c = (if desktop \<noteq> 0 \<and> device \<noteq> 0
               then set_uint ''DeviceScaleFactor'' device (set_uint ''DesktopScaleFactor'' desktop c) else c);
          c = add_channel (Dynamic_channel [''disp'']) (set_bool ''SupportDisplayControl'' True c)
      in if rg_bool c ''SupportGraphicsPipeline'' then add_channel (Dynamic_channel [''rdpgfx'']) c else c)"

definition rdp_sound_bools :: "cstr \<Rightarrow> (string \<times> bool) list" where
  "rdp_sound_bools sound =
     (case sound of
        Some s \<Rightarrow>
          if s = ''remote'' then [(''RemoteConsoleAudio'', True)]
          else if s \<noteq> [] \<and> prefix ''local'' s then [(''AudioPlayback'', True), (''AudioCapture'', True)]
          else [(''AudioPlayback'', False), (''RemoteConsoleAudio'', False)]
      | None \<Rightarrow> [(''AudioPlayback'', False), (''RemoteConsoleAudio'', False)])"

definition rdp_set_microphone :: "rfile \<Rightarrow> rdp_config \<Rightarrow> rfile \<times> rdp_config" where
  "rdp_set_microphone rf c =
     (case non_empty (get_str rf ''microphone'') of
        None \<Rightarrow> (rf, c)
      | Some m \<Rightarrow>
          if m = ''0'' then (remmina_file_set_string rf ''microphone'' (Some []), c)
          else (rf, add_channel (Dynamic_channel (remmina_rdp_CommandLineParseCommaSeparatedValuesEx (Some ''audin'') (Some m)))
                      (set_bool ''AudioCapture'' True c)))"

text \<open>The dynamic channel for the output is added only when the static one could be.\<close>

definition rdp_set_audio_output :: "(string list \<Rightarrow> bool) \<Rightarrow> rfile \<Rightarrow> rdp_config \<Rightarrow> rdp_config" where
  "rdp_set_audio_output static_ok rf c =
     (case non_empty (get_str rf ''audio-output'') of
        None \<Rightarrow> c
      | Some o1 \<Rightarrow>
          let p = remmina_rdp_CommandLineParseCommaSeparatedValuesEx (Some ''rdpsnd'') (Some o1);
              c = add_channel (Static_channel p) c
          in if static_ok p then add_channel (Dynamic_channel p) c else c)"

definition rdp_named_channel :: "(string list \<Rightarrow> rdp_channel) \<Rightarrow> cstr \<Rightarrow> cstr \<Rightarrow> rdp_config \<Rightarrow> rdp_config" where
  "rdp_named_channel channel name value c =
     (case non_empty value of
        None \<Rightarrow> c
      | Some v \<Rightarrow> add_channel (channel (remmina_rdp_CommandLineParseCommaSeparatedValuesEx name (Some v))) c)"

definition rdp_set_channels :: "rfile \<Rightarrow> rdp_config \<Rightarrow> rdp_config" where
  "rdp_set_channels rf c =
     (let c = rdp_named_channel Dynamic_channel (Some ''urbdrc'') (get_str rf ''usb'') c;
          c = rdp_named_channel Static_channel None (get_str rf ''vc'') c;
          c = rdp_named_channel Dynamic_channel None (get_str rf ''dvc'') c
      in case non_empty (get_str rf ''rdp2tcp'') of
           None \<Rightarrow> c
         | Some args \<Rightarrow> add_channel (Static_addin ''rdp2tcp'' args) (set_str ''RDP2TCPArgs'' (Some args) c))"

section \<open>Network, clipboard and folders\<close>

text \<open>\<open>g_ascii_strtoull\<close> wraps a negative number; what is not in 1 to 600000 becomes 600000.\<close>

definition strtoull :: "string \<Rightarrow> int" where
  "strtoull s =
     (case scan_dec s of
        None \<Rightarrow> 0
      | Some (v, _) \<Rightarrow> if \<bar>v\<bar> \<ge> 2 ^ 64 then 2 ^ 64 - 1 else v mod 2 ^ 64)"

definition rdp_set_timeout :: "rfile \<Rightarrow> rdp_config \<Rightarrow> rdp_config" where
  "rdp_set_timeout rf c =
     (case non_empty (get_str rf ''timeout'') of
        None \<Rightarrow> c
      | Some t \<Rightarrow>
          let v = strtoull t in
          set_uint ''TcpAckTimeout'' (word_of_int (if v > 600000 \<or> v \<le> 0 then 600000 else v)) c)"

definition rdp_set_ip :: "rfile \<Rightarrow> rdp_config \<Rightarrow> rdp_config" where
  "rdp_set_ip rf c =
     (if get_flag rf ''preferipv6'' then
        let c = set_bool ''PreferIPv6OverIPv4'' True c in
        if get_flag rf ''forceipvx'' then set_uint ''ForceIPvX'' 6 c else c
      else if get_flag rf ''forceipvx'' then set_uint ''ForceIPvX'' 4 c
      else c)"

definition rdp_migrate_folder :: "rfile \<Rightarrow> rfile" where
  "rdp_migrate_folder rf =
     (case non_empty (get_str rf ''sharefolder'') of
        None \<Rightarrow> rf
      | Some f \<Rightarrow>
          if get_str rf ''drive'' = None
          then remmina_file_set_string (remmina_file_set_string rf ''drive'' (Some f)) ''sharefolder'' None
          else rf)"

definition rdp_set_folders :: "rfile \<Rightarrow> rdp_config \<Rightarrow> rfile \<times> rdp_config" where
  "rdp_set_folders rf c =
     (let c = set_bool ''RedirectClipboard'' (\<not> get_flag rf ''disableclipboard'') c;
          rf = rdp_migrate_folder rf
      in (rf, case non_empty (get_str rf ''drive'') of
                None \<Rightarrow> c
              | Some drive \<Rightarrow>
                  fold (\<lambda>folder. add_channel (Device_channel
                      (remmina_rdp_CommandLineParseCommaSeparatedValuesEx (Some ''drive'') (Some folder))))
                    (g_strsplit drive '';'') c))"

section \<open>Printers\<close>

text \<open>
  The state machine that looks up the driver of a printer in the overrides: quoted names and
  drivers, separated by a colon and ended by a semicolon. The name is followed in \<open>p\<close> while it
  matches; \<open>dr\<close> is the driver read so far, in reverse.
\<close>

datatype prdriver_state = S_WAITPR | S_INPRINTER | S_WAITCOLON | S_WAITDRIVER | S_INDRIVER | S_WAITSEMICOLON

fun prdriver_loop :: "string \<Rightarrow> prdriver_state \<Rightarrow> bool \<Rightarrow> string \<Rightarrow> string \<Rightarrow> string \<Rightarrow> cstr" where
  "prdriver_loop prn state matching p dr [] = None"
| "prdriver_loop prn S_WAITPR matching p dr (c # smap) =
     (if c \<noteq> CHR 0x22 then None else prdriver_loop prn S_INPRINTER True prn dr smap)"
| "prdriver_loop prn S_INPRINTER matching p dr (c # smap) =
     (if matching \<and> p \<noteq> [] \<and> c = hd p then prdriver_loop prn S_INPRINTER matching (tl p) dr smap
      else if c = CHR 0x22 then prdriver_loop prn S_WAITCOLON (matching \<and> p = []) p dr smap
      else prdriver_loop prn S_INPRINTER False p dr smap)"
| "prdriver_loop prn S_WAITCOLON matching p dr (c # smap) =
     (if c \<noteq> CHR '':'' then None else prdriver_loop prn S_WAITDRIVER matching p dr smap)"
| "prdriver_loop prn S_WAITDRIVER matching p dr (c # smap) =
     (if c \<noteq> CHR 0x22 then None else prdriver_loop prn S_INDRIVER matching p [] smap)"
| "prdriver_loop prn S_INDRIVER matching p dr (c # smap) =
     (if c = CHR 0x22 then (if matching then Some (rev dr) else prdriver_loop prn S_WAITSEMICOLON matching p dr smap)
      else prdriver_loop prn S_INDRIVER matching p (c # dr) smap)"
| "prdriver_loop prn S_WAITSEMICOLON matching p dr (c # smap) =
     (if c \<noteq> CHR '';'' then None else prdriver_loop prn S_WAITPR matching p dr smap)"

definition remmina_rdp_find_prdriver :: "string \<Rightarrow> string \<Rightarrow> cstr" where
  "remmina_rdp_find_prdriver smap prn = prdriver_loop prn S_WAITPR False [] [] smap"

text \<open>A printer for which the overrides have no driver is not shared.\<close>

definition remmina_rdp_set_printers :: "rfile \<Rightarrow> string \<Rightarrow> rdp_config \<Rightarrow> rdp_config" where
  "remmina_rdp_set_printers rf name c =
     (let c = set_bools [(''RedirectPrinters'', True), (''DeviceRedirection'', True)] c in
      case get_str rf ''printer_overrides'' of
        None \<Rightarrow> add_device (Printer_device name ''MS Publisher Imagesetter'') c
      | Some s \<Rightarrow>
          (case remmina_rdp_find_prdriver s name of
             None \<Rightarrow> c
           | Some d \<Rightarrow> add_device (Printer_device name d) c))"

definition rdp_share_printers :: "rdp_setup \<Rightarrow> rfile \<Rightarrow> rdp_config \<Rightarrow> rdp_config" where
  "rdp_share_printers ru rf c =
     (if \<not> get_flag rf ''shareprinter'' then c
      else if is_empty (get_str rf ''printer_overrides'') then add_channel (Device_channel [''printer'']) c
      else fold (remmina_rdp_set_printers rf) (ru_printers ru) c)"

section \<open>Monitors\<close>

text \<open>
  A list with orientations, \<open>id:degrees\<close> with commas in between, is taken apart: the degrees
  are written to the monitors that FreeRDP holds, the numbers are joined again. An item
  without a colon and a number out of the array read or write where they must not.
\<close>

fun monitor_orientations :: "string list \<Rightarrow> rdp_monitor list \<Rightarrow> (string list \<times> rdp_monitor list) c_result" where
  "monitor_orientations [] ms = Ret ([], ms)"
| "monitor_orientations (item # items) ms =
     (case g_strsplit item '':'' of
        i # degrees # _ \<Rightarrow>
          (let n = sint (atoi i) in
           if n < 0 \<or> int (length ms) \<le> n then Crash
           else c_bind (monitor_orientations items (ms[nat n := (ms ! nat n)\<lparr>rm_orientation := sint (atoi degrees)\<rparr>]))
                  (\<lambda>(ids, ms). Ret (i # ids, ms)))
      | _ \<Rightarrow> Crash)"

definition rdp_monitor_list :: "cstr \<Rightarrow> rdp_config \<Rightarrow> (cstr \<times> rdp_config) c_result" where
  "rdp_monitor_list monitorids c =
     (case non_empty monitorids of
        None \<Rightarrow> Ret (monitorids, c)
      | Some ids \<Rightarrow>
          if CHR '','' \<in> set ids \<and> CHR '':'' \<in> set ids then
            c_bind (monitor_orientations (g_strsplit ids '','') (rs_monitors (rg_monitors c))) (\<lambda>(items, ms).
              Ret (Some (g_strjoinv '','' items), c\<lparr>rg_monitors := (rg_monitors c)\<lparr>rs_monitors := ms\<rparr>\<rparr>))
          else Ret (monitorids, c))"

text \<open>The numbers of the monitors in use go into an array of FreeRDP, as long as there is one.\<close>

definition rdp_monitor_ids :: "string \<Rightarrow> rdp_config \<Rightarrow> rdp_config" where
  "rdp_monitor_ids ids c =
     (if ids = [] then c
      else let items = g_strsplit ids '',''
           in set_uint ''NumMonitorIds'' (of_nat (length items)) (c\<lparr>rg_monitor_ids := map atoi items\<rparr>))"

definition rdp_use_monitors :: "rdp_setup \<Rightarrow> rfile \<Rightarrow> rdp_config \<Rightarrow> rdp_config c_result" where
  "rdp_use_monitors ru rf c =
     (let c = set_bool ''UseMultimon'' True c;
          c = (if get_flag rf ''force_multimon'' then set_bool ''ForceMultimon'' True c else c);
          c = set_bool ''Fullscreen'' True c
      in c_bind (rdp_monitor_list (get_str rf ''monitorids'') c) (\<lambda>(ids, c).
           let (ids, w, h, ms, _) = remmina_rdp_monitor_get (ru_set_monitors ru) (ru_gdk_monitors ru) (ru_monitor_buffer ru) ids
                                      (rg_monitors c);
               c = rdp_monitor_ids ids (c\<lparr>rg_monitors := ms\<rparr>)
           in Ret (if w \<noteq> 0 \<and> h \<noteq> 0
                   then set_uint ''DesktopHeight'' (word_of_int h) (set_uint ''DesktopWidth'' (word_of_int w) c) else c)))"

definition rdp_set_monitors :: "rdp_setup \<Rightarrow> rfile \<Rightarrow> rdp_config \<Rightarrow> (rfile \<times> rdp_config) c_result" where
  "rdp_set_monitors ru rf c =
     (let (rf, c) = (if get_flag rf ''span''
                     then (remmina_file_set_int rf ''multimon'' 1,
                           set_bools [(''SpanMonitors'', True), (''UseMultimon'', True), (''Fullscreen'', True)] c)
                     else (rf, c))
      in if get_flag rf ''multimon'' then c_bind (rdp_use_monitors ru rf c) (\<lambda>c. Ret (rf, c)) else Ret (rf, c))"

section \<open>Devices\<close>

definition rdp_share_smartcard :: "rfile \<Rightarrow> rdp_config \<Rightarrow> rdp_config" where
  "rdp_share_smartcard rf c =
     (let name = non_empty (get_str rf ''smartcardname'');
          c = (if get_flag rf ''sharesmartcard'' \<or> name \<noteq> None
               then add_device (Smartcard_device name)
                      (set_bools [(''DeviceRedirection'', True), (''RedirectSmartCards'', True)] c)
               else c)
      in if get_flag rf ''passwordispin'' then set_bool ''PasswordIsSmartcardPin'' True c else c)"

definition rdp_share_serial :: "rfile \<Rightarrow> rdp_config \<Rightarrow> rdp_config" where
  "rdp_share_serial rf c =
     (if get_flag rf ''shareserial''
      then add_device (Serial_device (non_empty (get_str rf ''serialname'')) (non_empty (get_str rf ''serialdriver''))
                         (non_empty (get_str rf ''serialpath'')) (get_flag rf ''serialpermissive''))
             (set_bools [(''DeviceRedirection'', True), (''RedirectSerialPorts'', True)] c)
      else c)"

definition rdp_share_parallel :: "rfile \<Rightarrow> rdp_config \<Rightarrow> rdp_config" where
  "rdp_share_parallel rf c =
     (if get_flag rf ''shareparallel''
      then add_device (Parallel_device (non_empty (get_str rf ''parallelname'')) (non_empty (get_str rf ''parallelpath'')))
             (set_bools [(''DeviceRedirection'', True), (''RedirectParallelPorts'', True)] c)
      else c)"

text \<open>The flags for UDP: forward error correction, lossy and reliable, and the preference.\<close>

definition rdp_set_multitransport :: "rfile \<Rightarrow> rdp_config \<Rightarrow> rdp_config" where
  "rdp_set_multitransport rf c =
     (if get_flag rf ''multitransport''
      then set_uint ''MultitransportFlags'' 0x105
             (set_bools [(''DeviceRedirection'', True), (''SupportMultitransport'', True)] c)
      else set_uint ''MultitransportFlags'' 0 c)"

text \<open>For an interactive authentication all credentials are removed.\<close>

definition rdp_forget_credentials :: "rdp_config \<Rightarrow> rdp_config" where
  "rdp_forget_credentials c =
     set_bool ''GatewayUseSameCredentials'' False
       (fold (\<lambda>k. set_str k None)
         [''Username'', ''Password'', ''Domain'', ''GatewayDomain'', ''GatewayUsername'', ''GatewayPassword''] c)"

section \<open>All of them\<close>

definition rdp_set_reconnect :: "rfile \<Rightarrow> rdp_config \<Rightarrow> rdp_config" where
  "rdp_set_reconnect rf c =
     (let c = set_bool ''AutoReconnectionEnabled'' (\<not> get_flag rf ''disableautoreconnect'') c in
      if get_flag rf ''ssh_tunnel_enabled'' then set_bool ''AutoReconnectionEnabled'' False c else c)"

text \<open>The groups before the gateway, and those between the gateway and the security.\<close>

definition rdp_configure_display :: "rdp_setup \<Rightarrow> rfile \<Rightarrow> rdp_config \<Rightarrow> rdp_config" where
  "rdp_configure_display ru rf c =
     rdp_set_size ru (rdp_set_codec (rdp_set_depth ru rf (rdp_set_reconnect rf c)))"

definition rdp_configure_login :: "rdp_setup \<Rightarrow> gint \<Rightarrow> rfile \<Rightarrow> rdp_config \<Rightarrow> rfile \<times> rdp_config" where
  "rdp_configure_login ru port_in rf c =
     (let c = rdp_set_proxy rf (rdp_set_credentials rf c);
          rf = rdp_reset_gateway rf
      in (rf, rdp_set_gateway ru rf port_in c))"

definition rdp_configure_session :: "rdp_setup \<Rightarrow> rfile \<Rightarrow> rdp_config \<Rightarrow> rfile \<times> rdp_config" where
  "rdp_configure_session ru rf c =
     (let c = rdp_split_flags ru (rdp_set_network ru rf (rdp_set_quality ru rf (rdp_set_client ru rf c)));
          (rf, c) = rdp_set_console rf (rdp_set_keyboard ru rf c)
      in (rf, rdp_set_display ru (rdp_set_security rf c)))"

definition rdp_configure_channels :: "(string list \<Rightarrow> bool) \<Rightarrow> rfile \<Rightarrow> rdp_config \<Rightarrow> rfile \<times> rdp_config" where
  "rdp_configure_channels static_ok rf c =
     (let (rf, c) = rdp_set_microphone rf (set_bools (rdp_sound_bools (get_str rf ''sound'')) c);
          c = rdp_set_channels rf (rdp_set_audio_output static_ok rf c)
      in rdp_set_folders rf (rdp_set_ip rf (rdp_set_timeout rf c)))"

definition rdp_configure_devices :: "rdp_setup \<Rightarrow> rfile \<Rightarrow> rdp_config \<Rightarrow> (rfile \<times> rdp_config) c_result" where
  "rdp_configure_devices ru rf c =
     c_bind (rdp_set_monitors ru rf (rdp_share_printers ru rf c)) (\<lambda>(rf, c).
       Ret (rf, rdp_set_multitransport rf (rdp_share_parallel rf (rdp_share_serial rf (rdp_share_smartcard rf c)))))"

definition rdp_configure ::
  "rdp_setup \<Rightarrow> (string list \<Rightarrow> bool) \<Rightarrow> gint \<Rightarrow> bool \<Rightarrow> rfile \<Rightarrow> rdp_config \<Rightarrow> (rfile \<times> rdp_config) c_result" where
  "rdp_configure ru static_ok port_in interactive rf c =
     (let (rf, c) = rdp_configure_login ru port_in rf (rdp_configure_display ru rf c);
          (rf, c) = rdp_configure_session ru rf c;
          (rf, c) = rdp_configure_channels static_ok rf c
      in c_bind (rdp_configure_devices ru rf c) (\<lambda>(rf, c).
           Ret (rf, if interactive then rdp_forget_credentials c else c)))"

end
