(* ===== verification/RdpSession.thy ===== *)
theory RdpSession
  imports RdpConfig Panel
begin

text \<open>
  The thread of an RDP session (\<open>plugins/rdp/rdp_plugin.c\<close>): the tunnel, the callbacks of
  FreeRDP that ask the user, a connection with its errors and the retry with credentials the
  user is asked for, the loop of a session, reconnecting, and closing. FreeRDP is a parameter:
  a record of functions on a state \<open>'w\<close> of its own. While it connects it makes requests, which
  the callbacks answer; the number of requests that are served is bounded by an argument, and
  \<open>None\<close> means that FreeRDP would go on.
\<close>

section \<open>State\<close>

datatype rdp_error =
    Err_none | Err_authentication | Err_locked_out | Err_expired | Err_password_expired | Err_disabled
  | Err_privileges | Err_restriction | Err_must_change | Err_connect_failed | Err_dns | Err_tls | Err_negotiation
  | Err_post_connect | Err_denied | Err_gateway_policy | Err_no_credentials | Err_other

datatype post_connect_error = Post_ok | Post_gdi_init | Post_no_h264

datatype auth_reason = Auth_nla | Auth_tls | Auth_rdp | Auth_gateway | Auth_smartcard_pin | Auth_unknown

datatype rdp_request =
    Ask_auth auth_reason cstr cstr
  | Ask_certificate string string string
  | Ask_changed_certificate string string string string
  | Ask_gateway_message bool bool string
  | Ask_post_connect bool bool bool
  | User_closes
  | Connect_done bool rdp_error

datatype clip_wait = SCDW_NONE | SCDW_BUSY_WAIT | SCDW_ABORTING

datatype cairo_format = CAIRO_FORMAT_RGB24 | CAIRO_FORMAT_RGB16_565

text \<open>
  A round of the loop of a session: whether FreeRDP says that the session is over, the time,
  whether waiting worked, what the main thread did to the queue of events meanwhile, the time at
  which events are processed, whether the session was aborted, and whether the connection is up.
\<close>

record rdp_round =
  rr_disconnect :: bool
  rr_time_jitter :: int
  rr_time_keypress :: int
  rr_waited :: bool
  rr_ctx :: "rdp_ctx \<Rightarrow> rdp_ctx"
  rr_now :: int
  rr_abort :: bool
  rr_check :: bool

datatype assist_result = Assist_no_memory | Assist_unreadable | Assist_not_applied | Assist_settings rdp_config

record 'w rdp_lib =
  rl_user :: "'w panel_user"
  rl_setup :: rdp_setup
  rl_trust_all :: bool
  rl_tunnel :: "'w \<Rightarrow> (cstr \<times> cstr) \<times> 'w"
  rl_static_ok :: "string list \<Rightarrow> bool"
  rl_datapath :: cstr
  rl_assist :: "string \<Rightarrow> string \<Rightarrow> rdp_config \<Rightarrow> assist_result"
  rl_request :: "rdp_config \<Rightarrow> 'w \<Rightarrow> rdp_request \<times> 'w"
  rl_answer :: "bool \<Rightarrow> 'w \<Rightarrow> 'w"
  rl_reconnect :: "'w \<Rightarrow> bool \<times> 'w"
  rl_wait :: "'w \<Rightarrow> bool \<times> 'w"
  rl_error_info_network :: "'w \<Rightarrow> bool"
  rl_round :: "'w \<Rightarrow> rdp_round \<times> 'w"
  rl_time :: "'w \<Rightarrow> int"

record 'w rdp =
  rd_config :: rdp_config
  rd_ctx :: rdp_ctx
  rd_file :: rfile
  rd_panel :: widget_data
  rd_attached :: bool
  rd_port_in :: gint
  rd_bpp :: gint
  rd_src_bpp :: guint
  rd_sw_gdi :: bool
  rd_format :: cairo_format
  rd_width :: guint
  rd_height :: guint
  rd_interactive :: bool
  rd_cancelled :: bool
  rd_stop_reconnecting :: bool
  rd_nattempt :: nat
  rd_maxattempts :: gint
  rd_post_error :: post_connect_error
  rd_clip_wait :: clip_wait
  rd_last_time :: int
  rd_last_keypress :: int
  rd_error :: cstr
  rd_signals :: nat
  rd_disconnects :: nat
  rd_sent :: "rdp_msg list"
  rd_keys :: "guint list list"
  rd_progress :: nat
  rd_connects :: "rdp_config list"
  rd_reconnects :: "bool list"
  rd_world :: 'w

definition rdp_do :: "('w \<Rightarrow> 'a \<times> 'w) \<Rightarrow> 'w rdp \<Rightarrow> 'a \<times> 'w rdp" where
  "rdp_do f s = (let (a, w) = f (rd_world s) in (a, s\<lparr>rd_world := w\<rparr>))"

definition rdp_panel :: "(widget_data \<times> 'w \<Rightarrow> 'a \<times> widget_data \<times> 'w) \<Rightarrow> 'w rdp \<Rightarrow> 'a \<times> 'w rdp" where
  "rdp_panel f s = (let (a, wd, w) = f (rd_panel s, rd_world s) in (a, s\<lparr>rd_panel := wd, rd_world := w\<rparr>))"

definition rdp_set :: "(rdp_config \<Rightarrow> rdp_config) \<Rightarrow> 'w rdp \<Rightarrow> 'w rdp" where
  "rdp_set f s = s\<lparr>rd_config := f (rd_config s)\<rparr>"

definition rdp_fail :: "string \<Rightarrow> 'w rdp \<Rightarrow> 'w rdp" where
  "rdp_fail m s = s\<lparr>rd_error := Some m\<rparr>"

section \<open>The tunnel\<close>

text \<open>
  The address of the server, or of the local end of a tunnel; without one there may be an error. The host name and the name in
  the certificate are set on the first connection only. An address that does not parse leaves
  the host NULL, which is read.
\<close>

definition rdp_tunnel_names :: "string \<Rightarrow> gint \<Rightarrow> rdp_config \<Rightarrow> rdp_config" where
  "rdp_tunnel_names host port c =
     set_str ''CertificateName'' (Some (if port = 3389 then host else host @ '':'' @ show_gint port))
       (set_str ''ServerHostname'' (Some host) c)"

definition remmina_rdp_tunnel_init :: "'w rdp_lib \<Rightarrow> 'w rdp \<Rightarrow> (bool \<times> 'w rdp) c_result" where
  "remmina_rdp_tunnel_init lib s =
     (case rdp_do (rl_tunnel lib) s of
        ((None, error), s) \<Rightarrow> Ret (False, case error of None \<Rightarrow> s | Some m \<Rightarrow> rdp_fail m s)
      | ((Some hostport, _), s) \<Rightarrow>
          (case remmina_public_get_server_port (ru_parse (rl_setup lib)) (Some hostport) 3389 (rd_port_in s) of
             (None, _) \<Rightarrow> Crash
           | (Some host, port) \<Rightarrow>
               if host = [] then Ret (False, s)
               else let s = (if rx_is_reconnecting (rd_ctx s) then s else rdp_set (rdp_tunnel_names host port) s)
                    in Ret (True, rdp_set (set_uint ''ServerPort'' port) s)))"

section \<open>Asking the user\<close>

text \<open>
  The panel of an authentication: the settings of the profile and of FreeRDP that the answers
  are stored in. The smart card has a PIN only.
\<close>

record auth_keys =
  ak_title :: string
  ak_user :: "(string \<times> string) option"
  ak_domain :: "(string \<times> string) option"
  ak_password :: "string \<times> string"

definition host_auth_keys :: auth_keys where
  "host_auth_keys = \<lparr>ak_title = ''Enter RDP authentication credentials'', ak_user = Some (''username'', ''Username''),
     ak_domain = Some (''domain'', ''Domain''), ak_password = (''password'', ''Password'')\<rparr>"

definition gateway_auth_keys :: auth_keys where
  "gateway_auth_keys = \<lparr>ak_title = ''Enter RDP gateway authentication credentials'',
     ak_user = Some (''gateway_username'', ''GatewayUsername''), ak_domain = Some (''gateway_domain'', ''GatewayDomain''),
     ak_password = (''gateway_password'', ''GatewayPassword'')\<rparr>"

definition smartcard_auth_keys :: auth_keys where
  "smartcard_auth_keys = \<lparr>ak_title = ''Enter RDP SmartCard PIN'', ak_user = None, ak_domain = None,
     ak_password = (''smartcard_pin'', ''Password'')\<rparr>"

definition rdp_auth_request :: "auth_keys \<Rightarrow> rfile \<Rightarrow> panel_request" where
  "rdp_auth_request ak rf =
     \<lparr>pr_type = RPWDT_AUTH, pr_title = ak_title ak, pr_ask_username = ak_user ak \<noteq> None, pr_username_readonly = False,
      pr_ask_domain = ak_domain ak \<noteq> None, pr_offer_save = \<not> get_flag rf ''disablepasswordstoring'',
      pr_username = Option.bind (ak_user ak) (\<lambda>(k, _). get_str rf k), pr_password = get_str rf (fst (ak_password ak)),
      pr_domain = Option.bind (ak_domain ak) (\<lambda>(k, _). get_str rf k)\<rparr>"

text \<open>A user name or a domain goes to FreeRDP if there is one, and to the profile in any case.\<close>

definition store_answer :: "(string \<times> string) option \<Rightarrow> cstr \<Rightarrow> 'w rdp \<Rightarrow> 'w rdp" where
  "store_answer keys v s =
     (case keys of
        None \<Rightarrow> s
      | Some (key, cfg) \<Rightarrow> (rdp_set (set_str_if cfg v) s)\<lparr>rd_file := remmina_file_set_string (rd_file s) key v\<rparr>)"

text \<open>The password goes into the profile only when it is to be saved.\<close>

definition store_password :: "string \<times> string \<Rightarrow> cstr \<Rightarrow> bool \<Rightarrow> 'w rdp \<Rightarrow> 'w rdp" where
  "store_password keys p save s =
     (rdp_set (set_str_if (snd keys) p) s)\<lparr>rd_file :=
        remmina_file_set_string (rd_file s) (fst keys) (if save then p else None)\<rparr>"

definition rdp_store_answers :: "auth_keys \<Rightarrow> 'w rdp \<Rightarrow> 'w rdp" where
  "rdp_store_answers ak s =
     (let wd = rd_panel s in
      store_password (ak_password ak) (remmina_protocol_widget_get_password wd) (remmina_protocol_widget_get_savepassword wd)
        (store_answer (ak_domain ak) (remmina_protocol_widget_get_domain wd)
          (store_answer (ak_user ak) (remmina_protocol_widget_get_username wd) s)))"

definition rdp_ask_auth :: "'w rdp_lib \<Rightarrow> auth_keys \<Rightarrow> 'w rdp \<Rightarrow> bool \<times> 'w rdp" where
  "rdp_ask_auth lib ak s =
     (let (ret, s) = rdp_panel (remmina_protocol_widget_panel_auth (rl_user lib) (rdp_auth_request ak (rd_file s))) s
      in if ret = Response_ok then (True, rdp_store_answers ak s) else (False, s))"

text \<open>FreeRDP 3: credentials that are there already are taken, an unknown kind is refused.\<close>

definition remmina_rdp_authenticate_ex ::
  "'w rdp_lib \<Rightarrow> auth_reason \<Rightarrow> cstr \<Rightarrow> cstr \<Rightarrow> 'w rdp \<Rightarrow> bool \<times> 'w rdp" where
  "remmina_rdp_authenticate_ex lib reason username password s =
     (case reason of
        Auth_unknown \<Rightarrow> (False, s)
      | Auth_gateway \<Rightarrow> rdp_ask_auth lib gateway_auth_keys s
      | Auth_smartcard_pin \<Rightarrow> rdp_ask_auth lib smartcard_auth_keys s
      | _ \<Rightarrow> if username \<noteq> None \<and> password \<noteq> None then (True, s) else rdp_ask_auth lib host_auth_keys s)"

text \<open>FreeRDP 2 has two callbacks, and asks again whatever is there.\<close>

definition remmina_rdp_authenticate :: "'w rdp_lib \<Rightarrow> 'w rdp \<Rightarrow> bool \<times> 'w rdp" where
  "remmina_rdp_authenticate lib s = rdp_ask_auth lib host_auth_keys s"

text \<open>With the credentials of the host for the gateway, the profile's settings of the host are used.\<close>

definition remmina_rdp_gw_authenticate :: "'w rdp_lib \<Rightarrow> 'w rdp \<Rightarrow> bool \<times> 'w rdp" where
  "remmina_rdp_gw_authenticate lib s =
     (if get_str (rd_file s) ''gateway_server'' = None then (False, s)
      else if get_flag (rd_file s) ''base-cred-for-gw''
      then rdp_ask_auth lib (host_auth_keys\<lparr>ak_user := Some (''username'', ''GatewayUsername''),
             ak_domain := Some (''domain'', ''GatewayDomain''), ak_password := (''password'', ''GatewayPassword'')\<rparr>) s
      else rdp_ask_auth lib gateway_auth_keys s)"

definition remmina_rdp_present_gateway_message :: "'w rdp_lib \<Rightarrow> bool \<Rightarrow> bool \<Rightarrow> string \<Rightarrow> 'w rdp \<Rightarrow> bool \<times> 'w rdp" where
  "remmina_rdp_present_gateway_message lib display_mandatory consent_mandatory message s =
     (if \<not> consent_mandatory \<and> \<not> display_mandatory then (True, s)
      else let (ret, s) = rdp_panel (remmina_protocol_widget_panel_question_accept (rl_user lib) message) s
           in (ret = Response_yes, s))"

definition remmina_rdp_verify_certificate_ex ::
  "'w rdp_lib \<Rightarrow> string \<Rightarrow> string \<Rightarrow> string \<Rightarrow> 'w rdp \<Rightarrow> bool \<times> 'w rdp" where
  "remmina_rdp_verify_certificate_ex lib subject issuer fingerprint s =
     (let (ret, s) = rdp_panel (remmina_protocol_widget_panel_new_certificate (rl_user lib) (rl_trust_all lib)
                       subject issuer fingerprint) s
      in (ret = Response_ok, s))"

definition remmina_rdp_verify_changed_certificate_ex ::
  "'w rdp_lib \<Rightarrow> string \<Rightarrow> string \<Rightarrow> string \<Rightarrow> string \<Rightarrow> 'w rdp \<Rightarrow> bool \<times> 'w rdp" where
  "remmina_rdp_verify_changed_certificate_ex lib subject issuer fingerprint old_fingerprint s =
     (let (ret, s) = rdp_panel (remmina_protocol_widget_panel_changed_certificate (rl_user lib) (rl_trust_all lib)
                       subject issuer fingerprint old_fingerprint) s
      in (ret = Response_ok, s))"

section \<open>Connecting\<close>

definition rdp_pre_connect_settings :: "rdp_config \<Rightarrow> rdp_config" where
  "rdp_pre_connect_settings c =
     set_uint ''OffscreenSupportLevel'' 1 (set_bool ''BitmapCacheEnabled'' True
       (set_uint ''OsMinorType'' 0 (set_uint ''OsMajorType'' 4 c)))"

text \<open>
  After the connection was made. \<open>gdi\<close> says whether the software renderer starts, \<open>h264\<close>
  whether there is a decoder, \<open>remap\<close> whether the table of keys could be made.
\<close>

definition rdp_cairo_format :: "gint \<Rightarrow> cairo_format" where
  "rdp_cairo_format bpp = (if bpp = 24 \<or> bpp = 32 then CAIRO_FORMAT_RGB24 else CAIRO_FORMAT_RGB16_565)"

definition remmina_rdp_post_connect :: "bool \<Rightarrow> bool \<Rightarrow> bool \<Rightarrow> 'w rdp \<Rightarrow> bool \<times> 'w rdp" where
  "remmina_rdp_post_connect gdi h264 remap s =
     (let s = s\<lparr>rd_post_error := Post_ok, rd_interactive := False, rd_src_bpp := rg_uint (rd_config s) ''ColorDepth'',
                rd_sw_gdi := rd_sw_gdi s \<or> \<not> rg_bool (rd_config s) ''RemoteFxCodec'', rd_format := rdp_cairo_format (rd_bpp s)\<rparr>
      in if \<not> gdi then (False, s\<lparr>rd_post_error := Post_gdi_init\<rparr>)
         else if \<not> h264 \<and> rg_bool (rd_config s) ''GfxH264'' then (False, s\<lparr>rd_post_error := Post_no_h264\<rparr>)
         else (remap, s\<lparr>rd_ctx := (rd_ctx s)\<lparr>rx_connected := True\<rparr>\<rparr>))"

section \<open>Closing\<close>

text \<open>
  While FreeRDP is still connecting, its thread cannot be stopped: the context is taken from the
  widget, and the thread finds none later. While reconnecting the loop is asked to stop, otherwise
  an event ends the session. Without a context the flag for reconnecting is read through NULL.
\<close>

definition remmina_rdp_event_uninit :: "rdp_ctx \<Rightarrow> rdp_ctx" where
  "remmina_rdp_event_uninit rx =
     rx\<lparr>rx_layout_handler := 0, rx_surface := False, rx_pressed_keys := [], rx_keymap := None, rx_event_queue := None,
        rx_event_pipe := 0\<rparr>"

definition rdp_detach :: "'w rdp \<Rightarrow> 'w rdp" where
  "rdp_detach s = s\<lparr>rd_ctx := remmina_rdp_event_uninit (rd_ctx s), rd_attached := False, rd_signals := Suc (rd_signals s)\<rparr>"

definition remmina_rdp_close_connection :: "'w rdp \<Rightarrow> 'w rdp c_result" where
  "remmina_rdp_close_connection s =
     (if \<not> rd_attached s then Crash
      else if \<not> rx_connected (rd_ctx s) then Ret (rdp_detach s)
      else let s = (if rd_clip_wait s = SCDW_BUSY_WAIT then s\<lparr>rd_clip_wait := SCDW_ABORTING\<rparr> else s) in
           Ret (if rx_is_reconnecting (rd_ctx s) then s\<lparr>rd_stop_reconnecting := True\<rparr>
                else s\<lparr>rd_ctx := remmina_rdp_event_event_push Rdp_disconnect (rd_ctx s)\<rparr>))"

section \<open>Requests\<close>

definition rdp_serve :: "'w rdp_lib \<Rightarrow> rdp_request \<Rightarrow> 'w rdp \<Rightarrow> (bool \<times> 'w rdp) c_result" where
  "rdp_serve lib r s =
     (case r of
        Ask_auth reason u p \<Rightarrow> Ret (remmina_rdp_authenticate_ex lib reason u p s)
      | Ask_certificate subject issuer fp \<Rightarrow> Ret (remmina_rdp_verify_certificate_ex lib subject issuer fp s)
      | Ask_changed_certificate subject issuer fp old \<Rightarrow>
          Ret (remmina_rdp_verify_changed_certificate_ex lib subject issuer fp old s)
      | Ask_gateway_message d m t \<Rightarrow> Ret (remmina_rdp_present_gateway_message lib d m t s)
      | Ask_post_connect gdi h264 remap \<Rightarrow> Ret (remmina_rdp_post_connect gdi h264 remap s)
      | User_closes \<Rightarrow> c_bind (remmina_rdp_close_connection s) (\<lambda>s. Ret (True, s))
      | Connect_done ok e \<Rightarrow> Ret (ok, s))"

text \<open>\<open>freerdp_connect\<close>, serving at most \<open>n\<close> requests; the settings it starts with are recorded.\<close>

fun rdp_connect_loop :: "'w rdp_lib \<Rightarrow> nat \<Rightarrow> 'w rdp \<Rightarrow> ((bool \<times> rdp_error) \<times> 'w rdp) c_result option" where
  "rdp_connect_loop lib 0 s = None"
| "rdp_connect_loop lib (Suc n) s =
     (case rdp_do (rl_request lib (rd_config s)) s of
        (Connect_done ok e, s) \<Rightarrow> Some (Ret ((ok, e), s))
      | (r, s) \<Rightarrow>
          (case rdp_serve lib r s of
             Crash \<Rightarrow> Some Crash
           | Ret (answer, s) \<Rightarrow> rdp_connect_loop lib n (s\<lparr>rd_world := rl_answer lib answer (rd_world s)\<rparr>)))"

definition rdp_freerdp_connect :: "'w rdp_lib \<Rightarrow> nat \<Rightarrow> 'w rdp \<Rightarrow> ((bool \<times> rdp_error) \<times> 'w rdp) c_result option" where
  "rdp_freerdp_connect lib n s =
     rdp_connect_loop lib n ((rdp_set rdp_pre_connect_settings s)\<lparr>rd_connects := rd_connects s @ [rd_config s]\<rparr>)"

section \<open>Errors\<close>

definition rdp_server_message :: "string \<Rightarrow> string \<Rightarrow> rdp_config \<Rightarrow> string" where
  "rdp_server_message before after c = before @ curly_quoted (rg_string c ''ServerHostname'') @ after"

definition rdp_account_message :: "string \<Rightarrow> rdp_config \<Rightarrow> string" where
  "rdp_account_message reason = rdp_server_message ''Could not access the RDP server '' (''.'' @ [CHR 0x0A] @ reason)"

definition rdp_post_error_message :: "post_connect_error \<Rightarrow> rdp_config \<Rightarrow> string" where
  "rdp_post_error_message e c =
     (case e of
        Post_ok \<Rightarrow> rdp_server_message ''Cannot connect to the RDP server '' ''.'' c
      | Post_gdi_init \<Rightarrow> ''Could not start libfreerdp-gdi.''
      | Post_no_h264 \<Rightarrow> rdp_server_message ''You requested a H.264 GFX mode for the server ''
          '', but your libfreerdp does not support H.264. Please use a non-AVC colour depth setting.'' c)"

definition rdp_gateway_message :: "rdp_config \<Rightarrow> string" where
  "rdp_gateway_message c =
     (let shown = (\<lambda>k. case rg_string c k of None \<Rightarrow> ''(null)'' | Some t \<Rightarrow> t) in
      ''The Remote Desktop Gateway '' @ curly_quoted (rg_string c ''GatewayHostname'') @ '' denied the user '' @
      curly_quoted (Some (shown ''GatewayDomain'' @ [CHR 0x5C] @ shown ''GatewayUsername'')) @ '' access due to policy.'')"

fun rdp_error_message :: "rdp_error \<Rightarrow> post_connect_error \<Rightarrow> rdp_config \<Rightarrow> string" where
  "rdp_error_message Err_locked_out p c = rdp_account_message ''Account locked out.'' c"
| "rdp_error_message Err_expired p c = rdp_account_message ''Account expired.'' c"
| "rdp_error_message Err_password_expired p c = rdp_account_message ''Password expired.'' c"
| "rdp_error_message Err_disabled p c = rdp_account_message ''Account disabled.'' c"
| "rdp_error_message Err_privileges p c = rdp_account_message ''Insufficient user privileges.'' c"
| "rdp_error_message Err_restriction p c = rdp_account_message ''Account restricted.'' c"
| "rdp_error_message Err_must_change p c = rdp_account_message ''Change user password before connecting.'' c"
| "rdp_error_message Err_connect_failed p c = rdp_server_message ''Failed to connect to the RDP server '' ''.'' c"
| "rdp_error_message Err_dns p c = rdp_server_message ''Could not find the address for the RDP server '' ''.'' c"
| "rdp_error_message Err_tls p c = rdp_server_message ''Could not connect to the RDP server ''
     '' via TLS. See the DEBUG traces from a terminal for more information.'' c"
| "rdp_error_message Err_negotiation p c = rdp_server_message ''Unable to establish a connection to the RDP server ''
     (''. Check '' @ curly_quoted (Some ''Security protocol negotiation'') @ ''.'') c"
| "rdp_error_message Err_post_connect p c = rdp_post_error_message p c"
| "rdp_error_message Err_denied p c = rdp_server_message ''The '' '' server refused the connection.'' c"
| "rdp_error_message Err_gateway_policy p c = rdp_gateway_message c"
| "rdp_error_message _ p c = rdp_server_message ''Cannot connect to the '' '' RDP server.'' c"

text \<open>
  A login that failed is tried again with credentials the user is asked for, except with a
  smart card; missing credentials mean that the user gave up.
\<close>

definition rdp_connect_error :: "rdp_error \<Rightarrow> 'w rdp \<Rightarrow> 'w rdp" where
  "rdp_connect_error e s =
     (case e of
        Err_authentication \<Rightarrow>
          if rg_bool (rd_config s) ''SmartcardLogon'' then rdp_fail ''Could not authenticate using smartcard.'' s
          else s\<lparr>rd_interactive := True\<rparr>
      | Err_no_credentials \<Rightarrow> s\<lparr>rd_cancelled := True\<rparr>
      | _ \<Rightarrow> rdp_fail (rdp_error_message e (rd_post_error s) (rd_config s)) s)"

end
