(* ===== verification/RdpThread.thy ===== *)
theory RdpThread
  imports RdpSession
begin

text \<open>
  The thread of an RDP session (\<open>plugins/rdp/rdp_plugin.c\<close>): reconnecting, the loop of a
  session, \<open>remmina_rdp_main\<close>, the attempts to log in, the clean-up, and what the plugin does
  on the main thread at the start of a session and on its features.
\<close>

section \<open>Reconnecting\<close>

text \<open>
  The number of attempts is the one of the profile, of the preferences or of FreeRDP; a number
  that is not positive counts as none given.
\<close>

definition rdp_max_attempts :: "cstr \<Rightarrow> rfile \<Rightarrow> guint \<Rightarrow> gint" where
  "rdp_max_attempts pref rf freerdp =
     (let m = (case pref of None \<Rightarrow> freerdp | Some v \<Rightarrow> atoi v);
          m = remmina_file_get_int rf ''rdp_reconnect_attempts'' m
      in if sint m \<le> 0 then freerdp else m)"

definition rdp_begin_reconnect :: "'w rdp_lib \<Rightarrow> 'w rdp \<Rightarrow> 'w rdp" where
  "rdp_begin_reconnect lib s =
     (let m = rdp_max_attempts (ru_pref (rl_setup lib) ''rdp_reconnect_attempts'') (rd_file s)
                (rg_uint (rd_config s) ''AutoReconnectMaxRetries'')
      in (rdp_set (set_uint ''AutoReconnectMaxRetries'' m) s)\<lparr>rd_ctx := (rd_ctx s)\<lparr>rx_is_reconnecting := True\<rparr>,
            rd_stop_reconnecting := False, rd_maxattempts := m, rd_nattempt := 0\<rparr>)"

definition rdp_end_reconnect :: "'w rdp \<Rightarrow> 'w rdp" where
  "rdp_end_reconnect s = s\<lparr>rd_ctx := (rd_ctx s)\<lparr>rx_is_reconnecting := False\<rparr>\<rparr>"

text \<open>The tunnel is opened again, then FreeRDP tries; the results of its attempts are recorded.\<close>

definition rdp_try_reconnect :: "'w rdp_lib \<Rightarrow> 'w rdp \<Rightarrow> (bool \<times> 'w rdp) c_result" where
  "rdp_try_reconnect lib s =
     c_bind (remmina_rdp_tunnel_init lib s) (\<lambda>(ok, s).
       if \<not> ok then Ret (False, s)
       else let (r, s) = rdp_do (rl_reconnect lib) s in Ret (r, s\<lparr>rd_reconnects := rd_reconnects s @ [r]\<rparr>))"

text \<open>The wait after an attempt, in which the user may close the window.\<close>

definition rdp_reconnect_wait :: "'w rdp_lib \<Rightarrow> 'w rdp \<Rightarrow> 'w rdp c_result" where
  "rdp_reconnect_wait lib s =
     (let (closes, s) = rdp_do (rl_wait lib) s in if closes then remmina_rdp_close_connection s else Ret s)"

text \<open>The loop; the first argument is the number of attempts that are left.\<close>

fun rdp_reconnect_loop :: "'w rdp_lib \<Rightarrow> nat \<Rightarrow> 'w rdp \<Rightarrow> (bool \<times> 'w rdp) c_result" where
  "rdp_reconnect_loop lib 0 s = Ret (False, s\<lparr>rd_nattempt := Suc (rd_nattempt s)\<rparr>)"
| "rdp_reconnect_loop lib (Suc k) s =
     (let s = s\<lparr>rd_nattempt := Suc (rd_nattempt s)\<rparr> in
      if rd_stop_reconnecting s then Ret (False, s)
      else c_bind (rdp_try_reconnect lib (s\<lparr>rd_progress := Suc (rd_progress s)\<rparr>)) (\<lambda>(ok, s).
             if ok then Ret (True, s)
             else c_bind (rdp_reconnect_wait lib s) (rdp_reconnect_loop lib k)))"

text \<open>Only after an error of the network, and only when the profile allows it.\<close>

definition rf_auto_reconnect :: "'w rdp_lib \<Rightarrow> 'w rdp \<Rightarrow> (bool \<times> 'w rdp) c_result" where
  "rf_auto_reconnect lib s =
     (let s = rdp_begin_reconnect lib s in
      if \<not> rl_error_info_network lib (rd_world s) \<or> \<not> rg_bool (rd_config s) ''AutoReconnectionEnabled''
      then Ret (False, rdp_end_reconnect s)
      else c_bind (rdp_reconnect_loop lib (nat (sint (rd_maxattempts s))) (s\<lparr>rd_progress := Suc (rd_progress s)\<rparr>))
             (\<lambda>(ok, s). Ret (ok, rdp_end_reconnect s)))"

section \<open>The loop of a session\<close>

definition remmina_rdp_idle_keypress :: "rfile \<Rightarrow> gint \<Rightarrow> guint list option" where
  "remmina_rdp_idle_keypress rf opts =
     (if rdp_viewonly rf then None
      else if opts = 1 then Some [0xffe9, 0xff09]
      else if opts = 2 then Some [0xffeb, 0xff09]
      else None)"

text \<open>What is done when the user was idle: a motion of the pointer, and keys.\<close>

definition rdp_idle_jitter :: "int \<Rightarrow> 'w rdp \<Rightarrow> 'w rdp" where
  "rdp_idle_jitter now s =
     (let t = sint (remmina_file_get_int (rd_file s) ''rdp_mouse_jitter'' 0) in
      if t > 0 \<and> now - rd_last_time s > t
      then s\<lparr>rd_ctx := remmina_rdp_mouse_jitter (rd_file s) (rd_ctx s), rd_last_time := now\<rparr>
      else s)"

definition rdp_idle_keys :: "int \<Rightarrow> 'w rdp \<Rightarrow> 'w rdp" where
  "rdp_idle_keys now s =
     (let t = sint (remmina_file_get_int (rd_file s) ''rdp_idle_keypress_time'' 0) in
      if t > 0 \<and> now - rd_last_keypress s > t
      then s\<lparr>rd_last_keypress := now,
             rd_keys := rd_keys s @ (case remmina_rdp_idle_keypress (rd_file s)
                (remmina_file_get_int (rd_file s) ''rdp_idle_keypress_combo'' 0) of None \<Rightarrow> [] | Some ks \<Rightarrow> [ks])\<rparr>
      else s)"

text \<open>The queue is sent when there is a byte in the pipe; at most 100 bytes are then read from it.\<close>

definition rdp_send_queue :: "int \<Rightarrow> 'w rdp \<Rightarrow> 'w rdp c_result" where
  "rdp_send_queue now s =
     (if rx_event_pipe (rd_ctx s) = 0 then Ret s
      else c_bind (rf_process_event_queue (rd_file s) (rd_ctx s)) (\<lambda>(msgs, rx).
             let idle = (case rx_event_queue (rd_ctx s) of None \<Rightarrow> True | Some q \<Rightarrow> q = []);
                 s = (if idle then s else s\<lparr>rd_last_time := now, rd_last_keypress := now\<rparr>)
             in Ret (s\<lparr>rd_ctx := rx\<lparr>rx_event_pipe := rx_event_pipe rx - 100\<rparr>, rd_sent := rd_sent s @ msgs\<rparr>)))"

text \<open>A round; \<open>True\<close> when the loop goes on. An event of the user may be to end the session.\<close>

definition rdp_check :: "'w rdp_lib \<Rightarrow> bool \<Rightarrow> 'w rdp \<Rightarrow> (bool \<times> 'w rdp) c_result" where
  "rdp_check lib ok s =
     (if ok then Ret (True, s)
      else c_bind (rf_auto_reconnect lib s) (\<lambda>(again, s). Ret (again, if again then s\<lparr>rd_error := None\<rparr> else s)))"

definition rdp_round_events :: "'w rdp_lib \<Rightarrow> rdp_round \<Rightarrow> 'w rdp \<Rightarrow> (bool \<times> 'w rdp) c_result" where
  "rdp_round_events lib r s =
     (let sent = length (rd_sent s) in
      c_bind (rdp_send_queue (rr_now r) (s\<lparr>rd_ctx := rr_ctx r (rd_ctx s)\<rparr>)) (\<lambda>s.
        if rr_abort r \<or> Msg_abort \<in> set (drop sent (rd_sent s)) then Ret (False, s)
        else rdp_check lib (rr_check r) s))"

definition rdp_do_round :: "'w rdp_lib \<Rightarrow> 'w rdp \<Rightarrow> (bool \<times> 'w rdp) c_result" where
  "rdp_do_round lib s =
     (let (r, s) = rdp_do (rl_round lib) s in
      if rr_disconnect r then Ret (False, s)
      else let s = rdp_idle_keys (rr_time_keypress r) (rdp_idle_jitter (rr_time_jitter r) s)
           in if rr_waited r then rdp_round_events lib r s else Ret (False, s))"

fun rdp_rounds :: "'w rdp_lib \<Rightarrow> nat \<Rightarrow> 'w rdp \<Rightarrow> 'w rdp c_result option" where
  "rdp_rounds lib 0 s = None"
| "rdp_rounds lib (Suc n) s =
     (case rdp_do_round lib s of
        Crash \<Rightarrow> Some Crash
      | Ret (goes_on, s) \<Rightarrow> if goes_on then rdp_rounds lib n s else Some (Ret s))"

definition remmina_rdp_main_loop :: "'w rdp_lib \<Rightarrow> nat \<Rightarrow> 'w rdp \<Rightarrow> 'w rdp c_result option" where
  "remmina_rdp_main_loop lib n s =
     (let now = rl_time lib (rd_world s) in
      map_option (\<lambda>r. c_bind r (\<lambda>s. Ret (s\<lparr>rd_disconnects := Suc (rd_disconnects s)\<rparr>)))
        (rdp_rounds lib n (s\<lparr>rd_last_time := now, rd_last_keypress := now\<rparr>)))"

section \<open>One connection\<close>

text \<open>The directory of FreeRDP, if it can be written, and an invitation file, if one is used.\<close>

definition rdp_assistance :: "'w rdp_lib \<Rightarrow> 'w rdp \<Rightarrow> bool \<times> 'w rdp" where
  "rdp_assistance lib s =
     (if \<not> get_flag (rd_file s) ''assistance_mode'' then (True, s)
      else case (get_str (rd_file s) ''assistance_file'', get_str (rd_file s) ''assistance_pass'') of
             (Some file, Some pass) \<Rightarrow>
               (case rl_assist lib file pass (rd_config s) of
                  Assist_settings c \<Rightarrow> (True, s\<lparr>rd_config := c\<rparr>)
                | _ \<Rightarrow> (False, s))
           | _ \<Rightarrow> (False, s))"

definition rdp_start :: "'w rdp_lib \<Rightarrow> 'w rdp \<Rightarrow> bool \<times> 'w rdp" where
  "rdp_start lib s =
     (let (ok, s) = rdp_assistance lib (rdp_set (set_str_if ''ConfigPath'' (rl_datapath lib)) s) in
      (ok, if ok \<and> \<not> get_flag (rd_file s) ''useproxyenv''
           then rdp_set (set_uint ''ProxyType'' PROXY_TYPE_IGNORE) s else s))"

text \<open>
  The settings are kept; the monitors go into the context, the size to the widget. The depth is
  32 bits when a codec was chosen with the colour depth.
\<close>

definition rdp_apply :: "rdp_setup \<Rightarrow> rfile \<Rightarrow> rdp_config \<Rightarrow> 'w rdp \<Rightarrow> 'w rdp" where
  "rdp_apply ru rf c s =
     s\<lparr>rd_bpp := (if rdp_uses_codec (rdp_set_depth ru (rd_file s) (rdp_set_reconnect (rd_file s) (rd_config s))) then 32
                  else rd_bpp s),
       rd_file := rf, rd_config := c, rd_ctx := (rd_ctx s)\<lparr>rx_settings := rg_monitors c\<rparr>,
       rd_width := rg_uint c ''DesktopWidth'', rd_height := rg_uint c ''DesktopHeight''\<rparr>"

text \<open>An error is shown only while the context belongs to the widget.\<close>

definition rdp_connected :: "'w rdp_lib \<Rightarrow> nat \<Rightarrow> bool \<times> rdp_error \<Rightarrow> 'w rdp \<Rightarrow> (bool \<times> 'w rdp) c_result option" where
  "rdp_connected lib n result s =
     (let (ok, e) = result in
      if \<not> ok then Some (Ret (False, if rd_attached s then rdp_connect_error e s else s))
      else if rd_attached s \<and> e = Err_none \<and> \<not> rd_cancelled s
      then map_option (\<lambda>r. c_bind r (\<lambda>s. Ret (True, s))) (remmina_rdp_main_loop lib n s)
      else Some (Ret (True, s)))"

text \<open>The bound \<open>n\<close> is for the requests of the connection and for the rounds of the session.\<close>

definition rdp_connect :: "'w rdp_lib \<Rightarrow> nat \<Rightarrow> 'w rdp \<Rightarrow> (bool \<times> 'w rdp) c_result option" where
  "rdp_connect lib n s =
     (case rdp_configure (rl_setup lib) (rl_static_ok lib) (rd_port_in s) (rd_interactive s) (rd_file s) (rd_config s) of
        Crash \<Rightarrow> Some Crash
      | Ret (rf, c) \<Rightarrow>
          (case rdp_freerdp_connect lib n (rdp_apply (rl_setup lib) rf c s) of
             None \<Rightarrow> None
           | Some Crash \<Rightarrow> Some Crash
           | Some (Ret (result, s)) \<Rightarrow> rdp_connected lib n result s))"

text \<open>Without a context the first member that is read is read through NULL.\<close>

definition remmina_rdp_main :: "'w rdp_lib \<Rightarrow> nat \<Rightarrow> 'w rdp \<Rightarrow> (bool \<times> 'w rdp) c_result option" where
  "remmina_rdp_main lib n s =
     (if \<not> rd_attached s then Some Crash
      else let (ok, s) = rdp_start lib s in
           if \<not> ok then Some (Ret (False, s))
           else case remmina_rdp_tunnel_init lib s of
                  Crash \<Rightarrow> Some Crash
                | Ret (ok, s) \<Rightarrow> if ok then rdp_connect lib n s else Some (Ret (False, s)))"

section \<open>The thread\<close>

text \<open>Attempts go on while the last one ended with a failed login that no error was shown for.\<close>

definition rdp_again :: "'w rdp \<Rightarrow> bool" where
  "rdp_again s \<longleftrightarrow> rd_error s = None \<and> rd_interactive s \<and> \<not> rd_cancelled s"

fun rdp_attempts :: "'w rdp_lib \<Rightarrow> nat \<Rightarrow> nat \<Rightarrow> 'w rdp \<Rightarrow> 'w rdp c_result option" where
  "rdp_attempts lib 0 n s = None"
| "rdp_attempts lib (Suc m) n s =
     (case remmina_rdp_main lib n s of
        None \<Rightarrow> None
      | Some Crash \<Rightarrow> Some Crash
      | Some (Ret (_, s)) \<Rightarrow> if rdp_again s then rdp_attempts lib m n s else Some (Ret s))"

text \<open>On the main thread the context is freed, and the widget is told unless it was told before.\<close>

definition complete_cleanup_on_main_thread :: "'w rdp \<Rightarrow> 'w rdp" where
  "complete_cleanup_on_main_thread s =
     (let s = (if rd_attached s then rdp_detach s else s)
      in s\<lparr>rd_ctx := (rd_ctx s)\<lparr>rx_connected := False, rx_clipboard_context := False\<rparr>\<rparr>)"

definition remmina_rdp_main_thread :: "'w rdp_lib \<Rightarrow> nat \<Rightarrow> nat \<Rightarrow> 'w rdp \<Rightarrow> 'w rdp c_result option" where
  "remmina_rdp_main_thread lib m n s =
     map_option (\<lambda>r. c_bind r (\<lambda>s. Ret (complete_cleanup_on_main_thread s)))
       (rdp_attempts lib m n (s\<lparr>rd_interactive := False\<rparr>))"

section \<open>Start and features\<close>

text \<open>The filter for the kinds of authentication, when there is one.\<close>

definition rdp_init_config :: "rdp_setup \<Rightarrow> rdp_config \<Rightarrow> rdp_config" where
  "rdp_init_config ru c = set_str_if ''AuthenticationPackageList'' (non_empty (ru_pref ru ''rdp_auth_filter'')) c"

definition remmina_rdp_event_init :: "rdp_setup \<Rightarrow> rdp_ctx \<Rightarrow> rdp_ctx" where
  "remmina_rdp_event_init ru rx =
     (remmina_rdp_event_init_keymap (ru_pref ru ''rdp_map_keycode'')
        (rx\<lparr>rx_use_client_keymap :=
              (case ru_pref ru ''rdp_use_client_keymap'' of None \<Rightarrow> False | Some v \<Rightarrow> prefix ''1'' v)\<rparr>))
       \<lparr>rx_pressed_keys := [], rx_event_queue := Some [], rx_event_pipe := 0\<rparr>"

text \<open>A new session; \<open>depth\<close> is the depth of the screen.\<close>

definition remmina_rdp_init :: "rdp_setup \<Rightarrow> gint \<Rightarrow> 'w rdp \<Rightarrow> 'w rdp" where
  "remmina_rdp_init ru depth s =
     s\<lparr>rd_attached := True, rd_cancelled := False, rd_stop_reconnecting := False, rd_bpp := depth,
       rd_config := rdp_init_config ru (rd_config s),
       rd_ctx := remmina_rdp_event_init ru
         ((rd_ctx s)\<lparr>rx_connected := False, rx_is_reconnecting := False, rx_last_x := 0, rx_last_y := 0\<rparr>)\<rparr>"

text \<open>The name of the thread: letters and digits of the name of the profile, in 16 bytes.\<close>

definition is_alnum :: "char \<Rightarrow> bool" where
  "is_alnum c \<longleftrightarrow> isdigit c \<or> CHR ''A'' \<le> c \<and> c \<le> CHR ''Z'' \<or> CHR ''a'' \<le> c \<and> c \<le> CHR ''z''"

definition rdp_thread_name :: "cstr \<Rightarrow> string" where
  "rdp_thread_name name =
     (case name of
        None \<Rightarrow> ''RemmRDP:<NONAM>''
      | Some p \<Rightarrow> take 15 (''RemmRDP:'' @ filter is_alnum p))"

text \<open>Whether the thread could be started, and its name.\<close>

definition remmina_rdp_open_connection :: "scale_mode \<Rightarrow> bool \<Rightarrow> 'w rdp \<Rightarrow> string option \<times> 'w rdp" where
  "remmina_rdp_open_connection scale created s =
     (let s = s\<lparr>rd_ctx := (rd_ctx s)\<lparr>rx_scale := scale\<rparr>\<rparr> in
      if created then (Some (rdp_thread_name (get_str (rd_file s) ''name'')), s)
      else (None, rdp_fail ''Could not start pthread.'' s))"

definition rdp_feature_multimon :: "guint \<Rightarrow> 'w rdp \<Rightarrow> 'w rdp" where
  "rdp_feature_multimon timer s =
     (let s = (if get_flag (rd_file s) ''multimon''
               then (rdp_set (set_bools [(''UseMultimon'', True), (''Fullscreen'', True)]) s)
                      \<lparr>rd_ctx := remmina_rdp_event_send_delayed_monitor_layout timer (rd_ctx s)\<rparr>
               else s)
      in if get_flag (rd_file s) ''force_multimon'' then rdp_set (set_bool ''ForceMultimon'' True) s else s)"

text \<open>The size of the desktop changed: the widget takes it over.\<close>

definition rf_desktop_resize :: "'w rdp \<Rightarrow> 'w rdp" where
  "rf_desktop_resize s = s\<lparr>rd_width := rg_uint (rd_config s) ''DesktopWidth'', rd_height := rg_uint (rd_config s) ''DesktopHeight''\<rparr>"

text \<open>The damaged areas that are handed to the main thread after FreeRDP painted; \<open>None\<close> without any.\<close>

definition rf_end_paint :: "bool \<Rightarrow> int \<Rightarrow> rect list \<Rightarrow> rect list option" where
  "rf_end_paint null ninvalid cinvalid =
     (if null \<or> ninvalid < 1 then None else Some (take (nat ninvalid) cinvalid))"

end
