(* ===== verification/RdpFacts.thy ===== *)
theory RdpFacts
  imports RdpThread
begin

text \<open>
  What the steps of an RDP session keep: the settings that a group of \<open>remmina_rdp_main\<close> does
  not touch, and, by two locales, the relations between the states of the thread before and
  after a step that every run of the thread then satisfies.
\<close>

section \<open>Settings\<close>

named_theorems rdp_settings

lemma setting_fields [simp]:
  "rg_bool (set_bool k v c) = (rg_bool c)(k := v)" "rg_uint (set_bool k v c) = rg_uint c"
  "rg_string (set_bool k v c) = rg_string c" "rg_monitors (set_bool k v c) = rg_monitors c"
  "rg_bool (set_uint k i c) = rg_bool c" "rg_uint (set_uint k i c) = (rg_uint c)(k := i)"
  "rg_string (set_uint k i c) = rg_string c" "rg_monitors (set_uint k i c) = rg_monitors c"
  "rg_bool (set_str k t c) = rg_bool c" "rg_uint (set_str k t c) = rg_uint c"
  "rg_string (set_str k t c) = (rg_string c)(k := t)" "rg_monitors (set_str k t c) = rg_monitors c"
  "rg_bool (add_channel ch c) = rg_bool c" "rg_uint (add_channel ch c) = rg_uint c"
  "rg_string (add_channel ch c) = rg_string c" "rg_monitors (add_channel ch c) = rg_monitors c"
  "rg_bool (add_device d c) = rg_bool c" "rg_uint (add_device d c) = rg_uint c"
  "rg_string (add_device d c) = rg_string c" "rg_monitors (add_device d c) = rg_monitors c"
  by (simp_all add: set_bool_def set_uint_def set_str_def add_channel_def add_device_def)

lemma set_bools_simps [simp]:
  "set_bools [] c = c" "set_bools ((k, v) # kvs) c = set_bools kvs (set_bool k v c)"
  by (simp_all add: set_bools_def)

lemma set_bools_other [simp]:
  "rg_uint (set_bools kvs c) = rg_uint c" "rg_string (set_bools kvs c) = rg_string c"
  "rg_monitors (set_bools kvs c) = rg_monitors c"
  by (induction kvs arbitrary: c) auto

text \<open>The last value for a switch is the one that stays.\<close>

lemma set_bools_value: "rg_bool (set_bools kvs c) k = (case map_of (rev kvs) k of Some v \<Rightarrow> v | None \<Rightarrow> rg_bool c k)"
proof (induction kvs arbitrary: c)
  case (Cons kv kvs)
  then show ?case by (cases kv) (auto simp: map_add_def split: option.split)
qed simp

lemma set_bools_frame [rdp_settings]: "k \<notin> fst ` set kvs \<Longrightarrow> rg_bool (set_bools kvs c) k = rg_bool c k"
  by (induction kvs arbitrary: c) auto

lemma set_str_if_fields [simp]:
  "rg_bool (set_str_if k t c) = rg_bool c" "rg_uint (set_str_if k t c) = rg_uint c"
  "rg_string (set_str_if k t c) = (case t of None \<Rightarrow> rg_string c | Some _ \<Rightarrow> (rg_string c)(k := t))"
  by (simp_all add: set_str_if_def split: option.splits)

text \<open>A setting of FreeRDP that a list of arguments does not reach.\<close>

lemma fold_frame:
  assumes "\<And>x c. x \<in> set xs \<Longrightarrow> get (f x c) = get c"
  shows "get (fold f xs c) = get c"
  using assms by (induction xs arbitrary: c) auto

lemma c_bind_not_Crash: "r \<noteq> Crash \<Longrightarrow> (\<And>x. r = Ret x \<Longrightarrow> f x \<noteq> Crash) \<Longrightarrow> c_bind r f \<noteq> Crash"
  by (cases r) auto

section \<open>The switches, group by group\<close>

abbreviation "h264_keys \<equiv> [''GfxH264'', ''GfxAVC444'']"
abbreviation "security_keys \<equiv> [''RdpSecurity'', ''TlsSecurity'', ''NlaSecurity'', ''ExtSecurity'']"
abbreviation "gateway_keys \<equiv> [''GatewayEnabled'', ''GatewayUseSameCredentials'']"

abbreviation "smartcard_keys \<equiv> [''SmartcardLogon'']"

abbreviation "kept_keys \<equiv> h264_keys @ security_keys @ gateway_keys @ smartcard_keys"

lemma rdp_login_bool [rdp_settings]:
  assumes "k \<in> set (h264_keys @ security_keys @ smartcard_keys)"
  shows "rg_bool (rdp_set_credentials rf c) k = rg_bool c k"
    "rg_bool (rdp_set_proxy rf c) k = rg_bool c k"
    "rg_bool (rdp_set_gateway ru rf port c) k = rg_bool c k"
proof -
  show "rg_bool (rdp_set_credentials rf c) k = rg_bool c k"
    using assms by (auto simp: rdp_set_credentials_def Let_def)
  show "rg_bool (rdp_set_proxy rf c) k = rg_bool c k"
    by (auto simp: rdp_set_proxy_def rdp_proxy_type_def Let_def split: option.splits)
  have server: "rg_bool (rdp_gateway_server ru rf port c) k = rg_bool c k" for c
  proof -
    have k: "k \<notin> {''GatewayEnabled'', ''GatewayUseSameCredentials'', ''GatewayHttpUseWebsockets'', ''GatewayRpcTransport'',
        ''GatewayHttpTransport''}"
      using assms by auto
    have "fst ` set (rdp_gateway_transport t) \<subseteq> {''GatewayRpcTransport'', ''GatewayHttpTransport''}" for t
      by (auto simp add: rdp_gateway_transport_def)
    then have "k \<notin> fst ` set (rdp_gateway_transport t)" for t
      using k by blast
    with k show ?thesis
      by (simp add: rdp_gateway_server_def Let_def split_beta set_bools_frame split: option.split)
  qed
  have own: "rg_bool (rdp_gateway_own rf s q c) k = rg_bool c k" for s q c
    using assms by (auto simp: rdp_gateway_own_def split: option.splits)
  show "rg_bool (rdp_set_gateway ru rf port c) k = rg_bool c k"
    by (simp add: rdp_set_gateway_def rdp_gateway_usage_def rdp_gateway_same_def own server)
qed

lemma rdp_client_bool [rdp_settings]:
  assumes "k \<in> set kept_keys"
  shows "rg_bool (rdp_set_client ru rf c) k = rg_bool c k"
  using assms by (auto simp: rdp_set_client_def Let_def split: option.splits)

lemma rdp_quality_bool [rdp_settings]: "rg_bool (rdp_set_quality ru rf c) = rg_bool c"
  by (simp add: rdp_set_quality_def Let_def)

lemma rdp_split_bool [rdp_settings]:
  assumes "k \<in> set kept_keys"
  shows "rg_bool (rdp_split_flags ru c) k = rg_bool c k"
  using assms by (auto simp: rdp_split_flags_def performance_keys_def)

lemma rdp_keyboard_bool [rdp_settings]: "rg_bool (rdp_set_keyboard ru rf c) = rg_bool c"
  by (simp add: rdp_set_keyboard_def)

lemma rdp_console_bool [rdp_settings]:
  assumes "k \<in> set kept_keys"
  shows "rg_bool (snd (rdp_set_console rf c)) k = rg_bool c k"
  using assms by (auto simp: rdp_set_console_def Let_def split: option.splits)

lemma rdp_display_bool [rdp_settings]:
  assumes "k \<in> set kept_keys"
  shows "rg_bool (rdp_set_display ru c) k = rg_bool c k"
  using assms by (auto simp: rdp_set_display_def Let_def split: prod.splits)

lemma rdp_security_keys:
  "fst ` set (rdp_security_bools sec) \<subseteq> set (security_keys @ [''UseRdpSecurityLayer'', ''NegotiateSecurityLayer''])"
  by (simp add: rdp_security_bools_def)

text \<open>What follows the choice of the security touches none of the keys.\<close>

lemma rdp_set_security_bool:
  assumes "k \<in> set (h264_keys @ security_keys @ gateway_keys)"
  shows "rg_bool (rdp_set_security rf c) k = rg_bool (set_bools (rdp_security_bools (get_str rf ''security'')) c) k"
proof -
  have "k \<notin> {''SmartcardLogon'', ''RedirectSmartCards'', ''PasswordIsSmartcardPin'', ''CompressionEnabled'', ''FastPathInput'',
      ''FastPathOutput''}"
    using assms by auto
  then show ?thesis by (simp add: rdp_set_security_def Let_def split: option.split)
qed

lemma rdp_security_bool [rdp_settings]:
  assumes "k \<in> set (h264_keys @ gateway_keys)"
  shows "rg_bool (rdp_set_security rf c) k = rg_bool c k"
proof -
  have "k \<notin> fst ` set (rdp_security_bools (get_str rf ''security''))"
    using rdp_security_keys[of "get_str rf ''security''"] assms by auto
  moreover have "k \<in> set (h264_keys @ security_keys @ gateway_keys)" using assms by auto
  ultimately show ?thesis by (simp add: rdp_set_security_bool set_bools_frame)
qed

lemma rdp_security_no_smartcard:
  assumes "\<not> get_flag rf ''smartcard-logon''"
  shows "rg_bool (rdp_set_security rf c) ''SmartcardLogon'' = rg_bool c ''SmartcardLogon''"
proof -
  have "''SmartcardLogon'' \<notin> fst ` set (rdp_security_bools (get_str rf ''security''))"
    using rdp_security_keys[of "get_str rf ''security''"] by auto
  with assms show ?thesis
    by (simp add: rdp_set_security_def Let_def set_bools_frame split: option.split)
qed

lemma rdp_network_bool [rdp_settings]:
  assumes "k \<in> set (security_keys @ gateway_keys @ smartcard_keys)"
  shows "rg_bool (rdp_set_network ru rf c) k = rg_bool c k"
proof -
  have "k \<notin> fst ` set kvs" if "connection_type_bools h t = Some kvs" for h t kvs
    using that assms by (auto simp: connection_type_bools_def rdp_experience_def split: if_splits)
  then show ?thesis
    by (auto simp: rdp_set_network_def remmina_rdp_set_connection_type_def Let_def set_bools_frame split: option.splits)
qed

text \<open>The channels and devices; their groups set switches of their own.\<close>

lemma rdp_channel_bool [rdp_settings]:
  assumes "k \<in> set kept_keys"
  shows "rg_bool (set_bools (rdp_sound_bools sound) c) k = rg_bool c k"
    "rg_bool (snd (rdp_set_microphone rf c)) k = rg_bool c k"
    "rg_bool (rdp_set_audio_output static_ok rf c) k = rg_bool c k"
    "rg_bool (rdp_set_channels rf c) k = rg_bool c k"
    "rg_bool (rdp_set_timeout rf c) k = rg_bool c k"
    "rg_bool (rdp_set_ip rf c) k = rg_bool c k"
proof -
  have k: "k \<notin> {''RemoteConsoleAudio'', ''AudioPlayback'', ''AudioCapture'', ''PreferIPv6OverIPv4''}"
    using assms by auto
  show "rg_bool (set_bools (rdp_sound_bools sound) c) k = rg_bool c k"
    by (rule set_bools_frame) (use k in \<open>auto simp: rdp_sound_bools_def split: option.splits if_splits\<close>)
  show "rg_bool (snd (rdp_set_microphone rf c)) k = rg_bool c k"
    using k by (simp add: rdp_set_microphone_def split: option.split)
  show "rg_bool (rdp_set_audio_output static_ok rf c) k = rg_bool c k"
    by (simp add: rdp_set_audio_output_def Let_def split: option.split)
  have named: "rg_bool (rdp_named_channel ch n v c) = rg_bool c" for ch n v c
    by (simp add: rdp_named_channel_def split: option.split)
  show "rg_bool (rdp_set_channels rf c) k = rg_bool c k"
    by (simp add: rdp_set_channels_def Let_def named split: option.split)
  show "rg_bool (rdp_set_timeout rf c) k = rg_bool c k"
    by (simp add: rdp_set_timeout_def Let_def split: option.split)
  show "rg_bool (rdp_set_ip rf c) k = rg_bool c k"
    using k by (simp add: rdp_set_ip_def Let_def)
qed

lemma rdp_folder_bool [rdp_settings]:
  assumes "k \<in> set kept_keys"
  shows "rg_bool (snd (rdp_set_folders rf c)) k = rg_bool c k"
proof -
  have "k \<noteq> ''RedirectClipboard''" using assms by auto
  then show ?thesis
    by (simp add: rdp_set_folders_def Let_def fold_frame[where get = rg_bool] split: option.split)
qed

lemma rdp_printer_bool [rdp_settings]:
  assumes "k \<in> set kept_keys"
  shows "rg_bool (rdp_share_printers ru rf c) k = rg_bool c k"
proof -
  have k: "k \<noteq> ''RedirectPrinters''" "k \<noteq> ''DeviceRedirection''" using assms by auto
  then have "rg_bool (remmina_rdp_set_printers rf n c) k = rg_bool c k" for n c
    by (simp add: remmina_rdp_set_printers_def Let_def split: option.split)
  then have "rg_bool (fold (remmina_rdp_set_printers rf) ns c) k = rg_bool c k" for ns
    by (rule fold_frame[where get = "\<lambda>c. rg_bool c k"])
  then show ?thesis by (simp add: rdp_share_printers_def)
qed

lemma rdp_device_bool [rdp_settings]:
  assumes "k \<in> set kept_keys"
  shows "rg_bool (rdp_share_smartcard rf c) k = rg_bool c k"
    "rg_bool (rdp_share_serial rf c) k = rg_bool c k"
    "rg_bool (rdp_share_parallel rf c) k = rg_bool c k"
    "rg_bool (rdp_set_multitransport rf c) k = rg_bool c k"
proof -
  have k: "k \<notin> {''DeviceRedirection'', ''RedirectSmartCards'', ''PasswordIsSmartcardPin'', ''RedirectSerialPorts'',
      ''RedirectParallelPorts'', ''SupportMultitransport''}"
    using assms by auto
  show "rg_bool (rdp_share_smartcard rf c) k = rg_bool c k"
    using k by (simp add: rdp_share_smartcard_def Let_def)
  show "rg_bool (rdp_share_serial rf c) k = rg_bool c k"
    using k by (simp add: rdp_share_serial_def)
  show "rg_bool (rdp_share_parallel rf c) k = rg_bool c k"
    using k by (simp add: rdp_share_parallel_def)
  show "rg_bool (rdp_set_multitransport rf c) k = rg_bool c k"
    using k by (simp add: rdp_set_multitransport_def)
qed

lemma rdp_monitor_bool:
  assumes "rdp_set_monitors ru rf c = Ret (rf', c')" "k \<in> set kept_keys"
  shows "rg_bool c' k = rg_bool c k"
proof -
  have k: "k \<notin> {''UseMultimon'', ''ForceMultimon'', ''Fullscreen'', ''SpanMonitors''}" using assms(2) by auto
  have list: "rg_bool d' = rg_bool d" if "rdp_monitor_list ids d = Ret (ids', d')" for ids ids' d d'
    using that by (auto simp: rdp_monitor_list_def c_bind_Ret_iff split: option.splits if_splits)
  have ids: "rg_bool (rdp_monitor_ids i d) = rg_bool d" for i d
    by (simp add: rdp_monitor_ids_def Let_def)
  have used: "rg_bool d' k = rg_bool d k" if u: "rdp_use_monitors ru rf d = Ret d'" for rf d d'
  proof -
    define d0 where "d0 = set_bool ''Fullscreen'' True
      (if get_flag rf ''force_multimon'' then set_bool ''ForceMultimon'' True (set_bool ''UseMultimon'' True d)
       else set_bool ''UseMultimon'' True d)"
    obtain i d1 where l: "rdp_monitor_list (get_str rf ''monitorids'') d0 = Ret (i, d1)"
      using u by (force simp: rdp_use_monitors_def Let_def c_bind_Ret_iff d0_def)
    have "rg_bool d' = rg_bool d1"
      using u l by (cases "remmina_rdp_monitor_get (ru_set_monitors ru) (ru_gdk_monitors ru) (ru_monitor_buffer ru) i
        (rg_monitors d1)") (auto simp: rdp_use_monitors_def Let_def d0_def[symmetric] ids)
    then show ?thesis using list[OF l] k by (simp add: d0_def)
  qed
  show ?thesis
    using assms(1) k by (auto simp: rdp_set_monitors_def Let_def c_bind_Ret_iff dest!: used split: if_splits)
qed

lemma rdp_depth_bool [rdp_settings]:
  assumes "k \<in> set (security_keys @ gateway_keys @ smartcard_keys)"
  shows "rg_bool (rdp_configure_display ru rf c) k = rg_bool c k"
proof -
  have k: "k \<notin> {''AutoReconnectionEnabled'', ''FastPathOutput'', ''FrameMarkerCommandEnabled'', ''SoftwareGdi''}"
    using assms by auto
  have codecs: "k \<notin> fst ` set kvs" if "rdp_depth_codecs h d = Some kvs" for h d kvs
    using that assms by (auto simp: rdp_depth_codecs_def split: if_splits)
  have depth: "rg_bool (rdp_set_depth ru rf c) k = rg_bool c k" for c
    using k by (auto simp: rdp_set_depth_def Let_def set_bools_frame dest!: codecs split: option.splits)
  have size: "rg_bool (rdp_set_size ru c) = rg_bool c" for c
    by (simp add: rdp_set_size_def rdp_even_width_def rdp_min_size_def Let_def)
  show ?thesis
    using k by (simp add: rdp_configure_display_def size depth rdp_set_codec_def rdp_set_reconnect_def Let_def)
qed

section \<open>The profile\<close>

text \<open>
  The groups change the profile too. They keep the flags that later groups and the panels read,
  and a password is kept or forgotten.
\<close>

definition password_settings :: "string list" where
  "password_settings = [''password'', ''gateway_password'', ''smartcard_pin'']"

definition keeps_passwords :: "rfile \<Rightarrow> rfile \<Rightarrow> bool" where
  "keeps_passwords rf rf' \<longleftrightarrow>
     get_flag rf' ''disablepasswordstoring'' = get_flag rf ''disablepasswordstoring'' \<and>
     (\<forall>k \<in> set password_settings. get_str rf' k = get_str rf k \<or> get_str rf' k = None)"

lemma keeps_passwords_refl [simp]: "keeps_passwords rf rf"
  by (simp add: keeps_passwords_def)

lemma keeps_passwords_trans [trans]: "keeps_passwords rf rf' \<Longrightarrow> keeps_passwords rf' rf'' \<Longrightarrow> keeps_passwords rf rf''"
  unfolding keeps_passwords_def by metis

lemma get_flag_set_string:
  "k' \<noteq> k \<Longrightarrow> k \<noteq> ''resolution'' \<Longrightarrow> get_flag (remmina_file_set_string rf k v) k' = get_flag rf k'"
  by (simp add: get_flag_def remmina_file_get_int_def remmina_file_set_string_def update_conv' split: option.split)

lemma get_flag_set_int: "k' \<noteq> k \<Longrightarrow> get_flag (remmina_file_set_int rf k i) k' = get_flag rf k'"
  by (simp add: get_flag_def remmina_file_get_int_def remmina_file_set_int_def update_conv')

lemma get_str_set_int [simp]: "k \<noteq> k' \<Longrightarrow> get_str (remmina_file_set_int rf k i) k' = get_str rf k'"
  by (simp add: remmina_file_get_string_def remmina_file_set_int_def update_conv')

lemma keeps_passwords_set_int: "k \<notin> set (''disablepasswordstoring'' # password_settings) \<Longrightarrow>
  keeps_passwords rf (remmina_file_set_int rf k i)"
  by (auto simp: keeps_passwords_def password_settings_def get_flag_set_int)

lemma keeps_passwords_set_string:
  assumes "k \<noteq> ''resolution''" "k \<noteq> ''disablepasswordstoring''" "k \<in> set password_settings \<Longrightarrow> v = None"
  shows "keeps_passwords rf (remmina_file_set_string rf k v)"
  using assms by (auto simp: keeps_passwords_def get_flag_set_string get_set_string password_settings_def)

lemma keeps_passwords_other: "k \<notin> set (''resolution'' # ''disablepasswordstoring'' # password_settings) \<Longrightarrow>
  keeps_passwords rf (remmina_file_set_string rf k v)"
  by (rule keeps_passwords_set_string) auto

abbreviation "flag_keys \<equiv> [''multimon'', ''span'', ''smartcard-logon'', ''assistance_mode'', ''useproxyenv'']"

lemma rdp_files_flag:
  assumes "k \<in> set flag_keys"
  shows "get_flag (rdp_reset_gateway rf) k = get_flag rf k"
    "get_flag (fst (rdp_set_console rf c)) k = get_flag rf k"
    "get_flag (fst (rdp_set_microphone rf c)) k = get_flag rf k"
    "get_flag (fst (rdp_set_folders rf c)) k = get_flag rf k"
proof -
  have k: "k \<notin> {''gateway_username'', ''gateway_domain'', ''gateway_password'', ''restricted-admin'', ''microphone'', ''drive'',
      ''sharefolder''}"
    using assms by auto
  show "get_flag (rdp_reset_gateway rf) k = get_flag rf k"
    using k by (simp add: rdp_reset_gateway_def get_flag_set_string)
  show "get_flag (fst (rdp_set_console rf c)) k = get_flag rf k"
    using k by (simp add: rdp_set_console_def Let_def get_flag_set_int split: option.split)
  show "get_flag (fst (rdp_set_microphone rf c)) k = get_flag rf k"
    using k by (simp add: rdp_set_microphone_def get_flag_set_string split: option.split)
  show "get_flag (fst (rdp_set_folders rf c)) k = get_flag rf k"
    using k by (simp add: rdp_set_folders_def rdp_migrate_folder_def Let_def get_flag_set_string split: option.split)
qed

lemma rdp_files_keep:
  "keeps_passwords rf (rdp_reset_gateway rf)"
  "keeps_passwords rf (fst (rdp_set_console rf c))"
  "keeps_passwords rf (fst (rdp_set_microphone rf c))"
  "keeps_passwords rf (fst (rdp_set_folders rf c))"
proof -
  have clear: "keeps_passwords q (remmina_file_set_string q k None)" if "k \<noteq> ''resolution''" "k \<noteq> ''disablepasswordstoring''" for q k
    by (rule keeps_passwords_set_string) (use that in simp_all)
  show "keeps_passwords rf (rdp_reset_gateway rf)"
    unfolding rdp_reset_gateway_def
    by (simp add: keeps_passwords_trans[OF keeps_passwords_trans[OF clear clear] clear])
  have "fst (rdp_set_console rf c) = (case get_str rf ''pth'' of None \<Rightarrow> rf | Some _ \<Rightarrow> remmina_file_set_int rf ''restricted-admin'' 1)"
    by (cases "get_str rf ''pth''") (simp_all add: rdp_set_console_def Let_def)
  moreover have "keeps_passwords rf (remmina_file_set_int rf ''restricted-admin'' 1)"
    by (rule keeps_passwords_set_int) (simp add: password_settings_def)
  ultimately show "keeps_passwords rf (fst (rdp_set_console rf c))"
    by (simp split: option.split)
  show "keeps_passwords rf (fst (rdp_set_microphone rf c))"
    by (simp add: rdp_set_microphone_def keeps_passwords_other password_settings_def split: option.split)
  have "keeps_passwords rf (rdp_migrate_folder rf)"
    using keeps_passwords_trans[OF keeps_passwords_other[of "''drive''"] clear[of "''sharefolder''"]]
    by (simp add: rdp_migrate_folder_def password_settings_def split: option.split)
  then show "keeps_passwords rf (fst (rdp_set_folders rf c))"
    by (simp add: rdp_set_folders_def Let_def)
qed

lemma rdp_monitors_keep:
  assumes "rdp_set_monitors ru rf c = Ret (rf', c')"
  shows "keeps_passwords rf rf'"
proof -
  have "keeps_passwords rf (remmina_file_set_int rf ''multimon'' 1)"
    by (rule keeps_passwords_set_int) (simp add: password_settings_def)
  with assms show ?thesis
    by (auto simp: rdp_set_monitors_def Let_def c_bind_Ret_iff split: if_splits)
qed

lemma rdp_configure_keeps:
  assumes "rdp_configure ru static_ok port interactive rf c = Ret (rf', c')"
  shows "keeps_passwords rf rf'"
proof -
  have session: "keeps_passwords q (fst (rdp_configure_session ru q d))" for q d
    by (simp add: rdp_configure_session_def Let_def split_beta rdp_files_keep)
  have channels: "keeps_passwords q (fst (rdp_configure_channels static_ok q d))" for q d
    unfolding rdp_configure_channels_def Let_def split_beta
    by (rule keeps_passwords_trans[OF rdp_files_keep(3) rdp_files_keep(4)])
  have login: "keeps_passwords q (fst (rdp_configure_login ru port q d))" for q d
    by (simp add: rdp_configure_login_def Let_def rdp_files_keep)
  have devices: "keeps_passwords q q'" if "rdp_configure_devices ru q d = Ret (q', d')" for q q' d d'
    using that by (auto simp: rdp_configure_devices_def c_bind_Ret_iff dest: rdp_monitors_keep)
  have "keeps_passwords (fst (rdp_configure_channels static_ok (fst (rdp_configure_session ru
      (fst (rdp_configure_login ru port rf (rdp_configure_display ru rf c)))
      (snd (rdp_configure_login ru port rf (rdp_configure_display ru rf c)))))
      (snd (rdp_configure_session ru (fst (rdp_configure_login ru port rf (rdp_configure_display ru rf c)))
      (snd (rdp_configure_login ru port rf (rdp_configure_display ru rf c))))))) rf'"
    using assms by (auto simp: rdp_configure_def Let_def split_beta c_bind_Ret_iff dest!: devices)
  then show ?thesis
    by (rule keeps_passwords_trans[OF keeps_passwords_trans[OF keeps_passwords_trans[OF login session] channels]])
qed

text \<open>Only the monitors can make the program crash, and without them the flags stay.\<close>

lemma rdp_configure_returns:
  assumes "\<not> get_flag rf ''multimon''" "\<not> get_flag rf ''span''"
  shows "\<exists>rf' c'. rdp_configure ru static_ok port interactive rf c = Ret (rf', c') \<and>
    (\<forall>k \<in> set flag_keys. get_flag rf' k = get_flag rf k)"
proof -
  define login where "login = rdp_configure_login ru port rf (rdp_configure_display ru rf c)"
  define session where "session = rdp_configure_session ru (fst login) (snd login)"
  define channels where "channels = rdp_configure_channels static_ok (fst session) (snd session)"
  have flags: "get_flag (fst channels) k = get_flag rf k" if "k \<in> set flag_keys" for k
    by (simp add: channels_def session_def login_def rdp_configure_session_def rdp_configure_channels_def rdp_configure_login_def
        Let_def split_beta rdp_files_flag[OF that])
  have "\<exists>d'. rdp_configure_devices ru q d = Ret (q, d')" if "\<not> get_flag q ''multimon''" "\<not> get_flag q ''span''" for q d
    using that by (simp add: rdp_configure_devices_def rdp_set_monitors_def)
  moreover have "\<not> get_flag (fst channels) ''multimon''" "\<not> get_flag (fst channels) ''span''"
    using assms flags by simp_all
  ultimately obtain d' where "rdp_configure_devices ru (fst channels) (snd channels) = Ret (fst channels, d')"
    by blast
  moreover have "rdp_configure ru static_ok port interactive rf c =
      c_bind (rdp_configure_devices ru (fst channels) (snd channels))
        (\<lambda>(rf, c). Ret (rf, if interactive then rdp_forget_credentials c else c))"
    by (simp add: rdp_configure_def channels_def session_def login_def Let_def split_beta)
  ultimately show ?thesis using flags by simp
qed

end
