(* ===== verification/RdpRuns.thy ===== *)
theory RdpRuns
  imports RdpFacts
begin

text \<open>
  What a run of the thread of an RDP session keeps. Most steps change neither the profile nor
  who owns the context, and start no connection; the locale \<open>rdp_steps\<close> carries a relation
  between states over the other ones to a connection and its session, \<open>rdp_runs\<close> to the thread.
\<close>

section \<open>Steps that change nothing of it\<close>

definition rdp_core :: "'w rdp \<Rightarrow> rfile \<times> bool \<times> nat \<times> rdp_config list" where
  "rdp_core s = (rd_file s, rd_attached s, rd_signals s, rd_connects s)"

lemma rdp_do_core: "rdp_core (snd (rdp_do f s)) = rdp_core s"
  by (simp add: rdp_core_def rdp_do_def split: prod.split)

lemma tunnel_init_core:
  assumes "remmina_rdp_tunnel_init lib s = Ret (b, s')"
  shows "rdp_core s' = rdp_core s"
  using assms by (auto simp: remmina_rdp_tunnel_init_def rdp_do_def rdp_set_def rdp_fail_def rdp_core_def Let_def
      split: prod.splits option.splits if_splits)

lemma tunnel_init_fields:
  assumes "remmina_rdp_tunnel_init lib s = Ret (b, s')"
  shows "rd_ctx s' = rd_ctx s" "rd_interactive s' = rd_interactive s" "rd_reconnects s' = rd_reconnects s"
  using assms by (auto simp: remmina_rdp_tunnel_init_def rdp_do_def rdp_set_def rdp_fail_def Let_def
      split: prod.splits option.splits if_splits)

lemma try_reconnect_core:
  assumes "rdp_try_reconnect lib s = Ret (b, s')"
  shows "rdp_core s' = rdp_core s"
proof -
  obtain ok t where t: "remmina_rdp_tunnel_init lib s = Ret (ok, t)"
    and s': "(if \<not> ok then Ret (False, t)
      else let (r, u) = rdp_do (rl_reconnect lib) t in Ret (r, u\<lparr>rd_reconnects := rd_reconnects u @ [r]\<rparr>)) = Ret (b, s')"
    using assms by (auto simp: rdp_try_reconnect_def c_bind_Ret_iff)
  from s' have "rdp_core s' = rdp_core t"
    by (auto simp: rdp_do_def rdp_core_def split: if_splits prod.splits)
  with tunnel_init_core[OF t] show ?thesis by simp
qed

lemma send_queue_core:
  assumes "rdp_send_queue now s = Ret s'"
  shows "rdp_core s' = rdp_core s"
  using assms by (auto simp: rdp_send_queue_def rdp_core_def Let_def c_bind_Ret_iff split: if_splits)

lemma idle_core: "rdp_core (rdp_idle_keys t (rdp_idle_jitter t' s)) = rdp_core s"
  by (simp add: rdp_idle_keys_def rdp_idle_jitter_def rdp_core_def Let_def)

lemma reconnect_edge_core: "rdp_core (rdp_begin_reconnect lib s) = rdp_core s" "rdp_core (rdp_end_reconnect s) = rdp_core s"
  by (simp_all add: rdp_begin_reconnect_def rdp_end_reconnect_def rdp_set_def rdp_core_def Let_def)

lemma post_connect_core: "rdp_core (snd (remmina_rdp_post_connect gdi h264 remap s)) = rdp_core s"
  by (simp add: remmina_rdp_post_connect_def rdp_core_def Let_def)

lemma panel_core: "rdp_core (snd (rdp_panel f s)) = rdp_core s"
  by (simp add: rdp_panel_def rdp_core_def split: prod.split)

lemma question_core:
  "rdp_core (snd (remmina_rdp_present_gateway_message lib d m t s)) = rdp_core s"
  "rdp_core (snd (remmina_rdp_verify_certificate_ex lib subject issuer fp s)) = rdp_core s"
  "rdp_core (snd (remmina_rdp_verify_changed_certificate_ex lib subject issuer fp old s)) = rdp_core s"
  by (auto simp: remmina_rdp_present_gateway_message_def remmina_rdp_verify_certificate_ex_def
      remmina_rdp_verify_changed_certificate_ex_def split_beta panel_core)

text \<open>A panel changes the profile, and nothing else of it.\<close>

lemma store_fields:
  "rd_attached (store_answer keys v s) = rd_attached s" "rd_signals (store_answer keys v s) = rd_signals s"
  "rd_connects (store_answer keys v s) = rd_connects s" "rd_interactive (store_answer keys v s) = rd_interactive s"
  "rd_attached (store_password k p b s) = rd_attached s" "rd_signals (store_password k p b s) = rd_signals s"
  "rd_connects (store_password k p b s) = rd_connects s" "rd_interactive (store_password k p b s) = rd_interactive s"
  by (simp_all add: store_answer_def store_password_def rdp_set_def split: option.split prod.split)

lemma ask_auth_fields:
  "rd_attached (snd (rdp_ask_auth lib ak s)) = rd_attached s" "rd_signals (snd (rdp_ask_auth lib ak s)) = rd_signals s"
  "rd_connects (snd (rdp_ask_auth lib ak s)) = rd_connects s" "rd_interactive (snd (rdp_ask_auth lib ak s)) = rd_interactive s"
  by (simp_all add: rdp_ask_auth_def rdp_store_answers_def store_fields rdp_panel_def Let_def split_beta)

lemma set_core: "rdp_core (rdp_set f s) = rdp_core s"
  by (simp add: rdp_set_def rdp_core_def)

lemma assistance_core: "rdp_core (snd (rdp_assistance lib s)) = rdp_core s"
  by (auto simp: rdp_assistance_def rdp_core_def split: option.split assist_result.split)

lemma start_core: "rdp_core (snd (rdp_start lib s)) = rdp_core s"
  by (simp add: rdp_start_def Let_def split_beta set_core assistance_core)

lemma connect_error_core: "rdp_core (rdp_connect_error e s) = rdp_core s"
  by (simp add: rdp_connect_error_def rdp_fail_def rdp_core_def split: rdp_error.split)

lemma close_core:
  assumes "remmina_rdp_close_connection s = Ret s'"
  shows "rd_attached s \<and> s' = rdp_detach s \<or> rdp_core s' = rdp_core s"
  using assms by (auto simp: remmina_rdp_close_connection_def rdp_core_def Let_def split: if_splits)

section \<open>A connection and its session\<close>

definition rdp_panels :: "auth_keys set" where
  "rdp_panels = {host_auth_keys, gateway_auth_keys, smartcard_auth_keys}"

locale rdp_steps =
  fixes lib :: "'w rdp_lib" and R :: "'w rdp \<Rightarrow> 'w rdp \<Rightarrow> bool"
  assumes internal: "rdp_core s' = rdp_core s \<Longrightarrow> R s s'"
    and trans: "R s t \<Longrightarrow> R t u \<Longrightarrow> R s u"
    and ask: "ak \<in> rdp_panels \<Longrightarrow> R s (snd (rdp_ask_auth lib ak s))"
    and detach: "rd_attached s \<Longrightarrow> R s (rdp_detach s)"
begin

lemma close: "remmina_rdp_close_connection s = Ret s' \<Longrightarrow> R s s'"
  using close_core[of s s'] internal detach by auto

lemma auth: "R s (snd (remmina_rdp_authenticate_ex lib reason u p s))"
  by (auto simp: remmina_rdp_authenticate_ex_def rdp_panels_def intro: ask internal split: auth_reason.split)

lemma serve:
  assumes "rdp_serve lib r s = Ret (b, s')"
  shows "R s s'"
proof (cases r)
  case (Ask_auth reason u p)
  with assms have "s' = snd (remmina_rdp_authenticate_ex lib reason u p s)" by (simp add: rdp_serve_def)
  then show ?thesis by (simp add: auth)
next
  case User_closes
  with assms show ?thesis by (auto simp: rdp_serve_def c_bind_Ret_iff intro: close)
next
  case (Ask_certificate subject issuer fp)
  with assms question_core(2)[of lib subject issuer fp s] show ?thesis
    by (intro internal) (simp add: rdp_serve_def)
next
  case (Ask_changed_certificate subject issuer fp old)
  with assms question_core(3)[of lib subject issuer fp old s] show ?thesis
    by (intro internal) (simp add: rdp_serve_def)
next
  case (Ask_gateway_message d m t)
  with assms question_core(1)[of lib d m t s] show ?thesis
    by (intro internal) (simp add: rdp_serve_def)
next
  case (Ask_post_connect gdi h264 remap)
  with assms post_connect_core[of gdi h264 remap s] show ?thesis
    by (intro internal) (simp add: rdp_serve_def)
next
  case (Connect_done ok e)
  with assms show ?thesis by (intro internal) (simp add: rdp_serve_def)
qed

lemma do_step: "rdp_do f s = (a, s') \<Longrightarrow> R s s'"
  using rdp_do_core[of f s] by (intro internal) simp

lemma world: "R s (s\<lparr>rd_world := w\<rparr>)"
  by (rule internal) (simp add: rdp_core_def)

lemma connect_loop:
  assumes "rdp_connect_loop lib n s = Some (Ret (result, s'))"
  shows "R s s'"
  using assms
proof (induction n arbitrary: s)
  case (Suc n)
  obtain r t where r: "rdp_do (rl_request lib (rd_config s)) s = (r, t)" by force
  have st: "R s t" by (rule do_step[OF r])
  show ?case
  proof (cases "\<exists>ok e. r = Connect_done ok e")
    case True
    with Suc.prems r st show ?thesis by auto
  next
    case False
    with Suc.prems r obtain b u where u: "rdp_serve lib r t = Ret (b, u)"
      and next_u: "rdp_connect_loop lib n (u\<lparr>rd_world := rl_answer lib b (rd_world u)\<rparr>) = Some (Ret (result, s'))"
      by (auto split: rdp_request.splits c_result.splits)
    show ?thesis by (rule trans[OF trans[OF trans[OF st serve[OF u]] world] Suc.IH[OF next_u]])
  qed
qed simp

lemma reconnect_wait: "rdp_reconnect_wait lib s = Ret s' \<Longrightarrow> R s s'"
  by (auto simp: rdp_reconnect_wait_def split: prod.splits if_splits dest: do_step close intro: trans)

lemma reconnect_loop:
  assumes "rdp_reconnect_loop lib k s = Ret (b, s')"
  shows "R s s'"
  using assms
proof (induction k arbitrary: s)
  case 0
  then show ?case by (intro internal) (auto simp: rdp_core_def)
next
  case (Suc k)
  define s1 where "s1 = s\<lparr>rd_nattempt := Suc (rd_nattempt s)\<rparr>"
  define s2 where "s2 = s1\<lparr>rd_progress := Suc (rd_progress s1)\<rparr>"
  have s1: "R s s1" and s2: "R s s2" by (rule internal; simp add: s1_def s2_def rdp_core_def)+
  show ?case
  proof (cases "rd_stop_reconnecting s1")
    case True
    with Suc.prems s1 show ?thesis by (simp add: s1_def)
  next
    case False
    with Suc.prems obtain ok t where t: "rdp_try_reconnect lib s2 = Ret (ok, t)"
      and next_t: "(if ok then Ret (True, t) else c_bind (rdp_reconnect_wait lib t) (rdp_reconnect_loop lib k)) = Ret (b, s')"
      by (auto simp: s1_def s2_def c_bind_Ret_iff)
    have st: "R s t" using s2 internal[OF try_reconnect_core[OF t]] trans by blast
    show ?thesis
    proof (cases ok)
      case True
      with next_t st show ?thesis by simp
    next
      case False
      with next_t obtain u where "rdp_reconnect_wait lib t = Ret u" "rdp_reconnect_loop lib k u = Ret (b, s')"
        by (auto simp: c_bind_Ret_iff)
      then show ?thesis using Suc.IH st reconnect_wait trans by blast
    qed
  qed
qed

lemma auto_reconnect:
  assumes "rf_auto_reconnect lib s = Ret (b, s')"
  shows "R s s'"
proof -
  define s1 where "s1 = rdp_begin_reconnect lib s"
  have s1: "R s s1" unfolding s1_def by (rule internal) (simp add: reconnect_edge_core)
  have fin: "R t (rdp_end_reconnect t)" for t by (rule internal) (simp add: reconnect_edge_core)
  have prog: "R t (t\<lparr>rd_progress := p\<rparr>)" for t p by (rule internal) (simp add: rdp_core_def)
  consider "s' = rdp_end_reconnect s1" | t where
      "rdp_reconnect_loop lib (nat (sint (rd_maxattempts s1))) (s1\<lparr>rd_progress := Suc (rd_progress s1)\<rparr>) = Ret (b, t)"
      "s' = rdp_end_reconnect t"
    using assms by (auto simp: rf_auto_reconnect_def s1_def[symmetric] Let_def c_bind_Ret_iff split: if_splits)
  then show ?thesis
  proof cases
    case 1
    then show ?thesis using s1 fin trans by blast
  next
    case 2
    show ?thesis unfolding 2(2) by (rule trans[OF trans[OF trans[OF s1 prog] reconnect_loop[OF 2(1)]] fin])
  qed
qed

lemma do_round:
  assumes "rdp_do_round lib s = Ret (b, s')"
  shows "R s s'"
proof -
  obtain r t where r: "rdp_do (rl_round lib) s = (r, t)" by force
  define u where "u = rdp_idle_keys (rr_time_keypress r) (rdp_idle_jitter (rr_time_jitter r) t)"
  have t: "R s t" by (rule do_step[OF r])
  have u: "R s u" using t internal[of u t] trans by (simp add: u_def idle_core)
  have ctx: "R u (u\<lparr>rd_ctx := x\<rparr>)" for x by (rule internal) (simp add: rdp_core_def)
  have err: "R v (v\<lparr>rd_error := None\<rparr>)" for v by (rule internal) (simp add: rdp_core_def)
  have check: "R v v'" if "rdp_check lib ok v = Ret (c, v')" for ok v c v'
    using that err by (auto simp: rdp_check_def c_bind_Ret_iff intro: internal split: if_splits dest!: auto_reconnect)
      (metis trans)
  have events: "R u v'" if e: "rdp_round_events lib r u = Ret (c, v')" for c v'
  proof -
    obtain v where v: "rdp_send_queue (rr_now r) (u\<lparr>rd_ctx := rr_ctx r (rd_ctx u)\<rparr>) = Ret v"
      and c: "v' = v \<or> rdp_check lib (rr_check r) v = Ret (c, v')"
      using e by (auto simp: rdp_round_events_def Let_def c_bind_Ret_iff split: if_splits)
    have uv: "R u v" by (rule trans[OF ctx internal[OF send_queue_core[OF v]]])
    from c show ?thesis
    proof
      assume "v' = v"
      with uv show ?thesis by simp
    next
      assume "rdp_check lib (rr_check r) v = Ret (c, v')"
      from trans[OF uv check[OF this]] show ?thesis .
    qed
  qed
  consider "s' = t" | "s' = u" | "rdp_round_events lib r u = Ret (b, s')"
    using assms by (auto simp: rdp_do_round_def r Let_def u_def[symmetric] split: if_splits)
  then show ?thesis
  proof cases
    case 3
    from trans[OF u events[OF this]] show ?thesis .
  qed (simp_all add: t u)
qed

lemma rounds:
  assumes "rdp_rounds lib n s = Some (Ret s')"
  shows "R s s'"
  using assms
proof (induction n arbitrary: s)
  case (Suc n)
  then show ?case
    by (auto split: c_result.splits prod.splits if_splits dest!: do_round intro: trans)
qed simp

lemma main_loop:
  assumes "remmina_rdp_main_loop lib n s = Some (Ret s')"
  shows "R s s'"
proof -
  define s1 where "s1 = s\<lparr>rd_last_time := rl_time lib (rd_world s), rd_last_keypress := rl_time lib (rd_world s)\<rparr>"
  obtain t where t: "rdp_rounds lib n s1 = Some (Ret t)" and s': "s' = t\<lparr>rd_disconnects := Suc (rd_disconnects t)\<rparr>"
    using assms by (auto simp: remmina_rdp_main_loop_def Let_def s1_def[symmetric] c_bind_Ret_iff)
  have "R s s1" "R t s'" by (rule internal; simp add: s1_def s' rdp_core_def)+
  then show ?thesis using rounds[OF t] trans by blast
qed

lemma connected:
  assumes "rdp_connected lib n result s = Some (Ret (b, s'))"
  shows "R s s'"
proof -
  have "R s (rdp_connect_error e s)" for e by (rule internal) (simp add: connect_error_core)
  with assms show ?thesis
    by (auto simp: rdp_connected_def c_bind_Ret_iff intro: internal split: prod.splits if_splits dest!: main_loop)
qed

end

section \<open>The thread\<close>

locale rdp_runs = rdp_steps +
  assumes recorded: "R s (s\<lparr>rd_connects := cs\<rparr>)"
    and configure: "rdp_configure (rl_setup lib) (rl_static_ok lib) port interactive (rd_file s) (rd_config s) = Ret (rf, c) \<Longrightarrow>
      R s (rdp_apply (rl_setup lib) rf c s)"
begin

lemma freerdp_connect:
  assumes "rdp_freerdp_connect lib n s = Some (Ret (result, s'))"
  shows "R s s'"
proof -
  have "R s (rdp_set rdp_pre_connect_settings s)"
    by (rule internal) (rule set_core)
  then show ?thesis
    using connect_loop[OF assms[unfolded rdp_freerdp_connect_def]] recorded trans by blast
qed

lemma connect:
  assumes "rdp_connect lib n s = Some (Ret (b, s'))"
  shows "R s s'"
proof -
  obtain rf c result t where
    c: "rdp_configure (rl_setup lib) (rl_static_ok lib) (rd_port_in s) (rd_interactive s) (rd_file s) (rd_config s) = Ret (rf, c)"
    and t: "rdp_freerdp_connect lib n (rdp_apply (rl_setup lib) rf c s) = Some (Ret (result, t))"
    and s': "rdp_connected lib n result t = Some (Ret (b, s'))"
    using assms by (auto simp: rdp_connect_def split: c_result.splits option.splits)
  show ?thesis
    by (rule trans[OF trans[OF configure[OF c] freerdp_connect[OF t]] connected[OF s']])
qed

lemma main:
  assumes "remmina_rdp_main lib n s = Some (Ret (b, s'))"
  shows "R s s'"
proof -
  obtain ok t where t: "rdp_start lib s = (ok, t)" by force
  have st: "R s t" using start_core[of lib s] by (intro internal) (simp add: t)
  consider "s' = t" | ok' u where "remmina_rdp_tunnel_init lib t = Ret (ok', u)" "s' = u \<or> rdp_connect lib n u = Some (Ret (b, s'))"
    using assms by (auto simp: remmina_rdp_main_def t split: if_splits c_result.splits)
  then show ?thesis
  proof cases
    case 2
    have "R s u" by (rule trans[OF st internal[OF tunnel_init_core[OF 2(1)]]])
    then show ?thesis using 2(2) connect trans by blast
  qed (simp add: st)
qed

lemma attempts:
  assumes "rdp_attempts lib m n s = Some (Ret s')"
  shows "R s s'"
  using assms
proof (induction m arbitrary: s)
  case (Suc m)
  then obtain b t where t: "remmina_rdp_main lib n s = Some (Ret (b, t))"
    and "s' = t \<or> rdp_attempts lib m n t = Some (Ret s')"
    by (auto split: option.splits c_result.splits if_splits)
  then show ?case using main[OF t] Suc.IH trans by blast
qed simp

lemma thread:
  assumes "remmina_rdp_main_thread lib m n s = Some (Ret s')"
  shows "R s s'"
proof -
  obtain t where t: "rdp_attempts lib m n (s\<lparr>rd_interactive := False\<rparr>) = Some (Ret t)"
    and s': "s' = complete_cleanup_on_main_thread t"
    using assms by (auto simp: remmina_rdp_main_thread_def c_bind_Ret_iff)
  have "R s (s\<lparr>rd_interactive := False\<rparr>)" by (rule internal) (simp add: rdp_core_def)
  moreover have "R u (u\<lparr>rd_ctx := x\<rparr>)" for u x by (rule internal) (simp add: rdp_core_def)
  then have "R t s'" using detach[of t] trans by (auto simp: s' complete_cleanup_on_main_thread_def Let_def)
  ultimately show ?thesis using attempts[OF t] trans by blast
qed

end

end
