(* ===== verification/RdpSettings.thy ===== *)
theory RdpSettings
  imports RdpFacts
begin

text \<open>
  What a profile makes of the settings of FreeRDP: H.264 only where it is available, one
  security protocol, the size of the desktop, the credentials of the gateway, and the drivers
  of printers.
\<close>

section \<open>Stage by stage\<close>

lemma rdp_login_stage [rdp_settings]:
  assumes "k \<in> set (h264_keys @ security_keys @ smartcard_keys)"
  shows "rg_bool (snd (rdp_configure_login ru port rf c)) k = rg_bool c k"
  by (simp add: rdp_configure_login_def Let_def rdp_login_bool[OF assms])

lemma rdp_channels_stage [rdp_settings]:
  assumes k: "k \<in> set kept_keys"
  shows "rg_bool (snd (rdp_configure_channels static_ok rf c)) k = rg_bool c k"
  by (simp add: rdp_configure_channels_def Let_def split_beta rdp_folder_bool[OF k] rdp_channel_bool[OF k])

lemma rdp_devices_stage:
  assumes "rdp_configure_devices ru rf c = Ret (rf', c')" "k \<in> set kept_keys"
  shows "rg_bool c' k = rg_bool c k"
  using assms(1)
  by (auto simp: rdp_configure_devices_def c_bind_Ret_iff rdp_device_bool[OF assms(2)] rdp_printer_bool[OF assms(2)]
      dest: rdp_monitor_bool[OF _ assms(2)])

text \<open>The switches at the end are the ones after the group for the security.\<close>

definition rdp_after_session :: "rdp_setup \<Rightarrow> gint \<Rightarrow> rfile \<Rightarrow> rdp_config \<Rightarrow> rdp_config" where
  "rdp_after_session ru port rf c =
     snd (rdp_configure_session ru (rdp_reset_gateway rf) (snd (rdp_configure_login ru port rf (rdp_configure_display ru rf c))))"

lemma rdp_configure_bool:
  assumes "rdp_configure ru static_ok port interactive rf c = Ret (rf', c')" "k \<in> set kept_keys"
    and "k = ''GatewayUseSameCredentials'' \<Longrightarrow> \<not> interactive"
  shows "rg_bool c' k = rg_bool (rdp_after_session ru port rf c) k"
proof -
  have rf: "fst (rdp_configure_login ru port rf d) = rdp_reset_gateway rf" for d
    by (simp add: rdp_configure_login_def Let_def)
  have forget: "rg_bool (rdp_forget_credentials d) k = rg_bool d k" if "k \<noteq> ''GatewayUseSameCredentials''" for d
    using that by (simp add: rdp_forget_credentials_def)
  obtain rf4 c4 where d: "rdp_configure_devices ru
      (fst (rdp_configure_channels static_ok
        (fst (rdp_configure_session ru (rdp_reset_gateway rf) (snd (rdp_configure_login ru port rf (rdp_configure_display ru rf c)))))
        (rdp_after_session ru port rf c)))
      (snd (rdp_configure_channels static_ok
        (fst (rdp_configure_session ru (rdp_reset_gateway rf) (snd (rdp_configure_login ru port rf (rdp_configure_display ru rf c)))))
        (rdp_after_session ru port rf c))) = Ret (rf4, c4)"
    and c': "c' = (if interactive then rdp_forget_credentials c4 else c4)"
    using assms(1) by (auto simp: rdp_configure_def Let_def split_beta c_bind_Ret_iff rf rdp_after_session_def)
  have "rg_bool c4 k = rg_bool (rdp_after_session ru port rf c) k"
    using rdp_devices_stage[OF d assms(2)] by (simp add: rdp_channels_stage[OF assms(2)])
  then show ?thesis using forget assms(3) by (auto simp: c')
qed

section \<open>H.264\<close>

lemma rdp_depth_no_h264:
  assumes "\<not> ru_h264 ru" "k \<in> set h264_keys" "\<not> rg_bool c k"
  shows "\<not> rg_bool (rdp_configure_display ru rf c) k"
proof -
  have k: "k \<notin> {''AutoReconnectionEnabled'', ''FastPathOutput'', ''FrameMarkerCommandEnabled'', ''SoftwareGdi'',
      ''RemoteFxCodec'', ''SupportGraphicsPipeline''}"
    using assms(2) by auto
  have "\<not> rg_bool (rdp_set_depth ru rf d) k" if "\<not> rg_bool d k" for d
    using k that assms(1) by (auto simp: rdp_set_depth_def rdp_depth_codecs_def Let_def)
  moreover have "rg_bool (rdp_set_size ru d) = rg_bool d" for d
    by (simp add: rdp_set_size_def rdp_even_width_def rdp_min_size_def Let_def)
  ultimately show ?thesis
    using k assms(3) by (simp add: rdp_configure_display_def rdp_set_codec_def rdp_set_reconnect_def Let_def)
qed

lemma rdp_network_no_h264:
  assumes "\<not> ru_h264 ru" "k \<in> set h264_keys" "\<not> rg_bool c k"
  shows "\<not> rg_bool (rdp_set_network ru rf c) k"
proof -
  have "\<not> rg_bool (snd (remmina_rdp_set_connection_type False t c)) k" for t
    using assms(2,3)
    by (auto simp: remmina_rdp_set_connection_type_def connection_type_bools_def rdp_experience_def Let_def)
  with assms show ?thesis by (simp add: rdp_set_network_def split: option.split)
qed

lemma rdp_session_no_h264:
  assumes "\<not> ru_h264 ru" "k \<in> set h264_keys" "\<not> rg_bool c k"
  shows "\<not> rg_bool (snd (rdp_configure_session ru rf c)) k"
proof -
  have k: "k \<in> set kept_keys" "k \<in> set (h264_keys @ gateway_keys)" using assms(2) by auto
  show ?thesis
    using rdp_network_no_h264[OF assms(1,2)] assms(3)
    by (simp add: rdp_configure_session_def Let_def split_beta rdp_display_bool[OF k(1)] rdp_security_bool[OF k(2)]
        rdp_console_bool[OF k(1)] rdp_keyboard_bool rdp_split_bool[OF k(1)] rdp_quality_bool rdp_client_bool[OF k(1)])
qed

text \<open>Without an H.264 decoder no profile switches H.264 on, whatever its colour depth and network are.\<close>

theorem rdp_no_h264:
  assumes "\<not> ru_h264 ru" "rdp_configure ru static_ok port interactive rf c = Ret (rf', c')"
    and "\<not> rg_bool c ''GfxH264''" "\<not> rg_bool c ''GfxAVC444''"
  shows "\<not> rg_bool c' ''GfxH264'' \<and> \<not> rg_bool c' ''GfxAVC444''"
proof -
  have "\<not> rg_bool c' k" if "k \<in> set h264_keys" "\<not> rg_bool c k" for k
  proof -
    from that have k: "k \<in> set kept_keys" "k \<in> set (h264_keys @ security_keys @ smartcard_keys)" "k \<noteq> ''GatewayUseSameCredentials''" by auto
    show ?thesis
      using rdp_session_no_h264[OF assms(1) that(1)] rdp_depth_no_h264[OF assms(1) that] k(3)
      by (simp add: rdp_configure_bool[OF assms(2) k(1)] rdp_after_session_def rdp_login_stage[OF k(2)])
  qed
  with assms(3,4) show ?thesis by simp
qed

section \<open>Security\<close>

lemma get_str_reset_gateway:
  "k \<notin> {''gateway_username'', ''gateway_domain'', ''gateway_password''} \<Longrightarrow> get_str (rdp_reset_gateway rf) k = get_str rf k"
  by (simp add: rdp_reset_gateway_def get_set_string)

lemma get_str_console: "k \<noteq> ''restricted-admin'' \<Longrightarrow> get_str (fst (rdp_set_console rf c)) k = get_str rf k"
  by (simp add: rdp_set_console_def Let_def split: option.split)

lemma rdp_session_security:
  assumes "k \<in> set security_keys"
  shows "rg_bool (snd (rdp_configure_session ru rf c)) k =
    rg_bool (set_bools (rdp_security_bools (get_str rf ''security'')) c) k"
proof -
  from assms have k: "k \<in> set kept_keys" "k \<in> set (security_keys @ gateway_keys @ smartcard_keys)"
    "k \<in> set (h264_keys @ security_keys @ gateway_keys)" by auto
  show ?thesis
    by (simp add: set_bools_value rdp_configure_session_def Let_def split_beta rdp_display_bool[OF k(1)] rdp_set_security_bool[OF k(3)]
        get_str_console rdp_console_bool[OF k(1)] rdp_keyboard_bool rdp_split_bool[OF k(1)] rdp_quality_bool
        rdp_client_bool[OF k(1)] rdp_network_bool[OF k(2)] split: option.split)
qed

text \<open>
  C31: a profile that asks for one security protocol gets that one and no other, in the settings that FreeRDP connects with.
\<close>

theorem rdp_security_exclusive:
  assumes "rdp_configure ru static_ok port interactive rf c = Ret (rf', c')"
    and "get_str rf ''security'' = Some s" "s \<in> {''rdp'', ''tls'', ''nla'', ''ext''}"
  shows "rg_bool c' ''RdpSecurity'' = (s = ''rdp'') \<and> rg_bool c' ''TlsSecurity'' = (s = ''tls'') \<and>
    rg_bool c' ''NlaSecurity'' = (s = ''nla'') \<and> rg_bool c' ''ExtSecurity'' = (s = ''ext'')"
proof -
  have "rg_bool c' k = rg_bool (set_bools (rdp_security_bools (Some s))
      (snd (rdp_configure_login ru port rf (rdp_configure_display ru rf c)))) k"
    if "k \<in> set security_keys" for k
  proof -
    from that have "k \<in> set kept_keys" "k \<noteq> ''GatewayUseSameCredentials''" by auto
    with rdp_configure_bool[OF assms(1)] show ?thesis
      by (simp add: rdp_after_session_def rdp_session_security[OF that] get_str_reset_gateway assms(2))
  qed
  then show ?thesis
    using assms(3) by (auto simp: rdp_security_bools_def)
qed

text \<open>Logging in with a smart card is switched on by the profile only.\<close>

lemma rdp_configure_no_smartcard:
  assumes "rdp_configure ru static_ok port interactive rf c = Ret (rf', c')" "\<not> get_flag rf ''smartcard-logon''"
    and "\<not> rg_bool c ''SmartcardLogon''"
  shows "\<not> rg_bool c' ''SmartcardLogon''"
proof -
  have k: "''SmartcardLogon'' \<in> set kept_keys" "''SmartcardLogon'' \<in> set (security_keys @ gateway_keys @ smartcard_keys)"
    "''SmartcardLogon'' \<in> set (h264_keys @ security_keys @ smartcard_keys)"
    and f: "''smartcard-logon'' \<in> set flag_keys" by simp_all
  have "rg_bool (snd (rdp_configure_session ru q d)) ''SmartcardLogon'' = rg_bool d ''SmartcardLogon''"
    if "\<not> get_flag q ''smartcard-logon''" for q d
    using that
    by (simp add: rdp_configure_session_def Let_def split_beta rdp_display_bool[OF k(1)] rdp_security_no_smartcard
        rdp_files_flag[OF f] rdp_console_bool[OF k(1)] rdp_keyboard_bool rdp_split_bool[OF k(1)] rdp_quality_bool
        rdp_client_bool[OF k(1)] rdp_network_bool[OF k(2)])
  moreover have "rg_bool c' ''SmartcardLogon'' = rg_bool (rdp_after_session ru port rf c) ''SmartcardLogon''"
    by (rule rdp_configure_bool[OF assms(1) k(1)]) simp
  ultimately show ?thesis
    using assms(2,3)
    by (simp add: rdp_after_session_def rdp_files_flag[OF f] rdp_login_stage[OF k(3)]
        rdp_depth_bool[OF k(2)])
qed

section \<open>The size of the desktop\<close>

lemma round_up4_even: "even (round_up4 w)"
  by (simp add: round_up4_def even_and_iff)

lemma rdp_min_size_even:
  assumes "even (rg_uint c ''DesktopWidth'')"
  shows "even (rg_uint (rdp_min_size c) ''DesktopWidth'')"
  using assms by (auto simp: rdp_min_size_def Let_def)

lemma rdp_even_width_id: "even (rg_uint c ''DesktopWidth'') \<Longrightarrow> rdp_even_width c = c"
  by (simp add: rdp_even_width_def and_one_eq even_iff_mod_2_eq_zero)

lemma rdp_min_size_bound:
  assumes "rg_bool c ''SupportGraphicsPipeline''" "rg_bool c ''GfxH264''"
  shows "word_of_int AVC_MIN_DESKTOP_WIDTH \<le> rg_uint (rdp_min_size c) ''DesktopWidth'' \<and>
    word_of_int AVC_MIN_DESKTOP_HEIGHT \<le> rg_uint (rdp_min_size c) ''DesktopHeight''"
  using assms by (auto simp: rdp_min_size_def Let_def not_less)

lemma rdp_size_bool: "rg_bool (rdp_set_size ru c) = rg_bool c"
  by (simp add: rdp_set_size_def rdp_even_width_def rdp_min_size_def Let_def)

lemma rdp_set_size_min:
  "rdp_set_size ru c = rdp_min_size
     (set_uint ''DesktopHeight'' (round_up4 (ru_height ru)) (set_uint ''DesktopWidth'' (round_up4 (ru_width ru)) c))"
  unfolding rdp_set_size_def by (rule rdp_even_width_id, rule rdp_min_size_even) (simp add: round_up4_even)

text \<open>
  Whatever size the profile or the window has, the desktop that the display group asks for has an
  even width, and with H.264 in the graphics pipeline it is not smaller than FreeRDP can do.
  Later steps of \<open>rdp_configure\<close> can change both: the network group may turn H.264 on after
  the size is fixed, and several monitors replace width and height.
\<close>

theorem rdp_size_valid:
  "even (rg_uint (rdp_configure_display ru rf c) ''DesktopWidth'') \<and>
   (rg_bool (rdp_configure_display ru rf c) ''SupportGraphicsPipeline'' \<and>
      rg_bool (rdp_configure_display ru rf c) ''GfxH264'' \<longrightarrow>
    word_of_int AVC_MIN_DESKTOP_WIDTH \<le> rg_uint (rdp_configure_display ru rf c) ''DesktopWidth'' \<and>
    word_of_int AVC_MIN_DESKTOP_HEIGHT \<le> rg_uint (rdp_configure_display ru rf c) ''DesktopHeight'')"
proof -
  define d where "d = set_uint ''DesktopHeight'' (round_up4 (ru_height ru)) (set_uint ''DesktopWidth'' (round_up4 (ru_width ru))
    (rdp_set_codec (rdp_set_depth ru rf (rdp_set_reconnect rf c))))"
  have eq: "rdp_configure_display ru rf c = rdp_min_size d"
    by (simp add: rdp_configure_display_def rdp_set_size_min d_def)
  have "even (rg_uint (rdp_min_size d) ''DesktopWidth'')"
    by (rule rdp_min_size_even) (simp add: d_def round_up4_even)
  moreover have "rg_bool (rdp_min_size d) = rg_bool d"
    by (simp add: rdp_min_size_def Let_def)
  ultimately show ?thesis
    using rdp_min_size_bound[of d] by (simp add: eq)
qed

section \<open>The gateway\<close>

lemma rdp_login_gateway_file: "fst (rdp_configure_login ru port rf c) = rdp_reset_gateway rf"
  by (simp add: rdp_configure_login_def Let_def)

definition gateway_own :: "rfile \<Rightarrow> bool" where
  "gateway_own rf \<longleftrightarrow> get_str rf ''gateway_username'' \<noteq> None \<or> get_str rf ''gateway_domain'' \<noteq> None \<or>
     get_str rf ''gateway_password'' \<noteq> None"

lemma rdp_gateway_own_fields:
  "rg_bool (rdp_gateway_own rf s k c) = (if get_str rf s = None then rg_bool c else (rg_bool c)(''GatewayUseSameCredentials'' := False))"
  "rg_string (rdp_gateway_own rf s k c) = (if get_str rf s = None then rg_string c else (rg_string c)(k := get_str rf s))"
  by (auto simp: rdp_gateway_own_def split: option.splits)

lemma rdp_gateway_server_fields:
  assumes "get_str rf ''gateway_server'' \<noteq> None"
  shows "rg_bool (rdp_gateway_server ru rf port c) ''GatewayEnabled''"
    "rg_bool (rdp_gateway_server ru rf port c) ''GatewayUseSameCredentials''"
    "k \<noteq> ''GatewayHostname'' \<Longrightarrow> rg_string (rdp_gateway_server ru rf port c) k = rg_string c k"
  using assms by (auto simp: rdp_gateway_server_def Let_def split: option.splits prod.splits)

lemma rdp_set_gateway_same:
  assumes "get_str rf ''gateway_server'' \<noteq> None"
  shows "rg_bool (rdp_set_gateway ru rf port c) ''GatewayUseSameCredentials'' = (\<not> gateway_own rf)"
  using rdp_gateway_server_fields[OF assms]
  by (auto simp: rdp_set_gateway_def rdp_gateway_usage_def rdp_gateway_same_def rdp_gateway_own_fields gateway_own_def)

text \<open>A setting of the gateway is the own one, or the one of the host when there is no own one at all.\<close>

definition gateway_owns :: "rdp_setup \<Rightarrow> rfile \<Rightarrow> gint \<Rightarrow> rdp_config \<Rightarrow> rdp_config" where
  "gateway_owns ru rf port c =
     rdp_gateway_own rf ''gateway_password'' ''GatewayPassword''
       (rdp_gateway_own rf ''gateway_username'' ''GatewayUsername''
         (rdp_gateway_own rf ''gateway_domain'' ''GatewayDomain'' (rdp_gateway_server ru rf port c)))"

lemma rdp_set_gateway_owns:
  assumes "get_str rf ''gateway_server'' \<noteq> None"
  shows "rg_string (rdp_set_gateway ru rf port c) =
    (rg_string (if gateway_own rf then gateway_owns ru rf port c
       else set_str ''GatewayPassword'' (rg_string (gateway_owns ru rf port c) ''Password'')
              (set_str ''GatewayUsername'' (rg_string (gateway_owns ru rf port c) ''Username'')
                (set_str ''GatewayDomain'' (rg_string (gateway_owns ru rf port c) ''Domain'') (gateway_owns ru rf port c)))))
      (''GatewayAccessToken'' := get_str rf ''gatewayaccesstoken'')"
proof -
  have "rg_bool (gateway_owns ru rf port c) ''GatewayEnabled''"
    "rg_bool (gateway_owns ru rf port c) ''GatewayUseSameCredentials'' = (\<not> gateway_own rf)"
    using rdp_gateway_server_fields[OF assms]
    by (simp_all add: gateway_owns_def rdp_gateway_own_fields gateway_own_def)
  then show ?thesis
    by (simp add: rdp_set_gateway_def gateway_owns_def[symmetric] rdp_gateway_usage_def rdp_gateway_same_def)
qed

lemma gateway_owns_host:
  assumes "get_str rf ''gateway_server'' \<noteq> None" "k \<in> {''Username'', ''Domain'', ''Password''}"
  shows "rg_string (gateway_owns ru rf port c) k = rg_string c k"
proof -
  have "k \<notin> {''GatewayHostname'', ''GatewayDomain'', ''GatewayUsername'', ''GatewayPassword''}" using assms(2) by auto
  then show ?thesis by (simp add: gateway_owns_def rdp_gateway_own_fields rdp_gateway_server_fields[OF assms(1)])
qed

lemma gateway_owns_own:
  assumes "get_str rf ''gateway_server'' \<noteq> None"
    and "(s, k) \<in> {(''gateway_username'', ''GatewayUsername''), (''gateway_domain'', ''GatewayDomain''),
      (''gateway_password'', ''GatewayPassword'')}"
  shows "rg_string (gateway_owns ru rf port c) k = (case get_str rf s of Some v \<Rightarrow> Some v | None \<Rightarrow> rg_string c k)"
  using assms(2)
  by (elim insertE emptyE; cases "get_str rf s")
    (simp_all add: gateway_owns_def rdp_gateway_own_fields rdp_gateway_server_fields[OF assms(1)])

lemma rdp_set_gateway_string:
  assumes "get_str rf ''gateway_server'' \<noteq> None"
    and "(s, k, h) \<in> {(''gateway_username'', ''GatewayUsername'', ''Username''), (''gateway_domain'', ''GatewayDomain'', ''Domain''),
      (''gateway_password'', ''GatewayPassword'', ''Password'')}"
  shows "rg_string (rdp_set_gateway ru rf port c) k =
    (if gateway_own rf then (case get_str rf s of Some v \<Rightarrow> Some v | None \<Rightarrow> rg_string c k) else rg_string c h)"
proof -
  have k: "k \<noteq> ''GatewayAccessToken''" using assms(2) by auto
  have own: "rg_string (gateway_owns ru rf port c) k = (case get_str rf s of Some v \<Rightarrow> Some v | None \<Rightarrow> rg_string c k)"
    by (rule gateway_owns_own[OF assms(1)]) (use assms(2) in auto)
  show ?thesis
  proof (cases "gateway_own rf")
    case True
    with k own show ?thesis by (simp add: rdp_set_gateway_owns[OF assms(1)])
  next
    case False
    with assms(2) show ?thesis
      by (elim insertE emptyE) (simp_all add: rdp_set_gateway_owns[OF assms(1)] gateway_owns_host[OF assms(1)])
  qed
qed

lemma rdp_set_gateway_host:
  assumes "get_str rf ''gateway_server'' \<noteq> None" "k \<in> {''Username'', ''Domain'', ''Password''}"
  shows "rg_string (rdp_set_gateway ru rf port c) k = rg_string c k"
proof -
  have "k \<notin> {''GatewayAccessToken'', ''GatewayDomain'', ''GatewayUsername'', ''GatewayPassword''}" using assms(2) by auto
  then show ?thesis by (simp add: rdp_set_gateway_owns[OF assms(1)] gateway_owns_host[OF assms])
qed

text \<open>
  C32: with a gateway, FreeRDP is told to use the credentials of the host for it exactly when the
  profile has none of its own for it; then they are the ones of the host, otherwise each is the
  own one or is left as it was. The profile's own ones are forgotten when it says so.
\<close>

theorem rdp_gateway_credentials:
  assumes "get_str rf ''gateway_server'' \<noteq> None" "rdp_configure_login ru port rf c = (rf', c')"
  shows "rg_bool c' ''GatewayUseSameCredentials'' = (\<not> gateway_own rf') \<and>
    (get_flag rf ''base-cred-for-gw'' \<longrightarrow> \<not> gateway_own rf') \<and>
    (\<forall>(s, k, h) \<in> {(''gateway_username'', ''GatewayUsername'', ''Username''), (''gateway_domain'', ''GatewayDomain'', ''Domain''),
        (''gateway_password'', ''GatewayPassword'', ''Password'')}.
       rg_string c' k = (if gateway_own rf' then (case get_str rf' s of Some v \<Rightarrow> Some v | None \<Rightarrow> rg_string c k)
                         else rg_string c' h))"
proof -
  define d where "d = rdp_set_proxy rf (rdp_set_credentials rf c)"
  have rf': "rf' = rdp_reset_gateway rf" and c': "c' = rdp_set_gateway ru rf' port d"
    using assms(2) by (auto simp: rdp_configure_login_def Let_def d_def)
  have server: "get_str rf' ''gateway_server'' \<noteq> None"
    using assms(1) by (simp add: rf' get_str_reset_gateway)
  have base: "\<not> gateway_own rf'" if "get_flag rf ''base-cred-for-gw''"
    using that by (simp add: rf' gateway_own_def rdp_reset_gateway_def get_set_string)
  have d: "rg_string d k = rg_string c k" if "k \<in> {''GatewayUsername'', ''GatewayDomain'', ''GatewayPassword''}" for k
  proof -
    have k: "k \<notin> {''ProxyHostname'', ''ProxyUsername'', ''ProxyPassword'', ''Username'', ''Domain'', ''Password''}"
      using that by auto
    then have "rg_string (rdp_set_proxy rf e) k = rg_string e k" for e
      by (simp add: rdp_set_proxy_def rdp_proxy_type_def Let_def split: option.split)
    with k show ?thesis by (simp add: d_def rdp_set_credentials_def Let_def split: option.split)
  qed
  show ?thesis
    using base rdp_set_gateway_string[OF server] rdp_set_gateway_host[OF server] d
    by (simp add: c' rdp_set_gateway_same[OF server] split: option.split)
qed

section \<open>Printer drivers\<close>

text \<open>The text of overrides, as the dialog asks for it: quoted names and drivers, separated by semicolons.\<close>

fun print_overrides :: "(string \<times> string) list \<Rightarrow> string" where
  "print_overrides [] = []"
| "print_overrides ((name, driver) # r) =
     [CHR 0x22] @ name @ [CHR 0x22, CHR '':'', CHR 0x22] @ driver @ [CHR 0x22, CHR '';''] @ print_overrides r"

declare prdriver_loop.simps [simp del]

lemma prdriver_skip_name:
  assumes "CHR 0x22 \<notin> set name"
  shows "prdriver_loop prn S_INPRINTER False p dr (name @ CHR 0x22 # r) = prdriver_loop prn S_WAITCOLON False p dr r"
  using assms by (induction name) (auto simp: prdriver_loop.simps)

lemma prdriver_match_name:
  assumes "CHR 0x22 \<notin> set p"
  shows "prdriver_loop prn S_INPRINTER True p dr (p @ CHR 0x22 # r) = prdriver_loop prn S_WAITCOLON True [] dr r"
  using assms by (induction p) (auto simp: prdriver_loop.simps)

lemma prdriver_other_name:
  assumes "CHR 0x22 \<notin> set name" "CHR 0x22 \<notin> set p" "name \<noteq> p"
  shows "\<exists>p'. \<forall>r. prdriver_loop prn S_INPRINTER True p dr (name @ CHR 0x22 # r) = prdriver_loop prn S_WAITCOLON False p' dr r"
  using assms
proof (induction name arbitrary: p)
  case (Cons c name)
  show ?case
  proof (cases "p \<noteq> [] \<and> c = hd p")
    case True
    with Cons.prems have "CHR 0x22 \<notin> set (tl p)" "name \<noteq> tl p" by (cases p; auto)+
    with Cons True show ?thesis by (simp add: prdriver_loop.simps)
  next
    case False
    with Cons.prems have "prdriver_loop prn S_INPRINTER True p dr ((c # name) @ CHR 0x22 # r) =
        prdriver_loop prn S_WAITCOLON False p dr r" for r
      by (auto simp: prdriver_loop.simps prdriver_skip_name)
    then show ?thesis by blast
  qed
qed (auto simp: prdriver_loop.simps)

lemma prdriver_driver:
  assumes "CHR 0x22 \<notin> set d"
  shows "prdriver_loop prn S_INDRIVER m p dr (d @ CHR 0x22 # r) =
    (if m then Some (rev dr @ d) else prdriver_loop prn S_WAITSEMICOLON m p (rev d @ dr) r)"
  using assms by (induction d arbitrary: dr) (auto simp: prdriver_loop.simps)

text \<open>One override that is not the one that is looked for.\<close>

lemma prdriver_override:
  assumes "CHR 0x22 \<notin> set (name @ d @ prn)"
  shows "\<exists>m' p' dr'. prdriver_loop prn S_WAITPR m p dr (print_overrides ((name, d) # r)) =
    (if name = prn then Some d else prdriver_loop prn S_WAITPR m' p' dr' (print_overrides r))"
proof (cases "name = prn")
  case True
  with assms show ?thesis
    by (simp add: prdriver_loop.simps prdriver_match_name prdriver_driver)
next
  case False
  from prdriver_other_name[of name prn prn dr] assms False obtain p' where
    "prdriver_loop prn S_INPRINTER True prn dr (name @ CHR 0x22 # t) = prdriver_loop prn S_WAITCOLON False p' dr t" for t
    by auto
  with assms False show ?thesis
    by (auto simp: prdriver_loop.simps prdriver_driver)
qed

text \<open>
  C33: the driver found for a printer is the one of its first override in the text, and there is none when no override has its
  name: looking up what was printed gives the entry of the list.
\<close>

theorem prdriver_roundtrip:
  assumes "\<forall>(name, driver) \<in> set overrides. CHR 0x22 \<notin> set (name @ driver)" "CHR 0x22 \<notin> set prn"
  shows "remmina_rdp_find_prdriver (print_overrides overrides) prn = map_of overrides prn"
proof -
  have "prdriver_loop prn S_WAITPR m p dr (print_overrides overrides) = map_of overrides prn" for m p dr
    using assms(1)
  proof (induction overrides arbitrary: m p dr)
    case (Cons kv r)
    then show ?case
      using prdriver_override[of "fst kv" "snd kv" prn m p dr r] assms(2) by (cases kv) auto
  qed (simp add: prdriver_loop.simps)
  then show ?thesis by (simp add: remmina_rdp_find_prdriver_def)
qed

section \<open>A profile\<close>

definition sample_rdp_setup :: rdp_setup where
  "sample_rdp_setup = \<lparr>ru_h264 = False, ru_pref = (\<lambda>_. None), ru_parse = (\<lambda>h p. Some (h, p)), ru_hostname = ''laptop'',
     ru_keyboard_layout = 0, ru_keymap_table = (\<lambda>_. None), ru_scancode = (\<lambda>c. c), ru_orientation = (0, 100, 100),
     ru_performance = (\<lambda>_ _. False), ru_width = 321, ru_height = 767, ru_printers = [], ru_gdk_monitors = [],
     ru_set_monitors = (\<lambda>ms. ms), ru_monitor_buffer = []\<rparr>"

definition sample_rdp_config :: rdp_config where
  "sample_rdp_config = \<lparr>rg_bool = (\<lambda>_. False), rg_uint = (\<lambda>_. 2), rg_string = (\<lambda>_. None), rg_channels = [], rg_devices = [],
     rg_monitors = \<lparr>rs_width = 0, rs_height = 0, rs_shift_x = 0, rs_shift_y = 0, rs_count = 0, rs_monitors = []\<rparr>,
     rg_monitor_ids = []\<rparr>"

definition sample_rdp_profile :: rfile where
  "sample_rdp_profile = fold (\<lambda>(k, v) rf. remmina_file_set_string rf k (Some v))
     [(''colordepth'', ''66''), (''network'', ''autodetect''), (''security'', ''tls''), (''gateway_server'', ''gw''),
      (''gateway_username'', ''g''), (''password'', ''secret''), (''disablepasswordstoring'', ''1'')] remmina_file_new_empty"

lemma sample_rdp_flags:
  "k \<in> set flag_keys \<Longrightarrow> \<not> get_flag sample_rdp_profile k" "get_flag sample_rdp_profile ''disablepasswordstoring''"
  "get_str sample_rdp_profile ''security'' = Some ''tls''" "get_str sample_rdp_profile ''gateway_server'' = Some ''gw''"
proof -
  have "\<forall>k \<in> set flag_keys. \<not> get_flag sample_rdp_profile k" by code_simp
  then show "k \<in> set flag_keys \<Longrightarrow> \<not> get_flag sample_rdp_profile k" by blast
qed code_simp+

lemma sample_rdp_configured:
  "\<exists>rf' c'. rdp_configure sample_rdp_setup (\<lambda>_. True) 0 False sample_rdp_profile sample_rdp_config = Ret (rf', c')"
  using rdp_configure_returns[of sample_rdp_profile] sample_rdp_flags(1) by force

theorem rdp_no_h264_witness:
  "\<exists>rf' c'. rdp_configure sample_rdp_setup (\<lambda>_. True) 0 False sample_rdp_profile sample_rdp_config = Ret (rf', c') \<and>
     \<not> rg_bool c' ''GfxH264'' \<and> \<not> rg_bool c' ''GfxAVC444''"
proof -
  obtain rf' c' where c: "rdp_configure sample_rdp_setup (\<lambda>_. True) 0 False sample_rdp_profile sample_rdp_config = Ret (rf', c')"
    using sample_rdp_configured by blast
  have "\<not> rg_bool c' ''GfxH264'' \<and> \<not> rg_bool c' ''GfxAVC444''"
    by (rule rdp_no_h264[OF _ c]) (simp_all add: sample_rdp_setup_def sample_rdp_config_def)
  with c show ?thesis by blast
qed

theorem rdp_security_exclusive_witness:
  "\<exists>rf' c'. rdp_configure sample_rdp_setup (\<lambda>_. True) 0 False sample_rdp_profile sample_rdp_config = Ret (rf', c') \<and>
     \<not> rg_bool c' ''RdpSecurity'' \<and> rg_bool c' ''TlsSecurity'' \<and> \<not> rg_bool c' ''NlaSecurity'' \<and> \<not> rg_bool c' ''ExtSecurity''"
proof -
  obtain rf' c' where c: "rdp_configure sample_rdp_setup (\<lambda>_. True) 0 False sample_rdp_profile sample_rdp_config = Ret (rf', c')"
    using sample_rdp_configured by blast
  from rdp_security_exclusive[OF c sample_rdp_flags(3)] c show ?thesis by auto
qed

theorem rdp_size_valid_witness:
  "644 \<le> rg_uint (rdp_configure_display (sample_rdp_setup\<lparr>ru_h264 := True\<rparr>) sample_rdp_profile sample_rdp_config) ''DesktopWidth''"
proof -
  have "rg_bool (rdp_configure_display (sample_rdp_setup\<lparr>ru_h264 := True\<rparr>) sample_rdp_profile sample_rdp_config)
      ''SupportGraphicsPipeline''"
    "rg_bool (rdp_configure_display (sample_rdp_setup\<lparr>ru_h264 := True\<rparr>) sample_rdp_profile sample_rdp_config) ''GfxH264''"
    by code_simp+
  with rdp_size_valid[of "sample_rdp_setup\<lparr>ru_h264 := True\<rparr>" sample_rdp_profile sample_rdp_config] show ?thesis by simp
qed

theorem rdp_gateway_credentials_witness:
  "\<not> rg_bool (snd (rdp_configure_login sample_rdp_setup 0 sample_rdp_profile sample_rdp_config)) ''GatewayUseSameCredentials''"
proof -
  obtain rf' c' where c: "rdp_configure_login sample_rdp_setup 0 sample_rdp_profile sample_rdp_config = (rf', c')" by force
  have "gateway_own (fst (rdp_configure_login sample_rdp_setup 0 sample_rdp_profile sample_rdp_config))"
    unfolding rdp_login_gateway_file by code_simp
  then show ?thesis
    using rdp_gateway_credentials[OF _ c] sample_rdp_flags(4) by (simp add: c)
qed

theorem prdriver_roundtrip_witness:
  "remmina_rdp_find_prdriver (print_overrides [(''HP'', ''MS Publisher''), (''Brother'', ''Generic'')]) ''Brother'' = Some ''Generic''"
  using prdriver_roundtrip[of "[(''HP'', ''MS Publisher''), (''Brother'', ''Generic'')]" "''Brother''"] by simp

end
