(* ===== verification/RdpProps.thy ===== *)
theory RdpProps
  imports RdpRuns RdpSettings
begin

text \<open>
  What holds of every run of the thread of an RDP session: the end of the connection is
  signalled once, a profile that forbids storing passwords gets none, a second attempt brings no
  stored credentials, and reconnecting is bounded.
\<close>

section \<open>The end is signalled once\<close>

definition signalled_once :: "'w rdp \<Rightarrow> bool" where
  "signalled_once s \<longleftrightarrow> rd_signals s = (if rd_attached s then 0 else 1)"

interpretation closing: rdp_runs lib "\<lambda>s s'. signalled_once s \<longrightarrow> signalled_once s'" for lib
proof unfold_locales
  show "signalled_once s \<longrightarrow> signalled_once s'" if "rdp_core s' = rdp_core s" for s s' :: "'a rdp"
    using that by (simp add: signalled_once_def rdp_core_def)
  show "signalled_once s \<longrightarrow> signalled_once (snd (rdp_ask_auth lib ak s))" for ak and s :: "'a rdp"
    by (simp add: signalled_once_def ask_auth_fields)
qed (auto simp: signalled_once_def rdp_detach_def rdp_apply_def)

text \<open>
  C29: whatever the server and the user do, a thread that ends without a crash leaves no context at the widget, and the widget
  was told exactly once that the connection is closed.
\<close>

theorem rdp_closed_once:
  assumes "remmina_rdp_main_thread lib m n s = Some (Ret s')" "rd_attached s" "rd_signals s = 0"
  shows "\<not> rd_attached s' \<and> rd_signals s' = 1"
proof -
  have "signalled_once s'"
    using closing.thread[OF assms(1)] assms(2,3) by (simp add: signalled_once_def)
  moreover have "\<not> rd_attached (complete_cleanup_on_main_thread t)" for t :: "'a rdp"
    by (simp add: complete_cleanup_on_main_thread_def rdp_detach_def Let_def)
  then have "\<not> rd_attached s'"
    using assms(1) by (auto simp: remmina_rdp_main_thread_def c_bind_Ret_iff)
  ultimately show ?thesis by (simp add: signalled_once_def)
qed

section \<open>Stored passwords\<close>

text \<open>A panel that does not offer to save the password has no switch for it that could be on.\<close>

definition panel_switch_offered :: "'w panel_user \<Rightarrow> bool" where
  "panel_switch_offered user \<longleftrightarrow> (\<forall>r w. \<not> pr_offer_save r \<longrightarrow> \<not> pc_save (fst (user r w)))"

definition passwords_kept :: "'w rdp_lib \<Rightarrow> 'w rdp \<Rightarrow> 'w rdp \<Rightarrow> bool" where
  "passwords_kept lib s s' \<longleftrightarrow>
     (panel_switch_offered (rl_user lib) \<and> get_flag (rd_file s) ''disablepasswordstoring'' \<longrightarrow>
      keeps_passwords (rd_file s) (rd_file s'))"

lemma store_answer_file:
  assumes "\<And>k c. keys = Some (k, c) \<Longrightarrow> k \<in> {''username'', ''domain'', ''gateway_username'', ''gateway_domain''}"
  shows "keeps_passwords (rd_file s) (rd_file (store_answer keys v s))"
proof (cases keys)
  case (Some kc)
  obtain k c where kc: "kc = (k, c)" by force
  with Some assms have "k \<notin> set (''resolution'' # ''disablepasswordstoring'' # password_settings)"
    by (auto simp: password_settings_def)
  then show ?thesis by (simp add: Some kc store_answer_def rdp_set_def keeps_passwords_other)
qed (simp add: store_answer_def)

lemma store_password_file:
  assumes "\<not> save" "fst keys \<in> set password_settings"
  shows "keeps_passwords (rd_file s) (rd_file (store_password keys p save s))"
  using assms by (auto simp: store_password_def rdp_set_def password_settings_def intro!: keeps_passwords_set_string)

lemma store_answers_file:
  assumes "\<not> wd_save_password (rd_panel s)" "ak \<in> rdp_panels"
  shows "keeps_passwords (rd_file s) (rd_file (rdp_store_answers ak s))"
proof -
  have user: "keeps_passwords (rd_file t) (rd_file (store_answer (ak_user ak) v t))"
    and domain: "keeps_passwords (rd_file t) (rd_file (store_answer (ak_domain ak) v t))" for v t
    using assms(2)
    by (auto simp: rdp_panels_def host_auth_keys_def gateway_auth_keys_def smartcard_auth_keys_def intro!: store_answer_file)
  have "fst (ak_password ak) \<in> set password_settings"
    using assms(2)
    by (auto simp: rdp_panels_def host_auth_keys_def gateway_auth_keys_def smartcard_auth_keys_def password_settings_def)
  then have password: "keeps_passwords (rd_file t) (rd_file (store_password (ak_password ak) p (wd_save_password (rd_panel s)) t))"
    for p t
    using assms(1) store_password_file by blast
  show ?thesis
    unfolding rdp_store_answers_def Let_def remmina_protocol_widget_get_savepassword_def
    by (rule keeps_passwords_trans[OF keeps_passwords_trans[OF user domain] password])
qed

lemma ask_auth_file:
  assumes "panel_switch_offered (rl_user lib)" "get_flag (rd_file s) ''disablepasswordstoring''" "ak \<in> rdp_panels"
  shows "keeps_passwords (rd_file s) (rd_file (snd (rdp_ask_auth lib ak s)))"
proof -
  define request where "request = (rdp_auth_request ak (rd_file s))\<lparr>pr_type := RPWDT_AUTH\<rparr>"
  obtain c w where c: "rl_user lib request (rd_world s) = (c, w)" by force
  define t where "t = s\<lparr>rd_panel := authpanel_mt_cb RPWDT_AUTH c (rd_panel s), rd_world := w\<rparr>"
  have "\<not> pr_offer_save request"
    using assms(2) by (simp add: request_def rdp_auth_request_def)
  with assms(1) have "\<not> pc_save c"
    unfolding panel_switch_offered_def using c by (metis fst_conv)
  then have "pc_response c = Response_ok \<Longrightarrow> \<not> wd_save_password (rd_panel t)"
    by (simp add: t_def authpanel_mt_cb_def)
  moreover have "rdp_ask_auth lib ak s = (if pc_response c = Response_ok then (True, rdp_store_answers ak t) else (False, t))"
    using c by (simp add: rdp_ask_auth_def rdp_panel_def remmina_protocol_widget_panel_auth_def
        remmina_protocol_widget_dialog_def request_def[symmetric] t_def Let_def)
      (simp add: request_def)
  ultimately show ?thesis
    using store_answers_file[of t ak] assms(3) by (simp add: t_def)
qed

interpretation passwords: rdp_runs lib "passwords_kept lib" for lib
proof unfold_locales
  show "passwords_kept lib s s'" if "rdp_core s' = rdp_core s" for s s' :: "'a rdp"
    using that by (simp add: passwords_kept_def rdp_core_def)
  show "passwords_kept lib s u" if "passwords_kept lib s t" "passwords_kept lib t u" for s t u :: "'a rdp"
    using that keeps_passwords_trans unfolding passwords_kept_def keeps_passwords_def by metis
  show "passwords_kept lib s (snd (rdp_ask_auth lib ak s))" if "ak \<in> rdp_panels" for ak and s :: "'a rdp"
    unfolding passwords_kept_def using ask_auth_file[OF _ _ that] by blast
  show "passwords_kept lib s (rdp_apply (rl_setup lib) rf c s)"
    if "rdp_configure (rl_setup lib) (rl_static_ok lib) port interactive (rd_file s) (rd_config s) = Ret (rf, c)"
    for s :: "'a rdp" and port interactive rf c
    using rdp_configure_keeps[OF that] by (simp add: passwords_kept_def rdp_apply_def)
qed (simp_all add: passwords_kept_def rdp_detach_def)

text \<open>
  C27: when a profile forbids storing passwords, a session leaves none of its passwords changed except by removing it,
  whatever the user enters in however many panels.
\<close>

theorem rdp_password_not_stored:
  assumes "remmina_rdp_main_thread lib m n s = Some (Ret s')" "panel_switch_offered (rl_user lib)"
    and "get_flag (rd_file s) ''disablepasswordstoring''"
  shows "\<forall>k \<in> set password_settings. get_str (rd_file s') k = get_str (rd_file s) k \<or> get_str (rd_file s') k = None"
  using passwords.thread[OF assms(1)] assms(2,3) by (simp add: passwords_kept_def keeps_passwords_def)

section \<open>Credentials of a second attempt\<close>

definition no_credentials :: "rdp_config \<Rightarrow> bool" where
  "no_credentials c \<longleftrightarrow>
     (\<forall>k \<in> set [''Username'', ''Password'', ''Domain'', ''GatewayUsername'', ''GatewayPassword'', ''GatewayDomain''].
        rg_string c k = None)"

lemma rdp_configure_no_credentials:
  assumes "rdp_configure ru static_ok port True rf c = Ret (rf', c')"
  shows "no_credentials c'"
proof -
  have "no_credentials (rdp_forget_credentials d)" for d
    by (simp add: rdp_forget_credentials_def no_credentials_def)
  with assms show ?thesis
    by (auto simp: rdp_configure_def Let_def split_beta c_bind_Ret_iff)
qed

interpretation connects: rdp_steps lib "\<lambda>s s'. rd_connects s' = rd_connects s" for lib
proof unfold_locales
  show "rd_connects s' = rd_connects s" if "rdp_core s' = rdp_core s" for s s' :: "'a rdp"
    using that by (simp add: rdp_core_def)
qed (simp_all add: ask_auth_fields rdp_detach_def)

lemma start_interactive: "rd_interactive (snd (rdp_start lib s)) = rd_interactive s"
  by (auto simp: rdp_start_def rdp_assistance_def rdp_set_def Let_def split_beta split: option.split assist_result.split)

text \<open>An attempt starts at most one connection, without credentials when they are to be asked for.\<close>

lemma main_connects:
  assumes "remmina_rdp_main lib n s = Some (Ret (b, s'))"
  shows "rd_connects s' = rd_connects s \<or>
    (\<exists>c. rd_connects s' = rd_connects s @ [c] \<and> (rd_interactive s \<longrightarrow> no_credentials c))"
proof -
  obtain ok t where t: "rdp_start lib s = (ok, t)" by force
  have st: "rd_connects t = rd_connects s" "rd_interactive t = rd_interactive s"
    using start_core[of lib s] start_interactive[of lib s] by (simp_all add: t rdp_core_def)
  consider "s' = t" | ok' u where "remmina_rdp_tunnel_init lib t = Ret (ok', u)" "s' = u \<or> rdp_connect lib n u = Some (Ret (b, s'))"
    using assms by (auto simp: remmina_rdp_main_def t split: if_splits c_result.splits)
  then show ?thesis
  proof cases
    case 2
    have u: "rd_connects u = rd_connects s" "rd_interactive u = rd_interactive s"
      using tunnel_init_core[OF 2(1)] tunnel_init_fields(2)[OF 2(1)] st by (simp_all add: rdp_core_def)
    from 2(2) show ?thesis
    proof
      assume "rdp_connect lib n u = Some (Ret (b, s'))"
      then obtain rf c result v where
        c: "rdp_configure (rl_setup lib) (rl_static_ok lib) (rd_port_in u) (rd_interactive u) (rd_file u) (rd_config u) = Ret (rf, c)"
        and v: "rdp_freerdp_connect lib n (rdp_apply (rl_setup lib) rf c u) = Some (Ret (result, v))"
        and s': "rdp_connected lib n result v = Some (Ret (b, s'))"
        by (auto simp: rdp_connect_def split: c_result.splits option.splits)
      have "rd_connects s' = rd_connects v" by (rule connects.connected[OF s'])
      also have "\<dots> = rd_connects s @ [c]"
        using connects.connect_loop[OF v[unfolded rdp_freerdp_connect_def]] u by (simp add: rdp_apply_def)
      finally show ?thesis
        using c u(2) rdp_configure_no_credentials by auto
    qed (simp add: u)
  qed (simp add: st)
qed

lemma attempts_connects:
  assumes "rdp_attempts lib m n s = Some (Ret s')" "rd_interactive s"
  shows "\<exists>cs. rd_connects s' = rd_connects s @ cs \<and> (\<forall>c \<in> set cs. no_credentials c)"
  using assms
proof (induction m arbitrary: s)
  case (Suc m)
  obtain b t where t: "remmina_rdp_main lib n s = Some (Ret (b, t))"
    and next_t: "t = s' \<or> rd_interactive t \<and> rdp_attempts lib m n t = Some (Ret s')"
    using Suc.prems by (auto simp: rdp_again_def split: option.splits c_result.splits if_splits)
  obtain cs where cs: "rd_connects t = rd_connects s @ cs" "\<forall>c \<in> set cs. no_credentials c"
    using main_connects[OF t] Suc.prems(2) by force
  from next_t show ?case
  proof
    assume "rd_interactive t \<and> rdp_attempts lib m n t = Some (Ret s')"
    with Suc.IH cs show ?thesis by fastforce
  qed (use cs in auto)
qed simp

text \<open>
  C28: only the first attempt of a session sends the credentials of the profile: every later connection of the same thread
  starts without any user name, password or domain, for the host and for the gateway, so that the user is asked.
\<close>

theorem rdp_retry_forgets:
  assumes "remmina_rdp_main_thread lib m n s = Some (Ret s')" "rd_connects s = []"
  shows "\<forall>c \<in> set (tl (rd_connects s')). no_credentials c"
proof -
  obtain u where u: "rdp_attempts lib m n (s\<lparr>rd_interactive := False\<rparr>) = Some (Ret u)"
    and s': "s' = complete_cleanup_on_main_thread u"
    using assms(1) by (auto simp: remmina_rdp_main_thread_def c_bind_Ret_iff)
  have "rd_connects s' = rd_connects u"
    by (simp add: s' complete_cleanup_on_main_thread_def rdp_detach_def Let_def)
  moreover obtain k where "m = Suc k" using u by (cases m) auto
  with u obtain b t where t: "remmina_rdp_main lib n (s\<lparr>rd_interactive := False\<rparr>) = Some (Ret (b, t))"
    and "t = u \<or> rd_interactive t \<and> rdp_attempts lib k n t = Some (Ret u)"
    by (auto simp: rdp_again_def split: option.splits c_result.splits if_splits)
  then obtain cs where "rd_connects u = rd_connects t @ cs" "\<forall>c \<in> set cs. no_credentials c"
    using attempts_connects by fastforce
  moreover have "rd_connects t = [] \<or> (\<exists>c. rd_connects t = [c])"
    using main_connects[OF t] assms(2) by auto
  ultimately show ?thesis by (cases cs) auto
qed

section \<open>Reconnecting\<close>

lemma reconnect_wait_log: "rdp_reconnect_wait lib s = Ret s' \<Longrightarrow> rd_reconnects s' = rd_reconnects s"
  by (auto simp: rdp_reconnect_wait_def rdp_do_def remmina_rdp_close_connection_def rdp_detach_def Let_def
      split: prod.splits if_splits)

text \<open>An attempt that returns success was a successful one of FreeRDP, and any other is recorded as a failure, if at all.\<close>

lemma try_reconnect_log:
  assumes "rdp_try_reconnect lib s = Ret (b, s')"
  shows "if b then rd_reconnects s' = rd_reconnects s @ [True]
    else rd_reconnects s' = rd_reconnects s \<or> rd_reconnects s' = rd_reconnects s @ [False]"
proof -
  obtain ok t where t: "remmina_rdp_tunnel_init lib s = Ret (ok, t)"
    and s': "(if \<not> ok then Ret (False, t)
      else let (r, u) = rdp_do (rl_reconnect lib) t in Ret (r, u\<lparr>rd_reconnects := rd_reconnects u @ [r]\<rparr>)) = Ret (b, s')"
    using assms by (auto simp: rdp_try_reconnect_def c_bind_Ret_iff)
  with tunnel_init_fields(3)[OF t] show ?thesis
    by (auto simp: rdp_do_def split: if_splits prod.splits)
qed

lemma reconnect_loop_log:
  assumes "rdp_reconnect_loop lib k s = Ret (b, s')"
  shows "\<exists>rs. rd_reconnects s' = rd_reconnects s @ rs \<and> length rs \<le> k \<and> (if b then \<exists>q. rs = q @ [True] \<and> True \<notin> set q else True \<notin> set rs)"
  using assms
proof (induction k arbitrary: s)
  case (Suc k)
  define s1 where "s1 = s\<lparr>rd_nattempt := Suc (rd_nattempt s), rd_progress := Suc (rd_progress s)\<rparr>"
  have s1: "rd_reconnects s1 = rd_reconnects s" by (simp add: s1_def)
  show ?case
  proof (cases "rd_stop_reconnecting s")
    case True
    with Suc.prems show ?thesis by auto
  next
    case False
    with Suc.prems obtain ok t where t: "rdp_try_reconnect lib s1 = Ret (ok, t)"
      and next_t: "(if ok then Ret (True, t) else c_bind (rdp_reconnect_wait lib t) (rdp_reconnect_loop lib k)) = Ret (b, s')"
      by (auto simp: s1_def c_bind_Ret_iff Let_def)
    note log = try_reconnect_log[OF t, unfolded s1]
    show ?thesis
    proof (cases ok)
      case True
      with next_t log show ?thesis by auto
    next
      case False
      with next_t obtain u where u: "rdp_reconnect_wait lib t = Ret u" "rdp_reconnect_loop lib k u = Ret (b, s')"
        by (auto simp: c_bind_Ret_iff)
      from log False obtain f where f: "rd_reconnects t = rd_reconnects s @ f" "True \<notin> set f" "length f \<le> 1"
        by (auto split: if_splits)
      from Suc.IH[OF u(2)] obtain rs where "rd_reconnects s' = rd_reconnects u @ rs" "length rs \<le> k"
        "if b then \<exists>q. rs = q @ [True] \<and> True \<notin> set q else True \<notin> set rs" by blast
      with f reconnect_wait_log[OF u(1)] show ?thesis
        by (intro exI[of _ "f @ rs"]) (auto split: if_splits intro: exI[of _ "f @ q" for q])
    qed
  qed
qed auto

text \<open>
  C30: reconnecting ends: FreeRDP tries at most as often as the profile, the preferences or FreeRDP allow, every attempt before
  the last failed, and the result is success exactly when the last one succeeded; afterwards the session takes events again.
\<close>

theorem rdp_reconnect_bounded:
  assumes "rf_auto_reconnect lib s = Ret (b, s')"
  shows "\<not> rx_is_reconnecting (rd_ctx s') \<and>
    (\<exists>rs. rd_reconnects s' = rd_reconnects s @ rs \<and>
       int (length rs) \<le> max 0 (sint (rdp_max_attempts (ru_pref (rl_setup lib) ''rdp_reconnect_attempts'') (rd_file s)
         (rg_uint (rd_config s) ''AutoReconnectMaxRetries''))) \<and>
       (if b then \<exists>q. rs = q @ [True] \<and> True \<notin> set q else True \<notin> set rs))"
proof -
  define s1 where "s1 = rdp_begin_reconnect lib s"
  have s1: "rd_reconnects s1 = rd_reconnects s"
    "rd_maxattempts s1 = rdp_max_attempts (ru_pref (rl_setup lib) ''rdp_reconnect_attempts'') (rd_file s)
       (rg_uint (rd_config s) ''AutoReconnectMaxRetries'')"
    by (simp_all add: s1_def rdp_begin_reconnect_def rdp_set_def Let_def)
  have fin: "rd_reconnects (rdp_end_reconnect t) = rd_reconnects t" "\<not> rx_is_reconnecting (rd_ctx (rdp_end_reconnect t))"
    for t :: "'a rdp"
    by (simp_all add: rdp_end_reconnect_def)
  consider "\<not> b" "s' = rdp_end_reconnect s1" | t where
      "rdp_reconnect_loop lib (nat (sint (rd_maxattempts s1))) (s1\<lparr>rd_progress := Suc (rd_progress s1)\<rparr>) = Ret (b, t)"
      "s' = rdp_end_reconnect t"
    using assms by (auto simp: rf_auto_reconnect_def s1_def[symmetric] Let_def c_bind_Ret_iff split: if_splits)
  then show ?thesis
  proof cases
    case 1
    then show ?thesis by (auto simp: fin s1)
  next
    case 2
    from reconnect_loop_log[OF 2(1)] obtain rs where
      "rd_reconnects t = rd_reconnects s @ rs" "length rs \<le> nat (sint (rd_maxattempts s1))"
      "if b then \<exists>q. rs = q @ [True] \<and> True \<notin> set q else True \<notin> set rs" by (auto simp: s1)
    then show ?thesis
      using 2(2) by (intro conjI exI[of _ rs]) (auto simp: fin s1)
  qed
qed

section \<open>A session\<close>

text \<open>
  A server whose requests are a list, and a user who cancels every panel; reconnecting fails
  once for each request that is left, and a session ends at once.
\<close>

definition sample_rdp_round :: rdp_round where
  "sample_rdp_round = \<lparr>rr_disconnect = True, rr_time_jitter = 0, rr_time_keypress = 0, rr_waited = True, rr_ctx = (\<lambda>x. x),
     rr_now = 0, rr_abort = False, rr_check = True\<rparr>"

definition sample_rdp_lib :: "rdp_request list rdp_lib" where
  "sample_rdp_lib = \<lparr>rl_user = (\<lambda>r w. (\<lparr>pc_response = Response_cancel, pc_username = None, pc_password = None, pc_domain = None,
       pc_save = False, pc_cacert = None, pc_cacrl = None, pc_clientcert = None, pc_clientkey = None\<rparr>, w)),
     rl_setup = sample_rdp_setup, rl_trust_all = False, rl_tunnel = (\<lambda>w. ((Some ''server'', None), w)),
     rl_static_ok = (\<lambda>_. True), rl_datapath = None, rl_assist = (\<lambda>_ _ _. Assist_no_memory),
     rl_request = (\<lambda>c w. case w of [] \<Rightarrow> (Connect_done False Err_no_credentials, []) | r # w \<Rightarrow> (r, w)),
     rl_answer = (\<lambda>_ w. w), rl_reconnect = (\<lambda>w. case w of [] \<Rightarrow> (True, []) | _ # w \<Rightarrow> (False, w)),
     rl_wait = (\<lambda>w. (False, w)), rl_error_info_network = (\<lambda>_. True), rl_round = (\<lambda>w. (sample_rdp_round, w)),
     rl_time = (\<lambda>_. 0)\<rparr>"

definition sample_rdp_ctx :: rdp_ctx where
  "sample_rdp_ctx = \<lparr>rx_connected = False, rx_is_reconnecting = False, rx_scale = Scale_none, rx_scale_width = 0,
     rx_scale_height = 0, rx_surface = False, rx_rdpgfxchan = False, rx_dispcontext = False, rx_use_client_keymap = False,
     rx_keymap = None, rx_pressed_keys = [], rx_event_queue = Some [], rx_event_pipe = 0, rx_last_x = 0, rx_last_y = 0,
     rx_layout_handler = 0, rx_clipboard_context = False, rx_settings = rg_monitors sample_rdp_config, rx_monitor_buffer = []\<rparr>"

definition sample_rdp :: "rdp_request list \<Rightarrow> rdp_request list rdp" where
  "sample_rdp w = \<lparr>rd_config = sample_rdp_config, rd_ctx = sample_rdp_ctx, rd_file = sample_rdp_profile,
     rd_panel = widget_data_new, rd_attached = True, rd_port_in = 0, rd_bpp = 24, rd_src_bpp = 0, rd_sw_gdi = False,
     rd_format = CAIRO_FORMAT_RGB24, rd_width = 0, rd_height = 0, rd_interactive = False, rd_cancelled = False,
     rd_stop_reconnecting = False, rd_nattempt = 0, rd_maxattempts = 0, rd_post_error = Post_ok, rd_clip_wait = SCDW_NONE,
     rd_last_time = 0, rd_last_keypress = 0, rd_error = None, rd_signals = 0, rd_disconnects = 0, rd_sent = [], rd_keys = [],
     rd_progress = 0, rd_connects = [], rd_reconnects = [], rd_world = w\<rparr>"

text \<open>An attempt of the sample, up to what FreeRDP does.\<close>

definition sample_ready :: "rdp_request list rdp \<Rightarrow> bool" where
  "sample_ready s \<longleftrightarrow> rd_attached s \<and> (\<forall>k \<in> set flag_keys. \<not> get_flag (rd_file s) k) \<and> \<not> rg_bool (rd_config s) ''SmartcardLogon'' \<and>
     \<not> rx_connected (rd_ctx s) \<and> rd_error s = None \<and> \<not> rd_cancelled s"

lemma sample_tunnel_init:
  "remmina_rdp_tunnel_init sample_rdp_lib s = Ret (True, rdp_set (set_uint ''ServerPort'' 3389)
     (if rx_is_reconnecting (rd_ctx s) then s else rdp_set (rdp_tunnel_names ''server'' 3389) s))"
proof -
  have "strstr ''server'' ''ID:'' = None" by code_simp
  then have "remmina_public_get_server_port (\<lambda>h p. Some (h, p)) (Some ''server'') 3389 x = (Some ''server'', 3389)" for x
    by (simp add: remmina_public_get_server_port_def)
  moreover have "rl_tunnel sample_rdp_lib = (\<lambda>w. ((Some ''server'', None), w))" "ru_parse (rl_setup sample_rdp_lib) = (\<lambda>h p. Some (h, p))"
    by (simp_all add: sample_rdp_lib_def sample_rdp_setup_def)
  ultimately show ?thesis
    by (simp add: remmina_rdp_tunnel_init_def rdp_do_def Let_def)
qed

lemma sample_reconnect_returns: "rdp_reconnect_loop sample_rdp_lib k s \<noteq> Crash"
proof (induction k arbitrary: s)
  case (Suc k)
  have attempt: "rdp_try_reconnect sample_rdp_lib u \<noteq> Crash" for u
    by (simp add: rdp_try_reconnect_def sample_tunnel_init split_beta)
  have wait: "rdp_reconnect_wait sample_rdp_lib u \<noteq> Crash" for u
    by (simp add: rdp_reconnect_wait_def rdp_do_def sample_rdp_lib_def)
  show ?case
    unfolding rdp_reconnect_loop.simps Let_def
    by (intro c_bind_not_Crash | simp add: attempt split: prod.split | rule impI conjI allI c_bind_not_Crash wait Suc.IH)+
qed simp

lemma sample_rdp_main:
  assumes "sample_ready s"
  shows "\<exists>u. sample_ready u \<and> rd_world u = rd_world s \<and> rd_interactive u = rd_interactive s \<and>
    remmina_rdp_main sample_rdp_lib n s =
      (case rdp_freerdp_connect sample_rdp_lib n u of
         None \<Rightarrow> None | Some Crash \<Rightarrow> Some Crash | Some (Ret (result, v)) \<Rightarrow> rdp_connected sample_rdp_lib n result v)"
proof -
  define p where "p = rdp_set (set_uint ''ProxyType'' PROXY_TYPE_IGNORE) s"
  have flags: "\<not> get_flag (rd_file s) k" if "k \<in> set flag_keys" for k
    using assms that unfolding sample_ready_def by blast
  have start: "rdp_start sample_rdp_lib s = (True, p)"
    using flags by (simp add: rdp_start_def rdp_assistance_def sample_rdp_lib_def set_str_if_def rdp_set_def p_def)
  define t where "t = rdp_set (set_uint ''ServerPort'' 3389)
    (if rx_is_reconnecting (rd_ctx p) then p else rdp_set (rdp_tunnel_names ''server'' 3389) p)"
  have t: "remmina_rdp_tunnel_init sample_rdp_lib p = Ret (True, t)"
    by (simp add: sample_tunnel_init t_def)
  have tf: "rd_file t = rd_file s" "rd_ctx t = rd_ctx s" "rd_interactive t = rd_interactive s" "rd_error t = rd_error s"
      "rd_cancelled t = rd_cancelled s" "rd_attached t = rd_attached s" "rd_world t = rd_world s"
      "rg_bool (rd_config t) = rg_bool (rd_config s)"
    by (simp_all add: t_def p_def rdp_set_def rdp_tunnel_names_def)
  have m: "\<not> get_flag (rd_file t) ''multimon''" "\<not> get_flag (rd_file t) ''span''"
    using flags tf(1) by simp_all
  obtain rf c where c: "rdp_configure sample_rdp_setup (\<lambda>_. True) (rd_port_in t) (rd_interactive t) (rd_file t) (rd_config t) =
      Ret (rf, c)" and rf: "\<forall>k \<in> set flag_keys. get_flag rf k = get_flag (rd_file t) k"
    using rdp_configure_returns[of "rd_file t"] m by blast
  have smart: "\<not> rg_bool c ''SmartcardLogon''"
    by (rule rdp_configure_no_smartcard[OF c]) (use assms flags tf in \<open>simp_all add: sample_ready_def\<close>)
  define u where "u = rdp_apply sample_rdp_setup rf c t"
  have "sample_ready u \<and> rd_world u = rd_world s \<and> rd_interactive u = rd_interactive s"
    using assms tf rf smart by (simp add: u_def rdp_apply_def sample_ready_def)
  moreover have "rl_setup sample_rdp_lib = sample_rdp_setup" "rl_static_ok sample_rdp_lib = (\<lambda>_. True)"
    by (simp_all add: sample_rdp_lib_def)
  then have "remmina_rdp_main sample_rdp_lib n s = (case rdp_freerdp_connect sample_rdp_lib n u of
         None \<Rightarrow> None | Some Crash \<Rightarrow> Some Crash | Some (Ret (result, v)) \<Rightarrow> rdp_connected sample_rdp_lib n result v)"
    using assms by (simp add: remmina_rdp_main_def sample_ready_def start t rdp_connect_def c u_def)
  ultimately show ?thesis by blast
qed

text \<open>An attempt that fails with an error of the login, one that the user closes, and one that is given up.\<close>

lemma sample_failed_login:
  assumes "sample_ready s" "rd_world s = Connect_done False Err_authentication # w"
  shows "\<exists>t. remmina_rdp_main sample_rdp_lib (Suc n) s = Some (Ret (False, t)) \<and> sample_ready t \<and> rd_world t = w \<and> rd_interactive t"
proof -
  obtain u where "sample_ready u" "rd_world u = rd_world s" and u: "remmina_rdp_main sample_rdp_lib (Suc n) s =
      (case rdp_freerdp_connect sample_rdp_lib (Suc n) u of
         None \<Rightarrow> None | Some Crash \<Rightarrow> Some Crash | Some (Ret (result, v)) \<Rightarrow> rdp_connected sample_rdp_lib (Suc n) result v)"
    using sample_rdp_main[OF assms(1)] by blast
  then show ?thesis
    using assms(2)
    by (simp add: rdp_freerdp_connect_def rdp_do_def sample_rdp_lib_def rdp_set_def rdp_connected_def rdp_connect_error_def
        sample_ready_def rdp_pre_connect_settings_def)
qed

lemma sample_given_up:
  assumes "sample_ready s" "rd_world s = []"
  shows "\<exists>t. remmina_rdp_main sample_rdp_lib (Suc n) s = Some (Ret (False, t)) \<and> \<not> rdp_again t"
proof -
  obtain u where "sample_ready u" "rd_world u = rd_world s" and u: "remmina_rdp_main sample_rdp_lib (Suc n) s =
      (case rdp_freerdp_connect sample_rdp_lib (Suc n) u of
         None \<Rightarrow> None | Some Crash \<Rightarrow> Some Crash | Some (Ret (result, v)) \<Rightarrow> rdp_connected sample_rdp_lib (Suc n) result v)"
    using sample_rdp_main[OF assms(1)] by blast
  then show ?thesis
    using assms(2)
    by (simp add: rdp_freerdp_connect_def rdp_do_def sample_rdp_lib_def rdp_set_def rdp_connected_def rdp_connect_error_def
        sample_ready_def rdp_pre_connect_settings_def rdp_again_def)
qed

lemma sample_rdp_world: "rd_world (sample_rdp w) = w"
  by (simp add: sample_rdp_def)

lemma sample_rdp_ready: "sample_ready (sample_rdp w)"
  using sample_rdp_flags(1) by (simp add: sample_ready_def sample_rdp_def sample_rdp_config_def sample_rdp_ctx_def)

text \<open>A login that fails and is then given up: a run of the whole thread.\<close>

lemma sample_rdp_thread:
  "\<exists>s'. remmina_rdp_main_thread sample_rdp_lib 2 2 (sample_rdp [Connect_done False Err_authentication]) = Some (Ret s')"
proof -
  define s where "s = sample_rdp [Connect_done False Err_authentication]"
  have "(s\<lparr>rd_interactive := False\<rparr>) = s" by (simp add: s_def sample_rdp_def)
  moreover obtain t where t: "remmina_rdp_main sample_rdp_lib (Suc 1) s = Some (Ret (False, t))" "sample_ready t" "rd_world t = []"
      "rd_interactive t"
    using sample_failed_login[of s "[]" 1] sample_rdp_ready sample_rdp_world unfolding s_def by blast
  moreover obtain u where "remmina_rdp_main sample_rdp_lib (Suc 1) t = Some (Ret (False, u))" "\<not> rdp_again u"
    using sample_given_up[OF t(2,3)] by blast
  moreover have "rdp_again t" using t by (simp add: rdp_again_def sample_ready_def)
  ultimately show ?thesis
    by (simp add: remmina_rdp_main_thread_def s_def[symmetric] numeral_2_eq_2)
qed

theorem rdp_closed_once_witness:
  "\<exists>s'. remmina_rdp_main_thread sample_rdp_lib 2 2 (sample_rdp [Connect_done False Err_authentication]) = Some (Ret s') \<and>
     rd_signals s' = 1"
proof -
  obtain s' where s': "remmina_rdp_main_thread sample_rdp_lib 2 2 (sample_rdp [Connect_done False Err_authentication]) = Some (Ret s')"
    using sample_rdp_thread by blast
  have "rd_signals s' = 1"
    using rdp_closed_once[OF s'] by (simp add: sample_rdp_def)
  with s' show ?thesis by blast
qed

theorem rdp_password_not_stored_witness:
  "\<exists>s'. remmina_rdp_main_thread sample_rdp_lib 2 2 (sample_rdp [Connect_done False Err_authentication]) = Some (Ret s') \<and>
     (\<forall>k \<in> set password_settings. get_str (rd_file s') k = get_str sample_rdp_profile k \<or> get_str (rd_file s') k = None)"
proof -
  obtain s' where s': "remmina_rdp_main_thread sample_rdp_lib 2 2 (sample_rdp [Connect_done False Err_authentication]) = Some (Ret s')"
    using sample_rdp_thread by blast
  have "rd_file (sample_rdp w) = sample_rdp_profile" for w by (simp add: sample_rdp_def)
  moreover have "panel_switch_offered (rl_user sample_rdp_lib)"
    by (simp add: panel_switch_offered_def sample_rdp_lib_def)
  ultimately have "\<forall>k \<in> set password_settings. get_str (rd_file s') k = get_str sample_rdp_profile k \<or> get_str (rd_file s') k = None"
    using rdp_password_not_stored[OF s'] sample_rdp_flags(2) by simp
  with s' show ?thesis by blast
qed

theorem rdp_retry_forgets_witness:
  "\<exists>s'. remmina_rdp_main_thread sample_rdp_lib 2 2 (sample_rdp [Connect_done False Err_authentication]) = Some (Ret s') \<and>
     (\<forall>c \<in> set (tl (rd_connects s')). no_credentials c)"
proof -
  obtain s' where s': "remmina_rdp_main_thread sample_rdp_lib 2 2 (sample_rdp [Connect_done False Err_authentication]) = Some (Ret s')"
    using sample_rdp_thread by blast
  have "\<forall>c \<in> set (tl (rd_connects s')). no_credentials c"
    by (rule rdp_retry_forgets[OF s']) (simp add: sample_rdp_def)
  with s' show ?thesis by blast
qed

text \<open>Two attempts of two, after FreeRDP failed once.\<close>

theorem rdp_reconnect_bounded_witness:
  "\<exists>b s'. rf_auto_reconnect sample_rdp_lib ((sample_rdp [User_closes])\<lparr>rd_config := set_bool ''AutoReconnectionEnabled'' True
       sample_rdp_config\<rparr>) = Ret (b, s') \<and> \<not> rx_is_reconnecting (rd_ctx s') \<and> (b \<longrightarrow> True \<in> set (rd_reconnects s'))"
proof -
  define s where "s = (sample_rdp [User_closes])\<lparr>rd_config := set_bool ''AutoReconnectionEnabled'' True sample_rdp_config\<rparr>"
  have "rf_auto_reconnect sample_rdp_lib s \<noteq> Crash"
    unfolding rf_auto_reconnect_def Let_def
    by (simp split: if_split) (intro impI c_bind_not_Crash sample_reconnect_returns; simp split: prod.split)
  then obtain b s' where r: "rf_auto_reconnect sample_rdp_lib s = Ret (b, s')"
    by (cases "rf_auto_reconnect sample_rdp_lib s") auto
  from rdp_reconnect_bounded[OF r] have "\<not> rx_is_reconnecting (rd_ctx s')" "b \<longrightarrow> True \<in> set (rd_reconnects s')"
    by (auto split: if_splits)
  with r show ?thesis unfolding s_def by blast
qed

end
