(* ===== verification/FtpClient.thy ===== *)
theory FtpClient
  imports FileData Public GLib
begin

text \<open>
  The file transfer widget (\<open>src/remmina_ftp_client.c\<close>): the list of remote files, the
  directories visited, the tasks and their states, and the handlers of the user's actions. What
  the user chooses in a dialog is an argument. Sizes are numbers: the rounding of \<open>gfloat\<close> is
  left out, except in the percentage, which is computed in whole numbers.
\<close>

section \<open>State\<close>

datatype ftp_file_type = FTP_FILE_TYPE_DIR | FTP_FILE_TYPE_FILE | FTP_FILE_TYPE_LINK

datatype ftp_task_type = FTP_TASK_TYPE_DOWNLOAD | FTP_TASK_TYPE_UPLOAD

datatype ftp_task_status = FTP_TASK_STATUS_WAIT | FTP_TASK_STATUS_RUN | FTP_TASK_STATUS_FINISH | FTP_TASK_STATUS_ERROR

record ftp_file =
  ff_type :: ftp_file_type
  ff_name :: string
  ff_size :: nat
  ff_user :: cstr
  ff_group :: cstr
  ff_permission :: guint
  ff_modified :: int
  ff_name_sort :: string

record ftp_task =
  tk_type :: ftp_file_type
  tk_name :: string
  tk_taskid :: nat
  tk_tasktype :: ftp_task_type
  tk_remotedir :: cstr
  tk_localdir :: cstr
  tk_size :: nat
  tk_status :: ftp_task_status
  tk_donesize :: nat
  tk_tooltip :: cstr

text \<open>The number of the next task is a global variable; a task is found again by its number.\<close>

record ftp_client =
  fc_files :: "ftp_file list"
  fc_show_hidden :: bool
  fc_sensitive :: bool
  fc_directories :: "string list"
  fc_current :: cstr
  fc_working :: cstr
  fc_overwrite_all :: bool
  fc_resume_all :: bool
  fc_tasks :: "ftp_task list"
  fc_next_taskid :: nat

definition remmina_ftp_client_init :: "nat \<Rightarrow> ftp_client" where
  "remmina_ftp_client_init next_taskid =
     \<lparr>fc_files = [], fc_show_hidden = False, fc_sensitive = False, fc_directories = [], fc_current = None, fc_working = None,
      fc_overwrite_all = False, fc_resume_all = False, fc_tasks = [], fc_next_taskid = next_taskid\<rparr>"

section \<open>The list of files\<close>

definition file_type_num :: "ftp_file_type \<Rightarrow> nat" where
  "file_type_num t = (case t of FTP_FILE_TYPE_DIR \<Rightarrow> 0 | FTP_FILE_TYPE_FILE \<Rightarrow> 1 | FTP_FILE_TYPE_LINK \<Rightarrow> 2)"

definition remmina_ftp_client_add_file :: "ftp_file \<Rightarrow> ftp_client \<Rightarrow> ftp_client" where
  "remmina_ftp_client_add_file f fc =
     fc\<lparr>fc_files := fc_files fc @ [f\<lparr>ff_name_sort := show_nat (file_type_num (ff_type f)) @ ff_name f\<rparr>]\<rparr>"

definition remmina_ftp_client_clear_file_list :: "ftp_client \<Rightarrow> ftp_client" where
  "remmina_ftp_client_clear_file_list fc = fc\<lparr>fc_files := [], fc_sensitive := False\<rparr>"

definition remmina_ftp_client_set_show_hidden :: "bool \<Rightarrow> ftp_client \<Rightarrow> ftp_client" where
  "remmina_ftp_client_set_show_hidden b fc = fc\<lparr>fc_show_hidden := b\<rparr>"

definition remmina_ftp_client_filter_visible_func :: "ftp_client \<Rightarrow> ftp_file \<Rightarrow> bool" where
  "remmina_ftp_client_filter_visible_func fc f \<longleftrightarrow> fc_show_hidden fc \<or> \<not> prefix ''.'' (ff_name f)"

definition remmina_ftp_client_file_selection_on_changed :: "ftp_file list \<Rightarrow> ftp_client \<Rightarrow> ftp_client" where
  "remmina_ftp_client_file_selection_on_changed selected fc = fc\<lparr>fc_sensitive := selected \<noteq> []\<rparr>"

text \<open>The permissions as they are shown: the bit of a directory, then three triples.\<close>

definition permission_char :: "guint \<Rightarrow> guint \<Rightarrow> char \<Rightarrow> char" where
  "permission_char permission flag c = (if and permission flag \<noteq> 0 then c else CHR ''-'')"

definition remmina_ftp_client_cell_data_permission :: "guint \<Rightarrow> string" where
  "remmina_ftp_client_cell_data_permission permission =
     map (\<lambda>(flag, c). permission_char permission flag c)
       [(0x4000, CHR ''d''), (0x100, CHR ''r''), (0x80, CHR ''w''), (0x40, CHR ''x''), (0x20, CHR ''r''), (0x10, CHR ''w''),
        (0x8, CHR ''x''), (0x4, CHR ''r''), (0x2, CHR ''w''), (0x1, CHR ''x'')]"

definition remmina_ftp_client_cell_data_progress :: "ftp_task \<Rightarrow> nat" where
  "remmina_ftp_client_cell_data_progress t =
     (if tk_status t = FTP_TASK_STATUS_FINISH then 100
      else if tk_size t \<le> 1 then 0
      else min 99 (tk_donesize t * 100 div tk_size t))"

section \<open>Directories\<close>

definition remmina_ftp_client_set_dir :: "string \<Rightarrow> ftp_client \<Rightarrow> ftp_client" where
  "remmina_ftp_client_set_dir dir fc =
     (if fc_current fc = Some dir then fc
      else fc\<lparr>fc_directories := dir # remove1 dir (fc_directories fc), fc_current := Some dir\<rparr>)"

definition remmina_ftp_client_get_dir :: "ftp_client \<Rightarrow> cstr" where
  "remmina_ftp_client_get_dir = fc_current"

text \<open>The directory an action opens; NULL is the directory the server starts in.\<close>

datatype ftp_action = Parent_action | Home_action | Refresh_action | Entry_action string

fun ftp_action_dir :: "ftp_action \<Rightarrow> cstr" where
  "ftp_action_dir Parent_action = Some ''..''"
| "ftp_action_dir Home_action = None"
| "ftp_action_dir Refresh_action = Some ''.''"
| "ftp_action_dir (Entry_action t) = Some t"

section \<open>Tasks\<close>

definition ftp_append_task :: "ftp_task \<Rightarrow> ftp_client \<Rightarrow> ftp_client" where
  "ftp_append_task t fc =
     fc\<lparr>fc_tasks := fc_tasks fc @ [t\<lparr>tk_taskid := fc_next_taskid fc, tk_remotedir := fc_current fc,
          tk_status := FTP_TASK_STATUS_WAIT, tk_donesize := 0, tk_tooltip := None\<rparr>],
        fc_next_taskid := Suc (fc_next_taskid fc)\<rparr>"

definition ftp_new_task :: "ftp_file_type \<Rightarrow> string \<Rightarrow> nat \<Rightarrow> ftp_task_type \<Rightarrow> cstr \<Rightarrow> ftp_task" where
  "ftp_new_task ty name n tasktype localdir =
     \<lparr>tk_type = ty, tk_name = name, tk_taskid = 0, tk_tasktype = tasktype, tk_remotedir = None, tk_localdir = localdir,
      tk_size = n, tk_status = FTP_TASK_STATUS_WAIT, tk_donesize = 0, tk_tooltip = None\<rparr>"

definition remmina_ftp_client_download :: "string \<Rightarrow> ftp_file \<Rightarrow> ftp_client \<Rightarrow> ftp_client" where
  "remmina_ftp_client_download localdir f fc =
     ftp_append_task (ftp_new_task (ff_type f) (ff_name f) (ff_size f) FTP_TASK_TYPE_DOWNLOAD (Some localdir)) fc"

text \<open>
  The directory the user chooses, with the folder the dialog shows then; \<open>None\<close> when it is
  cancelled. The number of tasks that were added is the number of signals for new tasks.
\<close>

definition remmina_ftp_client_get_download_dir :: "(string \<times> cstr) option \<Rightarrow> ftp_client \<Rightarrow> cstr \<times> ftp_client" where
  "remmina_ftp_client_get_download_dir choice fc =
     (case choice of None \<Rightarrow> (None, fc) | Some (dir, folder) \<Rightarrow> (Some dir, fc\<lparr>fc_working := folder\<rparr>))"

definition remmina_ftp_client_action_download ::
  "ftp_file list \<Rightarrow> (string \<times> cstr) option \<Rightarrow> ftp_client \<Rightarrow> nat \<times> ftp_client" where
  "remmina_ftp_client_action_download selected choice fc =
     (if selected = [] then (0, fc)
      else case remmina_ftp_client_get_download_dir choice fc of
             (None, fc) \<Rightarrow> (0, fc)
           | (Some localdir, fc) \<Rightarrow> (length selected, fold (remmina_ftp_client_download localdir) selected fc))"

text \<open>The name of a file and its directory; a path that has no slash has no directory.\<close>

definition upload_name :: "string \<Rightarrow> cstr \<times> string" where
  "upload_name path = (case rsplit_at (CHR ''/'') path of None \<Rightarrow> (None, path) | Some (dir, name) \<Rightarrow> (Some dir, name))"

definition ftp_upload :: "ftp_file_type \<Rightarrow> string \<times> nat option \<Rightarrow> ftp_client \<Rightarrow> ftp_client" where
  "ftp_upload ty = (\<lambda>(path, stat) fc.
     (case stat of
        None \<Rightarrow> fc
      | Some n \<Rightarrow> let (dir, name) = upload_name path in ftp_append_task (ftp_new_task ty name n FTP_TASK_TYPE_UPLOAD dir) fc))"

text \<open>The files chosen with their sizes, unless they cannot be found, and whether they are folders.\<close>

definition remmina_ftp_client_action_upload ::
  "bool \<Rightarrow> (string \<times> nat option) list \<Rightarrow> cstr \<Rightarrow> ftp_client \<Rightarrow> nat \<times> ftp_client" where
  "remmina_ftp_client_action_upload folders files working fc =
     (if files = [] then (0, fc)
      else (1, fold (ftp_upload (if folders then FTP_FILE_TYPE_DIR else FTP_FILE_TYPE_FILE)) files (fc\<lparr>fc_working := working\<rparr>)))"

text \<open>A double click: a directory to open, or a download.\<close>

definition ftp_double_click :: "ftp_file \<Rightarrow> (string \<times> cstr) option \<Rightarrow> ftp_client \<Rightarrow> cstr \<times> nat \<times> ftp_client" where
  "ftp_double_click f choice fc =
     (if ff_type f = FTP_FILE_TYPE_FILE
      then (case remmina_ftp_client_get_download_dir choice fc of
              (None, fc) \<Rightarrow> (None, 0, fc)
            | (Some localdir, fc) \<Rightarrow> (None, 1, remmina_ftp_client_download localdir f fc))
      else (Some (ff_name f), 0, fc))"

text \<open>Deleting stops at the first file the handler could not delete.\<close>

fun ftp_delete_files ::
  "(ftp_file_type \<Rightarrow> string \<Rightarrow> 's \<Rightarrow> (bool \<times> 's) c_result) \<Rightarrow> cstr \<Rightarrow> ftp_file list \<Rightarrow> 's \<Rightarrow> (bool \<times> 's) c_result" where
  "ftp_delete_files delete dir [] s = Ret (True, s)"
| "ftp_delete_files delete dir (f # fs) s =
     c_bind (delete (ff_type f) (remmina_public_combine_path dir (ff_name f)) s)
       (\<lambda>(ok, s). if ok then ftp_delete_files delete dir fs s else Ret (False, s))"

text \<open>The first task that waits.\<close>

definition remmina_ftp_client_get_waiting_task :: "ftp_client \<Rightarrow> ftp_task option" where
  "remmina_ftp_client_get_waiting_task fc = find (\<lambda>t. tk_status t = FTP_TASK_STATUS_WAIT) (fc_tasks fc)"

text \<open>The row of a task is updated if it is still there.\<close>

definition ftp_task_update :: "ftp_task \<Rightarrow> ftp_task \<Rightarrow> ftp_task" where
  "ftp_task_update t row =
     (if tk_taskid row = tk_taskid t
      then row\<lparr>tk_size := tk_size t, tk_status := tk_status t, tk_donesize := tk_donesize t, tk_tooltip := tk_tooltip t\<rparr>
      else row)"

definition remmina_ftp_client_update_task :: "ftp_task \<Rightarrow> ftp_client \<Rightarrow> ftp_client" where
  "remmina_ftp_client_update_task t fc = fc\<lparr>fc_tasks := map (ftp_task_update t) (fc_tasks fc)\<rparr>"

text \<open>A click on the icon of a task: the row is removed when the handler agrees.\<close>

definition ftp_remove_task :: "nat \<Rightarrow> ftp_client \<Rightarrow> ftp_client" where
  "ftp_remove_task taskid fc = fc\<lparr>fc_tasks := filter (\<lambda>t. tk_taskid t \<noteq> taskid) (fc_tasks fc)\<rparr>"

definition remmina_ftp_client_set_overwrite_status :: "bool \<Rightarrow> ftp_client \<Rightarrow> ftp_client" where
  "remmina_ftp_client_set_overwrite_status b fc = fc\<lparr>fc_overwrite_all := b\<rparr>"

definition remmina_ftp_client_get_overwrite_status :: "ftp_client \<Rightarrow> bool" where
  "remmina_ftp_client_get_overwrite_status = fc_overwrite_all"

definition remmina_ftp_client_set_resume_status :: "bool \<Rightarrow> ftp_client \<Rightarrow> ftp_client" where
  "remmina_ftp_client_set_resume_status b fc = fc\<lparr>fc_resume_all := b\<rparr>"

definition remmina_ftp_client_get_resume_status :: "ftp_client \<Rightarrow> bool" where
  "remmina_ftp_client_get_resume_status = fc_resume_all"

text \<open>The position of the divider, kept in the profile; it is not set when nothing was saved.\<close>

definition remmina_ftp_client_save_state :: "gint \<Rightarrow> rfile \<Rightarrow> rfile" where
  "remmina_ftp_client_save_state pos rf = remmina_file_set_int rf ''ftp_vpanedpos'' pos"

definition remmina_ftp_client_load_state :: "int \<Rightarrow> rfile \<Rightarrow> int option" where
  "remmina_ftp_client_load_state height rf =
     (let pos = sint (remmina_file_get_int rf ''ftp_vpanedpos'' 0) in
      if pos = 0 then None else Some (if height > 0 \<and> pos > height - 60 then height - 60 else pos))"

end
