(* ===== verification/SftpClient.thy ===== *)
theory SftpClient
  imports FtpClient
begin

text \<open>
  The transfers of the SFTP client (\<open>src/remmina_sftp_client.c\<close>): the thread that works through
  the tasks of the widget, and the handlers of the main thread. The files on both sides are
  maps from paths to contents; the server, the disk, the user's answers and what the main thread
  does meanwhile are a record of functions on a state \<open>'w\<close>. The thread looks for an end of its
  task at the places where the code does, and the main thread may act before each of them. The
  file that is read does not change while it is transferred: what a read returns is a part of the
  content that the file had when it was opened. What \<open>fwrite\<close> accepts counts as written, as in the
  code, which does not look at the result of \<open>fclose\<close>.
\<close>

section \<open>State\<close>

datatype resume_answer = Resume_cancel | Resume_overwrite | Resume_append | Resume_none

text \<open>
  What the main thread does: a click on the icon of a task with the answer to the question, new
  downloads and uploads, the preferences of the session, or the end of the widget.
\<close>

datatype ftp_event =
    Ev_cancel nat bool
  | Ev_download "ftp_file list" "(string \<times> cstr) option"
  | Ev_upload bool "(string \<times> nat option) list" cstr
  | Ev_overwrite bool
  | Ev_resume bool
  | Ev_destroy

record sftp_attr =
  at_name :: string
  at_type :: nat
  at_permissions :: guint
  at_size :: nat
  at_owner :: cstr
  at_group :: cstr
  at_mtime :: int

record 'w sftp_env =
  sn_convert :: "string \<Rightarrow> string"
  sn_unconvert :: "string \<Rightarrow> string"
  sn_main :: "'w \<Rightarrow> ftp_event list \<times> 'w"
  sn_answer :: "string \<Rightarrow> 'w \<Rightarrow> resume_answer \<times> 'w"
  sn_mkdirs :: "string \<Rightarrow> 'w \<Rightarrow> bool \<times> 'w"
  sn_fopen :: "string \<Rightarrow> 'w \<Rightarrow> bool \<times> 'w"
  sn_fseek :: "'w \<Rightarrow> bool \<times> 'w"
  sn_fread :: "'w \<Rightarrow> nat option \<times> 'w"
  sn_fwrite :: "'w \<Rightarrow> nat \<times> 'w"
  sn_dir_open :: "string \<Rightarrow> 'w \<Rightarrow> string list option \<times> 'w"
  sn_local_stat :: "string \<Rightarrow> 'w \<Rightarrow> (bool \<times> nat) option \<times> 'w"
  sn_open :: "string \<Rightarrow> 'w \<Rightarrow> bool \<times> 'w"
  sn_fopen_read :: "string \<Rightarrow> 'w \<Rightarrow> bool \<times> 'w"
  sn_seek :: "'w \<Rightarrow> bool \<times> 'w"
  sn_read :: "'w \<Rightarrow> nat option \<times> 'w"
  sn_write :: "'w \<Rightarrow> nat \<times> 'w"
  sn_fstat :: "'w \<Rightarrow> bool \<times> 'w"
  sn_opendir :: "string \<Rightarrow> 'w \<Rightarrow> sftp_attr list option \<times> 'w"
  sn_dir_eof :: "'w \<Rightarrow> bool"
  sn_stat :: "string \<Rightarrow> 'w \<Rightarrow> bool \<times> 'w"
  sn_mkdir :: "string \<Rightarrow> 'w \<Rightarrow> bool \<times> 'w"
  sn_rmdir :: "string \<Rightarrow> 'w \<Rightarrow> bool \<times> 'w"
  sn_unlink :: "string \<Rightarrow> 'w \<Rightarrow> bool \<times> 'w"
  sn_readlink :: "string \<Rightarrow> 'w \<Rightarrow> cstr"
  sn_canonicalize :: "string \<Rightarrow> 'w \<Rightarrow> cstr"
  sn_tunnel :: "'w \<Rightarrow> bool \<times> 'w"
  sn_login :: "'w \<Rightarrow> cstr option \<times> 'w"
  sn_error :: "'w \<Rightarrow> string"

text \<open>
  \<open>sf_session\<close> is the session of the widget, \<open>sf_own\<close> the one of the thread. The paths that were
  opened for writing, the errors of reading, the starts of the thread and the refreshes are
  recorded.
\<close>

record 'w sftp =
  sf_client :: ftp_client
  sf_session :: bool
  sf_own :: bool
  sf_closed :: bool
  sf_thread :: bool
  sf_taskid :: nat
  sf_abort :: bool
  sf_task :: ftp_task
  sf_done :: nat
  sf_local :: "string \<Rightarrow> cstr"
  sf_remote :: "string \<Rightarrow> cstr"
  sf_written :: "string list"
  sf_read_errors :: nat
  sf_starts :: nat
  sf_refreshes :: nat
  sf_dialogs :: "string list"
  sf_world :: 'w

definition sftp_do :: "('w \<Rightarrow> 'a \<times> 'w) \<Rightarrow> 'w sftp \<Rightarrow> 'a \<times> 'w sftp" where
  "sftp_do f s = (let (a, w) = f (sf_world s) in (a, s\<lparr>sf_world := w\<rparr>))"

section \<open>The main thread\<close>

text \<open>A new task starts the thread unless its flag says that it runs.\<close>

definition remmina_sftp_client_on_newtask :: "'w sftp \<Rightarrow> 'w sftp" where
  "remmina_sftp_client_on_newtask s =
     (if sf_thread s then s else s\<lparr>sf_thread := True, sf_starts := Suc (sf_starts s)\<rparr>)"

definition remmina_sftp_client_on_canceltask :: "nat \<Rightarrow> bool \<Rightarrow> 'w sftp \<Rightarrow> bool \<times> 'w sftp" where
  "remmina_sftp_client_on_canceltask taskid yes s =
     (if sf_taskid s \<noteq> taskid then (True, s)
      else if yes then (True, s\<lparr>sf_taskid := 0\<rparr>)
      else (False, s))"

definition remmina_ftp_client_task_list_cell_on_activate :: "nat \<Rightarrow> bool \<Rightarrow> 'w sftp \<Rightarrow> 'w sftp" where
  "remmina_ftp_client_task_list_cell_on_activate taskid yes s =
     (let (ret, s) = remmina_sftp_client_on_canceltask taskid yes s
      in if ret then s\<lparr>sf_client := ftp_remove_task taskid (sf_client s)\<rparr> else s)"

text \<open>The end of the widget closes its session; it then waits for the flag of the thread.\<close>

definition remmina_sftp_client_destroy :: "'w sftp \<Rightarrow> 'w sftp" where
  "remmina_sftp_client_destroy s = s\<lparr>sf_session := False, sf_abort := True\<rparr>"

definition destroy_waits :: "'w sftp \<Rightarrow> bool" where
  "destroy_waits s \<longleftrightarrow> sf_thread s"

text \<open>The signals of the tasks that were added.\<close>

definition sftp_new_tasks :: "nat \<times> ftp_client \<Rightarrow> 'w sftp \<Rightarrow> 'w sftp" where
  "sftp_new_tasks r s = (remmina_sftp_client_on_newtask ^^ fst r) (s\<lparr>sf_client := snd r\<rparr>)"

fun sftp_event :: "ftp_event \<Rightarrow> 'w sftp \<Rightarrow> 'w sftp" where
  "sftp_event (Ev_cancel taskid yes) s = remmina_ftp_client_task_list_cell_on_activate taskid yes s"
| "sftp_event (Ev_download selected choice) s =
     sftp_new_tasks (remmina_ftp_client_action_download selected choice (sf_client s)) s"
| "sftp_event (Ev_upload folders files working) s =
     sftp_new_tasks (remmina_ftp_client_action_upload folders files working (sf_client s)) s"
| "sftp_event (Ev_overwrite b) s = s\<lparr>sf_client := remmina_ftp_client_set_overwrite_status b (sf_client s)\<rparr>"
| "sftp_event (Ev_resume b) s = s\<lparr>sf_client := remmina_ftp_client_set_resume_status b (sf_client s)\<rparr>"
| "sftp_event Ev_destroy s = remmina_sftp_client_destroy s"

definition sftp_main :: "'w sftp_env \<Rightarrow> 'w sftp \<Rightarrow> 'w sftp" where
  "sftp_main env s = (let (es, s) = sftp_do (sn_main env) s in fold sftp_event es s)"

section \<open>The task of the thread\<close>

text \<open>\<open>THREAD_CHECK_EXIT\<close>\<close>

definition thread_check_exit :: "'w sftp \<Rightarrow> bool" where
  "thread_check_exit s \<longleftrightarrow> sf_taskid s = 0 \<or> sf_abort s"

definition sftp_exit :: "'w sftp_env \<Rightarrow> 'w sftp \<Rightarrow> bool \<times> 'w sftp" where
  "sftp_exit env s = (let s = sftp_main env s in (thread_check_exit s, s))"

definition sftp_show_task :: "'w sftp \<Rightarrow> 'w sftp" where
  "sftp_show_task s = s\<lparr>sf_client := remmina_ftp_client_update_task (sf_task s) (sf_client s)\<rparr>"

definition remmina_sftp_client_thread_update_task :: "'w sftp_env \<Rightarrow> 'w sftp \<Rightarrow> bool \<times> 'w sftp" where
  "remmina_sftp_client_thread_update_task env s =
     (let (ex, s) = sftp_exit env s in if ex then (False, s) else (True, sftp_show_task s))"

definition sftp_end_task :: "'w sftp_env \<Rightarrow> ftp_task_status \<Rightarrow> cstr \<Rightarrow> 'w sftp \<Rightarrow> 'w sftp" where
  "sftp_end_task env status tooltip s =
     snd (remmina_sftp_client_thread_update_task env (s\<lparr>sf_task := (sf_task s)\<lparr>tk_status := status, tk_tooltip := tooltip\<rparr>\<rparr>))"

definition remmina_sftp_client_thread_set_error :: "'w sftp_env \<Rightarrow> cstr \<Rightarrow> 'w sftp \<Rightarrow> 'w sftp" where
  "remmina_sftp_client_thread_set_error env error = sftp_end_task env FTP_TASK_STATUS_ERROR error"

definition remmina_sftp_client_thread_set_finish :: "'w sftp_env \<Rightarrow> 'w sftp \<Rightarrow> 'w sftp" where
  "remmina_sftp_client_thread_set_finish env = sftp_end_task env FTP_TASK_STATUS_FINISH None"

text \<open>An error with the text of the server reads the session of the widget, which may be gone.\<close>

definition sftp_server_error :: "'w sftp_env \<Rightarrow> string \<Rightarrow> string \<Rightarrow> string \<Rightarrow> 'w sftp \<Rightarrow> 'w sftp c_result" where
  "sftp_server_error env before path after s =
     (if sf_session s
      then Ret (remmina_sftp_client_thread_set_error env
             (Some (before @ curly_quoted (Some path) @ after @ sn_error env (sf_world s))) s)
      else Crash)"

definition sftp_fail :: "'w sftp c_result \<Rightarrow> (bool \<times> 'w sftp) c_result" where
  "sftp_fail r = c_bind r (\<lambda>s. Ret (False, s))"

text \<open>The next task, which then runs.\<close>

definition remmina_sftp_client_thread_get_task :: "'w sftp_env \<Rightarrow> 'w sftp \<Rightarrow> ftp_task option \<times> 'w sftp" where
  "remmina_sftp_client_thread_get_task env s =
     (let s = sftp_main env s in
      if sf_abort s then (None, s)
      else case remmina_ftp_client_get_waiting_task (sf_client s) of
             None \<Rightarrow> (None, s)
           | Some t \<Rightarrow>
               let t = t\<lparr>tk_status := FTP_TASK_STATUS_RUN\<rparr>
               in (Some t, sftp_show_task (s\<lparr>sf_taskid := tk_taskid t, sf_task := t\<rparr>)))"

text \<open>A file that is there already: the preferences, or the user.\<close>

definition remmina_sftp_client_confirm_resume :: "'w sftp_env \<Rightarrow> string \<Rightarrow> 'w sftp \<Rightarrow> resume_answer \<times> 'w sftp" where
  "remmina_sftp_client_confirm_resume env path s =
     (if remmina_ftp_client_get_overwrite_status (sf_client s) then (Resume_overwrite, s)
      else if remmina_ftp_client_get_resume_status (sf_client s) then (Resume_append, s)
      else sftp_do (sn_answer env path) s)"

section \<open>Downloading a file\<close>

abbreviation sftp_buffer :: nat where
  "sftp_buffer \<equiv> 20480"

text \<open>The folder of a path, in the buffer; none for the root.\<close>

definition local_folder :: "string \<Rightarrow> cstr" where
  "local_folder path =
     (case rsplit_at (CHR ''/'') (take (sftp_buffer - 1) path) of
        None \<Rightarrow> None
      | Some (dir, _) \<Rightarrow> if dir = [] then None else Some dir)"

definition sftp_write_local :: "string \<Rightarrow> string \<Rightarrow> 'w sftp \<Rightarrow> 'w sftp" where
  "sftp_write_local path content s = s\<lparr>sf_local := (sf_local s)(path := Some content)\<rparr>"

text \<open>Opening for writing: appending keeps what is there, and the file is there then.\<close>

definition sftp_open_local :: "'w sftp_env \<Rightarrow> bool \<Rightarrow> string \<Rightarrow> 'w sftp \<Rightarrow> cstr \<times> 'w sftp" where
  "sftp_open_local env keep path s =
     (let (ok, s) = sftp_do (sn_fopen env path) s;
          content = (if keep then (case sf_local s path of None \<Rightarrow> [] | Some c \<Rightarrow> c) else [])
      in if ok then (Some content, (sftp_write_local path content s)\<lparr>sf_written := sf_written s @ [path]\<rparr>) else (None, s))"

text \<open>The bytes that one read returns: at least one before the end of the file, at most a buffer.\<close>

definition read_chunk :: "nat \<Rightarrow> string \<Rightarrow> string" where
  "read_chunk n rest = take (min sftp_buffer (Suc n)) rest"

definition sftp_progress :: "'w sftp_env \<Rightarrow> nat \<Rightarrow> 'w sftp \<Rightarrow> bool \<times> 'w sftp" where
  "sftp_progress env len s =
     remmina_sftp_client_thread_update_task env
       (s\<lparr>sf_done := sf_done s + len, sf_task := (sf_task s)\<lparr>tk_donesize := sf_done s + len\<rparr>\<rparr>)"

text \<open>
  A round of the loop: the result of the transfer, or the content and the rest that the next round
  starts with. An error of reading ends the loop like the end of the file.
\<close>

definition sftp_download_round ::
  "'w sftp_env \<Rightarrow> string \<Rightarrow> string \<Rightarrow> string \<Rightarrow> 'w sftp \<Rightarrow> (bool + string \<times> string) \<times> 'w sftp" where
  "sftp_download_round env path content rest s =
     (let (ex, s) = sftp_exit env s in
      if ex then (Inl True, s)
      else case sftp_do (sn_read env) s of
             (None, s) \<Rightarrow> (Inl True, s\<lparr>sf_read_errors := Suc (sf_read_errors s)\<rparr>)
           | (Some n, s) \<Rightarrow>
               if rest = [] then (Inl True, s)
               else let (ex, s) = sftp_exit env s in
                    if ex then (Inl True, s)
                    else let chunk = read_chunk n rest;
                             (k, s) = sftp_do (sn_fwrite env) s;
                             s = sftp_write_local path (content @ take k chunk) s
                         in if k < length chunk
                            then (Inl False, remmina_sftp_client_thread_set_error env
                                    (Some (''Could not save the file '' @ curly_quoted (Some path) @ ''.'')) s)
                            else let (ok, s) = sftp_progress env (length chunk) s
                                 in (if ok then Inr (content @ chunk, drop (length chunk) rest) else Inl True, s))"

lemma download_round_shorter: "sftp_download_round env path content rest s = (Inr (c, r), t) \<Longrightarrow> length r < length rest"
  by (auto simp: sftp_download_round_def Let_def read_chunk_def split: prod.splits if_splits option.splits)

function sftp_download_loop :: "'w sftp_env \<Rightarrow> string \<Rightarrow> string \<Rightarrow> string \<Rightarrow> 'w sftp \<Rightarrow> bool \<times> 'w sftp" where
  "sftp_download_loop env path content rest s =
     (case sftp_download_round env path content rest s of
        (Inl b, s) \<Rightarrow> (b, s)
      | (Inr (content, rest), s) \<Rightarrow> sftp_download_loop env path content rest s)"
  by pat_completeness auto
termination
  by (relation "measure (\<lambda>(env, path, content, rest, s). length rest)") (auto dest: download_round_shorter[OF sym])

declare sftp_download_loop.simps [simp del]

text \<open>From the remote file on; \<open>content\<close> is what the local file has.\<close>

definition sftp_download_remote :: "'w sftp_env \<Rightarrow> string \<Rightarrow> string \<Rightarrow> string \<Rightarrow> 'w sftp \<Rightarrow> (bool \<times> 'w sftp) c_result" where
  "sftp_download_remote env remote_path local_path content s =
     (let (ok, s) = sftp_do (sn_open env (sn_unconvert env remote_path)) s;
          len = length content
      in case (if ok then sf_remote s (sn_unconvert env remote_path) else None) of
           None \<Rightarrow> sftp_fail (sftp_server_error env ''Could not open the file '' remote_path '' on the server. '' s)
         | Some remote \<Rightarrow>
             if len = 0 then Ret (sftp_download_loop env local_path content remote s)
             else let (ok, s) = sftp_do (sn_seek env) s in
                  if ok then Ret (sftp_download_loop env local_path content (drop len remote) (s\<lparr>sf_done := len\<rparr>))
                  else sftp_fail (sftp_server_error env ''Could not download the file '' remote_path ''. '' s))"

definition could_not_create :: "'w sftp_env \<Rightarrow> string \<Rightarrow> string \<Rightarrow> 'w sftp \<Rightarrow> (bool \<times> 'w sftp) c_result" where
  "could_not_create env what path s =
     Ret (False, remmina_sftp_client_thread_set_error env (Some (''Could not create the '' @ what @ '' '' @ curly_quoted (Some path) @ ''.'')) s)"

definition sftp_download_resume ::
  "'w sftp_env \<Rightarrow> string \<Rightarrow> string \<Rightarrow> string \<Rightarrow> 'w sftp \<Rightarrow> (bool \<times> 'w sftp) c_result" where
  "sftp_download_resume env remote_path local_path content s =
     (case remmina_sftp_client_confirm_resume env local_path s of
        (Resume_cancel, s) \<Rightarrow> Ret (False, remmina_sftp_client_thread_set_error env None s)
      | (Resume_overwrite, s) \<Rightarrow>
          (case sftp_open_local env False local_path s of
             (None, s) \<Rightarrow> could_not_create env ''file'' local_path s
           | (Some content, s) \<Rightarrow> sftp_download_remote env remote_path local_path content s)
      | (_, s) \<Rightarrow> sftp_download_remote env remote_path local_path content s)"

definition sftp_make_folder :: "'w sftp_env \<Rightarrow> string \<Rightarrow> 'w sftp \<Rightarrow> cstr \<times> 'w sftp" where
  "sftp_make_folder env local_path s =
     (case local_folder local_path of
        None \<Rightarrow> (None, s)
      | Some dir \<Rightarrow> let (ok, s) = sftp_do (sn_mkdirs env dir) s in (if ok then None else Some dir, s))"

definition remmina_sftp_client_thread_download_file ::
  "'w sftp_env \<Rightarrow> string \<Rightarrow> string \<Rightarrow> 'w sftp \<Rightarrow> (bool \<times> 'w sftp) c_result" where
  "remmina_sftp_client_thread_download_file env remote_path local_path s =
     (let (ex, s) = sftp_exit env s in
      if ex then Ret (False, s)
      else case sftp_make_folder env local_path s of
             (Some dir, s) \<Rightarrow> could_not_create env ''folder'' dir s
           | (None, s) \<Rightarrow>
               (case sftp_open_local env True local_path s of
                  (None, s) \<Rightarrow> could_not_create env ''file'' local_path s
                | (Some content, s) \<Rightarrow>
                    if content = [] then sftp_download_remote env remote_path local_path content s
                    else sftp_download_resume env remote_path local_path content s))"

end
