(* ===== verification/SftpThread.thy ===== *)
theory SftpThread
  imports SftpClient
begin

text \<open>
  The rest of the SFTP client (\<open>src/remmina_sftp_client.c\<close>): uploads, folders, the loop of the
  thread, and the list of a folder of the server. The names in a folder come from the server.
\<close>

section \<open>Uploading a file\<close>

definition sftp_write_remote :: "string \<Rightarrow> string \<Rightarrow> 'w sftp \<Rightarrow> 'w sftp" where
  "sftp_write_remote path content s = s\<lparr>sf_remote := (sf_remote s)(path := Some content)\<rparr>"

definition write_at :: "nat \<Rightarrow> string \<Rightarrow> string \<Rightarrow> string" where
  "write_at pos chunk content = take pos content @ chunk @ drop (pos + length chunk) content"

text \<open>\<open>pos\<close> is the position of the remote file, \<open>content\<close> what it has.\<close>

definition sftp_upload_round ::
  "'w sftp_env \<Rightarrow> string \<Rightarrow> string \<Rightarrow> nat \<Rightarrow> string \<Rightarrow> string \<Rightarrow> 'w sftp \<Rightarrow>
     (((bool + nat \<times> string \<times> string) \<times> 'w sftp) c_result)" where
  "sftp_upload_round env remote_path path pos content rest s =
     (let (ex, s) = sftp_exit env s in
      if ex then Ret (Inl True, s)
      else case sftp_do (sn_fread env) s of
             (None, s) \<Rightarrow> Ret (Inl True, s\<lparr>sf_read_errors := Suc (sf_read_errors s)\<rparr>)
           | (Some n, s) \<Rightarrow>
               if rest = [] then Ret (Inl True, s)
               else let (ex, s) = sftp_exit env s in
                    if ex then Ret (Inl True, s)
                    else let chunk = read_chunk n rest;
                             (k, s) = sftp_do (sn_write env) s;
                             s = sftp_write_remote path (write_at pos (take k chunk) content) s
                         in if k < length chunk
                            then c_bind (sftp_fail (sftp_server_error env ''Could not write to the file '' remote_path '' on the server. '' s))
                                   (\<lambda>(b, s). Ret (Inl b, s))
                            else let (ok, s) = sftp_progress env (length chunk) s
                                 in Ret (if ok then Inr (pos + length chunk, write_at pos chunk content, drop (length chunk) rest)
                                         else Inl True, s))"

lemma upload_round_shorter: "sftp_upload_round env remote_path path pos content rest s = Ret (Inr (q, c, r), t) \<Longrightarrow> length r < length rest"
  by (auto simp: sftp_upload_round_def sftp_fail_def sftp_server_error_def Let_def read_chunk_def
      split: prod.splits if_splits option.splits)

function sftp_upload_loop ::
  "'w sftp_env \<Rightarrow> string \<Rightarrow> string \<Rightarrow> nat \<Rightarrow> string \<Rightarrow> string \<Rightarrow> 'w sftp \<Rightarrow> (bool \<times> 'w sftp) c_result" where
  "sftp_upload_loop env remote_path path pos content rest s =
     (case sftp_upload_round env remote_path path pos content rest s of
        Crash \<Rightarrow> Crash
      | Ret (Inl b, s) \<Rightarrow> Ret (b, s)
      | Ret (Inr (pos, content, rest), s) \<Rightarrow> sftp_upload_loop env remote_path path pos content rest s)"
  by pat_completeness auto
termination
  by (relation "measure (\<lambda>(env, remote_path, path, pos, content, rest, s). length rest)") (auto dest: upload_round_shorter)

declare sftp_upload_loop.simps [simp del]

text \<open>From the local file on.\<close>

definition could_not_open :: "'w sftp_env \<Rightarrow> string \<Rightarrow> string \<Rightarrow> 'w sftp \<Rightarrow> (bool \<times> 'w sftp) c_result" where
  "could_not_open env what path s =
     Ret (False, remmina_sftp_client_thread_set_error env (Some (what @ curly_quoted (Some path) @ ''.'')) s)"

definition sftp_upload_local ::
  "'w sftp_env \<Rightarrow> string \<Rightarrow> string \<Rightarrow> nat \<Rightarrow> nat \<Rightarrow> string \<Rightarrow> 'w sftp \<Rightarrow> (bool \<times> 'w sftp) c_result" where
  "sftp_upload_local env remote_path local_path pos len content s =
     (let (ok, s) = sftp_do (sn_fopen_read env local_path) s;
          path = sn_unconvert env remote_path
      in case (if ok then sf_local s local_path else None) of
           None \<Rightarrow> could_not_open env ''Could not open the file '' local_path s
         | Some source \<Rightarrow>
             if len = 0 then sftp_upload_loop env remote_path path pos content source s
             else let (ok, s) = sftp_do (sn_fseek env) s in
                  if ok then sftp_upload_loop env remote_path path pos content (drop len source) (s\<lparr>sf_done := len\<rparr>)
                  else could_not_open env ''Could not find the local file '' local_path s)"

text \<open>Opening on the server creates the file; \<open>trunc\<close> empties it.\<close>

definition sftp_open_remote :: "'w sftp_env \<Rightarrow> bool \<Rightarrow> string \<Rightarrow> 'w sftp \<Rightarrow> cstr \<times> 'w sftp" where
  "sftp_open_remote env trunc remote_path s =
     (let path = sn_unconvert env remote_path;
          (ok, s) = sftp_do (sn_open env path) s;
          content = (if trunc then [] else case sf_remote s path of None \<Rightarrow> [] | Some c \<Rightarrow> c)
      in if ok then (Some content, sftp_write_remote path content s) else (None, s))"

definition could_not_create_remote :: "'w sftp_env \<Rightarrow> string \<Rightarrow> 'w sftp \<Rightarrow> (bool \<times> 'w sftp) c_result" where
  "could_not_create_remote env remote_path s =
     sftp_fail (sftp_server_error env ''Could not create the file '' remote_path '' on the server. '' s)"

text \<open>A dialog that ends without an answer leaves the position at the start of the remote file.\<close>

definition sftp_upload_resume ::
  "'w sftp_env \<Rightarrow> string \<Rightarrow> string \<Rightarrow> string \<Rightarrow> 'w sftp \<Rightarrow> (bool \<times> 'w sftp) c_result" where
  "sftp_upload_resume env remote_path local_path content s =
     (case remmina_sftp_client_confirm_resume env remote_path s of
        (Resume_cancel, s) \<Rightarrow> Ret (False, remmina_sftp_client_thread_set_error env None s)
      | (Resume_overwrite, s) \<Rightarrow>
          (case sftp_open_remote env True remote_path s of
             (None, s) \<Rightarrow> could_not_create_remote env remote_path s
           | (Some content, s) \<Rightarrow> sftp_upload_local env remote_path local_path 0 0 content s)
      | (Resume_append, s) \<Rightarrow>
          (let (ok, s) = sftp_do (sn_seek env) s in
           if ok then sftp_upload_local env remote_path local_path (length content) (length content) content s
           else sftp_fail (sftp_server_error env ''Could not download the file '' remote_path ''. '' s))
      | (Resume_none, s) \<Rightarrow> sftp_upload_local env remote_path local_path 0 (length content) content s)"

text \<open>The size of the remote file is read without a check that the server gave it.\<close>

definition remmina_sftp_client_thread_upload_file ::
  "'w sftp_env \<Rightarrow> string \<Rightarrow> string \<Rightarrow> 'w sftp \<Rightarrow> (bool \<times> 'w sftp) c_result" where
  "remmina_sftp_client_thread_upload_file env remote_path local_path s =
     (let (ex, s) = sftp_exit env s in
      if ex then Ret (False, s)
      else case sftp_open_remote env False remote_path s of
             (None, s) \<Rightarrow> could_not_create_remote env remote_path s
           | (Some content, s) \<Rightarrow>
               let (ok, s) = sftp_do (sn_fstat env) s in
               if \<not> ok then Crash
               else if content = [] then sftp_upload_local env remote_path local_path 0 0 content s
               else sftp_upload_resume env remote_path local_path content s)"

definition remmina_sftp_client_thread_mkdir :: "'w sftp_env \<Rightarrow> string \<Rightarrow> 'w sftp \<Rightarrow> (bool \<times> 'w sftp) c_result" where
  "remmina_sftp_client_thread_mkdir env path s =
     (let (there, s) = sftp_do (sn_stat env path) s in
      if there then Ret (True, s)
      else let (ok, s) = sftp_do (sn_mkdir env path) s in
           if ok then Ret (True, s)
           else sftp_fail (sftp_server_error env ''Could not create the folder '' path '' on the server. '' s))"

section \<open>The files of a folder\<close>

text \<open>
  \<open>GET_SFTPATTR_TYPE\<close>. Without a type from the server the second assignment to \<open>type\<close> replaces
  the first, and its mask has bits that other types have too.
\<close>

definition SSH_FILEXFER_TYPE_DIRECTORY :: nat where "SSH_FILEXFER_TYPE_DIRECTORY = 2"
definition SSH_FILEXFER_TYPE_SYMLINK :: nat where "SSH_FILEXFER_TYPE_SYMLINK = 3"

definition get_sftpattr_type :: "sftp_attr \<Rightarrow> ftp_file_type" where
  "get_sftpattr_type a =
     (if at_type a = 0
      then (if and (at_permissions a) 0xA000 \<noteq> 0 then FTP_FILE_TYPE_LINK else FTP_FILE_TYPE_FILE)
      else if at_type a = SSH_FILEXFER_TYPE_SYMLINK then FTP_FILE_TYPE_LINK
      else if at_type a = SSH_FILEXFER_TYPE_DIRECTORY then FTP_FILE_TYPE_DIR
      else FTP_FILE_TYPE_FILE)"

text \<open>\<open>None\<close> is a walk that the fuel was not enough for.\<close>

type_synonym 'w sftp_walk = "(bool \<times> string list \<times> 'w sftp) c_result option"

definition dot_name :: "string \<Rightarrow> bool" where
  "dot_name name \<longleftrightarrow> name = ''.'' \<or> name = ''..''"

definition sub_path :: "cstr \<Rightarrow> string \<Rightarrow> string" where
  "sub_path subdir name = (case subdir of None \<Rightarrow> name | Some d \<Rightarrow> remmina_public_combine_path (Some d) name)"

definition sftp_add_size :: "nat \<Rightarrow> 'w sftp \<Rightarrow> 'w sftp" where
  "sftp_add_size n s = s\<lparr>sf_task := (sf_task s)\<lparr>tk_size := tk_size (sf_task s) + n\<rparr>\<rparr>"

definition sftp_go_on ::
  "'w sftp_env \<Rightarrow> (string list \<Rightarrow> 'w sftp \<Rightarrow> 'w sftp_walk) \<Rightarrow> string list \<Rightarrow> 'w sftp \<Rightarrow> 'w sftp_walk" where
  "sftp_go_on env entries array s =
     (let (ex, s) = sftp_exit env s in if ex then Some (Ret (True, array, s)) else entries array s)"

definition sftp_dir_entry ::
  "'w sftp_env \<Rightarrow> (string \<Rightarrow> string list \<Rightarrow> 'w sftp \<Rightarrow> 'w sftp_walk) \<Rightarrow> cstr \<Rightarrow> sftp_attr \<Rightarrow>
     (string list \<Rightarrow> 'w sftp \<Rightarrow> 'w sftp_walk) \<Rightarrow> string list \<Rightarrow> 'w sftp \<Rightarrow> 'w sftp_walk" where
  "sftp_dir_entry env walk subdir a entries array s =
     (let file_path = sub_path subdir (sn_convert env (at_name a)) in
      if dot_name (at_name a) then sftp_go_on env entries array s
      else if get_sftpattr_type a = FTP_FILE_TYPE_DIR
      then (case walk file_path array s of
              Some (Ret (True, array, s)) \<Rightarrow> sftp_go_on env entries array s
            | r \<Rightarrow> r)
      else let (ok, s) = remmina_sftp_client_thread_update_task env (sftp_add_size (at_size a) s) in
           if ok then sftp_go_on env entries (array @ [file_path]) s else Some (Ret (True, array @ [file_path], s)))"

primrec sftp_dir_entries ::
  "'w sftp_env \<Rightarrow> (string \<Rightarrow> string list \<Rightarrow> 'w sftp \<Rightarrow> 'w sftp_walk) \<Rightarrow> cstr \<Rightarrow> sftp_attr list \<Rightarrow> string list \<Rightarrow> 'w sftp \<Rightarrow> 'w sftp_walk" where
  "sftp_dir_entries env walk subdir [] = (\<lambda>array s. Some (Ret (True, array, s)))"
| "sftp_dir_entries env walk subdir (a # as) = sftp_dir_entry env walk subdir a (sftp_dir_entries env walk subdir as)"

fun remmina_sftp_client_thread_recursive_dir ::
  "'w sftp_env \<Rightarrow> nat \<Rightarrow> string \<Rightarrow> cstr \<Rightarrow> string list \<Rightarrow> 'w sftp \<Rightarrow> 'w sftp_walk" where
  "remmina_sftp_client_thread_recursive_dir env 0 rootdir subdir array s = None"
| "remmina_sftp_client_thread_recursive_dir env (Suc fuel) rootdir subdir array s =
     (let (ex, s) = sftp_exit env s in
      if ex then Some (Ret (False, array, s))
      else let dir_path = (case subdir of None \<Rightarrow> rootdir | Some d \<Rightarrow> remmina_public_combine_path (Some rootdir) d)
           in case sftp_do (sn_opendir env (sn_unconvert env dir_path)) s of
                (None, s) \<Rightarrow>
                  Some (c_bind (sftp_server_error env ''Could not open the folder '' dir_path ''. '' s) (\<lambda>s. Ret (False, array, s)))
              | (Some attrs, s) \<Rightarrow>
                  sftp_dir_entries env (\<lambda>d. remmina_sftp_client_thread_recursive_dir env fuel rootdir (Some d)) subdir attrs array s)"

declare remmina_sftp_client_thread_recursive_dir.simps [simp del]

text \<open>\<open>g_build_filename\<close> of two parts, of which an empty one is left out.\<close>

definition g_build_filename :: "string \<Rightarrow> string \<Rightarrow> string" where
  "g_build_filename a b =
     (if a = [] then b
      else if b = [] then a
      else let a' = rev (dropWhile ((=) (CHR ''/'')) (rev a));
               b' = dropWhile ((=) (CHR ''/'')) b
           in if a' = [] then a @ b' else a' @ ''/'' @ b')"

text \<open>The local files: a folder before what is in it. A folder that cannot be read ends the walk without an error.\<close>

definition local_dir_entry ::
  "'w sftp_env \<Rightarrow> (string \<Rightarrow> string list \<Rightarrow> 'w sftp \<Rightarrow> 'w sftp_walk) \<Rightarrow> string \<Rightarrow> cstr \<Rightarrow> string \<Rightarrow>
     (string list \<Rightarrow> 'w sftp \<Rightarrow> 'w sftp_walk) \<Rightarrow> string list \<Rightarrow> 'w sftp \<Rightarrow> 'w sftp_walk" where
  "local_dir_entry env walk path subdir name entries array s =
     (let (ex, s) = sftp_exit env s in
      if ex then Some (Ret (False, array, s))
      else if dot_name name then entries array s
      else case sftp_do (sn_local_stat env (g_build_filename path name)) s of
             (None, s) \<Rightarrow> entries array s
           | (Some (is_dir, n), s) \<Rightarrow>
               let relpath = g_build_filename (case subdir of None \<Rightarrow> [] | Some d \<Rightarrow> d) name;
                   array = array @ [relpath]
               in if is_dir
                  then (case walk relpath array s of
                          Some (Ret (True, array, s)) \<Rightarrow> entries array s
                        | r \<Rightarrow> r)
                  else entries array (sftp_add_size n s))"

primrec local_dir_entries ::
  "'w sftp_env \<Rightarrow> (string \<Rightarrow> string list \<Rightarrow> 'w sftp \<Rightarrow> 'w sftp_walk) \<Rightarrow> string \<Rightarrow> cstr \<Rightarrow> string list \<Rightarrow> string list \<Rightarrow> 'w sftp \<Rightarrow> 'w sftp_walk" where
  "local_dir_entries env walk path subdir [] = (\<lambda>array s. Some (Ret (True, array, s)))"
| "local_dir_entries env walk path subdir (name # names) =
     local_dir_entry env walk path subdir name (local_dir_entries env walk path subdir names)"

fun remmina_sftp_client_thread_recursive_localdir ::
  "'w sftp_env \<Rightarrow> nat \<Rightarrow> string \<Rightarrow> cstr \<Rightarrow> string list \<Rightarrow> 'w sftp \<Rightarrow> 'w sftp_walk" where
  "remmina_sftp_client_thread_recursive_localdir env 0 rootdir subdir array s = None"
| "remmina_sftp_client_thread_recursive_localdir env (Suc fuel) rootdir subdir array s =
     (let path = g_build_filename rootdir (case subdir of None \<Rightarrow> [] | Some d \<Rightarrow> d)
      in case sftp_do (sn_dir_open env path) s of
           (None, s) \<Rightarrow> Some (Ret (False, array, s))
         | (Some names, s) \<Rightarrow>
             local_dir_entries env (\<lambda>d. remmina_sftp_client_thread_recursive_localdir env fuel rootdir (Some d)) path subdir names array s)"

declare remmina_sftp_client_thread_recursive_localdir.simps [simp del]

section \<open>A task\<close>

text \<open>The files of a folder one after the other, each after a look for an end of the task.\<close>

fun sftp_each ::
  "'w sftp_env \<Rightarrow> (string \<Rightarrow> 'w sftp \<Rightarrow> (bool \<times> 'w sftp) c_result) \<Rightarrow> string list \<Rightarrow> 'w sftp \<Rightarrow> (bool \<times> 'w sftp) c_result" where
  "sftp_each env f [] s = Ret (True, s)"
| "sftp_each env f (x # xs) s =
     (let (ex, s) = sftp_exit env s in
      if ex then Ret (False, s)
      else c_bind (f x s) (\<lambda>(ret, s). if ret then sftp_each env f xs s else Ret (False, s)))"

definition sftp_walk_then ::
  "'w sftp_walk \<Rightarrow> (string list \<Rightarrow> 'w sftp \<Rightarrow> (bool \<times> 'w sftp) c_result) \<Rightarrow> (bool \<times> 'w sftp) c_result option" where
  "sftp_walk_then r f =
     map_option (\<lambda>r. c_bind r (\<lambda>(ret, array, s). if ret then f array s else Ret (False, s))) r"

definition sftp_download_one :: "'w sftp_env \<Rightarrow> string \<Rightarrow> string \<Rightarrow> string \<Rightarrow> 'w sftp \<Rightarrow> (bool \<times> 'w sftp) c_result" where
  "sftp_download_one env remote local f =
     remmina_sftp_client_thread_download_file env (remmina_public_combine_path (Some remote) f) (remmina_public_combine_path (Some local) f)"

definition sftp_download_task ::
  "'w sftp_env \<Rightarrow> nat \<Rightarrow> ftp_file_type \<Rightarrow> string \<Rightarrow> string \<Rightarrow> 'w sftp \<Rightarrow> (bool \<times> 'w sftp) c_result option" where
  "sftp_download_task env fuel ty remote local s =
     (case ty of
        FTP_FILE_TYPE_FILE \<Rightarrow> Some (remmina_sftp_client_thread_download_file env remote local s)
      | FTP_FILE_TYPE_DIR \<Rightarrow>
          sftp_walk_then (remmina_sftp_client_thread_recursive_dir env fuel remote None [] s) (sftp_each env (sftp_download_one env remote local))
      | FTP_FILE_TYPE_LINK \<Rightarrow> Some (Ret (False, s)))"

definition sftp_upload_one :: "'w sftp_env \<Rightarrow> string \<Rightarrow> string \<Rightarrow> string \<Rightarrow> 'w sftp \<Rightarrow> (bool \<times> 'w sftp) c_result" where
  "sftp_upload_one env remote local f s =
     (let remote_file = remmina_public_combine_path (Some remote) f;
          local_file = g_build_filename local f
      in case sftp_do (sn_local_stat env local_file) s of
           (Some (True, _), s) \<Rightarrow> remmina_sftp_client_thread_mkdir env remote_file s
         | (_, s) \<Rightarrow> remmina_sftp_client_thread_upload_file env remote_file local_file s)"

definition sftp_upload_dir ::
  "'w sftp_env \<Rightarrow> nat \<Rightarrow> string \<Rightarrow> string \<Rightarrow> bool \<times> 'w sftp \<Rightarrow> (bool \<times> 'w sftp) c_result option" where
  "sftp_upload_dir env fuel remote local = (\<lambda>(ret, s).
     if ret
     then sftp_walk_then (remmina_sftp_client_thread_recursive_localdir env fuel local None [] s) (sftp_each env (sftp_upload_one env remote local))
     else Some (Ret (False, s)))"

definition sftp_upload_task ::
  "'w sftp_env \<Rightarrow> nat \<Rightarrow> ftp_file_type \<Rightarrow> string \<Rightarrow> string \<Rightarrow> 'w sftp \<Rightarrow> (bool \<times> 'w sftp) c_result option" where
  "sftp_upload_task env fuel ty remote local s =
     (case ty of
        FTP_FILE_TYPE_FILE \<Rightarrow> Some (remmina_sftp_client_thread_upload_file env remote local s)
      | FTP_FILE_TYPE_DIR \<Rightarrow>
          (case remmina_sftp_client_thread_mkdir env remote s of
             Crash \<Rightarrow> Some Crash
           | Ret r \<Rightarrow> sftp_upload_dir env fuel remote local r)
      | FTP_FILE_TYPE_LINK \<Rightarrow> Some (Ret (False, s)))"

text \<open>\<open>refresh\<close> is the directory to be read again after an upload.\<close>

definition sftp_task_done :: "'w sftp_env \<Rightarrow> cstr option \<Rightarrow> bool \<times> 'w sftp \<Rightarrow> cstr option \<times> 'w sftp" where
  "sftp_task_done env refresh = (\<lambda>(ret, s).
     if \<not> ret then (refresh, s)
     else let s = remmina_sftp_client_thread_set_finish env s;
              dir = remmina_ftp_client_get_dir (sf_client s)
          in (if tk_tasktype (sf_task s) = FTP_TASK_TYPE_UPLOAD \<and> dir = tk_remotedir (sf_task s) then Some dir else refresh, s))"

definition sftp_run_task :: "'w sftp_env \<Rightarrow> nat \<Rightarrow> cstr option \<Rightarrow> 'w sftp \<Rightarrow> (cstr option \<times> 'w sftp) c_result option" where
  "sftp_run_task env fuel refresh s =
     (let t = sf_task s;
          s = s\<lparr>sf_done := 0\<rparr>;
          remote = remmina_public_combine_path (tk_remotedir t) (tk_name t);
          local = remmina_public_combine_path (tk_localdir t) (tk_name t)
      in map_option (\<lambda>r. c_bind r (\<lambda>r. Ret (sftp_task_done env refresh r)))
           (case tk_tasktype t of
              FTP_TASK_TYPE_DOWNLOAD \<Rightarrow> sftp_download_task env fuel (tk_type t) remote local s
            | FTP_TASK_TYPE_UPLOAD \<Rightarrow> sftp_upload_task env fuel (tk_type t) remote local s))"

section \<open>The thread\<close>

text \<open>The thread opens its own session for the first task.\<close>

datatype sftp_login = Login_ok | Login_no_tunnel | Login_error cstr

definition sftp_connect :: "'w sftp_env \<Rightarrow> 'w sftp \<Rightarrow> (sftp_login \<times> 'w sftp) c_result" where
  "sftp_connect env s =
     (if sf_own s then Ret (Login_ok, s)
      else if \<not> sf_session s then Crash
      else let (ok, s) = sftp_do (sn_tunnel env) s in
           if \<not> ok then Ret (Login_no_tunnel, s\<lparr>sf_closed := True\<rparr>)
           else case sftp_do (sn_login env) s of
                  (None, s) \<Rightarrow> Ret (Login_ok, s\<lparr>sf_own := True\<rparr>)
                | (Some error, s) \<Rightarrow> Ret (Login_error error, s))"

text \<open>How the loop ends: a return without a tunnel, or the end of the tasks with the directory to refresh.\<close>

datatype sftp_loop_end = Loop_returned | Loop_ended "cstr option"

fun sftp_thread_loop ::
  "'w sftp_env \<Rightarrow> nat \<Rightarrow> nat \<Rightarrow> cstr option \<Rightarrow> 'w sftp \<Rightarrow> (sftp_loop_end \<times> 'w sftp) c_result option" where
  "sftp_thread_loop env fuel 0 refresh s = None"
| "sftp_thread_loop env fuel (Suc n) refresh s =
     (case remmina_sftp_client_thread_get_task env s of
        (None, s) \<Rightarrow> Some (Ret (Loop_ended refresh, s))
      | (Some t, s) \<Rightarrow>
          (case sftp_connect env s of
             Crash \<Rightarrow> Some Crash
           | Ret (Login_no_tunnel, s) \<Rightarrow> Some (Ret (Loop_returned, s))
           | Ret (Login_error error, s) \<Rightarrow> Some (Ret (Loop_ended refresh, remmina_sftp_client_thread_set_error env error s))
           | Ret (Login_ok, s) \<Rightarrow>
               (case sftp_run_task env fuel refresh s of
                  None \<Rightarrow> None
                | Some Crash \<Rightarrow> Some Crash
                | Some (Ret (refresh, s)) \<Rightarrow> sftp_thread_loop env fuel n refresh (s\<lparr>sf_taskid := 0\<rparr>))))"

text \<open>The end of the thread: its session, the refresh, and its flag.\<close>

definition sftp_thread_end :: "'w sftp_env \<Rightarrow> cstr option \<Rightarrow> 'w sftp \<Rightarrow> 'w sftp" where
  "sftp_thread_end env refresh s =
     (let s = sftp_main env (s\<lparr>sf_own := False\<rparr>);
          s = (if \<not> sf_abort s \<and> refresh = Some (remmina_ftp_client_get_dir (sf_client s))
               then s\<lparr>sf_refreshes := Suc (sf_refreshes s)\<rparr> else s)
      in s\<lparr>sf_thread := False\<rparr>)"

definition remmina_sftp_client_thread_main :: "'w sftp_env \<Rightarrow> nat \<Rightarrow> nat \<Rightarrow> 'w sftp \<Rightarrow> 'w sftp c_result option" where
  "remmina_sftp_client_thread_main env fuel n s =
     map_option (\<lambda>r. c_bind r (\<lambda>(e, s). Ret (case e of Loop_returned \<Rightarrow> s | Loop_ended refresh \<Rightarrow> sftp_thread_end env refresh s)))
       (sftp_thread_loop env fuel n None s)"

end
