(* ===== verification/SftpDir.thy ===== *)
theory SftpDir
  imports SftpThread
begin

text \<open>
  What the main thread does on the server (\<open>src/remmina_sftp_client.c\<close>): reading a folder,
  deleting files; and the settings of the session (\<open>src/remmina_sftp_plugin.c\<close>).
\<close>

section \<open>Life cycle\<close>

definition remmina_sftp_client_init :: "(string \<Rightarrow> cstr) \<Rightarrow> (string \<Rightarrow> cstr) \<Rightarrow> nat \<Rightarrow> 'w \<Rightarrow> 'w sftp" where
  "remmina_sftp_client_init local remote next_taskid w =
     \<lparr>sf_client = remmina_ftp_client_init next_taskid, sf_session = False, sf_own = False, sf_closed = False, sf_thread = False,
      sf_taskid = 0, sf_abort = False, sf_task = ftp_new_task FTP_FILE_TYPE_FILE [] 0 FTP_TASK_TYPE_DOWNLOAD None, sf_done = 0,
      sf_local = local, sf_remote = remote, sf_written = [], sf_read_errors = 0, sf_starts = 0, sf_refreshes = 0, sf_dialogs = [],
      sf_world = w\<rparr>"

section \<open>Reading a folder\<close>

definition sftp_dialog :: "string \<Rightarrow> 'w sftp \<Rightarrow> 'w sftp" where
  "sftp_dialog msg s = s\<lparr>sf_dialogs := sf_dialogs s @ [msg]\<rparr>"

definition remmina_sftp_client_sftp_session_opendir :: "'w sftp_env \<Rightarrow> string \<Rightarrow> 'w sftp \<Rightarrow> sftp_attr list option \<times> 'w sftp" where
  "remmina_sftp_client_sftp_session_opendir env dir s =
     (case sftp_do (sn_opendir env dir) s of
        (None, s) \<Rightarrow> (None, sftp_dialog (''Could not open the folder '' @ curly_quoted (Some dir) @ ''. '' @ sn_error env (sf_world s)) s)
      | (Some attrs, s) \<Rightarrow> (Some attrs, s))"

definition remmina_sftp_client_sftp_session_closedir :: "'w sftp_env \<Rightarrow> 'w sftp \<Rightarrow> 'w sftp" where
  "remmina_sftp_client_sftp_session_closedir env s =
     (if sn_dir_eof env (sf_world s) then s
      else sftp_dialog (''Could not read from the folder. '' @ sn_error env (sf_world s)) s)"

text \<open>A row of the list.\<close>

definition sftp_list_entry :: "'w sftp_env \<Rightarrow> sftp_attr \<Rightarrow> ftp_client \<Rightarrow> ftp_client" where
  "sftp_list_entry env a fc =
     (if dot_name (at_name a) then fc
      else remmina_ftp_client_add_file
             \<lparr>ff_type = get_sftpattr_type a, ff_name = sn_convert env (at_name a), ff_size = at_size a, ff_user = at_owner a,
              ff_group = at_group a, ff_permission = at_permissions a, ff_modified = at_mtime a, ff_name_sort = []\<rparr> fc)"

text \<open>The directory that is asked for: the start, an absolute one, or one in the current directory.\<close>

definition sftp_new_dir :: "cstr \<Rightarrow> ftp_client \<Rightarrow> string" where
  "sftp_new_dir dir fc =
     (case dir of
        None \<Rightarrow> ''.''
      | Some d \<Rightarrow>
          if d = [] then ''.''
          else if hd d = CHR ''/'' then d
          else case remmina_ftp_client_get_dir fc of
                 None \<Rightarrow> ''./'' @ d
               | Some cur \<Rightarrow> remmina_public_combine_path (Some cur) d)"

text \<open>A link is replaced by what it names; \<open>None\<close> is a link to something that is no folder.\<close>

definition sftp_follow_link :: "'w sftp_env \<Rightarrow> string \<Rightarrow> 'w sftp \<Rightarrow> cstr \<times> 'w sftp" where
  "sftp_follow_link env path s =
     (case sn_readlink env path (sf_world s) of
        None \<Rightarrow> (Some path, s)
      | Some link \<Rightarrow>
          (case sftp_do (sn_opendir env link) s of
             (None, s) \<Rightarrow> (None, s)
           | (Some _, s) \<Rightarrow> (Some link, s)))"

definition sftp_show_dir :: "'w sftp_env \<Rightarrow> string \<Rightarrow> string \<Rightarrow> 'w sftp \<Rightarrow> 'w sftp" where
  "sftp_show_dir env newdir_conv newdir s =
     (case remmina_sftp_client_sftp_session_opendir env newdir_conv s of
        (None, s) \<Rightarrow> s
      | (Some attrs, s) \<Rightarrow>
          let s = s\<lparr>sf_client := fold (sftp_list_entry env) attrs (remmina_ftp_client_clear_file_list (sf_client s))\<rparr>;
              s = remmina_sftp_client_sftp_session_closedir env s
          in s\<lparr>sf_client := remmina_ftp_client_set_dir newdir (sf_client s)\<rparr>)"

definition remmina_sftp_client_on_opendir :: "'w sftp_env \<Rightarrow> cstr \<Rightarrow> 'w sftp \<Rightarrow> 'w sftp" where
  "remmina_sftp_client_on_opendir env dir s =
     (if \<not> sf_session s then s
      else case sftp_follow_link env (sftp_new_dir dir (sf_client s)) s of
             (None, s) \<Rightarrow> s
           | (Some path, s) \<Rightarrow>
               (case sn_canonicalize env (sn_unconvert env path) (sf_world s) of
                  None \<Rightarrow> sftp_dialog (''Could not open the folder '' @ curly_quoted dir @ ''. '' @ sn_error env (sf_world s)) s
                | Some conv \<Rightarrow> sftp_show_dir env conv (sn_convert env conv) s))"

definition remmina_sftp_client_refresh :: "'w sftp_env \<Rightarrow> 'w sftp \<Rightarrow> 'w sftp" where
  "remmina_sftp_client_refresh env = remmina_sftp_client_on_opendir env (Some ''.'')"

definition remmina_ftp_client_open_dir :: "'w sftp_env \<Rightarrow> ftp_action \<Rightarrow> 'w sftp \<Rightarrow> 'w sftp" where
  "remmina_ftp_client_open_dir env action = remmina_sftp_client_on_opendir env (ftp_action_dir action)"

text \<open>The session is given to the widget once it is open; the main thread reads the folder later.\<close>

definition remmina_sftp_client_open :: "'w sftp \<Rightarrow> 'w sftp" where
  "remmina_sftp_client_open s = s\<lparr>sf_session := True, sf_refreshes := Suc (sf_refreshes s)\<rparr>"

section \<open>Deleting\<close>

text \<open>Nothing is deleted for a link, and that is no error.\<close>

definition remmina_sftp_client_on_deletefile :: "'w sftp_env \<Rightarrow> ftp_file_type \<Rightarrow> string \<Rightarrow> 'w sftp \<Rightarrow> (bool \<times> 'w sftp) c_result" where
  "remmina_sftp_client_on_deletefile env ty name s =
     (if \<not> sf_session s then Crash
      else let path = sn_unconvert env name;
               (ok, s) = (case ty of
                   FTP_FILE_TYPE_DIR \<Rightarrow> sftp_do (sn_rmdir env path) s
                 | FTP_FILE_TYPE_FILE \<Rightarrow> sftp_do (sn_unlink env path) s
                 | FTP_FILE_TYPE_LINK \<Rightarrow> (True, s))
           in if ok then Ret (True, s)
              else Ret (False, sftp_dialog (''Could not delete '' @ curly_quoted (Some name) @ ''. '' @ sn_error env (sf_world s)) s))"

definition remmina_ftp_client_action_delete ::
  "'w sftp_env \<Rightarrow> ftp_file list \<Rightarrow> bool \<Rightarrow> 'w sftp \<Rightarrow> 'w sftp c_result" where
  "remmina_ftp_client_action_delete env selected yes s =
     (if selected = [] \<or> \<not> yes then Ret s
      else c_bind (ftp_delete_files (remmina_sftp_client_on_deletefile env) (fc_current (sf_client s)) selected s)
             (\<lambda>(ret, s). Ret (if ret then remmina_ftp_client_open_dir env Refresh_action s else s)))"

section \<open>The settings of the session\<close>

definition remmina_plugin_sftp_init :: "rfile \<Rightarrow> 'w sftp \<Rightarrow> 'w sftp" where
  "remmina_plugin_sftp_init rf s =
     s\<lparr>sf_client :=
         remmina_ftp_client_set_resume_status (remmina_file_get_int rf ''resume_all'' 0 \<noteq> 0)
           (remmina_ftp_client_set_overwrite_status (remmina_file_get_int rf ''overwrite_all'' 0 \<noteq> 0)
             (remmina_ftp_client_set_show_hidden (remmina_file_get_int rf ''showhidden'' 0 \<noteq> 0) (sf_client s)))\<rparr>"

text \<open>The case of the overwriting goes on with the one of the resuming.\<close>

datatype sftp_feature = Sftp_show_hidden | Sftp_overwrite_all | Sftp_resume_all

definition remmina_plugin_sftp_call_feature :: "sftp_feature \<Rightarrow> rfile \<Rightarrow> ftp_client \<Rightarrow> ftp_client" where
  "remmina_plugin_sftp_call_feature feature rf fc =
     (let resume = remmina_ftp_client_set_resume_status (remmina_file_get_int rf ''resume_all'' 0 \<noteq> 0) in
      case feature of
        Sftp_show_hidden \<Rightarrow> remmina_ftp_client_set_show_hidden (remmina_file_get_int rf ''showhidden'' 0 \<noteq> 0) fc
      | Sftp_overwrite_all \<Rightarrow> resume (remmina_ftp_client_set_overwrite_status (remmina_file_get_int rf ''overwrite_all'' 0 \<noteq> 0) fc)
      | Sftp_resume_all \<Rightarrow> resume fc)"

text \<open>The end of the connection; the thread of the connection is cancelled before.\<close>

definition remmina_plugin_sftp_close_connection :: "gint \<Rightarrow> rfile \<Rightarrow> 'w sftp \<Rightarrow> rfile \<times> 'w sftp" where
  "remmina_plugin_sftp_close_connection pos rf s =
     (remmina_file_set_int (remmina_ftp_client_save_state pos rf) ''overwrite_all'' 0, s\<lparr>sf_closed := True\<rparr>)"

end
