(* ===== verification/SftpFacts.thy ===== *)
theory SftpFacts
  imports SftpDir
begin

text \<open>
  What the SFTP thread keeps: an interface of invariants that its steps and the events of the main
  thread preserve, the lemmas that carry such an invariant through a transfer, a task and the whole
  thread, and its interpretations; then what a transfer leaves in the file it writes.
\<close>

section \<open>Invariants of the thread\<close>

text \<open>
  \<open>P\<close> holds of the local paths that are written, \<open>Q\<close> of the remote ones.
\<close>

locale sftp_steps =
  fixes env :: "'w sftp_env" and I :: "'w sftp \<Rightarrow> bool" and P :: "string \<Rightarrow> bool" and Q :: "string \<Rightarrow> bool"
  assumes main: "I s \<Longrightarrow> I (sftp_main env s)"
    and world: "I s \<Longrightarrow> I (s\<lparr>sf_world := w\<rparr>)"
    and show_task: "I s \<Longrightarrow> I (sftp_show_task s)"
    and task: "I s \<Longrightarrow> tk_taskid t = tk_taskid (sf_task s) \<Longrightarrow>
      tk_status t = tk_status (sf_task s) \<or> tk_status t \<noteq> FTP_TASK_STATUS_WAIT \<Longrightarrow> I (s\<lparr>sf_task := t\<rparr>)"
    and done_size: "I s \<Longrightarrow> I (s\<lparr>sf_done := n\<rparr>)"
    and read_error: "I s \<Longrightarrow> I (s\<lparr>sf_read_errors := n\<rparr>)"
    and write_local: "I s \<Longrightarrow> P p \<Longrightarrow> I (sftp_write_local p c s)"
    and written: "I s \<Longrightarrow> P p \<Longrightarrow> I (s\<lparr>sf_written := sf_written s @ [p]\<rparr>)"
    and write_remote: "I s \<Longrightarrow> Q p \<Longrightarrow> I (sftp_write_remote p c s)"
begin

lemma do_step: "sftp_do f s = (a, s') \<Longrightarrow> I s \<Longrightarrow> I s'"
  by (auto simp: sftp_do_def intro: world split: prod.splits)

lemma check: "sftp_exit env s = (b, s') \<Longrightarrow> I s \<Longrightarrow> I s'"
  by (auto simp: sftp_exit_def Let_def intro: main)

lemma update_task: "remmina_sftp_client_thread_update_task env s = (b, s') \<Longrightarrow> I s \<Longrightarrow> I s'"
  by (auto simp: remmina_sftp_client_thread_update_task_def dest: check intro: show_task split: prod.splits if_splits)

lemma end_task: "I s \<Longrightarrow> status \<noteq> FTP_TASK_STATUS_WAIT \<Longrightarrow> I (sftp_end_task env status tip s)"
  unfolding sftp_end_task_def by (rule update_task[OF surjective_pairing]) (simp add: task)

lemma set_error: "I s \<Longrightarrow> I (remmina_sftp_client_thread_set_error env e s)"
  by (simp add: remmina_sftp_client_thread_set_error_def end_task)

lemma report: "sftp_server_error env a p z s = Ret s' \<Longrightarrow> I s \<Longrightarrow> I s'"
  by (auto simp: sftp_server_error_def intro: set_error split: if_splits)

lemma server_error: "sftp_fail (sftp_server_error env a p z s) = Ret (b, s') \<Longrightarrow> I s \<Longrightarrow> I s'"
  by (auto simp: sftp_fail_def sftp_server_error_def intro: set_error split: if_splits)

lemma confirm: "remmina_sftp_client_confirm_resume env p s = (a, s') \<Longrightarrow> I s \<Longrightarrow> I s'"
  by (auto simp: remmina_sftp_client_confirm_resume_def dest: do_step split: if_splits)

lemma progress: "sftp_progress env n s = (b, s') \<Longrightarrow> I s \<Longrightarrow> I s'"
  unfolding sftp_progress_def by (erule update_task) (use task[OF done_size, of s] in simp)

lemma download_round: "sftp_download_round env path content rest s = (r, s') \<Longrightarrow> I s \<Longrightarrow> P path \<Longrightarrow> I s'"
  by (auto simp: sftp_download_round_def Let_def split: prod.splits if_splits option.splits
      dest!: check do_step progress intro: read_error set_error write_local)

lemma download_loop: "sftp_download_loop env path content rest s = (b, s') \<Longrightarrow> I s \<Longrightarrow> P path \<Longrightarrow> I s'"
proof (induction rest arbitrary: content s rule: measure_induct_rule[where f = length])
  case (less rest)
  obtain r t where r: "sftp_download_round env path content rest s = (r, t)" by force
  have "I t" using r less.prems(2,3) by (rule download_round)
  with less r show ?case
    by (cases r) (auto simp: sftp_download_loop.simps[of env path content rest s] dest: download_round_shorter)
qed

lemma open_local: "sftp_open_local env keep path s = (c, s') \<Longrightarrow> I s \<Longrightarrow> P path \<Longrightarrow> I s'"
  using written[OF write_local]
  by (auto simp: sftp_open_local_def sftp_write_local_def Let_def dest!: do_step split: prod.splits if_splits)

lemma create_error: "could_not_create env what p s = Ret (b, s') \<Longrightarrow> I s \<Longrightarrow> I s'"
  by (auto simp: could_not_create_def intro: set_error)

lemma download_remote:
  "sftp_download_remote env remote path content s = Ret (b, s') \<Longrightarrow> I s \<Longrightarrow> P path \<Longrightarrow> I s'"
  by (auto simp: sftp_download_remote_def Let_def split: prod.splits if_splits option.splits
      dest!: do_step dest: server_error download_loop intro: done_size)

lemma download_resume:
  "sftp_download_resume env remote path content s = Ret (b, s') \<Longrightarrow> I s \<Longrightarrow> P path \<Longrightarrow> I s'"
  by (auto simp: sftp_download_resume_def split: prod.splits option.splits resume_answer.splits
      dest!: confirm dest: open_local download_remote create_error intro: set_error)

lemma make_folder: "sftp_make_folder env path s = (r, s') \<Longrightarrow> I s \<Longrightarrow> I s'"
  by (auto simp: sftp_make_folder_def Let_def split: prod.splits option.splits if_splits dest: do_step)

lemma download_file:
  "remmina_sftp_client_thread_download_file env remote path s = Ret (b, s') \<Longrightarrow> I s \<Longrightarrow> P path \<Longrightarrow> I s'"
  by (auto simp: remmina_sftp_client_thread_download_file_def split: prod.splits option.splits if_splits
      dest!: check make_folder dest: open_local download_remote download_resume create_error)

lemma upload_round:
  "sftp_upload_round env remote path pos content rest s = Ret (r, s') \<Longrightarrow> I s \<Longrightarrow> Q path \<Longrightarrow> I s'"
  by (auto simp: sftp_upload_round_def Let_def c_bind_Ret_iff split: prod.splits if_splits option.splits
      dest!: check do_step progress dest: server_error intro: read_error write_remote)

lemma upload_loop:
  "sftp_upload_loop env remote path pos content rest s = Ret (b, s') \<Longrightarrow> I s \<Longrightarrow> Q path \<Longrightarrow> I s'"
proof (induction rest arbitrary: pos content s rule: measure_induct_rule[where f = length])
  case (less rest)
  from less.prems(1) obtain r t where r: "sftp_upload_round env remote path pos content rest s = Ret (r, t)"
    by (auto simp: sftp_upload_loop.simps[of env remote path pos content rest s] split: c_result.splits)
  have "I t" using r less.prems(2,3) by (rule upload_round)
  with less r show ?case
    by (cases r) (auto simp: sftp_upload_loop.simps[of env remote path pos content rest s] dest: upload_round_shorter)
qed

lemma open_error: "could_not_open env what p s = Ret (b, s') \<Longrightarrow> I s \<Longrightarrow> I s'"
  by (auto simp: could_not_open_def intro: set_error)

lemma upload_local:
  "sftp_upload_local env remote path pos len content s = Ret (b, s') \<Longrightarrow> I s \<Longrightarrow> Q (sn_unconvert env remote) \<Longrightarrow> I s'"
  by (auto simp: sftp_upload_local_def Let_def split: prod.splits if_splits option.splits
      dest!: do_step dest: open_error upload_loop intro: done_size)

lemma open_remote: "sftp_open_remote env trunc remote s = (c, s') \<Longrightarrow> I s \<Longrightarrow> Q (sn_unconvert env remote) \<Longrightarrow> I s'"
  by (auto simp: sftp_open_remote_def Let_def dest!: do_step split: prod.splits if_splits intro: write_remote)

lemma create_remote_error: "could_not_create_remote env p s = Ret (b, s') \<Longrightarrow> I s \<Longrightarrow> I s'"
  by (auto simp: could_not_create_remote_def dest: server_error)

lemma upload_resume:
  "sftp_upload_resume env remote path content s = Ret (b, s') \<Longrightarrow> I s \<Longrightarrow> Q (sn_unconvert env remote) \<Longrightarrow> I s'"
  by (auto simp: sftp_upload_resume_def split: prod.splits option.splits resume_answer.splits if_splits
      dest!: confirm dest: do_step open_remote upload_local create_remote_error server_error intro: set_error)

lemma upload_file:
  "remmina_sftp_client_thread_upload_file env remote path s = Ret (b, s') \<Longrightarrow> I s \<Longrightarrow> Q (sn_unconvert env remote) \<Longrightarrow> I s'"
  by (auto simp: remmina_sftp_client_thread_upload_file_def split: prod.splits option.splits if_splits
      dest!: check dest: do_step open_remote upload_local upload_resume create_remote_error)

lemma make_remote_folder: "remmina_sftp_client_thread_mkdir env p s = Ret (b, s') \<Longrightarrow> I s \<Longrightarrow> I s'"
  by (auto simp: remmina_sftp_client_thread_mkdir_def split: prod.splits if_splits dest: do_step server_error)

lemma add_size: "I s \<Longrightarrow> I (sftp_add_size n s)"
  by (simp add: sftp_add_size_def task)

lemma dir_entries:
  assumes walk: "\<And>p a s b a' s'. walk p a s = Some (Ret (b, a', s')) \<Longrightarrow> I s \<Longrightarrow> I s'"
  shows "sftp_dir_entries env walk subdir attrs array s = Some (Ret (b, array', s')) \<Longrightarrow> I s \<Longrightarrow> I s'"
proof (induction attrs arbitrary: array s)
  case (Cons a attrs)
  have go: "sftp_go_on env (sftp_dir_entries env walk subdir attrs) arr t = Some (Ret (b, array', s')) \<Longrightarrow> I t \<Longrightarrow> I s'" for t arr
    by (auto simp: sftp_go_on_def dest!: check dest: Cons.IH split: prod.splits if_splits)
  from Cons.prems show ?case
    by (auto simp: sftp_dir_entry_def Let_def dest!: update_task[OF _ add_size] dest: walk go
        split: prod.splits if_splits option.splits c_result.splits bool.splits)
qed simp

lemma recursive_dir:
  "remmina_sftp_client_thread_recursive_dir env fuel root subdir array s = Some (Ret (b, array', s')) \<Longrightarrow> I s \<Longrightarrow> I s'"
proof (induction fuel arbitrary: subdir array s b array' s')
  case (Suc fuel)
  have entries: "sftp_dir_entries env (\<lambda>d. remmina_sftp_client_thread_recursive_dir env fuel root (Some d)) sub attrs array t
      = Some (Ret (b, array', s')) \<Longrightarrow> I t \<Longrightarrow> I s'" for attrs t sub
    by (rule dir_entries) (rule Suc.IH)
  show ?case using Suc.prems
    by (auto simp: remmina_sftp_client_thread_recursive_dir.simps(2) Let_def c_bind_Ret_iff
        dest!: check do_step dest: entries report split: prod.splits if_splits option.splits)
qed (simp add: remmina_sftp_client_thread_recursive_dir.simps)

lemma local_dir_entries:
  assumes walk: "\<And>p a s b a' s'. walk p a s = Some (Ret (b, a', s')) \<Longrightarrow> I s \<Longrightarrow> I s'"
  shows "local_dir_entries env walk path subdir names array s = Some (Ret (b, array', s')) \<Longrightarrow> I s \<Longrightarrow> I s'"
proof (induction names arbitrary: array s subdir)
  case (Cons a names)
  from Cons.prems show ?case
    by (auto simp: local_dir_entry_def Let_def dest!: check do_step dest: walk Cons.IH Cons.IH[OF _ add_size]
        split: prod.splits if_splits option.splits c_result.splits bool.splits)
qed simp

lemma recursive_localdir:
  "remmina_sftp_client_thread_recursive_localdir env fuel root subdir array s = Some (Ret (b, array', s')) \<Longrightarrow> I s \<Longrightarrow> I s'"
proof (induction fuel arbitrary: subdir array s b array' s')
  case (Suc fuel)
  have entries: "local_dir_entries env (\<lambda>d. remmina_sftp_client_thread_recursive_localdir env fuel root (Some d)) path sub names array t
      = Some (Ret (b, array', s')) \<Longrightarrow> I t \<Longrightarrow> I s'" for names t sub path
    by (rule local_dir_entries) (rule Suc.IH)
  show ?case using Suc.prems
    by (auto simp: remmina_sftp_client_thread_recursive_localdir.simps(2) Let_def
        dest!: do_step dest: entries split: prod.splits if_splits option.splits)
qed (simp add: remmina_sftp_client_thread_recursive_localdir.simps)

lemma each:
  assumes f: "\<And>x s b s'. x \<in> set xs \<Longrightarrow> f x s = Ret (b, s') \<Longrightarrow> I s \<Longrightarrow> I s'"
  shows "sftp_each env f xs s = Ret (b, s') \<Longrightarrow> I s \<Longrightarrow> I s'"
  using f
proof (induction xs arbitrary: s)
  case (Cons x xs)
  then show ?case
    by (auto simp: c_bind_Ret_iff dest!: check split: prod.splits if_splits) metis+
qed simp

end

text \<open>A step of the thread may also change which task runs, and its session.\<close>

locale sftp_thread = sftp_steps env I "\<lambda>_. True" "\<lambda>_. True" for env :: "'w sftp_env" and I :: "'w sftp \<Rightarrow> bool" +
  assumes next_task: "I s \<Longrightarrow> tk_status t = FTP_TASK_STATUS_RUN \<Longrightarrow> I (s\<lparr>sf_taskid := n, sf_task := t\<rparr>)"
    and no_task: "I s \<Longrightarrow> I (s\<lparr>sf_taskid := 0\<rparr>)"
    and own_session: "I s \<Longrightarrow> I (s\<lparr>sf_own := b\<rparr>)"
    and closed: "I s \<Longrightarrow> I (s\<lparr>sf_closed := b\<rparr>)"
begin

lemma run_next: "I s \<Longrightarrow> I (s\<lparr>sf_taskid := n, sf_task := t\<lparr>tk_status := FTP_TASK_STATUS_RUN\<rparr>\<rparr>)"
  by (simp add: next_task)

lemma get_task: "remmina_sftp_client_thread_get_task env s = (t, s') \<Longrightarrow> I s \<Longrightarrow> I s'"
  by (auto simp: remmina_sftp_client_thread_get_task_def Let_def split: if_splits option.splits
      intro: main show_task run_next)

lemma connect: "sftp_connect env s = Ret (r, s') \<Longrightarrow> I s \<Longrightarrow> I s'"
  by (auto simp: sftp_connect_def split: if_splits option.splits prod.splits dest!: do_step intro: own_session closed)

lemma walk_then:
  assumes "\<And>b a s'. r = Some (Ret (b, a, s')) \<Longrightarrow> I s'" and "\<And>a s b s'. f a s = Ret (b, s') \<Longrightarrow> I s \<Longrightarrow> I s'"
  shows "sftp_walk_then r f = Some (Ret (b, s')) \<Longrightarrow> I s'"
  using assms by (auto simp: sftp_walk_then_def c_bind_Ret_iff split: if_splits)

lemma download_one: "sftp_download_one env remote local f s = Ret (b, s') \<Longrightarrow> I s \<Longrightarrow> I s'"
  by (auto simp: sftp_download_one_def dest: download_file)

lemma upload_one: "sftp_upload_one env remote local f s = Ret (b, s') \<Longrightarrow> I s \<Longrightarrow> I s'"
  by (auto simp: sftp_upload_one_def Let_def split: prod.splits option.splits bool.splits
      dest!: do_step dest: make_remote_folder upload_file)

lemma download_all: "sftp_each env (sftp_download_one env remote local) fs s = Ret (b, s') \<Longrightarrow> I s \<Longrightarrow> I s'"
  by (erule each[rotated]) (auto dest: download_one)

lemma upload_all: "sftp_each env (sftp_upload_one env remote local) fs s = Ret (b, s') \<Longrightarrow> I s \<Longrightarrow> I s'"
  by (erule each[rotated]) (auto dest: upload_one)

lemma download_task: "sftp_download_task env fuel ty remote local s = Some (Ret (b, s')) \<Longrightarrow> I s \<Longrightarrow> I s'"
  by (auto simp: sftp_download_task_def split: ftp_file_type.splits
      dest: download_file intro: recursive_dir download_all elim!: walk_then[rotated 2])

lemma upload_task: "sftp_upload_task env fuel ty remote local s = Some (Ret (b, s')) \<Longrightarrow> I s \<Longrightarrow> I s'"
  by (auto simp: sftp_upload_task_def sftp_upload_dir_def split: ftp_file_type.splits c_result.splits if_splits
      dest!: make_remote_folder dest: upload_file recursive_localdir upload_all elim!: walk_then[rotated 2])

lemma task_done: "sftp_task_done env refresh (b, s) = (r, s') \<Longrightarrow> I s \<Longrightarrow> I s'"
  by (auto simp: sftp_task_done_def remmina_sftp_client_thread_set_finish_def Let_def intro: end_task split: if_splits)

lemma run_task: "sftp_run_task env fuel refresh s = Some (Ret (r, s')) \<Longrightarrow> I s \<Longrightarrow> I s'"
  by (auto simp: sftp_run_task_def Let_def c_bind_Ret_iff split: ftp_task_type.splits
      dest!: download_task upload_task intro: done_size task_done)

lemma thread_loop: "sftp_thread_loop env fuel n refresh s = Some (Ret (e, s')) \<Longrightarrow> I s \<Longrightarrow> I s'"
proof (induction n arbitrary: refresh s)
  case (Suc n)
  from Suc.prems show ?case
    by (auto simp: remmina_sftp_client_thread_set_error_def split: prod.splits option.splits c_result.splits sftp_login.splits
        dest!: get_task dest!: connect dest!: run_task dest: Suc.IH intro: end_task no_task)
qed simp

end

end
