(* ===== verification/SftpLife.thy ===== *)
theory SftpLife
  imports SftpFacts
begin

text \<open>
  The interpretations of the invariants of the SFTP thread, and what a transfer leaves in the file
  it writes.
\<close>

section \<open>What the events keep\<close>

text \<open>Everything but the widget, the thread's flag and starts, the task's number, the session and the end.\<close>

definition sftp_files :: "'w sftp \<Rightarrow> (string \<Rightarrow> cstr) \<times> (string \<Rightarrow> cstr) \<times> nat \<times> nat \<times> ftp_task \<times> bool \<times> bool \<times> string list" where
  "sftp_files s = (sf_local s, sf_remote s, sf_read_errors s, sf_done s, sf_task s, sf_own s, sf_closed s, sf_written s)"

lemma newtasks_running: "sf_thread s \<Longrightarrow> (remmina_sftp_client_on_newtask ^^ n) s = s"
  by (induction n) (simp_all add: remmina_sftp_client_on_newtask_def)

lemma newtasks_keep: "sftp_files ((remmina_sftp_client_on_newtask ^^ n) s) = sftp_files s"
    "sf_taskid ((remmina_sftp_client_on_newtask ^^ n) s) = sf_taskid s"
    "sf_abort ((remmina_sftp_client_on_newtask ^^ n) s) = sf_abort s"
    "sf_client ((remmina_sftp_client_on_newtask ^^ n) s) = sf_client s"
    "sf_session ((remmina_sftp_client_on_newtask ^^ n) s) = sf_session s"
  by (induction n) (simp_all add: remmina_sftp_client_on_newtask_def sftp_files_def)

lemma sftp_files_update [simp]:
  "sftp_files (s\<lparr>sf_client := c\<rparr>) = sftp_files s" "sftp_files (s\<lparr>sf_taskid := i\<rparr>) = sftp_files s"
  "sftp_files (s\<lparr>sf_world := w\<rparr>) = sftp_files s" "sftp_files (s\<lparr>sf_session := b, sf_abort := b'\<rparr>) = sftp_files s"
  by (simp_all add: sftp_files_def)

lemma event_keeps: "sftp_files (sftp_event e s) = sftp_files s"
  by (cases e) (auto simp: sftp_new_tasks_def newtasks_keep remmina_ftp_client_task_list_cell_on_activate_def
      remmina_sftp_client_on_canceltask_def remmina_sftp_client_destroy_def Let_def)

lemma events_keep: "sftp_files (fold sftp_event es s) = sftp_files s"
  by (induction es arbitrary: s) (simp_all add: event_keeps)

lemma do_keeps:
  assumes "sftp_do f s = (a, t)"
  shows "sftp_files t = sftp_files s" and "thread_check_exit t = thread_check_exit s"
  using assms by (auto simp: sftp_do_def thread_check_exit_def split: prod.splits)

lemma main_keeps: "sftp_files (sftp_main env s) = sftp_files s"
  by (auto simp: sftp_main_def events_keep dest: do_keeps(1) split: prod.splits)

lemma exit_keeps:
  assumes "sftp_exit env s = (b, t)"
  shows "sftp_files t = sftp_files s" and "b = thread_check_exit t"
  using assms by (auto simp: sftp_exit_def Let_def main_keeps)

lemma show_keeps: "sftp_files (sftp_show_task s) = sftp_files s"
  by (simp add: sftp_show_task_def)

lemma update_keeps:
  assumes "remmina_sftp_client_thread_update_task env s = (b, t)"
  shows "sftp_files t = sftp_files s" and "\<not> b \<Longrightarrow> thread_check_exit t"
  using assms by (auto simp: remmina_sftp_client_thread_update_task_def show_keeps
      dest: exit_keeps split: prod.splits if_splits)

section \<open>Interpretations\<close>

text \<open>A task that was cancelled, or a widget that is gone, stays so.\<close>

lemma ended_event: "thread_check_exit s \<Longrightarrow> thread_check_exit (sftp_event e s)"
  by (cases e) (auto simp: thread_check_exit_def sftp_new_tasks_def newtasks_keep
      remmina_ftp_client_task_list_cell_on_activate_def remmina_sftp_client_on_canceltask_def
      remmina_sftp_client_destroy_def Let_def)

text \<open>The thread is started once while its flag is set.\<close>

lemma running_event: "sf_thread s \<Longrightarrow> sf_thread (sftp_event e s) \<and> sf_starts (sftp_event e s) = sf_starts s"
  by (cases e) (auto simp: sftp_new_tasks_def newtasks_running
      remmina_ftp_client_task_list_cell_on_activate_def remmina_sftp_client_on_canceltask_def
      remmina_sftp_client_destroy_def Let_def)

lemma running_events: "sf_thread s \<Longrightarrow> sf_thread (fold sftp_event es s) \<and> sf_starts (fold sftp_event es s) = sf_starts s"
  by (induction es arbitrary: s) (auto simp: running_event)

lemma fold_events: "(\<And>e s. e \<in> set es \<Longrightarrow> J s \<Longrightarrow> J (sftp_event e s)) \<Longrightarrow> J s \<Longrightarrow> J (fold sftp_event es s)"
  by (induction es arbitrary: s) simp_all

lemma main_events:
  assumes "J s" and "\<And>s w. J s \<Longrightarrow> J (s\<lparr>sf_world := w\<rparr>)"
    and "\<And>e s w. e \<in> set (fst (sn_main env w)) \<Longrightarrow> J s \<Longrightarrow> J (sftp_event e s)"
  shows "J (sftp_main env s)"
proof -
  obtain es w where m: "sn_main env (sf_world s) = (es, w)" by force
  have "J (fold sftp_event es (s\<lparr>sf_world := w\<rparr>))"
    by (rule fold_events) (use assms m in \<open>auto intro: assms(3)[of _ "sf_world s"]\<close>)
  with m show ?thesis by (simp add: sftp_main_def sftp_do_def)
qed

lemma running_main: "sf_thread s \<and> sf_starts s = k \<Longrightarrow> sf_thread (sftp_main env s) \<and> sf_starts (sftp_main env s) = k"
  by (rule main_events[where J = "\<lambda>s. sf_thread s \<and> sf_starts s = k"]) (auto dest: running_event)

text \<open>Local files change only at the paths that are written.\<close>

interpretation frame: sftp_steps env "\<lambda>s. \<forall>p. \<not> P p \<longrightarrow> sf_local s p = L p" P "\<lambda>_. True" for env :: "'w sftp_env" and P L
proof unfold_locales
  fix s :: "'w sftp"
  show "\<forall>p. \<not> P p \<longrightarrow> sf_local s p = L p \<Longrightarrow> \<forall>p. \<not> P p \<longrightarrow> sf_local (sftp_main env s) p = L p"
    using main_keeps[of env s] by (simp add: sftp_files_def)
qed (auto simp: sftp_show_task_def sftp_write_local_def sftp_write_remote_def)

text \<open>No second thread is started while the flag of the first one is set.\<close>

interpretation one: sftp_thread env "\<lambda>s. sf_thread s \<and> sf_starts s = k" for env k
  by unfold_locales (use running_main in \<open>auto simp: sftp_show_task_def sftp_write_local_def sftp_write_remote_def\<close>)

section \<open>A download\<close>

lemma sftp_files_eqD:
  assumes "sftp_files t = sftp_files s"
  shows "sf_local t = sf_local s" "sf_remote t = sf_remote s" "sf_read_errors t = sf_read_errors s" "sf_task t = sf_task s"
    "sf_own t = sf_own s"
  using assms by (simp_all add: sftp_files_def)

lemma progress_keeps:
  assumes "sftp_progress env n s = (b, t)"
  shows "sf_local t = sf_local s" "sf_remote t = sf_remote s" "sf_read_errors t = sf_read_errors s"
    and "\<not> b \<Longrightarrow> thread_check_exit t"
  using update_keeps[of env "s\<lparr>sf_done := sf_done s + n, sf_task := (sf_task s)\<lparr>tk_donesize := sf_done s + n\<rparr>\<rparr>" b t] assms
  by (auto simp: sftp_progress_def sftp_files_def)

lemma end_task_keeps:
  shows "sf_local (sftp_end_task env st tip s) = sf_local s" "sf_remote (sftp_end_task env st tip s) = sf_remote s"
    "sf_read_errors (sftp_end_task env st tip s) = sf_read_errors s"
  using update_keeps(1)[OF surjective_pairing, of env "s\<lparr>sf_task := (sf_task s)\<lparr>tk_status := st, tk_tooltip := tip\<rparr>\<rparr>"]
  by (simp_all add: sftp_end_task_def sftp_files_def)

lemma download_round_spec:
  assumes "sftp_download_round env path content rest s = (r, s')" and local: "sf_local s path = Some content"
  shows "sf_read_errors s \<le> sf_read_errors s' \<and>
    (case r of
       Inl b \<Rightarrow> (\<exists>n. sf_local s' path = Some (content @ take n rest)) \<and>
         (b \<and> \<not> thread_check_exit s' \<and> sf_read_errors s' = sf_read_errors s \<longrightarrow> rest = [])
     | Inr (c, r') \<Rightarrow> \<exists>n. c = content @ take n rest \<and> r' = drop n rest \<and> sf_local s' path = Some c)"
proof -
  have stay: "\<exists>n. Some content = Some (content @ take n rest)" by (rule exI[of _ 0]) simp
  obtain ex1 s1 where 1: "sftp_exit env s = (ex1, s1)" by force
  obtain k s2 where 2: "sftp_do (sn_read env) s1 = (k, s2)" by force
  obtain ex3 s3 where 3: "sftp_exit env s2 = (ex3, s3)" by force
  obtain m s4 where 4: "sftp_do (sn_fwrite env) s3 = (m, s4)" by force
  note e1 = exit_keeps[OF 1] sftp_files_eqD[OF exit_keeps(1)[OF 1]]
  note e2 = sftp_files_eqD[OF do_keeps(1)[OF 2]]
  note e3 = exit_keeps[OF 3] sftp_files_eqD[OF exit_keeps(1)[OF 3]]
  note e4 = sftp_files_eqD[OF do_keeps(1)[OF 4]]
  consider "ex1" | "\<not> ex1" "k = None" | n where "\<not> ex1" "k = Some n" "rest = []" | n where "\<not> ex1" "k = Some n" "rest \<noteq> []" "ex3"
    | n where "\<not> ex1" "k = Some n" "rest \<noteq> []" "\<not> ex3"
    by (cases k) auto
  then show ?thesis
  proof cases
    case (5 n)
    define chunk where "chunk = read_chunk n rest"
    have chunk: "\<exists>j. chunk = take j rest \<and> drop (length chunk) rest = drop j rest"
      by (rule exI[of _ "min sftp_buffer (Suc n)"]) (auto simp: chunk_def read_chunk_def min_def)
    define s5 where "s5 = sftp_write_local path (content @ take m chunk) s4"
    obtain ok s6 where 6: "sftp_progress env (length chunk) s5 = (ok, s6)" by force
    note e6 = progress_keeps[OF 6]
    have part: "\<exists>j. take m chunk = take j rest"
      using chunk by (metis take_take)
    show ?thesis
    proof (cases "m < length chunk")
      case True
      with 5 assms(1) 1 2 3 4 have "r = Inl False" "s' = remmina_sftp_client_thread_set_error env
          (Some (''Could not save the file '' @ curly_quoted (Some path) @ ''.'')) s5"
        by (simp_all add: sftp_download_round_def chunk_def s5_def Let_def)
      then show ?thesis
        using part e1 e2 e3 e4 by (simp add: s5_def sftp_write_local_def remmina_sftp_client_thread_set_error_def end_task_keeps)
    next
      case False
      with 5 assms(1) 1 2 3 4 6 have "s' = s6" "r = (if ok then Inr (content @ chunk, drop (length chunk) rest) else Inl True)"
        by (cases ok; simp add: sftp_download_round_def chunk_def s5_def Let_def)+
      then show ?thesis
        using False chunk part e1 e2 e3 e4 e6 by (auto simp: s5_def sftp_write_local_def)
    qed
  qed (use assms 1 2 3 e1 e2 e3 stay in \<open>auto simp: sftp_download_round_def intro: exI[of _ 0]\<close>)
qed

text \<open>
  What a transfer leaves at \<open>path\<close>, when it starts with \<open>base\<close> there and \<open>source\<close> is the other side:
  the base with a part of the rest of the source; all of the rest, when the result is TRUE, nothing
  ended the task, and no read failed.
\<close>

definition transferred :: "cstr \<Rightarrow> string \<Rightarrow> ('w sftp \<Rightarrow> cstr) \<Rightarrow> 'w sftp \<Rightarrow> bool \<times> 'w sftp \<Rightarrow> bool" where
  "transferred source base file s = (\<lambda>(b, s').
     sf_read_errors s \<le> sf_read_errors s' \<and>
     (\<exists>n. file s' = Some (base @ take n (drop (length base) (case source of None \<Rightarrow> [] | Some t \<Rightarrow> t)))) \<and>
     (b \<and> \<not> thread_check_exit s' \<and> sf_read_errors s' = sf_read_errors s \<longrightarrow>
        (\<exists>t. source = Some t \<and> file s' = Some (base @ drop (length base) t))))"

lemma download_loop_spec:
  assumes "sftp_download_loop env path content rest s = (b, s')" and "sf_local s path = Some content"
  shows "sf_read_errors s \<le> sf_read_errors s' \<and> (\<exists>n. sf_local s' path = Some (content @ take n rest)) \<and>
    (b \<and> \<not> thread_check_exit s' \<and> sf_read_errors s' = sf_read_errors s \<longrightarrow> sf_local s' path = Some (content @ rest))"
  using assms
proof (induction env path content rest s rule: sftp_download_loop.induct)
  case (1 env path content rest s)
  obtain r t where r: "sftp_download_round env path content rest s = (r, t)" by force
  note spec = download_round_spec[OF r "1.prems"(2)]
  show ?case
  proof (cases r)
    case (Inl c)
    with "1.prems"(1) r have "t = s'" "c = b" by (simp_all add: sftp_download_loop.simps[of env path content rest s])
    with spec Inl show ?thesis by auto
  next
    case (Inr cr)
    obtain c d where cd: "cr = (c, d)" by force
    with spec Inr obtain n where n: "c = content @ take n rest" "d = drop n rest" "sf_local t path = Some c"
      and le: "sf_read_errors s \<le> sf_read_errors t" by auto
    have next_t: "sftp_download_loop env path c d t = (b, s')"
      using "1.prems"(1) r Inr cd by (simp add: sftp_download_loop.simps[of env path content rest s])
    from "1.IH"[OF r[symmetric] Inr cd[symmetric] next_t n(3)] obtain m where
      m: "sf_local s' path = Some (c @ take m d)" "sf_read_errors t \<le> sf_read_errors s'"
      and all: "b \<and> \<not> thread_check_exit s' \<and> sf_read_errors s' = sf_read_errors t \<longrightarrow> sf_local s' path = Some (c @ d)"
      by blast
    have part: "sf_local s' path = Some (content @ take (n + m) rest)"
      using m n by (simp add: take_add)
    have full: "b \<and> \<not> thread_check_exit s' \<and> sf_read_errors s' = sf_read_errors s \<longrightarrow> sf_local s' path = Some (content @ rest)"
      using all m(2) le n by auto
    show ?thesis using le m(2) full part by (metis le_trans)
  qed
qed

lemma server_error_keeps:
  assumes "sftp_fail (sftp_server_error env a p z s) = Ret (b, s')"
  shows "sf_local s' = sf_local s \<and> sf_remote s' = sf_remote s \<and> sf_read_errors s' = sf_read_errors s \<and> \<not> b"
  using assms
  by (auto simp: sftp_fail_def sftp_server_error_def remmina_sftp_client_thread_set_error_def end_task_keeps split: if_splits)

lemma transferred_start:
  assumes "file s' = Some base" "sf_read_errors s \<le> sf_read_errors s'" "\<not> b"
  shows "transferred source base file s (b, s')"
  using assms by (auto simp: transferred_def intro: exI[of _ 0])

lemma download_remote_spec:
  assumes "sftp_download_remote env remote_path path content s = Ret (b, s')" and local: "sf_local s path = Some content"
  shows "transferred (sf_remote s (sn_unconvert env remote_path)) content (\<lambda>s. sf_local s path) s (b, s')"
proof -
  obtain ok t where t: "sftp_do (sn_open env (sn_unconvert env remote_path)) s = (ok, t)" by force
  note e = sftp_files_eqD[OF do_keeps(1)[OF t]]
  show ?thesis
  proof (cases "if ok then sf_remote t (sn_unconvert env remote_path) else None")
    case None
    with assms t show ?thesis
      by (auto simp: sftp_download_remote_def Let_def e dest!: server_error_keeps intro!: transferred_start split: if_splits)
  next
    case (Some remote)
    then have rem: "sf_remote s (sn_unconvert env remote_path) = Some remote" using e by (auto split: if_splits)
    obtain ok2 u where u: "sftp_do (sn_seek env) t = (ok2, u)" by force
    note e2 = sftp_files_eqD[OF do_keeps(1)[OF u]]
    have loop: "sftp_download_loop env path content (drop (length content) remote) v = (b, s') \<Longrightarrow>
        sf_local v path = Some content \<Longrightarrow> sf_read_errors v = sf_read_errors s \<Longrightarrow> ?thesis" for v
      using download_loop_spec[of env path content "drop (length content) remote" v b s'] rem
      by (auto simp: transferred_def)
    show ?thesis
      using assms t Some u loop[of t] loop[of "u\<lparr>sf_done := length content\<rparr>"] e e2
      by (auto simp: sftp_download_remote_def Let_def dest!: server_error_keeps intro!: transferred_start split: if_splits)
  qed
qed

lemma confirm_keeps:
  assumes "remmina_sftp_client_confirm_resume env p s = (a, t)"
  shows "sftp_files t = sftp_files s"
  using assms by (auto simp: remmina_sftp_client_confirm_resume_def dest: do_keeps split: if_splits)

lemma open_local_spec:
  assumes "sftp_open_local env keep path s = (c, t)"
  shows "sf_remote t = sf_remote s" "sf_read_errors t = sf_read_errors s"
    and "sf_local t path = (case c of None \<Rightarrow> sf_local s path | Some _ \<Rightarrow> c)"
    and "c = Some base \<Longrightarrow> base = (if keep then (case sf_local s path of None \<Rightarrow> [] | Some old \<Rightarrow> old) else [])"
proof -
  obtain ok u where u: "sftp_do (sn_fopen env path) s = (ok, u)" by force
  note e = sftp_files_eqD[OF do_keeps(1)[OF u]]
  show "sf_remote t = sf_remote s" "sf_read_errors t = sf_read_errors s"
      "sf_local t path = (case c of None \<Rightarrow> sf_local s path | Some _ \<Rightarrow> c)"
    using assms u e by (auto simp: sftp_open_local_def sftp_write_local_def Let_def split: if_splits)
  show "base = (if keep then (case sf_local s path of None \<Rightarrow> [] | Some old \<Rightarrow> old) else [])" if "c = Some base"
    using assms that u e by (auto simp: sftp_open_local_def Let_def split: if_splits)
qed

text \<open>The whole of a file: the local file is as it was, or \<open>transferred\<close> from nothing or from what it had.\<close>

definition downloaded :: "cstr \<Rightarrow> string \<Rightarrow> 'w sftp \<Rightarrow> bool \<times> 'w sftp \<Rightarrow> bool" where
  "downloaded source path s r \<longleftrightarrow>
     \<not> fst r \<and> sf_local (snd r) path = sf_local s path \<or>
     (\<exists>base. (base = [] \<or> sf_local s path = Some base) \<and> transferred source base (\<lambda>s. sf_local s path) s r)"

lemma set_error_keeps: "sf_local (remmina_sftp_client_thread_set_error env e s) = sf_local s"
    "sf_read_errors (remmina_sftp_client_thread_set_error env e s) = sf_read_errors s"
  by (simp_all add: remmina_sftp_client_thread_set_error_def end_task_keeps)

lemma transferred_from:
  assumes "transferred source base file t r" and "sf_read_errors t = sf_read_errors s"
  shows "transferred source base file s r"
  using assms by (auto simp: transferred_def)

lemma download_resume_spec:
  assumes "sftp_download_resume env remote_path path content s = Ret (b, s')" and local: "sf_local s path = Some content"
  shows "\<exists>base. (base = [] \<or> base = content) \<and>
    transferred (sf_remote s (sn_unconvert env remote_path)) base (\<lambda>s. sf_local s path) s (b, s')"
proof -
  obtain a t where t: "remmina_sftp_client_confirm_resume env path s = (a, t)" by force
  note e = sftp_files_eqD[OF confirm_keeps[OF t]]
  have stay: ?thesis if "sf_local s' path = Some content" "sf_read_errors s' = sf_read_errors s" "\<not> b"
    using that by (intro exI[of _ content] conjI transferred_start) simp_all
  have go: ?thesis if "sftp_download_remote env remote_path path base u = Ret (b, s')" "sf_local u path = Some base"
      "sf_remote u = sf_remote s" "sf_read_errors u = sf_read_errors s" "base = [] \<or> base = content" for base u
    using download_remote_spec[OF that(1,2)] that(3-) by (intro exI[of _ base]) (auto dest: transferred_from)
  show ?thesis
  proof (cases a)
    case Resume_overwrite
    obtain c u where u: "sftp_open_local env False path t = (c, u)" by force
    note eu = open_local_spec[OF u]
    show ?thesis
    proof (cases c)
      case None
      show ?thesis
        by (rule stay) (use assms t u Resume_overwrite e eu None in
            \<open>auto simp: sftp_download_resume_def could_not_create_def set_error_keeps\<close>)
    next
      case (Some base)
      show ?thesis
        by (rule go[of base u]) (use assms t u Resume_overwrite e eu Some in \<open>auto simp: sftp_download_resume_def\<close>)
    qed
  next
    case Resume_cancel
    show ?thesis
      by (rule stay) (use assms t e Resume_cancel in \<open>auto simp: sftp_download_resume_def set_error_keeps\<close>)
  next
    case Resume_append
    show ?thesis
      by (rule go[of content t]) (use assms t e Resume_append in \<open>auto simp: sftp_download_resume_def\<close>)
  next
    case Resume_none
    show ?thesis
      by (rule go[of content t]) (use assms t e Resume_none in \<open>auto simp: sftp_download_resume_def\<close>)
  qed
qed

lemma make_folder_keeps:
  assumes "sftp_make_folder env path s = (r, t)"
  shows "sftp_files t = sftp_files s"
  using assms by (auto simp: sftp_make_folder_def Let_def dest: do_keeps(1) split: option.splits prod.splits if_splits)

lemma download_file_spec:
  assumes "remmina_sftp_client_thread_download_file env remote_path path s = Ret (b, s')"
  shows "downloaded (sf_remote s (sn_unconvert env remote_path)) path s (b, s')"
proof -
  obtain ex s1 where 1: "sftp_exit env s = (ex, s1)" by force
  obtain dir s2 where 2: "sftp_make_folder env path s1 = (dir, s2)" by force
  obtain c s3 where 3: "sftp_open_local env True path s2 = (c, s3)" by force
  note e1 = sftp_files_eqD[OF exit_keeps(1)[OF 1]] and e2 = sftp_files_eqD[OF make_folder_keeps[OF 2]] and e3 = open_local_spec[OF 3]
  show ?thesis
  proof (cases "ex \<or> dir \<noteq> None \<or> c = None")
    case True
    with assms 1 2 3 e1 e2 e3 show ?thesis
      by (auto simp: remmina_sftp_client_thread_download_file_def could_not_create_def downloaded_def set_error_keeps
          split: if_splits option.splits)
  next
    case False
    then obtain content where c: "c = Some content" by auto
    have old: "content = [] \<or> sf_local s path = Some content"
      using e3(4)[OF c] e1 e2 by (auto split: option.splits)
    have s3: "sf_local s3 path = Some content" using e3(3) c by simp
    show ?thesis
    proof (cases "content = []")
      case True
      with assms 1 2 3 False c have "sftp_download_remote env remote_path path [] s3 = Ret (b, s')"
        by (simp add: remmina_sftp_client_thread_download_file_def)
      from download_remote_spec[OF this] s3 True e1 e2 e3 show ?thesis
        by (auto simp: downloaded_def dest: transferred_from intro!: exI[of _ "[]"])
    next
      case False
      with assms 1 2 3 \<open>\<not> (ex \<or> dir \<noteq> None \<or> c = None)\<close> c
      have "sftp_download_resume env remote_path path content s3 = Ret (b, s')"
        by (simp add: remmina_sftp_client_thread_download_file_def)
      from download_resume_spec[OF this s3] obtain base where base: "base = [] \<or> base = content"
          "transferred (sf_remote s3 (sn_unconvert env remote_path)) base (\<lambda>s. sf_local s path) s3 (b, s')" by blast
      have "transferred (sf_remote s (sn_unconvert env remote_path)) base (\<lambda>s. sf_local s path) s (b, s')"
        using transferred_from[OF base(2), of s] e1 e2 e3 by simp
      then show ?thesis using base(1) old False unfolding downloaded_def by blast
    qed
  qed
qed

section \<open>The names of a folder\<close>

text \<open>A path of one or more names below a folder, none of which leaves it.\<close>

definition plain_name :: "string \<Rightarrow> bool" where
  "plain_name n \<longleftrightarrow> n \<noteq> [] \<and> \<not> dot_name n \<and> CHR ''/'' \<notin> set n"

inductive below :: "string \<Rightarrow> bool" where
  below_name: "plain_name n \<Longrightarrow> below n"
| below_sub: "below d \<Longrightarrow> plain_name n \<Longrightarrow> below (d @ CHR ''/'' # n)"

lemma below_last: "below d \<Longrightarrow> d \<noteq> [] \<and> last d \<noteq> CHR ''/''"
proof (induction rule: below.induct)
  case (below_name n)
  then show ?case by (auto simp: plain_name_def dest: last_in_set)
next
  case (below_sub d n)
  then show ?case by (auto simp: plain_name_def dest: last_in_set[of n])
qed

lemma below_sub_path: "(case sub of None \<Rightarrow> True | Some d \<Rightarrow> below d) \<Longrightarrow> plain_name n \<Longrightarrow> below (sub_path sub n)"
  by (auto simp: sub_path_def remmina_public_combine_path_def below_last intro: below.intros split: option.splits dest: below_last)

text \<open>A server whose names are plain.\<close>

definition plain_server :: "'w sftp_env \<Rightarrow> bool" where
  "plain_server env \<longleftrightarrow> (\<forall>p w attrs w'. sn_opendir env p w = (Some attrs, w') \<longrightarrow>
     (\<forall>a\<in>set attrs. dot_name (at_name a) \<or> plain_name (sn_convert env (at_name a))))"

lemma dir_entries_below:
  assumes walk: "\<And>p a s b a' s'. walk p a s = Some (Ret (b, a', s')) \<Longrightarrow> below p \<Longrightarrow> \<forall>f\<in>set a. below f \<Longrightarrow> \<forall>f\<in>set a'. below f"
    and sub: "case sub of None \<Rightarrow> True | Some d \<Rightarrow> below d"
  shows "\<forall>a\<in>set attrs. dot_name (at_name a) \<or> plain_name (sn_convert env (at_name a)) \<Longrightarrow>
    sftp_dir_entries env walk sub attrs array s = Some (Ret (b, array', s')) \<Longrightarrow> \<forall>f\<in>set array. below f \<Longrightarrow> \<forall>f\<in>set array'. below f"
proof (induction attrs arbitrary: array s)
  case (Cons a attrs)
  have go: "sftp_go_on env (sftp_dir_entries env walk sub attrs) arr t = Some (Ret (b, array', s')) \<Longrightarrow>
      \<forall>f\<in>set arr. below f \<Longrightarrow> \<forall>f\<in>set array'. below f" for t arr
    using Cons.prems(1) by (auto simp: sftp_go_on_def dest: Cons.IH[rotated] split: prod.splits if_splits)
  show ?case
  proof (cases "dot_name (at_name a)")
    case True
    with Cons.prems show ?thesis by (simp add: sftp_dir_entry_def go)
  next
    case False
    with Cons.prems(1) have path: "below (sub_path sub (sn_convert env (at_name a)))"
      by (auto intro: below_sub_path[OF sub])
    with False Cons.prems(2,3) walk show ?thesis
      by (fastforce simp: sftp_dir_entry_def Let_def dest: go split: prod.splits if_splits option.splits c_result.splits bool.splits)
  qed
qed simp

lemma recursive_dir_below:
  assumes "plain_server env"
  shows "remmina_sftp_client_thread_recursive_dir env fuel root sub array s = Some (Ret (b, array', s')) \<Longrightarrow>
    case sub of None \<Rightarrow> True | Some d \<Rightarrow> below d \<Longrightarrow> \<forall>f\<in>set array. below f \<Longrightarrow> \<forall>f\<in>set array'. below f"
proof (induction fuel arbitrary: sub array s b array' s')
  case (Suc fuel)
  obtain ex t where t: "sftp_exit env s = (ex, t)" by force
  define path where "path = sn_unconvert env (case sub of None \<Rightarrow> root | Some d \<Rightarrow> remmina_public_combine_path (Some root) d)"
  obtain attrs u where u: "sftp_do (sn_opendir env path) t = (attrs, u)" by force
  note dir = Suc.prems(1)[unfolded remmina_sftp_client_thread_recursive_dir.simps(2) Let_def t prod.case]
  consider "ex" | "\<not> ex" "attrs = None" | "\<not> ex" "attrs \<noteq> None" by blast
  then show ?case
  proof cases
    case 1
    with dir Suc.prems(3) show ?thesis by simp
  next
    case 2
    with dir u[unfolded path_def] Suc.prems(3) show ?thesis by (auto simp: c_bind_Ret_iff)
  next
    case 3
    then obtain as where as: "attrs = Some as" by auto
    with u assms have plain: "\<forall>a\<in>set as. dot_name (at_name a) \<or> plain_name (sn_convert env (at_name a))"
      by (auto simp: plain_server_def sftp_do_def split: prod.splits)
    have entries: "sftp_dir_entries env (\<lambda>d. remmina_sftp_client_thread_recursive_dir env fuel root (Some d)) sub as array u
        = Some (Ret (b, array', s'))"
      using dir u[unfolded path_def] as 3 by simp
    show ?thesis
      by (rule dir_entries_below[OF _ Suc.prems(2) plain entries Suc.prems(3)]) (use Suc.IH in force)
  qed
qed (simp add: remmina_sftp_client_thread_recursive_dir.simps)

end
