(* ===== verification/SftpEnds.thy ===== *)
theory SftpEnds
  imports SftpLife
begin

text \<open>
  The walks through the folders end when paths have a greatest length, and the thread ends when no
  tasks are added: the fuel that is enough for both.
\<close>

section \<open>Folders of the server\<close>

definition dir_path :: "string \<Rightarrow> cstr \<Rightarrow> string" where
  "dir_path root sub = (case sub of None \<Rightarrow> root | Some d \<Rightarrow> remmina_public_combine_path (Some root) d)"

text \<open>Folders are in no folder with a path longer than \<open>L\<close>.\<close>

definition finite_server :: "nat \<Rightarrow> 'w sftp_env \<Rightarrow> bool" where
  "finite_server L env \<longleftrightarrow> (\<forall>p w attrs w'. L < length p \<longrightarrow> sn_opendir env (sn_unconvert env p) w = (Some attrs, w') \<longrightarrow>
     (\<forall>a\<in>set attrs. dot_name (at_name a) \<or> get_sftpattr_type a \<noteq> FTP_FILE_TYPE_DIR))"

lemma dir_path_longer:
  assumes "plain_name n"
  shows "length (dir_path root sub) < length (dir_path root (Some (sub_path sub n)))"
  using assms by (auto simp: dir_path_def sub_path_def remmina_public_combine_path_def plain_name_def split: option.splits)

lemma dir_entries_return:
  assumes "\<And>a arr t. a \<in> set attrs \<Longrightarrow> \<not> dot_name (at_name a) \<Longrightarrow> get_sftpattr_type a = FTP_FILE_TYPE_DIR \<Longrightarrow>
      walk (sub_path sub (sn_convert env (at_name a))) arr t \<noteq> None"
  shows "sftp_dir_entries env walk sub attrs array s \<noteq> None"
  using assms
proof (induction attrs arbitrary: array s)
  case (Cons a attrs)
  then have go: "sftp_go_on env (sftp_dir_entries env walk sub attrs) arr t \<noteq> None" for arr t
    by (auto simp: sftp_go_on_def split: prod.split)
  let ?p = "sub_path sub (sn_convert env (at_name a))"
  consider "dot_name (at_name a)" | "\<not> dot_name (at_name a)" "get_sftpattr_type a = FTP_FILE_TYPE_DIR"
    | "\<not> dot_name (at_name a)" "get_sftpattr_type a \<noteq> FTP_FILE_TYPE_DIR" by blast
  then show ?case
  proof cases
    case 2
    then obtain r where "walk ?p array s = Some r" using Cons.prems[of a array s] by auto
    with 2 go show ?thesis by (auto simp: sftp_dir_entry_def Let_def split: c_result.split bool.split prod.split)
  qed (use go in \<open>auto simp: sftp_dir_entry_def Let_def split: prod.split\<close>)
qed simp

lemma recursive_dir_returns:
  assumes "plain_server env" and "finite_server L env"
  shows "0 < fuel \<Longrightarrow> L + 1 < fuel + length (dir_path root sub) \<Longrightarrow>
    remmina_sftp_client_thread_recursive_dir env fuel root sub array s \<noteq> None"
proof (induction fuel arbitrary: sub array s)
  case (Suc fuel)
  have entries: "sftp_dir_entries env (\<lambda>d. remmina_sftp_client_thread_recursive_dir env fuel root (Some d)) sub attrs array t \<noteq> None"
    if u: "sftp_do (sn_opendir env (sn_unconvert env (dir_path root sub))) v = (Some attrs, t)" for attrs t v
  proof (rule dir_entries_return)
    fix a arr t'
    assume a: "a \<in> set attrs" "\<not> dot_name (at_name a)" "get_sftpattr_type a = FTP_FILE_TYPE_DIR"
    have plain: "plain_name (sn_convert env (at_name a))"
      using assms(1) u a by (auto simp: plain_server_def sftp_do_def split: prod.splits)
    have short: "length (dir_path root sub) \<le> L"
      using assms(2) u a by (fastforce simp: finite_server_def sftp_do_def not_less[symmetric] split: prod.splits)
    show "remmina_sftp_client_thread_recursive_dir env fuel root (Some (sub_path sub (sn_convert env (at_name a)))) arr t' \<noteq> None"
      by (rule Suc.IH) (use Suc.prems short dir_path_longer[OF plain, of root sub] in auto)
  qed
  then show ?case
    by (auto simp: remmina_sftp_client_thread_recursive_dir.simps(2) Let_def dir_path_def split: prod.split option.split)
qed simp

section \<open>Local folders\<close>

text \<open>The names in a local folder, and a greatest length of the path of one.\<close>

definition finite_disk :: "nat \<Rightarrow> 'w sftp_env \<Rightarrow> bool" where
  "finite_disk L env \<longleftrightarrow>
     (\<forall>p w names w'. sn_dir_open env p w = (Some names, w') \<longrightarrow> (\<forall>n\<in>set names. dot_name n \<or> plain_name n)) \<and>
     (\<forall>p w n w'. sn_local_stat env p w = (Some (True, n), w') \<longrightarrow> length p \<le> L)"

lemma strip_plain: "plain_name n \<Longrightarrow> dropWhile ((=) (CHR ''/'')) n = n"
  by (cases n) (auto simp: plain_name_def)

lemma strip_end: "a \<noteq> [] \<Longrightarrow> last a \<noteq> CHR ''/'' \<Longrightarrow> rev (dropWhile ((=) (CHR ''/'')) (rev a)) = a"
  by (cases a rule: rev_cases) auto

text \<open>A path below: it neither begins nor ends with a slash.\<close>

definition inner_path :: "string \<Rightarrow> bool" where
  "inner_path p \<longleftrightarrow> p \<noteq> [] \<and> hd p \<noteq> CHR ''/'' \<and> last p \<noteq> CHR ''/''"

lemma plain_inner: "plain_name n \<Longrightarrow> inner_path n"
  using last_in_set[of n] by (cases n) (auto simp: plain_name_def inner_path_def)

lemma build_inner: "inner_path d \<Longrightarrow> inner_path n \<Longrightarrow> g_build_filename d n = d @ CHR ''/'' # n"
  by (cases n) (auto simp: g_build_filename_def inner_path_def strip_end Let_def)

lemma build_ends:
  assumes "inner_path n"
  shows "\<exists>x. g_build_filename a n = x @ n"
  using assms by (cases n) (auto simp: g_build_filename_def inner_path_def Let_def)

lemma build_longer:
  assumes "case sub of None \<Rightarrow> True | Some d \<Rightarrow> inner_path d" and "inner_path n"
  shows "inner_path (g_build_filename (case sub of None \<Rightarrow> [] | Some d \<Rightarrow> d) n)"
    and "length (case sub of None \<Rightarrow> [] | Some d \<Rightarrow> d) < length (g_build_filename (case sub of None \<Rightarrow> [] | Some d \<Rightarrow> d) n)"
    and "length (g_build_filename (case sub of None \<Rightarrow> [] | Some d \<Rightarrow> d) n)
      \<le> length (g_build_filename (g_build_filename root (case sub of None \<Rightarrow> [] | Some d \<Rightarrow> d)) n)"
proof -
  have empty: "g_build_filename [] n = n" by (simp add: g_build_filename_def)
  have "inner_path (d @ CHR ''/'' # n)" if "inner_path d" for d
    using that assms(2) by (cases d) (auto simp: inner_path_def)
  with assms build_inner empty show "inner_path (g_build_filename (case sub of None \<Rightarrow> [] | Some d \<Rightarrow> d) n)"
    by (auto split: option.split)
  show "length (case sub of None \<Rightarrow> [] | Some d \<Rightarrow> d) < length (g_build_filename (case sub of None \<Rightarrow> [] | Some d \<Rightarrow> d) n)"
    using assms build_inner empty by (auto simp: inner_path_def split: option.splits)
  show "length (g_build_filename (case sub of None \<Rightarrow> [] | Some d \<Rightarrow> d) n)
      \<le> length (g_build_filename (g_build_filename root (case sub of None \<Rightarrow> [] | Some d \<Rightarrow> d)) n)"
  proof (cases sub)
    case None
    obtain x where "g_build_filename (g_build_filename root []) n = x @ n" using build_ends[OF assms(2)] by blast
    with None empty show ?thesis by simp
  next
    case (Some d)
    with assms(1) have d: "inner_path d" by simp
    obtain x where x: "g_build_filename root d = x @ d" using build_ends[OF d] by blast
    have end_d: "x @ d \<noteq> []" "last (x @ d) \<noteq> CHR ''/''" using d by (auto simp: inner_path_def)
    have "dropWhile ((=) (CHR ''/'')) n = n" using assms(2) by (cases n) (auto simp: inner_path_def)
    moreover have "n \<noteq> []" using assms(2) by (simp add: inner_path_def)
    ultimately have "g_build_filename (x @ d) n = (x @ d) @ CHR ''/'' # n"
      using end_d(1) by (simp add: g_build_filename_def strip_end[OF end_d] Let_def del: rev_append)
    with Some x build_inner[OF d assms(2)] show ?thesis by simp
  qed
qed

lemma local_dir_entries_return:
  assumes "\<And>n arr t. n \<in> set names \<Longrightarrow> \<not> dot_name n \<Longrightarrow>
      \<exists>k v w. sftp_do (sn_local_stat env (g_build_filename path n)) v = (Some (True, k), w) \<Longrightarrow>
      walk (g_build_filename (case sub of None \<Rightarrow> [] | Some d \<Rightarrow> d) n) arr t \<noteq> None"
  shows "local_dir_entries env walk path sub names array s \<noteq> None"
  using assms
proof (induction names arbitrary: array s)
  case (Cons n names)
  then have rest: "local_dir_entries env walk path sub names arr t \<noteq> None" for arr t by auto
  obtain ex u where u: "sftp_exit env s = (ex, u)" by force
  obtain r v where v: "sftp_do (sn_local_stat env (g_build_filename path n)) u = (r, v)" by force
  let ?rel = "g_build_filename (case sub of None \<Rightarrow> [] | Some d \<Rightarrow> d) n"
  have walk: "walk ?rel arr t \<noteq> None" if "r = Some (True, k)" "\<not> dot_name n" for k arr t
    by (rule Cons.prems) (use that v in auto)
  show ?case
  proof (cases "ex \<or> dot_name n \<or> (\<forall>k. r \<noteq> Some (True, k))")
    case True
    with u v rest show ?thesis by (auto simp: local_dir_entry_def Let_def split: option.split)
  next
    case False
    then obtain k where k: "r = Some (True, k)" "\<not> dot_name n" "\<not> ex" by auto
    from walk[OF k(1,2), of "array @ [?rel]" v] obtain x where x: "walk ?rel (array @ [?rel]) v = Some x" by blast
    show ?thesis using u v k x rest
      by (auto simp: local_dir_entry_def Let_def split: c_result.split bool.split)
  qed
qed simp

lemma recursive_localdir_returns:
  assumes "finite_disk L env"
  shows "0 < fuel \<Longrightarrow> L + 1 < fuel + length (case sub of None \<Rightarrow> [] | Some d \<Rightarrow> d) \<Longrightarrow>
    case sub of None \<Rightarrow> True | Some d \<Rightarrow> inner_path d \<Longrightarrow>
    remmina_sftp_client_thread_recursive_localdir env fuel root sub array s \<noteq> None"
proof (induction fuel arbitrary: sub array s)
  case (Suc fuel)
  let ?sub = "case sub of None \<Rightarrow> [] | Some d \<Rightarrow> d"
  obtain names t where t: "sftp_do (sn_dir_open env (g_build_filename root ?sub)) s = (names, t)" by force
  show ?case
  proof (cases names)
    case None
    with t show ?thesis by (simp add: remmina_sftp_client_thread_recursive_localdir.simps(2) Let_def)
  next
    case (Some ns)
    have "local_dir_entries env (\<lambda>d. remmina_sftp_client_thread_recursive_localdir env fuel root (Some d))
        (g_build_filename root ?sub) sub ns array t \<noteq> None"
    proof (rule local_dir_entries_return)
      fix n arr t'
      assume n: "n \<in> set ns" "\<not> dot_name n"
        and stat: "\<exists>k v w. sftp_do (sn_local_stat env (g_build_filename (g_build_filename root ?sub) n)) v = (Some (True, k), w)"
      have inner: "inner_path n"
      proof -
        obtain w' where "sn_dir_open env (g_build_filename root ?sub) (sf_world s) = (Some ns, w')"
          using t Some by (auto simp: sftp_do_def split: prod.splits)
        with n assms have "plain_name n" unfolding finite_disk_def by blast
        then show ?thesis by (rule plain_inner)
      qed
      have "length (g_build_filename (g_build_filename root ?sub) n) \<le> L"
      proof -
        let ?abs = "g_build_filename (g_build_filename root ?sub) n"
        from stat obtain k v w where "sftp_do (sn_local_stat env ?abs) v = (Some (True, k), w)" by blast
        then obtain w' where "sn_local_stat env ?abs (sf_world v) = (Some (True, k), w')"
          by (cases "sn_local_stat env ?abs (sf_world v)") (auto simp: sftp_do_def)
        with assms show ?thesis unfolding finite_disk_def by blast
      qed
      then show "remmina_sftp_client_thread_recursive_localdir env fuel root (Some (g_build_filename ?sub n)) arr t' \<noteq> None"
        by (intro Suc.IH) (use Suc.prems build_longer(1,2)[OF Suc.prems(3) inner] build_longer(3)[OF Suc.prems(3) inner, of root] in auto)
    qed
    with t Some show ?thesis by (simp add: remmina_sftp_client_thread_recursive_localdir.simps(2) Let_def)
  qed
qed simp

section \<open>The thread\<close>

text \<open>The main thread adds no tasks.\<close>

definition adds_no_task :: "'w sftp_env \<Rightarrow> bool" where
  "adds_no_task env \<longleftrightarrow> (\<forall>w. \<forall>e\<in>set (fst (sn_main env w)). case e of Ev_download _ _ \<Rightarrow> False | Ev_upload _ _ _ \<Rightarrow> False | _ \<Rightarrow> True)"

definition waiting_tasks :: "'w sftp \<Rightarrow> nat" where
  "waiting_tasks s = length (filter (\<lambda>t. tk_status t = FTP_TASK_STATUS_WAIT) (fc_tasks (sf_client s)))"

lemma waiting_update [simp]:
  "waiting_tasks (s\<lparr>sf_world := w\<rparr>) = waiting_tasks s" "waiting_tasks (s\<lparr>sf_task := t\<rparr>) = waiting_tasks s"
  "waiting_tasks (s\<lparr>sf_done := n\<rparr>) = waiting_tasks s" "waiting_tasks (s\<lparr>sf_read_errors := n\<rparr>) = waiting_tasks s"
  "waiting_tasks (s\<lparr>sf_written := l\<rparr>) = waiting_tasks s" "waiting_tasks (s\<lparr>sf_own := b\<rparr>) = waiting_tasks s"
  "waiting_tasks (s\<lparr>sf_closed := b\<rparr>) = waiting_tasks s" "waiting_tasks (s\<lparr>sf_taskid := n\<rparr>) = waiting_tasks s"
  "waiting_tasks (sftp_write_local p c s) = waiting_tasks s" "waiting_tasks (sftp_write_remote p c s) = waiting_tasks s"
  by (simp_all add: waiting_tasks_def sftp_write_local_def sftp_write_remote_def)

lemma waiting_updated_list:
  assumes "tk_status t \<noteq> FTP_TASK_STATUS_WAIT"
  shows "length (filter (\<lambda>t. tk_status t = FTP_TASK_STATUS_WAIT) (map (ftp_task_update t) ts)) \<le>
    length (filter (\<lambda>t. tk_status t = FTP_TASK_STATUS_WAIT) ts)"
  using assms by (induction ts) (auto simp: ftp_task_update_def)

lemma waiting_updated_less:
  assumes "tk_status t \<noteq> FTP_TASK_STATUS_WAIT" "r \<in> set ts" "tk_taskid r = tk_taskid t" "tk_status r = FTP_TASK_STATUS_WAIT"
  shows "length (filter (\<lambda>t. tk_status t = FTP_TASK_STATUS_WAIT) (map (ftp_task_update t) ts)) <
    length (filter (\<lambda>t. tk_status t = FTP_TASK_STATUS_WAIT) ts)"
  using assms
proof (induction ts)
  case (Cons a ts)
  note rest = waiting_updated_list[OF Cons.prems(1), of ts]
  show ?case
  proof (cases "a = r")
    case True
    with Cons.prems have "tk_status (ftp_task_update t a) = tk_status t" by (simp add: ftp_task_update_def)
    with rest Cons.prems True show ?thesis by (simp add: less_Suc_eq_le)
  next
    case False
    with Cons have "length (filter (\<lambda>t. tk_status t = FTP_TASK_STATUS_WAIT) (map (ftp_task_update t) ts)) <
        length (filter (\<lambda>t. tk_status t = FTP_TASK_STATUS_WAIT) ts)" by simp
    moreover have "tk_status (ftp_task_update t a) = FTP_TASK_STATUS_WAIT \<longrightarrow> tk_status a = FTP_TASK_STATUS_WAIT"
      using Cons.prems(1) by (simp add: ftp_task_update_def)
    ultimately show ?thesis by auto
  qed
qed simp

lemma waiting_show: "tk_status (sf_task s) \<noteq> FTP_TASK_STATUS_WAIT \<Longrightarrow> waiting_tasks (sftp_show_task s) \<le> waiting_tasks s"
  using waiting_updated_list[of "sf_task s" "fc_tasks (sf_client s)"]
  by (simp add: waiting_tasks_def sftp_show_task_def remmina_ftp_client_update_task_def)

lemma filter_twice_le: "length (filter P (filter Q ts)) \<le> length (filter P ts)"
  by (induction ts) auto

lemma waiting_event:
  assumes "case e of Ev_download _ _ \<Rightarrow> False | Ev_upload _ _ _ \<Rightarrow> False | _ \<Rightarrow> True"
  shows "waiting_tasks (sftp_event e s) \<le> waiting_tasks s"
  using assms
  by (cases e) (auto simp: waiting_tasks_def remmina_ftp_client_task_list_cell_on_activate_def Let_def
      remmina_sftp_client_on_canceltask_def remmina_sftp_client_destroy_def ftp_remove_task_def
      remmina_ftp_client_set_overwrite_status_def remmina_ftp_client_set_resume_status_def
      intro: filter_twice_le simp del: filter_filter)

text \<open>The tasks that wait do not become more, while the task of the thread does not wait.\<close>

lemma waiting_main:
  assumes "adds_no_task env" and "waiting_tasks s \<le> k"
  shows "waiting_tasks (sftp_main env s) \<le> k"
proof (rule main_events[where J = "\<lambda>s. waiting_tasks s \<le> k"])
  fix e w and s :: "'a sftp"
  assume "e \<in> set (fst (sn_main env w))" and "waiting_tasks s \<le> k"
  moreover from this(1) assms(1) have "case e of Ev_download _ _ \<Rightarrow> False | Ev_upload _ _ _ \<Rightarrow> False | _ \<Rightarrow> True"
    by (auto simp: adds_no_task_def)
  ultimately show "waiting_tasks (sftp_event e s) \<le> k" using waiting_event[of e s] by linarith
qed (use assms in simp_all)

lemma task_main: "sf_task (sftp_main env s) = sf_task s"
  by (rule sftp_files_eqD(4)[OF main_keeps])

interpretation quiet: sftp_thread env
  "\<lambda>s. adds_no_task env \<longrightarrow> waiting_tasks s \<le> k \<and> tk_status (sf_task s) \<noteq> FTP_TASK_STATUS_WAIT" for env :: "'w sftp_env" and k
proof unfold_locales
  fix s :: "'w sftp"
  assume I: "adds_no_task env \<longrightarrow> waiting_tasks s \<le> k \<and> tk_status (sf_task s) \<noteq> FTP_TASK_STATUS_WAIT"
  then show "adds_no_task env \<longrightarrow> waiting_tasks (sftp_main env s) \<le> k \<and> tk_status (sf_task (sftp_main env s)) \<noteq> FTP_TASK_STATUS_WAIT"
    using waiting_main[of env s k] by (simp add: task_main)
  show "adds_no_task env \<longrightarrow> waiting_tasks (sftp_show_task s) \<le> k \<and> tk_status (sf_task (sftp_show_task s)) \<noteq> FTP_TASK_STATUS_WAIT"
    using I waiting_show[of s] by (auto simp: sftp_show_task_def[of s] intro: le_trans)
qed (auto simp: sftp_write_local_def[of _ _ s for s] sftp_write_remote_def[of _ _ s for s] waiting_tasks_def)

lemma get_task_less:
  assumes "adds_no_task env" and "remmina_sftp_client_thread_get_task env s = (Some t, u)"
  shows "waiting_tasks u < waiting_tasks s \<and> tk_status (sf_task u) \<noteq> FTP_TASK_STATUS_WAIT"
proof -
  define v where "v = sftp_main env s"
  obtain r where r: "remmina_ftp_client_get_waiting_task (sf_client v) = Some r"
    and u: "u = sftp_show_task (v\<lparr>sf_taskid := tk_taskid r, sf_task := r\<lparr>tk_status := FTP_TASK_STATUS_RUN\<rparr>\<rparr>)"
    using assms(2) by (auto simp: remmina_sftp_client_thread_get_task_def v_def Let_def split: if_splits option.splits)
  have row: "r \<in> set (fc_tasks (sf_client v))" "tk_status r = FTP_TASK_STATUS_WAIT"
    using r by (auto simp: remmina_ftp_client_get_waiting_task_def find_Some_iff)
  have "waiting_tasks u < waiting_tasks v"
    using waiting_updated_less[of "r\<lparr>tk_status := FTP_TASK_STATUS_RUN\<rparr>" r, OF _ row(1)] row(2)
    by (simp add: u waiting_tasks_def sftp_show_task_def remmina_ftp_client_update_task_def)
  moreover have "waiting_tasks v \<le> waiting_tasks s"
    unfolding v_def by (rule waiting_main[OF assms(1)]) simp
  ultimately show ?thesis by (simp add: u sftp_show_task_def)
qed

lemma run_task_returns:
  assumes "plain_server env" "finite_server L env" "finite_disk L env"
  shows "sftp_run_task env (L + 2) refresh s \<noteq> None"
  using recursive_dir_returns[OF assms(1,2), of "L + 2" _ None] recursive_localdir_returns[OF assms(3), of "L + 2" None]
  by (auto simp: sftp_run_task_def sftp_download_task_def sftp_upload_task_def sftp_upload_dir_def sftp_walk_then_def Let_def
      split: ftp_task_type.split ftp_file_type.split c_result.split)

lemma thread_loop_returns:
  assumes "plain_server env" "finite_server L env" "finite_disk L env" "adds_no_task env"
  shows "waiting_tasks s < n \<Longrightarrow> sftp_thread_loop env (L + 2) n refresh s \<noteq> None"
proof (induction n arbitrary: refresh s)
  case (Suc n)
  obtain t u where t: "remmina_sftp_client_thread_get_task env s = (t, u)" by force
  show ?case
  proof (cases t)
    case None
    with t show ?thesis by simp
  next
    case (Some t')
    have less: "waiting_tasks u < waiting_tasks s" and wait: "tk_status (sf_task u) \<noteq> FTP_TASK_STATUS_WAIT"
      using get_task_less[OF assms(4), of s t' u] t Some by auto
    have next_loop: "sftp_thread_loop env (L + 2) n refresh' (w\<lparr>sf_taskid := 0\<rparr>) \<noteq> None"
      if "sftp_connect env u = Ret (r, v)" "sftp_run_task env (L + 2) refresh v = Some (Ret (refresh', w))" for r v w refresh'
    proof (rule Suc.IH)
      have "adds_no_task env \<longrightarrow> waiting_tasks w \<le> waiting_tasks u \<and> tk_status (sf_task w) \<noteq> FTP_TASK_STATUS_WAIT"
        by (rule quiet.run_task[OF that(2) quiet.connect[OF that(1)]]) (simp add: wait)
      with assms(4) less Suc.prems show "waiting_tasks (w\<lparr>sf_taskid := 0\<rparr>) < n" by simp
    qed
    show ?thesis
    proof (cases "sftp_connect env u")
      case Crash
      with t Some show ?thesis by simp
    next
      case (Ret rv)
      obtain r v where rv: "rv = (r, v)" by force
      obtain x where x: "sftp_run_task env (L + 2) refresh v = Some x" using run_task_returns[OF assms(1-3)] by blast
      from t Some Ret rv x next_loop show ?thesis
        by (auto split: sftp_login.split c_result.split simp del: add_2_eq_Suc')
    qed
  qed
qed simp

end
