(* ===== verification/SftpProps.thy ===== *)
theory SftpProps
  imports SftpEnds
begin

text \<open>
  The properties of the SFTP client: what a transfer leaves, that a folder of the server is written
  below the local one when the server's names are plain, that one thread works at a time and ends,
  and what a missing tunnel leaves behind.
\<close>

section \<open>A sample session\<close>

text \<open>A server with the folder \<open>/srv/d\<close>; \<open>names\<close> are its files. The main thread is idle and all calls succeed.\<close>

definition sample_attr :: "string \<Rightarrow> sftp_attr" where
  "sample_attr n = \<lparr>at_name = n, at_type = 1, at_permissions = 0x81A4, at_size = 5, at_owner = None, at_group = None, at_mtime = 0\<rparr>"

definition sample_sftp_env :: "string list \<Rightarrow> bool \<Rightarrow> unit sftp_env" where
  "sample_sftp_env names tunnel =
     \<lparr>sn_convert = \<lambda>x. x, sn_unconvert = \<lambda>x. x, sn_main = \<lambda>w. ([], w), sn_answer = \<lambda>_ w. (Resume_append, w),
      sn_mkdirs = \<lambda>_ w. (True, w), sn_fopen = \<lambda>_ w. (True, w), sn_fseek = \<lambda>w. (True, w), sn_fread = \<lambda>w. (Some 1, w),
      sn_fwrite = \<lambda>w. (100, w), sn_dir_open = \<lambda>_ w. (None, w), sn_local_stat = \<lambda>_ w. (None, w), sn_open = \<lambda>_ w. (True, w),
      sn_fopen_read = \<lambda>_ w. (True, w), sn_seek = \<lambda>w. (True, w), sn_read = \<lambda>w. (Some 99, w), sn_write = \<lambda>w. (100, w),
      sn_fstat = \<lambda>w. (True, w), sn_opendir = \<lambda>p w. (if p = ''/srv/d'' then Some (map sample_attr names) else None, w),
      sn_dir_eof = \<lambda>w. True, sn_stat = \<lambda>_ w. (True, w), sn_mkdir = \<lambda>_ w. (True, w), sn_rmdir = \<lambda>_ w. (True, w),
      sn_unlink = \<lambda>_ w. (True, w), sn_readlink = \<lambda>_ w. None, sn_canonicalize = \<lambda>p w. Some p, sn_tunnel = \<lambda>w. (tunnel, w),
      sn_login = \<lambda>w. (None, w), sn_error = \<lambda>w. ''error''\<rparr>"

definition sample_task :: "ftp_file_type \<Rightarrow> ftp_task" where
  "sample_task ty = (ftp_new_task ty ''d'' 0 FTP_TASK_TYPE_DOWNLOAD (Some ''/home''))
     \<lparr>tk_taskid := 1, tk_remotedir := Some ''/srv''\<rparr>"

definition sample_sftp :: "ftp_task list \<Rightarrow> unit sftp" where
  "sample_sftp tasks =
     (remmina_sftp_client_init (\<lambda>p. if p = ''/home/f'' then Some ''he'' else None)
        (\<lambda>p. if p \<in> {''/srv/f'', ''/srv/d/a'', ''/srv/d/../x''} then Some ''hello'' else None) 2 ())
       \<lparr>sf_session := True, sf_thread := True, sf_starts := 1, sf_taskid := 1,
        sf_client := (remmina_ftp_client_init 2)\<lparr>fc_tasks := tasks\<rparr>\<rparr>"

lemma sample_plain: "plain_server (sample_sftp_env [''a''] True)"
  by (auto simp: plain_server_def sample_sftp_env_def sample_attr_def plain_name_def dot_name_def split: if_splits)

section \<open>Transfers\<close>

text \<open>
  C25: A download that returns (without a crash) leaves the local file as it was, with result FALSE,
  or the file is what it had before or nothing, followed by a part of what the server's file has
  from that length on. When the result is TRUE, the task was not ended and no read failed, that is
  everything from there on, whatever sizes the reads return and whatever the user does meanwhile.
  No other local file changes. The server's file does not change during the transfer, and what
  \<open>fwrite\<close> accepts counts as written; a TRUE after an end of the task or a failed read says
  nothing, since the code takes both for the end of the file.
\<close>

theorem sftp_download_complete:
  assumes "remmina_sftp_client_thread_download_file env remote_path path s = Ret (b, s')"
  shows "(\<not> b \<and> sf_local s' path = sf_local s path \<or>
       (\<exists>base n. (base = [] \<or> sf_local s path = Some base) \<and>
          sf_local s' path = Some (base @ take n (drop (length base)
            (case sf_remote s (sn_unconvert env remote_path) of None \<Rightarrow> [] | Some t \<Rightarrow> t))))) \<and>
     (b \<and> \<not> thread_check_exit s' \<and> sf_read_errors s' = sf_read_errors s \<longrightarrow>
       (\<exists>base t. (base = [] \<or> sf_local s path = Some base) \<and> sf_remote s (sn_unconvert env remote_path) = Some t \<and>
          sf_local s' path = Some (base @ drop (length base) t))) \<and>
     (\<forall>p. p \<noteq> path \<longrightarrow> sf_local s' p = sf_local s p)"
proof -
  have "downloaded (sf_remote s (sn_unconvert env remote_path)) path s (b, s')"
    by (rule download_file_spec[OF assms])
  moreover have "\<forall>p. \<not> p = path \<longrightarrow> sf_local s' p = sf_local s p"
    by (rule frame.download_file[OF assms]) simp_all
  ultimately show ?thesis by (auto simp: downloaded_def transferred_def)
qed

lemma sample_folder: "local_folder ''/home/f'' = Some ''/home''"
proof -
  have "rsplit_at (CHR ''/'') ''/home/f'' = Some (''/home'', ''f'')" by code_simp
  then show ?thesis by (simp add: local_folder_def)
qed

lemma sample_download:
  obtains s' where "remmina_sftp_client_thread_download_file (sample_sftp_env [] True) ''/srv/f'' ''/home/f'' (sample_sftp []) = Ret (True, s')"
    and "sf_local s' ''/home/f'' = Some ''hello''" "\<not> thread_check_exit s'" "sf_read_errors s' = 0"
proof -
  have "(case remmina_sftp_client_thread_download_file (sample_sftp_env [] True) ''/srv/f'' ''/home/f'' (sample_sftp []) of
      Crash \<Rightarrow> False | Ret (b, s') \<Rightarrow> b \<and> sf_local s' ''/home/f'' = Some ''hello'' \<and> \<not> thread_check_exit s' \<and> sf_read_errors s' = 0)"
    by (simp add: sample_sftp_env_def sample_sftp_def remmina_sftp_client_thread_download_file_def sftp_exit_def sftp_main_def
        sftp_do_def thread_check_exit_def remmina_sftp_client_init_def sftp_make_folder_def sample_folder
        sftp_open_local_def sftp_write_local_def sftp_download_resume_def remmina_sftp_client_confirm_resume_def
        remmina_ftp_client_get_overwrite_status_def remmina_ftp_client_get_resume_status_def remmina_ftp_client_init_def
        sftp_download_remote_def sftp_download_loop.simps sftp_download_round_def read_chunk_def sftp_progress_def
        remmina_sftp_client_thread_update_task_def sftp_show_task_def remmina_ftp_client_update_task_def Let_def)
  then show ?thesis using that by (auto split: c_result.splits)
qed

theorem sftp_download_complete_witness:
  "\<exists>s'. remmina_sftp_client_thread_download_file (sample_sftp_env [] True) ''/srv/f'' ''/home/f'' (sample_sftp []) = Ret (True, s') \<and>
     sf_local s' ''/home/f'' = Some ''hello'' \<and> sf_local s' ''/home/g'' = None"
proof -
  obtain s' where s': "remmina_sftp_client_thread_download_file (sample_sftp_env [] True) ''/srv/f'' ''/home/f'' (sample_sftp []) = Ret (True, s')"
    "sf_local s' ''/home/f'' = Some ''hello''" by (rule sample_download)
  have "sf_local (sample_sftp []) ''/home/g'' = None" by (simp add: sample_sftp_def remmina_sftp_client_init_def)
  with s' sftp_download_complete[OF s'(1)] show ?thesis by auto
qed

section \<open>One thread\<close>

lemma loop_returned_closed:
  "sftp_thread_loop env fuel n refresh s = Some (Ret (Loop_returned, s')) \<Longrightarrow> sf_closed s'"
proof (induction n arbitrary: refresh s)
  case (Suc n)
  then show ?case
    by (auto simp: sftp_connect_def split: prod.splits option.splits c_result.splits sftp_login.splits if_splits)
qed simp

text \<open>
  From a state in which the thread is marked as running, and a run of it that returns: no
  second thread is started, whatever tasks the user adds and whatever else the main thread does at
  the points where the thread calls it or looks for an end; when the thread has ended its flag is
  clear, unless the connection was closed for want of a tunnel.
\<close>

theorem sftp_one_thread:
  assumes "remmina_sftp_client_thread_main env fuel n s = Some (Ret s')" and "sf_thread s"
  shows "sf_starts s' = sf_starts s \<and> (sf_thread s' \<longrightarrow> sf_closed s')"
proof -
  obtain e t where t: "sftp_thread_loop env fuel n None s = Some (Ret (e, t))"
    and s': "s' = (case e of Loop_returned \<Rightarrow> t | Loop_ended refresh \<Rightarrow> sftp_thread_end env refresh t)"
    using assms(1) by (auto simp: remmina_sftp_client_thread_main_def c_bind_Ret_iff)
  have one: "sf_thread t \<and> sf_starts t = sf_starts s"
    using one.thread_loop[OF t] assms(2) by simp
  show ?thesis
  proof (cases e)
    case Loop_returned
    with s' t one loop_returned_closed show ?thesis by auto
  next
    case (Loop_ended refresh)
    have "sf_starts (sftp_main env (t\<lparr>sf_own := False\<rparr>)) = sf_starts s"
      using one.main[OF one.own_session[OF one]] by simp
    with s' Loop_ended show ?thesis by (simp add: sftp_thread_end_def Let_def)
  qed
qed

lemma get_task_own:
  assumes "remmina_sftp_client_thread_get_task env s = (r, t)"
  shows "sf_own t = sf_own s"
  using assms sftp_files_eqD(5)[OF main_keeps[of env s]]
  by (auto simp: remmina_sftp_client_thread_get_task_def sftp_show_task_def Let_def split: if_splits option.splits)

text \<open>
  When the tunnel cannot be opened again the thread returns without clearing its flag: no task
  is ever started afterwards, whatever the user does, and the end of the widget waits for ever.
\<close>

theorem sftp_no_tunnel_blocks:
  assumes "sf_thread s" and "\<not> sf_own s"
    and "remmina_sftp_client_thread_get_task env s = (Some t, u)" and "sf_session u" and "\<not> fst (sn_tunnel env (sf_world u))"
  shows "\<exists>s'. remmina_sftp_client_thread_main env fuel (Suc n) s = Some (Ret s') \<and>
    (\<forall>es. sf_starts (fold sftp_event es s') = sf_starts s \<and> destroy_waits (fold sftp_event es s'))"
proof -
  obtain u' where u': "sftp_do (sn_tunnel env) u = (False, u')" and keep: "sf_starts u' = sf_starts u" "sf_thread u' = sf_thread u"
    using assms(5) by (cases "sn_tunnel env (sf_world u)") (auto simp: sftp_do_def)
  have own: "\<not> sf_own u" using assms(2) get_task_own[OF assms(3)] by simp
  define s' where "s' = u'\<lparr>sf_closed := True\<rparr>"
  have "sftp_connect env u = Ret (Login_no_tunnel, s')"
    using own assms(4) u' by (simp add: sftp_connect_def s'_def)
  then have "remmina_sftp_client_thread_main env fuel (Suc n) s = Some (Ret s')"
    using assms(3) by (simp add: remmina_sftp_client_thread_main_def)
  moreover have "sf_thread s' \<and> sf_starts s' = sf_starts s"
    using one.get_task[OF assms(3)] assms(1) keep by (simp add: s'_def)
  ultimately show ?thesis using running_events[of s'] by (auto simp: destroy_waits_def)
qed

lemma sample_get_task:
  "remmina_sftp_client_thread_get_task (sample_sftp_env names tunnel) (sample_sftp [sample_task ty]) =
     (Some ((sample_task ty)\<lparr>tk_status := FTP_TASK_STATUS_RUN\<rparr>),
      (sample_sftp [(sample_task ty)\<lparr>tk_status := FTP_TASK_STATUS_RUN\<rparr>])
        \<lparr>sf_task := (sample_task ty)\<lparr>tk_status := FTP_TASK_STATUS_RUN\<rparr>\<rparr>)"
  by (simp add: remmina_sftp_client_thread_get_task_def sftp_main_def sftp_do_def sample_sftp_env_def sample_sftp_def
      remmina_sftp_client_init_def remmina_ftp_client_get_waiting_task_def sample_task_def ftp_new_task_def
      sftp_show_task_def remmina_ftp_client_update_task_def ftp_task_update_def remmina_ftp_client_init_def Let_def)

theorem sftp_no_tunnel_blocks_witness:
  "\<exists>s'. remmina_sftp_client_thread_main (sample_sftp_env [] False) 1 (Suc 0) (sample_sftp [sample_task FTP_FILE_TYPE_FILE]) = Some (Ret s') \<and>
     destroy_waits (fold sftp_event [Ev_cancel 1 True, Ev_destroy] s')"
proof -
  let ?s = "sample_sftp [sample_task FTP_FILE_TYPE_FILE]"
  have "sf_thread ?s" "\<not> sf_own ?s" by (simp_all add: sample_sftp_def remmina_sftp_client_init_def)
  from sftp_no_tunnel_blocks[OF this sample_get_task[of "[]" False FTP_FILE_TYPE_FILE], of 1 0]
  obtain s' where "remmina_sftp_client_thread_main (sample_sftp_env [] False) 1 (Suc 0) ?s = Some (Ret s')"
      "\<forall>es. destroy_waits (fold sftp_event es s')"
    by (auto simp: sample_sftp_def[of "_ # _"] sample_sftp_env_def[of _ False] simp del: One_nat_def)
  then show ?thesis by blast
qed

theorem sftp_one_thread_witness:
  "\<exists>s'. remmina_sftp_client_thread_main (sample_sftp_env [] True) 1 (Suc 0) (sample_sftp []) = Some (Ret s') \<and>
     sf_starts s' = 1 \<and> (sf_thread s' \<longrightarrow> sf_closed s')"
proof -
  have "remmina_sftp_client_thread_get_task (sample_sftp_env [] True) (sample_sftp []) = (None, sample_sftp [])"
    by (simp add: remmina_sftp_client_thread_get_task_def sftp_main_def sftp_do_def sample_sftp_env_def sample_sftp_def
        remmina_sftp_client_init_def remmina_ftp_client_get_waiting_task_def remmina_ftp_client_init_def)
  then obtain s' where s': "remmina_sftp_client_thread_main (sample_sftp_env [] True) 1 (Suc 0) (sample_sftp []) = Some (Ret s')"
    by (simp add: remmina_sftp_client_thread_main_def)
  have "sf_thread (sample_sftp [])" "sf_starts (sample_sftp []) = 1" by (simp_all add: sample_sftp_def)
  with s' sftp_one_thread[OF s'] show ?thesis by simp
qed

text \<open>
  The thread does not run for ever: when the server names its files without slashes and with no
  empty names, a folder of the server whose path is longer than \<open>L\<close> holds no folders, the entries
  of local folders have plain names too, no path of a local folder is longer than \<open>L\<close>, and the
  user adds no tasks meanwhile, the walks through the folders end within \<open>L + 2\<close> levels and the
  loop within one round more than tasks wait. The run then returns, or ends in a crash when the
  session is gone or the server does not tell the size of a file; every file and every list of
  entries that is read is finite.
\<close>

theorem sftp_thread_ends:
  assumes "plain_server env" and "finite_server L env" and "finite_disk L env" and "adds_no_task env"
  shows "remmina_sftp_client_thread_main env (L + 2) (Suc (waiting_tasks s)) s \<noteq> None"
  using thread_loop_returns[OF assms, of s "Suc (waiting_tasks s)" None] by (simp add: remmina_sftp_client_thread_main_def)

theorem sftp_thread_ends_witness:
  "remmina_sftp_client_thread_main (sample_sftp_env [''a''] True) 9 2 (sample_sftp [sample_task FTP_FILE_TYPE_DIR]) \<noteq> None"
proof -
  have "finite_server 7 (sample_sftp_env [''a''] True)"
    by (auto simp: finite_server_def sample_sftp_env_def sample_attr_def get_sftpattr_type_def
        SSH_FILEXFER_TYPE_DIRECTORY_def SSH_FILEXFER_TYPE_SYMLINK_def)
  moreover have "finite_disk 7 (sample_sftp_env [''a''] True)" "adds_no_task (sample_sftp_env [''a''] True)"
    by (simp_all add: finite_disk_def adds_no_task_def sample_sftp_env_def)
  moreover have "waiting_tasks (sample_sftp [sample_task FTP_FILE_TYPE_DIR]) = 1"
    by (simp add: waiting_tasks_def sample_sftp_def sample_task_def ftp_new_task_def)
  ultimately show ?thesis
    using sftp_thread_ends[OF sample_plain, of 7 "sample_sftp [sample_task FTP_FILE_TYPE_DIR]"] by (simp add: numeral_2_eq_2)
qed

section \<open>Folders of the server\<close>

text \<open>
  C26: When the server names its files (as converted from its character set) without slashes and
  with no empty names, \<open>.\<close> and \<open>..\<close> apart, a download of a folder that returns changes only
  local files below the local folder: each path that changes is the folder followed by such names.
  Symbolic links on the local side are not followed, paths are texts.
\<close>

theorem sftp_folder_confined:
  assumes "plain_server env" and "sftp_download_task env fuel FTP_FILE_TYPE_DIR remote local s = Some (Ret (b, s'))"
  shows "\<forall>p. sf_local s' p \<noteq> sf_local s p \<longrightarrow> (\<exists>f. below f \<and> p = remmina_public_combine_path (Some local) f)"
proof -
  let ?P = "\<lambda>p. \<exists>f. below f \<and> p = remmina_public_combine_path (Some local) f"
  obtain ret array t where walk: "remmina_sftp_client_thread_recursive_dir env fuel remote None [] s = Some (Ret (ret, array, t))"
    and rest: "(if ret then sftp_each env (sftp_download_one env remote local) array t else Ret (False, t)) = Ret (b, s')"
    using assms(2) by (auto simp: sftp_download_task_def sftp_walk_then_def c_bind_Ret_iff)
  have array: "\<forall>f\<in>set array. below f"
    using recursive_dir_below[OF assms(1) walk] by simp
  have t: "\<forall>p. \<not> ?P p \<longrightarrow> sf_local t p = sf_local s p"
    by (rule frame.recursive_dir[OF walk]) simp
  show ?thesis
  proof (cases ret)
    case False
    with rest t show ?thesis by auto
  next
    case True
    with rest have each: "sftp_each env (sftp_download_one env remote local) array t = Ret (b, s')" by simp
    have "\<forall>p. \<not> ?P p \<longrightarrow> sf_local s' p = sf_local s p"
    proof (rule frame.each[OF _ each t])
      fix f u b u'
      assume f: "f \<in> set array" and one: "sftp_download_one env remote local f u = Ret (b, u')"
        and u: "\<forall>p. \<not> ?P p \<longrightarrow> sf_local u p = sf_local s p"
      show "\<forall>p. \<not> ?P p \<longrightarrow> sf_local u' p = sf_local s p"
        by (rule frame.download_file[OF one[unfolded sftp_download_one_def] u]) (use f array in auto)
    qed
    then show ?thesis by blast
  qed
qed

text \<open>The download of the sample folder.\<close>

lemmas sample_walk_simps = sample_sftp_env_def sample_sftp_def sample_attr_def remmina_sftp_client_thread_download_file_def
  sftp_exit_def sftp_main_def sftp_do_def thread_check_exit_def remmina_sftp_client_init_def sftp_make_folder_def
  sftp_open_local_def sftp_write_local_def sftp_download_remote_def sftp_download_loop.simps sftp_download_round_def
  read_chunk_def sftp_progress_def remmina_sftp_client_thread_update_task_def sftp_show_task_def
  remmina_ftp_client_update_task_def remmina_ftp_client_init_def Let_def sftp_download_task_def sftp_walk_then_def
  remmina_sftp_client_thread_recursive_dir.simps sftp_dir_entry_def sftp_go_on_def sub_path_def dot_name_def
  get_sftpattr_type_def SSH_FILEXFER_TYPE_DIRECTORY_def SSH_FILEXFER_TYPE_SYMLINK_def sftp_add_size_def
  sftp_download_one_def remmina_public_combine_path_def

lemma sample_folder_download:
  "case sftp_download_task (sample_sftp_env [''a''] True) (Suc 0) FTP_FILE_TYPE_DIR ''/srv/d'' ''/home/d'' (sample_sftp []) of
     Some (Ret (b, s')) \<Rightarrow> b \<and> sf_local s' ''/home/d/a'' = Some ''hello'' | _ \<Rightarrow> False"
proof -
  have "rsplit_at (CHR ''/'') ''/home/d/a'' = Some (''/home/d'', ''a'')" by code_simp
  then have "local_folder ''/home/d/a'' = Some ''/home/d''" by (simp add: local_folder_def)
  then show ?thesis by (simp add: sample_walk_simps)
qed

theorem sftp_folder_confined_witness:
  "\<exists>b s'. sftp_download_task (sample_sftp_env [''a''] True) (Suc 0) FTP_FILE_TYPE_DIR ''/srv/d'' ''/home/d'' (sample_sftp []) = Some (Ret (b, s')) \<and>
     sf_local s' ''/home/d/a'' = Some ''hello'' \<and>
     (\<exists>f. below f \<and> ''/home/d/a'' = remmina_public_combine_path (Some ''/home/d'') f)"
proof -
  obtain b s' where s': "sftp_download_task (sample_sftp_env [''a''] True) (Suc 0) FTP_FILE_TYPE_DIR ''/srv/d'' ''/home/d'' (sample_sftp [])
      = Some (Ret (b, s'))" "sf_local s' ''/home/d/a'' = Some ''hello''"
    using sample_folder_download by (auto split: option.splits c_result.splits)
  have "sf_local (sample_sftp []) ''/home/d/a'' = None" by (simp add: sample_sftp_def remmina_sftp_client_init_def)
  with s' sftp_folder_confined[OF sample_plain s'(1)] show ?thesis by auto
qed

text \<open>
  A server that names a file \<open>../x\<close> has it written outside of the folder: the names are not checked.
\<close>

theorem sftp_folder_escape:
  "case sftp_download_task (sample_sftp_env [''../x''] True) (Suc 0) FTP_FILE_TYPE_DIR ''/srv/d'' ''/home/d'' (sample_sftp []) of
     Some (Ret (b, s')) \<Rightarrow> b \<and> sf_local s' ''/home/d/../x'' = Some ''hello'' | _ \<Rightarrow> False"
proof -
  have "rsplit_at (CHR ''/'') ''/home/d/../x'' = Some (''/home/d/..'', ''x'')" by code_simp
  then have "local_folder ''/home/d/../x'' = Some ''/home/d/..''" by (simp add: local_folder_def)
  then show ?thesis by (simp add: sample_walk_simps)
qed

section \<open>Types of files\<close>

text \<open>Without a type from the server no entry is a folder, and a regular file is taken for a link.\<close>

theorem sftp_untyped_entries:
  assumes "at_type a = 0"
  shows "get_sftpattr_type a \<noteq> FTP_FILE_TYPE_DIR \<and>
    (and (at_permissions a) 0xF000 = 0x8000 \<longrightarrow> get_sftpattr_type a = FTP_FILE_TYPE_LINK)"
proof -
  have "and (at_permissions a) 0xA000 \<noteq> 0" if "and (at_permissions a) 0xF000 = 0x8000"
  proof
    assume zero: "and (at_permissions a) 0xA000 = 0"
    have "and (and (at_permissions a) 0xF000) (0xA000 :: guint) = and (at_permissions a) 0xA000"
      by (simp add: and.assoc)
    with that zero show False by simp
  qed
  with assms show ?thesis by (auto simp: get_sftpattr_type_def)
qed

end
