(* ===== verification/Spec2Isabelle.thy ===== *)
theory Spec2Isabelle
  imports UtilProps PrefFacts Migration FileLife Unlock MasterThread MpChange RdpFile SpiceFile RdpMonitor RdpEventFacts VncFacts VncScreen VncAuth SshProps SshTunnelFacts X2goProps RdpProps SftpProps
begin

text \<open>
  A verification development for Remmina, the GTK remote desktop client.

  The program. Connections are described by profiles, text files in the user's data directory
  (\<open>src/remmina_file.c\<close>). A profile names a protocol, which a plugin implements; plugins are
  registered in a table (\<open>src/remmina_plugin_manager.c\<close>), and some settings of a protocol are
  passwords. When a profile is saved, its passwords go to the secret service that a secret
  plugin provides (\<open>plugins/secret/src/glibsecret_plugin.c\<close>), or into the file, encrypted
  with libgcrypt (\<open>src/remmina_crypt.c\<close>) under a secret that the preferences hold
  (\<open>src/remmina_pref.c\<close>). The string arrays of \<open>src/remmina_string_array.c\<close> and the helpers of
  \<open>src/remmina_utils.c\<close> and \<open>src/remmina_public.c\<close> are used by all of them.

  Theories and the code they model.
    \<^item> \<open>Prelude\<close>, \<open>CString\<close>, \<open>GLib\<close>: C integers, NUL-terminated strings, the functions of the C
      library and of GLib that the code calls, by their documentation. A \<open>gint\<close> is a 32-bit
      word, a \<open>gchar *\<close> that may be NULL is an optional string, a GHashTable an association
      list or a map, a GPtrArray a list. A function that may dereference NULL returns a
      \<open>c_result\<close>, \<open>Crash\<close> or \<open>Ret\<close> a value.
    \<^item> \<open>KeyFile\<close>: GKeyFile as a record of operations, and the locale \<open>keyfile\<close> of what the
      program relies on, interpreted by an association list with a textual form.
    \<^item> \<open>StringArray\<close>, \<open>Utils\<close>, \<open>Public\<close>: the definitions of the three helper files, with their
      properties in \<open>UtilProps\<close>.
    \<^item> \<open>PrefData\<close>, \<open>PrefSave\<close>, \<open>Pref\<close>, \<open>PrefFacts\<close>: the preferences: the struct and its loading,
      its saving as a list of key file calls, the operations, and their properties.
    \<^item> \<open>Crypt\<close>: the password cipher over libgcrypt and base64.
    \<^item> \<open>PluginManager\<close>: registration, lookup, loading, the list of available plugins and the
      verified installation of a downloaded one.
    \<^item> \<open>FileData\<close>, \<open>Secret\<close>, \<open>RemminaFile\<close>: the profile in memory, the interface of a secret
      plugin with the keyring implementation, and the operations on profile files. \<open>FileFacts\<close>
      describes a save as two sequences, of key file calls and of changes to the secret
      service; \<open>FileProps\<close> has the properties of saving and loading, \<open>Migration\<close> those of the
      old SSH settings, \<open>FileLife\<close> those of naming, copying, forgetting and deleting.
    \<^item> \<open>FileManager\<close>, \<open>MpChange\<close>: the directory of profiles, its groups, and the changer of
      many passwords (\<open>src/remmina_file_manager.c\<close>, \<open>src/remmina_mpchange.c\<close>), on top of
      \<open>RemminaFile\<close>: every profile is loaded, changed and saved with its operations.
    \<^item> \<open>Unlock\<close>: the password in front of the program (\<open>src/remmina_sodium.c\<close>,
      \<open>src/remmina_passwd.c\<close>, \<open>src/remmina_unlock.c\<close>), with the answers of the user and the
      readings of the clock as inputs.
    \<^item> \<open>MasterThread\<close>: calling a function on the main thread
      (\<open>src/remmina_masterthread_exec.c\<close>), a step relation of two threads.
    \<^item> \<open>ImportFile\<close>, \<open>RdpFile\<close>, \<open>SpiceFile\<close>: import and export of connection files
      (\<open>plugins/rdp/rdp_file.c\<close>, \<open>plugins/spice/spice_file.c\<close>).
    \<^item> \<open>Geometry\<close>, \<open>RdpMonitor\<close>: rectangles, and the layout of monitors an RDP session asks
      for (\<open>plugins/rdp/rdp_monitor.c\<close>).
    \<^item> \<open>VncInput\<close>, \<open>VncDisplay\<close>, \<open>VncAuth\<close>: the VNC plugin (\<open>plugins/vnc/vnc_plugin.c\<close>):
      input events and their queue, the frame buffer and the damage, credentials and the
      attempts to connect. \<open>VncFacts\<close> and \<open>VncScreen\<close> have the properties of the first two. In
      \<open>VncFacts\<close> the handlers, the thread of the session and the end of the connection are a step
      relation: a push is the queue and then the byte of the pipe, taking an event out and sending
      it are two steps, closing frees what is left. What the actions of the user should send is
      said without queue and threads by \<open>vnc_action_msgs\<close>, which the messages sent are compared to.
    \<^item> \<open>RdpEvent\<close>, \<open>RdpEventFacts\<close>: the input side of an RDP session
      (\<open>plugins/rdp/rdp_event.c\<close>): keys, the wheel, the focus, the resize requests, and the
      queue to the thread of FreeRDP.
    \<^item> \<open>Panel\<close>: the part of the protocol widget that asks the user
      (\<open>src/remmina_protocol_widget.c\<close>): the message panel as a dialog that the answers of the
      user close, and the fields it leaves in the widget.
    \<^item> \<open>SshSession\<close>, \<open>SshAuth\<close>: an SSH session over libssh (\<open>src/remmina_ssh.c\<close>): reading
      the profile, the connection, the check of the server's key, every method of
      authentication and the order they are tried in, and the attempts of the graphical
      front end. libssh is a parameter, a record of functions on a state of its own.
      \<open>SshFacts\<close> has the lemmas, the locale of a server's answers and its interpretation,
      \<open>SshProps\<close> the properties.
    \<^item> \<open>SshTunnel\<close>, \<open>SshTunnelFacts\<close>: the tunnels of the same file: the table of channels and
      sockets with their buffers, the main loop of the tunnel's thread, and the streams it
      carries between a socket and its channel.
    \<^item> \<open>X2go\<close>, \<open>X2goChooser\<close>, \<open>X2goRun\<close>: the X2Go plugin (\<open>plugins/x2go/x2go_plugin.c\<close>): its
      settings and the command lines of the helper it runs, the list of sessions with its
      dialog and threads, and the connection with the window it embeds. \<open>X2goFacts\<close> and
      \<open>X2goProps\<close> have the lemmas and the properties; the helper, the processes and the X server
      are parameters.
    \<^item> \<open>RdpConfig\<close>: what \<open>remmina_rdp_main\<close> (\<open>plugins/rdp/rdp_plugin.c\<close>) makes of a profile for
      FreeRDP, group by group: a setting is a value under the name of its key, channels and
      devices are lists. \<open>RdpFacts\<close> says which settings a group keeps, \<open>RdpSettings\<close> has the
      properties of the result.
    \<^item> \<open>RdpSession\<close>, \<open>RdpThread\<close>: the connection, with FreeRDP as a parameter that makes requests,
      and the thread around it, from the tunnel to the clean-up, which sends the queue of
      \<open>RdpEvent\<close> and asks through \<open>Panel\<close>. \<open>RdpRuns\<close> carries a relation between states over
      every run, \<open>RdpProps\<close> has the properties.
    \<^item> \<open>FtpClient\<close>: the widget of files and tasks (\<open>src/remmina_ftp_client.c\<close>): the list, the
      directory, the tasks with their states, and the actions.
    \<^item> \<open>SftpClient\<close>, \<open>SftpThread\<close>, \<open>SftpDir\<close>: the SFTP client (\<open>src/remmina_sftp_client.c\<close>,
      the features of \<open>src/remmina_sftp_plugin.c\<close>): transfers, the walks through folders, the
      thread that works through the tasks, and the list of a folder of the server. Files are maps
      from paths to contents; the server, the disk and the user are a record of functions.
      \<open>SftpFacts\<close> carries an invariant over every operation, \<open>SftpLife\<close> has its instances (which
      files change, one thread), \<open>SftpEnds\<close> the end of the walks and of the thread, and
      \<open>SftpProps\<close> the properties: what a download leaves, that a folder stays below the local one
      when the server's names are plain, and that nothing checks that they are.

  Interfaces. \<open>keyfile\<close> (KeyFile), \<open>settings_store\<close> (FileData, for the settings and for the
  states), \<open>secret_service\<close> and \<open>libsecret\<close> (Secret) are locales; what the clients need is
  proved inside them once. The keyring plugin is shown to satisfy \<open>secret_service\<close> whenever its
  library satisfies \<open>libsecret\<close>. \<open>rdp_steps\<close> and \<open>rdp_runs\<close> (RdpRuns) are the contract of a
  relation that the steps of an RDP session keep, each with an interpretation per property;
  \<open>sftp_steps\<close> and its extension \<open>sftp_thread\<close> (SftpFacts) are the contract of an invariant of the
  SFTP client, interpreted in SftpLife and SftpEnds.

  State. The world of the file operations is the regular files and the state of the secret
  service; the preferences add the global structs and the keymap table; the plugin manager
  has its tables. Every operation takes the state and returns the new one.

  Loops. A loop over a text or an array is a recursive function with a measure; the position
  in the text or the length of the rest decreases. \<open>remmina_file_touch\<close> need not return, and
  is a partial function whose result is \<open>None\<close> then. The idle callback of the password
  changer is run with fuel; its property gives the fuel that is enough, the number of the
  entries of the list and one more call that finds none left. The loops of an SSH session are
  run with fuel too: the rounds of a keyboard-interactive exchange, the attempts of the front
  end, the reads of a tunnel's loop and its rounds; a result \<open>None\<close>, \<open>Loop_running\<close> or
  \<open>End_running\<close> says that the code is still in its loop, and \<open>ssh_auth_gui_returns\<close> shows how
  many rounds are enough. The requests FreeRDP makes while it connects, the rounds of an RDP
  session and the attempts to log in are bounded by arguments, and \<open>None\<close> says that the code
  would go on; reconnecting counts down the attempts that are left. The walks of the SFTP client
  through folders take as fuel the depth they may reach, its thread the number of tasks it may take;
  \<open>sftp_thread_ends\<close> shows that \<open>L + 2\<close> levels and one round more than tasks wait are enough when
  the paths of folders have at most \<open>L\<close> characters and no task is added. The wait for the window of
  an X2Go session runs over the list of the X events, and \<open>Run_waiting\<close> says that it has seen
  them all and waits on.

  Threads. A call to the main thread and the queue of the VNC session are step relations in
  which any order of the statements that another thread can see is possible; the dialog of X2Go
  sessions and its threads are a list of events in any order; closing the window of an RDP
  session is an event among the requests of FreeRDP and the rounds of its thread; what the user does
  while the SFTP thread runs is a list of events at each of the points where the thread calls the
  main thread or looks for an end of its task. Everything else
  that touches preferences and profiles goes through the main thread in the code, so those
  operations run one after the other.

  Not modelled: widgets and windows apart from what their handlers do to the state above,
  logging and tracing, freeing and failing allocations, libssh itself (a parameter), network requests,
  and the protocol plugins other than the parts of RDP, SPICE, VNC, X2Go and SFTP listed above. The
  keyring of the \<open>secret_service\<close> locale accepts every password; a keyring that refuses one loses
  it, since a save writes its marker without looking.
\<close>

end
